(* ===== verification/Hailo_Prelude.thy ===== *)
theory Hailo_Prelude
  imports Main "HOL-Library.Word"
begin

text \<open>
  Shared vocabulary of the development: the C integer types as words, the error codes and the
  kernel faults as values, the bit macros of the kernel headers the driver uses, arrays with
  checked accesses, and the generic lemmas on words and lists the component theories rest on.

  The driver is compiled for a 64-bit Linux kernel: \<open>size_t\<close>, \<open>uintptr_t\<close>, \<open>dma_addr_t\<close> and
  \<open>unsigned long\<close> are 64 bits wide.
\<close>

unbundle bit_operations_syntax

section \<open>Types\<close>

type_synonym u8 = "8 word"
type_synonym u16 = "16 word"
type_synonym u32 = "32 word"
type_synonym u64 = "64 word"

text \<open>
  The error codes the driver returns. \<open>ECODE n\<close> is a code \<open>-n\<close> that a kernel function returned
  and the driver hands on.
\<close>

datatype errno =
    EINTR | EIO | ENXIO | ENOMEM | EFAULT | ENODEV | EINVAL | ENOTTY | EFBIG | ERANGE
  | ECONNRESET | ENOBUFS | ETIMEDOUT | ECANCELED | ERESTARTSYS | ENOENT | ECODE nat

fun errno_code :: "errno \<Rightarrow> nat" where
  "errno_code ENOENT = 2"
| "errno_code EINTR = 4"
| "errno_code EIO = 5"
| "errno_code ENXIO = 6"
| "errno_code ENOMEM = 12"
| "errno_code EFAULT = 14"
| "errno_code ENODEV = 19"
| "errno_code EINVAL = 22"
| "errno_code ENOTTY = 25"
| "errno_code EFBIG = 27"
| "errno_code ERANGE = 34"
| "errno_code ECONNRESET = 104"
| "errno_code ENOBUFS = 105"
| "errno_code ETIMEDOUT = 110"
| "errno_code ECANCELED = 125"
| "errno_code ERESTARTSYS = 512"
| "errno_code (ECODE n) = n"

text \<open>
  What a kernel does not survive (or silently corrupts memory on): a \<open>BUG_ON\<close> that fires, a
  division by zero, an access outside an array, a NULL dereference, an access to freed memory, a
  semaphore that nobody will release.
\<close>

datatype fault = Bug_on | Div_by_zero | Out_of_bounds | Null_deref | Use_after_free | Blocked

datatype 'a result = Ok 'a | Err errno | Fault fault

fun is_ok :: "'a result \<Rightarrow> bool" where
  "is_ok (Ok _) = True"
| "is_ok _ = False"

fun is_fault :: "'a result \<Rightarrow> bool" where
  "is_fault (Fault _) = True"
| "is_fault _ = False"

lemma is_ok_conv: "is_ok r \<longleftrightarrow> (\<exists>x. r = Ok x)"
  by (cases r) auto

lemma is_fault_conv: "is_fault r \<longleftrightarrow> (\<exists>f. r = Fault f)"
  by (cases r) auto

text \<open>
  The \<open>int\<close> a C function returns, as the caller's \<open>u32\<close> arithmetic sees it: the value itself, or
  the negated error code in two's complement.
\<close>

fun ret_u32 :: "u32 result \<Rightarrow> u32" where
  "ret_u32 (Ok n) = n"
| "ret_u32 (Err e) = - of_nat (errno_code e)"
| "ret_u32 (Fault _) = 0"

text \<open>Sequencing: an error or a fault ends the computation.\<close>

fun bind_r :: "'a result \<Rightarrow> ('a \<Rightarrow> 'b result) \<Rightarrow> 'b result" where
  "bind_r (Ok x) f = f x"
| "bind_r (Err e) f = Err e"
| "bind_r (Fault x) f = Fault x"

lemma bind_r_eq_Ok: "bind_r r f = Ok y \<longleftrightarrow> (\<exists>x. r = Ok x \<and> f x = Ok y)"
  by (cases r) auto

section \<open>Collections of facts\<close>

named_theorems c_macros \<open>definitions of the C macros\<close>
named_theorems vdma_defs \<open>definitions of the vDMA component to unfold\<close>
named_theorems wf_simps \<open>definitions of the well-formedness predicates\<close>

section \<open>Kernel header macros\<close>

text \<open>
  \<open>IS_ALIGNED\<close>, \<open>ALIGN\<close>, \<open>CIRC_CNT\<close> and \<open>CIRC_SPACE\<close> are the documented macros of the kernel's
  \<open>align.h\<close> and \<open>circ_buf.h\<close>. A shift by a count outside the width of its operand is undefined in C;
  the supported machines (x86-64, AArch64) use the low five bits of the count for 32-bit operands,
  which is what \<open>SHL1\<close> does for \<open>1 << pos\<close>.
\<close>

definition IS_ALIGNED :: "'a::len word \<Rightarrow> 'a word \<Rightarrow> bool" where
  [c_macros]: "IS_ALIGNED x a \<longleftrightarrow> (x AND (a - 1)) = 0"

definition ALIGN :: "u64 \<Rightarrow> u64 \<Rightarrow> u64" where
  [c_macros]: "ALIGN x a = (x + (a - 1)) AND NOT (a - 1)"

definition CIRC_CNT :: "'a::len word \<Rightarrow> 'a word \<Rightarrow> 'a word \<Rightarrow> 'a word" where
  [c_macros]: "CIRC_CNT head tail sz = (head - tail) AND (sz - 1)"

definition CIRC_SPACE :: "'a::len word \<Rightarrow> 'a word \<Rightarrow> 'a word \<Rightarrow> 'a word" where
  [c_macros]: "CIRC_SPACE head tail sz = CIRC_CNT tail (head + 1) sz"

definition SHL1 :: "u8 \<Rightarrow> u32" where
  [c_macros]: "SHL1 pos = push_bit (unat pos mod 32) 1"

section \<open>Arrays with checked accesses\<close>

definition array_get :: "'a list \<Rightarrow> nat \<Rightarrow> 'a result" where
  "array_get xs i = (if i < length xs then Ok (xs ! i) else Fault Out_of_bounds)"

definition array_modify :: "'a list \<Rightarrow> nat \<Rightarrow> ('a \<Rightarrow> 'a) \<Rightarrow> 'a list result" where
  "array_modify xs i f =
     (if i < length xs then Ok (xs[i := f (xs ! i)]) else Fault Out_of_bounds)"

lemma array_get_Ok [simp]: "i < length xs \<Longrightarrow> array_get xs i = Ok (xs ! i)"
  by (simp add: array_get_def)

lemma array_modify_Ok [simp]:
  "i < length xs \<Longrightarrow> array_modify xs i f = Ok (xs[i := f (xs ! i)])"
  by (simp add: array_modify_def)

lemma array_modify_OkD:
  "array_modify xs i f = Ok ys \<Longrightarrow> i < length xs \<and> ys = xs[i := f (xs ! i)]"
  by (auto simp: array_modify_def split: if_splits)

lemma array_get_OkD: "array_get xs i = Ok x \<Longrightarrow> i < length xs \<and> x = xs ! i"
  by (auto simp: array_get_def split: if_splits)

section \<open>Words\<close>

lemma unat_and_mask: "unat (x AND mask k) = unat x mod 2 ^ k" for x :: "'a::len word"
proof -
  have "unat (x AND mask k) = take_bit k (unat x)"
    by (simp only: take_bit_eq_mask [symmetric] unsigned_take_bit_eq)
  then show ?thesis by (simp add: take_bit_eq_mod)
qed

lemma unat_drop_bit: "unat (drop_bit k w) = unat w div 2 ^ k" for w :: "'a::len word"
proof -
  have "unat (drop_bit k w) = drop_bit k (unat w)" by (rule bit_eqI) (simp add: bit_simps bit_imp_le_length)
  then show ?thesis by (simp only: drop_bit_eq_div)
qed

lemma unat_and_exp_minus_1:
  "unat (x AND (2 ^ k - 1)) = unat x mod 2 ^ k" for x :: "'a::len word"
  by (simp add: mask_eq_exp_minus_1 [symmetric] unat_and_mask)

lemma word_eq_of_nat_unat: "x = of_nat (unat x)" for x :: "'a::len word"
  by (metis of_nat_unat ucast_id)

lemma word_less_cases:
  fixes x :: "'a::len word"
  assumes "unat x < n" and "\<And>i. i < n \<Longrightarrow> P (of_nat i)"
  shows "P x"
  using assms(2) [OF assms(1)] by (metis word_eq_of_nat_unat)

lemma unat_and_minus_1:
  fixes x n :: "'a::len word"
  assumes "unat n = 2 ^ k"
  shows "unat (x AND (n - 1)) = unat x mod 2 ^ k"
proof -
  have "n = of_nat (unat n)" by (rule word_eq_of_nat_unat)
  also have "\<dots> = 2 ^ k" by (simp only: assms of_nat_power of_nat_numeral)
  finally have "n = 2 ^ k" .
  then show ?thesis by (simp add: unat_and_exp_minus_1)
qed

lemma unat_sub_le: "y \<le> x \<Longrightarrow> unat (x - y) = unat x - unat y" for x y :: "'a::len word"
  by (rule unat_sub)

lemma unat_add_small:
  "unat x + unat y < 2 ^ LENGTH('a) \<Longrightarrow> unat (x + y) = unat x + unat y" for x y :: "'a::len word"
  by (simp add: unat_word_ariths)

lemma unat_Suc_small:
  "unat x + 1 < 2 ^ LENGTH('a) \<Longrightarrow> unat (x + 1) = unat x + 1" for x :: "'a::len word"
  using unat_add_small [of x 1] by simp

lemma unat_of_nat_small: "n < 2 ^ LENGTH('a) \<Longrightarrow> unat (of_nat n :: 'a::len word) = n"
  by (simp add: unat_of_nat)

lemma unat_ucast_mod: "unat (ucast x :: 'a::len word) = unat x mod 2 ^ LENGTH('a)" for x :: "'b::len word"
  by (simp add: unsigned_ucast_eq take_bit_eq_mod)

lemma unat_ucast_small:
  "unat x < 2 ^ LENGTH('a) \<Longrightarrow> unat (ucast x :: 'a::len word) = unat x" for x :: "'b::len word"
  by (simp add: unat_ucast_mod)

lemma unat_ucast_up:
  "LENGTH('b) \<le> LENGTH('a) \<Longrightarrow> unat (ucast x :: 'a::len word) = unat x" for x :: "'b::len word"
proof -
  assume le: "LENGTH('b) \<le> LENGTH('a)"
  have "unat x < 2 ^ LENGTH('b)" by (rule unsigned_less)
  also have "(2::nat) ^ LENGTH('b) \<le> 2 ^ LENGTH('a)" using le by (simp only: power_increasing_iff one_less_numeral_iff semiring_norm)
  finally show ?thesis by (rule unat_ucast_small)
qed

lemma unat_ucast_u32_u64 [simp]: "unat (ucast (x :: u32) :: u64) = unat x"
  by (rule unat_ucast_up) simp

lemma unat_ucast_u16_u64 [simp]: "unat (ucast (x :: u16) :: u64) = unat x"
  by (rule unat_ucast_up) simp

lemma unat_ucast_u16_u32 [simp]: "unat (ucast (x :: u16) :: u32) = unat x"
  by (rule unat_ucast_up) simp

lemma unat_ucast_u8_u32 [simp]: "unat (ucast (x :: u8) :: u32) = unat x"
  by (rule unat_ucast_up) simp

lemma unat_less_u32: "unat (x :: u32) < 4294967296"
  using unsigned_less [of x] by simp

lemma unat_less_u16: "unat (x :: u16) < 65536"
  using unsigned_less [of x] by simp

lemma unat_less_u8: "unat (x :: u8) < 256"
  using unsigned_less [of x] by simp

lemma ucast_of_nat_down:
  "LENGTH('a) \<le> LENGTH('b) \<Longrightarrow> ucast (of_nat n :: 'b::len word) = (of_nat n :: 'a::len word)"
  by (simp add: unsigned_of_nat word_of_nat_eq_iff take_bit_take_bit min_def)

lemma ucast_down_up_u32 [simp]: "ucast (ucast (x :: u32) :: u64) = x"
  by (rule bit_word_eqI) (simp add: bit_simps)

lemma mod_add_eq_cases:
  "(a::nat) < n \<Longrightarrow> b < n \<Longrightarrow> (a + b) mod n = (if a + b < n then a + b else a + b - n)"
  by (simp add: mod_if)

lemma mod_inj_window:
  "(s + i) mod m = (s + j) mod m \<Longrightarrow> i < m \<Longrightarrow> j < m \<Longrightarrow> i = j" for m :: nat
proof (induction i j rule: linorder_wlog)
  case (le i j)
  then have "m dvd j - i" using mod_eq_dvd_iff_nat [of "s + i" "s + j" m] by simp
  then show ?case using le by (auto dest: dvd_imp_le)
qed simp

lemma unat_pow2: "k < LENGTH('a) \<Longrightarrow> unat ((2 :: 'a::len word) ^ k) = 2 ^ k"
proof -
  assume k: "k < LENGTH('a)"
  have "(2 :: 'a word) ^ k = of_nat (2 ^ k)" by simp
  then have "unat ((2 :: 'a word) ^ k) = 2 ^ k mod 2 ^ LENGTH('a)" by (simp only: unat_of_nat)
  with k show ?thesis by simp
qed

lemma unat_pow2_eq_less: "unat (v :: 'a::len word) = 2 ^ k \<Longrightarrow> k < LENGTH('a)"
proof -
  assume "unat v = 2 ^ k"
  then have "(2::nat) ^ k < 2 ^ LENGTH('a)" using unsigned_less [of v] by metis
  then show ?thesis by (simp only: power_strict_increasing_iff)
qed

lemma pow2_word_eq: "unat v = 2 ^ k \<Longrightarrow> v = 2 ^ k" for v :: "'a::len word"
  by (metis of_nat_numeral of_nat_power of_nat_unat ucast_id)

lemma nat_and_pred_eq_0: "(n::nat) AND (n - 1) = 0 \<longleftrightarrow> n = 0 \<or> (\<exists>k. n = 2 ^ k)"
proof (induction n rule: less_induct)
  case (less n)
  consider "n = 0" | "n = 1" | m where "n = 2 * m" "0 < m" | m where "n = 2 * m + 1" "0 < m"
    by (metis Suc_eq_plus1 evenE gr0I mult_0_right oddE One_nat_def add_0)
  then show ?case
  proof cases
    case 1 then show ?thesis by simp
  next
    case 2 then show ?thesis by (auto intro: exI [of _ 0])
  next
    case (3 m)
    have "n AND (n - 1) = 2 * (m AND (m - 1))"
    proof -
      have "n - 1 = 2 * (m - 1) + 1" using 3 by simp
      then show ?thesis using 3 by (simp add: and_nat_rec [of "2 * m"] and_nat_rec [of "Suc (2 * m)"])
    qed
    moreover have "(\<exists>k. n = 2 ^ k) \<longleftrightarrow> (\<exists>k. m = 2 ^ k)"
    proof
      assume "\<exists>k. n = 2 ^ k"
      then obtain k where k: "n = 2 ^ k" ..
      with 3 have "k \<noteq> 0" by (auto intro: ccontr)
      with k 3 show "\<exists>k. m = 2 ^ k" by (cases k) auto
    next
      assume "\<exists>k. m = 2 ^ k"
      with 3 show "\<exists>k. n = 2 ^ k" by (metis power_Suc)
    qed
    ultimately show ?thesis using less.IH [of m] 3 by auto
  next
    case (4 m)
    have "n AND (n - 1) = 2 * m"
      using 4 by (simp add: and_nat_rec [of "2 * m"] and_nat_rec [of "Suc (2 * m)"])
    moreover have "n \<noteq> 2 ^ k" for k using 4 by (cases k) (auto, presburger)
    ultimately show ?thesis using 4 by auto
  qed
qed

lemma word_neq_bit: "x \<noteq> y \<longleftrightarrow> (\<exists>i. bit x i \<noteq> bit y i)" for x y :: "'a::len word"
  by (metis bit_word_eqI)

section \<open>Lists\<close>

lemma nth_list_update_fun:
  "i < length xs \<Longrightarrow> (xs[j := f (xs ! j)]) ! i = (if i = j then f (xs ! j) else xs ! i)"
  by simp

lemma set_list_update_subset: "x \<in> set (xs[i := v]) \<Longrightarrow> x = v \<or> x \<in> set xs"
  using set_update_subset_insert [of xs i v] by blast

end
