(* ===== verification/Driver_Utils.thy ===== *)
theory Driver_Utils
  imports Hailo_Prelude
begin

text \<open>
  The helpers of \<open>src/common/driver_utils.h\<close> and \<open>src/common/utils.h\<close>: bit fields, single bits,
  powers of two, rounding.
\<close>

definition BITS_IN_BYTE :: nat where [c_macros]: "BITS_IN_BYTE = 8"
definition BYTE_SIZE :: nat where [c_macros]: "BYTE_SIZE = 1"
definition WORD_SIZE :: nat where [c_macros]: "WORD_SIZE = 2"

definition READ_BITS_AT_OFFSET :: "nat \<Rightarrow> nat \<Rightarrow> 'a::len word \<Rightarrow> 'a word" where
  "READ_BITS_AT_OFFSET amount_bits offset initial_value =
     (drop_bit offset initial_value) AND (push_bit amount_bits 1 - 1)"

definition WRITE_BITS_AT_OFFSET :: "nat \<Rightarrow> nat \<Rightarrow> u32 \<Rightarrow> u32 \<Rightarrow> u32" where
  "WRITE_BITS_AT_OFFSET amount_bits offset initial_value v =
     (initial_value AND NOT (push_bit offset (push_bit amount_bits 1 - 1)))
     OR push_bit offset (v AND (push_bit amount_bits 1 - 1))"

definition hailo_test_bit :: "u8 \<Rightarrow> u32 \<Rightarrow> bool" where
  "hailo_test_bit pos var = ((var AND SHL1 pos) \<noteq> 0)"

definition hailo_clear_bit :: "u8 \<Rightarrow> u32 \<Rightarrow> u32" where
  "hailo_clear_bit b val = val AND NOT (SHL1 b)"

text \<open>
  \<open>BIT_MASK\<close> of the kernel is a mask of 64 bits, cut to the 32 bits of the bitmap; the word it is applied to is the bitmap itself
  for the indices below 64 (the channels of an engine are fewer).
\<close>

definition hailo_set_bit :: "u8 \<Rightarrow> u32 \<Rightarrow> u32" where
  "hailo_set_bit nr bitmap = bitmap OR ucast (push_bit (unat nr mod 64) 1 :: u64)"

definition is_powerof2 :: "u64 \<Rightarrow> bool" where
  "is_powerof2 v \<longleftrightarrow> (v AND (v - 1)) = 0"

definition MAX_POWER_OF_2_VALUE :: u32 where
  "MAX_POWER_OF_2_VALUE = 0x80000000"

definition POWER_OF_2_ERROR :: u32 where
  "POWER_OF_2_ERROR = -1"

text \<open>
  The loop of \<open>get_nearest_powerof_2\<close>. Shifting \<open>0x80000000\<close> left gives 0 and the loop would then
  never end; the guard \<open>value \<le> 0x80000000\<close> of the caller excludes this. The fuel is the number of
  bits: \<open>None\<close> is a loop that has not ended after 32 shifts.
\<close>

fun nearest_loop :: "nat \<Rightarrow> u32 \<Rightarrow> u32 \<Rightarrow> u32 option" where
  "nearest_loop 0 v power_of_2 = (if power_of_2 < v then None else Some power_of_2)"
| "nearest_loop (Suc fuel) v power_of_2 =
     (if power_of_2 < v then nearest_loop fuel v (push_bit 1 power_of_2) else Some power_of_2)"

definition get_nearest_powerof_2 :: "u32 \<Rightarrow> u32 option" where
  "get_nearest_powerof_2 v =
     (if MAX_POWER_OF_2_VALUE < v then Some POWER_OF_2_ERROR else nearest_loop 32 v 1)"

definition DIV_ROUND_UP :: "u32 \<Rightarrow> u32 \<Rightarrow> u32" where
  "DIV_ROUND_UP n d = (n + d - 1) div d"

section \<open>Bit fields\<close>

lemma bit_field_mask: "push_bit n 1 - 1 = (mask n :: 'a::len word)"
  by (simp add: push_bit_eq_mult mask_eq_exp_minus_1)

lemma READ_BITS_take_drop:
  "READ_BITS_AT_OFFSET n off v = take_bit n (drop_bit off v)"
  by (simp only: READ_BITS_AT_OFFSET_def bit_field_mask take_bit_eq_mask)

lemma bit_WRITE_BITS:
  "bit (WRITE_BITS_AT_OFFSET n off w v) i \<longleftrightarrow>
     (if off \<le> i \<and> i < off + n then i < 32 \<and> bit v (i - off) else bit w i)"
  unfolding WRITE_BITS_AT_OFFSET_def bit_field_mask
  by (auto simp: bit_simps dest: bit_imp_le_length)

lemma READ_WRITE_same:
  assumes "off + n \<le> 32"
  shows "READ_BITS_AT_OFFSET n off (WRITE_BITS_AT_OFFSET n off w v) = take_bit n v"
  by (rule bit_word_eqI) (use assms in \<open>auto simp: READ_BITS_take_drop bit_simps bit_WRITE_BITS\<close>)

lemma READ_WRITE_disjoint:
  assumes "off' + n' \<le> off \<or> off + n \<le> off'"
  shows "READ_BITS_AT_OFFSET n' off' (WRITE_BITS_AT_OFFSET n off w v) = READ_BITS_AT_OFFSET n' off' w"
  by (rule bit_word_eqI) (use assms in \<open>auto simp: READ_BITS_take_drop bit_simps bit_WRITE_BITS\<close>)

section \<open>Single bits\<close>

lemma hailo_test_bit_bit: "unat pos < 32 \<Longrightarrow> hailo_test_bit pos var \<longleftrightarrow> bit var (unat pos)"
  by (auto simp: hailo_test_bit_def SHL1_def push_bit_eq_mult and_exp_eq_0_iff_not_bit)

section \<open>Powers of two\<close>

text \<open>\<open>is_powerof2\<close> accepts exactly 0 and the powers of two. (0 passes the bit trick, so every
  caller that goes on to divide by the value has to exclude 0 itself.)\<close>
lemma is_powerof2_iff: "is_powerof2 v \<longleftrightarrow> v = 0 \<or> (\<exists>k < 64. unat v = 2 ^ k)"
proof (cases "v = 0")
  case True then show ?thesis by (simp add: is_powerof2_def)
next
  case False
  have "is_powerof2 v \<longleftrightarrow> unat (v AND (v - 1)) = 0"
    by (simp add: is_powerof2_def unat_0_iff)
  also have "\<dots> \<longleftrightarrow> (unat v AND (unat v - 1)) = 0"
    using False by (simp only: unsigned_and_eq unat_minus_one simp_thms)
  also have "\<dots> \<longleftrightarrow> (\<exists>k. unat v = 2 ^ k)"
    using False by (simp only: nat_and_pred_eq_0 unat_0_iff simp_thms)
  also have "\<dots> \<longleftrightarrow> (\<exists>k < 64. unat v = 2 ^ k)"
    using unat_pow2_eq_less [of v] by auto
  finally show ?thesis using False by simp
qed

lemma nearest_loop_spec:
  assumes "unat v \<le> 2 ^ 31" and "k \<le> 31" and "unat p = 2 ^ k" and "k = 0 \<or> 2 ^ (k - 1) < unat v"
    and "31 \<le> fuel + k"
  shows "\<exists>j \<le> 31. nearest_loop fuel v p = Some (2 ^ j) \<and> unat v \<le> 2 ^ j \<and> (j = 0 \<or> 2 ^ (j - 1) < unat v)"
  using assms(2-)
proof (induction fuel arbitrary: k p)
  case 0
  then have k: "k = 31" by simp
  have p: "p = 2 ^ k" using 0 pow2_word_eq by blast
  have "\<not> p < v" using 0 k assms(1) by (simp add: word_less_nat_alt)
  then show ?case using 0 p k assms(1) by auto
next
  case (Suc fuel)
  have p: "p = 2 ^ k" using Suc.prems pow2_word_eq by blast
  show ?case
  proof (cases "p < v")
    case True
    then have lt: "2 ^ k < unat v" using Suc.prems by (simp add: word_less_nat_alt)
    with assms(1) have "(2::nat) ^ k < 2 ^ 31" by simp
    then have k31: "k < 31" by (simp only: power_strict_increasing_iff)
    have "unat (push_bit 1 p) = 2 ^ Suc k"
    proof -
      have "unat (push_bit 1 p) = unat ((2::u32) ^ Suc k)" by (simp add: p push_bit_eq_mult mult.commute)
      also have "\<dots> = 2 ^ Suc k" using k31 by (intro unat_pow2) simp
      finally show ?thesis .
    qed
    with Suc.IH [of "Suc k" "push_bit 1 p"] Suc.prems lt k31 True show ?thesis by auto
  next
    case False
    then show ?thesis using Suc.prems p by (auto simp: word_less_nat_alt not_less)
  qed
qed

lemma get_nearest_least:
  assumes "unat v \<le> 2 ^ 31"
  shows "\<exists>k \<le> 31. get_nearest_powerof_2 v = Some (2 ^ k) \<and> unat v \<le> 2 ^ k \<and> (k = 0 \<or> 2 ^ (k - 1) < unat v)"
  using nearest_loop_spec [of v 0 1 32] assms
  by (simp add: get_nearest_powerof_2_def MAX_POWER_OF_2_VALUE_def word_less_nat_alt not_le)

text \<open>\<open>get_nearest_powerof_2\<close> always returns: the least power of two that is at least its argument
  for every argument up to \<open>0x80000000\<close>, and \<open>POWER_OF_2_ERROR\<close> above it.\<close>
theorem get_nearest_powerof_2_correct:
  "if unat v \<le> 2 ^ 31
   then \<exists>k \<le> 31. get_nearest_powerof_2 v = Some (2 ^ k) \<and> unat v \<le> 2 ^ k \<and>
          (k = 0 \<or> 2 ^ (k - 1) < unat v)
   else get_nearest_powerof_2 v = Some POWER_OF_2_ERROR"
  using get_nearest_least [of v]
  by (simp add: get_nearest_powerof_2_def MAX_POWER_OF_2_VALUE_def word_less_nat_alt not_le)

end
