(* ===== verification/Ioctl_Common.thy ===== *)
theory Ioctl_Common
  imports Hailo_Prelude
begin

text \<open>
  The constants and enumerations of \<open>src/common/hailo_ioctl_common.h\<close> that several components use.
  A value of a C \<open>enum\<close> that comes from user space or from a table can be any \<open>int\<close>; where the code
  has a \<open>default\<close> branch for it, the datatype has a constructor for the other values.
\<close>

datatype hailo_board_type =
    HAILO_BOARD_TYPE_HAILO8 | HAILO_BOARD_TYPE_HAILO15 | HAILO_BOARD_TYPE_HAILO15L
  | HAILO_BOARD_TYPE_HAILO10H | HAILO_BOARD_TYPE_HAILO10H_LEGACY | HAILO_BOARD_TYPE_MARS
  | HAILO_BOARD_TYPE_OTHER nat

datatype hailo_accelerator_type = HAILO_ACCELERATOR_TYPE_NNC | HAILO_ACCELERATOR_TYPE_SOC

datatype hailo_dma_type = HAILO_DMA_TYPE_PCIE | HAILO_DMA_TYPE_DRAM | HAILO_DMA_TYPE_PCI_EP

datatype hailo_dma_data_direction =
  HAILO_DMA_BIDIRECTIONAL | HAILO_DMA_TO_DEVICE | HAILO_DMA_FROM_DEVICE | HAILO_DMA_NONE
  | HAILO_DMA_OTHER nat

definition MAX_VDMA_CHANNELS_PER_ENGINE :: nat where "MAX_VDMA_CHANNELS_PER_ENGINE = 32"
definition VDMA_CHANNELS_PER_ENGINE_PER_DIRECTION :: nat where
  "VDMA_CHANNELS_PER_ENGINE_PER_DIRECTION = 16"
definition MAX_VDMA_ENGINES :: nat where "MAX_VDMA_ENGINES = 3"
definition SIZE_OF_VDMA_DESCRIPTOR :: u64 where "SIZE_OF_VDMA_DESCRIPTOR = 16"
definition MAX_NOTIFICATION_LENGTH :: nat where "MAX_NOTIFICATION_LENGTH = 1500"
definition MAX_FW_LOG_BUFFER_LENGTH :: nat where "MAX_FW_LOG_BUFFER_LENGTH = 512"

record hailo_d2h_notification =
  notif_buffer_len :: u64
  notif_buffer :: "u8 list"

record hailo_read_log_params =
  log_is_app_cpu :: bool
  log_buffer_size :: u64
  log_buffer :: "u8 list"
  log_read_bytes :: u64

end
