(* ===== verification/Vdma_Descriptors.thy ===== *)
theory Vdma_Descriptors
  imports Driver_Utils Ioctl_Common
begin

text \<open>
  The descriptor lists of the vDMA engine and their programming, the first part of
  \<open>src/common/vdma_common.c\<close>. A descriptors list is a record with its array of descriptors as a list;
  every access to the array is checked, an access outside it is the fault \<open>Out_of_bounds\<close>, a division
  by a zero page size or descriptor count the fault \<open>Div_by_zero\<close>. An operation returns what the C
  function returns together with the list as it left it, since an error may come after some
  descriptors have been programmed.
\<close>

record hailo_vdma_descriptor =
  PageSize_DescControl :: u32
  AddrL_rsvd_DataID :: u32
  AddrH :: u32
  RemainingPageSize_Status :: u32

record hailo_vdma_descriptors_list =
  dl_desc_list :: "hailo_vdma_descriptor list"
  dl_desc_count :: u32
  dl_desc_count_mask :: u32
  dl_desc_page_size :: u16
  dl_is_circular :: bool

text \<open>The scatter-gather table of a mapped buffer: bus address and length of each entry.\<close>

type_synonym sg_table = "(u64 \<times> u32) list"

record hailo_vdma_mapped_transfer_buffer =
  tb_sg_table :: sg_table
  tb_size :: u32
  tb_offset :: u32
  tb_opaque :: nat

record hailo_vdma_hw =
  get_masked_channel_id :: "u8 \<Rightarrow> u64"
  ddr_data_id :: u8
  host_interrupts_bitmask :: u64
  device_interrupts_bitmask :: u64
  src_channels_bitmask :: u32

text \<open>The interrupts domain is a C \<open>enum\<close> used as a bit set; user space may pass any value.\<close>

type_synonym interrupts_domain = u32

definition HAILO_VDMA_INTERRUPTS_DOMAIN_NONE :: interrupts_domain where
  [vdma_defs]: "HAILO_VDMA_INTERRUPTS_DOMAIN_NONE = 0"
definition HAILO_VDMA_INTERRUPTS_DOMAIN_DEVICE :: interrupts_domain where
  [vdma_defs]: "HAILO_VDMA_INTERRUPTS_DOMAIN_DEVICE = 1"
definition HAILO_VDMA_INTERRUPTS_DOMAIN_HOST :: interrupts_domain where
  [vdma_defs]: "HAILO_VDMA_INTERRUPTS_DOMAIN_HOST = 2"

definition DESCRIPTOR_PAGE_SIZE_SHIFT :: nat where [vdma_defs]: "DESCRIPTOR_PAGE_SIZE_SHIFT = 8"
definition DESCRIPTOR_DESC_CONTROL :: u64 where [vdma_defs]: "DESCRIPTOR_DESC_CONTROL = 0x2"
definition DESCRIPTOR_ADDR_L_MASK :: u64 where [vdma_defs]: "DESCRIPTOR_ADDR_L_MASK = 0xFFFFFFC0"
definition DESC_STATUS_REQ :: u64 where [vdma_defs]: "DESC_STATUS_REQ = 1"
definition DESC_STATUS_REQ_ERR :: u64 where [vdma_defs]: "DESC_STATUS_REQ_ERR = 2"
definition DESC_REQUEST_IRQ_PROCESSED :: u64 where [vdma_defs]: "DESC_REQUEST_IRQ_PROCESSED = 4"
definition DESC_REQUEST_IRQ_ERR :: u64 where [vdma_defs]: "DESC_REQUEST_IRQ_ERR = 8"
definition INVALID_VDMA_CHANNEL :: u8 where "INVALID_VDMA_CHANNEL = 0xff"

definition hailo_vdma_program_descriptor :: "u64 \<Rightarrow> u64 \<Rightarrow> u8 \<Rightarrow> hailo_vdma_descriptor" where
  "hailo_vdma_program_descriptor dma_address page_size data_id =
     \<lparr> PageSize_DescControl = ucast (push_bit DESCRIPTOR_PAGE_SIZE_SHIFT page_size + DESCRIPTOR_DESC_CONTROL),
       AddrL_rsvd_DataID = ucast ((dma_address AND DESCRIPTOR_ADDR_L_MASK) OR ucast data_id),
       AddrH = ucast (drop_bit 32 dma_address),
       RemainingPageSize_Status = 0 \<rparr>"

definition get_channel_id :: "u8 \<Rightarrow> u8" where
  "get_channel_id channel_index =
     (if unat channel_index < MAX_VDMA_CHANNELS_PER_ENGINE then channel_index AND 0xF else INVALID_VDMA_CHANNEL)"

text \<open>The value an \<open>int\<close>-returning function hands back for \<open>(int)n\<close>: from \<open>0x80000000\<close> on it is negative,
  and the callers take it for an error code.\<close>

definition int_ret :: "u32 \<Rightarrow> u32 result" where
  "int_ret n = (if n < 0x80000000 then Ok n else Err (ECODE (unat (- n))))"

text \<open>
  The loop of \<open>hailo_vdma_program_descriptors_in_chunk\<close> over all descriptors but the last: \<open>n\<close>
  iterations from \<open>desc_index\<close> on; it yields the array and the final \<open>desc_index\<close> and \<open>encoded_addr\<close>.
\<close>

fun program_full_descs ::
    "nat \<Rightarrow> u32 \<Rightarrow> u16 \<Rightarrow> u32 \<Rightarrow> u8 \<Rightarrow> u32 \<Rightarrow> u64 \<Rightarrow> hailo_vdma_descriptor list \<Rightarrow>
     (hailo_vdma_descriptor list \<times> u32 \<times> u64) result" where
  "program_full_descs 0 addr_mask page_size stride data_id desc_index encoded_addr ds =
     Ok (ds, desc_index, encoded_addr)"
| "program_full_descs (Suc n) addr_mask page_size stride data_id desc_index encoded_addr ds =
     bind_r (array_modify ds (unat (desc_index AND addr_mask))
               (\<lambda>_. hailo_vdma_program_descriptor encoded_addr (ucast stride) data_id))
       (program_full_descs n addr_mask page_size stride data_id (desc_index + 1) (encoded_addr + ucast page_size))"

definition hailo_vdma_program_descriptors_in_chunk ::
    "u64 \<Rightarrow> u32 \<Rightarrow> hailo_vdma_descriptors_list \<Rightarrow> u32 \<Rightarrow> u32 \<Rightarrow> u8 \<Rightarrow> u32 \<Rightarrow> u64 \<Rightarrow>
     u32 result \<times> hailo_vdma_descriptors_list" where
  "hailo_vdma_program_descriptors_in_chunk chunk_addr chunk_size dl desc_index max_desc_index data_id stride
       masked_channel_id =
     (let page_size = dl_desc_page_size dl
      in if page_size = 0 then (Fault Div_by_zero, dl)
         else
          let residue_size = chunk_size mod ucast page_size;
              descs_to_program = DIV_ROUND_UP chunk_size (ucast page_size);
              last_desc_to_program = desc_index + descs_to_program - 1
          in if max_desc_index + 1 < desc_index + descs_to_program then (Err ERANGE, dl)
             else case bind_r
                    (program_full_descs (unat last_desc_to_program - unat desc_index) (dl_desc_count_mask dl)
                       page_size stride data_id desc_index (chunk_addr OR masked_channel_id) (dl_desc_list dl))
                    (\<lambda>(ds, idx, encoded_addr).
                       array_modify ds (unat (idx AND dl_desc_count_mask dl))
                         (\<lambda>_. hailo_vdma_program_descriptor encoded_addr
                            (if residue_size = 0 then ucast stride else ucast (ucast residue_size :: u16)) data_id)) of
                 Ok ds \<Rightarrow> (int_ret descs_to_program, dl\<lparr>dl_desc_list := ds\<rparr>)
               | Err e \<Rightarrow> (Err e, dl)
               | Fault f \<Rightarrow> (Fault f, dl))"

definition get_interrupts_bitmask :: "hailo_vdma_hw \<Rightarrow> interrupts_domain \<Rightarrow> bool \<Rightarrow> u64" where
  "get_interrupts_bitmask vdma_hw domain is_debug =
     (let bitmask0 = (if HAILO_VDMA_INTERRUPTS_DOMAIN_DEVICE AND domain \<noteq> 0
                      then device_interrupts_bitmask vdma_hw else 0);
          bitmask1 = (if HAILO_VDMA_INTERRUPTS_DOMAIN_HOST AND domain \<noteq> 0
                      then bitmask0 OR host_interrupts_bitmask vdma_hw else bitmask0)
      in if bitmask1 \<noteq> 0
         then let bitmask2 = bitmask1 OR (DESC_REQUEST_IRQ_PROCESSED OR DESC_REQUEST_IRQ_ERR)
              in if is_debug then bitmask2 OR (DESC_STATUS_REQ OR DESC_STATUS_REQ_ERR) else bitmask2
         else bitmask1)"

text \<open>
  The loop of \<open>bind_and_program_descriptors_list\<close> over the scatter-gather entries. Its state: the byte
  offset of the entry in the buffer, the bytes still to program, the next descriptor and the number of
  descriptors programmed so far; \<open>None\<close> for the chunk means the entry is skipped (it ends before the
  offset of the transfer, or nothing of it is left).
\<close>

definition sg_chunk :: "u64 \<Rightarrow> u32 \<Rightarrow> u64 \<Rightarrow> u32 \<Rightarrow> (u64 \<times> u32) option" where
  "sg_chunk buffer_current_offset offset sg_addr sg_len =
     (if buffer_current_offset + ucast sg_len < ucast offset then None
      else let (chunk_start_addr, chunk_size) =
             (if buffer_current_offset < ucast offset
              then (sg_addr + (ucast offset - buffer_current_offset),
                    ucast (ucast sg_len - (ucast offset - buffer_current_offset)))
              else (sg_addr, sg_len))
           in if chunk_size = 0 then None else Some (chunk_start_addr, chunk_size))"

fun bind_sg_entries ::
    "sg_table \<Rightarrow> u32 \<Rightarrow> u32 \<Rightarrow> u8 \<Rightarrow> u32 \<Rightarrow> u64 \<Rightarrow> u64 \<Rightarrow> u32 \<Rightarrow> u32 \<Rightarrow> u32 \<Rightarrow> hailo_vdma_descriptors_list \<Rightarrow>
     (u32 \<times> u32 \<times> u32) result \<times> hailo_vdma_descriptors_list" where
  "bind_sg_entries [] offset max_desc_index data_id stride masked_channel_id buffer_current_offset program_size
     starting_desc desc_programmed dl = (Ok (program_size, starting_desc, desc_programmed), dl)"
| "bind_sg_entries ((sg_addr, sg_len) # sgs) offset max_desc_index data_id stride masked_channel_id
     buffer_current_offset program_size starting_desc desc_programmed dl =
     (case sg_chunk buffer_current_offset offset sg_addr sg_len of
        None \<Rightarrow> bind_sg_entries sgs offset max_desc_index data_id stride masked_channel_id
                  (buffer_current_offset + ucast sg_len) program_size starting_desc desc_programmed dl
      | Some (chunk_start_addr, chunk_len) \<Rightarrow>
          if program_size = 0 then (Ok (program_size, starting_desc, desc_programmed), dl)
          else
           let chunk_size = min program_size chunk_len
           in case hailo_vdma_program_descriptors_in_chunk chunk_start_addr chunk_size dl starting_desc
                     max_desc_index data_id stride masked_channel_id of
                (Err e, dl') \<Rightarrow> (Err e, dl')
              | (Fault f, dl') \<Rightarrow> (Fault f, dl')
              | (Ok n, dl') \<Rightarrow>
                  if program_size - chunk_size = 0
                  then (Ok (0, starting_desc + n, desc_programmed + n), dl')
                  else bind_sg_entries sgs offset max_desc_index data_id stride masked_channel_id
                         (buffer_current_offset + ucast sg_len) (program_size - chunk_size)
                         (starting_desc + n) (desc_programmed + n) dl')"

text \<open>\<open>desc->PageSize_DescControl |= bitmask\<close>, the bit mask cut to the 32 bits of the field.\<close>

definition or_control :: "u64 \<Rightarrow> hailo_vdma_descriptor \<Rightarrow> hailo_vdma_descriptor" where
  "or_control bitmask d = d\<lparr>PageSize_DescControl := PageSize_DescControl d OR ucast bitmask\<rparr>"

definition bind_and_program_descriptors_list ::
    "hailo_vdma_hw \<Rightarrow> hailo_vdma_descriptors_list \<Rightarrow> u32 \<Rightarrow> hailo_vdma_mapped_transfer_buffer \<Rightarrow> u8 \<Rightarrow>
     interrupts_domain \<Rightarrow> bool \<Rightarrow> u32 \<Rightarrow> u32 result \<times> hailo_vdma_descriptors_list" where
  "bind_and_program_descriptors_list vdma_hw dl starting_desc buffer channel_index last_desc_interrupts is_debug stride0 =
     (let page = ucast (dl_desc_page_size dl) :: u32;
          masked_channel_id = get_masked_channel_id vdma_hw (get_channel_id channel_index)
      in if page = 0 then (Fault Div_by_zero, dl)
         else if tb_offset buffer mod page \<noteq> 0 \<or> dl_desc_count dl \<le> starting_desc then (Err EINVAL, dl)
         else if stride0 mod page \<noteq> 0 \<and> tb_size buffer mod page \<noteq> 0 then (Err EINVAL, dl)
         else if stride0 mod page \<noteq> 0 \<and> page < stride0 then (Err EINVAL, dl)
         else
          let stride = (if stride0 mod page = 0 then page else stride0);
              max_desc_index = (if dl_is_circular dl then starting_desc + dl_desc_count dl - 1 else dl_desc_count dl - 1)
          in case bind_sg_entries (tb_sg_table buffer) (tb_offset buffer) max_desc_index (ddr_data_id vdma_hw) stride
                    masked_channel_id 0 (tb_size buffer) starting_desc 0 dl of
               (Err e, dl') \<Rightarrow> (Err e, dl')
             | (Fault f, dl') \<Rightarrow> (Fault f, dl')
             | (Ok (program_size, next_desc, desc_programmed), dl') \<Rightarrow>
                 if program_size \<noteq> 0 then (Err EFAULT, dl')
                 else case array_modify (dl_desc_list dl') (unat ((next_desc - 1) mod dl_desc_count dl'))
                             (or_control (get_interrupts_bitmask vdma_hw last_desc_interrupts is_debug)) of
                        Ok ds \<Rightarrow> (int_ret desc_programmed, dl'\<lparr>dl_desc_list := ds\<rparr>)
                      | Err e \<Rightarrow> (Err e, dl')
                      | Fault f \<Rightarrow> (Fault f, dl'))"

definition program_last_desc ::
    "hailo_vdma_hw \<Rightarrow> hailo_vdma_descriptors_list \<Rightarrow> u32 \<Rightarrow> hailo_vdma_mapped_transfer_buffer \<Rightarrow>
     interrupts_domain \<Rightarrow> bool \<Rightarrow> u32 result \<times> hailo_vdma_descriptors_list" where
  "program_last_desc vdma_hw dl starting_desc transfer_buffer last_desc_interrupts is_debug =
     (let control = ucast (DESCRIPTOR_DESC_CONTROL OR get_interrupts_bitmask vdma_hw last_desc_interrupts is_debug) :: u8;
          page = ucast (dl_desc_page_size dl) :: u32
      in if page = 0 \<or> dl_desc_count dl = 0 then (Fault Div_by_zero, dl)
         else
          let total_descs = DIV_ROUND_UP (tb_size transfer_buffer) page;
              last_desc = (starting_desc + total_descs - 1) mod dl_desc_count dl;
              last_desc_size = tb_size transfer_buffer - (total_descs - 1) * page
          in case array_modify (dl_desc_list dl) (unat last_desc)
                    (\<lambda>d. d\<lparr>PageSize_DescControl := push_bit DESCRIPTOR_PAGE_SIZE_SHIFT last_desc_size + ucast control\<rparr>) of
               Ok ds \<Rightarrow> (int_ret total_descs, dl\<lparr>dl_desc_list := ds\<rparr>)
             | Err e \<Rightarrow> (Err e, dl)
             | Fault f \<Rightarrow> (Fault f, dl))"

definition hailo_vdma_program_descriptors_list ::
    "hailo_vdma_hw \<Rightarrow> hailo_vdma_descriptors_list \<Rightarrow> u32 \<Rightarrow> hailo_vdma_mapped_transfer_buffer \<Rightarrow> bool \<Rightarrow> u8 \<Rightarrow>
     interrupts_domain \<Rightarrow> bool \<Rightarrow> u32 \<Rightarrow> u32 result \<times> hailo_vdma_descriptors_list" where
  "hailo_vdma_program_descriptors_list vdma_hw dl starting_desc buffer should_bind channel_index
       last_desc_interrupts is_debug stride =
     (if should_bind
      then bind_and_program_descriptors_list vdma_hw dl starting_desc buffer channel_index last_desc_interrupts
             is_debug stride
      else program_last_desc vdma_hw dl starting_desc buffer last_desc_interrupts is_debug)"

text \<open>The \<open>while (batch_size > 0)\<close> loop; its first argument is the batch size.\<close>

fun program_batch ::
    "nat \<Rightarrow> hailo_vdma_hw \<Rightarrow> hailo_vdma_descriptors_list \<Rightarrow> u32 \<Rightarrow> hailo_vdma_mapped_transfer_buffer \<Rightarrow> bool \<Rightarrow> u8 \<Rightarrow>
     interrupts_domain \<Rightarrow> bool \<Rightarrow> u32 \<Rightarrow> u32 \<Rightarrow> u32 result \<times> hailo_vdma_descriptors_list" where
  "program_batch 0 vdma_hw dl starting_desc transfer should_bind channel_index last_desc_interrupts is_debug stride
     total_desc_programmed = (int_ret total_desc_programmed, dl)"
| "program_batch (Suc batch) vdma_hw dl starting_desc transfer should_bind channel_index last_desc_interrupts is_debug
     stride total_desc_programmed =
     (let desc_interrupts = (if batch = 0 then last_desc_interrupts else HAILO_VDMA_INTERRUPTS_DOMAIN_NONE)
      in case hailo_vdma_program_descriptors_list vdma_hw dl starting_desc transfer should_bind channel_index
                desc_interrupts is_debug stride of
           (Err e, dl') \<Rightarrow> (Err e, dl')
         | (Fault f, dl') \<Rightarrow> (Fault f, dl')
         | (Ok n, dl') \<Rightarrow>
             if dl_is_circular dl' \<and> dl_desc_count dl' = 0 then (Fault Div_by_zero, dl')
             else program_batch batch vdma_hw dl'
                    (if dl_is_circular dl' then (starting_desc + n) mod dl_desc_count dl' else starting_desc + n)
                    (transfer\<lparr>tb_offset := tb_offset transfer + n * ucast (dl_desc_page_size dl')\<rparr>)
                    should_bind channel_index last_desc_interrupts is_debug stride (total_desc_programmed + n))"

definition hailo_vdma_program_descriptors_list_batch ::
    "hailo_vdma_hw \<Rightarrow> hailo_vdma_descriptors_list \<Rightarrow> u32 \<Rightarrow> sg_table \<Rightarrow> u32 \<Rightarrow> u32 \<Rightarrow> u32 \<Rightarrow> bool \<Rightarrow> u8 \<Rightarrow>
     interrupts_domain \<Rightarrow> bool \<Rightarrow> u32 \<Rightarrow> u32 result \<times> hailo_vdma_descriptors_list" where
  "hailo_vdma_program_descriptors_list_batch vdma_hw dl starting_desc base_buffer buffer_offset transfer_size batch_size
       should_bind channel_index last_desc_interrupts is_debug stride =
     program_batch (unat batch_size) vdma_hw dl starting_desc
       \<lparr> tb_sg_table = base_buffer, tb_size = transfer_size, tb_offset = buffer_offset, tb_opaque = 0 \<rparr>
       should_bind channel_index last_desc_interrupts is_debug stride 0"

text \<open>The engine of the PCIe boards (\<open>src/common/pcie_common.c\<close>).\<close>

definition hailo_pcie_encode_desc_get_masked_channel_id :: "u8 \<Rightarrow> u64" where
  "hailo_pcie_encode_desc_get_masked_channel_id channel_id = 0"

definition hailo_pcie_vdma_hw :: hailo_vdma_hw where
  "hailo_pcie_vdma_hw =
     \<lparr> get_masked_channel_id = hailo_pcie_encode_desc_get_masked_channel_id, ddr_data_id = 0,
       host_interrupts_bitmask = 0x20, device_interrupts_bitmask = 0x10, src_channels_bitmask = 0x0000FFFF \<rparr>"

section \<open>Well-formed lists\<close>

text \<open>
  What \<open>hailo_desc_list_create\<close> sets up: the array has \<open>desc_count\<close> entries, the mask belongs to the
  least power of two that is at least the count, and in a circular list the count is that power of two.
\<close>

definition wf_desc_list :: "hailo_vdma_descriptors_list \<Rightarrow> bool" where
  "wf_desc_list dl \<longleftrightarrow>
     length (dl_desc_list dl) = unat (dl_desc_count dl) \<and> 0 < unat (dl_desc_count dl) \<and>
     unat (dl_desc_count dl) \<le> 0x10000 \<and> 0 < unat (dl_desc_page_size dl) \<and>
     (\<exists>k \<le> 16. dl_desc_count_mask dl = 2 ^ k - 1 \<and> unat (dl_desc_count dl) \<le> 2 ^ k \<and>
        (dl_is_circular dl \<longrightarrow> unat (dl_desc_count dl) = 2 ^ k))"

lemma wf_desc_listD:
  assumes "wf_desc_list dl"
  shows "length (dl_desc_list dl) = unat (dl_desc_count dl)" "0 < unat (dl_desc_count dl)"
    "unat (dl_desc_count dl) \<le> 0x10000" "0 < unat (dl_desc_page_size dl)"
  using assms by (auto simp: wf_desc_list_def)

lemma wf_desc_list_update [simp]:
  "length ds = length (dl_desc_list dl) \<Longrightarrow> wf_desc_list (dl\<lparr>dl_desc_list := ds\<rparr>) = wf_desc_list dl"
  by (simp add: wf_desc_list_def)

lemma desc_slot:
  assumes "wf_desc_list dl" and "dl_is_circular dl \<or> unat idx < unat (dl_desc_count dl)"
  shows "unat (idx AND dl_desc_count_mask dl) = unat idx mod unat (dl_desc_count dl)"
proof -
  obtain k where k: "dl_desc_count_mask dl = 2 ^ k - 1" "unat (dl_desc_count dl) \<le> 2 ^ k"
      "dl_is_circular dl \<longrightarrow> unat (dl_desc_count dl) = 2 ^ k"
    using assms(1) by (auto simp: wf_desc_list_def)
  show ?thesis
  proof (cases "dl_is_circular dl")
    case True with k show ?thesis by (simp add: unat_and_exp_minus_1)
  next
    case False
    with assms(2) k show ?thesis by (simp add: unat_and_exp_minus_1)
  qed
qed

section \<open>Placing a run of descriptors\<close>

fun place :: "nat \<Rightarrow> 'a list \<Rightarrow> 'a list \<Rightarrow> 'a list" where
  "place s [] ds = ds"
| "place s (x # xs) ds = place (Suc s) xs (ds[s mod length ds := x])"

lemma length_place [simp]: "length (place s xs ds) = length ds"
  by (induction s xs ds rule: place.induct) auto

lemma place_append: "place s (xs @ ys) ds = place (s + length xs) ys (place s xs ds)"
  by (induction s xs ds rule: place.induct) auto

lemma place_snoc: "place s (xs @ [y]) ds = (place s xs ds)[(s + length xs) mod length ds := y]"
  by (simp add: place_append)

lemma place_nth:
  "length xs \<le> length ds \<Longrightarrow> i < length xs \<Longrightarrow> place s xs ds ! ((s + i) mod length ds) = xs ! i"
proof (induction xs arbitrary: i rule: rev_induct)
  case (snoc y xs)
  show ?case
  proof (cases "i = length xs")
    case True
    have "(s + length xs) mod length ds < length ds" using snoc.prems by (cases ds) simp_all
    with True show ?thesis by (simp add: place_snoc)
  next
    case False
    with snoc.prems have i: "i < length xs" by simp
    have "(s + length xs) mod length ds \<noteq> (s + i) mod length ds"
      using mod_inj_window [of s "length xs" "length ds" i] i snoc.prems by auto
    with i snoc show ?thesis by (simp add: place_snoc nth_append)
  qed
qed simp

lemma place_other:
  "(\<And>i. i < length xs \<Longrightarrow> j \<noteq> (s + i) mod length ds) \<Longrightarrow> place s xs ds ! j = ds ! j"
proof (induction xs rule: rev_induct)
  case (snoc y xs)
  then show ?case by (simp add: place_snoc) (metis less_SucI nth_list_update_neq lessI)
qed simp

section \<open>One chunk\<close>

definition ceil_div :: "nat \<Rightarrow> nat \<Rightarrow> nat" where
  "ceil_div n p = (n + p - 1) div p"

lemma DIV_ROUND_UP_nat:
  "unat n + unat d \<le> 2 ^ 32 \<Longrightarrow> 0 < unat d \<Longrightarrow> unat (DIV_ROUND_UP n d) = ceil_div (unat n) (unat d)"
proof -
  assume a: "unat n + unat d \<le> 2 ^ 32" and d: "0 < unat d"
  have m: "unat (d - 1) = unat d - 1" using d by (intro unat_minus_one) auto
  have "unat (n + d - 1) = unat (n + (d - 1))" by (simp only: add_diff_eq)
  also have "\<dots> = unat n + unat d - 1"
    using a d unat_add_small [of n "d - 1"] unfolding m by simp
  finally have "unat (n + d - 1) = unat n + unat d - 1" .
  then show ?thesis by (simp add: DIV_ROUND_UP_def ceil_div_def unat_div)
qed

lemma ceil_div_pos: "0 < n \<Longrightarrow> 0 < p \<Longrightarrow> 0 < ceil_div n p"
  by (simp add: ceil_div_def div_greater_zero_iff)

lemma ceil_div_le: "0 < p \<Longrightarrow> ceil_div n p \<le> n"
proof -
  assume "0 < p"
  then have "n + p - 1 < Suc n * p" by (cases p) auto
  then show ?thesis using \<open>0 < p\<close> by (simp only: ceil_div_def less_Suc_eq_le [symmetric] div_less_iff_less_mult)
qed

definition chunk_descs :: "nat \<Rightarrow> u32 \<Rightarrow> u8 \<Rightarrow> u64 \<Rightarrow> nat \<Rightarrow> hailo_vdma_descriptor list" where
  "chunk_descs page stride data_id addr n =
     map (\<lambda>i. hailo_vdma_program_descriptor (addr + of_nat (i * page))
            (if i = ceil_div n page - 1 \<and> n mod page \<noteq> 0 then of_nat (n mod page) else ucast stride) data_id)
       [0..<ceil_div n page]"

lemma length_chunk_descs [simp]: "length (chunk_descs page stride data_id addr n) = ceil_div n page"
  by (simp add: chunk_descs_def)

lemma program_full_descs_place:
  assumes "wf_desc_list dl"
    and "length ds = unat (dl_desc_count dl)" and "unat idx + n < 2 ^ 32"
    and "dl_is_circular dl \<or> unat idx + n \<le> unat (dl_desc_count dl)"
  shows "program_full_descs n (dl_desc_count_mask dl) page stride data_id idx addr ds =
    Ok (place (unat idx)
          (map (\<lambda>i. hailo_vdma_program_descriptor (addr + of_nat (i * unat page)) (ucast stride) data_id) [0..<n]) ds,
        idx + of_nat n, addr + of_nat (n * unat page))"
  using assms(2-)
proof (induction n arbitrary: idx addr ds)
  case (Suc n)
  let ?d = "\<lambda>i. hailo_vdma_program_descriptor (addr + of_nat (i * unat page)) (ucast stride) data_id"
  have slot: "unat (idx AND dl_desc_count_mask dl) = unat idx mod length ds"
    using desc_slot [OF assms(1), of idx] Suc.prems by auto
  have lt: "unat idx mod length ds < length ds"
    using Suc.prems(1) wf_desc_listD(2) [OF assms(1)] by simp
  have u: "unat (idx + 1) = Suc (unat idx)" using Suc.prems(2) by (simp add: unat_Suc_small)
  have m: "map ?d [0..<Suc n] = ?d 0 # map (\<lambda>i. hailo_vdma_program_descriptor (addr + ucast page + of_nat (i * unat page))
      (ucast stride) data_id) [0..<n]"
    by (simp add: upt_conv_Cons map_Suc_upt [symmetric] algebra_simps del: upt_Suc)
  show ?case
    unfolding m using Suc.IH [of "ds[unat idx mod length ds := ?d 0]" "idx + 1" "addr + ucast page"] Suc.prems slot lt u
    by (auto simp: algebra_simps)
qed simp


lemma chunk_descs_snoc:
  assumes "0 < n" and "0 < page"
  shows "chunk_descs page stride data_id addr n =
    map (\<lambda>i. hailo_vdma_program_descriptor (addr + of_nat (i * page)) (ucast stride) data_id) [0..<ceil_div n page - 1] @
    [hailo_vdma_program_descriptor (addr + of_nat ((ceil_div n page - 1) * page))
       (if n mod page \<noteq> 0 then of_nat (n mod page) else ucast stride) data_id]"
proof -
  have "[0..<ceil_div n page] = [0..<ceil_div n page - 1] @ [ceil_div n page - 1]"
    using ceil_div_pos [OF assms] by (metis Suc_diff_1 upt_Suc_append zero_le)
  then show ?thesis by (auto simp: chunk_descs_def)
qed

lemma residue_eq:
  fixes c :: u32 and p :: u16
  assumes "0 < unat p"
  shows "(if c mod ucast p = 0 then s else ucast (ucast (c mod ucast p) :: u16)) =
    (if unat c mod unat p \<noteq> 0 then of_nat (unat c mod unat p) else (s :: u64))"
proof -
  have u: "unat (c mod ucast p) = unat c mod unat p" by (simp add: unat_mod)
  have "unat p < 2 ^ 16" using unsigned_less [of p] by simp
  then have "unat c mod unat p < 2 ^ 16" using mod_less_divisor [OF assms, of "unat c"] by simp
  then have "unat (ucast (ucast (c mod ucast p) :: u16) :: u64) = unat c mod unat p"
    using u by (simp add: unat_ucast_mod)
  then have "ucast (ucast (c mod ucast p) :: u16) = (of_nat (unat c mod unat p) :: u64)"
    by (metis word_eq_of_nat_unat)
  moreover have "c mod ucast p = 0 \<longleftrightarrow> unat c mod unat p = 0" using u by (metis unat_eq_0)
  ultimately show ?thesis by simp
qed

lemma program_in_chunk_place:
  assumes wf: "wf_desc_list dl" and pos: "0 < unat chunk_size" and small: "unat chunk_size < 2 ^ 31"
    and idx: "unat desc_index < 2 ^ 31" and mx: "unat max_desc_index < unat desc_index + unat (dl_desc_count dl)"
    and mx32: "unat max_desc_index < 2 ^ 31" and circ: "dl_is_circular dl \<or> unat max_desc_index < unat (dl_desc_count dl)"
  defines "page \<equiv> unat (dl_desc_page_size dl)"
  shows "hailo_vdma_program_descriptors_in_chunk chunk_addr chunk_size dl desc_index max_desc_index data_id stride chan =
    (if unat desc_index + ceil_div (unat chunk_size) page \<le> unat max_desc_index + 1
     then (Ok (of_nat (ceil_div (unat chunk_size) page)),
           dl\<lparr>dl_desc_list := place (unat desc_index)
               (chunk_descs page stride data_id (chunk_addr OR chan) (unat chunk_size)) (dl_desc_list dl)\<rparr>)
     else (Err ERANGE, dl))"
proof -
  let ?n = "ceil_div (unat chunk_size) page"
  let ?d = "DIV_ROUND_UP chunk_size (ucast (dl_desc_page_size dl))"
  have page: "0 < page" "page < 2 ^ 16" using wf_desc_listD(4) [OF wf] unsigned_less [of "dl_desc_page_size dl"]
    by (simp_all add: page_def)
  have page0: "0 < unat (dl_desc_page_size dl)" "dl_desc_page_size dl \<noteq> 0" using page by (auto simp: page_def)
  have n: "unat ?d = ?n" using DIV_ROUND_UP_nat [of chunk_size "ucast (dl_desc_page_size dl)"] small page
    by (simp add: page_def)
  have n1: "0 < ?n" "?n < 2 ^ 31" using ceil_div_pos [OF pos page(1)] ceil_div_le [OF page(1), of "unat chunk_size"] small
    by simp_all
  have sum: "unat (desc_index + ?d) = unat desc_index + ?n"
    using n n1 idx by (subst unat_add_small) simp_all
  have r: "int_ret ?d = Ok ?d" using n n1 by (simp add: int_ret_def word_less_nat_alt)
  have dn: "?d = of_nat ?n" using n by (metis word_eq_of_nat_unat)
  have lst: "unat (desc_index + ?d - 1) = unat desc_index + ?n - 1"
    using sum n1 by (subst unat_minus_one) auto
  have mx1: "unat (max_desc_index + 1) = unat max_desc_index + 1"
    using mx32 by (intro unat_Suc_small) simp
  show ?thesis
  proof (cases "unat desc_index + ?n \<le> unat max_desc_index + 1")
    case False
    with sum mx1 page0 show ?thesis
      by (simp add: hailo_vdma_program_descriptors_in_chunk_def word_less_nat_alt page_def Let_def)
  next
    case True
    let ?idx = "desc_index + of_nat (?n - 1)"
    have full: "program_full_descs (?n - 1) (dl_desc_count_mask dl) (dl_desc_page_size dl) stride data_id desc_index
        (chunk_addr OR chan) (dl_desc_list dl) =
      Ok (place (unat desc_index) (map (\<lambda>i. hailo_vdma_program_descriptor ((chunk_addr OR chan) + of_nat (i * page))
              (ucast stride) data_id) [0..<?n - 1]) (dl_desc_list dl), ?idx, (chunk_addr OR chan) + of_nat ((?n - 1) * page))"
      unfolding page_def
      by (rule program_full_descs_place)
        (use True wf wf_desc_listD [OF wf] circ n1 idx mx in \<open>auto simp: page_def\<close>)
    have idx': "unat ?idx = unat desc_index + (?n - 1)"
    proof -
      have u: "unat (of_nat (?n - 1) :: u32) = ?n - 1" by (rule unat_of_nat_small) (use n1 in simp)
      show ?thesis using n1 idx by (subst unat_add_small; simp only: u) simp_all
    qed
    have slot: "unat (?idx AND dl_desc_count_mask dl) = (unat desc_index + (?n - 1)) mod length (dl_desc_list dl)"
    proof -
      have "dl_is_circular dl \<or> unat ?idx < unat (dl_desc_count dl)"
        unfolding idx' using circ True n1 by linarith
      then show ?thesis using desc_slot [OF wf, of ?idx] idx' wf_desc_listD(1) [OF wf] by simp
    qed
    have lt: "(unat desc_index + (?n - 1)) mod length (dl_desc_list dl) < length (dl_desc_list dl)"
      using wf_desc_listD(1,2) [OF wf] by (intro mod_less_divisor) simp
    show ?thesis
      unfolding hailo_vdma_program_descriptors_in_chunk_def Let_def residue_eq [OF page0(1)]
      using page0(2) True sum mx1 page full slot lt lst n1
      by (simp add: word_less_nat_alt page_def [symmetric] unat_eq_0 chunk_descs_snoc pos dn [symmetric] r place_snoc)
  qed
qed

section \<open>A whole buffer\<close>

text \<open>
  The abstract cut of a buffer: the pieces of the scatter-gather entries that hold the \<open>rem\<close> bytes
  after the first \<open>skip\<close> bytes.
\<close>

fun sg_plan :: "sg_table \<Rightarrow> nat \<Rightarrow> nat \<Rightarrow> (u64 \<times> nat) list" where
  "sg_plan [] skip rem = []"
| "sg_plan ((a, l) # sgs) skip rem =
     (if unat l \<le> skip then sg_plan sgs (skip - unat l) rem
      else if rem = 0 then []
      else (a + of_nat skip, min rem (unat l - skip)) # sg_plan sgs 0 (rem - min rem (unat l - skip)))"

definition sg_total :: "sg_table \<Rightarrow> nat" where
  "sg_total sgs = sum_list (map (\<lambda>(a, l). unat l) sgs)"

lemma sg_total_simps [simp]: "sg_total [] = 0" "sg_total ((a, l) # sgs) = unat l + sg_total sgs"
  by (simp_all add: sg_total_def)

lemma sg_plan_0 [simp]: "sg_plan sgs skip 0 = []"
proof (induction sgs arbitrary: skip)
  case (Cons x sgs) then show ?case by (cases x) simp
qed simp

lemma sg_plan_total:
  "sum_list (map snd (sg_plan sgs skip rem)) = min rem (sg_total sgs - skip)"
proof (induction sgs skip rem rule: sg_plan.induct)
  case (2 a l sgs skip rem)
  then show ?case by (auto simp: min_def not_le)
qed simp

definition plan_descs :: "nat \<Rightarrow> u32 \<Rightarrow> u8 \<Rightarrow> u64 \<Rightarrow> (u64 \<times> nat) list \<Rightarrow> hailo_vdma_descriptor list" where
  "plan_descs page stride data_id chan plan =
     concat (map (\<lambda>(a, n). chunk_descs page stride data_id (a OR chan) n) plan)"

lemma plan_descs_simps [simp]:
  "plan_descs page stride data_id chan [] = []"
  "plan_descs page stride data_id chan ((a, n) # plan) =
     chunk_descs page stride data_id (a OR chan) n @ plan_descs page stride data_id chan plan"
  by (simp_all add: plan_descs_def)

lemma sg_chunk_eq:
  assumes "unat cur + unat l < 2 ^ 64"
  shows "sg_chunk cur offset a l =
    (if unat l \<le> unat offset - unat cur then None
     else Some (a + of_nat (unat offset - unat cur), of_nat (unat l - (unat offset - unat cur))))"
proof -
  have s: "unat (cur + ucast l) = unat cur + unat l" using assms by (subst unat_add_small) simp_all
  consider (in_entry) "unat cur < unat offset" "unat offset < unat cur + unat l"
    | (skip) "unat cur + unat l \<le> unat offset" "0 < unat l"
    | (empty) "unat l = 0"
    | (aligned) "unat offset \<le> unat cur" "0 < unat l" by linarith
  then show ?thesis
  proof cases
    case in_entry
    have d: "unat (ucast offset - cur :: u64) = unat offset - unat cur"
      using unat_sub_le [of cur "ucast offset"] in_entry by (simp add: word_le_nat_alt)
    have "unat (ucast (ucast l - (ucast offset - cur) :: u64) :: u32) = unat l - (unat offset - unat cur)"
      using unat_sub_le [of "ucast offset - cur" "ucast l"] d in_entry unat_less_u32 [of l]
      by (simp add: word_le_nat_alt unat_ucast_mod)
    then have c: "ucast (ucast l - (ucast offset - cur) :: u64) = (of_nat (unat l - (unat offset - unat cur)) :: u32)"
        "ucast (ucast l - (ucast offset - cur) :: u64) \<noteq> (0 :: u32)"
      using in_entry by (metis word_eq_of_nat_unat, auto)
    have o: "ucast offset - cur = (of_nat (unat offset - unat cur) :: u64)"
      using d by (metis word_eq_of_nat_unat)
    show ?thesis using in_entry s c
      unfolding sg_chunk_def o [symmetric] by (simp add: word_less_nat_alt)
  next
    case skip
    show ?thesis
    proof (cases "unat cur + unat l < unat offset")
      case True then show ?thesis using s by (simp add: sg_chunk_def word_less_nat_alt)
    next
      case False
      then have e: "ucast offset = cur + ucast l" using skip s by (intro word_unat_eq_iff [THEN iffD2]) simp
      show ?thesis using skip False s e by (simp add: sg_chunk_def word_less_nat_alt)
    qed
  next
    case empty
    then have "l = 0" by (simp add: unat_eq_0)
    then show ?thesis by (auto simp: sg_chunk_def word_less_nat_alt)
  next
    case aligned
    then show ?thesis using s by (auto simp: sg_chunk_def word_less_nat_alt)
  qed
qed

definition buffer_descs :: "nat \<Rightarrow> u32 \<Rightarrow> u8 \<Rightarrow> u64 \<Rightarrow> sg_table \<Rightarrow> nat \<Rightarrow> nat \<Rightarrow> hailo_vdma_descriptor list" where
  "buffer_descs page stride data_id chan sgs skip rem = plan_descs page stride data_id chan (sg_plan sgs skip rem)"

lemma buffer_descs_simps [simp]:
  "buffer_descs page stride data_id chan [] skip rem = []"
  "buffer_descs page stride data_id chan sgs skip 0 = []"
  "buffer_descs page stride data_id chan ((a, l) # sgs) skip rem =
     (if unat l \<le> skip then buffer_descs page stride data_id chan sgs (skip - unat l) rem
      else if rem = 0 then []
      else chunk_descs page stride data_id ((a + of_nat skip) OR chan) (min rem (unat l - skip)) @
        buffer_descs page stride data_id chan sgs 0 (rem - min rem (unat l - skip)))"
  by (simp_all add: buffer_descs_def)

lemma min_of_nat_u32:
  "b < 2 ^ 32 \<Longrightarrow> unat (min (prog :: u32) (of_nat b)) = min (unat prog) b"
  by (simp add: min_def word_le_nat_alt unat_of_nat_small)

lemma bind_sg_entries_place:
  assumes "wf_desc_list dl" and "unat cur + sg_total sgs < 2 ^ 64" and "unat prog < 2 ^ 31"
    and "unat start \<le> unat mx + 1" and "unat mx < 2 ^ 31 - 1" and "unat mx < unat start + unat (dl_desc_count dl)"
    and "dl_is_circular dl \<or> unat mx < unat (dl_desc_count dl)"
    and "ds = buffer_descs (unat (dl_desc_page_size dl)) stride data_id chan sgs (unat offset - unat cur) (unat prog)"
  shows "if unat start + length ds \<le> unat mx + 1
    then bind_sg_entries sgs offset mx data_id stride chan cur prog start dn dl =
      (Ok (of_nat (unat prog - (sg_total sgs - (unat offset - unat cur))), start + of_nat (length ds), dn + of_nat (length ds)),
       dl\<lparr>dl_desc_list := place (unat start) ds (dl_desc_list dl)\<rparr>)
    else \<exists>ds'. length ds' = length (dl_desc_list dl) \<and>
      bind_sg_entries sgs offset mx data_id stride chan cur prog start dn dl = (Err ERANGE, dl\<lparr>dl_desc_list := ds'\<rparr>)"
  using assms
proof (induction sgs arbitrary: cur prog start dn dl ds)
  case Nil
  then show ?case by simp
next
  case (Cons x sgs)
  obtain a l where x: "x = (a, l)" by (cases x)
  define skip where "skip = unat offset - unat cur"
  have chunk: "sg_chunk cur offset a l =
      (if unat l \<le> skip then None else Some (a + of_nat skip, of_nat (unat l - skip)))"
    using sg_chunk_eq [of cur l offset a] Cons.prems(2) by (simp add: x skip_def)
  have cur': "unat (cur + ucast l) = unat cur + unat l"
    using Cons.prems(2) by (subst unat_add_small) (simp_all add: x)
  show ?case
  proof (cases "unat l \<le> skip")
    case True
    then have "sg_total sgs - (unat offset - (unat cur + unat l)) = unat l + sg_total sgs - (unat offset - unat cur)"
      by (simp add: skip_def)
    with True show ?thesis
      using Cons.IH [of dl "cur + ucast l" prog start ds dn] Cons.prems chunk cur' 
      by (simp add: x skip_def diff_diff_eq)
  next
    case False
    let ?page = "unat (dl_desc_page_size dl)"
    define c where "c = min prog (of_nat (unat l - skip))"
    have cc: "min prog (l - of_nat skip) = c" using False by (simp add: c_def)
    have uc: "unat c = min (unat prog) (unat l - skip)"
      unfolding c_def using unat_less_u32 [of l] by (intro min_of_nat_u32) simp
    show ?thesis
    proof (cases "prog = 0")
      case True
      then show ?thesis using False Cons.prems chunk by (simp add: x skip_def)
    next
      case prog: False
      then have c0: "0 < unat c" "unat c < 2 ^ 31" using uc False Cons.prems(3) by (auto simp: unat_gt_0)
      let ?n = "ceil_div (unat c) ?page"
      let ?cd = "chunk_descs ?page stride data_id ((a + of_nat skip) OR chan) (unat c)"
      let ?rest = "buffer_descs ?page stride data_id chan sgs 0 (unat prog - unat c)"
      have ds: "ds = ?cd @ ?rest"
        using False prog Cons.prems(8) uc by (simp add: x skip_def unat_eq_0)
      have in_chunk: "hailo_vdma_program_descriptors_in_chunk (a + of_nat skip) c dl start mx data_id stride chan =
          (if unat start + ?n \<le> unat mx + 1
           then (Ok (of_nat ?n), dl\<lparr>dl_desc_list := place (unat start) ?cd (dl_desc_list dl)\<rparr>) else (Err ERANGE, dl))"
        using Cons.prems c0 by (intro program_in_chunk_place) auto
      have pc: "unat (prog - c) = unat prog - unat c"
        by (rule unat_sub_le) (simp add: c_def)
      show ?thesis
      proof (cases "unat start + ?n \<le> unat mx + 1")
        case fits: False
        then show ?thesis
          using chunk False prog in_chunk ds
          by (simp add: x cc Let_def) (rule exI [of _ "dl_desc_list dl"], simp)
      next
        case fits: True
        have st: "unat (start + of_nat ?n) = unat start + ?n"
          using fits Cons.prems(5) by (subst unat_add_small) (simp_all add: unat_of_nat_small)
        let ?dl = "dl\<lparr>dl_desc_list := place (unat start) ?cd (dl_desc_list dl)\<rparr>"
        show ?thesis
        proof (cases "prog - c = 0")
          case True
          then have e: "prog = c" by (simp only: right_minus_eq)
          have l: "unat c - (sg_total (x # sgs) - skip) = 0" using uc unfolding e by (simp add: x)
          have cm: "min c (l - of_nat skip) = c" using cc unfolding e .
          show ?thesis
            using chunk False prog in_chunk ds fits l
            unfolding e skip_def [symmetric] by (simp add: x cm Let_def)
        next
          case rest: False
          then have c: "unat c = unat l - skip" "unat c < unat prog" using pc uc by (auto simp: unat_eq_0 min_def split: if_splits)
          have off: "unat offset - unat (cur + ucast l) = 0" using False cur' by (simp add: skip_def)
          have body: "bind_sg_entries (x # sgs) offset mx data_id stride chan cur prog start dn dl =
              bind_sg_entries sgs offset mx data_id stride chan (cur + ucast l) (prog - c) (start + of_nat ?n) (dn + of_nat ?n) ?dl"
            using chunk False prog in_chunk fits rest by (simp add: x cc Let_def)
          have left: "unat prog - unat c - sg_total sgs = unat prog - (sg_total (x # sgs) - skip)"
            using c False by (simp add: x)
          have prems: "wf_desc_list ?dl" "unat (cur + ucast l) + sg_total sgs < 2 ^ 64" "unat (prog - c) < 2 ^ 31"
              "unat (start + of_nat ?n) \<le> unat mx + 1"
              "unat mx < unat (start + of_nat ?n) + unat (dl_desc_count ?dl)"
              "dl_is_circular ?dl \<or> unat mx < unat (dl_desc_count ?dl)"
              "?rest = buffer_descs (unat (dl_desc_page_size ?dl)) stride data_id chan sgs
                 (unat offset - unat (cur + ucast l)) (unat (prog - c))"
            using Cons.prems(1-3,6,7) fits unfolding st cur' pc off [unfolded cur'] by (simp_all add: x)
          from Cons.IH [OF prems(1-4) Cons.prems(5) prems(5-7), of "dn + of_nat ?n"]
          show ?thesis
            unfolding body ds st pc off left skip_def [symmetric] diff_0_eq_0 minus_nat.diff_0
            by (simp add: place_append add.assoc split: if_splits)
        qed
      qed
    qed
  qed
qed

end
