(* ===== verification/Bounded_Queue.thy ===== *)
theory Bounded_Queue
  imports Hailo_Prelude
begin

text \<open>
  The contract of the driver's circular buffers and its consequences. A client sees a first-in
  first-out queue of at most \<open>capacity\<close> elements: \<open>put\<close> appends or reports that the queue is full, \<open>get\<close>
  removes the oldest element or reports that there is none. The second half of the theory has the
  arithmetic of a ring of a power-of-two number of slots addressed by a head and a tail that are
  compared with \<open>CIRC_CNT\<close> and \<open>CIRC_SPACE\<close>, for any width of the indices.
\<close>

locale bounded_queue =
  fixes contents :: "'q \<Rightarrow> 'a list"
    and ring_ok :: "'q \<Rightarrow> bool"
    and elem_ok :: "'a \<Rightarrow> bool"
    and capacity :: nat
    and put :: "'a \<Rightarrow> 'q \<Rightarrow> 'q option"
    and get :: "'q \<Rightarrow> ('a \<times> 'q) option"
  assumes contents_bound: "ring_ok q \<Longrightarrow> length (contents q) \<le> capacity"
    and put_room: "ring_ok q \<Longrightarrow> elem_ok x \<Longrightarrow> length (contents q) < capacity \<Longrightarrow>
        \<exists>q'. put x q = Some q' \<and> ring_ok q' \<and> contents q' = contents q @ [x]"
    and put_full: "ring_ok q \<Longrightarrow> length (contents q) = capacity \<Longrightarrow> put x q = None"
    and get_empty: "ring_ok q \<Longrightarrow> contents q = [] \<Longrightarrow> get q = None"
    and get_oldest: "ring_ok q \<Longrightarrow> contents q = x # xs \<Longrightarrow>
        \<exists>q'. get q = Some (x, q') \<and> ring_ok q' \<and> contents q' = xs"
begin

primrec put_all :: "'a list \<Rightarrow> 'q \<Rightarrow> 'q option" where
  "put_all [] q = Some q"
| "put_all (x # xs) q = (case put x q of None \<Rightarrow> None | Some q' \<Rightarrow> put_all xs q')"

primrec get_many :: "nat \<Rightarrow> 'q \<Rightarrow> 'a list \<times> 'q" where
  "get_many 0 q = ([], q)"
| "get_many (Suc n) q =
     (case get q of None \<Rightarrow> ([], q)
      | Some (x, q') \<Rightarrow> let (xs, q'') = get_many n q' in (x # xs, q''))"

lemma put_all_fits:
  "ring_ok q \<Longrightarrow> (\<And>x. x \<in> set xs \<Longrightarrow> elem_ok x) \<Longrightarrow> length (contents q) + length xs \<le> capacity \<Longrightarrow>
   \<exists>q'. put_all xs q = Some q' \<and> ring_ok q' \<and> contents q' = contents q @ xs"
proof (induction xs arbitrary: q)
  case (Cons x xs)
  then obtain q1 where q1: "put x q = Some q1" "ring_ok q1" "contents q1 = contents q @ [x]"
    using put_room [of q x] by auto
  then show ?case using Cons.IH [of q1] Cons.prems by auto
qed simp

lemma put_all_overflow:
  "ring_ok q \<Longrightarrow> (\<And>x. x \<in> set xs \<Longrightarrow> elem_ok x) \<Longrightarrow> capacity < length (contents q) + length xs \<Longrightarrow> put_all xs q = None"
proof (induction xs arbitrary: q)
  case (Cons x xs)
  show ?case
  proof (cases "length (contents q) = capacity")
    case True then show ?thesis using put_full Cons.prems(1) by simp
  next
    case False
    then obtain q1 where "put x q = Some q1" "ring_ok q1" "contents q1 = contents q @ [x]"
      using put_room [of q x] contents_bound [of q] Cons.prems by fastforce
    then show ?thesis using Cons.IH [of q1] Cons.prems by auto
  qed
qed (use contents_bound in fastforce)

lemma get_many_prefix:
  "ring_ok q \<Longrightarrow> \<exists>q'. get_many n q = (take n (contents q), q') \<and> ring_ok q' \<and> contents q' = drop n (contents q)"
proof (induction n arbitrary: q)
  case (Suc n)
  show ?case
  proof (cases "contents q")
    case Nil then show ?thesis using get_empty [OF Suc.prems] Suc.prems by simp
  next
    case (Cons x xs)
    then obtain q1 where q1: "get q = Some (x, q1)" "ring_ok q1" "contents q1 = xs"
      using get_oldest [OF Suc.prems] by auto
    from Suc.IH [OF q1(2)] obtain q' where
      "get_many n q1 = (take n xs, q')" "ring_ok q'" "contents q' = drop n xs" using q1(3) by auto
    then show ?thesis using q1(1) Cons by auto
  qed
qed simp

text \<open>What went in comes out, oldest first: nothing is lost, duplicated or reordered.\<close>

lemma fifo:
  assumes "ring_ok q" and "\<And>x. x \<in> set xs \<Longrightarrow> elem_ok x" and "length (contents q) + length xs \<le> capacity"
  shows "\<exists>q1 q2. put_all xs q = Some q1 \<and> get_many (length (contents q) + length xs) q1 = (contents q @ xs, q2) \<and>
    ring_ok q2 \<and> contents q2 = []"
proof -
  obtain q1 where q1: "put_all xs q = Some q1" "ring_ok q1" "contents q1 = contents q @ xs"
    using put_all_fits assms by blast
  then show ?thesis using get_many_prefix [OF q1(2), of "length (contents q) + length xs"] by auto
qed

end

section \<open>Ring arithmetic\<close>

definition ring_list :: "nat \<Rightarrow> nat \<Rightarrow> nat \<Rightarrow> 'a list \<Rightarrow> 'a list" where
  "ring_list N h t xs = map (\<lambda>i. xs ! ((t + i) mod N)) [0..<(h + N - t) mod N]"

lemma length_ring_list [simp]: "length (ring_list N h t xs) = (h + N - t) mod N"
  by (simp add: ring_list_def)

lemma ring_count: "(h::nat) < N \<Longrightarrow> t < N \<Longrightarrow> (h + N - t) mod N = (if t \<le> h then h - t else h + N - t)"
  by (auto simp: le_mod_geq)

lemma ring_Suc: "(h::nat) < N \<Longrightarrow> (h + 1) mod N = (if h + 1 = N then 0 else h + 1)"
  by auto

lemma ring_count_Suc:
  assumes "(h::nat) < N" and "t < N" and "(h + N - t) mod N < N - 1"
  shows "((h + 1) mod N + N - t) mod N = (h + N - t) mod N + 1"
proof (cases "h + 1 = N")
  case True
  then have "(h + 1) mod N = 0" by simp
  with True assms show ?thesis by (auto simp: ring_count)
next
  case False
  then have e: "(h + 1) mod N = h + 1" using assms by simp
  have "(h + 1 + N - t) mod N = (if t \<le> h + 1 then h + 1 - t else h + 1 + N - t)"
    using False assms by (intro ring_count) simp_all
  then show ?thesis using assms unfolding e ring_count [OF assms(1,2)] by (auto split: if_splits)
qed

lemma ring_space:
  assumes "(h::nat) < N" and "t < N"
  shows "((h + 1) mod N + (N - 1 - (h + N - t) mod N)) mod N = t"
proof (cases "h + 1 = N")
  case True
  then have "(h + 1) mod N = 0" by simp
  with True assms show ?thesis by (auto simp: ring_count)
next
  case False
  then have e: "(h + 1) mod N = h + 1" using assms by simp
  show ?thesis
  proof (cases "t \<le> h")
    case True
    then have "h + 1 + (N - 1 - (h - t)) = t + N" using assms by simp
    then show ?thesis using True assms unfolding e ring_count [OF assms] by simp
  next
    case False
    then have "h + 1 + (N - 1 - (h + N - t)) = t" using assms by simp
    then show ?thesis using False assms unfolding e ring_count [OF assms] by simp
  qed
qed

lemma ring_nth: "t < N \<Longrightarrow> i < N \<Longrightarrow> (t + i) mod N = (if t + i < N then t + i else t + i - N)" for t :: nat
  by (simp add: mod_add_eq_cases)

lemma ring_list_put:
  assumes "h < N" and "t < N" and "length xs = N" and "(h + N - t) mod N < N - 1"
  shows "ring_list N ((h + 1) mod N) t (xs[h := x]) = ring_list N h t xs @ [x]"
proof (rule nth_equalityI)
  let ?c = "(h + N - t) mod N"
  have c: "((h + 1) mod N + N - t) mod N = ?c + 1"
    using assms by (intro ring_count_Suc)
  then show "length (ring_list N ((h + 1) mod N) t (xs[h := x])) = length (ring_list N h t xs @ [x])" by simp
  fix i assume "i < length (ring_list N ((h + 1) mod N) t (xs[h := x]))"
  then have i: "i \<le> ?c" using c by simp
  have slot: "(t + i) mod N = h \<longleftrightarrow> i = ?c"
    using assms i by (auto simp: ring_count ring_nth split: if_splits)
  have "(t + i) mod N < N" using assms by simp
  then show "ring_list N ((h + 1) mod N) t (xs[h := x]) ! i = (ring_list N h t xs @ [x]) ! i"
    using c i slot assms(1,3) by (auto simp: ring_list_def nth_append)
qed

lemma ring_list_get:
  assumes "h < N" and "t < N" and "0 < (h + N - t) mod N"
  shows "ring_list N h t xs = (xs ! t) # ring_list N h ((t + 1) mod N) xs"
proof (rule nth_equalityI)
  let ?c = "(h + N - t) mod N"
  have c: "(h + N - (t + 1) mod N) mod N = ?c - 1"
    using assms by (cases "t + 1 = N") (auto simp: ring_count split: if_splits)
  then show "length (ring_list N h t xs) = length ((xs ! t) # ring_list N h ((t + 1) mod N) xs)"
    using assms(3) by simp
  fix i assume "i < length (ring_list N h t xs)"
  then show "ring_list N h t xs ! i = ((xs ! t) # ring_list N h ((t + 1) mod N) xs) ! i"
    using c assms by (cases i) (auto simp: ring_list_def mod_simps)
qed

lemma CIRC_CNT_char:
  fixes h t n :: "'a::len word"
  assumes "unat n = 2 ^ k" and "unat h < unat n"
  shows "(unat t + unat (CIRC_CNT h t n)) mod unat n = unat h" and "unat (CIRC_CNT h t n) < unat n"
proof -
  have k: "k < LENGTH('a)" using assms(1) by (rule unat_pow2_eq_less)
  let ?x = "unat (h - t)"
  have dvd: "2 ^ k dvd (2::nat) ^ LENGTH('a)" using k by (intro le_imp_power_dvd) simp
  have "unat (t + (h - t)) = (unat t + ?x) mod 2 ^ LENGTH('a)" by (rule unat_word_ariths)
  then have "(unat t + ?x) mod 2 ^ k = unat h mod 2 ^ k" using mod_mod_cancel [OF dvd, of "unat t + ?x"] by simp
  then have "(unat t + ?x mod 2 ^ k) mod 2 ^ k = unat h" using assms by (simp add: mod_simps)
  moreover have "unat (CIRC_CNT h t n) = ?x mod 2 ^ k"
    unfolding CIRC_CNT_def by (rule unat_and_minus_1) (rule assms(1))
  ultimately show "(unat t + unat (CIRC_CNT h t n)) mod unat n = unat h" "unat (CIRC_CNT h t n) < unat n"
    using assms(1) by simp_all
qed

lemma unat_CIRC_CNT:
  fixes h t n :: "'a::len word"
  assumes "unat n = 2 ^ k" and "unat h < unat n" and "unat t < unat n"
  shows "unat (CIRC_CNT h t n) = (unat h + unat n - unat t) mod unat n"
proof (rule mod_inj_window [of "unat t" _ "unat n"])
  show "(unat t + unat (CIRC_CNT h t n)) mod unat n = (unat t + (unat h + unat n - unat t) mod unat n) mod unat n"
    using CIRC_CNT_char [OF assms(1,2)] assms(2,3) by (simp add: mod_simps)
  show "unat (CIRC_CNT h t n) < unat n" by (rule CIRC_CNT_char) (fact assms)+
  show "(unat h + unat n - unat t) mod unat n < unat n" using assms(2) by simp
qed

lemma unat_ring_next:
  fixes h n :: "'a::len word"
  assumes "unat n = 2 ^ k" and "unat h < unat n"
  shows "unat ((h + 1) AND (n - 1)) = (unat h + 1) mod unat n"
proof -
  have k: "k < LENGTH('a)" using assms(1) by (rule unat_pow2_eq_less)
  have "2 ^ k dvd (2::nat) ^ LENGTH('a)" using k by (intro le_imp_power_dvd) simp
  then have "unat (h + 1) mod 2 ^ k = (unat h + 1) mod 2 ^ k"
    by (simp add: unat_word_ariths mod_mod_cancel)
  then show ?thesis unfolding unat_and_minus_1 [OF assms(1)] assms(1) .
qed

lemma unat_CIRC_SPACE:
  fixes h t n :: "'a::len word"
  assumes "unat n = 2 ^ k" and "unat h < unat n" and "unat t < unat n"
  shows "unat (CIRC_SPACE h t n) = unat n - 1 - (unat h + unat n - unat t) mod unat n"
proof -
  let ?h = "(unat h + 1) mod unat n"
  let ?c = "(unat h + unat n - unat t) mod unat n"
  have k: "k < LENGTH('a)" using assms(1) by (rule unat_pow2_eq_less)
  have "2 ^ k dvd (2::nat) ^ LENGTH('a)" using k by (intro le_imp_power_dvd) simp
  then have h: "unat (h + 1) mod unat n = ?h" unfolding assms(1) by (simp add: unat_word_ariths mod_mod_cancel)
  have a: "(?h + unat (CIRC_SPACE h t n)) mod unat n = unat t"
    using CIRC_CNT_char(1) [OF assms(1,3), of "h + 1"] unfolding CIRC_SPACE_def by (metis h mod_add_left_eq)
  have b: "(?h + (unat n - 1 - ?c)) mod unat n = unat t"
    using assms(2,3) by (rule ring_space)
  have lt: "unat (CIRC_SPACE h t n) < unat n"
    unfolding CIRC_SPACE_def by (rule CIRC_CNT_char(2) [OF assms(1,3)])
  have "unat n - 1 - ?c < unat n" using assms(2) by linarith
  then show ?thesis by (rule mod_inj_window [OF trans [OF a b [symmetric]] lt])
qed

end
