(* ===== verification/Vdma_Rings.thy ===== *)
theory Vdma_Rings
  imports Vdma_Descriptors Bounded_Queue
begin

text \<open>
  The two circular buffers of a vDMA channel (\<open>src/common/vdma_common.c\<close>): the ongoing transfers,
  128 slots indexed by \<open>unsigned long\<close>, and the interrupt timestamps, 256 slots indexed by \<open>int\<close> (32 bits;
  both indices stay below 256, so the sign never matters). Both implement the contract
  \<open>bounded_queue\<close>, of capacity 127 and 255.
\<close>

definition HAILO_VDMA_MAX_ONGOING_TRANSFERS :: nat where "HAILO_VDMA_MAX_ONGOING_TRANSFERS = 128"
definition HAILO_VDMA_MAX_ONGOING_TRANSFERS_MASK :: u64 where "HAILO_VDMA_MAX_ONGOING_TRANSFERS_MASK = 127"
definition CHANNEL_IRQ_TIMESTAMPS_SIZE :: nat where "CHANNEL_IRQ_TIMESTAMPS_SIZE = 256"
definition CHANNEL_IRQ_TIMESTAMPS_SIZE_MASK :: u32 where "CHANNEL_IRQ_TIMESTAMPS_SIZE_MASK = 255"
definition HAILO_MAX_BUFFERS_PER_SINGLE_TRANSFER :: nat where "HAILO_MAX_BUFFERS_PER_SINGLE_TRANSFER = 8"
definition MAX_DIRTY_DESCRIPTORS_PER_TRANSFER :: nat where
  "MAX_DIRTY_DESCRIPTORS_PER_TRANSFER = HAILO_MAX_BUFFERS_PER_SINGLE_TRANSFER + 1"

lemmas ring_consts = HAILO_VDMA_MAX_ONGOING_TRANSFERS_def HAILO_VDMA_MAX_ONGOING_TRANSFERS_MASK_def
  CHANNEL_IRQ_TIMESTAMPS_SIZE_def CHANNEL_IRQ_TIMESTAMPS_SIZE_MASK_def HAILO_MAX_BUFFERS_PER_SINGLE_TRANSFER_def
  MAX_DIRTY_DESCRIPTORS_PER_TRANSFER_def

record hailo_ongoing_transfer =
  ot_last_desc :: u16
  ot_buffers_count :: u8
  ot_buffers :: "hailo_vdma_mapped_transfer_buffer list"
  ot_dirty_descs_count :: u8
  ot_dirty_descs :: "u16 list"
  ot_is_debug :: bool

record hailo_ongoing_transfers_list =
  otl_head :: u64
  otl_tail :: u64
  otl_transfers :: "hailo_ongoing_transfer list"

record hailo_channel_interrupt_timestamp =
  ts_timestamp_ns :: u64
  ts_desc_num_processed :: u16

record hailo_channel_interrupt_timestamp_list =
  tsl_head :: u32
  tsl_tail :: u32
  tsl_timestamps :: "hailo_channel_interrupt_timestamp list"

definition ONGOING_TRANSFERS_CIRC_SPACE :: "hailo_ongoing_transfers_list \<Rightarrow> u64" where
  "ONGOING_TRANSFERS_CIRC_SPACE l = CIRC_SPACE (otl_head l) (otl_tail l) (of_nat HAILO_VDMA_MAX_ONGOING_TRANSFERS)"
definition ONGOING_TRANSFERS_CIRC_CNT :: "hailo_ongoing_transfers_list \<Rightarrow> u64" where
  "ONGOING_TRANSFERS_CIRC_CNT l = CIRC_CNT (otl_head l) (otl_tail l) (of_nat HAILO_VDMA_MAX_ONGOING_TRANSFERS)"
definition TIMESTAMPS_CIRC_SPACE :: "hailo_channel_interrupt_timestamp_list \<Rightarrow> u32" where
  "TIMESTAMPS_CIRC_SPACE l = CIRC_SPACE (tsl_head l) (tsl_tail l) (of_nat CHANNEL_IRQ_TIMESTAMPS_SIZE)"
definition TIMESTAMPS_CIRC_CNT :: "hailo_channel_interrupt_timestamp_list \<Rightarrow> u32" where
  "TIMESTAMPS_CIRC_CNT l = CIRC_CNT (tsl_head l) (tsl_tail l) (of_nat CHANNEL_IRQ_TIMESTAMPS_SIZE)"

definition ongoing_transfer_push ::
    "hailo_ongoing_transfer \<Rightarrow> hailo_ongoing_transfers_list \<Rightarrow> unit result \<times> hailo_ongoing_transfers_list" where
  "ongoing_transfer_push ongoing_transfer transfers =
     (if ONGOING_TRANSFERS_CIRC_SPACE transfers = 0 then (Err EFAULT, transfers)
      else if MAX_DIRTY_DESCRIPTORS_PER_TRANSFER < unat (ot_dirty_descs_count ongoing_transfer) then (Err EFAULT, transfers)
      else case array_modify (otl_transfers transfers) (unat (otl_head transfers)) (\<lambda>_. ongoing_transfer) of
             Ok ts \<Rightarrow> (Ok (), transfers\<lparr>otl_transfers := ts,
                 otl_head := (otl_head transfers + 1) AND HAILO_VDMA_MAX_ONGOING_TRANSFERS_MASK\<rparr>)
           | Err e \<Rightarrow> (Err e, transfers)
           | Fault f \<Rightarrow> (Fault f, transfers))"

text \<open>The argument \<open>want\<close> says whether the caller passes a place for the transfer or \<open>NULL\<close>.\<close>

definition ongoing_transfer_pop ::
    "bool \<Rightarrow> hailo_ongoing_transfers_list \<Rightarrow> hailo_ongoing_transfer option result \<times> hailo_ongoing_transfers_list" where
  "ongoing_transfer_pop want transfers =
     (if ONGOING_TRANSFERS_CIRC_CNT transfers = 0 then (Err EFAULT, transfers)
      else let transfers' = transfers\<lparr>otl_tail := (otl_tail transfers + 1) AND HAILO_VDMA_MAX_ONGOING_TRANSFERS_MASK\<rparr>
           in if want
              then (bind_r (array_get (otl_transfers transfers) (unat (otl_tail transfers))) (\<lambda>t. Ok (Some t)), transfers')
              else (Ok None, transfers'))"

text \<open>The body of \<open>hailo_vdma_push_timestamp\<close> once the timestamp is taken: a full list drops it.\<close>

definition timestamp_list_push ::
    "hailo_channel_interrupt_timestamp \<Rightarrow> hailo_channel_interrupt_timestamp_list \<Rightarrow>
     hailo_channel_interrupt_timestamp_list result" where
  "timestamp_list_push ts tsl =
     (if TIMESTAMPS_CIRC_SPACE tsl \<noteq> 0
      then bind_r (array_modify (tsl_timestamps tsl) (unat (tsl_head tsl)) (\<lambda>_. ts)) (\<lambda>xs.
             Ok (tsl\<lparr>tsl_timestamps := xs, tsl_head := (tsl_head tsl + 1) AND CHANNEL_IRQ_TIMESTAMPS_SIZE_MASK\<rparr>))
      else Ok tsl)"

definition hailo_vdma_pop_timestamp ::
    "hailo_channel_interrupt_timestamp_list \<Rightarrow>
     (hailo_channel_interrupt_timestamp option \<times> hailo_channel_interrupt_timestamp_list) result" where
  "hailo_vdma_pop_timestamp tsl =
     (if TIMESTAMPS_CIRC_CNT tsl = 0 then Ok (None, tsl)
      else bind_r (array_get (tsl_timestamps tsl) (unat (tsl_tail tsl))) (\<lambda>ts.
             Ok (Some ts, tsl\<lparr>tsl_tail := (tsl_tail tsl + 1) AND CHANNEL_IRQ_TIMESTAMPS_SIZE_MASK\<rparr>)))"

text \<open>
  The loop of \<open>hailo_vdma_pop_timestamps_to_response\<close>. Its first argument is the number of free slots of the
  response. The code pops before it tests the index, so with no slot left a successful pop writes behind
  the array.
\<close>

fun pop_timestamps ::
    "nat \<Rightarrow> u32 \<Rightarrow> hailo_channel_interrupt_timestamp_list \<Rightarrow>
     (hailo_channel_interrupt_timestamp list \<times> hailo_channel_interrupt_timestamp_list) result" where
  "pop_timestamps 0 desc_count_mask tsl =
     bind_r (hailo_vdma_pop_timestamp tsl) (\<lambda>(r, tsl'). case r of None \<Rightarrow> Ok ([], tsl') | Some _ \<Rightarrow> Fault Out_of_bounds)"
| "pop_timestamps (Suc n) desc_count_mask tsl =
     bind_r (hailo_vdma_pop_timestamp tsl) (\<lambda>(r, tsl').
       case r of
         None \<Rightarrow> Ok ([], tsl')
       | Some ts \<Rightarrow>
           bind_r (pop_timestamps n desc_count_mask tsl') (\<lambda>(tss, tsl'').
             Ok (ts\<lparr>ts_desc_num_processed := ucast (ucast (ts_desc_num_processed ts) AND desc_count_mask)\<rparr> # tss, tsl'')))"

section \<open>Ongoing transfers are a queue of 127\<close>

definition otl_contents :: "hailo_ongoing_transfers_list \<Rightarrow> hailo_ongoing_transfer list" where
  "otl_contents l = ring_list 128 (unat (otl_head l)) (unat (otl_tail l)) (otl_transfers l)"

definition otl_ok :: "hailo_ongoing_transfers_list \<Rightarrow> bool" where
  "otl_ok l \<longleftrightarrow> unat (otl_head l) < 128 \<and> unat (otl_tail l) < 128 \<and> length (otl_transfers l) = 128"

definition ot_ok :: "hailo_ongoing_transfer \<Rightarrow> bool" where
  "ot_ok t \<longleftrightarrow> unat (ot_dirty_descs_count t) \<le> 9"

definition otl_put :: "hailo_ongoing_transfer \<Rightarrow> hailo_ongoing_transfers_list \<Rightarrow> hailo_ongoing_transfers_list option" where
  "otl_put t l = (case ongoing_transfer_push t l of (Ok _, l') \<Rightarrow> Some l' | _ \<Rightarrow> None)"

definition otl_get :: "hailo_ongoing_transfers_list \<Rightarrow> (hailo_ongoing_transfer \<times> hailo_ongoing_transfers_list) option" where
  "otl_get l = (case ongoing_transfer_pop True l of (Ok (Some t), l') \<Rightarrow> Some (t, l') | _ \<Rightarrow> None)"

lemma otl_count: "otl_ok l \<Longrightarrow> unat (ONGOING_TRANSFERS_CIRC_CNT l) = length (otl_contents l)"
  unfolding ONGOING_TRANSFERS_CIRC_CNT_def otl_contents_def otl_ok_def ring_consts
  using unat_CIRC_CNT [of "128 :: u64" 7 "otl_head l" "otl_tail l"] by simp

lemma otl_space: "otl_ok l \<Longrightarrow> unat (ONGOING_TRANSFERS_CIRC_SPACE l) = 127 - length (otl_contents l)"
  unfolding ONGOING_TRANSFERS_CIRC_SPACE_def otl_contents_def otl_ok_def ring_consts
  using unat_CIRC_SPACE [of "128 :: u64" 7 "otl_head l" "otl_tail l"] by simp

lemma otl_bound: "otl_ok l \<Longrightarrow> length (otl_contents l) \<le> 127"
proof -
  have "(unat (otl_head l) + 128 - unat (otl_tail l)) mod 128 < 128" by (rule mod_less_divisor) simp
  then show ?thesis by (simp add: otl_contents_def del: mod_less_divisor)
qed

lemma otl_next: "unat h < 128 \<Longrightarrow> unat ((h + 1) AND HAILO_VDMA_MAX_ONGOING_TRANSFERS_MASK) = (unat h + 1) mod 128"
  using unat_ring_next [of "128 :: u64" 7 h] by (simp add: ring_consts)

lemma push_ok:
  assumes "otl_ok l" and "ot_ok t" and "length (otl_contents l) < 127"
  shows "\<exists>l'. ongoing_transfer_push t l = (Ok (), l') \<and> otl_ok l' \<and> otl_contents l' = otl_contents l @ [t]"
proof -
  have "ONGOING_TRANSFERS_CIRC_SPACE l \<noteq> 0" using otl_space [OF assms(1)] assms(3) by (metis unat_0 zero_less_diff less_irrefl)
  then have p: "ongoing_transfer_push t l = (Ok (), l\<lparr>otl_transfers := (otl_transfers l)[unat (otl_head l) := t],
      otl_head := (otl_head l + 1) AND HAILO_VDMA_MAX_ONGOING_TRANSFERS_MASK\<rparr>)" (is "_ = (_, ?l)")
    using assms(1,2) by (simp add: ongoing_transfer_push_def otl_ok_def ot_ok_def ring_consts)
  have "otl_ok ?l" using assms(1) by (simp add: otl_ok_def otl_next)
  moreover have "otl_contents ?l = otl_contents l @ [t]"
    using ring_list_put [of "unat (otl_head l)" 128 "unat (otl_tail l)" "otl_transfers l" t] assms(1,3)
    by (simp add: otl_contents_def otl_ok_def otl_next)
  ultimately show ?thesis using p by blast
qed

lemma push_full: "otl_ok l \<Longrightarrow> length (otl_contents l) = 127 \<Longrightarrow> ongoing_transfer_push t l = (Err EFAULT, l)"
  using otl_space [of l] by (simp add: ongoing_transfer_push_def unat_eq_0)

lemma pop_empty: "otl_ok l \<Longrightarrow> otl_contents l = [] \<Longrightarrow> ongoing_transfer_pop w l = (Err EFAULT, l)"
  using otl_count [of l] by (simp add: ongoing_transfer_pop_def unat_eq_0)

lemma pop_ok:
  assumes "otl_ok l" and "otl_contents l = t # ts"
  shows "\<exists>l'. ongoing_transfer_pop w l = (Ok (if w then Some t else None), l') \<and> otl_ok l' \<and> otl_contents l' = ts \<and>
    otl_transfers l ! unat (otl_tail l) = t"
proof -
  have c: "ONGOING_TRANSFERS_CIRC_CNT l \<noteq> 0" using otl_count [OF assms(1)] assms(2) by auto
  let ?l = "l\<lparr>otl_tail := (otl_tail l + 1) AND HAILO_VDMA_MAX_ONGOING_TRANSFERS_MASK\<rparr>"
  have "0 < (unat (otl_head l) + 128 - unat (otl_tail l)) mod 128"
    using arg_cong [OF assms(2), of length] by (simp add: otl_contents_def)
  then have r: "otl_contents l = otl_transfers l ! unat (otl_tail l) # otl_contents ?l"
    using ring_list_get [of "unat (otl_head l)" 128 "unat (otl_tail l)" "otl_transfers l"] assms(1)
    by (simp add: otl_contents_def otl_ok_def otl_next)
  have "otl_ok ?l" using assms(1) by (simp add: otl_ok_def otl_next)
  with r c assms show ?thesis by (auto simp: ongoing_transfer_pop_def Let_def otl_ok_def)
qed

interpretation ongoing: bounded_queue otl_contents otl_ok ot_ok 127 otl_put otl_get
proof
  fix l x xs
  assume l: "otl_ok l"
  show "length (otl_contents l) \<le> 127" using l by (rule otl_bound)
  show "\<exists>q'. otl_put x l = Some q' \<and> otl_ok q' \<and> otl_contents q' = otl_contents l @ [x]"
    if "ot_ok x" "length (otl_contents l) < 127"
    using push_ok [OF l that] by (auto simp: otl_put_def)
  show "otl_put x l = None" if "length (otl_contents l) = 127"
    using push_full [OF l that] by (simp add: otl_put_def)
  show "otl_get l = None" if "otl_contents l = []" using pop_empty [OF l that] by (simp add: otl_get_def)
  show "\<exists>q'. otl_get l = Some (x, q') \<and> otl_ok q' \<and> otl_contents q' = xs" if "otl_contents l = x # xs"
    using pop_ok [OF l that, of True] by (auto simp: otl_get_def)
qed

section \<open>Timestamps are a queue of 255\<close>

definition tsl_contents :: "hailo_channel_interrupt_timestamp_list \<Rightarrow> hailo_channel_interrupt_timestamp list" where
  "tsl_contents l = ring_list 256 (unat (tsl_head l)) (unat (tsl_tail l)) (tsl_timestamps l)"

definition tsl_ok :: "hailo_channel_interrupt_timestamp_list \<Rightarrow> bool" where
  "tsl_ok l \<longleftrightarrow> unat (tsl_head l) < 256 \<and> unat (tsl_tail l) < 256 \<and> length (tsl_timestamps l) = 256"

definition tsl_put ::
    "hailo_channel_interrupt_timestamp \<Rightarrow> hailo_channel_interrupt_timestamp_list \<Rightarrow>
     hailo_channel_interrupt_timestamp_list option" where
  "tsl_put t l = (if TIMESTAMPS_CIRC_SPACE l = 0 then None
     else case timestamp_list_push t l of Ok l' \<Rightarrow> Some l' | _ \<Rightarrow> None)"

definition tsl_get ::
    "hailo_channel_interrupt_timestamp_list \<Rightarrow>
     (hailo_channel_interrupt_timestamp \<times> hailo_channel_interrupt_timestamp_list) option" where
  "tsl_get l = (case hailo_vdma_pop_timestamp l of Ok (Some t, l') \<Rightarrow> Some (t, l') | _ \<Rightarrow> None)"

lemma tsl_count: "tsl_ok l \<Longrightarrow> unat (TIMESTAMPS_CIRC_CNT l) = length (tsl_contents l)"
  unfolding TIMESTAMPS_CIRC_CNT_def tsl_contents_def tsl_ok_def ring_consts
  using unat_CIRC_CNT [of "256 :: u32" 8 "tsl_head l" "tsl_tail l"] by simp

lemma tsl_space: "tsl_ok l \<Longrightarrow> unat (TIMESTAMPS_CIRC_SPACE l) = 255 - length (tsl_contents l)"
  unfolding TIMESTAMPS_CIRC_SPACE_def tsl_contents_def tsl_ok_def ring_consts
  using unat_CIRC_SPACE [of "256 :: u32" 8 "tsl_head l" "tsl_tail l"] by simp

lemma tsl_bound: "tsl_ok l \<Longrightarrow> length (tsl_contents l) \<le> 255"
proof -
  have "(unat (tsl_head l) + 256 - unat (tsl_tail l)) mod 256 < 256" by (rule mod_less_divisor) simp
  then show ?thesis by (simp add: tsl_contents_def del: mod_less_divisor)
qed

lemma tsl_next: "unat h < 256 \<Longrightarrow> unat ((h + 1) AND CHANNEL_IRQ_TIMESTAMPS_SIZE_MASK) = (unat h + 1) mod 256"
  using unat_ring_next [of "256 :: u32" 8 h] by (simp add: ring_consts)

lemma timestamp_push_ok:
  assumes "tsl_ok l" and "length (tsl_contents l) < 255"
  shows "\<exists>l'. timestamp_list_push t l = Ok l' \<and> tsl_ok l' \<and> tsl_contents l' = tsl_contents l @ [t]"
proof -
  have "TIMESTAMPS_CIRC_SPACE l \<noteq> 0" using tsl_space [OF assms(1)] assms(2) by (metis unat_0 zero_less_diff less_irrefl)
  then have p: "timestamp_list_push t l = Ok (l\<lparr>tsl_timestamps := (tsl_timestamps l)[unat (tsl_head l) := t],
      tsl_head := (tsl_head l + 1) AND CHANNEL_IRQ_TIMESTAMPS_SIZE_MASK\<rparr>)" (is "_ = Ok ?l")
    using assms(1) by (simp add: timestamp_list_push_def tsl_ok_def)
  have "tsl_ok ?l" using assms(1) by (simp add: tsl_ok_def tsl_next)
  moreover have "tsl_contents ?l = tsl_contents l @ [t]"
    using ring_list_put [of "unat (tsl_head l)" 256 "unat (tsl_tail l)" "tsl_timestamps l" t] assms
    by (simp add: tsl_contents_def tsl_ok_def tsl_next)
  ultimately show ?thesis using p by blast
qed

lemma timestamp_push_full: "tsl_ok l \<Longrightarrow> length (tsl_contents l) = 255 \<Longrightarrow> timestamp_list_push t l = Ok l"
  using tsl_space [of l] by (simp add: timestamp_list_push_def unat_eq_0)

lemma pop_timestamp_empty: "tsl_ok l \<Longrightarrow> tsl_contents l = [] \<Longrightarrow> hailo_vdma_pop_timestamp l = Ok (None, l)"
  using tsl_count [of l] by (simp add: hailo_vdma_pop_timestamp_def unat_eq_0)

lemma pop_timestamp_ok:
  assumes "tsl_ok l" and "tsl_contents l = t # ts"
  shows "\<exists>l'. hailo_vdma_pop_timestamp l = Ok (Some t, l') \<and> tsl_ok l' \<and> tsl_contents l' = ts"
proof -
  have c: "TIMESTAMPS_CIRC_CNT l \<noteq> 0" using tsl_count [OF assms(1)] assms(2) by auto
  let ?l = "l\<lparr>tsl_tail := (tsl_tail l + 1) AND CHANNEL_IRQ_TIMESTAMPS_SIZE_MASK\<rparr>"
  have "0 < (unat (tsl_head l) + 256 - unat (tsl_tail l)) mod 256"
    using arg_cong [OF assms(2), of length] by (simp add: tsl_contents_def)
  then have r: "tsl_contents l = tsl_timestamps l ! unat (tsl_tail l) # tsl_contents ?l"
    using ring_list_get [of "unat (tsl_head l)" 256 "unat (tsl_tail l)" "tsl_timestamps l"] assms(1)
    by (simp add: tsl_contents_def tsl_ok_def tsl_next)
  have "tsl_ok ?l" using assms(1) by (simp add: tsl_ok_def tsl_next)
  with r c assms show ?thesis by (auto simp: hailo_vdma_pop_timestamp_def tsl_ok_def)
qed

interpretation timestamps: bounded_queue tsl_contents tsl_ok "\<lambda>_. True" 255 tsl_put tsl_get
proof
  fix l x xs
  assume l: "tsl_ok l"
  show "length (tsl_contents l) \<le> 255" using l by (rule tsl_bound)
  show "\<exists>q'. tsl_put x l = Some q' \<and> tsl_ok q' \<and> tsl_contents q' = tsl_contents l @ [x]"
    if "length (tsl_contents l) < 255"
    using timestamp_push_ok [OF l that, of x] tsl_space [OF l] that by (auto simp: tsl_put_def)
  show "tsl_put x l = None" if "length (tsl_contents l) = 255"
    using tsl_space [OF l] that by (simp add: tsl_put_def unat_eq_0)
  show "tsl_get l = None" if "tsl_contents l = []" using pop_timestamp_empty [OF l that] by (simp add: tsl_get_def)
  show "\<exists>q'. tsl_get l = Some (x, q') \<and> tsl_ok q' \<and> tsl_contents q' = xs" if "tsl_contents l = x # xs"
    using pop_timestamp_ok [OF l that] by (auto simp: tsl_get_def)
qed

lemma pop_timestamps_all:
  "tsl_ok l \<Longrightarrow> length (tsl_contents l) \<le> n \<Longrightarrow>
   \<exists>l'. pop_timestamps n m l =
     Ok (map (\<lambda>t. t\<lparr>ts_desc_num_processed := ucast (ucast (ts_desc_num_processed t) AND m)\<rparr>) (tsl_contents l), l') \<and>
     tsl_ok l' \<and> tsl_contents l' = []"
proof (induction n arbitrary: l)
  case 0 then show ?case by (simp add: pop_timestamp_empty)
next
  case (Suc n)
  show ?case
  proof (cases "tsl_contents l")
    case Nil then show ?thesis using Suc.prems by (simp add: pop_timestamp_empty)
  next
    case (Cons t ts)
    then obtain l1 where l1: "hailo_vdma_pop_timestamp l = Ok (Some t, l1)" "tsl_ok l1" "tsl_contents l1 = ts"
      using pop_timestamp_ok [OF Suc.prems(1)] by blast
    then show ?thesis using Suc.IH [OF l1(2)] Suc.prems(2) Cons by auto
  qed
qed

section \<open>Properties\<close>

text \<open>The ring of ongoing transfers loses, duplicates and reorders nothing: from any valid state of the ring, any
  list of transfers that fits beside the queued ones (127 in all) is accepted, one push after the other, and popping
  then returns the queued transfers and the new ones in the order of their arrival and leaves the ring empty.\<close>
theorem ongoing_transfers_fifo:
  assumes "otl_ok l" and "\<forall>t \<in> set ts. unat (ot_dirty_descs_count t) \<le> 9"
    and "length (otl_contents l) + length ts \<le> 127"
  shows "\<exists>l1 l2. ongoing.put_all ts l = Some l1 \<and>
    ongoing.get_many (length (otl_contents l) + length ts) l1 = (otl_contents l @ ts, l2) \<and> otl_contents l2 = []"
  using ongoing.fifo [OF assms(1), of ts] assms(2,3) by (auto simp: ot_ok_def)

text \<open>C30: The ring of ongoing transfers refines a queue of at most 127 transfers. A push on a valid ring appends the
  transfer when there is room and its count of dirty descriptors fits the array, and otherwise returns \<open>EFAULT\<close> and
  changes nothing; a pop removes the oldest transfer, with or without returning it, and on an empty ring returns
  \<open>EFAULT\<close> and changes nothing. The ring stays valid and no slot outside the array is touched.\<close>
theorem ongoing_transfers_refine_queue:
  assumes "otl_ok l"
  shows "(if length (otl_contents l) < 127 \<and> unat (ot_dirty_descs_count t) \<le> 9
      then \<exists>l'. ongoing_transfer_push t l = (Ok (), l') \<and> otl_ok l' \<and> otl_contents l' = otl_contents l @ [t]
      else ongoing_transfer_push t l = (Err EFAULT, l)) \<and>
    (case otl_contents l of
       [] \<Rightarrow> ongoing_transfer_pop w l = (Err EFAULT, l)
     | x # xs \<Rightarrow> \<exists>l'. ongoing_transfer_pop w l = (Ok (if w then Some x else None), l') \<and> otl_ok l' \<and> otl_contents l' = xs)"
proof (intro conjI)
  show "if length (otl_contents l) < 127 \<and> unat (ot_dirty_descs_count t) \<le> 9
      then \<exists>l'. ongoing_transfer_push t l = (Ok (), l') \<and> otl_ok l' \<and> otl_contents l' = otl_contents l @ [t]
      else ongoing_transfer_push t l = (Err EFAULT, l)"
    using push_ok [OF assms, of t] push_full [OF assms, of t] otl_bound [OF assms]
    by (auto simp: ot_ok_def ongoing_transfer_push_def ring_consts)
  show "case otl_contents l of
       [] \<Rightarrow> ongoing_transfer_pop w l = (Err EFAULT, l)
     | x # xs \<Rightarrow> \<exists>l'. ongoing_transfer_pop w l = (Ok (if w then Some x else None), l') \<and> otl_ok l' \<and> otl_contents l' = xs"
    using pop_empty [OF assms, of w] pop_ok [OF assms, of _ _ w] by (cases "otl_contents l") auto
qed

definition sample_transfer :: hailo_ongoing_transfer where
  "sample_transfer = \<lparr> ot_last_desc = 3, ot_buffers_count = 1, ot_buffers = [], ot_dirty_descs_count = 2,
     ot_dirty_descs = [0, 3], ot_is_debug = False \<rparr>"

definition sample_ring :: hailo_ongoing_transfers_list where
  "sample_ring = \<lparr> otl_head = 127, otl_tail = 127, otl_transfers = replicate 128 sample_transfer \<rparr>"

lemma sample_ring_facts: "otl_ok sample_ring" "otl_contents sample_ring = []"
  by (simp_all add: otl_ok_def otl_contents_def sample_ring_def ring_list_def)

theorem ongoing_transfers_refine_queue_witness:
  "\<exists>l'. ongoing_transfer_push sample_transfer sample_ring = (Ok (), l') \<and> otl_contents l' = [sample_transfer]"
  using ongoing_transfers_refine_queue [OF sample_ring_facts(1), of sample_transfer True]
  by (auto simp: sample_ring_facts sample_transfer_def)

theorem ongoing_transfers_fifo_witness:
  "\<exists>l1 l2. ongoing.put_all [sample_transfer, sample_transfer\<lparr>ot_last_desc := 4\<rparr>] sample_ring = Some l1 \<and>
    ongoing.get_many 2 l1 = ([sample_transfer, sample_transfer\<lparr>ot_last_desc := 4\<rparr>], l2)"
proof -
  let ?ts = "[sample_transfer, sample_transfer\<lparr>ot_last_desc := 4\<rparr>]"
  have d: "\<forall>t \<in> set ?ts. unat (ot_dirty_descs_count t) \<le> 9" by (simp add: sample_transfer_def)
  have l: "length (otl_contents sample_ring) + length ?ts \<le> 127" by (simp add: sample_ring_facts)
  have n: "length ([] :: hailo_ongoing_transfer list) + length ?ts = 2" by simp
  from ongoing_transfers_fifo [OF sample_ring_facts(1) d l]
  show ?thesis unfolding sample_ring_facts(2) n append_Nil by blast
qed

end
