(* ===== verification/Vdma_Binding.thy ===== *)
theory Vdma_Binding
  imports Vdma_Descriptors
begin

text \<open>
  What programming a descriptors list means for the hardware: the bytes a run of descriptors addresses,
  the exact result of binding a buffer (every branch), its coverage of the buffer, memory safety for
  arbitrary arguments, and the documented pattern of a batch of transfers.
\<close>

section \<open>Which bytes a run of descriptors transfers\<close>

definition desc_addr :: "hailo_vdma_descriptor \<Rightarrow> u64" where
  "desc_addr d = push_bit 32 (ucast (AddrH d)) OR (ucast (AddrL_rsvd_DataID d) AND DESCRIPTOR_ADDR_L_MASK)"

definition desc_size :: "hailo_vdma_descriptor \<Rightarrow> nat" where
  "desc_size d = unat (drop_bit 8 (PageSize_DescControl d))"

definition desc_bytes :: "hailo_vdma_descriptor \<Rightarrow> u64 list" where
  "desc_bytes d = map (\<lambda>j. desc_addr d + of_nat j) [0..<desc_size d]"

definition sg_bytes :: "sg_table \<Rightarrow> u64 list" where
  "sg_bytes sgs = concat (map (\<lambda>(a, l). map (\<lambda>j. a + of_nat j) [0..<unat l]) sgs)"

lemma bit_u8_ge: "unat (v :: u8) < 64 \<Longrightarrow> 6 \<le> i \<Longrightarrow> \<not> bit v i"
proof -
  assume v: "unat v < 64" and i: "6 \<le> i"
  have "v = take_bit 6 v" using v by (simp add: take_bit_eq_mod unat_mod word_unat_eq_iff) 
  then show ?thesis using i by (metis bit_take_bit_iff not_less)
qed

lemma desc_addr_program:
  assumes "a AND 63 = 0" and "unat data_id < 64"
  shows "desc_addr (hailo_vdma_program_descriptor a s data_id) = a"
proof (rule bit_word_eqI)
  fix i assume "i < LENGTH(64)"
  have "\<not> bit a i" if "i < 6"
  proof -
    have "\<not> bit (a AND mask 6) i" using assms(1) by (simp add: mask_eq_exp_minus_1)
    then show ?thesis using that by (simp add: bit_and_iff bit_mask_iff)
  qed
  moreover have m: "(0xFFFFFFC0 :: u64) = mask 32 AND NOT (mask 6)"
    by (simp add: mask_eq_exp_minus_1)
  ultimately show "bit (desc_addr (hailo_vdma_program_descriptor a s data_id)) i \<longleftrightarrow> bit a i"
    using bit_u8_ge [OF assms(2), of i] \<open>i < LENGTH(64)\<close>
    by (cases "i < 32") (auto simp: desc_addr_def hailo_vdma_program_descriptor_def vdma_defs bit_simps m)
qed

lemma desc_size_program:
  assumes "unat s < 2 ^ 24"
  shows "desc_size (hailo_vdma_program_descriptor a s data_id) = unat s"
proof -
  have "push_bit 8 s + 2 = of_nat (unat s * 256 + 2)"
    by (simp add: push_bit_eq_mult)
  then have "unat (push_bit 8 s + 2) = unat (of_nat (unat s * 256 + 2) :: u64)" by (simp only:)
  also have "\<dots> = unat s * 256 + 2" by (rule unat_of_nat_small) (use assms in simp)
  finally have "unat (push_bit 8 s + 2) = unat s * 256 + 2" .
  then have "unat (ucast (push_bit 8 s + 2) :: u32) = unat s * 256 + 2"
    using assms by (subst unat_ucast_small) simp_all
  then show ?thesis
    by (simp add: desc_size_def hailo_vdma_program_descriptor_def vdma_defs unat_drop_bit)
qed

lemma desc_or_control:
  assumes "m < 256"
  shows "desc_size (or_control m d) = desc_size d" and "desc_addr (or_control m d) = desc_addr d"
proof -
  have "m = take_bit 8 m" using assms by (simp add: take_bit_eq_mod word_less_nat_alt word_unat_eq_iff unat_mod)
  then have "\<not> bit m i" if "8 \<le> i" for i using that by (metis bit_take_bit_iff not_less)
  then have "drop_bit 8 (PageSize_DescControl d OR ucast m) = drop_bit 8 (PageSize_DescControl d)"
    by (intro bit_word_eqI) (auto simp: bit_simps)
  then show "desc_size (or_control m d) = desc_size d" by (simp add: desc_size_def or_control_def)
qed (simp add: desc_addr_def or_control_def)

section \<open>Exact coverage\<close>

lemma upt_plus: "[0..<x + r] = [0..<x] @ map (\<lambda>j. x + j) [0..<r]"
proof -
  have "[0..<x + r] = [0..<x] @ [x..<x + r]" using upt_add_eq_append [of 0 x r] by simp
  also have "[x..<x + r] = map (\<lambda>j. j + x) [0..<r]" by (simp only: map_add_upt add.commute)
  finally show ?thesis by (simp only: add.commute)
qed

lemma concat_blocks:
  "concat (map (\<lambda>i. map (\<lambda>j. f (i * p + j)) [0..<p]) [0..<k]) = map f [0..<k * p]"
proof (induction k)
  case (Suc k)
  have "[0..<Suc k * p] = [0..<k * p] @ map (\<lambda>j. k * p + j) [0..<p]"
    by (simp only: mult_Suc add.commute [of p] upt_plus)
  then show ?case using Suc by simp
qed simp

lemma and63_iff: "x AND 63 = 0 \<longleftrightarrow> unat x mod 64 = 0" for x :: u64
  using unat_and_mask [of x 6] unat_eq_0 [of "x AND 63"] by (simp add: mask_eq_exp_minus_1)

lemma and63_add: "a AND 63 = 0 \<Longrightarrow> 64 dvd k \<Longrightarrow> (a + of_nat k) AND 63 = 0" for a :: u64
proof -
  assume a: "a AND 63 = 0" and k: "64 dvd k"
  have "(64::nat) dvd 2 ^ 64" by simp
  then have "unat (a + of_nat k) mod 64 = (unat a + k) mod 64"
    by (simp only: unat_word_ariths unat_of_nat mod_mod_cancel mod_add_right_eq) (simp add: mod_mod_cancel)
  then show ?thesis using a k by (simp add: and63_iff mod_eq_0_iff_dvd)
qed

lemma ceil_div_last:
  assumes "0 < n" and "0 < p"
  shows "n = (ceil_div n p - 1) * p + (if n mod p \<noteq> 0 then n mod p else p)"
proof (cases "n mod p = 0")
  case True
  then obtain q where q: "n = q * p" by (metis dvd_def mod_0_imp_dvd mult.commute)
  with assms have "0 < q" by auto
  have "n + p - 1 = q * p + (p - 1)" using q assms by simp
  moreover have "(p - 1) div p = 0" using assms(2) by (intro div_less) simp
  ultimately have "ceil_div n p = q" using assms(2) by (simp only: ceil_div_def div_mult_self3)
  then show ?thesis using q \<open>0 < q\<close> True by (cases q) auto
next
  case False
  have "n + p - 1 = Suc (n div p) * p + (n mod p - 1)"
    using False div_mult_mod_eq [of n p] by (simp only: mult_Suc)
  moreover have "(n mod p - 1) div p = 0" using assms(2) mod_less_divisor [OF assms(2), of n] by (intro div_less) linarith
  ultimately have "ceil_div n p = Suc (n div p)"
    using assms(2) by (simp only: ceil_div_def div_mult_self3)
  then show ?thesis using False by simp
qed

lemma chunk_bytes:
  assumes "0 < n" and "0 < page" and "page < 2 ^ 16" and "64 dvd page" and "a AND 63 = 0" and "unat data_id < 64"
  shows "concat (map desc_bytes (chunk_descs page (of_nat page) data_id a n)) = map (\<lambda>j. a + of_nat j) [0..<n]"
proof -
  let ?k = "ceil_div n page - 1" and ?r = "if n mod page \<noteq> 0 then n mod page else page"
  have al: "(a + of_nat (i * page)) AND 63 = 0" for i
    using assms(4,5) by (intro and63_add) auto
  have b: "desc_bytes (hailo_vdma_program_descriptor (a + of_nat (i * page)) s data_id) =
      map (\<lambda>j. a + of_nat (i * page + j)) [0..<unat s]" if "unat s < 2 ^ 24" for i s
    using al assms(6) that by (simp add: desc_bytes_def desc_addr_program desc_size_program add.assoc)
  have p: "unat (ucast (of_nat page :: u32) :: u64) = page" using assms(3) by (simp add: unat_of_nat_small)
  have r: "unat (if n mod page \<noteq> 0 then of_nat (n mod page) else ucast (of_nat page :: u32) :: u64) = ?r" 
    using p assms(2,3) mod_less_divisor [OF assms(2), of n] by (simp add: unat_of_nat_small)
  have "?r \<le> page" using mod_less_divisor [OF assms(2), of n] by simp
  then have "concat (map desc_bytes (chunk_descs page (of_nat page) data_id a n)) =
      map (\<lambda>j. a + of_nat j) [0..<?k * page] @ map (\<lambda>j. a + of_nat (?k * page + j)) [0..<?r]"
    using assms(3) p r by (simp add: chunk_descs_snoc [OF assms(1,2)] b comp_def concat_blocks [symmetric] del: of_nat_add of_nat_mult)
  also have "\<dots> = map (\<lambda>j. a + of_nat j) [0..<?k * page + ?r]"
    by (simp only: upt_plus map_append map_map comp_def)
  also have "?k * page + ?r = n" using ceil_div_last [OF assms(1,2)] by simp
  finally show ?thesis .
qed

lemma take_upt0: "take k [0..<n] = [0..<min k n]"
  by (cases "k \<le> n") (simp_all add: min_def)

lemma plan_bytes:
  "concat (map (\<lambda>(a, n). map (\<lambda>j. a + of_nat j) [0..<n]) (sg_plan sgs skip rem)) = take rem (drop skip (sg_bytes sgs))"
proof (induction sgs skip rem rule: sg_plan.induct)
  case (2 a l sgs skip rem)
  let ?f = "\<lambda>j. a + of_nat j :: u64"
  have b: "sg_bytes ((a, l) # sgs) = map ?f [0..<unat l] @ sg_bytes sgs" by (simp add: sg_bytes_def)
  show ?case
  proof (cases "unat l \<le> skip")
    case True then show ?thesis using 2 by (simp add: b)
  next
    case False
    define m where "m = min rem (unat l - skip)"
    have "map ?f (drop skip [0..<unat l]) = map (\<lambda>j. a + of_nat skip + of_nat j) [0..<unat l - skip]"
      using False upt_plus [of skip "unat l - skip"] by (simp add: comp_def add.assoc)
    then have "take rem (drop skip (sg_bytes ((a, l) # sgs))) =
        map (\<lambda>j. a + of_nat skip + of_nat j) [0..<m] @ take (rem - (unat l - skip)) (sg_bytes sgs)"
      using False by (simp add: b drop_map take_map m_def take_upt0)
    moreover have "take (rem - (unat l - skip)) (sg_bytes sgs) = take (rem - m) (sg_bytes sgs)"
      by (simp add: m_def min_def)
    ultimately show ?thesis using 2 False by (auto simp: m_def)
  qed
qed (simp add: sg_bytes_def)

lemma sg_plan_pos: "(a, n) \<in> set (sg_plan sgs skip rem) \<Longrightarrow> 0 < n"
  by (induction sgs skip rem rule: sg_plan.induct) (auto split: if_splits)

lemma buffer_bytes:
  assumes "0 < page" and "page < 2 ^ 16" and "64 dvd page" and "unat data_id < 64"
    and "\<forall>(a, n) \<in> set (sg_plan sgs skip rem). a AND 63 = 0"
  shows "concat (map desc_bytes (buffer_descs page (of_nat page) data_id 0 sgs skip rem)) =
    take rem (drop skip (sg_bytes sgs))"
proof -
  have "concat (map desc_bytes (plan_descs page (of_nat page) data_id 0 plan)) =
      concat (map (\<lambda>(a, n). map (\<lambda>j. a + of_nat j) [0..<n]) plan)"
    if "\<forall>(a, n) \<in> set plan. a AND 63 = 0 \<and> 0 < n" for plan
    using that assms(1-4) by (induction plan) (auto simp: chunk_bytes)
  from this [of "sg_plan sgs skip rem"] show ?thesis
    using assms(5) sg_plan_pos by (fastforce simp: buffer_descs_def plan_bytes)
qed

definition mark_last :: "u64 \<Rightarrow> hailo_vdma_descriptor list \<Rightarrow> hailo_vdma_descriptor list" where
  "mark_last m ds = butlast ds @ [or_control m (last ds)]"

lemma length_mark_last [simp]: "ds \<noteq> [] \<Longrightarrow> length (mark_last m ds) = length ds"
  by (simp add: mark_last_def)

lemma place_mark_last:
  assumes "ds \<noteq> []" and "arr \<noteq> []"
  shows "(place s ds arr)[(s + length ds - 1) mod length arr :=
      or_control m (place s ds arr ! ((s + length ds - 1) mod length arr))] = place s (mark_last m ds) arr"
proof -
  obtain xs x where ds: "ds = xs @ [x]" using assms(1) by (metis rev_exhaust)
  have "(s + length xs) mod length arr < length arr" using assms(2) by simp
  then show ?thesis by (simp add: ds place_snoc mark_last_def)
qed

lemma desc_bytes_mark_last:
  "m < 256 \<Longrightarrow> ds \<noteq> [] \<Longrightarrow> concat (map desc_bytes (mark_last m ds)) = concat (map desc_bytes ds)"
proof -
  assume m: "m < 256" and "ds \<noteq> []"
  then obtain xs x where ds: "ds = xs @ [x]" by (metis rev_exhaust)
  have "desc_bytes (or_control m x) = desc_bytes x" using m by (simp add: desc_bytes_def desc_or_control)
  then show ?thesis by (simp add: ds mark_last_def)
qed

lemma place_window:
  "length ds \<le> length arr \<Longrightarrow> map (\<lambda>i. place s ds arr ! ((s + i) mod length arr)) [0..<length ds] = ds"
  by (rule nth_equalityI) (simp_all add: place_nth)

section \<open>Properties\<close>

definition effective_stride :: "hailo_vdma_descriptors_list \<Rightarrow> u32 \<Rightarrow> u32" where
  "effective_stride dl stride = (if unat stride mod unat (dl_desc_page_size dl) = 0 then ucast (dl_desc_page_size dl) else stride)"

definition bind_descs ::
    "hailo_vdma_hw \<Rightarrow> hailo_vdma_descriptors_list \<Rightarrow> hailo_vdma_mapped_transfer_buffer \<Rightarrow> u8 \<Rightarrow> u32 \<Rightarrow> hailo_vdma_descriptor list" where
  "bind_descs hw dl buf ch stride =
     buffer_descs (unat (dl_desc_page_size dl)) (effective_stride dl stride) (ddr_data_id hw)
       (get_masked_channel_id hw (get_channel_id ch)) (tb_sg_table buf) (unat (tb_offset buf)) (unat (tb_size buf))"

definition bind_args_ok :: "hailo_vdma_descriptors_list \<Rightarrow> u32 \<Rightarrow> hailo_vdma_mapped_transfer_buffer \<Rightarrow> u32 \<Rightarrow> bool" where
  "bind_args_ok dl start buf stride \<longleftrightarrow>
     (let page = unat (dl_desc_page_size dl)
      in unat (tb_offset buf) mod page = 0 \<and> unat start < unat (dl_desc_count dl) \<and>
         (unat stride mod page = 0 \<or> unat (tb_size buf) mod page = 0 \<and> unat stride \<le> page))"

definition desc_room :: "hailo_vdma_descriptors_list \<Rightarrow> u32 \<Rightarrow> nat" where
  "desc_room dl start = (if dl_is_circular dl then unat (dl_desc_count dl) else unat (dl_desc_count dl) - unat start)"

lemma mod_word_0: "a mod b = 0 \<longleftrightarrow> unat a mod unat b = 0" for a b :: "'a::len word"
  by (metis unat_eq_0 unat_mod)

lemma bind_args_EINVAL:
  assumes "wf_desc_list dl" and "\<not> bind_args_ok dl start buf stride"
  shows "bind_and_program_descriptors_list hw dl start buf ch irq dbg stride = (Err EINVAL, dl)"
proof -
  have "(ucast (dl_desc_page_size dl) :: u32) \<noteq> 0"
    using wf_desc_listD(4) [OF assms(1)] by (metis less_irrefl unat_0 unat_ucast_u16_u32)
  then show ?thesis
    using assms(2)
    by (auto simp: bind_and_program_descriptors_list_def bind_args_ok_def Let_def mod_word_0 word_le_nat_alt word_less_nat_alt)
qed

lemma buffer_descs_nonempty:
  assumes "0 < page" and "0 < rem" and "skip < sg_total sgs"
  shows "buffer_descs page stride data_id chan sgs skip rem \<noteq> []"
proof -
  have "0 < sum_list (map snd (sg_plan sgs skip rem))" using assms by (simp add: sg_plan_total)
  then have "sg_plan sgs skip rem \<noteq> []" by auto
  then obtain a n rest where p: "sg_plan sgs skip rem = (a, n) # rest" by (metis neq_Nil_conv surj_pair)
  then have "0 < n" using sg_plan_pos [of a n sgs skip rem] by simp
  then have "chunk_descs page stride data_id (a OR chan) n \<noteq> []"
    using ceil_div_pos [OF _ assms(1), of n] length_chunk_descs [of page stride data_id "a OR chan" n]
    by (metis length_0_conv less_irrefl)
  then show ?thesis by (simp add: buffer_descs_def p)
qed

lemma bind_max_index:
  assumes "wf_desc_list dl" and "unat start < unat (dl_desc_count dl)"
  defines "mx \<equiv> if dl_is_circular dl then start + dl_desc_count dl - 1 else dl_desc_count dl - 1"
  shows "unat mx + 1 = unat start + desc_room dl start" and "unat mx < 2 ^ 17"
    and "unat mx < unat start + unat (dl_desc_count dl)" and "dl_is_circular dl \<or> unat mx < unat (dl_desc_count dl)"
proof -
  note wf = wf_desc_listD [OF assms(1)]
  have s: "unat (start + dl_desc_count dl) = unat start + unat (dl_desc_count dl)"
    using wf assms(2) by (intro unat_add_small) simp
  have "unat (start + dl_desc_count dl - 1) = unat start + unat (dl_desc_count dl) - 1"
    using s wf by (subst unat_minus_one) auto
  moreover have "unat (dl_desc_count dl - 1) = unat (dl_desc_count dl) - 1"
    using wf by (intro unat_minus_one) auto
  ultimately show "unat mx + 1 = unat start + desc_room dl start" "unat mx < 2 ^ 17"
    "unat mx < unat start + unat (dl_desc_count dl)" "dl_is_circular dl \<or> unat mx < unat (dl_desc_count dl)"
    using wf assms(2) by (auto simp: mx_def desc_room_def)
qed

lemma bind_entries:
  assumes "wf_desc_list dl" and "bind_args_ok dl start buf stride"
    and "unat (tb_size buf) < 2 ^ 31" and "sg_total (tb_sg_table buf) < 2 ^ 64"
    and "ds = bind_descs hw dl buf ch stride"
  shows "if length ds \<le> desc_room dl start
    then bind_sg_entries (tb_sg_table buf) (tb_offset buf)
        (if dl_is_circular dl then start + dl_desc_count dl - 1 else dl_desc_count dl - 1) (ddr_data_id hw)
        (effective_stride dl stride) (get_masked_channel_id hw (get_channel_id ch)) 0 (tb_size buf) start 0 dl =
      (Ok (of_nat (unat (tb_size buf) - (sg_total (tb_sg_table buf) - unat (tb_offset buf))), start + of_nat (length ds),
           of_nat (length ds)), dl\<lparr>dl_desc_list := place (unat start) ds (dl_desc_list dl)\<rparr>)
    else \<exists>ds'. length ds' = length (dl_desc_list dl) \<and>
      bind_sg_entries (tb_sg_table buf) (tb_offset buf)
        (if dl_is_circular dl then start + dl_desc_count dl - 1 else dl_desc_count dl - 1) (ddr_data_id hw)
        (effective_stride dl stride) (get_masked_channel_id hw (get_channel_id ch)) 0 (tb_size buf) start 0 dl =
      (Err ERANGE, dl\<lparr>dl_desc_list := ds'\<rparr>)"
proof -
  define mx where "mx = (if dl_is_circular dl then start + dl_desc_count dl - 1 else dl_desc_count dl - 1)"
  have st: "unat start < unat (dl_desc_count dl)" using assms(2) by (simp add: bind_args_ok_def Let_def)
  note m = bind_max_index [OF assms(1) st, folded mx_def]
  have "unat start \<le> unat mx + 1" "unat mx < 2 ^ 31 - 1" using m(1,2) by simp_all
  with bind_sg_entries_place [of dl 0 "tb_sg_table buf" "tb_size buf" start mx ds "effective_stride dl stride" "ddr_data_id hw"
      "get_masked_channel_id hw (get_channel_id ch)" "tb_offset buf" 0] assms m(3,4)
  show ?thesis unfolding mx_def [symmetric] m(1) by (simp add: bind_descs_def)
qed

lemma bind_and_program_spec:
  assumes wf: "wf_desc_list dl" and args: "bind_args_ok dl start buf stride"
    and size: "0 < unat (tb_size buf)" "unat (tb_size buf) < 2 ^ 31" and tot: "sg_total (tb_sg_table buf) < 2 ^ 64"
    and ds: "ds = bind_descs hw dl buf ch stride"
  shows "\<not> length ds \<le> desc_room dl start \<Longrightarrow> \<exists>ds'. length ds' = length (dl_desc_list dl) \<and>
      bind_and_program_descriptors_list hw dl start buf ch irq dbg stride = (Err ERANGE, dl\<lparr>dl_desc_list := ds'\<rparr>)"
    and "length ds \<le> desc_room dl start \<Longrightarrow> sg_total (tb_sg_table buf) < unat (tb_offset buf) + unat (tb_size buf) \<Longrightarrow>
      bind_and_program_descriptors_list hw dl start buf ch irq dbg stride =
        (Err EFAULT, dl\<lparr>dl_desc_list := place (unat start) ds (dl_desc_list dl)\<rparr>)"
    and "length ds \<le> desc_room dl start \<Longrightarrow> unat (tb_offset buf) + unat (tb_size buf) \<le> sg_total (tb_sg_table buf) \<Longrightarrow>
      bind_and_program_descriptors_list hw dl start buf ch irq dbg stride =
        (Ok (of_nat (length ds)),
         dl\<lparr>dl_desc_list := place (unat start) (mark_last (get_interrupts_bitmask hw irq dbg) ds) (dl_desc_list dl)\<rparr>)"
proof -
  note wfD = wf_desc_listD [OF wf]
  let ?left = "of_nat (unat (tb_size buf) - (sg_total (tb_sg_table buf) - unat (tb_offset buf))) :: u32"
  have page: "(ucast (dl_desc_page_size dl) :: u32) \<noteq> 0"
    using wfD(4) by (metis less_irrefl unat_0 unat_ucast_u16_u32)
  have stride: "(if stride mod ucast (dl_desc_page_size dl) = 0 then ucast (dl_desc_page_size dl) else stride) =
      effective_stride dl stride"
    by (simp add: effective_stride_def mod_word_0)
  have guards: "\<not> (tb_offset buf mod ucast (dl_desc_page_size dl) \<noteq> 0 \<or> dl_desc_count dl \<le> start)"
      "\<not> (stride mod ucast (dl_desc_page_size dl) \<noteq> 0 \<and> tb_size buf mod ucast (dl_desc_page_size dl) \<noteq> 0)"
      "\<not> (stride mod ucast (dl_desc_page_size dl) \<noteq> 0 \<and> ucast (dl_desc_page_size dl) < stride)"
    using args by (auto simp: bind_args_ok_def Let_def mod_word_0 word_le_nat_alt word_less_nat_alt)
  note body = bind_and_program_descriptors_list_def [of hw dl start buf ch irq dbg stride, unfolded Let_def stride,
      simplified page guards if_False]
  note E = bind_entries [OF wf args size(2) tot ds]
  show "\<exists>ds'. length ds' = length (dl_desc_list dl) \<and>
      bind_and_program_descriptors_list hw dl start buf ch irq dbg stride = (Err ERANGE, dl\<lparr>dl_desc_list := ds'\<rparr>)"
    if "\<not> length ds \<le> desc_room dl start"
    using E that by (auto simp: body)
  have left: "unat ?left = unat (tb_size buf) - (sg_total (tb_sg_table buf) - unat (tb_offset buf))"
    using size(2) by (intro unat_of_nat_small) simp
  then have left0: "?left = 0 \<longleftrightarrow> unat (tb_size buf) \<le> sg_total (tb_sg_table buf) - unat (tb_offset buf)"
    by (metis diff_is_0_eq unat_eq_0)
  show "bind_and_program_descriptors_list hw dl start buf ch irq dbg stride =
        (Err EFAULT, dl\<lparr>dl_desc_list := place (unat start) ds (dl_desc_list dl)\<rparr>)"
    if "length ds \<le> desc_room dl start" "sg_total (tb_sg_table buf) < unat (tb_offset buf) + unat (tb_size buf)"
  proof -
    have "\<not> unat (tb_size buf) \<le> sg_total (tb_sg_table buf) - unat (tb_offset buf)" using that(2) size(1) by linarith
    with E that left0 show ?thesis by (simp add: body)
  qed
  show "bind_and_program_descriptors_list hw dl start buf ch irq dbg stride =
        (Ok (of_nat (length ds)),
         dl\<lparr>dl_desc_list := place (unat start) (mark_last (get_interrupts_bitmask hw irq dbg) ds) (dl_desc_list dl)\<rparr>)"
    if fits: "length ds \<le> desc_room dl start" "unat (tb_offset buf) + unat (tb_size buf) \<le> sg_total (tb_sg_table buf)"
  proof -
    let ?n = "length ds" and ?arr = "dl_desc_list dl"
    have st: "unat start < unat (dl_desc_count dl)" using args by (simp add: bind_args_ok_def Let_def)
    have ne: "ds \<noteq> []" using fits size(1) wfD(4) unfolding ds bind_descs_def
      by (intro buffer_descs_nonempty) simp_all
    have n: "0 < ?n" "?n \<le> 0x10000" using ne fits(1) wfD(3) by (auto simp: desc_room_def split: if_splits)
    have un: "unat (of_nat ?n :: u32) = ?n" using n by (intro unat_of_nat_small) simp
    have "unat (start + of_nat ?n) = unat start + ?n" using un n st wfD(3) by (subst unat_add_small) simp_all
    then have nx: "unat (start + of_nat ?n - 1) = unat start + ?n - 1" using n by (subst unat_minus_one) auto
    have slot: "unat ((start + of_nat ?n - 1) mod dl_desc_count dl) = (unat start + ?n - 1) mod length ?arr"
      unfolding unat_mod nx wfD(1) ..
    have lt: "(unat start + ?n - 1) mod length ?arr < length ?arr" using wfD(1,2) by (intro mod_less_divisor) simp
    have arr: "?arr \<noteq> []" using wfD(1,2) by auto
    have r: "int_ret (of_nat ?n) = Ok (of_nat ?n)" using un n by (simp add: int_ret_def word_less_nat_alt)
    have "unat (tb_size buf) \<le> sg_total (tb_sg_table buf) - unat (tb_offset buf)" using fits(2) by linarith
    with E fits(1) left0 slot lt r place_mark_last [OF ne arr, of "unat start"] show ?thesis
      by (simp add: body)
  qed
qed


lemma bind_and_program_OkD:
  assumes "wf_desc_list dl" and "0 < unat (tb_size buf)" and "unat (tb_size buf) < 2 ^ 31"
    and "sg_total (tb_sg_table buf) < 2 ^ 64"
    and "bind_and_program_descriptors_list hw dl start buf ch irq dbg stride = (Ok n, dl')"
    and "ds = bind_descs hw dl buf ch stride"
  shows "bind_args_ok dl start buf stride" "length ds \<le> desc_room dl start"
    "unat (tb_offset buf) + unat (tb_size buf) \<le> sg_total (tb_sg_table buf)" "n = of_nat (length ds)"
    "dl' = dl\<lparr>dl_desc_list := place (unat start) (mark_last (get_interrupts_bitmask hw irq dbg) ds) (dl_desc_list dl)\<rparr>"
proof -
  show args: "bind_args_ok dl start buf stride" using bind_args_EINVAL [OF assms(1)] assms(5) by (metis Pair_inject result.distinct(1))
  note S = bind_and_program_spec [OF assms(1) args assms(2-4,6)]
  show room: "length ds \<le> desc_room dl start" using S(1) [of irq dbg] assms(5) by auto
  show tot: "unat (tb_offset buf) + unat (tb_size buf) \<le> sg_total (tb_sg_table buf)"
    using S(2) [OF room, of irq dbg] assms(5) by (auto simp: not_less [symmetric])
  show "n = of_nat (length ds)"
    "dl' = dl\<lparr>dl_desc_list := place (unat start) (mark_last (get_interrupts_bitmask hw irq dbg) ds) (dl_desc_list dl)\<rparr>"
    using S(3) [OF room tot, of irq dbg] assms(5) by auto
qed

lemma pcie_interrupts_small: "get_interrupts_bitmask hailo_pcie_vdma_hw irq dbg < 256"
  by (simp add: get_interrupts_bitmask_def hailo_pcie_vdma_hw_def Let_def vdma_defs)

text \<open>C5: What the hardware transfers. After a successful bind of a buffer on the PCIe engine with the default stride,
  with a page size that is a multiple of 64 and pieces that start on 64-byte boundaries, the programmed descriptors,
  read in ring order from \<open>starting_desc\<close>, address exactly the bytes \<open>[offset, offset + size)\<close> of the buffer's
  scatter-gather table: none is lost, duplicated or out of order, and nothing outside the buffer is addressed.\<close>
theorem bind_covers_buffer:
  assumes "wf_desc_list dl" and "0 < unat (tb_size buf)" and "unat (tb_size buf) < 2 ^ 31"
    and "sg_total (tb_sg_table buf) < 2 ^ 64" and "64 dvd unat (dl_desc_page_size dl)"
    and "\<forall>(a, n) \<in> set (sg_plan (tb_sg_table buf) (unat (tb_offset buf)) (unat (tb_size buf))). a AND 63 = 0"
    and "bind_and_program_descriptors_list hailo_pcie_vdma_hw dl start buf ch irq dbg 0 = (Ok n, dl')"
  shows "concat (map (\<lambda>i. desc_bytes (dl_desc_list dl' ! ((unat start + i) mod unat (dl_desc_count dl)))) [0..<unat n]) =
    take (unat (tb_size buf)) (drop (unat (tb_offset buf)) (sg_bytes (tb_sg_table buf)))"
proof -
  note wf = wf_desc_listD [OF assms(1)]
  let ?hw = hailo_pcie_vdma_hw and ?arr = "dl_desc_list dl"
  define ds where "ds = bind_descs ?hw dl buf ch 0"
  let ?m = "get_interrupts_bitmask ?hw irq dbg"
  note r = bind_and_program_OkD [OF assms(1-4,7) ds_def]
  have ne: "ds \<noteq> []"
    unfolding ds_def bind_descs_def using r(3) assms(2) wf(4) by (intro buffer_descs_nonempty) simp_all
  have l: "length ds \<le> length ?arr" using r(2) wf by (auto simp: desc_room_def split: if_splits)
  then have n: "unat n = length (mark_last ?m ds)"
    using r(4) wf(1,3) ne by (simp add: unat_of_nat_small)
  have st: "effective_stride dl 0 = of_nat (unat (dl_desc_page_size dl))" by (simp add: effective_stride_def)
  have "map (\<lambda>i. dl_desc_list dl' ! ((unat start + i) mod unat (dl_desc_count dl))) [0..<unat n] = mark_last ?m ds"
    using place_window [of "mark_last ?m ds" ?arr "unat start"] l ne wf(1) n r(5) by simp
  then have "concat (map desc_bytes (map (\<lambda>i. dl_desc_list dl' ! ((unat start + i) mod unat (dl_desc_count dl))) [0..<unat n])) =
      concat (map desc_bytes ds)"
    using desc_bytes_mark_last [OF pcie_interrupts_small ne] by simp
  also have "\<dots> = take (unat (tb_size buf)) (drop (unat (tb_offset buf)) (sg_bytes (tb_sg_table buf)))"
    unfolding ds_def bind_descs_def st using assms(5,6) wf(4) unat_less_u16 [of "dl_desc_page_size dl"] 
    by (simp add: hailo_pcie_vdma_hw_def hailo_pcie_encode_desc_get_masked_channel_id_def buffer_bytes del: of_nat_unat)
  finally show ?thesis by (simp add: comp_def)
qed

section \<open>Programming is memory safe\<close>

definition same_shape :: "hailo_vdma_descriptors_list \<Rightarrow> hailo_vdma_descriptors_list \<Rightarrow> bool" where
  "same_shape dl dl' \<longleftrightarrow> (\<exists>ds'. length ds' = length (dl_desc_list dl) \<and> dl' = dl\<lparr>dl_desc_list := ds'\<rparr>)"

lemma same_shapeI [intro]: "length ds' = length (dl_desc_list dl) \<Longrightarrow> same_shape dl (dl\<lparr>dl_desc_list := ds'\<rparr>)"
  by (auto simp: same_shape_def)

lemma same_shape_refl [simp]: "same_shape dl dl"
  using same_shapeI [of "dl_desc_list dl" dl] by simp

lemma same_shape_trans: "same_shape dl dl' \<Longrightarrow> same_shape dl' dl'' \<Longrightarrow> same_shape dl dl''"
  by (auto simp: same_shape_def)

lemma same_shape_wf: "same_shape dl dl' \<Longrightarrow> wf_desc_list dl' = wf_desc_list dl"
  by (auto simp: same_shape_def)

lemma same_shape_fields:
  "same_shape dl dl' \<Longrightarrow> dl_desc_count dl' = dl_desc_count dl \<and> dl_desc_page_size dl' = dl_desc_page_size dl \<and>
     dl_is_circular dl' = dl_is_circular dl \<and> dl_desc_count_mask dl' = dl_desc_count_mask dl \<and>
     length (dl_desc_list dl') = length (dl_desc_list dl)"
  by (auto simp: same_shape_def)

definition safe_step :: "hailo_vdma_descriptors_list \<Rightarrow> 'a result \<times> hailo_vdma_descriptors_list \<Rightarrow> bool" where
  "safe_step dl r \<longleftrightarrow> \<not> is_fault (fst r) \<and> same_shape dl (snd r)"

lemma int_ret_not_fault [simp]: "\<not> is_fault (int_ret n)"
  by (simp add: int_ret_def)

lemma wf_mod_lt: "wf_desc_list dl \<Longrightarrow> unat (x mod dl_desc_count dl) < length (dl_desc_list dl)"
  using wf_desc_listD(1,2) [of dl] by (simp add: unat_mod)

lemma bind_safe:
  assumes "wf_desc_list dl" and "unat (tb_size buf) < 2 ^ 31" and "sg_total (tb_sg_table buf) < 2 ^ 64"
  shows "safe_step dl (bind_and_program_descriptors_list hw dl start buf ch irq dbg stride)"
proof (cases "bind_args_ok dl start buf stride")
  case False
  then show ?thesis using bind_args_EINVAL [OF assms(1)] by (simp add: safe_step_def)
next
  case True
  note wf = wf_desc_listD [OF assms(1)]
  have page: "(ucast (dl_desc_page_size dl) :: u32) \<noteq> 0"
    using wf(4) by (metis less_irrefl unat_0 unat_ucast_u16_u32)
  have stride: "(if stride mod ucast (dl_desc_page_size dl) = 0 then ucast (dl_desc_page_size dl) else stride) =
      effective_stride dl stride"
    by (simp add: effective_stride_def mod_word_0)
  note body = bind_and_program_descriptors_list_def [of hw dl start buf ch irq dbg stride, unfolded Let_def stride,
      simplified page if_False]
  note E = bind_entries [OF assms(1) True assms(2,3) refl, of hw ch]
  show ?thesis
  proof (cases "length (bind_descs hw dl buf ch stride) \<le> desc_room dl start")
    case True
    with E show ?thesis using wf(1) wf_mod_lt [OF assms(1)]
      by (simp add: body safe_step_def same_shapeI)
  next
    case False
    with E obtain ds' where "length ds' = length (dl_desc_list dl)"
      "bind_sg_entries (tb_sg_table buf) (tb_offset buf)
        (if dl_is_circular dl then start + dl_desc_count dl - 1 else dl_desc_count dl - 1) (ddr_data_id hw)
        (effective_stride dl stride) (get_masked_channel_id hw (get_channel_id ch)) 0 (tb_size buf) start 0 dl =
      (Err ERANGE, dl\<lparr>dl_desc_list := ds'\<rparr>)" by auto
    then show ?thesis by (simp add: body safe_step_def same_shapeI)
  qed
qed

lemma program_last_desc_safe:
  assumes "wf_desc_list dl"
  shows "safe_step dl (program_last_desc hw dl start buf irq dbg)"
proof -
  have "(ucast (dl_desc_page_size dl) :: u32) \<noteq> 0" "dl_desc_count dl \<noteq> 0"
    using wf_desc_listD(2,4) [OF assms] by (auto, metis less_irrefl unat_0 unat_ucast_u16_u32)
  then show ?thesis
    using wf_mod_lt [OF assms] by (simp add: program_last_desc_def Let_def safe_step_def same_shapeI)
qed

lemma program_list_safe:
  assumes "wf_desc_list dl" and "unat (tb_size buf) < 2 ^ 31" and "sg_total (tb_sg_table buf) < 2 ^ 64"
  shows "safe_step dl (hailo_vdma_program_descriptors_list hw dl start buf should_bind ch irq dbg stride)"
  using assms by (simp add: hailo_vdma_program_descriptors_list_def bind_safe program_last_desc_safe)

lemma program_batch_safe:
  assumes "wf_desc_list dl" and "unat (tb_size buf) < 2 ^ 31" and "sg_total (tb_sg_table buf) < 2 ^ 64"
  shows "safe_step dl (program_batch k hw dl start buf should_bind ch irq dbg stride tot)"
  using assms
proof (induction k arbitrary: dl start buf tot)
  case 0 then show ?case by (simp add: safe_step_def)
next
  case (Suc k)
  let ?irq = "if k = 0 then irq else HAILO_VDMA_INTERRUPTS_DOMAIN_NONE"
  obtain r dl1 where r: "hailo_vdma_program_descriptors_list hw dl start buf should_bind ch ?irq dbg stride = (r, dl1)"
    by (cases "hailo_vdma_program_descriptors_list hw dl start buf should_bind ch ?irq dbg stride")
  have s: "\<not> is_fault r" "same_shape dl dl1"
    using program_list_safe [OF Suc.prems, of hw start should_bind ch ?irq dbg stride] r by (simp_all add: safe_step_def)
  show ?case
  proof (cases r)
    case (Ok n)
    have wf1: "wf_desc_list dl1" "dl_desc_count dl1 \<noteq> 0"
      using s(2) Suc.prems(1) wf_desc_listD(2) [OF Suc.prems(1)] same_shape_fields [OF s(2)] by (auto simp: same_shape_wf)
    have "safe_step dl1 (program_batch k hw dl1
        (if dl_is_circular dl1 then (start + n) mod dl_desc_count dl1 else start + n)
        (buf\<lparr>tb_offset := tb_offset buf + n * ucast (dl_desc_page_size dl1)\<rparr>) should_bind ch irq dbg stride (tot + n))"
      by (rule Suc.IH) (use wf1 Suc.prems in simp_all)
    then show ?thesis using r Ok wf1(2) same_shape_trans [OF s(2)] by (simp add: safe_step_def Let_def)
  qed (use r s in \<open>simp_all add: safe_step_def Let_def\<close>)
qed

text \<open>Programming a batch of transfers of less than 2 GiB on a well-formed list never accesses memory outside the
  descriptor array and never divides by zero, whatever the starting descriptor, offset, batch size, stride and
  scatter-gather table are, and leaves the list well-formed with the same number of descriptors, page size and mode.\<close>
theorem program_descriptors_list_batch_safe:
  assumes "wf_desc_list dl" and "unat transfer_size < 2 ^ 31" and "sg_total sgt < 2 ^ 64"
  shows "let (res, dl') = hailo_vdma_program_descriptors_list_batch hw dl start sgt offset transfer_size batch_size
      should_bind ch irq dbg stride
    in \<not> is_fault res \<and> wf_desc_list dl' \<and> dl_desc_count dl' = dl_desc_count dl \<and>
       dl_desc_page_size dl' = dl_desc_page_size dl \<and> dl_is_circular dl' = dl_is_circular dl"
proof -
  have "safe_step dl (hailo_vdma_program_descriptors_list_batch hw dl start sgt offset transfer_size batch_size
      should_bind ch irq dbg stride)"
    unfolding hailo_vdma_program_descriptors_list_batch_def by (rule program_batch_safe) (use assms in simp_all)
  then have s: "\<not> is_fault (fst (hailo_vdma_program_descriptors_list_batch hw dl start sgt offset transfer_size batch_size
      should_bind ch irq dbg stride))" "same_shape dl (snd (hailo_vdma_program_descriptors_list_batch hw dl start sgt offset
      transfer_size batch_size should_bind ch irq dbg stride))" by (simp_all add: safe_step_def)
  show ?thesis
    using assms(1) s(1) same_shape_wf [OF s(2)] same_shape_fields [OF s(2)] by (simp add: split_beta Let_def)
qed

section \<open>The batch pattern\<close>

lemma place_mod: "place (s mod length ds) xs ds = place s xs ds"
proof (induction xs arbitrary: s ds)
  case (Cons x xs)
  have "place (Suc (s mod length ds)) xs ds' = place (Suc s) xs ds'" if "length ds' = length ds" for ds'
    using Cons [of "Suc (s mod length ds)" ds'] Cons [of "Suc s" ds'] that by (metis mod_Suc_eq)
  then show ?case by simp
qed simp

lemma buffer_descs_single:
  "0 < rem \<Longrightarrow> skip + rem \<le> unat l \<Longrightarrow>
   buffer_descs page stride data_id chan [(a, l)] skip rem =
     chunk_descs page stride data_id ((a + of_nat skip) OR chan) rem"
  by (simp add: min_absorb1)

text \<open>The descriptors of a batch over one contiguous buffer: piece \<open>g\<close> lies \<open>g\<close> pages after the start, and the last
  piece of every transfer carries the rest of the transfer.\<close>

definition batch_descs :: "nat \<Rightarrow> u32 \<Rightarrow> u8 \<Rightarrow> u64 \<Rightarrow> nat \<Rightarrow> nat \<Rightarrow> hailo_vdma_descriptor list" where
  "batch_descs page stride data_id addr tsize k =
     map (\<lambda>g. hailo_vdma_program_descriptor (addr + of_nat (g * page))
            (if g mod ceil_div tsize page = ceil_div tsize page - 1 \<and> tsize mod page \<noteq> 0
             then of_nat (tsize mod page) else ucast stride) data_id)
       [0..<k * ceil_div tsize page]"

lemma batch_descs_Suc:
  assumes "0 < tsize" and "0 < page"
  shows "batch_descs page stride data_id addr tsize (Suc k) =
    chunk_descs page stride data_id addr tsize @
    batch_descs page stride data_id (addr + of_nat (ceil_div tsize page * page)) tsize k"
proof -
  let ?n = "ceil_div tsize page"
  have "[0..<Suc k * ?n] = [0..<?n] @ map (\<lambda>j. ?n + j) [0..<k * ?n]"
    by (simp only: mult_Suc upt_plus)
  then show ?thesis
    by (simp add: batch_descs_def chunk_descs_def algebra_simps)
qed

lemma length_batch_descs [simp]: "length (batch_descs page stride data_id addr tsize k) = k * ceil_div tsize page"
  by (simp add: batch_descs_def)

lemma mark_last_append: "ys \<noteq> [] \<Longrightarrow> mark_last m (xs @ ys) = xs @ mark_last m ys"
  by (simp add: mark_last_def butlast_append)

lemma mark_last_0: "ds \<noteq> [] \<Longrightarrow> mark_last 0 ds = ds"
  by (simp add: mark_last_def or_control_def)

lemma interrupts_none [simp]: "get_interrupts_bitmask hw HAILO_VDMA_INTERRUPTS_DOMAIN_NONE dbg = 0"
  by (simp add: get_interrupts_bitmask_def vdma_defs)

lemma bind_single:
  assumes "wf_desc_list dl" and "bind_args_ok dl start \<lparr> tb_sg_table = [(base, l)], tb_size = tsize, tb_offset = off, tb_opaque = 0 \<rparr> stride"
    and "0 < unat tsize" and "unat tsize < 2 ^ 31" and "unat off + unat tsize \<le> unat l"
    and "ceil_div (unat tsize) (unat (dl_desc_page_size dl)) \<le> desc_room dl start"
    and "\<forall>c. get_masked_channel_id hw c = 0"
    and "cd = chunk_descs (unat (dl_desc_page_size dl)) (effective_stride dl stride) (ddr_data_id hw)
           (base + ucast off) (unat tsize)"
  shows "bind_and_program_descriptors_list hw dl start
      \<lparr> tb_sg_table = [(base, l)], tb_size = tsize, tb_offset = off, tb_opaque = 0 \<rparr> ch irq dbg stride =
    (Ok (of_nat (length cd)),
     dl\<lparr>dl_desc_list := place (unat start) (mark_last (get_interrupts_bitmask hw irq dbg) cd) (dl_desc_list dl)\<rparr>)"
proof -
  let ?b = "\<lparr> tb_sg_table = [(base, l)], tb_size = tsize, tb_offset = off, tb_opaque = 0 \<rparr>"
  have len: "length cd \<le> desc_room dl start" using assms(6,8) by simp
  have "cd = bind_descs hw dl ?b ch stride"
    using assms(3,5,7,8) by (simp add: bind_descs_def buffer_descs_single)
  then show ?thesis
    by (rule bind_and_program_spec(3) [OF assms(1,2), rotated 3])
      (use assms(3-5) len unat_less_u32 [of l] in simp_all)
qed

lemma ceil_div_ge:
  assumes "0 < p" and "0 < n"
  shows "n \<le> ceil_div n p * p"
proof -
  obtain c where c: "ceil_div n p = Suc c" using ceil_div_pos [OF assms(2,1)] by (metis gr0_implies_Suc)
  have "n mod p \<le> p" using mod_less_divisor [OF assms(1), of n] by simp
  then have "n \<le> c * p + p" using ceil_div_last [OF assms(2,1)] c by (auto split: if_splits)
  then show ?thesis by (simp add: c)
qed

lemma next_start:
  assumes "wf_desc_list dl" and "unat start < unat (dl_desc_count dl)" and "n \<le> 0x10000"
  defines "start' \<equiv> if dl_is_circular dl then (start + of_nat n) mod dl_desc_count dl else start + of_nat n"
  shows "unat start' = (if dl_is_circular dl then (unat start + n) mod unat (dl_desc_count dl) else unat start + n)"
    and "length arr = unat (dl_desc_count dl) \<Longrightarrow> place (unat start') xs arr = place (unat start + n) xs arr"
proof -
  have "unat (start + of_nat n) = unat start + n"
    using assms(2,3) wf_desc_listD(3) [OF assms(1)] by (subst unat_add_small) (simp_all add: unat_of_nat_small)
  then show u: "unat start' = (if dl_is_circular dl then (unat start + n) mod unat (dl_desc_count dl) else unat start + n)"
    by (simp add: start'_def unat_mod)
  show "place (unat start') xs arr = place (unat start + n) xs arr" if "length arr = unat (dl_desc_count dl)"
    using place_mod [of "unat start + n" arr xs] that by (simp add: u)
qed

lemma program_batch_single:
  assumes "wf_desc_list dl" and "0 < unat tsize" and "unat tsize < 2 ^ 31"
    and "\<forall>c. get_masked_channel_id hw c = 0"
    and "0 < k \<Longrightarrow> bind_args_ok dl start \<lparr> tb_sg_table = [(base, l)], tb_size = tsize, tb_offset = off, tb_opaque = 0 \<rparr> stride"
    and "unat off + k * (n * unat (dl_desc_page_size dl)) \<le> unat l" and "k * n \<le> desc_room dl start"
    and "unat tot + k * n < 2 ^ 31"
    and "n = ceil_div (unat tsize) (unat (dl_desc_page_size dl))"
  shows "program_batch k hw dl start \<lparr> tb_sg_table = [(base, l)], tb_size = tsize, tb_offset = off, tb_opaque = 0 \<rparr>
      True ch irq dbg stride tot =
    (Ok (tot + of_nat (k * n)),
     dl\<lparr>dl_desc_list := place (unat start)
       ((if k = 0 then (\<lambda>ds. ds) else mark_last (get_interrupts_bitmask hw irq dbg))
         (batch_descs (unat (dl_desc_page_size dl)) (effective_stride dl stride) (ddr_data_id hw)
            (base + ucast off) (unat tsize) k)) (dl_desc_list dl)\<rparr>)"
  using assms
proof (induction k arbitrary: dl start off tot)
  case 0
  then show ?case by (simp add: int_ret_def word_less_nat_alt batch_descs_def)
next
  case (Suc k)
  let ?page = "unat (dl_desc_page_size dl)"
  let ?cd = "chunk_descs ?page (effective_stride dl stride) (ddr_data_id hw) (base + ucast off) (unat tsize)"
  let ?irq = "if k = 0 then irq else HAILO_VDMA_INTERRUPTS_DOMAIN_NONE"
  let ?b = "\<lparr> tb_sg_table = [(base, l)], tb_size = tsize, tb_offset = off, tb_opaque = 0 \<rparr>"
  let ?dl = "dl\<lparr>dl_desc_list := place (unat start) (mark_last (get_interrupts_bitmask hw ?irq dbg) ?cd) (dl_desc_list dl)\<rparr>"
  note wf = wf_desc_listD [OF Suc.prems(1)]
  have n: "0 < n" "length ?cd = n" using Suc.prems(2,9) wf(4) ceil_div_pos by auto
  then have ne: "?cd \<noteq> []" by (metis length_0_conv less_irrefl)
  have room: "n \<le> desc_room dl start" "n \<le> 0x10000" using Suc.prems(7) wf(3) by (auto simp: desc_room_def split: if_splits)
  have args: "bind_args_ok dl start ?b stride" using Suc.prems(5) by simp
  then have st: "unat start < unat (dl_desc_count dl)" and off0: "unat off mod ?page = 0"
    by (simp_all add: bind_args_ok_def Let_def)
  have "unat tsize \<le> n * ?page" using Suc.prems(2,9) wf(4) ceil_div_ge by simp
  then have "unat off + unat tsize \<le> unat l" using Suc.prems(6) by simp
  then have step: "bind_and_program_descriptors_list hw dl start ?b ch ?irq dbg stride = (Ok (of_nat n), ?dl)"
    using bind_single [OF Suc.prems(1) args Suc.prems(2,3) _ _ Suc.prems(4) refl, of ch ?irq dbg] room n Suc.prems(9) by simp
  let ?start = "if dl_is_circular dl then (start + of_nat n) mod dl_desc_count dl else start + of_nat n"
  note nx = next_start [OF Suc.prems(1) st room(2)]
  let ?off = "off + of_nat n * ucast (dl_desc_page_size dl)"
  have le: "unat off + n * ?page < 2 ^ 32" using Suc.prems(6) unat_less_u32 [of l] by simp
  have "of_nat n * ucast (dl_desc_page_size dl) = (of_nat (n * ?page) :: u32)" by simp
  then have "unat (of_nat n * ucast (dl_desc_page_size dl) :: u32) = unat (of_nat (n * ?page) :: u32)" by (simp only:)
  also have "\<dots> = n * ?page" by (rule unat_of_nat_small) (use le in simp)
  finally have uoff: "unat ?off = unat off + n * ?page" using le by (subst unat_add_small) simp_all
  have "ucast ?off = (of_nat (unat ?off) :: u64)" by simp
  then have aoff: "base + ucast ?off = base + ucast off + of_nat (n * ?page)" unfolding uoff by simp
  have utot: "unat (tot + of_nat n) = unat tot + n"
    using Suc.prems(8) by (subst unat_add_small) (simp_all add: unat_of_nat_small)
  have args': "bind_args_ok ?dl ?start \<lparr> tb_sg_table = [(base, l)], tb_size = tsize, tb_offset = ?off, tb_opaque = 0 \<rparr> stride"
    if "0 < k"
    using args off0 that n(1) wf(2) Suc.prems(7) nx(1) 
    by (cases k) (auto simp: bind_args_ok_def Let_def uoff desc_room_def)
  have room': "k * n \<le> desc_room ?dl ?start"
    using Suc.prems(7) nx(1) by (auto simp: desc_room_def)
  have c0: "dl_desc_count dl \<noteq> 0" using wf(2) by auto
  let ?F = "\<lambda>k ds. if k = 0 then ds else mark_last (get_interrupts_bitmask hw irq dbg) ds"
  let ?B = "\<lambda>addr. batch_descs ?page (effective_stride dl stride) (ddr_data_id hw) addr (unat tsize)"
  have es: "effective_stride ?dl stride = effective_stride dl stride" by (simp add: effective_stride_def)
  have unf: "program_batch (Suc k) hw dl start ?b True ch irq dbg stride tot =
      program_batch k hw ?dl ?start \<lparr> tb_sg_table = [(base, l)], tb_size = tsize, tb_offset = ?off, tb_opaque = 0 \<rparr>
        True ch irq dbg stride (tot + of_nat n)"
    unfolding program_batch.simps Let_def hailo_vdma_program_descriptors_list_def if_True step prod.case result.case
    using c0 by (simp split del: if_split cong: if_cong)
  have "program_batch k hw ?dl ?start \<lparr> tb_sg_table = [(base, l)], tb_size = tsize, tb_offset = ?off, tb_opaque = 0 \<rparr>
      True ch irq dbg stride (tot + of_nat n) =
    (Ok (tot + of_nat n + of_nat (k * n)),
     ?dl\<lparr>dl_desc_list := place (unat ?start) (?F k (?B (base + ucast ?off) k)) (dl_desc_list ?dl)\<rparr>)"
    using Suc.IH [of ?dl ?start ?off "tot + of_nat n"] Suc.prems(1-4,6,8,9) args' room' uoff utot n
    unfolding es by (simp add: if_distrib [where f = "\<lambda>f. f _"] cong: if_cong)
  then have "program_batch (Suc k) hw dl start ?b True ch irq dbg stride tot =
    (Ok (tot + of_nat (Suc k * n)),
     dl\<lparr>dl_desc_list := place (unat start + n) (?F k (?B (base + ucast off + of_nat (n * ?page)) k))
       (place (unat start) (mark_last (get_interrupts_bitmask hw ?irq dbg) ?cd) (dl_desc_list dl))\<rparr>)"
    unfolding unf using nx(2) [of "place (unat start) (mark_last (get_interrupts_bitmask hw ?irq dbg) ?cd) (dl_desc_list dl)"] wf(1)
    unfolding aoff [symmetric] by (simp add: add.assoc del: of_nat_unat split del: if_split cong: if_cong)
  moreover have "place (unat start + n) (?F k (?B (base + ucast off + of_nat (n * ?page)) k))
      (place (unat start) (mark_last (get_interrupts_bitmask hw ?irq dbg) ?cd) (dl_desc_list dl)) =
    place (unat start) (mark_last (get_interrupts_bitmask hw irq dbg) (?B (base + ucast off) (Suc k))) (dl_desc_list dl)"
  proof (cases "k = 0")
    case True
    then show ?thesis using Suc.prems(2) wf(4) by (simp add: batch_descs_Suc) (simp add: batch_descs_def)
  next
    case False
    let ?R = "?B (base + ucast off + of_nat (n * ?page)) k"
    have "length ?R \<noteq> 0" using False n(1) Suc.prems(9) by simp
    then have "?R \<noteq> []" by (metis list.size(3))
    then show ?thesis
      using False Suc.prems(2,9) wf(4) ne n(2)
      by (simp add: batch_descs_Suc mark_last_append mark_last_0 place_append)
  qed
  ultimately show ?case by simp
qed

lemma mark_last_nth:
  "i < length ds \<Longrightarrow> mark_last m ds ! i = (if i = length ds - 1 then or_control m (ds ! i) else ds ! i)"
proof -
  assume i: "i < length ds"
  then obtain xs x where "ds = xs @ [x]" by (metis length_greater_0_conv less_nat_zero_code neq0_conv rev_exhaust)
  with i show ?thesis by (auto simp: mark_last_def nth_append)
qed

lemma desc_mark_last:
  "m < 256 \<Longrightarrow> i < length ds \<Longrightarrow>
   desc_addr (mark_last m ds ! i) = desc_addr (ds ! i) \<and> desc_size (mark_last m ds ! i) = desc_size (ds ! i)"
  by (simp add: mark_last_nth desc_or_control)

lemma batch_descs_nth:
  assumes "g < k * ceil_div tsize page" and "0 < page" and "page < 2 ^ 16" and "64 dvd page" and "addr AND 63 = 0"
    and "unat data_id < 64" and "unat stride \<le> page"
  shows "desc_addr (batch_descs page stride data_id addr tsize k ! g) = addr + of_nat (g * page)"
    and "desc_size (batch_descs page stride data_id addr tsize k ! g) =
      (if g mod ceil_div tsize page = ceil_div tsize page - 1 \<and> tsize mod page \<noteq> 0 then tsize mod page else unat stride)"
proof -
  have "(addr + of_nat (g * page)) AND 63 = 0" using assms(4,5) by (intro and63_add) auto
  then show "desc_addr (batch_descs page stride data_id addr tsize k ! g) = addr + of_nat (g * page)"
    using assms(1,6) by (simp add: batch_descs_def desc_addr_program)
  have r: "unat (of_nat (tsize mod page) :: u64) = tsize mod page" "tsize mod page < 2 ^ 24"
    using mod_less_divisor [OF assms(2), of tsize] assms(3) by (simp_all add: unat_of_nat_small)
  show "desc_size (batch_descs page stride data_id addr tsize k ! g) =
      (if g mod ceil_div tsize page = ceil_div tsize page - 1 \<and> tsize mod page \<noteq> 0 then tsize mod page else unat stride)"
    using assms(1,3,7) r by (simp add: batch_descs_def desc_size_program)
qed

text \<open>The batch pattern that the interface documents. On the PCIe engine, programming a batch of \<open>k\<close> transfers of a
  contiguous 64-byte aligned buffer with enough room in the list succeeds, and piece \<open>g\<close> (the \<open>g mod n\<close>-th of transfer
  \<open>g div n\<close>, with \<open>n\<close> pieces per transfer) is at descriptor \<open>starting_desc + g\<close> (modulo the list): its address is
  \<open>g\<close> pages after the start of the transfer area, and its size is the stride, or the rest of the transfer when it is
  the last piece of a transfer that is not a multiple of the page size. Every other descriptor is unchanged.\<close>
theorem batch_pattern:
  assumes "wf_desc_list dl" and "0 < unat tsize" and "unat tsize < 2 ^ 31" and "64 dvd unat (dl_desc_page_size dl)"
    and "base AND 63 = 0"
    and "bind_args_ok dl start \<lparr> tb_sg_table = [(base, l)], tb_size = tsize, tb_offset = off, tb_opaque = 0 \<rparr> stride"
    and "n = ceil_div (unat tsize) (unat (dl_desc_page_size dl))" and "0 < unat k"
    and "unat off + unat k * (n * unat (dl_desc_page_size dl)) \<le> unat l" and "unat k * n \<le> desc_room dl start"
  shows "\<exists>dl'. hailo_vdma_program_descriptors_list_batch hailo_pcie_vdma_hw dl start [(base, l)] off tsize k True ch irq
        dbg stride = (Ok (of_nat (unat k * n)), dl') \<and>
    (\<forall>g < unat k * n. let d = dl_desc_list dl' ! ((unat start + g) mod unat (dl_desc_count dl)) in
       desc_addr d = base + of_nat (unat off + g * unat (dl_desc_page_size dl)) \<and>
       desc_size d = (if g mod n = n - 1 \<and> unat tsize mod unat (dl_desc_page_size dl) \<noteq> 0
          then unat tsize mod unat (dl_desc_page_size dl) else unat (effective_stride dl stride))) \<and>
    (\<forall>j. (\<forall>g < unat k * n. j \<noteq> (unat start + g) mod unat (dl_desc_count dl)) \<longrightarrow>
       dl_desc_list dl' ! j = dl_desc_list dl ! j)"
proof -
  note wf = wf_desc_listD [OF assms(1)]
  let ?page = "unat (dl_desc_page_size dl)" and ?hw = hailo_pcie_vdma_hw and ?arr = "dl_desc_list dl"
  let ?m = "get_interrupts_bitmask ?hw irq dbg"
  define B where "B = batch_descs ?page (effective_stride dl stride) 0 (base + ucast off) (unat tsize) (unat k)"
  define dl' where "dl' = dl\<lparr>dl_desc_list := place (unat start) (mark_last ?m B) ?arr\<rparr>"
  have lenB: "length B = unat k * n" by (simp add: B_def assms(7))
  have small: "unat k * n \<le> length ?arr" using assms(10) wf(1) by (simp add: desc_room_def split: if_splits)
  have run: "hailo_vdma_program_descriptors_list_batch ?hw dl start [(base, l)] off tsize k True ch irq dbg stride =
      (Ok (of_nat (unat k * n)), dl')"
    unfolding hailo_vdma_program_descriptors_list_batch_def
    using program_batch_single [OF assms(1-3) _ assms(6,9,10) _ assms(7), of ?hw 0 ch irq dbg] assms(8) small wf(1,3)
    by (simp add: dl'_def B_def hailo_pcie_vdma_hw_def hailo_pcie_encode_desc_get_masked_channel_id_def)
  have slots: "length (mark_last ?m B) = unat k * n"
    using lenB assms(2,7,8) wf(4) ceil_div_pos [of "unat tsize" ?page] by (metis length_mark_last length_0_conv mult_is_0 not_gr0)
  have "desc_addr (B ! g) = base + of_nat (unat off + g * ?page) \<and>
      desc_size (B ! g) = (if g mod n = n - 1 \<and> unat tsize mod ?page \<noteq> 0 then unat tsize mod ?page
        else unat (effective_stride dl stride))" if g: "g < unat k * n" for g
  proof -
    have "64 dvd unat off" using assms(4,6) by (auto simp: bind_args_ok_def Let_def mod_eq_0_iff_dvd intro: dvd_trans)
    then have al: "(base + ucast off) AND 63 = 0" using and63_add [OF assms(5), of "unat off"] by simp
    have st: "unat (effective_stride dl stride) \<le> ?page"
      using assms(6) by (auto simp: bind_args_ok_def Let_def effective_stride_def)
    from batch_descs_nth [OF g [unfolded assms(7)] wf(4) _ assms(4) al _ st] show ?thesis
      using unat_less_u16 [of "dl_desc_page_size dl"] by (simp add: B_def assms(7) add.assoc)
  qed
  then show ?thesis
    using run lenB small slots desc_mark_last [OF pcie_interrupts_small, of _ B irq dbg]
      place_nth [of "mark_last ?m B" ?arr _ "unat start"] place_other [of "mark_last ?m B" _ "unat start" ?arr] wf(1)
    by (auto simp: dl'_def Let_def)
qed

section \<open>Witnesses\<close>

definition sample_desc :: hailo_vdma_descriptor where
  "sample_desc = \<lparr> PageSize_DescControl = 0, AddrL_rsvd_DataID = 0, AddrH = 0, RemainingPageSize_Status = 0 \<rparr>"

definition sample_list :: hailo_vdma_descriptors_list where
  "sample_list = \<lparr> dl_desc_list = replicate 8 sample_desc, dl_desc_count = 8, dl_desc_count_mask = 7,
     dl_desc_page_size = 0x200, dl_is_circular = True \<rparr>"

lemma sample_list_simps:
  "dl_desc_count sample_list = 8" "dl_desc_page_size sample_list = 0x200" "dl_is_circular sample_list"
  by (simp_all add: sample_list_def)

lemma wf_sample_list: "wf_desc_list sample_list"
  by (auto simp: wf_desc_list_def sample_list_def intro!: exI [of _ 3])

text \<open>The example in the documentation of \<open>HAILO_DESC_LIST_PROGRAM\<close>: offset \<open>0x1000\<close>, size \<open>0x300\<close>, a batch of 2 and pages
  of \<open>0x200\<close> bytes.\<close>

theorem batch_pattern_witness:
  "\<exists>dl'. hailo_vdma_program_descriptors_list_batch hailo_pcie_vdma_hw sample_list 6 [(0x40000000, 0x2000)] 0x1000 0x300 2
      True 3 2 False 0 = (Ok 4, dl') \<and>
    map (\<lambda>i. (desc_addr (dl_desc_list dl' ! i), desc_size (dl_desc_list dl' ! i))) [6, 7, 0, 1] =
      [(0x40001000, 0x200), (0x40001200, 0x100), (0x40001400, 0x200), (0x40001600, 0x100)]"
proof -
  let ?b = "\<lparr> tb_sg_table = [(0x40000000, 0x2000)], tb_size = 0x300, tb_offset = 0x1000, tb_opaque = 0 \<rparr>"
  let ?run = "hailo_vdma_program_descriptors_list_batch hailo_pcie_vdma_hw sample_list 6 [(0x40000000, 0x2000)] 0x1000 0x300 2
      True 3 2 False 0"
  have c: "2 = ceil_div (unat (0x300 :: u32)) (unat (dl_desc_page_size sample_list))" by (simp add: ceil_div_def sample_list_simps)
  have args: "bind_args_ok sample_list 6 ?b 0" by (simp add: bind_args_ok_def sample_list_simps)
  have h: "0 < unat (0x300 :: u32)" "unat (0x300 :: u32) < 2 ^ 31" "64 dvd unat (dl_desc_page_size sample_list)"
      "(0x40000000 :: u64) AND 63 = 0" "0 < unat (2 :: u32)"
      "unat (0x1000 :: u32) + unat (2 :: u32) * (2 * unat (dl_desc_page_size sample_list)) \<le> unat (0x2000 :: u32)"
      "unat (2 :: u32) * 2 \<le> desc_room sample_list 6"
    by (simp_all add: desc_room_def sample_list_simps)
  from batch_pattern [OF wf_sample_list h(1-4) args c h(5-7), of 3 2 False]
  obtain dl' where run: "?run = (Ok (of_nat (unat (2 :: u32) * 2)), dl')"
    and g: "\<And>g. g < unat (2 :: u32) * 2 \<Longrightarrow>
      desc_addr (dl_desc_list dl' ! ((unat (6 :: u32) + g) mod unat (dl_desc_count sample_list))) =
        0x40000000 + of_nat (unat (0x1000 :: u32) + g * unat (dl_desc_page_size sample_list)) \<and>
      desc_size (dl_desc_list dl' ! ((unat (6 :: u32) + g) mod unat (dl_desc_count sample_list))) =
        (if g mod 2 = 2 - 1 \<and> unat (0x300 :: u32) mod unat (dl_desc_page_size sample_list) \<noteq> 0
         then unat (0x300 :: u32) mod unat (dl_desc_page_size sample_list) else unat (effective_stride sample_list 0))"
    unfolding Let_def by blast
  have e: "unat (effective_stride sample_list 0) = 0x200" by (simp add: effective_stride_def sample_list_simps)
  show ?thesis using run g [of 0] g [of 1] g [of 2] g [of 3] by (simp add: e sample_list_simps)
qed

definition sample_buffer :: hailo_vdma_mapped_transfer_buffer where
  "sample_buffer = \<lparr> tb_sg_table = [(0x1000, 0x300), (0x8000, 0x500)], tb_size = 0x600, tb_offset = 0x200, tb_opaque = 0 \<rparr>"

lemma sample_buffer_facts:
  "0 < unat (tb_size sample_buffer)" "unat (tb_size sample_buffer) < 2 ^ 31" "sg_total (tb_sg_table sample_buffer) < 2 ^ 64"
  "bind_args_ok sample_list 6 sample_buffer 0"
  "sg_plan (tb_sg_table sample_buffer) (unat (tb_offset sample_buffer)) (unat (tb_size sample_buffer)) =
     [(0x1200, 0x100), (0x8000, 0x500)]"
  "length (bind_descs hailo_pcie_vdma_hw sample_list sample_buffer ch 0) = 4"
  "unat (tb_offset sample_buffer) + unat (tb_size sample_buffer) \<le> sg_total (tb_sg_table sample_buffer)"
  by (simp_all add: sample_buffer_def sample_list_simps bind_args_ok_def bind_descs_def ceil_div_def)


theorem bind_covers_buffer_witness:
  "\<exists>dl'. bind_and_program_descriptors_list hailo_pcie_vdma_hw sample_list 6 sample_buffer 3 2 False 0 = (Ok 4, dl') \<and>
    concat (map (\<lambda>i. desc_bytes (dl_desc_list dl' ! ((6 + i) mod 8))) [0..<4]) =
      take 0x600 (drop 0x200 (sg_bytes (tb_sg_table sample_buffer)))"
proof -
  have "4 \<le> desc_room sample_list 6" by (simp add: desc_room_def sample_list_simps)
  then obtain dl' where run: "bind_and_program_descriptors_list hailo_pcie_vdma_hw sample_list 6 sample_buffer 3 2 False 0 = (Ok 4, dl')"
    using bind_and_program_spec(3) [OF wf_sample_list sample_buffer_facts(4,1-3) refl, of hailo_pcie_vdma_hw 3 2 False]
      sample_buffer_facts(6,7) by simp
  have al: "\<forall>(a, n) \<in> set (sg_plan (tb_sg_table sample_buffer) (unat (tb_offset sample_buffer)) (unat (tb_size sample_buffer))).
      a AND 63 = 0" unfolding sample_buffer_facts(5) by simp
  have "64 dvd unat (dl_desc_page_size sample_list)" by (simp add: sample_list_simps)
  from bind_covers_buffer [OF wf_sample_list sample_buffer_facts(1-3) this al run] run show ?thesis
    by (simp add: sample_list_simps sample_buffer_def)
qed

theorem program_descriptors_list_batch_safe_witness:
  "let (res, dl') = hailo_vdma_program_descriptors_list_batch hailo_pcie_vdma_hw sample_list 0xFFFFFFFF [(3, 5)] 7 0x7FFFFFFF
      0xFFFFFFFF False 255 3 True 9
   in \<not> is_fault res \<and> wf_desc_list dl' \<and> dl_desc_count dl' = 8"
  using program_descriptors_list_batch_safe [OF wf_sample_list, of "0x7FFFFFFF" "[(3, 5)]" hailo_pcie_vdma_hw "0xFFFFFFFF" 7
      "0xFFFFFFFF" False 255 3 True 9]
  by (simp add: split_beta Let_def sample_list_simps)

end
