(* ===== verification/Resource.thy ===== *)
theory Resource
  imports Driver_Utils
begin

text \<open>
  Access to the device's memory-mapped registers, \<open>src/common/hailo_resource.c\<close>. The two primitives
  \<open>ioread32\<close> and \<open>iowrite32\<close> belong to the kernel and what they do depends on the device, so they are a
  parameter of every operation: a record of two functions over an arbitrary device state \<open>'d\<close>.
  A read may change the device (registers that clear on read, counters that advance).
  Byte and 16-bit accesses, and the buffer copies with their unaligned heads and tails, are built on
  32-bit accesses the way the code builds them.
\<close>

record 'd mmio =
  ioread32 :: "u64 \<Rightarrow> 'd \<Rightarrow> u32 \<times> 'd"
  iowrite32 :: "u32 \<Rightarrow> u64 \<Rightarrow> 'd \<Rightarrow> 'd"

record hailo_resource =
  res_address :: u64
  res_size :: u64

definition ALIGN_TO_32_BIT :: "u64 \<Rightarrow> u64" where
  "ALIGN_TO_32_BIT addr = addr AND NOT 3"

definition offset_in_bits :: "hailo_resource \<Rightarrow> u64 \<Rightarrow> u64" where
  "offset_in_bits r offset =
     of_nat BITS_IN_BYTE * ((res_address r + offset) - ALIGN_TO_32_BIT (res_address r + offset))"

definition hailo_resource_read8 :: "'d mmio \<Rightarrow> hailo_resource \<Rightarrow> u64 \<Rightarrow> 'd \<Rightarrow> u8 \<times> 'd" where
  "hailo_resource_read8 io r offset d =
     (let (val, d') = ioread32 io (ALIGN_TO_32_BIT (res_address r + offset)) d
      in (ucast (READ_BITS_AT_OFFSET (BYTE_SIZE * BITS_IN_BYTE) (unat (offset_in_bits r offset)) val), d'))"

definition hailo_resource_read16 :: "'d mmio \<Rightarrow> hailo_resource \<Rightarrow> u64 \<Rightarrow> 'd \<Rightarrow> u16 \<times> 'd" where
  "hailo_resource_read16 io r offset d =
     (let (val, d') = ioread32 io (ALIGN_TO_32_BIT (res_address r + offset)) d
      in (ucast (READ_BITS_AT_OFFSET (WORD_SIZE * BITS_IN_BYTE) (unat (offset_in_bits r offset)) val), d'))"

definition hailo_resource_read32 :: "'d mmio \<Rightarrow> hailo_resource \<Rightarrow> u64 \<Rightarrow> 'd \<Rightarrow> u32 \<times> 'd" where
  "hailo_resource_read32 io r offset d = ioread32 io (res_address r + offset) d"

definition hailo_resource_write8 :: "'d mmio \<Rightarrow> hailo_resource \<Rightarrow> u64 \<Rightarrow> u8 \<Rightarrow> 'd \<Rightarrow> 'd" where
  "hailo_resource_write8 io r offset v d =
     (let (initial_val, d') = ioread32 io (ALIGN_TO_32_BIT (res_address r + offset)) d
      in iowrite32 io
           (WRITE_BITS_AT_OFFSET (BYTE_SIZE * BITS_IN_BYTE) (unat (offset_in_bits r offset)) initial_val (ucast v))
           (ALIGN_TO_32_BIT (res_address r + offset)) d')"

definition hailo_resource_write16 :: "'d mmio \<Rightarrow> hailo_resource \<Rightarrow> u64 \<Rightarrow> u16 \<Rightarrow> 'd \<Rightarrow> 'd" where
  "hailo_resource_write16 io r offset v d =
     (let (initial_val, d') = ioread32 io (ALIGN_TO_32_BIT (res_address r + offset)) d
      in iowrite32 io
           (WRITE_BITS_AT_OFFSET (WORD_SIZE * BITS_IN_BYTE) (unat (offset_in_bits r offset)) initial_val (ucast v))
           (ALIGN_TO_32_BIT (res_address r + offset)) d')"

definition hailo_resource_write32 :: "'d mmio \<Rightarrow> hailo_resource \<Rightarrow> u64 \<Rightarrow> u32 \<Rightarrow> 'd \<Rightarrow> 'd" where
  "hailo_resource_write32 io r offset v d = iowrite32 io v (res_address r + offset) d"

text \<open>
  The host is little endian: \<open>*(u32 *)p\<close> is the word of the four bytes at \<open>p\<close>, lowest first.
\<close>

definition u32_bytes :: "u32 \<Rightarrow> u8 list" where
  "u32_bytes w = [ucast w, ucast (drop_bit 8 w), ucast (drop_bit 16 w), ucast (drop_bit 24 w)]"

definition u32_of_bytes :: "u8 \<Rightarrow> u8 \<Rightarrow> u8 \<Rightarrow> u8 \<Rightarrow> u32" where
  "u32_of_bytes b0 b1 b2 b3 =
     ucast b0 OR push_bit 8 (ucast b1) OR push_bit 16 (ucast b2) OR push_bit 24 (ucast b3)"

text \<open>
  \<open>hailo_resource_read_buffer\<close>: the bytes stored at \<open>to\<close>, in order. The three loops are the three
  functions; \<open>needs_bytes\<close> is the guard of the first (either pointer unaligned).
\<close>

definition needs_bytes :: "hailo_resource \<Rightarrow> u64 \<Rightarrow> u64 \<Rightarrow> bool" where
  "needs_bytes r offset ptr \<longleftrightarrow> \<not> IS_ALIGNED ptr 4 \<or> \<not> IS_ALIGNED (res_address r + offset) 4"

fun read_tail :: "'d mmio \<Rightarrow> hailo_resource \<Rightarrow> u64 \<Rightarrow> nat \<Rightarrow> 'd \<Rightarrow> u8 list \<times> 'd" where
  "read_tail io r offset 0 d = ([], d)"
| "read_tail io r offset (Suc n) d =
     (let (b, d1) = hailo_resource_read8 io r offset d;
          (bs, d2) = read_tail io r (offset + 1) n d1
      in (b # bs, d2))"

fun read_words :: "'d mmio \<Rightarrow> hailo_resource \<Rightarrow> u64 \<Rightarrow> nat \<Rightarrow> 'd \<Rightarrow> u8 list \<times> 'd" where
  "read_words io r offset (Suc (Suc (Suc (Suc n)))) d =
     (let (w, d1) = hailo_resource_read32 io r offset d;
          (bs, d2) = read_words io r (offset + 4) n d1
      in (u32_bytes w @ bs, d2))"
| "read_words io r offset n d = read_tail io r offset n d"

fun read_head :: "'d mmio \<Rightarrow> hailo_resource \<Rightarrow> u64 \<Rightarrow> nat \<Rightarrow> u64 \<Rightarrow> 'd \<Rightarrow> u8 list \<times> 'd" where
  "read_head io r offset 0 to_ptr d = ([], d)"
| "read_head io r offset (Suc n) to_ptr d =
     (if needs_bytes r offset to_ptr
      then let (b, d1) = hailo_resource_read8 io r offset d;
               (bs, d2) = read_head io r (offset + 1) n (to_ptr + 1) d1
           in (b # bs, d2)
      else read_words io r offset (Suc n) d)"

definition hailo_resource_read_buffer ::
    "'d mmio \<Rightarrow> hailo_resource \<Rightarrow> u64 \<Rightarrow> nat \<Rightarrow> u64 \<Rightarrow> 'd \<Rightarrow> u8 list \<times> 'd" where
  "hailo_resource_read_buffer io r offset count to_ptr d = read_head io r offset count to_ptr d"

text \<open>\<open>hailo_resource_write_buffer\<close>: every byte or word is read back and compared.\<close>

fun write_tail :: "'d mmio \<Rightarrow> hailo_resource \<Rightarrow> u64 \<Rightarrow> u8 list \<Rightarrow> 'd \<Rightarrow> unit result \<times> 'd" where
  "write_tail io r offset [] d = (Ok (), d)"
| "write_tail io r offset (b # bs) d =
     (let d1 = hailo_resource_write8 io r offset b d;
          (v, d2) = hailo_resource_read8 io r offset d1
      in if v \<noteq> b then (Err EIO, d2) else write_tail io r (offset + 1) bs d2)"

fun write_words :: "'d mmio \<Rightarrow> hailo_resource \<Rightarrow> u64 \<Rightarrow> u8 list \<Rightarrow> 'd \<Rightarrow> unit result \<times> 'd" where
  "write_words io r offset (b0 # b1 # b2 # b3 # bs) d =
     (let w = u32_of_bytes b0 b1 b2 b3;
          d1 = hailo_resource_write32 io r offset w d;
          (v, d2) = hailo_resource_read32 io r offset d1
      in if v \<noteq> w then (Err EIO, d2) else write_words io r (offset + 4) bs d2)"
| "write_words io r offset bs d = write_tail io r offset bs d"

fun write_head :: "'d mmio \<Rightarrow> hailo_resource \<Rightarrow> u64 \<Rightarrow> u8 list \<Rightarrow> u64 \<Rightarrow> 'd \<Rightarrow> unit result \<times> 'd" where
  "write_head io r offset [] from_ptr d = (Ok (), d)"
| "write_head io r offset (b # bs) from_ptr d =
     (if needs_bytes r offset from_ptr
      then let d1 = hailo_resource_write8 io r offset b d;
               (v, d2) = hailo_resource_read8 io r offset d1
           in if v \<noteq> b then (Err EIO, d2) else write_head io r (offset + 1) bs (from_ptr + 1) d2
      else write_words io r offset (b # bs) d)"

definition hailo_resource_write_buffer ::
    "'d mmio \<Rightarrow> hailo_resource \<Rightarrow> u64 \<Rightarrow> u8 list \<Rightarrow> u64 \<Rightarrow> 'd \<Rightarrow> unit result \<times> 'd" where
  "hailo_resource_write_buffer io r offset src from_ptr d = write_head io r offset src from_ptr d"

section \<open>Devices that behave as memory\<close>

text \<open>
  What a plain memory window does, as a hypothesis on the parameter: \<open>view\<close> shows the bytes behind the
  window, and at every word address in \<open>A\<close> a 32-bit read returns the four bytes and changes nothing, and
  a 32-bit write replaces exactly these four bytes.
\<close>

definition word_at :: "(u64 \<Rightarrow> u8) \<Rightarrow> u64 \<Rightarrow> u32" where
  "word_at m a = u32_of_bytes (m a) (m (a + 1)) (m (a + 2)) (m (a + 3))"

definition store_word :: "(u64 \<Rightarrow> u8) \<Rightarrow> u64 \<Rightarrow> u32 \<Rightarrow> (u64 \<Rightarrow> u8)" where
  "store_word m a w =
     m(a := ucast w, a + 1 := ucast (drop_bit 8 w), a + 2 := ucast (drop_bit 16 w),
       a + 3 := ucast (drop_bit 24 w))"

definition ram_window :: "'d mmio \<Rightarrow> ('d \<Rightarrow> u64 \<Rightarrow> u8) \<Rightarrow> u64 set \<Rightarrow> bool" where
  "ram_window io view A \<longleftrightarrow>
     (\<forall>a d. a \<in> A \<longrightarrow> IS_ALIGNED a 4 \<longrightarrow> ioread32 io a d = (word_at (view d) a, d)) \<and>
     (\<forall>a w d. a \<in> A \<longrightarrow> IS_ALIGNED a 4 \<longrightarrow> view (iowrite32 io w a d) = store_word (view d) a w)"

text \<open>A byte-addressed memory is such a device.\<close>

definition ram_mmio :: "(u64 \<Rightarrow> u8) mmio" where
  "ram_mmio = \<lparr> ioread32 = (\<lambda>a m. (word_at m a, m)), iowrite32 = (\<lambda>w a m. store_word m a w) \<rparr>"

lemma ram_window_ram_mmio: "ram_window ram_mmio (\<lambda>m. m) A"
  by (simp add: ram_window_def ram_mmio_def)

section \<open>Bytes within words\<close>

lemma align_plus_low: "(addr AND NOT 3) + (addr AND 3) = (addr :: u64)"
proof -
  have "(addr AND NOT 3) AND (addr AND 3) = 0"
    by (rule bit_word_eqI) (auto simp: bit_simps)
  then have "(addr AND NOT 3) + (addr AND 3) = (addr AND NOT 3) OR (addr AND 3)"
    by (rule disjunctive_add_eq_or)
  also have "\<dots> = addr" by (rule bit_word_eqI) (auto simp: bit_simps)
  finally show ?thesis .
qed

lemma low2_cases: "(addr :: u64) AND 3 \<in> {0, 1, 2, 3}"
proof -
  have "unat (addr AND 3) < 4"
    using unat_and_mask [of addr 2] by (simp add: mask_eq_exp_minus_1)
  then show ?thesis
    by (rule word_less_cases) (auto simp: less_Suc_eq numeral_eq_Suc)
qed

lemma aligned_align: "IS_ALIGNED (ALIGN_TO_32_BIT addr) 4"
  unfolding IS_ALIGNED_def ALIGN_TO_32_BIT_def
  by (rule bit_word_eqI) (auto simp: bit_simps)

lemma align_aligned: "IS_ALIGNED addr 4 \<Longrightarrow> ALIGN_TO_32_BIT addr = addr"
  unfolding IS_ALIGNED_def ALIGN_TO_32_BIT_def using align_plus_low [of addr] by simp

lemma byte_select:
  "ucast (READ_BITS_AT_OFFSET 8 (8 * k) (u32_of_bytes b0 b1 b2 b3)) = [b0, b1, b2, b3] ! k"
  if "k < 4"
proof -
  from that consider "k = 0" | "k = 1" | "k = 2" | "k = 3" by linarith
  then show ?thesis
    by cases (rule bit_word_eqI;
       auto simp: READ_BITS_take_drop u32_of_bytes_def bit_simps dest: bit_imp_le_length)+
qed

lemma u32_bytes_of_bytes: "u32_bytes (u32_of_bytes b0 b1 b2 b3) = [b0, b1, b2, b3]"
  unfolding u32_bytes_def u32_of_bytes_def
  by (simp, intro conjI; rule bit_word_eqI; auto simp: bit_simps dest: bit_imp_le_length)

lemma byte_update:
  "u32_bytes (WRITE_BITS_AT_OFFSET 8 (8 * k) (u32_of_bytes b0 b1 b2 b3) (ucast v)) =
     [b0, b1, b2, b3][k := v]"
  if "k < 4"
proof -
  from that consider "k = 0" | "k = 1" | "k = 2" | "k = 3" by linarith
  then show ?thesis
    by cases (simp add: u32_bytes_def, intro conjI; rule bit_word_eqI;
       auto simp: bit_WRITE_BITS u32_of_bytes_def bit_simps dest: bit_imp_le_length)+
qed

lemma less4_cases:
  assumes "(k::nat) < 4"
  obtains "k = 0" | "k = 1" | "k = 2" | "k = 3"
  using assms by linarith

lemma low2_nat:
  obtains k where "k < 4" "x = ALIGN_TO_32_BIT x + of_nat k"
    "unat (8 * (x - ALIGN_TO_32_BIT x)) = 8 * k"
proof -
  define k where "k = unat (x AND 3)"
  have x: "x = ALIGN_TO_32_BIT x + of_nat k"
    using align_plus_low [of x] by (simp add: k_def ALIGN_TO_32_BIT_def word_eq_of_nat_unat [symmetric])
  then have "x - ALIGN_TO_32_BIT x = of_nat k" by (metis add_diff_cancel_left')
  moreover have k: "k < 4"
    using low2_cases [of x] by (auto simp: k_def)
  moreover have "unat (8 * of_nat k :: u64) = 8 * k"
    using k by (rule less4_cases) simp_all
  ultimately show thesis using that x by simp
qed

lemma word_at_byte: "k < 4 \<Longrightarrow> [m a, m (a + 1), m (a + 2), m (a + 3)] ! k = m (a + of_nat k)"
  by (erule less4_cases) simp_all

lemma store_word_bytes:
  "u32_bytes w = [b0, b1, b2, b3] \<Longrightarrow>
   store_word m a w = m(a := b0, a + 1 := b1, a + 2 := b2, a + 3 := b3)"
  by (simp add: store_word_def u32_bytes_def)

lemma store_word_byte:
  assumes "k < 4"
  shows "store_word m a (WRITE_BITS_AT_OFFSET 8 (8 * k) (word_at m a) (ucast v)) = m(a + of_nat k := v)"
proof -
  have "u32_bytes (WRITE_BITS_AT_OFFSET 8 (8 * k) (word_at m a) (ucast v))
      = [m a, m (a + 1), m (a + 2), m (a + 3)][k := v]"
    unfolding word_at_def by (rule byte_update [OF assms])
  note bs = this
  from assms show ?thesis
  proof (rule less4_cases)
    assume "k = 0" with bs store_word_bytes show ?thesis by (simp add: fun_eq_iff)
  next
    assume "k = 1" with bs store_word_bytes show ?thesis by (simp add: fun_eq_iff)
  next
    assume "k = 2" with bs store_word_bytes show ?thesis by (simp add: fun_eq_iff)
  next
    assume "k = 3" with bs store_word_bytes show ?thesis by (simp add: fun_eq_iff)
  qed
qed

lemma store_word_of_bytes:
  "store_word m a (u32_of_bytes b0 b1 b2 b3) = m(a := b0, a + 1 := b1, a + 2 := b2, a + 3 := b3)"
  by (rule store_word_bytes) (rule u32_bytes_of_bytes)

lemma ram_read8:
  assumes "ram_window io view A" and "ALIGN_TO_32_BIT (res_address r + off) \<in> A"
  shows "hailo_resource_read8 io r off d = (view d (res_address r + off), d)"
proof -
  obtain k where k: "k < 4" "res_address r + off = ALIGN_TO_32_BIT (res_address r + off) + of_nat k"
    "unat (8 * (res_address r + off - ALIGN_TO_32_BIT (res_address r + off))) = 8 * k"
    by (rule low2_nat)
  then have "unat (offset_in_bits r off) = 8 * k" by (simp add: offset_in_bits_def BITS_IN_BYTE_def)
  moreover have "ioread32 io (ALIGN_TO_32_BIT (res_address r + off)) d =
      (word_at (view d) (ALIGN_TO_32_BIT (res_address r + off)), d)"
    using assms aligned_align by (simp add: ram_window_def)
  moreover note word_at_byte [of k "view d" "ALIGN_TO_32_BIT (res_address r + off)"] k(1)
  ultimately show ?thesis
    using k(2) by (simp add: hailo_resource_read8_def BITS_IN_BYTE_def BYTE_SIZE_def word_at_def byte_select)
qed

lemma ram_write8:
  assumes "ram_window io view A" and "ALIGN_TO_32_BIT (res_address r + off) \<in> A"
  shows "view (hailo_resource_write8 io r off v d) = (view d)(res_address r + off := v)"
proof -
  obtain k where k: "k < 4" "res_address r + off = ALIGN_TO_32_BIT (res_address r + off) + of_nat k"
    "unat (8 * (res_address r + off - ALIGN_TO_32_BIT (res_address r + off))) = 8 * k"
    by (rule low2_nat)
  then have "unat (offset_in_bits r off) = 8 * k" by (simp add: offset_in_bits_def BITS_IN_BYTE_def)
  moreover have "ioread32 io (ALIGN_TO_32_BIT (res_address r + off)) d =
      (word_at (view d) (ALIGN_TO_32_BIT (res_address r + off)), d)"
    using assms aligned_align by (simp add: ram_window_def)
  moreover have "view (iowrite32 io w (ALIGN_TO_32_BIT (res_address r + off)) d) =
      store_word (view d) (ALIGN_TO_32_BIT (res_address r + off)) w" for w
    using assms aligned_align by (simp add: ram_window_def)
  moreover note store_word_byte [OF k(1), of "view d" "ALIGN_TO_32_BIT (res_address r + off)" v]
  ultimately show ?thesis
    using k(2) by (simp add: hailo_resource_write8_def BITS_IN_BYTE_def BYTE_SIZE_def)
qed

definition window_covers :: "u64 set \<Rightarrow> u64 \<Rightarrow> nat \<Rightarrow> bool" where
  "window_covers A a n \<longleftrightarrow> (\<forall>i < n. ALIGN_TO_32_BIT (a + of_nat i) \<in> A)"

definition mem_bytes :: "(u64 \<Rightarrow> u8) \<Rightarrow> u64 \<Rightarrow> nat \<Rightarrow> u8 list" where
  "mem_bytes m a n = map (\<lambda>i. m (a + of_nat i)) [0..<n]"

lemma mem_bytes_0 [simp]: "mem_bytes m a 0 = []"
  by (simp add: mem_bytes_def)

lemma mem_bytes_Suc: "mem_bytes m a (Suc n) = m a # mem_bytes m (a + 1) n"
  unfolding mem_bytes_def upt_conv_Cons [OF zero_less_Suc] map_Suc_upt [symmetric]
  by (simp add: add.assoc)

lemma window_covers_Suc:
  "window_covers A a (Suc n) \<longleftrightarrow> ALIGN_TO_32_BIT a \<in> A \<and> window_covers A (a + 1) n"
  unfolding window_covers_def
  by (auto simp: less_Suc_eq_0_disj add.assoc) 

lemma ram_read_tail:
  "ram_window io view A \<Longrightarrow> window_covers A (res_address r + off) n \<Longrightarrow>
    read_tail io r off n d = (mem_bytes (view d) (res_address r + off) n, d)"
proof (induction n arbitrary: off)
  case (Suc n)
  then show ?case
    by (simp add: window_covers_Suc ram_read8 mem_bytes_Suc add.assoc)
qed simp

lemma IS_ALIGNED4_iff: "IS_ALIGNED a 4 \<longleftrightarrow> unat a mod 4 = 0" for a :: u64
proof -
  have "unat (a AND 3) = unat a mod 4"
    using unat_and_mask [of a 2] by (simp add: mask_eq_exp_minus_1)
  moreover have "IS_ALIGNED a 4 \<longleftrightarrow> unat (a AND 3) = 0" by (simp add: IS_ALIGNED_def unat_0_iff)
  ultimately show ?thesis by simp
qed

lemma aligned4_add4: "IS_ALIGNED (a::u64) 4 \<Longrightarrow> IS_ALIGNED (a + 4) 4"
  by (simp add: IS_ALIGNED4_iff unat_word_ariths mod_mod_cancel)

lemma ram_read32:
  "ram_window io view A \<Longrightarrow> a \<in> A \<Longrightarrow> IS_ALIGNED a 4 \<Longrightarrow> ioread32 io a d = (word_at (view d) a, d)"
  by (simp add: ram_window_def)

lemma ram_write32:
  "ram_window io view A \<Longrightarrow> a \<in> A \<Longrightarrow> IS_ALIGNED a 4 \<Longrightarrow>
   view (iowrite32 io w a d) = store_word (view d) a w"
  by (simp add: ram_window_def)

lemma mem_bytes_4:
  "mem_bytes m a (Suc (Suc (Suc (Suc n)))) = u32_bytes (word_at m a) @ mem_bytes m (a + 4) n"
  by (simp add: mem_bytes_Suc word_at_def u32_bytes_of_bytes add.assoc)

lemma ram_read_words:
  "ram_window io view A \<Longrightarrow> window_covers A (res_address r + off) n \<Longrightarrow> IS_ALIGNED (res_address r + off) 4 \<Longrightarrow>
    read_words io r off n d = (mem_bytes (view d) (res_address r + off) n, d)"
proof (induction io r off n d rule: read_words.induct)
  case (1 io r off n d)
  have "res_address r + off \<in> A"
    using "1.prems" by (simp add: window_covers_Suc align_aligned)
  moreover have "window_covers A (res_address r + (off + 4)) n"
    using "1.prems"(2) by (simp add: window_covers_Suc add.assoc)
  moreover have "IS_ALIGNED (res_address r + (off + 4)) 4"
    using aligned4_add4 [OF "1.prems"(3)] by (simp add: add.assoc)
  ultimately show ?case
    using "1.IH" "1.prems"
    by (simp add: hailo_resource_read32_def ram_read32 mem_bytes_4 add.assoc)
qed (simp_all only: read_words.simps ram_read_tail)

lemma ram_read_head:
  "ram_window io view A \<Longrightarrow> window_covers A (res_address r + off) n \<Longrightarrow>
    read_head io r off n to_ptr d = (mem_bytes (view d) (res_address r + off) n, d)"
proof (induction n arbitrary: off to_ptr)
  case (Suc n)
  show ?case
  proof (cases "needs_bytes r off to_ptr")
    case True
    then show ?thesis
      using Suc by (simp add: window_covers_Suc ram_read8 mem_bytes_Suc add.assoc)
  next
    case False
    then show ?thesis
      using Suc.prems by (simp add: ram_read_words needs_bytes_def)
  qed
qed simp

fun mem_store :: "(u64 \<Rightarrow> u8) \<Rightarrow> u64 \<Rightarrow> u8 list \<Rightarrow> (u64 \<Rightarrow> u8)" where
  "mem_store m a [] = m"
| "mem_store m a (b # bs) = mem_store (m(a := b)) (a + 1) bs"

lemma mem_store_apply:
  "length bs \<le> 2 ^ 64 \<Longrightarrow>
   mem_store m a bs x = (if unat (x - a) < length bs then bs ! unat (x - a) else m x)"
proof (induction bs arbitrary: m a)
  case (Cons b bs)
  show ?case
  proof (cases "x = a")
    case True
    have "unat (a - (a + 1)) = 2 ^ 64 - 1" by (simp add: unsigned_minus_1_eq_mask mask_eq_exp_minus_1)
    then show ?thesis using Cons True by simp
  next
    case False
    then have "x - a \<noteq> 0" by simp
    then have "unat (x - a) = Suc (unat (x - a - 1))" by (metis Suc_pred' unat_gt_0 unat_minus_one One_nat_def)
    then show ?thesis using Cons False by (simp add: diff_diff_eq)
  qed
qed simp

lemma ram_write_tail:
  "ram_window io view A \<Longrightarrow> window_covers A (res_address r + off) (length bs) \<Longrightarrow>
    fst (write_tail io r off bs d) = Ok () \<and>
    view (snd (write_tail io r off bs d)) = mem_store (view d) (res_address r + off) bs"
proof (induction bs arbitrary: off d)
  case (Cons b bs)
  then show ?case
    by (simp add: window_covers_Suc ram_write8 ram_read8 Let_def add.assoc fun_upd_def)
qed simp

lemma ram_write_words:
  "ram_window io view A \<Longrightarrow> window_covers A (res_address r + off) (length bs) \<Longrightarrow> IS_ALIGNED (res_address r + off) 4 \<Longrightarrow>
    fst (write_words io r off bs d) = Ok () \<and>
    view (snd (write_words io r off bs d)) = mem_store (view d) (res_address r + off) bs"
proof (induction io r off bs d rule: write_words.induct)
  case (1 io r off b0 b1 b2 b3 bs d)
  have A: "res_address r + off \<in> A"
    using "1.prems" by (simp add: window_covers_Suc align_aligned)
  moreover have "window_covers A (res_address r + (off + 4)) (length bs)"
    using "1.prems"(2) by (simp add: window_covers_Suc add.assoc)
  moreover have "IS_ALIGNED (res_address r + (off + 4)) 4"
    using aligned4_add4 [OF "1.prems"(3)] by (simp add: add.assoc)
  moreover have "word_at (store_word (view d) (res_address r + off) (u32_of_bytes b0 b1 b2 b3))
      (res_address r + off) = u32_of_bytes b0 b1 b2 b3"
    by (simp add: store_word_of_bytes word_at_def)
  moreover have "mem_store (view d) (res_address r + off) (b0 # b1 # b2 # b3 # bs) =
      mem_store (store_word (view d) (res_address r + off) (u32_of_bytes b0 b1 b2 b3))
        (res_address r + (off + 4)) bs"
    by (simp add: store_word_of_bytes add.assoc)
  ultimately show ?case
    using "1.IH" "1.prems"(1,3)
    by (simp add: hailo_resource_read32_def hailo_resource_write32_def ram_read32 ram_write32 Let_def
        del: mem_store.simps)
qed (simp_all only: write_words.simps ram_write_tail simp_thms)

lemma ram_write_head:
  "ram_window io view A \<Longrightarrow> window_covers A (res_address r + off) (length bs) \<Longrightarrow>
    fst (write_head io r off bs from_ptr d) = Ok () \<and>
    view (snd (write_head io r off bs from_ptr d)) = mem_store (view d) (res_address r + off) bs"
proof (induction bs arbitrary: off from_ptr d)
  case (Cons b bs)
  show ?case
  proof (cases "needs_bytes r off from_ptr")
    case True
    then show ?thesis
      using Cons by (simp add: window_covers_Suc ram_write8 ram_read8 Let_def add.assoc fun_upd_def)
  next
    case False
    then show ?thesis
      using Cons.prems ram_write_words [of io view A r off "b # bs" d]
      by (simp add: needs_bytes_def)
  qed
qed simp

text \<open>A broken link: every read returns all ones.\<close>

definition link_down :: "'d mmio \<Rightarrow> bool" where
  "link_down io \<longleftrightarrow> (\<forall>a d. fst (ioread32 io a d) = -1)"

lemma ucast_mask_ones: "8 \<le> n \<Longrightarrow> ucast (mask n :: u32) = (-1 :: u8)"
  by (rule bit_word_eqI) (simp add: bit_simps)

lemma ucast_ones: "ucast (-1 :: u32) = (-1 :: u8)"
  by (rule bit_word_eqI) (simp add: bit_simps)

lemma read8_link_down: "link_down io \<Longrightarrow> fst (hailo_resource_read8 io r off d) = -1"
proof -
  assume "link_down io"
  then have v: "fst (ioread32 io a d) = -1" for a by (simp add: link_down_def)
  obtain k where k: "k < 4"
    "unat (8 * (res_address r + off - ALIGN_TO_32_BIT (res_address r + off))) = 8 * k"
    by (rule low2_nat)
  then have o: "unat (offset_in_bits r off) = 8 * k" by (simp add: offset_in_bits_def BITS_IN_BYTE_def)
  have "ucast (READ_BITS_AT_OFFSET 8 (8 * k) (-1 :: u32)) = (-1 :: u8)"
    using k(1) by (elim less4_cases) (simp_all add: READ_BITS_take_drop ucast_mask_ones)
  with o v show ?thesis
    by (simp add: hailo_resource_read8_def split_beta BITS_IN_BYTE_def BYTE_SIZE_def)
qed

lemma write_tail_link_down:
  "link_down io \<Longrightarrow> b \<in> set bs \<Longrightarrow> b \<noteq> -1 \<Longrightarrow> fst (write_tail io r off bs d) = Err EIO"
  by (induction bs arbitrary: off d) (auto simp: Let_def split_beta read8_link_down)

lemma u32_of_bytes_all_ones: "u32_of_bytes b0 b1 b2 b3 = -1 \<Longrightarrow> b0 = -1 \<and> b1 = -1 \<and> b2 = -1 \<and> b3 = -1"
  using u32_bytes_of_bytes [of b0 b1 b2 b3] by (auto simp: u32_bytes_def ucast_mask_ones ucast_ones)

lemma write_words_link_down:
  "link_down io \<Longrightarrow> b \<in> set bs \<Longrightarrow> b \<noteq> -1 \<Longrightarrow> fst (write_words io r off bs d) = Err EIO"
proof (induction io r off bs d rule: write_words.induct)
  case (1 io r off b0 b1 b2 b3 bs d)
  let ?w = "u32_of_bytes b0 b1 b2 b3"
  obtain d2 where d2: "hailo_resource_read32 io r off (hailo_resource_write32 io r off ?w d) = (-1, d2)"
    using "1.prems"(1) by (metis hailo_resource_read32_def link_down_def prod.collapse)
  show ?case
  proof (cases "?w = -1")
    case True
    with "1.prems" have "b \<in> set bs" using u32_of_bytes_all_ones by auto
    with True d2 "1.IH" [OF refl refl d2 [symmetric] refl] "1.prems" show ?thesis by (simp add: Let_def)
  next
    case False
    with d2 show ?thesis by (simp add: Let_def)
  qed
qed (unfold write_words.simps, (erule (2) write_tail_link_down)+)

lemma write_head_link_down:
  "link_down io \<Longrightarrow> b \<in> set bs \<Longrightarrow> b \<noteq> -1 \<Longrightarrow> fst (write_head io r off bs from_ptr d) = Err EIO"
proof (induction bs arbitrary: off from_ptr d)
  case (Cons b' bs)
  then show ?case
    by (cases "needs_bytes r off from_ptr")
      (auto simp: Let_def split_beta read8_link_down write_words_link_down)
qed simp

section \<open>Properties\<close>

text \<open>Over a window that behaves as memory, \<open>hailo_resource_read_buffer\<close> returns exactly the bytes
  behind the window, from the offset on and in order, whatever the alignment of either pointer, and
  leaves the device as it was.\<close>
theorem read_buffer_exact:
  assumes "ram_window io view A" and "window_covers A (res_address r + off) n"
  shows "hailo_resource_read_buffer io r off n to_ptr d = (mem_bytes (view d) (res_address r + off) n, d)"
  using assms by (simp add: hailo_resource_read_buffer_def ram_read_head)

theorem read_buffer_exact_witness:
  "hailo_resource_read_buffer ram_mmio \<lparr> res_address = 0x1000, res_size = 64 \<rparr> 3 6 0x2000
     (\<lambda>a. ucast a + 1) = ([4, 5, 6, 7, 8, 9], \<lambda>a. ucast a + 1)"
  using read_buffer_exact [OF ram_window_ram_mmio [of UNIV],
      of "\<lparr> res_address = 0x1000, res_size = 64 \<rparr>" 3 6 "0x2000" "\<lambda>a. ucast a + 1"]
  by (simp add: window_covers_def mem_bytes_def upt_rec)

text \<open>Over a window that behaves as memory, \<open>hailo_resource_write_buffer\<close> succeeds, and afterwards the
  bytes behind the window are the source bytes at the target range and unchanged everywhere else: the
  read-modify-write of unaligned bytes never disturbs a neighbour.\<close>
theorem write_buffer_exact:
  assumes "ram_window io view A" and "window_covers A (res_address r + off) (length bs)"
    and "length bs \<le> 2 ^ 64"
  shows "fst (hailo_resource_write_buffer io r off bs from_ptr d) = Ok () \<and>
    (\<forall>x. view (snd (hailo_resource_write_buffer io r off bs from_ptr d)) x =
      (if unat (x - (res_address r + off)) < length bs
       then bs ! unat (x - (res_address r + off)) else view d x))"
  using assms by (simp add: hailo_resource_write_buffer_def ram_write_head mem_store_apply)

theorem write_buffer_exact_witness:
  "fst (hailo_resource_write_buffer ram_mmio \<lparr> res_address = 0x1000, res_size = 64 \<rparr> 3
       [10, 20, 30, 40, 50, 60] 0x2000 (\<lambda>_. 7)) = Ok () \<and>
   map (snd (hailo_resource_write_buffer ram_mmio \<lparr> res_address = 0x1000, res_size = 64 \<rparr> 3
       [10, 20, 30, 40, 50, 60] 0x2000 (\<lambda>_. 7))) [0x1002, 0x1003, 0x1008, 0x1009] = [7, 10, 60, 7]"
  using write_buffer_exact [OF ram_window_ram_mmio [of UNIV],
      of "\<lparr> res_address = 0x1000, res_size = 64 \<rparr>" 3 "[10, 20, 30, 40, 50, 60]" "0x2000" "\<lambda>_. 7"]
  by (simp add: window_covers_def unsigned_minus_1_eq_mask mask_eq_exp_minus_1)

text \<open>When the link to the device is down (every read returns all ones), \<open>hailo_resource_write_buffer\<close>
  reports the loss: a buffer that has any byte other than 0xFF is refused with \<open>EIO\<close>.\<close>
theorem write_buffer_link_down:
  assumes "link_down io" and "\<exists>b \<in> set bs. b \<noteq> -1"
  shows "fst (hailo_resource_write_buffer io r off bs from_ptr d) = Err EIO"
  using assms by (auto simp: hailo_resource_write_buffer_def write_head_link_down)

theorem write_buffer_link_down_witness:
  "fst (hailo_resource_write_buffer \<lparr> ioread32 = (\<lambda>a d. (-1, d)), iowrite32 = (\<lambda>w a d. d) \<rparr>
     \<lparr> res_address = 0x1000, res_size = 64 \<rparr> 3 [0xFF, 20] 0x2000 ()) = Err EIO"
  by (rule write_buffer_link_down) (simp_all add: link_down_def)

end
