(* ===== verification/Vdma_Channel.thy ===== *)
theory Vdma_Channel
  imports Vdma_Rings Vdma_Binding Resource
begin

text \<open>
  One vDMA channel (\<open>src/common/vdma_common.c\<close>): launching transfers, timestamps, and finding the
  completed transfers when the channel has interrupted. The channel's registers are device memory,
  reached by the kernel primitives \<open>ioread32\<close> and \<open>iowrite32\<close> (the parameter \<open>io\<close>). The channel keeps
  a pointer to its descriptors list; the lists live in a store from pointers to lists, and a pointer that
  the store does not have is freed memory.
\<close>

definition CHANNEL_CONTROL_OFFSET :: nat where [c_macros]: "CHANNEL_CONTROL_OFFSET = 0x0"
definition CHANNEL_NUM_AVAIL_OFFSET :: nat where [c_macros]: "CHANNEL_NUM_AVAIL_OFFSET = 0x2"
definition CHANNEL_NUM_PROC_OFFSET :: nat where [c_macros]: "CHANNEL_NUM_PROC_OFFSET = 0x4"
definition CHANNEL_ERROR_OFFSET :: nat where [c_macros]: "CHANNEL_ERROR_OFFSET = 0x8"
definition VDMA_CHANNEL_CONTROL_START :: u8 where "VDMA_CHANNEL_CONTROL_START = 0x1"
definition VDMA_CHANNEL_CONTROL_START_ABORT_BITMASK :: u8 where "VDMA_CHANNEL_CONTROL_START_ABORT_BITMASK = 0x1"
definition DESCRIPTOR_DESC_STATUS_DONE_BIT :: u8 where "DESCRIPTOR_DESC_STATUS_DONE_BIT = 0x0"
definition DESCRIPTOR_DESC_STATUS_ERROR_BIT :: u8 where "DESCRIPTOR_DESC_STATUS_ERROR_BIT = 0x1"
definition DESCRIPTOR_DESC_STATUS_MASK :: u32 where "DESCRIPTOR_DESC_STATUS_MASK = 0xFF"
definition HAILO_VDMA_TRANSFER_DATA_CHANNEL_NOT_ACTIVE :: u8 where "HAILO_VDMA_TRANSFER_DATA_CHANNEL_NOT_ACTIVE = 0xff"
definition HAILO_VDMA_TRANSFER_DATA_CHANNEL_WITH_ERROR :: u8 where "HAILO_VDMA_TRANSFER_DATA_CHANNEL_WITH_ERROR = 0xfe"

record hailo_vdma_channel_state =
  cs_num_avail :: u16
  cs_num_proc :: u16
  cs_desc_count_mask :: u32

type_synonym dlptr = nat
type_synonym dl_store = "dlptr \<Rightarrow> hailo_vdma_descriptors_list option"

record hailo_vdma_channel =
  ch_index :: u8
  ch_host_regs :: u64
  ch_device_regs :: u64
  ch_last_desc_list :: "dlptr option"
  ch_state :: hailo_vdma_channel_state
  ch_ongoing_transfers :: hailo_ongoing_transfers_list
  ch_timestamp_measure_enabled :: bool
  ch_timestamp_list :: hailo_channel_interrupt_timestamp_list

section \<open>Registers\<close>

definition channel_control_reg_is_active :: "u8 \<Rightarrow> bool" where
  "channel_control_reg_is_active control \<longleftrightarrow>
     (control AND VDMA_CHANNEL_CONTROL_START_ABORT_BITMASK) = VDMA_CHANNEL_CONTROL_START"

definition validate_channel_state :: "'d mmio \<Rightarrow> hailo_vdma_channel \<Rightarrow> 'd \<Rightarrow> unit result \<times> 'd" where
  "validate_channel_state io channel d =
     (let (host_regs_value, d') = ioread32 io (ch_host_regs channel) d;
          control = ucast (READ_BITS_AT_OFFSET (BYTE_SIZE * BITS_IN_BYTE) (CHANNEL_CONTROL_OFFSET * BITS_IN_BYTE) host_regs_value) :: u8;
          hw_num_avail = ucast (READ_BITS_AT_OFFSET (WORD_SIZE * BITS_IN_BYTE) (CHANNEL_NUM_AVAIL_OFFSET * BITS_IN_BYTE) host_regs_value) :: u16
      in if \<not> channel_control_reg_is_active control then (Err ECONNRESET, d')
         else if hw_num_avail \<noteq> cs_num_avail (ch_state channel) then (Err EFAULT, d')
         else (Ok (), d'))"

definition hailo_vdma_set_num_avail :: "'d mmio \<Rightarrow> u64 \<Rightarrow> u16 \<Rightarrow> 'd \<Rightarrow> 'd" where
  "hailo_vdma_set_num_avail io regs num_avail d =
     (let (regs_val, d') = ioread32 io regs d
      in iowrite32 io (WRITE_BITS_AT_OFFSET (WORD_SIZE * BITS_IN_BYTE) (CHANNEL_NUM_AVAIL_OFFSET * BITS_IN_BYTE)
            regs_val (ucast num_avail)) regs d')"

definition hailo_vdma_get_num_proc :: "'d mmio \<Rightarrow> u64 \<Rightarrow> 'd \<Rightarrow> u16 \<times> 'd" where
  "hailo_vdma_get_num_proc io regs d =
     (let (v, d') = ioread32 io (regs + of_nat CHANNEL_NUM_PROC_OFFSET) d
      in (ucast (READ_BITS_AT_OFFSET (WORD_SIZE * BITS_IN_BYTE) 0 v), d'))"

section \<open>Launching a transfer\<close>

text \<open>
  The loop over the buffers of a transfer. The C code adds the return value of
  \<open>hailo_vdma_program_descriptors_list\<close> to the counters without looking at its sign; so does the model
  (\<open>ret_u32\<close> is the two's complement of an error code). State of the loop: index, next descriptor, total, last
  descriptor, the transfer under construction and the list.
\<close>

fun launch_buffers ::
    "hailo_vdma_hw \<Rightarrow> u8 \<Rightarrow> bool \<Rightarrow> u8 \<Rightarrow> interrupts_domain \<Rightarrow> bool \<Rightarrow> hailo_vdma_mapped_transfer_buffer list \<Rightarrow> nat \<Rightarrow>
     u32 \<Rightarrow> u32 \<Rightarrow> u32 \<Rightarrow> hailo_ongoing_transfer \<Rightarrow> hailo_vdma_descriptors_list \<Rightarrow>
     (u32 \<times> u32 \<times> hailo_ongoing_transfer) result \<times> hailo_vdma_descriptors_list" where
  "launch_buffers hw channel_index should_bind buffers_count last_irq is_debug [] i starting_desc total_descs last_desc ot dl =
     (Ok (total_descs, last_desc, ot), dl)"
| "launch_buffers hw channel_index should_bind buffers_count last_irq is_debug (b # bs) i starting_desc total_descs last_desc ot dl =
     (let (ret, dl') = hailo_vdma_program_descriptors_list hw dl starting_desc b should_bind channel_index
            (if i + 1 = unat buffers_count then last_irq else HAILO_VDMA_INTERRUPTS_DOMAIN_NONE) is_debug 0
      in case ret of
           Fault f \<Rightarrow> (Fault f, dl')
         | _ \<Rightarrow>
           if dl_desc_count dl' = 0 then (Fault Div_by_zero, dl')
           else
            let last_desc' = (starting_desc + ret_u32 ret - 1) mod dl_desc_count dl';
                starting_desc' = (starting_desc + ret_u32 ret) mod dl_desc_count dl'
            in case bind_r (array_modify (ot_dirty_descs ot) (i + 1) (\<lambda>_. ucast last_desc')) (\<lambda>dirty.
                    bind_r (array_modify (ot_buffers ot) i (\<lambda>_. b)) (\<lambda>bufs.
                    Ok (ot\<lparr>ot_dirty_descs := dirty, ot_buffers := bufs\<rparr>))) of
                 Ok ot' \<Rightarrow> launch_buffers hw channel_index should_bind buffers_count last_irq is_debug bs (i + 1)
                             starting_desc' (total_descs + ret_u32 ret) last_desc' ot' dl'
               | Err e \<Rightarrow> (Err e, dl')
               | Fault f \<Rightarrow> (Fault f, dl'))"

text \<open>\<open>struct hailo_ongoing_transfer ongoing_transfer = {0}\<close>.\<close>

definition null_buffer :: hailo_vdma_mapped_transfer_buffer where
  "null_buffer = \<lparr> tb_sg_table = [], tb_size = 0, tb_offset = 0, tb_opaque = 0 \<rparr>"

definition zero_transfer :: hailo_ongoing_transfer where
  "zero_transfer = \<lparr> ot_last_desc = 0, ot_buffers_count = 0,
     ot_buffers = replicate HAILO_MAX_BUFFERS_PER_SINGLE_TRANSFER null_buffer, ot_dirty_descs_count = 0,
     ot_dirty_descs = replicate MAX_DIRTY_DESCRIPTORS_PER_TRANSFER 0, ot_is_debug = False \<rparr>"

text \<open>
  \<open>hailo_vdma_launch_transfer\<close>: result, channel, list and device. \<open>p\<close> is the pointer to the list \<open>dl\<close>;
  \<open>buffers\<close> is the array the caller passes.
\<close>

definition hailo_vdma_launch_transfer ::
    "'d mmio \<Rightarrow> hailo_vdma_hw \<Rightarrow> hailo_vdma_channel \<Rightarrow> dlptr \<Rightarrow> hailo_vdma_descriptors_list \<Rightarrow> u32 \<Rightarrow> u8 \<Rightarrow>
     hailo_vdma_mapped_transfer_buffer list \<Rightarrow> bool \<Rightarrow> interrupts_domain \<Rightarrow> interrupts_domain \<Rightarrow> bool \<Rightarrow> 'd \<Rightarrow>
     u32 result \<times> hailo_vdma_channel \<times> hailo_vdma_descriptors_list \<times> 'd" where
  "hailo_vdma_launch_transfer io hw channel0 p dl starting_desc buffers_count buffers should_bind first_irq last_irq
       is_debug d =
     (let channel1 = channel0\<lparr>ch_state := (ch_state channel0)\<lparr>cs_desc_count_mask := dl_desc_count dl - 1\<rparr>\<rparr>
      in if ch_last_desc_list channel1 \<noteq> None \<and> ch_last_desc_list channel1 \<noteq> Some p then (Err EINVAL, channel1, dl, d)
      else
       let channel = channel1\<lparr>ch_last_desc_list := Some p\<rparr>;
           (vres, d1) = validate_channel_state io channel d
       in case vres of
            Err e \<Rightarrow> (Err e, channel, dl, d1)
          | Fault f \<Rightarrow> (Fault f, channel, dl, d1)
          | Ok _ \<Rightarrow>
       if cs_num_avail (ch_state channel) \<noteq> ucast starting_desc then (Err EFAULT, channel, dl, d1)
       else if HAILO_MAX_BUFFERS_PER_SINGLE_TRANSFER < unat buffers_count then (Err EINVAL, channel, dl, d1)
       else if length buffers < unat buffers_count then (Fault Out_of_bounds, channel, dl, d1)
       else
        let ot0 = zero_transfer\<lparr>ot_dirty_descs_count := buffers_count + 1,
                                ot_dirty_descs := (ot_dirty_descs zero_transfer)[0 := ucast starting_desc]\<rparr>;
            (lres, dl1) = launch_buffers hw (ch_index channel) should_bind buffers_count last_irq is_debug
                            (take (unat buffers_count) buffers) 0 starting_desc 0 (-1) ot0 dl
        in case lres of
             Err e \<Rightarrow> (Err e, channel, dl1, d1)
           | Fault f \<Rightarrow> (Fault f, channel, dl1, d1)
           | Ok (total_descs, last_desc, ot1) \<Rightarrow>
               case array_modify (dl_desc_list dl1) (unat starting_desc)
                      (or_control (get_interrupts_bitmask hw first_irq is_debug)) of
                 Err e \<Rightarrow> (Err e, channel, dl1, d1)
               | Fault f \<Rightarrow> (Fault f, channel, dl1, d1)
               | Ok ds \<Rightarrow>
                   let dl2 = dl1\<lparr>dl_desc_list := ds\<rparr>;
                       ot = ot1\<lparr>ot_buffers_count := buffers_count, ot_last_desc := ucast last_desc, ot_is_debug := is_debug\<rparr>;
                       (pres, ring) = ongoing_transfer_push ot (ch_ongoing_transfers channel)
                   in case pres of
                        Err e \<Rightarrow> (Err e, channel, dl2, d1)
                      | Fault f \<Rightarrow> (Fault f, channel, dl2, d1)
                      | Ok _ \<Rightarrow>
                          if dl_desc_count dl2 = 0 then (Fault Div_by_zero, channel, dl2, d1)
                          else
                           let new_num_avail = ucast ((last_desc + 1) mod dl_desc_count dl2) :: u16;
                               channel' = channel\<lparr>ch_ongoing_transfers := ring,
                                 ch_state := (ch_state channel)\<lparr>cs_num_avail := new_num_avail\<rparr>\<rparr>
                           in (int_ret total_descs, channel', dl2,
                               hailo_vdma_set_num_avail io (ch_host_regs channel) new_num_avail d1))"

end
