(* ===== verification/Vdma_Launch.thy ===== *)
theory Vdma_Launch
  imports Vdma_Channel
begin

text \<open>
  What launching a transfer does to a channel: the invariant of a channel and its preservation, the
  effect of a successful launch, and the two places where the launch does not check what it should (the
  result of programming a buffer, and the range of the starting descriptor).
\<close>

section \<open>Invariant of a channel\<close>

definition ot_wf :: "nat \<Rightarrow> hailo_ongoing_transfer \<Rightarrow> bool" where
  "ot_wf count t \<longleftrightarrow> unat (ot_dirty_descs_count t) \<le> 9 \<and> length (ot_dirty_descs t) = 9 \<and>
     (\<forall>x \<in> set (ot_dirty_descs t). unat x < count) \<and> unat (ot_last_desc t) < count"

definition channel_inv :: "dl_store \<Rightarrow> hailo_vdma_channel \<Rightarrow> bool" where
  "channel_inv dls ch \<longleftrightarrow> otl_ok (ch_ongoing_transfers ch) \<and> tsl_ok (ch_timestamp_list ch) \<and>
     (case ch_last_desc_list ch of
        None \<Rightarrow> otl_contents (ch_ongoing_transfers ch) = []
      | Some p \<Rightarrow> \<exists>dl. dls p = Some dl \<and> wf_desc_list dl \<and>
          (\<forall>t \<in> set (otl_contents (ch_ongoing_transfers ch)). ot_wf (unat (dl_desc_count dl)) t))"

definition buffer_ok :: "hailo_vdma_mapped_transfer_buffer \<Rightarrow> bool" where
  "buffer_ok b \<longleftrightarrow> unat (tb_size b) < 2 ^ 31 \<and> sg_total (tb_sg_table b) < 2 ^ 64"

lemma ucast_desc_u16:
  "wf_desc_list dl \<Longrightarrow> unat (ucast (x mod dl_desc_count dl) :: u16) = unat x mod unat (dl_desc_count dl)"
proof -
  assume wf: "wf_desc_list dl"
  have "unat x mod unat (dl_desc_count dl) < 2 ^ 16"
    using mod_less_divisor [OF wf_desc_listD(2) [OF wf], of "unat x"] wf_desc_listD(3) [OF wf] by simp
  then show ?thesis by (simp add: unat_ucast_mod unat_mod)
qed

lemma launch_buffers_safe:
  assumes "wf_desc_list dl" and "\<forall>b \<in> set bs. buffer_ok b" and "i + length bs \<le> 8"
    and "length (ot_dirty_descs ot) = 9" and "length (ot_buffers ot) = 8"
    and "\<forall>x \<in> set (ot_dirty_descs ot). unat x < unat (dl_desc_count dl)"
  shows "\<exists>tot' last' ot' dl'.
    launch_buffers hw chi sb bc irq dbg bs i start tot lst ot dl = (Ok (tot', last', ot'), dl') \<and> same_shape dl dl' \<and>
    ot_dirty_descs_count ot' = ot_dirty_descs_count ot \<and> length (ot_dirty_descs ot') = 9 \<and>
    (\<forall>x \<in> set (ot_dirty_descs ot'). unat x < unat (dl_desc_count dl)) \<and>
    (if bs = [] then last' = lst else unat last' < unat (dl_desc_count dl))"
  using assms
proof (induction bs arbitrary: i start tot lst ot dl)
  case Nil then show ?case by simp
next
  case (Cons b bs)
  let ?irq = "if i + 1 = unat bc then irq else HAILO_VDMA_INTERRUPTS_DOMAIN_NONE"
  obtain ret dl1 where ret: "hailo_vdma_program_descriptors_list hw dl start b sb chi ?irq dbg 0 = (ret, dl1)"
    by (cases "hailo_vdma_program_descriptors_list hw dl start b sb chi ?irq dbg 0")
  have s: "\<not> is_fault ret" "same_shape dl dl1"
    using program_list_safe [OF Cons.prems(1), of b hw start sb chi ?irq dbg 0] Cons.prems(2) ret
    by (simp_all add: safe_step_def buffer_ok_def)
  note f = same_shape_fields [OF s(2)]
  have wf1: "wf_desc_list dl1" "dl_desc_count dl1 \<noteq> 0"
    using same_shape_wf [OF s(2)] Cons.prems(1) wf_desc_listD(2) [OF Cons.prems(1)] f by auto
  let ?last = "(start + ret_u32 ret - 1) mod dl_desc_count dl1"
  have last: "unat ?last < unat (dl_desc_count dl)" using wf_desc_listD(2) [OF Cons.prems(1)] f by (simp add: unat_mod)
  have dirty: "unat (ucast ?last :: u16) < unat (dl_desc_count dl)"
    using ucast_desc_u16 [OF wf1(1)] last f by (simp add: unat_mod)
  let ?ot = "ot\<lparr>ot_dirty_descs := (ot_dirty_descs ot)[i + 1 := ucast ?last], ot_buffers := (ot_buffers ot)[i := b]\<rparr>"
  have c: "dl_desc_count dl1 = dl_desc_count dl" using f by blast
  have d1: "\<forall>x \<in> set (ot_dirty_descs ?ot). unat x < unat (dl_desc_count dl1)"
    using Cons.prems(6) dirty unfolding c by (auto dest!: set_list_update_subset)
  have "\<exists>tot' last' ot' dl'.
      launch_buffers hw chi sb bc irq dbg bs (i + 1) ((start + ret_u32 ret) mod dl_desc_count dl1) (tot + ret_u32 ret) ?last ?ot dl1 =
        (Ok (tot', last', ot'), dl') \<and> same_shape dl1 dl' \<and> ot_dirty_descs_count ot' = ot_dirty_descs_count ?ot \<and>
      length (ot_dirty_descs ot') = 9 \<and> (\<forall>x \<in> set (ot_dirty_descs ot'). unat x < unat (dl_desc_count dl1)) \<and>
      (if bs = [] then last' = ?last else unat last' < unat (dl_desc_count dl1))"
    by (rule Cons.IH) (use wf1(1) Cons.prems(2-5) d1 in simp_all)
  then obtain tot' last' ot' dl' where ih:
      "launch_buffers hw chi sb bc irq dbg bs (i + 1) ((start + ret_u32 ret) mod dl_desc_count dl1) (tot + ret_u32 ret) ?last ?ot dl1 =
        (Ok (tot', last', ot'), dl')" "same_shape dl1 dl'" "ot_dirty_descs_count ot' = ot_dirty_descs_count ot"
      "length (ot_dirty_descs ot') = 9" "\<forall>x \<in> set (ot_dirty_descs ot'). unat x < unat (dl_desc_count dl)"
      "if bs = [] then last' = ?last else unat last' < unat (dl_desc_count dl)"
    unfolding c by auto
  have "launch_buffers hw chi sb bc irq dbg (b # bs) i start tot lst ot dl =
      launch_buffers hw chi sb bc irq dbg bs (i + 1) ((start + ret_u32 ret) mod dl_desc_count dl1) (tot + ret_u32 ret) ?last ?ot dl1"
    using ret s(1) wf1(2) Cons.prems(3-5) by (cases ret) (simp_all add: Let_def)
  moreover have "unat last' < unat (dl_desc_count dl)" using ih(6) last by (simp split: if_splits)
  ultimately show ?case using ih same_shape_trans [OF s(2) ih(2)] by auto
qed

lemma channel_inv_state [simp]: "channel_inv dls (ch\<lparr>ch_state := st\<rparr>) = channel_inv dls ch"
  by (simp add: channel_inv_def split: option.split)

lemma channel_inv_store:
  assumes "channel_inv dls ch" and "dls p = Some dl" and "same_shape dl dl'"
  shows "channel_inv (dls(p \<mapsto> dl')) ch"
proof (cases "ch_last_desc_list ch")
  case None then show ?thesis using assms(1) by (simp add: channel_inv_def)
next
  case (Some q)
  then show ?thesis
    using assms same_shape_wf [OF assms(3)] same_shape_fields [OF assms(3)]
    by (cases "q = p") (auto simp: channel_inv_def)
qed

lemma channel_inv_attach:
  assumes "channel_inv dls ch" and "dls p = Some dl" and "wf_desc_list dl"
    and "ch_last_desc_list ch = None \<or> ch_last_desc_list ch = Some p"
  shows "channel_inv dls (ch\<lparr>ch_last_desc_list := Some p\<rparr>)"
  using assms by (auto simp: channel_inv_def)

lemma channel_inv_push:
  assumes "channel_inv dls ch" and "ch_last_desc_list ch = Some p" and "dls p = Some dl"
    and "ongoing_transfer_push t (ch_ongoing_transfers ch) = (Ok (), ring)" and "ot_wf (unat (dl_desc_count dl)) t"
  shows "channel_inv dls (ch\<lparr>ch_ongoing_transfers := ring\<rparr>)"
proof -
  have ok: "otl_ok (ch_ongoing_transfers ch)" using assms(1) by (simp add: channel_inv_def)
  have "length (otl_contents (ch_ongoing_transfers ch)) < 127"
    using push_full [OF ok, of t] otl_bound [OF ok] assms(4) by fastforce
  then have "otl_ok ring" "otl_contents ring = otl_contents (ch_ongoing_transfers ch) @ [t]"
    using push_ok [OF ok, of t] assms(4,5) by (auto simp: ot_ok_def ot_wf_def)
  then show ?thesis using assms by (auto simp: channel_inv_def)
qed

lemma push_no_fault: "otl_ok l \<Longrightarrow> \<not> is_fault (fst (ongoing_transfer_push t l))"
  by (auto simp: ongoing_transfer_push_def otl_ok_def)

lemma validate_no_fault: "\<not> is_fault (fst (validate_channel_state io ch d))"
  by (simp add: validate_channel_state_def Let_def split_beta)

definition new_transfer :: "u8 \<Rightarrow> u32 \<Rightarrow> hailo_ongoing_transfer" where
  "new_transfer bc start = zero_transfer\<lparr>ot_dirty_descs_count := bc + 1,
     ot_dirty_descs := (ot_dirty_descs zero_transfer)[0 := ucast start]\<rparr>"

text \<open>The tail of the launch, after the checks: what is left once the buffers have been programmed.\<close>

lemma launch_checked:
  fixes io :: "'d mmio"
  defines "ch1 ch p dl \<equiv> ch\<lparr>ch_state := (ch_state ch)\<lparr>cs_desc_count_mask := dl_desc_count dl - 1\<rparr>, ch_last_desc_list := Some p\<rparr>"
  assumes "ch_last_desc_list ch = None \<or> ch_last_desc_list ch = Some p"
    and "validate_channel_state io (ch1 ch p dl) d = (Ok (), d1)"
    and "cs_num_avail (ch_state ch) = ucast start" and "unat bc \<le> 8" and "unat bc \<le> length bufs"
    and "launch_buffers hw (ch_index ch) sb bc irq2 dbg (take (unat bc) bufs) 0 start 0 (-1) (new_transfer bc start) dl =
           (Ok (tot, lst, ot), dl1)"
    and "unat start < length (dl_desc_list dl1)" and "dl_desc_count dl1 \<noteq> 0"
    and "dl2 = dl1\<lparr>dl_desc_list := (dl_desc_list dl1)[unat start :=
           or_control (get_interrupts_bitmask hw irq1 dbg) (dl_desc_list dl1 ! unat start)]\<rparr>"
    and "t = ot\<lparr>ot_buffers_count := bc, ot_last_desc := ucast lst, ot_is_debug := dbg\<rparr>"
    and "num = ucast ((lst + 1) mod dl_desc_count dl1)"
  shows "hailo_vdma_launch_transfer io hw ch p dl start bc bufs sb irq1 irq2 dbg d =
    (case ongoing_transfer_push t (ch_ongoing_transfers ch) of
       (Ok _, ring) \<Rightarrow> (int_ret tot, (ch1 ch p dl)\<lparr>ch_ongoing_transfers := ring,
          ch_state := (ch_state (ch1 ch p dl))\<lparr>cs_num_avail := num\<rparr>\<rparr>, dl2, hailo_vdma_set_num_avail io (ch_host_regs ch) num d1)
     | (Err e, ring) \<Rightarrow> (Err e, ch1 ch p dl, dl2, d1)
     | (Fault f, ring) \<Rightarrow> (Fault f, ch1 ch p dl, dl2, d1))"
  using assms(2-9) unfolding assms(10-12) ch1_def new_transfer_def
  by (auto simp: hailo_vdma_launch_transfer_def Let_def ring_consts split: prod.split result.split)


lemma new_transfer_facts:
  assumes "wf_desc_list dl" and "unat start < unat (dl_desc_count dl)" and "unat bc \<le> 8"
  shows "length (ot_dirty_descs (new_transfer bc start)) = 9" "length (ot_buffers (new_transfer bc start)) = 8"
    "\<forall>x \<in> set (ot_dirty_descs (new_transfer bc start)). unat x < unat (dl_desc_count dl)"
    "unat (ot_dirty_descs_count (new_transfer bc start)) \<le> 9"
proof -
  have "unat (ucast start :: u16) \<le> unat start" by (simp add: unat_ucast_mod)
  then show "\<forall>x \<in> set (ot_dirty_descs (new_transfer bc start)). unat x < unat (dl_desc_count dl)"
    using assms(2) wf_desc_listD(2) [OF assms(1)]
    by (auto simp: new_transfer_def zero_transfer_def ring_consts dest!: set_list_update_subset)
  have "unat (bc + 1) = unat bc + 1" using assms(3) by (intro unat_Suc_small) simp
  then show "unat (ot_dirty_descs_count (new_transfer bc start)) \<le> 9" using assms(3) by (simp add: new_transfer_def)
qed (simp_all add: new_transfer_def zero_transfer_def ring_consts)

lemma launch_queued:
  assumes "ot_wf (unat (dl_desc_count dl)) t" and inv: "channel_inv dls ch1" and "ch_last_desc_list ch1 = Some p"
    and p: "dls p = Some dl" "wf_desc_list dl" and sh: "same_shape dl dl2"
    and ring: "ch_ongoing_transfers ch1 = ring0"
  shows "case (case ongoing_transfer_push t ring0 of
         (Ok _, ring) \<Rightarrow> (int_ret tot, ch1\<lparr>ch_ongoing_transfers := ring, ch_state := st\<rparr>, dl2, d2)
       | (Err e, ring) \<Rightarrow> (Err e, ch1, dl2, d1) | (Fault f, ring) \<Rightarrow> (Fault f, ch1, dl2, d1)) of
    (res, ch', dl', d') \<Rightarrow> \<not> is_fault res \<and> wf_desc_list dl' \<and> channel_inv (dls(p \<mapsto> dl')) ch'"
proof -
  note inv2 = channel_inv_store [OF inv p(1) sh]
  have wf2: "wf_desc_list dl2" using same_shape_wf [OF sh] p(2) by simp
  have c2: "dl_desc_count dl2 = dl_desc_count dl" using same_shape_fields [OF sh] by simp
  obtain r ring where r: "ongoing_transfer_push t ring0 = (r, ring)" by (cases "ongoing_transfer_push t ring0")
  have "\<not> is_fault r" using push_no_fault [of ring0 t] inv ring r by (simp add: channel_inv_def)
  moreover have "channel_inv (dls(p \<mapsto> dl2)) (ch1\<lparr>ch_ongoing_transfers := ring, ch_state := st\<rparr>)" if "r = Ok ()"
    using channel_inv_push [OF inv2 assms(3), of dl2 t ring] r ring that assms(1) c2 by simp
  ultimately show ?thesis using r wf2 inv2 by (cases r) simp_all
qed


section \<open>A successful launch\<close>

text \<open>The descriptors of all buffers, one buffer after the other: their numbers and the list, or \<open>None\<close> when one fails.\<close>

fun program_all ::
    "hailo_vdma_hw \<Rightarrow> u8 \<Rightarrow> bool \<Rightarrow> interrupts_domain \<Rightarrow> bool \<Rightarrow> hailo_vdma_mapped_transfer_buffer list \<Rightarrow> u32 \<Rightarrow>
     hailo_vdma_descriptors_list \<Rightarrow> (u32 list \<times> hailo_vdma_descriptors_list) option" where
  "program_all hw chi sb irq dbg [] start dl = Some ([], dl)"
| "program_all hw chi sb irq dbg (b # bs) start dl =
     (case hailo_vdma_program_descriptors_list hw dl start b sb chi
             (if bs = [] then irq else HAILO_VDMA_INTERRUPTS_DOMAIN_NONE) dbg 0 of
        (Ok n, dl1) \<Rightarrow>
          (case program_all hw chi sb irq dbg bs ((start + n) mod dl_desc_count dl1) dl1 of
             Some (ns, dl2) \<Rightarrow> Some (n # ns, dl2)
           | None \<Rightarrow> None)
      | _ \<Rightarrow> None)"

lemma program_all_length: "program_all hw chi sb irq dbg bs start dl = Some (ns, dl') \<Longrightarrow> length ns = length bs"
  by (induction bs arbitrary: start dl ns) (auto split: prod.splits result.splits option.splits)

lemma unat_sum_u32_mod:
  fixes s n c :: u32
  assumes "0 < unat n" and "unat n < 2 ^ 31" and "unat s < 2 ^ 31"
  shows "unat ((s + n) mod c) = (unat s + unat n) mod unat c" and "unat ((s + n - 1) mod c) = (unat s + unat n - 1) mod unat c"
proof -
  have u: "unat (s + n) = unat s + unat n" using assms by (intro unat_add_small) simp
  then show "unat ((s + n) mod c) = (unat s + unat n) mod unat c" by (simp add: unat_mod)
  have "unat (s + n - 1) = unat s + unat n - 1" using u assms(1) by (subst unat_minus_one) auto
  then show "unat ((s + n - 1) mod c) = (unat s + unat n - 1) mod unat c" by (simp add: unat_mod)
qed

lemma launch_buffers_success:
  assumes "program_all hw chi sb irq dbg bs start dl = Some (ns, dl')"
    and "wf_desc_list dl" and "unat start < unat (dl_desc_count dl)" and "\<forall>b \<in> set bs. buffer_ok b"
    and "\<forall>n \<in> set ns. 0 < unat n \<and> unat n < 2 ^ 31" and "i + length bs = unat bc" and "unat bc \<le> 8"
    and "length (ot_dirty_descs ot) = 9" and "length (ot_buffers ot) = 8"
  shows "\<exists>lst' ot'. launch_buffers hw chi sb bc irq dbg bs i start tot lst ot dl = (Ok (tot + sum_list ns, lst', ot'), dl') \<and>
    same_shape dl dl' \<and> ot_dirty_descs_count ot' = ot_dirty_descs_count ot \<and>
    take (unat bc) (ot_buffers ot') = take i (ot_buffers ot) @ bs \<and>
    (if bs = [] then lst' = lst
     else unat lst' = (unat start + sum_list (map unat ns) - 1) mod unat (dl_desc_count dl))"
  using assms
proof (induction bs arbitrary: i start tot lst ot dl ns)
  case Nil then show ?case by simp
next
  case (Cons b bs)
  let ?irq = "if bs = [] then irq else HAILO_VDMA_INTERRUPTS_DOMAIN_NONE"
  obtain n dl1 ns' where n: "hailo_vdma_program_descriptors_list hw dl start b sb chi ?irq dbg 0 = (Ok n, dl1)"
    and rest: "program_all hw chi sb irq dbg bs ((start + n) mod dl_desc_count dl1) dl1 = Some (ns', dl')" and ns: "ns = n # ns'"
    using Cons.prems(1) by (auto split: prod.splits result.splits option.splits)
  have irq: "?irq = (if i + 1 = unat bc then irq else HAILO_VDMA_INTERRUPTS_DOMAIN_NONE)" using Cons.prems(6) by (cases bs) auto
  have sh: "same_shape dl dl1"
    using program_list_safe [OF Cons.prems(2), of b hw start sb chi ?irq dbg 0] Cons.prems(4) n
    by (simp add: safe_step_def buffer_ok_def)
  note wf = wf_desc_listD [OF Cons.prems(2)]
  have c: "dl_desc_count dl1 = dl_desc_count dl" "dl_desc_count dl1 \<noteq> 0" using same_shape_fields [OF sh] wf(2) by auto
  have wf1: "wf_desc_list dl1" using same_shape_wf [OF sh] Cons.prems(2) by simp
  have "unat start < 2 ^ 31" using Cons.prems(3) wf(3) by simp
  note u = unat_sum_u32_mod [OF _ _ this, of n "dl_desc_count dl"]
  let ?start = "(start + n) mod dl_desc_count dl" and ?last = "(start + n - 1) mod dl_desc_count dl"
  let ?ot = "ot\<lparr>ot_dirty_descs := (ot_dirty_descs ot)[i + 1 := ucast ?last], ot_buffers := (ot_buffers ot)[i := b]\<rparr>"
  have st: "unat ?start < unat (dl_desc_count dl1)" using u ns Cons.prems(5) wf(2) c by simp
  have "\<exists>lst' ot'. launch_buffers hw chi sb bc irq dbg bs (i + 1) ?start (tot + n) ?last ?ot dl1 =
      (Ok (tot + n + sum_list ns', lst', ot'), dl') \<and> same_shape dl1 dl' \<and>
      ot_dirty_descs_count ot' = ot_dirty_descs_count ?ot \<and> take (unat bc) (ot_buffers ot') = take (i + 1) (ot_buffers ?ot) @ bs \<and>
      (if bs = [] then lst' = ?last
       else unat lst' = (unat ?start + sum_list (map unat ns') - 1) mod unat (dl_desc_count dl1))"
    by (rule Cons.IH) (use rest wf1 st Cons.prems ns c in simp_all)
  then obtain lst' ot' where ih: "launch_buffers hw chi sb bc irq dbg bs (i + 1) ?start (tot + n) ?last ?ot dl1 =
      (Ok (tot + n + sum_list ns', lst', ot'), dl')" "same_shape dl1 dl'"
      "ot_dirty_descs_count ot' = ot_dirty_descs_count ot" "take (unat bc) (ot_buffers ot') = take (i + 1) ((ot_buffers ot)[i := b]) @ bs"
      "if bs = [] then lst' = ?last else unat lst' = (unat ?start + sum_list (map unat ns') - 1) mod unat (dl_desc_count dl)"
    using c by auto
  have run: "launch_buffers hw chi sb bc irq dbg (b # bs) i start tot lst ot dl =
      launch_buffers hw chi sb bc irq dbg bs (i + 1) ?start (tot + n) ?last ?ot dl1"
    using n c Cons.prems(6-9) unfolding irq by (simp add: Let_def)
  have tk: "take (i + 1) ((ot_buffers ot)[i := b]) = take i (ot_buffers ot) @ [b]"
    using Cons.prems(6,7,9) by (simp add: take_Suc_conv_app_nth)
  have "unat lst' = (unat start + sum_list (map unat ns) - 1) mod unat (dl_desc_count dl)"
  proof (cases "bs = []")
    case True
    then show ?thesis using ih(5) rest ns u(2) Cons.prems(5) by auto
  next
    case False
    then have "0 < sum_list (map unat ns')"
      using program_all_length [OF rest] ns Cons.prems(5) by (cases ns') auto
    then have "((unat start + unat n) mod unat (dl_desc_count dl) + sum_list (map unat ns') - 1) mod unat (dl_desc_count dl) =
        (unat start + unat n + sum_list (map unat ns') - 1) mod unat (dl_desc_count dl)"
      by (cases "sum_list (map unat ns')") (simp_all add: mod_simps)
    then show ?thesis using False ih(5) ns u(1) Cons.prems(5) by (simp add: add.assoc)
  qed
  then show ?case using ih run tk same_shape_trans [OF sh ih(2)] ns by (auto simp: add.assoc)
qed

lemma validate_cong:
  "ch_host_regs ch' = ch_host_regs ch \<Longrightarrow> cs_num_avail (ch_state ch') = cs_num_avail (ch_state ch) \<Longrightarrow>
   validate_channel_state io ch' d = validate_channel_state io ch d"
  by (simp add: validate_channel_state_def split_beta Let_def)

lemma unat_sum_list:
  "sum_list (map unat ns) < 2 ^ LENGTH('a) \<Longrightarrow> unat (sum_list ns) = sum_list (map unat ns)" for ns :: "'a::len word list"
  by (induction ns) (simp_all add: unat_add_small)

lemma next_num_avail:
  assumes "wf_desc_list dl" and "0 < s" and "unat lst = (s - 1) mod unat (dl_desc_count dl)"
  shows "unat (ucast ((lst + 1) mod dl_desc_count dl) :: u16) = s mod unat (dl_desc_count dl)"
proof -
  note wf = wf_desc_listD [OF assms(1)]
  have "unat lst < unat (dl_desc_count dl)" using assms(3) wf(2) by simp
  then have "unat (lst + 1) = unat lst + 1" using wf(3) by (intro unat_Suc_small) simp
  then have "unat (ucast ((lst + 1) mod dl_desc_count dl) :: u16) = (unat lst + 1) mod unat (dl_desc_count dl)"
    using ucast_desc_u16 [OF assms(1), of "lst + 1"] by simp
  also have "\<dots> = s mod unat (dl_desc_count dl)" using assms(2,3) by (cases s) (simp_all add: mod_simps)
  finally show ?thesis .
qed

text \<open>C7: A successful launch. When the channel is active and in step with the hardware, the ring has room and every
  buffer of the transfer is programmed, \<open>hailo_vdma_launch_transfer\<close> returns the total number of descriptors; exactly
  one transfer, with these buffers and with the last programmed descriptor as its last one, is appended to the ring;
  the channel's \<open>num_avail\<close> advances by that total modulo the list, and this value is what is written to the
  hardware's register.\<close>
theorem launch_transfer_success:
  assumes inv: "channel_inv dls ch" and p: "dls p = Some dl" "wf_desc_list dl"
    and start: "unat start < unat (dl_desc_count dl)" and bc: "0 < unat bc" "unat bc \<le> 8" "unat bc \<le> length bufs"
    and bufs: "\<forall>b \<in> set bufs. unat (tb_size b) < 2 ^ 31 \<and> sg_total (tb_sg_table b) < 2 ^ 64"
    and att: "ch_last_desc_list ch = None \<or> ch_last_desc_list ch = Some p"
    and val: "validate_channel_state io ch d = (Ok (), d1)" and sync: "cs_num_avail (ch_state ch) = ucast start"
    and prog: "program_all hw (ch_index ch) sb irq2 dbg (take (unat bc) bufs) start dl = Some (ns, dl1)"
    and ns: "\<forall>n \<in> set ns. 0 < unat n \<and> unat n < 2 ^ 31" "sum_list (map unat ns) < 2 ^ 31"
    and room: "length (otl_contents (ch_ongoing_transfers ch)) < 127"
  shows "\<exists>ch' dl' t. hailo_vdma_launch_transfer io hw ch p dl start bc bufs sb irq1 irq2 dbg d =
      (Ok (sum_list ns), ch', dl', hailo_vdma_set_num_avail io (ch_host_regs ch) (cs_num_avail (ch_state ch')) d1) \<and>
    otl_contents (ch_ongoing_transfers ch') = otl_contents (ch_ongoing_transfers ch) @ [t] \<and>
    ot_buffers_count t = bc \<and> take (unat bc) (ot_buffers t) = take (unat bc) bufs \<and>
    unat (ot_last_desc t) = (unat start + sum_list (map unat ns) - 1) mod unat (dl_desc_count dl) \<and>
    unat (cs_num_avail (ch_state ch')) = (unat start + sum_list (map unat ns)) mod unat (dl_desc_count dl) \<and>
    ch_last_desc_list ch' = Some p \<and> cs_num_proc (ch_state ch') = cs_num_proc (ch_state ch)"
proof -
  define ch1 where "ch1 = ch\<lparr>ch_state := (ch_state ch)\<lparr>cs_desc_count_mask := dl_desc_count dl - 1\<rparr>, ch_last_desc_list := Some p\<rparr>"
  note wf = wf_desc_listD [OF p(2)]
  note nt = new_transfer_facts [OF p(2) start bc(2)]
  let ?bs = "take (unat bc) bufs" and ?tot = "unat start + sum_list (map unat ns)"
  have bs: "\<forall>b \<in> set ?bs. buffer_ok b" "0 + length ?bs = unat bc" "?bs \<noteq> []"
    using bufs bc by (auto simp: buffer_ok_def dest: in_set_takeD)
  obtain lst ot where lb: "launch_buffers hw (ch_index ch) sb bc irq2 dbg ?bs 0 start 0 (-1) (new_transfer bc start) dl =
        (Ok (sum_list ns, lst, ot), dl1)" and sh: "same_shape dl dl1"
      and ot: "ot_dirty_descs_count ot = ot_dirty_descs_count (new_transfer bc start)" "take (unat bc) (ot_buffers ot) = ?bs"
        "unat lst = (?tot - 1) mod unat (dl_desc_count dl)"
    using launch_buffers_success [OF prog p(2) start bs(1) ns(1) bs(2) bc(2) nt(1,2), of 0 "-1"] bs(3) by auto
  note f = same_shape_fields [OF sh]
  define t where "t = ot\<lparr>ot_buffers_count := bc, ot_last_desc := ucast lst, ot_is_debug := dbg\<rparr>"
  have ring: "otl_ok (ch_ongoing_transfers ch)" using inv by (simp add: channel_inv_def)
  have "ot_ok t" using ot(1) nt(4) by (simp add: t_def ot_ok_def)
  then obtain ring' where push: "ongoing_transfer_push t (ch_ongoing_transfers ch) = (Ok (), ring')"
      "otl_contents ring' = otl_contents (ch_ongoing_transfers ch) @ [t]"
    using push_ok [OF ring _ room] by blast
  have v1: "validate_channel_state io ch1 d = (Ok (), d1)" using val validate_cong [of ch1 ch io d] by (simp add: ch1_def)
  note run = launch_checked [OF att v1 [unfolded ch1_def] sync bc(2,3) lb _ _ refl t_def refl, of irq1]
  have lens: "unat start < length (dl_desc_list dl1)" "dl_desc_count dl1 \<noteq> 0" using start wf f by auto
  have "ns \<noteq> []" using program_all_length [OF prog] bs(3) by (metis length_0_conv)
  then have pos: "0 < ?tot" using ns(1) by (cases ns) auto
  have last: "unat (ucast lst :: u16) = (?tot - 1) mod unat (dl_desc_count dl)"
    using ot(3) wf(2,3) mod_less_divisor [OF wf(2), of "?tot - 1"] by (subst unat_ucast_small) simp_all
  have "unat (sum_list ns) = sum_list (map unat ns)" using ns(2) by (intro unat_sum_list) simp
  then have r: "int_ret (sum_list ns) = Ok (sum_list ns)" using ns(2) by (simp add: int_ret_def word_less_nat_alt)
  show ?thesis
    using run [OF lens] push r last ot(2) next_num_avail [OF p(2) pos ot(3)] f by (simp add: t_def)
qed


lemma int_ret_error: "0 < n \<Longrightarrow> n < 2 ^ 31 \<Longrightarrow> int_ret (- of_nat n) = Err (ECODE n)"
proof -
  assume n: "0 < n" "n < 2 ^ 31"
  let ?x = "of_nat n :: u32"
  have x: "unat ?x = n" using n by (intro unat_of_nat_small) simp
  have "unat (- 1 - ?x) = 2 ^ 32 - 1 - n"
    using x by (subst unat_sub_le) (simp_all add: unsigned_minus_1_eq_mask mask_eq_exp_minus_1)
  then have "unat (- 1 - ?x + 1) = 2 ^ 32 - n" using n by (subst unat_Suc_small) simp_all
  then have "unat (- ?x) = 2 ^ 32 - n" by simp
  then have "\<not> - ?x < 0x80000000" using n by (simp add: word_less_nat_alt)
  then show ?thesis using x by (simp add: int_ret_def)
qed

text \<open>The return value of the programming step is not checked. When binding the only buffer of a transfer fails with an
  error \<open>e\<close>, \<open>hailo_vdma_launch_transfer\<close> reports that error but has already queued the transfer in the ring of ongoing
  transfers and moved \<open>num_avail\<close>, in the channel and in the hardware register, to the descriptor \<open>starting_desc - e\<close>
  modulo the list: the hardware is told to process descriptors that were never programmed.\<close>
theorem launch_transfer_queues_failed_bind:
  assumes inv: "channel_inv dls ch" and p: "dls p = Some dl" "wf_desc_list dl"
    and start: "unat start < unat (dl_desc_count dl)" and att: "ch_last_desc_list ch = None \<or> ch_last_desc_list ch = Some p"
    and val: "validate_channel_state io ch d = (Ok (), d1)" and sync: "cs_num_avail (ch_state ch) = ucast start"
    and buf: "unat (tb_size b) < 2 ^ 31" "sg_total (tb_sg_table b) < 2 ^ 64"
    and fail: "hailo_vdma_program_descriptors_list hw dl start b sb (ch_index ch) irq2 dbg 0 = (Err e, dl1)"
    and e: "0 < errno_code e" "errno_code e < 2 ^ 31"
    and room: "length (otl_contents (ch_ongoing_transfers ch)) < 127"
  shows "\<exists>ch' dl' t num. hailo_vdma_launch_transfer io hw ch p dl start 1 [b] sb irq1 irq2 dbg d =
      (Err (ECODE (errno_code e)), ch', dl', hailo_vdma_set_num_avail io (ch_host_regs ch) num d1) \<and>
    otl_contents (ch_ongoing_transfers ch') = otl_contents (ch_ongoing_transfers ch) @ [t] \<and>
    cs_num_avail (ch_state ch') = num \<and>
    num = ucast ((((start - of_nat (errno_code e) - 1) mod dl_desc_count dl) + 1) mod dl_desc_count dl)"
proof -
  define ch1 where "ch1 = ch\<lparr>ch_state := (ch_state ch)\<lparr>cs_desc_count_mask := dl_desc_count dl - 1\<rparr>, ch_last_desc_list := Some p\<rparr>"
  note wf = wf_desc_listD [OF p(2)]
  have bc: "unat (1 :: u8) \<le> 8" "unat (1 :: u8) \<le> length [b]" by simp_all
  note nt = new_transfer_facts [OF p(2) start bc(1)]
  have sh: "same_shape dl dl1"
    using program_list_safe [OF p(2) buf, of hw start sb "ch_index ch" irq2 dbg 0] fail by (simp add: safe_step_def)
  note f = same_shape_fields [OF sh]
  let ?lst = "(start - of_nat (errno_code e) - 1) mod dl_desc_count dl"
  let ?nt = "new_transfer 1 start"
  define ot where "ot = ?nt\<lparr>ot_dirty_descs := (ot_dirty_descs ?nt)[1 := ucast ?lst], ot_buffers := (ot_buffers ?nt)[0 := b]\<rparr>"
  have c: "dl_desc_count dl1 = dl_desc_count dl" "dl_desc_count dl \<noteq> 0" using f wf(2) by auto
  have lb: "launch_buffers hw (ch_index ch) sb 1 irq2 dbg (take (unat (1 :: u8)) [b]) 0 start 0 (-1) ?nt dl =
      (Ok (- of_nat (errno_code e), ?lst, ot), dl1)"
    using fail c nt(1,2) by (simp add: Let_def ot_def)
  define t where "t = ot\<lparr>ot_buffers_count := 1, ot_last_desc := ucast ?lst, ot_is_debug := dbg\<rparr>"
  have ring: "otl_ok (ch_ongoing_transfers ch)" using inv by (simp add: channel_inv_def)
  have "ot_ok t" using nt(4) by (simp add: t_def ot_def ot_ok_def)
  then obtain ring' where push: "ongoing_transfer_push t (ch_ongoing_transfers ch) = (Ok (), ring')"
      "otl_contents ring' = otl_contents (ch_ongoing_transfers ch) @ [t]"
    using push_ok [OF ring _ room] by blast
  have v1: "validate_channel_state io ch1 d = (Ok (), d1)" using val validate_cong [of ch1 ch io d] by (simp add: ch1_def)
  note run = launch_checked [OF att v1 [unfolded ch1_def] sync bc lb _ _ refl t_def refl, of irq1]
  have lens: "unat start < length (dl_desc_list dl1)" "dl_desc_count dl1 \<noteq> 0" using start wf f c by auto
  have r: "int_ret (- of_nat (errno_code e)) = Err (ECODE (errno_code e))"
    using e by (rule int_ret_error)
  show ?thesis using run [OF lens] push r c by simp
qed

section \<open>Witnesses\<close>

text \<open>A device with one register, a channel at descriptor 6 of the circular sample list.\<close>

definition reg_mmio :: "u32 mmio" where
  "reg_mmio = \<lparr> ioread32 = (\<lambda>a v. (v, v)), iowrite32 = (\<lambda>w a v. w) \<rparr>"

definition sample_timestamps :: hailo_channel_interrupt_timestamp_list where
  "sample_timestamps = \<lparr> tsl_head = 0, tsl_tail = 0,
     tsl_timestamps = replicate 256 \<lparr> ts_timestamp_ns = 0, ts_desc_num_processed = 0 \<rparr> \<rparr>"

definition sample_channel :: hailo_vdma_channel where
  "sample_channel = \<lparr> ch_index = 3, ch_host_regs = 0x60, ch_device_regs = 0x70, ch_last_desc_list = None,
     ch_state = \<lparr> cs_num_avail = 6, cs_num_proc = 6, cs_desc_count_mask = -1 \<rparr>,
     ch_ongoing_transfers = sample_ring, ch_timestamp_measure_enabled = False, ch_timestamp_list = sample_timestamps \<rparr>"

definition sample_store :: dl_store where
  "sample_store = [7 \<mapsto> sample_list]"

lemma sample_channel_inv: "channel_inv sample_store sample_channel"
  by (simp add: channel_inv_def sample_channel_def sample_ring_facts tsl_ok_def sample_timestamps_def)

lemma sample_validate: "validate_channel_state reg_mmio sample_channel 0x00060001 = (Ok (), 0x00060001)"
  by (simp add: validate_channel_state_def reg_mmio_def sample_channel_def READ_BITS_AT_OFFSET_def c_macros
      channel_control_reg_is_active_def VDMA_CHANNEL_CONTROL_START_ABORT_BITMASK_def VDMA_CHANNEL_CONTROL_START_def)

lemma sample_start: "sample_store 7 = Some sample_list" "unat (6 :: u32) < unat (dl_desc_count sample_list)"
  "\<forall>b \<in> set [sample_buffer]. unat (tb_size b) < 2 ^ 31 \<and> sg_total (tb_sg_table b) < 2 ^ 64"
  "0 < unat (1 :: u8)" "unat (1 :: u8) \<le> length [sample_buffer]" "unat (1 :: u8) \<le> 8"
  by (simp_all add: sample_store_def sample_list_simps sample_buffer_def)


lemma sample_program: "\<exists>dl1. program_all hailo_pcie_vdma_hw 3 True 2 False [sample_buffer] 6 sample_list = Some ([4], dl1)"
proof -
  have "4 \<le> desc_room sample_list 6" by (simp add: desc_room_def sample_list_simps)
  then show ?thesis
    using bind_and_program_spec(3) [OF wf_sample_list sample_buffer_facts(4,1-3) refl, of hailo_pcie_vdma_hw 3 2 False]
      sample_buffer_facts(6,7) by (simp add: hailo_vdma_program_descriptors_list_def)
qed

theorem launch_transfer_success_witness:
  "\<exists>ch' dl' d'. hailo_vdma_launch_transfer reg_mmio hailo_pcie_vdma_hw sample_channel 7 sample_list 6 1 [sample_buffer] True 0 2
      False 0x00060001 = (Ok 4, ch', dl', d') \<and> cs_num_avail (ch_state ch') = 2 \<and>
    length (otl_contents (ch_ongoing_transfers ch')) = 1"
proof -
  obtain dl1 where prog: "program_all hailo_pcie_vdma_hw (ch_index sample_channel) True 2 False
      (take (unat (1 :: u8)) [sample_buffer]) 6 sample_list = Some ([4], dl1)"
    using sample_program by (auto simp: sample_channel_def)
  have c: "ch_last_desc_list sample_channel = None \<or> ch_last_desc_list sample_channel = Some 7"
      "cs_num_avail (ch_state sample_channel) = ucast (6 :: u32)"
      "\<forall>n \<in> set [4 :: u32]. 0 < unat n \<and> unat n < 2 ^ 31" "sum_list (map unat [4 :: u32]) < 2 ^ 31"
      "length (otl_contents (ch_ongoing_transfers sample_channel)) < 127"
    by (simp_all add: sample_channel_def sample_ring_facts)
  from launch_transfer_success [OF sample_channel_inv sample_start(1) wf_sample_list sample_start(2,4,6,5,3) c(1) sample_validate
      c(2) prog c(3-5), of 0]
  obtain ch' dl' t where r: "hailo_vdma_launch_transfer reg_mmio hailo_pcie_vdma_hw sample_channel 7 sample_list 6 1 [sample_buffer]
      True 0 2 False 0x00060001 = (Ok (sum_list [4]), ch', dl', hailo_vdma_set_num_avail reg_mmio (ch_host_regs sample_channel)
        (cs_num_avail (ch_state ch')) 0x00060001)"
    and q: "otl_contents (ch_ongoing_transfers ch') = otl_contents (ch_ongoing_transfers sample_channel) @ [t]"
    and n: "unat (cs_num_avail (ch_state ch')) = (unat (6 :: u32) + sum_list (map unat [4 :: u32])) mod unat (dl_desc_count sample_list)"
    by blast
  have "cs_num_avail (ch_state ch') = 2"
    using n by (intro word_unat_eq_iff [THEN iffD2]) (simp add: sample_list_simps)
  then show ?thesis using r q by (simp add: sample_channel_def sample_ring_facts)
qed

theorem launch_transfer_queues_failed_bind_witness:
  "\<exists>ch' dl' d'. hailo_vdma_launch_transfer reg_mmio hailo_pcie_vdma_hw sample_channel 7 sample_list 6 1
      [sample_buffer\<lparr>tb_offset := 0x100\<rparr>] True 0 2 False 0x00060001 = (Err (ECODE 22), ch', dl', d') \<and>
    length (otl_contents (ch_ongoing_transfers ch')) = 1"
proof -
  let ?b = "sample_buffer\<lparr>tb_offset := 0x100\<rparr>"
  have c: "ch_last_desc_list sample_channel = None \<or> ch_last_desc_list sample_channel = Some 7"
      "cs_num_avail (ch_state sample_channel) = ucast (6 :: u32)" "unat (tb_size ?b) < 2 ^ 31"
      "sg_total (tb_sg_table ?b) < 2 ^ 64" "length (otl_contents (ch_ongoing_transfers sample_channel)) < 127"
      "0 < errno_code EINVAL" "errno_code EINVAL < 2 ^ 31"
    by (simp_all add: sample_channel_def sample_ring_facts sample_buffer_def)
  have "\<not> bind_args_ok sample_list 6 ?b 0" by (simp add: bind_args_ok_def sample_list_simps)
  then have "hailo_vdma_program_descriptors_list hailo_pcie_vdma_hw sample_list 6 ?b True (ch_index sample_channel) 2 False 0 =
      (Err EINVAL, sample_list)"
    by (simp add: hailo_vdma_program_descriptors_list_def bind_args_EINVAL [OF wf_sample_list])
  from launch_transfer_queues_failed_bind [OF sample_channel_inv sample_start(1) wf_sample_list sample_start(2) c(1) sample_validate
      c(2-4) this c(6,7,5), of 0]
  show ?thesis by (auto simp: sample_channel_def sample_ring_facts)
qed

text \<open>The starting descriptor is not checked against the list. Only its low 16 bits are compared with the channel's
  \<open>num_avail\<close>; when it is not below the number of descriptors and the buffers are already bound (\<open>should_bind\<close> false),
  a launch that passes the other checks writes the interrupt bits behind the end of the descriptor array.\<close>
theorem launch_transfer_start_unchecked:
  assumes p: "wf_desc_list dl" and start: "unat (dl_desc_count dl) \<le> unat start" and bc: "unat bc \<le> 8" "unat bc \<le> length bufs"
    and bufs: "\<forall>b \<in> set bufs. unat (tb_size b) < 2 ^ 31 \<and> sg_total (tb_sg_table b) < 2 ^ 64"
    and low: "unat (ucast start :: u16) < unat (dl_desc_count dl)"
    and att: "ch_last_desc_list ch = None \<or> ch_last_desc_list ch = Some p"
    and val: "validate_channel_state io ch d = (Ok (), d1)" and sync: "cs_num_avail (ch_state ch) = ucast start"
  shows "fst (hailo_vdma_launch_transfer io hw ch p dl start bc bufs False irq1 irq2 dbg d) = Fault Out_of_bounds"
proof -
  define ch1 where "ch1 = ch\<lparr>ch_state := (ch_state ch)\<lparr>cs_desc_count_mask := dl_desc_count dl - 1\<rparr>, ch_last_desc_list := Some p\<rparr>"
  note wf = wf_desc_listD [OF p]
  have v1: "validate_channel_state io ch1 d = (Ok (), d1)" using val validate_cong [of ch1 ch io d] by (simp add: ch1_def)
  have bs: "\<forall>b \<in> set (take (unat bc) bufs). buffer_ok b" "0 + length (take (unat bc) bufs) \<le> 8"
    using bufs bc by (auto simp: buffer_ok_def dest: in_set_takeD)
  let ?nt = "new_transfer bc start"
  have nt: "length (ot_dirty_descs ?nt) = 9" "length (ot_buffers ?nt) = 8"
      "\<forall>x \<in> set (ot_dirty_descs ?nt). unat x < unat (dl_desc_count dl)"
    using low wf(2) by (auto simp: new_transfer_def zero_transfer_def ring_consts dest!: set_list_update_subset)
  from launch_buffers_safe [OF p bs nt, of hw "ch_index ch" False bc irq2 dbg start 0 "-1"]
  obtain tot lst ot dl1 where lb: "launch_buffers hw (ch_index ch) False bc irq2 dbg (take (unat bc) bufs) 0 start 0 (-1) ?nt dl =
      (Ok (tot, lst, ot), dl1)" "same_shape dl dl1" by auto
  have "\<not> unat start < length (dl_desc_list dl1)" using same_shape_fields [OF lb(2)] wf(1) start by simp
  then have "array_modify (dl_desc_list dl1) (unat start) g = Fault Out_of_bounds" for g by (simp add: array_modify_def)
  then show ?thesis
    using att v1 sync bc lb(1) unfolding ch1_def new_transfer_def
    by (auto simp: hailo_vdma_launch_transfer_def Let_def ring_consts)
qed

theorem launch_transfer_start_unchecked_witness:
  "fst (hailo_vdma_launch_transfer reg_mmio hailo_pcie_vdma_hw sample_channel 7 sample_list 0x10006 1 [sample_buffer] False 0 2
      False 0x00060001) = Fault Out_of_bounds"
  by (rule launch_transfer_start_unchecked [OF wf_sample_list _ sample_start(6,5,3) _ _ sample_validate])
    (simp_all add: sample_list_simps sample_channel_def)

end
