(* ===== verification/Vdma_Engine.thy ===== *)
theory Vdma_Engine
  imports Vdma_Launch
begin

text \<open>
  A vDMA engine of 32 channels (\<open>src/common/vdma_common.c\<close>, \<open>vdma_common.h\<close>): its initialisation, enabling and
  disabling channels, timestamps, the interrupt bits, and the collection of completed transfers.
  The callback \<open>transfer_done\<close> is a parameter, a function on a state \<open>'s\<close> of its own.
\<close>

section \<open>Completed transfers\<close>

definition clear_dirty_desc :: "hailo_vdma_descriptors_list \<Rightarrow> u16 \<Rightarrow> hailo_vdma_descriptors_list result" where
  "clear_dirty_desc dl desc =
     bind_r (array_modify (dl_desc_list dl) (unat desc)
       (\<lambda>d. d\<lparr>PageSize_DescControl :=
          push_bit DESCRIPTOR_PAGE_SIZE_SHIFT (ucast (dl_desc_page_size dl)) + ucast DESCRIPTOR_DESC_CONTROL\<rparr>))
       (\<lambda>ds. Ok (dl\<lparr>dl_desc_list := ds\<rparr>))"

text \<open>The list behind the channel's pointer.\<close>

definition deref_list :: "dl_store \<Rightarrow> dlptr option \<Rightarrow> hailo_vdma_descriptors_list result" where
  "deref_list dls lst = (case lst of
       None \<Rightarrow> Fault Null_deref
     | Some p \<Rightarrow> (case dls p of None \<Rightarrow> Fault Use_after_free | Some dl \<Rightarrow> Ok dl))"

fun clear_dirty_loop :: "u16 list \<Rightarrow> dlptr option \<Rightarrow> dl_store \<Rightarrow> dl_store result" where
  "clear_dirty_loop [] lst dls = Ok dls"
| "clear_dirty_loop (x # xs) lst dls =
     bind_r (deref_list dls lst) (\<lambda>dl.
     bind_r (clear_dirty_desc dl x) (\<lambda>dl'. clear_dirty_loop xs lst (dls(the lst \<mapsto> dl'))))"

definition clear_dirty_descs :: "hailo_vdma_channel \<Rightarrow> hailo_ongoing_transfer \<Rightarrow> dl_store \<Rightarrow> dl_store result" where
  "clear_dirty_descs channel t dls =
     (if MAX_DIRTY_DESCRIPTORS_PER_TRANSFER < unat (ot_dirty_descs_count t) then Fault Bug_on
      else clear_dirty_loop (take (unat (ot_dirty_descs_count t)) (ot_dirty_descs t)) (ch_last_desc_list channel) dls)"

definition validate_last_desc_status :: "hailo_vdma_channel \<Rightarrow> hailo_ongoing_transfer \<Rightarrow> dl_store \<Rightarrow> bool result" where
  "validate_last_desc_status channel t dls =
     bind_r (deref_list dls (ch_last_desc_list channel)) (\<lambda>dl.
     bind_r (array_get (dl_desc_list dl) (unat (ot_last_desc t))) (\<lambda>desc.
     let last_desc_control = RemainingPageSize_Status desc AND DESCRIPTOR_DESC_STATUS_MASK
     in Ok (hailo_test_bit DESCRIPTOR_DESC_STATUS_DONE_BIT last_desc_control \<and>
            \<not> hailo_test_bit DESCRIPTOR_DESC_STATUS_ERROR_BIT last_desc_control)))"

definition is_desc_between :: "u16 \<Rightarrow> u16 \<Rightarrow> u16 \<Rightarrow> bool" where
  "is_desc_between b e desc =
     (if b = e then False
      else if b < e then b \<le> desc \<and> desc < e
      else desc < e \<or> b \<le> desc)"

definition is_transfer_complete :: "hailo_vdma_channel \<Rightarrow> hailo_ongoing_transfer \<Rightarrow> u16 \<Rightarrow> bool" where
  "is_transfer_complete channel t hw_num_proc =
     (if cs_num_avail (ch_state channel) = hw_num_proc then True
      else is_desc_between (cs_num_proc (ch_state channel)) hw_num_proc (ot_last_desc t))"

definition ioread64_safe :: "'d mmio \<Rightarrow> u64 \<Rightarrow> 'd \<Rightarrow> u64 \<times> 'd" where
  "ioread64_safe io addr d =
     (let (hi, d1) = ioread32 io (addr + 4) d;
          (lo, d2) = ioread32 io addr d1
      in (push_bit 32 (ucast hi) OR ucast lo, d2))"

text \<open>
  The loop of \<open>fill_channel_irq_data\<close> over the ring: number of completed transfers, whether validation
  succeeded, whether a debug transfer failed it, and the new state. The fuel is the number of queued
  transfers when the loop starts; every iteration takes one out, so it never runs out before the ring
  is empty.
\<close>

fun complete_transfers ::
    "nat \<Rightarrow> u16 \<Rightarrow> (hailo_ongoing_transfer \<Rightarrow> 's \<Rightarrow> 's) \<Rightarrow> u8 \<Rightarrow> bool \<Rightarrow> bool \<Rightarrow> hailo_vdma_channel \<Rightarrow> dl_store \<Rightarrow> 's \<Rightarrow>
     (u8 \<times> bool \<times> bool \<times> hailo_vdma_channel \<times> dl_store \<times> 's) result" where
  "complete_transfers 0 hw_num_proc transfer_done cnt valid dbg channel dls s = Ok (cnt, valid, dbg, channel, dls, s)"
| "complete_transfers (Suc fuel) hw_num_proc transfer_done cnt valid dbg channel dls s =
     (if \<not> (0 < ONGOING_TRANSFERS_CIRC_CNT (ch_ongoing_transfers channel)) then Ok (cnt, valid, dbg, channel, dls, s)
      else
       bind_r (array_get (otl_transfers (ch_ongoing_transfers channel)) (unat (otl_tail (ch_ongoing_transfers channel)))) (\<lambda>cur.
       if \<not> is_transfer_complete channel cur hw_num_proc then Ok (cnt, valid, dbg, channel, dls, s)
       else
        bind_r (if ot_is_debug cur then validate_last_desc_status channel cur dls else Ok True) (\<lambda>v.
        bind_r (clear_dirty_descs channel cur dls) (\<lambda>dls'.
        let s' = transfer_done cur s;
            st' = (ch_state channel)\<lparr>cs_num_proc := ucast ((ucast (ot_last_desc cur) + 1) AND cs_desc_count_mask (ch_state channel))\<rparr>;
            (_, ring') = ongoing_transfer_pop False (ch_ongoing_transfers channel)
        in complete_transfers fuel hw_num_proc transfer_done (cnt + 1) (valid \<and> v) (dbg \<or> \<not> v)
             (channel\<lparr>ch_state := st', ch_ongoing_transfers := ring'\<rparr>) dls' s'))))"

record hailo_vdma_interrupts_channel_data =
  irq_engine_index :: u8
  irq_channel_index :: u8
  irq_data_val :: u8

definition fill_channel_irq_data ::
    "'d mmio \<Rightarrow> u8 \<Rightarrow> hailo_vdma_channel \<Rightarrow> (hailo_ongoing_transfer \<Rightarrow> 's \<Rightarrow> 's) \<Rightarrow> dl_store \<Rightarrow> 's \<Rightarrow> 'd \<Rightarrow>
     (hailo_vdma_interrupts_channel_data \<times> hailo_vdma_channel \<times> dl_store \<times> 's) result \<times> 'd" where
  "fill_channel_irq_data io engine_index channel transfer_done dls s d =
     (let (host_regs_low_qword, d1) = ioread64_safe io (ch_host_regs channel) d;
          host_control = ucast (READ_BITS_AT_OFFSET (BYTE_SIZE * BITS_IN_BYTE) (CHANNEL_CONTROL_OFFSET * BITS_IN_BYTE) host_regs_low_qword);
          is_active = channel_control_reg_is_active host_control;
          hw_num_proc = ucast (READ_BITS_AT_OFFSET (WORD_SIZE * BITS_IN_BYTE) (CHANNEL_NUM_PROC_OFFSET * BITS_IN_BYTE) host_regs_low_qword
                          AND ucast (cs_desc_count_mask (ch_state channel)))
      in case complete_transfers (unat (ONGOING_TRANSFERS_CIRC_CNT (ch_ongoing_transfers channel))) hw_num_proc transfer_done 0 True
                False channel dls s of
           Err e \<Rightarrow> (Err e, d1)
         | Fault f \<Rightarrow> (Fault f, d1)
         | Ok (transfers_completed, validation_success, is_debug, channel', dls', s') \<Rightarrow>
             let (valid', d3) =
                   (if is_debug
                    then let (r1, d2) = ioread32 io (ch_host_regs channel' + of_nat CHANNEL_ERROR_OFFSET) d1;
                             (r2, d3) = ioread32 io (ch_device_regs channel' + of_nat CHANNEL_ERROR_OFFSET) d2;
                             src_err = ucast (READ_BITS_AT_OFFSET (BYTE_SIZE * BITS_IN_BYTE) 0 r1) :: u8;
                             dst_err = ucast (READ_BITS_AT_OFFSET (BYTE_SIZE * BITS_IN_BYTE) 0 r2) :: u8
                         in (if src_err \<noteq> 0 \<or> dst_err \<noteq> 0 then False else validation_success, d3)
                    else (validation_success, d1));
                 irq = \<lparr> irq_engine_index = engine_index, irq_channel_index = ch_index channel',
                         irq_data_val = (if \<not> is_active then HAILO_VDMA_TRANSFER_DATA_CHANNEL_NOT_ACTIVE
                                     else if \<not> valid' then HAILO_VDMA_TRANSFER_DATA_CHANNEL_WITH_ERROR
                                     else transfers_completed) \<rparr>
             in (Ok (irq, channel', dls', s'), d3))"

section \<open>The engine\<close>

record hailo_vdma_engine =
  en_index :: u8
  en_enabled_channels :: u32
  en_interrupted_channels :: u32
  en_channels :: "hailo_vdma_channel list"

definition channel_state_init :: "hailo_vdma_channel_state \<Rightarrow> hailo_vdma_channel_state" where
  "channel_state_init st = st\<lparr>cs_num_avail := 0, cs_num_proc := 0, cs_desc_count_mask := -1\<rparr>"

definition CHANNEL_BASE_OFFSET :: "u8 \<Rightarrow> u64" where
  "CHANNEL_BASE_OFFSET channel_index = push_bit 5 (ucast channel_index)"

definition CHANNEL_DEST_REGS_OFFSET :: u64 where "CHANNEL_DEST_REGS_OFFSET = 0x10"

definition get_channel_regs :: "u64 \<Rightarrow> u8 \<Rightarrow> bool \<Rightarrow> u32 \<Rightarrow> u64" where
  "get_channel_regs regs_base channel_index is_host_side src_bitmask =
     (let channel_regs_base = regs_base + CHANNEL_BASE_OFFSET channel_index
      in if is_host_side
         then if hailo_test_bit channel_index src_bitmask then channel_regs_base
              else channel_regs_base + CHANNEL_DEST_REGS_OFFSET
         else if hailo_test_bit channel_index src_bitmask then channel_regs_base + CHANNEL_DEST_REGS_OFFSET
              else channel_regs_base)"

text \<open>\<open>for_each_vdma_channel\<close> with a body that only changes its channel.\<close>

definition map_channels :: "(u8 \<Rightarrow> hailo_vdma_channel \<Rightarrow> hailo_vdma_channel) \<Rightarrow> hailo_vdma_channel list \<Rightarrow> hailo_vdma_channel list" where
  "map_channels f chs = map (\<lambda>i. f (of_nat i) (chs ! i)) [0..<length chs]"

definition hailo_vdma_engine_init :: "u8 \<Rightarrow> hailo_resource \<Rightarrow> u32 \<Rightarrow> hailo_vdma_engine \<Rightarrow> hailo_vdma_engine" where
  "hailo_vdma_engine_init engine_index channel_registers src_bitmask engine =
     engine\<lparr>en_index := engine_index, en_enabled_channels := 0, en_interrupted_channels := 0,
       en_channels := map_channels (\<lambda>channel_index channel.
         channel\<lparr>ch_host_regs := get_channel_regs (res_address channel_registers) channel_index True src_bitmask,
           ch_device_regs := get_channel_regs (res_address channel_registers) channel_index False src_bitmask,
           ch_index := channel_index,
           ch_timestamp_measure_enabled := False,
           ch_state := channel_state_init (ch_state channel),
           ch_last_desc_list := None,
           ch_ongoing_transfers := (ch_ongoing_transfers channel)\<lparr>otl_head := 0, otl_tail := 0\<rparr>\<rparr>) (en_channels engine)\<rparr>"

definition hailo_vdma_engine_enable_channels :: "u32 \<Rightarrow> bool \<Rightarrow> hailo_vdma_engine \<Rightarrow> hailo_vdma_engine" where
  "hailo_vdma_engine_enable_channels bitmap measure_timestamp engine =
     engine\<lparr>en_channels := map_channels (\<lambda>i channel.
         if hailo_test_bit i bitmap
         then channel\<lparr>ch_timestamp_measure_enabled := measure_timestamp,
                ch_timestamp_list := (ch_timestamp_list channel)\<lparr>tsl_head := 0, tsl_tail := 0\<rparr>\<rparr>
         else channel) (en_channels engine),
       en_enabled_channels := en_enabled_channels engine OR bitmap\<rparr>"

text \<open>The \<open>while\<close> loop that drains the ongoing transfers of one channel; the fuel is their number.\<close>

fun drain_transfers :: "nat \<Rightarrow> hailo_vdma_channel \<Rightarrow> dl_store \<Rightarrow> (hailo_vdma_channel \<times> dl_store) result" where
  "drain_transfers 0 channel dls = Ok (channel, dls)"
| "drain_transfers (Suc fuel) channel dls =
     (if \<not> (0 < ONGOING_TRANSFERS_CIRC_CNT (ch_ongoing_transfers channel)) then Ok (channel, dls)
      else case ongoing_transfer_pop True (ch_ongoing_transfers channel) of
             (Ok t, ring) \<Rightarrow>
               let channel' = channel\<lparr>ch_ongoing_transfers := ring\<rparr>
               in if ch_last_desc_list channel' = None then drain_transfers fuel channel' dls
                  else bind_r (clear_dirty_descs channel' (the t) dls) (\<lambda>dls'. drain_transfers fuel channel' dls')
           | (Err e, ring) \<Rightarrow> Err e
           | (Fault f, ring) \<Rightarrow> Fault f)"

definition disable_channel :: "hailo_vdma_channel \<Rightarrow> dl_store \<Rightarrow> (hailo_vdma_channel \<times> dl_store) result" where
  "disable_channel channel dls =
     bind_r (drain_transfers (unat (ONGOING_TRANSFERS_CIRC_CNT (ch_ongoing_transfers channel)))
               (channel\<lparr>ch_state := channel_state_init (ch_state channel)\<rparr>) dls)
       (\<lambda>(channel', dls'). Ok (channel'\<lparr>ch_last_desc_list := None\<rparr>, dls'))"

fun disable_loop :: "u32 \<Rightarrow> nat \<Rightarrow> hailo_vdma_channel list \<Rightarrow> dl_store \<Rightarrow> (hailo_vdma_channel list \<times> dl_store) result" where
  "disable_loop bitmap i [] dls = Ok ([], dls)"
| "disable_loop bitmap i (ch # chs) dls =
     bind_r (if hailo_test_bit (of_nat i) bitmap then disable_channel ch dls else Ok (ch, dls)) (\<lambda>(ch', dls').
     bind_r (disable_loop bitmap (Suc i) chs dls') (\<lambda>(chs', dls''). Ok (ch' # chs', dls'')))"

definition hailo_vdma_engine_disable_channels ::
    "u32 \<Rightarrow> hailo_vdma_engine \<Rightarrow> dl_store \<Rightarrow> (hailo_vdma_engine \<times> dl_store) result" where
  "hailo_vdma_engine_disable_channels bitmap engine dls =
     bind_r (disable_loop bitmap 0 (en_channels engine) dls) (\<lambda>(chs, dls').
     Ok (engine\<lparr>en_enabled_channels := en_enabled_channels engine AND NOT bitmap, en_channels := chs\<rparr>, dls'))"

definition hailo_vdma_push_timestamp ::
    "'d mmio \<Rightarrow> u64 \<Rightarrow> hailo_vdma_channel \<Rightarrow> 'd \<Rightarrow> hailo_vdma_channel result \<times> 'd" where
  "hailo_vdma_push_timestamp io now channel d =
     (let (num_proc, d') = hailo_vdma_get_num_proc io (ch_host_regs channel) d
      in (bind_r (timestamp_list_push \<lparr> ts_timestamp_ns = now, ts_desc_num_processed = num_proc \<rparr> (ch_timestamp_list channel))
            (\<lambda>l. Ok (channel\<lparr>ch_timestamp_list := l\<rparr>)), d'))"

text \<open>\<open>clock\<close> gives the value of \<open>ktime_get_ns()\<close> when channel \<open>i\<close> takes its timestamp.\<close>

fun push_timestamps_loop ::
    "'d mmio \<Rightarrow> (nat \<Rightarrow> u64) \<Rightarrow> u32 \<Rightarrow> nat \<Rightarrow> hailo_vdma_channel list \<Rightarrow> 'd \<Rightarrow> hailo_vdma_channel list result \<times> 'd" where
  "push_timestamps_loop io clock bitmap i [] d = (Ok [], d)"
| "push_timestamps_loop io clock bitmap i (ch # chs) d =
     (let (r, d1) = (if hailo_test_bit (of_nat i) bitmap \<and> ch_timestamp_measure_enabled ch
                     then hailo_vdma_push_timestamp io (clock i) ch d else (Ok ch, d));
          (rs, d2) = push_timestamps_loop io clock bitmap (Suc i) chs d1
      in (bind_r r (\<lambda>ch'. bind_r rs (\<lambda>chs'. Ok (ch' # chs'))), d2))"

definition hailo_vdma_engine_push_timestamps ::
    "'d mmio \<Rightarrow> (nat \<Rightarrow> u64) \<Rightarrow> u32 \<Rightarrow> hailo_vdma_engine \<Rightarrow> 'd \<Rightarrow> hailo_vdma_engine result \<times> 'd" where
  "hailo_vdma_engine_push_timestamps io clock bitmap engine d =
     (let (r, d') = push_timestamps_loop io clock bitmap 0 (en_channels engine) d
      in (bind_r r (\<lambda>chs. Ok (engine\<lparr>en_channels := chs\<rparr>)), d'))"

record hailo_vdma_interrupts_read_timestamp_params =
  rt_engine_index :: u8
  rt_channel_index :: u8
  rt_timestamps_count :: u32
  rt_timestamps :: "hailo_channel_interrupt_timestamp list"

definition hailo_vdma_pop_timestamps_to_response ::
    "hailo_vdma_channel \<Rightarrow> hailo_vdma_interrupts_read_timestamp_params \<Rightarrow>
     (hailo_vdma_channel \<times> hailo_vdma_interrupts_read_timestamp_params) result" where
  "hailo_vdma_pop_timestamps_to_response channel params =
     bind_r (pop_timestamps (length (rt_timestamps params)) (cs_desc_count_mask (ch_state channel)) (ch_timestamp_list channel))
       (\<lambda>(tss, l). Ok (channel\<lparr>ch_timestamp_list := l\<rparr>,
          params\<lparr>rt_timestamps := tss @ drop (length tss) (rt_timestamps params), rt_timestamps_count := of_nat (length tss)\<rparr>))"

definition hailo_vdma_engine_read_timestamps ::
    "hailo_vdma_engine \<Rightarrow> hailo_vdma_interrupts_read_timestamp_params \<Rightarrow>
     (hailo_vdma_engine \<times> hailo_vdma_interrupts_read_timestamp_params) result" where
  "hailo_vdma_engine_read_timestamps engine params =
     (if MAX_VDMA_CHANNELS_PER_ENGINE \<le> unat (rt_channel_index params) then Err EINVAL
      else bind_r (array_get (en_channels engine) (unat (rt_channel_index params))) (\<lambda>channel.
           bind_r (hailo_vdma_pop_timestamps_to_response channel params) (\<lambda>(channel', params').
           Ok (engine\<lparr>en_channels := (en_channels engine)[unat (rt_channel_index params) := channel']\<rparr>, params'))))"

definition hailo_vdma_engine_clear_channel_interrupts :: "u32 \<Rightarrow> hailo_vdma_engine \<Rightarrow> hailo_vdma_engine" where
  "hailo_vdma_engine_clear_channel_interrupts bitmap engine =
     engine\<lparr>en_interrupted_channels := en_interrupted_channels engine AND NOT bitmap\<rparr>"

definition hailo_vdma_engine_set_channel_interrupts :: "u32 \<Rightarrow> hailo_vdma_engine \<Rightarrow> hailo_vdma_engine" where
  "hailo_vdma_engine_set_channel_interrupts bitmap engine =
     engine\<lparr>en_interrupted_channels := en_interrupted_channels engine OR bitmap\<rparr>"

definition hailo_vdma_engine_got_interrupt :: "hailo_vdma_engine \<Rightarrow> u32 \<Rightarrow> bool" where
  "hailo_vdma_engine_got_interrupt engine channels_bitmap =
     (let any_interrupt = (channels_bitmap AND en_interrupted_channels engine \<noteq> 0);
          any_disabled = (channels_bitmap \<noteq> (channels_bitmap AND en_enabled_channels engine))
      in any_disabled \<or> any_interrupt)"

definition hailo_vdma_engine_read_interrupts :: "u32 \<Rightarrow> hailo_vdma_engine \<Rightarrow> u32 \<times> hailo_vdma_engine" where
  "hailo_vdma_engine_read_interrupts requested_bitmap engine =
     (let irq = requested_bitmap AND en_enabled_channels engine AND en_interrupted_channels engine
      in (irq, engine\<lparr>en_interrupted_channels := en_interrupted_channels engine AND NOT irq\<rparr>))"

record hailo_vdma_interrupts_wait_params =
  wp_channels_bitmap_per_engine :: "u32 list"
  wp_channels_count :: u8
  wp_irq_data :: "hailo_vdma_interrupts_channel_data list"

definition ctz32 :: "u32 \<Rightarrow> nat" where
  "ctz32 v = length (takeWhile (\<lambda>i. \<not> bit v i) [0..<32])"

text \<open>The \<open>while (irq_channels_bitmap)\<close> loop: every iteration clears one bit, so 32 iterations are enough.\<close>

fun fill_irq_loop ::
    "nat \<Rightarrow> 'd mmio \<Rightarrow> (hailo_ongoing_transfer \<Rightarrow> 's \<Rightarrow> 's) \<Rightarrow> u32 \<Rightarrow> hailo_vdma_interrupts_wait_params \<Rightarrow> hailo_vdma_engine \<Rightarrow>
     dl_store \<Rightarrow> 's \<Rightarrow> 'd \<Rightarrow> (hailo_vdma_interrupts_wait_params \<times> hailo_vdma_engine \<times> dl_store \<times> 's) result \<times> 'd" where
  "fill_irq_loop 0 io transfer_done bitmap irq engine dls s d = (Ok (irq, engine, dls, s), d)"
| "fill_irq_loop (Suc fuel) io transfer_done bitmap irq engine dls s d =
     (if bitmap = 0 then (Ok (irq, engine, dls, s), d)
      else
       let i = ctz32 bitmap; bitmap' = bitmap AND NOT (SHL1 (of_nat i))
       in case array_get (en_channels engine) i of
            Err e \<Rightarrow> (Err e, d)
          | Fault f \<Rightarrow> (Fault f, d)
          | Ok channel \<Rightarrow>
              if ch_last_desc_list channel = None then fill_irq_loop fuel io transfer_done bitmap' irq engine dls s d
              else if length (wp_irq_data irq) \<le> unat (wp_channels_count irq) then (Err EINVAL, d)
              else case fill_channel_irq_data io (en_index engine) channel transfer_done dls s d of
                     (Err e, d') \<Rightarrow> (Err e, d')
                   | (Fault f, d') \<Rightarrow> (Fault f, d')
                   | (Ok (entry, channel', dls', s'), d') \<Rightarrow>
                       fill_irq_loop fuel io transfer_done bitmap'
                         (irq\<lparr>wp_irq_data := (wp_irq_data irq)[unat (wp_channels_count irq) := entry],
                              wp_channels_count := wp_channels_count irq + 1\<rparr>)
                         (engine\<lparr>en_channels := (en_channels engine)[i := channel']\<rparr>) dls' s' d')"

definition hailo_vdma_engine_fill_irq_data ::
    "'d mmio \<Rightarrow> hailo_vdma_interrupts_wait_params \<Rightarrow> hailo_vdma_engine \<Rightarrow> u32 \<Rightarrow> (hailo_ongoing_transfer \<Rightarrow> 's \<Rightarrow> 's) \<Rightarrow>
     dl_store \<Rightarrow> 's \<Rightarrow> 'd \<Rightarrow> (hailo_vdma_interrupts_wait_params \<times> hailo_vdma_engine \<times> dl_store \<times> 's) result \<times> 'd" where
  "hailo_vdma_engine_fill_irq_data io irq engine bitmap transfer_done dls s d =
     fill_irq_loop 32 io transfer_done bitmap irq engine dls s d"

definition hailo_check_channel_index :: "u8 \<Rightarrow> u32 \<Rightarrow> bool \<Rightarrow> bool" where
  "hailo_check_channel_index channel_index src_bitmask is_input_channel =
     (if is_input_channel then hailo_test_bit channel_index src_bitmask
      else \<not> hailo_test_bit channel_index src_bitmask)"

end
