(* ===== verification/Vdma_Completion.thy ===== *)
theory Vdma_Completion
  imports Vdma_Engine
begin

text \<open>
  Completed transfers: what \<open>fill_channel_irq_data\<close> takes out of the ring of ongoing transfers. The store of
  descriptors lists keeps its shape while dirty descriptors are cleared; the completion test is a distance on the circle of
  descriptors; the loop completes exactly the transfers the hardware has processed, and is safe for any value of the
  hardware's counter. Draining a channel empties it.
\<close>

section \<open>Descriptor stores\<close>

definition store_shape :: "dl_store \<Rightarrow> dl_store \<Rightarrow> bool" where
  "store_shape dls dls' \<longleftrightarrow> (\<forall>p. case dls p of None \<Rightarrow> dls' p = None
     | Some dl \<Rightarrow> \<exists>dl'. dls' p = Some dl' \<and> same_shape dl dl')"

lemma store_shape_refl [simp]: "store_shape dls dls"
  by (simp add: store_shape_def split: option.split)

lemma store_shape_trans: "store_shape a b \<Longrightarrow> store_shape b c \<Longrightarrow> store_shape a c"
  unfolding store_shape_def
proof
  fix p
  assume ab: "\<forall>p. case a p of None \<Rightarrow> b p = None | Some dl \<Rightarrow> \<exists>dl'. b p = Some dl' \<and> same_shape dl dl'"
    and bc: "\<forall>p. case b p of None \<Rightarrow> c p = None | Some dl \<Rightarrow> \<exists>dl'. c p = Some dl' \<and> same_shape dl dl'"
  show "case a p of None \<Rightarrow> c p = None | Some dl \<Rightarrow> \<exists>dl'. c p = Some dl' \<and> same_shape dl dl'"
    using spec [OF ab, of p] spec [OF bc, of p] by (auto split: option.splits intro: same_shape_trans)
qed

lemma store_shape_update: "dls p = Some dl \<Longrightarrow> same_shape dl dl' \<Longrightarrow> store_shape dls (dls(p \<mapsto> dl'))"
  by (auto simp: store_shape_def split: option.split)

lemma store_shape_lookup: "store_shape dls dls' \<Longrightarrow> dls p = Some dl \<Longrightarrow> \<exists>dl'. dls' p = Some dl' \<and> same_shape dl dl'"
  by (auto simp: store_shape_def dest: spec [of _ p])

lemma channel_inv_store_shape:
  assumes "channel_inv dls ch" and "store_shape dls dls'"
  shows "channel_inv dls' ch"
proof (cases "ch_last_desc_list ch")
  case None then show ?thesis using assms(1) by (simp add: channel_inv_def)
next
  case (Some p)
  then obtain dl where dl: "dls p = Some dl" "wf_desc_list dl"
      "\<forall>t \<in> set (otl_contents (ch_ongoing_transfers ch)). ot_wf (unat (dl_desc_count dl)) t"
    using assms(1) by (auto simp: channel_inv_def)
  obtain dl' where "dls' p = Some dl'" "same_shape dl dl'" using store_shape_lookup [OF assms(2) dl(1)] by blast
  then show ?thesis using Some assms(1) dl same_shape_wf same_shape_fields by (auto simp: channel_inv_def)
qed

lemma clear_dirty_loop_ok:
  assumes "dls p = Some dl" and "wf_desc_list dl" and "\<forall>x \<in> set xs. unat x < unat (dl_desc_count dl)"
  shows "\<exists>dls'. clear_dirty_loop xs (Some p) dls = Ok dls' \<and> store_shape dls dls'"
  using assms
proof (induction xs arbitrary: dls dl)
  case (Cons x xs)
  let ?dl = "dl\<lparr>dl_desc_list := (dl_desc_list dl)[unat x := (dl_desc_list dl ! unat x)\<lparr>PageSize_DescControl :=
    push_bit DESCRIPTOR_PAGE_SIZE_SHIFT (ucast (dl_desc_page_size dl)) + ucast DESCRIPTOR_DESC_CONTROL\<rparr>]\<rparr>"
  have c: "clear_dirty_desc dl x = Ok ?dl" using Cons.prems wf_desc_listD(1) [OF Cons.prems(2)] by (simp add: clear_dirty_desc_def)
  have sh: "same_shape dl ?dl" by (rule same_shapeI) simp
  define dls1 where "dls1 = dls(p \<mapsto> ?dl)"
  then have d1: "dls1 p = Some ?dl" by simp
  then obtain dls' where ih: "clear_dirty_loop xs (Some p) dls1 = Ok dls'" "store_shape dls1 dls'"
    using Cons.IH [of dls1 ?dl] Cons.prems by auto
  have "store_shape dls dls1" unfolding dls1_def using Cons.prems(1) sh by (rule store_shape_update)
  then have "store_shape dls dls'" using ih(2) by (rule store_shape_trans)
  with c ih(1) show ?case using Cons.prems(1) by (simp add: deref_list_def dls1_def)
qed simp

lemma clear_dirty_descs_ok:
  assumes "ch_last_desc_list ch = Some p" and "dls p = Some dl" and "wf_desc_list dl" and "ot_wf (unat (dl_desc_count dl)) t"
  shows "\<exists>dls'. clear_dirty_descs ch t dls = Ok dls' \<and> store_shape dls dls'"
  using clear_dirty_loop_ok [of dls p dl "take (unat (ot_dirty_descs_count t)) (ot_dirty_descs t)"] assms
  by (auto simp: clear_dirty_descs_def ot_wf_def ring_consts dest: in_set_takeD)

lemma validate_last_desc_ok:
  assumes "ch_last_desc_list ch = Some p" and "dls p = Some dl" and "wf_desc_list dl" and "ot_wf (unat (dl_desc_count dl)) t"
  shows "\<exists>v. validate_last_desc_status ch t dls = Ok v"
  using assms wf_desc_listD(1) [OF assms(3)] by (simp add: validate_last_desc_status_def deref_list_def ot_wf_def Let_def)

section \<open>Circular descriptor ranges\<close>

lemma is_desc_between_circular:
  assumes "unat b < N" and "unat e < N" and "unat x < N"
  shows "is_desc_between b e x \<longleftrightarrow> (unat x + N - unat b) mod N < (unat e + N - unat b) mod N"
  using assms unfolding ring_count [OF assms(2,1)] ring_count [OF assms(3,1)]
  by (auto simp: is_desc_between_def word_less_nat_alt word_le_nat_alt word_unat_eq_iff)

lemma ring_distance: "(a::nat) < N \<Longrightarrow> m < N \<Longrightarrow> ((a + m) mod N + N - a) mod N = m"
  by (auto simp: mod_add_eq_cases le_mod_geq)

section \<open>Exactly the processed transfers are completed\<close>

text \<open>
  The queued transfers lie one after the other in the descriptors list: from position \<open>a\<close> on, transfer \<open>i\<close>
  takes \<open>ns ! i\<close> descriptors, and \<open>last_desc\<close> is the last of them.
\<close>

fun laid_out :: "nat \<Rightarrow> nat \<Rightarrow> nat list \<Rightarrow> hailo_ongoing_transfer list \<Rightarrow> bool" where
  "laid_out N a [] [] = True"
| "laid_out N a (n # ns) (t # ts) \<longleftrightarrow> 0 < n \<and> unat (ot_last_desc t) = (a + n - 1) mod N \<and> laid_out N (a + n) ns ts"
| "laid_out N a _ _ = False"

text \<open>How many of the transfers are done when the hardware has processed \<open>P\<close> descriptors.\<close>

fun done_count :: "nat \<Rightarrow> nat list \<Rightarrow> nat" where
  "done_count P [] = 0"
| "done_count P (n # ns) = (if n \<le> P then Suc (done_count (P - n) ns) else 0)"

lemma laid_out_cong: "a mod N = b mod N \<Longrightarrow> laid_out N a ns ts = laid_out N b ns ts"
proof (induction N a ns ts arbitrary: b rule: laid_out.induct)
  case (2 N a n ns t ts)
  have "(a + n) mod N = (b + n) mod N" using 2(2) by (metis mod_add_left_eq)
  moreover have "(a + n - 1) mod N = (b + n - 1) mod N" if "0 < n"
    using mod_add_cong [OF 2(2) refl, of "n - 1"] that by simp
  ultimately show ?case using 2(1) [of "b + n"] by auto
qed simp_all

lemma complete_step:
  assumes inv: "channel_inv dls ch" and p: "ch_last_desc_list ch = Some p"
    and q: "otl_contents (ch_ongoing_transfers ch) = t # ts" and c: "is_transfer_complete ch t hw"
    and st: "st = (ch_state ch)\<lparr>cs_num_proc := ucast ((ucast (ot_last_desc t) + 1) AND cs_desc_count_mask (ch_state ch))\<rparr>"
  shows "\<exists>v ring dls1. complete_transfers (Suc fuel) hw td cnt valid dbg ch dls s =
      complete_transfers fuel hw td (cnt + 1) (valid \<and> v) (dbg \<or> \<not> v)
        (ch\<lparr>ch_state := st, ch_ongoing_transfers := ring\<rparr>) dls1 (td t s) \<and>
    (\<not> ot_is_debug t \<longrightarrow> v) \<and> otl_contents ring = ts \<and> store_shape dls dls1 \<and>
    channel_inv dls1 (ch\<lparr>ch_state := st, ch_ongoing_transfers := ring\<rparr>)"
proof -
  obtain dl where dl: "dls p = Some dl" "wf_desc_list dl" "\<forall>t \<in> set (t # ts). ot_wf (unat (dl_desc_count dl)) t"
    using inv p q by (auto simp: channel_inv_def)
  have ok: "otl_ok (ch_ongoing_transfers ch)" using inv by (simp add: channel_inv_def)
  obtain ring where ring: "ongoing_transfer_pop False (ch_ongoing_transfers ch) = (Ok None, ring)" "otl_ok ring"
      "otl_contents ring = ts" "otl_transfers (ch_ongoing_transfers ch) ! unat (otl_tail (ch_ongoing_transfers ch)) = t"
    using pop_ok [OF ok q, of False] by auto
  have cnt: "0 < ONGOING_TRANSFERS_CIRC_CNT (ch_ongoing_transfers ch)"
    using otl_count [OF ok] q by (simp add: word_less_nat_alt)
  have get: "array_get (otl_transfers (ch_ongoing_transfers ch)) (unat (otl_tail (ch_ongoing_transfers ch))) = Ok t"
    using ok ring(4) by (simp add: otl_ok_def)
  obtain dls1 where d1: "clear_dirty_descs ch t dls = Ok dls1" "store_shape dls dls1"
    using clear_dirty_descs_ok [of ch p dls dl t] p dl by auto
  obtain v where v: "(if ot_is_debug t then validate_last_desc_status ch t dls else Ok True) = Ok v" "\<not> ot_is_debug t \<longrightarrow> v"
    using validate_last_desc_ok [of ch p dls dl t] p dl by (cases "ot_is_debug t") auto
  have "channel_inv dls (ch\<lparr>ch_state := st, ch_ongoing_transfers := ring\<rparr>)"
    using inv p dl ring(2,3) unfolding channel_inv_def by simp
  then have inv1: "channel_inv dls1 (ch\<lparr>ch_state := st, ch_ongoing_transfers := ring\<rparr>)"
    using d1(2) by (rule channel_inv_store_shape)
  have "complete_transfers (Suc fuel) hw td cnt valid dbg ch dls s =
      complete_transfers fuel hw td (cnt + 1) (valid \<and> v) (dbg \<or> \<not> v)
        (ch\<lparr>ch_state := st, ch_ongoing_transfers := ring\<rparr>) dls1 (td t s)"
    using cnt get c v(1) d1(1) ring(1) by (simp add: st)
  then show ?thesis using v(2) ring(3) d1(2) inv1 by blast
qed

lemma complete_stop:
  assumes inv: "channel_inv dls ch"
    and q: "otl_contents (ch_ongoing_transfers ch) = [] \<or>
      (\<exists>t ts. otl_contents (ch_ongoing_transfers ch) = t # ts \<and> \<not> is_transfer_complete ch t hw)"
  shows "complete_transfers fuel hw td cnt valid dbg ch dls s = Ok (cnt, valid, dbg, ch, dls, s)"
proof (cases fuel)
  case (Suc f)
  have ok: "otl_ok (ch_ongoing_transfers ch)" using inv by (simp add: channel_inv_def)
  show ?thesis
  proof (cases "otl_contents (ch_ongoing_transfers ch)")
    case Nil
    then show ?thesis using otl_count [OF ok] Suc by (simp add: word_less_nat_alt)
  next
    case (Cons t ts)
    then have "array_get (otl_transfers (ch_ongoing_transfers ch)) (unat (otl_tail (ch_ongoing_transfers ch))) = Ok t"
      using pop_ok [OF ok Cons, of False] ok by (auto simp: otl_ok_def)
    then show ?thesis using q Cons Suc by simp
  qed
qed simp


lemma head_complete_iff:
  assumes "laid_out N (unat (cs_num_proc (ch_state ch))) (n # ns) (t # ts)" and "unat (cs_num_proc (ch_state ch)) < N"
    and "n + sum_list ns < N" and "P \<le> n + sum_list ns" and "unat hw = (unat (cs_num_proc (ch_state ch)) + P) mod N"
    and "unat (cs_num_avail (ch_state ch)) = (unat (cs_num_proc (ch_state ch)) + (n + sum_list ns)) mod N"
  shows "is_transfer_complete ch t hw \<longleftrightarrow> n \<le> P"
proof -
  let ?np = "unat (cs_num_proc (ch_state ch))"
  have l: "0 < n" "unat (ot_last_desc t) = (?np + (n - 1)) mod N" using assms(1) by simp_all
  have hw: "unat hw < N" "unat (ot_last_desc t) < N" using assms(2,5) l(2) by simp_all
  have "cs_num_avail (ch_state ch) = hw \<longleftrightarrow> P = n + sum_list ns"
    unfolding word_unat_eq_iff assms(5,6) using mod_inj_window [of ?np "n + sum_list ns" N P] assms(3,4) by auto
  moreover have "is_desc_between (cs_num_proc (ch_state ch)) hw (ot_last_desc t) \<longleftrightarrow> n - 1 < P"
    unfolding is_desc_between_circular [OF assms(2) hw] unfolding l(2) assms(5)
    using ring_distance [OF assms(2), of "n - 1"] ring_distance [OF assms(2), of P] assms(3,4) l(1) by simp
  ultimately show ?thesis using l(1) by (auto simp: is_transfer_complete_def)
qed

lemma num_proc_next:
  assumes "unat (msk :: u32) = 2 ^ k - 1" and "(2::nat) ^ k \<le> 65536" and "unat (l :: u16) = (a + n - 1) mod 2 ^ k" and "0 < n"
  shows "unat (ucast ((ucast l + 1) AND msk) :: u16) = (a + n) mod 2 ^ k"
proof -
  have "msk + 1 = 2 ^ k"
  proof -
    have "unat (msk + 1) = 2 ^ k" using assms(1,2) by (subst unat_Suc_small) simp_all
    then show ?thesis by (rule pow2_word_eq)
  qed
  then have m: "msk = 2 ^ k - 1" by (metis add_diff_cancel_right')
  have "unat (ucast l + 1 :: u32) = unat l + 1" using unat_less_u16 [of l] by (subst unat_Suc_small) simp_all
  then have "unat ((ucast l + 1) AND msk) = (unat l + 1) mod 2 ^ k" unfolding m by (simp add: unat_and_exp_minus_1)
  moreover have "(unat l + 1) mod 2 ^ k = (a + n) mod 2 ^ k"
    unfolding assms(3) using assms(4) by (simp add: mod_simps)
  moreover have "(a + n) mod 2 ^ k < 65536" by (rule less_le_trans [OF mod_less_divisor assms(2)]) simp
  ultimately show ?thesis by (simp add: unat_ucast_mod)
qed


lemma complete_transfers_exact:
  assumes "channel_inv dls ch" and "ch_last_desc_list ch = Some p" and "otl_contents (ch_ongoing_transfers ch) = ts"
    and "laid_out (2 ^ k) (unat (cs_num_proc (ch_state ch))) ns ts"
    and "unat (cs_desc_count_mask (ch_state ch)) = 2 ^ k - 1" and "(2::nat) ^ k \<le> 65536"
    and "unat (cs_num_proc (ch_state ch)) < 2 ^ k" and "sum_list ns < 2 ^ k" and "P \<le> sum_list ns"
    and "unat hw = (unat (cs_num_proc (ch_state ch)) + P) mod 2 ^ k"
    and "unat (cs_num_avail (ch_state ch)) = (unat (cs_num_proc (ch_state ch)) + sum_list ns) mod 2 ^ k"
    and "length ts \<le> fuel"
  shows "\<exists>valid' dbg' np ring dls'.
    complete_transfers fuel hw td cnt valid dbg ch dls s = Ok (cnt + of_nat (done_count P ns), valid', dbg',
      ch\<lparr>ch_state := (ch_state ch)\<lparr>cs_num_proc := np\<rparr>, ch_ongoing_transfers := ring\<rparr>, dls', fold td (take (done_count P ns) ts) s) \<and>
    otl_contents ring = drop (done_count P ns) ts \<and>
    unat np = (unat (cs_num_proc (ch_state ch)) + sum_list (take (done_count P ns) ns)) mod 2 ^ k \<and>
    channel_inv dls' (ch\<lparr>ch_state := (ch_state ch)\<lparr>cs_num_proc := np\<rparr>, ch_ongoing_transfers := ring\<rparr>) \<and> store_shape dls dls' \<and>
    ((\<forall>t \<in> set ts. \<not> ot_is_debug t) \<longrightarrow> valid' = valid \<and> dbg' = dbg)"
  using assms
proof (induction ts arbitrary: fuel cnt valid dbg ch dls s ns P)
  case Nil
  then have "ns = []" by (cases ns) auto
  with Nil complete_stop [of dls ch hw fuel td cnt valid dbg s] show ?case
    by (intro exI [of _ valid] exI [of _ dbg] exI [of _ "cs_num_proc (ch_state ch)"] exI [of _ "ch_ongoing_transfers ch"] exI [of _ dls]) simp
next
  case (Cons t ts)
  then obtain n ns' where ns: "ns = n # ns'" by (cases ns) auto
  let ?np = "unat (cs_num_proc (ch_state ch))"
  have iff: "is_transfer_complete ch t hw \<longleftrightarrow> n \<le> P"
    using Cons.prems(4,7-11) unfolding ns sum_list.Cons by (rule head_complete_iff)
  show ?case
  proof (cases "n \<le> P")
    case False
    then have "complete_transfers fuel hw td cnt valid dbg ch dls s = Ok (cnt, valid, dbg, ch, dls, s)"
      using Cons.prems(1,3) iff by (intro complete_stop) simp_all
    with False Cons.prems show ?thesis unfolding ns
      by (intro exI [of _ valid] exI [of _ dbg] exI [of _ "cs_num_proc (ch_state ch)"] exI [of _ "ch_ongoing_transfers ch"] exI [of _ dls]) simp
  next
    case True
    obtain f where f: "fuel = Suc f" "length ts \<le> f" using Cons.prems(12) by (cases fuel) auto
    define st where "st = (ch_state ch)\<lparr>cs_num_proc := ucast ((ucast (ot_last_desc t) + 1) AND cs_desc_count_mask (ch_state ch))\<rparr>"
    obtain v ring dls1 where step: "complete_transfers (Suc f) hw td cnt valid dbg ch dls s =
        complete_transfers f hw td (cnt + 1) (valid \<and> v) (dbg \<or> \<not> v) (ch\<lparr>ch_state := st, ch_ongoing_transfers := ring\<rparr>) dls1 (td t s)"
      "\<not> ot_is_debug t \<longrightarrow> v" "otl_contents ring = ts" "store_shape dls dls1"
      "channel_inv dls1 (ch\<lparr>ch_state := st, ch_ongoing_transfers := ring\<rparr>)"
      using complete_step [OF Cons.prems(1-3) iff [THEN iffD2, OF True] st_def, of f td cnt valid dbg s] by blast
    let ?ch = "ch\<lparr>ch_state := st, ch_ongoing_transfers := ring\<rparr>"
    have l: "0 < n" "unat (ot_last_desc t) = (?np + n - 1) mod 2 ^ k" "laid_out (2 ^ k) (?np + n) ns' ts" using Cons.prems(4) ns by simp_all
    have np: "unat (cs_num_proc st) = (?np + n) mod 2 ^ k"
      unfolding st_def using num_proc_next [OF Cons.prems(5,6) l(2,1)] by simp
    have num_avail: "cs_num_avail st = cs_num_avail (ch_state ch)" "cs_desc_count_mask st = cs_desc_count_mask (ch_state ch)" by (simp_all add: st_def)
    have add: "(unat (cs_num_proc st) + x) mod 2 ^ k = (?np + (n + x)) mod 2 ^ k" for x unfolding np by (simp add: mod_simps ac_simps)
    have pre: "laid_out (2 ^ k) (unat (cs_num_proc st)) ns' ts" "unat (cs_num_proc st) < 2 ^ k" "sum_list ns' < 2 ^ k"
        "P - n \<le> sum_list ns'" "unat hw = (unat (cs_num_proc st) + (P - n)) mod 2 ^ k"
        "unat (cs_num_avail st) = (unat (cs_num_proc st) + sum_list ns') mod 2 ^ k"
      using laid_out_cong [of "unat (cs_num_proc st)" "2 ^ k" "?np + n" ns' ts] l(3) Cons.prems(8-11) True ns
      unfolding add num_avail by (simp_all add: np)
    have chs: "ch_last_desc_list ?ch = Some p" "otl_contents (ch_ongoing_transfers ?ch) = ts" "ch_state ?ch = st"
        "unat (cs_desc_count_mask st) = 2 ^ k - 1"
      using Cons.prems(2,5) step(3) by (simp_all add: num_avail)
    from Cons.IH [OF step(5) chs(1,2), unfolded chs(3), OF pre(1) chs(4) Cons.prems(6) pre(2-6) f(2), of "cnt + 1" "valid \<and> v" "dbg \<or> \<not> v" "td t s"]
    obtain valid' dbg' np' ring' dls' where ih:
      "complete_transfers f hw td (cnt + 1) (valid \<and> v) (dbg \<or> \<not> v) ?ch dls1 (td t s) =
         Ok (cnt + 1 + of_nat (done_count (P - n) ns'), valid', dbg', ?ch\<lparr>ch_state := st\<lparr>cs_num_proc := np'\<rparr>, ch_ongoing_transfers := ring'\<rparr>,
           dls', fold td (take (done_count (P - n) ns') ts) (td t s))"
      "otl_contents ring' = drop (done_count (P - n) ns') ts"
      "unat np' = (unat (cs_num_proc st) + sum_list (take (done_count (P - n) ns') ns')) mod 2 ^ k"
      "channel_inv dls' (?ch\<lparr>ch_state := st\<lparr>cs_num_proc := np'\<rparr>, ch_ongoing_transfers := ring'\<rparr>)" "store_shape dls1 dls'"
      "(\<forall>t \<in> set ts. \<not> ot_is_debug t) \<longrightarrow> valid' = (valid \<and> v) \<and> dbg' = (dbg \<or> \<not> v)"
      by blast
    have st: "st\<lparr>cs_num_proc := np'\<rparr> = (ch_state ch)\<lparr>cs_num_proc := np'\<rparr>" by (simp add: st_def)
    show ?thesis
      using step(1,2) ih(1,2,4,6) store_shape_trans [OF step(4) ih(5)] True unfolding f(1) ns st
      by (intro exI [of _ valid'] exI [of _ dbg'] exI [of _ np'] exI [of _ ring'] exI [of _ dls']) (simp add: ih(3) add ac_simps)
  qed
qed

lemma done_count_le: "done_count P ns \<le> length ns"
  by (induction ns arbitrary: P) auto

lemma laid_out_length: "laid_out N a ns ts \<Longrightarrow> length ns = length ts"
  by (induction N a ns ts rule: laid_out.induct) auto

text \<open>C6: An interrupt collects exactly the transfers the hardware has processed. The queued transfers lie one after the other
  in the circular descriptors list (\<open>laid_out\<close>), the hardware has processed \<open>P\<close> of their descriptors, and none of them is a debug
  transfer. \<open>fill_channel_irq_data\<close> then runs the callback on the first \<open>done_count P ns\<close> transfers, in order and once each, takes
  exactly these out of the ring, moves \<open>num_proc\<close> behind the last of them, and reports their number (or that the channel is not
  active); it keeps the channel's invariant and never faults. The index arithmetic wraps around the end of the list.\<close>
theorem fill_channel_irq_data_exact:
  assumes inv: "channel_inv dls ch" "ch_last_desc_list ch = Some p" and ts: "otl_contents (ch_ongoing_transfers ch) = ts"
    and lay: "laid_out (2 ^ k) (unat (cs_num_proc (ch_state ch))) ns ts"
    and msk: "unat (cs_desc_count_mask (ch_state ch)) = 2 ^ k - 1" "(2::nat) ^ k \<le> 65536"
    and np: "unat (cs_num_proc (ch_state ch)) < 2 ^ k" "sum_list ns < 2 ^ k" "P \<le> sum_list ns"
    and regs: "ioread64_safe io (ch_host_regs ch) d = (q, d1)"
    and hw: "unat (ucast (READ_BITS_AT_OFFSET 16 32 q AND ucast (cs_desc_count_mask (ch_state ch))) :: u16) =
        (unat (cs_num_proc (ch_state ch)) + P) mod 2 ^ k"
    and av: "unat (cs_num_avail (ch_state ch)) = (unat (cs_num_proc (ch_state ch)) + sum_list ns) mod 2 ^ k"
    and dbg: "\<forall>t \<in> set ts. \<not> ot_is_debug t" and m: "m = done_count P ns"
  shows "\<exists>irq ch' dls'. fill_channel_irq_data io e ch td dls s d = (Ok (irq, ch', dls', fold td (take m ts) s), d1) \<and>
    (if channel_control_reg_is_active (ucast (READ_BITS_AT_OFFSET 8 0 q)) then unat (irq_data_val irq) = m
     else irq_data_val irq = HAILO_VDMA_TRANSFER_DATA_CHANNEL_NOT_ACTIVE) \<and>
    irq_channel_index irq = ch_index ch \<and> irq_engine_index irq = e \<and>
    otl_contents (ch_ongoing_transfers ch') = drop m ts \<and>
    unat (cs_num_proc (ch_state ch')) = (unat (cs_num_proc (ch_state ch)) + sum_list (take m ns)) mod 2 ^ k \<and>
    cs_num_avail (ch_state ch') = cs_num_avail (ch_state ch) \<and> channel_inv dls' ch'"
proof -
  define hwp where "hwp = (ucast (READ_BITS_AT_OFFSET 16 32 q AND ucast (cs_desc_count_mask (ch_state ch))) :: u16)"
  have ok: "otl_ok (ch_ongoing_transfers ch)" using inv(1) by (simp add: channel_inv_def)
  let ?fuel = "unat (ONGOING_TRANSFERS_CIRC_CNT (ch_ongoing_transfers ch))"
  have fuel: "length ts \<le> ?fuel" using otl_count [OF ok] ts by simp
  have "m \<le> 127" using done_count_le [of P ns] laid_out_length [OF lay] otl_bound [OF ok] ts m by simp
  then have m8: "unat (of_nat m :: u8) = m" by (intro unat_of_nat_small) simp
  from complete_transfers_exact [OF inv ts lay msk np hw [folded hwp_def] av fuel, of td 0 True False s]
  obtain n' ring dls' where c: "complete_transfers ?fuel hwp td 0 True False ch dls s =
        Ok (of_nat m, True, False, ch\<lparr>ch_state := (ch_state ch)\<lparr>cs_num_proc := n'\<rparr>, ch_ongoing_transfers := ring\<rparr>, dls',
          fold td (take m ts) s)"
      "otl_contents ring = drop m ts"
      "unat n' = (unat (cs_num_proc (ch_state ch)) + sum_list (take m ns)) mod 2 ^ k"
      "channel_inv dls' (ch\<lparr>ch_state := (ch_state ch)\<lparr>cs_num_proc := n'\<rparr>, ch_ongoing_transfers := ring\<rparr>)"
    using dbg unfolding m add_0 by blast
  show ?thesis
    using c m8 unfolding fill_channel_irq_data_def regs
    by (simp add: c_macros hwp_def [symmetric] Let_def)
qed

section \<open>Collecting transfers is safe for any hardware counter\<close>

lemma complete_transfers_safe:
  assumes "channel_inv dls ch" and "ch_last_desc_list ch = Some p"
  shows "\<exists>cnt' valid' dbg' ch' dls' s'. complete_transfers fuel hw td cnt valid dbg ch dls s = Ok (cnt', valid', dbg', ch', dls', s') \<and>
    channel_inv dls' ch' \<and> store_shape dls dls' \<and> ch_index ch' = ch_index ch \<and> ch_last_desc_list ch' = ch_last_desc_list ch"
  using assms
proof (induction fuel arbitrary: cnt valid dbg ch dls s)
  case (Suc fuel)
  show ?case
  proof (cases "otl_contents (ch_ongoing_transfers ch) = [] \<or>
      (\<exists>t ts. otl_contents (ch_ongoing_transfers ch) = t # ts \<and> \<not> is_transfer_complete ch t hw)")
    case True
    with Suc.prems(1) show ?thesis using complete_stop [of dls ch hw "Suc fuel" td cnt valid dbg s] store_shape_refl by blast
  next
    case False
    then obtain t ts where t: "otl_contents (ch_ongoing_transfers ch) = t # ts" "is_transfer_complete ch t hw"
      by (cases "otl_contents (ch_ongoing_transfers ch)") auto
    define st where "st = (ch_state ch)\<lparr>cs_num_proc := ucast ((ucast (ot_last_desc t) + 1) AND cs_desc_count_mask (ch_state ch))\<rparr>"
    obtain v ring dls1 where step: "complete_transfers (Suc fuel) hw td cnt valid dbg ch dls s =
        complete_transfers fuel hw td (cnt + 1) (valid \<and> v) (dbg \<or> \<not> v) (ch\<lparr>ch_state := st, ch_ongoing_transfers := ring\<rparr>) dls1 (td t s)"
      "store_shape dls dls1" "channel_inv dls1 (ch\<lparr>ch_state := st, ch_ongoing_transfers := ring\<rparr>)"
      using complete_step [OF Suc.prems t st_def, of fuel td cnt valid dbg s] by blast
    have "ch_last_desc_list (ch\<lparr>ch_state := st, ch_ongoing_transfers := ring\<rparr>) = Some p" using Suc.prems(2) by simp
    from Suc.IH [OF step(3) this, of "cnt + 1" "valid \<and> v" "dbg \<or> \<not> v" "td t s"] step(1)
    show ?thesis using store_shape_trans [OF step(2)] by fastforce
  qed
qed simp

lemma fill_channel_irq_data_safe:
  assumes "channel_inv dls ch" and "ch_last_desc_list ch = Some p"
  shows "\<exists>irq ch' dls' s' d'. fill_channel_irq_data io e ch td dls s d = (Ok (irq, ch', dls', s'), d') \<and>
    channel_inv dls' ch' \<and> store_shape dls dls' \<and> irq_channel_index irq = ch_index ch \<and> ch_index ch' = ch_index ch \<and>
    ch_last_desc_list ch' = ch_last_desc_list ch"
proof -
  obtain q d1 where q: "ioread64_safe io (ch_host_regs ch) d = (q, d1)" by fastforce
  let ?hw = "ucast (READ_BITS_AT_OFFSET (WORD_SIZE * BITS_IN_BYTE) (CHANNEL_NUM_PROC_OFFSET * BITS_IN_BYTE) q
                          AND ucast (cs_desc_count_mask (ch_state ch))) :: u16"
  obtain c v b ch' dls' s' where
    "complete_transfers (unat (ONGOING_TRANSFERS_CIRC_CNT (ch_ongoing_transfers ch))) ?hw td 0 True False ch dls s =
       Ok (c, v, b, ch', dls', s')" "channel_inv dls' ch'" "store_shape dls dls'" "ch_index ch' = ch_index ch"
      "ch_last_desc_list ch' = ch_last_desc_list ch"
    using complete_transfers_safe [OF assms, of "unat (ONGOING_TRANSFERS_CIRC_CNT (ch_ongoing_transfers ch))" ?hw td 0 True False s] by blast
  then show ?thesis by (simp add: fill_channel_irq_data_def q Let_def split: prod.split)
qed

section \<open>Draining a channel\<close>

lemma drain_transfers_ok:
  assumes "channel_inv dls ch" and "length (otl_contents (ch_ongoing_transfers ch)) \<le> fuel"
  shows "\<exists>ring dls'. drain_transfers fuel ch dls = Ok (ch\<lparr>ch_ongoing_transfers := ring\<rparr>, dls') \<and> otl_ok ring \<and>
    otl_contents ring = [] \<and> store_shape dls dls'"
  using assms
proof (induction fuel arbitrary: ch dls)
  case 0
  then have "otl_ok (ch_ongoing_transfers ch)" by (simp add: channel_inv_def)
  with 0 show ?case by (intro exI [of _ "ch_ongoing_transfers ch"] exI [of _ dls]) simp
next
  case (Suc fuel)
  have ok: "otl_ok (ch_ongoing_transfers ch)" using Suc.prems(1) by (simp add: channel_inv_def)
  show ?case
  proof (cases "otl_contents (ch_ongoing_transfers ch)")
    case Nil
    then have "drain_transfers (Suc fuel) ch dls = Ok (ch, dls)" using otl_count [OF ok] by (simp add: word_less_nat_alt)
    with Nil ok show ?thesis by (intro exI [of _ "ch_ongoing_transfers ch"] exI [of _ dls]) simp
  next
    case (Cons t ts)
    then obtain p where p: "ch_last_desc_list ch = Some p"
      using Suc.prems(1) by (cases "ch_last_desc_list ch") (auto simp: channel_inv_def)
    obtain dl where dl: "dls p = Some dl" "wf_desc_list dl" "\<forall>t \<in> set (t # ts). ot_wf (unat (dl_desc_count dl)) t"
      using Suc.prems(1) p Cons by (auto simp: channel_inv_def)
    obtain ring where ring: "ongoing_transfer_pop True (ch_ongoing_transfers ch) = (Ok (Some t), ring)" "otl_ok ring"
        "otl_contents ring = ts"
      using pop_ok [OF ok Cons, of True] by auto
    let ?ch = "ch\<lparr>ch_ongoing_transfers := ring\<rparr>"
    have p1: "ch_last_desc_list ?ch = Some p" using p by simp
    obtain dls1 where d1: "clear_dirty_descs ?ch t dls = Ok dls1" "store_shape dls dls1"
      using clear_dirty_descs_ok [of ?ch p dls dl t] p1 dl by auto
    have "channel_inv dls ?ch" using Suc.prems(1) p dl ring(2,3) unfolding channel_inv_def by simp
    then have "channel_inv dls1 ?ch" using d1(2) by (rule channel_inv_store_shape)
    from Suc.IH [OF this] Suc.prems(2) Cons ring(3)
    obtain ring' dls' where ih: "drain_transfers fuel ?ch dls1 = Ok (?ch\<lparr>ch_ongoing_transfers := ring'\<rparr>, dls')" "otl_ok ring'"
        "otl_contents ring' = []" "store_shape dls1 dls'" by auto
    have "0 < ONGOING_TRANSFERS_CIRC_CNT (ch_ongoing_transfers ch)" using otl_count [OF ok] Cons by (simp add: word_less_nat_alt)
    then have "drain_transfers (Suc fuel) ch dls = drain_transfers fuel ?ch dls1" using ring(1) d1(1) p by simp
    with ih show ?thesis using store_shape_trans [OF d1(2) ih(4)]
      by (intro exI [of _ ring'] exI [of _ dls']) simp
  qed
qed

definition channel_disabled :: "hailo_vdma_channel \<Rightarrow> hailo_vdma_channel \<Rightarrow> bool" where
  "channel_disabled ch ch' \<longleftrightarrow> (\<exists>ring. otl_ok ring \<and> otl_contents ring = [] \<and>
     ch' = ch\<lparr>ch_state := \<lparr>cs_num_avail = 0, cs_num_proc = 0, cs_desc_count_mask = -1\<rparr>, ch_ongoing_transfers := ring,
       ch_last_desc_list := None\<rparr>)"

lemma disable_channel_ok:
  assumes "channel_inv dls ch"
  shows "\<exists>ch' dls'. disable_channel ch dls = Ok (ch', dls') \<and> channel_disabled ch ch' \<and> channel_inv dls' ch' \<and> store_shape dls dls'"
proof -
  have ok: "otl_ok (ch_ongoing_transfers ch)" using assms by (simp add: channel_inv_def)
  let ?ch = "ch\<lparr>ch_state := channel_state_init (ch_state ch)\<rparr>"
  have "channel_inv dls ?ch" using assms by (cases "ch_last_desc_list ch") (simp_all add: channel_inv_def)
  from drain_transfers_ok [OF this, of "unat (ONGOING_TRANSFERS_CIRC_CNT (ch_ongoing_transfers ch))"] otl_count [OF ok]
  obtain ring dls' where r: "drain_transfers (unat (ONGOING_TRANSFERS_CIRC_CNT (ch_ongoing_transfers ch))) ?ch dls =
      Ok (?ch\<lparr>ch_ongoing_transfers := ring\<rparr>, dls')" "otl_ok ring" "otl_contents ring = []" "store_shape dls dls'" by auto
  have "channel_disabled ch (?ch\<lparr>ch_ongoing_transfers := ring, ch_last_desc_list := None\<rparr>)"
    unfolding channel_disabled_def using r(2,3) by (intro exI [of _ ring]) (simp add: channel_state_init_def)
  moreover have "channel_inv dls' (?ch\<lparr>ch_ongoing_transfers := ring, ch_last_desc_list := None\<rparr>)"
    using assms r(2,3) by (simp add: channel_inv_def)
  ultimately show ?thesis using r(1,4) by (simp add: disable_channel_def)
qed

end
