(* ===== verification/Vdma_Interrupts.thy ===== *)
theory Vdma_Interrupts
  imports Vdma_Completion
begin

text \<open>
  The engine as a whole: its invariant, established by initialisation and kept by enabling, disabling and collecting
  interrupts; draining of disabled channels; timestamps; the interrupt bits; the report of interrupted channels.
\<close>

section \<open>Invariant of an engine\<close>

definition engine_inv :: "dl_store \<Rightarrow> hailo_vdma_engine \<Rightarrow> bool" where
  "engine_inv dls en \<longleftrightarrow> length (en_channels en) = 32 \<and> (\<forall>ch \<in> set (en_channels en). channel_inv dls ch)"

lemma test_bit_index: "i < 32 \<Longrightarrow> hailo_test_bit (of_nat i) b = bit b i"
proof -
  assume i: "i < 32"
  then have "unat (of_nat i :: u8) = i" by (intro unat_of_nat_small) simp
  with hailo_test_bit_bit [of "of_nat i" b] i show ?thesis by simp
qed

lemma disable_loop_ok:
  assumes "\<forall>ch \<in> set chs. channel_inv dls ch" and "i + length chs \<le> 32"
  shows "\<exists>chs' dls'. disable_loop b i chs dls = Ok (chs', dls') \<and> length chs' = length chs \<and> store_shape dls dls' \<and>
    (\<forall>j < length chs. if bit b (i + j) then channel_disabled (chs ! j) (chs' ! j) else chs' ! j = chs ! j) \<and>
    (\<forall>ch \<in> set chs'. channel_inv dls' ch)"
  using assms
proof (induction chs arbitrary: i dls)
  case (Cons ch chs)
  let ?r = "if hailo_test_bit (of_nat i) b then disable_channel ch dls else Ok (ch, dls)"
  have tb: "hailo_test_bit (of_nat i) b = bit b i" using Cons.prems(2) by (intro test_bit_index) simp
  obtain ch1 dls1 where r: "?r = Ok (ch1, dls1)" "if bit b i then channel_disabled ch ch1 else ch1 = ch"
      "channel_inv dls1 ch1" "store_shape dls dls1"
    using disable_channel_ok [of dls ch] Cons.prems(1) unfolding tb by (cases "bit b i") auto
  have inv1: "\<forall>ch \<in> set chs. channel_inv dls1 ch"
    using Cons.prems(1) channel_inv_store_shape r(4) by simp blast
  have i: "Suc i + length chs \<le> 32" using Cons.prems(2) by simp
  from Cons.IH [OF inv1 i] obtain chs' dls' where ih: "disable_loop b (Suc i) chs dls1 = Ok (chs', dls')"
      "length chs' = length chs" "store_shape dls1 dls'"
      "\<forall>j < length chs. if bit b (Suc i + j) then channel_disabled (chs ! j) (chs' ! j) else chs' ! j = chs ! j"
      "\<forall>ch \<in> set chs'. channel_inv dls' ch" by blast
  have "disable_loop b i (ch # chs) dls = Ok (ch1 # chs', dls')" using r(1) ih(1) by simp
  moreover have "\<forall>j < length (ch # chs). if bit b (i + j) then channel_disabled ((ch # chs) ! j) ((ch1 # chs') ! j)
      else (ch1 # chs') ! j = (ch # chs) ! j"
    using r(2) ih(4) by (auto simp: less_Suc_eq_0_disj)
  moreover have "channel_inv dls' ch1" using channel_inv_store_shape r(3) ih(3) by blast
  ultimately show ?case using ih(2,5) store_shape_trans [OF r(4) ih(3)] by (intro exI [of _ "ch1 # chs'"] exI [of _ dls']) simp
qed simp


section \<open>Initialisation\<close>

lemma map_channels_nth: "i < length chs \<Longrightarrow> map_channels f chs ! i = f (of_nat i) (chs ! i)"
  by (simp add: map_channels_def)

lemma length_map_channels [simp]: "length (map_channels f chs) = length chs"
  by (simp add: map_channels_def)

definition array_shape :: "hailo_vdma_channel \<Rightarrow> bool" where
  "array_shape ch \<longleftrightarrow> length (otl_transfers (ch_ongoing_transfers ch)) = 128 \<and> tsl_ok (ch_timestamp_list ch)"

lemma channel_base: "i < 32 \<Longrightarrow> CHANNEL_BASE_OFFSET (of_nat i) = of_nat (32 * i)"
proof -
  assume "i < 32"
  then have "unat (of_nat i :: u8) = i" by (intro unat_of_nat_small) simp
  then have "(ucast (of_nat i :: u8) :: u64) = of_nat i" by (metis of_nat_unat)
  then show ?thesis by (simp add: CHANNEL_BASE_OFFSET_def push_bit_eq_mult)
qed

text \<open>A freshly initialised engine satisfies the invariant, whatever the memory held before (the arrays have their declared
  lengths): nothing is enabled or interrupted, no channel has a transfer or a descriptors list, and the registers of channel
  \<open>i\<close> are the 32 bytes at \<open>base + 32 i\<close>, the source half being the host's exactly for the channels of the source bitmask.\<close>
theorem engine_init_invariant:
  assumes "length (en_channels en) = 32" and "\<forall>ch \<in> set (en_channels en). array_shape ch"
    and "en' = hailo_vdma_engine_init idx regs src en"
  shows "engine_inv dls en' \<and> en_enabled_channels en' = 0 \<and> en_interrupted_channels en' = 0 \<and>
    (\<forall>i < 32. let ch = en_channels en' ! i; base = res_address regs + of_nat (32 * i)
       in ch_index ch = of_nat i \<and> otl_contents (ch_ongoing_transfers ch) = [] \<and> ch_last_desc_list ch = None \<and>
          ch_host_regs ch = (if bit src i then base else base + 0x10) \<and>
          ch_device_regs ch = (if bit src i then base + 0x10 else base))"
proof -
  have "channel_inv dls ch" if "ch \<in> set (en_channels en')" for ch
    using that assms
    by (auto simp: hailo_vdma_engine_init_def map_channels_def channel_inv_def array_shape_def otl_ok_def otl_contents_def ring_list_def)
  then have "engine_inv dls en'"
    using assms(1) unfolding engine_inv_def by (simp add: hailo_vdma_engine_init_def assms(3))
  moreover have "en_enabled_channels en' = 0" "en_interrupted_channels en' = 0" by (simp_all add: hailo_vdma_engine_init_def assms(3))
  moreover have "\<forall>i < 32. let ch = en_channels en' ! i; base = res_address regs + of_nat (32 * i)
       in ch_index ch = of_nat i \<and> otl_contents (ch_ongoing_transfers ch) = [] \<and> ch_last_desc_list ch = None \<and>
          ch_host_regs ch = (if bit src i then base else base + 0x10) \<and>
          ch_device_regs ch = (if bit src i then base + 0x10 else base)"
    using assms(1)
    by (simp add: assms(3) hailo_vdma_engine_init_def map_channels_nth otl_contents_def ring_list_def Let_def get_channel_regs_def
        test_bit_index channel_base CHANNEL_DEST_REGS_OFFSET_def)
  ultimately show ?thesis by blast
qed

lemma enable_channels_inv: "engine_inv dls en \<Longrightarrow> engine_inv dls (hailo_vdma_engine_enable_channels b m en)"
proof -
  assume inv: "engine_inv dls en"
  have "channel_inv dls (ch\<lparr>ch_timestamp_measure_enabled := m, ch_timestamp_list := (ch_timestamp_list ch)\<lparr>tsl_head := 0, tsl_tail := 0\<rparr>\<rparr>)"
    if "channel_inv dls ch" for ch
    using that by (cases "ch_last_desc_list ch") (auto simp: channel_inv_def tsl_ok_def)
  with inv nth_mem [of _ "en_channels en"] show ?thesis
    unfolding engine_inv_def hailo_vdma_engine_enable_channels_def map_channels_def by auto
qed

section \<open>Timestamps\<close>

text \<open>Reading the timestamps of a channel delivers all of them, oldest first, with the processed count reduced to the
  descriptors list, stores their number, empties the channel's list and leaves every other channel alone. The response has room
  for every possible number of timestamps (255 at most), so the loop, which pops before it tests, never writes behind it.\<close>
theorem read_timestamps_exact:
  assumes inv: "engine_inv dls en" and ix: "unat (rt_channel_index params) < 32"
    and room: "length (rt_timestamps params) = CHANNEL_IRQ_TIMESTAMPS_SIZE"
    and ch: "ch = en_channels en ! unat (rt_channel_index params)"
  shows "\<exists>l ts. hailo_vdma_engine_read_timestamps en params =
      Ok (en\<lparr>en_channels := (en_channels en)[unat (rt_channel_index params) := ch\<lparr>ch_timestamp_list := l\<rparr>]\<rparr>,
          params\<lparr>rt_timestamps := ts, rt_timestamps_count := of_nat (length (tsl_contents (ch_timestamp_list ch)))\<rparr>) \<and>
    tsl_ok l \<and> tsl_contents l = [] \<and> length ts = CHANNEL_IRQ_TIMESTAMPS_SIZE \<and>
    take (length (tsl_contents (ch_timestamp_list ch))) ts =
      map (\<lambda>t. t\<lparr>ts_desc_num_processed := ucast (ucast (ts_desc_num_processed t) AND cs_desc_count_mask (ch_state ch))\<rparr>)
        (tsl_contents (ch_timestamp_list ch))"
proof -
  have len: "length (en_channels en) = 32" and cinv: "channel_inv dls ch"
    using inv ix ch nth_mem [of "unat (rt_channel_index params)" "en_channels en"] by (auto simp: engine_inv_def)
  have tsl: "tsl_ok (ch_timestamp_list ch)" using cinv by (simp add: channel_inv_def)
  have b: "length (tsl_contents (ch_timestamp_list ch)) \<le> length (rt_timestamps params)"
    using tsl_bound [OF tsl] room by (simp add: ring_consts)
  obtain l where l: "pop_timestamps (length (rt_timestamps params)) (cs_desc_count_mask (ch_state ch)) (ch_timestamp_list ch) =
      Ok (map (\<lambda>t. t\<lparr>ts_desc_num_processed := ucast (ucast (ts_desc_num_processed t) AND cs_desc_count_mask (ch_state ch))\<rparr>)
        (tsl_contents (ch_timestamp_list ch)), l)" "tsl_ok l" "tsl_contents l = []"
    using pop_timestamps_all [OF tsl b] by blast
  have ix': "\<not> MAX_VDMA_CHANNELS_PER_ENGINE \<le> unat (rt_channel_index params)"
    using ix by (simp add: MAX_VDMA_CHANNELS_PER_ENGINE_def)
  have get: "array_get (en_channels en) (unat (rt_channel_index params)) = Ok ch" using ix len ch by simp
  let ?ts = "map (\<lambda>t. t\<lparr>ts_desc_num_processed := ucast (ucast (ts_desc_num_processed t) AND cs_desc_count_mask (ch_state ch))\<rparr>)
      (tsl_contents (ch_timestamp_list ch))"
  show ?thesis
    unfolding hailo_vdma_engine_read_timestamps_def hailo_vdma_pop_timestamps_to_response_def get l(1) using ix' l(2,3) b room
    by (intro exI [of _ l] exI [of _ "?ts @ drop (length ?ts) (rt_timestamps params)"]) (simp add: l(1) [unfolded room])
qed

section \<open>Interrupt bits\<close>

text \<open>C33: The interrupt bits of an engine are delivered exactly once. A read returns exactly the requested channels that are
  enabled and have interrupted, clears these and no other bit, and a second read returns nothing; an interrupt set in between is
  returned by the next read. The wait condition \<open>got_interrupt\<close> holds exactly when the read would return something or a requested
  channel is disabled.\<close>
theorem read_interrupts_exactly_once:
  "case hailo_vdma_engine_read_interrupts req en of (irqs, en') \<Rightarrow>
     (\<forall>i. bit irqs i \<longleftrightarrow> bit req i \<and> bit (en_enabled_channels en) i \<and> bit (en_interrupted_channels en) i) \<and>
     (\<forall>i. bit (en_interrupted_channels en') i \<longleftrightarrow> bit (en_interrupted_channels en) i \<and> \<not> bit irqs i) \<and>
     en_channels en' = en_channels en \<and> en_enabled_channels en' = en_enabled_channels en \<and>
     fst (hailo_vdma_engine_read_interrupts req en') = 0 \<and>
     fst (hailo_vdma_engine_read_interrupts req (hailo_vdma_engine_set_channel_interrupts b en')) =
       (req AND en_enabled_channels en AND b) \<and>
     (hailo_vdma_engine_got_interrupt en req \<longleftrightarrow> (\<exists>i. bit irqs i) \<or> (\<exists>i. bit req i \<and> \<not> bit (en_enabled_channels en) i))"
proof -
  let ?irqs = "fst (hailo_vdma_engine_read_interrupts req en)"
  let ?en = "snd (hailo_vdma_engine_read_interrupts req en)"
  have z: "fst (hailo_vdma_engine_read_interrupts req ?en) = 0"
    by (rule bit_word_eqI) (auto simp: hailo_vdma_engine_read_interrupts_def bit_simps)
  have s: "fst (hailo_vdma_engine_read_interrupts req (hailo_vdma_engine_set_channel_interrupts b ?en)) =
       (req AND en_enabled_channels en AND b)"
    by (rule bit_word_eqI)
      (auto simp: hailo_vdma_engine_read_interrupts_def hailo_vdma_engine_set_channel_interrupts_def bit_simps)
  have dis: "req \<noteq> (req AND en_enabled_channels en) \<longleftrightarrow> (\<exists>i. bit req i \<and> \<not> bit (en_enabled_channels en) i)"
    unfolding word_neq_bit by (auto simp: bit_simps)
  have any: "(req AND en_interrupted_channels en \<noteq> 0) \<longleftrightarrow> (\<exists>i. bit req i \<and> bit (en_interrupted_channels en) i)"
    "(\<exists>i. bit ?irqs i) \<longleftrightarrow> (\<exists>i. bit req i \<and> bit (en_enabled_channels en) i \<and> bit (en_interrupted_channels en) i)"
    unfolding hailo_vdma_engine_read_interrupts_def word_neq_bit by (auto simp: bit_simps)
  have g: "hailo_vdma_engine_got_interrupt en req \<longleftrightarrow> (\<exists>i. bit ?irqs i) \<or> (\<exists>i. bit req i \<and> \<not> bit (en_enabled_channels en) i)"
    unfolding hailo_vdma_engine_got_interrupt_def Let_def dis any by blast
  have b: "\<forall>i. bit ?irqs i \<longleftrightarrow> bit req i \<and> bit (en_enabled_channels en) i \<and> bit (en_interrupted_channels en) i"
    "\<forall>i. bit (en_interrupted_channels ?en) i \<longleftrightarrow> bit (en_interrupted_channels en) i \<and> \<not> bit ?irqs i"
    "en_channels ?en = en_channels en" "en_enabled_channels ?en = en_enabled_channels en"
    by (auto simp: hailo_vdma_engine_read_interrupts_def bit_simps dest: bit_imp_le_length)
  show ?thesis unfolding split_beta using b z s g by blast
qed

section \<open>Collecting all interrupted channels\<close>

definition set_bits32 :: "u32 \<Rightarrow> nat list" where
  "set_bits32 b = filter (bit b) [0..<32]"

lemma takeWhile_filter: "filter P xs = y # ys \<Longrightarrow> \<exists>us vs. xs = us @ y # vs \<and> takeWhile (\<lambda>x. \<not> P x) xs = us \<and> P y \<and> filter P vs = ys \<and> (\<forall>u \<in> set us. \<not> P u)"
proof (induction xs)
  case (Cons x xs)
  show ?case
  proof (cases "P x")
    case True with Cons.prems show ?thesis by (intro exI [of _ "[]"] exI [of _ xs]) simp
  next
    case False
    then obtain us vs where "xs = us @ y # vs" "takeWhile (\<lambda>x. \<not> P x) xs = us" "P y" "filter P vs = ys" "\<forall>u \<in> set us. \<not> P u"
      using Cons by auto
    with False show ?thesis by (intro exI [of _ "x # us"] exI [of _ vs]) simp
  qed
qed simp

lemma ctz32_step:
  assumes "set_bits32 b = i # is"
  shows "ctz32 b = i" "i < 32" "set_bits32 (b AND NOT (SHL1 (of_nat i))) = is" "i \<notin> set is"
proof -
  obtain us vs where s: "[0..<32] = us @ i # vs" "takeWhile (\<lambda>x. \<not> bit b x) [0..<32] = us" "bit b i" "filter (bit b) vs = is"
      "\<forall>u \<in> set us. \<not> bit b u"
    using takeWhile_filter [OF assms [unfolded set_bits32_def]] by blast
  have l: "length us < 32" using arg_cong [OF s(1), of length] by simp
  have "[0..<32] ! length us = i" unfolding s(1) by simp
  with l show i: "ctz32 b = i" "i < 32" by (simp_all add: ctz32_def s(2))
  have "unat (of_nat i :: u8) = i" using i(2) by (intro unat_of_nat_small) simp
  then have b: "bit (b AND NOT (SHL1 (of_nat i))) j \<longleftrightarrow> bit b j \<and> j \<noteq> i" if "j < 32" for j
    using that i(2) by (auto simp: SHL1_def bit_simps push_bit_eq_mult)
  have "distinct ([0..<32])" by simp
  then have d: "i \<notin> set us" "i \<notin> set vs" unfolding s(1) by simp_all
  show "i \<notin> set is" using d(2) unfolding s(4) [symmetric] by simp
  have m: "set us \<subseteq> {0..<32}" "set vs \<subseteq> {0..<32}" using arg_cong [OF s(1), of set] by auto
  have u: "filter (bit (b AND NOT (SHL1 (of_nat i)))) us = []" using b m(1) s(5) by (auto simp: filter_empty_conv)
  have v: "filter (bit (b AND NOT (SHL1 (of_nat i)))) vs = filter (bit b) vs" using b m(2) d(2) by (intro filter_cong) auto
  show "set_bits32 (b AND NOT (SHL1 (of_nat i))) = is" unfolding set_bits32_def s(1) using u v b i(2) s(4) by simp
qed

lemma set_bits32_empty: "set_bits32 b = [] \<longleftrightarrow> b = 0"
  by (auto simp: set_bits32_def filter_empty_conv intro: bit_word_eqI)

definition active_bits :: "hailo_vdma_engine \<Rightarrow> nat list \<Rightarrow> nat list" where
  "active_bits en is = filter (\<lambda>i. ch_last_desc_list (en_channels en ! i) \<noteq> None) is"

definition reported :: "hailo_vdma_interrupts_wait_params \<Rightarrow> u8 list" where
  "reported irq = map irq_channel_index (take (unat (wp_channels_count irq)) (wp_irq_data irq))"

lemma engine_inv_update:
  assumes "engine_inv dls en" and "channel_inv dls' ch" and "store_shape dls dls'"
  shows "engine_inv dls' (en\<lparr>en_channels := (en_channels en)[i := ch]\<rparr>)"
  using assms channel_inv_store_shape unfolding engine_inv_def by (auto dest!: set_list_update_subset)

lemma fill_irq_loop_correct:
  assumes "engine_inv dls en" and "set_bits32 b = is" and "length is \<le> fuel"
    and "unat (wp_channels_count irq) + length is \<le> length (wp_irq_data irq)" and "length (wp_irq_data irq) < 256"
  shows "\<exists>irq' en' dls' s' d'. fill_irq_loop fuel io td b irq en dls s d = (Ok (irq', en', dls', s'), d') \<and> engine_inv dls' en' \<and>
    store_shape dls dls' \<and> reported irq' = reported irq @ map (\<lambda>i. ch_index (en_channels en ! i)) (active_bits en is) \<and>
    (\<forall>i < 32. i \<notin> set is \<longrightarrow> en_channels en' ! i = en_channels en ! i)"
  using assms
proof (induction fuel arbitrary: b irq en dls s d "is")
  case 0
  then show ?case by (simp add: active_bits_def)
next
  case (Suc fuel)
  show ?case
  proof (cases "is")
    case Nil
    with Suc.prems(2) have "b = 0" using set_bits32_empty by simp
    with Nil Suc.prems(1) show ?thesis by (simp add: active_bits_def)
  next
    case (Cons i js)
    note st = ctz32_step [OF Suc.prems(2) [unfolded Cons]]
    have b: "b \<noteq> 0" using Suc.prems(2) Cons set_bits32_empty [of b] by auto
    have len: "length (en_channels en) = 32" and inv: "channel_inv dls (en_channels en ! i)"
      using Suc.prems(1) st(2) by (auto simp: engine_inv_def)
    let ?ch = "en_channels en ! i"
    have get: "array_get (en_channels en) i = Ok ?ch" using st(2) len by simp
    show ?thesis
    proof (cases "ch_last_desc_list ?ch")
      case None
      have "fill_irq_loop (Suc fuel) io td b irq en dls s d = fill_irq_loop fuel io td (b AND NOT (SHL1 (of_nat i))) irq en dls s d"
        using b st(1) get None by (simp add: Let_def)
      with Suc.IH [OF Suc.prems(1) st(3), of irq s d] Suc.prems(3-5) Cons None show ?thesis
        by (fastforce simp: active_bits_def)
    next
      case (Some p)
      obtain e ch' dls1 s1 d1 where f: "fill_channel_irq_data io (en_index en) ?ch td dls s d = (Ok (e, ch', dls1, s1), d1)"
          "channel_inv dls1 ch'" "store_shape dls dls1" "irq_channel_index e = ch_index ?ch" "ch_index ch' = ch_index ?ch"
          "ch_last_desc_list ch' = ch_last_desc_list ?ch"
        using fill_channel_irq_data_safe [OF inv Some, of io "en_index en" td s d] by blast
      let ?irq = "irq\<lparr>wp_irq_data := (wp_irq_data irq)[unat (wp_channels_count irq) := e], wp_channels_count := wp_channels_count irq + 1\<rparr>"
      let ?en = "en\<lparr>en_channels := (en_channels en)[i := ch']\<rparr>"
      have c: "unat (wp_channels_count irq) < length (wp_irq_data irq)" using Suc.prems(4) Cons by simp
      then have c1: "unat (wp_channels_count irq + 1) = unat (wp_channels_count irq) + 1"
        using Suc.prems(5) by (intro unat_Suc_small) simp
      have step: "fill_irq_loop (Suc fuel) io td b irq en dls s d =
          fill_irq_loop fuel io td (b AND NOT (SHL1 (of_nat i))) ?irq ?en dls1 s1 d1"
        using b st(1) get Some f(1) c by (simp add: Let_def)
      have rep: "reported ?irq = reported irq @ [ch_index ?ch]"
        using c c1 f(4) by (simp add: reported_def take_Suc_conv_app_nth)
      have inv1: "engine_inv dls1 ?en" using Suc.prems(1) f(2,3) by (rule engine_inv_update)
      have pre: "length js \<le> fuel" "unat (wp_channels_count ?irq) + length js \<le> length (wp_irq_data ?irq)"
          "length (wp_irq_data ?irq) < 256" using Suc.prems(3-5) Cons c1 by simp_all
      from Suc.IH [OF inv1 st(3) pre, of s1 d1]
      obtain irq' en' dls' s' d' where ih:
        "fill_irq_loop fuel io td (b AND NOT (SHL1 (of_nat i))) ?irq ?en dls1 s1 d1 = (Ok (irq', en', dls', s'), d')"
        "engine_inv dls' en'" "store_shape dls1 dls'"
        "reported irq' = reported ?irq @ map (\<lambda>i. ch_index (en_channels ?en ! i)) (active_bits ?en js)"
        "\<forall>i < 32. i \<notin> set js \<longrightarrow> en_channels en' ! i = en_channels ?en ! i" by blast
      have n: "en_channels ?en ! j = en_channels en ! j" if "j \<in> set js" for j using that st(4) by (cases "i = j") auto
      then have "active_bits ?en js = active_bits en js" unfolding active_bits_def by (intro filter_cong) auto
      moreover have "map (\<lambda>i. ch_index (en_channels ?en ! i)) (active_bits en js) = map (\<lambda>i. ch_index (en_channels en ! i)) (active_bits en js)"
        using n by (intro map_cong) (auto simp: active_bits_def)
      ultimately have "reported irq' = reported irq @ map (\<lambda>i. ch_index (en_channels en ! i)) (active_bits en is)"
        unfolding ih(4) rep Cons using Some by (simp add: active_bits_def)
      moreover have "\<forall>j < 32. j \<notin> set is \<longrightarrow> en_channels en' ! j = en_channels en ! j"
        using ih(5) unfolding Cons by simp
      ultimately show ?thesis
        using step ih(1,2) store_shape_trans [OF f(3) ih(3)] by auto
    qed
  qed
qed

text \<open>\<open>hailo_vdma_engine_fill_irq_data\<close> goes through the bits of the bitmap from the lowest to the highest and reports exactly
  the channels that have a descriptors list, one entry each, behind the entries the response already has. It never faults,
  whatever the hardware registers and the callback do, keeps the engine's invariant and touches no other channel; 32
  iterations are enough for every bitmap.\<close>
theorem fill_irq_data_reports_channels:
  assumes "engine_inv dls en"
    and "unat (wp_channels_count irq) + length (set_bits32 b) \<le> length (wp_irq_data irq)" and "length (wp_irq_data irq) < 256"
  shows "\<exists>irq' en' dls' s' d'. hailo_vdma_engine_fill_irq_data io irq en b td dls s d = (Ok (irq', en', dls', s'), d') \<and>
    engine_inv dls' en' \<and>
    reported irq' = reported irq @ map (\<lambda>i. ch_index (en_channels en ! i)) (active_bits en (set_bits32 b)) \<and>
    (\<forall>i < 32. \<not> bit b i \<longrightarrow> en_channels en' ! i = en_channels en ! i)"
proof -
  have "length (set_bits32 b) \<le> 32" unfolding set_bits32_def using length_filter_le [of "bit b" "[0..<32]"] by simp
  moreover have "i \<notin> set (set_bits32 b)" if "\<not> bit b i" for i using that by (simp add: set_bits32_def)
  ultimately show ?thesis
    unfolding hailo_vdma_engine_fill_irq_data_def
    using fill_irq_loop_correct [OF assms(1) refl _ assms(2,3), of 32 io td s d] by blast
qed

section \<open>Witnesses\<close>

text \<open>A channel with two queued transfers of the circular sample list of 8 descriptors: descriptors 5, 6 and 7, and descriptors
  0 and 1. The hardware has processed four of them. The device answers with the pair of the low and the high half of the registers.\<close>

definition pair_mmio :: "(u32 \<times> u32) mmio" where
  "pair_mmio = \<lparr> ioread32 = (\<lambda>a v. (if bit a 2 then snd v else fst v, v)), iowrite32 = (\<lambda>w a v. v) \<rparr>"

definition queued_transfer :: "u16 \<Rightarrow> u16 \<Rightarrow> hailo_ongoing_transfer" where
  "queued_transfer a b = zero_transfer\<lparr>ot_last_desc := b, ot_buffers_count := 1, ot_dirty_descs_count := 2,
     ot_dirty_descs := [a, b, 0, 0, 0, 0, 0, 0, 0]\<rparr>"

definition busy_ring :: hailo_ongoing_transfers_list where
  "busy_ring = \<lparr> otl_head = 1, otl_tail = 127,
     otl_transfers = (replicate 128 sample_transfer)[127 := queued_transfer 5 7, 0 := queued_transfer 0 1] \<rparr>"

definition busy_channel :: hailo_vdma_channel where
  "busy_channel = sample_channel\<lparr>ch_last_desc_list := Some 7, ch_ongoing_transfers := busy_ring,
     ch_state := \<lparr>cs_num_avail = 2, cs_num_proc = 5, cs_desc_count_mask = 7\<rparr>\<rparr>"

lemma busy_ring_facts: "otl_ok busy_ring" "otl_contents busy_ring = [queued_transfer 5 7, queued_transfer 0 1]"
  by (simp_all add: otl_ok_def otl_contents_def busy_ring_def ring_list_def upt_rec)

lemma queued_transfer_wf: "unat a < 8 \<Longrightarrow> unat b < 8 \<Longrightarrow> ot_wf 8 (queued_transfer a b)"
  by (simp add: ot_wf_def queued_transfer_def)

lemma busy_channel_facts:
  "channel_inv sample_store busy_channel" "ch_last_desc_list busy_channel = Some 7"
  "otl_contents (ch_ongoing_transfers busy_channel) = [queued_transfer 5 7, queued_transfer 0 1]"
  "cs_desc_count_mask (ch_state busy_channel) = 7" "cs_num_proc (ch_state busy_channel) = 5" "cs_num_avail (ch_state busy_channel) = 2"
  using queued_transfer_wf
  by (simp_all add: busy_channel_def channel_inv_def busy_ring_facts sample_channel_def tsl_ok_def sample_timestamps_def
      sample_store_def wf_sample_list sample_list_simps)

theorem fill_channel_irq_data_exact_witness:
  "\<exists>irq ch' dls'. fill_channel_irq_data pair_mmio 0 busy_channel (\<lambda>t n. n + 1) sample_store (0 :: nat) (0x00020001, 0x00000001) =
      (Ok (irq, ch', dls', 1), (0x00020001, 0x00000001)) \<and>
    irq_data_val irq = 1 \<and> otl_contents (ch_ongoing_transfers ch') = [queued_transfer 0 1] \<and> cs_num_proc (ch_state ch') = 0"
proof -
  have r: "ioread64_safe pair_mmio (ch_host_regs busy_channel) (0x00020001, 0x00000001) = (0x0000000100020001, (0x00020001, 0x00000001))"
    by (simp add: ioread64_safe_def pair_mmio_def busy_channel_def sample_channel_def)
  have lay: "laid_out (2 ^ 3) (unat (cs_num_proc (ch_state busy_channel))) [3, 2] [queued_transfer 5 7, queued_transfer 0 1]"
    by (simp add: busy_channel_facts queued_transfer_def)
  have m: "unat (cs_desc_count_mask (ch_state busy_channel)) = 2 ^ 3 - 1" "(2::nat) ^ 3 \<le> 65536"
      "unat (cs_num_proc (ch_state busy_channel)) < 2 ^ 3" "sum_list [3, 2] < (2::nat) ^ 3" "4 \<le> sum_list [3, 2 :: nat]"
      "unat (ucast (READ_BITS_AT_OFFSET 16 32 (0x0000000100020001 :: u64) AND ucast (cs_desc_count_mask (ch_state busy_channel))) :: u16) =
        (unat (cs_num_proc (ch_state busy_channel)) + 4) mod 2 ^ 3"
      "unat (cs_num_avail (ch_state busy_channel)) = (unat (cs_num_proc (ch_state busy_channel)) + sum_list [3, 2]) mod 2 ^ 3"
      "\<forall>t \<in> set [queued_transfer 5 7, queued_transfer 0 1]. \<not> ot_is_debug t" "1 = done_count 4 [3, 2]"
    by (simp_all add: busy_channel_facts READ_BITS_AT_OFFSET_def queued_transfer_def zero_transfer_def)
  have a: "channel_control_reg_is_active (ucast (READ_BITS_AT_OFFSET 8 0 (0x0000000100020001 :: u64)))"
    by (simp add: channel_control_reg_is_active_def READ_BITS_AT_OFFSET_def VDMA_CHANNEL_CONTROL_START_ABORT_BITMASK_def
        VDMA_CHANNEL_CONTROL_START_def)
  from fill_channel_irq_data_exact [OF busy_channel_facts(1-3) lay m(1-5) r m(6-9), where e = 0 and td = "\<lambda>t n. n + 1" and s = "0 :: nat"] a
  obtain irq ch' dls' where f: "fill_channel_irq_data pair_mmio 0 busy_channel (\<lambda>t n. n + 1) sample_store (0 :: nat) (0x00020001, 0x00000001) =
      (Ok (irq, ch', dls', 1), (0x00020001, 0x00000001))" "unat (irq_data_val irq) = 1"
      "otl_contents (ch_ongoing_transfers ch') = [queued_transfer 0 1]"
      "unat (cs_num_proc (ch_state ch')) = (5 + 3) mod 8"
    by (auto simp: busy_channel_facts)
  have "irq_data_val irq = 1" using f(2) by (intro word_unat_eq_iff [THEN iffD2]) simp
  moreover have "cs_num_proc (ch_state ch') = 0" using f(4) by (intro word_unat_eq_iff [THEN iffD2]) simp
  ultimately show ?thesis using f(1,3) by blast
qed

definition busy_engine :: hailo_vdma_engine where
  "busy_engine = \<lparr> en_index = 0, en_enabled_channels = 0x18, en_interrupted_channels = 0x8,
     en_channels = (replicate 32 sample_channel)[3 := busy_channel] \<rparr>"

lemma busy_engine_inv: "engine_inv sample_store busy_engine"
  using sample_channel_inv busy_channel_facts(1)
  by (auto simp: engine_inv_def busy_engine_def dest!: set_list_update_subset)


theorem engine_init_invariant_witness:
  "engine_inv (\<lambda>_. None) (hailo_vdma_engine_init 1 \<lparr> res_address = 0x4000, res_size = 0x400 \<rparr> 0xFFFF busy_engine)"
proof -
  have "length (en_channels busy_engine) = 32" "\<forall>ch \<in> set (en_channels busy_engine). array_shape ch"
    using busy_engine_inv by (auto simp: engine_inv_def channel_inv_def array_shape_def otl_ok_def)
  from engine_init_invariant [OF this refl] show ?thesis by blast
qed

theorem read_timestamps_exact_witness:
  "\<exists>en' ts. hailo_vdma_engine_read_timestamps busy_engine \<lparr> rt_engine_index = 0, rt_channel_index = 3, rt_timestamps_count = 9,
      rt_timestamps = tsl_timestamps sample_timestamps \<rparr> =
    Ok (en', \<lparr> rt_engine_index = 0, rt_channel_index = 3, rt_timestamps_count = 0, rt_timestamps = ts \<rparr>)"
proof -
  let ?p = "\<lparr> rt_engine_index = 0, rt_channel_index = 3, rt_timestamps_count = 9, rt_timestamps = tsl_timestamps sample_timestamps \<rparr>"
  have h: "unat (rt_channel_index ?p) < 32" "length (rt_timestamps ?p) = CHANNEL_IRQ_TIMESTAMPS_SIZE"
    by (simp_all add: sample_timestamps_def ring_consts)
  have c: "tsl_contents (ch_timestamp_list (en_channels busy_engine ! unat (rt_channel_index ?p))) = []"
    by (simp add: busy_engine_def busy_channel_def sample_channel_def sample_timestamps_def tsl_contents_def ring_list_def)
  from read_timestamps_exact [OF busy_engine_inv h refl] show ?thesis unfolding c by auto
qed

theorem fill_irq_data_reports_channels_witness:
  "\<exists>irq' en' dls' s' d'. hailo_vdma_engine_fill_irq_data pair_mmio \<lparr> wp_channels_bitmap_per_engine = [0x18], wp_channels_count = 0,
      wp_irq_data = replicate 96 \<lparr> irq_engine_index = 0, irq_channel_index = 0, irq_data_val = 0 \<rparr> \<rparr> busy_engine 0x18
      (\<lambda>t n. n + 1) sample_store (0 :: nat) (0x00020001, 0x00000001) = (Ok (irq', en', dls', s'), d') \<and> reported irq' = [3]"
proof -
  let ?irq = "\<lparr> wp_channels_bitmap_per_engine = [0x18], wp_channels_count = 0,
      wp_irq_data = replicate 96 \<lparr> irq_engine_index = 0, irq_channel_index = 0, irq_data_val = 0 \<rparr> \<rparr>"
  have b: "set_bits32 0x18 = [3, 4]" by (simp add: set_bits32_def upt_rec bit_numeral_rec numeral_eq_Suc)
  have h: "unat (wp_channels_count ?irq) + length (set_bits32 0x18) \<le> length (wp_irq_data ?irq)" "length (wp_irq_data ?irq) < 256"
    by (simp_all add: b)
  have "map (\<lambda>i. ch_index (en_channels busy_engine ! i)) (active_bits busy_engine [3, 4]) = [3]"
    by (simp add: active_bits_def busy_engine_def busy_channel_def sample_channel_def)
  with fill_irq_data_reports_channels [OF busy_engine_inv h, of pair_mmio "\<lambda>t n. n + 1" "0 :: nat" "(0x00020001, 0x00000001)"]
  show ?thesis unfolding b by (auto simp: reported_def)
qed

end
