(* ===== verification/Vdma_Registers.thy ===== *)
theory Vdma_Registers
  imports Vdma_Channel
begin

text \<open>
  Starting and stopping a channel through its registers (\<open>src/common/vdma_common.c\<close>): the control byte, the address and depth
  of the descriptors list, and the bounded wait until the channel is idle.
\<close>

definition VDMA_CHANNEL_CONTROL_ABORT :: u32 where "VDMA_CHANNEL_CONTROL_ABORT = 0"
definition VDMA_CHANNEL_CONTROL_ABORT_PAUSE :: u8 where "VDMA_CHANNEL_CONTROL_ABORT_PAUSE = 2"
definition VDMA_CHANNEL_CONTROL_START_RESUME :: u32 where "VDMA_CHANNEL_CONTROL_START_RESUME = 1"
definition VDMA_CHANNEL_CONTROL_START_PAUSE :: u32 where "VDMA_CHANNEL_CONTROL_START_PAUSE = 3"
definition VDMA_CHANNEL_CONTROL_START_ABORT_PAUSE_RESUME_BITMASK :: u8 where
  "VDMA_CHANNEL_CONTROL_START_ABORT_PAUSE_RESUME_BITMASK = 3"
definition VDMA_CHANNEL_DESC_DEPTH_WIDTH :: nat where "VDMA_CHANNEL_DESC_DEPTH_WIDTH = 4"
definition VDMA_CHANNEL_DESC_DEPTH_SHIFT :: nat where "VDMA_CHANNEL_DESC_DEPTH_SHIFT = 11"
definition VDMA_CHANNEL_DATA_ID_SHIFT :: nat where "VDMA_CHANNEL_DATA_ID_SHIFT = 8"
definition VDMA_CHANNEL__MAX_CHECKS_CHANNEL_IS_IDLE :: nat where "VDMA_CHANNEL__MAX_CHECKS_CHANNEL_IS_IDLE = 10000"
definition VDMA_CHANNEL__ADDRESS_L_OFFSET :: nat where "VDMA_CHANNEL__ADDRESS_L_OFFSET = 0x0A"
definition VDMA_CHANNEL__ALIGNED_ADDRESS_L_OFFSET :: nat where "VDMA_CHANNEL__ALIGNED_ADDRESS_L_OFFSET = 0x8"
definition VDMA_CHANNEL__ADDRESS_H_OFFSET :: nat where "VDMA_CHANNEL__ADDRESS_H_OFFSET = 0x0C"
definition DESCRIPTOR_LIST_MAX_DEPTH :: nat where "DESCRIPTOR_LIST_MAX_DEPTH = 16"
definition VDMA_CHANNEL_NUM_PROCESSED_WIDTH :: nat where "VDMA_CHANNEL_NUM_PROCESSED_WIDTH = 16"
definition VDMA_CHANNEL_NUM_PROCESSED_MASK :: u32 where "VDMA_CHANNEL_NUM_PROCESSED_MASK = 0xFFFF"
definition VDMA_CHANNEL_NUM_ONGOING_MASK :: u32 where "VDMA_CHANNEL_NUM_ONGOING_MASK = VDMA_CHANNEL_NUM_PROCESSED_MASK"

lemmas channel_reg_consts = VDMA_CHANNEL_CONTROL_ABORT_def VDMA_CHANNEL_CONTROL_ABORT_PAUSE_def
  VDMA_CHANNEL_CONTROL_START_RESUME_def VDMA_CHANNEL_CONTROL_START_PAUSE_def
  VDMA_CHANNEL_CONTROL_START_ABORT_PAUSE_RESUME_BITMASK_def VDMA_CHANNEL_DESC_DEPTH_WIDTH_def VDMA_CHANNEL_DESC_DEPTH_SHIFT_def
  VDMA_CHANNEL_DATA_ID_SHIFT_def VDMA_CHANNEL__ADDRESS_L_OFFSET_def VDMA_CHANNEL__ALIGNED_ADDRESS_L_OFFSET_def
  VDMA_CHANNEL__ADDRESS_H_OFFSET_def DESCRIPTOR_LIST_MAX_DEPTH_def VDMA_CHANNEL_NUM_PROCESSED_WIDTH_def
  VDMA_CHANNEL_NUM_PROCESSED_MASK_def VDMA_CHANNEL_NUM_ONGOING_MASK_def

definition write_control :: "'d mmio \<Rightarrow> u32 \<Rightarrow> u64 \<Rightarrow> 'd \<Rightarrow> 'd" where
  "write_control io v host_regs d =
     (let (host_regs_value, d') = ioread32 io host_regs d
      in iowrite32 io (WRITE_BITS_AT_OFFSET (BYTE_SIZE * BITS_IN_BYTE) (CHANNEL_CONTROL_OFFSET * BITS_IN_BYTE) host_regs_value v)
           host_regs d')"

definition start_vdma_control_register :: "'d mmio \<Rightarrow> u64 \<Rightarrow> 'd \<Rightarrow> 'd" where
  "start_vdma_control_register io host_regs d = write_control io VDMA_CHANNEL_CONTROL_START_RESUME host_regs d"

definition hailo_vdma_channel_pause :: "'d mmio \<Rightarrow> u64 \<Rightarrow> 'd \<Rightarrow> 'd" where
  "hailo_vdma_channel_pause io host_regs d = write_control io VDMA_CHANNEL_CONTROL_START_PAUSE host_regs d"

definition hailo_vdma_channel_abort :: "'d mmio \<Rightarrow> u64 \<Rightarrow> 'd \<Rightarrow> 'd" where
  "hailo_vdma_channel_abort io host_regs d = write_control io VDMA_CHANNEL_CONTROL_ABORT host_regs d"

definition hailo_vdma_channel_is_idle :: "'d mmio \<Rightarrow> u64 \<Rightarrow> u64 \<Rightarrow> 'd \<Rightarrow> bool \<times> 'd" where
  "hailo_vdma_channel_is_idle io host_regs host_side_max_desc_count d =
     (let (v, d') = ioread32 io (host_regs + of_nat CHANNEL_NUM_PROC_OFFSET) d;
          host_side_num_processed = ucast (v AND VDMA_CHANNEL_NUM_PROCESSED_MASK) :: u16;
          host_side_num_ongoing = ucast (drop_bit VDMA_CHANNEL_NUM_PROCESSED_WIDTH v AND VDMA_CHANNEL_NUM_ONGOING_MASK) :: u16
      in (ucast host_side_num_processed mod host_side_max_desc_count = ucast host_side_num_ongoing mod host_side_max_desc_count, d'))"

text \<open>At most \<open>n\<close> checks.\<close>

fun poll_idle :: "nat \<Rightarrow> 'd mmio \<Rightarrow> u64 \<Rightarrow> u64 \<Rightarrow> 'd \<Rightarrow> unit result \<times> 'd" where
  "poll_idle 0 io host_regs host_side_max_desc_count d = (Err ETIMEDOUT, d)"
| "poll_idle (Suc n) io host_regs host_side_max_desc_count d =
     (let (is_idle, d') = hailo_vdma_channel_is_idle io host_regs host_side_max_desc_count d
      in if is_idle then (Ok (), d') else poll_idle n io host_regs host_side_max_desc_count d')"

definition hailo_vdma_wait_until_channel_idle :: "'d mmio \<Rightarrow> u64 \<Rightarrow> 'd \<Rightarrow> unit result \<times> 'd" where
  "hailo_vdma_wait_until_channel_idle io host_regs d =
     (let (v, d') = ioread32 io host_regs d;
          depth = READ_BITS_AT_OFFSET VDMA_CHANNEL_DESC_DEPTH_WIDTH VDMA_CHANNEL_DESC_DEPTH_SHIFT v;
          host_side_max_desc_count = push_bit (unat depth) 1
      in poll_idle VDMA_CHANNEL__MAX_CHECKS_CHANNEL_IS_IDLE io host_regs host_side_max_desc_count d')"

definition hailo_vdma_stop_channel :: "'d mmio \<Rightarrow> u64 \<Rightarrow> 'd \<Rightarrow> 'd" where
  "hailo_vdma_stop_channel io regs d =
     (let (v, d1) = ioread32 io regs d;
          host_side_channel_regs = ucast (READ_BITS_AT_OFFSET (BYTE_SIZE * BITS_IN_BYTE) (CHANNEL_CONTROL_OFFSET * BITS_IN_BYTE) v) :: u8
      in if (host_side_channel_regs AND VDMA_CHANNEL_CONTROL_START_ABORT_PAUSE_RESUME_BITMASK) = VDMA_CHANNEL_CONTROL_ABORT_PAUSE then d1
         else let d2 = hailo_vdma_channel_pause io regs d1;
                  (_, d3) = hailo_vdma_wait_until_channel_idle io regs d2
              in hailo_vdma_channel_abort io regs d3)"

text \<open>\<open>ilog2\<close> and \<open>order_base_2\<close> are the documented macros of the kernel's \<open>log2.h\<close>.\<close>

fun ilog2 :: "nat \<Rightarrow> nat" where
  "ilog2 n = (if n < 2 then 0 else Suc (ilog2 (n div 2)))"

definition order_base_2 :: "u32 \<Rightarrow> nat" where
  "order_base_2 n = (if unat n \<le> 1 then 0 else ilog2 (unat n - 1) + 1)"

definition hailo_vdma_start_channel :: "'d mmio \<Rightarrow> u64 \<Rightarrow> u64 \<Rightarrow> u32 \<Rightarrow> u8 \<Rightarrow> 'd \<Rightarrow> 'd" where
  "hailo_vdma_start_channel io regs desc_dma_address desc_count data_id d =
     (let desc_depth = order_base_2 desc_count
      in if (desc_dma_address AND 0xFFFF) \<noteq> 0 \<or> DESCRIPTOR_LIST_MAX_DEPTH < desc_depth then d
         else
          let desc_depth' = (if desc_depth = DESCRIPTOR_LIST_MAX_DEPTH then 0 else desc_depth);
              d1 = hailo_vdma_stop_channel io regs d;
              dma_address_l = ucast (drop_bit 16 desc_dma_address AND 0xFFFF) :: u16;
              (v, d2) = ioread32 io (regs + of_nat VDMA_CHANNEL__ALIGNED_ADDRESS_L_OFFSET) d1;
              d3 = iowrite32 io (WRITE_BITS_AT_OFFSET (WORD_SIZE * BITS_IN_BYTE)
                     ((VDMA_CHANNEL__ADDRESS_L_OFFSET - VDMA_CHANNEL__ALIGNED_ADDRESS_L_OFFSET) * BITS_IN_BYTE) v (ucast dma_address_l))
                     (regs + of_nat VDMA_CHANNEL__ALIGNED_ADDRESS_L_OFFSET) d2;
              dma_address_h = ucast (drop_bit 32 desc_dma_address) :: u32;
              d4 = iowrite32 io dma_address_h (regs + of_nat VDMA_CHANNEL__ADDRESS_H_OFFSET) d3;
              desc_depth_data_id = push_bit VDMA_CHANNEL_DESC_DEPTH_SHIFT (of_nat desc_depth') OR
                                   push_bit VDMA_CHANNEL_DATA_ID_SHIFT (ucast data_id) :: u32;
              d5 = iowrite32 io desc_depth_data_id regs d4
          in start_vdma_control_register io regs d5)"

section \<open>The bounded wait\<close>

text \<open>The device after \<open>i\<close> polls of the counters.\<close>

fun polled :: "'d mmio \<Rightarrow> u64 \<Rightarrow> nat \<Rightarrow> 'd \<Rightarrow> 'd" where
  "polled io regs 0 d = d"
| "polled io regs (Suc i) d = polled io regs i (snd (ioread32 io (regs + of_nat CHANNEL_NUM_PROC_OFFSET) d))"

lemma snd_is_idle: "snd (hailo_vdma_channel_is_idle io regs n d) = snd (ioread32 io (regs + of_nat CHANNEL_NUM_PROC_OFFSET) d)"
  by (simp add: hailo_vdma_channel_is_idle_def split: prod.split)

lemma poll_idle_spec:
  "fst (poll_idle n io regs m d) = (if \<exists>i < n. fst (hailo_vdma_channel_is_idle io regs m (polled io regs i d)) then Ok () else Err ETIMEDOUT)"
proof (induction n arbitrary: d)
  case (Suc n)
  obtain b d1 where r: "hailo_vdma_channel_is_idle io regs m d = (b, d1)" by fastforce
  have d1: "d1 = snd (ioread32 io (regs + of_nat CHANNEL_NUM_PROC_OFFSET) d)" using snd_is_idle [of io regs m d] r by simp
  have ex: "(\<exists>i < Suc n. P i) \<longleftrightarrow> P 0 \<or> (\<exists>i < n. P (Suc i))" for P by (simp add: Ex_less_Suc2)
  show ?case unfolding ex using r Suc.IH [of d1] by (simp add: d1)
qed simp

lemma ffff_mask: "v AND 0xFFFF = take_bit 16 v" for v :: u32
  by (simp add: take_bit_eq_mask mask_eq_exp_minus_1)

lemma unat_take_bit: "unat (take_bit n v) = unat v mod 2 ^ n" for v :: "'a::len word"
  unfolding unsigned_take_bit_eq by (rule take_bit_eq_mod)

lemma unat_drop_16: "unat (drop_bit 16 (v :: u32)) < 65536"
  using unat_less_u32 [of v] by (simp only: unat_drop_bit) (simp add: less_mult_imp_div_less)

lemma unat_take_16: "unat (take_bit 16 (v :: u32)) < 65536"
  by (simp only: unat_take_bit) simp

lemma take_drop_16: "take_bit 16 (drop_bit 16 v) = drop_bit 16 v" for v :: u32
  by (rule bit_word_eqI) (auto simp: bit_simps dest: bit_imp_le_length)

lemma is_idle_iff:
  assumes "k < 64"
  shows "fst (hailo_vdma_channel_is_idle io regs (push_bit k 1) d) \<longleftrightarrow>
    (case ioread32 io (regs + 4) d of (w, _) \<Rightarrow> unat (take_bit 16 w) mod 2 ^ k = unat (drop_bit 16 w) mod 2 ^ k)"
proof -
  have m: "unat (push_bit k (1 :: u64)) = 2 ^ k" using assms by (simp add: push_bit_eq_mult unat_pow2)
  show ?thesis
    unfolding hailo_vdma_channel_is_idle_def channel_reg_consts CHANNEL_NUM_PROC_OFFSET_def ffff_mask take_drop_16
    using unat_drop_16 unat_take_16
    by (simp add: word_unat_eq_iff unat_mod m unat_ucast_mod del: push_bit_of_1 split: prod.split)
qed


text \<open>Stopping a channel does not wait for lists of \<open>2^16\<close> descriptors. Their depth 16 is encoded as 0 in the channel's register,
  but the wait takes the field as the exponent: with depth field 0 both counters are compared modulo 1, so the first read
  already counts as idle, however many descriptors are still ongoing.\<close>
theorem wait_until_idle_depth_16:
  assumes "ioread32 io regs d = (v, d1)" and "READ_BITS_AT_OFFSET VDMA_CHANNEL_DESC_DEPTH_WIDTH VDMA_CHANNEL_DESC_DEPTH_SHIFT v = 0"
  shows "hailo_vdma_wait_until_channel_idle io regs d = (Ok (), snd (ioread32 io (regs + of_nat CHANNEL_NUM_PROC_OFFSET) d1))"
proof -
  have m: "VDMA_CHANNEL__MAX_CHECKS_CHANNEL_IS_IDLE = Suc 9999" by (simp add: VDMA_CHANNEL__MAX_CHECKS_CHANNEL_IS_IDLE_def)
  have "fst (hailo_vdma_channel_is_idle io regs 1 d1)" by (simp add: hailo_vdma_channel_is_idle_def Let_def split: prod.split)
  with snd_is_idle [of io regs 1 d1]
  have "poll_idle (Suc n) io regs 1 d1 = (Ok (), snd (ioread32 io (regs + of_nat CHANNEL_NUM_PROC_OFFSET) d1))" for n
    by (simp add: split_beta)
  from this [of 9999, folded m] show ?thesis
    by (simp add: hailo_vdma_wait_until_channel_idle_def assms)
qed

theorem wait_until_idle_depth_16_witness:
  "fst (hailo_vdma_wait_until_channel_idle \<lparr> ioread32 = (\<lambda>a v. (if a = 0x60 then 1 else 0x00050001, v)), iowrite32 = (\<lambda>w a v. v) \<rparr>
      0x60 ()) = Ok ()"
  by (subst wait_until_idle_depth_16 [of _ _ _ 1 "()"]) (simp_all add: READ_BITS_AT_OFFSET_def channel_reg_consts)

section \<open>Registers that keep what is written\<close>

definition register_file :: "'d mmio \<Rightarrow> ('d \<Rightarrow> u64 \<Rightarrow> u32) \<Rightarrow> bool" where
  "register_file io reg \<longleftrightarrow> (\<forall>a d. ioread32 io a d = (reg d a, d)) \<and> (\<forall>a w d. reg (iowrite32 io w a d) = (reg d)(a := w))"

lemma register_fileD:
  "register_file io reg \<Longrightarrow> ioread32 io a d = (reg d a, d)"
  "register_file io reg \<Longrightarrow> reg (iowrite32 io w a d) = (reg d)(a := w)"
  by (auto simp: register_file_def)

lemma write_control_reg:
  "register_file io reg \<Longrightarrow> reg (write_control io v a d) = (reg d)(a := WRITE_BITS_AT_OFFSET 8 0 (reg d a) v)"
  by (rule ext) (simp add: write_control_def register_fileD c_macros)

lemma poll_idle_reads: "register_file io reg \<Longrightarrow> snd (poll_idle n io regs m d) = d"
  by (induction n) (auto simp: hailo_vdma_channel_is_idle_def register_fileD split: prod.split)

lemma wait_idle_reads: "register_file io reg \<Longrightarrow> snd (hailo_vdma_wait_until_channel_idle io regs d) = d"
  by (simp add: hailo_vdma_wait_until_channel_idle_def register_fileD poll_idle_reads Let_def)

lemma write_control_twice: "WRITE_BITS_AT_OFFSET 8 0 (WRITE_BITS_AT_OFFSET 8 0 v a) 0 = v AND NOT 0xFF"
proof -
  have m: "(0xFF :: u32) = mask 8" by (simp add: mask_eq_exp_minus_1)
  show ?thesis unfolding m by (intro bit_word_eqI) (auto simp: bit_WRITE_BITS bit_simps)
qed

lemma stop_channel_regs:
  assumes "register_file io reg"
  shows "reg (hailo_vdma_stop_channel io regs d) =
    (if (ucast (READ_BITS_AT_OFFSET 8 0 (reg d regs)) :: u8) AND 3 = 2 then reg d else (reg d)(regs := reg d regs AND NOT 0xFF))"
proof -
  have "reg (hailo_vdma_channel_abort io regs (hailo_vdma_channel_pause io regs d)) = (reg d)(regs := reg d regs AND NOT 0xFF)"
    using assms by (intro ext) (simp add: hailo_vdma_channel_abort_def hailo_vdma_channel_pause_def write_control_reg channel_reg_consts write_control_twice)
  then show ?thesis
    using wait_idle_reads [OF assms, of regs "hailo_vdma_channel_pause io regs d"]
    by (simp add: hailo_vdma_stop_channel_def register_fileD [OF assms] c_macros channel_reg_consts Let_def split_beta)
qed


text \<open>Stopping a channel leaves it aborted. On registers that keep what is written, \<open>hailo_vdma_stop_channel\<close> clears the
  whole control byte and keeps the depth and the data id beside it, even when the channel never becomes idle; a channel
  that is already aborted and paused is left alone. No other register changes.\<close>
theorem stop_channel_aborts:
  assumes "register_file io reg"
  shows "reg (hailo_vdma_stop_channel io regs d) =
    (if (ucast (READ_BITS_AT_OFFSET 8 0 (reg d regs)) :: u8) AND 3 = 2 then reg d else (reg d)(regs := reg d regs AND NOT 0xFF))"
  using assms by (rule stop_channel_regs)

lemma stop_channel_other: "register_file io reg \<Longrightarrow> a \<noteq> regs \<Longrightarrow> reg (hailo_vdma_stop_channel io regs d) a = reg d a"
  by (simp add: stop_channel_regs)

lemma start_address_parts:
  "a AND 0xFFFF = 0 \<Longrightarrow> push_bit 32 (ucast (ucast (drop_bit 32 a) :: u32)) OR push_bit 16 (ucast (ucast (drop_bit 16 a AND 0xFFFF) :: u16)) = (a :: u64)"
proof -
  assume a: "a AND 0xFFFF = 0"
  have m: "(0xFFFF :: u64) = mask 16" by (simp add: mask_eq_exp_minus_1)
  have low: "\<not> bit a i" if "i < 16" for i
  proof -
    have "bit (a AND mask 16) i = bit (0 :: u64) i" using a unfolding m by simp
    with that show ?thesis by (simp add: bit_simps)
  qed
  show ?thesis unfolding m
  proof (rule bit_word_eqI)
    fix i assume "i < LENGTH(64)"
    then consider "i < 16" | "16 \<le> i" "i < 32" | "32 \<le> i" "i < 64" by force
    then show "bit (push_bit 32 (ucast (ucast (drop_bit 32 a) :: u32)) OR push_bit 16 (ucast (ucast (drop_bit 16 a AND mask 16) :: u16)) :: u64) i =
        bit a i"
      by cases (auto simp: bit_simps low)
  qed
qed

lemma start_control: "WRITE_BITS_AT_OFFSET 8 0 (push_bit 11 x OR push_bit 8 y) 1 = 1 OR push_bit 11 x OR push_bit 8 y"
  by (rule bit_word_eqI) (auto simp: bit_WRITE_BITS bit_simps)

lemma upper_half: "drop_bit 16 (WRITE_BITS_AT_OFFSET 16 16 v (ucast (x :: u16))) = ucast x"
  "take_bit 16 (WRITE_BITS_AT_OFFSET 16 16 v w) = take_bit 16 v"
  by (rule bit_word_eqI, auto simp: bit_WRITE_BITS bit_simps dest: bit_imp_le_length)+

lemma ucast_u16_u32_u64: "ucast (ucast (x :: u16) :: u32) = (ucast x :: u64)"
  by (rule bit_word_eqI) (auto simp: bit_simps dest: bit_imp_le_length)

text \<open>Starting a channel programs its descriptors list. A list that is not aligned to 64 KB, or of more than \<open>2^16\<close>
  descriptors, changes no register. Otherwise the address can be read back from the two address registers (the list's
  bits 16 to 31 in the upper half of the register at \<open>0x8\<close>, whose lower half is kept, and bits 32 to 63 at \<open>0xC\<close>), the first
  register holds the started control byte, the data id and the depth, where 16 is encoded as 0, and no other register changes.\<close>
theorem start_channel_programs:
  assumes reg: "register_file io reg" and r: "r = reg (hailo_vdma_start_channel io regs a n data_id d)"
  shows "if a AND 0xFFFF \<noteq> 0 \<or> 16 < order_base_2 n then r = reg d
    else push_bit 32 (ucast (r (regs + 0xC))) OR push_bit 16 (ucast (drop_bit 16 (r (regs + 8)))) = a \<and>
      take_bit 16 (r (regs + 8)) = take_bit 16 (reg d (regs + 8)) \<and>
      r regs = (1 OR push_bit 11 (of_nat (order_base_2 n mod 16)) OR push_bit 8 (ucast data_id)) \<and>
      (\<forall>x. x \<notin> {regs, regs + 8, regs + 0xC} \<longrightarrow> r x = reg d x)"
proof (cases "a AND 0xFFFF \<noteq> 0 \<or> 16 < order_base_2 n")
  case True
  then show ?thesis using r by (auto simp: hailo_vdma_start_channel_def channel_reg_consts)
next
  case False
  then have a: "a AND 0xFFFF = 0" "order_base_2 n \<le> 16" by auto
  let ?k = "if order_base_2 n = 16 then 0 else order_base_2 n"
  let ?l = "ucast (drop_bit 16 a AND 0xFFFF) :: u16"
  let ?w = "push_bit 11 (of_nat ?k) OR push_bit 8 (ucast data_id) :: u32"
  let ?d1 = "hailo_vdma_stop_channel io regs d"
  have k: "?k = order_base_2 n mod 16" using a(2) by (cases "order_base_2 n = 16") auto
  have r': "r = ((reg ?d1)(regs + 8 := WRITE_BITS_AT_OFFSET 16 16 (reg ?d1 (regs + 8)) (ucast ?l), regs + 0xC := ucast (drop_bit 32 a),
      regs := WRITE_BITS_AT_OFFSET 8 0 ?w 1))"
    unfolding r hailo_vdma_start_channel_def start_vdma_control_register_def
    using False by (intro ext) (simp add: Let_def channel_reg_consts register_fileD [OF reg] write_control_reg [OF reg] c_macros)
  show ?thesis
    using False start_address_parts [OF a(1)] stop_channel_other [OF reg]
    by (simp add: r' start_control upper_half k ucast_u16_u32_u64)
qed

theorem stop_channel_aborts_witness:
  "hailo_vdma_stop_channel \<lparr> ioread32 = (\<lambda>a f. (f a, f)), iowrite32 = (\<lambda>w a f. f(a := w)) \<rparr> 0x60 (\<lambda>a. 0x00072801) =
    (\<lambda>a. if a = 0x60 then 0x00072800 else 0x00072801)"
proof -
  have "register_file \<lparr> ioread32 = (\<lambda>a f. (f a, f)), iowrite32 = (\<lambda>w a f. f(a := w)) \<rparr> (\<lambda>f. f)" by (simp add: register_file_def)
  from stop_channel_aborts [OF this, of "0x60" "\<lambda>a. 0x00072801"] show ?thesis
    by (auto simp: READ_BITS_AT_OFFSET_def fun_eq_iff)
qed

theorem start_channel_programs_witness:
  "\<exists>r. r = hailo_vdma_start_channel \<lparr> ioread32 = (\<lambda>a f. (f a, f)), iowrite32 = (\<lambda>w a f. f(a := w)) \<rparr> 0x60 0x0000000123450000 8 2 (\<lambda>a. 0x00072801) \<and>
    push_bit 32 (ucast (r 0x6C)) OR push_bit 16 (ucast (drop_bit 16 (r 0x68))) = (0x0000000123450000 :: u64) \<and> r 0x60 = 0x1A01"
proof -
  have reg: "register_file \<lparr> ioread32 = (\<lambda>a f. (f a, f)), iowrite32 = (\<lambda>w a f. f(a := w)) \<rparr> (\<lambda>f. f)" by (simp add: register_file_def)
  have k: "order_base_2 8 = 3" by (simp add: order_base_2_def)
  from start_channel_programs [OF reg refl, where regs = "0x60" and a = "0x0000000123450000" and n = 8 and data_id = 2 and d = "\<lambda>a. 0x00072801"] show ?thesis
    by (simp add: k)
qed

end
