(* ===== verification/Fw_Validation.thy ===== *)
theory Fw_Validation
  imports Resource Ioctl_Common
begin

text \<open>
  The checks of a firmware image before it is written to the device, \<open>src/common/fw_validation.c\<close>.
  The image is the list of its bytes and \<open>firmware_size\<close> is its length; the pointers into it are offsets
  from \<open>firmware_base_address\<close>. Every field is read from the image when the code reads it, and a read
  past the end of the image is a fault.
\<close>

definition FIRMWARE_HEADER_MAGIC_HAILO8 :: u32 where "FIRMWARE_HEADER_MAGIC_HAILO8 = 0x1DD89DE0"
definition FIRMWARE_HEADER_MAGIC_HAILO15 :: u32 where "FIRMWARE_HEADER_MAGIC_HAILO15 = 0xE905DAAB"
definition FIRMWARE_HEADER_MAGIC_HAILO15L :: u32 where "FIRMWARE_HEADER_MAGIC_HAILO15L = 0xF94739AB"
definition FIRMWARE_HEADER_MAGIC_MARS :: u32 where "FIRMWARE_HEADER_MAGIC_MARS = 0xF94739AB"
definition FIRMWARE_HEADER_VERSION_INITIAL :: u32 where "FIRMWARE_HEADER_VERSION_INITIAL = 0"
definition MINIMUM_FIRMWARE_CODE_SIZE :: u32 where "MINIMUM_FIRMWARE_CODE_SIZE = 20 * 4"
definition MAXIMUM_FIRMWARE_CERT_KEY_SIZE :: u32 where "MAXIMUM_FIRMWARE_CERT_KEY_SIZE = 0x1000"
definition MAXIMUM_FIRMWARE_CERT_CONTENT_SIZE :: u32 where "MAXIMUM_FIRMWARE_CERT_CONTENT_SIZE = 0x1000"

lemmas fw_consts = FIRMWARE_HEADER_MAGIC_HAILO8_def FIRMWARE_HEADER_MAGIC_HAILO15_def
  FIRMWARE_HEADER_MAGIC_HAILO15L_def FIRMWARE_HEADER_MAGIC_MARS_def FIRMWARE_HEADER_VERSION_INITIAL_def
  MINIMUM_FIRMWARE_CODE_SIZE_def MAXIMUM_FIRMWARE_CERT_KEY_SIZE_def MAXIMUM_FIRMWARE_CERT_CONTENT_SIZE_def

definition image_u32 :: "u8 list \<Rightarrow> nat \<Rightarrow> u32 result" where
  "image_u32 fw i =
     (if i + 4 \<le> length fw then Ok (u32_of_bytes (fw ! i) (fw ! (i + 1)) (fw ! (i + 2)) (fw ! (i + 3)))
      else Fault Out_of_bounds)"

text \<open>
  The fields of \<open>firmware_header_t\<close> and of \<open>secure_boot_certificate_header_t\<close> at an offset of the image,
  at the offsets the C structures give them.
\<close>

definition sizeof_firmware_header :: u64 where "sizeof_firmware_header = 24"
definition fw_magic :: "u8 list \<Rightarrow> u32 \<Rightarrow> u32 result" where "fw_magic fw off = image_u32 fw (unat off)"
definition fw_header_version :: "u8 list \<Rightarrow> u32 \<Rightarrow> u32 result" where
  "fw_header_version fw off = image_u32 fw (unat off + 4)"
definition fw_code_size :: "u8 list \<Rightarrow> u32 \<Rightarrow> u32 result" where
  "fw_code_size fw off = image_u32 fw (unat off + 20)"

definition sizeof_secure_boot_certificate :: u64 where "sizeof_secure_boot_certificate = 8"
definition cert_key_size :: "u8 list \<Rightarrow> u32 \<Rightarrow> u32 result" where "cert_key_size fw off = image_u32 fw (unat off)"
definition cert_content_size :: "u8 list \<Rightarrow> u32 \<Rightarrow> u32 result" where
  "cert_content_size fw off = image_u32 fw (unat off + 4)"

lemmas fw_fields = fw_magic_def fw_header_version_def fw_code_size_def sizeof_firmware_header_def
  cert_key_size_def cert_content_size_def sizeof_secure_boot_certificate_def

definition CONSUME_FIRMWARE :: "u64 \<Rightarrow> u64 \<Rightarrow> u32 \<Rightarrow> u32 result" where
  "CONSUME_FIRMWARE firmware_size sz consumed =
     (let consumed' = consumed + ucast sz
      in if firmware_size < sz \<or> firmware_size < ucast consumed' then Err EINVAL else Ok consumed')"

fun expected_firmware_magic :: "hailo_board_type \<Rightarrow> u32 result" where
  "expected_firmware_magic HAILO_BOARD_TYPE_HAILO8 = Ok FIRMWARE_HEADER_MAGIC_HAILO8"
| "expected_firmware_magic HAILO_BOARD_TYPE_HAILO10H_LEGACY = Ok FIRMWARE_HEADER_MAGIC_HAILO15"
| "expected_firmware_magic HAILO_BOARD_TYPE_HAILO15 = Ok FIRMWARE_HEADER_MAGIC_HAILO15"
| "expected_firmware_magic HAILO_BOARD_TYPE_HAILO10H = Ok FIRMWARE_HEADER_MAGIC_HAILO15"
| "expected_firmware_magic HAILO_BOARD_TYPE_HAILO15L = Ok FIRMWARE_HEADER_MAGIC_HAILO15L"
| "expected_firmware_magic HAILO_BOARD_TYPE_MARS = Ok FIRMWARE_HEADER_MAGIC_MARS"
| "expected_firmware_magic (HAILO_BOARD_TYPE_OTHER _) = Err EINVAL"

text \<open>On success: the new value of \<open>*outer_consumed_firmware_offset\<close> and the offset of the header.\<close>

definition FW_VALIDATION__validate_fw_header ::
    "u8 list \<Rightarrow> u64 \<Rightarrow> u32 \<Rightarrow> u32 \<Rightarrow> hailo_board_type \<Rightarrow> (u32 \<times> u32) result" where
  "FW_VALIDATION__validate_fw_header fw firmware_size max_code_size outer board_type =
     bind_r (CONSUME_FIRMWARE firmware_size sizeof_firmware_header outer) (\<lambda>consumed.
     bind_r (expected_firmware_magic board_type) (\<lambda>expected.
     bind_r (fw_magic fw outer) (\<lambda>magic.
     if expected \<noteq> magic then Err EINVAL
     else bind_r (fw_header_version fw outer) (\<lambda>ver.
     if ver \<noteq> FIRMWARE_HEADER_VERSION_INITIAL then Err EINVAL
     else bind_r (fw_code_size fw outer) (\<lambda>code_size.
     if code_size < MINIMUM_FIRMWARE_CODE_SIZE then Err EINVAL
     else if max_code_size < code_size then Err EINVAL
     else bind_r (CONSUME_FIRMWARE firmware_size (ucast code_size) consumed) (\<lambda>consumed'.
     Ok (consumed', outer)))))))"

definition FW_VALIDATION__validate_cert_header ::
    "u8 list \<Rightarrow> u64 \<Rightarrow> u32 \<Rightarrow> (u32 \<times> u32) result" where
  "FW_VALIDATION__validate_cert_header fw firmware_size outer =
     bind_r (CONSUME_FIRMWARE firmware_size sizeof_secure_boot_certificate outer) (\<lambda>consumed.
     bind_r (cert_key_size fw outer) (\<lambda>key_size.
     bind_r (cert_content_size fw outer) (\<lambda>content_size.
     if MAXIMUM_FIRMWARE_CERT_KEY_SIZE < key_size \<or> MAXIMUM_FIRMWARE_CERT_CONTENT_SIZE < content_size
     then Err EINVAL
     else bind_r (CONSUME_FIRMWARE firmware_size (ucast key_size) consumed) (\<lambda>consumed1.
     bind_r (CONSUME_FIRMWARE firmware_size (ucast content_size) consumed1) (\<lambda>consumed2.
     Ok (consumed2, outer))))))"

section \<open>Consuming stays within the image\<close>

lemma image_u32_Ok: "i + 4 \<le> length fw \<Longrightarrow> \<exists>v. image_u32 fw i = Ok v"
  by (simp add: image_u32_def)

lemma CONSUME_FIRMWARE_cases:
  assumes "length fw < 2 ^ 31" and "unat consumed \<le> length fw"
  shows "CONSUME_FIRMWARE (of_nat (length fw)) sz consumed =
    (if unat consumed + unat sz \<le> length fw then Ok (consumed + ucast sz) else Err EINVAL)"
    and "unat consumed + unat sz \<le> length fw \<Longrightarrow> unat (consumed + ucast sz) = unat consumed + unat sz"
proof -
  have len: "unat (of_nat (length fw) :: u64) = length fw"
    using assms(1) by (intro unat_of_nat_small) simp
  have add: "unat (consumed + ucast sz) = unat consumed + unat sz" if "unat sz \<le> length fw"
  proof -
    have "unat (ucast sz :: u32) = unat sz"
      using that assms(1) by (intro unat_ucast_small) simp
    with that assms show ?thesis by (subst unat_add_small) simp_all
  qed
  show "unat consumed + unat sz \<le> length fw \<Longrightarrow> unat (consumed + ucast sz) = unat consumed + unat sz"
    using add by simp
  have up: "unat (ucast (consumed + ucast sz) :: u64) = unat (consumed + ucast sz)"
    by simp
  show "CONSUME_FIRMWARE (of_nat (length fw)) sz consumed =
    (if unat consumed + unat sz \<le> length fw then Ok (consumed + ucast sz) else Err EINVAL)"
  proof (cases "unat sz \<le> length fw")
    case True
    with add up len show ?thesis
      by (simp add: CONSUME_FIRMWARE_def Let_def word_less_nat_alt not_less)
  next
    case False
    with len show ?thesis by (simp add: CONSUME_FIRMWARE_def Let_def word_less_nat_alt)
  qed
qed


lemma expected_magic_cases:
  obtains m where "expected_firmware_magic board = Ok m" | "expected_firmware_magic board = Err EINVAL"
  by (cases board) auto

lemmas consume_simps = CONSUME_FIRMWARE_cases(1)

section \<open>Properties\<close>

lemma validate_fw_header_cases:
  assumes "length fw < 2 ^ 31" and "unat outer \<le> length fw"
  shows "FW_VALIDATION__validate_fw_header fw (of_nat (length fw)) max_code_size outer board =
    (if unat outer + 24 \<le> length fw \<and> expected_firmware_magic board = fw_magic fw outer \<and>
        fw_header_version fw outer = Ok 0 \<and>
        (\<exists>code_size. fw_code_size fw outer = Ok code_size \<and> 80 \<le> code_size \<and> code_size \<le> max_code_size \<and>
           unat outer + 24 + unat code_size \<le> length fw)
     then Ok (outer + 24 + (case fw_code_size fw outer of Ok c \<Rightarrow> c), outer)
     else Err EINVAL)"
proof (cases "unat outer + 24 \<le> length fw")
  case False
  with assms show ?thesis by (simp add: FW_VALIDATION__validate_fw_header_def consume_simps fw_fields)
next
  case True
  then have c: "CONSUME_FIRMWARE (of_nat (length fw)) sizeof_firmware_header outer = Ok (outer + 24)"
    using assms by (simp add: consume_simps fw_fields)
  have u: "unat (outer + 24) = unat outer + 24"
    using CONSUME_FIRMWARE_cases(2) [OF assms, of 24] True by simp
  obtain m v s where f: "fw_magic fw outer = Ok m" "fw_header_version fw outer = Ok v" "fw_code_size fw outer = Ok s"
    using True by (simp add: fw_fields image_u32_def)
  have c2: "CONSUME_FIRMWARE (of_nat (length fw)) (ucast s) (outer + 24) =
      (if unat outer + 24 + unat s \<le> length fw then Ok (outer + 24 + s) else Err EINVAL)"
    using CONSUME_FIRMWARE_cases(1) [OF assms(1), of "outer + 24" "ucast s"] u True
    by simp
  show ?thesis
    using True c f c2
    by (cases rule: expected_magic_cases [of board])
       (auto simp: FW_VALIDATION__validate_fw_header_def fw_consts not_less not_le)
qed

text \<open>C27: On an image below 2 GiB and with a consumed offset inside it, \<open>FW_VALIDATION__validate_fw_header\<close> never
  reads outside the image. It accepts exactly the images whose header fits, has the board's magic, version 0 and
  a code size between the minimum and \<open>max_code_size\<close>, and whose code fits behind the header; it then
  consumes the header and the code, and in every other case it returns \<open>EINVAL\<close>.\<close>
theorem validate_fw_header_correct:
  assumes "length fw < 2 ^ 31" and "unat outer \<le> length fw"
  shows "FW_VALIDATION__validate_fw_header fw (of_nat (length fw)) max_code_size outer board =
    (if unat outer + 24 \<le> length fw \<and> expected_firmware_magic board = fw_magic fw outer \<and>
        fw_header_version fw outer = Ok 0 \<and>
        (\<exists>code_size. fw_code_size fw outer = Ok code_size \<and> 80 \<le> code_size \<and> code_size \<le> max_code_size \<and>
           unat outer + 24 + unat code_size \<le> length fw)
     then Ok (outer + 24 + (case fw_code_size fw outer of Ok c \<Rightarrow> c), outer)
     else Err EINVAL)"
  using assms by (rule validate_fw_header_cases)

lemma validate_cert_header_cases:
  assumes "length fw < 2 ^ 31" and "unat outer \<le> length fw"
  shows "FW_VALIDATION__validate_cert_header fw (of_nat (length fw)) outer =
    (if unat outer + 8 \<le> length fw \<and>
        (\<exists>k c. cert_key_size fw outer = Ok k \<and> cert_content_size fw outer = Ok c \<and> k \<le> 0x1000 \<and> c \<le> 0x1000 \<and>
           unat outer + 8 + unat k + unat c \<le> length fw)
     then Ok (outer + 8 + (case cert_key_size fw outer of Ok k \<Rightarrow> k) + (case cert_content_size fw outer of Ok c \<Rightarrow> c), outer)
     else Err EINVAL)"
proof (cases "unat outer + 8 \<le> length fw")
  case False
  with assms show ?thesis by (simp add: FW_VALIDATION__validate_cert_header_def consume_simps fw_fields)
next
  case True
  then have c: "CONSUME_FIRMWARE (of_nat (length fw)) sizeof_secure_boot_certificate outer = Ok (outer + 8)"
    using assms by (simp add: consume_simps fw_fields)
  have u: "unat (outer + 8) = unat outer + 8"
    using CONSUME_FIRMWARE_cases(2) [OF assms, of 8] True by simp
  obtain k s where f: "cert_key_size fw outer = Ok k" "cert_content_size fw outer = Ok s"
    using True by (simp add: fw_fields image_u32_def)
  have c2: "CONSUME_FIRMWARE (of_nat (length fw)) (ucast k) (outer + 8) =
      (if unat outer + 8 + unat k \<le> length fw then Ok (outer + 8 + k) else Err EINVAL)"
    using CONSUME_FIRMWARE_cases(1) [OF assms(1), of "outer + 8" "ucast k"] u True
    by simp
  have c3: "CONSUME_FIRMWARE (of_nat (length fw)) (ucast s) (outer + 8 + k) =
      (if unat outer + 8 + unat k + unat s \<le> length fw then Ok (outer + 8 + k + s) else Err EINVAL)"
    if "unat outer + 8 + unat k \<le> length fw"
    using CONSUME_FIRMWARE_cases(1) [OF assms(1), of "outer + 8 + k" "ucast s"] that u
      CONSUME_FIRMWARE_cases(2) [OF assms(1), of "outer + 8" "ucast k"]
    by simp
  show ?thesis
    using True c f c2 c3
    by (auto simp: FW_VALIDATION__validate_cert_header_def fw_consts not_less not_le)
qed

text \<open>Likewise \<open>FW_VALIDATION__validate_cert_header\<close>: it accepts exactly a certificate whose header, key and
  content fit in the image one after the other, with key and content of at most 4096 bytes, and
  consumes the three.\<close>
theorem validate_cert_header_correct:
  assumes "length fw < 2 ^ 31" and "unat outer \<le> length fw"
  shows "FW_VALIDATION__validate_cert_header fw (of_nat (length fw)) outer =
    (if unat outer + 8 \<le> length fw \<and>
        (\<exists>k c. cert_key_size fw outer = Ok k \<and> cert_content_size fw outer = Ok c \<and> k \<le> 0x1000 \<and> c \<le> 0x1000 \<and>
           unat outer + 8 + unat k + unat c \<le> length fw)
     then Ok (outer + 8 + (case cert_key_size fw outer of Ok k \<Rightarrow> k) + (case cert_content_size fw outer of Ok c \<Rightarrow> c), outer)
     else Err EINVAL)"
  using assms by (rule validate_cert_header_cases)

text \<open>A 104-byte Hailo-8 image: the header of 24 bytes and the minimal code of 80 bytes.\<close>

definition sample_image :: "u8 list" where
  "sample_image = [0xE0, 0x9D, 0xD8, 0x1D, 0, 0, 0, 0, 4, 0, 0, 0, 24, 0, 0, 0, 0, 0, 0, 0, 80, 0, 0, 0]
     @ replicate 80 0x11"

theorem validate_fw_header_correct_witness:
  "FW_VALIDATION__validate_fw_header sample_image 104 0x40000 0 HAILO_BOARD_TYPE_HAILO8 = Ok (104, 0)"
  using validate_fw_header_correct [of sample_image 0 "0x40000" HAILO_BOARD_TYPE_HAILO8]
  by (simp add: sample_image_def fw_fields image_u32_def fw_consts u32_of_bytes_def nth_append)

theorem validate_cert_header_correct_witness:
  "FW_VALIDATION__validate_cert_header ([2, 0, 0, 0, 1, 0, 0, 0] @ [9, 9, 9]) 11 0 = Ok (11, 0)"
  using validate_cert_header_correct [of "[2, 0, 0, 0, 1, 0, 0, 0] @ [9, 9, 9]" 0]
  by (simp add: fw_fields image_u32_def u32_of_bytes_def)

end
