(* ===== verification/Pcie_Boards.thy ===== *)
theory Pcie_Boards
  imports Fw_Validation
begin

text \<open>
  The tables of \<open>src/common/pcie_common.c\<close>: for every board the device addresses the firmware is written to and the
  stages of loading with their files. The tables are those of the build without \<open>HAILO_EMULATOR\<close>. An entry that a C
  initialiser leaves out is zero; boards without an entry (\<open>HAILO_BOARD_TYPE_HAILO15\<close>) have the zero entry
  (a board type outside the enumeration does not occur: the type comes from the driver's table of PCI ids).
\<close>

definition PCIE_HAILO8_BOARD_CFG_MAX_SIZE :: u64 where "PCIE_HAILO8_BOARD_CFG_MAX_SIZE = 0x500"
definition PCIE_HAILO8_FW_CFG_MAX_SIZE :: u64 where "PCIE_HAILO8_FW_CFG_MAX_SIZE = 0x500"
definition PCI_EP_WAIT_TIMEOUT_MS :: u32 where "PCI_EP_WAIT_TIMEOUT_MS = 40000"
definition FIRMWARE_WAIT_TIMEOUT_MS :: u32 where "FIRMWARE_WAIT_TIMEOUT_MS = 5000"

record hailo_fw_addresses =
  boot_fw_header :: u32
  app_fw_code_ram_base :: u32
  boot_key_cert :: u32
  boot_cont_cert :: u32
  core_code_ram_base :: u32
  core_fw_header :: u32
  raise_ready_offset :: u32
  boot_status :: u32
  pcie_cfg_regs :: u32

record hailo_file_batch =
  fb_filename :: "string option"
  fb_address :: u32
  fb_max_size :: u64
  fb_is_mandatory :: bool
  fb_has_header :: bool
  fb_has_core :: bool

record hailo_pcie_loading_stage =
  ls_batch :: "hailo_file_batch list"
  ls_trigger_address :: u32
  ls_timeout :: u32
  ls_amount_of_files_in_stage :: u8

definition FIRST_STAGE :: nat where "FIRST_STAGE = 0"
definition SECOND_STAGE :: nat where "SECOND_STAGE = 1"
definition SECOND_STAGE_LINUX_IN_EMMC :: nat where "SECOND_STAGE_LINUX_IN_EMMC = 2"
definition MAX_LOADING_STAGES :: nat where "MAX_LOADING_STAGES = 3"

definition hailo10h_files_stg1 :: "hailo_file_batch list" where
  "hailo10h_files_stg1 =
    [ \<lparr> fb_filename = Some ''hailo/hailo10h/customer_certificate.bin'', fb_address = 0xA0000, fb_max_size = 0x8004,
       fb_is_mandatory = True, fb_has_header = False, fb_has_core = False \<rparr>,
      \<lparr> fb_filename = Some ''hailo/hailo10h/u-boot.dtb.signed'', fb_address = 0xA8004, fb_max_size = 0x20000,
       fb_is_mandatory = True, fb_has_header = False, fb_has_core = False \<rparr>,
      \<lparr> fb_filename = Some ''hailo/hailo10h/scu_fw.bin'', fb_address = 0x20000, fb_max_size = 0x40000,
       fb_is_mandatory = True, fb_has_header = True, fb_has_core = False \<rparr>,
      \<lparr> fb_filename = None, fb_address = 0, fb_max_size = 0,
       fb_is_mandatory = False, fb_has_header = False, fb_has_core = False \<rparr> ]"

definition hailo10h2_files_stg1 :: "hailo_file_batch list" where
  "hailo10h2_files_stg1 =
    [ \<lparr> fb_filename = Some ''hailo/hailo10h/customer_certificate.bin'', fb_address = 0x88000, fb_max_size = 0x8004,
       fb_is_mandatory = True, fb_has_header = False, fb_has_core = False \<rparr>,
      \<lparr> fb_filename = Some ''hailo/hailo10h/u-boot.dtb.signed'', fb_address = 0x80004, fb_max_size = 0x20000,
       fb_is_mandatory = True, fb_has_header = False, fb_has_core = False \<rparr>,
      \<lparr> fb_filename = Some ''hailo/hailo10h/scu_fw.bin'', fb_address = 0x20000, fb_max_size = 0x40000,
       fb_is_mandatory = True, fb_has_header = True, fb_has_core = False \<rparr>,
      \<lparr> fb_filename = None, fb_address = 0, fb_max_size = 0,
       fb_is_mandatory = False, fb_has_header = False, fb_has_core = False \<rparr> ]"

definition hailo10h_family_files_stg2 :: "hailo_file_batch list" where
  "hailo10h_family_files_stg2 =
    [ \<lparr> fb_filename = Some ''hailo/hailo10h/u-boot-spl.bin'', fb_address = 0x85000000, fb_max_size = 0x1000000,
       fb_is_mandatory = True, fb_has_header = False, fb_has_core = False \<rparr>,
      \<lparr> fb_filename = Some ''hailo/hailo10h/u-boot-tfa.itb'', fb_address = 0x86000000, fb_max_size = 0x1000000,
       fb_is_mandatory = True, fb_has_header = False, fb_has_core = False \<rparr>,
      \<lparr> fb_filename = Some ''hailo/hailo10h/fitImage'', fb_address = 0x87000000, fb_max_size = 0x1000000,
       fb_is_mandatory = True, fb_has_header = False, fb_has_core = False \<rparr>,
      \<lparr> fb_filename = Some ''hailo/hailo10h/image-fs'', fb_address = 0x88000000, fb_max_size = 0x20000000,
       fb_is_mandatory = True, fb_has_header = False, fb_has_core = False \<rparr> ]"

definition hailo10h_files_stg2_linux_in_emmc :: "hailo_file_batch list" where
  "hailo10h_files_stg2_linux_in_emmc =
    [ \<lparr> fb_filename = Some ''hailo/hailo10h/u-boot-spl.bin'', fb_address = 0x85000000, fb_max_size = 0x1000000,
       fb_is_mandatory = True, fb_has_header = False, fb_has_core = False \<rparr>,
      \<lparr> fb_filename = Some ''hailo/hailo10h/u-boot-tfa.itb'', fb_address = 0x86000000, fb_max_size = 0x1000000,
       fb_is_mandatory = True, fb_has_header = False, fb_has_core = False \<rparr>,
      \<lparr> fb_filename = None, fb_address = 0, fb_max_size = 0,
       fb_is_mandatory = False, fb_has_header = False, fb_has_core = False \<rparr> ]"

definition hailo8_files_stg1 :: "hailo_file_batch list" where
  "hailo8_files_stg1 =
    [ \<lparr> fb_filename = Some ''hailo/hailo8_fw.bin'', fb_address = 0x20000, fb_max_size = 0x50000,
       fb_is_mandatory = True, fb_has_header = True, fb_has_core = True \<rparr>,
      \<lparr> fb_filename = Some ''hailo/hailo8_board_cfg.bin'', fb_address = 0x60001000, fb_max_size = PCIE_HAILO8_BOARD_CFG_MAX_SIZE,
       fb_is_mandatory = False, fb_has_header = False, fb_has_core = False \<rparr>,
      \<lparr> fb_filename = Some ''hailo/hailo8_fw_cfg.bin'', fb_address = 0x60001500, fb_max_size = PCIE_HAILO8_FW_CFG_MAX_SIZE,
       fb_is_mandatory = False, fb_has_header = False, fb_has_core = False \<rparr>,
      \<lparr> fb_filename = None, fb_address = 0, fb_max_size = 0,
       fb_is_mandatory = False, fb_has_header = False, fb_has_core = False \<rparr> ]"

definition hailo10h_legacy_files_stg1 :: "hailo_file_batch list" where
  "hailo10h_legacy_files_stg1 =
    [ \<lparr> fb_filename = Some ''hailo/hailo15_fw.bin'', fb_address = 0x20000, fb_max_size = 0x100000,
       fb_is_mandatory = True, fb_has_header = True, fb_has_core = True \<rparr>,
      \<lparr> fb_filename = None, fb_address = 0, fb_max_size = 0,
       fb_is_mandatory = False, fb_has_header = False, fb_has_core = False \<rparr> ]"

definition hailo15l_files_stg1 :: "hailo_file_batch list" where
  "hailo15l_files_stg1 =
    [ \<lparr> fb_filename = Some ''hailo/hailo15l_fw.bin'', fb_address = 0x20000, fb_max_size = 0x100000,
       fb_is_mandatory = True, fb_has_header = True, fb_has_core = True \<rparr>,
      \<lparr> fb_filename = None, fb_address = 0, fb_max_size = 0,
       fb_is_mandatory = False, fb_has_header = False, fb_has_core = False \<rparr> ]"

definition zero_stage :: hailo_pcie_loading_stage where
  "zero_stage = \<lparr> ls_batch = [], ls_trigger_address = 0, ls_timeout = 0, ls_amount_of_files_in_stage = 0 \<rparr>"

text \<open>\<open>compat[board_type].fw_addresses\<close> and \<open>compat[board_type].stages\<close>.\<close>

fun fw_addresses :: "hailo_board_type \<Rightarrow> hailo_fw_addresses" where
  "fw_addresses HAILO_BOARD_TYPE_HAILO8 =
     \<lparr> boot_fw_header = 0xE0030, app_fw_code_ram_base = 0x60000, boot_key_cert = 0xE0048, boot_cont_cert = 0xE0390,
       core_code_ram_base = 0xC0000, core_fw_header = 0xA0000, raise_ready_offset = 0x1684, boot_status = 0xe0000, pcie_cfg_regs = 0 \<rparr>"
| "fw_addresses HAILO_BOARD_TYPE_HAILO10H_LEGACY =
     \<lparr> boot_fw_header = 0x88000, app_fw_code_ram_base = 0x20000, boot_key_cert = 0x88018, boot_cont_cert = 0x886a8,
       core_code_ram_base = 0x60000, core_fw_header = 0xC0000, raise_ready_offset = 0x1754, boot_status = 0x80000, pcie_cfg_regs = 0 \<rparr>"
| "fw_addresses HAILO_BOARD_TYPE_HAILO10H =
     \<lparr> boot_fw_header = 0x88000, app_fw_code_ram_base = 0x20000, boot_key_cert = 0x88018, boot_cont_cert = 0x886a8,
       core_code_ram_base = 0, core_fw_header = 0, raise_ready_offset = 0x1754, boot_status = 0x80000, pcie_cfg_regs = 0x002009dc \<rparr>"
| "fw_addresses HAILO_BOARD_TYPE_HAILO15L =
     \<lparr> boot_fw_header = 0x88000, app_fw_code_ram_base = 0x20000, boot_key_cert = 0x88018, boot_cont_cert = 0x886a8,
       core_code_ram_base = 0x60000, core_fw_header = 0xC0000, raise_ready_offset = 0x174c, boot_status = 0x80000, pcie_cfg_regs = 0 \<rparr>"
| "fw_addresses HAILO_BOARD_TYPE_MARS =
     \<lparr> boot_fw_header = 0x98000, app_fw_code_ram_base = 0x20000, boot_key_cert = 0x98018, boot_cont_cert = 0x986a8,
       core_code_ram_base = 0, core_fw_header = 0, raise_ready_offset = 0x174c, boot_status = 0x90000, pcie_cfg_regs = 0x002009d4 \<rparr>"
| "fw_addresses _ = \<lparr> boot_fw_header = 0, app_fw_code_ram_base = 0, boot_key_cert = 0, boot_cont_cert = 0,
       core_code_ram_base = 0, core_fw_header = 0, raise_ready_offset = 0, boot_status = 0, pcie_cfg_regs = 0 \<rparr>"

fun stages :: "hailo_board_type \<Rightarrow> hailo_pcie_loading_stage list" where
  "stages HAILO_BOARD_TYPE_HAILO8 =
     [ \<lparr> ls_batch = hailo8_files_stg1, ls_trigger_address = 0xE0980, ls_timeout = FIRMWARE_WAIT_TIMEOUT_MS, ls_amount_of_files_in_stage = 3 \<rparr>,
       zero_stage,
       zero_stage ]"
| "stages HAILO_BOARD_TYPE_HAILO10H_LEGACY =
     [ \<lparr> ls_batch = hailo10h_legacy_files_stg1, ls_trigger_address = 0x88c98, ls_timeout = FIRMWARE_WAIT_TIMEOUT_MS, ls_amount_of_files_in_stage = 1 \<rparr>,
       zero_stage,
       zero_stage ]"
| "stages HAILO_BOARD_TYPE_HAILO10H =
     [ \<lparr> ls_batch = hailo10h_files_stg1, ls_trigger_address = 0x88c98, ls_timeout = FIRMWARE_WAIT_TIMEOUT_MS, ls_amount_of_files_in_stage = 3 \<rparr>,
       \<lparr> ls_batch = hailo10h_family_files_stg2, ls_trigger_address = 0x84000000, ls_timeout = PCI_EP_WAIT_TIMEOUT_MS, ls_amount_of_files_in_stage = 4 \<rparr>,
       zero_stage ]"
| "stages HAILO_BOARD_TYPE_HAILO15L =
     [ \<lparr> ls_batch = hailo15l_files_stg1, ls_trigger_address = 0x88c98, ls_timeout = FIRMWARE_WAIT_TIMEOUT_MS, ls_amount_of_files_in_stage = 1 \<rparr>,
       zero_stage,
       zero_stage ]"
| "stages HAILO_BOARD_TYPE_MARS =
     [ \<lparr> ls_batch = hailo10h2_files_stg1, ls_trigger_address = 0x98c98, ls_timeout = FIRMWARE_WAIT_TIMEOUT_MS, ls_amount_of_files_in_stage = 3 \<rparr>,
       \<lparr> ls_batch = hailo10h_family_files_stg2, ls_trigger_address = 0x84000000, ls_timeout = PCI_EP_WAIT_TIMEOUT_MS, ls_amount_of_files_in_stage = 4 \<rparr>,
       zero_stage ]"
| "stages _ = [zero_stage, zero_stage, zero_stage]"

definition hailo_pcie_get_loading_stage_info :: "hailo_board_type \<Rightarrow> nat \<Rightarrow> hailo_pcie_loading_stage result" where
  "hailo_pcie_get_loading_stage_info board_type stage = array_get (stages board_type) stage"

end
