(* ===== verification/Control_Protocol.thy ===== *)
theory Control_Protocol
  imports Ioctl_Common
begin

text \<open>
  The part of \<open>src/common/control_protocol.h\<close> the driver uses: the opcodes of the firmware controls with the CPU that
  serves each, and the sizes of requests and responses. The position in the table is the opcode's number.
\<close>

datatype CPU_ID_t = CPU_ID_APP_CPU | CPU_ID_CORE_CPU | CPU_ID_UNKNOWN

definition CONTROL_PROTOCOL__MAX_CONTROL_LENGTH :: u32 where "CONTROL_PROTOCOL__MAX_CONTROL_LENGTH = 1500"
definition CONTROL_PROTOCOL__MAX_VDMA_CHANNELS_PER_ENGINE :: nat where "CONTROL_PROTOCOL__MAX_VDMA_CHANNELS_PER_ENGINE = 32"

definition CONTROL_PROTOCOL__OPCODES_VARIABLES :: "(string \<times> bool \<times> CPU_ID_t) list" where
  "CONTROL_PROTOCOL__OPCODES_VARIABLES =
    [ (''HAILO_CONTROL_OPCODE_IDENTIFY'', True, CPU_ID_APP_CPU),
      (''HAILO_CONTROL_OPCODE_WRITE_MEMORY'', False, CPU_ID_APP_CPU),
      (''HAILO_CONTROL_OPCODE_READ_MEMORY'', False, CPU_ID_APP_CPU),
      (''HAILO_CONTROL_OPCODE_CONFIG_STREAM'', False, CPU_ID_APP_CPU),
      (''HAILO_CONTROL_OPCODE_OPEN_STREAM'', False, CPU_ID_APP_CPU),
      (''HAILO_CONTROL_OPCODE_CLOSE_STREAM'', False, CPU_ID_APP_CPU),
      (''HAILO_CONTROL_OPCODE_PHY_OPERATION'', False, CPU_ID_APP_CPU),
      (''HAILO_CONTROL_OPCODE_RESET'', True, CPU_ID_APP_CPU),
      (''HAILO_CONTROL_OPCODE_CONFIG_CORE_TOP'', False, CPU_ID_APP_CPU),
      (''HAILO_CONTROL_OPCODE_POWER_MEASUEMENT'', False, CPU_ID_APP_CPU),
      (''HAILO_CONTROL_OPCODE_SET_POWER_MEASUEMENT'', False, CPU_ID_APP_CPU),
      (''HAILO_CONTROL_OPCODE_GET_POWER_MEASUEMENT'', False, CPU_ID_APP_CPU),
      (''HAILO_CONTROL_OPCODE_START_POWER_MEASUEMENT'', False, CPU_ID_APP_CPU),
      (''HAILO_CONTROL_OPCODE_STOP_POWER_MEASUEMENT'', False, CPU_ID_APP_CPU),
      (''HAILO_CONTROL_OPCODE_START_FIRMWARE_UPDATE'', True, CPU_ID_APP_CPU),
      (''HAILO_CONTROL_OPCODE_WRITE_FIRMWARE_UPDATE'', True, CPU_ID_APP_CPU),
      (''HAILO_CONTROL_OPCODE_VALIDATE_FIRMWARE_UPDATE'', True, CPU_ID_APP_CPU),
      (''HAILO_CONTROL_OPCODE_FINISH_FIRMWARE_UPDATE'', True, CPU_ID_APP_CPU),
      (''HAILO_CONTROL_OPCODE_EXAMINE_USER_CONFIG'', True, CPU_ID_APP_CPU),
      (''HAILO_CONTROL_OPCODE_READ_USER_CONFIG'', True, CPU_ID_APP_CPU),
      (''HAILO_CONTROL_OPCODE_ERASE_USER_CONFIG'', True, CPU_ID_APP_CPU),
      (''HAILO_CONTROL_OPCODE_WRITE_USER_CONFIG'', True, CPU_ID_APP_CPU),
      (''HAILO_CONTROL_OPCODE_I2C_WRITE'', False, CPU_ID_APP_CPU),
      (''HAILO_CONTROL_OPCODE_I2C_READ'', False, CPU_ID_APP_CPU),
      (''HAILO_CONTROL_OPCODE_NN_CORE_LATENCY_MEASUREMENT_CONFIG'', False, CPU_ID_APP_CPU),
      (''HAILO_CONTROL_OPCODE_NN_CORE_LATENCY_MEASUREMENT_READ'', False, CPU_ID_APP_CPU),
      (''HAILO_CONTROL_OPCODE_SENSOR_STORE_CONFIG'', False, CPU_ID_APP_CPU),
      (''HAILO_CONTROL_OPCODE_SENSOR_GET_CONFIG'', False, CPU_ID_APP_CPU),
      (''HAILO_CONTROL_OPCODE_SENSOR_SET_GENERIC_I2C_SLAVE'', False, CPU_ID_APP_CPU),
      (''HAILO_CONTROL_OPCODE_SENSOR_LOAD_AND_START'', False, CPU_ID_APP_CPU),
      (''HAILO_CONTROL_OPCODE_SENSOR_RESET'', False, CPU_ID_APP_CPU),
      (''HAILO_CONTROL_OPCODE_SENSOR_GET_SECTIONS_INFO'', False, CPU_ID_APP_CPU),
      (''HAILO_CONTROL_OPCODE_CONTEXT_SWITCH_SET_NETWORK_GROUP_HEADER'', False, CPU_ID_CORE_CPU),
      (''HAILO_CONTROL_OPCODE_CONTEXT_SWITCH_SET_CONTEXT_INFO'', False, CPU_ID_CORE_CPU),
      (''HAILO_CONTROL_OPCODE_IDLE_TIME_SET_MEASUREMENT'', False, CPU_ID_APP_CPU),
      (''HAILO_CONTROL_OPCODE_IDLE_TIME_GET_MEASUREMENT'', False, CPU_ID_APP_CPU),
      (''HAILO_CONTROL_OPCODE_DOWNLOAD_CONTEXT_ACTION_LIST'', False, CPU_ID_CORE_CPU),
      (''HAILO_CONTROL_OPCODE_CHANGE_CONTEXT_SWITCH_STATUS'', False, CPU_ID_CORE_CPU),
      (''HAILO_CONTROL_OPCODE_APP_WD_ENABLE'', False, CPU_ID_APP_CPU),
      (''HAILO_CONTROL_OPCODE_APP_WD_CONFIG'', False, CPU_ID_APP_CPU),
      (''HAILO_CONTROL_OPCODE_APP_PREVIOUS_SYSTEM_STATE'', False, CPU_ID_APP_CPU),
      (''HAILO_CONTROL_OPCODE_SET_DATAFLOW_INTERRUPT'', False, CPU_ID_CORE_CPU),
      (''HAILO_CONTROL_OPCODE_CORE_IDENTIFY'', True, CPU_ID_CORE_CPU),
      (''HAILO_CONTROL_OPCODE_D2H_EVENT_MANAGER_SET_HOST_INFO'', False, CPU_ID_APP_CPU),
      (''HAILO_CONTROL_OPCODE_D2H_EVENT_MANAGER_SEND_EVENT_HOST_INFO'', False, CPU_ID_APP_CPU),
      (''HAILO_CONTROL_OPCODE_SWITCH_APPLICATION'', False, CPU_ID_CORE_CPU),
      (''HAILO_CONTROL_OPCODE_GET_CHIP_TEMPERATURE'', False, CPU_ID_APP_CPU),
      (''HAILO_CONTROL_OPCODE_READ_BOARD_CONFIG'', True, CPU_ID_APP_CPU),
      (''HAILO_CONTROL_OPCODE_WRITE_BOARD_CONFIG'', True, CPU_ID_APP_CPU),
      (''HAILO_CONTROL_OPCODE_GET_SOC_ID'', False, CPU_ID_APP_CPU),
      (''HAILO_CONTROL_OPCODE_ENABLE_DEBUGGING'', False, CPU_ID_APP_CPU),
      (''HAILO_CONTROL_OPCODE_GET_DEVICE_INFORMATION'', False, CPU_ID_APP_CPU),
      (''HAILO_CONTROL_OPCODE_CONFIG_CONTEXT_SWITCH_BREAKPOINT'', False, CPU_ID_CORE_CPU),
      (''HAILO_CONTROL_OPCODE_GET_CONTEXT_SWITCH_BREAKPOINT_STATUS'', False, CPU_ID_CORE_CPU),
      (''HAILO_CONTROL_OPCODE_GET_CONTEXT_SWITCH_MAIN_HEADER'', False, CPU_ID_CORE_CPU),
      (''HAILO_CONTROL_OPCODE_SET_FW_LOGGER'', False, CPU_ID_APP_CPU),
      (''HAILO_CONTROL_OPCODE_WRITE_SECOND_STAGE_TO_INTERNAL_MEMORY'', True, CPU_ID_APP_CPU),
      (''HAILO_CONTROL_OPCODE_COPY_SECOND_STAGE_TO_FLASH'', True, CPU_ID_APP_CPU),
      (''HAILO_CONTROL_OPCODE_SET_PAUSE_FRAMES'', False, CPU_ID_APP_CPU),
      (''HAILO_CONTROL_OPCODE_CONFIG_CONTEXT_SWITCH_TIMESTAMP'', False, CPU_ID_CORE_CPU),
      (''HAILO_CONTROL_OPCODE_RUN_BIST_TEST'', False, CPU_ID_APP_CPU),
      (''HAILO_CONTROL_OPCODE_SET_CLOCK_FREQ'', False, CPU_ID_APP_CPU),
      (''HAILO_CONTROL_OPCODE_GET_HEALTH_INFORMATION'', False, CPU_ID_APP_CPU),
      (''HAILO_CONTROL_OPCODE_SET_THROTTLING_STATE'', False, CPU_ID_APP_CPU),
      (''HAILO_CONTROL_OPCODE_GET_THROTTLING_STATE'', False, CPU_ID_APP_CPU),
      (''HAILO_CONTROL_OPCODE_SENSOR_SET_I2C_BUS_INDEX'', False, CPU_ID_APP_CPU),
      (''HAILO_CONTROL_OPCODE_SET_OVERCURRENT_STATE'', False, CPU_ID_APP_CPU),
      (''HAILO_CONTROL_OPCODE_GET_OVERCURRENT_STATE'', False, CPU_ID_APP_CPU),
      (''HAILO_CONTROL_OPCODE_CORE_PREVIOUS_SYSTEM_STATE'', False, CPU_ID_CORE_CPU),
      (''HAILO_CONTROL_OPCODE_CORE_WD_ENABLE'', False, CPU_ID_CORE_CPU),
      (''HAILO_CONTROL_OPCODE_CORE_WD_CONFIG'', False, CPU_ID_CORE_CPU),
      (''HAILO_CONTROL_OPCODE_CONTEXT_SWITCH_CLEAR_CONFIGURED_APPS'', False, CPU_ID_CORE_CPU),
      (''HAILO_CONTROL_OPCODE_GET_HW_CONSTS'', False, CPU_ID_CORE_CPU),
      (''HAILO_CONTROL_OPCODE_SET_SLEEP_STATE'', False, CPU_ID_APP_CPU),
      (''HAILO_CONTROL_OPCODE_CHANGE_HW_INFER_STATUS'', False, CPU_ID_CORE_CPU),
      (''HAILO_CONTROL_OPCODE_SIGNAL_DRIVER_DOWN'', False, CPU_ID_CORE_CPU),
      (''HAILO_CONTROL_OPCODE_CONTEXT_SWITCH_INIT_CACHE_INFO'', False, CPU_ID_CORE_CPU),
      (''HAILO_CONTROL_OPCODE_CONTEXT_SWITCH_GET_CACHE_INFO'', False, CPU_ID_CORE_CPU),
      (''HAILO_CONTROL_OPCODE_CONTEXT_SWITCH_UPDATE_CACHE_READ_OFFSET'', False, CPU_ID_CORE_CPU),
      (''HAILO_CONTROL_OPCODE_CONTEXT_SWITCH_SIGNAL_CACHE_UPDATED'', False, CPU_ID_CORE_CPU) ]"

definition HAILO_CONTROL_OPCODE_COUNT :: nat where
  "HAILO_CONTROL_OPCODE_COUNT = length CONTROL_PROTOCOL__OPCODES_VARIABLES"

definition g_fw_control__cpu_id :: "CPU_ID_t list" where
  "g_fw_control__cpu_id = map (\<lambda>(name, is_critical, cpu_id). cpu_id) CONTROL_PROTOCOL__OPCODES_VARIABLES"

text \<open>
  \<open>CONTROL_PROTOCOL__request_t\<close> is the opcode followed by a union whose largest member is the array of
  \<open>CONTROL_PROTOCOL__MAX_CONTROL_LENGTH\<close> bytes; \<open>CONTROL_PROTOCOL__response_t\<close> has two status words before its union.
\<close>

definition sizeof_control_request :: nat where "sizeof_control_request = 4 + 1500"
definition sizeof_control_response :: nat where "sizeof_control_response = 8 + 1500"

lemma opcode_count: "HAILO_CONTROL_OPCODE_COUNT = 80"
  by (simp add: HAILO_CONTROL_OPCODE_COUNT_def CONTROL_PROTOCOL__OPCODES_VARIABLES_def)

lemma cpu_id_table: "length g_fw_control__cpu_id = HAILO_CONTROL_OPCODE_COUNT" "set g_fw_control__cpu_id \<subseteq> {CPU_ID_APP_CPU, CPU_ID_CORE_CPU}"
  by (simp_all add: g_fw_control__cpu_id_def HAILO_CONTROL_OPCODE_COUNT_def CONTROL_PROTOCOL__OPCODES_VARIABLES_def)

end
