(* ===== verification/Fw_Operation.thy ===== *)
theory Fw_Operation
  imports Resource Ioctl_Common
begin

text \<open>
  Reading the firmware's notifications and its log, \<open>src/common/fw_operation.c\<close>. Both live in windows of
  device memory; a structure read from the device is the list of its bytes, decoded field by field.
  The addresses of the local structures and of the user buffers only matter for their alignment and are
  arguments (\<open>hdr_ptr\<close>, \<open>buf_ptr\<close>). A copy past the end of the fixed-size buffer of the parameters is
  a fault.
\<close>

definition DEBUG_BUFFER_TOTAL_SIZE :: u64 where "DEBUG_BUFFER_TOTAL_SIZE = 4 * 1024"
definition DEBUG_BUFFER_DATA_SIZE :: u64 where "DEBUG_BUFFER_DATA_SIZE = DEBUG_BUFFER_TOTAL_SIZE - 8"
definition PCIE_D2H_NOTIFICATION_SRAM_OFFSET :: u64 where "PCIE_D2H_NOTIFICATION_SRAM_OFFSET = 0x640 + 0x640"
definition PCIE_APP_CPU_DEBUG_OFFSET :: u64 where "PCIE_APP_CPU_DEBUG_OFFSET = 8 * 1024"
definition PCIE_CORE_CPU_DEBUG_OFFSET :: u64 where
  "PCIE_CORE_CPU_DEBUG_OFFSET = PCIE_APP_CPU_DEBUG_OFFSET + DEBUG_BUFFER_TOTAL_SIZE"

lemmas fw_op_consts = DEBUG_BUFFER_TOTAL_SIZE_def DEBUG_BUFFER_DATA_SIZE_def
  PCIE_D2H_NOTIFICATION_SRAM_OFFSET_def PCIE_APP_CPU_DEBUG_OFFSET_def PCIE_CORE_CPU_DEBUG_OFFSET_def

definition u16_of_bytes :: "u8 \<Rightarrow> u8 \<Rightarrow> u16" where
  "u16_of_bytes b0 b1 = ucast b0 OR push_bit 8 (ucast b1)"

record hailo_d2h_buffer_details =
  is_buffer_in_use :: u16
  d2h_buffer_len :: u16

definition d2h_buffer_details_of_bytes :: "u8 list \<Rightarrow> hailo_d2h_buffer_details" where
  "d2h_buffer_details_of_bytes bs =
     \<lparr> is_buffer_in_use = u16_of_bytes (bs ! 0) (bs ! 1), d2h_buffer_len = u16_of_bytes (bs ! 2) (bs ! 3) \<rparr>"

record FW_DEBUG_BUFFER_HEADER =
  host_offset :: u32
  chip_offset :: u32

definition FW_DEBUG_BUFFER_HEADER_of_bytes :: "u8 list \<Rightarrow> FW_DEBUG_BUFFER_HEADER" where
  "FW_DEBUG_BUFFER_HEADER_of_bytes bs =
     \<lparr> host_offset = u32_of_bytes (bs ! 0) (bs ! 1) (bs ! 2) (bs ! 3),
       chip_offset = u32_of_bytes (bs ! 4) (bs ! 5) (bs ! 6) (bs ! 7) \<rparr>"

text \<open>A read of \<open>n\<close> device bytes into a buffer at position \<open>pos\<close>.\<close>

definition read_into ::
    "'d mmio \<Rightarrow> hailo_resource \<Rightarrow> u64 \<Rightarrow> u64 \<Rightarrow> u8 list \<Rightarrow> u64 \<Rightarrow> u64 \<Rightarrow> 'd \<Rightarrow> u8 list result \<times> 'd" where
  "read_into io r offset n buf buf_ptr pos d =
     (if length buf < unat pos + unat n then (Fault Out_of_bounds, d)
      else let (bs, d') = hailo_resource_read_buffer io r offset (unat n) (buf_ptr + pos) d
           in (Ok (take (unat pos) buf @ bs @ drop (unat pos + unat n) buf), d'))"

definition hailo_read_firmware_notification ::
    "'d mmio \<Rightarrow> hailo_resource \<Rightarrow> u64 \<Rightarrow> u64 \<Rightarrow> hailo_d2h_notification \<Rightarrow> 'd \<Rightarrow>
     hailo_d2h_notification result \<times> 'd" where
  "hailo_read_firmware_notification io r hdr_ptr buf_ptr notification d =
     (let (bs, d1) = hailo_resource_read_buffer io r 0 4 hdr_ptr d;
          details = d2h_buffer_details_of_bytes bs
      in if MAX_NOTIFICATION_LENGTH < unat (d2h_buffer_len details) \<or> is_buffer_in_use details = 0
         then (Err EINVAL, d1)
         else let len = ucast (d2h_buffer_len details);
                  (res, d2) = read_into io r 4 len (notif_buffer notification) buf_ptr 0 d1
              in case res of
                   Ok buf \<Rightarrow> (Ok \<lparr> notif_buffer_len = len, notif_buffer = buf \<rparr>, hailo_resource_write16 io r 0 0 d2)
                 | Err e \<Rightarrow> (Err e, d2)
                 | Fault f \<Rightarrow> (Fault f, d2))"

definition hailo_pcie_read_firmware_notification ::
    "'d mmio \<Rightarrow> hailo_resource \<Rightarrow> u64 \<Rightarrow> u64 \<Rightarrow> hailo_d2h_notification \<Rightarrow> 'd \<Rightarrow>
     hailo_d2h_notification result \<times> 'd" where
  "hailo_pcie_read_firmware_notification io r hdr_ptr buf_ptr notification d =
     (if res_size r < PCIE_D2H_NOTIFICATION_SRAM_OFFSET then (Err EINVAL, d)
      else hailo_read_firmware_notification io
             \<lparr> res_address = res_address r + PCIE_D2H_NOTIFICATION_SRAM_OFFSET,
               res_size = of_nat (8 + MAX_NOTIFICATION_LENGTH) \<rparr>
             hdr_ptr buf_ptr notification d)"

definition calculate_log_ready_to_read :: "FW_DEBUG_BUFFER_HEADER \<Rightarrow> u64" where
  "calculate_log_ready_to_read header =
     (let host = ucast (host_offset header); chip = ucast (chip_offset header)
      in if host \<le> chip then chip - host else DEBUG_BUFFER_DATA_SIZE - (host - chip))"

text \<open>
  The copying part of \<open>hailo_read_firmware_log\<close>, with the wrap-around of the log: the buffer and the
  final \<open>read_offset\<close>.
\<close>

definition copy_log_data ::
    "'d mmio \<Rightarrow> hailo_resource \<Rightarrow> u64 \<Rightarrow> u64 \<Rightarrow> u8 list \<Rightarrow> u64 \<Rightarrow> 'd \<Rightarrow> (u8 list \<times> u64) result \<times> 'd" where
  "copy_log_data io r host ready_to_read buf buf_ptr d =
     (let read_offset = 8 + host
      in if DEBUG_BUFFER_DATA_SIZE \<le> host + ready_to_read
         then let size_to_read = DEBUG_BUFFER_DATA_SIZE - host;
                  (res1, d1) = read_into io r read_offset size_to_read buf buf_ptr 0 d
              in case res1 of
                   Err e \<Rightarrow> (Err e, d1)
                 | Fault f \<Rightarrow> (Fault f, d1)
                 | Ok buf1 \<Rightarrow>
                     let rest = ready_to_read - size_to_read;
                         read_offset' = read_offset - host;
                         (res2, d2) = read_into io r read_offset' rest buf1 buf_ptr size_to_read d1
                     in (bind_r res2 (\<lambda>buf2. Ok (buf2, read_offset' + rest)), d2)
         else let (res, d1) = read_into io r read_offset ready_to_read buf buf_ptr 0 d
              in (bind_r res (\<lambda>buf1. Ok (buf1, read_offset + ready_to_read)), d1))"

definition hailo_read_firmware_log ::
    "'d mmio \<Rightarrow> hailo_resource \<Rightarrow> u64 \<Rightarrow> u64 \<Rightarrow> hailo_read_log_params \<Rightarrow> 'd \<Rightarrow>
     hailo_read_log_params result \<times> 'd" where
  "hailo_read_firmware_log io r hdr_ptr buf_ptr params d =
     (if MAX_FW_LOG_BUFFER_LENGTH < unat (log_buffer_size params) then (Err EINVAL, d)
      else
       let (hbs, d1) = hailo_resource_read_buffer io r 0 8 hdr_ptr d;
           header = FW_DEBUG_BUFFER_HEADER_of_bytes hbs;
           ready = calculate_log_ready_to_read header
       in if ready = 0 then (Ok (params\<lparr>log_read_bytes := 0\<rparr>), d1)
          else
           let ready_to_read = min ready (log_buffer_size params);
               (res, d2) = copy_log_data io r (ucast (host_offset header)) ready_to_read (log_buffer params) buf_ptr d1
           in case res of
                Err e \<Rightarrow> (Err e, d2)
              | Fault f \<Rightarrow> (Fault f, d2)
              | Ok (buf, read_offset) \<Rightarrow>
                  (Ok (params\<lparr>log_buffer := buf, log_read_bytes := ready_to_read\<rparr>),
                   hailo_resource_write32 io r 0 (ucast (read_offset - 8)) d2))"

definition hailo_pcie_read_firmware_log ::
    "'d mmio \<Rightarrow> hailo_resource \<Rightarrow> u64 \<Rightarrow> u64 \<Rightarrow> hailo_read_log_params \<Rightarrow> 'd \<Rightarrow>
     hailo_read_log_params result \<times> 'd" where
  "hailo_pcie_read_firmware_log io r hdr_ptr buf_ptr params d =
     (let log_resource = \<lparr> res_address = res_address r +
              (if log_is_app_cpu params then PCIE_APP_CPU_DEBUG_OFFSET else PCIE_CORE_CPU_DEBUG_OFFSET),
            res_size = DEBUG_BUFFER_TOTAL_SIZE \<rparr>
      in if log_buffer_size params = 0 then (Ok (params\<lparr>log_read_bytes := 0\<rparr>), d)
         else hailo_read_firmware_log io log_resource hdr_ptr buf_ptr params d)"

section \<open>The log is a circular buffer\<close>

lemma mem_bytes_length [simp]: "length (mem_bytes m a n) = n"
  by (simp add: mem_bytes_def)

lemma mem_bytes_nth [simp]: "i < n \<Longrightarrow> mem_bytes m a n ! i = m (a + of_nat i)"
  by (simp add: mem_bytes_def)

lemma window_covers_sub:
  "window_covers A a n \<Longrightarrow> i + k \<le> n \<Longrightarrow> window_covers A (a + of_nat i) k"
proof -
  assume w: "window_covers A a n" and le: "i + k \<le> n"
  have "a + of_nat i + of_nat j = a + of_nat (i + j)" for j by (simp add: add.assoc)
  with w le show ?thesis
    unfolding window_covers_def by (metis add.commute less_diff_conv less_le_trans nat_add_left_cancel_less)
qed

lemma ram_read_into:
  assumes "ram_window io view A" and "window_covers A (res_address r + off) (unat n)"
    and "unat pos + unat n \<le> length buf"
  shows "read_into io r off n buf buf_ptr pos d =
    (Ok (take (unat pos) buf @ mem_bytes (view d) (res_address r + off) (unat n) @ drop (unat pos + unat n) buf), d)"
  using assms by (simp add: read_into_def hailo_resource_read_buffer_def ram_read_head)


text \<open>The abstract log: \<open>n\<close> bytes of a circular buffer of \<open>N\<close> bytes from position \<open>h\<close> on.\<close>

definition circ_bytes :: "(nat \<Rightarrow> u8) \<Rightarrow> nat \<Rightarrow> nat \<Rightarrow> nat \<Rightarrow> u8 list" where
  "circ_bytes f N h n = map (\<lambda>i. f ((h + i) mod N)) [0..<n]"

lemma circ_bytes_wrap:
  assumes "h < N" and "N \<le> h + n" and "n \<le> N"
  shows "circ_bytes f N h n = map (\<lambda>i. f (h + i)) [0..<N - h] @ map f [0..<n - (N - h)]"
proof (rule nth_equalityI)
  fix i assume "i < length (circ_bytes f N h n)"
  then have i: "i < n" by (simp add: circ_bytes_def)
  show "circ_bytes f N h n ! i = (map (\<lambda>i. f (h + i)) [0..<N - h] @ map f [0..<n - (N - h)]) ! i"
  proof (cases "i < N - h")
    case True then show ?thesis using i by (simp add: circ_bytes_def nth_append)
  next
    case False
    then have "N \<le> h + i" "h + i - N < N" "h + i - N = i - (N - h)" using assms i by auto
    then have "(h + i) mod N = i - (N - h)" by (simp add: le_mod_geq)
    with False i show ?thesis by (simp add: circ_bytes_def nth_append)
  qed
qed (use assms in \<open>simp add: circ_bytes_def\<close>)

lemma circ_bytes_straight: "h + n \<le> N \<Longrightarrow> circ_bytes f N h n = map (\<lambda>i. f (h + i)) [0..<n]"
  by (simp add: circ_bytes_def)

definition log_byte :: "(u64 \<Rightarrow> u8) \<Rightarrow> hailo_resource \<Rightarrow> nat \<Rightarrow> u8" where
  "log_byte m r j = m (res_address r + 8 + of_nat j)"

lemma mem_bytes_log:
  "mem_bytes m (res_address r + (8 + of_nat h)) k = map (\<lambda>i. log_byte m r (h + i)) [0..<k]"
  by (simp add: mem_bytes_def log_byte_def add.assoc)

definition log_pending :: "nat \<Rightarrow> nat \<Rightarrow> nat" where
  "log_pending host chip = (if host \<le> chip then chip - host else 4088 - (host - chip))"

lemma calculate_log_ready_to_read_pending:
  assumes "unat (host_offset h) < 4088" and "unat (chip_offset h) < 4088"
  shows "unat (calculate_log_ready_to_read h) = log_pending (unat (host_offset h)) (unat (chip_offset h))"
  using assms
  by (auto simp: calculate_log_ready_to_read_def log_pending_def Let_def word_le_nat_alt unat_sub_if_size
      fw_op_consts word_size)


definition log_host :: "(u64 \<Rightarrow> u8) \<Rightarrow> hailo_resource \<Rightarrow> nat" where
  "log_host m r = unat (word_at m (res_address r))"

definition log_chip :: "(u64 \<Rightarrow> u8) \<Rightarrow> hailo_resource \<Rightarrow> nat" where
  "log_chip m r = unat (word_at m (res_address r + 4))"

lemma header_of_mem:
  "FW_DEBUG_BUFFER_HEADER_of_bytes (mem_bytes m (res_address r) 8) =
     \<lparr> host_offset = word_at m (res_address r), chip_offset = word_at m (res_address r + 4) \<rparr>"
  by (simp add: FW_DEBUG_BUFFER_HEADER_of_bytes_def word_at_def add.assoc)

lemma copy_log_data_straight:
  assumes "ram_window io view A" and "window_covers A (res_address r) 4096"
    and "unat host + unat n < 4088" and "unat n \<le> length buf"
  shows "copy_log_data io r host n buf buf_ptr d =
    (Ok (circ_bytes (log_byte (view d) r) 4088 (unat host) (unat n) @ drop (unat n) buf, 8 + (host + n)), d)"
proof -
  have "unat (host + n) = unat host + unat n" using assms(3) by (intro unat_add_small) simp
  then have "\<not> DEBUG_BUFFER_DATA_SIZE \<le> host + n" using assms(3) by (simp add: fw_op_consts word_le_nat_alt)
  moreover have "window_covers A (res_address r + (8 + host)) (unat n)"
    using window_covers_sub [OF assms(2), of "8 + unat host" "unat n"] assms(3) by (simp add: add.assoc)
  moreover have "mem_bytes (view d) (res_address r + (8 + host)) (unat n) =
      circ_bytes (log_byte (view d) r) 4088 (unat host) (unat n)"
    using mem_bytes_log [of "view d" r "unat host"] assms(3) by (simp add: circ_bytes_straight)
  ultimately show ?thesis
    using assms(1,4) by (simp add: copy_log_data_def ram_read_into add.assoc)
qed

lemma copy_log_data_wrap:
  assumes "ram_window io view A" and "window_covers A (res_address r) 4096"
    and "unat host < 4088" and "4088 \<le> unat host + unat n" and "unat n \<le> 4088" and "unat n \<le> length buf"
  shows "copy_log_data io r host n buf buf_ptr d =
    (Ok (circ_bytes (log_byte (view d) r) 4088 (unat host) (unat n) @ drop (unat n) buf, 8 + (n - (4088 - host))), d)"
proof -
  have "unat (host + n) = unat host + unat n" using assms(3,5) by (intro unat_add_small) simp
  then have w: "DEBUG_BUFFER_DATA_SIZE \<le> host + n" using assms(4) by (simp add: fw_op_consts word_le_nat_alt)
  have f: "unat (4088 - host) = 4088 - unat host"
    using unat_sub_le [of host 4088] assms(3) by (simp add: word_le_nat_alt)
  have s: "unat (n - (4088 - host)) = unat n - (4088 - unat host)"
    using unat_sub_le [of "4088 - host" n] f assms(3,4) by (simp add: word_le_nat_alt)
  have c1: "window_covers A (res_address r + (8 + host)) (unat (4088 - host))"
    using window_covers_sub [OF assms(2), of "8 + unat host" "4088 - unat host"] assms(3) f by (simp add: add.assoc)
  have c2: "window_covers A (res_address r + 8) (unat (n - (4088 - host)))"
    using window_covers_sub [OF assms(2), of 8 "unat n - (4088 - unat host)"] assms(3,5) s by simp
  have m1: "mem_bytes (view d) (res_address r + (8 + host)) (unat (4088 - host)) =
      map (\<lambda>i. log_byte (view d) r (unat host + i)) [0..<4088 - unat host]"
    using mem_bytes_log [of "view d" r "unat host"] f by simp
  have m2: "mem_bytes (view d) (res_address r + 8) (unat (n - (4088 - host))) =
      map (log_byte (view d) r) [0..<unat n - (4088 - unat host)]"
    using mem_bytes_log [of "view d" r 0] s by simp
  show ?thesis
    using w assms ram_read_into [OF assms(1) c1, of 0 buf] ram_read_into [OF assms(1) c2, of "4088 - host"] f s m1 m2
    by (simp add: copy_log_data_def circ_bytes_wrap fw_op_consts drop_drop)
qed

lemma copy_log_data_circ:
  assumes "ram_window io view A" and "window_covers A (res_address r) 4096"
    and "unat host < 4088" and "unat n \<le> 4088" and "unat n \<le> length buf"
  shows "\<exists>off. copy_log_data io r host n buf buf_ptr d =
      (Ok (circ_bytes (log_byte (view d) r) 4088 (unat host) (unat n) @ drop (unat n) buf, off), d) \<and>
    ucast (off - 8) = (of_nat ((unat host + unat n) mod 4088) :: u32)"
proof (cases "4088 \<le> unat host + unat n")
  case True
  have f: "unat (4088 - host) = 4088 - unat host"
    using unat_sub_le [of host 4088] assms(3) by (simp add: word_le_nat_alt)
  then have "unat (n - (4088 - host)) = (unat host + unat n) mod 4088"
    using unat_sub_le [of "4088 - host" n] assms(3,4) True by (simp add: word_le_nat_alt le_mod_geq)
  then have "n - (4088 - host) = of_nat ((unat host + unat n) mod 4088)"
    by (metis word_eq_of_nat_unat)
  then have "ucast (8 + (n - (4088 - host)) - 8) = (of_nat ((unat host + unat n) mod 4088) :: u32)"
    by (simp add: ucast_of_nat_down)
  then show ?thesis using copy_log_data_wrap [OF assms(1-3) True assms(4,5)] by auto
next
  case False
  have "host + n = of_nat ((unat host + unat n) mod 4088)"
    using False by simp
  then have "ucast (8 + (host + n) - 8) = (of_nat ((unat host + unat n) mod 4088) :: u32)"
    by (simp add: ucast_of_nat_down)
  then show ?thesis using copy_log_data_straight [OF assms(1,2) _ assms(5)] False by auto
qed

text \<open>C31: The firmware log over a window that behaves as memory, with both offsets of its header inside the data
  area: \<open>hailo_read_firmware_log\<close> delivers the oldest \<open>min pending buffer_size\<close> bytes of the circular log in
  order (across the wrap-around too), says so in \<open>read_bytes\<close>, leaves the rest of the user buffer alone, and
  advances the host offset by as many bytes modulo the size of the data area, changing nothing else on the device.\<close>
theorem read_firmware_log_correct:
  assumes "ram_window io view A" and "window_covers A (res_address r) 4096" and "IS_ALIGNED (res_address r) 4"
    and "log_host (view d) r < 4088" and "log_chip (view d) r < 4088"
    and "length (log_buffer p) = 512" and "unat (log_buffer_size p) \<le> 512"
    and "n = min (log_pending (log_host (view d) r) (log_chip (view d) r)) (unat (log_buffer_size p))"
  shows "\<exists>p' d'. hailo_read_firmware_log io r hdr_ptr buf_ptr p d = (Ok p', d') \<and>
    unat (log_read_bytes p') = n \<and>
    log_buffer p' = circ_bytes (log_byte (view d) r) 4088 (log_host (view d) r) n @ drop n (log_buffer p) \<and>
    (view d' = view d \<and> n = 0 \<or>
     view d' = store_word (view d) (res_address r) (of_nat ((log_host (view d) r + n) mod 4088)))"
proof -
  define m where "m = view d"
  let ?h = "log_host m r"
  let ?hdr = "\<lparr> host_offset = word_at m (res_address r), chip_offset = word_at m (res_address r + 4) \<rparr>"
  define ready where "ready = calculate_log_ready_to_read ?hdr"
  have hdr: "hailo_resource_read_buffer io r 0 8 hdr_ptr d = (mem_bytes m (res_address r) 8, d)"
    using ram_read_head [OF assms(1), of r 0 8] window_covers_sub [OF assms(2), of 0 8]
    by (simp add: hailo_resource_read_buffer_def m_def)
  have ready: "unat ready = log_pending ?h (log_chip m r)"
    unfolding ready_def using assms(4,5)
    by (subst calculate_log_ready_to_read_pending) (simp_all add: log_host_def log_chip_def m_def)
  show ?thesis
  proof (cases "ready = 0")
    case True
    then have "n = 0" using ready assms(8) by (simp add: m_def)
    with True show ?thesis
      using assms(7) hdr
      by (simp add: hailo_read_firmware_log_def header_of_mem ready_def [symmetric] MAX_FW_LOG_BUFFER_LENGTH_def
          circ_bytes_def)
  next
    case False
    have r: "unat (min ready (log_buffer_size p)) = n"
      using ready assms(8) by (simp add: m_def min_def word_le_nat_alt)
    have n512: "n \<le> 512" using assms(7,8) by simp
    have h: "unat (ucast (word_at m (res_address r)) :: u64) = ?h" by (simp add: log_host_def)
    obtain off where c: "copy_log_data io r (ucast (word_at m (res_address r))) (min ready (log_buffer_size p))
        (log_buffer p) buf_ptr d =
          (Ok (circ_bytes (log_byte m r) 4088 ?h n @ drop n (log_buffer p), off), d)"
      and o: "ucast (off - 8) = (of_nat ((?h + n) mod 4088) :: u32)"
      using copy_log_data_circ [OF assms(1,2), of "ucast (word_at m (res_address r))"
          "min ready (log_buffer_size p)" "log_buffer p" buf_ptr d] assms(4-6) n512
      unfolding h r m_def [symmetric] by auto
    have "res_address r \<in> A"
      using assms(2) [unfolded window_covers_def, rule_format, of 0] assms(3) by (simp add: align_aligned)
    then have "view (hailo_resource_write32 io r 0 (ucast (off - 8)) d) =
        store_word m (res_address r) (of_nat ((?h + n) mod 4088))"
      using assms(1,3) o by (simp add: hailo_resource_write32_def ram_write32 m_def)
    with c r False hdr assms(7) show ?thesis
      by (simp add: hailo_read_firmware_log_def header_of_mem ready_def [symmetric] MAX_FW_LOG_BUFFER_LENGTH_def
          m_def [symmetric] Let_def)
  qed
qed

definition sample_log :: "u64 \<Rightarrow> u8" where
  "sample_log a = (if a = 0x3000 then 0xF6 else if a = 0x3001 then 0xF else if a = 0x3004 then 2
     else if a < 0x3008 then 0 else 7)"

lemma sample_log_offsets:
  "log_host sample_log \<lparr> res_address = 0x3000, res_size = 4096 \<rparr> = 4086"
  "log_chip sample_log \<lparr> res_address = 0x3000, res_size = 4096 \<rparr> = 2"
  by (simp_all add: log_host_def log_chip_def word_at_def u32_of_bytes_def sample_log_def)

definition sample_log_params :: hailo_read_log_params where
  "sample_log_params = \<lparr> log_is_app_cpu = True, log_buffer_size = 3, log_buffer = replicate 512 0, log_read_bytes = 0 \<rparr>"

theorem read_firmware_log_correct_witness:
  "log_pending 4086 2 = 4 \<and>
   (\<exists>p' d'. hailo_read_firmware_log ram_mmio \<lparr> res_address = 0x3000, res_size = 4096 \<rparr> 0x10 0x21
        sample_log_params sample_log = (Ok p', d') \<and> unat (log_read_bytes p') = 3)"
proof -
  let ?r = "\<lparr> res_address = 0x3000, res_size = 4096 \<rparr>"
  have w: "window_covers UNIV (res_address ?r) 4096" "IS_ALIGNED (res_address ?r) 4"
    by (simp_all add: window_covers_def IS_ALIGNED_def)
  have l: "log_host sample_log ?r < 4088" "log_chip sample_log ?r < 4088"
    by (simp_all add: sample_log_offsets)
  have p: "length (log_buffer sample_log_params) = 512" "unat (log_buffer_size sample_log_params) \<le> 512"
    "3 = min (log_pending (log_host sample_log ?r) (log_chip sample_log ?r)) (unat (log_buffer_size sample_log_params))"
    by (simp_all add: sample_log_params_def sample_log_offsets log_pending_def)
  have q: "log_pending 4086 2 = 4" by (simp add: log_pending_def)
  from read_firmware_log_correct [of ram_mmio "\<lambda>m. m" UNIV ?r sample_log sample_log_params 3 "0x10" "0x21",
      OF ram_window_ram_mmio w l p] q
  show ?thesis by blast
qed

section \<open>Notifications\<close>

lemma ram_write16:
  assumes "ram_window io view A" and "res_address r \<in> A" and "IS_ALIGNED (res_address r) 4"
  shows "view (hailo_resource_write16 io r 0 v d) =
    (view d)(res_address r := ucast v, res_address r + 1 := ucast (drop_bit 8 v))"
proof -
  let ?a = "res_address r"
  have a: "ALIGN_TO_32_BIT ?a = ?a" using assms(3) by (rule align_aligned)
  let ?w = "WRITE_BITS_AT_OFFSET 16 0 (word_at (view d) ?a) (ucast v)"
  have b: "u32_bytes ?w = [ucast v, ucast (drop_bit 8 v), view d (?a + 2), view d (?a + 3)]"
    unfolding word_at_def u32_bytes_def
    by (simp, intro conjI; rule bit_word_eqI;
      auto simp: bit_WRITE_BITS u32_of_bytes_def bit_simps dest: bit_imp_le_length)
  have "view (hailo_resource_write16 io r 0 v d) = store_word (view d) ?a ?w"
    using assms a by (simp add: hailo_resource_write16_def ram_read32 ram_write32 offset_in_bits_def c_macros)
  also have "\<dots> = (view d)(?a := ucast v, ?a + 1 := ucast (drop_bit 8 v))"
    using b by (auto simp: store_word_def u32_bytes_def fun_upd_def)
  finally show ?thesis .
qed

definition notif_in_use :: "(u64 \<Rightarrow> u8) \<Rightarrow> hailo_resource \<Rightarrow> u16" where
  "notif_in_use m r = u16_of_bytes (m (res_address r)) (m (res_address r + 1))"

definition notif_len :: "(u64 \<Rightarrow> u8) \<Rightarrow> hailo_resource \<Rightarrow> u16" where
  "notif_len m r = u16_of_bytes (m (res_address r + 2)) (m (res_address r + 3))"

lemma details_of_mem:
  "d2h_buffer_details_of_bytes (mem_bytes m (res_address r) 4) =
     \<lparr> is_buffer_in_use = notif_in_use m r, d2h_buffer_len = notif_len m r \<rparr>"
  by (simp add: d2h_buffer_details_of_bytes_def notif_in_use_def notif_len_def)

text \<open>A firmware notification over a window that behaves as memory: when the firmware has marked its buffer in
  use and the length fits the 1500 bytes of the caller's buffer, \<open>hailo_read_firmware_notification\<close> delivers
  exactly that many bytes, clears the in-use mark and changes nothing else on the device; otherwise it returns
  \<open>EINVAL\<close> and changes nothing.\<close>
theorem read_firmware_notification_correct:
  assumes "ram_window io view A" and "window_covers A (res_address r) 1504" and "IS_ALIGNED (res_address r) 4"
    and "length (notif_buffer nt) = 1500" and "n = unat (notif_len (view d) r)"
  shows "if notif_in_use (view d) r \<noteq> 0 \<and> n \<le> 1500
    then \<exists>d'. hailo_read_firmware_notification io r hdr_ptr buf_ptr nt d =
        (Ok \<lparr> notif_buffer_len = of_nat n,
              notif_buffer = mem_bytes (view d) (res_address r + 4) n @ drop n (notif_buffer nt) \<rparr>, d') \<and>
        view d' = (view d)(res_address r := 0, res_address r + 1 := 0)
    else hailo_read_firmware_notification io r hdr_ptr buf_ptr nt d = (Err EINVAL, d)"
proof -
  have hdr: "hailo_resource_read_buffer io r 0 4 hdr_ptr d = (mem_bytes (view d) (res_address r) 4, d)"
    using ram_read_head [OF assms(1), of r 0 4] window_covers_sub [OF assms(2), of 0 4]
    by (simp add: hailo_resource_read_buffer_def)
  have A: "res_address r \<in> A"
    using assms(2) [unfolded window_covers_def, rule_format, of 0] assms(3) by (simp add: align_aligned)
  have rd: "read_into io r 4 (ucast (notif_len (view d) r)) (notif_buffer nt) buf_ptr 0 d =
      (Ok (mem_bytes (view d) (res_address r + 4) n @ drop n (notif_buffer nt)), d)" if "n \<le> 1500"
    using ram_read_into [OF assms(1), of r 4 "ucast (notif_len (view d) r)" 0 "notif_buffer nt" buf_ptr d]
      window_covers_sub [OF assms(2), of 4 n] that assms(4,5) by simp
  show ?thesis
  proof (cases "notif_in_use (view d) r \<noteq> 0 \<and> n \<le> 1500")
    case True
    then show ?thesis
      using hdr rd ram_write16 [OF assms(1) A assms(3), of 0 d]
      by (simp add: hailo_read_firmware_notification_def details_of_mem MAX_NOTIFICATION_LENGTH_def assms(5))
  next
    case False
    then show ?thesis
      using hdr by (auto simp: hailo_read_firmware_notification_def details_of_mem MAX_NOTIFICATION_LENGTH_def assms(5))
  qed
qed

definition sample_notif_mem :: "u64 \<Rightarrow> u8" where
  "sample_notif_mem a = (if a = 0x3000 then 1 else if a = 0x3002 then 2 else if a < 0x3004 then 0 else 9)"

definition sample_notification :: hailo_d2h_notification where
  "sample_notification = \<lparr> notif_buffer_len = 0, notif_buffer = replicate 1500 0 \<rparr>"

theorem read_firmware_notification_correct_witness:
  "\<exists>d'. hailo_read_firmware_notification ram_mmio \<lparr> res_address = 0x3000, res_size = 1504 \<rparr> 0x10 0x21
      sample_notification sample_notif_mem =
    (Ok \<lparr> notif_buffer_len = 2, notif_buffer = [9, 9] @ drop 2 (notif_buffer sample_notification) \<rparr>, d')"
proof -
  let ?r = "\<lparr> res_address = 0x3000, res_size = 1504 \<rparr>"
  have c: "window_covers UNIV (res_address ?r) 1504" "IS_ALIGNED (res_address ?r) 4"
    "length (notif_buffer sample_notification) = 1500" "2 = unat (notif_len sample_notif_mem ?r)"
    by (simp_all add: window_covers_def IS_ALIGNED_def notif_len_def u16_of_bytes_def sample_notif_mem_def
        sample_notification_def)
  have u: "notif_in_use sample_notif_mem ?r \<noteq> 0"
    by (simp add: notif_in_use_def u16_of_bytes_def sample_notif_mem_def)
  have b: "mem_bytes sample_notif_mem 0x3004 2 = [9, 9]"
    by (simp add: mem_bytes_def upt_rec sample_notif_mem_def)
  from read_firmware_notification_correct [of ram_mmio "\<lambda>m. m" UNIV ?r sample_notification 2 sample_notif_mem
      "0x10" "0x21", OF ram_window_ram_mmio c] u b
  show ?thesis by auto
qed

end
