(* ===== verification/Pcie_Common.thy ===== *)
theory Pcie_Common
  imports Pcie_Boards Control_Protocol Fw_Operation
begin

text \<open>
  The device side of the PCIe driver (\<open>src/common/pcie_common.c\<close>): interrupt sources, firmware controls, the address
  translation (ATR) window, reading and writing device memory through it, loading the firmware files, and the waits for
  firmware and boot loader. BARs are resources over the parametric device of \<open>Resource\<close>. Files come from the kernel
  (\<open>request_firmware_direct\<close>, a parameter from file names to their bytes or an error). Pointers to host buffers matter
  only for the alignment test of the buffer copies and are passed along.
\<close>

definition BSC_IMASK_HOST :: u64 where "BSC_IMASK_HOST = 0x0188"
definition BCS_ISTATUS_HOST :: u64 where "BCS_ISTATUS_HOST = 0x018C"
definition BCS_SOURCE_INTERRUPT_PER_CHANNEL :: u64 where "BCS_SOURCE_INTERRUPT_PER_CHANNEL = 0x400"
definition BCS_DESTINATION_INTERRUPT_PER_CHANNEL :: u64 where "BCS_DESTINATION_INTERRUPT_PER_CHANNEL = 0x500"
definition BCS_ISTATUS_HOST_SW_IRQ_MASK :: u32 where "BCS_ISTATUS_HOST_SW_IRQ_MASK = 0xFF000000"
definition BCS_ISTATUS_HOST_SW_IRQ_SHIFT :: nat where "BCS_ISTATUS_HOST_SW_IRQ_SHIFT = 24"
definition BCS_ISTATUS_HOST_VDMA_SRC_IRQ_MASK :: u32 where "BCS_ISTATUS_HOST_VDMA_SRC_IRQ_MASK = 0x000000FF"
definition BCS_ISTATUS_HOST_VDMA_DEST_IRQ_MASK :: u32 where "BCS_ISTATUS_HOST_VDMA_DEST_IRQ_MASK = 0x0000FF00"
definition BSC_ISTATUS_HOST_MASK :: u32 where
  "BSC_ISTATUS_HOST_MASK = BCS_ISTATUS_HOST_SW_IRQ_MASK OR BCS_ISTATUS_HOST_VDMA_SRC_IRQ_MASK OR BCS_ISTATUS_HOST_VDMA_DEST_IRQ_MASK"
definition ATR_PARAM :: u32 where "ATR_PARAM = 0x17"
definition ATR_SRC_ADDR :: u32 where "ATR_SRC_ADDR = 0x0"
definition ATR_TRSL_PARAM :: u32 where "ATR_TRSL_PARAM = 6"
definition ATR_TABLE_SIZE :: u32 where "ATR_TABLE_SIZE = 0x1000"
definition ATR_TABLE_SIZE_MASK :: u32 where "ATR_TABLE_SIZE_MASK = 0x1000 - 1"
definition ATR_PCIE_BRIDGE_OFFSET :: "u32 \<Rightarrow> u64" where "ATR_PCIE_BRIDGE_OFFSET atr_index = ucast (0x700 + atr_index * 0x20)"
definition MAXIMUM_APP_FIRMWARE_CODE_SIZE :: u32 where "MAXIMUM_APP_FIRMWARE_CODE_SIZE = 0x40000"
definition MAXIMUM_CORE_FIRMWARE_CODE_SIZE :: u32 where "MAXIMUM_CORE_FIRMWARE_CODE_SIZE = 0x20000"
definition FIRMWARE_LOAD_WAIT_MAX_RETRIES :: nat where "FIRMWARE_LOAD_WAIT_MAX_RETRIES = 100"
definition PCIE_REQUEST_SIZE_OFFSET :: u64 where "PCIE_REQUEST_SIZE_OFFSET = 0x640"
definition PCIE_CONFIG_VENDOR_OFFSET :: u64 where "PCIE_CONFIG_VENDOR_OFFSET = 0x0098"
definition HAILO_PCIE_MAX_ATR_TABLE_INDEX :: u32 where "HAILO_PCIE_MAX_ATR_TABLE_INDEX = 3"
definition PCIE_CONTROL_SECTION_ADDRESS_H8 :: u32 where "PCIE_CONTROL_SECTION_ADDRESS_H8 = 0x60000000"
definition PCIE_BLOCK_ADDRESS_ATR1 :: u32 where "PCIE_BLOCK_ADDRESS_ATR1 = 0x200000"
definition FW_CODE_SECTION_ALIGNMENT :: u32 where "FW_CODE_SECTION_ALIGNMENT = 4"
definition PCI_VENDOR_ID_HAILO :: u16 where "PCI_VENDOR_ID_HAILO = 0x1e60"
definition COUNT_UNTIL_REACH_BOOTLOADER :: nat where "COUNT_UNTIL_REACH_BOOTLOADER = 10"
definition FW_ACCESS_APP_CPU_CONTROL_MASK :: u32 where "FW_ACCESS_APP_CPU_CONTROL_MASK = 1"
definition FW_ACCESS_CORE_CPU_CONTROL_MASK :: u32 where "FW_ACCESS_CORE_CPU_CONTROL_MASK = 2"
definition FW_ACCESS_DRIVER_SHUTDOWN_MASK :: u32 where "FW_ACCESS_DRIVER_SHUTDOWN_MASK = 4"
definition FW_ACCESS_SOFT_RESET_MASK :: u32 where "FW_ACCESS_SOFT_RESET_MASK = 8"
definition FW_ACCESS_SOC_CONTROL_MASK :: u32 where "FW_ACCESS_SOC_CONTROL_MASK = 8"

lemmas pcie_consts = BSC_IMASK_HOST_def BCS_ISTATUS_HOST_def BCS_SOURCE_INTERRUPT_PER_CHANNEL_def
  BCS_DESTINATION_INTERRUPT_PER_CHANNEL_def BCS_ISTATUS_HOST_SW_IRQ_MASK_def BCS_ISTATUS_HOST_SW_IRQ_SHIFT_def
  BCS_ISTATUS_HOST_VDMA_SRC_IRQ_MASK_def BCS_ISTATUS_HOST_VDMA_DEST_IRQ_MASK_def BSC_ISTATUS_HOST_MASK_def
  ATR_PARAM_def ATR_SRC_ADDR_def ATR_TRSL_PARAM_def ATR_TABLE_SIZE_def ATR_TABLE_SIZE_MASK_def ATR_PCIE_BRIDGE_OFFSET_def
  HAILO_PCIE_MAX_ATR_TABLE_INDEX_def

record hailo_pcie_resources =
  pr_config :: hailo_resource
  pr_vdma_registers :: hailo_resource
  pr_fw_access :: hailo_resource
  pr_board_type :: hailo_board_type
  pr_accelerator_type :: hailo_accelerator_type

record hailo_atr_config =
  atr_param :: u32
  atr_src :: u32
  atr_trsl_addr_1 :: u32
  atr_trsl_addr_2 :: u32
  atr_trsl_param :: u32

definition bytes_of_atr :: "hailo_atr_config \<Rightarrow> u8 list" where
  "bytes_of_atr atr = u32_bytes (atr_param atr) @ u32_bytes (atr_src atr) @ u32_bytes (atr_trsl_addr_1 atr) @
     u32_bytes (atr_trsl_addr_2 atr) @ u32_bytes (atr_trsl_param atr)"

definition u32_at :: "u8 list \<Rightarrow> nat \<Rightarrow> u32" where
  "u32_at bs i = u32_of_bytes (bs ! i) (bs ! (i + 1)) (bs ! (i + 2)) (bs ! (i + 3))"

definition u64_at :: "u8 list \<Rightarrow> nat \<Rightarrow> u64" where
  "u64_at bs i = ucast (u32_at bs i) OR push_bit 32 (ucast (u32_at bs (i + 4)))"

definition u64_bytes :: "u64 \<Rightarrow> u8 list" where
  "u64_bytes x = u32_bytes (ucast x) @ u32_bytes (ucast (drop_bit 32 x))"

definition put_bytes :: "nat \<Rightarrow> u8 list \<Rightarrow> u8 list \<Rightarrow> u8 list" where
  "put_bytes i new bs = take i bs @ new @ drop (i + length new) bs"

definition atr_of_bytes :: "u8 list \<Rightarrow> hailo_atr_config" where
  "atr_of_bytes bs = \<lparr> atr_param = u32_at bs 0, atr_src = u32_at bs 4, atr_trsl_addr_1 = u32_at bs 8,
     atr_trsl_addr_2 = u32_at bs 12, atr_trsl_param = u32_at bs 16 \<rparr>"

section \<open>Interrupts\<close>

record hailo_pcie_interrupt_source =
  is_sw_interrupts :: u32
  is_vdma_channels_bitmap :: u32

definition read_and_clear_reg :: "'d mmio \<Rightarrow> hailo_resource \<Rightarrow> u64 \<Rightarrow> 'd \<Rightarrow> u32 \<times> 'd" where
  "read_and_clear_reg io resource offset d =
     (let (v, d1) = hailo_resource_read32 io resource offset d
      in if v \<noteq> 0 then (v, hailo_resource_write32 io resource offset v d1) else (v, d1))"

definition hailo_pcie_read_interrupt ::
    "'d mmio \<Rightarrow> hailo_pcie_resources \<Rightarrow> 'd \<Rightarrow> bool \<times> hailo_pcie_interrupt_source \<times> 'd" where
  "hailo_pcie_read_interrupt io resources d =
     (let source = \<lparr> is_sw_interrupts = 0, is_vdma_channels_bitmap = 0 \<rparr>;
          (istatus_host, d1) = read_and_clear_reg io (pr_config resources) BCS_ISTATUS_HOST d
      in if istatus_host = 0 then (False, source, d1)
         else
          let source1 = source\<lparr>is_sw_interrupts := drop_bit BCS_ISTATUS_HOST_SW_IRQ_SHIFT istatus_host\<rparr>;
              (source2, d2) =
                (if istatus_host AND BCS_ISTATUS_HOST_VDMA_SRC_IRQ_MASK \<noteq> 0
                 then let (v, d2) = read_and_clear_reg io (pr_config resources) BCS_SOURCE_INTERRUPT_PER_CHANNEL d1
                      in (source1\<lparr>is_vdma_channels_bitmap := is_vdma_channels_bitmap source1 OR v\<rparr>, d2)
                 else (source1, d1));
              (source3, d3) =
                (if istatus_host AND BCS_ISTATUS_HOST_VDMA_DEST_IRQ_MASK \<noteq> 0
                 then let (v, d3) = read_and_clear_reg io (pr_config resources) BCS_DESTINATION_INTERRUPT_PER_CHANNEL d2
                      in (source2\<lparr>is_vdma_channels_bitmap := is_vdma_channels_bitmap source2 OR v\<rparr>, d3)
                 else (source2, d2))
          in (True, source3, d3))"

definition hailo_pcie_enable_interrupts :: "'d mmio \<Rightarrow> hailo_pcie_resources \<Rightarrow> 'd \<Rightarrow> 'd" where
  "hailo_pcie_enable_interrupts io resources d =
     (let (msk, d1) = hailo_resource_read32 io (pr_config resources) BSC_IMASK_HOST d;
          d2 = hailo_resource_write32 io (pr_config resources) BSC_IMASK_HOST (msk OR BSC_ISTATUS_HOST_MASK) d1;
          d3 = hailo_resource_write32 io (pr_config resources) BCS_ISTATUS_HOST 0xFFFFFFFF d2;
          d4 = hailo_resource_write32 io (pr_config resources) BCS_DESTINATION_INTERRUPT_PER_CHANNEL 0xFFFFFFFF d3
      in hailo_resource_write32 io (pr_config resources) BCS_SOURCE_INTERRUPT_PER_CHANNEL 0xFFFFFFFF d4)"

definition hailo_pcie_disable_interrupts :: "'d mmio \<Rightarrow> hailo_pcie_resources \<Rightarrow> 'd \<Rightarrow> 'd" where
  "hailo_pcie_disable_interrupts io resources d = hailo_resource_write32 io (pr_config resources) BSC_IMASK_HOST 0 d"

definition hailo_pcie_update_channel_interrupts_mask :: "hailo_pcie_resources \<Rightarrow> u32 \<Rightarrow> 'd \<Rightarrow> 'd" where
  "hailo_pcie_update_channel_interrupts_mask resources channels_bitmap d = d"

section \<open>Address translation\<close>

definition hailo_pcie_configure_atr_table ::
    "'d mmio \<Rightarrow> hailo_resource \<Rightarrow> u64 \<Rightarrow> u32 \<Rightarrow> u64 \<Rightarrow> 'd \<Rightarrow> unit result \<times> 'd" where
  "hailo_pcie_configure_atr_table io bridge_config trsl_addr atr_index atr_ptr d =
     (let atr = \<lparr> atr_param = ATR_PARAM OR push_bit 12 atr_index, atr_src = ATR_SRC_ADDR,
                  atr_trsl_addr_1 = ucast (trsl_addr AND 0xFFFFFFFF), atr_trsl_addr_2 = ucast (drop_bit 32 trsl_addr),
                  atr_trsl_param = ATR_TRSL_PARAM \<rparr>
      in if HAILO_PCIE_MAX_ATR_TABLE_INDEX < atr_index then (Fault Bug_on, d)
         else hailo_resource_write_buffer io bridge_config (ATR_PCIE_BRIDGE_OFFSET atr_index) (bytes_of_atr atr) atr_ptr d)"

definition hailo_pcie_read_atr_table ::
    "'d mmio \<Rightarrow> hailo_resource \<Rightarrow> u32 \<Rightarrow> u64 \<Rightarrow> 'd \<Rightarrow> hailo_atr_config result \<times> 'd" where
  "hailo_pcie_read_atr_table io bridge_config atr_index atr_ptr d =
     (if HAILO_PCIE_MAX_ATR_TABLE_INDEX < atr_index then (Fault Bug_on, d)
      else let (bs, d1) = hailo_resource_read_buffer io bridge_config (ATR_PCIE_BRIDGE_OFFSET atr_index) 20 atr_ptr d
           in (Ok (atr_of_bytes bs), d1))"

text \<open>
  One chunk: the ATR is set to its base, the bytes go through the BAR; the results of both are ignored. \<open>sp\<close> is the address of
  the ATR structure on the stack of the caller.
\<close>

definition write_memory_chunk ::
    "'d mmio \<Rightarrow> hailo_pcie_resources \<Rightarrow> u64 \<Rightarrow> u32 \<Rightarrow> u8 list \<Rightarrow> u64 \<Rightarrow> u32 \<Rightarrow> u64 \<Rightarrow> 'd \<Rightarrow> unit result \<times> 'd" where
  "write_memory_chunk io resources dest dest_offset src src_ptr len sp d =
     (if ucast (res_size (pr_fw_access resources)) < dest_offset + len then (Fault Bug_on, d)
      else if length src < unat len then (Fault Out_of_bounds, d)
      else let (_, d1) = hailo_pcie_configure_atr_table io (pr_config resources) dest 0 sp d;
               (_, d2) = hailo_resource_write_buffer io (pr_fw_access resources) (ucast dest_offset) (take (unat len) src) src_ptr d1
           in (Ok (), d2))"

definition read_memory_chunk ::
    "'d mmio \<Rightarrow> hailo_pcie_resources \<Rightarrow> u64 \<Rightarrow> u32 \<Rightarrow> u64 \<Rightarrow> u32 \<Rightarrow> u64 \<Rightarrow> 'd \<Rightarrow> u8 list result \<times> 'd" where
  "read_memory_chunk io resources src src_offset dest_ptr len sp d =
     (if ucast (res_size (pr_fw_access resources)) < src_offset + len then (Fault Bug_on, d)
      else let (_, d1) = hailo_pcie_configure_atr_table io (pr_config resources) src 0 sp d;
               (bs, d2) = hailo_resource_read_buffer io (pr_fw_access resources) (ucast src_offset) (unat len) dest_ptr d1
           in (Ok bs, d2))"

text \<open>
  The \<open>while (offset < len)\<close> loops. The offset never exceeds \<open>len\<close>, which is below \<open>2^32\<close>, so it is a natural number here.
  In C, \<open>~ATR_TABLE_SIZE_MASK\<close> is a 32-bit value: the base address is the low word of the address with its low 12 bits
  cleared.
\<close>

definition chunk_size :: "nat \<Rightarrow> nat" where
  "chunk_size rest = min rest (unat ATR_TABLE_SIZE)"

lemma chunk_size_decreases: "offset < len \<Longrightarrow> len - (offset + chunk_size (len - offset)) < len - offset"
  by (auto simp: chunk_size_def ATR_TABLE_SIZE_def)

function write_chunks ::
    "'d mmio \<Rightarrow> hailo_pcie_resources \<Rightarrow> u64 \<Rightarrow> u8 list \<Rightarrow> u64 \<Rightarrow> nat \<Rightarrow> nat \<Rightarrow> u64 \<Rightarrow> 'd \<Rightarrow> unit result \<times> 'd" where
  "write_chunks io resources dest src src_ptr offset len sp d =
     (if offset < len
      then let chunk_len = chunk_size (len - offset)
           in case write_memory_chunk io resources (dest + of_nat offset) 0 (drop offset src) (src_ptr + of_nat offset)
                     (of_nat chunk_len) sp d of
                (Ok _, d1) \<Rightarrow> write_chunks io resources dest src src_ptr (offset + chunk_len) len sp d1
              | (Err e, d1) \<Rightarrow> (Err e, d1)
              | (Fault f, d1) \<Rightarrow> (Fault f, d1)
      else (Ok (), d))"
  by pat_completeness auto
termination
  by (relation "measure (\<lambda>(io, resources, dest, src, src_ptr, offset, len, sp, d). len - offset)")
    (simp_all add: chunk_size_decreases)

function read_chunks ::
    "'d mmio \<Rightarrow> hailo_pcie_resources \<Rightarrow> u64 \<Rightarrow> u64 \<Rightarrow> nat \<Rightarrow> nat \<Rightarrow> u64 \<Rightarrow> 'd \<Rightarrow> u8 list result \<times> 'd" where
  "read_chunks io resources src dest_ptr offset len sp d =
     (if offset < len
      then let chunk_len = chunk_size (len - offset)
           in case read_memory_chunk io resources (src + of_nat offset) 0 (dest_ptr + of_nat offset) (of_nat chunk_len) sp d of
                (Ok bs, d1) \<Rightarrow>
                  (case read_chunks io resources src dest_ptr (offset + chunk_len) len sp d1 of
                     (r, d2) \<Rightarrow> (bind_r r (\<lambda>bs'. Ok (bs @ bs')), d2))
              | (Err e, d1) \<Rightarrow> (Err e, d1)
              | (Fault f, d1) \<Rightarrow> (Fault f, d1)
      else (Ok [], d))"
  by pat_completeness auto
termination
  by (relation "measure (\<lambda>(io, resources, src, dest_ptr, offset, len, sp, d). len - offset)")
    (simp_all add: chunk_size_decreases)

declare write_chunks.simps [simp del] read_chunks.simps [simp del]

definition saved_trsl :: "hailo_atr_config \<Rightarrow> u64" where
  "saved_trsl atr = push_bit 32 (ucast (atr_trsl_addr_2 atr)) OR ucast (atr_trsl_addr_1 atr)"

definition base_address :: "u64 \<Rightarrow> u64" where
  "base_address a = a AND ucast (NOT ATR_TABLE_SIZE_MASK)"

definition first_chunk :: "u64 \<Rightarrow> u32 \<Rightarrow> u32" where
  "first_chunk a len = min (ucast (base_address a + ucast ATR_TABLE_SIZE - a)) len"

definition write_memory ::
    "'d mmio \<Rightarrow> hailo_pcie_resources \<Rightarrow> u64 \<Rightarrow> u8 list \<Rightarrow> u64 \<Rightarrow> u32 \<Rightarrow> u64 \<Rightarrow> 'd \<Rightarrow> unit result \<times> 'd" where
  "write_memory io resources dest src src_ptr len sp d =
     (case hailo_pcie_read_atr_table io (pr_config resources) 0 sp d of
        (Err e, d0) \<Rightarrow> (Err e, d0)
      | (Fault f, d0) \<Rightarrow> (Fault f, d0)
      | (Ok previous_atr, d0) \<Rightarrow>
          let (r, offset, d1) =
                (if base_address dest \<noteq> dest
                 then let chunk_len = first_chunk dest len;
                          (r, d1) = write_memory_chunk io resources (base_address dest) (ucast (dest - base_address dest)) src src_ptr
                                      chunk_len sp d0
                      in (r, unat chunk_len, d1)
                 else (Ok (), 0, d0))
          in case r of
               Err e \<Rightarrow> (Err e, d1)
             | Fault f \<Rightarrow> (Fault f, d1)
             | Ok _ \<Rightarrow>
                 (case write_chunks io resources dest src src_ptr offset (unat len) sp d1 of
                    (Err e, d2) \<Rightarrow> (Err e, d2)
                  | (Fault f, d2) \<Rightarrow> (Fault f, d2)
                  | (Ok _, d2) \<Rightarrow>
                      let (_, d3) = hailo_pcie_configure_atr_table io (pr_config resources) (saved_trsl previous_atr) 0 sp d2
                      in (Ok (), d3)))"

definition read_memory ::
    "'d mmio \<Rightarrow> hailo_pcie_resources \<Rightarrow> u64 \<Rightarrow> u64 \<Rightarrow> u32 \<Rightarrow> u64 \<Rightarrow> 'd \<Rightarrow> u8 list result \<times> 'd" where
  "read_memory io resources src dest_ptr len sp d =
     (case hailo_pcie_read_atr_table io (pr_config resources) 0 sp d of
        (Err e, d0) \<Rightarrow> (Err e, d0)
      | (Fault f, d0) \<Rightarrow> (Fault f, d0)
      | (Ok previous_atr, d0) \<Rightarrow>
          let (r, offset, d1) =
                (if base_address src \<noteq> src
                 then let chunk_len = first_chunk src len;
                          (r, d1) = read_memory_chunk io resources (base_address src) (ucast (src - base_address src)) dest_ptr
                                      chunk_len sp d0
                      in (r, unat chunk_len, d1)
                 else (Ok [], 0, d0))
          in case r of
               Err e \<Rightarrow> (Err e, d1)
             | Fault f \<Rightarrow> (Fault f, d1)
             | Ok bs \<Rightarrow>
                 (case read_chunks io resources src dest_ptr offset (unat len) sp d1 of
                    (Err e, d2) \<Rightarrow> (Err e, d2)
                  | (Fault f, d2) \<Rightarrow> (Fault f, d2)
                  | (Ok bs', d2) \<Rightarrow>
                      let (_, d3) = hailo_pcie_configure_atr_table io (pr_config resources) (saved_trsl previous_atr) 0 sp d2
                      in (Ok (bs @ bs'), d3)))"

end
