(* ===== verification/Pcie_Firmware.thy ===== *)
theory Pcie_Firmware
  imports Pcie_Common
begin

text \<open>
  The firmware side of \<open>src/common/pcie_common.c\<close>: firmware controls, notifications to the firmware, validation of an image,
  loading the files of a stage and triggering the boot, and the waits for firmware and boot loader.
\<close>

section \<open>Waking the firmware\<close>

definition raise_ready :: "'d mmio \<Rightarrow> hailo_pcie_resources \<Rightarrow> u32 \<Rightarrow> 'd \<Rightarrow> 'd" where
  "raise_ready io resources v d =
     hailo_resource_write32 io (pr_fw_access resources) (ucast (raise_ready_offset (fw_addresses (pr_board_type resources)))) v d"

definition hailo_pcie_write_firmware_driver_shutdown :: "'d mmio \<Rightarrow> hailo_pcie_resources \<Rightarrow> 'd \<Rightarrow> 'd" where
  "hailo_pcie_write_firmware_driver_shutdown io resources d = raise_ready io resources FW_ACCESS_DRIVER_SHUTDOWN_MASK d"

definition hailo_pcie_write_firmware_soft_reset :: "'d mmio \<Rightarrow> hailo_pcie_resources \<Rightarrow> 'd \<Rightarrow> 'd" where
  "hailo_pcie_write_firmware_soft_reset io resources d = raise_ready io resources FW_ACCESS_SOFT_RESET_MASK d"

definition offsetof_atr_trsl_addr_1 :: u64 where "offsetof_atr_trsl_addr_1 = 8"

definition hailo_pcie_is_firmware_loaded :: "'d mmio \<Rightarrow> hailo_pcie_resources \<Rightarrow> 'd \<Rightarrow> bool \<times> 'd" where
  "hailo_pcie_is_firmware_loaded io resources d =
     (if pr_board_type resources = HAILO_BOARD_TYPE_HAILO8
      then let (atr_value, d1) = hailo_resource_read32 io (pr_config resources) (ATR_PCIE_BRIDGE_OFFSET 0 + offsetof_atr_trsl_addr_1) d
           in (PCIE_CONTROL_SECTION_ADDRESS_H8 = atr_value, d1)
      else let (atr_value, d1) = hailo_resource_read32 io (pr_config resources) (ATR_PCIE_BRIDGE_OFFSET 1 + offsetof_atr_trsl_addr_1) d
           in (PCIE_BLOCK_ADDRESS_ATR1 = atr_value, d1))"

text \<open>The loop with at most \<open>n\<close> retries; the sleep between them has no effect on the model's state.\<close>

fun wait_firmware :: "nat \<Rightarrow> 'd mmio \<Rightarrow> hailo_pcie_resources \<Rightarrow> 'd \<Rightarrow> bool \<times> 'd" where
  "wait_firmware 0 io resources d = (False, d)"
| "wait_firmware (Suc n) io resources d =
     (let (loaded, d1) = hailo_pcie_is_firmware_loaded io resources d
      in if loaded then (True, d1) else wait_firmware n io resources d1)"

definition hailo_pcie_wait_for_firmware :: "'d mmio \<Rightarrow> hailo_pcie_resources \<Rightarrow> 'd \<Rightarrow> bool \<times> 'd" where
  "hailo_pcie_wait_for_firmware io resources d = wait_firmware FIRMWARE_LOAD_WAIT_MAX_RETRIES io resources d"

section \<open>Firmware controls\<close>

record hailo_fw_control =
  fc_request_len :: u32
  fc_request :: "u8 list"
  fc_response_len :: u32
  fc_response :: "u8 list"

definition bytes_of_fw_control :: "hailo_fw_control \<Rightarrow> u8 list" where
  "bytes_of_fw_control c = u32_bytes (fc_request_len c) @ fc_request c @ u32_bytes (fc_response_len c) @ fc_response c"

definition PO2_ROUND_UP :: "u64 \<Rightarrow> u64 \<Rightarrow> u64" where
  "PO2_ROUND_UP sz alignment = (sz + alignment - 1) AND NOT (alignment - 1)"

definition hailo_pcie_write_firmware_control ::
    "'d mmio \<Rightarrow> hailo_pcie_resources \<Rightarrow> hailo_fw_control \<Rightarrow> u64 \<Rightarrow> 'd \<Rightarrow> unit result \<times> 'd" where
  "hailo_pcie_write_firmware_control io resources command command_ptr d =
     (let opcode = u32_at (fc_request command) 0;
          (loaded, d1) = hailo_pcie_is_firmware_loaded io resources d
      in if \<not> loaded then (Err ENODEV, d1)
         else if HAILO_CONTROL_OPCODE_COUNT \<le> unat opcode then (Err EINVAL, d1)
         else if CONTROL_PROTOCOL__MAX_CONTROL_LENGTH < fc_request_len command then (Err EINVAL, d1)
         else
          let request_size = ucast (PO2_ROUND_UP (4 + ucast (fc_request_len command)) (ucast FW_CODE_SECTION_ALIGNMENT)) :: u32
          in if length (bytes_of_fw_control command) < unat request_size then (Fault Out_of_bounds, d1)
             else case hailo_resource_write_buffer io (pr_fw_access resources) 0
                         (take (unat request_size) (bytes_of_fw_control command)) command_ptr d1 of
                    (Err e, d2) \<Rightarrow> (Err e, d2)
                  | (Fault f, d2) \<Rightarrow> (Fault f, d2)
                  | (Ok _, d2) \<Rightarrow>
                      (case array_get g_fw_control__cpu_id (unat opcode) of
                         Ok cpu \<Rightarrow>
                           let access_bit = (if cpu = CPU_ID_APP_CPU then FW_ACCESS_APP_CPU_CONTROL_MASK
                                             else FW_ACCESS_CORE_CPU_CONTROL_MASK)
                           in (Ok (), raise_ready io resources access_bit d2)
                       | Err e \<Rightarrow> (Err e, d2)
                       | Fault f \<Rightarrow> (Fault f, d2)))"

definition hailo_pcie_read_firmware_control ::
    "'d mmio \<Rightarrow> hailo_pcie_resources \<Rightarrow> hailo_fw_control \<Rightarrow> u64 \<Rightarrow> u64 \<Rightarrow> 'd \<Rightarrow> unit result \<times> hailo_fw_control \<times> 'd" where
  "hailo_pcie_read_firmware_control io resources command len_ptr response_ptr d =
     (let (bs, d1) = hailo_resource_read_buffer io (pr_fw_access resources) PCIE_REQUEST_SIZE_OFFSET 4 len_ptr d;
          command1 = command\<lparr>fc_response_len := u32_at bs 0\<rparr>
      in if sizeof_control_response < unat (fc_response_len command1) then (Err EINVAL, command1, d1)
         else
          let n = unat (fc_response_len command1);
              (resp, d2) = hailo_resource_read_buffer io (pr_fw_access resources) (PCIE_REQUEST_SIZE_OFFSET + 4) n response_ptr d1
          in (Ok (), command1\<lparr>fc_response := resp @ drop n (fc_response command1)\<rparr>, d2))"

section \<open>Endpoint registers and boot\<close>

definition PCIE_CONFIG_PCIE_CFG_QM_ROUTING_MODE_SET :: "u32 \<Rightarrow> u32" where
  "PCIE_CONFIG_PCIE_CFG_QM_ROUTING_MODE_SET reg_offset = (reg_offset AND NOT 4) OR push_bit 2 1"

definition hailo_pcie_configure_ep_registers_for_dma_transaction ::
    "'d mmio \<Rightarrow> hailo_pcie_resources \<Rightarrow> u64 \<Rightarrow> u64 \<Rightarrow> 'd \<Rightarrow> unit result \<times> 'd" where
  "hailo_pcie_configure_ep_registers_for_dma_transaction io resources reg_ptr sp d =
     (let pcie_cfg_addr = pcie_cfg_regs (fw_addresses (pr_board_type resources))
      in if pcie_cfg_addr = 0 then (Fault Bug_on, d)
         else case read_memory io resources (ucast pcie_cfg_addr) reg_ptr 4 sp d of
                (Err e, d1) \<Rightarrow> (Err e, d1)
              | (Fault f, d1) \<Rightarrow> (Fault f, d1)
              | (Ok bs, d1) \<Rightarrow>
                  write_memory io resources (ucast pcie_cfg_addr)
                    (u32_bytes (PCIE_CONFIG_PCIE_CFG_QM_ROUTING_MODE_SET (u32_at bs 0))) reg_ptr 4 sp d1)"

definition hailo_trigger_firmware_boot ::
    "'d mmio \<Rightarrow> hailo_pcie_resources \<Rightarrow> nat \<Rightarrow> u64 \<Rightarrow> u64 \<Rightarrow> 'd \<Rightarrow> unit result \<times> 'd" where
  "hailo_trigger_firmware_boot io resources stage pcie_finished_ptr sp d =
     (case hailo_pcie_get_loading_stage_info (pr_board_type resources) stage of
        Err e \<Rightarrow> (Err e, d)
      | Fault f \<Rightarrow> (Fault f, d)
      | Ok stage_info \<Rightarrow> write_memory io resources (ucast (ls_trigger_address stage_info)) (u32_bytes 1) pcie_finished_ptr 4 sp d)"

definition hailo_get_boot_status :: "'d mmio \<Rightarrow> hailo_pcie_resources \<Rightarrow> u64 \<Rightarrow> u64 \<Rightarrow> 'd \<Rightarrow> u32 result \<times> 'd" where
  "hailo_get_boot_status io resources boot_status_ptr sp d =
     (case read_memory io resources (ucast (boot_status (fw_addresses (pr_board_type resources)))) boot_status_ptr 4 sp d of
        (r, d1) \<Rightarrow> (bind_r r (\<lambda>bs. Ok (u32_at bs 0)), d1))"

fun wait_boot :: "nat \<Rightarrow> 'd mmio \<Rightarrow> hailo_pcie_resources \<Rightarrow> u64 \<Rightarrow> u64 \<Rightarrow> 'd \<Rightarrow> bool result \<times> 'd" where
  "wait_boot 0 io resources ptr sp d = (Ok False, d)"
| "wait_boot (Suc n) io resources ptr sp d =
     (case hailo_get_boot_status io resources ptr sp d of
        (Ok v, d1) \<Rightarrow> if v = 1 then (Ok True, d1) else wait_boot n io resources ptr sp d1
      | (Err e, d1) \<Rightarrow> (Err e, d1)
      | (Fault f, d1) \<Rightarrow> (Fault f, d1))"

definition hailo_pcie_wait_for_boot :: "'d mmio \<Rightarrow> hailo_pcie_resources \<Rightarrow> u64 \<Rightarrow> u64 \<Rightarrow> 'd \<Rightarrow> bool result \<times> 'd" where
  "hailo_pcie_wait_for_boot io resources ptr sp d = wait_boot COUNT_UNTIL_REACH_BOOTLOADER io resources ptr sp d"

section \<open>Loading the firmware\<close>

text \<open>The offsets of the three headers in the image (the core header only for the NNC accelerator).\<close>

definition FW_VALIDATION__validate_fw_headers ::
    "u8 list \<Rightarrow> u64 \<Rightarrow> hailo_board_type \<Rightarrow> hailo_accelerator_type \<Rightarrow> (u32 \<times> u32 \<times> u32 option) result" where
  "FW_VALIDATION__validate_fw_headers fw firmware_size board_type accelerator_type =
     bind_r (FW_VALIDATION__validate_fw_header fw firmware_size MAXIMUM_APP_FIRMWARE_CODE_SIZE 0 board_type) (\<lambda>(consumed1, app).
     bind_r (FW_VALIDATION__validate_cert_header fw firmware_size consumed1) (\<lambda>(consumed2, cert).
     bind_r (if accelerator_type = HAILO_ACCELERATOR_TYPE_NNC
             then bind_r (FW_VALIDATION__validate_fw_header fw firmware_size MAXIMUM_CORE_FIRMWARE_CODE_SIZE consumed2 board_type)
                    (\<lambda>(consumed3, core). Ok (consumed3, Some core))
             else Ok (consumed2, None)) (\<lambda>(consumed, core).
     if ucast consumed \<noteq> firmware_size then Err EINVAL else Ok (app, cert, core))))"

text \<open>One \<open>write_memory\<close> after the other; a fault ends the sequence.\<close>

definition then_d :: "unit result \<times> 'd \<Rightarrow> ('d \<Rightarrow> unit result \<times> 'd) \<Rightarrow> unit result \<times> 'd" where
  "then_d rd f = (case rd of (Ok _, d) \<Rightarrow> f d | (Err e, d) \<Rightarrow> (Err e, d) | (Fault x, d) \<Rightarrow> (Fault x, d))"

definition hailo_write_app_firmware ::
    "'d mmio \<Rightarrow> hailo_pcie_resources \<Rightarrow> u8 list \<Rightarrow> u64 \<Rightarrow> u32 \<Rightarrow> u32 \<Rightarrow> u64 \<Rightarrow> 'd \<Rightarrow> unit result \<times> 'd" where
  "hailo_write_app_firmware io resources fw ptr header cert sp d =
     (let a = fw_addresses (pr_board_type resources)
      in case bind_r (fw_code_size fw header) (\<lambda>c. bind_r (cert_key_size fw cert) (\<lambda>k. bind_r (cert_content_size fw cert) (\<lambda>n. Ok (c, k, n)))) of
           Err e \<Rightarrow> (Err e, d)
         | Fault f \<Rightarrow> (Fault f, d)
         | Ok (code_size, key_size, content_size) \<Rightarrow>
             let fw_code = unat header + 24; key_data = unat cert + 8; content_data = key_data + unat key_size
             in then_d (write_memory io resources (ucast (boot_fw_header a)) (drop (unat header) fw) (ptr + ucast header) 24 sp d) (\<lambda>d1.
                then_d (write_memory io resources (ucast (app_fw_code_ram_base a)) (drop fw_code fw) (ptr + of_nat fw_code) code_size sp d1) (\<lambda>d2.
                then_d (write_memory io resources (ucast (boot_key_cert a)) (drop key_data fw) (ptr + of_nat key_data) key_size sp d2) (\<lambda>d3.
                write_memory io resources (ucast (boot_cont_cert a)) (drop content_data fw) (ptr + of_nat content_data) content_size sp d3))))"

definition hailo_write_core_firmware ::
    "'d mmio \<Rightarrow> hailo_pcie_resources \<Rightarrow> u8 list \<Rightarrow> u64 \<Rightarrow> u32 \<Rightarrow> u64 \<Rightarrow> 'd \<Rightarrow> unit result \<times> 'd" where
  "hailo_write_core_firmware io resources fw ptr header sp d =
     (let a = fw_addresses (pr_board_type resources); fw_code = unat header + 24
      in case fw_code_size fw header of
           Err e \<Rightarrow> (Err e, d)
         | Fault f \<Rightarrow> (Fault f, d)
         | Ok code_size \<Rightarrow>
             then_d (write_memory io resources (ucast (core_code_ram_base a)) (drop fw_code fw) (ptr + of_nat fw_code) code_size sp d) (\<lambda>d1.
             write_memory io resources (ucast (core_fw_header a)) (drop (unat header) fw) (ptr + ucast header) 24 sp d1))"

text \<open>\<open>files name\<close> is the result of \<open>request_firmware_direct\<close>: the bytes of the file and their address.\<close>

definition write_single_file ::
    "'d mmio \<Rightarrow> hailo_pcie_resources \<Rightarrow> (string option \<Rightarrow> (u8 list \<times> u64) result) \<Rightarrow> hailo_file_batch \<Rightarrow> u64 \<Rightarrow> 'd \<Rightarrow> unit result \<times> 'd" where
  "write_single_file io resources files file_info sp d =
     (case files (fb_filename file_info) of
        Err e \<Rightarrow> (Err e, d)
      | Fault f \<Rightarrow> (Fault f, d)
      | Ok (fw, ptr) \<Rightarrow>
          if fb_max_size file_info < of_nat (length fw) then (Err EFBIG, d)
          else if fb_has_header file_info
          then case FW_VALIDATION__validate_fw_headers fw (of_nat (length fw)) (pr_board_type resources) (pr_accelerator_type resources) of
                 Err e \<Rightarrow> (Err EINVAL, d)
               | Fault f \<Rightarrow> (Fault f, d)
               | Ok (app, cert, core) \<Rightarrow>
                   then_d (hailo_write_app_firmware io resources fw ptr app cert sp d) (\<lambda>d1.
                   if fb_has_core file_info
                   then (case core of None \<Rightarrow> (Fault Null_deref, d1) | Some c \<Rightarrow> hailo_write_core_firmware io resources fw ptr c sp d1)
                   else (Ok (), d1))
          else write_memory io resources (ucast (fb_address file_info)) fw ptr (of_nat (length fw)) sp d)"

fun write_files ::
    "'d mmio \<Rightarrow> hailo_pcie_resources \<Rightarrow> (string option \<Rightarrow> (u8 list \<times> u64) result) \<Rightarrow> hailo_file_batch list \<Rightarrow> u64 \<Rightarrow> 'd \<Rightarrow> unit result \<times> 'd" where
  "write_files io resources files [] sp d = (Ok (), d)"
| "write_files io resources files (f # fs) sp d =
     (case write_single_file io resources files f sp d of
        (Fault x, d1) \<Rightarrow> (Fault x, d1)
      | (Err e, d1) \<Rightarrow> if fb_is_mandatory f then (Err e, d1) else write_files io resources files fs sp d1
      | (Ok _, d1) \<Rightarrow> write_files io resources files fs sp d1)"

definition hailo_pcie_write_firmware_batch ::
    "'d mmio \<Rightarrow> hailo_pcie_resources \<Rightarrow> (string option \<Rightarrow> (u8 list \<times> u64) result) \<Rightarrow> nat \<Rightarrow> u64 \<Rightarrow> u64 \<Rightarrow> 'd \<Rightarrow> unit result \<times> 'd" where
  "hailo_pcie_write_firmware_batch io resources files stage ptr sp d =
     (case hailo_pcie_get_loading_stage_info (pr_board_type resources) stage of
        Err e \<Rightarrow> (Err e, d)
      | Fault f \<Rightarrow> (Fault f, d)
      | Ok stage_info \<Rightarrow>
          if length (ls_batch stage_info) < unat (ls_amount_of_files_in_stage stage_info) then (Fault Out_of_bounds, d)
          else then_d (write_files io resources files (take (unat (ls_amount_of_files_in_stage stage_info)) (ls_batch stage_info)) sp d)
                 (\<lambda>d1. hailo_trigger_firmware_boot io resources stage ptr sp d1))"

section \<open>Device and SoC\<close>

definition hailo_pcie_is_device_connected :: "'d mmio \<Rightarrow> hailo_pcie_resources \<Rightarrow> 'd \<Rightarrow> bool \<times> 'd" where
  "hailo_pcie_is_device_connected io resources d =
     (let (v, d1) = hailo_resource_read16 io (pr_config resources) PCIE_CONFIG_VENDOR_OFFSET d in (PCI_VENDOR_ID_HAILO = v, d1))"

fun device_type_of :: "hailo_board_type \<Rightarrow> hailo_accelerator_type result" where
  "device_type_of HAILO_BOARD_TYPE_HAILO8 = Ok HAILO_ACCELERATOR_TYPE_NNC"
| "device_type_of HAILO_BOARD_TYPE_HAILO10H_LEGACY = Ok HAILO_ACCELERATOR_TYPE_NNC"
| "device_type_of HAILO_BOARD_TYPE_HAILO15L = Ok HAILO_ACCELERATOR_TYPE_NNC"
| "device_type_of HAILO_BOARD_TYPE_HAILO10H = Ok HAILO_ACCELERATOR_TYPE_SOC"
| "device_type_of HAILO_BOARD_TYPE_MARS = Ok HAILO_ACCELERATOR_TYPE_SOC"
| "device_type_of _ = Err EINVAL"

definition hailo_set_device_type :: "hailo_pcie_resources \<Rightarrow> hailo_pcie_resources result" where
  "hailo_set_device_type resources =
     bind_r (device_type_of (pr_board_type resources)) (\<lambda>t. Ok (resources\<lparr>pr_accelerator_type := t\<rparr>))"

text \<open>Requests and responses of the SoC are the bytes of \<open>struct hailo_pcie_soc_request\<close> (20) and \<open>_response\<close> (24).\<close>

definition hailo_pcie_soc_write_request :: "'d mmio \<Rightarrow> hailo_pcie_resources \<Rightarrow> u8 list \<Rightarrow> u64 \<Rightarrow> 'd \<Rightarrow> 'd" where
  "hailo_pcie_soc_write_request io resources request ptr d =
     (let (_, d1) = hailo_resource_write_buffer io (pr_fw_access resources) 0 request ptr d
      in raise_ready io resources FW_ACCESS_SOC_CONTROL_MASK d1)"

definition hailo_pcie_soc_read_response :: "'d mmio \<Rightarrow> hailo_pcie_resources \<Rightarrow> u64 \<Rightarrow> 'd \<Rightarrow> u8 list \<times> 'd" where
  "hailo_pcie_soc_read_response io resources ptr d = hailo_resource_read_buffer io (pr_fw_access resources) 0 24 ptr d"

end
