(* ===== verification/Pcie_Memory.thy ===== *)
theory Pcie_Memory
  imports Pcie_Firmware
begin

text \<open>
  What \<open>write_memory\<close> and \<open>read_memory\<close> do on a device with an address translation window: exactly the requested range of
  device memory is written or read, in chunks that stay inside the 4 KB window, and the translation is restored.
\<close>

section \<open>A device with an ATR window\<close>

text \<open>
  The documented behaviour of the window, as a hypothesis: \<open>mem\<close> is the device memory, \<open>cfg\<close> the configuration space behind BAR 0.
  The five ATR registers keep what is written and do not touch the memory. An access to the first 4 KB of the firmware BAR goes
  to the memory at the translation address held by the ATR registers, and leaves the configuration alone.
\<close>

definition atr_regs :: "hailo_pcie_resources \<Rightarrow> u64 set" where
  "atr_regs res = {res_address (pr_config res) + 0x700, res_address (pr_config res) + 0x704, res_address (pr_config res) + 0x708,
     res_address (pr_config res) + 0x70C, res_address (pr_config res) + 0x710}"

definition fw_window :: "hailo_pcie_resources \<Rightarrow> u64 set" where
  "fw_window res = {a. unat (a - res_address (pr_fw_access res)) < 0x1000}"

definition trsl :: "hailo_pcie_resources \<Rightarrow> (u64 \<Rightarrow> u8) \<Rightarrow> u64" where
  "trsl res cfg = push_bit 32 (ucast (word_at cfg (res_address (pr_config res) + 0x70C))) OR
     ucast (word_at cfg (res_address (pr_config res) + 0x708))"

definition atr_device :: "'d mmio \<Rightarrow> hailo_pcie_resources \<Rightarrow> ('d \<Rightarrow> u64 \<Rightarrow> u8) \<Rightarrow> ('d \<Rightarrow> u64 \<Rightarrow> u8) \<Rightarrow> bool" where
  "atr_device io res mem cfg \<longleftrightarrow>
     IS_ALIGNED (res_address (pr_config res)) 4 \<and> IS_ALIGNED (res_address (pr_fw_access res)) 4 \<and>
     res_size (pr_fw_access res) = 0x1000 \<and>
     ram_window io cfg (atr_regs res) \<and>
     (\<forall>a w d. a \<in> atr_regs res \<longrightarrow> mem (iowrite32 io w a d) = mem d) \<and>
     (\<forall>a d. a \<in> fw_window res \<longrightarrow> IS_ALIGNED a 4 \<longrightarrow>
        ioread32 io a d = (word_at (mem d) (trsl res (cfg d) + (a - res_address (pr_fw_access res))), d)) \<and>
     (\<forall>a w d. a \<in> fw_window res \<longrightarrow> IS_ALIGNED a 4 \<longrightarrow>
        mem (iowrite32 io w a d) = store_word (mem d) (trsl res (cfg d) + (a - res_address (pr_fw_access res))) w \<and>
        cfg (iowrite32 io w a d) = cfg d)"

lemma atr_deviceD:
  assumes "atr_device io res mem cfg"
  shows "IS_ALIGNED (res_address (pr_config res)) 4" "IS_ALIGNED (res_address (pr_fw_access res)) 4"
    "res_size (pr_fw_access res) = 0x1000" "ram_window io cfg (atr_regs res)"
    "a \<in> atr_regs res \<Longrightarrow> mem (iowrite32 io w a d) = mem d"
    "a \<in> fw_window res \<Longrightarrow> IS_ALIGNED a 4 \<Longrightarrow>
       ioread32 io a d = (word_at (mem d) (trsl res (cfg d) + (a - res_address (pr_fw_access res))), d)"
    "a \<in> fw_window res \<Longrightarrow> IS_ALIGNED a 4 \<Longrightarrow>
       mem (iowrite32 io w a d) = store_word (mem d) (trsl res (cfg d) + (a - res_address (pr_fw_access res))) w"
    "a \<in> fw_window res \<Longrightarrow> IS_ALIGNED a 4 \<Longrightarrow> cfg (iowrite32 io w a d) = cfg d"
  using assms unfolding atr_device_def by blast+

text \<open>The memory as the bus sees it through the window.\<close>

definition bus :: "hailo_pcie_resources \<Rightarrow> ('d \<Rightarrow> u64 \<Rightarrow> u8) \<Rightarrow> ('d \<Rightarrow> u64 \<Rightarrow> u8) \<Rightarrow> 'd \<Rightarrow> u64 \<Rightarrow> u8" where
  "bus res mem cfg d a = mem d (trsl res (cfg d) + (a - res_address (pr_fw_access res)))"

lemma word_at_shift: "word_at (\<lambda>a. m (t + (a - b))) a = word_at m (t + (a - b))"
  by (simp add: word_at_def algebra_simps)

lemma store_word_shift: "store_word m (t + (a - b)) w (t + (x - b)) = store_word (\<lambda>a. m (t + (a - b))) a w x"
proof -
  have "t + (x - b) = t + (a - b) + k \<longleftrightarrow> x = a + k" for k by (auto simp: algebra_simps)
  from this this [of 0] show ?thesis by (simp add: store_word_def)
qed

lemma bus_ram: "atr_device io res mem cfg \<Longrightarrow> ram_window io (bus res mem cfg) (fw_window res)"
  unfolding ram_window_def bus_def
  by (auto simp: atr_deviceD word_at_shift store_word_shift)

section \<open>Accesses leave the rest alone\<close>

definition keeps :: "'d mmio \<Rightarrow> u64 set \<Rightarrow> ('d \<Rightarrow> 'x) \<Rightarrow> bool" where
  "keeps io A g \<longleftrightarrow> (\<forall>a d. a \<in> A \<longrightarrow> IS_ALIGNED a 4 \<longrightarrow> g (snd (ioread32 io a d)) = g d) \<and>
     (\<forall>a w d. a \<in> A \<longrightarrow> IS_ALIGNED a 4 \<longrightarrow> g (iowrite32 io w a d) = g d)"

lemma keeps_rw8:
  assumes "keeps io A g" and "ALIGN_TO_32_BIT (res_address r + off) \<in> A"
  shows "g (snd (hailo_resource_read8 io r off d)) = g d" "g (hailo_resource_write8 io r off v d) = g d"
  using assms aligned_align [of "res_address r + off"] unfolding keeps_def
  by (auto simp: hailo_resource_read8_def hailo_resource_write8_def Let_def split_beta)

lemma keeps_rw32:
  assumes "keeps io A g" and "res_address r + off \<in> A" and "IS_ALIGNED (res_address r + off) 4"
  shows "g (snd (hailo_resource_read32 io r off d)) = g d" "g (hailo_resource_write32 io r off v d) = g d"
  using assms unfolding keeps_def by (auto simp: hailo_resource_read32_def hailo_resource_write32_def)

lemma keeps_write_tail:
  "keeps io A g \<Longrightarrow> window_covers A (res_address r + off) (length bs) \<Longrightarrow> g (snd (write_tail io r off bs d)) = g d"
proof (induction bs arbitrary: off d)
  case (Cons b bs)
  then show ?case
    by (auto simp: window_covers_Suc keeps_rw8 Let_def split_beta add.assoc)
qed simp

lemma keeps_write_words:
  "keeps io A g \<Longrightarrow> window_covers A (res_address r + off) (length bs) \<Longrightarrow> IS_ALIGNED (res_address r + off) 4 \<Longrightarrow>
   g (snd (write_words io r off bs d)) = g d"
proof (induction io r off bs d rule: write_words.induct)
  case (1 io r off b0 b1 b2 b3 bs d)
  have A: "res_address r + off \<in> A" using "1.prems" by (simp add: window_covers_Suc align_aligned)
  have n: "window_covers A (res_address r + (off + 4)) (length bs)"
    using "1.prems"(2) by (simp add: window_covers_Suc add.assoc)
  have al: "IS_ALIGNED (res_address r + (off + 4)) 4" using aligned4_add4 [OF "1.prems"(3)] by (simp add: add.assoc)
  obtain v d2 where r: "hailo_resource_read32 io r off (hailo_resource_write32 io r off (u32_of_bytes b0 b1 b2 b3) d) = (v, d2)"
    by fastforce
  have g: "g d2 = g d" using keeps_rw32 [OF "1.prems"(1) A "1.prems"(3)] r by (metis snd_conv)
  show ?case
    using "1.IH" [OF refl refl r [symmetric] refl] "1.prems"(1) n al r g by (auto simp: Let_def)
qed (unfold write_words.simps, (erule (1) keeps_write_tail)+)

lemma keeps_write_buffer:
  "keeps io A g \<Longrightarrow> window_covers A (res_address r + off) (length bs) \<Longrightarrow>
   g (snd (hailo_resource_write_buffer io r off bs ptr d)) = g d"
  unfolding hailo_resource_write_buffer_def
proof (induction bs arbitrary: off ptr d)
  case (Cons b bs)
  show ?case
  proof (cases "needs_bytes r off ptr")
    case True
    then show ?thesis using Cons by (auto simp: window_covers_Suc keeps_rw8 Let_def split_beta add.assoc)
  next
    case False
    then show ?thesis using Cons.prems keeps_write_words [of io A g r off "b # bs" d] by (simp add: needs_bytes_def)
  qed
qed simp

lemma keeps_mem: "atr_device io res mem cfg \<Longrightarrow> keeps io (atr_regs res) mem"
  unfolding keeps_def using atr_deviceD(4) [of io res mem cfg] atr_deviceD(5) [of io res mem cfg]
  by (auto simp: ram_window_def)

lemma keeps_cfg: "atr_device io res mem cfg \<Longrightarrow> keeps io (fw_window res) cfg"
  unfolding keeps_def using atr_deviceD(6,8) [of io res mem cfg] by auto

section \<open>Programming the translation\<close>

lemma align_aligned_add: "IS_ALIGNED a 4 \<Longrightarrow> k < 4 \<Longrightarrow> ALIGN_TO_32_BIT (a + of_nat k) = a"
proof -
  assume a: "IS_ALIGNED a 4" and k: "k < 4"
  have low: "a AND 3 = 0" using a by (simp add: IS_ALIGNED_def)
  have m: "(3 :: u64) = mask 2" by (simp add: mask_eq_exp_minus_1)
  have k4: "(of_nat k :: u64) = take_bit 2 (of_nat k)" using k by (elim less4_cases) (simp_all add: take_bit_eq_mod)
  have d: "a AND of_nat k = 0" using low k4 unfolding m
    by (metis (no_types, lifting) and.assoc and.commute and_zero_eq take_bit_eq_mask)
  have "a + of_nat k = a OR of_nat k" using d by (rule disjunctive_add_eq_or)
  moreover have "NOT (3::u64) AND of_nat k = 0" using k by (elim less4_cases) simp_all
  moreover have "a AND NOT 3 = a" using align_plus_low [of a] low by simp
  ultimately show ?thesis by (simp add: ALIGN_TO_32_BIT_def bit.conj_disj_distrib2 ac_simps)
qed

lemma window_covers_aligned:
  assumes "IS_ALIGNED a 4" and "\<And>q. 4 * q < n \<Longrightarrow> a + of_nat (4 * q) \<in> A" and "\<And>q. IS_ALIGNED (a + of_nat (4 * q)) 4"
  shows "window_covers A a n"
  unfolding window_covers_def
proof (intro allI impI)
  fix i assume i: "i < n"
  have "a + of_nat i = a + of_nat (4 * (i div 4)) + of_nat (i mod 4)"
    by (simp only: add.assoc of_nat_add [symmetric] mult_div_mod_eq)
  then have "ALIGN_TO_32_BIT (a + of_nat i) = a + of_nat (4 * (i div 4))"
    using align_aligned_add [OF assms(3) [of "i div 4"], of "i mod 4"] by (simp only: mod_less_divisor zero_less_numeral)
  then show "ALIGN_TO_32_BIT (a + of_nat i) \<in> A" using assms(2) [of "i div 4"] i
    by (metis dual_order.strict_trans2 mult.commute div_times_less_eq_dividend)
qed

lemma aligned4_add_multiple: "IS_ALIGNED (a :: u64) 4 \<Longrightarrow> IS_ALIGNED (a + of_nat (4 * q)) 4"
proof (induction q)
  case (Suc q)
  then show ?case using aligned4_add4 [of "a + of_nat (4 * q)"] by (simp add: algebra_simps)
qed simp

lemma u64_halves: "push_bit 32 (ucast (ucast (drop_bit 32 t) :: u32)) OR ucast (ucast (t AND 0xFFFFFFFF) :: u32) = (t :: u64)"
proof -
  have m: "(0xFFFFFFFF :: u64) = mask 32" by (simp add: mask_eq_exp_minus_1)
  show ?thesis unfolding m
  proof (rule bit_word_eqI)
    fix i assume "i < LENGTH(64)"
    then consider "i < 32" | "32 \<le> i" "i < 64" by force
    then show "bit (push_bit 32 (ucast (ucast (drop_bit 32 t) :: u32)) OR ucast (ucast (t AND mask 32) :: u32) :: u64) i = bit t i"
      by cases (auto simp: bit_simps)
  qed
qed

lemma atr_window:
  assumes "atr_device io res mem cfg"
  shows "window_covers (atr_regs res) (res_address (pr_config res) + 0x700) 20"
proof -
  let ?c = "res_address (pr_config res) + 0x700"
  have al: "IS_ALIGNED ?c 4" using aligned4_add_multiple [OF atr_deviceD(1) [OF assms], of 448] by simp
  have "?c + of_nat (4 * q) \<in> atr_regs res" if "4 * q < 20" for q
  proof -
    have "q \<in> {0, 1, 2, 3, 4}" using that by auto
    then show ?thesis by (auto simp: atr_regs_def)
  qed
  with al show ?thesis using aligned4_add_multiple [OF al] by (intro window_covers_aligned)
qed

lemma mem_store_nth: "i < length bs \<Longrightarrow> length bs \<le> 2 ^ 64 \<Longrightarrow> mem_store m a bs (a + of_nat i) = bs ! i"
proof -
  assume i: "i < length bs" "length bs \<le> 2 ^ 64"
  then have "unat (of_nat i :: u64) = i" by (intro unat_of_nat_small) simp
  with i show ?thesis by (simp add: mem_store_apply)
qed

lemma word_at_mem_store:
  assumes "i + 3 < length bs" and "length bs \<le> 2 ^ 64"
  shows "word_at (mem_store m a bs) (a + of_nat i) = u32_of_bytes (bs ! i) (bs ! (i + 1)) (bs ! (i + 2)) (bs ! (i + 3))"
  using mem_store_nth [of i bs m a] mem_store_nth [of "i + 1" bs m a] mem_store_nth [of "i + 2" bs m a] mem_store_nth [of "i + 3" bs m a] assms
  by (simp add: word_at_def ac_simps)

lemma u32_of_bytes_bytes: "u32_of_bytes (ucast w) (ucast (drop_bit 8 w)) (ucast (drop_bit 16 w)) (ucast (drop_bit 24 w)) = w"
proof (rule bit_word_eqI)
  fix i assume "i < LENGTH(32)"
  then consider "i < 8" | "8 \<le> i" "i < 16" | "16 \<le> i" "i < 24" | "24 \<le> i" "i < 32" by force
  then show "bit (u32_of_bytes (ucast w) (ucast (drop_bit 8 w)) (ucast (drop_bit 16 w)) (ucast (drop_bit 24 w))) i = bit w i"
    unfolding u32_of_bytes_def by cases (auto simp: bit_simps)
qed

lemma configure_atr_ok:
  assumes dev: "atr_device io res mem cfg"
  shows "\<exists>d'. hailo_pcie_configure_atr_table io (pr_config res) t 0 sp d = (Ok (), d') \<and> mem d' = mem d \<and> trsl res (cfg d') = t"
proof -
  let ?c = "res_address (pr_config res)"
  define bs where "bs = bytes_of_atr \<lparr> atr_param = ATR_PARAM OR push_bit 12 0, atr_src = ATR_SRC_ADDR,
      atr_trsl_addr_1 = ucast (t AND 0xFFFFFFFF), atr_trsl_addr_2 = ucast (drop_bit 32 t), atr_trsl_param = ATR_TRSL_PARAM \<rparr>"
  have l: "length bs = 20" by (simp add: bs_def bytes_of_atr_def u32_bytes_def)
  have off: "ATR_PCIE_BRIDGE_OFFSET 0 = 0x700" by (simp add: ATR_PCIE_BRIDGE_OFFSET_def)
  obtain r d' where run: "hailo_resource_write_buffer io (pr_config res) 0x700 bs sp d = (r, d')" by fastforce
  have w: "window_covers (atr_regs res) (?c + 0x700) (length bs)" using atr_window [OF dev] l by simp
  have ok: "r = Ok ()" "cfg d' = mem_store (cfg d) (?c + 0x700) bs"
    using ram_write_head [OF atr_deviceD(4) [OF dev] w, of sp d] run by (simp_all add: hailo_resource_write_buffer_def)
  have m: "mem d' = mem d" using keeps_write_buffer [OF keeps_mem [OF dev] w, of sp d] run by simp
  have nth: "word_at (cfg d') (?c + 0x708) = ucast (t AND 0xFFFFFFFF)" "word_at (cfg d') (?c + 0x70C) = ucast (drop_bit 32 t)"
    using word_at_mem_store [of 8 bs "cfg d" "?c + 0x700"] word_at_mem_store [of 12 bs "cfg d" "?c + 0x700"] l
    by (simp_all add: ok(2) add.assoc bs_def bytes_of_atr_def u32_bytes_def nth_append u32_of_bytes_bytes)
  have "trsl res (cfg d') = t" unfolding trsl_def nth by (rule u64_halves)
  then show ?thesis
    using run ok(1) m unfolding bs_def
    by (simp add: hailo_pcie_configure_atr_table_def pcie_consts Let_def off)
qed

section \<open>One chunk\<close>

lemma mem_store_append: "mem_store m a (xs @ ys) = mem_store (mem_store m a xs) (a + of_nat (length xs)) ys"
  by (induction xs arbitrary: m a) (simp_all add: add.assoc)

lemma mem_store_eqI:
  assumes "length bs \<le> 2 ^ 64" and "\<And>x. m' x = (if unat (x - a) < length bs then bs ! unat (x - a) else m x)"
  shows "m' = mem_store m a bs"
  using assms by (intro ext) (simp add: mem_store_apply)

lemma fw_window_covers:
  assumes "atr_device io res mem cfg" and "unat off + n \<le> 0x1000"
  shows "window_covers (fw_window res) (res_address (pr_fw_access res) + off) n"
  unfolding window_covers_def
proof (intro allI impI)
  fix i assume i: "i < n"
  let ?f = "res_address (pr_fw_access res)"
  let ?o = "unat off + i"
  have o: "off + of_nat i = of_nat ?o" by simp
  have "?f + off + of_nat i = ?f + of_nat (4 * (?o div 4)) + of_nat (?o mod 4)"
    unfolding add.assoc o by (simp only: of_nat_add [symmetric] mult_div_mod_eq)
  then have "ALIGN_TO_32_BIT (?f + off + of_nat i) = ?f + of_nat (4 * (?o div 4))"
    using align_aligned_add [OF aligned4_add_multiple [OF atr_deviceD(2) [OF assms(1)], of "?o div 4"], of "?o mod 4"]
    by (simp only: mod_less_divisor zero_less_numeral)
  moreover have "4 * (?o div 4) < 0x1000" using assms(2) i div_times_less_eq_dividend [of ?o 4] by linarith
  then have "unat (of_nat (4 * (?o div 4)) :: u64) < 0x1000" by (subst unat_of_nat_small) simp_all
  ultimately show "ALIGN_TO_32_BIT (?f + off + of_nat i) \<in> fw_window res" by (simp add: fw_window_def del: of_nat_mult)
qed

lemma bug_on_passes:
  assumes "atr_device io res mem cfg" and "unat off + unat len \<le> 0x1000"
  shows "\<not> ucast (res_size (pr_fw_access res)) < off + (len :: u32)"
proof -
  have "unat (off + len) = unat off + unat len" using assms(2) by (intro unat_add_small) simp
  then show ?thesis using atr_deviceD(3) [OF assms(1)] assms(2) by (simp add: word_less_nat_alt)
qed

lemma write_memory_chunk_ok:
  assumes dev: "atr_device io res mem cfg" and fits: "unat off + unat len \<le> 0x1000" and src: "unat len \<le> length src"
  shows "\<exists>d'. write_memory_chunk io res dest off src ptr len sp d = (Ok (), d') \<and>
    mem d' = mem_store (mem d) (dest + ucast off) (take (unat len) src)"
proof -
  let ?f = "res_address (pr_fw_access res)"
  let ?bs = "take (unat len) src"
  obtain d1 where c: "hailo_pcie_configure_atr_table io (pr_config res) dest 0 sp d = (Ok (), d1)" "mem d1 = mem d" "trsl res (cfg d1) = dest"
    using configure_atr_ok [OF dev] by blast
  obtain r d2 where w: "hailo_resource_write_buffer io (pr_fw_access res) (ucast off) ?bs ptr d1 = (r, d2)" by fastforce
  have cov: "window_covers (fw_window res) (?f + ucast off) (length ?bs)"
    using fw_window_covers [OF dev, of "ucast off" "unat len"] fits src by simp
  have bus: "bus res mem cfg d2 = mem_store (bus res mem cfg d1) (?f + ucast off) ?bs"
    using ram_write_head [OF bus_ram [OF dev] cov, of ptr d1] w by (simp add: hailo_resource_write_buffer_def)
  have cfg: "cfg d2 = cfg d1" using keeps_write_buffer [OF keeps_cfg [OF dev] cov, of ptr d1] w by simp
  have len: "length ?bs \<le> 2 ^ 64" using fits by simp
  have "mem d2 y = (if unat (y - (dest + ucast off)) < length ?bs then ?bs ! unat (y - (dest + ucast off)) else mem d y)" for y
  proof -
    have "mem d2 y = bus res mem cfg d2 (y - dest + ?f)" unfolding bus_def cfg c(3) by simp
    also have "\<dots> = (if unat (y - dest + ?f - (?f + ucast off)) < length ?bs then ?bs ! unat (y - dest + ?f - (?f + ucast off))
        else bus res mem cfg d1 (y - dest + ?f))" unfolding bus by (rule mem_store_apply [OF len])
    also have "y - dest + ?f - (?f + ucast off) = y - (dest + ucast off)" by (simp add: algebra_simps)
    also have "bus res mem cfg d1 (y - dest + ?f) = mem d y" unfolding bus_def c(2,3) by simp
    finally show ?thesis .
  qed
  then have "mem d2 = mem_store (mem d) (dest + ucast off) ?bs" by (rule mem_store_eqI [OF len])
  then show ?thesis
    using c(1) w bug_on_passes [OF dev fits] src by (simp add: write_memory_chunk_def)
qed

lemma read_memory_chunk_ok:
  assumes dev: "atr_device io res mem cfg" and fits: "unat off + unat len \<le> 0x1000"
  shows "\<exists>d'. read_memory_chunk io res a off ptr len sp d = (Ok (mem_bytes (mem d) (a + ucast off) (unat len)), d') \<and> mem d' = mem d"
proof -
  let ?f = "res_address (pr_fw_access res)"
  obtain d1 where c: "hailo_pcie_configure_atr_table io (pr_config res) a 0 sp d = (Ok (), d1)" "mem d1 = mem d" "trsl res (cfg d1) = a"
    using configure_atr_ok [OF dev] by blast
  have cov: "window_covers (fw_window res) (?f + ucast off) (unat len)"
    using fw_window_covers [OF dev, of "ucast off" "unat len"] fits by simp
  have r: "hailo_resource_read_buffer io (pr_fw_access res) (ucast off) (unat len) ptr d1 =
      (mem_bytes (bus res mem cfg d1) (?f + ucast off) (unat len), d1)"
    using ram_read_head [OF bus_ram [OF dev] cov] by (simp add: hailo_resource_read_buffer_def)
  have "mem_bytes (bus res mem cfg d1) (?f + ucast off) (unat len) = mem_bytes (mem d) (a + ucast off) (unat len)"
    by (simp add: mem_bytes_def bus_def c(2,3) algebra_simps)
  then show ?thesis using c r bug_on_passes [OF dev fits] by (simp add: read_memory_chunk_def)
qed

section \<open>All chunks\<close>

lemma chunk_size_facts: "0 < n \<Longrightarrow> n < 2 ^ 32 \<Longrightarrow>
    unat (of_nat (chunk_size n) :: u32) = chunk_size n \<and> chunk_size n \<le> 0x1000 \<and> chunk_size n \<le> n \<and> 0 < chunk_size n"
  by (auto simp: chunk_size_def ATR_TABLE_SIZE_def unat_of_nat_small)

lemma write_chunks_ok:
  assumes "atr_device io res mem cfg" and "offset \<le> len" and "len \<le> length src" and "len < 2 ^ 32"
  shows "\<exists>d'. write_chunks io res dest src ptr offset len sp d = (Ok (), d') \<and>
    mem d' = mem_store (mem d) (dest + of_nat offset) (take (len - offset) (drop offset src))"
  using assms
proof (induction io res dest src ptr offset len sp d rule: write_chunks.induct)
  case (1 io res dest src ptr offset len sp d)
  show ?case
  proof (cases "offset < len")
    case False
    with "1.prems" show ?thesis by (simp add: write_chunks.simps)
  next
    case True
    let ?c = "chunk_size (len - offset)"
    have c: "unat (of_nat ?c :: u32) = ?c" "?c \<le> 0x1000" "?c \<le> len - offset" "0 < ?c"
      using chunk_size_facts [of "len - offset"] True "1.prems"(4) by auto
    obtain d1 where s: "write_memory_chunk io res (dest + of_nat offset) 0 (drop offset src) (ptr + of_nat offset) (of_nat ?c) sp d = (Ok (), d1)"
        "mem d1 = mem_store (mem d) (dest + of_nat offset) (take ?c (drop offset src))"
      using write_memory_chunk_ok [OF "1.prems"(1), of 0 "of_nat ?c" "drop offset src" "dest + of_nat offset" "ptr + of_nat offset" sp d]
        c le_trans [OF c(3) diff_le_mono [OF "1.prems"(3)]] by auto
    obtain d' where ih: "write_chunks io res dest src ptr (offset + ?c) len sp d1 = (Ok (), d')"
        "mem d' = mem_store (mem d1) (dest + of_nat (offset + ?c)) (take (len - (offset + ?c)) (drop (offset + ?c) src))"
      using "1.IH" [OF True refl s(1) [symmetric] refl] "1.prems" c(3) True by fastforce
    have rest: "?c + (len - (offset + ?c)) = len - offset" using c(3) by simp
    have split: "take (len - offset) (drop offset src) =
        take ?c (drop offset src) @ take (len - (offset + ?c)) (drop (offset + ?c) src)"
      using take_add [of ?c "len - (offset + ?c)" "drop offset src"] rest by (simp add: add.commute)
    have l: "length (take ?c (drop offset src)) = ?c" using c(3) "1.prems"(3) True by simp
    have "mem d' = mem_store (mem d) (dest + of_nat offset) (take (len - offset) (drop offset src))"
      unfolding ih(2) s(2) split mem_store_append l by (simp add: add.assoc)
    moreover have "write_chunks io res dest src ptr offset len sp d = (Ok (), d')"
      unfolding write_chunks.simps [of io res dest src ptr offset len sp d] using True s(1) ih(1) by (simp add: Let_def)
    ultimately show ?thesis by blast
  qed
qed

lemma mem_bytes_append: "mem_bytes m a n @ mem_bytes m (a + of_nat n) k = mem_bytes m a (n + k)"
proof -
  have "[0..<n + k] = [0..<n] @ map (\<lambda>i. n + i) [0..<k]" by (induction k) simp_all
  then show ?thesis by (simp add: mem_bytes_def add.assoc o_def)
qed

lemma read_chunks_ok:
  assumes "atr_device io res mem cfg" and "offset \<le> len" and "len < 2 ^ 32"
  shows "\<exists>d'. read_chunks io res a ptr offset len sp d = (Ok (mem_bytes (mem d) (a + of_nat offset) (len - offset)), d') \<and> mem d' = mem d"
  using assms
proof (induction io res a ptr offset len sp d rule: read_chunks.induct)
  case (1 io res a ptr offset len sp d)
  show ?case
  proof (cases "offset < len")
    case False
    with "1.prems" show ?thesis by (simp add: read_chunks.simps)
  next
    case True
    let ?c = "chunk_size (len - offset)"
    have c: "unat (of_nat ?c :: u32) = ?c" "?c \<le> 0x1000" "?c \<le> len - offset" "0 < ?c"
      using chunk_size_facts [of "len - offset"] True "1.prems"(3) by auto
    obtain d1 where s: "read_memory_chunk io res (a + of_nat offset) 0 (ptr + of_nat offset) (of_nat ?c) sp d =
        (Ok (mem_bytes (mem d) (a + of_nat offset) ?c), d1)" "mem d1 = mem d"
      using read_memory_chunk_ok [OF "1.prems"(1), of 0 "of_nat ?c" "a + of_nat offset" "ptr + of_nat offset" sp d] c by auto
    obtain d' where ih: "read_chunks io res a ptr (offset + ?c) len sp d1 =
        (Ok (mem_bytes (mem d1) (a + of_nat (offset + ?c)) (len - (offset + ?c))), d')" "mem d' = mem d1"
      using "1.IH" [OF True refl s(1) [symmetric] refl] "1.prems" c(3) True by fastforce
    have rest: "?c + (len - (offset + ?c)) = len - offset" using c(3) by simp
    have "mem_bytes (mem d) (a + of_nat offset) ?c @ mem_bytes (mem d) (a + of_nat (offset + ?c)) (len - (offset + ?c)) =
        mem_bytes (mem d) (a + of_nat offset) (len - offset)"
      using mem_bytes_append [of "mem d" "a + of_nat offset" ?c "len - (offset + ?c)"] rest by (simp add: add.assoc)
    with True s ih show ?thesis
      unfolding read_chunks.simps [of io res a ptr offset len sp d] by (simp add: Let_def)
  qed
qed

section \<open>The whole range\<close>

lemma base_address_parts:
  assumes "unat a < 2 ^ 32"
  shows "unat (base_address a) = unat a - unat a mod 0x1000" "unat (a - base_address a) = unat a mod 0x1000"
    "base_address a + (a - base_address a) = a"
proof -
  have m: "ucast (NOT ATR_TABLE_SIZE_MASK) = (mask 32 AND NOT (mask 12) :: u64)"
    by (simp add: ATR_TABLE_SIZE_MASK_def mask_eq_exp_minus_1)
  have a32: "a AND mask 32 = a" using assms by (intro word_unat_eq_iff [THEN iffD2]) (simp add: unat_and_mask)
  have b: "base_address a = a AND NOT (mask 12)" unfolding base_address_def m by (simp add: and.assoc [symmetric] a32)
  have "(a AND NOT (mask 12)) + (a AND mask 12) = a"
  proof -
    have "(a AND NOT (mask 12)) AND (a AND mask 12) = 0" by (rule bit_word_eqI) (auto simp: bit_simps)
    then have "(a AND NOT (mask 12)) + (a AND mask 12) = (a AND NOT (mask 12)) OR (a AND mask 12)" by (rule disjunctive_add_eq_or)
    also have "\<dots> = a" by (rule bit_word_eqI) (auto simp: bit_simps)
    finally show ?thesis .
  qed
  then have d: "a - base_address a = a AND mask 12" unfolding b by (metis add_diff_cancel_left')
  then show mo: "unat (a - base_address a) = unat a mod 0x1000" by (simp add: unat_and_mask)
  have "base_address a \<le> a" unfolding b by (rule word_and_le1 [of "NOT (mask 12)" a, simplified and.commute]) 
  then have "unat (a - base_address a) = unat a - unat (base_address a)" "unat (base_address a) \<le> unat a"
    by (simp_all add: unat_sub_le word_le_nat_alt)
  with mo show "unat (base_address a) = unat a - unat a mod 0x1000" by simp
qed simp

lemma first_chunk_size:
  assumes "unat a < 2 ^ 32"
  shows "unat (first_chunk a len) = min (0x1000 - unat a mod 0x1000) (unat len)"
proof -
  note p = base_address_parts [OF assms]
  have e: "base_address a + 0x1000 - a = 0x1000 - (a - base_address a)" by (simp add: algebra_simps)
  have "a - base_address a \<le> 0x1000" unfolding word_le_nat_alt p(2) by simp
  then have u: "unat (base_address a + 0x1000 - a) = 0x1000 - unat a mod 0x1000" unfolding e p(2) [symmetric] by (subst unat_sub_le) simp_all
  then have "unat (ucast (base_address a + 0x1000 - a) :: u32) = 0x1000 - unat a mod 0x1000"
    by (subst unat_ucast_small) simp_all
  then show ?thesis by (simp add: first_chunk_def ATR_TABLE_SIZE_def min_def word_le_nat_alt)
qed

lemma read_atr_ok:
  assumes "atr_device io res mem cfg"
  shows "\<exists>atr. hailo_pcie_read_atr_table io (pr_config res) 0 sp d = (Ok atr, d) \<and> saved_trsl atr = trsl res (cfg d)"
proof -
  let ?c = "res_address (pr_config res)"
  have off: "ATR_PCIE_BRIDGE_OFFSET 0 = 0x700" by (simp add: ATR_PCIE_BRIDGE_OFFSET_def)
  have "hailo_resource_read_buffer io (pr_config res) 0x700 20 sp d = (mem_bytes (cfg d) (?c + 0x700) 20, d)"
    using ram_read_head [OF atr_deviceD(4) [OF assms] atr_window [OF assms]] by (simp add: hailo_resource_read_buffer_def)
  moreover have "saved_trsl (atr_of_bytes (mem_bytes (cfg d) (?c + 0x700) 20)) = trsl res (cfg d)"
    by (simp add: saved_trsl_def atr_of_bytes_def u32_at_def trsl_def word_at_def add.assoc)
  ultimately show ?thesis by (simp add: hailo_pcie_read_atr_table_def HAILO_PCIE_MAX_ATR_TABLE_INDEX_def off)
qed

lemma first_chunk_fits:
  assumes "unat a < 2 ^ 32"
  shows "unat (ucast (a - base_address a) :: u32) + unat (first_chunk a len) \<le> 0x1000"
    "base_address a + ucast (ucast (a - base_address a) :: u32) = a" "unat (first_chunk a len) \<le> unat len"
proof -
  note p = base_address_parts [OF assms]
  have fits: "m < 0x1000 \<Longrightarrow> m + min (0x1000 - m) n \<le> 0x1000" for m n :: nat by simp
  have u: "unat (ucast (a - base_address a) :: u32) = unat a mod 0x1000" using p(2) by (subst unat_ucast_small) simp_all
  show "unat (ucast (a - base_address a) :: u32) + unat (first_chunk a len) \<le> 0x1000" "unat (first_chunk a len) \<le> unat len"
    unfolding u first_chunk_size [OF assms] using fits [of "unat a mod 0x1000" "unat len"] by simp_all
  have "(ucast (ucast (a - base_address a) :: u32) :: u64) = a - base_address a"
    using p(2) u by (intro word_unat_eq_iff [THEN iffD2]) simp
  then show "base_address a + ucast (ucast (a - base_address a) :: u32) = a" using p(3) by simp
qed

lemma write_memory_ok:
  assumes dev: "atr_device io res mem cfg" and a: "unat dest < 2 ^ 32" and len: "unat len \<le> length src"
  shows "\<exists>d'. write_memory io res dest src ptr len sp d = (Ok (), d') \<and>
    mem d' = mem_store (mem d) dest (take (unat len) src) \<and> trsl res (cfg d') = trsl res (cfg d)"
proof -
  obtain atr where atr: "hailo_pcie_read_atr_table io (pr_config res) 0 sp d = (Ok atr, d)" "saved_trsl atr = trsl res (cfg d)"
    using read_atr_ok [OF dev] by blast
  define r where "r = (if base_address dest \<noteq> dest
      then let chunk_len = first_chunk dest len;
               (r, d1) = write_memory_chunk io res (base_address dest) (ucast (dest - base_address dest)) src ptr chunk_len sp d
           in (r, unat chunk_len, d1) else (Ok (), 0, d))"
  obtain n d1 where n: "r = (Ok (), n, d1)" "mem d1 = mem_store (mem d) dest (take n src)" "n \<le> unat len"
  proof (cases "base_address dest = dest")
    case True then show thesis using that [of 0 d] by (simp add: r_def)
  next
    case False
    note f = first_chunk_fits(1) [OF a, of len] first_chunk_fits(2) [OF a] first_chunk_fits(3) [OF a, of len]
    obtain d1 where "write_memory_chunk io res (base_address dest) (ucast (dest - base_address dest)) src ptr (first_chunk dest len) sp d = (Ok (), d1)"
        "mem d1 = mem_store (mem d) dest (take (unat (first_chunk dest len)) src)"
      using write_memory_chunk_ok [OF dev f(1) le_trans [OF f(3) len], of "base_address dest" ptr sp d] unfolding f(2) by blast
    with False f(3) show thesis using that by (simp add: r_def)
  qed
  obtain d2 where d2: "write_chunks io res dest src ptr n (unat len) sp d1 = (Ok (), d2)"
      "mem d2 = mem_store (mem d1) (dest + of_nat n) (take (unat len - n) (drop n src))"
    using write_chunks_ok [OF dev n(3) len, of dest ptr sp d1] unat_less_u32 [of len] by auto
  obtain d3 where d3: "hailo_pcie_configure_atr_table io (pr_config res) (saved_trsl atr) 0 sp d2 = (Ok (), d3)"
      "mem d3 = mem d2" "trsl res (cfg d3) = saved_trsl atr"
    using configure_atr_ok [OF dev] by blast
  have "take (unat len) src = take n src @ take (unat len - n) (drop n src)"
    using take_add [of n "unat len - n" src] n(3) by simp
  moreover have "length (take n src) = n" using n(3) len by simp
  ultimately have "mem d3 = mem_store (mem d) dest (take (unat len) src)"
    unfolding d3(2) d2(2) n(2) by (metis mem_store_append)
  moreover have "write_memory io res dest src ptr len sp d = (Ok (), d3)"
    unfolding write_memory_def atr(1) using n(1) d2(1) d3(1) unfolding r_def by (simp add: Let_def)
  ultimately show ?thesis using d3(3) atr(2) by metis
qed

lemma read_memory_ok:
  assumes dev: "atr_device io res mem cfg" and a: "unat src < 2 ^ 32"
  shows "\<exists>d'. read_memory io res src ptr len sp d = (Ok (mem_bytes (mem d) src (unat len)), d') \<and>
    mem d' = mem d \<and> trsl res (cfg d') = trsl res (cfg d)"
proof -
  obtain atr where atr: "hailo_pcie_read_atr_table io (pr_config res) 0 sp d = (Ok atr, d)" "saved_trsl atr = trsl res (cfg d)"
    using read_atr_ok [OF dev] by blast
  define r where "r = (if base_address src \<noteq> src
      then let chunk_len = first_chunk src len;
               (r, d1) = read_memory_chunk io res (base_address src) (ucast (src - base_address src)) ptr chunk_len sp d
           in (r, unat chunk_len, d1) else (Ok [], 0, d))"
  obtain n d1 where n: "r = (Ok (mem_bytes (mem d) src n), n, d1)" "mem d1 = mem d" "n \<le> unat len"
  proof (cases "base_address src = src")
    case True then show thesis using that [of 0 d] by (simp add: r_def)
  next
    case False
    note f = first_chunk_fits(1) [OF a, of len] first_chunk_fits(2) [OF a] first_chunk_fits(3) [OF a, of len]
    obtain d1 where "read_memory_chunk io res (base_address src) (ucast (src - base_address src)) ptr (first_chunk src len) sp d =
        (Ok (mem_bytes (mem d) src (unat (first_chunk src len))), d1)" "mem d1 = mem d"
      using read_memory_chunk_ok [OF dev f(1), of "base_address src" ptr sp d] unfolding f(2) by blast
    with False f(3) show thesis using that [of "unat (first_chunk src len)" d1] by (simp add: r_def Let_def)
  qed
  obtain d2 where d2: "read_chunks io res src ptr n (unat len) sp d1 = (Ok (mem_bytes (mem d1) (src + of_nat n) (unat len - n)), d2)"
      "mem d2 = mem d1"
    using read_chunks_ok [OF dev n(3), of src ptr sp d1] unat_less_u32 [of len] by auto
  obtain d3 where d3: "hailo_pcie_configure_atr_table io (pr_config res) (saved_trsl atr) 0 sp d2 = (Ok (), d3)"
      "mem d3 = mem d2" "trsl res (cfg d3) = saved_trsl atr"
    using configure_atr_ok [OF dev] by blast
  have "mem_bytes (mem d) src n @ mem_bytes (mem d1) (src + of_nat n) (unat len - n) = mem_bytes (mem d) src (unat len)"
    unfolding n(2) mem_bytes_append using n(3) by simp
  moreover have "read_memory io res src ptr len sp d = (Ok (mem_bytes (mem d) src n @ mem_bytes (mem d1) (src + of_nat n) (unat len - n)), d3)"
    unfolding read_memory_def atr(1) using n(1) d2(1) d3(1) unfolding r_def by (simp add: Let_def)
  ultimately show ?thesis using d3(2,3) d2(2) n(2) atr(2) by metis
qed

section \<open>Properties of memory accesses\<close>

text \<open>C16: On a device with an ATR window, \<open>write_memory\<close> puts exactly the source bytes at \<open>dest\<close> and changes no other byte of the
  device memory, for every alignment and length: no chunk leaves the 4 KB window (so no \<open>BUG_ON\<close> fires) and none is skipped or
  written twice. The translation of the window is the previous one again.\<close>
theorem write_memory_exact:
  assumes "atr_device io res mem cfg" and "unat dest < 2 ^ 32" and "unat len \<le> length src"
  shows "\<exists>d'. write_memory io res dest src ptr len sp d = (Ok (), d') \<and>
    (\<forall>x. mem d' x = (if unat (x - dest) < unat len then src ! unat (x - dest) else mem d x)) \<and>
    trsl res (cfg d') = trsl res (cfg d)"
proof -
  have l: "length (take (unat len) src) \<le> 2 ^ 64" using unat_less_u32 [of len] by simp
  obtain d' where d': "write_memory io res dest src ptr len sp d = (Ok (), d')"
      "mem d' = mem_store (mem d) dest (take (unat len) src)" "trsl res (cfg d') = trsl res (cfg d)"
    using write_memory_ok [OF assms] by blast
  have "mem d' x = (if unat (x - dest) < unat len then src ! unat (x - dest) else mem d x)" for x
    unfolding d'(2) mem_store_apply [OF l] using assms(3) by simp
  with d'(1,3) show ?thesis by blast
qed

text \<open>What \<open>write_memory\<close> has stored, \<open>read_memory\<close> returns, although both split the range into chunks at window boundaries and
  reprogram the translation for each; reading changes nothing and restores the translation.\<close>
theorem memory_roundtrip:
  assumes "atr_device io res mem cfg" and "unat a < 2 ^ 32" and "unat len \<le> length src"
    and "write_memory io res a src ptr len sp d = (r, d1)"
  shows "\<exists>d2. read_memory io res a ptr' len sp' d1 = (Ok (take (unat len) src), d2) \<and> mem d2 = mem d1 \<and>
    trsl res (cfg d2) = trsl res (cfg d)"
proof -
  let ?bs = "take (unat len) src"
  have l: "length ?bs = unat len" "length ?bs \<le> 2 ^ 64" using assms(3) unat_less_u32 [of len] by simp_all
  have d1: "mem d1 = mem_store (mem d) a ?bs" "trsl res (cfg d1) = trsl res (cfg d)"
    using write_memory_ok [OF assms(1-3), of ptr sp d] assms(4) by auto
  have "mem_bytes (mem d1) a (unat len) = ?bs"
    unfolding d1(1) using mem_store_nth [of _ ?bs "mem d" a] l by (intro nth_equalityI) (simp_all add: mem_bytes_def)
  then show ?thesis using read_memory_ok [OF assms(1,2), of ptr' len sp' d1] d1(2) by auto
qed

section \<open>A concrete device\<close>

definition atr_mmio :: "hailo_pcie_resources \<Rightarrow> ((u64 \<Rightarrow> u8) \<times> (u64 \<Rightarrow> u8)) mmio" where
  "atr_mmio res = \<lparr>
     ioread32 = (\<lambda>a (m, c). (if unat (a - res_address (pr_fw_access res)) < 0x1000
        then word_at m (trsl res c + (a - res_address (pr_fw_access res))) else word_at c a, (m, c))),
     iowrite32 = (\<lambda>w a (m, c). if unat (a - res_address (pr_fw_access res)) < 0x1000
        then (store_word m (trsl res c + (a - res_address (pr_fw_access res))) w, c) else (m, store_word c a w)) \<rparr>"

definition sample_resources :: hailo_pcie_resources where
  "sample_resources = \<lparr> pr_config = \<lparr> res_address = 0x10000, res_size = 0x1000 \<rparr>, pr_vdma_registers = \<lparr> res_address = 0x20000, res_size = 0x1000 \<rparr>,
     pr_fw_access = \<lparr> res_address = 0x30000, res_size = 0x1000 \<rparr>, pr_board_type = HAILO_BOARD_TYPE_HAILO10H,
     pr_accelerator_type = HAILO_ACCELERATOR_TYPE_SOC \<rparr>"

lemma sample_atr_device: "atr_device (atr_mmio sample_resources) sample_resources fst snd"
proof -
  have regs: "\<not> unat (a - res_address (pr_fw_access sample_resources)) < 0x1000" if "a \<in> atr_regs sample_resources" for a
    using that unfolding atr_regs_def sample_resources_def by (auto simp: unat_minus_one)
  show ?thesis
    unfolding atr_device_def ram_window_def
    using regs by (auto simp: atr_mmio_def fw_window_def split_beta) (simp_all add: sample_resources_def IS_ALIGNED_def)
qed

theorem write_memory_exact_witness:
  "\<exists>d'. write_memory (atr_mmio sample_resources) sample_resources 0x1FFE [1, 2, 3, 4, 5] 0 4 0 (\<lambda>_. 9, \<lambda>_. 0) = (Ok (), d') \<and>
    map (fst d') [0x1FFD, 0x1FFE, 0x1FFF, 0x2000, 0x2001, 0x2002] = [9, 1, 2, 3, 4, 9]"
proof -
  have h: "unat (0x1FFE :: u64) < 2 ^ 32" "unat (4 :: u32) \<le> length [1 :: u8, 2, 3, 4, 5]" by simp_all
  from write_memory_exact [OF sample_atr_device h, of 0 0 "(\<lambda>_. 9, \<lambda>_. 0)"]
  show ?thesis by (auto simp: unsigned_minus_1_eq_mask mask_eq_exp_minus_1)
qed

theorem memory_roundtrip_witness:
  "\<exists>d1 d2. write_memory (atr_mmio sample_resources) sample_resources 0x1FFE [1, 2, 3, 4, 5] 0 4 0 (\<lambda>_. 9, \<lambda>_. 0) = (Ok (), d1) \<and>
    read_memory (atr_mmio sample_resources) sample_resources 0x1FFE 0 4 0 d1 = (Ok [1, 2, 3, 4], d2)"
proof -
  have h: "unat (0x1FFE :: u64) < 2 ^ 32" "unat (4 :: u32) \<le> length [1 :: u8, 2, 3, 4, 5]" by simp_all
  obtain d1 where d1: "write_memory (atr_mmio sample_resources) sample_resources 0x1FFE [1, 2, 3, 4, 5] 0 4 0 (\<lambda>_. 9, \<lambda>_. 0) = (Ok (), d1)"
    using write_memory_ok [OF sample_atr_device h] by blast
  from memory_roundtrip [OF sample_atr_device h d1, of 0 0] d1 show ?thesis by auto
qed

end
