(* ===== verification/Pcie_Loading.thy ===== *)
theory Pcie_Loading
  imports Pcie_Memory
begin

text \<open>
  Loading the firmware of a stage: which files decide the result, what device memory holds afterwards, and the layout of the
  files in the board tables.
\<close>

section \<open>A validated image contains what is written\<close>

lemma validate_fw_header_OkD:
  assumes "length fw < 2 ^ 31" and "unat outer \<le> length fw"
    and "FW_VALIDATION__validate_fw_header fw (of_nat (length fw)) mx outer board = Ok (consumed, off)"
  shows "off = outer \<and> (\<exists>c. fw_code_size fw outer = Ok c \<and> unat consumed = unat outer + 24 + unat c \<and> unat consumed \<le> length fw \<and> unat outer + 24 \<le> length fw)"
proof -
  note eq = assms(3) [unfolded validate_fw_header_cases [OF assms(1,2)]]
  then obtain c where c: "fw_code_size fw outer = Ok c" "unat outer + 24 + unat c \<le> length fw" "off = outer" "consumed = outer + 24 + c"
      "unat outer + 24 \<le> length fw"
    by (auto split: if_splits)
  have "unat (outer + 24) = unat outer + 24" using c(5) assms(1) by (subst unat_add_small) simp_all
  then have "unat (outer + 24 + c) = unat outer + 24 + unat c" using c(2) assms(1) by (subst unat_add_small) simp_all
  with c show ?thesis by simp
qed

lemma if_Ok_D: "(if P then Ok a else Err e) = Ok b \<Longrightarrow> P \<and> a = b"
  by (simp split: if_splits)

lemma validate_cert_header_OkD:
  assumes "length fw < 2 ^ 31" and "unat outer \<le> length fw"
    and "FW_VALIDATION__validate_cert_header fw (of_nat (length fw)) outer = Ok (consumed, off)"
  shows "off = outer \<and> (\<exists>k c. cert_key_size fw outer = Ok k \<and> cert_content_size fw outer = Ok c \<and>
    unat consumed = unat outer + 8 + unat k + unat c \<and> unat consumed \<le> length fw)"
proof -
  note eq = assms(3) [unfolded validate_cert_header_cases [OF assms(1,2)]]
  note D = if_Ok_D [OF eq]
  from conjunct1 [OF D] obtain k c where kc: "cert_key_size fw outer = Ok k" "cert_content_size fw outer = Ok c" "unat outer + 8 + unat k + unat c \<le> length fw"
    by blast
  from conjunct2 [OF D, unfolded kc result.case] have e': "outer = off" "outer + 8 + k + c = consumed" by auto
  note e = e' [symmetric]
  note c = kc e
  have "unat (outer + 8) = unat outer + 8" using c(3) assms(1) by (subst unat_add_small) simp_all
  then have "unat (outer + 8 + k) = unat outer + 8 + unat k" using c(3) assms(1) by (subst unat_add_small) simp_all
  then have "unat (outer + 8 + k + c) = unat outer + 8 + unat k + unat c" using c(3) assms(1) by (subst unat_add_small) simp_all
  with c show ?thesis by simp
qed

definition header_fits :: "u8 list \<Rightarrow> u32 \<Rightarrow> bool" where
  "header_fits fw off \<longleftrightarrow> (\<exists>c. fw_code_size fw off = Ok c \<and> unat off + 24 + unat c \<le> length fw)"

definition cert_fits :: "u8 list \<Rightarrow> u32 \<Rightarrow> bool" where
  "cert_fits fw off \<longleftrightarrow> (\<exists>k c. cert_key_size fw off = Ok k \<and> cert_content_size fw off = Ok c \<and> unat off + 8 + unat k + unat c \<le> length fw)"

lemma validate_headers_OkD:
  assumes len: "length fw < 2 ^ 31"
    and ok: "FW_VALIDATION__validate_fw_headers fw (of_nat (length fw)) board acc = Ok (app, cert, core)"
  shows "header_fits fw app \<and> cert_fits fw cert \<and> (acc = HAILO_ACCELERATOR_TYPE_NNC \<longrightarrow> (\<exists>h. core = Some h \<and> header_fits fw h))"
proof -
  let ?n = "of_nat (length fw) :: u64"
  obtain c1 c2 c3 where v: "FW_VALIDATION__validate_fw_header fw ?n MAXIMUM_APP_FIRMWARE_CODE_SIZE 0 board = Ok (c1, app)"
      "FW_VALIDATION__validate_cert_header fw ?n c1 = Ok (c2, cert)"
      "(if acc = HAILO_ACCELERATOR_TYPE_NNC
        then bind_r (FW_VALIDATION__validate_fw_header fw ?n MAXIMUM_CORE_FIRMWARE_CODE_SIZE c2 board) (\<lambda>(c3, core). Ok (c3, Some core))
        else Ok (c2, None)) = Ok (c3, core)"
    using ok by (auto simp: FW_VALIDATION__validate_fw_headers_def bind_r_eq_Ok split: prod.splits if_splits)
  note a = validate_fw_header_OkD [OF len _ v(1)]
  note b = validate_cert_header_OkD [OF len _ v(2)]
  have "header_fits fw h" if "FW_VALIDATION__validate_fw_header fw ?n MAXIMUM_CORE_FIRMWARE_CODE_SIZE c2 board = Ok (x, h)" for x h
    using validate_fw_header_OkD [OF len _ that] a b by (auto simp: header_fits_def)
  with a b v(3) show ?thesis
    by (auto simp: header_fits_def cert_fits_def bind_r_eq_Ok split: if_splits prod.splits)
qed

lemma validate_headers_not_fault:
  assumes len: "length fw < 2 ^ 31"
  shows "FW_VALIDATION__validate_fw_headers fw (of_nat (length fw)) board acc \<noteq> Fault x"
proof -
  let ?n = "of_nat (length fw) :: u64"
  have h: "FW_VALIDATION__validate_fw_header fw ?n mx outer board \<noteq> Fault x" if "unat outer \<le> length fw" for mx outer
    unfolding validate_fw_header_cases [OF len that] by simp
  have c: "FW_VALIDATION__validate_cert_header fw ?n outer \<noteq> Fault x" if "unat outer \<le> length fw" for outer
    unfolding validate_cert_header_cases [OF len that] by simp
  show ?thesis
  proof (cases "FW_VALIDATION__validate_fw_header fw ?n MAXIMUM_APP_FIRMWARE_CODE_SIZE 0 board")
    case (Ok r1)
    then obtain c1 app where r1: "r1 = (c1, app)" by fastforce
    then have c1: "unat c1 \<le> length fw" using validate_fw_header_OkD [OF len _ Ok [unfolded r1]] by auto
    show ?thesis
    proof (cases "FW_VALIDATION__validate_cert_header fw ?n c1")
      case (Ok r2)
      then obtain c2 cert where r2: "r2 = (c2, cert)" by fastforce
      then have c2: "unat c2 \<le> length fw" using validate_cert_header_OkD [OF len c1 Ok [unfolded r2]] by auto
      show ?thesis using \<open>FW_VALIDATION__validate_fw_header fw ?n MAXIMUM_APP_FIRMWARE_CODE_SIZE 0 board = Ok r1\<close> Ok r1 r2 h [OF c2]
        by (cases "FW_VALIDATION__validate_fw_header fw ?n MAXIMUM_CORE_FIRMWARE_CODE_SIZE c2 board")
          (auto simp: FW_VALIDATION__validate_fw_headers_def split: prod.split)
    qed (use Ok r1 c [OF c1] in \<open>auto simp: FW_VALIDATION__validate_fw_headers_def\<close>)
  qed (use h [of 0 MAXIMUM_APP_FIRMWARE_CODE_SIZE] in \<open>auto simp: FW_VALIDATION__validate_fw_headers_def\<close>)
qed

section \<open>Writing one file\<close>

lemma then_d_Ok [simp]: "then_d (Ok (), d) f = f d"
  by (simp add: then_d_def)

lemma unat_ucast_lt32: "unat (ucast (x :: u32) :: u64) < 2 ^ 32"
  using unat_less_u32 [of x] by simp

lemma write_app_ok:
  assumes dev: "atr_device io res mem cfg" and h: "header_fits fw app" and c: "cert_fits fw cert"
  shows "\<exists>d'. hailo_write_app_firmware io res fw ptr app cert sp d = (Ok (), d')"
proof -
  obtain cs where cs: "fw_code_size fw app = Ok cs" "unat app + 24 + unat cs \<le> length fw" using h by (auto simp: header_fits_def)
  obtain k n where kn: "cert_key_size fw cert = Ok k" "cert_content_size fw cert = Ok n" "unat cert + 8 + unat k + unat n \<le> length fw"
    using c by (auto simp: cert_fits_def)
  note w = write_memory_ok [OF dev unat_ucast_lt32]
  let ?a = "fw_addresses (pr_board_type res)"
  obtain d1 where d1: "write_memory io res (ucast (boot_fw_header ?a)) (drop (unat app) fw) (ptr + ucast app) 24 sp d = (Ok (), d1)"
    using w [of 24 "drop (unat app) fw"] cs(2) by force
  obtain d2 where d2: "write_memory io res (ucast (app_fw_code_ram_base ?a)) (drop (unat app + 24) fw) (ptr + of_nat (unat app + 24)) cs sp d1 = (Ok (), d2)"
    using w [of cs "drop (unat app + 24) fw"] cs(2) by force
  obtain d3 where d3: "write_memory io res (ucast (boot_key_cert ?a)) (drop (unat cert + 8) fw) (ptr + of_nat (unat cert + 8)) k sp d2 = (Ok (), d3)"
    using w [of k "drop (unat cert + 8) fw"] kn(3) by force
  obtain d4 where d4: "write_memory io res (ucast (boot_cont_cert ?a)) (drop (unat cert + 8 + unat k) fw) (ptr + of_nat (unat cert + 8 + unat k)) n sp d3 = (Ok (), d4)"
    using w [of n "drop (unat cert + 8 + unat k) fw"] kn(3) by force
  show ?thesis
    unfolding hailo_write_app_firmware_def Let_def using cs(1) kn(1,2) d1 d2 d3 d4 by simp
qed

lemma write_core_ok:
  assumes dev: "atr_device io res mem cfg" and h: "header_fits fw core"
  shows "\<exists>d'. hailo_write_core_firmware io res fw ptr core sp d = (Ok (), d')"
proof -
  obtain cs where cs: "fw_code_size fw core = Ok cs" "unat core + 24 + unat cs \<le> length fw" using h by (auto simp: header_fits_def)
  note w = write_memory_ok [OF dev unat_ucast_lt32]
  let ?a = "fw_addresses (pr_board_type res)"
  obtain d1 where d1: "write_memory io res (ucast (core_code_ram_base ?a)) (drop (unat core + 24) fw) (ptr + of_nat (unat core + 24)) cs sp d = (Ok (), d1)"
    using w [of cs "drop (unat core + 24) fw"] cs(2) by force
  obtain d2 where d2: "write_memory io res (ucast (core_fw_header ?a)) (drop (unat core) fw) (ptr + ucast core) 24 sp d1 = (Ok (), d2)"
    using w [of 24 "drop (unat core) fw"] cs(2) by force
  show ?thesis unfolding hailo_write_core_firmware_def Let_def using cs(1) d1 d2 by simp
qed

text \<open>The result of a file, decided by the file system and the image alone.\<close>

definition file_status :: "hailo_pcie_resources \<Rightarrow> (string option \<Rightarrow> (u8 list \<times> u64) result) \<Rightarrow> hailo_file_batch \<Rightarrow> unit result" where
  "file_status res files f =
     bind_r (files (fb_filename f)) (\<lambda>(fw, ptr).
     if fb_max_size f < of_nat (length fw) then Err EFBIG
     else if fb_has_header f
     then (case FW_VALIDATION__validate_fw_headers fw (of_nat (length fw)) (pr_board_type res) (pr_accelerator_type res) of
             Ok _ \<Rightarrow> Ok () | _ \<Rightarrow> Err EINVAL)
     else Ok ())"

definition files_ok :: "(string option \<Rightarrow> (u8 list \<times> u64) result) \<Rightarrow> bool" where
  "files_ok files \<longleftrightarrow> (\<forall>n. case files n of Ok (fw, ptr) \<Rightarrow> length fw < 2 ^ 31 | Err e \<Rightarrow> True | Fault x \<Rightarrow> False)"

lemma write_single_file_status:
  assumes dev: "atr_device io res mem cfg" and files: "files_ok files"
    and core: "fb_has_core f \<longrightarrow> pr_accelerator_type res = HAILO_ACCELERATOR_TYPE_NNC"
  shows "\<exists>d'. write_single_file io res files f sp d = (file_status res files f, d')"
proof (cases "files (fb_filename f)")
  case (Ok r)
  then obtain fw ptr where fw: "files (fb_filename f) = Ok (fw, ptr)" by (cases r) auto
  have len: "length fw < 2 ^ 31" using files fw unfolding files_ok_def by (auto dest: spec [of _ "fb_filename f"])
  have n32: "unat (of_nat (length fw) :: u32) = length fw" using len by (intro unat_of_nat_small) simp
  consider "fb_max_size f < of_nat (length fw)" | "\<not> fb_max_size f < of_nat (length fw)" "\<not> fb_has_header f"
    | "\<not> fb_max_size f < of_nat (length fw)" "fb_has_header f" by blast
  then show ?thesis
  proof cases
    case 1 then show ?thesis using fw by (simp add: write_single_file_def file_status_def)
  next
    case 2
    obtain d' where "write_memory io res (ucast (fb_address f)) fw ptr (of_nat (length fw)) sp d = (Ok (), d')"
      using write_memory_ok [OF dev unat_ucast_lt32, of "of_nat (length fw)" fw] n32 by force
    with 2 fw show ?thesis by (simp add: write_single_file_def file_status_def)
  next
    case 3
    show ?thesis
    proof (cases "FW_VALIDATION__validate_fw_headers fw (of_nat (length fw)) (pr_board_type res) (pr_accelerator_type res)")
      case (Ok r)
      then obtain app cert c where v: "FW_VALIDATION__validate_fw_headers fw (of_nat (length fw)) (pr_board_type res) (pr_accelerator_type res) = Ok (app, cert, c)"
        by (cases r) auto
      note h = validate_headers_OkD [OF len v]
      obtain d1 where d1: "hailo_write_app_firmware io res fw ptr app cert sp d = (Ok (), d1)" using write_app_ok [OF dev] h by blast
      obtain d2 where "(if fb_has_core f then (case c of None \<Rightarrow> (Fault Null_deref, d1) | Some c \<Rightarrow> hailo_write_core_firmware io res fw ptr c sp d1)
          else (Ok (), d1)) = (Ok (), d2)"
      proof (cases "fb_has_core f")
        case True
        then obtain g where g: "c = Some g" "header_fits fw g" using h core by blast
        obtain d2 where "hailo_write_core_firmware io res fw ptr g sp d1 = (Ok (), d2)" using write_core_ok [OF dev g(2)] by blast
        with that True g(1) show thesis by simp
      qed (use that in simp)
      with 3 fw v d1 show ?thesis by (simp add: write_single_file_def file_status_def)
    next
      case (Err e) with 3 fw show ?thesis by (simp add: write_single_file_def file_status_def)
    next
      case (Fault x) with validate_headers_not_fault [OF len] show ?thesis by blast
    qed
  qed
next
  case (Err e) then show ?thesis by (simp add: write_single_file_def file_status_def)
next
  case (Fault x) then show ?thesis using files unfolding files_ok_def by (auto dest: spec [of _ "fb_filename f"])
qed

lemma file_status_not_fault: "files_ok files \<Longrightarrow> file_status res files f \<noteq> Fault x"
  unfolding file_status_def files_ok_def
  by (cases "files (fb_filename f)") (auto dest: spec [of _ "fb_filename f"] split: result.splits if_splits)

section \<open>Loading a stage\<close>

definition failing :: "hailo_pcie_resources \<Rightarrow> (string option \<Rightarrow> (u8 list \<times> u64) result) \<Rightarrow> hailo_file_batch \<Rightarrow> bool" where
  "failing res files f \<longleftrightarrow> fb_is_mandatory f \<and> file_status res files f \<noteq> Ok ()"

lemma write_files_result:
  assumes "atr_device io res mem cfg" and "files_ok files"
    and "\<forall>f \<in> set fs. fb_has_core f \<longrightarrow> pr_accelerator_type res = HAILO_ACCELERATOR_TYPE_NNC"
  shows "\<exists>d'. write_files io res files fs sp d =
    (case find (failing res files) fs of None \<Rightarrow> Ok () | Some f \<Rightarrow> file_status res files f, d')"
  using assms(3)
proof (induction fs arbitrary: d)
  case (Cons f fs)
  obtain d1 where d1: "write_single_file io res files f sp d = (file_status res files f, d1)"
    using write_single_file_status [OF assms(1,2)] Cons.prems by force
  obtain d2 where d2: "write_files io res files fs sp d1 =
      (case find (failing res files) fs of None \<Rightarrow> Ok () | Some f \<Rightarrow> file_status res files f, d2)"
    using Cons by force
  show ?case
    using d1 d2 file_status_not_fault [OF assms(2), of res f]
    by (cases "file_status res files f") (auto simp: failing_def [of res files f])
qed simp

lemma board_tables_core:
  assumes "device_type_of board = Ok acc" and "hailo_pcie_get_loading_stage_info board stage = Ok si" and "f \<in> set (ls_batch si)" and "fb_has_core f"
  shows "acc = HAILO_ACCELERATOR_TYPE_NNC"
proof -
  have s: "stage < length (stages board)" "si = stages board ! stage"
    using array_get_OkD [OF assms(2) [unfolded hailo_pcie_get_loading_stage_info_def]] by auto
  have "length (stages board) = 3" by (cases board) auto
  with s(1) have "stage = 0 \<or> stage = 1 \<or> stage = 2" by auto
  with s(2) assms(1,3,4) show ?thesis
    by (cases board) (auto simp: zero_stage_def hailo10h_files_stg1_def hailo10h2_files_stg1_def hailo10h_family_files_stg2_def)
qed

lemma board_tables_count:
  assumes "hailo_pcie_get_loading_stage_info board stage = Ok si"
  shows "unat (ls_amount_of_files_in_stage si) \<le> length (ls_batch si)"
proof -
  have s: "stage < length (stages board)" "si = stages board ! stage"
    using array_get_OkD [OF assms [unfolded hailo_pcie_get_loading_stage_info_def]] by auto
  have "length (stages board) = 3" by (cases board) auto
  with s(1) have "stage = 0 \<or> stage = 1 \<or> stage = 2" by auto
  with s(2) show ?thesis
    by (cases board) (auto simp: zero_stage_def hailo10h_files_stg1_def hailo10h2_files_stg1_def hailo10h_family_files_stg2_def
        hailo8_files_stg1_def hailo10h_legacy_files_stg1_def hailo15l_files_stg1_def)
qed

text \<open>C17: The mandatory files decide whether a stage is booted. For every board the driver supports and every stage of its table,
  loading never faults (a file without a core image is never asked for one, the table is never read past its end); the result is
  the status of the first mandatory file that is missing, too big or invalid, in which case the boot is not triggered; without such
  a file the result is 0, and the word at the trigger address is 1.\<close>
theorem firmware_batch_result:
  assumes dev: "atr_device io res mem cfg" and files: "files_ok files"
    and board: "device_type_of (pr_board_type res) = Ok (pr_accelerator_type res)"
    and si: "hailo_pcie_get_loading_stage_info (pr_board_type res) stage = Ok si"
    and fs: "fs = take (unat (ls_amount_of_files_in_stage si)) (ls_batch si)"
  shows "\<exists>d'. case find (failing res files) fs of
      Some f \<Rightarrow> hailo_pcie_write_firmware_batch io res files stage ptr sp d = (file_status res files f, d') \<and>
        snd (write_files io res files fs sp d) = d'
    | None \<Rightarrow> hailo_pcie_write_firmware_batch io res files stage ptr sp d = (Ok (), d') \<and>
        word_at (mem d') (ucast (ls_trigger_address si)) = 1"
proof -
  have core: "\<forall>f \<in> set fs. fb_has_core f \<longrightarrow> pr_accelerator_type res = HAILO_ACCELERATOR_TYPE_NNC"
    using board_tables_core [OF board si] unfolding fs by (auto dest: in_set_takeD)
  obtain d1 where d1: "write_files io res files fs sp d =
      (case find (failing res files) fs of None \<Rightarrow> Ok () | Some f \<Rightarrow> file_status res files f, d1)"
    using write_files_result [OF dev files core] by blast
  have run: "hailo_pcie_write_firmware_batch io res files stage ptr sp d =
      then_d (write_files io res files fs sp d) (\<lambda>d1. hailo_trigger_firmware_boot io res stage ptr sp d1)"
    unfolding hailo_pcie_write_firmware_batch_def using si board_tables_count [OF si] by (simp add: fs)
  show ?thesis
  proof (cases "find (failing res files) fs")
    case (Some f)
    then have "failing res files f" using find_Some_iff [of "failing res files" fs f] by auto
    with Some d1 file_status_not_fault [OF files, of res f] show ?thesis
      unfolding run by (cases "file_status res files f") (auto simp: failing_def then_d_def)
  next
    case None
    let ?t = "ucast (ls_trigger_address si) :: u64"
    have l: "unat (4 :: u32) \<le> length (u32_bytes 1)" by (simp add: u32_bytes_def)
    obtain d2 where d2: "write_memory io res ?t (u32_bytes 1) ptr 4 sp d1 = (Ok (), d2)" "mem d2 = mem_store (mem d1) ?t (take 4 (u32_bytes 1))"
      using write_memory_ok [OF dev unat_ucast_lt32 [of "ls_trigger_address si"] l, of ptr sp d1] by auto
    have "word_at (mem d2) ?t = 1"
      using word_at_mem_store [of 0 "u32_bytes 1" "mem d1" ?t] by (simp add: d2(2) u32_bytes_def u32_of_bytes_def)
    with None d1 d2(1) si show ?thesis unfolding run by (simp add: hailo_trigger_firmware_boot_def)
  qed
qed

theorem firmware_batch_result_witness:
  "\<exists>d'. hailo_pcie_write_firmware_batch (atr_mmio sample_resources) sample_resources
      (\<lambda>n. if n = Some ''hailo/hailo10h/fitImage'' then Err ENOENT else Ok ([1, 2, 3], 0)) 1 0 0 (\<lambda>_. 0, \<lambda>_. 0) = (Err ENOENT, d')"
proof -
  let ?files = "\<lambda>n. if n = Some ''hailo/hailo10h/fitImage'' then Err ENOENT else Ok ([1 :: u8, 2, 3], 0 :: u64)"
  have f: "files_ok ?files" by (simp add: files_ok_def)
  have b: "device_type_of (pr_board_type sample_resources) = Ok (pr_accelerator_type sample_resources)" by (simp add: sample_resources_def)
  define si where "si = stages HAILO_BOARD_TYPE_HAILO10H ! 1"
  have si: "hailo_pcie_get_loading_stage_info (pr_board_type sample_resources) 1 = Ok si" "ls_batch si = hailo10h_family_files_stg2"
      "ls_amount_of_files_in_stage si = 4"
    by (simp_all add: hailo_pcie_get_loading_stage_info_def sample_resources_def si_def)
  obtain f where f2: "find (failing sample_resources ?files) (take (unat (ls_amount_of_files_in_stage si)) (ls_batch si)) = Some f"
      "file_status sample_resources ?files f = Err ENOENT"
    unfolding si(2,3) by (simp add: hailo10h_family_files_stg2_def failing_def file_status_def)
  from firmware_batch_result [OF sample_atr_device f b si(1) refl, of 0 0 "(\<lambda>_. 0, \<lambda>_. 0)"]
  show ?thesis unfolding f2(1) option.case f2(2) by blast
qed

section \<open>Layout of the files\<close>

text \<open>The device range a file without header may fill, and whether two files may overlap.\<close>

definition may_overlap :: "hailo_file_batch \<Rightarrow> hailo_file_batch \<Rightarrow> bool" where
  "may_overlap f g \<longleftrightarrow> unat (fb_address f) < unat (fb_address g) + unat (fb_max_size g) \<and>
     unat (fb_address g) < unat (fb_address f) + unat (fb_max_size f)"

definition plain_files :: "hailo_board_type \<Rightarrow> nat \<Rightarrow> hailo_file_batch list" where
  "plain_files board stage = filter (\<lambda>f. \<not> fb_has_header f)
     (take (unat (ls_amount_of_files_in_stage (stages board ! stage))) (ls_batch (stages board ! stage)))"

fun disjoint_files :: "hailo_file_batch list \<Rightarrow> bool" where
  "disjoint_files [] = True"
| "disjoint_files (f # fs) \<longleftrightarrow> (\<forall>g \<in> set fs. \<not> may_overlap f g) \<and> disjoint_files fs"

text \<open>The size limits of the board tables keep the files that are copied verbatim apart, in every stage of every board but one: in
  the first stage of the MARS board a device tree within its limit (\<open>0x80004\<close>, \<open>0x20000\<close> bytes) reaches over the customer certificate
  written before it at \<open>0x88000\<close>.\<close>
theorem stage_files_disjoint:
  assumes "stage < MAX_LOADING_STAGES"
  shows "disjoint_files (plain_files board stage) \<longleftrightarrow> \<not> (board = HAILO_BOARD_TYPE_MARS \<and> stage = FIRST_STAGE)"
proof -
  have "stage = 0 \<or> stage = 1 \<or> stage = 2" using assms by (auto simp: MAX_LOADING_STAGES_def)
  then show ?thesis
    by (cases board) (auto simp: plain_files_def FIRST_STAGE_def may_overlap_def zero_stage_def hailo10h_files_stg1_def hailo10h2_files_stg1_def
        hailo10h_family_files_stg2_def hailo8_files_stg1_def hailo10h_legacy_files_stg1_def hailo15l_files_stg1_def
        PCIE_HAILO8_BOARD_CFG_MAX_SIZE_def PCIE_HAILO8_FW_CFG_MAX_SIZE_def)
qed

theorem stage_files_disjoint_witness: "\<not> disjoint_files (plain_files HAILO_BOARD_TYPE_MARS 0)"
  using stage_files_disjoint [of 0 HAILO_BOARD_TYPE_MARS] by (simp add: MAX_LOADING_STAGES_def FIRST_STAGE_def)

end
