(* ===== verification/Pcie_Interrupts.thy ===== *)
theory Pcie_Interrupts
  imports Pcie_Firmware
begin

text \<open>
  Interrupt sources and the hand-over of firmware controls, on devices whose registers behave as documented: the interrupt
  status registers are write-one-to-clear, the firmware BAR is memory with a doorbell register.
\<close>

section \<open>Interrupt sources\<close>

definition w1c_regs :: "'d mmio \<Rightarrow> hailo_resource \<Rightarrow> ('d \<Rightarrow> u64 \<Rightarrow> u32) \<Rightarrow> bool" where
  "w1c_regs io r reg \<longleftrightarrow>
     (\<forall>off \<in> {BCS_ISTATUS_HOST, BCS_SOURCE_INTERRUPT_PER_CHANNEL, BCS_DESTINATION_INTERRUPT_PER_CHANNEL}.
        (\<forall>d. ioread32 io (res_address r + off) d = (reg d off, d)) \<and>
        (\<forall>w d. reg (iowrite32 io w (res_address r + off) d) = (reg d)(off := reg d off AND NOT w)))"

lemma read_and_clear:
  assumes "w1c_regs io r reg"
    and "off \<in> {BCS_ISTATUS_HOST, BCS_SOURCE_INTERRUPT_PER_CHANNEL, BCS_DESTINATION_INTERRUPT_PER_CHANNEL}"
  shows "fst (read_and_clear_reg io r off d) = reg d off" "reg (snd (read_and_clear_reg io r off d)) = (reg d)(off := 0)"
proof -
  have *: "ioread32 io (res_address r + off) d = (reg d off, d)"
    "reg (iowrite32 io w (res_address r + off) d) = (reg d)(off := reg d off AND NOT w)" for w d
    using assms unfolding w1c_regs_def by blast+
  show "fst (read_and_clear_reg io r off d) = reg d off"
    by (simp add: read_and_clear_reg_def hailo_resource_read32_def *)
  show "reg (snd (read_and_clear_reg io r off d)) = (reg d)(off := 0)"
    by (rule ext) (simp add: read_and_clear_reg_def hailo_resource_read32_def hailo_resource_write32_def *)
qed

text \<open>An interrupt loses nothing. \<open>hailo_pcie_read_interrupt\<close> reports false exactly when no source is pending; otherwise it
  returns the software interrupts and the channels of the directions that are pending, clears exactly the registers it has
  read, and leaves the channels of a direction that is not pending for the next interrupt.\<close>
theorem read_interrupt_exact:
  assumes w: "w1c_regs io (pr_config res) reg"
  shows "case hailo_pcie_read_interrupt io res d of (pending, source, d') \<Rightarrow>
    (let st = reg d BCS_ISTATUS_HOST; src = (st AND 0xFF \<noteq> 0); dst = (st AND 0xFF00 \<noteq> 0) in
     pending = (st \<noteq> 0) \<and> is_sw_interrupts source = drop_bit 24 st \<and>
     is_vdma_channels_bitmap source = ((if src then reg d BCS_SOURCE_INTERRUPT_PER_CHANNEL else 0) OR
       (if dst then reg d BCS_DESTINATION_INTERRUPT_PER_CHANNEL else 0)) \<and>
     (\<forall>off. reg d' off = (if off = BCS_ISTATUS_HOST \<or> src \<and> off = BCS_SOURCE_INTERRUPT_PER_CHANNEL \<or>
         dst \<and> off = BCS_DESTINATION_INTERRUPT_PER_CHANNEL then 0 else reg d off)))"
proof -
  note rc = read_and_clear [OF w, of BCS_ISTATUS_HOST, simplified]
    read_and_clear [OF w, of BCS_SOURCE_INTERRUPT_PER_CHANNEL, simplified]
    read_and_clear [OF w, of BCS_DESTINATION_INTERRUPT_PER_CHANNEL, simplified]
  have ne: "BCS_SOURCE_INTERRUPT_PER_CHANNEL \<noteq> BCS_ISTATUS_HOST" "BCS_DESTINATION_INTERRUPT_PER_CHANNEL \<noteq> BCS_ISTATUS_HOST"
    "BCS_DESTINATION_INTERRUPT_PER_CHANNEL \<noteq> BCS_SOURCE_INTERRUPT_PER_CHANNEL" by (simp_all add: pcie_consts)
  show ?thesis
    unfolding hailo_pcie_read_interrupt_def Let_def split_beta BCS_ISTATUS_HOST_VDMA_SRC_IRQ_MASK_def
      BCS_ISTATUS_HOST_VDMA_DEST_IRQ_MASK_def BCS_ISTATUS_HOST_SW_IRQ_SHIFT_def
    using ne by (simp add: rc)
qed

definition w1c_mmio :: "(u64 \<Rightarrow> u32) mmio" where
  "w1c_mmio = \<lparr> ioread32 = (\<lambda>a f. (f (a - 0x1000), f)), iowrite32 = (\<lambda>w a f. f(a - 0x1000 := f (a - 0x1000) AND NOT w)) \<rparr>"

definition h8_resources :: hailo_pcie_resources where
  "h8_resources = \<lparr> pr_config = \<lparr> res_address = 0x1000, res_size = 0x1000 \<rparr>, pr_vdma_registers = \<lparr> res_address = 0x2000, res_size = 0x1000 \<rparr>,
     pr_fw_access = \<lparr> res_address = 0x4000, res_size = 0x4000 \<rparr>, pr_board_type = HAILO_BOARD_TYPE_HAILO8,
     pr_accelerator_type = HAILO_ACCELERATOR_TYPE_NNC \<rparr>"

theorem read_interrupt_exact_witness:
  "\<exists>source d'. hailo_pcie_read_interrupt w1c_mmio h8_resources (\<lambda>a. if a = 0x18C then 0x04000001 else 0x30) = (True, source, d') \<and>
    is_sw_interrupts source = 4 \<and> is_vdma_channels_bitmap source = 0x30 \<and> d' 0x400 = 0 \<and> d' 0x500 = 0x30"
proof -
  have "w1c_regs w1c_mmio (pr_config h8_resources) (\<lambda>f. f)" by (simp add: w1c_regs_def w1c_mmio_def h8_resources_def)
  from read_interrupt_exact [OF this, of "\<lambda>a. if a = 0x18C then 0x04000001 else 0x30"]
  show ?thesis
    by (cases "hailo_pcie_read_interrupt w1c_mmio h8_resources (\<lambda>a. if a = 0x18C then 0x04000001 else 0x30)")
      (simp add: pcie_consts)
qed

section \<open>Firmware controls\<close>

lemma PO2_ROUND_UP_4: "n < 2 ^ 31 \<Longrightarrow> unat (PO2_ROUND_UP (4 + of_nat n) 4) = 4 * ((n + 7) div 4)"
proof -
  assume n: "n < 2 ^ 31"
  have s: "unat (4 + of_nat n + 4 - 1 :: u64) = n + 7"
  proof -
    have "(4 + of_nat n + 4 - 1 :: u64) = of_nat (n + 7)" by simp
    then show ?thesis using n by (simp only:) (subst unat_of_nat_small, simp_all)
  qed
  have "(x :: u64) AND NOT 3 = push_bit 2 (drop_bit 2 x)" for x
  proof -
    have m: "(3 :: u64) = mask 2" by (simp add: mask_eq_exp_minus_1)
    have "Suc (Suc (i - 2)) = i" if "2 \<le> i" for i :: nat using that by simp
    then show ?thesis unfolding m by (intro bit_word_eqI) (auto simp: bit_simps not_less)
  qed
  then have "PO2_ROUND_UP (4 + of_nat n) 4 = push_bit 2 (drop_bit 2 (4 + of_nat n + 4 - 1))" by (simp add: PO2_ROUND_UP_def)
  moreover have "unat (drop_bit 2 (4 + of_nat n + 4 - 1 :: u64)) = (n + 7) div 4"
    unfolding unsigned_drop_bit_eq s using n by (simp add: drop_bit_eq_div take_bit_eq_mod)
  ultimately show ?thesis
    using n by (simp only: push_bit_eq_mult unat_word_ariths) (simp add: unat_word_ariths)
qed

text \<open>C32: A firmware control reaches the CPU that serves it. With the firmware loaded, a known opcode and a length of at most 1500, the
  length word and the request, rounded up to whole words, are stored at the start of the firmware BAR, then the doorbell at
  \<open>raise_ready_offset\<close> is written with the bit of the opcode's CPU; nothing else in the BAR changes and the command structure is never
  read past its end.\<close>
theorem write_firmware_control_correct:
  assumes ram: "ram_window io view A" and n: "n = 4 * ((unat (fc_request_len c) + 7) div 4)"
    and cov: "window_covers A (res_address (pr_fw_access res)) n"
    and bell: "bell = res_address (pr_fw_access res) + ucast (raise_ready_offset (fw_addresses (pr_board_type res)))" "bell \<in> A" "IS_ALIGNED bell 4"
    and loaded: "hailo_pcie_is_firmware_loaded io res d = (True, d1)"
    and op: "unat (u32_at (fc_request c) 0) < 80" and len: "unat (fc_request_len c) \<le> 1500" and sz: "length (fc_request c) = sizeof_control_request"
  shows "\<exists>d'. hailo_pcie_write_firmware_control io res c ptr d = (Ok (), d') \<and>
    view d' = store_word (mem_store (view d1) (res_address (pr_fw_access res)) (take n (bytes_of_fw_control c))) bell
      (if g_fw_control__cpu_id ! unat (u32_at (fc_request c) 0) = CPU_ID_APP_CPU then 1 else 2)"
proof -
  let ?bs = "take n (bytes_of_fw_control c)"
  have nb: "n \<le> 1504" using div_le_mono [of "unat (fc_request_len c) + 7" 1507 4] len unfolding n by simp
  have lb: "n \<le> length (bytes_of_fw_control c)" using nb sz by (simp add: bytes_of_fw_control_def u32_bytes_def sizeof_control_request_def)
  have "(ucast (fc_request_len c) :: u64) = of_nat (unat (fc_request_len c))" by simp
  then have "unat (PO2_ROUND_UP (4 + ucast (fc_request_len c)) 4) = n"
    using PO2_ROUND_UP_4 [of "unat (fc_request_len c)"] len unfolding n by (simp del: of_nat_unat)
  then have rs: "unat (ucast (PO2_ROUND_UP (4 + ucast (fc_request_len c)) (ucast FW_CODE_SECTION_ALIGNMENT)) :: u32) = n"
    using nb by (subst unat_ucast_small) (simp_all add: FW_CODE_SECTION_ALIGNMENT_def)
  have cov': "window_covers A (res_address (pr_fw_access res) + 0) (length ?bs)" using cov lb by simp
  obtain d2 where d2: "hailo_resource_write_buffer io (pr_fw_access res) 0 ?bs ptr d1 = (Ok (), d2)"
      "view d2 = mem_store (view d1) (res_address (pr_fw_access res)) ?bs"
    using ram_write_head [OF ram cov', of ptr d1] unfolding hailo_resource_write_buffer_def
    by (metis add.right_neutral prod.collapse)
  have cpu: "array_get g_fw_control__cpu_id (unat (u32_at (fc_request c) 0)) = Ok (g_fw_control__cpu_id ! unat (u32_at (fc_request c) 0))"
    using op by (simp add: cpu_id_table opcode_count)
  have l: "\<not> CONTROL_PROTOCOL__MAX_CONTROL_LENGTH < fc_request_len c"
    using len by (simp add: CONTROL_PROTOCOL__MAX_CONTROL_LENGTH_def word_less_nat_alt)
  have w: "view (raise_ready io res v d2) = store_word (view d2) bell v" for v
    using ram bell(2,3) unfolding raise_ready_def hailo_resource_write32_def bell(1) ram_window_def by blast
  show ?thesis
    unfolding hailo_pcie_write_firmware_control_def loaded Let_def split_conv rs
    using op l lb d2 cpu w [of 1] w [of 2]
    by (simp add: opcode_count FW_ACCESS_APP_CPU_CONTROL_MASK_def FW_ACCESS_CORE_CPU_CONTROL_MASK_def)
qed

definition sample_control :: hailo_fw_control where
  "sample_control = \<lparr> fc_request_len = 5, fc_request = [42, 0, 0, 0, 7] @ replicate 1499 0, fc_response_len = 0, fc_response = [] \<rparr>"

theorem write_firmware_control_correct_witness:
  "\<exists>d'. hailo_pcie_write_firmware_control ram_mmio h8_resources sample_control 0
      (store_word (\<lambda>_. 0) 0x1708 0x60000000) = (Ok (), d') \<and>
    map d' [0x4000, 0x4004, 0x4008, 0x5684] = [5, 42, 7, 2]"
proof -
  let ?d = "store_word (\<lambda>_. 0) 0x1708 0x60000000"
  have f: "hailo_pcie_is_firmware_loaded ram_mmio h8_resources ?d = (True, ?d)"
    by (simp add: hailo_pcie_is_firmware_loaded_def hailo_resource_read32_def ram_mmio_def h8_resources_def ATR_PCIE_BRIDGE_OFFSET_def
        offsetof_atr_trsl_addr_1_def PCIE_CONTROL_SECTION_ADDRESS_H8_def word_at_def store_word_def u32_of_bytes_def)
  have op: "unat (u32_at (fc_request sample_control) 0) = 42" by (simp add: sample_control_def u32_at_def u32_of_bytes_def)
  have cpu: "g_fw_control__cpu_id ! 42 = CPU_ID_CORE_CPU"
    by (simp add: g_fw_control__cpu_id_def CONTROL_PROTOCOL__OPCODES_VARIABLES_def)
  have h: "12 = 4 * ((unat (fc_request_len sample_control) + 7) div 4)" "window_covers UNIV (res_address (pr_fw_access h8_resources)) 12"
      "0x5684 = res_address (pr_fw_access h8_resources) + ucast (raise_ready_offset (fw_addresses (pr_board_type h8_resources)))"
      "(0x5684 :: u64) \<in> UNIV" "IS_ALIGNED (0x5684 :: u64) 4"
      "unat (u32_at (fc_request sample_control) 0) < 80" "unat (fc_request_len sample_control) \<le> 1500"
      "length (fc_request sample_control) = sizeof_control_request"
    by (simp_all add: sample_control_def window_covers_def h8_resources_def IS_ALIGNED_def u32_at_def u32_of_bytes_def
        sizeof_control_request_def)
  have r3: "replicate 3 (0 :: u8) = [0, 0, 0]" by (simp add: numeral_eq_Suc)
  have b: "take 12 (bytes_of_fw_control sample_control) = [5, 0, 0, 0, 42, 0, 0, 0, 7, 0, 0, 0]"
    using r3 by (simp add: bytes_of_fw_control_def sample_control_def u32_bytes_def take_Cons')
  from write_firmware_control_correct [OF ram_window_ram_mmio h(1-5) f h(6-8), of 0]
  show ?thesis unfolding b op cpu by (auto simp: h8_resources_def store_word_def)
qed

end
