(* ===== verification/Kernel_Interface.thy ===== *)
theory Kernel_Interface
  imports Vdma_Descriptors "HOL-Library.Multiset"
begin

text \<open>
  The kernel as the Linux part of the driver sees it. The kernel's memory, DMA, file and page services are not part of the
  repository: a record \<open>kernel\<close> of functions answers each fallible call, given the calls made so far, and the driver's state
  carries the sequence \<open>kcall list\<close> of the calls it made with the answers it got, newest first. Answers that depend on the
  history cover every behaviour of the services, since the history also records the failed calls.

  The ledger reads a history as a multiset of resources held: a successful acquisition adds its resource, a release takes it
  away, and a release of something that is not held makes the ledger undefined. A defined ledger therefore says that nothing
  was released twice, and the multiset says what is still to be released.
\<close>

type_synonym ptr = nat
type_synonym page = nat

text \<open>\<open>PAGE_SHIFT\<close> and \<open>PAGE_SIZE\<close> of a kernel with pages of 4 KiB.\<close>

definition PAGE_SHIFT :: nat where [c_macros]: "PAGE_SHIFT = 12"
definition PAGE_SIZE :: u64 where [c_macros]: "PAGE_SIZE = 0x1000"
definition PAGE_ALIGN :: "u64 \<Rightarrow> u64" where [c_macros]: "PAGE_ALIGN a = ALIGN a PAGE_SIZE"
definition PFN_UP :: "u64 \<Rightarrow> u64" where [c_macros]: "PFN_UP x = drop_bit PAGE_SHIFT (x + PAGE_SIZE - 1)"
definition PFN_DOWN :: "u64 \<Rightarrow> u64" where [c_macros]: "PFN_DOWN x = drop_bit PAGE_SHIFT x"
definition offset_in_page :: "u64 \<Rightarrow> u64" where [c_macros]: "offset_in_page x = x AND (PAGE_SIZE - 1)"

datatype dma_data_direction = DMA_BIDIRECTIONAL | DMA_TO_DEVICE | DMA_FROM_DEVICE | DMA_NONE

text \<open>\<open>struct sg_table\<close>: the pages behind its entries and the bus addresses and lengths of its mapped entries.\<close>

record sgt =
  sgt_pages :: "page list"
  sgt_dma :: sg_table

definition empty_sgt :: sgt where "empty_sgt = \<lparr> sgt_pages = [], sgt_dma = [] \<rparr>"

text \<open>\<open>struct vm_area_struct\<close>: range, flags, and the file behind it with its name.\<close>

record vm_area =
  vm_start :: u64
  vm_end :: u64
  vm_flags :: u64
  vm_file :: "(ptr \<times> string) option"

text \<open>Whether the CPU or the device is to see the data next.\<close>

datatype hailo_vdma_buffer_sync_type = HAILO_SYNC_FOR_CPU | HAILO_SYNC_FOR_DEVICE | HAILO_SYNC_OTHER nat

text \<open>The power states of a PCI device the driver names, and the registers of its PCIe capability.\<close>

datatype pci_power_t = PCI_D0 | PCI_D3hot | PCI_OTHER nat

datatype capability_reg = PCI_EXP_DEVCTL | PCI_EXP_LNKCTL

section \<open>Calls\<close>

text \<open>
  \<open>Kzalloc\<close> allocates a structure, \<open>Alloc_array\<close> an array of pointers (\<open>kcalloc\<close> with \<open>kfree\<close>, or \<open>kvmalloc_array\<close> with
  \<open>kvfree\<close>). The calls on the PCI device follow; the device behind \<open>Capability_clear_word\<close> is the board or, with \<open>True\<close>, the bridge
  above it. Locks and log messages are not recorded.
\<close>

datatype kcall =
    Kzalloc "ptr option" | Kfree ptr
  | Alloc_array "ptr option" | Free_array ptr
  | Dma_alloc_coherent u64 "(ptr \<times> u64) option" | Dma_free_coherent u64 ptr u64
  | Get_free_page "ptr option" | Free_page ptr
  | Get_user_pages u64 u64 "page list result" | Get_page page | Set_page_dirty page | Put_page page
  | Sg_alloc "page list" "unit result" | Sg_free "page list"
  | Dma_map_sg "page list" dma_data_direction sg_table | Dma_unmap_sg "page list" dma_data_direction
  | Follow_pfn u64 "u64 result"
  | Dma_buf_get u32 "ptr option" | Dma_buf_put ptr
  | Dma_buf_attach ptr "ptr option" | Dma_buf_detach ptr ptr
  | Dma_buf_map_attachment ptr dma_data_direction "(ptr \<times> sgt) option" | Dma_buf_unmap_attachment ptr ptr dma_data_direction
  | Get_file ptr | Fput ptr | Get_unused_fd "u32 result" | Fd_install u32 ptr | Close_fd u32
  | Dma_sync_sg hailo_vdma_buffer_sync_type sg_table dma_data_direction
  | Dma_sync_single hailo_vdma_buffer_sync_type u64 u32 dma_data_direction
  | Remap_pfn_range u64 u64 "unit result" | Dma_mmap_coherent ptr u64 u64 "unit result"
  | Wake_up_interrupts
  | Pci_enable_msi "unit result" | Pci_disable_msi | Request_irq "unit result" | Free_irq
  | Pci_set_power_state pci_power_t "unit result"
  | Pci_enable_device "unit result" | Pci_disable_device | Pci_set_master
  | Pci_request_regions "unit result" | Pci_release_regions | Pci_iomap nat u64 | Pci_iounmap u64
  | Pci_disable_link_state u16 bool | Capability_clear_word bool capability_reg u16 "unit result"
  | Class_create "unit result" | Device_create u32 "unit result" | Device_destroy u32
  | Vmalloc u64 "ptr option" | Vfree ptr
  | Request_firmware string "unit result" | Release_firmware string
  | Register_chrdev "unit result" | Unregister_chrdev | Class_destroy | Pci_register_driver "unit result" | Pci_unregister_driver

type_synonym calls = "kcall list"

record kernel =
  k_mmio_dma_mapping :: bool
  k_kzalloc :: "calls \<Rightarrow> ptr option"
  k_alloc_array :: "calls \<Rightarrow> ptr option"
  k_dma_alloc_coherent :: "calls \<Rightarrow> u64 \<Rightarrow> (ptr \<times> u64) option"
  k_coherent_memory :: "calls \<Rightarrow> nat \<Rightarrow> hailo_vdma_descriptor"
  k_get_free_page :: "calls \<Rightarrow> ptr option"
  k_get_user_pages :: "calls \<Rightarrow> u64 \<Rightarrow> u64 \<Rightarrow> page list result"
  k_virt_to_page :: "ptr \<Rightarrow> page"
  k_virt_to_phys :: "ptr \<Rightarrow> u64"
  k_page_reserved :: "page \<Rightarrow> bool"
  k_sg_alloc :: "calls \<Rightarrow> page list \<Rightarrow> u32 \<Rightarrow> unit result"
  k_dma_map_sg :: "calls \<Rightarrow> page list \<Rightarrow> dma_data_direction \<Rightarrow> sg_table"
  k_find_vma :: "calls \<Rightarrow> u64 \<Rightarrow> vm_area option"
  k_follow_pfn :: "calls \<Rightarrow> u64 \<Rightarrow> u64 result"
  k_dma_buf_get :: "calls \<Rightarrow> u32 \<Rightarrow> ptr option"
  k_dma_buf_attach :: "calls \<Rightarrow> ptr \<Rightarrow> ptr option"
  k_dma_buf_map_attachment :: "calls \<Rightarrow> ptr \<Rightarrow> dma_data_direction \<Rightarrow> (ptr \<times> sgt) option"
  k_get_unused_fd :: "calls \<Rightarrow> u32 result"
  k_remap_pfn_range :: "calls \<Rightarrow> u64 \<Rightarrow> u64 \<Rightarrow> unit result"
  k_dma_mmap_coherent :: "calls \<Rightarrow> ptr \<Rightarrow> u64 \<Rightarrow> u64 \<Rightarrow> unit result"
  k_dma_set_mask :: "nat \<Rightarrow> unit result"
  k_pci_enable_msi :: "calls \<Rightarrow> unit result"
  k_request_irq :: "calls \<Rightarrow> unit result"
  k_pci_set_power_state :: "calls \<Rightarrow> pci_power_t \<Rightarrow> unit result"
  k_pci_enable_device :: "calls \<Rightarrow> unit result"
  k_pci_request_regions :: "calls \<Rightarrow> unit result"
  k_pci_resource_len :: "nat \<Rightarrow> u64"
  k_pci_iomap :: "calls \<Rightarrow> nat \<Rightarrow> u64"
  k_has_parent :: bool
  k_pcieaspm :: bool
  k_capability_read_word :: "calls \<Rightarrow> bool \<Rightarrow> capability_reg \<Rightarrow> u16 result"
  k_capability_clear_word :: "calls \<Rightarrow> bool \<Rightarrow> capability_reg \<Rightarrow> u16 \<Rightarrow> unit result"
  k_class_create :: "calls \<Rightarrow> unit result"
  k_device_create :: "calls \<Rightarrow> u32 \<Rightarrow> unit result"
  k_vmalloc :: "calls \<Rightarrow> u64 \<Rightarrow> ptr option"
  k_vmalloc_to_page :: "ptr \<Rightarrow> nat \<Rightarrow> page option"
  k_dma_mask :: "u64 option"
  k_bus_dma_limit :: u64
  k_phys_to_dma :: "u64 \<Rightarrow> u64"
  k_register_chrdev :: "calls \<Rightarrow> unit result"
  k_pci_register_driver :: "calls \<Rightarrow> unit result"

section \<open>The ledger\<close>

datatype resource =
    Struct ptr | Array ptr | Coherent u64 ptr u64 | Low_page ptr | Page_ref page | Sg_of "page list"
  | Mapping "page list" dma_data_direction | Dma_buf ptr | Attachment ptr ptr | Attachment_map ptr ptr dma_data_direction
  | File_ref ptr | Fd u32 | Fd_file u32 | Msi | Irq | Pci_device | Pci_regions | Io_mapping u64 | Device_node u32 | Virtual_memory ptr | Firmware string
  | Chrdev | Chrdev_class | Pci_driver

text \<open>What a call acquires and what it releases.\<close>

fun acquires :: "kcall \<Rightarrow> resource multiset" where
  "acquires (Kzalloc (Some p)) = {#Struct p#}"
| "acquires (Alloc_array (Some p)) = {#Array p#}"
| "acquires (Dma_alloc_coherent n (Some (p, a))) = {#Coherent n p a#}"
| "acquires (Get_free_page (Some p)) = {#Low_page p#}"
| "acquires (Get_user_pages _ _ (Ok ps)) = image_mset Page_ref (mset ps)"
| "acquires (Get_page p) = {#Page_ref p#}"
| "acquires (Sg_alloc ps (Ok _)) = {#Sg_of ps#}"
| "acquires (Dma_map_sg ps dir ents) = (if ents = [] then {#} else {#Mapping ps dir#})"
| "acquires (Dma_buf_get _ (Some b)) = {#Dma_buf b#}"
| "acquires (Dma_buf_attach b (Some a)) = {#Attachment b a#}"
| "acquires (Dma_buf_map_attachment a dir (Some (t, _))) = {#Attachment_map a t dir#}"
| "acquires (Get_file f) = {#File_ref f#}"
| "acquires (Get_unused_fd (Ok fd)) = {#Fd fd#}"
| "acquires (Fd_install fd f) = {#Fd_file fd#}"
| "acquires (Pci_enable_msi (Ok _)) = {#Msi#}"
| "acquires (Request_irq (Ok _)) = {#Irq#}"
| "acquires (Pci_enable_device (Ok _)) = {#Pci_device#}"
| "acquires (Pci_request_regions (Ok _)) = {#Pci_regions#}"
| "acquires (Pci_iomap _ a) = (if a = 0 then {#} else {#Io_mapping a#})"
| "acquires (Device_create i (Ok _)) = {#Device_node i#}"
| "acquires (Vmalloc _ (Some p)) = {#Virtual_memory p#}"
| "acquires (Request_firmware name (Ok _)) = {#Firmware name#}"
| "acquires (Class_create (Ok _)) = {#Chrdev_class#}"
| "acquires (Register_chrdev (Ok _)) = {#Chrdev#}"
| "acquires (Pci_register_driver (Ok _)) = {#Pci_driver#}"
| "acquires _ = {#}"

fun releases :: "kcall \<Rightarrow> resource multiset" where
  "releases (Kfree p) = {#Struct p#}"
| "releases (Free_array p) = {#Array p#}"
| "releases (Dma_free_coherent n p a) = {#Coherent n p a#}"
| "releases (Free_page p) = {#Low_page p#}"
| "releases (Put_page p) = {#Page_ref p#}"
| "releases (Sg_free ps) = {#Sg_of ps#}"
| "releases (Dma_unmap_sg ps dir) = {#Mapping ps dir#}"
| "releases (Dma_buf_put b) = {#Dma_buf b#}"
| "releases (Dma_buf_detach b a) = {#Attachment b a#}"
| "releases (Dma_buf_unmap_attachment a t dir) = {#Attachment_map a t dir#}"
| "releases (Fput f) = {#File_ref f#}"
| "releases (Fd_install fd f) = {#Fd fd, File_ref f#}"
| "releases (Close_fd fd) = {#Fd_file fd#}"
| "releases Pci_disable_msi = {#Msi#}"
| "releases Free_irq = {#Irq#}"
| "releases Pci_disable_device = {#Pci_device#}"
| "releases Pci_release_regions = {#Pci_regions#}"
| "releases (Pci_iounmap a) = {#Io_mapping a#}"
| "releases (Device_destroy i) = {#Device_node i#}"
| "releases (Vfree p) = {#Virtual_memory p#}"
| "releases (Release_firmware name) = {#Firmware name#}"
| "releases Class_destroy = {#Chrdev_class#}"
| "releases Unregister_chrdev = {#Chrdev#}"
| "releases Pci_unregister_driver = {#Pci_driver#}"
| "releases _ = {#}"

fun ledger :: "calls \<Rightarrow> resource multiset option" where
  "ledger [] = Some {#}"
| "ledger (c # cs) = (case ledger cs of
     None \<Rightarrow> None
   | Some held \<Rightarrow> if releases c \<subseteq># held then Some (held - releases c + acquires c) else None)"

text \<open>
  A history is \<open>granted\<close> when the structures in it are the ones the kernel answered with. A kernel is \<open>fresh\<close> when it never
  hands out a structure that is still allocated; in a granted history every structure is then held at most once.
\<close>

fun grants :: "kernel \<Rightarrow> calls \<Rightarrow> kcall \<Rightarrow> bool" where
  "grants K cs (Kzalloc m) \<longleftrightarrow> m = k_kzalloc K cs"
| "grants K cs _ \<longleftrightarrow> True"

fun granted :: "kernel \<Rightarrow> calls \<Rightarrow> bool" where
  "granted K [] \<longleftrightarrow> True"
| "granted K (c # cs) \<longleftrightarrow> grants K cs c \<and> granted K cs"

definition kernel_fresh :: "kernel \<Rightarrow> bool" where
  "kernel_fresh K \<longleftrightarrow> (\<forall>cs held p. granted K cs \<longrightarrow> ledger cs = Some held \<longrightarrow> k_kzalloc K cs = Some p \<longrightarrow> Struct p \<notin># held)"

lemma count_Struct_acquires:
  "count (acquires c) (Struct p) = (if c = Kzalloc (Some p) then 1 else 0)"
proof -
  have "count (image_mset Page_ref M) (Struct p) = 0" for M by (induction M) auto
  then show ?thesis by (cases c rule: acquires.cases) simp_all
qed

lemma struct_held_once:
  assumes "kernel_fresh K" "granted K cs" "ledger cs = Some held"
  shows "count held (Struct p) \<le> 1"
  using assms(2,3)
proof (induction cs arbitrary: held)
  case (Cons c cs)
  then obtain h where h: "ledger cs = Some h" "held = h - releases c + acquires c"
    by (auto split: option.splits if_splits)
  have le: "count h (Struct p) \<le> 1" using Cons h by simp
  have a: "count (acquires c) (Struct p) = (if c = Kzalloc (Some p) then 1 else 0)"
    by (rule count_Struct_acquires)
  show ?case
  proof (cases "c = Kzalloc (Some p)")
    case True
    then have "Struct p \<notin># h" using Cons.prems(1) h(1) assms(1) by (auto simp: kernel_fresh_def)
    then show ?thesis using True a h(2) by (simp add: not_in_iff)
  next
    case False
    then show ?thesis using a h(2) le by simp
  qed
qed simp

text \<open>
  \<open>moves K cs0 old new cs\<close>: the calls \<open>cs\<close> extend \<open>cs0\<close> by calls the kernel granted, and whatever else is held, they turn the
  resources \<open>old\<close> into \<open>new\<close> without ever releasing anything that is not held. Effects of successive operations compose.
\<close>

definition moves :: "kernel \<Rightarrow> calls \<Rightarrow> resource multiset \<Rightarrow> resource multiset \<Rightarrow> calls \<Rightarrow> bool" where
  "moves K cs0 old new cs \<longleftrightarrow> (granted K cs0 \<longrightarrow> granted K cs) \<and>
     (\<forall>rest. ledger cs0 = Some (old + rest) \<longrightarrow> ledger cs = Some (new + rest))"

lemma moves_refl [intro]: "moves K cs r r cs"
  by (simp add: moves_def)

lemma moves_trans: "moves K cs0 a b cs1 \<Longrightarrow> moves K cs1 b c cs2 \<Longrightarrow> moves K cs0 a c cs2"
  by (simp add: moves_def)

lemma moves_frame: "moves K cs0 a b cs1 \<Longrightarrow> moves K cs0 (a + r) (b + r) cs1"
  by (auto simp: moves_def add.assoc)

lemma moves_call: "grants K cs c \<Longrightarrow> moves K cs (releases c) (acquires c) (c # cs)"
  by (simp add: moves_def)

lemma moves_step:
  "moves K cs0 a y cs \<Longrightarrow> grants K cs c \<Longrightarrow> y = releases c + r \<Longrightarrow> x = acquires c + r \<Longrightarrow> moves K cs0 a x (c # cs)"
  using moves_trans [OF _ moves_frame [OF moves_call]] by blast

lemma moves_acquire:
  "moves K cs0 a r cs \<Longrightarrow> releases c = {#} \<Longrightarrow> grants K cs c \<Longrightarrow> x = acquires c + r \<Longrightarrow> moves K cs0 a x (c # cs)"
  by (rule moves_step [where r = r]) simp_all

lemma moves_release:
  "moves K cs0 a y cs \<Longrightarrow> acquires c = {#} \<Longrightarrow> grants K cs c \<Longrightarrow> y = releases c + r \<Longrightarrow> moves K cs0 a r (c # cs)"
  by (rule moves_step [where r = r]) simp_all

lemma moves_quiet:
  "moves K cs0 a b cs \<Longrightarrow> releases c = {#} \<Longrightarrow> acquires c = {#} \<Longrightarrow> grants K cs c \<Longrightarrow> moves K cs0 a b (c # cs)"
  by (rule moves_acquire) simp_all

lemma moves_first: "releases c = {#} \<Longrightarrow> acquires c = x \<Longrightarrow> grants K cs c \<Longrightarrow> moves K cs {#} x (c # cs)"
  using moves_call [of K cs c] by simp

end
