(* ===== verification/Handle_Table.thy ===== *)
theory Handle_Table
  imports Hailo_Prelude
begin

text \<open>
  The intrusive lists of structures that the driver looks up by handle. A list is a sequence of pointers into a heap of
  structures; a loop over the list dereferences every pointer it meets, and a pointer that the heap does not have is freed
  memory. The locale \<open>handle_map\<close> is the contract of such a list towards its clients: it behaves as a finite map from handles
  to structures. The interpretation discharges it for the list operations of \<open>linux/list.h\<close>.
\<close>

type_synonym 'a heap = "nat \<Rightarrow> 'a option"

text \<open>\<open>list_for_each_entry\<close> with a body that returns the first entry that satisfies a test, and NULL after the loop.\<close>

fun list_find :: "('a \<Rightarrow> bool) \<Rightarrow> nat list \<Rightarrow> 'a heap \<Rightarrow> (nat \<times> 'a) option result" where
  "list_find test [] hp = Ok None"
| "list_find test (p # ps) hp = (case hp p of
     None \<Rightarrow> Fault Use_after_free
   | Some x \<Rightarrow> if test x then Ok (Some (p, x)) else list_find test ps hp)"

text \<open>\<open>list_add\<close> of a new structure, and \<open>list_del\<close> of one that is then freed.\<close>

definition list_add :: "nat \<Rightarrow> 'a \<Rightarrow> nat list \<times> 'a heap \<Rightarrow> nat list \<times> 'a heap" where
  "list_add p x t = (p # fst t, (snd t)(p \<mapsto> x))"

definition list_del :: "nat \<Rightarrow> nat list \<times> 'a heap \<Rightarrow> nat list \<times> 'a heap" where
  "list_del p t = (remove1 p (fst t), (snd t)(p := None))"

section \<open>The contract\<close>

locale handle_map =
  fixes handle :: "'a \<Rightarrow> u64"
    and find :: "u64 \<Rightarrow> 't \<Rightarrow> (nat \<times> 'a) option result"
    and add :: "nat \<Rightarrow> 'a \<Rightarrow> 't \<Rightarrow> 't"
    and del :: "nat \<Rightarrow> 't \<Rightarrow> 't"
    and inv :: "'t \<Rightarrow> bool"
    and owned :: "'t \<Rightarrow> nat set"
    and abs :: "'t \<Rightarrow> u64 \<Rightarrow> (nat \<times> 'a) option"
  assumes find_abs: "inv t \<Longrightarrow> find h t = Ok (abs t h)"
    and abs_handle: "inv t \<Longrightarrow> abs t h = Some (p, x) \<Longrightarrow> handle x = h \<and> p \<in> owned t"
    and add_inv: "inv t \<Longrightarrow> p \<notin> owned t \<Longrightarrow> abs t (handle x) = None \<Longrightarrow> inv (add p x t)"
    and add_abs: "inv t \<Longrightarrow> p \<notin> owned t \<Longrightarrow> abs t (handle x) = None \<Longrightarrow> abs (add p x t) = (abs t)(handle x \<mapsto> (p, x))"
    and del_inv: "inv t \<Longrightarrow> abs t h = Some (p, x) \<Longrightarrow> inv (del p t)"
    and del_abs: "inv t \<Longrightarrow> abs t h = Some (p, x) \<Longrightarrow> abs (del p t) = (abs t)(h := None)"
begin

lemma find_after_add:
  assumes "inv t" "p \<notin> owned t" "find (handle x) t = Ok None"
  shows "find h (add p x t) = (if h = handle x then Ok (Some (p, x)) else find h t)"
  using assms by (simp add: find_abs add_inv add_abs)

lemma find_after_del:
  assumes "inv t" "find h t = Ok (Some (p, x))"
  shows "find h' (del p t) = (if h' = h then Ok None else find h' t)"
proof -
  have a: "abs t h = Some (p, x)" using assms by (simp add: find_abs)
  show ?thesis using assms(1) by (simp add: find_abs del_inv [OF assms(1) a] del_abs [OF assms(1) a])
qed

lemma find_found: "inv t \<Longrightarrow> find h t = Ok (Some (p, x)) \<Longrightarrow> handle x = h \<and> p \<in> owned t"
  by (simp add: find_abs abs_handle)

lemma find_total: "inv t \<Longrightarrow> \<exists>r. find h t = Ok r"
  by (simp add: find_abs)

lemma add_then_del:
  assumes "inv t" "p \<notin> owned t" "find (handle x) t = Ok None"
  shows "inv (del p (add p x t))" "find h (del p (add p x t)) = find h t"
proof -
  have t: "abs t (handle x) = None" using assms by (simp add: find_abs)
  note i = add_inv [OF assms(1,2) t] and a = add_abs [OF assms(1,2) t]
  have f: "abs (add p x t) (handle x) = Some (p, x)" by (simp add: a)
  show "inv (del p (add p x t))" by (rule del_inv [OF i f])
  then show "find h (del p (add p x t)) = find h t"
    using t by (simp add: find_abs assms(1) del_abs [OF i f] a)
qed

end

section \<open>Lists implement it\<close>

definition entries :: "nat list \<times> 'a heap \<Rightarrow> (nat \<times> 'a) list" where
  "entries t = map (\<lambda>p. (p, the (snd t p))) (fst t)"

lemma entries_simps [simp]:
  "entries ([], hp) = []" "entries (p # ps, hp) = (p, the (hp p)) # entries (ps, hp)"
  by (simp_all add: entries_def)

lemma entries_upd [simp]: "p \<notin> set ps \<Longrightarrow> entries (ps, hp(p := v)) = entries (ps, hp)"
  by (auto simp: entries_def)

lemma set_entries: "set (entries (ps, hp)) = (\<lambda>p. (p, the (hp p))) ` set ps"
  by (simp add: entries_def)

definition list_inv :: "('a \<Rightarrow> u64) \<Rightarrow> nat list \<times> 'a heap \<Rightarrow> bool" where
  "list_inv handle t \<longleftrightarrow> distinct (fst t) \<and> (\<forall>p \<in> set (fst t). snd t p \<noteq> None) \<and>
     distinct (map (\<lambda>p. handle (the (snd t p))) (fst t))"

definition list_find_handle :: "('a \<Rightarrow> u64) \<Rightarrow> u64 \<Rightarrow> nat list \<times> 'a heap \<Rightarrow> (nat \<times> 'a) option result" where
  "list_find_handle handle h t = list_find (\<lambda>x. handle x = h) (fst t) (snd t)"

definition list_abs :: "('a \<Rightarrow> u64) \<Rightarrow> nat list \<times> 'a heap \<Rightarrow> u64 \<Rightarrow> (nat \<times> 'a) option" where
  "list_abs handle t h = find (\<lambda>e. handle (snd e) = h) (entries t)"

lemma list_find_live:
  "\<forall>p \<in> set ps. hp p \<noteq> None \<Longrightarrow> list_find test ps hp = Ok (find (\<lambda>e. test (snd e)) (entries (ps, hp)))"
  by (induction ps) auto

lemma find_entriesD:
  "find (\<lambda>e. test (snd e)) (entries (ps, hp)) = Some (p, x) \<Longrightarrow> test x \<and> p \<in> set ps \<and> x = the (hp p)"
  by (induction ps) (auto split: if_splits)

lemma find_None_not_in:
  "find P xs = None \<longleftrightarrow> (\<forall>x \<in> set xs. \<not> P x)"
  by (auto simp: find_None_iff)

lemma find_entries_remove1:
  assumes "distinct ps" "distinct (map (\<lambda>p. handle (the (hp p))) ps)" "p \<in> set ps"
  shows "find (\<lambda>e. handle (snd e) = h') (entries (remove1 p ps, hp(p := None))) =
    (if h' = handle (the (hp p)) then None else find (\<lambda>e. handle (snd e) = h') (entries (ps, hp)))"
  using assms
proof (induction ps)
  case (Cons q qs)
  have no: "find (\<lambda>e. handle (snd e) = handle (the (hp q))) (entries (qs, hp)) = None"
    using Cons.prems(2) unfolding find_None_not_in set_entries by (auto simp: image_iff)
  show ?case
  proof (cases "p = q")
    case True
    moreover have "entries (qs, hp(q := None)) = entries (qs, hp)" using Cons.prems(1) by (intro entries_upd) simp
    ultimately show ?thesis using no by (simp del: fun_upd_apply entries_upd)
  next
    case False
    then have "p \<in> set qs" using Cons.prems(3) by simp
    then have "handle (the (hp q)) \<noteq> handle (the (hp p))" using Cons.prems(2) by force
    with False Cons.IH Cons.prems \<open>p \<in> set qs\<close> show ?thesis by auto
  qed
qed simp

lemma list_inv_add:
  assumes "list_inv handle t" "p \<notin> set (fst t)" "list_abs handle t (handle x) = None"
  shows "list_inv handle (list_add p x t)" "list_abs handle (list_add p x t) = (list_abs handle t)(handle x \<mapsto> (p, x))"
proof -
  obtain ps hp where t: "t = (ps, hp)" by (cases t)
  have p: "p \<notin> set ps" using assms(2) by (simp add: t)
  have n: "\<forall>q \<in> set ps. handle (the (hp q)) \<noteq> handle x"
    using assms(3) unfolding list_abs_def t find_None_not_in set_entries by auto
  have m: "map (\<lambda>q. handle (the ((hp(p \<mapsto> x)) q))) ps = map (\<lambda>q. handle (the (hp q))) ps" using p by (auto simp: map_eq_conv)
  have "distinct (map (\<lambda>q. handle (the ((hp(p \<mapsto> x)) q))) (p # ps))"
    unfolding list.map(2) m distinct.simps using n assms(1) by (auto simp: list_inv_def t)
  with p assms(1) show "list_inv handle (list_add p x t)"
    unfolding list_inv_def list_add_def t by auto
  show "list_abs handle (list_add p x t) = (list_abs handle t)(handle x \<mapsto> (p, x))"
    using p by (auto simp: list_abs_def list_add_def t fun_eq_iff)
qed

lemma list_inv_del:
  assumes "list_inv handle t" "list_abs handle t h = Some (p, x)"
  shows "list_inv handle (list_del p t)" "list_abs handle (list_del p t) = (list_abs handle t)(h := None)"
proof -
  obtain ps hp where t: "t = (ps, hp)" by (cases t)
  have i: "distinct ps" "\<forall>p \<in> set ps. hp p \<noteq> None" "distinct (map (\<lambda>p. handle (the (hp p))) ps)"
    using assms(1) by (simp_all add: list_inv_def t)
  have p: "p \<in> set ps" "handle (the (hp p)) = h"
    using assms(2) find_entriesD [of "\<lambda>x. handle x = h" ps hp p x] by (auto simp: list_abs_def t)
  show "list_inv handle (list_del p t)"
    using i by (auto simp: list_inv_def list_del_def t distinct_map distinct_remove1 inj_on_def)
  show "list_abs handle (list_del p t) = (list_abs handle t)(h := None)"
    unfolding list_abs_def list_del_def t fst_conv snd_conv fun_eq_iff
    using find_entries_remove1 [OF i(1,3) p(1)] p(2) by simp
qed

lemma list_handle_map:
  "handle_map handle (list_find_handle handle) list_add list_del (list_inv handle) (\<lambda>t. set (fst t)) (list_abs handle)"
proof unfold_locales
  fix t :: "nat list \<times> 'a heap" and h
  assume i: "list_inv handle t"
  show "list_find_handle handle h t = Ok (list_abs handle t h)"
    using i list_find_live [of "fst t" "snd t"] by (simp add: list_inv_def list_find_handle_def list_abs_def)
  fix p x assume "list_abs handle t h = Some (p, x)"
  then show "handle x = h \<and> p \<in> set (fst t)"
    using find_entriesD [of "\<lambda>x. handle x = h" "fst t" "snd t" p x] by (auto simp: list_abs_def)
qed (fact list_inv_add list_inv_del)+

end
