(* ===== verification/Vdma_Memory.thy ===== *)
theory Vdma_Memory
  imports Kernel_Interface Handle_Table
begin

text \<open>
  Memory of the vDMA (\<open>src/linux/vdma/memory.c\<close>, structures of \<open>src/linux/vdma/vdma.h\<close>): user buffers mapped for DMA,
  buffers for descriptor lists, low memory buffers and continuous buffers. Every operation takes the history of kernel calls
  and returns its result with the history as it left it. \<open>HAILO_SUPPORT_MMIO_DMA_MAPPING\<close> is a build option, the field
  \<open>k_mmio_dma_mapping\<close> of the kernel.
\<close>

section \<open>Structures\<close>

type_synonym hailo_dma_buffer_type = u32

definition HAILO_DMA_USER_PTR_BUFFER :: hailo_dma_buffer_type where "HAILO_DMA_USER_PTR_BUFFER = 0"
definition HAILO_DMA_DMABUF_BUFFER :: hailo_dma_buffer_type where "HAILO_DMA_DMABUF_BUFFER = 1"

record hailo_dmabuf_info =
  di_dmabuf :: "ptr option"
  di_dmabuf_attachment :: ptr
  di_dmabuf_sg_table :: ptr

definition no_dmabuf :: hailo_dmabuf_info where
  "no_dmabuf = \<lparr> di_dmabuf = None, di_dmabuf_attachment = 0, di_dmabuf_sg_table = 0 \<rparr>"

record hailo_vdma_buffer =
  vb_handle :: u64
  vb_kref :: nat
  vb_buffer_type :: hailo_dma_buffer_type
  vb_size :: u32
  vb_addr_or_fd :: u64
  vb_data_direction :: dma_data_direction
  vb_sg_table :: sgt
  vb_is_mmio :: bool
  vb_dmabuf_info :: hailo_dmabuf_info

text \<open>
  The list structure \<open>desc_list\<close> inside the buffer lives in the store of descriptor lists, at the address of the structure.
\<close>

record hailo_descriptors_list_buffer =
  db_handle :: u64
  db_kernel_address :: ptr
  db_dma_address :: u64
  db_buffer_size :: u32

record hailo_vdma_low_memory_buffer =
  lm_handle :: u64
  lm_pages_count :: u64
  lm_pages_array :: ptr
  lm_pages_address :: "ptr list"

record hailo_vdma_continuous_buffer =
  cb_handle :: u64
  cb_kernel_address :: ptr
  cb_dma_address :: u64
  cb_size :: u64

definition DMA_DIRECTION_EQUALS :: "dma_data_direction \<Rightarrow> dma_data_direction \<Rightarrow> bool" where
  "DMA_DIRECTION_EQUALS a b \<longleftrightarrow> a = DMA_BIDIRECTIONAL \<or> b = DMA_BIDIRECTIONAL \<or> a = b"

section \<open>Buffers shared by file descriptor\<close>

definition hailo_map_dmabuf ::
    "kernel \<Rightarrow> u32 \<Rightarrow> dma_data_direction \<Rightarrow> calls \<Rightarrow> (sgt \<times> hailo_dmabuf_info) result \<times> calls" where
  "hailo_map_dmabuf K dmabuf_fd direction cs0 =
     (let dmabuf = k_dma_buf_get K cs0 dmabuf_fd;
          cs1 = Dma_buf_get dmabuf_fd dmabuf # cs0
      in case dmabuf of
           None \<Rightarrow> (Err EINVAL, cs1)
         | Some buf \<Rightarrow>
      let att = k_dma_buf_attach K cs1 buf;
          cs2 = Dma_buf_attach buf att # cs1
      in case att of
           None \<Rightarrow> (Err EINVAL, Dma_buf_put buf # cs2)
         | Some a \<Rightarrow>
      let res = k_dma_buf_map_attachment K cs2 a direction;
          cs3 = Dma_buf_map_attachment a direction res # cs2
      in case res of
           None \<Rightarrow> (Err EINVAL, Dma_buf_put buf # Dma_buf_detach buf a # cs3)
         | Some (t, res_sgt) \<Rightarrow>
             (Ok (res_sgt, \<lparr> di_dmabuf = Some buf, di_dmabuf_attachment = a, di_dmabuf_sg_table = t \<rparr>), cs3))"

definition hailo_unmap_dmabuf :: "hailo_vdma_buffer \<Rightarrow> ptr \<Rightarrow> calls \<Rightarrow> calls" where
  "hailo_unmap_dmabuf vdma_buffer buf cs =
     (let info = vb_dmabuf_info vdma_buffer
      in Dma_buf_put buf
         # Dma_buf_detach buf (di_dmabuf_attachment info)
         # Dma_buf_unmap_attachment (di_dmabuf_attachment info) (di_dmabuf_sg_table info) (vb_data_direction vdma_buffer)
         # cs)"

definition VMA_VM_FILE_DMABUF_NAME :: string where "VMA_VM_FILE_DMABUF_NAME = ''dmabuf''"

definition is_dmabuf_vma :: "vm_area option \<Rightarrow> bool" where
  "is_dmabuf_vma vma = (case vma of
       None \<Rightarrow> False
     | Some v \<Rightarrow> (case vm_file v of None \<Rightarrow> False | Some (_, name) \<Rightarrow> name = VMA_VM_FILE_DMABUF_NAME))"

definition create_fd_from_vma :: "kernel \<Rightarrow> vm_area option \<Rightarrow> calls \<Rightarrow> u32 result \<times> calls" where
  "create_fd_from_vma K vma cs0 = (case vma of
       None \<Rightarrow> (Err EINVAL, cs0)
     | Some v \<Rightarrow> (case vm_file v of
         None \<Rightarrow> (Err EINVAL, cs0)
       | Some (file, _) \<Rightarrow>
           let cs1 = Get_file file # cs0;
               fd = k_get_unused_fd K cs1;
               cs2 = Get_unused_fd fd # cs1
           in case fd of
                Ok n \<Rightarrow> (Ok n, Fd_install n file # cs2)
              | Err e \<Rightarrow> (Err e, Fput file # cs2)
              | Fault f \<Rightarrow> (Fault f, cs2)))"

section \<open>Scatter-gather tables of pages\<close>

text \<open>The loop that gives back pages: a page that is not reserved is marked dirty first.\<close>

fun put_pages :: "kernel \<Rightarrow> page list \<Rightarrow> calls \<Rightarrow> calls" where
  "put_pages K [] cs = cs"
| "put_pages K (p # ps) cs =
     put_pages K ps (Put_page p # (if \<not> k_page_reserved K p then Set_page_dirty p # cs else cs))"

definition clear_sg_table :: "kernel \<Rightarrow> sgt \<Rightarrow> calls \<Rightarrow> calls" where
  "clear_sg_table K t cs = Sg_free (sgt_pages t) # put_pages K (sgt_pages t) cs"

text \<open>\<open>map_mmio_address\<close>: the loop that checks that the physical pages are contiguous.\<close>

fun check_contiguous :: "kernel \<Rightarrow> u64 \<Rightarrow> nat \<Rightarrow> nat \<Rightarrow> u64 \<Rightarrow> calls \<Rightarrow> unit result \<times> calls" where
  "check_contiguous K virt_addr 0 i pfn cs = (Ok (), cs)"
| "check_contiguous K virt_addr (Suc n) i pfn cs =
     (let a = virt_addr + push_bit PAGE_SHIFT (of_nat i);
          r = k_follow_pfn K cs a;
          cs1 = Follow_pfn a r # cs
      in case r of
           Err e \<Rightarrow> (Err e, cs1)
         | Fault f \<Rightarrow> (Fault f, cs1)
         | Ok next_pfn \<Rightarrow> if next_pfn \<noteq> pfn + 1 then (Err EFAULT, cs1)
                          else check_contiguous K virt_addr n (Suc i) next_pfn cs1)"

definition map_mmio_address :: "kernel \<Rightarrow> u64 \<Rightarrow> u32 \<Rightarrow> vm_area \<Rightarrow> calls \<Rightarrow> sgt result \<times> calls" where
  "map_mmio_address K virt_addr siz vma cs0 =
     (let vma_size = ucast (vm_end vma - vm_start vma + 1) :: u32;
          num_pages = PFN_UP (virt_addr + ucast siz) - PFN_DOWN virt_addr
      in if \<not> k_mmio_dma_mapping K then (Err EINVAL, cs0)
         else if vma_size < siz then (Err EINVAL, cs0)
         else
          let r = k_follow_pfn K cs0 virt_addr; cs1 = Follow_pfn virt_addr r # cs0
          in case r of
               Err e \<Rightarrow> (Err e, cs1)
             | Fault f \<Rightarrow> (Fault f, cs1)
             | Ok pfn \<Rightarrow>
                 let phys_addr = push_bit PAGE_SHIFT pfn + offset_in_page virt_addr
                 in case check_contiguous K virt_addr (unat num_pages - 1) 1 pfn cs1 of
                      (Err e, cs2) \<Rightarrow> (Err e, cs2)
                    | (Fault f, cs2) \<Rightarrow> (Fault f, cs2)
                    | (Ok _, cs2) \<Rightarrow>
                        let a = k_sg_alloc K cs2 [] siz; cs3 = Sg_alloc [] a # cs2
                        in case a of
                             Err e \<Rightarrow> (Err e, cs3)
                           | Fault f \<Rightarrow> (Fault f, cs3)
                           | Ok _ \<Rightarrow> (Ok \<lparr> sgt_pages = [], sgt_dma = [(phys_addr, siz)] \<rparr>, cs3))"

text \<open>\<open>npages = (size + PAGE_SIZE - 1) >> PAGE_SHIFT\<close>.\<close>

definition pages_of_size :: "u64 \<Rightarrow> u64" where
  "pages_of_size siz = drop_bit PAGE_SHIFT (siz + PAGE_SIZE - 1)"

text \<open>
  \<open>prepare_sg_table\<close>. The two ways to get the pages yield the pages together with the number of them that the error path gives
  back: for pages pinned here all of them, for a low memory buffer none (\<open>pinned_pages\<close> stays 0).
\<close>

definition get_buffer_pages ::
    "kernel \<Rightarrow> u64 \<Rightarrow> u64 \<Rightarrow> hailo_vdma_low_memory_buffer option \<Rightarrow> calls \<Rightarrow> (page list \<times> nat) result \<times> calls" where
  "get_buffer_pages K user_address npages low cs = (case low of
       None \<Rightarrow>
         (let r = k_get_user_pages K cs user_address npages; cs1 = Get_user_pages user_address npages r # cs
          in case r of
               Err e \<Rightarrow> (Err e, cs1)
             | Fault f \<Rightarrow> (Fault f, cs1)
             | Ok pages \<Rightarrow> if length pages \<noteq> unat npages then (Err EINVAL, put_pages K pages cs1)
                           else (Ok (pages, length pages), cs1))
     | Some lm \<Rightarrow>
         if npages \<noteq> lm_pages_count lm then (Err EINVAL, cs)
         else if length (lm_pages_address lm) < unat npages then (Fault Out_of_bounds, cs)
         else let pages = map (k_virt_to_page K) (take (unat npages) (lm_pages_address lm))
              in (Ok (pages, 0), rev (map Get_page pages) @ cs))"

definition prepare_sg_table ::
    "kernel \<Rightarrow> u64 \<Rightarrow> u32 \<Rightarrow> hailo_vdma_low_memory_buffer option \<Rightarrow> calls \<Rightarrow> sgt result \<times> calls" where
  "prepare_sg_table K user_address siz low cs0 =
     (let npages = pages_of_size (ucast siz);
          arr = k_alloc_array K cs0;
          cs1 = Alloc_array arr # cs0
      in case arr of
           None \<Rightarrow> (Err ENOMEM, cs1)
         | Some p \<Rightarrow> (case get_buffer_pages K user_address npages low cs1 of
             (Err e, cs2) \<Rightarrow> (Err e, Free_array p # cs2)
           | (Fault f, cs2) \<Rightarrow> (Fault f, cs2)
           | (Ok (pages, pinned_pages), cs2) \<Rightarrow>
               let a = k_sg_alloc K cs2 pages siz; cs3 = Sg_alloc pages a # cs2
               in case a of
                    Err e \<Rightarrow> (Err e, Free_array p # put_pages K (take pinned_pages pages) cs3)
                  | Fault f \<Rightarrow> (Fault f, cs3)
                  | Ok _ \<Rightarrow> (Ok \<lparr> sgt_pages = pages, sgt_dma = [] \<rparr>, Free_array p # cs3)))"

section \<open>Mapping a buffer\<close>

definition MMIO_AND_NO_PAGES_VMA_MASK :: u64 where "MMIO_AND_NO_PAGES_VMA_MASK = 0x4400"

text \<open>
  \<open>hailo_vdma_buffer_map\<close> in the order of the code: which memory the address belongs to, the mapping itself, the structure.
  The first part yields the buffer type, the address or file descriptor and the saved user address of a buffer whose memory
  area turned out to be a dmabuf.
\<close>

definition resolve_buffer ::
    "kernel \<Rightarrow> vm_area option \<Rightarrow> u64 \<Rightarrow> hailo_dma_buffer_type \<Rightarrow> calls \<Rightarrow> (hailo_dma_buffer_type \<times> u64 \<times> u64) result \<times> calls" where
  "resolve_buffer K vma addr_or_fd buffer_type cs =
     (if HAILO_DMA_DMABUF_BUFFER = buffer_type then (Ok (buffer_type, addr_or_fd, 0), cs)
      else if k_mmio_dma_mapping K \<and> vma = None then (Err EFAULT, cs)
      else if is_dmabuf_vma vma
      then (case create_fd_from_vma K vma cs of
              (Ok fd, cs1) \<Rightarrow> (Ok (HAILO_DMA_DMABUF_BUFFER, ucast fd, addr_or_fd), cs1)
            | (Err e, cs1) \<Rightarrow> (Err e, cs1)
            | (Fault f, cs1) \<Rightarrow> (Fault f, cs1))
      else (Ok (buffer_type, addr_or_fd, 0), cs))"

definition map_user_pages ::
    "kernel \<Rightarrow> ptr \<Rightarrow> u64 \<Rightarrow> u64 \<Rightarrow> dma_data_direction \<Rightarrow> hailo_vdma_low_memory_buffer option \<Rightarrow> calls \<Rightarrow> sgt result \<times> calls" where
  "map_user_pages K mapped_buffer addr siz direction low cs =
     (case prepare_sg_table K addr (ucast siz) low cs of
        (Err e, cs1) \<Rightarrow> (Err e, Kfree mapped_buffer # cs1)
      | (Fault f, cs1) \<Rightarrow> (Fault f, cs1)
      | (Ok t, cs1) \<Rightarrow>
          let ents = k_dma_map_sg K cs1 (sgt_pages t) direction;
              cs2 = Dma_map_sg (sgt_pages t) direction ents # cs1
          in if ents = [] then (Err ENXIO, Kfree mapped_buffer # clear_sg_table K t cs2)
             else (Ok (t\<lparr>sgt_dma := ents\<rparr>), cs2))"

definition map_resolved ::
    "kernel \<Rightarrow> ptr \<Rightarrow> vm_area option \<Rightarrow> hailo_dma_buffer_type \<Rightarrow> u64 \<Rightarrow> u64 \<Rightarrow> u64 \<Rightarrow> dma_data_direction \<Rightarrow>
     hailo_vdma_low_memory_buffer option \<Rightarrow> calls \<Rightarrow> hailo_vdma_buffer result \<times> calls" where
  "map_resolved K mapped_buffer vma buffer_type addr_or_fd saved_addr siz direction low cs =
     (let buffer = (\<lambda>bt addr t mmio info.
            \<lparr> vb_handle = 0, vb_kref = 1, vb_buffer_type = bt, vb_size = ucast siz, vb_addr_or_fd = addr,
              vb_data_direction = direction, vb_sg_table = t, vb_is_mmio = mmio, vb_dmabuf_info = info \<rparr>)
      in if k_mmio_dma_mapping K \<and> buffer_type \<noteq> HAILO_DMA_DMABUF_BUFFER \<and> vma = None then (Fault Null_deref, cs)
      else if k_mmio_dma_mapping K \<and> buffer_type \<noteq> HAILO_DMA_DMABUF_BUFFER \<and>
              (vm_flags (the vma) AND MMIO_AND_NO_PAGES_VMA_MASK) = MMIO_AND_NO_PAGES_VMA_MASK
      then if low \<noteq> None then (Err EINVAL, Kfree mapped_buffer # cs)
           else (case map_mmio_address K addr_or_fd (ucast siz) (the vma) cs of
                   (Err e, cs1) \<Rightarrow> (Err e, Kfree mapped_buffer # cs1)
                 | (Fault f, cs1) \<Rightarrow> (Fault f, cs1)
                 | (Ok t, cs1) \<Rightarrow> (Ok (buffer buffer_type addr_or_fd t True no_dmabuf), cs1))
      else if buffer_type = HAILO_DMA_DMABUF_BUFFER
      then (case hailo_map_dmabuf K (ucast addr_or_fd) direction cs of
              (Err e, cs1) \<Rightarrow> (Err e, cs1)
            | (Fault f, cs1) \<Rightarrow> (Fault f, cs1)
            | (Ok (t, info), cs1) \<Rightarrow>
                if saved_addr \<noteq> 0
                then (Ok (buffer HAILO_DMA_USER_PTR_BUFFER saved_addr t False info), Close_fd (ucast addr_or_fd) # cs1)
                else (Ok (buffer buffer_type addr_or_fd t False info), cs1))
      else (case map_user_pages K mapped_buffer addr_or_fd siz direction low cs of
              (Err e, cs1) \<Rightarrow> (Err e, cs1)
            | (Fault f, cs1) \<Rightarrow> (Fault f, cs1)
            | (Ok t, cs1) \<Rightarrow> (Ok (buffer buffer_type addr_or_fd t False no_dmabuf), cs1)))"

definition hailo_vdma_buffer_map ::
    "kernel \<Rightarrow> u64 \<Rightarrow> u64 \<Rightarrow> dma_data_direction \<Rightarrow> hailo_dma_buffer_type \<Rightarrow> hailo_vdma_low_memory_buffer option \<Rightarrow> calls \<Rightarrow>
     (ptr \<times> hailo_vdma_buffer) result \<times> calls" where
  "hailo_vdma_buffer_map K addr_or_fd siz direction buffer_type low cs0 =
     (let mem = k_kzalloc K cs0;
          cs1 = Kzalloc mem # cs0;
          vma = (if HAILO_DMA_DMABUF_BUFFER \<noteq> buffer_type then k_find_vma K cs1 addr_or_fd else None)
      in case mem of
           None \<Rightarrow> (Err ENOMEM, cs1)
         | Some p \<Rightarrow> (case resolve_buffer K vma addr_or_fd buffer_type cs1 of
             (Err e, cs2) \<Rightarrow> (Err e, cs2)
           | (Fault f, cs2) \<Rightarrow> (Fault f, cs2)
           | (Ok (bt, addr, saved), cs2) \<Rightarrow>
               (case map_resolved K p vma bt addr saved siz direction low cs2 of
                  (Ok b, cs3) \<Rightarrow> (Ok (p, b), cs3)
                | (Err e, cs3) \<Rightarrow> (Err e, cs3)
                | (Fault f, cs3) \<Rightarrow> (Fault f, cs3))))"

definition unmap_buffer :: "kernel \<Rightarrow> ptr \<Rightarrow> hailo_vdma_buffer \<Rightarrow> calls \<Rightarrow> calls" where
  "unmap_buffer K p buf cs =
     Kfree p # (case di_dmabuf (vb_dmabuf_info buf) of
         Some dmabuf \<Rightarrow> hailo_unmap_dmabuf buf dmabuf cs
       | None \<Rightarrow> clear_sg_table K (vb_sg_table buf)
           (if \<not> vb_is_mmio buf then Dma_unmap_sg (sgt_pages (vb_sg_table buf)) (vb_data_direction buf) # cs else cs))"

definition hailo_vdma_buffer_get :: "hailo_vdma_buffer \<Rightarrow> hailo_vdma_buffer" where
  "hailo_vdma_buffer_get buf = buf\<lparr>vb_kref := vb_kref buf + 1\<rparr>"

text \<open>\<open>kref_put\<close> calls \<open>unmap_buffer\<close> when the last reference goes; the structure then leaves the heap.\<close>

definition hailo_vdma_buffer_put ::
    "kernel \<Rightarrow> ptr \<Rightarrow> hailo_vdma_buffer heap \<Rightarrow> calls \<Rightarrow> (hailo_vdma_buffer heap \<times> calls) result" where
  "hailo_vdma_buffer_put K p bufs cs = (case bufs p of
       None \<Rightarrow> Fault Use_after_free
     | Some b \<Rightarrow> if vb_kref b = 1 then Ok (bufs(p := None), unmap_buffer K p b cs)
                 else Ok (bufs(p \<mapsto> b\<lparr>vb_kref := vb_kref b - 1\<rparr>), cs))"

section \<open>Synchronising a buffer\<close>

definition vdma_sync_entire_buffer :: "hailo_vdma_buffer \<Rightarrow> hailo_vdma_buffer_sync_type \<Rightarrow> calls \<Rightarrow> calls" where
  "vdma_sync_entire_buffer b sync_type cs =
     (if sync_type = HAILO_SYNC_FOR_CPU
      then Dma_sync_sg HAILO_SYNC_FOR_CPU (sgt_dma (vb_sg_table b)) (vb_data_direction b) # cs
      else Dma_sync_sg HAILO_SYNC_FOR_DEVICE (sgt_dma (vb_sg_table b)) (vb_data_direction b) # cs)"

fun sync_entries ::
    "hailo_vdma_buffer_sync_type \<Rightarrow> dma_data_direction \<Rightarrow> u64 \<Rightarrow> u64 \<Rightarrow> u64 \<Rightarrow> sg_table \<Rightarrow> calls \<Rightarrow> calls" where
  "sync_entries st dir sync_start sync_end current [] cs = cs"
| "sync_entries st dir sync_start sync_end current ((a, len) # es) cs =
     sync_entries st dir sync_start sync_end (current + ucast len) es
       (if max sync_start current \<le> min sync_end (current + ucast len) then Dma_sync_single st a len dir # cs else cs)"

definition vdma_sync_buffer_interval ::
    "hailo_vdma_buffer \<Rightarrow> u64 \<Rightarrow> u64 \<Rightarrow> hailo_vdma_buffer_sync_type \<Rightarrow> calls \<Rightarrow> calls" where
  "vdma_sync_buffer_interval b offset siz sync_type cs =
     sync_entries (if sync_type = HAILO_SYNC_FOR_CPU then HAILO_SYNC_FOR_CPU else HAILO_SYNC_FOR_DEVICE)
       (vb_data_direction b) offset (offset + siz) 0 (sgt_dma (vb_sg_table b)) cs"

definition hailo_vdma_buffer_sync ::
    "kernel \<Rightarrow> hailo_vdma_buffer \<Rightarrow> hailo_vdma_buffer_sync_type \<Rightarrow> u64 \<Rightarrow> u64 \<Rightarrow> calls \<Rightarrow> calls" where
  "hailo_vdma_buffer_sync K b sync_type offset siz cs =
     (if (k_mmio_dma_mapping K \<and> vb_is_mmio b) \<or> di_dmabuf (vb_dmabuf_info b) \<noteq> None then cs
      else if offset = 0 \<and> siz = ucast (vb_size b) then vdma_sync_entire_buffer b sync_type cs
      else vdma_sync_buffer_interval b offset siz sync_type cs)"

section \<open>Finding mapped buffers\<close>

definition hailo_vdma_find_mapped_buffer_by_fd ::
    "nat list \<Rightarrow> hailo_vdma_buffer heap \<Rightarrow> u64 \<Rightarrow> u64 \<Rightarrow> dma_data_direction \<Rightarrow> (ptr \<times> hailo_vdma_buffer) option result" where
  "hailo_vdma_find_mapped_buffer_by_fd ps bufs fd siz direction =
     list_find (\<lambda>cur. vb_addr_or_fd cur = fd \<and> siz \<le> ucast (vb_size cur) \<and> vb_buffer_type cur = HAILO_DMA_DMABUF_BUFFER \<and>
       DMA_DIRECTION_EQUALS (vb_data_direction cur) direction) ps bufs"

definition hailo_vdma_find_mapped_buffer_by_address ::
    "nat list \<Rightarrow> hailo_vdma_buffer heap \<Rightarrow> u64 \<Rightarrow> u64 \<Rightarrow> dma_data_direction \<Rightarrow> (ptr \<times> hailo_vdma_buffer) option result" where
  "hailo_vdma_find_mapped_buffer_by_address ps bufs user_address siz direction =
     list_find (\<lambda>cur. vb_addr_or_fd cur \<le> user_address \<and> user_address + siz \<le> vb_addr_or_fd cur + ucast (vb_size cur) \<and>
       vb_buffer_type cur = HAILO_DMA_USER_PTR_BUFFER \<and> DMA_DIRECTION_EQUALS (vb_data_direction cur) direction) ps bufs"

definition hailo_vdma_find_mapped_buffer_by_handle ::
    "nat list \<Rightarrow> hailo_vdma_buffer heap \<Rightarrow> u64 \<Rightarrow> (ptr \<times> hailo_vdma_buffer) option result" where
  "hailo_vdma_find_mapped_buffer_by_handle ps bufs buffer_handle = list_find_handle vb_handle buffer_handle (ps, bufs)"

fun hailo_vdma_clear_mapped_user_buffer_list ::
    "kernel \<Rightarrow> nat list \<Rightarrow> hailo_vdma_buffer heap \<Rightarrow> calls \<Rightarrow> (hailo_vdma_buffer heap \<times> calls) result" where
  "hailo_vdma_clear_mapped_user_buffer_list K [] bufs cs = Ok (bufs, cs)"
| "hailo_vdma_clear_mapped_user_buffer_list K (p # ps) bufs cs =
     bind_r (hailo_vdma_buffer_put K p bufs cs)
       (\<lambda>(bufs', cs'). hailo_vdma_clear_mapped_user_buffer_list K ps bufs' cs')"

section \<open>Buffers of descriptor lists\<close>

definition VDMA_DESCRIPTOR_LIST_ALIGN :: u64 where "VDMA_DESCRIPTOR_LIST_ALIGN = 0x10000"

definition hailo_desc_list_create ::
    "kernel \<Rightarrow> u32 \<Rightarrow> u16 \<Rightarrow> u64 \<Rightarrow> bool \<Rightarrow> calls \<Rightarrow>
     (hailo_descriptors_list_buffer \<times> hailo_vdma_descriptors_list) result \<times> calls" where
  "hailo_desc_list_create K descriptors_count desc_page_size desc_handle is_circular cs0 =
     (if MAX_POWER_OF_2_VALUE < descriptors_count then (Err EINVAL, cs0)
      else
       let buffer_size = ALIGN (ucast descriptors_count * SIZE_OF_VDMA_DESCRIPTOR) VDMA_DESCRIPTOR_LIST_ALIGN;
           mem = k_dma_alloc_coherent K cs0 buffer_size;
           cs1 = Dma_alloc_coherent buffer_size mem # cs0
       in case mem of
            None \<Rightarrow> (Err ENOBUFS, cs1)
          | Some (kernel_address, dma_address) \<Rightarrow>
              (Ok (\<lparr> db_handle = desc_handle, db_kernel_address = kernel_address, db_dma_address = dma_address,
                     db_buffer_size = ucast buffer_size \<rparr>,
                   \<lparr> dl_desc_list = map (k_coherent_memory K cs1) [0..<unat descriptors_count],
                     dl_desc_count = descriptors_count,
                     dl_desc_count_mask =
                       (if is_circular then descriptors_count - 1
                        else the (get_nearest_powerof_2 descriptors_count) - 1),
                     dl_desc_page_size = desc_page_size,
                     dl_is_circular = is_circular \<rparr>), cs1))"

definition hailo_desc_list_release :: "hailo_descriptors_list_buffer \<Rightarrow> calls \<Rightarrow> calls" where
  "hailo_desc_list_release descriptors cs =
     Dma_free_coherent (ucast (db_buffer_size descriptors)) (db_kernel_address descriptors) (db_dma_address descriptors) # cs"

definition hailo_vdma_find_descriptors_buffer ::
    "nat list \<Rightarrow> hailo_descriptors_list_buffer heap \<Rightarrow> u64 \<Rightarrow> (ptr \<times> hailo_descriptors_list_buffer) option result" where
  "hailo_vdma_find_descriptors_buffer ps bufs desc_handle = list_find_handle db_handle desc_handle (ps, bufs)"

text \<open>The three other lists are cleared by the same loop: take an entry off the list, release what it holds, free it.\<close>

fun clear_list :: "('a \<Rightarrow> calls \<Rightarrow> calls) \<Rightarrow> nat list \<Rightarrow> 'a heap \<Rightarrow> calls \<Rightarrow> ('a heap \<times> calls) result" where
  "clear_list release [] bufs cs = Ok (bufs, cs)"
| "clear_list release (p # ps) bufs cs = (case bufs p of
     None \<Rightarrow> Fault Use_after_free
   | Some b \<Rightarrow> clear_list release ps (bufs(p := None)) (Kfree p # release b cs))"

definition hailo_vdma_clear_descriptors_buffer_list ::
    "nat list \<Rightarrow> hailo_descriptors_list_buffer heap \<Rightarrow> calls \<Rightarrow> (hailo_descriptors_list_buffer heap \<times> calls) result" where
  "hailo_vdma_clear_descriptors_buffer_list = clear_list hailo_desc_list_release"

section \<open>Low memory and continuous buffers\<close>

text \<open>
  The loop that allocates the pages; on a failure the pages so far are freed, in their order, and then the array.
  \<open>acc\<close> holds the pages in reverse.
\<close>

fun alloc_low_pages :: "kernel \<Rightarrow> nat \<Rightarrow> ptr \<Rightarrow> ptr list \<Rightarrow> calls \<Rightarrow> ptr list result \<times> calls" where
  "alloc_low_pages K 0 arr acc cs = (Ok (rev acc), cs)"
| "alloc_low_pages K (Suc n) arr acc cs =
     (let m = k_get_free_page K cs; cs1 = Get_free_page m # cs
      in case m of
           None \<Rightarrow> (Err ENOMEM, Free_array arr # map Free_page acc @ cs1)
         | Some p \<Rightarrow> alloc_low_pages K n arr (p # acc) cs1)"

definition hailo_vdma_low_memory_buffer_alloc ::
    "kernel \<Rightarrow> u64 \<Rightarrow> calls \<Rightarrow> hailo_vdma_low_memory_buffer result \<times> calls" where
  "hailo_vdma_low_memory_buffer_alloc K siz cs0 =
     (let pages_count = pages_of_size siz;
          m = k_alloc_array K cs0; cs1 = Alloc_array m # cs0
      in case m of
           None \<Rightarrow> (Err ENOMEM, cs1)
         | Some arr \<Rightarrow>
             (case alloc_low_pages K (unat pages_count) arr [] cs1 of
                (Ok pages, cs2) \<Rightarrow>
                  (Ok \<lparr> lm_handle = 0, lm_pages_count = pages_count, lm_pages_array = arr, lm_pages_address = pages \<rparr>, cs2)
              | (Err e, cs2) \<Rightarrow> (Err e, cs2)
              | (Fault f, cs2) \<Rightarrow> (Fault f, cs2)))"

definition hailo_vdma_low_memory_buffer_free :: "hailo_vdma_low_memory_buffer \<Rightarrow> calls \<Rightarrow> calls" where
  "hailo_vdma_low_memory_buffer_free b cs =
     Free_array (lm_pages_array b) # rev (map Free_page (lm_pages_address b)) @ cs"

definition hailo_vdma_find_low_memory_buffer ::
    "nat list \<Rightarrow> hailo_vdma_low_memory_buffer heap \<Rightarrow> u64 \<Rightarrow> (ptr \<times> hailo_vdma_low_memory_buffer) option result" where
  "hailo_vdma_find_low_memory_buffer ps bufs buf_handle = list_find_handle lm_handle buf_handle (ps, bufs)"

definition hailo_vdma_clear_low_memory_buffer_list ::
    "nat list \<Rightarrow> hailo_vdma_low_memory_buffer heap \<Rightarrow> calls \<Rightarrow> (hailo_vdma_low_memory_buffer heap \<times> calls) result" where
  "hailo_vdma_clear_low_memory_buffer_list = clear_list hailo_vdma_low_memory_buffer_free"

definition hailo_vdma_continuous_buffer_alloc ::
    "kernel \<Rightarrow> u64 \<Rightarrow> calls \<Rightarrow> hailo_vdma_continuous_buffer result \<times> calls" where
  "hailo_vdma_continuous_buffer_alloc K siz cs0 =
     (let m = k_dma_alloc_coherent K cs0 siz; cs1 = Dma_alloc_coherent siz m # cs0
      in case m of
           None \<Rightarrow> (Err ENOBUFS, cs1)
         | Some (kernel_address, dma_address) \<Rightarrow>
             (Ok \<lparr> cb_handle = 0, cb_kernel_address = kernel_address, cb_dma_address = dma_address, cb_size = siz \<rparr>, cs1))"

definition hailo_vdma_continuous_buffer_free :: "hailo_vdma_continuous_buffer \<Rightarrow> calls \<Rightarrow> calls" where
  "hailo_vdma_continuous_buffer_free b cs =
     Dma_free_coherent (cb_size b) (cb_kernel_address b) (cb_dma_address b) # cs"

definition hailo_vdma_find_continuous_buffer ::
    "nat list \<Rightarrow> hailo_vdma_continuous_buffer heap \<Rightarrow> u64 \<Rightarrow> (ptr \<times> hailo_vdma_continuous_buffer) option result" where
  "hailo_vdma_find_continuous_buffer ps bufs buf_handle = list_find_handle cb_handle buf_handle (ps, bufs)"

definition hailo_vdma_clear_continuous_buffer_list ::
    "nat list \<Rightarrow> hailo_vdma_continuous_buffer heap \<Rightarrow> calls \<Rightarrow> (hailo_vdma_continuous_buffer heap \<times> calls) result" where
  "hailo_vdma_clear_continuous_buffer_list = clear_list hailo_vdma_continuous_buffer_free"

section \<open>The lists are handle maps\<close>

interpretation mapped: handle_map vb_handle "list_find_handle vb_handle" list_add list_del "list_inv vb_handle"
  "\<lambda>t. set (fst t)" "list_abs vb_handle"
  by (rule list_handle_map)

interpretation descs: handle_map db_handle "list_find_handle db_handle" list_add list_del "list_inv db_handle"
  "\<lambda>t. set (fst t)" "list_abs db_handle"
  by (rule list_handle_map)

interpretation lows: handle_map lm_handle "list_find_handle lm_handle" list_add list_del "list_inv lm_handle"
  "\<lambda>t. set (fst t)" "list_abs lm_handle"
  by (rule list_handle_map)

interpretation conts: handle_map cb_handle "list_find_handle cb_handle" list_add list_del "list_inv cb_handle"
  "\<lambda>t. set (fst t)" "list_abs cb_handle"
  by (rule list_handle_map)

end
