(* ===== verification/Vdma_Controller.thy ===== *)
theory Vdma_Controller
  imports Vdma_Memory Vdma_Interrupts
begin

text \<open>
  The vDMA controller of a board and the context of an open file (\<open>src/linux/vdma/vdma.c\<close>, \<open>vdma.h\<close>): initialisation, the
  interrupt handler, the release of everything a file holds when it is closed, and memory mapping of driver buffers.

  The state \<open>vdma_world\<close> is what the driver's functions share: the device, the controller with its engines, the store of
  descriptor lists, the heaps of the four kinds of structures, the count of the board's semaphore, and the history of kernel
  calls. The number of engines is the length of the array of engines. The operations work on every extension of this record,
  so that the board can add its own state.
\<close>

record 'd hailo_vdma_controller =
  vc_hw :: hailo_vdma_hw
  vc_update_channel_interrupts :: "nat \<Rightarrow> u32 \<Rightarrow> 'd \<Rightarrow> 'd"
  vc_dev :: bool
  vc_vdma_engines :: "hailo_vdma_engine list"
  vc_used_by_filp :: "ptr option"
  vc_read_interrupt_timestamps_params :: hailo_vdma_interrupts_read_timestamp_params

record hailo_vdma_file_context =
  fc_last_vdma_user_buffer_handle :: u32
  fc_mapped_user_buffer_list :: "ptr list"
  fc_last_vdma_handle :: u32
  fc_descriptors_buffer_list :: "ptr list"
  fc_vdma_low_memory_buffer_list :: "ptr list"
  fc_continuous_buffer_list :: "ptr list"
  fc_enabled_channels_bitmap :: "u32 list"

record 'd vdma_world =
  w_device :: 'd
  w_controller :: "'d hailo_vdma_controller"
  w_lists :: dl_store
  w_buffers :: "hailo_vdma_buffer heap"
  w_desc_buffers :: "hailo_descriptors_list_buffer heap"
  w_low_buffers :: "hailo_vdma_low_memory_buffer heap"
  w_cont_buffers :: "hailo_vdma_continuous_buffer heap"
  w_calls :: calls
  w_board_mutex :: nat

abbreviation engines :: "('d, 'x) vdma_world_scheme \<Rightarrow> hailo_vdma_engine list" where
  "engines w \<equiv> vc_vdma_engines (w_controller w)"

definition set_engine :: "nat \<Rightarrow> hailo_vdma_engine \<Rightarrow> ('d, 'x) vdma_world_scheme \<Rightarrow> ('d, 'x) vdma_world_scheme" where
  "set_engine i e w = w\<lparr>w_controller := (w_controller w)\<lparr>vc_vdma_engines := (engines w)[i := e]\<rparr>\<rparr>"

text \<open>
  The board's semaphore: \<open>up\<close> adds one to the count. A \<open>down\<close> that is not interrupted returns once the count is positive, and
  never when nobody will raise it.
\<close>

definition up_mutex :: "('d, 'x) vdma_world_scheme \<Rightarrow> ('d, 'x) vdma_world_scheme" where
  "up_mutex w = w\<lparr>w_board_mutex := Suc (w_board_mutex w)\<rparr>"

definition down_mutex :: "('d, 'x) vdma_world_scheme \<Rightarrow> ('d, 'x) vdma_world_scheme result" where
  "down_mutex w = (if w_board_mutex w = 0 then Fault Blocked else Ok (w\<lparr>w_board_mutex := w_board_mutex w - 1\<rparr>))"

lemma down_up_mutex [simp]: "down_mutex (up_mutex w) = Ok w"
  by (simp add: down_mutex_def up_mutex_def)

text \<open>\<open>for_each_vdma_engine\<close>: the body runs for every index of an engine, in order.\<close>

fun for_each :: "(nat \<Rightarrow> 's \<Rightarrow> 's result) \<Rightarrow> nat list \<Rightarrow> 's \<Rightarrow> 's result" where
  "for_each body [] s = Ok s"
| "for_each body (i # is) s = bind_r (body i s) (for_each body is)"

section \<open>Initialisation\<close>

text \<open>\<open>devm_kmalloc_array\<close> answers with an uninitialised array of engines or fails.\<close>

definition init_vdma_engines ::
    "hailo_vdma_engine list option \<Rightarrow> hailo_resource list \<Rightarrow> nat \<Rightarrow> u32 \<Rightarrow> hailo_vdma_engine list result" where
  "init_vdma_engines mem channel_registers_per_engine engines_count src_bitmask = (case mem of
       None \<Rightarrow> Err ENOMEM
     | Some es \<Rightarrow>
         if length es < engines_count \<or> length channel_registers_per_engine < engines_count then Fault Out_of_bounds
         else Ok (map (\<lambda>i. hailo_vdma_engine_init (of_nat i) (channel_registers_per_engine ! i) src_bitmask (es ! i))
                [0..<engines_count]))"

text \<open>The widest mask of 64, 48, 40, 36 and 32 bits that the device accepts; otherwise the error of the last attempt.\<close>

fun try_dma_masks :: "kernel \<Rightarrow> nat list \<Rightarrow> unit result \<Rightarrow> nat result" where
  "try_dma_masks K [] err = (case err of Ok _ \<Rightarrow> Err EINVAL | Err e \<Rightarrow> Err e | Fault f \<Rightarrow> Fault f)"
| "try_dma_masks K (b # bs) err = (case k_dma_set_mask K b of Ok _ \<Rightarrow> Ok b | r \<Rightarrow> try_dma_masks K bs r)"

definition hailo_set_dma_mask :: "kernel \<Rightarrow> nat result" where
  "hailo_set_dma_mask K = try_dma_masks K [64, 48, 40, 36, 32] (Err EINVAL)"

definition hailo_vdma_controller_init ::
    "kernel \<Rightarrow> hailo_vdma_hw \<Rightarrow> (nat \<Rightarrow> u32 \<Rightarrow> 'd \<Rightarrow> 'd) \<Rightarrow> hailo_vdma_engine list option \<Rightarrow> hailo_resource list \<Rightarrow> nat \<Rightarrow>
     'd hailo_vdma_controller \<Rightarrow> 'd hailo_vdma_controller result" where
  "hailo_vdma_controller_init K vdma_hw ops mem channel_registers_per_engine engines_count controller =
     bind_r (init_vdma_engines mem channel_registers_per_engine engines_count (src_channels_bitmask vdma_hw)) (\<lambda>es.
     bind_r (hailo_set_dma_mask K) (\<lambda>_.
     Ok (controller\<lparr>vc_hw := vdma_hw, vc_update_channel_interrupts := ops, vc_dev := True, vc_vdma_engines := es,
           vc_used_by_filp := None\<rparr>)))"

text \<open>The context is allocated zeroed; the initialisation sets the counters and the list heads and leaves the bitmaps.\<close>

definition hailo_vdma_file_context_init :: "hailo_vdma_file_context \<Rightarrow> hailo_vdma_file_context" where
  "hailo_vdma_file_context_init context =
     context\<lparr>fc_last_vdma_user_buffer_handle := 0, fc_mapped_user_buffer_list := [], fc_last_vdma_handle := 0,
       fc_descriptors_buffer_list := [], fc_vdma_low_memory_buffer_list := [], fc_continuous_buffer_list := []\<rparr>"

section \<open>Interrupts\<close>

definition hailo_vdma_update_interrupts_mask :: "nat \<Rightarrow> ('d, 'x) vdma_world_scheme \<Rightarrow> ('d, 'x) vdma_world_scheme result" where
  "hailo_vdma_update_interrupts_mask engine_index w =
     bind_r (array_get (engines w) engine_index) (\<lambda>engine.
     Ok (w\<lparr>w_device := vc_update_channel_interrupts (w_controller w) engine_index (en_enabled_channels engine) (w_device w)\<rparr>))"

definition hailo_vdma_wakeup_interrupts :: "nat \<Rightarrow> u32 \<Rightarrow> ('d, 'x) vdma_world_scheme \<Rightarrow> ('d, 'x) vdma_world_scheme result" where
  "hailo_vdma_wakeup_interrupts engine_index channels_bitmap w =
     bind_r (array_get (engines w) engine_index) (\<lambda>engine.
     let w1 = set_engine engine_index (hailo_vdma_engine_set_channel_interrupts channels_bitmap engine) w
     in Ok (w1\<lparr>w_calls := Wake_up_interrupts # w_calls w1\<rparr>))"

definition hailo_vdma_irq_handler ::
    "'d mmio \<Rightarrow> (nat \<Rightarrow> u64) \<Rightarrow> nat \<Rightarrow> u32 \<Rightarrow> ('d, 'x) vdma_world_scheme \<Rightarrow> ('d, 'x) vdma_world_scheme result" where
  "hailo_vdma_irq_handler io clock engine_index channels_bitmap w =
     (if length (engines w) \<le> engine_index then Fault Bug_on
      else let (r, d) = hailo_vdma_engine_push_timestamps io clock channels_bitmap (engines w ! engine_index) (w_device w)
           in bind_r r (\<lambda>engine.
              hailo_vdma_wakeup_interrupts engine_index channels_bitmap (set_engine engine_index engine (w\<lparr>w_device := d\<rparr>))))"

section \<open>Closing a file\<close>

text \<open>Disabling channels of one engine: the engine's list of transfers, the interrupt mask if the device is up, the pending bits.\<close>

definition disable_engine_channels :: "bool \<Rightarrow> nat \<Rightarrow> u32 \<Rightarrow> ('d, 'x) vdma_world_scheme \<Rightarrow> ('d, 'x) vdma_world_scheme result" where
  "disable_engine_channels update_mask i bitmap w =
     bind_r (array_get (engines w) i) (\<lambda>engine.
     bind_r (hailo_vdma_engine_disable_channels bitmap engine (w_lists w)) (\<lambda>(engine1, dls).
     let w1 = (set_engine i engine1 w)\<lparr>w_lists := dls\<rparr>
     in bind_r (if update_mask then hailo_vdma_update_interrupts_mask i w1 else Ok w1) (\<lambda>w2.
     Ok (set_engine i (hailo_vdma_engine_clear_channel_interrupts bitmap engine1) w2))))"

definition finalize_engine :: "hailo_vdma_file_context \<Rightarrow> bool \<Rightarrow> nat \<Rightarrow> ('d, 'x) vdma_world_scheme \<Rightarrow> ('d, 'x) vdma_world_scheme result" where
  "finalize_engine context is_device_up i w =
     bind_r (array_get (fc_enabled_channels_bitmap context) i) (\<lambda>bitmap.
     if bitmap = 0 then Ok w else disable_engine_channels is_device_up i bitmap w)"

text \<open>The descriptor lists inside freed structures leave the store.\<close>

definition drop_lists :: "nat list \<Rightarrow> dl_store \<Rightarrow> dl_store" where
  "drop_lists ps dls p = (if p \<in> set ps then None else dls p)"

definition clear_file_lists :: "kernel \<Rightarrow> hailo_vdma_file_context \<Rightarrow> ('d, 'x) vdma_world_scheme \<Rightarrow> ('d, 'x) vdma_world_scheme result" where
  "clear_file_lists K context w =
     bind_r (hailo_vdma_clear_mapped_user_buffer_list K (fc_mapped_user_buffer_list context) (w_buffers w) (w_calls w)) (\<lambda>(bufs, cs1).
     bind_r (hailo_vdma_clear_descriptors_buffer_list (fc_descriptors_buffer_list context) (w_desc_buffers w) cs1) (\<lambda>(dbs, cs2).
     bind_r (hailo_vdma_clear_low_memory_buffer_list (fc_vdma_low_memory_buffer_list context) (w_low_buffers w) cs2) (\<lambda>(lms, cs3).
     bind_r (hailo_vdma_clear_continuous_buffer_list (fc_continuous_buffer_list context) (w_cont_buffers w) cs3) (\<lambda>(cbs, cs4).
     Ok (w\<lparr>w_buffers := bufs, w_desc_buffers := dbs, w_lists := drop_lists (fc_descriptors_buffer_list context) (w_lists w),
           w_low_buffers := lms, w_cont_buffers := cbs, w_calls := cs4\<rparr>)))))"

definition hailo_vdma_file_context_finalize ::
    "kernel \<Rightarrow> hailo_vdma_file_context \<Rightarrow> ptr \<Rightarrow> ('d, 'x) vdma_world_scheme \<Rightarrow> (hailo_vdma_file_context \<times> ('d, 'x) vdma_world_scheme) result" where
  "hailo_vdma_file_context_finalize K context filp w =
     bind_r (for_each (finalize_engine context (vc_dev (w_controller w))) [0..<length (engines w)] w) (\<lambda>w1.
     bind_r (clear_file_lists K context w1) (\<lambda>w2.
     Ok (context\<lparr>fc_mapped_user_buffer_list := [], fc_descriptors_buffer_list := [], fc_vdma_low_memory_buffer_list := [],
           fc_continuous_buffer_list := []\<rparr>,
         if vc_used_by_filp (w_controller w2) = Some filp
         then w2\<lparr>w_controller := (w_controller w2)\<lparr>vc_used_by_filp := None\<rparr>\<rparr> else w2)))"

section \<open>Mapping driver buffers into user space\<close>

text \<open>
  The loop of \<open>low_memory_buffer_mmap\<close>: each page is mapped at the end of the previous one; on an error the range of the area
  stays as the loop left it.
\<close>

fun mmap_pages :: "kernel \<Rightarrow> ptr list \<Rightarrow> bool \<Rightarrow> vm_area \<Rightarrow> calls \<Rightarrow> unit result \<times> vm_area \<times> calls" where
  "mmap_pages K [] is_first vma cs = (Ok (), vma, cs)"
| "mmap_pages K (p # ps) is_first vma cs =
     (let start = (if is_first then vm_start vma else vm_end vma);
          vma1 = vma\<lparr>vm_start := start, vm_end := start + PAGE_SIZE\<rparr>;
          page_fn = drop_bit PAGE_SHIFT (k_virt_to_phys K p);
          r = k_remap_pfn_range K cs start page_fn;
          cs1 = Remap_pfn_range start page_fn r # cs
      in case r of
           Ok _ \<Rightarrow> mmap_pages K ps False vma1 cs1
         | Err e \<Rightarrow> (Err e, vma1, cs1)
         | Fault f \<Rightarrow> (Fault f, vma1, cs1))"

definition low_memory_buffer_mmap ::
    "kernel \<Rightarrow> hailo_vdma_low_memory_buffer \<Rightarrow> vm_area \<Rightarrow> calls \<Rightarrow> unit result \<times> vm_area \<times> calls" where
  "low_memory_buffer_mmap K vdma_buffer vma cs =
     (if vm_end vma - vm_start vma \<noteq> lm_pages_count vdma_buffer * PAGE_SIZE then (Err EINVAL, vma, cs)
      else case mmap_pages K (lm_pages_address vdma_buffer) True vma cs of
             (Ok _, vma1, cs1) \<Rightarrow> (Ok (), vma1\<lparr>vm_start := vm_start vma, vm_end := vm_end vma\<rparr>, cs1)
           | (Err e, vma1, cs1) \<Rightarrow> (Err e, vma1, cs1)
           | (Fault f, vma1, cs1) \<Rightarrow> (Fault f, vma1, cs1))"

definition continuous_buffer_mmap ::
    "kernel \<Rightarrow> hailo_vdma_continuous_buffer \<Rightarrow> vm_area \<Rightarrow> calls \<Rightarrow> unit result \<times> vm_area \<times> calls" where
  "continuous_buffer_mmap K buffer vma cs =
     (let vsize = vm_end vma - vm_start vma
      in if cb_size buffer < vsize then (Err EINVAL, vma, cs)
         else let r = k_dma_mmap_coherent K cs (cb_kernel_address buffer) (cb_dma_address buffer) vsize
              in (r, vma, Dma_mmap_coherent (cb_kernel_address buffer) (cb_dma_address buffer) vsize r # cs))"

definition hailo_vdma_mmap ::
    "kernel \<Rightarrow> hailo_vdma_file_context \<Rightarrow> ('d, 'x) vdma_world_scheme \<Rightarrow> vm_area \<Rightarrow> u64 \<Rightarrow> unit result \<times> vm_area \<times> ('d, 'x) vdma_world_scheme" where
  "hailo_vdma_mmap K context w vma vdma_handle =
     (case hailo_vdma_find_low_memory_buffer (fc_vdma_low_memory_buffer_list context) (w_low_buffers w) vdma_handle of
        Fault f \<Rightarrow> (Fault f, vma, w)
      | Err e \<Rightarrow> (Err e, vma, w)
      | Ok (Some (_, lm)) \<Rightarrow>
          (let (r, vma1, cs) = low_memory_buffer_mmap K lm vma (w_calls w) in (r, vma1, w\<lparr>w_calls := cs\<rparr>))
      | Ok None \<Rightarrow>
          (case hailo_vdma_find_continuous_buffer (fc_continuous_buffer_list context) (w_cont_buffers w) vdma_handle of
             Fault f \<Rightarrow> (Fault f, vma, w)
           | Err e \<Rightarrow> (Err e, vma, w)
           | Ok (Some (_, cb)) \<Rightarrow>
               (let (r, vma1, cs) = continuous_buffer_mmap K cb vma (w_calls w) in (r, vma1, w\<lparr>w_calls := cs\<rparr>))
           | Ok None \<Rightarrow> (Err EINVAL, vma, w)))"

fun get_dma_direction :: "hailo_dma_data_direction \<Rightarrow> dma_data_direction" where
  "get_dma_direction HAILO_DMA_BIDIRECTIONAL = DMA_BIDIRECTIONAL"
| "get_dma_direction HAILO_DMA_TO_DEVICE = DMA_TO_DEVICE"
| "get_dma_direction HAILO_DMA_FROM_DEVICE = DMA_FROM_DEVICE"
| "get_dma_direction _ = DMA_NONE"

end
