(* ===== verification/Vdma_Ioctl.thy ===== *)
theory Vdma_Ioctl
  imports Vdma_Controller
begin

text \<open>
  The vDMA requests of user space (\<open>src/linux/vdma/ioctl.c\<close> and the dispatcher of \<open>vdma.c\<close>). The argument block of a request
  is \<open>Some params\<close>, or \<open>None\<close> when \<open>copy_from_user\<close> fails; \<open>out_ok\<close> says whether \<open>copy_to_user\<close> succeeds. A request returns its
  result (with the block written back to the user), the context of the file and the world. Where a handler only faults or
  succeeds, it is sequenced by \<open>bind_r\<close>.
\<close>

section \<open>Enabling and disabling channels\<close>

record hailo_vdma_enable_channels_params =
  ec_channels_bitmap_per_engine :: "u32 list"
  ec_enable_timestamps_measure :: bool

definition any_enabled :: "u32 list \<Rightarrow> hailo_vdma_engine list \<Rightarrow> bool result" where
  "any_enabled bitmaps es =
     for_each (\<lambda>i found. if found then Ok True else bind_r (array_get bitmaps i) (\<lambda>b.
        Ok ((b AND en_enabled_channels (es ! i)) \<noteq> 0))) [0..<length es] False"

definition enable_engine ::
    "hailo_vdma_enable_channels_params \<Rightarrow> nat \<Rightarrow> hailo_vdma_file_context \<times> ('d, 'x) vdma_world_scheme \<Rightarrow>
     (hailo_vdma_file_context \<times> ('d, 'x) vdma_world_scheme) result" where
  "enable_engine input i cw = (case cw of (context, w) \<Rightarrow>
     bind_r (array_get (ec_channels_bitmap_per_engine input) i) (\<lambda>bitmap.
     bind_r (array_get (engines w) i) (\<lambda>engine.
     let w1 = set_engine i (hailo_vdma_engine_enable_channels bitmap (ec_enable_timestamps_measure input) engine) w
     in bind_r (hailo_vdma_update_interrupts_mask i w1) (\<lambda>w2.
     bind_r (array_modify (fc_enabled_channels_bitmap context) i (\<lambda>b. b OR bitmap)) (\<lambda>bs.
     Ok (context\<lparr>fc_enabled_channels_bitmap := bs\<rparr>, w2))))))"

definition hailo_vdma_enable_channels_ioctl ::
    "hailo_vdma_enable_channels_params option \<Rightarrow> hailo_vdma_file_context \<Rightarrow> ('d, 'x) vdma_world_scheme \<Rightarrow>
     (hailo_vdma_file_context \<times> ('d, 'x) vdma_world_scheme) result" where
  "hailo_vdma_enable_channels_ioctl arg context w = (case arg of
       None \<Rightarrow> Err ENOMEM
     | Some input \<Rightarrow>
         bind_r (any_enabled (ec_channels_bitmap_per_engine input) (engines w)) (\<lambda>found.
         if found then Err EINVAL
         else for_each (enable_engine input) [0..<length (engines w)] (context, w)))"

definition disable_engine ::
    "u32 list \<Rightarrow> nat \<Rightarrow> hailo_vdma_file_context \<times> ('d, 'x) vdma_world_scheme \<Rightarrow> (hailo_vdma_file_context \<times> ('d, 'x) vdma_world_scheme) result" where
  "disable_engine bitmaps i cw = (case cw of (context, w) \<Rightarrow>
     bind_r (array_get bitmaps i) (\<lambda>bitmap.
     bind_r (disable_engine_channels True i bitmap w) (\<lambda>w1.
     bind_r (array_modify (fc_enabled_channels_bitmap context) i (\<lambda>b. b AND NOT bitmap)) (\<lambda>bs.
     Ok (context\<lparr>fc_enabled_channels_bitmap := bs\<rparr>, w1)))))"

text \<open>Its first loop only warns about channels that are not enabled.\<close>

definition hailo_vdma_disable_channels_ioctl ::
    "u32 list option \<Rightarrow> hailo_vdma_file_context \<Rightarrow> ('d, 'x) vdma_world_scheme \<Rightarrow> (hailo_vdma_file_context \<times> ('d, 'x) vdma_world_scheme) result" where
  "hailo_vdma_disable_channels_ioctl arg context w = (case arg of
       None \<Rightarrow> Err ENOMEM
     | Some bitmaps \<Rightarrow>
         bind_r (for_each (disable_engine bitmaps) [0..<length (engines w)] (context, w)) (\<lambda>(context1, w1).
         Ok (context1, w1\<lparr>w_calls := Wake_up_interrupts # w_calls w1\<rparr>)))"

section \<open>Waiting for interrupts\<close>

definition got_interrupt :: "('d, 'x) vdma_world_scheme \<Rightarrow> u32 list \<Rightarrow> bool result" where
  "got_interrupt w bitmaps =
     for_each (\<lambda>i found. if found then Ok True else bind_r (array_get bitmaps i) (\<lambda>b.
        Ok (hailo_vdma_engine_got_interrupt (engines w ! i) b))) [0..<length (engines w)] False"

text \<open>
  The callback for a completed transfer: its buffers are given back to the CPU. \<open>opaque\<close> points to the mapped buffer, which
  may be gone. The state of the callback is the history of calls, or the fault.
\<close>

definition transfer_done_buffer ::
    "kernel \<Rightarrow> hailo_vdma_buffer heap \<Rightarrow> hailo_vdma_mapped_transfer_buffer \<Rightarrow> calls \<Rightarrow> calls result" where
  "transfer_done_buffer K bufs tb cs = (case bufs (tb_opaque tb) of
       None \<Rightarrow> Fault Use_after_free
     | Some b \<Rightarrow> Ok (hailo_vdma_buffer_sync K b HAILO_SYNC_FOR_CPU (ucast (tb_offset tb)) (ucast (tb_size tb)) cs))"

definition transfer_done :: "kernel \<Rightarrow> hailo_vdma_buffer heap \<Rightarrow> hailo_ongoing_transfer \<Rightarrow> calls result \<Rightarrow> calls result" where
  "transfer_done K bufs t r =
     bind_r r (for_each (\<lambda>i cs. bind_r (array_get (ot_buffers t) i) (\<lambda>tb. transfer_done_buffer K bufs tb cs))
       [0..<unat (ot_buffers_count t)])"

definition wait_collect_engine ::
    "'d mmio \<Rightarrow> kernel \<Rightarrow> nat \<Rightarrow> hailo_vdma_interrupts_wait_params \<times> ('d, 'x) vdma_world_scheme \<Rightarrow>
     (hailo_vdma_interrupts_wait_params \<times> ('d, 'x) vdma_world_scheme) result" where
  "wait_collect_engine io K i pw = (case pw of (params, w) \<Rightarrow>
     bind_r (array_get (engines w) i) (\<lambda>engine0.
     bind_r (array_get (wp_channels_bitmap_per_engine params) (unat (en_index engine0))) (\<lambda>requested.
     let (irq_bitmap, engine1) = hailo_vdma_engine_read_interrupts requested engine0;
         (r, d) = hailo_vdma_engine_fill_irq_data io params engine1 irq_bitmap (transfer_done K (w_buffers w)) (w_lists w)
                    (Ok (w_calls w)) (w_device w)
     in bind_r r (\<lambda>(params', engine2, dls, s).
        bind_r s (\<lambda>cs. Ok (params', (set_engine i engine2 w)\<lparr>w_lists := dls, w_calls := cs, w_device := d\<rparr>))))))"

text \<open>
  The board's semaphore is released while the request waits, so the world can change: \<open>wait\<close> is the answer of
  \<open>wait_event_interruptible\<close> and the world as the other threads left it, \<open>down_ok\<close> whether taking it again was not interrupted. The
  last component of the result is \<open>should_up_board_mutex\<close>. The interrupts collected are gone even when they cannot be copied to
  the user. (The collection itself fails only for lack of room in the array of the request, which has an entry for every
  channel of every engine.)
\<close>

definition hailo_vdma_interrupts_wait_ioctl ::
    "'d mmio \<Rightarrow> kernel \<Rightarrow> hailo_vdma_interrupts_wait_params option \<Rightarrow> (('d, 'x) vdma_world_scheme \<Rightarrow> unit result \<times> ('d, 'x) vdma_world_scheme) \<Rightarrow> bool \<Rightarrow>
     bool \<Rightarrow> ('d, 'x) vdma_world_scheme \<Rightarrow> hailo_vdma_interrupts_wait_params result \<times> ('d, 'x) vdma_world_scheme \<times> bool" where
  "hailo_vdma_interrupts_wait_ioctl io K arg wait down_ok out_ok w = (case arg of
       None \<Rightarrow> (Err ENOMEM, w, True)
     | Some params \<Rightarrow>
         if length (wp_channels_bitmap_per_engine params) < length (engines w) then (Fault Out_of_bounds, w, True)
         else if \<forall>b \<in> set (take (length (engines w)) (wp_channels_bitmap_per_engine params)). b = 0 then (Err EINVAL, w, True)
         else (case wait (up_mutex w) of
                 (Err e, w1) \<Rightarrow> (Err e, w1, False)
               | (Fault f, w1) \<Rightarrow> (Fault f, w1, False)
               | (Ok _, w1) \<Rightarrow>
                   if \<not> down_ok then (Err ERESTARTSYS, w1, False)
                   else (case down_mutex w1 of
                           Err e \<Rightarrow> (Err e, w1, False)
                         | Fault f \<Rightarrow> (Fault f, w1, False)
                         | Ok w2 \<Rightarrow>
                             (case for_each (wait_collect_engine io K) [0..<length (engines w2)] (params\<lparr>wp_channels_count := 0\<rparr>, w2) of
                                Ok (params', w3) \<Rightarrow> (if out_ok then Ok params' else Err ENOMEM, w3, True)
                              | Err e \<Rightarrow> (Err e, w2, True)
                              | Fault f \<Rightarrow> (Fault f, w2, True)))))"

definition hailo_vdma_interrupts_read_timestamps_ioctl ::
    "hailo_vdma_interrupts_read_timestamp_params option \<Rightarrow> bool \<Rightarrow> ('d, 'x) vdma_world_scheme \<Rightarrow>
     hailo_vdma_interrupts_read_timestamp_params result \<times> ('d, 'x) vdma_world_scheme" where
  "hailo_vdma_interrupts_read_timestamps_ioctl arg out_ok w = (case arg of
       None \<Rightarrow> (Err ENOMEM, w)
     | Some params \<Rightarrow>
         let w1 = w\<lparr>w_controller := (w_controller w)\<lparr>vc_read_interrupt_timestamps_params := params\<rparr>\<rparr>;
             i = unat (rt_engine_index params)
         in if length (engines w1) \<le> i then (Err EINVAL, w1)
            else case hailo_vdma_engine_read_timestamps (engines w1 ! i) params of
                   Err e \<Rightarrow> (Err e, w1)
                 | Fault f \<Rightarrow> (Fault f, w1)
                 | Ok (engine, params') \<Rightarrow>
                     let w2 = set_engine i engine w1;
                         w3 = w2\<lparr>w_controller := (w_controller w2)\<lparr>vc_read_interrupt_timestamps_params := params'\<rparr>\<rparr>
                     in (if out_ok then Ok params' else Err ENOMEM, w3))"

section \<open>Handles\<close>

text \<open>\<open>atomic_inc_return\<close> yields an \<open>int\<close>, which is sign-extended to the handle's 64 bits.\<close>

definition hailo_get_next_vdma_handle :: "hailo_vdma_file_context \<Rightarrow> u64 \<times> hailo_vdma_file_context" where
  "hailo_get_next_vdma_handle context =
     (let n = fc_last_vdma_handle context + 1
      in (push_bit PAGE_SHIFT (scast n), context\<lparr>fc_last_vdma_handle := n\<rparr>))"

section \<open>Mapped buffers\<close>

record hailo_vdma_buffer_map_params =
  bm_user_address :: u64
  bm_size :: u64
  bm_data_direction :: hailo_dma_data_direction
  bm_buffer_type :: hailo_dma_buffer_type
  bm_allocated_buffer_handle :: u64
  bm_mapped_handle :: u64

definition hailo_vdma_buffer_map_ioctl ::
    "kernel \<Rightarrow> hailo_vdma_buffer_map_params option \<Rightarrow> bool \<Rightarrow> hailo_vdma_file_context \<Rightarrow> ('d, 'x) vdma_world_scheme \<Rightarrow>
     hailo_vdma_buffer_map_params result \<times> hailo_vdma_file_context \<times> ('d, 'x) vdma_world_scheme" where
  "hailo_vdma_buffer_map_ioctl K arg out_ok context w = (case arg of
       None \<Rightarrow> (Err EFAULT, context, w)
     | Some buf_info \<Rightarrow>
         let direction = get_dma_direction (bm_data_direction buf_info)
         in if direction = DMA_NONE then (Err EINVAL, context, w)
         else (case hailo_vdma_find_low_memory_buffer (fc_vdma_low_memory_buffer_list context) (w_low_buffers w)
                      (bm_allocated_buffer_handle buf_info) of
             Fault f \<Rightarrow> (Fault f, context, w)
           | Err e \<Rightarrow> (Err e, context, w)
           | Ok low \<Rightarrow>
           (case hailo_vdma_buffer_map K (bm_user_address buf_info) (bm_size buf_info) direction (bm_buffer_type buf_info)
                   (map_option snd low) (w_calls w) of
              (Err e, cs) \<Rightarrow> (Err e, context, w\<lparr>w_calls := cs\<rparr>)
            | (Fault f, cs) \<Rightarrow> (Fault f, context, w\<lparr>w_calls := cs\<rparr>)
            | (Ok (p, mapped), cs) \<Rightarrow>
                let n = fc_last_vdma_user_buffer_handle context + 1;
                    context1 = context\<lparr>fc_last_vdma_user_buffer_handle := n\<rparr>;
                    buffer = mapped\<lparr>vb_handle := scast n\<rparr>;
                    heap1 = (w_buffers w)(p \<mapsto> buffer)
                in if \<not> out_ok
                   then (case hailo_vdma_buffer_put K p heap1 cs of
                           Ok (heap2, cs2) \<Rightarrow> (Err EFAULT, context1, w\<lparr>w_buffers := heap2, w_calls := cs2\<rparr>)
                         | Err e \<Rightarrow> (Err e, context1, w\<lparr>w_calls := cs\<rparr>)
                         | Fault f \<Rightarrow> (Fault f, context1, w\<lparr>w_calls := cs\<rparr>))
                   else (Ok (buf_info\<lparr>bm_mapped_handle := scast n\<rparr>),
                         context1\<lparr>fc_mapped_user_buffer_list := p # fc_mapped_user_buffer_list context1\<rparr>,
                         w\<lparr>w_buffers := heap1, w_calls := cs\<rparr>))))"

definition hailo_vdma_buffer_unmap_ioctl ::
    "kernel \<Rightarrow> u64 option \<Rightarrow> hailo_vdma_file_context \<Rightarrow> ('d, 'x) vdma_world_scheme \<Rightarrow> unit result \<times> hailo_vdma_file_context \<times> ('d, 'x) vdma_world_scheme" where
  "hailo_vdma_buffer_unmap_ioctl K arg context w = (case arg of
       None \<Rightarrow> (Err EFAULT, context, w)
     | Some mapped_handle \<Rightarrow>
         (case hailo_vdma_find_mapped_buffer_by_handle (fc_mapped_user_buffer_list context) (w_buffers w) mapped_handle of
            Fault f \<Rightarrow> (Fault f, context, w)
          | Err e \<Rightarrow> (Err e, context, w)
          | Ok None \<Rightarrow> (Err EINVAL, context, w)
          | Ok (Some (p, _)) \<Rightarrow>
              let context1 = context\<lparr>fc_mapped_user_buffer_list := remove1 p (fc_mapped_user_buffer_list context)\<rparr>
              in case hailo_vdma_buffer_put K p (w_buffers w) (w_calls w) of
                   Ok (hp, cs) \<Rightarrow> (Ok (), context1, w\<lparr>w_buffers := hp, w_calls := cs\<rparr>)
                 | Err e \<Rightarrow> (Err e, context1, w)
                 | Fault f \<Rightarrow> (Fault f, context1, w)))"

record hailo_vdma_buffer_sync_params =
  bs_handle :: u64
  bs_sync_type :: hailo_vdma_buffer_sync_type
  bs_offset :: u64
  bs_count :: u64

definition hailo_vdma_buffer_sync_ioctl ::
    "kernel \<Rightarrow> hailo_vdma_buffer_sync_params option \<Rightarrow> hailo_vdma_file_context \<Rightarrow> ('d, 'x) vdma_world_scheme \<Rightarrow> unit result \<times> ('d, 'x) vdma_world_scheme" where
  "hailo_vdma_buffer_sync_ioctl K arg context w = (case arg of
       None \<Rightarrow> (Err EFAULT, w)
     | Some sync_info \<Rightarrow>
         (case hailo_vdma_find_mapped_buffer_by_handle (fc_mapped_user_buffer_list context) (w_buffers w) (bs_handle sync_info) of
            Fault f \<Rightarrow> (Fault f, w)
          | Err e \<Rightarrow> (Err e, w)
          | Ok None \<Rightarrow> (Err EINVAL, w)
          | Ok (Some (_, b)) \<Rightarrow>
              if bs_sync_type sync_info \<noteq> HAILO_SYNC_FOR_CPU \<and> bs_sync_type sync_info \<noteq> HAILO_SYNC_FOR_DEVICE
              then (Err EINVAL, w)
              else if ucast (vb_size b) < bs_offset sync_info + bs_count sync_info then (Err EINVAL, w)
              else (Ok (), w\<lparr>w_calls := hailo_vdma_buffer_sync K b (bs_sync_type sync_info) (bs_offset sync_info)
                                        (bs_count sync_info) (w_calls w)\<rparr>)))"

section \<open>Descriptor lists\<close>

record hailo_desc_list_create_params =
  dc_desc_count :: u64
  dc_desc_page_size :: u16
  dc_is_circular :: bool
  dc_desc_handle :: u64

definition hailo_desc_list_create_ioctl ::
    "kernel \<Rightarrow> hailo_desc_list_create_params option \<Rightarrow> bool \<Rightarrow> hailo_vdma_file_context \<Rightarrow> ('d, 'x) vdma_world_scheme \<Rightarrow>
     hailo_desc_list_create_params result \<times> hailo_vdma_file_context \<times> ('d, 'x) vdma_world_scheme" where
  "hailo_desc_list_create_ioctl K arg out_ok context w = (case arg of
       None \<Rightarrow> (Err EFAULT, context, w)
     | Some params \<Rightarrow>
         if dc_is_circular params \<and> \<not> is_powerof2 (dc_desc_count params) then (Err EINVAL, context, w)
         else if \<not> is_powerof2 (ucast (dc_desc_page_size params)) then (Err EINVAL, context, w)
         else
          let mem = k_kzalloc K (w_calls w);
              cs1 = Kzalloc mem # w_calls w
          in case mem of
               None \<Rightarrow> (Err ENOMEM, context, w\<lparr>w_calls := cs1\<rparr>)
             | Some p \<Rightarrow>
                 let (next_handle, context1) = hailo_get_next_vdma_handle context
                 in case hailo_desc_list_create K (ucast (dc_desc_count params)) (dc_desc_page_size params) next_handle
                           (dc_is_circular params) cs1 of
                      (Err e, cs2) \<Rightarrow> (Err e, context1, w\<lparr>w_calls := Kfree p # cs2\<rparr>)
                    | (Fault f, cs2) \<Rightarrow> (Fault f, context1, w\<lparr>w_calls := cs2\<rparr>)
                    | (Ok (buffer, dl), cs2) \<Rightarrow>
                        if \<not> out_ok
                        then (Err EFAULT, context1, w\<lparr>w_calls := Kfree p # hailo_desc_list_release buffer cs2\<rparr>)
                        else (Ok (params\<lparr>dc_desc_handle := db_handle buffer\<rparr>),
                              context1\<lparr>fc_descriptors_buffer_list := p # fc_descriptors_buffer_list context1\<rparr>,
                              w\<lparr>w_desc_buffers := (w_desc_buffers w)(p \<mapsto> buffer), w_lists := (w_lists w)(p \<mapsto> dl),
                                w_calls := cs2\<rparr>))"

definition hailo_desc_list_release_ioctl ::
    "u64 option \<Rightarrow> hailo_vdma_file_context \<Rightarrow> ('d, 'x) vdma_world_scheme \<Rightarrow> unit result \<times> hailo_vdma_file_context \<times> ('d, 'x) vdma_world_scheme" where
  "hailo_desc_list_release_ioctl arg context w = (case arg of
       None \<Rightarrow> (Err EFAULT, context, w)
     | Some desc_handle \<Rightarrow>
         (case hailo_vdma_find_descriptors_buffer (fc_descriptors_buffer_list context) (w_desc_buffers w) desc_handle of
            Fault f \<Rightarrow> (Fault f, context, w)
          | Err e \<Rightarrow> (Err e, context, w)
          | Ok None \<Rightarrow> (Err EINVAL, context, w)
          | Ok (Some (p, buffer)) \<Rightarrow>
              (Ok (), context\<lparr>fc_descriptors_buffer_list := remove1 p (fc_descriptors_buffer_list context)\<rparr>,
               w\<lparr>w_desc_buffers := (w_desc_buffers w)(p := None), w_lists := (w_lists w)(p := None),
                 w_calls := Kfree p # hailo_desc_list_release buffer (w_calls w)\<rparr>)))"

record hailo_desc_list_program_params =
  dp_buffer_handle :: u64
  dp_buffer_size :: u64
  dp_buffer_offset :: u64
  dp_batch_size :: u32
  dp_desc_handle :: u64
  dp_channel_index :: u8
  dp_starting_desc :: u32
  dp_should_bind :: bool
  dp_last_interrupts_domain :: interrupts_domain
  dp_is_debug :: bool
  dp_stride :: u32

definition hailo_desc_list_program_ioctl ::
    "hailo_desc_list_program_params option \<Rightarrow> hailo_vdma_file_context \<Rightarrow> ('d, 'x) vdma_world_scheme \<Rightarrow> u32 result \<times> ('d, 'x) vdma_world_scheme" where
  "hailo_desc_list_program_ioctl arg context w = (case arg of
       None \<Rightarrow> (Err EFAULT, w)
     | Some info \<Rightarrow>
         (case (hailo_vdma_find_mapped_buffer_by_handle (fc_mapped_user_buffer_list context) (w_buffers w) (dp_buffer_handle info),
                hailo_vdma_find_descriptors_buffer (fc_descriptors_buffer_list context) (w_desc_buffers w) (dp_desc_handle info)) of
            (Ok (Some (_, b)), Ok (Some (p, _))) \<Rightarrow>
              if ucast (vb_size b) < dp_buffer_size info then (Err EFAULT, w)
              else (case w_lists w p of
                      None \<Rightarrow> (Fault Use_after_free, w)
                    | Some dl \<Rightarrow>
                        (let (r, dl') = hailo_vdma_program_descriptors_list_batch (vc_hw (w_controller w)) dl
                               (dp_starting_desc info) (sgt_dma (vb_sg_table b)) (ucast (dp_buffer_offset info))
                               (ucast (dp_buffer_size info)) (dp_batch_size info) (dp_should_bind info) (dp_channel_index info)
                               (dp_last_interrupts_domain info) (dp_is_debug info) (dp_stride info)
                         in (r, w\<lparr>w_lists := (w_lists w)(p \<mapsto> dl')\<rparr>)))
          | (Fault f, _) \<Rightarrow> (Fault f, w)
          | (_, Fault f) \<Rightarrow> (Fault f, w)
          | _ \<Rightarrow> (Err EFAULT, w)))"

section \<open>Low memory and continuous buffers\<close>

record hailo_allocate_low_memory_buffer_params =
  la_buffer_size :: u64
  la_buffer_handle :: u64

definition hailo_vdma_low_memory_buffer_alloc_ioctl ::
    "kernel \<Rightarrow> hailo_allocate_low_memory_buffer_params option \<Rightarrow> bool \<Rightarrow> hailo_vdma_file_context \<Rightarrow> ('d, 'x) vdma_world_scheme \<Rightarrow>
     hailo_allocate_low_memory_buffer_params result \<times> hailo_vdma_file_context \<times> ('d, 'x) vdma_world_scheme" where
  "hailo_vdma_low_memory_buffer_alloc_ioctl K arg out_ok context w = (case arg of
       None \<Rightarrow> (Err EFAULT, context, w)
     | Some buf_info \<Rightarrow>
         let mem = k_kzalloc K (w_calls w);
             cs1 = Kzalloc mem # w_calls w
         in case mem of
              None \<Rightarrow> (Err ENOMEM, context, w\<lparr>w_calls := cs1\<rparr>)
            | Some p \<Rightarrow>
                (case hailo_vdma_low_memory_buffer_alloc K (la_buffer_size buf_info) cs1 of
                   (Err e, cs2) \<Rightarrow> (Err e, context, w\<lparr>w_calls := Kfree p # cs2\<rparr>)
                 | (Fault f, cs2) \<Rightarrow> (Fault f, context, w\<lparr>w_calls := cs2\<rparr>)
                 | (Ok buffer0, cs2) \<Rightarrow>
                     let (handle, context1) = hailo_get_next_vdma_handle context;
                         buffer = buffer0\<lparr>lm_handle := handle\<rparr>
                     in if \<not> out_ok
                        then (Err EFAULT, context1, w\<lparr>w_calls := Kfree p # hailo_vdma_low_memory_buffer_free buffer cs2\<rparr>)
                        else (Ok (buf_info\<lparr>la_buffer_handle := handle\<rparr>),
                              context1\<lparr>fc_vdma_low_memory_buffer_list := p # fc_vdma_low_memory_buffer_list context1\<rparr>,
                              w\<lparr>w_low_buffers := (w_low_buffers w)(p \<mapsto> buffer), w_calls := cs2\<rparr>)))"

definition hailo_vdma_low_memory_buffer_free_ioctl ::
    "u64 option \<Rightarrow> hailo_vdma_file_context \<Rightarrow> ('d, 'x) vdma_world_scheme \<Rightarrow> unit result \<times> hailo_vdma_file_context \<times> ('d, 'x) vdma_world_scheme" where
  "hailo_vdma_low_memory_buffer_free_ioctl arg context w = (case arg of
       None \<Rightarrow> (Err EFAULT, context, w)
     | Some buffer_handle \<Rightarrow>
         (case hailo_vdma_find_low_memory_buffer (fc_vdma_low_memory_buffer_list context) (w_low_buffers w) buffer_handle of
            Fault f \<Rightarrow> (Fault f, context, w)
          | Err e \<Rightarrow> (Err e, context, w)
          | Ok None \<Rightarrow> (Err EINVAL, context, w)
          | Ok (Some (p, buffer)) \<Rightarrow>
              (Ok (), context\<lparr>fc_vdma_low_memory_buffer_list := remove1 p (fc_vdma_low_memory_buffer_list context)\<rparr>,
               w\<lparr>w_low_buffers := (w_low_buffers w)(p := None),
                 w_calls := Kfree p # hailo_vdma_low_memory_buffer_free buffer (w_calls w)\<rparr>)))"

record hailo_allocate_continuous_buffer_params =
  ca_buffer_size :: u64
  ca_buffer_handle :: u64
  ca_dma_address :: u64

definition hailo_vdma_continuous_buffer_alloc_ioctl ::
    "kernel \<Rightarrow> hailo_allocate_continuous_buffer_params option \<Rightarrow> bool \<Rightarrow> hailo_vdma_file_context \<Rightarrow> ('d, 'x) vdma_world_scheme \<Rightarrow>
     hailo_allocate_continuous_buffer_params result \<times> hailo_vdma_file_context \<times> ('d, 'x) vdma_world_scheme" where
  "hailo_vdma_continuous_buffer_alloc_ioctl K arg out_ok context w = (case arg of
       None \<Rightarrow> (Err EFAULT, context, w)
     | Some buf_info \<Rightarrow>
         let mem = k_kzalloc K (w_calls w);
             cs1 = Kzalloc mem # w_calls w
         in case mem of
              None \<Rightarrow> (Err ENOMEM, context, w\<lparr>w_calls := cs1\<rparr>)
            | Some p \<Rightarrow>
                (case hailo_vdma_continuous_buffer_alloc K (PAGE_ALIGN (ca_buffer_size buf_info)) cs1 of
                   (Err e, cs2) \<Rightarrow> (Err e, context, w\<lparr>w_calls := Kfree p # cs2\<rparr>)
                 | (Fault f, cs2) \<Rightarrow> (Fault f, context, w\<lparr>w_calls := cs2\<rparr>)
                 | (Ok buffer0, cs2) \<Rightarrow>
                     let (handle, context1) = hailo_get_next_vdma_handle context;
                         buffer = buffer0\<lparr>cb_handle := handle\<rparr>
                     in if \<not> out_ok
                        then (Err EFAULT, context1, w\<lparr>w_calls := Kfree p # hailo_vdma_continuous_buffer_free buffer cs2\<rparr>)
                        else (Ok (buf_info\<lparr>ca_buffer_handle := handle, ca_dma_address := cb_dma_address buffer\<rparr>),
                              context1\<lparr>fc_continuous_buffer_list := p # fc_continuous_buffer_list context1\<rparr>,
                              w\<lparr>w_cont_buffers := (w_cont_buffers w)(p \<mapsto> buffer), w_calls := cs2\<rparr>)))"

definition hailo_vdma_continuous_buffer_free_ioctl ::
    "u64 option \<Rightarrow> hailo_vdma_file_context \<Rightarrow> ('d, 'x) vdma_world_scheme \<Rightarrow> unit result \<times> hailo_vdma_file_context \<times> ('d, 'x) vdma_world_scheme" where
  "hailo_vdma_continuous_buffer_free_ioctl arg context w = (case arg of
       None \<Rightarrow> (Err EFAULT, context, w)
     | Some buffer_handle \<Rightarrow>
         (case hailo_vdma_find_continuous_buffer (fc_continuous_buffer_list context) (w_cont_buffers w) buffer_handle of
            Fault f \<Rightarrow> (Fault f, context, w)
          | Err e \<Rightarrow> (Err e, context, w)
          | Ok None \<Rightarrow> (Err EINVAL, context, w)
          | Ok (Some (p, buffer)) \<Rightarrow>
              (Ok (), context\<lparr>fc_continuous_buffer_list := remove1 p (fc_continuous_buffer_list context)\<rparr>,
               w\<lparr>w_cont_buffers := (w_cont_buffers w)(p := None),
                 w_calls := Kfree p # hailo_vdma_continuous_buffer_free buffer (w_calls w)\<rparr>)))"

section \<open>Ownership of the device\<close>

definition hailo_mark_as_in_use :: "ptr \<Rightarrow> bool \<Rightarrow> ('d, 'x) vdma_world_scheme \<Rightarrow> bool result \<times> ('d, 'x) vdma_world_scheme" where
  "hailo_mark_as_in_use filp out_ok w =
     (let (in_use, w1) =
        (if vc_used_by_filp (w_controller w) = Some filp then (False, w)
         else if vc_used_by_filp (w_controller w) \<noteq> None then (True, w)
         else (False, w\<lparr>w_controller := (w_controller w)\<lparr>vc_used_by_filp := Some filp\<rparr>\<rparr>))
      in (if out_ok then Ok in_use else Err EFAULT, w1))"

section \<open>Launching a transfer\<close>

record hailo_vdma_transfer_buffer =
  xb_buffer_type :: hailo_dma_buffer_type
  xb_addr_or_fd :: u64
  xb_size :: u32

record hailo_vdma_launch_transfer_params =
  lt_engine_index :: u8
  lt_channel_index :: u8
  lt_desc_handle :: u64
  lt_starting_desc :: u32
  lt_should_bind :: bool
  lt_buffers_count :: u8
  lt_buffers :: "hailo_vdma_transfer_buffer list"
  lt_first_interrupts_domain :: interrupts_domain
  lt_last_interrupts_domain :: interrupts_domain
  lt_is_debug :: bool

text \<open>One iteration of the loop over the buffers: the mapped buffer behind it, handed to the device if it is user memory.\<close>

definition launch_find_buffer ::
    "kernel \<Rightarrow> nat list \<Rightarrow> hailo_vdma_buffer heap \<Rightarrow> dma_data_direction \<Rightarrow> hailo_vdma_transfer_buffer \<Rightarrow> calls \<Rightarrow>
     hailo_vdma_mapped_transfer_buffer result \<times> calls" where
  "launch_find_buffer K ps bufs direction xb cs =
     (let result = (\<lambda>p b off. \<lparr> tb_sg_table = sgt_dma (vb_sg_table b), tb_size = xb_size xb, tb_offset = off, tb_opaque = p \<rparr>)
      in if xb_buffer_type xb = HAILO_DMA_USER_PTR_BUFFER
      then (case hailo_vdma_find_mapped_buffer_by_address ps bufs (xb_addr_or_fd xb) (ucast (xb_size xb)) direction of
              Fault f \<Rightarrow> (Fault f, cs)
            | Err e \<Rightarrow> (Err e, cs)
            | Ok None \<Rightarrow> (Err EFAULT, cs)
            | Ok (Some (p, b)) \<Rightarrow>
                let off = ucast (xb_addr_or_fd xb - vb_addr_or_fd b) :: u32
                in (Ok (result p b off), hailo_vdma_buffer_sync K b HAILO_SYNC_FOR_DEVICE (ucast off) (ucast (xb_size xb)) cs))
      else if xb_buffer_type xb = HAILO_DMA_DMABUF_BUFFER
      then (case hailo_vdma_find_mapped_buffer_by_fd ps bufs (xb_addr_or_fd xb) (ucast (xb_size xb)) direction of
              Fault f \<Rightarrow> (Fault f, cs)
            | Err e \<Rightarrow> (Err e, cs)
            | Ok None \<Rightarrow> (Err EFAULT, cs)
            | Ok (Some (p, b)) \<Rightarrow> (Ok (result p b 0), cs))
      else (Err EFAULT, cs))"

fun launch_find_buffers ::
    "kernel \<Rightarrow> nat list \<Rightarrow> hailo_vdma_buffer heap \<Rightarrow> dma_data_direction \<Rightarrow> hailo_vdma_transfer_buffer list \<Rightarrow> calls \<Rightarrow>
     hailo_vdma_mapped_transfer_buffer list result \<times> calls" where
  "launch_find_buffers K ps bufs direction [] cs = (Ok [], cs)"
| "launch_find_buffers K ps bufs direction (xb # xbs) cs =
     (case launch_find_buffer K ps bufs direction xb cs of
        (Err e, cs1) \<Rightarrow> (Err e, cs1)
      | (Fault f, cs1) \<Rightarrow> (Fault f, cs1)
      | (Ok tb, cs1) \<Rightarrow>
          (case launch_find_buffers K ps bufs direction xbs cs1 of
             (Ok tbs, cs2) \<Rightarrow> (Ok (tb # tbs), cs2)
           | (Err e, cs2) \<Rightarrow> (Err e, cs2)
           | (Fault f, cs2) \<Rightarrow> (Fault f, cs2)))"

text \<open>The local array \<open>mapped_transfer_buffers\<close> has one entry per entry of \<open>params.buffers\<close>, the unused ones zero.\<close>

definition hailo_vdma_launch_transfer_ioctl ::
    "'d mmio \<Rightarrow> kernel \<Rightarrow> hailo_vdma_launch_transfer_params option \<Rightarrow> hailo_vdma_file_context \<Rightarrow> ('d, 'x) vdma_world_scheme \<Rightarrow>
     u32 result \<times> ('d, 'x) vdma_world_scheme" where
  "hailo_vdma_launch_transfer_ioctl io K arg context w = (case arg of
       None \<Rightarrow> (Err EFAULT, w)
     | Some params \<Rightarrow>
         let hw = vc_hw (w_controller w);
             direction = (if hailo_test_bit (lt_channel_index params) (src_channels_bitmask hw) then DMA_TO_DEVICE else DMA_FROM_DEVICE);
             ei = unat (lt_engine_index params); ci = unat (lt_channel_index params); n = unat (lt_buffers_count params)
         in if length (engines w) \<le> ei then (Err EINVAL, w)
         else if length (en_channels (engines w ! ei)) \<le> ci then (Err EINVAL, w)
         else if length (lt_buffers params) < n then (Err EINVAL, w)
         else (case hailo_vdma_find_descriptors_buffer (fc_descriptors_buffer_list context) (w_desc_buffers w) (lt_desc_handle params) of
             Fault f \<Rightarrow> (Fault f, w)
           | Err e \<Rightarrow> (Err e, w)
           | Ok None \<Rightarrow> (Err EFAULT, w)
           | Ok (Some (p, _)) \<Rightarrow>
          (case launch_find_buffers K (fc_mapped_user_buffer_list context) (w_buffers w) direction
                  (take n (lt_buffers params)) (w_calls w) of
             (Err e, cs) \<Rightarrow> (Err e, w\<lparr>w_calls := cs\<rparr>)
           | (Fault f, cs) \<Rightarrow> (Fault f, w\<lparr>w_calls := cs\<rparr>)
           | (Ok tbs, cs) \<Rightarrow>
          (case w_lists w p of
             None \<Rightarrow> (Fault Use_after_free, w\<lparr>w_calls := cs\<rparr>)
           | Some dl \<Rightarrow>
               (let engine = engines w ! ei;
                    (r, channel, dl', d) = hailo_vdma_launch_transfer io hw (en_channels engine ! ci) p dl (lt_starting_desc params)
                      (lt_buffers_count params) (tbs @ replicate (length (lt_buffers params) - n) null_buffer)
                      (lt_should_bind params) (lt_first_interrupts_domain params) (lt_last_interrupts_domain params)
                      (lt_is_debug params) (w_device w)
                in (r, (set_engine ei (engine\<lparr>en_channels := (en_channels engine)[ci := channel]\<rparr>) w)
                         \<lparr>w_lists := (w_lists w)(p \<mapsto> dl'), w_device := d, w_calls := cs\<rparr>))))))"

section \<open>The dispatcher\<close>

datatype vdma_request =
    HAILO_VDMA_ENABLE_CHANNELS "hailo_vdma_enable_channels_params option"
  | HAILO_VDMA_DISABLE_CHANNELS "u32 list option"
  | HAILO_VDMA_INTERRUPTS_WAIT "hailo_vdma_interrupts_wait_params option"
  | HAILO_VDMA_INTERRUPTS_READ_TIMESTAMPS "hailo_vdma_interrupts_read_timestamp_params option"
  | HAILO_VDMA_BUFFER_MAP "hailo_vdma_buffer_map_params option"
  | HAILO_VDMA_BUFFER_UNMAP "u64 option"
  | HAILO_VDMA_BUFFER_SYNC "hailo_vdma_buffer_sync_params option"
  | HAILO_DESC_LIST_CREATE "hailo_desc_list_create_params option"
  | HAILO_DESC_LIST_RELEASE "u64 option"
  | HAILO_DESC_LIST_PROGRAM "hailo_desc_list_program_params option"
  | HAILO_VDMA_LOW_MEMORY_BUFFER_ALLOC "hailo_allocate_low_memory_buffer_params option"
  | HAILO_VDMA_LOW_MEMORY_BUFFER_FREE "u64 option"
  | HAILO_MARK_AS_IN_USE
  | HAILO_VDMA_CONTINUOUS_BUFFER_ALLOC "hailo_allocate_continuous_buffer_params option"
  | HAILO_VDMA_CONTINUOUS_BUFFER_FREE "u64 option"
  | HAILO_VDMA_LAUNCH_TRANSFER "hailo_vdma_launch_transfer_params option"
  | HAILO_VDMA_OTHER nat

datatype vdma_reply =
    Done | Value u32 | In_use bool
  | Interrupts hailo_vdma_interrupts_wait_params | Timestamps hailo_vdma_interrupts_read_timestamp_params
  | Mapped hailo_vdma_buffer_map_params | Created hailo_desc_list_create_params
  | Low_memory hailo_allocate_low_memory_buffer_params | Continuous hailo_allocate_continuous_buffer_params

text \<open>Results of the handlers as replies, with the state they leave.\<close>

fun map_r :: "('a \<Rightarrow> 'b) \<Rightarrow> 'a result \<Rightarrow> 'b result" where
  "map_r f (Ok x) = Ok (f x)"
| "map_r f (Err e) = Err e"
| "map_r f (Fault x) = Fault x"

definition reply_cw :: "('a \<Rightarrow> vdma_reply) \<Rightarrow> 'a result \<times> hailo_vdma_file_context \<times> ('d, 'x) vdma_world_scheme \<Rightarrow>
    vdma_reply result \<times> hailo_vdma_file_context \<times> ('d, 'x) vdma_world_scheme \<times> bool" where
  "reply_cw f r = (case r of (x, context, w) \<Rightarrow> (map_r f x, context, w, True))"

definition reply_w :: "('a \<Rightarrow> vdma_reply) \<Rightarrow> hailo_vdma_file_context \<Rightarrow> 'a result \<times> ('d, 'x) vdma_world_scheme \<Rightarrow>
    vdma_reply result \<times> hailo_vdma_file_context \<times> ('d, 'x) vdma_world_scheme \<times> bool" where
  "reply_w f context r = (case r of (x, w) \<Rightarrow> (map_r f x, context, w, True))"

definition reply_state :: "hailo_vdma_file_context \<Rightarrow> ('d, 'x) vdma_world_scheme \<Rightarrow> (hailo_vdma_file_context \<times> ('d, 'x) vdma_world_scheme) result \<Rightarrow>
    vdma_reply result \<times> hailo_vdma_file_context \<times> ('d, 'x) vdma_world_scheme \<times> bool" where
  "reply_state context w r = (case r of
       Ok (context1, w1) \<Rightarrow> (Ok Done, context1, w1, True)
     | Err e \<Rightarrow> (Err e, context, w, True)
     | Fault f \<Rightarrow> (Fault f, context, w, True))"

fun hailo_vdma_ioctl ::
    "'d mmio \<Rightarrow> kernel \<Rightarrow> ptr \<Rightarrow> bool \<Rightarrow> (('d, 'x) vdma_world_scheme \<Rightarrow> unit result \<times> ('d, 'x) vdma_world_scheme) \<Rightarrow> bool \<Rightarrow> vdma_request \<Rightarrow>
     hailo_vdma_file_context \<Rightarrow> ('d, 'x) vdma_world_scheme \<Rightarrow> vdma_reply result \<times> hailo_vdma_file_context \<times> ('d, 'x) vdma_world_scheme \<times> bool" where
  "hailo_vdma_ioctl io K filp out_ok wait down_ok (HAILO_VDMA_ENABLE_CHANNELS a) context w =
     reply_state context w (hailo_vdma_enable_channels_ioctl a context w)"
| "hailo_vdma_ioctl io K filp out_ok wait down_ok (HAILO_VDMA_DISABLE_CHANNELS a) context w =
     reply_state context w (hailo_vdma_disable_channels_ioctl a context w)"
| "hailo_vdma_ioctl io K filp out_ok wait down_ok (HAILO_VDMA_INTERRUPTS_WAIT a) context w =
     (case hailo_vdma_interrupts_wait_ioctl io K a wait down_ok out_ok w of
        (r, w1, should_up) \<Rightarrow> (map_r Interrupts r, context, w1, should_up))"
| "hailo_vdma_ioctl io K filp out_ok wait down_ok (HAILO_VDMA_INTERRUPTS_READ_TIMESTAMPS a) context w =
     reply_w Timestamps context (hailo_vdma_interrupts_read_timestamps_ioctl a out_ok w)"
| "hailo_vdma_ioctl io K filp out_ok wait down_ok (HAILO_VDMA_BUFFER_MAP a) context w =
     reply_cw Mapped (hailo_vdma_buffer_map_ioctl K a out_ok context w)"
| "hailo_vdma_ioctl io K filp out_ok wait down_ok (HAILO_VDMA_BUFFER_UNMAP a) context w =
     reply_cw (\<lambda>_. Done) (hailo_vdma_buffer_unmap_ioctl K a context w)"
| "hailo_vdma_ioctl io K filp out_ok wait down_ok (HAILO_VDMA_BUFFER_SYNC a) context w =
     reply_w (\<lambda>_. Done) context (hailo_vdma_buffer_sync_ioctl K a context w)"
| "hailo_vdma_ioctl io K filp out_ok wait down_ok (HAILO_DESC_LIST_CREATE a) context w =
     reply_cw Created (hailo_desc_list_create_ioctl K a out_ok context w)"
| "hailo_vdma_ioctl io K filp out_ok wait down_ok (HAILO_DESC_LIST_RELEASE a) context w =
     reply_cw (\<lambda>_. Done) (hailo_desc_list_release_ioctl a context w)"
| "hailo_vdma_ioctl io K filp out_ok wait down_ok (HAILO_DESC_LIST_PROGRAM a) context w =
     reply_w Value context (hailo_desc_list_program_ioctl a context w)"
| "hailo_vdma_ioctl io K filp out_ok wait down_ok (HAILO_VDMA_LOW_MEMORY_BUFFER_ALLOC a) context w =
     reply_cw Low_memory (hailo_vdma_low_memory_buffer_alloc_ioctl K a out_ok context w)"
| "hailo_vdma_ioctl io K filp out_ok wait down_ok (HAILO_VDMA_LOW_MEMORY_BUFFER_FREE a) context w =
     reply_cw (\<lambda>_. Done) (hailo_vdma_low_memory_buffer_free_ioctl a context w)"
| "hailo_vdma_ioctl io K filp out_ok wait down_ok HAILO_MARK_AS_IN_USE context w =
     reply_w In_use context (hailo_mark_as_in_use filp out_ok w)"
| "hailo_vdma_ioctl io K filp out_ok wait down_ok (HAILO_VDMA_CONTINUOUS_BUFFER_ALLOC a) context w =
     reply_cw Continuous (hailo_vdma_continuous_buffer_alloc_ioctl K a out_ok context w)"
| "hailo_vdma_ioctl io K filp out_ok wait down_ok (HAILO_VDMA_CONTINUOUS_BUFFER_FREE a) context w =
     reply_cw (\<lambda>_. Done) (hailo_vdma_continuous_buffer_free_ioctl a context w)"
| "hailo_vdma_ioctl io K filp out_ok wait down_ok (HAILO_VDMA_LAUNCH_TRANSFER a) context w =
     reply_w Value context (hailo_vdma_launch_transfer_ioctl io K a context w)"
| "hailo_vdma_ioctl io K filp out_ok wait down_ok (HAILO_VDMA_OTHER n) context w = (Err ENOTTY, context, w, True)"

end
