(* ===== verification/Vdma_Ownership.thy ===== *)
theory Vdma_Ownership
  imports Vdma_Ioctl
begin

text \<open>
  Who owns what. Every structure in a list of a file stands for resources of the kernel: the structure itself and what it
  holds. The theory gives, for each operation of \<open>memory.c\<close>, the resources it acquires and releases on every path.
\<close>

section \<open>Resources of the structures\<close>

fun page_refs :: "page list \<Rightarrow> resource multiset" where
  "page_refs ps = image_mset Page_ref (mset ps)"

definition buffer_resources :: "hailo_vdma_buffer \<Rightarrow> resource multiset" where
  "buffer_resources b = (case di_dmabuf (vb_dmabuf_info b) of
       Some buf \<Rightarrow> {#Dma_buf buf, Attachment buf (di_dmabuf_attachment (vb_dmabuf_info b)),
         Attachment_map (di_dmabuf_attachment (vb_dmabuf_info b)) (di_dmabuf_sg_table (vb_dmabuf_info b)) (vb_data_direction b)#}
     | None \<Rightarrow> {#Sg_of (sgt_pages (vb_sg_table b))#} + page_refs (sgt_pages (vb_sg_table b)) +
         (if vb_is_mmio b then {#} else {#Mapping (sgt_pages (vb_sg_table b)) (vb_data_direction b)#}))"

definition desc_resources :: "hailo_descriptors_list_buffer \<Rightarrow> resource multiset" where
  "desc_resources b = {#Coherent (ucast (db_buffer_size b)) (db_kernel_address b) (db_dma_address b)#}"

definition low_resources :: "hailo_vdma_low_memory_buffer \<Rightarrow> resource multiset" where
  "low_resources b = add_mset (Array (lm_pages_array b)) (image_mset Low_page (mset (lm_pages_address b)))"

definition cont_resources :: "hailo_vdma_continuous_buffer \<Rightarrow> resource multiset" where
  "cont_resources b = {#Coherent (cb_size b) (cb_kernel_address b) (cb_dma_address b)#}"

section \<open>Histories\<close>

lemma moves_put_pages:
  "moves K cs0 a (page_refs ps + r) cs \<Longrightarrow> moves K cs0 a r (put_pages K ps cs)"
proof (induction ps arbitrary: cs)
  case (Cons p ps)
  have "moves K cs0 a (page_refs (p # ps) + r) (if \<not> k_page_reserved K p then Set_page_dirty p # cs else cs)"
    using Cons.prems by (auto intro: moves_quiet)
  then show ?case unfolding put_pages.simps
    by (intro Cons.IH) (rule moves_release, auto)
qed simp

lemma moves_clear_sg_table:
  assumes "moves K cs0 a (add_mset (Sg_of (sgt_pages t)) (page_refs (sgt_pages t) + r)) cs"
  shows "moves K cs0 a r (clear_sg_table K t cs)"
  unfolding clear_sg_table_def
  by (rule moves_release [where y = "add_mset (Sg_of (sgt_pages t)) r"], rule moves_put_pages) (use assms in simp_all)

lemma moves_get_pages:
  "moves K cs0 a r cs \<Longrightarrow> moves K cs0 a (page_refs ps + r) (rev (map Get_page ps) @ cs)"
proof (induction ps rule: rev_induct)
  case (snoc p ps)
  then show ?case by (auto intro!: moves_acquire)
qed simp

lemma moves_free_pages:
  "moves K cs0 a (image_mset Low_page (mset ps) + r) cs \<Longrightarrow> moves K cs0 a r (map Free_page ps @ cs)"
proof (induction ps arbitrary: r)
  case (Cons p ps)
  then have "moves K cs0 a (add_mset (Low_page p) r) (map Free_page ps @ cs)" by simp
  then show ?case by (auto intro: moves_release)
qed simp

section \<open>Descriptor lists, low memory and continuous buffers\<close>

lemma desc_list_release_moves: "moves K cs (desc_resources b) {#} (hailo_desc_list_release b cs)"
  unfolding hailo_desc_list_release_def by (rule moves_release) (auto simp: desc_resources_def)

lemma low_memory_free_moves: "moves K cs (low_resources b) {#} (hailo_vdma_low_memory_buffer_free b cs)"
proof -
  have "moves K cs (low_resources b) {#Array (lm_pages_array b)#} (map Free_page (rev (lm_pages_address b)) @ cs)"
    by (rule moves_free_pages) (simp add: low_resources_def moves_refl)
  then show ?thesis unfolding hailo_vdma_low_memory_buffer_free_def rev_map [symmetric]
    by (rule moves_release) simp_all
qed

lemma continuous_free_moves: "moves K cs (cont_resources b) {#} (hailo_vdma_continuous_buffer_free b cs)"
  unfolding hailo_vdma_continuous_buffer_free_def by (rule moves_release) (auto simp: cont_resources_def)

text \<open>The coherent allocator does not serve requests of 4 GiB or more: the size of a list's buffer is kept in 32 bits.\<close>

definition coherent_below_4G :: "kernel \<Rightarrow> bool" where
  "coherent_below_4G K \<longleftrightarrow> (\<forall>cs n m. k_dma_alloc_coherent K cs n = Some m \<longrightarrow> unat n < 2 ^ 32)"

lemma desc_list_create_moves:
  assumes K: "coherent_below_4G K" and r: "hailo_desc_list_create K n page h circ cs = (r, cs')"
  shows "case r of Ok (b, dl) \<Rightarrow> moves K cs {#} (desc_resources b) cs' \<and> db_handle b = h
         | Err _ \<Rightarrow> moves K cs {#} {#} cs' | Fault _ \<Rightarrow> False"
proof (cases "MAX_POWER_OF_2_VALUE < n")
  case True
  then show ?thesis using r by (auto simp: hailo_desc_list_create_def moves_refl)
next
  case False
  define siz where "siz = ALIGN (ucast n * SIZE_OF_VDMA_DESCRIPTOR) VDMA_DESCRIPTOR_LIST_ALIGN"
  show ?thesis
  proof (cases "k_dma_alloc_coherent K cs siz")
    case None
    then show ?thesis using r False unfolding hailo_desc_list_create_def siz_def [symmetric]
      by (auto simp: Let_def intro!: moves_first)
  next
    case (Some m)
    then have "unat siz < 2 ^ 32" using K unfolding coherent_below_4G_def by blast
    then have "ucast (ucast siz :: u32) = siz" by (simp add: word_unat_eq_iff unat_ucast_small unat_ucast_up)
    then show ?thesis using r False Some unfolding hailo_desc_list_create_def siz_def [symmetric]
      by (auto simp: Let_def desc_resources_def split: prod.splits intro!: moves_first)
  qed
qed

lemma continuous_alloc_moves:
  assumes "hailo_vdma_continuous_buffer_alloc K n cs = (r, cs')"
  shows "case r of Ok b \<Rightarrow> moves K cs {#} (cont_resources b) cs' | Err _ \<Rightarrow> moves K cs {#} {#} cs' | Fault _ \<Rightarrow> False"
  using assms by (cases "k_dma_alloc_coherent K cs n")
    (auto simp: hailo_vdma_continuous_buffer_alloc_def cont_resources_def Let_def split: prod.splits intro!: moves_first)

lemma alloc_low_pages_moves:
  assumes "alloc_low_pages K n arr acc cs = (r, cs')"
    "moves K cs0 {#} (add_mset (Array arr) (image_mset Low_page (mset acc))) cs"
  shows "case r of Ok ps \<Rightarrow> moves K cs0 {#} (add_mset (Array arr) (image_mset Low_page (mset ps))) cs' \<and> length ps = n + length acc
         | Err _ \<Rightarrow> moves K cs0 {#} {#} cs' | Fault _ \<Rightarrow> False"
  using assms
proof (induction n arbitrary: acc cs)
  case (Suc n)
  show ?case
  proof (cases "k_get_free_page K cs")
    case None
    have "moves K cs0 {#} (image_mset Low_page (mset acc) + {#Array arr#}) (Get_free_page None # cs)"
      using Suc.prems(2) by (auto intro: moves_quiet)
    then have "moves K cs0 {#} {#Array arr#} (map Free_page acc @ Get_free_page None # cs)" by (rule moves_free_pages)
    then have "moves K cs0 {#} {#} (Free_array arr # map Free_page acc @ Get_free_page None # cs)"
      by (rule moves_release) simp_all
    then show ?thesis using None Suc.prems(1) by auto
  next
    case (Some p)
    have "moves K cs0 {#} (add_mset (Array arr) (image_mset Low_page (mset (p # acc)))) (Get_free_page (Some p) # cs)"
      using Suc.prems(2) by (rule moves_acquire) simp_all
    from Suc.IH [OF _ this] show ?thesis using Some Suc.prems(1) by (auto split: result.splits)
  qed
qed auto

lemma low_memory_alloc_moves:
  assumes "hailo_vdma_low_memory_buffer_alloc K n cs = (r, cs')"
  shows "case r of Ok b \<Rightarrow> moves K cs {#} (low_resources b) cs' \<and> length (lm_pages_address b) = unat (lm_pages_count b)
         | Err _ \<Rightarrow> moves K cs {#} {#} cs' | Fault _ \<Rightarrow> False"
proof (cases "k_alloc_array K cs")
  case None
  then show ?thesis using assms by (auto simp: hailo_vdma_low_memory_buffer_alloc_def intro!: moves_first)
next
  case (Some arr)
  define cs1 where "cs1 = Alloc_array (Some arr) # cs"
  have m: "moves K cs {#} (add_mset (Array arr) (image_mset Low_page (mset []))) cs1"
    unfolding cs1_def by (rule moves_acquire [OF moves_refl]) simp_all
  obtain r1 cs2 where a: "alloc_low_pages K (unat (pages_of_size n)) arr [] cs1 = (r1, cs2)" by fastforce
  show ?thesis using assms alloc_low_pages_moves [OF a m] Some a unfolding hailo_vdma_low_memory_buffer_alloc_def
    by (auto simp: low_resources_def cs1_def split: result.splits)
qed

section \<open>Mapped buffers\<close>

lemma moves_then: "moves K cs0 a b cs1 \<Longrightarrow> moves K cs1 {#} x cs2 \<Longrightarrow> moves K cs0 a (x + b) cs2"
  using moves_trans [OF _ moves_frame [of K cs1 "{#}" x cs2 b]] by simp

lemma map_dmabuf_moves:
  assumes "hailo_map_dmabuf K fd dir cs = (r, cs')"
  shows "case r of
      Ok (t, info) \<Rightarrow> \<exists>buf. di_dmabuf info = Some buf \<and>
        moves K cs {#} {#Dma_buf buf, Attachment buf (di_dmabuf_attachment info),
          Attachment_map (di_dmabuf_attachment info) (di_dmabuf_sg_table info) dir#} cs'
    | Err _ \<Rightarrow> moves K cs {#} {#} cs' | Fault _ \<Rightarrow> False"
proof (cases "k_dma_buf_get K cs fd")
  case None
  then show ?thesis using assms by (auto simp: hailo_map_dmabuf_def intro!: moves_first)
next
  case (Some buf)
  define cs1 where "cs1 = Dma_buf_get fd (Some buf) # cs"
  have m1: "moves K cs {#} {#Dma_buf buf#} cs1" unfolding cs1_def by (rule moves_first) simp_all
  show ?thesis
  proof (cases "k_dma_buf_attach K cs1 buf")
    case None
    have "moves K cs {#} {#Dma_buf buf#} (Dma_buf_attach buf None # cs1)" using m1 by (rule moves_quiet) simp_all
    then have "moves K cs {#} {#} (Dma_buf_put buf # Dma_buf_attach buf None # cs1)" by (rule moves_release) simp_all
    then show ?thesis using assms Some None by (auto simp: hailo_map_dmabuf_def cs1_def)
  next
    case att: (Some a)
    define cs2 where "cs2 = Dma_buf_attach buf (Some a) # cs1"
    have m2: "moves K cs {#} {#Attachment buf a, Dma_buf buf#} cs2"
      unfolding cs2_def using m1 by (rule moves_acquire) simp_all
    show ?thesis
    proof (cases "k_dma_buf_map_attachment K cs2 a dir")
      case None
      define cs3 where "cs3 = Dma_buf_map_attachment a dir None # cs2"
      have "moves K cs {#} {#Attachment buf a, Dma_buf buf#} cs3" unfolding cs3_def using m2 by (rule moves_quiet) simp_all
      then have "moves K cs {#} {#Dma_buf buf#} (Dma_buf_detach buf a # cs3)" by (rule moves_release) simp_all
      then have "moves K cs {#} {#} (Dma_buf_put buf # Dma_buf_detach buf a # cs3)" by (rule moves_release) simp_all
      then show ?thesis using assms Some att None by (auto simp: hailo_map_dmabuf_def cs1_def cs2_def cs3_def)
    next
      case res: (Some ts)
      have "moves K cs {#} {#Attachment_map a (fst ts) dir, Attachment buf a, Dma_buf buf#} (Dma_buf_map_attachment a dir (Some ts) # cs2)"
        using m2 by (rule moves_acquire) (cases ts, simp_all)+
      then show ?thesis using assms Some att res
        by (cases ts) (auto simp: hailo_map_dmabuf_def Let_def cs1_def cs2_def add_mset_commute)
    qed
  qed
qed

lemma unmap_dmabuf_moves:
  assumes "di_dmabuf (vb_dmabuf_info b) = Some buf"
  shows "moves K cs (buffer_resources b) {#} (hailo_unmap_dmabuf b buf cs)"
  unfolding hailo_unmap_dmabuf_def Let_def
  by (rule moves_release [where y = "{#Dma_buf buf#}"],
      rule moves_release [where y = "{#Dma_buf buf, Attachment buf (di_dmabuf_attachment (vb_dmabuf_info b))#}"],
      rule moves_release [where y = "buffer_resources b"])
    (use assms in \<open>auto simp: buffer_resources_def\<close>)

text \<open>Unmapping a buffer releases exactly its resources and its structure.\<close>

lemma unmap_buffer_moves: "moves K cs (add_mset (Struct p) (buffer_resources b)) {#} (unmap_buffer K p b cs)"
proof (cases "di_dmabuf (vb_dmabuf_info b)")
  case (Some buf)
  have "moves K cs (buffer_resources b + {#Struct p#}) ({#} + {#Struct p#}) (hailo_unmap_dmabuf b buf cs)"
    by (rule moves_frame [OF unmap_dmabuf_moves [OF Some]])
  then have "moves K cs (add_mset (Struct p) (buffer_resources b)) {#Struct p#} (hailo_unmap_dmabuf b buf cs)" by simp
  then show ?thesis using Some by (auto simp: unmap_buffer_def intro: moves_release)
next
  case None
  let ?ps = "sgt_pages (vb_sg_table b)"
  define cs1 where "cs1 = (if \<not> vb_is_mmio b then Dma_unmap_sg ?ps (vb_data_direction b) # cs else cs)"
  have "moves K cs (add_mset (Struct p) (buffer_resources b)) (add_mset (Sg_of ?ps) (page_refs ?ps + {#Struct p#})) cs1"
  proof (cases "vb_is_mmio b")
    case True then show ?thesis using None by (auto simp: cs1_def buffer_resources_def add_mset_commute)
  next
    case False
    have "moves K cs (add_mset (Struct p) (buffer_resources b)) (add_mset (Sg_of ?ps) (page_refs ?ps + {#Struct p#}))
        (Dma_unmap_sg ?ps (vb_data_direction b) # cs)"
      by (rule moves_release [OF moves_refl]) (use None False in \<open>auto simp: buffer_resources_def add_mset_commute\<close>)
    then show ?thesis using False by (simp add: cs1_def)
  qed
  then have "moves K cs (add_mset (Struct p) (buffer_resources b)) {#Struct p#} (clear_sg_table K (vb_sg_table b) cs1)"
    by (rule moves_clear_sg_table)
  then show ?thesis using None by (auto simp: unmap_buffer_def cs1_def intro: moves_release)
qed

lemma create_fd_moves:
  assumes "create_fd_from_vma K vma cs = (r, cs')"
  shows "case r of Ok fd \<Rightarrow> moves K cs {#} {#Fd_file fd#} cs' | Err _ \<Rightarrow> moves K cs {#} {#} cs' | Fault _ \<Rightarrow> True"
proof (cases "\<exists>v fl nm. vma = Some v \<and> vm_file v = Some (fl, nm)")
  case False
  then show ?thesis using assms by (auto simp: create_fd_from_vma_def split: option.splits)
next
  case True
  then obtain v fl nm where v: "vma = Some v" "vm_file v = Some (fl, nm)" by blast
  define cs1 where "cs1 = Get_file fl # cs"
  have m1: "moves K cs {#} {#File_ref fl#} cs1" unfolding cs1_def by (rule moves_first) simp_all
  show ?thesis
  proof (cases "k_get_unused_fd K cs1")
    case (Ok fd)
    have "moves K cs {#} {#Fd fd, File_ref fl#} (Get_unused_fd (Ok fd) # cs1)" using m1 by (rule moves_acquire) simp_all
    then have "moves K cs {#} {#Fd_file fd#} (Fd_install fd fl # Get_unused_fd (Ok fd) # cs1)"
      by (rule moves_step [where r = "{#}"]) simp_all
    moreover have "create_fd_from_vma K vma cs = (Ok fd, Fd_install fd fl # Get_unused_fd (Ok fd) # cs1)"
      using v Ok by (simp add: create_fd_from_vma_def cs1_def Let_def)
    ultimately show ?thesis using assms by auto
  next
    case (Err e)
    have "moves K cs {#} {#File_ref fl#} (Get_unused_fd (Err e) # cs1)" using m1 by (rule moves_quiet) simp_all
    then have "moves K cs {#} {#} (Fput fl # Get_unused_fd (Err e) # cs1)" by (rule moves_release) simp_all
    moreover have "create_fd_from_vma K vma cs = (Err e, Fput fl # Get_unused_fd (Err e) # cs1)"
      using v Err by (simp add: create_fd_from_vma_def cs1_def Let_def)
    ultimately show ?thesis using assms by auto
  next
    case (Fault f)
    then have "create_fd_from_vma K vma cs = (Fault f, Get_unused_fd (Fault f) # cs1)"
      using v by (simp add: create_fd_from_vma_def cs1_def Let_def)
    then show ?thesis using assms by auto
  qed
qed

text \<open>
  Preparing a table of pages. On an error the pages of a low memory buffer stay referenced (\<open>leak\<close>).
\<close>

lemma get_buffer_pages_moves:
  assumes "get_buffer_pages K a n low cs = (r, cs')"
  shows "case r of
      Ok (ps, k) \<Rightarrow> moves K cs {#} (page_refs ps) cs' \<and> (if low = None then k = length ps else k = 0)
    | Err _ \<Rightarrow> moves K cs {#} {#} cs' | Fault _ \<Rightarrow> True"
proof (cases low)
  case (Some lm)
  define ps where "ps = map (k_virt_to_page K) (take (unat n) (lm_pages_address lm))"
  have "moves K cs {#} (page_refs ps) (rev (map Get_page ps) @ cs)"
    using moves_get_pages [OF moves_refl [of K cs "{#}"], of ps] by simp
  moreover have "get_buffer_pages K a n low cs = (if n \<noteq> lm_pages_count lm then (Err EINVAL, cs)
      else if length (lm_pages_address lm) < unat n then (Fault Out_of_bounds, cs) else (Ok (ps, 0), rev (map Get_page ps) @ cs))"
    by (simp add: get_buffer_pages_def Some ps_def Let_def)
  ultimately show ?thesis using assms Some by (auto simp del: page_refs.simps split: if_splits)
next
  case None
  show ?thesis
  proof (cases "k_get_user_pages K cs a n")
    case (Ok ps)
    have m: "moves K cs {#} (page_refs ps) (Get_user_pages a n (Ok ps) # cs)" by (rule moves_first) simp_all
    then have "moves K cs {#} {#} (put_pages K ps (Get_user_pages a n (Ok ps) # cs))"
      by (intro moves_put_pages) simp
    then show ?thesis using assms None Ok m by (auto simp: get_buffer_pages_def Let_def split: if_splits)
  qed (use assms None in \<open>auto simp: get_buffer_pages_def Let_def intro!: moves_first\<close>)
qed

lemma prepare_sg_table_moves:
  assumes "prepare_sg_table K a n low cs = (r, cs')"
  shows "case r of
      Ok t \<Rightarrow> moves K cs {#} (add_mset (Sg_of (sgt_pages t)) (page_refs (sgt_pages t))) cs'
    | Err _ \<Rightarrow> (\<exists>leak. moves K cs {#} leak cs' \<and> (low = None \<longrightarrow> leak = {#})) | Fault _ \<Rightarrow> True"
proof (cases "k_alloc_array K cs")
  case None
  then show ?thesis using assms by (auto simp: prepare_sg_table_def Let_def intro!: exI [of _ "{#}"] moves_first)
next
  case (Some p)
  define cs1 where "cs1 = Alloc_array (Some p) # cs"
  have m1: "moves K cs {#} {#Array p#} cs1" unfolding cs1_def by (rule moves_first) simp_all
  obtain g cs2 where g: "get_buffer_pages K a (pages_of_size (ucast n)) low cs1 = (g, cs2)" by fastforce
  note gm = get_buffer_pages_moves [OF g]
  show ?thesis
  proof (cases g)
    case (Err e)
    then have "moves K cs {#} ({#} + {#Array p#}) cs2" using gm moves_then [OF m1, of "{#}" cs2] by simp
    then have "moves K cs {#} {#} (Free_array p # cs2)" by (rule moves_release) simp_all
    then show ?thesis using assms Some g Err by (auto simp: prepare_sg_table_def Let_def cs1_def)
  next
    case (Ok pk)
    obtain ps k where pk: "pk = (ps, k)" by (cases pk)
    have m2: "moves K cs {#} (page_refs ps + {#Array p#}) cs2" using gm Ok pk moves_then [OF m1] by simp
    have k: "if low = None then k = length ps else k = 0" using gm Ok pk by simp
    show ?thesis
    proof (cases "k_sg_alloc K cs2 ps n")
      case sg: (Ok u)
      have "moves K cs {#} (add_mset (Sg_of ps) (page_refs ps + {#Array p#})) (Sg_alloc ps (Ok u) # cs2)"
        using m2 by (rule moves_acquire) simp_all
      then have "moves K cs {#} (add_mset (Sg_of ps) (page_refs ps)) (Free_array p # Sg_alloc ps (Ok u) # cs2)"
        by (rule moves_release) simp_all
      then show ?thesis using assms Some g Ok pk sg by (auto simp: prepare_sg_table_def Let_def cs1_def)
    next
      case sg: (Err e)
      have m3: "moves K cs {#} (page_refs ps + {#Array p#}) (Sg_alloc ps (Err e) # cs2)" using m2 by (rule moves_quiet) simp_all
      define leak where "leak = (if low = None then {#} else page_refs ps)"
      have "moves K cs {#} (leak + {#Array p#}) (put_pages K (take k ps) (Sg_alloc ps (Err e) # cs2))"
        using m3 k by (auto simp: leak_def intro: moves_put_pages)
      then have "moves K cs {#} leak (Free_array p # put_pages K (take k ps) (Sg_alloc ps (Err e) # cs2))"
        by (rule moves_release) simp_all
      then show ?thesis using assms Some g Ok pk sg by (auto simp: prepare_sg_table_def Let_def cs1_def leak_def intro!: exI [of _ leak])
    qed (use assms Some g Ok pk in \<open>auto simp: prepare_sg_table_def Let_def cs1_def\<close>)
  qed (use assms Some g in \<open>auto simp: prepare_sg_table_def Let_def cs1_def\<close>)
qed

lemma map_user_pages_moves:
  assumes "map_user_pages K p a n dir low cs = (r, cs')" and m0: "moves K cs0 {#} {#Struct p#} cs"
  shows "case r of
      Ok t \<Rightarrow> moves K cs0 {#} (add_mset (Struct p) (add_mset (Mapping (sgt_pages t) dir)
                (add_mset (Sg_of (sgt_pages t)) (page_refs (sgt_pages t))))) cs'
    | Err _ \<Rightarrow> (\<exists>leak. moves K cs0 {#} leak cs' \<and> (low = None \<longrightarrow> leak = {#})) | Fault _ \<Rightarrow> True"
proof -
  obtain g cs1 where g: "prepare_sg_table K a (ucast n) low cs = (g, cs1)" by fastforce
  note gm = prepare_sg_table_moves [OF g]
  show ?thesis
  proof (cases g)
    case (Err e)
    then obtain leak where "moves K cs {#} leak cs1" "low = None \<longrightarrow> leak = {#}" using gm by auto
    then have "moves K cs0 {#} (leak + {#Struct p#}) cs1" "low = None \<longrightarrow> leak = {#}" using moves_then [OF m0] by simp_all
    then have "moves K cs0 {#} leak (Kfree p # cs1) \<and> (low = None \<longrightarrow> leak = {#})" by (auto intro: moves_release)
    then show ?thesis using assms g Err by (auto simp: map_user_pages_def)
  next
    case (Ok t)
    let ?sg = "add_mset (Sg_of (sgt_pages t)) (page_refs (sgt_pages t) + {#Struct p#})"
    let ?ents = "k_dma_map_sg K cs1 (sgt_pages t) dir"
    let ?cs2 = "Dma_map_sg (sgt_pages t) dir ?ents # cs1"
    have m1: "moves K cs0 {#} ?sg cs1"
      using gm Ok moves_then [OF m0, of "add_mset (Sg_of (sgt_pages t)) (page_refs (sgt_pages t))" cs1]
      by (simp add: add_mset_commute)
    show ?thesis
    proof (cases "?ents = []")
      case True
      have "moves K cs0 {#} ?sg ?cs2" using m1 by (rule moves_quiet) (use True in simp_all)
      then have "moves K cs0 {#} {#Struct p#} (clear_sg_table K t ?cs2)" by (rule moves_clear_sg_table)
      then have "moves K cs0 {#} {#} (Kfree p # clear_sg_table K t ?cs2)" by (rule moves_release) simp_all
      then show ?thesis using assms g Ok True by (auto simp: map_user_pages_def Let_def intro!: exI [of _ "{#}"])
    next
      case False
      have "moves K cs0 {#} (add_mset (Mapping (sgt_pages t) dir) ?sg) ?cs2" using m1 by (rule moves_acquire) (use False in simp_all)
      then show ?thesis using assms g Ok False by (auto simp: map_user_pages_def Let_def add_mset_commute)
    qed
  qed (use assms g in \<open>auto simp: map_user_pages_def\<close>)
qed

lemma check_contiguous_moves:
  "moves K cs {#} {#} (snd (check_contiguous K a n i pfn cs))"
proof (induction n arbitrary: i pfn cs)
  case (Suc n)
  have q: "moves K cs {#} {#} (Follow_pfn x r # cs)" for x r by (rule moves_first) simp_all
  show ?case using q moves_trans [OF q Suc.IH] by (auto simp: Let_def split: result.splits)
qed auto

lemma map_mmio_moves:
  assumes "map_mmio_address K a n vma cs = (r, cs')"
  shows "case r of Ok t \<Rightarrow> sgt_pages t = [] \<and> moves K cs {#} {#Sg_of []#} cs' | Err _ \<Rightarrow> moves K cs {#} {#} cs' | Fault _ \<Rightarrow> True"
proof -
  have q: "moves K cs {#} {#} (Follow_pfn x r # cs)" for x r by (rule moves_first) simp_all
  have s: "moves K cs {#} {#Sg_of []#} (Sg_alloc [] (Ok u) # cs2)" if "moves K cs {#} {#} cs2" for u cs2
    using that by (rule moves_acquire) simp_all
  have e: "moves K cs {#} {#} (Sg_alloc [] (Err x) # cs2)" if "moves K cs {#} {#} cs2" for x cs2
    using that by (rule moves_quiet) simp_all
  show ?thesis using assms
  proof (cases "k_follow_pfn K cs a")
    case (Ok pfn)
    define num where "num = unat (PFN_UP (a + ucast n) - PFN_DOWN a) - 1"
    obtain c cs2 where c: "check_contiguous K a num 1 pfn (Follow_pfn a (Ok pfn) # cs) = (c, cs2)" by fastforce
    then have m: "moves K cs {#} {#} cs2"
      using moves_trans [OF q check_contiguous_moves [of K _ a num 1 pfn]] by (metis snd_conv)
    show ?thesis using assms Ok c m s [OF m] e [OF m]
      by (auto simp: map_mmio_address_def Let_def num_def split: if_splits result.splits)
  qed (use assms q in \<open>auto simp: map_mmio_address_def Let_def split: if_splits\<close>)
qed

lemma moves_after:
  "moves K cs0 {#} (r0 + rest) cs \<Longrightarrow> moves K cs r0 new cs' \<Longrightarrow> moves K cs0 {#} (new + rest) cs'"
  using moves_trans [OF _ moves_frame] by blast

lemma moves_after_empty: "moves K cs0 {#} held cs \<Longrightarrow> moves K cs {#} new cs' \<Longrightarrow> moves K cs0 {#} (new + held) cs'"
  using moves_after [of K cs0 "{#}" held] by simp

text \<open>
  The mapping proper, from a structure and possibly a file descriptor (\<open>l0\<close>) held at the start: what is left of the
  file descriptor, or of pages of a low memory buffer after an error, is the \<open>leak\<close>.
\<close>

lemma map_resolved_moves:
  assumes r: "map_resolved K p vma bt addr saved n dir low cs = (r, cs')"
    and m0: "moves K cs0 {#} (add_mset (Struct p) l0) cs" and saved: "saved \<noteq> 0 \<Longrightarrow> l0 = {#Fd_file (ucast addr)#}"
    and direct: "saved \<noteq> 0 \<Longrightarrow> bt = HAILO_DMA_DMABUF_BUFFER" "bt \<noteq> HAILO_DMA_DMABUF_BUFFER \<Longrightarrow> l0 = {#}"
  shows "case r of
      Ok b \<Rightarrow> vb_kref b = 1 \<and> (\<exists>leak. moves K cs0 {#} (add_mset (Struct p) (buffer_resources b) + leak) cs')
    | Err _ \<Rightarrow> (\<exists>leak. moves K cs0 {#} leak cs') | Fault _ \<Rightarrow> True"
proof (cases "bt = HAILO_DMA_DMABUF_BUFFER")
  case True
  obtain g cs1 where g: "hailo_map_dmabuf K (ucast addr) dir cs = (g, cs1)" by fastforce
  note gm = map_dmabuf_moves [OF g]
  show ?thesis
  proof (cases g)
    case (Err e)
    then have "moves K cs0 {#} ({#} + add_mset (Struct p) l0) cs1" using gm moves_after_empty [OF m0, of "{#}"] by simp
    then show ?thesis using r True g Err by (auto simp: map_resolved_def Let_def)
  next
    case (Ok ti)
    obtain t info buf where ti: "ti = (t, info)" "di_dmabuf info = Some buf"
      and m: "moves K cs {#} {#Dma_buf buf, Attachment buf (di_dmabuf_attachment info),
          Attachment_map (di_dmabuf_attachment info) (di_dmabuf_sg_table info) dir#} cs1"
      using gm Ok by (cases ti) auto
    define b where "b = \<lparr> vb_handle = 0, vb_kref = 1, vb_buffer_type = (if saved \<noteq> 0 then HAILO_DMA_USER_PTR_BUFFER else bt),
      vb_size = ucast n, vb_addr_or_fd = (if saved \<noteq> 0 then saved else addr),
      vb_data_direction = dir, vb_sg_table = t, vb_is_mmio = False, vb_dmabuf_info = info \<rparr>"
    have m2: "moves K cs0 {#} (add_mset (Struct p) (buffer_resources b) + l0) cs1"
      using moves_after_empty [OF m0 m] ti by (simp add: b_def buffer_resources_def add_mset_commute)
    show ?thesis
    proof (cases "saved = 0")
      case s: True
      then have "r = Ok b" "cs' = cs1" using r True g Ok ti by (simp_all add: map_resolved_def Let_def b_def)
      then show ?thesis using m2 by (auto simp: b_def)
    next
      case s: False
      have "moves K cs0 {#} (add_mset (Struct p) (buffer_resources b)) (Close_fd (ucast addr) # cs1)"
        using m2 by (rule moves_release) (use saved s in simp_all)
      moreover have "r = Ok b" "cs' = Close_fd (ucast addr) # cs1"
        using r True g Ok ti s by (simp_all add: map_resolved_def Let_def b_def)
      ultimately show ?thesis by (auto simp: b_def intro!: exI [of _ "{#}"])
    qed
  qed (use gm in simp)
next
  case False
  then have l0: "l0 = {#}" and s0: "saved = 0" using direct by auto
  obtain g cs1 where g: "map_mmio_address K addr (ucast n) (the vma) cs = (g, cs1)" by fastforce
  obtain u cs2 where u: "map_user_pages K p addr n dir low cs = (u, cs2)" by fastforce
  have gm: "case g of Ok t \<Rightarrow> sgt_pages t = [] \<and> moves K cs0 {#} {#Struct p, Sg_of []#} cs1
      | Err _ \<Rightarrow> moves K cs0 {#} {#} (Kfree p # cs1) | Fault _ \<Rightarrow> True"
    using map_mmio_moves [OF g] moves_after_empty [OF m0, of "{#}" cs1] moves_after_empty [OF m0, of "{#Sg_of []#}" cs1] l0
    by (auto split: result.splits simp: add_mset_commute intro: moves_release)
  have um: "case u of
      Ok t \<Rightarrow> moves K cs0 {#} (add_mset (Struct p) (add_mset (Mapping (sgt_pages t) dir)
                (add_mset (Sg_of (sgt_pages t)) (page_refs (sgt_pages t))))) cs2
    | Err _ \<Rightarrow> (\<exists>leak. moves K cs0 {#} leak cs2 \<and> (low = None \<longrightarrow> leak = {#})) | Fault _ \<Rightarrow> True"
    using map_user_pages_moves [OF u, of cs0] m0 l0 by simp
  have kf: "moves K cs0 {#} {#} (Kfree p # cs)" using m0 by (rule moves_release) (simp_all add: l0)
  show ?thesis
  proof (cases "k_mmio_dma_mapping K \<and> (vma = None \<or> vm_flags (the vma) AND MMIO_AND_NO_PAGES_VMA_MASK = MMIO_AND_NO_PAGES_VMA_MASK)")
    case True
    then show ?thesis using r False g gm kf unfolding map_resolved_def Let_def no_dmabuf_def
      by (auto simp: buffer_resources_def split: if_splits result.splits intro!: exI [of _ "{#}"])
  next
    case user: False
    then have "r = (case u of Ok t \<Rightarrow> Ok \<lparr> vb_handle = 0, vb_kref = 1, vb_buffer_type = bt, vb_size = ucast n, vb_addr_or_fd = addr,
        vb_data_direction = dir, vb_sg_table = t, vb_is_mmio = False, vb_dmabuf_info = no_dmabuf \<rparr> | Err e \<Rightarrow> Err e | Fault f \<Rightarrow> Fault f)"
      "cs' = cs2"
      using r False u unfolding map_resolved_def Let_def by (auto split: if_splits result.splits)
    then show ?thesis using um by (cases u) (auto simp: buffer_resources_def no_dmabuf_def add_mset_commute intro: exI [of _ "{#}"])
  qed
qed

lemma buffer_map_moves:
  assumes r: "hailo_vdma_buffer_map K a n dir bt low cs = (r, cs')"
  shows "case r of
      Ok (p, b) \<Rightarrow> vb_kref b = 1 \<and> (\<exists>leak. moves K cs {#} (add_mset (Struct p) (buffer_resources b) + leak) cs')
    | Err _ \<Rightarrow> (\<exists>leak. moves K cs {#} leak cs') | Fault _ \<Rightarrow> True"
proof (cases "k_kzalloc K cs")
  case None
  have "moves K cs {#} {#} (Kzalloc None # cs)" using None by (intro moves_first) simp_all
  then show ?thesis using r None by (auto simp: hailo_vdma_buffer_map_def Let_def)
next
  case (Some p)
  define cs1 where "cs1 = Kzalloc (Some p) # cs"
  have m1: "moves K cs {#} {#Struct p#} cs1" unfolding cs1_def using Some by (intro moves_first) simp_all
  define vma where "vma = (if HAILO_DMA_DMABUF_BUFFER \<noteq> bt then k_find_vma K cs1 a else None)"
  obtain g cs2 where g: "resolve_buffer K vma a bt cs1 = (g, cs2)" by fastforce
  have r': "r = (case g of Ok (bt', addr, saved) \<Rightarrow> (case map_resolved K p vma bt' addr saved n dir low cs2 of
        (Ok b, cs3) \<Rightarrow> Ok (p, b) | (Err e, cs3) \<Rightarrow> Err e | (Fault f, cs3) \<Rightarrow> Fault f) | Err e \<Rightarrow> Err e | Fault f \<Rightarrow> Fault f)"
    "cs' = (case g of Ok (bt', addr, saved) \<Rightarrow> snd (map_resolved K p vma bt' addr saved n dir low cs2) | _ \<Rightarrow> cs2)"
    using r Some g by (auto simp: hailo_vdma_buffer_map_def Let_def cs1_def vma_def split: result.splits prod.splits)
  show ?thesis
  proof (cases "HAILO_DMA_DMABUF_BUFFER \<noteq> bt \<and> \<not> (k_mmio_dma_mapping K \<and> vma = None) \<and> is_dmabuf_vma vma")
    case True
    obtain c cs3 where c: "create_fd_from_vma K vma cs1 = (c, cs3)" by fastforce
    note cm = create_fd_moves [OF c]
    show ?thesis
    proof (cases c)
      case (Ok fd)
      have m2: "moves K cs {#} (add_mset (Struct p) {#Fd_file fd#}) cs2" and gg: "g = Ok (HAILO_DMA_DMABUF_BUFFER, ucast fd, a)"
        using cm Ok g True c moves_after_empty [OF m1, of "{#Fd_file fd#}" cs3]
        by (auto simp: resolve_buffer_def add_mset_commute)
      obtain q cs4 where q: "map_resolved K p vma HAILO_DMA_DMABUF_BUFFER (ucast fd) a n dir low cs2 = (q, cs4)" by fastforce
      have "ucast (ucast fd :: u64) = fd" by simp
      with map_resolved_moves [OF q m2] show ?thesis using r' gg q by (auto split: result.splits)
    qed (use r' cm g True c moves_after_empty [OF m1, of "{#}" cs3] in \<open>auto simp: resolve_buffer_def\<close>)
  next
    case False
    then consider "g = Err EFAULT" "cs2 = cs1" | "g = Ok (bt, a, 0)" "cs2 = cs1"
      using g by (auto simp: resolve_buffer_def split: if_splits)
    then show ?thesis
    proof cases
      case 2
      obtain q cs4 where q: "map_resolved K p vma bt a 0 n dir low cs1 = (q, cs4)" by fastforce
      from map_resolved_moves [OF q m1] show ?thesis using r' 2 q by (auto split: result.splits)
    qed (use r' m1 in auto)
  qed
qed

end
