(* ===== verification/Vdma_Files.thy ===== *)
theory Vdma_Files
  imports Vdma_Ownership
begin

text \<open>
  Files and requests. The invariant of one file: its lists are maps from handles to live structures, the handles are the
  ones its counters have given out, and the resources of the kernel that these structures stand for are held. Every request
  keeps it, leaves the structures of the other files alone and never releases what it does not hold.
\<close>

section \<open>Resources of a list\<close>

definition list_resources :: "('a \<Rightarrow> resource multiset) \<Rightarrow> nat list \<Rightarrow> 'a heap \<Rightarrow> resource multiset" where
  "list_resources res ps hp = (\<Sum>p\<leftarrow>ps. add_mset (Struct p) (res (the (hp p))))"

lemma list_resources_Nil [simp]: "list_resources res [] hp = {#}"
  by (simp add: list_resources_def)

lemma list_resources_cong: "(\<And>p. p \<in> set ps \<Longrightarrow> hp p = hp' p) \<Longrightarrow> list_resources res ps hp = list_resources res ps hp'"
  unfolding list_resources_def by (intro arg_cong [where f = sum_list] map_cong) simp_all

lemma list_resources_Cons:
  "list_resources res (p # ps) hp = add_mset (Struct p) (res (the (hp p))) + list_resources res ps hp"
  by (simp add: list_resources_def)

lemma list_resources_add:
  "p \<notin> set ps \<Longrightarrow> list_resources res (p # ps) (hp(p \<mapsto> x)) = add_mset (Struct p) (res x) + list_resources res ps hp"
  unfolding list_resources_Cons by (subst list_resources_cong [of ps "hp(p \<mapsto> x)" hp res]) auto

lemma list_resources_remove1:
  "p \<in> set ps \<Longrightarrow> list_resources res ps hp = add_mset (Struct p) (res (the (hp p))) + list_resources res (remove1 p ps) hp"
  by (induction ps) (auto simp: list_resources_Cons)

lemma list_resources_del:
  assumes "distinct ps" "p \<in> set ps"
  shows "list_resources res ps hp = add_mset (Struct p) (res (the (hp p))) + list_resources res (remove1 p ps) (hp(p := None))"
proof -
  have "list_resources res (remove1 p ps) (hp(p := None)) = list_resources res (remove1 p ps) hp"
    using assms by (intro list_resources_cong) auto
  then show ?thesis using list_resources_remove1 [OF assms(2), of res hp] by simp
qed

lemma Struct_in_list_resources: "p \<in> set ps \<Longrightarrow> Struct p \<in># list_resources res ps hp"
  by (induction ps) (auto simp: list_resources_Cons)

section \<open>The invariant of a file\<close>

definition file_resources :: "hailo_vdma_file_context \<Rightarrow> ('d, 'x) vdma_world_scheme \<Rightarrow> resource multiset" where
  "file_resources c w =
     list_resources buffer_resources (fc_mapped_user_buffer_list c) (w_buffers w) +
     list_resources desc_resources (fc_descriptors_buffer_list c) (w_desc_buffers w) +
     list_resources low_resources (fc_vdma_low_memory_buffer_list c) (w_low_buffers w) +
     list_resources cont_resources (fc_continuous_buffer_list c) (w_cont_buffers w)"

text \<open>The handle made from the value \<open>n\<close> of a counter.\<close>

definition vdma_handle :: "u32 \<Rightarrow> u64" where "vdma_handle n = push_bit PAGE_SHIFT (scast n)"

definition given :: "(u32 \<Rightarrow> u64) \<Rightarrow> u32 \<Rightarrow> u64 \<Rightarrow> bool" where
  "given mk lst h \<longleftrightarrow> (\<exists>n. 0 < n \<and> n \<le> lst \<and> h = mk n)"

definition table_ok :: "('a \<Rightarrow> u64) \<Rightarrow> (u32 \<Rightarrow> u64) \<Rightarrow> u32 \<Rightarrow> nat list \<Rightarrow> 'a heap \<Rightarrow> bool" where
  "table_ok handle mk lst ps hp \<longleftrightarrow> list_inv handle (ps, hp) \<and> (\<forall>p \<in> set ps. given mk lst (handle (the (hp p))))"

definition file_ok :: "hailo_vdma_file_context \<Rightarrow> ('d, 'x) vdma_world_scheme \<Rightarrow> bool" where
  "file_ok c w \<longleftrightarrow>
     table_ok vb_handle scast (fc_last_vdma_user_buffer_handle c) (fc_mapped_user_buffer_list c) (w_buffers w) \<and>
     (\<forall>p \<in> set (fc_mapped_user_buffer_list c). vb_kref (the (w_buffers w p)) = 1) \<and>
     table_ok db_handle vdma_handle (fc_last_vdma_handle c) (fc_descriptors_buffer_list c) (w_desc_buffers w) \<and>
     (\<forall>p \<in> set (fc_descriptors_buffer_list c). w_lists w p \<noteq> None) \<and>
     table_ok lm_handle vdma_handle (fc_last_vdma_handle c) (fc_vdma_low_memory_buffer_list c) (w_low_buffers w) \<and>
     table_ok cb_handle vdma_handle (fc_last_vdma_handle c) (fc_continuous_buffer_list c) (w_cont_buffers w)"

definition holds :: "kernel \<Rightarrow> hailo_vdma_file_context \<Rightarrow> ('d, 'x) vdma_world_scheme \<Rightarrow> resource multiset \<Rightarrow> bool" where
  "holds K c w rest \<longleftrightarrow> granted K (w_calls w) \<and> ledger (w_calls w) = Some (file_resources c w + rest) \<and> file_ok c w"

text \<open>The structures behind \<open>rest\<close>, those of the other files, are the same before and after.\<close>

definition same_elsewhere :: "resource multiset \<Rightarrow> ('d, 'x) vdma_world_scheme \<Rightarrow> ('d, 'x) vdma_world_scheme \<Rightarrow> bool" where
  "same_elsewhere rest w w' \<longleftrightarrow> (\<forall>p. Struct p \<in># rest \<longrightarrow>
     w_buffers w' p = w_buffers w p \<and> w_desc_buffers w' p = w_desc_buffers w p \<and> w_low_buffers w' p = w_low_buffers w p \<and>
     w_cont_buffers w' p = w_cont_buffers w p \<and> (w_lists w' p = None \<longleftrightarrow> w_lists w p = None))"

definition step_ok ::
    "kernel \<Rightarrow> hailo_vdma_file_context \<Rightarrow> ('d, 'x) vdma_world_scheme \<Rightarrow> hailo_vdma_file_context \<Rightarrow> ('d, 'x) vdma_world_scheme \<Rightarrow> bool" where
  "step_ok K c w c' w' \<longleftrightarrow> (\<forall>rest. holds K c w rest \<longrightarrow> (\<exists>leak. holds K c' w' (leak + rest)) \<and> same_elsewhere rest w w')"

lemma step_okI:
  assumes "\<And>rest. holds K c w rest \<Longrightarrow> holds K c' w' (leak + rest)"
    and "\<And>rest. holds K c w rest \<Longrightarrow> same_elsewhere rest w w'"
  shows "step_ok K c w c' w'"
  using assms unfolding step_ok_def by blast

lemma same_elsewhere_refl [simp]: "same_elsewhere rest w w"
  by (simp add: same_elsewhere_def)

section \<open>Handles\<close>

lemma table_find:
  assumes "table_ok handle mk lst ps hp" "list_find_handle handle h (ps, hp) = Ok (Some (p, x))"
  shows "p \<in> set ps" "hp p = Some x" "handle x = h" "distinct ps"
proof -
  have i: "list_inv handle (ps, hp)" using assms(1) by (simp add: table_ok_def)
  then have "list_abs handle (ps, hp) h = Some (p, x)"
    using assms(2) handle_map.find_abs [OF list_handle_map i] by simp
  then have "handle x = h \<and> p \<in> set ps \<and> x = the (hp p)"
    using find_entriesD [of "\<lambda>x. handle x = h" ps hp p x] by (auto simp: list_abs_def)
  then show "p \<in> set ps" "hp p = Some x" "handle x = h" "distinct ps"
    using i by (auto simp: list_inv_def)
qed

lemma table_total: "table_ok handle mk lst ps hp \<Longrightarrow> \<exists>r. list_find_handle handle h (ps, hp) = Ok r"
  using handle_map.find_total [OF list_handle_map] by (auto simp: table_ok_def)

lemma given_mono: "given mk n h \<Longrightarrow> n \<le> m \<Longrightarrow> given mk m h"
  unfolding given_def using order_trans by blast

lemma table_mono: "table_ok handle mk n ps hp \<Longrightarrow> n \<le> m \<Longrightarrow> table_ok handle mk m ps hp"
  by (auto simp: table_ok_def intro: given_mono)

lemma table_cong:
  assumes "\<And>p. p \<in> set ps \<Longrightarrow> hp p = hp' p"
  shows "table_ok handle mk n ps hp \<longleftrightarrow> table_ok handle mk n ps hp'"
proof -
  have m: "map (\<lambda>p. handle (the (hp p))) ps = map (\<lambda>p. handle (the (hp' p))) ps" using assms by (intro map_cong) simp_all
  show ?thesis unfolding table_ok_def list_inv_def fst_conv snd_conv m using assms by auto
qed

lemma counter_step: "unat n < 2 ^ 32 - 1 \<Longrightarrow> n < n + 1 \<and> 0 < n + 1" for n :: u32
proof -
  assume "unat n < 2 ^ 32 - 1"
  then have "unat (n + 1) = unat n + 1" by (intro unat_Suc_small) simp
  then show ?thesis by (simp add: word_less_nat_alt)
qed

lemma table_fresh:
  assumes "table_ok handle mk lst ps hp" "inj mk" "unat lst < 2 ^ 32 - 1"
  shows "list_abs handle (ps, hp) (mk (lst + 1)) = None"
proof -
  have "\<not> given mk lst (mk (lst + 1))" using assms(2) counter_step [OF assms(3)] by (auto simp: given_def dest: injD)
  then show ?thesis using assms(1) unfolding list_abs_def find_None_not_in set_entries table_ok_def by auto
qed

lemma table_add:
  assumes "table_ok handle mk lst ps hp" "p \<notin> set ps" "handle x = mk (lst + 1)" "inj mk" "unat lst < 2 ^ 32 - 1"
  shows "table_ok handle mk (lst + 1) (p # ps) (hp(p \<mapsto> x))"
proof -
  note n = counter_step [OF assms(5)]
  have "list_abs handle (ps, hp) (handle x) = None" using table_fresh [OF assms(1,4,5)] assms(3) by simp
  then have "list_inv handle (list_add p x (ps, hp))"
    using assms(1,2) list_inv_add(1) [of handle "(ps, hp)" p x] by (simp add: table_ok_def)
  moreover have "given mk (lst + 1) (handle x)" using n assms(3) by (auto simp: given_def)
  moreover have "given mk (lst + 1) h" if "given mk lst h" for h using given_mono [OF that less_imp_le] n by blast
  ultimately show ?thesis using assms(1,2) by (auto simp: table_ok_def list_add_def)
qed

lemma table_del:
  assumes "table_ok handle mk lst ps hp" "p \<in> set ps"
  shows "table_ok handle mk lst (remove1 p ps) (hp(p := None))"
  using assms by (auto simp: table_ok_def list_inv_def distinct_map distinct_remove1 inj_on_def)

lemma scast_u32_inj: "inj (scast :: u32 \<Rightarrow> u64)"
proof (rule injI)
  fix m n :: u32 assume e: "(scast m :: u64) = scast n"
  show "m = n"
  proof (rule bit_word_eqI)
    fix i assume "i < LENGTH(32)"
    then have "bit (scast m :: u64) i = bit m i" "bit (scast n :: u64) i = bit n i" by (auto simp: bit_simps)
    then show "bit m i = bit n i" using e by simp
  qed
qed

lemma vdma_handle_inj: "inj vdma_handle"
proof (rule injI)
  fix m n :: u32 assume e: "vdma_handle m = vdma_handle n"
  show "m = n"
  proof (rule bit_word_eqI)
    fix i assume "i < LENGTH(32)"
    then have "bit (vdma_handle m) (i + 12) = bit m i" "bit (vdma_handle n) (i + 12) = bit n i"
      by (auto simp: vdma_handle_def PAGE_SHIFT_def bit_simps)
    then show "bit m i = bit n i" using e by simp
  qed
qed

section \<open>Steps of a file\<close>

lemma holds_moved:
  assumes "holds K c w rest" "moves K (w_calls w) old new (w_calls w')" "file_resources c w = old + stay"
    "file_resources c' w' + leak = new + stay" "file_ok c' w'"
  shows "holds K c' w' (leak + rest)"
proof -
  have "ledger (w_calls w) = Some (old + (stay + rest))" using assms(1,3) by (simp add: holds_def add.assoc)
  then have "ledger (w_calls w') = Some (new + stay + rest)" using assms(2) by (simp add: moves_def add.assoc)
  then show ?thesis using assms(1,2,5) unfolding assms(4) [symmetric] by (simp add: holds_def moves_def add.assoc)
qed

lemma file_ok_tables:
  assumes "file_ok c w"
  shows "table_ok vb_handle scast (fc_last_vdma_user_buffer_handle c) (fc_mapped_user_buffer_list c) (w_buffers w)"
    "table_ok db_handle vdma_handle (fc_last_vdma_handle c) (fc_descriptors_buffer_list c) (w_desc_buffers w)"
    "table_ok lm_handle vdma_handle (fc_last_vdma_handle c) (fc_vdma_low_memory_buffer_list c) (w_low_buffers w)"
    "table_ok cb_handle vdma_handle (fc_last_vdma_handle c) (fc_continuous_buffer_list c) (w_cont_buffers w)"
  using assms by (simp_all add: file_ok_def)

text \<open>A new structure is in none of the lists; a structure of the file belongs to no other file.\<close>

lemma holds_fresh:
  assumes "kernel_fresh K" "holds K c w rest" "k_kzalloc K (w_calls w) = Some p"
  shows "Struct p \<notin># rest" "p \<notin> set (fc_mapped_user_buffer_list c)" "p \<notin> set (fc_descriptors_buffer_list c)"
    "p \<notin> set (fc_vdma_low_memory_buffer_list c)" "p \<notin> set (fc_continuous_buffer_list c)"
proof -
  have "Struct p \<notin># file_resources c w + rest" using assms unfolding holds_def kernel_fresh_def by blast
  then show "Struct p \<notin># rest" "p \<notin> set (fc_mapped_user_buffer_list c)" "p \<notin> set (fc_descriptors_buffer_list c)"
    "p \<notin> set (fc_vdma_low_memory_buffer_list c)" "p \<notin> set (fc_continuous_buffer_list c)"
    unfolding file_resources_def using Struct_in_list_resources by (metis union_iff)+
qed

lemma holds_own:
  assumes "kernel_fresh K" "holds K c w rest" "Struct p \<in># file_resources c w"
  shows "Struct p \<notin># rest"
proof
  assume "Struct p \<in># rest"
  then have "0 < count rest (Struct p)" "0 < count (file_resources c w) (Struct p)" using assms(3) by simp_all
  moreover have "count (file_resources c w + rest) (Struct p) \<le> 1"
    using struct_held_once [OF assms(1), of "w_calls w"] assms(2) unfolding holds_def by blast
  ultimately show False unfolding count_union by linarith
qed

lemma in_file_resources:
  "p \<in> set (fc_mapped_user_buffer_list c) \<or> p \<in> set (fc_descriptors_buffer_list c) \<or>
   p \<in> set (fc_vdma_low_memory_buffer_list c) \<or> p \<in> set (fc_continuous_buffer_list c) \<Longrightarrow> Struct p \<in># file_resources c w"
  unfolding file_resources_def using Struct_in_list_resources by (metis union_iff)

text \<open>Requests that leave lists and structures alone: what they acquire and keep is a leak.\<close>

lemma step_quietI:
  assumes "fc_mapped_user_buffer_list c' = fc_mapped_user_buffer_list c"
    "fc_descriptors_buffer_list c' = fc_descriptors_buffer_list c"
    "fc_vdma_low_memory_buffer_list c' = fc_vdma_low_memory_buffer_list c"
    "fc_continuous_buffer_list c' = fc_continuous_buffer_list c"
    and n: "fc_last_vdma_user_buffer_handle c \<le> fc_last_vdma_user_buffer_handle c'" "fc_last_vdma_handle c \<le> fc_last_vdma_handle c'"
    and hp: "w_buffers w' = w_buffers w" "w_desc_buffers w' = w_desc_buffers w" "w_low_buffers w' = w_low_buffers w"
    "w_cont_buffers w' = w_cont_buffers w" "\<And>p. w_lists w' p = None \<longleftrightarrow> w_lists w p = None"
    and m: "moves K (w_calls w) {#} leak (w_calls w')"
  shows "step_ok K c w c' w'"
proof (rule step_okI)
  fix rest assume h: "holds K c w rest"
  have f: "file_ok c' w'" using h assms(1-11) by (auto simp: file_ok_def holds_def intro: table_mono)
  have r: "file_resources c' w' = file_resources c w" using assms(1-10) by (simp add: file_resources_def)
  show "holds K c' w' (leak + rest)"
    by (rule holds_moved [OF h m _ _ f, of "file_resources c w"]) (simp_all add: r add.commute)
  show "same_elsewhere rest w w'" using hp by (simp add: same_elsewhere_def)
qed

lemma step_refl: "step_ok K c w c w"
  by (rule step_quietI [OF _ _ _ _ _ _ _ _ _ _ _ moves_refl]) simp_all

section \<open>New structures\<close>

lemma step_add_buffer:
  assumes K: "kernel_fresh K" "k_kzalloc K (w_calls w) = Some p" and n: "unat (fc_last_vdma_user_buffer_handle c) < 2 ^ 32 - 1"
    and m: "moves K (w_calls w) {#} (add_mset (Struct p) (buffer_resources b) + leak) cs'"
    and b: "vb_handle b = scast (fc_last_vdma_user_buffer_handle c + 1)" "vb_kref b = 1"
  shows "step_ok K c w
    (c\<lparr>fc_last_vdma_user_buffer_handle := fc_last_vdma_user_buffer_handle c + 1, fc_mapped_user_buffer_list := p # fc_mapped_user_buffer_list c\<rparr>)
    (w\<lparr>w_buffers := (w_buffers w)(p \<mapsto> b), w_calls := cs'\<rparr>)" (is "step_ok K c w ?c ?w")
proof (rule step_okI)
  fix rest assume h: "holds K c w rest"
  note fr = holds_fresh [OF K(1) h K(2)]
  have f: "file_ok ?c ?w"
    using h table_add [OF file_ok_tables(1) fr(2) b(1) scast_u32_inj n] b(2) fr(2) by (auto simp: file_ok_def holds_def)
  have "file_resources ?c ?w = add_mset (Struct p) (buffer_resources b) + file_resources c w"
    using fr(2) by (simp add: file_resources_def list_resources_add ac_simps)
  then show "holds K ?c ?w (leak + rest)"
    by (intro holds_moved [OF h _ _ _ f, of "{#}" _ "file_resources c w"]) (use m in \<open>auto simp: ac_simps\<close>)
  show "same_elsewhere rest w ?w" using fr(1) by (auto simp: same_elsewhere_def)
qed

lemma step_add_desc:
  assumes K: "kernel_fresh K" "k_kzalloc K (w_calls w) = Some p" and n: "unat (fc_last_vdma_handle c) < 2 ^ 32 - 1"
    and m: "moves K (w_calls w) {#} (add_mset (Struct p) (desc_resources b)) cs'"
    and b: "db_handle b = vdma_handle (fc_last_vdma_handle c + 1)"
  shows "step_ok K c w
    (c\<lparr>fc_last_vdma_handle := fc_last_vdma_handle c + 1, fc_descriptors_buffer_list := p # fc_descriptors_buffer_list c\<rparr>)
    (w\<lparr>w_desc_buffers := (w_desc_buffers w)(p \<mapsto> b), w_lists := (w_lists w)(p \<mapsto> dl), w_calls := cs'\<rparr>)" (is "step_ok K c w ?c ?w")
proof (rule step_okI)
  fix rest assume h: "holds K c w rest"
  note fr = holds_fresh [OF K(1) h K(2)] and le = less_imp_le [OF conjunct1 [OF counter_step [OF n]]]
  have f: "file_ok ?c ?w"
    using h table_add [OF file_ok_tables(2) fr(3) b vdma_handle_inj n] le fr(3) by (auto simp: file_ok_def holds_def intro: table_mono)
  have "file_resources ?c ?w = add_mset (Struct p) (desc_resources b) + file_resources c w"
    using fr(3) by (simp add: file_resources_def list_resources_add ac_simps)
  then show "holds K ?c ?w ({#} + rest)"
    by (intro holds_moved [OF h _ _ _ f, of "{#}" _ "file_resources c w"]) (use m in \<open>auto simp: ac_simps\<close>)
  show "same_elsewhere rest w ?w" using fr(1) by (auto simp: same_elsewhere_def)
qed

lemma step_add_low:
  assumes K: "kernel_fresh K" "k_kzalloc K (w_calls w) = Some p" and n: "unat (fc_last_vdma_handle c) < 2 ^ 32 - 1"
    and m: "moves K (w_calls w) {#} (add_mset (Struct p) (low_resources b)) cs'"
    and b: "lm_handle b = vdma_handle (fc_last_vdma_handle c + 1)"
  shows "step_ok K c w
    (c\<lparr>fc_last_vdma_handle := fc_last_vdma_handle c + 1, fc_vdma_low_memory_buffer_list := p # fc_vdma_low_memory_buffer_list c\<rparr>)
    (w\<lparr>w_low_buffers := (w_low_buffers w)(p \<mapsto> b), w_calls := cs'\<rparr>)" (is "step_ok K c w ?c ?w")
proof (rule step_okI)
  fix rest assume h: "holds K c w rest"
  note fr = holds_fresh [OF K(1) h K(2)] and le = less_imp_le [OF conjunct1 [OF counter_step [OF n]]]
  have f: "file_ok ?c ?w"
    using h table_add [OF file_ok_tables(3) fr(4) b vdma_handle_inj n] le by (auto simp: file_ok_def holds_def intro: table_mono)
  have "file_resources ?c ?w = add_mset (Struct p) (low_resources b) + file_resources c w"
    using fr(4) by (simp add: file_resources_def list_resources_add ac_simps)
  then show "holds K ?c ?w ({#} + rest)"
    by (intro holds_moved [OF h _ _ _ f, of "{#}" _ "file_resources c w"]) (use m in \<open>auto simp: ac_simps\<close>)
  show "same_elsewhere rest w ?w" using fr(1) by (auto simp: same_elsewhere_def)
qed

lemma step_add_cont:
  assumes K: "kernel_fresh K" "k_kzalloc K (w_calls w) = Some p" and n: "unat (fc_last_vdma_handle c) < 2 ^ 32 - 1"
    and m: "moves K (w_calls w) {#} (add_mset (Struct p) (cont_resources b)) cs'"
    and b: "cb_handle b = vdma_handle (fc_last_vdma_handle c + 1)"
  shows "step_ok K c w
    (c\<lparr>fc_last_vdma_handle := fc_last_vdma_handle c + 1, fc_continuous_buffer_list := p # fc_continuous_buffer_list c\<rparr>)
    (w\<lparr>w_cont_buffers := (w_cont_buffers w)(p \<mapsto> b), w_calls := cs'\<rparr>)" (is "step_ok K c w ?c ?w")
proof (rule step_okI)
  fix rest assume h: "holds K c w rest"
  note fr = holds_fresh [OF K(1) h K(2)] and le = less_imp_le [OF conjunct1 [OF counter_step [OF n]]]
  have f: "file_ok ?c ?w"
    using h table_add [OF file_ok_tables(4) fr(5) b vdma_handle_inj n] le by (auto simp: file_ok_def holds_def intro: table_mono)
  have "file_resources ?c ?w = add_mset (Struct p) (cont_resources b) + file_resources c w"
    using fr(5) by (simp add: file_resources_def list_resources_add ac_simps)
  then show "holds K ?c ?w ({#} + rest)"
    by (intro holds_moved [OF h _ _ _ f, of "{#}" _ "file_resources c w"]) (use m in \<open>auto simp: ac_simps\<close>)
  show "same_elsewhere rest w ?w" using fr(1) by (auto simp: same_elsewhere_def)
qed

section \<open>Freed structures\<close>

lemma step_del_buffer:
  assumes K: "kernel_fresh K" and p: "p \<in> set (fc_mapped_user_buffer_list c)" "w_buffers w p = Some b"
  shows "step_ok K c w (c\<lparr>fc_mapped_user_buffer_list := remove1 p (fc_mapped_user_buffer_list c)\<rparr>)
    (w\<lparr>w_buffers := (w_buffers w)(p := None), w_calls := unmap_buffer K p b (w_calls w)\<rparr>)" (is "step_ok K c w ?c ?w")
proof (rule step_okI)
  fix rest assume h: "holds K c w rest"
  then have t: "file_ok c w" and d: "distinct (fc_mapped_user_buffer_list c)"
    by (auto simp: holds_def file_ok_def table_ok_def list_inv_def)
  have f: "file_ok ?c ?w" using t table_del [OF file_ok_tables(1) [OF t] p(1)] d by (auto simp: file_ok_def)
  have "file_resources c w = add_mset (Struct p) (buffer_resources b) + file_resources ?c ?w"
    using list_resources_del [OF d p(1), of buffer_resources "w_buffers w"] p(2) by (simp add: file_resources_def ac_simps)
  then show "holds K ?c ?w ({#} + rest)"
    by (intro holds_moved [OF h _ _ _ f]) (use unmap_buffer_moves [of K "w_calls w" p b] in auto)
  show "same_elsewhere rest w ?w"
    using holds_own [OF K h in_file_resources [of p c w]] p(1) by (auto simp: same_elsewhere_def)
qed

lemma moves_kfree: "moves K cs r {#} cs' \<Longrightarrow> moves K cs (add_mset (Struct p) r) {#} (Kfree p # cs')"
  using moves_frame [of K cs r "{#}" cs' "{#Struct p#}"] by (auto intro: moves_release)

lemma step_del_desc:
  assumes K: "kernel_fresh K" and p: "p \<in> set (fc_descriptors_buffer_list c)" "w_desc_buffers w p = Some b"
  shows "step_ok K c w (c\<lparr>fc_descriptors_buffer_list := remove1 p (fc_descriptors_buffer_list c)\<rparr>)
    (w\<lparr>w_desc_buffers := (w_desc_buffers w)(p := None), w_lists := (w_lists w)(p := None),
       w_calls := Kfree p # hailo_desc_list_release b (w_calls w)\<rparr>)" (is "step_ok K c w ?c ?w")
proof (rule step_okI)
  fix rest assume h: "holds K c w rest"
  then have t: "file_ok c w" and d: "distinct (fc_descriptors_buffer_list c)"
    by (auto simp: holds_def file_ok_def table_ok_def list_inv_def)
  have f: "file_ok ?c ?w" using t table_del [OF file_ok_tables(2) [OF t] p(1)] d by (auto simp: file_ok_def)
  have "file_resources c w = add_mset (Struct p) (desc_resources b) + file_resources ?c ?w"
    using list_resources_del [OF d p(1), of desc_resources "w_desc_buffers w"] p(2) by (simp add: file_resources_def ac_simps)
  then show "holds K ?c ?w ({#} + rest)"
    by (intro holds_moved [OF h _ _ _ f]) (use moves_kfree [OF desc_list_release_moves] in auto)
  show "same_elsewhere rest w ?w"
    using holds_own [OF K h in_file_resources [of p c w]] p(1) by (auto simp: same_elsewhere_def)
qed

lemma step_del_low:
  assumes K: "kernel_fresh K" and p: "p \<in> set (fc_vdma_low_memory_buffer_list c)" "w_low_buffers w p = Some b"
  shows "step_ok K c w (c\<lparr>fc_vdma_low_memory_buffer_list := remove1 p (fc_vdma_low_memory_buffer_list c)\<rparr>)
    (w\<lparr>w_low_buffers := (w_low_buffers w)(p := None),
       w_calls := Kfree p # hailo_vdma_low_memory_buffer_free b (w_calls w)\<rparr>)" (is "step_ok K c w ?c ?w")
proof (rule step_okI)
  fix rest assume h: "holds K c w rest"
  then have t: "file_ok c w" and d: "distinct (fc_vdma_low_memory_buffer_list c)"
    by (auto simp: holds_def file_ok_def table_ok_def list_inv_def)
  have f: "file_ok ?c ?w" using t table_del [OF file_ok_tables(3) [OF t] p(1)] by (auto simp: file_ok_def)
  have "file_resources c w = add_mset (Struct p) (low_resources b) + file_resources ?c ?w"
    using list_resources_del [OF d p(1), of low_resources "w_low_buffers w"] p(2) by (simp add: file_resources_def ac_simps)
  then show "holds K ?c ?w ({#} + rest)"
    by (intro holds_moved [OF h _ _ _ f]) (use moves_kfree [OF low_memory_free_moves] in auto)
  show "same_elsewhere rest w ?w"
    using holds_own [OF K h in_file_resources [of p c w]] p(1) by (auto simp: same_elsewhere_def)
qed

lemma step_del_cont:
  assumes K: "kernel_fresh K" and p: "p \<in> set (fc_continuous_buffer_list c)" "w_cont_buffers w p = Some b"
  shows "step_ok K c w (c\<lparr>fc_continuous_buffer_list := remove1 p (fc_continuous_buffer_list c)\<rparr>)
    (w\<lparr>w_cont_buffers := (w_cont_buffers w)(p := None),
       w_calls := Kfree p # hailo_vdma_continuous_buffer_free b (w_calls w)\<rparr>)" (is "step_ok K c w ?c ?w")
proof (rule step_okI)
  fix rest assume h: "holds K c w rest"
  then have t: "file_ok c w" and d: "distinct (fc_continuous_buffer_list c)"
    by (auto simp: holds_def file_ok_def table_ok_def list_inv_def)
  have f: "file_ok ?c ?w" using t table_del [OF file_ok_tables(4) [OF t] p(1)] by (auto simp: file_ok_def)
  have "file_resources c w = add_mset (Struct p) (cont_resources b) + file_resources ?c ?w"
    using list_resources_del [OF d p(1), of cont_resources "w_cont_buffers w"] p(2) by (simp add: file_resources_def ac_simps)
  then show "holds K ?c ?w ({#} + rest)"
    by (intro holds_moved [OF h _ _ _ f]) (use moves_kfree [OF continuous_free_moves] in auto)
  show "same_elsewhere rest w ?w"
    using holds_own [OF K h in_file_resources [of p c w]] p(1) by (auto simp: same_elsewhere_def)
qed

section \<open>Requests on structures\<close>

lemma step_okD: "(holds K c w rest \<Longrightarrow> step_ok K c w c' w') \<Longrightarrow> holds K c w rest \<Longrightarrow>
    (\<exists>leak. holds K c' w' (leak + rest)) \<and> same_elsewhere rest w w'"
  by (simp add: step_ok_def)

lemma step_ok_assuming: "(\<And>rest. holds K c w rest \<Longrightarrow> step_ok K c w c' w') \<Longrightarrow> step_ok K c w c' w'"
  unfolding step_ok_def by blast

lemma kzalloc_moves:
  "k_kzalloc K cs = Some p \<Longrightarrow> moves K (Kzalloc (Some p) # cs) {#} r cs' \<Longrightarrow> moves K cs {#} (add_mset (Struct p) r) cs'"
  using moves_after_empty [OF moves_first [of "Kzalloc (Some p)" "{#Struct p#}" K cs]] by simp

lemma kzalloc_undone:
  "k_kzalloc K cs = Some p \<Longrightarrow> moves K (Kzalloc (Some p) # cs) {#} {#} cs' \<Longrightarrow> moves K cs {#} {#} (Kfree p # cs')"
  using kzalloc_moves [of K cs p "{#}" cs'] by (auto intro: moves_release)

lemma kzalloc_failed: "k_kzalloc K cs = None \<Longrightarrow> moves K cs {#} {#} (Kzalloc None # cs)"
  by (rule moves_first) simp_all

lemma buffer_unmap_step:
  assumes K: "kernel_fresh K" and r: "hailo_vdma_buffer_unmap_ioctl K arg c w = (r, c', w')" "\<not> is_fault r"
  shows "step_ok K c w c' w'"
proof (rule step_ok_assuming)
  fix rest assume h: "holds K c w rest"
  show ?thesis
  proof (cases "\<exists>h p b. arg = Some h \<and> list_find_handle vb_handle h (fc_mapped_user_buffer_list c, w_buffers w) = Ok (Some (p, b))")
    case True
    then obtain hd p b where a: "arg = Some hd" "list_find_handle vb_handle hd (fc_mapped_user_buffer_list c, w_buffers w) = Ok (Some (p, b))"
      by blast
    note t = file_ok_tables(1) [of c w]
    have p: "p \<in> set (fc_mapped_user_buffer_list c)" "w_buffers w p = Some b" using table_find [OF t a(2)] h by (auto simp: holds_def)
    then have k: "vb_kref b = 1" using h by (auto simp: holds_def file_ok_def)
    show ?thesis using r step_del_buffer [OF K p] a p k
      by (simp add: hailo_vdma_buffer_unmap_ioctl_def hailo_vdma_find_mapped_buffer_by_handle_def hailo_vdma_buffer_put_def Let_def)
  next
    case False
    then have "c' = c \<and> w' = w"
      using r by (auto simp: hailo_vdma_buffer_unmap_ioctl_def hailo_vdma_find_mapped_buffer_by_handle_def split: option.splits result.splits)
    then show ?thesis by (simp add: step_refl)
  qed
qed

lemma desc_release_step:
  assumes K: "kernel_fresh K" and r: "hailo_desc_list_release_ioctl arg c w = (r, c', w')" "\<not> is_fault r"
  shows "step_ok K c w c' w'"
proof (rule step_ok_assuming)
  fix rest assume h: "holds K c w rest"
  note t = file_ok_tables(2) [of c w]
  have found: "p \<in> set (fc_descriptors_buffer_list c) \<and> w_desc_buffers w p = Some b"
    if "list_find_handle db_handle hd (fc_descriptors_buffer_list c, w_desc_buffers w) = Ok (Some (p, b))" for hd p b
    using table_find [OF t that] h by (auto simp: holds_def)
  show ?thesis using r unfolding hailo_desc_list_release_ioctl_def hailo_vdma_find_descriptors_buffer_def
    by (auto split: option.splits result.splits dest!: found intro: step_del_desc [OF K] step_refl)
qed

lemma low_free_step:
  assumes K: "kernel_fresh K" and r: "hailo_vdma_low_memory_buffer_free_ioctl arg c w = (r, c', w')" "\<not> is_fault r"
  shows "step_ok K c w c' w'"
proof (rule step_ok_assuming)
  fix rest assume h: "holds K c w rest"
  note t = file_ok_tables(3) [of c w]
  have found: "p \<in> set (fc_vdma_low_memory_buffer_list c) \<and> w_low_buffers w p = Some b"
    if "list_find_handle lm_handle hd (fc_vdma_low_memory_buffer_list c, w_low_buffers w) = Ok (Some (p, b))" for hd p b
    using table_find [OF t that] h by (auto simp: holds_def)
  show ?thesis using r unfolding hailo_vdma_low_memory_buffer_free_ioctl_def hailo_vdma_find_low_memory_buffer_def
    by (auto split: option.splits result.splits dest!: found intro: step_del_low [OF K] step_refl)
qed

lemma cont_free_step:
  assumes K: "kernel_fresh K" and r: "hailo_vdma_continuous_buffer_free_ioctl arg c w = (r, c', w')" "\<not> is_fault r"
  shows "step_ok K c w c' w'"
proof (rule step_ok_assuming)
  fix rest assume h: "holds K c w rest"
  note t = file_ok_tables(4) [of c w]
  have found: "p \<in> set (fc_continuous_buffer_list c) \<and> w_cont_buffers w p = Some b"
    if "list_find_handle cb_handle hd (fc_continuous_buffer_list c, w_cont_buffers w) = Ok (Some (p, b))" for hd p b
    using table_find [OF t that] h by (auto simp: holds_def)
  show ?thesis using r unfolding hailo_vdma_continuous_buffer_free_ioctl_def hailo_vdma_find_continuous_buffer_def
    by (auto split: option.splits result.splits dest!: found intro: step_del_cont [OF K] step_refl)
qed

lemma next_handle:
  "hailo_get_next_vdma_handle c = (vdma_handle (fc_last_vdma_handle c + 1), c\<lparr>fc_last_vdma_handle := fc_last_vdma_handle c + 1\<rparr>)"
  by (simp add: hailo_get_next_vdma_handle_def vdma_handle_def Let_def)

text \<open>A request that fails after it took a handle leaves only the counter changed.\<close>

lemma step_counter:
  assumes "unat (fc_last_vdma_handle c) < 2 ^ 32 - 1" "moves K (w_calls w) {#} leak cs"
  shows "step_ok K c w (c\<lparr>fc_last_vdma_handle := fc_last_vdma_handle c + 1\<rparr>) (w\<lparr>w_calls := cs\<rparr>)"
  using counter_step [OF assms(1)] assms(2) by (intro step_quietI) auto

lemma step_calls: "moves K (w_calls w) {#} leak cs \<Longrightarrow> step_ok K c w c (w\<lparr>w_calls := cs\<rparr>)"
  by (rule step_quietI) auto

lemma desc_create_step:
  assumes K: "kernel_fresh K" "coherent_below_4G K" and n: "unat (fc_last_vdma_handle c) < 2 ^ 32 - 1"
    and r: "hailo_desc_list_create_ioctl K arg out_ok c w = (r, c', w')" "\<not> is_fault r"
  shows "step_ok K c w c' w'"
proof (cases "\<exists>ps p. arg = Some ps \<and> k_kzalloc K (w_calls w) = Some p \<and> (dc_is_circular ps \<longrightarrow> is_powerof2 (dc_desc_count ps)) \<and>
    is_powerof2 (ucast (dc_desc_page_size ps))")
  case False
  then show ?thesis using r unfolding hailo_desc_list_create_ioctl_def Let_def
    by (auto split: option.splits if_splits intro!: step_refl step_calls [OF kzalloc_failed])
next
  case True
  then obtain ps p where a: "arg = Some ps" "k_kzalloc K (w_calls w) = Some p"
    "dc_is_circular ps \<longrightarrow> is_powerof2 (dc_desc_count ps)" "is_powerof2 (ucast (dc_desc_page_size ps))" by blast
  obtain g cs2 where g: "hailo_desc_list_create K (ucast (dc_desc_count ps)) (dc_desc_page_size ps)
      (vdma_handle (fc_last_vdma_handle c + 1)) (dc_is_circular ps) (Kzalloc (Some p) # w_calls w) = (g, cs2)" by fastforce
  note gm = desc_list_create_moves [OF K(2) g]
  show ?thesis
  proof (cases g)
    case (Ok bdl)
    obtain b dl where bdl: "bdl = (b, dl)" by (cases bdl)
    have m: "moves K (Kzalloc (Some p) # w_calls w) {#} (desc_resources b) cs2" "db_handle b = vdma_handle (fc_last_vdma_handle c + 1)"
      using gm Ok bdl by auto
    note undo = kzalloc_undone [OF a(2) moves_trans [OF m(1) desc_list_release_moves]]
    show ?thesis
      using r a g Ok bdl step_add_desc [OF K(1) a(2) n kzalloc_moves [OF a(2) m(1)] m(2)] step_counter [OF n undo]
      by (auto simp: hailo_desc_list_create_ioctl_def next_handle Let_def split: if_splits)
  next
    case (Err e)
    have "moves K (w_calls w) {#} {#} (Kfree p # cs2)" using kzalloc_undone [OF a(2)] gm Err by simp
    from step_counter [OF n this] show ?thesis using r a g Err
      by (auto simp: hailo_desc_list_create_ioctl_def next_handle Let_def split: if_splits)
  qed (use gm in simp)
qed

lemma low_alloc_step:
  assumes K: "kernel_fresh K" and n: "unat (fc_last_vdma_handle c) < 2 ^ 32 - 1"
    and r: "hailo_vdma_low_memory_buffer_alloc_ioctl K arg out_ok c w = (r, c', w')" "\<not> is_fault r"
  shows "step_ok K c w c' w'"
proof (cases "\<exists>ps p. arg = Some ps \<and> k_kzalloc K (w_calls w) = Some p")
  case False
  then show ?thesis using r unfolding hailo_vdma_low_memory_buffer_alloc_ioctl_def Let_def
    by (auto split: option.splits intro!: step_refl step_calls [OF kzalloc_failed])
next
  case True
  then obtain ps p where a: "arg = Some ps" "k_kzalloc K (w_calls w) = Some p" by blast
  obtain g cs2 where g: "hailo_vdma_low_memory_buffer_alloc K (la_buffer_size ps) (Kzalloc (Some p) # w_calls w) = (g, cs2)" by fastforce
  note gm = low_memory_alloc_moves [OF g]
  show ?thesis
  proof (cases g)
    case (Ok b0)
    define b where "b = b0\<lparr>lm_handle := vdma_handle (fc_last_vdma_handle c + 1)\<rparr>"
    have m: "moves K (Kzalloc (Some p) # w_calls w) {#} (low_resources b) cs2" "lm_handle b = vdma_handle (fc_last_vdma_handle c + 1)"
      using gm Ok by (auto simp: b_def low_resources_def)
    note undo = kzalloc_undone [OF a(2) moves_trans [OF m(1) low_memory_free_moves]]
    show ?thesis
      using r a g Ok step_add_low [OF K a(2) n kzalloc_moves [OF a(2) m(1)] m(2)] step_counter [OF n undo]
      unfolding hailo_vdma_low_memory_buffer_alloc_ioctl_def next_handle b_def by (auto simp: Let_def split: if_splits)
  next
    case (Err e)
    have "moves K (w_calls w) {#} {#} (Kfree p # cs2)" using kzalloc_undone [OF a(2)] gm Err by simp
    from step_calls [OF this] show ?thesis using r a g Err
      by (auto simp: hailo_vdma_low_memory_buffer_alloc_ioctl_def Let_def)
  qed (use gm in simp)
qed

lemma cont_alloc_step:
  assumes K: "kernel_fresh K" and n: "unat (fc_last_vdma_handle c) < 2 ^ 32 - 1"
    and r: "hailo_vdma_continuous_buffer_alloc_ioctl K arg out_ok c w = (r, c', w')" "\<not> is_fault r"
  shows "step_ok K c w c' w'"
proof (cases "\<exists>ps p. arg = Some ps \<and> k_kzalloc K (w_calls w) = Some p")
  case False
  then show ?thesis using r unfolding hailo_vdma_continuous_buffer_alloc_ioctl_def Let_def
    by (auto split: option.splits intro!: step_refl step_calls [OF kzalloc_failed])
next
  case True
  then obtain ps p where a: "arg = Some ps" "k_kzalloc K (w_calls w) = Some p" by blast
  obtain g cs2 where
    g: "hailo_vdma_continuous_buffer_alloc K (PAGE_ALIGN (ca_buffer_size ps)) (Kzalloc (Some p) # w_calls w) = (g, cs2)" by fastforce
  note gm = continuous_alloc_moves [OF g]
  show ?thesis
  proof (cases g)
    case (Ok b0)
    define b where "b = b0\<lparr>cb_handle := vdma_handle (fc_last_vdma_handle c + 1)\<rparr>"
    have m: "moves K (Kzalloc (Some p) # w_calls w) {#} (cont_resources b) cs2" "cb_handle b = vdma_handle (fc_last_vdma_handle c + 1)"
      using gm Ok by (auto simp: b_def cont_resources_def)
    note undo = kzalloc_undone [OF a(2) moves_trans [OF m(1) continuous_free_moves]]
    show ?thesis
      using r a g Ok step_add_cont [OF K a(2) n kzalloc_moves [OF a(2) m(1)] m(2)] step_counter [OF n undo]
      unfolding hailo_vdma_continuous_buffer_alloc_ioctl_def next_handle b_def by (auto simp: Let_def split: if_splits)
  next
    case (Err e)
    have "moves K (w_calls w) {#} {#} (Kfree p # cs2)" using kzalloc_undone [OF a(2)] gm Err by simp
    from step_calls [OF this] show ?thesis using r a g Err
      by (auto simp: hailo_vdma_continuous_buffer_alloc_ioctl_def Let_def)
  qed (use gm in simp)
qed

lemma buffer_map_kzalloc:
  assumes "hailo_vdma_buffer_map K a n dir bt low cs = (Ok (p, b), cs')"
  shows "k_kzalloc K cs = Some p"
  using assms unfolding hailo_vdma_buffer_map_def Let_def by (auto split: option.splits result.splits prod.splits)

lemma buffer_resources_handle [simp]: "buffer_resources (b\<lparr>vb_handle := h\<rparr>) = buffer_resources b"
  by (simp add: buffer_resources_def split: option.splits)

lemma step_forget_buffer:
  assumes K: "kernel_fresh K" "k_kzalloc K (w_calls w) = Some p" and n: "unat (fc_last_vdma_user_buffer_handle c) < 2 ^ 32 - 1"
    and m: "moves K (w_calls w) {#} leak cs'"
  shows "step_ok K c w (c\<lparr>fc_last_vdma_user_buffer_handle := fc_last_vdma_user_buffer_handle c + 1\<rparr>)
    (w\<lparr>w_buffers := (w_buffers w)(p := None), w_calls := cs'\<rparr>)" (is "step_ok K c w ?c ?w")
proof (rule step_okI)
  fix rest assume h: "holds K c w rest"
  note fr = holds_fresh [OF K(1) h K(2)] and le = less_imp_le [OF conjunct1 [OF counter_step [OF n]]]
  have t: "table_ok vb_handle scast (fc_last_vdma_user_buffer_handle c + 1) (fc_mapped_user_buffer_list c) ((w_buffers w)(p := None))"
    using h fr(2) table_mono [OF file_ok_tables(1) le, of w]
    by (subst table_cong [where hp' = "w_buffers w"]) (auto simp: holds_def)
  have f: "file_ok ?c ?w" using h t fr(2) by (auto simp: file_ok_def holds_def)
  have "list_resources buffer_resources (fc_mapped_user_buffer_list c) ((w_buffers w)(p := None)) =
      list_resources buffer_resources (fc_mapped_user_buffer_list c) (w_buffers w)" using fr(2) by (intro list_resources_cong) auto
  then have "file_resources ?c ?w = file_resources c w" by (simp add: file_resources_def)
  then show "holds K ?c ?w (leak + rest)"
    by (intro holds_moved [OF h _ _ _ f, of "{#}" leak "file_resources c w"]) (use m in \<open>auto simp: ac_simps\<close>)
  show "same_elsewhere rest w ?w" using fr(1) by (auto simp: same_elsewhere_def)
qed

lemma buffer_map_step:
  assumes K: "kernel_fresh K" and n: "unat (fc_last_vdma_user_buffer_handle c) < 2 ^ 32 - 1"
    and r: "hailo_vdma_buffer_map_ioctl K arg out_ok c w = (r, c', w')" "\<not> is_fault r"
  shows "step_ok K c w c' w'"
proof (cases "\<exists>ps low. arg = Some ps \<and> get_dma_direction (bm_data_direction ps) \<noteq> DMA_NONE \<and>
    hailo_vdma_find_low_memory_buffer (fc_vdma_low_memory_buffer_list c) (w_low_buffers w) (bm_allocated_buffer_handle ps) = Ok low")
  case False
  then show ?thesis using r unfolding hailo_vdma_buffer_map_ioctl_def Let_def
    by (auto split: option.splits result.splits if_splits intro!: step_refl)
next
  case True
  then obtain ps low where a: "arg = Some ps" "get_dma_direction (bm_data_direction ps) \<noteq> DMA_NONE"
    "hailo_vdma_find_low_memory_buffer (fc_vdma_low_memory_buffer_list c) (w_low_buffers w) (bm_allocated_buffer_handle ps) = Ok low" by blast
  obtain g cs where g: "hailo_vdma_buffer_map K (bm_user_address ps) (bm_size ps) (get_dma_direction (bm_data_direction ps))
      (bm_buffer_type ps) (map_option snd low) (w_calls w) = (g, cs)" by fastforce
  note gm = buffer_map_moves [OF g]
  show ?thesis
  proof (cases g)
    case (Ok pb)
    obtain p b0 where pb: "pb = (p, b0)" by (cases pb)
    define b where "b = b0\<lparr>vb_handle := scast (fc_last_vdma_user_buffer_handle c + 1)\<rparr>"
    have kz: "k_kzalloc K (w_calls w) = Some p" using buffer_map_kzalloc g Ok pb by blast
    obtain leak where m: "moves K (w_calls w) {#} (add_mset (Struct p) (buffer_resources b) + leak) cs" "vb_kref b = 1"
        "vb_handle b = scast (fc_last_vdma_user_buffer_handle c + 1)" "vb_kref b0 = 1"
      using gm Ok pb by (auto simp: b_def)
    have "moves K (w_calls w) {#} leak (unmap_buffer K p b cs)"
      using moves_after [OF m(1) unmap_buffer_moves] by simp
    from step_forget_buffer [OF K kz n this] show ?thesis
      using r a g Ok pb m(4) step_add_buffer [OF K kz n m(1) m(3) m(2)]
      unfolding hailo_vdma_buffer_map_ioctl_def b_def by (auto simp: Let_def hailo_vdma_buffer_put_def split: if_splits)
  next
    case (Err e)
    then obtain leak where "moves K (w_calls w) {#} leak cs" using gm by auto
    from step_calls [OF this] show ?thesis using r a g Err by (auto simp: hailo_vdma_buffer_map_ioctl_def Let_def)
  qed (use r a g in \<open>auto simp: hailo_vdma_buffer_map_ioctl_def Let_def\<close>)
qed

end
