(* ===== verification/Vdma_Requests.thy ===== *)
theory Vdma_Requests
  imports Vdma_Files
begin

text \<open>
  Every vDMA request keeps the invariant of its file. The requests that work on engines and channels leave the structures of
  the files alone: they change descriptors, never which lists exist, and make no call that acquires or releases a resource.
\<close>

section \<open>Engines keep the set of descriptor lists\<close>

definition same_lists :: "dl_store \<Rightarrow> dl_store \<Rightarrow> bool" where
  "same_lists dls dls' \<longleftrightarrow> (\<forall>p. dls' p = None \<longleftrightarrow> dls p = None)"

lemma same_lists_refl [simp]: "same_lists dls dls"
  by (simp add: same_lists_def)

lemma same_lists_trans: "same_lists a b \<Longrightarrow> same_lists b c \<Longrightarrow> same_lists a c"
  by (simp add: same_lists_def)

lemma same_lists_update: "dls p = Some dl \<Longrightarrow> same_lists dls (dls(p \<mapsto> dl'))"
  by (auto simp: same_lists_def)

lemma clear_dirty_loop_same_lists: "clear_dirty_loop xs lst dls = Ok dls' \<Longrightarrow> same_lists dls dls'"
proof (induction xs arbitrary: dls)
  case (Cons x xs)
  then obtain dl dl1 where d: "deref_list dls lst = Ok dl" "clear_dirty_loop xs lst (dls(the lst \<mapsto> dl1)) = Ok dls'"
    by (auto simp: bind_r_eq_Ok)
  then have "dls (the lst) = Some dl" by (auto simp: deref_list_def split: option.splits)
  then have "same_lists dls (dls(the lst \<mapsto> dl1))" by (auto simp: same_lists_def)
  then show ?case using Cons.IH [OF d(2)] same_lists_trans by blast
qed simp

lemma clear_dirty_descs_same_lists: "clear_dirty_descs ch t dls = Ok dls' \<Longrightarrow> same_lists dls dls'"
  by (auto simp: clear_dirty_descs_def intro: clear_dirty_loop_same_lists split: if_splits)

lemma drain_transfers_same_lists: "drain_transfers n ch dls = Ok (ch', dls') \<Longrightarrow> same_lists dls dls'"
proof (induction n arbitrary: ch dls)
  case (Suc n)
  then show ?case
    by (auto simp: bind_r_eq_Ok Let_def split: if_splits result.splits prod.splits
        dest!: clear_dirty_descs_same_lists intro: same_lists_trans)
qed simp

lemma disable_channel_same_lists: "disable_channel ch dls = Ok (ch', dls') \<Longrightarrow> same_lists dls dls'"
  by (auto simp: disable_channel_def bind_r_eq_Ok dest: drain_transfers_same_lists)

lemma disable_loop_same_lists: "disable_loop b i chs dls = Ok (chs', dls') \<Longrightarrow> same_lists dls dls'"
proof (induction chs arbitrary: i dls chs')
  case (Cons ch chs)
  then show ?case
    by (auto simp: bind_r_eq_Ok split: if_splits dest!: disable_channel_same_lists intro: same_lists_trans)
qed simp

lemma engine_disable_same_lists: "hailo_vdma_engine_disable_channels b en dls = Ok (en', dls') \<Longrightarrow> same_lists dls dls'"
  by (auto simp: hailo_vdma_engine_disable_channels_def bind_r_eq_Ok dest: disable_loop_same_lists)

text \<open>Collecting completed transfers, for a callback whose effect on its state is within a preorder \<open>R\<close>.\<close>

lemma complete_transfers_effect:
  assumes R: "\<And>t s. R s (td t s)" "\<And>s. R s s" "\<And>a b c. R a b \<Longrightarrow> R b c \<Longrightarrow> R a c"
    and r: "complete_transfers n np td cnt v dbg ch dls s = Ok (cnt', v', dbg', ch', dls', s')"
  shows "same_lists dls dls' \<and> R s s'"
  using r
proof (induction n arbitrary: cnt v dbg ch dls s)
  case (Suc n)
  show ?case
  proof (cases "same_lists dls dls' \<and> s' = s")
    case False
    obtain x1 ring where pop: "ongoing_transfer_pop False (ch_ongoing_transfers ch) = (x1, ring)" by fastforce
    obtain cur dls1 cnt1 v2 dbg1 ch1 where "clear_dirty_descs ch cur dls = Ok dls1"
        "complete_transfers n np td cnt1 v2 dbg1 ch1 dls1 (td cur s) = Ok (cnt', v', dbg', ch', dls', s')"
      using Suc.prems False by (auto simp: bind_r_eq_Ok Let_def pop split: if_splits)
    then show ?thesis using Suc.IH clear_dirty_descs_same_lists same_lists_trans R(1,3) by blast
  qed (simp add: R(2))
qed (auto simp: R)

lemma fill_channel_effect:
  assumes R: "\<And>t s. R s (td t s)" "\<And>s. R s s" "\<And>a b c. R a b \<Longrightarrow> R b c \<Longrightarrow> R a c"
    and r: "fill_channel_irq_data io i ch td dls s d = (Ok (irq, ch', dls', s'), d')"
  shows "same_lists dls dls' \<and> R s s'"
  using r complete_transfers_effect [where R = R and td = td, OF R]
  unfolding fill_channel_irq_data_def by (auto simp: Let_def split: result.splits prod.splits)

lemma fill_irq_loop_effect:
  assumes R: "\<And>t s. R s (td t s)" "\<And>s. R s s" "\<And>a b c. R a b \<Longrightarrow> R b c \<Longrightarrow> R a c"
    and r: "fill_irq_loop n io td b irq en dls s d = (Ok (irq', en', dls', s'), d')"
  shows "same_lists dls dls' \<and> R s s'"
  using r
proof (induction n arbitrary: b irq en dls s d)
  case (Suc n)
  show ?case
  proof (cases "b = 0")
    case False
    define i where "i = ctz32 b"
    show ?thesis
    proof (cases "array_get (en_channels en) i")
      case (Ok ch)
      show ?thesis
      proof (cases "ch_last_desc_list ch = None")
        case True
        then show ?thesis using Suc.prems False Ok Suc.IH by (auto simp: i_def)
      next
        case act: False
        obtain g d1 where g: "fill_channel_irq_data io (en_index en) ch td dls s d = (g, d1)" by fastforce
        show ?thesis
        proof (cases g)
          case o: (Ok q)
          obtain e ch1 dls1 s1 where q: "q = (e, ch1, dls1, s1)" by (cases q)
          have "same_lists dls dls1 \<and> R s s1"
            by (rule fill_channel_effect [where R = R and td = td, OF R]) (use g o q in auto)
          moreover have "same_lists dls1 dls' \<and> R s1 s'"
            using Suc.prems False Ok act g o q by (auto simp: i_def Let_def split: if_splits dest: Suc.IH)
          ultimately show ?thesis using R(3) same_lists_trans by blast
        qed (use Suc.prems False Ok act g in \<open>auto simp: i_def Let_def split: if_splits\<close>)
      qed
    qed (use Suc.prems False in \<open>auto simp: i_def\<close>)
  qed (use Suc.prems R in auto)
qed (auto simp: R)

section \<open>Calls\<close>

lemma sync_entries_moves: "moves K cs0 {#} {#} cs \<Longrightarrow> moves K cs0 {#} {#} (sync_entries st dir a b cur es cs)"
proof (induction es arbitrary: cur cs)
  case (Cons e es)
  obtain x n where e: "e = (x, n)" by (cases e)
  have "moves K cs0 {#} {#} (Dma_sync_single st x n dir # cs)" using Cons.prems by (rule moves_quiet) simp_all
  then show ?case using Cons by (simp add: e)
qed simp

lemma buffer_sync_moves: "moves K cs {#} {#} (hailo_vdma_buffer_sync K b st off n cs)"
  unfolding hailo_vdma_buffer_sync_def vdma_sync_entire_buffer_def vdma_sync_buffer_interval_def
  by (auto intro: sync_entries_moves moves_refl moves_first)

definition quiet :: "kernel \<Rightarrow> calls result \<Rightarrow> calls result \<Rightarrow> bool" where
  "quiet K r r' \<longleftrightarrow> (\<forall>cs'. r' = Ok cs' \<longrightarrow> (\<exists>cs. r = Ok cs \<and> moves K cs {#} {#} cs'))"

lemma quiet_refl: "quiet K r r"
  by (auto simp: quiet_def)

lemma quiet_trans:
  assumes "quiet K a b" "quiet K b c"
  shows "quiet K a c"
  unfolding quiet_def
proof (intro allI impI)
  fix cs' assume "c = Ok cs'"
  then obtain cs1 where "b = Ok cs1" "moves K cs1 {#} {#} cs'" using assms(2) by (auto simp: quiet_def)
  moreover from this(1) obtain cs where "a = Ok cs" "moves K cs {#} {#} cs1" using assms(1) by (auto simp: quiet_def)
  ultimately show "\<exists>cs. a = Ok cs \<and> moves K cs {#} {#} cs'" using moves_trans by blast
qed

lemma for_each_induct:
  assumes "for_each body is s = Ok s'" "P s" "\<And>i s s'. i \<in> set is \<Longrightarrow> P s \<Longrightarrow> body i s = Ok s' \<Longrightarrow> P s'"
  shows "P s'"
  using assms
proof (induction "is" arbitrary: s)
  case (Cons i "is")
  obtain s1 where s1: "body i s = Ok s1" "for_each body is s1 = Ok s'" using Cons.prems(1) by (auto simp: bind_r_eq_Ok)
  show ?case
  proof (rule Cons.IH [OF s1(2)])
    show "P s1" by (rule Cons.prems(3) [OF _ Cons.prems(2) s1(1)]) simp
  next
    fix j t t' assume "j \<in> set is" "P t" "body j t = Ok t'"
    then show "P t'" using Cons.prems(3) [of j t t'] by simp
  qed
qed simp

lemma transfer_done_quiet: "quiet K r (transfer_done K bufs t r)"
proof -
  have "moves K cs {#} {#} cs'"
    if "for_each (\<lambda>i cs. bind_r (array_get (ot_buffers t) i) (\<lambda>tb. transfer_done_buffer K bufs tb cs)) is cs = Ok cs'" for "is" cs cs'
    by (rule for_each_induct [OF that, of "\<lambda>x. moves K cs {#} {#} x"])
      (auto simp: bind_r_eq_Ok transfer_done_buffer_def split: option.splits intro: moves_trans buffer_sync_moves)
  then show ?thesis by (auto simp: quiet_def transfer_done_def bind_r_eq_Ok)
qed

section \<open>Requests on engines and channels\<close>

definition world_quiet :: "kernel \<Rightarrow> ('d, 'x) vdma_world_scheme \<Rightarrow> ('d, 'x) vdma_world_scheme \<Rightarrow> bool" where
  "world_quiet K w w' \<longleftrightarrow> w_buffers w' = w_buffers w \<and> w_desc_buffers w' = w_desc_buffers w \<and> w_low_buffers w' = w_low_buffers w \<and>
     w_cont_buffers w' = w_cont_buffers w \<and> same_lists (w_lists w) (w_lists w') \<and> moves K (w_calls w) {#} {#} (w_calls w')"

definition same_file :: "hailo_vdma_file_context \<Rightarrow> hailo_vdma_file_context \<Rightarrow> bool" where
  "same_file c c' \<longleftrightarrow> (\<exists>b. c' = c\<lparr>fc_enabled_channels_bitmap := b\<rparr>)"

lemma world_quiet_refl [simp]: "world_quiet K w w"
  by (auto simp: world_quiet_def)

lemma world_quiet_trans: "world_quiet K a b \<Longrightarrow> world_quiet K b c \<Longrightarrow> world_quiet K a c"
  using same_lists_trans moves_trans unfolding world_quiet_def by metis

lemma same_file_refl [simp]: "same_file c c"
  unfolding same_file_def by (rule exI [of _ "fc_enabled_channels_bitmap c"]) simp

lemma same_file_trans: "same_file a b \<Longrightarrow> same_file b c \<Longrightarrow> same_file a c"
  by (auto simp: same_file_def)

lemma world_quiet_updates [simp]:
  "world_quiet K w (w'\<lparr>w_device := d\<rparr>) \<longleftrightarrow> world_quiet K w w'"
  "world_quiet K w (w'\<lparr>w_controller := x\<rparr>) \<longleftrightarrow> world_quiet K w w'"
  "world_quiet K w (set_engine i e w') \<longleftrightarrow> world_quiet K w w'"
  "world_quiet K (set_engine i e w) w' \<longleftrightarrow> world_quiet K w w'"
  "world_quiet K (up_mutex w) w' \<longleftrightarrow> world_quiet K w w'"
  "world_quiet K w (up_mutex w') \<longleftrightarrow> world_quiet K w w'"
  "world_quiet K w (w'\<lparr>w_board_mutex := n\<rparr>) \<longleftrightarrow> world_quiet K w w'"
  by (auto simp: world_quiet_def set_engine_def up_mutex_def)

lemma quiet_step: "same_file c c' \<Longrightarrow> world_quiet K w w' \<Longrightarrow> step_ok K c w c' w'"
  by (auto simp: same_file_def world_quiet_def same_lists_def intro!: step_quietI)

lemma update_mask_quiet: "hailo_vdma_update_interrupts_mask i w = Ok w' \<Longrightarrow> world_quiet K w w'"
  by (auto simp: hailo_vdma_update_interrupts_mask_def bind_r_eq_Ok)

lemma disable_engine_channels_quiet:
  assumes "disable_engine_channels up i b w = Ok w'"
  shows "world_quiet K w w'"
proof -
  obtain en en1 dls w2 where d: "hailo_vdma_engine_disable_channels b en (w_lists w) = Ok (en1, dls)"
    "(if up then hailo_vdma_update_interrupts_mask i ((set_engine i en1 w)\<lparr>w_lists := dls\<rparr>) else Ok ((set_engine i en1 w)\<lparr>w_lists := dls\<rparr>)) = Ok w2"
    "w' = set_engine i (hailo_vdma_engine_clear_channel_interrupts b en1) w2"
    using assms by (auto simp: disable_engine_channels_def bind_r_eq_Ok Let_def)
  have "world_quiet K w ((set_engine i en1 w)\<lparr>w_lists := dls\<rparr>)"
    using engine_disable_same_lists [OF d(1)] by (auto simp: world_quiet_def set_engine_def)
  moreover have "world_quiet K ((set_engine i en1 w)\<lparr>w_lists := dls\<rparr>) w2"
    using d(2) update_mask_quiet by (auto split: if_splits)
  ultimately show ?thesis using d(3) world_quiet_trans by auto
qed

lemma wake_up_quiet [simp]: "world_quiet K w w' \<Longrightarrow> world_quiet K w (w'\<lparr>w_calls := Wake_up_interrupts # w_calls w'\<rparr>)"
  by (auto simp: world_quiet_def intro: moves_quiet)

lemma enable_channels_quiet:
  assumes "hailo_vdma_enable_channels_ioctl arg c w = Ok (c', w')"
  shows "same_file c c' \<and> world_quiet K w w'"
proof -
  obtain input where "for_each (enable_engine input) [0..<length (engines w)] (c, w) = Ok (c', w')"
    using assms by (auto simp: hailo_vdma_enable_channels_ioctl_def bind_r_eq_Ok split: option.splits if_splits)
  then have "case (c', w') of (c', w') \<Rightarrow> same_file c c' \<and> world_quiet K w w'"
  proof (rule for_each_induct)
    fix i s s' assume s: "case s of (c', w') \<Rightarrow> same_file c c' \<and> world_quiet K w w'" and e: "enable_engine input i s = Ok s'"
    obtain c1 w1 where s1: "s = (c1, w1)" by (cases s)
    from e show "case s' of (c', w') \<Rightarrow> same_file c c' \<and> world_quiet K w w'"
      using s unfolding s1 by (auto simp: enable_engine_def bind_r_eq_Ok Let_def same_file_def
        dest!: update_mask_quiet [of _ _ _ K] intro: world_quiet_trans)
  qed simp
  then show ?thesis by simp
qed

lemma disable_channels_quiet:
  assumes "hailo_vdma_disable_channels_ioctl arg c w = Ok (c', w')"
  shows "same_file c c' \<and> world_quiet K w w'"
proof -
  obtain bs w1 where f: "for_each (disable_engine bs) [0..<length (engines w)] (c, w) = Ok (c', w1)"
    "w' = w1\<lparr>w_calls := Wake_up_interrupts # w_calls w1\<rparr>"
    using assms by (auto simp: hailo_vdma_disable_channels_ioctl_def bind_r_eq_Ok split: option.splits)
  from f(1) have "case (c', w1) of (c', w') \<Rightarrow> same_file c c' \<and> world_quiet K w w'"
  proof (rule for_each_induct)
    fix i s s' assume s: "case s of (c', w') \<Rightarrow> same_file c c' \<and> world_quiet K w w'" and e: "disable_engine bs i s = Ok s'"
    obtain c1 w2 where s1: "s = (c1, w2)" by (cases s)
    from e show "case s' of (c', w') \<Rightarrow> same_file c c' \<and> world_quiet K w w'"
      using s unfolding s1 by (auto simp: disable_engine_def bind_r_eq_Ok Let_def same_file_def
        dest!: disable_engine_channels_quiet [of _ _ _ _ _ K] intro: world_quiet_trans)
  qed simp
  then show ?thesis using f(2) by simp
qed

lemma wait_collect_quiet:
  assumes "wait_collect_engine io K i (ps, w) = Ok (ps', w')"
  shows "world_quiet K w w'"
proof -
  obtain en req where e: "array_get (engines w) i = Ok en"
      "array_get (wp_channels_bitmap_per_engine ps) (unat (en_index en)) = Ok req"
    using assms by (auto simp: wait_collect_engine_def bind_r_eq_Ok)
  obtain irqs en1 where ri: "hailo_vdma_engine_read_interrupts req en = (irqs, en1)" by fastforce
  obtain q d where q: "fill_irq_loop 32 io (transfer_done K (w_buffers w)) irqs ps en1 (w_lists w) (Ok (w_calls w)) (w_device w) = (q, d)"
    by fastforce
  obtain en2 dls cs where f: "q = Ok (ps', en2, dls, Ok cs)" "w' = (set_engine i en2 w)\<lparr>w_lists := dls, w_calls := cs, w_device := d\<rparr>"
    using assms e ri q by (auto simp: wait_collect_engine_def bind_r_eq_Ok hailo_vdma_engine_fill_irq_data_def)
  have "same_lists (w_lists w) dls \<and> quiet K (Ok (w_calls w)) (Ok cs)"
    by (rule fill_irq_loop_effect [where R = "quiet K" and td = "transfer_done K (w_buffers w)", OF transfer_done_quiet quiet_refl quiet_trans])
      (use q f(1) in auto)
  then show ?thesis using f(2) by (auto simp: world_quiet_def set_engine_def quiet_def)
qed

lemma wait_collects_quiet:
  assumes "for_each (wait_collect_engine io K) is (ps, w) = Ok (ps1, w1)"
  shows "world_quiet K w w1"
proof -
  from assms have "world_quiet K w (snd (ps1, w1))"
  proof (rule for_each_induct)
    fix i s s' assume s: "world_quiet K w (snd s)" and e: "wait_collect_engine io K i s = Ok s'"
    obtain a b a' b' where "s = (a, b)" "s' = (a', b')" by (cases s, cases s') auto
    then show "world_quiet K w (snd s')" using s e wait_collect_quiet world_quiet_trans by fastforce
  qed simp
  then show ?thesis by simp
qed

lemma wait_quiet:
  assumes "hailo_vdma_interrupts_wait_ioctl io K arg (Pair answer) down_ok out_ok w = (r, w', up)"
  shows "world_quiet K w w'"
  using assms wait_collects_quiet [of io K] unfolding hailo_vdma_interrupts_wait_ioctl_def
  by (auto split: option.splits result.splits if_splits prod.splits)

lemma timestamps_quiet: "hailo_vdma_interrupts_read_timestamps_ioctl arg out_ok w = (r, w') \<Longrightarrow> world_quiet K w w'"
  by (auto simp: hailo_vdma_interrupts_read_timestamps_ioctl_def Let_def split: option.splits result.splits if_splits prod.splits)

lemma sync_quiet: "hailo_vdma_buffer_sync_ioctl K arg c w = (r, w') \<Longrightarrow> world_quiet K w w'"
  by (auto simp: hailo_vdma_buffer_sync_ioctl_def world_quiet_def intro: buffer_sync_moves
      split: option.splits result.splits if_splits prod.splits)

lemma mark_quiet: "hailo_mark_as_in_use filp out_ok w = (r, w') \<Longrightarrow> world_quiet K w w'"
  by (auto simp: hailo_mark_as_in_use_def split: if_splits)

lemma program_quiet: "hailo_desc_list_program_ioctl arg c w = (r, w') \<Longrightarrow> world_quiet K w w'"
  by (auto simp: hailo_desc_list_program_ioctl_def world_quiet_def same_lists_def
      split: option.splits result.splits if_splits prod.splits)

lemma find_buffer_moves: "launch_find_buffer K ps bufs dir xb cs = (r, cs') \<Longrightarrow> moves K cs {#} {#} cs'"
  by (auto simp: launch_find_buffer_def Let_def intro: buffer_sync_moves split: option.splits result.splits if_splits)

lemma find_buffers_moves: "launch_find_buffers K ps bufs dir xbs cs = (r, cs') \<Longrightarrow> moves K cs {#} {#} cs'"
proof (induction xbs arbitrary: cs r)
  case (Cons xb xbs)
  then show ?case
    by (auto split: result.splits prod.splits dest!: find_buffer_moves intro: moves_trans)
qed auto

lemma launch_quiet:
  assumes "hailo_vdma_launch_transfer_ioctl io K arg c w = (r, w')"
  shows "world_quiet K w w'"
  using assms unfolding hailo_vdma_launch_transfer_ioctl_def
  by (auto simp: Let_def world_quiet_def set_engine_def same_lists_def dest!: find_buffers_moves
      split: option.splits result.splits if_splits prod.splits)

end
