(* ===== verification/Vdma_Session.thy ===== *)
theory Vdma_Session
  imports Vdma_Requests
begin

text \<open>
  Sessions: files are opened, send requests in any order and are closed, while the device interrupts and changes its
  registers. In every state that can be reached, each file's handles name live structures of its own, and the kernel's
  resources behind them are held; closing a file gives back exactly the resources of that file.
\<close>

definition zero_context :: hailo_vdma_file_context where
  "zero_context = \<lparr> fc_last_vdma_user_buffer_handle = 0, fc_mapped_user_buffer_list = [], fc_last_vdma_handle = 0,
     fc_descriptors_buffer_list = [], fc_vdma_low_memory_buffer_list = [], fc_continuous_buffer_list = [],
     fc_enabled_channels_bitmap = replicate MAX_VDMA_ENGINES 0 \<rparr>"

type_synonym files = "(ptr \<times> hailo_vdma_file_context) list"

text \<open>The two handle counters of a file have not wrapped around.\<close>

definition counters_left :: "hailo_vdma_file_context \<Rightarrow> bool" where
  "counters_left c \<longleftrightarrow> unat (fc_last_vdma_user_buffer_handle c) < 2 ^ 32 - 1 \<and> unat (fc_last_vdma_handle c) < 2 ^ 32 - 1"

text \<open>
  One step. A request to wait for interrupts is taken at the moment it wakes up: what other threads do while it sleeps are
  steps before it. Steps that fault are not steps: the kernel does not continue after them.
\<close>

inductive vdma_step :: "'d mmio \<Rightarrow> kernel \<Rightarrow> files \<times> ('d, 'x) vdma_world_scheme \<Rightarrow> files \<times> ('d, 'x) vdma_world_scheme \<Rightarrow> bool" for io K where
  open_file: "f \<notin> fst ` set files \<Longrightarrow>
    vdma_step io K (files, w) ((f, hailo_vdma_file_context_init zero_context) # files, w)"
| request: "counters_left c \<Longrightarrow> hailo_vdma_ioctl io K f out_ok (Pair answer) down_ok req c w = (r, c', w', up) \<Longrightarrow> \<not> is_fault r \<Longrightarrow>
    vdma_step io K (as @ (f, c) # bs, w) (as @ (f, c') # bs, w')"
| interrupt: "hailo_vdma_irq_handler io clock i bitmap w = Ok w' \<Longrightarrow> vdma_step io K (files, w) (files, w')"
| device: "vdma_step io K (files, w) (files, w\<lparr>w_device := d\<rparr>)"
| close_file: "hailo_vdma_file_context_finalize K c f w = Ok (c', w') \<Longrightarrow> vdma_step io K (as @ (f, c) # bs, w) (as @ bs, w')"

inductive reachable :: "'d mmio \<Rightarrow> kernel \<Rightarrow> files \<times> ('d, 'x) vdma_world_scheme \<Rightarrow> bool" for io K where
  start: "w_calls w = [] \<Longrightarrow> reachable io K ([], w)"
| step: "reachable io K s \<Longrightarrow> vdma_step io K s s' \<Longrightarrow> reachable io K s'"

definition total_resources :: "files \<Rightarrow> ('d, 'x) vdma_world_scheme \<Rightarrow> resource multiset" where
  "total_resources files w = (\<Sum>(f, c)\<leftarrow>files. file_resources c w)"

definition files_inv :: "kernel \<Rightarrow> files \<Rightarrow> ('d, 'x) vdma_world_scheme \<Rightarrow> resource multiset \<Rightarrow> bool" where
  "files_inv K files w leak \<longleftrightarrow> distinct (map fst files) \<and> (\<forall>(f, c) \<in> set files. file_ok c w) \<and>
     granted K (w_calls w) \<and> ledger (w_calls w) = Some (total_resources files w + leak)"

section \<open>One file among others\<close>

lemma total_resources_append: "total_resources (as @ bs) w = total_resources as w + total_resources bs w"
  by (simp add: total_resources_def)

lemma total_resources_Cons: "total_resources ((f, c) # files) w = file_resources c w + total_resources files w"
  by (simp add: total_resources_def)

lemma file_same_elsewhere:
  assumes s: "same_elsewhere (file_resources c w) w w'"
  shows "file_resources c w' = file_resources c w" "file_ok c w' \<longleftrightarrow> file_ok c w"
proof -
  have p: "w_buffers w' p = w_buffers w p \<and> w_desc_buffers w' p = w_desc_buffers w p \<and> w_low_buffers w' p = w_low_buffers w p \<and>
     w_cont_buffers w' p = w_cont_buffers w p \<and> (w_lists w' p = None \<longleftrightarrow> w_lists w p = None)"
    if "p \<in> set (fc_mapped_user_buffer_list c) \<or> p \<in> set (fc_descriptors_buffer_list c) \<or>
      p \<in> set (fc_vdma_low_memory_buffer_list c) \<or> p \<in> set (fc_continuous_buffer_list c)" for p
    using s in_file_resources [OF that, of w] unfolding same_elsewhere_def by blast
  show "file_resources c w' = file_resources c w"
    unfolding file_resources_def using p by (intro arg_cong2 [where f = "(+)"] list_resources_cong) auto
  have "table_ok vb_handle scast n (fc_mapped_user_buffer_list c) (w_buffers w') =
      table_ok vb_handle scast n (fc_mapped_user_buffer_list c) (w_buffers w)"
    "table_ok db_handle mk n (fc_descriptors_buffer_list c) (w_desc_buffers w') =
      table_ok db_handle mk n (fc_descriptors_buffer_list c) (w_desc_buffers w)"
    "table_ok lm_handle mk n (fc_vdma_low_memory_buffer_list c) (w_low_buffers w') =
      table_ok lm_handle mk n (fc_vdma_low_memory_buffer_list c) (w_low_buffers w)"
    "table_ok cb_handle mk n (fc_continuous_buffer_list c) (w_cont_buffers w') =
      table_ok cb_handle mk n (fc_continuous_buffer_list c) (w_cont_buffers w)" for mk n
    using p by (intro table_cong; auto)+
  then show "file_ok c w' \<longleftrightarrow> file_ok c w" unfolding file_ok_def using p by auto
qed

lemma same_elsewhere_mono: "same_elsewhere rest w w' \<Longrightarrow> rest' \<subseteq># rest \<Longrightarrow> same_elsewhere rest' w w'"
  unfolding same_elsewhere_def by (meson mset_subset_eqD)

lemma total_same_elsewhere:
  "same_elsewhere (total_resources files w) w w' \<Longrightarrow>
    total_resources files w' = total_resources files w \<and> ((\<forall>(f, c) \<in> set files. file_ok c w') \<longleftrightarrow> (\<forall>(f, c) \<in> set files. file_ok c w))"
proof (induction files)
  case (Cons fc files)
  obtain f c where fc: "fc = (f, c)" by (cases fc)
  have "same_elsewhere (file_resources c w) w w'" "same_elsewhere (total_resources files w) w w'"
    using Cons.prems by (auto simp: fc total_resources_Cons elim: same_elsewhere_mono)
  then show ?case using Cons.IH file_same_elsewhere [of c w w'] by (auto simp: fc total_resources_Cons)
qed (simp add: total_resources_def)

lemma files_inv_split:
  "files_inv K (as @ (f, c) # bs) w leak \<longleftrightarrow>
     holds K c w (total_resources (as @ bs) w + leak) \<and> distinct (map fst (as @ (f, c) # bs)) \<and> (\<forall>(f, c) \<in> set (as @ bs). file_ok c w)"
  by (auto simp: files_inv_def holds_def total_resources_append total_resources_Cons ac_simps)

lemma files_inv_step:
  assumes i: "files_inv K (as @ (f, c) # bs) w leak" and s: "step_ok K c w c' w'"
  shows "\<exists>more. files_inv K (as @ (f, c') # bs) w' (more + leak)"
proof -
  let ?rest = "total_resources (as @ bs) w + leak"
  have h: "holds K c w ?rest" and d: "distinct (map fst (as @ (f, c) # bs))" and o: "\<forall>(f, c) \<in> set (as @ bs). file_ok c w"
    using i unfolding files_inv_split by blast+
  from s h obtain leak' where l: "holds K c' w' (leak' + ?rest)" "same_elsewhere ?rest w w'" unfolding step_ok_def by blast
  from same_elsewhere_mono [OF l(2), of "total_resources (as @ bs) w"]
  have t: "total_resources (as @ bs) w' = total_resources (as @ bs) w" "\<forall>(f, c) \<in> set (as @ bs). file_ok c w'"
    using total_same_elsewhere [of "as @ bs" w w'] o by auto
  show ?thesis unfolding files_inv_split
    using l(1) d t by (intro exI [of _ leak']) (simp add: ac_simps)
qed

section \<open>Requests\<close>

lemma vdma_ioctl_step:
  assumes K: "kernel_fresh K" "coherent_below_4G K" and c: "counters_left c"
    and r: "hailo_vdma_ioctl io K f out_ok (Pair answer) down_ok req c w = (r, c', w', up)" "\<not> is_fault r"
  shows "step_ok K c w c' w'"
proof -
  have n: "unat (fc_last_vdma_user_buffer_handle c) < 2 ^ 32 - 1" "unat (fc_last_vdma_handle c) < 2 ^ 32 - 1"
    using c by (simp_all add: counters_left_def)
  have cw: "step_ok K c w c' w'" if "reply_cw g h = (r, c', w', up)" "\<And>x. h = (x, c', w') \<Longrightarrow> \<not> is_fault x \<Longrightarrow> step_ok K c w c' w'" for g h
  proof (cases h)
    case (fields x c1 w1)
    then show ?thesis using that r(2) by (cases x) (auto simp: reply_cw_def)
  qed
  have ww: "step_ok K c w c' w'" if "reply_w g c h = (r, c', w', up)" "\<And>x. h = (x, w') \<Longrightarrow> world_quiet K w w'" for g h
  proof (cases h)
    case (Pair x w1)
    then have "c' = c" "w1 = w'" using that(1) by (auto simp: reply_w_def)
    then show ?thesis using that(2) [of x] Pair quiet_step [OF same_file_refl] by blast
  qed
  have st: "step_ok K c w c' w'" if "reply_state c w h = (r, c', w', up)" "h = Ok (c', w') \<Longrightarrow> same_file c c' \<and> world_quiet K w w'" for h
  proof (cases h)
    case (Ok x)
    then have "x = (c', w')" using that(1) by (auto simp: reply_state_def split: prod.splits)
    then show ?thesis using that(2) Ok quiet_step by blast
  qed (use that(1) step_refl in \<open>auto simp: reply_state_def\<close>)
  show ?thesis
  proof (cases req)
    case (HAILO_VDMA_INTERRUPTS_WAIT a)
    then obtain x where x: "hailo_vdma_interrupts_wait_ioctl io K a (Pair answer) down_ok out_ok w = (x, w', up)" "c' = c"
      using r by (auto split: prod.splits)
    show ?thesis unfolding x(2) by (rule quiet_step [OF same_file_refl wait_quiet [OF x(1)]])
  next
    case (HAILO_VDMA_ENABLE_CHANNELS a)
    show ?thesis by (rule st [of "hailo_vdma_enable_channels_ioctl a c w"]) (use r HAILO_VDMA_ENABLE_CHANNELS in \<open>auto dest: enable_channels_quiet [of _ _ _ _ _ K]\<close>)
  next
    case (HAILO_VDMA_DISABLE_CHANNELS a)
    show ?thesis by (rule st [of "hailo_vdma_disable_channels_ioctl a c w"]) (use r HAILO_VDMA_DISABLE_CHANNELS in \<open>auto dest: disable_channels_quiet [of _ _ _ _ _ K]\<close>)
  next
    case (HAILO_VDMA_OTHER k)
    then show ?thesis using r by (simp add: step_refl)
  qed (use r in \<open>auto intro: ww timestamps_quiet sync_quiet program_quiet mark_quiet launch_quiet
        cw buffer_map_step [OF K(1) n(1)] buffer_unmap_step [OF K(1)] desc_create_step [OF K n(2)] desc_release_step [OF K(1)]
          low_alloc_step [OF K(1) n(2)] low_free_step [OF K(1)] cont_alloc_step [OF K(1) n(2)] cont_free_step [OF K(1)]\<close>)
qed

section \<open>Closing a file\<close>

definition without :: "nat list \<Rightarrow> 'a heap \<Rightarrow> 'a heap" where
  "without ps hp p = (if p \<in> set ps then None else hp p)"

lemma clear_list_moves:
  assumes release: "\<And>b cs. moves K cs (res b) {#} (release b cs)"
    and "distinct ps" "\<forall>p \<in> set ps. hp p \<noteq> None"
  shows "\<exists>cs'. clear_list release ps hp cs = Ok (without ps hp, cs') \<and> moves K cs (list_resources res ps hp) {#} cs'"
  using assms(2,3)
proof (induction ps arbitrary: hp cs)
  case (Cons p ps)
  then obtain b where b: "hp p = Some b" by auto
  have eq: "list_resources res ps (hp(p := None)) = list_resources res ps hp" using Cons.prems by (intro list_resources_cong) auto
  have d: "distinct ps" and live: "\<forall>q \<in> set ps. (hp(p := None)) q \<noteq> None" using Cons.prems by auto
  obtain cs' where cs': "clear_list release ps (hp(p := None)) (Kfree p # release b cs) = Ok (without ps (hp(p := None)), cs')"
      "moves K (Kfree p # release b cs) (list_resources res ps hp) {#} cs'"
    using Cons.IH [OF d live, of "Kfree p # release b cs"] unfolding eq by blast
  have "moves K cs (add_mset (Struct p) (res b) + list_resources res ps hp) ({#} + list_resources res ps hp) (Kfree p # release b cs)"
    by (rule moves_frame [OF moves_kfree [OF release]])
  then have "moves K cs (list_resources res (p # ps) hp) {#} cs'"
    using moves_trans [OF _ cs'(2)] b by (simp add: list_resources_Cons)
  moreover have "without ps (hp(p := None)) = without (p # ps) hp" by (auto simp: without_def)
  ultimately show ?case using b cs'(1) by auto
qed (auto simp: without_def)

lemma clear_mapped_moves:
  assumes "distinct ps" "\<forall>p \<in> set ps. hp p \<noteq> None \<and> vb_kref (the (hp p)) = 1"
  shows "\<exists>cs'. hailo_vdma_clear_mapped_user_buffer_list K ps hp cs = Ok (without ps hp, cs') \<and>
    moves K cs (list_resources buffer_resources ps hp) {#} cs'"
  using assms
proof (induction ps arbitrary: hp cs)
  case (Cons p ps)
  then obtain b where b: "hp p = Some b" "vb_kref b = 1" by auto
  have eq: "list_resources buffer_resources ps (hp(p := None)) = list_resources buffer_resources ps hp"
    using Cons.prems by (intro list_resources_cong) auto
  let ?cs = "unmap_buffer K p b cs"
  have d: "distinct ps" and live: "\<forall>q \<in> set ps. (hp(p := None)) q \<noteq> None \<and> vb_kref (the ((hp(p := None)) q)) = 1" using Cons.prems by auto
  obtain cs' where cs': "hailo_vdma_clear_mapped_user_buffer_list K ps (hp(p := None)) ?cs = Ok (without ps (hp(p := None)), cs')"
      "moves K ?cs (list_resources buffer_resources ps hp) {#} cs'"
    using Cons.IH [OF d live, of ?cs] unfolding eq by blast
  have "moves K cs (add_mset (Struct p) (buffer_resources b) + list_resources buffer_resources ps hp)
      ({#} + list_resources buffer_resources ps hp) ?cs"
    by (rule moves_frame [OF unmap_buffer_moves])
  then have "moves K cs (list_resources buffer_resources (p # ps) hp) {#} cs'"
    using moves_trans [OF _ cs'(2)] b by (simp add: list_resources_Cons)
  moreover have "without ps (hp(p := None)) = without (p # ps) hp" by (auto simp: without_def)
  ultimately show ?case using b cs'(1) by (auto simp: hailo_vdma_buffer_put_def)
qed (auto simp: without_def)

lemma file_ok_lists:
  assumes "file_ok c w"
  shows "distinct (fc_mapped_user_buffer_list c)" "distinct (fc_descriptors_buffer_list c)"
    "distinct (fc_vdma_low_memory_buffer_list c)" "distinct (fc_continuous_buffer_list c)"
    "\<forall>p \<in> set (fc_mapped_user_buffer_list c). w_buffers w p \<noteq> None \<and> vb_kref (the (w_buffers w p)) = 1"
    "\<forall>p \<in> set (fc_descriptors_buffer_list c). w_desc_buffers w p \<noteq> None"
    "\<forall>p \<in> set (fc_vdma_low_memory_buffer_list c). w_low_buffers w p \<noteq> None"
    "\<forall>p \<in> set (fc_continuous_buffer_list c). w_cont_buffers w p \<noteq> None"
  using assms by (auto simp: file_ok_def table_ok_def list_inv_def)

lemma clear_file_lists_moves:
  assumes "file_ok c w"
  shows "\<exists>cs. clear_file_lists K c w = Ok (w\<lparr>w_buffers := without (fc_mapped_user_buffer_list c) (w_buffers w),
        w_desc_buffers := without (fc_descriptors_buffer_list c) (w_desc_buffers w),
        w_lists := drop_lists (fc_descriptors_buffer_list c) (w_lists w),
        w_low_buffers := without (fc_vdma_low_memory_buffer_list c) (w_low_buffers w),
        w_cont_buffers := without (fc_continuous_buffer_list c) (w_cont_buffers w), w_calls := cs\<rparr>) \<and>
      moves K (w_calls w) (file_resources c w) {#} cs"
proof -
  note l = file_ok_lists [OF assms]
  obtain cs1 where 1: "hailo_vdma_clear_mapped_user_buffer_list K (fc_mapped_user_buffer_list c) (w_buffers w) (w_calls w) =
      Ok (without (fc_mapped_user_buffer_list c) (w_buffers w), cs1)"
    "moves K (w_calls w) (list_resources buffer_resources (fc_mapped_user_buffer_list c) (w_buffers w)) {#} cs1"
    using clear_mapped_moves [OF l(1,5)] by blast
  obtain cs2 where 2: "clear_list hailo_desc_list_release (fc_descriptors_buffer_list c) (w_desc_buffers w) cs1 =
      Ok (without (fc_descriptors_buffer_list c) (w_desc_buffers w), cs2)"
    "moves K cs1 (list_resources desc_resources (fc_descriptors_buffer_list c) (w_desc_buffers w)) {#} cs2"
    using clear_list_moves [where res = desc_resources and release = hailo_desc_list_release, OF desc_list_release_moves l(2,6)] by blast
  obtain cs3 where 3: "clear_list hailo_vdma_low_memory_buffer_free (fc_vdma_low_memory_buffer_list c) (w_low_buffers w) cs2 =
      Ok (without (fc_vdma_low_memory_buffer_list c) (w_low_buffers w), cs3)"
    "moves K cs2 (list_resources low_resources (fc_vdma_low_memory_buffer_list c) (w_low_buffers w)) {#} cs3"
    using clear_list_moves [where res = low_resources and release = hailo_vdma_low_memory_buffer_free, OF low_memory_free_moves l(3,7)] by blast
  obtain cs4 where 4: "clear_list hailo_vdma_continuous_buffer_free (fc_continuous_buffer_list c) (w_cont_buffers w) cs3 =
      Ok (without (fc_continuous_buffer_list c) (w_cont_buffers w), cs4)"
    "moves K cs3 (list_resources cont_resources (fc_continuous_buffer_list c) (w_cont_buffers w)) {#} cs4"
    using clear_list_moves [where res = cont_resources and release = hailo_vdma_continuous_buffer_free, OF continuous_free_moves l(4,8)] by blast
  have join: "moves K a (x + y) {#} c" if "moves K a x {#} b" "moves K b y {#} c" for a b c x y
    using moves_trans [OF moves_frame [OF that(1), of y]] that(2) by simp
  have "moves K (w_calls w) (file_resources c w) {#} cs4"
    unfolding file_resources_def by (intro join [OF join [OF join [OF 1(2) 2(2)] 3(2)] 4(2)])
  then show ?thesis using 1(1) 2(1) 3(1) 4(1)
    by (intro exI [of _ cs4]) (simp add: clear_file_lists_def hailo_vdma_clear_descriptors_buffer_list_def
        hailo_vdma_clear_low_memory_buffer_list_def hailo_vdma_clear_continuous_buffer_list_def)
qed

lemma finalize_engines_quiet:
  assumes "for_each (finalize_engine c up) is w = Ok w'"
  shows "world_quiet K w w'"
  using assms
proof (rule for_each_induct)
  fix i s s' assume "world_quiet K w s" "finalize_engine c up i s = Ok s'"
  then show "world_quiet K w s'"
    by (auto simp: finalize_engine_def bind_r_eq_Ok split: if_splits dest: disable_engine_channels_quiet [of _ _ _ _ _ K] intro: world_quiet_trans)
qed simp

text \<open>
  When the channels of the file could be disabled, closing it succeeds: its four lists are released, and the kernel's ledger
  is left with exactly what belongs to the others.
\<close>

lemma finalize_holds:
  assumes K: "kernel_fresh K" and h: "holds K c w rest"
    and e: "for_each (finalize_engine c (vc_dev (w_controller w))) [0..<length (engines w)] w = Ok w1"
  shows "\<exists>c' w'. hailo_vdma_file_context_finalize K c f w = Ok (c', w') \<and> granted K (w_calls w') \<and>
    ledger (w_calls w') = Some rest \<and> same_elsewhere rest w w'"
proof -
  have q: "world_quiet K w w1" by (rule finalize_engines_quiet [OF e])
  have h1: "holds K c w1 rest"
  proof -
    have s: "same_elsewhere (file_resources c w) w w1" using q by (auto simp: world_quiet_def same_elsewhere_def same_lists_def)
    show ?thesis using h q file_same_elsewhere [OF s] by (auto simp: holds_def world_quiet_def moves_def)
  qed
  then obtain w2 cs where c: "clear_file_lists K c w1 = Ok w2" "w_calls w2 = cs" "moves K (w_calls w1) (file_resources c w1) {#} cs"
    and w2: "w_buffers w2 = without (fc_mapped_user_buffer_list c) (w_buffers w1)"
      "w_desc_buffers w2 = without (fc_descriptors_buffer_list c) (w_desc_buffers w1)"
      "w_lists w2 = drop_lists (fc_descriptors_buffer_list c) (w_lists w1)"
      "w_low_buffers w2 = without (fc_vdma_low_memory_buffer_list c) (w_low_buffers w1)"
      "w_cont_buffers w2 = without (fc_continuous_buffer_list c) (w_cont_buffers w1)"
    using clear_file_lists_moves [of c w1 K] by (auto simp: holds_def)
  have own: "p \<notin> set (fc_mapped_user_buffer_list c)" "p \<notin> set (fc_descriptors_buffer_list c)"
    "p \<notin> set (fc_vdma_low_memory_buffer_list c)" "p \<notin> set (fc_continuous_buffer_list c)" if "Struct p \<in># rest" for p
    using holds_own [OF K h1, of p] in_file_resources [of p c w1] that by blast+
  have "same_elsewhere rest w w2"
    using q own unfolding same_elsewhere_def w2 by (auto simp: world_quiet_def same_lists_def without_def drop_lists_def)
  moreover have "granted K (w_calls w2)" "ledger (w_calls w2) = Some rest"
    using h1 c(2,3) moves_def [of K "w_calls w1" "file_resources c w1" "{#}" cs] by (auto simp: holds_def)
  ultimately show ?thesis using e c(1) by (auto simp: hailo_vdma_file_context_finalize_def same_elsewhere_def)
qed

section \<open>Reachable states\<close>

lemma quiet_files_inv:
  assumes "files_inv K files w leak" "world_quiet K w w'"
  shows "files_inv K files w' leak"
proof -
  have "same_elsewhere (total_resources files w) w w'" using assms(2) by (auto simp: world_quiet_def same_elsewhere_def same_lists_def)
  from total_same_elsewhere [OF this] show ?thesis using assms by (auto simp: files_inv_def world_quiet_def moves_def)
qed

lemma irq_quiet: "hailo_vdma_irq_handler io clock i b w = Ok w' \<Longrightarrow> world_quiet K w w'"
  by (auto simp: hailo_vdma_irq_handler_def hailo_vdma_wakeup_interrupts_def bind_r_eq_Ok Let_def split: if_splits prod.splits)

lemma new_file_ok: "file_ok (hailo_vdma_file_context_init zero_context) w"
  by (simp add: file_ok_def table_ok_def list_inv_def hailo_vdma_file_context_init_def zero_context_def)

lemma new_file_resources: "file_resources (hailo_vdma_file_context_init zero_context) w = {#}"
  by (simp add: file_resources_def hailo_vdma_file_context_init_def zero_context_def)

lemma close_files_inv:
  assumes K: "kernel_fresh K" and i: "files_inv K (as @ (f, c) # bs) w leak"
    and e: "hailo_vdma_file_context_finalize K c g w = Ok (c', w')"
  shows "files_inv K (as @ bs) w' leak"
proof -
  obtain w1 where w1: "for_each (finalize_engine c (vc_dev (w_controller w))) [0..<length (engines w)] w = Ok w1"
    using e by (auto simp: hailo_vdma_file_context_finalize_def bind_r_eq_Ok)
  have h: "holds K c w (total_resources (as @ bs) w + leak)" and d: "distinct (map fst (as @ (f, c) # bs))"
    and o: "\<forall>(f, c) \<in> set (as @ bs). file_ok c w" using i unfolding files_inv_split by blast+
  have g: "granted K (w_calls w')" "ledger (w_calls w') = Some (total_resources (as @ bs) w + leak)"
      "same_elsewhere (total_resources (as @ bs) w + leak) w w'"
    using finalize_holds [OF K h w1, of g] e by auto
  have s: "same_elsewhere (total_resources (as @ bs) w) w w'" by (rule same_elsewhere_mono [OF g(3)]) simp
  show ?thesis using total_same_elsewhere [OF s] g(1,2) d o by (auto simp: files_inv_def)
qed

lemma files_inv_step_any:
  assumes K: "kernel_fresh K" "coherent_below_4G K" and s: "vdma_step io K (files, w) (files', w')" and i: "files_inv K files w leak"
  shows "\<exists>leak'. files_inv K files' w' leak'"
  using s
proof (cases rule: vdma_step.cases)
  case (open_file f)
  then show ?thesis using i by (auto simp: files_inv_def total_resources_Cons new_file_ok new_file_resources)
next
  case (request c f out_ok answer down_ok req r c' up as bs)
  then show ?thesis using files_inv_step [OF _ vdma_ioctl_step [OF K]] i by blast
next
  case (interrupt clock i bitmap)
  then show ?thesis using quiet_files_inv [OF i irq_quiet] by blast
next
  case (device d)
  then show ?thesis using quiet_files_inv [OF i, of w'] by auto
next
  case (close_file c f c' as bs)
  then show ?thesis using close_files_inv [OF K(1)] i by blast
qed

lemma reachable_files_inv:
  assumes "kernel_fresh K" "coherent_below_4G K" "reachable io K s"
  shows "\<exists>leak. files_inv K (fst s) (snd s) leak"
  using assms(3)
proof (induction rule: reachable.induct)
  case (start w)
  then show ?case by (auto simp: files_inv_def total_resources_def intro!: exI [of _ "{#}"])
next
  case (step s s')
  then show ?case using files_inv_step_any [OF assms(1,2), of io "fst s" "snd s" "fst s'" "snd s'"] by auto
qed

end
