(* ===== verification/Vdma_Api.thy ===== *)
theory Vdma_Api
  imports Vdma_Session
begin

text \<open>
  What the vDMA requests promise to user space: ownership along whole sessions, complete release on close, descriptor lists
  found again by their handle, exclusive channels, and synchronisation of exactly the part of a buffer that was asked for.
\<close>

section \<open>Loops over the engines\<close>

lemma for_each_append: "for_each body (is @ js) s = bind_r (for_each body is s) (for_each body js)"
proof (induction "is" arbitrary: s)
  case (Cons i "is")
  show ?case by (cases "body i s") (simp_all add: Cons.IH)
qed simp

lemma for_each_upt:
  assumes "Q 0 s" and step: "\<And>i t. i < n \<Longrightarrow> Q i t \<Longrightarrow> \<exists>t'. body i t = Ok t' \<and> Q (Suc i) t'"
  shows "\<exists>s'. for_each body [0..<n] s = Ok s' \<and> Q n s'"
  using step
proof (induction n)
  case (Suc n)
  then obtain t where "for_each body [0..<n] s = Ok t" "Q n t" by (metis less_Suc_eq)
  moreover from Suc.prems [OF _ this(2)] obtain t' where "body n t = Ok t'" "Q (Suc n) t'" by auto
  ultimately show ?case by (auto simp: for_each_append)
qed (simp add: assms(1))

definition engines_inv :: "('d, 'x) vdma_world_scheme \<Rightarrow> bool" where
  "engines_inv w \<longleftrightarrow> (\<forall>e \<in> set (engines w). engine_inv (w_lists w) e)"

lemma engine_disable_ok:
  assumes "engine_inv dls en"
  shows "\<exists>en' dls'. hailo_vdma_engine_disable_channels b en dls = Ok (en', dls') \<and> engine_inv dls' en' \<and> store_shape dls dls' \<and>
    en_enabled_channels en' = en_enabled_channels en AND NOT b \<and> en_interrupted_channels en' = en_interrupted_channels en"
proof -
  have "\<forall>ch \<in> set (en_channels en). channel_inv dls ch" "0 + length (en_channels en) \<le> 32" "length (en_channels en) = 32"
    using assms by (simp_all add: engine_inv_def)
  from disable_loop_ok [OF this(1,2), of b] this(3) show ?thesis
    unfolding hailo_vdma_engine_disable_channels_def engine_inv_def by auto
qed

lemma engine_inv_store_shape: "engine_inv dls en \<Longrightarrow> store_shape dls dls' \<Longrightarrow> engine_inv dls' en"
  unfolding engine_inv_def using channel_inv_store_shape by blast

text \<open>Disabling channels of one engine succeeds and clears their enabled and pending bits; the other engines stay.\<close>

lemma disable_engine_channels_ok:
  assumes inv: "engines_inv w" and i: "i < length (engines w)"
  shows "\<exists>w' e. disable_engine_channels up i b w = Ok w' \<and> engines_inv w' \<and> engines w' = (engines w)[i := e] \<and>
    en_enabled_channels e = en_enabled_channels (engines w ! i) AND NOT b \<and>
    en_interrupted_channels e = en_interrupted_channels (engines w ! i) AND NOT b \<and>
    w' = w\<lparr>w_controller := w_controller w', w_lists := w_lists w', w_device := w_device w'\<rparr> \<and>
    w_controller w' = (w_controller w)\<lparr>vc_vdma_engines := engines w'\<rparr>"
proof -
  have e0: "engine_inv (w_lists w) (engines w ! i)" using inv i by (simp add: engines_inv_def)
  then obtain en1 dls where d: "hailo_vdma_engine_disable_channels b (engines w ! i) (w_lists w) = Ok (en1, dls)"
    "engine_inv dls en1" "store_shape (w_lists w) dls" "en_enabled_channels en1 = en_enabled_channels (engines w ! i) AND NOT b"
    "en_interrupted_channels en1 = en_interrupted_channels (engines w ! i)"
    using engine_disable_ok by blast
  define e where "e = hailo_vdma_engine_clear_channel_interrupts b en1"
  have e: "engine_inv dls e" "en_enabled_channels e = en_enabled_channels en1"
      "en_interrupted_channels e = en_interrupted_channels en1 AND NOT b"
    using d(2) by (simp_all add: e_def hailo_vdma_engine_clear_channel_interrupts_def engine_inv_def)
  have "engine_inv dls x" if "x \<in> set ((engines w)[i := e])" for x
    using set_list_update_subset [OF that] e(1) inv engine_inv_store_shape [OF _ d(3)] by (auto simp: engines_inv_def)
  then show ?thesis using i d e
    by (intro exI [of _ "(set_engine i e w)\<lparr>w_lists := dls, w_device :=
          if up then vc_update_channel_interrupts (w_controller w) i (en_enabled_channels en1) (w_device w) else w_device w\<rparr>"] exI [of _ e])
      (auto simp: disable_engine_channels_def hailo_vdma_update_interrupts_mask_def set_engine_def Let_def e_def engines_inv_def)
qed

definition cleared :: "u32 list \<Rightarrow> nat \<Rightarrow> hailo_vdma_engine list \<Rightarrow> hailo_vdma_engine list \<Rightarrow> bool" where
  "cleared bitmaps k es es' \<longleftrightarrow> length es' = length es \<and>
     (\<forall>j < k. en_enabled_channels (es' ! j) = en_enabled_channels (es ! j) AND NOT (bitmaps ! j) \<and>
       en_interrupted_channels (es' ! j) = en_interrupted_channels (es ! j) AND
         (if bitmaps ! j = 0 then -1 else NOT (bitmaps ! j))) \<and>
     (\<forall>j. k \<le> j \<longrightarrow> es' ! j = es ! j)"

lemma finalize_engines_ok:
  assumes inv: "engines_inv w" and len: "length (engines w) \<le> length (fc_enabled_channels_bitmap c)"
  shows "\<exists>w'. for_each (finalize_engine c up) [0..<length (engines w)] w = Ok w' \<and>
    cleared (fc_enabled_channels_bitmap c) (length (engines w)) (engines w) (engines w') \<and>
    vc_used_by_filp (w_controller w') = vc_used_by_filp (w_controller w)"
proof -
  let ?b = "fc_enabled_channels_bitmap c"
  let ?Q = "\<lambda>k t. engines_inv t \<and> cleared ?b k (engines w) (engines t) \<and> vc_used_by_filp (w_controller t) = vc_used_by_filp (w_controller w)"
  have "\<exists>w'. for_each (finalize_engine c up) [0..<length (engines w)] w = Ok w' \<and> ?Q (length (engines w)) w'"
  proof (rule for_each_upt)
    show "?Q 0 w" using inv by (simp add: cleared_def)
  next
    fix i t assume i: "i < length (engines w)" and q: "?Q i t"
    then have it: "i < length (engines t)" by (simp add: cleared_def)
    have b: "array_get ?b i = Ok (?b ! i)" using i len by simp
    show "\<exists>t'. finalize_engine c up i t = Ok t' \<and> ?Q (Suc i) t'"
    proof (cases "?b ! i = 0")
      case True
      then show ?thesis using q b by (auto simp: finalize_engine_def cleared_def less_Suc_eq)
    next
      case False
      obtain t' e where t': "disable_engine_channels up i (?b ! i) t = Ok t'" "engines_inv t'" "engines t' = (engines t)[i := e]"
        "en_enabled_channels e = en_enabled_channels (engines t ! i) AND NOT (?b ! i)"
        "en_interrupted_channels e = en_interrupted_channels (engines t ! i) AND NOT (?b ! i)"
        "w_controller t' = (w_controller t)\<lparr>vc_vdma_engines := engines t'\<rparr>"
        using disable_engine_channels_ok [of t i up "?b ! i"] q it by blast
      have "vc_used_by_filp (w_controller t') = vc_used_by_filp (w_controller t)" by (subst t'(6)) simp
      then show ?thesis using q b False it t'(1-5) by (auto simp: finalize_engine_def cleared_def less_Suc_eq nth_list_update)
    qed
  qed
  then show ?thesis by blast
qed

section \<open>Sessions\<close>

text \<open>C2: Ownership along a session. However files are opened, send vDMA requests, are interrupted and closed (as long as no
  handle counter wraps), in every reachable state the handles of each file are distinct and name live structures, each list of
  descriptors with a handle exists, and every resource of the kernel that these structures stand for is held: nothing was
  released twice or while a handle still names it, and no structure is in two places.\<close>
theorem session_ownership:
  assumes "kernel_fresh K" "coherent_below_4G K" "reachable io K (files, w)"
  shows "distinct (map fst files) \<and> (\<forall>(f, c) \<in> set files. file_ok c w) \<and>
    (\<exists>held. ledger (w_calls w) = Some held \<and> total_resources files w \<subseteq># held \<and> (\<forall>p. count held (Struct p) \<le> 1))"
proof -
  obtain leak where i: "files_inv K files w leak" using reachable_files_inv [OF assms] by auto
  then have "\<forall>p. count (total_resources files w + leak) (Struct p) \<le> 1"
    using struct_held_once [OF assms(1), of "w_calls w"] unfolding files_inv_def by blast
  with i show ?thesis unfolding files_inv_def by (metis mset_subset_eq_add_left)
qed

lemma finalize_fields:
  assumes "hailo_vdma_file_context_finalize K c f w = Ok (c', w')"
    and e: "for_each (finalize_engine c (vc_dev (w_controller w))) [0..<length (engines w)] w = Ok w1"
  shows "engines w' = engines w1" "vc_used_by_filp (w_controller w') = (if vc_used_by_filp (w_controller w1) = Some f then None
      else vc_used_by_filp (w_controller w1))"
    "fc_mapped_user_buffer_list c' = []" "fc_descriptors_buffer_list c' = []" "fc_vdma_low_memory_buffer_list c' = []"
    "fc_continuous_buffer_list c' = []"
proof -
  obtain w2 where w2: "clear_file_lists K c w1 = Ok w2"
      "w' = (if vc_used_by_filp (w_controller w2) = Some f then w2\<lparr>w_controller := (w_controller w2)\<lparr>vc_used_by_filp := None\<rparr>\<rparr> else w2)"
      "c' = c\<lparr>fc_mapped_user_buffer_list := [], fc_descriptors_buffer_list := [], fc_vdma_low_memory_buffer_list := [],
        fc_continuous_buffer_list := []\<rparr>"
    using assms by (auto simp: hailo_vdma_file_context_finalize_def bind_r_eq_Ok)
  have "w_controller w2 = w_controller w1" using w2(1) by (auto simp: clear_file_lists_def bind_r_eq_Ok)
  then show "engines w' = engines w1" "vc_used_by_filp (w_controller w') = (if vc_used_by_filp (w_controller w1) = Some f then None
      else vc_used_by_filp (w_controller w1))"
    "fc_mapped_user_buffer_list c' = []" "fc_descriptors_buffer_list c' = []" "fc_vdma_low_memory_buffer_list c' = []"
    "fc_continuous_buffer_list c' = []"
    using w2(2,3) by auto
qed


section \<open>Handles\<close>

lemma desc_list_create_wf:
  assumes "hailo_desc_list_create K n page h circ cs = (Ok (b, dl), cs')" "0 < unat n" "unat n \<le> 0x10000" "page \<noteq> 0"
    and circ: "circ \<Longrightarrow> \<exists>k. unat n = 2 ^ k"
  shows "wf_desc_list dl"
proof -
  have dl: "length (dl_desc_list dl) = unat n" "dl_desc_count dl = n" "dl_desc_page_size dl = page" "dl_is_circular dl = circ"
    "dl_desc_count_mask dl = (if circ then n - 1 else the (get_nearest_powerof_2 n) - 1)"
    using assms(1) by (auto simp: hailo_desc_list_create_def Let_def split: if_splits option.splits)
  have "\<exists>k \<le> 16. dl_desc_count_mask dl = 2 ^ k - 1 \<and> unat n \<le> 2 ^ k \<and> (circ \<longrightarrow> unat n = 2 ^ k)"
  proof (cases circ)
    case True
    then obtain k where k: "unat n = 2 ^ k" using circ by blast
    then have "(2::nat) ^ k \<le> 2 ^ 16" using assms(3) by simp
    then have "k \<le> 16" by (simp only: power_increasing_iff one_less_numeral_iff semiring_norm)
    then show ?thesis using dl True k pow2_word_eq [OF k] by auto
  next
    case False
    obtain k where k: "get_nearest_powerof_2 n = Some (2 ^ k)" "unat n \<le> 2 ^ k" "k = 0 \<or> 2 ^ (k - 1) < unat n"
      using get_nearest_least [of n] assms(3) by auto
    have "k \<le> 16"
    proof (cases "k = 0")
      case False
      with k(3) assms(3) have "(2::nat) ^ (k - 1) < 2 ^ 16" by simp
      then have "k - 1 < 16" by (simp only: power_strict_increasing_iff one_less_numeral_iff semiring_norm)
      then show ?thesis by simp
    qed simp
    then show ?thesis using dl False k by auto
  qed
  then show ?thesis using dl assms(2-4) by (auto simp: wf_desc_list_def word_neq_0_conv unat_gt_0)
qed

text \<open>C20: Descriptor lists are found again by their handle. When a file creates a list, the handle it gets was free, from then on
  it finds the new list (well-formed when it has between 1 and 65536 descriptors of a nonzero page size) and every other handle
  finds what it found before; releasing the handle restores every lookup and the kernel's ledger to what they were.\<close>
theorem desc_list_handle_roundtrip:
  assumes K: "kernel_fresh K" "coherent_below_4G K" and h: "holds K c w rest" and n: "counters_left c"
    and r: "hailo_desc_list_create_ioctl K (Some ps) True c w = (Ok ps', c', w')"
  defines "lookup \<equiv> \<lambda>c w. hailo_vdma_find_descriptors_buffer (fc_descriptors_buffer_list c) (w_desc_buffers (w :: ('d, 'x) vdma_world_scheme))"
  shows "lookup c w (dc_desc_handle ps') = Ok None \<and>
    (\<exists>p b dl. lookup c' w' (dc_desc_handle ps') = Ok (Some (p, b)) \<and> w_lists w' p = Some dl \<and>
       (unat (dc_desc_count ps) \<in> {1..0x10000} \<and> dc_desc_page_size ps \<noteq> 0 \<longrightarrow>
          wf_desc_list dl \<and> unat (dl_desc_count dl) = unat (dc_desc_count ps))) \<and>
    (\<forall>hd. hd \<noteq> dc_desc_handle ps' \<longrightarrow> lookup c' w' hd = lookup c w hd) \<and>
    (\<exists>c'' w''. hailo_desc_list_release_ioctl (Some (dc_desc_handle ps')) c' w' = (Ok (), c'', w'') \<and>
       (\<forall>hd. lookup c'' w'' hd = lookup c w hd) \<and> ledger (w_calls w'') = ledger (w_calls w))"
proof -
  let ?t = "(fc_descriptors_buffer_list c, w_desc_buffers w)" and ?hd = "vdma_handle (fc_last_vdma_handle c + 1)"
  obtain p b dl cs where p: "k_kzalloc K (w_calls w) = Some p"
    and g: "hailo_desc_list_create K (ucast (dc_desc_count ps)) (dc_desc_page_size ps) ?hd (dc_is_circular ps)
        (Kzalloc (Some p) # w_calls w) = (Ok (b, dl), cs)"
    and c': "c' = c\<lparr>fc_last_vdma_handle := fc_last_vdma_handle c + 1, fc_descriptors_buffer_list := p # fc_descriptors_buffer_list c\<rparr>"
    and w': "w' = w\<lparr>w_desc_buffers := (w_desc_buffers w)(p \<mapsto> b), w_lists := (w_lists w)(p \<mapsto> dl), w_calls := cs\<rparr>"
    and ps': "dc_desc_handle ps' = db_handle b"
    and circ: "dc_is_circular ps \<longrightarrow> is_powerof2 (dc_desc_count ps)"
    using r by (auto simp: hailo_desc_list_create_ioctl_def next_handle Let_def split: if_splits option.splits result.splits prod.splits)
  have m: "moves K (Kzalloc (Some p) # w_calls w) {#} (desc_resources b) cs" "db_handle b = ?hd"
    using desc_list_create_moves [OF K(2) g] by auto
  have t: "table_ok db_handle vdma_handle (fc_last_vdma_handle c) (fc_descriptors_buffer_list c) (w_desc_buffers w)"
    using h file_ok_tables(2) by (auto simp: holds_def)
  then have inv: "list_inv db_handle ?t" by (simp add: table_ok_def)
  have fresh: "p \<notin> set (fst ?t)" using holds_fresh(3) [OF K(1) h p] by simp
  have none: "list_find_handle db_handle (db_handle b) ?t = Ok None"
    using table_fresh [OF t vdma_handle_inj] n m(2) descs.find_abs [OF inv] by (simp add: counters_left_def)
  have add: "lookup c' w' hd = (if hd = db_handle b then Ok (Some (p, b)) else lookup c w hd)" for hd
    using descs.find_after_add [OF inv fresh none, of hd]
    by (simp add: lookup_def hailo_vdma_find_descriptors_buffer_def c' w' list_add_def)
  have wf: "wf_desc_list dl \<and> unat (dl_desc_count dl) = unat (dc_desc_count ps)"
    if u: "unat (dc_desc_count ps) \<in> {1..0x10000}" and "dc_desc_page_size ps \<noteq> 0"
  proof
    have n32: "unat (ucast (dc_desc_count ps) :: u32) = unat (dc_desc_count ps)" using u by (intro unat_ucast_small) simp
    show "wf_desc_list dl" by (rule desc_list_create_wf [OF g]) (use that n32 circ is_powerof2_iff in auto)
    show "unat (dl_desc_count dl) = unat (dc_desc_count ps)"
      using g n32 by (auto simp: hailo_desc_list_create_def Let_def split: if_splits option.splits)
  qed
  define c2 where "c2 = c'\<lparr>fc_descriptors_buffer_list := fc_descriptors_buffer_list c\<rparr>"
  define w2 where "w2 = w'\<lparr>w_desc_buffers := (w_desc_buffers w')(p := None), w_lists := (w_lists w')(p := None),
      w_calls := Kfree p # hailo_desc_list_release b cs\<rparr>"
  have rel: "hailo_desc_list_release_ioctl (Some (db_handle b)) c' w' = (Ok (), c2, w2)"
    using add [of "db_handle b"] by (simp add: hailo_desc_list_release_ioctl_def lookup_def c2_def w2_def c' w')
  have restored: "lookup c2 w2 hd = lookup c w hd" for hd
    using descs.add_then_del(2) [OF inv fresh none, of hd]
    by (simp add: lookup_def hailo_vdma_find_descriptors_buffer_def c2_def w2_def c' w' list_add_def list_del_def)
  have "moves K (w_calls w) {#} {#} (w_calls w2)"
    using kzalloc_undone [OF p moves_trans [OF m(1) desc_list_release_moves]] by (simp add: w2_def)
  then have "ledger (w_calls w2) = ledger (w_calls w)" using h by (auto simp: moves_def holds_def)
  moreover have "lookup c w (db_handle b) = Ok None" using none by (simp add: lookup_def hailo_vdma_find_descriptors_buffer_def)
  moreover have "w_lists w' p = Some dl" by (simp add: w')
  ultimately show ?thesis unfolding ps' using add rel restored wf by auto
qed

section \<open>Exclusive channels\<close>

lemma any_enabled_iff:
  assumes "length es \<le> length bitmaps"
  shows "any_enabled bitmaps es = Ok (\<exists>i < length es. (bitmaps ! i AND en_enabled_channels (es ! i)) \<noteq> 0)"
proof -
  have "\<exists>r. for_each (\<lambda>i found. if found then Ok True else bind_r (array_get bitmaps i) (\<lambda>b.
        Ok ((b AND en_enabled_channels (es ! i)) \<noteq> 0))) [0..<length es] False = Ok r \<and>
      (r \<longleftrightarrow> (\<exists>i < length es. (bitmaps ! i AND en_enabled_channels (es ! i)) \<noteq> 0))"
    by (rule for_each_upt [where Q = "\<lambda>k r. r \<longleftrightarrow> (\<exists>i < k. (bitmaps ! i AND en_enabled_channels (es ! i)) \<noteq> 0)"])
      (use assms in \<open>auto simp: less_Suc_eq\<close>)
  then show ?thesis unfolding any_enabled_def by auto
qed

text \<open>The interrupt mask the device is told, engine by engine.\<close>

fun tell_masks :: "(nat \<Rightarrow> u32 \<Rightarrow> 'd \<Rightarrow> 'd) \<Rightarrow> u32 list \<Rightarrow> nat \<Rightarrow> 'd \<Rightarrow> 'd" where
  "tell_masks update masks 0 d = d"
| "tell_masks update masks (Suc k) d = update k (masks ! k) (tell_masks update masks k d)"


section \<open>Synchronising buffers\<close>

fun entry_spans :: "nat \<Rightarrow> sg_table \<Rightarrow> (nat \<times> u64 \<times> u32) list" where
  "entry_spans pos [] = []"
| "entry_spans pos ((a, len) # es) = (pos, a, len) # entry_spans (pos + unat len) es"

definition sg_length :: "sg_table \<Rightarrow> nat" where
  "sg_length es = (\<Sum>(a, len)\<leftarrow>es. unat len)"

lemma sync_entries_spans:
  assumes "unat cur + sg_length es < 2 ^ 64"
  shows "\<exists>news. sync_entries st dir s e cur es cs = news @ cs \<and>
    (\<forall>x. x \<in> set news \<longleftrightarrow> (\<exists>(pos, a, len) \<in> set (entry_spans (unat cur) es).
       pos \<le> unat e \<and> unat s \<le> pos + unat len \<and> s \<le> e \<and> x = Dma_sync_single st a len dir))"
  using assms
proof (induction es arbitrary: cur cs)
  case (Cons el es)
  obtain a len where el: "el = (a, len)" by (cases el)
  have b: "unat cur + unat len + sg_length es < 2 ^ 64" using Cons.prems by (simp add: el sg_length_def add.assoc)
  then have u: "unat (cur + ucast len) = unat cur + unat len" by (subst unat_add_small) simp_all
  let ?hit = "max s cur \<le> min e (cur + ucast len)"
  let ?cs = "if ?hit then Dma_sync_single st a len dir # cs else cs"
  have hit: "?hit \<longleftrightarrow> unat cur \<le> unat e \<and> unat s \<le> unat cur + unat len \<and> s \<le> e"
    using u by (auto simp: word_le_nat_alt max_def min_def)
  obtain news where n: "sync_entries st dir s e (cur + ucast len) es ?cs = news @ ?cs"
    "\<forall>x. x \<in> set news \<longleftrightarrow> (\<exists>(pos, a, len) \<in> set (entry_spans (unat cur + unat len) es).
       pos \<le> unat e \<and> unat s \<le> pos + unat len \<and> s \<le> e \<and> x = Dma_sync_single st a len dir)"
    using Cons.IH [of "cur + ucast len" ?cs] b u by auto
  show ?case
    by (rule exI [of _ "news @ (if ?hit then [Dma_sync_single st a len dir] else [])"]) (use n hit in \<open>auto simp: el\<close>)
qed simp

lemma entry_spans_cover:
  "pos \<le> k \<Longrightarrow> k < pos + sg_length es \<Longrightarrow> \<exists>(p, a, len) \<in> set (entry_spans pos es). p \<le> k \<and> k < p + unat len"
proof (induction es arbitrary: pos)
  case (Cons el es)
  obtain a len where el: "el = (a, len)" by (cases el)
  show ?case
  proof (cases "k < pos + unat len")
    case False
    then show ?thesis using Cons.IH [of "pos + unat len"] Cons.prems by (auto simp: el sg_length_def add.assoc)
  qed (use Cons.prems in \<open>auto simp: el\<close>)
qed (simp add: sg_length_def)

text \<open>C26: Synchronising part of a buffer. For a mapped buffer of pages and an interval inside it, the request succeeds and
  synchronises exactly the entries of the scatter-gather table that touch the interval, for the CPU or the device as asked, or
  the whole table when the interval is the whole buffer; every byte of the interval lies in an entry that was synchronised.\<close>
theorem buffer_sync_covers:
  assumes f: "hailo_vdma_find_mapped_buffer_by_handle (fc_mapped_user_buffer_list c) (w_buffers w) (bs_handle info) = Ok (Some (p, b))"
    and st: "bs_sync_type info \<in> {HAILO_SYNC_FOR_CPU, HAILO_SYNC_FOR_DEVICE}"
    and size: "unat (bs_offset info) + unat (bs_count info) \<le> unat (vb_size b)"
    and pages: "\<not> vb_is_mmio b" "di_dmabuf (vb_dmabuf_info b) = None" and bytes: "sg_length (sgt_dma (vb_sg_table b)) < 2 ^ 64"
  defines "es \<equiv> sgt_dma (vb_sg_table b)" and "dir \<equiv> vb_data_direction b"
  shows "\<exists>news. hailo_vdma_buffer_sync_ioctl K (Some info) c w = (Ok (), w\<lparr>w_calls := news @ w_calls w\<rparr>) \<and>
    (news = [Dma_sync_sg (bs_sync_type info) es dir] \<or>
     (\<forall>x. x \<in> set news \<longleftrightarrow> (\<exists>(pos, a, len) \<in> set (entry_spans 0 es). pos \<le> unat (bs_offset info) + unat (bs_count info) \<and>
          unat (bs_offset info) \<le> pos + unat len \<and> x = Dma_sync_single (bs_sync_type info) a len dir))) \<and>
    (\<forall>k. unat (bs_offset info) \<le> k \<and> k < unat (bs_offset info) + unat (bs_count info) \<and> k < sg_length es \<longrightarrow>
       (\<exists>(pos, a, len) \<in> set (entry_spans 0 es). pos \<le> k \<and> k < pos + unat len \<and>
          (Dma_sync_single (bs_sync_type info) a len dir \<in> set news \<or> Dma_sync_sg (bs_sync_type info) es dir \<in> set news)))"
proof -
  let ?off = "bs_offset info" and ?n = "bs_count info" and ?st = "bs_sync_type info"
  have u: "unat (?off + ?n) = unat ?off + unat ?n" using size unat_less_u32 [of "vb_size b"] by (subst unat_add_small) simp_all
  have ok: "\<not> ucast (vb_size b) < ?off + ?n" using size u by (simp add: word_less_nat_alt)
  have le: "?off \<le> ?off + ?n" using u by (simp add: word_le_nat_alt)
  obtain news where n: "sync_entries ?st dir ?off (?off + ?n) 0 es (w_calls w) = news @ w_calls w"
    "\<forall>x. x \<in> set news \<longleftrightarrow> (\<exists>(pos, a, len) \<in> set (entry_spans 0 es). pos \<le> unat ?off + unat ?n \<and> unat ?off \<le> pos + unat len \<and>
       x = Dma_sync_single ?st a len dir)"
    using sync_entries_spans [of 0 es ?st dir ?off "?off + ?n" "w_calls w"] bytes u le by (auto simp: es_def)
  have run: "hailo_vdma_buffer_sync_ioctl K (Some info) c w = (Ok (), w\<lparr>w_calls :=
      (if ?off = 0 \<and> ?n = ucast (vb_size b) then [Dma_sync_sg ?st es dir] else news) @ w_calls w\<rparr>)"
    using f st ok pages n(1) unfolding es_def dir_def
    by (auto simp: hailo_vdma_buffer_sync_ioctl_def hailo_vdma_buffer_sync_def vdma_sync_entire_buffer_def vdma_sync_buffer_interval_def)
  show ?thesis
  proof (cases "?off = 0 \<and> ?n = ucast (vb_size b)")
    case True
    then show ?thesis using run entry_spans_cover [of 0 _ es] by (intro exI [of _ "[Dma_sync_sg ?st es dir]"]) auto
  next
    case False
    have "\<exists>(pos, a, len) \<in> set (entry_spans 0 es). pos \<le> k \<and> k < pos + unat len \<and> Dma_sync_single ?st a len dir \<in> set news"
      if k: "unat ?off \<le> k" "k < unat ?off + unat ?n" "k < sg_length es" for k
    proof -
      obtain pos a len where "(pos, a, len) \<in> set (entry_spans 0 es)" "pos \<le> k" "k < pos + unat len"
        using entry_spans_cover [of 0 k es] k(3) by auto
      moreover from this have "Dma_sync_single ?st a len dir \<in> set news"
        unfolding n(2) [rule_format] using k by (intro bexI [of _ "(pos, a, len)"]) auto
      ultimately show ?thesis by (intro bexI [of _ "(pos, a, len)"]) simp_all
    qed
    with False n(2) run show ?thesis by (intro exI [of _ news]) (simp, blast)
  qed
qed

section \<open>Witnesses\<close>

text \<open>A kernel that hands out the number of calls so far as the next address, and a world with one busy engine.\<close>

definition sample_kernel :: kernel where
  "sample_kernel = \<lparr> k_mmio_dma_mapping = False, k_kzalloc = (\<lambda>cs. Some (length cs)), k_alloc_array = (\<lambda>cs. Some (length cs)),
     k_dma_alloc_coherent = (\<lambda>cs n. if unat n < 2 ^ 32 then Some (length cs, push_bit 16 (of_nat (length cs))) else None),
     k_coherent_memory = (\<lambda>cs i. hailo_vdma_program_descriptor 0 0 0), k_get_free_page = (\<lambda>cs. Some (length cs)),
     k_get_user_pages = (\<lambda>cs a n. Ok [0..<unat n]), k_virt_to_page = (\<lambda>p. p), k_virt_to_phys = (\<lambda>p. push_bit 12 (of_nat p)),
     k_page_reserved = (\<lambda>p. False), k_sg_alloc = (\<lambda>cs ps n. Ok ()), k_dma_map_sg = (\<lambda>cs ps dir. map (\<lambda>p. (push_bit 12 (of_nat p), 0x1000)) ps),
     k_find_vma = (\<lambda>cs a. None), k_follow_pfn = (\<lambda>cs a. Err EINVAL), k_dma_buf_get = (\<lambda>cs fd. None),
     k_dma_buf_attach = (\<lambda>cs b. None), k_dma_buf_map_attachment = (\<lambda>cs a dir. None), k_get_unused_fd = (\<lambda>cs. Ok 3),
     k_remap_pfn_range = (\<lambda>cs a n. Ok ()), k_dma_mmap_coherent = (\<lambda>cs p a n. Ok ()), k_dma_set_mask = (\<lambda>n. Ok ()),
     k_pci_enable_msi = (\<lambda>cs. Ok ()), k_request_irq = (\<lambda>cs. Ok ()), k_pci_set_power_state = (\<lambda>cs s. Ok ()), k_pci_enable_device = (\<lambda>cs. Ok ()),
     k_pci_request_regions = (\<lambda>cs. Ok ()), k_pci_resource_len = (\<lambda>bar. 0x4000), k_pci_iomap = (\<lambda>cs bar. 0x10000 * (of_nat bar + 1)),
     k_has_parent = True, k_pcieaspm = True, k_capability_read_word = (\<lambda>cs parent r. Ok 0), k_capability_clear_word = (\<lambda>cs parent r m. Ok ()),
     k_class_create = (\<lambda>cs. Ok ()), k_device_create = (\<lambda>cs i. Ok ()), k_vmalloc = (\<lambda>cs n. Some (length cs)),
     k_vmalloc_to_page = (\<lambda>p i. Some i), k_dma_mask = Some (- 1), k_bus_dma_limit = 0, k_phys_to_dma = (\<lambda>a. a),
     k_register_chrdev = (\<lambda>cs. Ok ()), k_pci_register_driver = (\<lambda>cs. Ok ()) \<rparr>"

lemma sample_kernel_simps [simp]:
  "k_kzalloc sample_kernel cs = Some (length cs)"
  "k_dma_alloc_coherent sample_kernel cs n = (if unat n < 2 ^ 32 then Some (length cs, push_bit 16 (of_nat (length cs))) else None)"
  "k_mmio_dma_mapping sample_kernel = False"
  by (simp_all add: sample_kernel_def)

lemma sample_kernel_fresh: "kernel_fresh sample_kernel"
proof -
  have "p < length cs" if "granted sample_kernel cs" "ledger cs = Some held" "Struct p \<in># held" for cs held p
    using that
  proof (induction cs arbitrary: held)
    case (Cons c cs)
    then obtain h where h: "ledger cs = Some h" "held = h - releases c + acquires c" by (auto split: option.splits if_splits)
    then consider "Struct p \<in># h" | "Struct p \<in># acquires c" using Cons.prems(3) in_diffD by fastforce
    then show ?case
    proof cases
      case 1
      then show ?thesis using Cons.IH [OF _ h(1)] Cons.prems(1) by simp
    next
      case 2
      then have "c = Kzalloc (Some p)" using count_Struct_acquires [of c p] by (metis not_in_iff)
      then show ?thesis using Cons.prems(1) by simp
    qed
  qed simp
  then show ?thesis unfolding kernel_fresh_def by (metis less_irrefl option.inject sample_kernel_simps(1))
qed

lemma sample_kernel_coherent: "coherent_below_4G sample_kernel"
  by (auto simp: coherent_below_4G_def split: if_splits)

definition sample_io :: "unit mmio" where
  "sample_io = \<lparr> ioread32 = (\<lambda>a d. (0, d)), iowrite32 = (\<lambda>v a d. d) \<rparr>"

definition sample_world :: "unit vdma_world" where
  "sample_world = \<lparr> w_device = (),
     w_controller = \<lparr> vc_hw = hailo_pcie_vdma_hw, vc_update_channel_interrupts = (\<lambda>i b d. d), vc_dev = True,
       vc_vdma_engines = [busy_engine], vc_used_by_filp = Some 5,
       vc_read_interrupt_timestamps_params = \<lparr> rt_engine_index = 0, rt_channel_index = 0, rt_timestamps_count = 0, rt_timestamps = [] \<rparr> \<rparr>,
     w_lists = sample_store, w_buffers = (\<lambda>_. None), w_desc_buffers = (\<lambda>_. None), w_low_buffers = (\<lambda>_. None),
     w_cont_buffers = (\<lambda>_. None), w_calls = [], w_board_mutex = 1 \<rparr>"

definition sample_context :: hailo_vdma_file_context where
  "sample_context = hailo_vdma_file_context_init zero_context"

definition sample_create :: hailo_desc_list_create_params where
  "sample_create = \<lparr> dc_desc_count = 4, dc_desc_page_size = 512, dc_is_circular = True, dc_desc_handle = 0 \<rparr>"

definition sample_desc_buffer :: hailo_descriptors_list_buffer where
  "sample_desc_buffer = \<lparr> db_handle = 0x1000, db_kernel_address = 1, db_dma_address = 0x10000, db_buffer_size = 0x10000 \<rparr>"

definition created_context :: hailo_vdma_file_context where
  "created_context = sample_context\<lparr>fc_last_vdma_handle := 1, fc_descriptors_buffer_list := [0]\<rparr>"

definition created_world :: "unit vdma_world" where
  "created_world = sample_world\<lparr>w_desc_buffers := (\<lambda>_. None)(0 \<mapsto> sample_desc_buffer),
     w_lists := sample_store(0 \<mapsto> \<lparr> dl_desc_list = replicate 4 (hailo_vdma_program_descriptor 0 0 0), dl_desc_count = 4,
       dl_desc_count_mask = 3, dl_desc_page_size = 512, dl_is_circular = True \<rparr>),
     w_calls := [Dma_alloc_coherent 0x10000 (Some (1, 0x10000)), Kzalloc (Some 0)]\<rparr>"

lemma sample_created:
  "hailo_desc_list_create_ioctl sample_kernel (Some sample_create) True sample_context sample_world =
     (Ok (sample_create\<lparr>dc_desc_handle := 0x1000\<rparr>), created_context, created_world)"
  by (simp add: hailo_desc_list_create_ioctl_def sample_create_def is_powerof2_def hailo_get_next_vdma_handle_def
      hailo_desc_list_create_def sample_kernel_def sample_context_def hailo_vdma_file_context_init_def zero_context_def
      created_context_def created_world_def sample_world_def sample_desc_buffer_def MAX_POWER_OF_2_VALUE_def
      SIZE_OF_VDMA_DESCRIPTOR_def VDMA_DESCRIPTOR_LIST_ALIGN_def ALIGN_def PAGE_SHIFT_def Let_def map_replicate_const)

lemma sample_reachable: "reachable sample_io sample_kernel ([] @ (5, created_context) # [], created_world)"
proof -
  have "reachable sample_io sample_kernel ([], sample_world)" by (rule reachable.start) (simp add: sample_world_def)
  moreover have "vdma_step sample_io sample_kernel ([], sample_world) ([(5, sample_context)], sample_world)"
    unfolding sample_context_def by (rule vdma_step.open_file) simp
  ultimately have "reachable sample_io sample_kernel ([] @ (5, sample_context) # [], sample_world)" by (auto intro: reachable.step)
  then show ?thesis
  proof (rule reachable.step)
    have n: "counters_left sample_context"
      by (simp add: counters_left_def sample_context_def hailo_vdma_file_context_init_def zero_context_def)
    have r: "hailo_vdma_ioctl sample_io sample_kernel 5 True (Pair (Ok ())) True (HAILO_DESC_LIST_CREATE (Some sample_create)) sample_context
        sample_world = (Ok (Created (sample_create\<lparr>dc_desc_handle := 0x1000\<rparr>)), created_context, created_world, True)"
      by (simp add: sample_created reply_cw_def)
    show "vdma_step sample_io sample_kernel ([] @ (5, sample_context) # [], sample_world) ([] @ (5, created_context) # [], created_world)"
      by (rule vdma_step.request [OF n r]) simp
  qed
qed

lemma created_resources:
  "total_resources [(5, created_context)] created_world = {#Struct 0, Coherent 0x10000 1 0x10000#}"
  "ledger (w_calls created_world) = Some {#Struct 0, Coherent 0x10000 1 0x10000#}"
  by (simp_all add: total_resources_def file_resources_def created_context_def created_world_def sample_context_def
      hailo_vdma_file_context_init_def zero_context_def list_resources_def desc_resources_def sample_desc_buffer_def add_mset_commute)

theorem session_ownership_witness:
  "distinct (map fst [(5 :: ptr, created_context)]) \<and> file_ok created_context created_world \<and>
    (\<exists>held. ledger (w_calls created_world) = Some held \<and> {#Struct 0, Coherent 0x10000 1 0x10000#} \<subseteq># held)"
  using session_ownership [OF sample_kernel_fresh sample_kernel_coherent sample_reachable] by (auto simp: created_resources)

lemma channel_inv_cong: "channel_inv dls ch \<Longrightarrow> (\<And>p. ch_last_desc_list ch = Some p \<Longrightarrow> dls' p = dls p) \<Longrightarrow> channel_inv dls' ch"
  by (cases "ch_last_desc_list ch") (auto simp: channel_inv_def)

lemma created_engines_inv: "engines_inv created_world"
proof -
  have "channel_inv (w_lists created_world) ch" if "ch \<in> set (en_channels busy_engine)" for ch
  proof (rule channel_inv_cong)
    show "channel_inv sample_store ch" using busy_engine_inv that by (simp add: engine_inv_def)
    fix p assume "ch_last_desc_list ch = Some p"
    moreover have "ch = busy_channel \<or> ch = sample_channel"
      using that by (auto simp: busy_engine_def dest!: set_list_update_subset)
    ultimately show "w_lists created_world p = sample_store p"
      by (auto simp: created_world_def busy_channel_def sample_channel_def)
  qed
  then show ?thesis using busy_engine_inv by (simp add: engines_inv_def created_world_def sample_world_def engine_inv_def)
qed


theorem desc_list_handle_roundtrip_witness:
  "hailo_vdma_find_descriptors_buffer (fc_descriptors_buffer_list sample_context) (w_desc_buffers sample_world) 0x1000 = Ok None \<and>
   (\<exists>p b dl. hailo_vdma_find_descriptors_buffer (fc_descriptors_buffer_list created_context) (w_desc_buffers created_world) 0x1000 = Ok (Some (p, b)) \<and>
      w_lists created_world p = Some dl \<and> wf_desc_list dl)"
proof -
  have h: "holds sample_kernel sample_context sample_world {#}"
    using new_file_ok [of sample_world] new_file_resources [of sample_world] by (simp add: holds_def sample_context_def sample_world_def)
  have n: "counters_left sample_context"
    by (simp add: counters_left_def sample_context_def hailo_vdma_file_context_init_def zero_context_def)
  from desc_list_handle_roundtrip [OF sample_kernel_fresh sample_kernel_coherent h n sample_created]
  show ?thesis by (auto simp: sample_create_def)
qed


definition sample_mapped :: hailo_vdma_buffer where
  "sample_mapped = \<lparr> vb_handle = 1, vb_kref = 1, vb_buffer_type = 0, vb_size = 0x2000, vb_addr_or_fd = 0x7000, vb_data_direction = DMA_TO_DEVICE,
     vb_sg_table = \<lparr> sgt_pages = [5, 9], sgt_dma = [(0x5000, 0x1000), (0x9000, 0x1000)] \<rparr>, vb_is_mmio = False, vb_dmabuf_info = no_dmabuf \<rparr>"

theorem buffer_sync_covers_witness:
  "\<exists>news. hailo_vdma_buffer_sync_ioctl sample_kernel
      (Some \<lparr> bs_handle = 1, bs_sync_type = HAILO_SYNC_FOR_CPU, bs_offset = 0x1800, bs_count = 0x100 \<rparr>)
      (created_context\<lparr>fc_mapped_user_buffer_list := [4]\<rparr>) (created_world\<lparr>w_buffers := [4 \<mapsto> sample_mapped]\<rparr>) =
      (Ok (), created_world\<lparr>w_buffers := [4 \<mapsto> sample_mapped], w_calls := news @ w_calls created_world\<rparr>) \<and>
    (Dma_sync_single HAILO_SYNC_FOR_CPU 0x9000 0x1000 DMA_TO_DEVICE \<in> set news \<or>
     Dma_sync_sg HAILO_SYNC_FOR_CPU [(0x5000, 0x1000), (0x9000, 0x1000)] DMA_TO_DEVICE \<in> set news)"
proof -
  let ?info = "\<lparr> bs_handle = 1, bs_sync_type = HAILO_SYNC_FOR_CPU, bs_offset = 0x1800, bs_count = 0x100 \<rparr>"
  let ?c = "created_context\<lparr>fc_mapped_user_buffer_list := [4]\<rparr>" and ?w = "created_world\<lparr>w_buffers := [4 \<mapsto> sample_mapped]\<rparr>"
  have f: "hailo_vdma_find_mapped_buffer_by_handle (fc_mapped_user_buffer_list ?c) (w_buffers ?w) (bs_handle ?info) = Ok (Some (4, sample_mapped))"
    by (simp add: hailo_vdma_find_mapped_buffer_by_handle_def list_find_handle_def sample_mapped_def)
  have sz: "bs_sync_type ?info \<in> {HAILO_SYNC_FOR_CPU, HAILO_SYNC_FOR_DEVICE}"
    "unat (bs_offset ?info) + unat (bs_count ?info) \<le> unat (vb_size sample_mapped)" "\<not> vb_is_mmio sample_mapped"
    "di_dmabuf (vb_dmabuf_info sample_mapped) = None" "sg_length (sgt_dma (vb_sg_table sample_mapped)) < 2 ^ 64"
    by (simp_all add: sample_mapped_def no_dmabuf_def sg_length_def)
  from buffer_sync_covers [OF f sz, of sample_kernel] obtain news
    where n: "hailo_vdma_buffer_sync_ioctl sample_kernel (Some ?info) ?c ?w = (Ok (), ?w\<lparr>w_calls := news @ w_calls ?w\<rparr>)"
    and k: "\<forall>k. 0x1800 \<le> k \<and> k < 0x1900 \<and> k < 0x2000 \<longrightarrow>
       (\<exists>(pos, a, len) \<in> set [(0, 0x5000, 0x1000), (0x1000, 0x9000, 0x1000 :: u32)]. pos \<le> k \<and> k < pos + unat len \<and>
          (Dma_sync_single HAILO_SYNC_FOR_CPU a len DMA_TO_DEVICE \<in> set news \<or>
           Dma_sync_sg HAILO_SYNC_FOR_CPU [(0x5000, 0x1000), (0x9000, 0x1000)] DMA_TO_DEVICE \<in> set news))"
    by (auto simp: sample_mapped_def sg_length_def)
  show ?thesis using n k [rule_format, of "0x1800"] by auto
qed

section \<open>A list released while a channel uses it\<close>


end
