(* ===== verification/Vdma_Frame.thy ===== *)
theory Vdma_Frame
  imports Vdma_Requests
begin

text \<open>
  What the vDMA part of the driver leaves alone: the state that extends its own, and the board's semaphore. Only the wait for
  interrupts releases the semaphore, and it takes it again.
\<close>

definition outside :: "('d, 'x) vdma_world_scheme \<Rightarrow> 'x \<times> nat" where
  "outside w = (vdma_world.more w, w_board_mutex w)"

lemma outside_updates [simp]:
  "outside (w\<lparr>w_device := d\<rparr>) = outside w" "outside (w\<lparr>w_controller := c\<rparr>) = outside w" "outside (w\<lparr>w_lists := l\<rparr>) = outside w"
  "outside (w\<lparr>w_buffers := b\<rparr>) = outside w" "outside (w\<lparr>w_desc_buffers := db\<rparr>) = outside w" "outside (w\<lparr>w_low_buffers := lb\<rparr>) = outside w"
  "outside (w\<lparr>w_cont_buffers := cb\<rparr>) = outside w" "outside (w\<lparr>w_calls := cs\<rparr>) = outside w" "outside (set_engine i e w) = outside w"
  by (cases w, simp add: outside_def set_engine_def)+

lemma update_mask_outside: "hailo_vdma_update_interrupts_mask i w = Ok w' \<Longrightarrow> outside w' = outside w"
  by (auto simp: hailo_vdma_update_interrupts_mask_def bind_r_eq_Ok)

lemma wakeup_outside: "hailo_vdma_wakeup_interrupts i b w = Ok w' \<Longrightarrow> outside w' = outside w"
  by (auto simp: hailo_vdma_wakeup_interrupts_def bind_r_eq_Ok Let_def)

lemma irq_handler_outside: "hailo_vdma_irq_handler io clock i b w = Ok w' \<Longrightarrow> outside w' = outside w"
  by (auto simp: hailo_vdma_irq_handler_def bind_r_eq_Ok Let_def split_beta split: if_splits dest!: wakeup_outside)

lemma disable_engine_channels_outside: "disable_engine_channels up i b w = Ok w' \<Longrightarrow> outside w' = outside w"
  by (auto simp: disable_engine_channels_def bind_r_eq_Ok Let_def split: if_splits dest!: update_mask_outside)

lemma for_each_outside:
  assumes "for_each body is s = Ok s'" "\<And>i s s'. body i s = Ok s' \<Longrightarrow> outside (g s') = outside (g s)"
  shows "outside (g s') = outside (g s)"
  by (rule for_each_induct [OF assms(1), of "\<lambda>x. outside (g x) = outside (g s)"]) (auto dest: assms(2))

lemma finalize_outside: "hailo_vdma_file_context_finalize K c f w = Ok (c', w') \<Longrightarrow> outside w' = outside w"
proof -
  have "finalize_engine c up i w = Ok w' \<Longrightarrow> outside w' = outside w" for up i w w'
    by (auto simp: finalize_engine_def bind_r_eq_Ok split: if_splits dest: disable_engine_channels_outside)
  then have "for_each (finalize_engine c up) is w = Ok w1 \<Longrightarrow> outside w1 = outside w" for up "is" w w1
    using for_each_outside [of "finalize_engine c up" "is" w w1 "\<lambda>x. x"] by blast
  then show "hailo_vdma_file_context_finalize K c f w = Ok (c', w') \<Longrightarrow> outside w' = outside w"
    by (auto simp: hailo_vdma_file_context_finalize_def clear_file_lists_def bind_r_eq_Ok split: if_splits)
qed

lemma enable_channels_outside: "hailo_vdma_enable_channels_ioctl a c w = Ok (c', w') \<Longrightarrow> outside w' = outside w"
proof -
  have "enable_engine bs i s = Ok s' \<Longrightarrow> outside (snd s') = outside (snd s)" for bs i s s'
    by (cases s) (auto simp: enable_engine_def bind_r_eq_Ok Let_def dest!: update_mask_outside)
  then have "for_each (enable_engine bs) is s = Ok s' \<Longrightarrow> outside (snd s') = outside (snd s)" for bs "is" s s'
    using for_each_outside [of "enable_engine bs" "is" s s' snd] by blast
  then show "hailo_vdma_enable_channels_ioctl a c w = Ok (c', w') \<Longrightarrow> outside w' = outside w"
    by (fastforce simp: hailo_vdma_enable_channels_ioctl_def bind_r_eq_Ok split: option.splits if_splits)
qed

lemma disable_channels_outside: "hailo_vdma_disable_channels_ioctl a c w = Ok (c', w') \<Longrightarrow> outside w' = outside w"
proof -
  have "disable_engine bs i s = Ok s' \<Longrightarrow> outside (snd s') = outside (snd s)" for bs i s s'
    by (cases s) (auto simp: disable_engine_def bind_r_eq_Ok Let_def dest!: disable_engine_channels_outside)
  then have "for_each (disable_engine bs) is s = Ok s' \<Longrightarrow> outside (snd s') = outside (snd s)" for bs "is" s s'
    using for_each_outside [of "disable_engine bs" "is" s s' snd] by blast
  then show "hailo_vdma_disable_channels_ioctl a c w = Ok (c', w') \<Longrightarrow> outside w' = outside w"
    by (fastforce simp: hailo_vdma_disable_channels_ioctl_def bind_r_eq_Ok split: option.splits)
qed

lemma wait_collect_outside: "for_each (wait_collect_engine io K) is (ps, w) = Ok (ps', w') \<Longrightarrow> outside w' = outside w"
proof -
  have "wait_collect_engine io K i s = Ok s' \<Longrightarrow> outside (snd s') = outside (snd s)" for i s s'
    by (cases s) (auto simp: wait_collect_engine_def bind_r_eq_Ok Let_def split_beta split: result.splits prod.splits)
  then show "for_each (wait_collect_engine io K) is (ps, w) = Ok (ps', w') \<Longrightarrow> outside w' = outside w"
    using for_each_outside [where g = snd] by fastforce
qed

lemma timestamps_outside: "hailo_vdma_interrupts_read_timestamps_ioctl a out_ok w = (r, w') \<Longrightarrow> outside w' = outside w"
  by (auto simp: hailo_vdma_interrupts_read_timestamps_ioctl_def Let_def split: option.splits result.splits if_splits prod.splits)

lemma buffer_map_outside: "hailo_vdma_buffer_map_ioctl K a out_ok c w = (r, c', w') \<Longrightarrow> outside w' = outside w"
  by (auto simp: hailo_vdma_buffer_map_ioctl_def Let_def split: option.splits result.splits if_splits prod.splits)

lemma buffer_unmap_outside: "hailo_vdma_buffer_unmap_ioctl K a c w = (r, c', w') \<Longrightarrow> outside w' = outside w"
  by (auto simp: hailo_vdma_buffer_unmap_ioctl_def Let_def split: option.splits result.splits if_splits prod.splits)

lemma sync_outside: "hailo_vdma_buffer_sync_ioctl K a c w = (r, w') \<Longrightarrow> outside w' = outside w"
  by (auto simp: hailo_vdma_buffer_sync_ioctl_def split: option.splits result.splits if_splits prod.splits)

lemma desc_create_outside: "hailo_desc_list_create_ioctl K a out_ok c w = (r, c', w') \<Longrightarrow> outside w' = outside w"
  by (auto simp: hailo_desc_list_create_ioctl_def Let_def split: option.splits result.splits if_splits prod.splits)

lemma desc_release_outside: "hailo_desc_list_release_ioctl a c w = (r, c', w') \<Longrightarrow> outside w' = outside w"
  by (auto simp: hailo_desc_list_release_ioctl_def Let_def split: option.splits result.splits if_splits prod.splits)

lemma program_outside: "hailo_desc_list_program_ioctl a c w = (r, w') \<Longrightarrow> outside w' = outside w"
  by (auto simp: hailo_desc_list_program_ioctl_def split: option.splits result.splits if_splits prod.splits)

lemma low_alloc_outside: "hailo_vdma_low_memory_buffer_alloc_ioctl K a out_ok c w = (r, c', w') \<Longrightarrow> outside w' = outside w"
  by (auto simp: hailo_vdma_low_memory_buffer_alloc_ioctl_def Let_def split: option.splits result.splits if_splits prod.splits)

lemma low_free_outside: "hailo_vdma_low_memory_buffer_free_ioctl a c w = (r, c', w') \<Longrightarrow> outside w' = outside w"
  by (auto simp: hailo_vdma_low_memory_buffer_free_ioctl_def Let_def split: option.splits result.splits if_splits prod.splits)

lemma cont_alloc_outside: "hailo_vdma_continuous_buffer_alloc_ioctl K a out_ok c w = (r, c', w') \<Longrightarrow> outside w' = outside w"
  by (auto simp: hailo_vdma_continuous_buffer_alloc_ioctl_def Let_def split: option.splits result.splits if_splits prod.splits)

lemma cont_free_outside: "hailo_vdma_continuous_buffer_free_ioctl a c w = (r, c', w') \<Longrightarrow> outside w' = outside w"
  by (auto simp: hailo_vdma_continuous_buffer_free_ioctl_def Let_def split: option.splits result.splits if_splits prod.splits)

lemma mark_outside: "hailo_mark_as_in_use f out_ok w = (r, w') \<Longrightarrow> outside w' = outside w"
  by (auto simp: hailo_mark_as_in_use_def split: if_splits)

lemma launch_outside: "hailo_vdma_launch_transfer_ioctl io K a c w = (r, w') \<Longrightarrow> outside w' = outside w"
  by (auto simp: hailo_vdma_launch_transfer_ioctl_def Let_def split: option.splits result.splits if_splits prod.splits)

lemma mmap_outside: "hailo_vdma_mmap K c w vma h = (r, vma', w') \<Longrightarrow> outside w' = outside w"
  by (auto simp: hailo_vdma_mmap_def split: option.splits result.splits prod.splits)

section \<open>The dispatcher\<close>

lemma reply_outside:
  "reply_cw g h = (r, c', w', up) \<Longrightarrow> (\<And>x c1 w1. h = (x, c1, w1) \<Longrightarrow> outside w1 = outside w) \<Longrightarrow> outside w' = outside w \<and> up"
  "reply_w g' c h' = (r, c', w', up) \<Longrightarrow> (\<And>x w1. h' = (x, w1) \<Longrightarrow> outside w1 = outside w) \<Longrightarrow> outside w' = outside w \<and> up"
  "reply_state c w h'' = (r, c', w', up) \<Longrightarrow> (\<And>c1 w1. h'' = Ok (c1, w1) \<Longrightarrow> outside w1 = outside w) \<Longrightarrow> outside w' = outside w \<and> up"
  by (auto simp: reply_cw_def reply_w_def reply_state_def split: prod.splits result.splits)

lemma ioctl_outside:
  assumes "hailo_vdma_ioctl io K f out_ok wait down_ok req c w = (r, c', w', up)" "\<And>a. req \<noteq> HAILO_VDMA_INTERRUPTS_WAIT a"
  shows "outside w' = outside w \<and> up"
proof (cases req)
  case (HAILO_VDMA_INTERRUPTS_WAIT a)
  then show ?thesis using assms(2) by simp
next
  case (HAILO_VDMA_ENABLE_CHANNELS a)
  show ?thesis by (rule reply_outside(3) [of c w "hailo_vdma_enable_channels_ioctl a c w"])
    (use assms HAILO_VDMA_ENABLE_CHANNELS enable_channels_outside in auto)
next
  case (HAILO_VDMA_DISABLE_CHANNELS a)
  show ?thesis by (rule reply_outside(3) [of c w "hailo_vdma_disable_channels_ioctl a c w"])
    (use assms HAILO_VDMA_DISABLE_CHANNELS disable_channels_outside in auto)
qed (use assms(1) in \<open>auto dest!: reply_outside(1,2) [where w = w] intro: timestamps_outside sync_outside program_outside mark_outside launch_outside
    buffer_map_outside buffer_unmap_outside desc_create_outside desc_release_outside low_alloc_outside low_free_outside cont_alloc_outside cont_free_outside\<close>)

text \<open>The wait for interrupts: when it reports that the semaphore is to be released it holds it, and otherwise it has released it.\<close>

lemma wait_mutex:
  assumes "hailo_vdma_interrupts_wait_ioctl io K a wait down_ok out_ok w = (r, w', up)" "\<not> is_fault r"
    and "\<And>w. w_board_mutex (snd (wait w)) = w_board_mutex w"
  shows "w_board_mutex w' = (if up then w_board_mutex w else Suc (w_board_mutex w))"
proof -
  obtain x w1 where x: "wait (up_mutex w) = (x, w1)" by fastforce
  have w: "w_board_mutex w1 = Suc (w_board_mutex w)" using assms(3) [of "up_mutex w"] x by (simp add: up_mutex_def)
  let ?w2 = "w1\<lparr>w_board_mutex := w_board_mutex w\<rparr>"
  have d: "down_mutex w1 = Ok ?w2" using w by (simp add: down_mutex_def)
  show ?thesis
  proof (cases a)
    case (Some params)
    let ?c = "for_each (wait_collect_engine io K) [0..<length (engines ?w2)] (params\<lparr>wp_channels_count := 0\<rparr>, ?w2)"
    have c: "w_board_mutex w3 = w_board_mutex w" if "?c = Ok (ps', w3)" for ps' w3
      using wait_collect_outside [OF that] by (simp add: outside_def)
    define short where "short \<longleftrightarrow> length (wp_channels_bitmap_per_engine params) < length (engines w)"
    define none where "none \<longleftrightarrow> (\<forall>b \<in> set (take (length (engines w)) (wp_channels_bitmap_per_engine params)). b = 0)"
    note run = assms(1) [unfolded hailo_vdma_interrupts_wait_ioctl_def Some option.case short_def [symmetric] none_def [symmetric] x prod.case]
    consider "short" | "none" | "\<not> short" "\<not> none" by blast
    then show ?thesis
    proof cases
      case 3
      show ?thesis
      proof (cases x)
        case (Ok u)
        have run': "(if \<not> down_ok then (Err ERESTARTSYS, w1, False)
             else case ?c of Ok (params', w3) \<Rightarrow> (if out_ok then Ok params' else Err ENOMEM, w3, True)
                  | Err e \<Rightarrow> (Err e, ?w2, True) | Fault f \<Rightarrow> (Fault f, ?w2, True)) = (r, w', up)"
          using run 3 Ok d by (simp split: if_splits)
        show ?thesis
        proof (cases ?c)
          case o: (Ok y)
          obtain ps' w3 where y: "y = (ps', w3)" by (cases y)
          show ?thesis using run' c [of ps' w3] o y w by (simp split: if_splits)
        qed (use run' w in \<open>auto split: if_splits\<close>)
      qed (use run 3 w in auto)
    qed (use run assms(2) in \<open>auto split: if_splits\<close>)
  qed (use assms(1) in \<open>auto simp: hailo_vdma_interrupts_wait_ioctl_def\<close>)
qed

lemma is_fault_map_r [simp]: "is_fault (map_r g x) = is_fault x"
  by (cases x) simp_all

lemma ioctl_mutex:
  assumes "hailo_vdma_ioctl io K f out_ok wait down_ok req c w = (r, c', w', up)" "\<not> is_fault r"
    and "\<And>w. w_board_mutex (snd (wait w)) = w_board_mutex w"
  shows "w_board_mutex w' = (if up then w_board_mutex w else Suc (w_board_mutex w))"
proof (cases "\<exists>a. req = HAILO_VDMA_INTERRUPTS_WAIT a")
  case True
  then obtain a x where "hailo_vdma_interrupts_wait_ioctl io K a wait down_ok out_ok w = (x, w', up)" "is_fault r \<longleftrightarrow> is_fault x"
    using assms(1) by (auto split: prod.splits)
  then show ?thesis using wait_mutex [OF _ _ assms(3)] assms(2) by blast
next
  case False
  then show ?thesis using ioctl_outside [OF assms(1)] by (auto simp: outside_def)
qed

section \<open>Closing a file does not return an error\<close>

text \<open>The functions that close a file return no error code in C; in the model they succeed or fault.\<close>

definition no_err :: "'a result \<Rightarrow> bool" where
  "no_err r \<longleftrightarrow> (\<forall>e. r \<noteq> Err e)"

lemma no_err_simps [simp]: "no_err (Ok x)" "no_err (Fault f)" "\<not> no_err (Err e)"
  by (simp_all add: no_err_def)

lemma no_err_bind: "no_err a \<Longrightarrow> (\<And>x. a = Ok x \<Longrightarrow> no_err (f x)) \<Longrightarrow> no_err (bind_r a f)"
  by (cases a) auto

lemma no_err_arrays [simp]: "no_err (array_get xs i)" "no_err (array_modify xs i g)" "no_err (deref_list dls l)"
  by (auto simp: array_get_def array_modify_def deref_list_def split: option.split)

lemma no_err_for_each: "(\<And>i s. no_err (body i s)) \<Longrightarrow> no_err (for_each body is s)"
  by (induction "is" arbitrary: s) (auto intro: no_err_bind)

lemma no_err_clear_dirty: "no_err (clear_dirty_descs ch t dls)"
proof -
  have "no_err (clear_dirty_loop xs l dls)" for xs l
    by (induction xs arbitrary: dls) (auto intro!: no_err_bind simp: clear_dirty_desc_def)
  then show ?thesis by (simp add: clear_dirty_descs_def)
qed

lemma no_err_drain: "no_err (drain_transfers n ch dls)"
proof (induction n arbitrary: ch dls)
  case (Suc n)
  have "bind_r (array_get xs i) (\<lambda>t. Ok (Some t)) \<noteq> Err x" for xs :: "hailo_ongoing_transfer list" and i x by (auto simp: array_get_def)
  with Suc show ?case
    by (auto simp: ongoing_transfer_pop_def Let_def word_neq_0_conv intro!: no_err_bind no_err_clear_dirty split: result.split)
qed simp

lemma no_err_disable_engine: "no_err (disable_engine_channels up i b w)"
proof -
  have "no_err (disable_loop b i chs dls)" for b i chs dls
    by (induction chs arbitrary: i dls) (auto intro!: no_err_bind no_err_drain simp: disable_channel_def split: prod.split)
  then show ?thesis
    by (auto intro!: no_err_bind simp: disable_engine_channels_def hailo_vdma_engine_disable_channels_def hailo_vdma_update_interrupts_mask_def Let_def split: prod.split)
qed

lemma no_err_finalize: "no_err (hailo_vdma_file_context_finalize K c f w)"
proof -
  have m: "no_err (hailo_vdma_clear_mapped_user_buffer_list K ps bufs cs)" for ps bufs cs
    by (induction ps arbitrary: bufs cs) (auto intro!: no_err_bind simp: hailo_vdma_buffer_put_def split: option.split prod.split)
  have l: "no_err (clear_list rel ps hp cs)" for rel ps cs and hp :: "'z heap"
    by (induction ps arbitrary: hp cs) (auto split: option.split)
  have ls: "no_err (hailo_vdma_clear_descriptors_buffer_list ps hd cs)" "no_err (hailo_vdma_clear_low_memory_buffer_list ps hl cs)"
    "no_err (hailo_vdma_clear_continuous_buffer_list ps hc cs)" for ps hd hl hc cs
    by (simp_all add: hailo_vdma_clear_descriptors_buffer_list_def hailo_vdma_clear_low_memory_buffer_list_def hailo_vdma_clear_continuous_buffer_list_def no_err_def)
      (use l in \<open>simp_all add: no_err_def\<close>)
  show ?thesis
    unfolding hailo_vdma_file_context_finalize_def clear_file_lists_def
    by (intro no_err_bind no_err_for_each) (auto intro!: no_err_bind no_err_disable_engine m ls simp: finalize_engine_def split: prod.split)
qed

end
