(* ===== verification/Pcie_Board.thy ===== *)
theory Pcie_Board
  imports Vdma_Ioctl Vdma_Registers Pcie_Firmware
begin

text \<open>
  The board: the state the Linux part of the PCIe driver keeps for one device (\<open>src/linux/pcie/src/pcie.h\<close>), completions, the
  contexts of the open files, the interrupt line, and the resources a board takes when it is probed (\<open>pcie.c\<close>, \<open>fops.c\<close>).

  The board's state extends the state of the vDMA: the vDMA requests work on it as they are, and whatever other threads do
  while one of them waits may change all of it. Functions return a result and the state; \<open>on_error\<close> runs the cleanup that
  follows a label of the C code when the code before it fails.
\<close>

section \<open>Sequencing with state\<close>

definition andthen :: "'a result \<times> 'w \<Rightarrow> ('a \<Rightarrow> 'w \<Rightarrow> 'b result \<times> 'w) \<Rightarrow> 'b result \<times> 'w" where
  "andthen rw f = (case rw of (Ok x, w) \<Rightarrow> f x w | (Err e, w) \<Rightarrow> (Err e, w) | (Fault x, w) \<Rightarrow> (Fault x, w))"

definition on_error :: "'a result \<times> 'w \<Rightarrow> ('w \<Rightarrow> unit result \<times> 'w) \<Rightarrow> 'a result \<times> 'w" where
  "on_error rw undo = (case rw of
       (Err e, w) \<Rightarrow> (case undo w of (Fault x, w1) \<Rightarrow> (Fault x, w1) | (_, w1) \<Rightarrow> (Err e, w1))
     | _ \<Rightarrow> rw)"

text \<open>Cleanup that runs on every path, and a step without a result of its own.\<close>

definition finally_do :: "'a result \<times> 'w \<Rightarrow> ('w \<Rightarrow> 'w) \<Rightarrow> 'a result \<times> 'w" where
  "finally_do rw f = (case rw of (Fault x, w) \<Rightarrow> (Fault x, w) | (r, w) \<Rightarrow> (r, f w))"

definition step_r :: "('w \<Rightarrow> 'w result) \<Rightarrow> 'w \<Rightarrow> unit result \<times> 'w" where
  "step_r f w = (case f w of Ok w1 \<Rightarrow> (Ok (), w1) | Err e \<Rightarrow> (Err e, w) | Fault x \<Rightarrow> (Fault x, w))"

lemma andthen_simps [simp]:
  "andthen (Ok x, w) f = f x w" "andthen (Err e, w) f = (Err e, w)" "andthen (Fault y, w) f = (Fault y, w)"
  by (simp_all add: andthen_def)

lemma on_error_simps [simp]:
  "on_error (Ok x, w) undo = (Ok x, w)" "on_error (Fault y, w) undo = (Fault y, w)"
  "on_error (Err e, w) undo = (case undo w of (Fault x, w1) \<Rightarrow> (Fault x, w1) | (_, w1) \<Rightarrow> (Err e, w1))"
  by (simp_all add: on_error_def)

lemma finally_do_simps [simp]:
  "finally_do (Ok x, w) f = (Ok x, f w)" "finally_do (Err e, w) f = (Err e, f w)" "finally_do (Fault y, w) f = (Fault y, w)"
  by (simp_all add: finally_do_def)

section \<open>Completions\<close>

text \<open>
  \<open>struct completion\<close> counts how often it was completed; \<open>complete_all\<close> sets the count to its maximum, which a waiter does not
  take from. A wait ends at once when the count is positive and returns an error or a timeout only while it is zero.
\<close>

type_synonym completion = u32

definition complete :: "completion \<Rightarrow> completion" where "complete c = (if c = - 1 then c else c + 1)"
definition complete_all :: "completion \<Rightarrow> completion" where "complete_all c = - 1"
definition init_completion :: completion where "init_completion = 0"
definition reinit_completion :: "completion \<Rightarrow> completion" where "reinit_completion c = 0"
definition take_completion :: "completion \<Rightarrow> completion" where "take_completion c = (if c = - 1 then c else c - 1)"

section \<open>The board\<close>

datatype hailo_allocation_mode = HAILO_ALLOCATION_MODE_USERSPACE | HAILO_ALLOCATION_MODE_DRIVER

record hailo_notification_wait =
  nw_tgid :: int
  nw_filp :: ptr
  nw_notification_completion :: completion
  nw_is_disabled :: bool

record hailo_pcie_nnc =
  nnc_fw_control_mutex :: nat
  nnc_fw_control_completion :: completion
  nnc_fw_control_command :: hailo_fw_control
  nnc_notification_wait_list :: "ptr list"
  nnc_notification_cache :: hailo_d2h_notification
  nnc_notification_to_user :: hailo_d2h_notification

record hailo_pcie_soc =
  soc_control_resp_ready :: completion
  soc_driver_compatible :: bool

record hailo_file_context =
  ctx_filp :: ptr
  ctx_vdma_context :: hailo_vdma_file_context
  ctx_is_valid :: bool
  ctx_soc_used_channels_bitmap :: u32

text \<open>
  A boot channel: its two descriptor lists (\<open>None\<close> while their \<open>kernel_address\<close> is NULL), the table of its buffer, its size and
  address, the bytes it holds by their offset, and the number of descriptors programmed.
\<close>

record hailo_pcie_boot_dma_channel_state =
  bc_host_descriptors_buffer :: "(hailo_descriptors_list_buffer \<times> hailo_vdma_descriptors_list) option"
  bc_device_descriptors_buffer :: "(hailo_descriptors_list_buffer \<times> hailo_vdma_descriptors_list) option"
  bc_sg_table :: sgt
  bc_buffer_size :: u64
  bc_kernel_addrs :: "ptr option"
  bc_memory :: "nat \<Rightarrow> u8"
  bc_desc_program_num :: u32

record hailo_pcie_fw_boot =
  fb_channels :: "hailo_pcie_boot_dma_channel_state list"
  fb_curr_channel_index :: u8
  fb_is_in_boot :: bool
  fb_boot_used_channel_bitmap :: u16
  fb_fw_loaded_completion :: completion
  fb_vdma_boot_completion :: completion

text \<open>
  \<open>struct hailo_pcie_board\<close>. \<open>b_self\<close> is its address, \<open>b_alive\<close> false once it is freed, \<open>b_pDev\<close> whether its pointer to the PCI
  device is not NULL, \<open>b_current_state\<close> the power state of that device. \<open>b_board_list\<close> is the global list of boards with their
  indices, \<open>b_chrdev_class\<close> the global class (\<open>None\<close> while NULL, \<open>Some False\<close> an error pointer), \<open>b_add_board_mutex\<close> their semaphore.
  The vDMA controller and the board's semaphore are part of the state that this one extends.
\<close>

record 'd board_world = "'d vdma_world" +
  b_self :: ptr
  b_alive :: bool
  b_pDev :: bool
  b_current_state :: pci_power_t
  b_board_index :: u32
  b_ref_count :: int
  b_open_files_list :: "ptr list"
  b_contexts :: "hailo_file_context heap"
  b_pcie_resources :: hailo_pcie_resources
  b_nnc :: hailo_pcie_nnc
  b_notification_waits :: "hailo_notification_wait heap"
  b_soc :: hailo_pcie_soc
  b_driver_down_reset_completed :: completion
  b_soft_reset_completed :: completion
  b_fw_boot :: hailo_pcie_fw_boot
  b_desc_max_page_size :: u32
  b_allocation_mode :: hailo_allocation_mode
  b_interrupts_enabled :: bool
  b_board_list :: "(ptr \<times> u32) list"
  b_chrdev_class :: "bool option"
  b_add_board_mutex :: nat

text \<open>The parameters of the module.\<close>

record module_params =
  mp_force_desc_page_size :: u32
  mp_is_power_mode_enabled :: bool
  mp_force_allocation_from_driver :: int
  mp_force_hailo10h_legacy_mode :: bool
  mp_force_boot_linux_from_eemc :: bool
  mp_support_soft_reset :: bool

text \<open>
  What surrounds a call into the driver: its process, whether its semaphores are taken without interruption (the first
  \<open>down_interruptible\<close> and a later one), whether its arguments are accessible and can be copied back, what other threads and
  the device do before a semaphore is taken again and while the call sleeps on a completion, whether the sleep was ended by a
  signal, the answer of a wait for vDMA interrupts, the clock, the firmware files, and the addresses of local buffers.
\<close>

record 'd caller =
  e_tgid :: int
  e_lock_ok :: bool
  e_down_ok :: bool
  e_access_ok :: bool
  e_out_ok :: bool
  e_others :: "'d board_world \<Rightarrow> 'd board_world"
  e_sleep :: "'d board_world \<Rightarrow> 'd board_world"
  e_killed :: bool
  e_wait_event :: "'d board_world \<Rightarrow> unit result \<times> 'd board_world"
  e_clock :: "nat \<Rightarrow> u64"
  e_files :: "string option \<Rightarrow> (u8 list \<times> u64) result"
  e_ptr :: u64
  e_sp :: u64

definition call :: "kcall \<Rightarrow> 'd board_world \<Rightarrow> 'd board_world" where
  "call c w = w\<lparr>w_calls := c # w_calls w\<rparr>"

text \<open>The semaphore of the list of boards, as the one of the board: a count, and \<open>Blocked\<close> when nobody will raise it.\<close>

definition up_add_board :: "'d board_world \<Rightarrow> 'd board_world" where
  "up_add_board w = w\<lparr>b_add_board_mutex := Suc (b_add_board_mutex w)\<rparr>"

definition down_add_board :: "'d board_world \<Rightarrow> 'd board_world result" where
  "down_add_board w = (if b_add_board_mutex w = 0 then Fault Blocked else Ok (w\<lparr>b_add_board_mutex := b_add_board_mutex w - 1\<rparr>))"

text \<open>An access to the device.\<close>

definition on_device :: "('d \<Rightarrow> 'a \<times> 'd) \<Rightarrow> 'd board_world \<Rightarrow> 'a \<times> 'd board_world" where
  "on_device f w = (let (x, d) = f (w_device w) in (x, w\<lparr>w_device := d\<rparr>))"

definition poke_device :: "('d \<Rightarrow> 'd) \<Rightarrow> 'd board_world \<Rightarrow> 'd board_world" where
  "poke_device f w = w\<lparr>w_device := f (w_device w)\<rparr>"

text \<open>
  A wait on a completion: others run, then the completion is taken if it was completed; otherwise the wait ends with \<open>False\<close>.
\<close>

definition wait_for_completion ::
    "('d board_world \<Rightarrow> completion) \<Rightarrow> (completion \<Rightarrow> 'd board_world \<Rightarrow> 'd board_world) \<Rightarrow> 'd caller \<Rightarrow> 'd board_world \<Rightarrow>
     bool \<times> 'd board_world" where
  "wait_for_completion get put e w =
     (let w1 = e_sleep e w in if get w1 \<noteq> 0 then (True, put (take_completion (get w1)) w1) else (False, w1))"

section \<open>Contexts of open files\<close>

definition zero_file_context :: hailo_file_context where
  "zero_file_context = \<lparr> ctx_filp = 0,
     ctx_vdma_context = \<lparr> fc_last_vdma_user_buffer_handle = 0, fc_mapped_user_buffer_list = [], fc_last_vdma_handle = 0,
       fc_descriptors_buffer_list = [], fc_vdma_low_memory_buffer_list = [], fc_continuous_buffer_list = [],
       fc_enabled_channels_bitmap = replicate MAX_VDMA_ENGINES 0 \<rparr>,
     ctx_is_valid = False, ctx_soc_used_channels_bitmap = 0 \<rparr>"

definition create_file_context :: "kernel \<Rightarrow> ptr \<Rightarrow> 'd board_world \<Rightarrow> ptr result \<times> 'd board_world" where
  "create_file_context K filp w =
     (let mem = k_kzalloc K (w_calls w); w1 = call (Kzalloc mem) w
      in case mem of
           None \<Rightarrow> (Err ENOMEM, w1)
         | Some p \<Rightarrow>
             let context = zero_file_context\<lparr>ctx_filp := filp, ctx_vdma_context := hailo_vdma_file_context_init (ctx_vdma_context zero_file_context),
                   ctx_is_valid := True\<rparr>
             in (Ok p, w1\<lparr>b_contexts := (b_contexts w1)(p \<mapsto> context), b_open_files_list := p # b_open_files_list w1\<rparr>))"

definition release_file_context :: "ptr \<Rightarrow> 'd board_world \<Rightarrow> unit result \<times> 'd board_world" where
  "release_file_context p w = (case b_contexts w p of
       None \<Rightarrow> (Fault Use_after_free, w)
     | Some _ \<Rightarrow> (Ok (), call (Kfree p) (w\<lparr>b_open_files_list := remove1 p (b_open_files_list w), b_contexts := (b_contexts w)(p := None)\<rparr>)))"

definition find_file_context :: "ptr \<Rightarrow> 'd board_world \<Rightarrow> (ptr \<times> hailo_file_context) option result" where
  "find_file_context filp w = list_find (\<lambda>c. ctx_filp c = filp) (b_open_files_list w) (b_contexts w)"

section \<open>Interrupts and power\<close>

definition hailo_enable_interrupts :: "'d mmio \<Rightarrow> kernel \<Rightarrow> 'd board_world \<Rightarrow> unit result \<times> 'd board_world" where
  "hailo_enable_interrupts io K w =
     (if b_interrupts_enabled w then (Err EINVAL, w)
      else let msi = k_pci_enable_msi K (w_calls w); w1 = call (Pci_enable_msi msi) w
           in andthen (msi, w1) (\<lambda>_ w1.
              let irq = k_request_irq K (w_calls w1); w2 = call (Request_irq irq) w1
              in andthen (on_error (irq, w2) (\<lambda>w. (Ok (), call Pci_disable_msi w))) (\<lambda>_ w2.
                 (Ok (), (poke_device (hailo_pcie_enable_interrupts io (b_pcie_resources w2)) w2)\<lparr>b_interrupts_enabled := True\<rparr>))))"

definition hailo_disable_interrupts :: "'d mmio \<Rightarrow> 'd board_world \<Rightarrow> 'd board_world" where
  "hailo_disable_interrupts io w =
     (if \<not> b_pDev w \<or> \<not> b_interrupts_enabled w then w
      else call Pci_disable_msi (call Free_irq
             (poke_device (hailo_pcie_disable_interrupts io (b_pcie_resources w)) (w\<lparr>b_interrupts_enabled := False\<rparr>))))"

definition pci_set_power_state :: "kernel \<Rightarrow> pci_power_t \<Rightarrow> 'd board_world \<Rightarrow> unit result \<times> 'd board_world" where
  "pci_set_power_state K state w =
     (let r = k_pci_set_power_state K (w_calls w) state; w1 = call (Pci_set_power_state state r) w
      in (r, if is_ok r then w1\<lparr>b_current_state := state\<rparr> else w1))"

definition PCIE_LINK_STATE_L0S :: u16 where "PCIE_LINK_STATE_L0S = 1"
definition PCIE_LINK_STATE_L1 :: u16 where "PCIE_LINK_STATE_L1 = 2"
definition PCI_EXP_LNKCTL_ASPMC :: u16 where "PCI_EXP_LNKCTL_ASPMC = 3"
definition PCI_EXP_LNKCTL_ASPM_L0S :: u16 where "PCI_EXP_LNKCTL_ASPM_L0S = 1"
definition PCI_EXP_LNKCTL_ASPM_L1 :: u16 where "PCI_EXP_LNKCTL_ASPM_L1 = 2"

text \<open>Clearing the link control of the device, then of the bridge above it.\<close>

definition clear_aspm :: "kernel \<Rightarrow> u16 \<Rightarrow> 'd board_world \<Rightarrow> unit result \<times> 'd board_world" where
  "clear_aspm K msk w =
     (let r = k_capability_clear_word K (w_calls w) False PCI_EXP_LNKCTL msk
      in andthen (r, call (Capability_clear_word False PCI_EXP_LNKCTL msk r) w) (\<lambda>_ w1.
         if k_has_parent K
         then let r2 = k_capability_clear_word K (w_calls w1) True PCI_EXP_LNKCTL msk
              in (r2, call (Capability_clear_word True PCI_EXP_LNKCTL msk r2) w1)
         else (Ok (), w1)))"

definition hailo_pcie_disable_aspm :: "kernel \<Rightarrow> u16 \<Rightarrow> bool \<Rightarrow> 'd board_world \<Rightarrow> unit result \<times> 'd board_world" where
  "hailo_pcie_disable_aspm K state locked w =
     (let aspm_dis_mask = (if state = PCIE_LINK_STATE_L0S then PCI_EXP_LNKCTL_ASPM_L0S
                           else if state = PCIE_LINK_STATE_L1 then PCI_EXP_LNKCTL_ASPM_L1 else 0)
      in andthen (k_capability_read_word K (w_calls w) False PCI_EXP_LNKCTL, w) (\<lambda>_ w.
         andthen (if k_has_parent K then k_capability_read_word K (w_calls w) True PCI_EXP_LNKCTL else Ok 0, w) (\<lambda>_ w.
         if k_pcieaspm K
         then let w1 = call (Pci_disable_link_state state locked) w
              in andthen (k_capability_read_word K (w_calls w1) False PCI_EXP_LNKCTL, w1) (\<lambda>pdev_aspmc w1.
                 if aspm_dis_mask AND (pdev_aspmc AND PCI_EXP_LNKCTL_ASPMC) = 0 then (Ok (), w1) else clear_aspm K aspm_dis_mask w1)
         else clear_aspm K aspm_dis_mask w)))"

section \<open>Resources of a board\<close>

definition PCI_EXP_DEVCTL_READRQ :: u16 where "PCI_EXP_DEVCTL_READRQ = 0x7000"
definition PCI_EXP_DEVCTL_READRQ_128B :: u16 where "PCI_EXP_DEVCTL_READRQ_128B = 0"
definition PCI_EXP_DEVCTL_READRQ_256B :: u16 where "PCI_EXP_DEVCTL_READRQ_256B = 0x1000"

definition hailo_get_desc_page_size :: "module_params \<Rightarrow> kernel \<Rightarrow> calls \<Rightarrow> u32 result" where
  "hailo_get_desc_page_size M K cs =
     (let max_page_size = 4096 :: u32; default_page_size = min (ucast PAGE_SIZE) max_page_size; force = mp_force_desc_page_size M
      in if force \<noteq> 0
         then if force AND (force - 1) \<noteq> 0 then Err EINVAL
              else if max_page_size < force then Err EINVAL
              else Ok force
         else bind_r (k_capability_read_word K cs False PCI_EXP_DEVCTL) (\<lambda>pcie_device_control.
              let readrq = pcie_device_control AND PCI_EXP_DEVCTL_READRQ
              in Ok (if readrq = PCI_EXP_DEVCTL_READRQ_128B then 128
                     else if readrq = PCI_EXP_DEVCTL_READRQ_256B then 256 else default_page_size)))"

definition HAILO_PCIE_CONFIG_BAR :: nat where "HAILO_PCIE_CONFIG_BAR = 0"
definition HAILO_PCIE_VDMA_REGS_BAR :: nat where "HAILO_PCIE_VDMA_REGS_BAR = 2"
definition HAILO_PCIE_FW_ACCESS_BAR :: nat where "HAILO_PCIE_FW_ACCESS_BAR = 4"

text \<open>After a failure the caller gives the board up, so the address and size stored in its structure are not read again.\<close>

definition hailo_bar_iomap :: "kernel \<Rightarrow> nat \<Rightarrow> 'd board_world \<Rightarrow> hailo_resource result \<times> 'd board_world" where
  "hailo_bar_iomap K bar w =
     (let sz = k_pci_resource_len K bar; address = k_pci_iomap K (w_calls w) bar
      in (if sz = 0 \<or> address = 0 then Err EINVAL else Ok \<lparr> res_address = address, res_size = sz \<rparr>, call (Pci_iomap bar address) w))"

definition hailo_bar_iounmap :: "hailo_resource \<Rightarrow> 'd board_world \<Rightarrow> hailo_resource \<times> 'd board_world" where
  "hailo_bar_iounmap r w =
     (if res_address r \<noteq> 0 then (\<lparr> res_address = 0, res_size = 0 \<rparr>, call (Pci_iounmap (res_address r)) w) else (r, w))"

text \<open>The unmapping of one of the three BARs of the board.\<close>

definition release_config :: "'d board_world \<Rightarrow> 'd board_world" where
  "release_config w = (let (r, w1) = hailo_bar_iounmap (pr_config (b_pcie_resources w)) w
     in w1\<lparr>b_pcie_resources := (b_pcie_resources w1)\<lparr>pr_config := r\<rparr>\<rparr>)"

definition release_vdma_registers :: "'d board_world \<Rightarrow> 'd board_world" where
  "release_vdma_registers w = (let (r, w1) = hailo_bar_iounmap (pr_vdma_registers (b_pcie_resources w)) w
     in w1\<lparr>b_pcie_resources := (b_pcie_resources w1)\<lparr>pr_vdma_registers := r\<rparr>\<rparr>)"

definition release_fw_access :: "'d board_world \<Rightarrow> 'd board_world" where
  "release_fw_access w = (let (r, w1) = hailo_bar_iounmap (pr_fw_access (b_pcie_resources w)) w
     in w1\<lparr>b_pcie_resources := (b_pcie_resources w1)\<lparr>pr_fw_access := r\<rparr>\<rparr>)"

definition is_board_type :: "hailo_board_type \<Rightarrow> bool" where
  "is_board_type t = (case t of HAILO_BOARD_TYPE_OTHER _ \<Rightarrow> False | _ \<Rightarrow> True)"

text \<open>
  The mapping of the BARs, from the last to the first: each function undoes what follows its own mapping when that fails. The last
  step sets the types of the board and checks that the device answers.
\<close>

definition init_device_type ::
    "'d mmio \<Rightarrow> module_params \<Rightarrow> hailo_board_type \<Rightarrow> 'd board_world \<Rightarrow> unit result \<times> 'd board_world" where
  "init_device_type io M board_type w =
     (let board_type = (if board_type = HAILO_BOARD_TYPE_HAILO10H \<and> mp_force_hailo10h_legacy_mode M
                        then HAILO_BOARD_TYPE_HAILO10H_LEGACY else board_type);
          w = w\<lparr>b_pcie_resources := (b_pcie_resources w)\<lparr>pr_board_type := board_type\<rparr>\<rparr>
      in andthen (hailo_set_device_type (b_pcie_resources w), w) (\<lambda>resources w.
         let w = w\<lparr>b_pcie_resources := resources\<rparr>;
             (connected, w) = on_device (hailo_pcie_is_device_connected io resources) w
         in (if connected then Ok () else Err ENODEV, w)))"

definition map_fw_access ::
    "'d mmio \<Rightarrow> module_params \<Rightarrow> kernel \<Rightarrow> hailo_board_type \<Rightarrow> 'd board_world \<Rightarrow> unit result \<times> 'd board_world" where
  "map_fw_access io M K board_type w =
     andthen (hailo_bar_iomap K HAILO_PCIE_FW_ACCESS_BAR w) (\<lambda>fw_access w.
     on_error (init_device_type io M board_type (w\<lparr>b_pcie_resources := (b_pcie_resources w)\<lparr>pr_fw_access := fw_access\<rparr>\<rparr>))
       (\<lambda>w. (Ok (), release_fw_access w)))"

definition map_vdma_registers ::
    "'d mmio \<Rightarrow> module_params \<Rightarrow> kernel \<Rightarrow> hailo_board_type \<Rightarrow> 'd board_world \<Rightarrow> unit result \<times> 'd board_world" where
  "map_vdma_registers io M K board_type w =
     andthen (hailo_bar_iomap K HAILO_PCIE_VDMA_REGS_BAR w) (\<lambda>vdma_registers w.
     on_error (map_fw_access io M K board_type (w\<lparr>b_pcie_resources := (b_pcie_resources w)\<lparr>pr_vdma_registers := vdma_registers\<rparr>\<rparr>))
       (\<lambda>w. (Ok (), release_vdma_registers w)))"

definition map_config ::
    "'d mmio \<Rightarrow> module_params \<Rightarrow> kernel \<Rightarrow> hailo_board_type \<Rightarrow> 'd board_world \<Rightarrow> unit result \<times> 'd board_world" where
  "map_config io M K board_type w =
     andthen (hailo_bar_iomap K HAILO_PCIE_CONFIG_BAR w) (\<lambda>config w.
     on_error (map_vdma_registers io M K board_type (w\<lparr>b_pcie_resources := (b_pcie_resources w)\<lparr>pr_config := config\<rparr>\<rparr>))
       (\<lambda>w. (Ok (), release_config w)))"

definition pcie_resources_init ::
    "'d mmio \<Rightarrow> module_params \<Rightarrow> kernel \<Rightarrow> hailo_board_type \<Rightarrow> 'd board_world \<Rightarrow> unit result \<times> 'd board_world" where
  "pcie_resources_init io M K board_type w =
     (if \<not> is_board_type board_type then (Err EINVAL, w)
      else let r = k_pci_request_regions K (w_calls w)
      in andthen (r, call (Pci_request_regions r) w) (\<lambda>_ w.
         on_error (map_config io M K board_type w) (\<lambda>w. (Ok (), call Pci_release_regions w))))"

definition pcie_resources_release :: "'d board_world \<Rightarrow> 'd board_world" where
  "pcie_resources_release w = call Pci_release_regions (release_fw_access (release_vdma_registers (release_config w)))"

text \<open>The operation the board gives to the vDMA controller.\<close>

definition update_channel_interrupts :: "nat \<Rightarrow> hailo_pcie_resources \<Rightarrow> nat \<Rightarrow> u32 \<Rightarrow> 'd \<Rightarrow> 'd" where
  "update_channel_interrupts engines_count resources engine_index channels_bitmap d =
     (if engines_count \<le> engine_index then d else hailo_pcie_update_channel_interrupts_mask resources channels_bitmap d)"

definition hailo_pcie_vdma_controller_init ::
    "kernel \<Rightarrow> hailo_vdma_engine list option \<Rightarrow> 'd board_world \<Rightarrow> unit result \<times> 'd board_world" where
  "hailo_pcie_vdma_controller_init K mem w =
     (case hailo_vdma_controller_init K hailo_pcie_vdma_hw (update_channel_interrupts 1 (b_pcie_resources w)) mem
             [pr_vdma_registers (b_pcie_resources w)] 1 (w_controller w) of
        Ok c \<Rightarrow> (Ok (), w\<lparr>w_controller := c\<rparr>)
      | Err e \<Rightarrow> (Err e, w)
      | Fault f \<Rightarrow> (Fault f, w))"

text \<open>\<open>min_not_zero\<close> is the kernel's macro; \<open>is_dma_capable\<close> as compiled for kernels from version 4.19 on.\<close>

definition min_not_zero :: "u64 \<Rightarrow> u64 \<Rightarrow> u64" where
  "min_not_zero x y = (if x = 0 then y else if y = 0 then x else min x y)"

definition is_dma_capable :: "kernel \<Rightarrow> u64 \<Rightarrow> u64 \<Rightarrow> bool" where
  "is_dma_capable K dma_mask dma_addr \<longleftrightarrow> dma_addr \<le> min_not_zero dma_mask (k_bus_dma_limit K)"

definition is_kmalloc_dma_capable :: "kernel \<Rightarrow> 'd board_world \<Rightarrow> bool \<times> 'd board_world" where
  "is_kmalloc_dma_capable K w = (case k_dma_mask K of
       None \<Rightarrow> (False, w)
     | Some m \<Rightarrow>
         let check_addr = k_kzalloc K (w_calls w); w1 = call (Kzalloc check_addr) w
         in case check_addr of
              None \<Rightarrow> (False, w1)
            | Some p \<Rightarrow> (is_dma_capable K m (k_phys_to_dma K (k_virt_to_phys K p)), call (Kfree p) w1))"

definition HAILO_NO_FORCE_BUFFER :: int where "HAILO_NO_FORCE_BUFFER = 0"
definition HAILO_FORCE_BUFFER_FROM_USERSPACE :: int where "HAILO_FORCE_BUFFER_FROM_USERSPACE = 1"
definition HAILO_FORCE_BUFFER_FROM_DRIVER :: int where "HAILO_FORCE_BUFFER_FROM_DRIVER = 2"

definition hailo_get_allocation_mode :: "module_params \<Rightarrow> kernel \<Rightarrow> 'd board_world \<Rightarrow> unit result \<times> 'd board_world" where
  "hailo_get_allocation_mode M K w =
     (let force = mp_force_allocation_from_driver M
      in if force \<noteq> HAILO_NO_FORCE_BUFFER
         then if force = HAILO_FORCE_BUFFER_FROM_USERSPACE then (Ok (), w\<lparr>b_allocation_mode := HAILO_ALLOCATION_MODE_USERSPACE\<rparr>)
              else if force = HAILO_FORCE_BUFFER_FROM_DRIVER then (Ok (), w\<lparr>b_allocation_mode := HAILO_ALLOCATION_MODE_DRIVER\<rparr>)
              else (Err EINVAL, w)
         else let (capable, w1) = is_kmalloc_dma_capable K w
              in (Ok (), w1\<lparr>b_allocation_mode := (if capable then HAILO_ALLOCATION_MODE_USERSPACE else HAILO_ALLOCATION_MODE_DRIVER)\<rparr>))"

end
