(* ===== verification/Board_Logic.thy ===== *)
theory Board_Logic
  imports Pcie_Board
begin

text \<open>
  Rules to reason about functions that return a result and a state: \<open>post rw Q E\<close> holds when a run that succeeds satisfies \<open>Q\<close>, a
  run that returns an error satisfies \<open>E\<close>, and it says nothing of a run that faults. The rules follow the ways of sequencing, so
  that a function is taken apart along its code.
\<close>

definition post :: "'a result \<times> 'w \<Rightarrow> ('a \<Rightarrow> 'w \<Rightarrow> bool) \<Rightarrow> ('w \<Rightarrow> bool) \<Rightarrow> bool" where
  "post rw Q E \<longleftrightarrow> (case rw of (Ok x, w) \<Rightarrow> Q x w | (Err e, w) \<Rightarrow> E w | (Fault f, w) \<Rightarrow> True)"

named_theorems post_rules

lemma post_simps [simp]: "post (Ok x, w) Q E \<longleftrightarrow> Q x w" "post (Err e, w) Q E \<longleftrightarrow> E w" "post (Fault f, w) Q E"
  by (simp_all add: post_def)

lemma post_andthen [post_rules]: "post (andthen rw f) Q E \<longleftrightarrow> post rw (\<lambda>x w. post (f x w) Q E) E"
  by (cases rw; cases "fst rw") auto

lemma post_on_error [post_rules]: "post (on_error rw undo) Q E \<longleftrightarrow> post rw Q (\<lambda>w. post (undo w) (\<lambda>_. E) E)"
  by (cases rw; cases "fst rw") (auto simp: post_def split: prod.split result.split)

lemma post_finally_do [post_rules]: "post (finally_do rw f) Q E \<longleftrightarrow> post rw (\<lambda>x w. Q x (f w)) (\<lambda>w. E (f w))"
  by (cases rw; cases "fst rw") auto

lemma post_step_r: "post (step_r f w) Q E \<longleftrightarrow> (case f w of Ok w1 \<Rightarrow> Q () w1 | Err e \<Rightarrow> E w | Fault x \<Rightarrow> True)"
  by (simp add: step_r_def split: result.split)

lemma post_mono: "post rw Q E \<Longrightarrow> (\<And>x w. Q x w \<Longrightarrow> Q' x w) \<Longrightarrow> (\<And>w. E w \<Longrightarrow> E' w) \<Longrightarrow> post rw Q' E'"
  by (cases rw; cases "fst rw") auto

lemma post_result: "post (r, w) Q E \<longleftrightarrow> (case r of Ok x \<Rightarrow> Q x w | Err e \<Rightarrow> E w | Fault f \<Rightarrow> True)"
  by (cases r) auto

lemma post_OkD: "post rw Q E \<Longrightarrow> rw = (Ok x, w) \<Longrightarrow> Q x w"
  by simp

lemma post_ErrD: "post rw Q E \<Longrightarrow> rw = (Err e, w) \<Longrightarrow> E w"
  by simp

section \<open>The calls of a board\<close>

text \<open>The resources a call adds or gives back, seen from the history with which the operation under study began.\<close>

lemma call_fields [simp]:
  "w_calls (call c w) = c # w_calls w" "w_device (call c w) = w_device w" "w_controller (call c w) = w_controller w"
  "w_board_mutex (call c w) = w_board_mutex w" "b_self (call c w) = b_self w" "b_alive (call c w) = b_alive w" "b_pDev (call c w) = b_pDev w"
  "b_current_state (call c w) = b_current_state w" "b_board_index (call c w) = b_board_index w" "b_ref_count (call c w) = b_ref_count w"
  "b_open_files_list (call c w) = b_open_files_list w" "b_contexts (call c w) = b_contexts w" "b_pcie_resources (call c w) = b_pcie_resources w"
  "b_nnc (call c w) = b_nnc w" "b_notification_waits (call c w) = b_notification_waits w" "b_soc (call c w) = b_soc w" "b_fw_boot (call c w) = b_fw_boot w"
  "b_interrupts_enabled (call c w) = b_interrupts_enabled w" "b_board_list (call c w) = b_board_list w" "b_chrdev_class (call c w) = b_chrdev_class w"
  "b_add_board_mutex (call c w) = b_add_board_mutex w" "w_buffers (call c w) = w_buffers w" "w_desc_buffers (call c w) = w_desc_buffers w"
  "w_low_buffers (call c w) = w_low_buffers w" "w_cont_buffers (call c w) = w_cont_buffers w" "w_lists (call c w) = w_lists w"
  by (simp_all add: call_def)

lemma poke_device_fields [simp]:
  "w_calls (poke_device f w) = w_calls w" "w_controller (poke_device f w) = w_controller w"
  "w_board_mutex (poke_device f w) = w_board_mutex w" "b_self (poke_device f w) = b_self w" "b_alive (poke_device f w) = b_alive w" "b_pDev (poke_device f w) = b_pDev w"
  "b_current_state (poke_device f w) = b_current_state w" "b_board_index (poke_device f w) = b_board_index w" "b_ref_count (poke_device f w) = b_ref_count w"
  "b_open_files_list (poke_device f w) = b_open_files_list w" "b_contexts (poke_device f w) = b_contexts w" "b_pcie_resources (poke_device f w) = b_pcie_resources w"
  "b_nnc (poke_device f w) = b_nnc w" "b_notification_waits (poke_device f w) = b_notification_waits w" "b_soc (poke_device f w) = b_soc w" "b_fw_boot (poke_device f w) = b_fw_boot w"
  "b_interrupts_enabled (poke_device f w) = b_interrupts_enabled w" "b_board_list (poke_device f w) = b_board_list w" "b_chrdev_class (poke_device f w) = b_chrdev_class w"
  "b_add_board_mutex (poke_device f w) = b_add_board_mutex w" "w_buffers (poke_device f w) = w_buffers w" "w_desc_buffers (poke_device f w) = w_desc_buffers w"
  "w_low_buffers (poke_device f w) = w_low_buffers w" "w_cont_buffers (poke_device f w) = w_cont_buffers w" "w_lists (poke_device f w) = w_lists w"
  by (simp_all add: poke_device_def)

text \<open>An access to the device changes nothing but the device.\<close>

lemma on_device_eq: "on_device f w = (fst (f (w_device w)), w\<lparr>w_device := snd (f (w_device w))\<rparr>)"
  by (simp add: on_device_def split_beta)

lemma poke_device_eq: "poke_device f w = w\<lparr>w_device := f (w_device w)\<rparr>"
  by (simp add: poke_device_def)

end
