(* ===== verification/Pcie_Nnc.thy ===== *)
theory Pcie_Nnc
  imports Pcie_Board
begin

text \<open>
  Boards with a neural network core and its firmware (\<open>src/linux/pcie/src/nnc.c\<close>): firmware controls, notifications, the
  firmware log, and the shutdown message to the firmware. A firmware control holds the semaphore of the controls, not the one
  of the board, while it talks to the firmware.
\<close>

section \<open>Initialisation and removal\<close>

definition hailo_nnc_init :: "hailo_pcie_nnc \<Rightarrow> hailo_pcie_nnc" where
  "hailo_nnc_init nnc = nnc\<lparr>nnc_fw_control_mutex := 1, nnc_fw_control_completion := init_completion, nnc_notification_wait_list := [],
     nnc_notification_cache := \<lparr> notif_buffer_len = 0, notif_buffer = replicate MAX_NOTIFICATION_LENGTH 0 \<rparr>\<rparr>"

text \<open>A change of one waiting structure, reached through a pointer of the list.\<close>

definition modify_wait :: "(hailo_notification_wait \<Rightarrow> hailo_notification_wait) \<Rightarrow> ptr \<Rightarrow> 'd board_world \<Rightarrow> 'd board_world result" where
  "modify_wait f p w = (case b_notification_waits w p of
       None \<Rightarrow> Fault Use_after_free
     | Some n \<Rightarrow> Ok (w\<lparr>b_notification_waits := (b_notification_waits w)(p \<mapsto> f n)\<rparr>))"

definition disable_wait :: "hailo_notification_wait \<Rightarrow> hailo_notification_wait" where
  "disable_wait n = n\<lparr>nw_is_disabled := True, nw_notification_completion := complete (nw_notification_completion n)\<rparr>"

definition hailo_nnc_finalize :: "'d board_world \<Rightarrow> 'd board_world result" where
  "hailo_nnc_finalize w = for_each (modify_wait disable_wait) (nnc_notification_wait_list (b_nnc w)) w"

section \<open>Firmware controls\<close>

definition HAILO_CONTROL_OPCODE_CONTEXT_SWITCH_SET_CONTEXT_INFO :: u32 where
  "HAILO_CONTROL_OPCODE_CONTEXT_SWITCH_SET_CONTEXT_INFO = 33"

text \<open>
  The translation table in the packed request: a count byte after the opcode, then 32 handles and 32 addresses of eight
  bytes each. The host is little-endian, so the conversions from and to the device's byte order are the identity.
\<close>

definition handle_count_offset :: nat where "handle_count_offset = 4"
definition handle_offset :: "nat \<Rightarrow> nat" where "handle_offset i = 5 + 8 * i"
definition dma_addr_offset :: "nat \<Rightarrow> nat" where
  "dma_addr_offset i = 5 + 8 * CONTROL_PROTOCOL__MAX_VDMA_CHANNELS_PER_ENGINE + 8 * i"

fun translate_handles ::
    "nat \<Rightarrow> nat \<Rightarrow> hailo_vdma_file_context \<Rightarrow> hailo_descriptors_list_buffer heap \<Rightarrow> u8 list \<Rightarrow> unit result \<times> u8 list" where
  "translate_handles 0 i context bufs request = (Ok (), request)"
| "translate_handles (Suc n) i context bufs request =
     (case hailo_vdma_find_descriptors_buffer (fc_descriptors_buffer_list context) bufs (u64_at request (handle_offset i)) of
        Ok (Some (_, desc_list)) \<Rightarrow>
          translate_handles n (Suc i) context bufs (put_bytes (dma_addr_offset i) (u64_bytes (db_dma_address desc_list)) request)
      | Ok None \<Rightarrow> (Err EINVAL, request)
      | Err e \<Rightarrow> (Err e, request)
      | Fault f \<Rightarrow> (Fault f, request))"

definition hailo_fw_control_preprocess ::
    "hailo_vdma_file_context \<Rightarrow> hailo_descriptors_list_buffer heap \<Rightarrow> u8 list \<Rightarrow> unit result \<times> u8 list" where
  "hailo_fw_control_preprocess context bufs request =
     (if u32_at request 0 \<noteq> HAILO_CONTROL_OPCODE_CONTEXT_SWITCH_SET_CONTEXT_INFO then (Ok (), request)
      else let handle_count = unat (request ! handle_count_offset)
           in if CONTROL_PROTOCOL__MAX_VDMA_CHANNELS_PER_ENGINE < handle_count then (Err EINVAL, request)
              else translate_handles handle_count 0 context bufs request)"

text \<open>The part of the request that runs with the semaphore of the controls held.\<close>

definition set_command :: "hailo_fw_control \<Rightarrow> 'd board_world \<Rightarrow> 'd board_world" where
  "set_command command w = w\<lparr>b_nnc := (b_nnc w)\<lparr>nnc_fw_control_command := command\<rparr>\<rparr>"

definition set_control_completion :: "completion \<Rightarrow> 'd board_world \<Rightarrow> 'd board_world" where
  "set_control_completion c w = w\<lparr>b_nnc := (b_nnc w)\<lparr>nnc_fw_control_completion := c\<rparr>\<rparr>"

definition context_of :: "ptr \<Rightarrow> 'd board_world \<Rightarrow> hailo_file_context result" where
  "context_of p w = (case b_contexts w p of None \<Rightarrow> Fault Use_after_free | Some c \<Rightarrow> Ok c)"

definition preprocess_command :: "ptr \<Rightarrow> 'd board_world \<Rightarrow> unit result \<times> 'd board_world" where
  "preprocess_command context w =
     andthen (context_of context w, w) (\<lambda>c w.
     let command = nnc_fw_control_command (b_nnc w);
         (r, request) = hailo_fw_control_preprocess (ctx_vdma_context c) (w_desc_buffers w) (fc_request command)
     in (r, set_command (command\<lparr>fc_request := request\<rparr>) w))"

definition exchange_control :: "'d mmio \<Rightarrow> 'd caller \<Rightarrow> 'd board_world \<Rightarrow> hailo_fw_control result \<times> 'd board_world" where
  "exchange_control io e w =
     andthen (on_device (hailo_pcie_write_firmware_control io (b_pcie_resources w) (nnc_fw_control_command (b_nnc w)) (e_ptr e))
                (set_control_completion (reinit_completion (nnc_fw_control_completion (b_nnc w))) w)) (\<lambda>_ w.
     let (completed, w) = wait_for_completion (\<lambda>w. nnc_fw_control_completion (b_nnc w)) set_control_completion e w
     in if \<not> completed then (Err (if e_killed e then EINTR else ETIMEDOUT), w)
        else let ((r, command), w) = on_device (\<lambda>d. case hailo_pcie_read_firmware_control io (b_pcie_resources w) (nnc_fw_control_command (b_nnc w))
                                             (e_ptr e) (e_ptr e) d of (r, c, d1) \<Rightarrow> ((r, c), d1)) w;
                 w = set_command command w
             in andthen (r, w) (\<lambda>_ w. (if e_out_ok e then Ok command else Err ENOMEM, w)))"

definition hailo_fw_control_ioctl ::
    "'d mmio \<Rightarrow> 'd caller \<Rightarrow> ptr \<Rightarrow> hailo_fw_control option \<Rightarrow> 'd board_world \<Rightarrow> hailo_fw_control result \<times> 'd board_world \<times> bool" where
  "hailo_fw_control_ioctl io e context arg w =
     (let w = e_others e (up_mutex w)
      in if \<not> e_down_ok e then (Err ERESTARTSYS, w, False)
         else if nnc_fw_control_mutex (b_nnc w) = 0 then (Fault Blocked, w, False)
         else
          let w = w\<lparr>b_nnc := (b_nnc w)\<lparr>nnc_fw_control_mutex := nnc_fw_control_mutex (b_nnc w) - 1\<rparr>\<rparr>;
              (r, w) = finally_do (case arg of
                     None \<Rightarrow> (Err ENOMEM, w)
                   | Some command \<Rightarrow> andthen (preprocess_command context (set_command command w)) (\<lambda>_ w. exchange_control io e w))
                 (\<lambda>w. w\<lparr>b_nnc := (b_nnc w)\<lparr>nnc_fw_control_mutex := Suc (nnc_fw_control_mutex (b_nnc w))\<rparr>\<rparr>)
          in (r, w, False))"

section \<open>Notifications and log\<close>

definition hailo_get_notification_wait_thread :: "'d caller \<Rightarrow> ptr \<Rightarrow> 'd board_world \<Rightarrow> ptr result" where
  "hailo_get_notification_wait_thread e filp w =
     bind_r (list_find (\<lambda>n. nw_tgid n = e_tgid e \<and> nw_filp n = filp) (nnc_notification_wait_list (b_nnc w)) (b_notification_waits w))
       (\<lambda>found. case found of None \<Rightarrow> Err EFAULT | Some (p, _) \<Rightarrow> Ok p)"

text \<open>The notification for the user, copied from the cache that the interrupt handler fills.\<close>

definition copy_notification :: "'d board_world \<Rightarrow> hailo_d2h_notification result" where
  "copy_notification w =
     (let cache = nnc_notification_cache (b_nnc w); user = nnc_notification_to_user (b_nnc w); n = unat (notif_buffer_len cache)
      in if length (notif_buffer cache) < n \<or> length (notif_buffer user) < n then Fault Out_of_bounds
         else Ok \<lparr> notif_buffer_len = notif_buffer_len cache, notif_buffer = take n (notif_buffer cache) @ drop n (notif_buffer user) \<rparr>)"

text \<open>The thread wakes up at \<open>p\<close>; the board's semaphore is released while it sleeps.\<close>

definition wait_of :: "ptr \<Rightarrow> 'd board_world \<Rightarrow> hailo_notification_wait result" where
  "wait_of p w = (case b_notification_waits w p of None \<Rightarrow> Fault Use_after_free | Some n \<Rightarrow> Ok n)"

definition put_notification_completion :: "ptr \<Rightarrow> completion \<Rightarrow> 'd board_world \<Rightarrow> 'd board_world" where
  "put_notification_completion p c w =
     w\<lparr>b_notification_waits := (b_notification_waits w)(p := map_option (\<lambda>n. n\<lparr>nw_notification_completion := c\<rparr>) (b_notification_waits w p))\<rparr>"

definition get_notification_completion :: "ptr \<Rightarrow> 'd board_world \<Rightarrow> completion" where
  "get_notification_completion p w = (case b_notification_waits w p of None \<Rightarrow> 0 | Some n \<Rightarrow> nw_notification_completion n)"

definition deliver_notification :: "'d caller \<Rightarrow> ptr \<Rightarrow> 'd board_world \<Rightarrow> hailo_d2h_notification result \<times> 'd board_world" where
  "deliver_notification e p w =
     andthen (wait_of p w, w) (\<lambda>n w.
     if nw_is_disabled n then (Err ECANCELED, w)
     else andthen (copy_notification w, put_notification_completion p (reinit_completion (nw_notification_completion n)) w) (\<lambda>user w.
          (if e_out_ok e then Ok user else Err ENOMEM, w\<lparr>b_nnc := (b_nnc w)\<lparr>nnc_notification_to_user := user\<rparr>\<rparr>)))"

definition hailo_read_notification_ioctl ::
    "'d caller \<Rightarrow> ptr \<Rightarrow> 'd board_world \<Rightarrow> hailo_d2h_notification result \<times> 'd board_world \<times> bool" where
  "hailo_read_notification_ioctl e filp w = (case hailo_get_notification_wait_thread e filp w of
       Err x \<Rightarrow> (Err x, w, True)
     | Fault f \<Rightarrow> (Fault f, w, True)
     | Ok p \<Rightarrow>
         let (completed, w) = wait_for_completion (get_notification_completion p) (put_notification_completion p) e (up_mutex w)
         in if \<not> completed then (Err ERESTARTSYS, w, False)
            else let w = e_others e w
            in if \<not> e_down_ok e then (Err ERESTARTSYS, w, False)
               else (case down_mutex w of
                       Ok w \<Rightarrow> (case deliver_notification e p w of (r, w) \<Rightarrow> (r, w, True))
                     | Err x \<Rightarrow> (Err x, w, False)
                     | Fault f \<Rightarrow> (Fault f, w, False)))"

text \<open>The first waiting structure of the process and file is disabled.\<close>

definition hailo_disable_notification :: "'d caller \<Rightarrow> ptr \<Rightarrow> 'd board_world \<Rightarrow> unit result \<times> 'd board_world" where
  "hailo_disable_notification e filp w =
     andthen (list_find (\<lambda>n. nw_tgid n = e_tgid e \<and> nw_filp n = filp) (nnc_notification_wait_list (b_nnc w)) (b_notification_waits w), w)
       (\<lambda>found w. case found of
            None \<Rightarrow> (Ok (), w)
          | Some (p, _) \<Rightarrow> step_r (modify_wait disable_wait p) w)"

definition hailo_read_log_ioctl ::
    "'d mmio \<Rightarrow> 'd caller \<Rightarrow> hailo_read_log_params option \<Rightarrow> 'd board_world \<Rightarrow> hailo_read_log_params result \<times> 'd board_world" where
  "hailo_read_log_ioctl io e arg w = (case arg of
       None \<Rightarrow> (Err ENOMEM, w)
     | Some params \<Rightarrow>
         andthen (on_device (hailo_pcie_read_firmware_log io (pr_fw_access (b_pcie_resources w)) (e_ptr e) (e_ptr e) params) w)
           (\<lambda>params w. (if e_out_ok e then Ok params else Err ENOMEM, w)))"

datatype nnc_request =
    HAILO_FW_CONTROL "hailo_fw_control option"
  | HAILO_READ_NOTIFICATION
  | HAILO_DISABLE_NOTIFICATION
  | HAILO_READ_LOG "hailo_read_log_params option"
  | HAILO_NNC_OTHER nat

datatype nnc_reply =
    Control hailo_fw_control | Notification hailo_d2h_notification | Log hailo_read_log_params | Nnc_done

fun hailo_nnc_ioctl ::
    "'d mmio \<Rightarrow> 'd caller \<Rightarrow> ptr \<Rightarrow> ptr \<Rightarrow> nnc_request \<Rightarrow> 'd board_world \<Rightarrow> nnc_reply result \<times> 'd board_world \<times> bool" where
  "hailo_nnc_ioctl io e context filp (HAILO_FW_CONTROL a) w =
     (case hailo_fw_control_ioctl io e context a w of (r, w1, up) \<Rightarrow> (map_r Control r, w1, up))"
| "hailo_nnc_ioctl io e context filp HAILO_READ_NOTIFICATION w =
     (case hailo_read_notification_ioctl e filp w of (r, w1, up) \<Rightarrow> (map_r Notification r, w1, up))"
| "hailo_nnc_ioctl io e context filp HAILO_DISABLE_NOTIFICATION w =
     (case hailo_disable_notification e filp w of (r, w1) \<Rightarrow> (map_r (\<lambda>_. Nnc_done) r, w1, True))"
| "hailo_nnc_ioctl io e context filp (HAILO_READ_LOG a) w =
     (case hailo_read_log_ioctl io e a w of (r, w1) \<Rightarrow> (map_r Log r, w1, True))"
| "hailo_nnc_ioctl io e context filp (HAILO_NNC_OTHER n) w = (Err ENOTTY, w, True)"

section \<open>Files\<close>

definition add_notification_wait :: "kernel \<Rightarrow> 'd caller \<Rightarrow> ptr \<Rightarrow> 'd board_world \<Rightarrow> unit result \<times> 'd board_world" where
  "add_notification_wait K e filp w =
     (let mem = k_kzalloc K (w_calls w); w1 = call (Kzalloc mem) w
      in case mem of
           None \<Rightarrow> (Err ENOMEM, w1)
         | Some p \<Rightarrow>
             (Ok (), w1\<lparr>b_notification_waits := (b_notification_waits w1)(p \<mapsto>
                  \<lparr> nw_tgid = e_tgid e, nw_filp = filp, nw_notification_completion = init_completion, nw_is_disabled = False \<rparr>),
                b_nnc := (b_nnc w1)\<lparr>nnc_notification_wait_list := p # nnc_notification_wait_list (b_nnc w1)\<rparr>\<rparr>))"

definition hailo_nnc_file_context_init ::
    "kernel \<Rightarrow> 'd caller \<Rightarrow> hailo_file_context \<Rightarrow> 'd board_world \<Rightarrow> unit result \<times> 'd board_world" where
  "hailo_nnc_file_context_init K e context w = add_notification_wait K e (ctx_filp context) w"

text \<open>One step of the loop over the waiting structures of the file.\<close>

definition clear_wait :: "ptr \<Rightarrow> ptr \<Rightarrow> 'd board_world \<Rightarrow> 'd board_world result" where
  "clear_wait filp p w = (case b_notification_waits w p of
       None \<Rightarrow> Fault Use_after_free
     | Some n \<Rightarrow>
         if nw_filp n = filp
         then Ok (call (Kfree p) (w\<lparr>b_nnc := (b_nnc w)\<lparr>nnc_notification_wait_list := remove1 p (nnc_notification_wait_list (b_nnc w))\<rparr>,
                b_notification_waits := (b_notification_waits w)(p := None)\<rparr>))
         else Ok w)"

definition clear_notification_wait_list :: "ptr \<Rightarrow> 'd board_world \<Rightarrow> 'd board_world result" where
  "clear_notification_wait_list filp w = for_each (clear_wait filp) (nnc_notification_wait_list (b_nnc w)) w"

definition set_driver_down_completion :: "completion \<Rightarrow> 'd board_world \<Rightarrow> 'd board_world" where
  "set_driver_down_completion c w = w\<lparr>b_driver_down_reset_completed := c\<rparr>"

definition hailo_nnc_driver_down :: "'d mmio \<Rightarrow> 'd caller \<Rightarrow> 'd board_world \<Rightarrow> unit result \<times> 'd board_world" where
  "hailo_nnc_driver_down io e w =
     (let w = set_driver_down_completion (reinit_completion (b_driver_down_reset_completed w)) w;
          w = poke_device (hailo_pcie_write_firmware_driver_shutdown io (b_pcie_resources w)) w;
          (completed, w) = wait_for_completion b_driver_down_reset_completed set_driver_down_completion e w
      in (if completed then Ok () else Err ETIMEDOUT, w))"

definition hailo_nnc_file_context_finalize ::
    "'d mmio \<Rightarrow> 'd caller \<Rightarrow> hailo_file_context \<Rightarrow> 'd board_world \<Rightarrow> 'd board_world result" where
  "hailo_nnc_file_context_finalize io e context w =
     bind_r (clear_notification_wait_list (ctx_filp context) w) (\<lambda>w.
     Ok (if vc_used_by_filp (w_controller w) = Some (ctx_filp context) then snd (hailo_nnc_driver_down io e w) else w))"

end
