(* ===== verification/Pcie_Soc.thy ===== *)
theory Pcie_Soc
  imports Pcie_Board
begin

text \<open>
  Boards with a full system on chip (\<open>src/linux/pcie/src/soc.c\<close>, messages of \<open>src/common/soc_structs.h\<close>): connecting and closing
  a pair of vDMA channels, powering off, and the check of the driver's version on the other side. A request to the SoC is
  written to the firmware's memory; its response is read when the completion says it is there.
\<close>

section \<open>Messages\<close>

definition HAILO_PCIE_SOC_CONTROL_CODE_CONNECT :: u32 where "HAILO_PCIE_SOC_CONTROL_CODE_CONNECT = 0x100"
definition HAILO_PCIE_SOC_CONTROL_CODE_CLOSE :: u32 where "HAILO_PCIE_SOC_CONTROL_CODE_CLOSE = 0x101"
definition HAILO_PCIE_SOC_CONTROL_CODE_QUERY_DRIVER_INFO :: u32 where "HAILO_PCIE_SOC_CONTROL_CODE_QUERY_DRIVER_INFO = 0x102"
definition HAILO_PCIE_SOC_CONTROL_POWER_OFF :: u32 where "HAILO_PCIE_SOC_CONTROL_POWER_OFF = 0x103"
definition HAILO_PCIE_SOC_MAX_REQUEST_SIZE_BYTES :: nat where "HAILO_PCIE_SOC_MAX_REQUEST_SIZE_BYTES = 16"

definition HAILO_DRV_VER_MAJOR :: u32 where "HAILO_DRV_VER_MAJOR = 4"
definition HAILO_DRV_VER_MINOR :: u32 where "HAILO_DRV_VER_MINOR = 24"
definition HAILO_DRV_VER_REVISION :: u32 where "HAILO_DRV_VER_REVISION = 0"

lemmas soc_consts = HAILO_PCIE_SOC_CONTROL_CODE_CONNECT_def HAILO_PCIE_SOC_CONTROL_CODE_CLOSE_def
  HAILO_PCIE_SOC_CONTROL_CODE_QUERY_DRIVER_INFO_def HAILO_PCIE_SOC_CONTROL_POWER_OFF_def HAILO_PCIE_SOC_MAX_REQUEST_SIZE_BYTES_def
  HAILO_DRV_VER_MAJOR_def HAILO_DRV_VER_MINOR_def HAILO_DRV_VER_REVISION_def

datatype hailo_pcie_soc_request = Soc_connect u16 | Soc_close u32 | Soc_query_driver_info | Soc_power_off

fun soc_control_code :: "hailo_pcie_soc_request \<Rightarrow> u32" where
  "soc_control_code (Soc_connect _) = HAILO_PCIE_SOC_CONTROL_CODE_CONNECT"
| "soc_control_code (Soc_close _) = HAILO_PCIE_SOC_CONTROL_CODE_CLOSE"
| "soc_control_code Soc_query_driver_info = HAILO_PCIE_SOC_CONTROL_CODE_QUERY_DRIVER_INFO"
| "soc_control_code Soc_power_off = HAILO_PCIE_SOC_CONTROL_POWER_OFF"

definition u16_bytes :: "u16 \<Rightarrow> u8 list" where "u16_bytes x = [ucast x, ucast (drop_bit 8 x)]"

fun soc_parameters :: "hailo_pcie_soc_request \<Rightarrow> u8 list" where
  "soc_parameters (Soc_connect port) = u16_bytes port"
| "soc_parameters (Soc_close channels_bitmap) = u32_bytes channels_bitmap"
| "soc_parameters _ = []"

text \<open>The bytes of a request: the code and the union, zero where the initialiser names no field.\<close>

definition bytes_of_soc_request :: "hailo_pcie_soc_request \<Rightarrow> u8 list" where
  "bytes_of_soc_request r =
     u32_bytes (soc_control_code r) @ soc_parameters r @ replicate (HAILO_PCIE_SOC_MAX_REQUEST_SIZE_BYTES - length (soc_parameters r)) 0"

record hailo_pcie_soc_response =
  sr_control_code :: u32
  sr_status :: u32
  sr_parameters :: "u8 list"

definition soc_response_of_bytes :: "u8 list \<Rightarrow> hailo_pcie_soc_response" where
  "soc_response_of_bytes bs = \<lparr> sr_control_code = u32_at bs 0, sr_status = u32_at bs 4, sr_parameters = drop 8 bs \<rparr>"

section \<open>Controls\<close>

definition hailo_soc_init :: "hailo_pcie_soc \<Rightarrow> hailo_pcie_soc" where
  "hailo_soc_init soc = soc\<lparr>soc_control_resp_ready := init_completion, soc_driver_compatible := True\<rparr>"

definition set_resp_ready :: "completion \<Rightarrow> 'd board_world \<Rightarrow> 'd board_world" where
  "set_resp_ready c w = w\<lparr>b_soc := (b_soc w)\<lparr>soc_control_resp_ready := c\<rparr>\<rparr>"

definition soc_control :: "'d mmio \<Rightarrow> 'd caller \<Rightarrow> hailo_pcie_soc_request \<Rightarrow> 'd board_world \<Rightarrow> hailo_pcie_soc_response result \<times> 'd board_world" where
  "soc_control io e request w =
     (let w = set_resp_ready (reinit_completion (soc_control_resp_ready (b_soc w))) w;
          w = poke_device (hailo_pcie_soc_write_request io (b_pcie_resources w) (bytes_of_soc_request request) (e_ptr e)) w;
          (completed, w) = wait_for_completion (\<lambda>w. soc_control_resp_ready (b_soc w)) set_resp_ready e w
      in if \<not> completed then (Err (if e_killed e then ERESTARTSYS else ETIMEDOUT), w)
         else let (bs, w) = on_device (hailo_pcie_soc_read_response io (b_pcie_resources w) (e_ptr e)) w;
                  response = soc_response_of_bytes bs
              in (if sint (sr_status response) < 0 then Err (ECODE (nat (- sint (sr_status response))))
                  else if sr_control_code response \<noteq> soc_control_code request then Err EINVAL
                  else Ok response, w))"

definition hailo_soc_get_driver_info :: "'d mmio \<Rightarrow> 'd caller \<Rightarrow> 'd board_world \<Rightarrow> unit result \<times> 'd board_world" where
  "hailo_soc_get_driver_info io e w =
     andthen (soc_control io e Soc_query_driver_info w) (\<lambda>response w.
     if u32_at (sr_parameters response) 0 \<noteq> HAILO_DRV_VER_MAJOR \<or> u32_at (sr_parameters response) 4 \<noteq> HAILO_DRV_VER_MINOR \<or>
        u32_at (sr_parameters response) 8 \<noteq> HAILO_DRV_VER_REVISION
     then (Err EINVAL, w\<lparr>b_soc := (b_soc w)\<lparr>soc_driver_compatible := False\<rparr>\<rparr>)
     else (Ok (), w))"

section \<open>Requests\<close>

record hailo_soc_connect_params =
  scp_port_number :: u16
  scp_input_channel_index :: u8
  scp_output_channel_index :: u8
  scp_input_desc_handle :: u64
  scp_output_desc_handle :: u64

record hailo_soc_close_params =
  scl_input_channel_index :: u8
  scl_output_channel_index :: u8

definition PCI_VDMA_ENGINE_INDEX :: nat where "PCI_VDMA_ENGINE_INDEX = 0"

text \<open>The channel of an index that came from the SoC, and the list and address behind a handle of the file.\<close>

definition soc_channel :: "u8 \<Rightarrow> 'd board_world \<Rightarrow> hailo_vdma_channel result" where
  "soc_channel index w =
     bind_r (array_get (engines w) PCI_VDMA_ENGINE_INDEX) (\<lambda>engine. array_get (en_channels engine) (unat index))"

definition soc_descriptors :: "hailo_vdma_file_context \<Rightarrow> u64 \<Rightarrow> 'd board_world \<Rightarrow> (u64 \<times> u32) option result" where
  "soc_descriptors context handle w =
     bind_r (hailo_vdma_find_descriptors_buffer (fc_descriptors_buffer_list context) (w_desc_buffers w) handle) (\<lambda>found.
     case found of
       None \<Rightarrow> Ok None
     | Some (p, b) \<Rightarrow> (case w_lists w p of None \<Rightarrow> Fault Use_after_free | Some dl \<Rightarrow> Ok (Some (db_dma_address b, dl_desc_count dl))))"

definition soc_set_bits :: "ptr \<Rightarrow> (u32 \<Rightarrow> u32) \<Rightarrow> 'd board_world \<Rightarrow> 'd board_world result" where
  "soc_set_bits context f w = (case b_contexts w context of
       None \<Rightarrow> Fault Use_after_free
     | Some c \<Rightarrow> Ok (w\<lparr>b_contexts := (b_contexts w)(context \<mapsto> c\<lparr>ctx_soc_used_channels_bitmap := f (ctx_soc_used_channels_bitmap c)\<rparr>)\<rparr>))"

definition soc_start_channels ::
    "'d mmio \<Rightarrow> hailo_vdma_channel \<Rightarrow> u64 \<times> u32 \<Rightarrow> hailo_vdma_channel \<Rightarrow> u64 \<times> u32 \<Rightarrow> 'd board_world \<Rightarrow> 'd board_world" where
  "soc_start_channels io input_channel input output_channel output w =
     (let data_id = ddr_data_id (vc_hw (w_controller w))
      in poke_device (hailo_vdma_start_channel io (ch_host_regs output_channel) (fst output) (snd output) data_id)
          (poke_device (hailo_vdma_start_channel io (ch_host_regs input_channel) (fst input) (snd input) data_id) w))"

definition hailo_soc_connect_ioctl ::
    "'d mmio \<Rightarrow> 'd caller \<Rightarrow> ptr \<Rightarrow> hailo_soc_connect_params option \<Rightarrow> 'd board_world \<Rightarrow> hailo_soc_connect_params result \<times> 'd board_world" where
  "hailo_soc_connect_ioctl io e context arg w = (case arg of
       None \<Rightarrow> (Err ENOMEM, w)
     | Some params \<Rightarrow>
         andthen (soc_control io e (Soc_connect (scp_port_number params)) w) (\<lambda>response w.
         let input_index = sr_parameters response ! 0; output_index = sr_parameters response ! 1;
             params = params\<lparr>scp_input_channel_index := input_index, scp_output_channel_index := output_index\<rparr>;
             src = src_channels_bitmask (vc_hw (w_controller w))
         in if \<not> hailo_check_channel_index input_index src True then (Err EINVAL, w)
            else if \<not> hailo_check_channel_index output_index src False then (Err EINVAL, w)
            else
             andthen (soc_channel input_index w, w) (\<lambda>input_channel w.
             andthen (soc_channel output_index w, w) (\<lambda>output_channel w.
             andthen (case b_contexts w context of None \<Rightarrow> Fault Use_after_free | Some c \<Rightarrow> Ok (ctx_vdma_context c), w) (\<lambda>c w.
             andthen (soc_descriptors c (scp_input_desc_handle params) w, w) (\<lambda>input w.
             andthen (soc_descriptors c (scp_output_desc_handle params) w, w) (\<lambda>output w.
             case (input, output) of
               (Some i, Some out) \<Rightarrow>
                 if \<not> is_powerof2 (ucast (snd i)) \<or> \<not> is_powerof2 (ucast (snd out)) then (Err EINVAL, w)
                 else andthen (step_r (soc_set_bits context (\<lambda>b. hailo_set_bit output_index (hailo_set_bit input_index b)))
                                 (soc_start_channels io input_channel i output_channel out w)) (\<lambda>_ w.
                      (if e_out_ok e then Ok params else Err ENOMEM, w))
             | _ \<Rightarrow> (Err EINVAL, w))))))))"

text \<open>Both sides of a channel are stopped on the host before the SoC is told to close them.\<close>

definition stop_channels :: "'d mmio \<Rightarrow> u32 \<Rightarrow> hailo_vdma_channel list \<Rightarrow> 'd \<Rightarrow> 'd" where
  "stop_channels io channels_bitmap channels =
     fold (\<lambda>i d. if hailo_test_bit (of_nat i) channels_bitmap then hailo_vdma_stop_channel io (ch_host_regs (channels ! i)) d else d)
       [0..<length channels]"

definition close_channels :: "'d mmio \<Rightarrow> 'd caller \<Rightarrow> u32 \<Rightarrow> 'd board_world \<Rightarrow> unit result \<times> 'd board_world" where
  "close_channels io e channels_bitmap w =
     andthen (array_get (engines w) PCI_VDMA_ENGINE_INDEX, w) (\<lambda>engine w.
     andthen (soc_control io e (Soc_close channels_bitmap) (poke_device (stop_channels io channels_bitmap (en_channels engine)) w))
       (\<lambda>_ w. (Ok (), w)))"

definition hailo_soc_close_ioctl ::
    "'d mmio \<Rightarrow> 'd caller \<Rightarrow> ptr \<Rightarrow> hailo_soc_close_params option \<Rightarrow> 'd board_world \<Rightarrow> unit result \<times> 'd board_world" where
  "hailo_soc_close_ioctl io e context arg w = (case arg of
       None \<Rightarrow> (Err ENOMEM, w)
     | Some params \<Rightarrow>
         andthen (close_channels io e (SHL1 (scl_input_channel_index params) OR SHL1 (scl_output_channel_index params)) w) (\<lambda>_ w.
         step_r (soc_set_bits context (\<lambda>b. hailo_clear_bit (scl_output_channel_index params) (hailo_clear_bit (scl_input_channel_index params) b))) w))"

definition hailo_soc_file_context_init :: "hailo_file_context \<Rightarrow> 'd board_world \<Rightarrow> unit result \<times> 'd board_world" where
  "hailo_soc_file_context_init context w = (Ok (), w)"

definition hailo_soc_file_context_finalize ::
    "'d mmio \<Rightarrow> 'd caller \<Rightarrow> hailo_file_context \<Rightarrow> 'd board_world \<Rightarrow> 'd board_world result" where
  "hailo_soc_file_context_finalize io e context w =
     (if ctx_soc_used_channels_bitmap context = 0 then Ok w
      else case close_channels io e (ctx_soc_used_channels_bitmap context) w of (Fault f, w1) \<Rightarrow> Fault f | (_, w1) \<Rightarrow> Ok w1)"

definition hailo_soc_driver_down :: "'d mmio \<Rightarrow> 'd caller \<Rightarrow> 'd board_world \<Rightarrow> unit result \<times> 'd board_world" where
  "hailo_soc_driver_down io e w = close_channels io e 0xFFFFFFFF w"

definition hailo_soc_power_off_ioctl :: "'d mmio \<Rightarrow> 'd caller \<Rightarrow> 'd board_world \<Rightarrow> unit result \<times> 'd board_world" where
  "hailo_soc_power_off_ioctl io e w = andthen (soc_control io e Soc_power_off w) (\<lambda>_ w. (Ok (), w))"

datatype soc_request =
    HAILO_SOC_CONNECT "hailo_soc_connect_params option"
  | HAILO_SOC_CLOSE "hailo_soc_close_params option"
  | HAILO_SOC_POWER_OFF
  | HAILO_SOC_OTHER nat

datatype soc_reply = Connected hailo_soc_connect_params | Soc_done

fun hailo_soc_requests :: "'d mmio \<Rightarrow> 'd caller \<Rightarrow> ptr \<Rightarrow> soc_request \<Rightarrow> 'd board_world \<Rightarrow> soc_reply result \<times> 'd board_world" where
  "hailo_soc_requests io e context (HAILO_SOC_CONNECT a) w = (case hailo_soc_connect_ioctl io e context a w of (r, w1) \<Rightarrow> (map_r Connected r, w1))"
| "hailo_soc_requests io e context (HAILO_SOC_CLOSE a) w = (case hailo_soc_close_ioctl io e context a w of (r, w1) \<Rightarrow> (map_r (\<lambda>_. Soc_done) r, w1))"
| "hailo_soc_requests io e context HAILO_SOC_POWER_OFF w = (case hailo_soc_power_off_ioctl io e w of (r, w1) \<Rightarrow> (map_r (\<lambda>_. Soc_done) r, w1))"
| "hailo_soc_requests io e context (HAILO_SOC_OTHER n) w = (Err ENOTTY, w)"

definition hailo_soc_ioctl :: "'d mmio \<Rightarrow> 'd caller \<Rightarrow> ptr \<Rightarrow> soc_request \<Rightarrow> 'd board_world \<Rightarrow> soc_reply result \<times> 'd board_world" where
  "hailo_soc_ioctl io e context request w =
     (if \<not> soc_driver_compatible (b_soc w) then (Err EINVAL, w) else hailo_soc_requests io e context request w)"

end
