(* ===== verification/Pcie_Fops.thy ===== *)
theory Pcie_Fops
  imports Pcie_Nnc Pcie_Soc
begin

text \<open>
  The file operations of the character device and the interrupt handler (\<open>src/linux/pcie/src/fops.c\<close>): open, release, the
  dispatch of requests to their components, and memory mapping. The board's semaphore is taken and released as the code does it.
\<close>

section \<open>Finding the board\<close>

text \<open>
  The search of \<open>hailo_pcie_get_board_index\<close> in the list of boards. An open of this board takes a reference; a minor number that
  belongs to another board does not concern this one.
\<close>

definition board_lookup :: "u32 \<Rightarrow> (ptr \<times> u32) list \<Rightarrow> ptr option" where
  "board_lookup index boards = map_option fst (find (\<lambda>(p, i). i = index) boards)"

definition hailo_pcie_get_board_index :: "u32 \<Rightarrow> 'd board_world \<Rightarrow> bool result \<times> 'd board_world" where
  "hailo_pcie_get_board_index index w =
     andthen (step_r down_add_board w) (\<lambda>_ w.
     if board_lookup index (b_board_list w) = Some (b_self w) then (Ok True, up_add_board (w\<lparr>b_ref_count := b_ref_count w + 1\<rparr>))
     else (Ok False, up_add_board w))"

section \<open>Open\<close>

definition open_wake_up :: "kernel \<Rightarrow> 'd board_world \<Rightarrow> unit result \<times> 'd board_world" where
  "open_wake_up K w = (if b_current_state w = PCI_D0 then (Ok (), w) else pci_set_power_state K PCI_D0 w)"

definition open_revert_power :: "kernel \<Rightarrow> pci_power_t \<Rightarrow> 'd board_world \<Rightarrow> unit result \<times> 'd board_world" where
  "open_revert_power K previous_power_state w =
     (if b_current_state w \<noteq> previous_power_state then (Ok (), snd (pci_set_power_state K previous_power_state w)) else (Ok (), w))"

definition open_enable_interrupts :: "'d mmio \<Rightarrow> kernel \<Rightarrow> 'd board_world \<Rightarrow> bool result \<times> 'd board_world" where
  "open_enable_interrupts io K w =
     (if b_interrupts_enabled w then (Ok False, w) else andthen (hailo_enable_interrupts io K w) (\<lambda>_ w. (Ok True, w)))"

definition file_context_init :: "kernel \<Rightarrow> 'd caller \<Rightarrow> ptr \<Rightarrow> 'd board_world \<Rightarrow> unit result \<times> 'd board_world" where
  "file_context_init K e context w =
     andthen (context_of context w, w) (\<lambda>c w.
     if pr_accelerator_type (b_pcie_resources w) = HAILO_ACCELERATOR_TYPE_NNC then hailo_nnc_file_context_init K e c w
     else hailo_soc_file_context_init c w)"

text \<open>The part of the open that runs with the new context and is undone label by label.\<close>

definition open_device :: "'d mmio \<Rightarrow> kernel \<Rightarrow> 'd caller \<Rightarrow> ptr \<Rightarrow> 'd board_world \<Rightarrow> unit result \<times> 'd board_world" where
  "open_device io K e context w =
     (if \<not> b_pDev w then (Fault Null_deref, w)
      else let previous_power_state = b_current_state w
      in andthen (open_wake_up K w) (\<lambda>_ w.
         on_error
          (let (connected, w) = on_device (hailo_pcie_is_device_connected io (b_pcie_resources w)) w
           in if \<not> connected then (Err ENXIO, w)
              else andthen (open_enable_interrupts io K w) (\<lambda>interrupts_enabled_by_filp w.
                   on_error (file_context_init K e context w)
                     (\<lambda>w. (Ok (), if interrupts_enabled_by_filp then hailo_disable_interrupts io w else w))))
          (open_revert_power K previous_power_state)))"

definition hailo_pcie_fops_open ::
    "'d mmio \<Rightarrow> kernel \<Rightarrow> 'd caller \<Rightarrow> u32 \<Rightarrow> ptr \<Rightarrow> 'd board_world \<Rightarrow> unit result \<times> 'd board_world" where
  "hailo_pcie_fops_open io K e minor filp w =
     andthen (hailo_pcie_get_board_index minor w) (\<lambda>found w.
     if \<not> found then (Err ENODEV, w)
     else on_error
      (if \<not> e_lock_ok e then (Err ERESTARTSYS, w)
       else andthen (step_r down_mutex w) (\<lambda>_ w.
            finally_do (andthen (create_file_context K filp w) (\<lambda>context w.
                on_error (open_device io K e context w) (release_file_context context)))
              up_mutex))
      (\<lambda>w. (Ok (), w\<lparr>b_ref_count := b_ref_count w - 1\<rparr>)))"

section \<open>Release\<close>

definition finalize_file :: "'d mmio \<Rightarrow> kernel \<Rightarrow> 'd caller \<Rightarrow> ptr \<Rightarrow> ptr \<Rightarrow> 'd board_world \<Rightarrow> unit result \<times> 'd board_world" where
  "finalize_file io K e context filp w =
     andthen (context_of context w, w) (\<lambda>c w.
     andthen (step_r (\<lambda>w. if pr_accelerator_type (b_pcie_resources w) = HAILO_ACCELERATOR_TYPE_NNC
                          then hailo_nnc_file_context_finalize io e c w else hailo_soc_file_context_finalize io e c w) w) (\<lambda>_ w.
     andthen (context_of context w, w) (\<lambda>c w.
     andthen (step_r (\<lambda>w. bind_r (hailo_vdma_file_context_finalize K (ctx_vdma_context c) filp w) (\<lambda>(vc, w).
                Ok (w\<lparr>b_contexts := (b_contexts w)(context \<mapsto> c\<lparr>ctx_vdma_context := vc\<rparr>)\<rparr>))) w) (\<lambda>_ w.
     release_file_context context w))))"

text \<open>The last reference: interrupts and power off, and the board itself when its device is already gone.\<close>

definition release_last :: "'d mmio \<Rightarrow> module_params \<Rightarrow> kernel \<Rightarrow> 'd board_world \<Rightarrow> 'd board_world" where
  "release_last io M K w =
     (let w = hailo_disable_interrupts io w;
          w = (if mp_is_power_mode_enabled M \<and> b_pDev w then snd (pci_set_power_state K PCI_D3hot w) else w);
          w = up_mutex w
      in if b_pDev w then w else call (Kfree (b_self w)) (w\<lparr>b_alive := False\<rparr>))"

definition hailo_pcie_fops_release ::
    "'d mmio \<Rightarrow> module_params \<Rightarrow> kernel \<Rightarrow> 'd caller \<Rightarrow> ptr \<Rightarrow> 'd board_world \<Rightarrow> unit result \<times> 'd board_world" where
  "hailo_pcie_fops_release io M K e filp w =
     (if \<not> b_alive w then (Fault Use_after_free, w)
      else andthen (step_r down_mutex w) (\<lambda>_ w.
           andthen (find_file_context filp w, w) (\<lambda>found w. case found of
             None \<Rightarrow> (Err EINVAL, up_mutex w)
           | Some (context, _) \<Rightarrow>
               andthen (finalize_file io K e context filp w) (\<lambda>_ w.
               let w = w\<lparr>b_ref_count := b_ref_count w - 1\<rparr>
               in (Ok (), if b_ref_count w = 0 then release_last io M K w else up_mutex w)))))"

section \<open>Interrupts\<close>

definition HAILO_PCIE_NNC_FW_NOTIFICATION_IRQ :: u32 where "HAILO_PCIE_NNC_FW_NOTIFICATION_IRQ = 0x2"
definition HAILO_PCIE_NNC_FW_CONTROL_IRQ :: u32 where "HAILO_PCIE_NNC_FW_CONTROL_IRQ = 0x4"
definition HAILO_PCIE_NNC_DRIVER_DOWN_IRQ :: u32 where "HAILO_PCIE_NNC_DRIVER_DOWN_IRQ = 0x8"
definition HAILO_PCIE_SOC_CONTROL_IRQ :: u32 where "HAILO_PCIE_SOC_CONTROL_IRQ = 0x10"
definition HAILO_PCIE_SOC_CLOSE_IRQ :: u32 where "HAILO_PCIE_SOC_CLOSE_IRQ = 0x20"
definition HAILO_PCIE_BOOT_SOFT_RESET_IRQ :: u32 where "HAILO_PCIE_BOOT_SOFT_RESET_IRQ = 0x1"
definition HAILO_PCIE_BOOT_IRQ :: u32 where "HAILO_PCIE_BOOT_IRQ = 0x2"

lemmas irq_consts = HAILO_PCIE_NNC_FW_NOTIFICATION_IRQ_def HAILO_PCIE_NNC_FW_CONTROL_IRQ_def HAILO_PCIE_NNC_DRIVER_DOWN_IRQ_def
  HAILO_PCIE_SOC_CONTROL_IRQ_def HAILO_PCIE_SOC_CLOSE_IRQ_def HAILO_PCIE_BOOT_SOFT_RESET_IRQ_def HAILO_PCIE_BOOT_IRQ_def

definition DEFAULT_VDMA_ENGINE_INDEX :: nat where "DEFAULT_VDMA_ENGINE_INDEX = 0"

definition complete_wait :: "hailo_notification_wait \<Rightarrow> hailo_notification_wait" where
  "complete_wait n = n\<lparr>nw_notification_completion := complete (nw_notification_completion n)\<rparr>"

definition firmware_notification_irq_handler :: "'d mmio \<Rightarrow> 'd caller \<Rightarrow> 'd board_world \<Rightarrow> 'd board_world result" where
  "firmware_notification_irq_handler io e w =
     (case on_device (hailo_pcie_read_firmware_notification io (pr_fw_access (b_pcie_resources w)) (e_ptr e) (e_ptr e)
                        (nnc_notification_cache (b_nnc w))) w of
        (Ok cache, w) \<Rightarrow> for_each (modify_wait complete_wait) (nnc_notification_wait_list (b_nnc w))
                            (w\<lparr>b_nnc := (b_nnc w)\<lparr>nnc_notification_cache := cache\<rparr>\<rparr>)
      | (Err _, w) \<Rightarrow> Ok w
      | (Fault f, w) \<Rightarrow> Fault f)"

definition boot_irq_handler :: "hailo_pcie_interrupt_source \<Rightarrow> 'd board_world \<Rightarrow> 'd board_world" where
  "boot_irq_handler source w =
     (let w = (if is_sw_interrupts source AND HAILO_PCIE_BOOT_SOFT_RESET_IRQ \<noteq> 0
               then w\<lparr>b_soft_reset_completed := complete (b_soft_reset_completed w)\<rparr> else w);
          boot = b_fw_boot w
      in if is_sw_interrupts source AND HAILO_PCIE_BOOT_IRQ \<noteq> 0
         then w\<lparr>b_fw_boot := boot\<lparr>fb_fw_loaded_completion := complete_all (fb_fw_loaded_completion boot)\<rparr>\<rparr>
         else let used = fb_boot_used_channel_bitmap boot AND ucast (NOT (is_vdma_channels_bitmap source));
                  boot = boot\<lparr>fb_boot_used_channel_bitmap := used\<rparr>
              in w\<lparr>b_fw_boot := (if used = 0 then boot\<lparr>fb_vdma_boot_completion := complete_all (fb_vdma_boot_completion boot)\<rparr> else boot)\<rparr>)"

definition nnc_irq_handler :: "'d mmio \<Rightarrow> 'd caller \<Rightarrow> hailo_pcie_interrupt_source \<Rightarrow> 'd board_world \<Rightarrow> 'd board_world result" where
  "nnc_irq_handler io e source w =
     (let w = (if is_sw_interrupts source AND HAILO_PCIE_NNC_FW_CONTROL_IRQ \<noteq> 0
               then set_control_completion (complete (nnc_fw_control_completion (b_nnc w))) w else w);
          w = (if is_sw_interrupts source AND HAILO_PCIE_NNC_DRIVER_DOWN_IRQ \<noteq> 0
               then set_driver_down_completion (complete (b_driver_down_reset_completed w)) w else w)
      in if is_sw_interrupts source AND HAILO_PCIE_NNC_FW_NOTIFICATION_IRQ \<noteq> 0 then firmware_notification_irq_handler io e w else Ok w)"

definition soc_irq_handler :: "hailo_pcie_interrupt_source \<Rightarrow> 'd board_world \<Rightarrow> 'd board_world result" where
  "soc_irq_handler source w =
     (let w = (if is_sw_interrupts source AND HAILO_PCIE_SOC_CONTROL_IRQ \<noteq> 0
               then set_resp_ready (complete_all (soc_control_resp_ready (b_soc w))) w else w)
      in if is_sw_interrupts source AND HAILO_PCIE_SOC_CLOSE_IRQ \<noteq> 0
         then hailo_vdma_wakeup_interrupts DEFAULT_VDMA_ENGINE_INDEX 0xFFFFFFFF w else Ok w)"

definition handle_irq_source ::
    "'d mmio \<Rightarrow> 'd caller \<Rightarrow> hailo_pcie_interrupt_source \<Rightarrow> 'd board_world \<Rightarrow> 'd board_world result" where
  "handle_irq_source io e source w =
     (if fb_is_in_boot (b_fw_boot w) then Ok (boot_irq_handler source w)
      else bind_r (case pr_accelerator_type (b_pcie_resources w) of
                     HAILO_ACCELERATOR_TYPE_NNC \<Rightarrow> nnc_irq_handler io e source w
                   | HAILO_ACCELERATOR_TYPE_SOC \<Rightarrow> soc_irq_handler source w) (\<lambda>w.
           if is_vdma_channels_bitmap source \<noteq> 0
           then hailo_vdma_irq_handler io (e_clock e) DEFAULT_VDMA_ENGINE_INDEX (is_vdma_channels_bitmap source) w else Ok w))"

text \<open>
  The loop of the handler goes on as long as the device reports interrupts. It is given a number of rounds; when they are used
  up it has not returned (\<open>Blocked\<close>). The result is whether any interrupt was handled.
\<close>

fun irq_loop :: "nat \<Rightarrow> 'd mmio \<Rightarrow> 'd caller \<Rightarrow> bool \<Rightarrow> 'd board_world \<Rightarrow> bool result \<times> 'd board_world" where
  "irq_loop 0 io e handled w = (Fault Blocked, w)"
| "irq_loop (Suc n) io e handled w =
     (let (connected, w) = on_device (hailo_pcie_is_device_connected io (b_pcie_resources w)) w
      in if \<not> connected then (Ok handled, w)
         else let ((got_interrupt, source), w) =
                     on_device (\<lambda>d. case hailo_pcie_read_interrupt io (b_pcie_resources w) d of (g, s, d1) \<Rightarrow> ((g, s), d1)) w
              in if \<not> got_interrupt then (Ok handled, w)
                 else andthen (step_r (handle_irq_source io e source) w) (\<lambda>_ w. irq_loop n io e True w))"

definition hailo_irqhandler :: "nat \<Rightarrow> 'd mmio \<Rightarrow> 'd caller \<Rightarrow> 'd board_world \<Rightarrow> bool result \<times> 'd board_world" where
  "hailo_irqhandler rounds io e w = irq_loop rounds io e False w"

section \<open>Requests\<close>

record hailo_device_properties =
  dp_desc_max_page_size :: u16
  dp_board_type :: hailo_board_type
  dp_allocation_mode :: hailo_allocation_mode
  dp_dma_type :: hailo_dma_type
  dp_dma_engines_count :: nat
  dp_is_fw_loaded :: bool

record hailo_driver_info =
  di_major_version :: u32
  di_minor_version :: u32
  di_revision_version :: u32

datatype general_request = HAILO_QUERY_DEVICE_PROPERTIES | HAILO_QUERY_DRIVER_INFO | HAILO_GENERAL_OTHER nat

datatype general_reply = Properties hailo_device_properties | Driver_info hailo_driver_info

definition hailo_query_device_properties ::
    "'d mmio \<Rightarrow> 'd caller \<Rightarrow> 'd board_world \<Rightarrow> hailo_device_properties result \<times> 'd board_world" where
  "hailo_query_device_properties io e w =
     (let (loaded, w) = on_device (hailo_pcie_is_firmware_loaded io (b_pcie_resources w)) w
      in (if e_out_ok e
          then Ok \<lparr> dp_desc_max_page_size = ucast (b_desc_max_page_size w), dp_board_type = pr_board_type (b_pcie_resources w),
                 dp_allocation_mode = b_allocation_mode w, dp_dma_type = HAILO_DMA_TYPE_PCIE,
                 dp_dma_engines_count = length (engines w), dp_is_fw_loaded = loaded \<rparr>
          else Err ENOMEM, w))"

definition hailo_query_driver_info :: "'d caller \<Rightarrow> hailo_driver_info result" where
  "hailo_query_driver_info e =
     (if e_out_ok e
      then Ok \<lparr> di_major_version = HAILO_DRV_VER_MAJOR, di_minor_version = HAILO_DRV_VER_MINOR, di_revision_version = HAILO_DRV_VER_REVISION \<rparr>
      else Err ENOMEM)"

fun hailo_general_ioctl :: "'d mmio \<Rightarrow> 'd caller \<Rightarrow> general_request \<Rightarrow> 'd board_world \<Rightarrow> general_reply result \<times> 'd board_world" where
  "hailo_general_ioctl io e HAILO_QUERY_DEVICE_PROPERTIES w = (case hailo_query_device_properties io e w of (r, w1) \<Rightarrow> (map_r Properties r, w1))"
| "hailo_general_ioctl io e HAILO_QUERY_DRIVER_INFO w = (map_r Driver_info (hailo_query_driver_info e), w)"
| "hailo_general_ioctl io e (HAILO_GENERAL_OTHER n) w = (Err ENOTTY, w)"

datatype board_request =
    General general_request | Vdma vdma_request | Soc soc_request | Nnc nnc_request | Other_type nat

datatype board_reply = General_reply general_reply | Vdma_reply vdma_reply | Soc_reply soc_reply | Nnc_reply nnc_reply

text \<open>The commands that carry no argument are not checked for access.\<close>

fun has_argument :: "board_request \<Rightarrow> bool" where
  "has_argument (Soc HAILO_SOC_POWER_OFF) = False"
| "has_argument (Nnc HAILO_DISABLE_NOTIFICATION) = False"
| "has_argument _ = True"

text \<open>
  The vDMA request on the context of the file. While a request waits for interrupts the context may change; it makes no change
  of its own to it.
\<close>

definition fops_vdma_ioctl ::
    "'d mmio \<Rightarrow> kernel \<Rightarrow> 'd caller \<Rightarrow> ptr \<Rightarrow> ptr \<Rightarrow> hailo_file_context \<Rightarrow> vdma_request \<Rightarrow> 'd board_world \<Rightarrow>
     vdma_reply result \<times> 'd board_world \<times> bool" where
  "fops_vdma_ioctl io K e filp context c request w =
     (case hailo_vdma_ioctl io K filp (e_out_ok e) (e_wait_event e) (e_down_ok e) request (ctx_vdma_context c) w of
        (r, vc, w1, up) \<Rightarrow>
          (r, case request of
                HAILO_VDMA_INTERRUPTS_WAIT _ \<Rightarrow> w1
              | _ \<Rightarrow> w1\<lparr>b_contexts := (b_contexts w1)(context \<mapsto> c\<lparr>ctx_vdma_context := vc\<rparr>)\<rparr>, up))"

fun dispatch_ioctl ::
    "'d mmio \<Rightarrow> kernel \<Rightarrow> 'd caller \<Rightarrow> ptr \<Rightarrow> ptr \<Rightarrow> hailo_file_context \<Rightarrow> board_request \<Rightarrow> 'd board_world \<Rightarrow>
     board_reply result \<times> 'd board_world \<times> bool" where
  "dispatch_ioctl io K e filp context c (General request) w =
     (case hailo_general_ioctl io e request w of (r, w1) \<Rightarrow> (map_r General_reply r, w1, True))"
| "dispatch_ioctl io K e filp context c (Vdma request) w =
     (case fops_vdma_ioctl io K e filp context c request w of (r, w1, up) \<Rightarrow> (map_r Vdma_reply r, w1, up))"
| "dispatch_ioctl io K e filp context c (Soc request) w =
     (if pr_accelerator_type (b_pcie_resources w) \<noteq> HAILO_ACCELERATOR_TYPE_SOC then (Err EINVAL, w, True)
      else case hailo_soc_ioctl io e context request w of (r, w1) \<Rightarrow> (map_r Soc_reply r, w1, True))"
| "dispatch_ioctl io K e filp context c (Nnc request) w =
     (if pr_accelerator_type (b_pcie_resources w) \<noteq> HAILO_ACCELERATOR_TYPE_NNC then (Err EINVAL, w, True)
      else case hailo_nnc_ioctl io e context filp request w of (r, w1, up) \<Rightarrow> (map_r Nnc_reply r, w1, up))"
| "dispatch_ioctl io K e filp context c (Other_type n) w = (Err ENOTTY, w, True)"

definition hailo_pcie_fops_unlockedioctl ::
    "'d mmio \<Rightarrow> kernel \<Rightarrow> 'd caller \<Rightarrow> ptr \<Rightarrow> board_request \<Rightarrow> 'd board_world \<Rightarrow> board_reply result \<times> 'd board_world" where
  "hailo_pcie_fops_unlockedioctl io K e filp request w =
     (if \<not> b_alive w then (Fault Use_after_free, w)
      else if \<not> b_pDev w then (Err ENODEV, w)
      else if has_argument request \<and> \<not> e_access_ok e then (Err EFAULT, w)
      else if \<not> e_lock_ok e then (Err ERESTARTSYS, w)
      else andthen (step_r down_mutex w) (\<lambda>_ w.
           if w_board_mutex w \<noteq> 0 then (Fault Bug_on, w)
           else andthen (find_file_context filp w, w) (\<lambda>found w. case found of
             None \<Rightarrow> (Err EINVAL, up_mutex w)
           | Some (context, c) \<Rightarrow>
               if \<not> ctx_is_valid c then (Err EINVAL, up_mutex w)
               else case dispatch_ioctl io K e filp context c request w of
                      (r, w, should_up_board_mutex) \<Rightarrow> (r, if should_up_board_mutex then up_mutex w else w))))"

definition hailo_pcie_fops_mmap ::
    "kernel \<Rightarrow> 'd caller \<Rightarrow> ptr \<Rightarrow> vm_area \<Rightarrow> u64 \<Rightarrow> 'd board_world \<Rightarrow> vm_area result \<times> 'd board_world" where
  "hailo_pcie_fops_mmap K e filp vma vm_pgoff w =
     (let vdma_handle = push_bit PAGE_SHIFT vm_pgoff
      in if \<not> b_alive w then (Fault Use_after_free, w)
         else if \<not> b_pDev w then (Err ENODEV, w)
         else if \<not> e_lock_ok e then (Err ERESTARTSYS, w)
         else andthen (step_r down_mutex w) (\<lambda>_ w.
              andthen (find_file_context filp w, w) (\<lambda>found w. case found of
                None \<Rightarrow> (Err EINVAL, up_mutex w)
              | Some (_, c) \<Rightarrow>
                  if \<not> ctx_is_valid c then (Err EINVAL, up_mutex w)
                  else case hailo_vdma_mmap K (ctx_vdma_context c) w vma vdma_handle of
                         (r, vma1, w) \<Rightarrow> (map_r (\<lambda>_. vma1) r, up_mutex w))))"

end
