(* ===== verification/Pcie_Boot.thy ===== *)
theory Pcie_Boot
  imports Pcie_Soc Pcie_Nnc
begin

text \<open>
  Loading the firmware when a board is activated (\<open>src/linux/pcie/src/pcie.c\<close>, lines 312 to 939): the files of the second stage
  of a SoC are copied into the buffers of up to eight boot channels and sent over the vDMA; the firmware of an NNC is written
  through the BAR, after a soft reset when one is already loaded.
\<close>

section \<open>Boot channels\<close>

definition HAILO_PCI_OVER_VDMA_NUM_CHANNELS :: nat where "HAILO_PCI_OVER_VDMA_NUM_CHANNELS = 8"
definition HAILO_PCI_OVER_VDMA_PAGE_SIZE :: u32 where "HAILO_PCI_OVER_VDMA_PAGE_SIZE = 512"
definition MAX_SG_DESCS_COUNT :: u32 where "MAX_SG_DESCS_COUNT = 0x10000"
definition HAILO_PCI_EP_HOST_DMA_DATA_ID :: u8 where "HAILO_PCI_EP_HOST_DMA_DATA_ID = 6"
definition DEFAULT_STRIDE :: u32 where "DEFAULT_STRIDE = 0"

lemmas boot_consts = HAILO_PCI_OVER_VDMA_NUM_CHANNELS_def HAILO_PCI_OVER_VDMA_PAGE_SIZE_def MAX_SG_DESCS_COUNT_def
  HAILO_PCI_EP_HOST_DMA_DATA_ID_def DEFAULT_STRIDE_def PCI_VDMA_ENGINE_INDEX_def

definition modify_boot :: "(hailo_pcie_fw_boot \<Rightarrow> hailo_pcie_fw_boot) \<Rightarrow> 'd board_world \<Rightarrow> 'd board_world" where
  "modify_boot f w = w\<lparr>b_fw_boot := f (b_fw_boot w)\<rparr>"

definition boot_channel :: "nat \<Rightarrow> 'd board_world \<Rightarrow> hailo_pcie_boot_dma_channel_state result" where
  "boot_channel i w = array_get (fb_channels (b_fw_boot w)) i"

definition set_boot_channel :: "nat \<Rightarrow> hailo_pcie_boot_dma_channel_state \<Rightarrow> 'd board_world \<Rightarrow> 'd board_world" where
  "set_boot_channel i c = modify_boot (\<lambda>b. b\<lparr>fb_channels := (fb_channels b)[i := c]\<rparr>)"

text \<open>The registers of a channel of the engine, host side and device side.\<close>

definition channel_regs :: "nat \<Rightarrow> 'd board_world \<Rightarrow> (u64 \<times> u64) result" where
  "channel_regs i w =
     bind_r (array_get (engines w) PCI_VDMA_ENGINE_INDEX) (\<lambda>engine.
     bind_r (array_get (en_channels engine) i) (\<lambda>c. Ok (ch_host_regs c, ch_device_regs c)))"

text \<open>Waiting for the firmware: \<open>get\<close> and \<open>put\<close> are the completion; a timeout gives \<open>False\<close>.\<close>

definition wait_for_firmware_completion ::
    "('d board_world \<Rightarrow> completion) \<Rightarrow> (completion \<Rightarrow> 'd board_world \<Rightarrow> 'd board_world) \<Rightarrow> 'd caller \<Rightarrow> 'd board_world \<Rightarrow>
     bool \<times> 'd board_world" where
  "wait_for_firmware_completion get put e w = wait_for_completion get put e w"

definition set_fw_loaded :: "completion \<Rightarrow> 'd board_world \<Rightarrow> 'd board_world" where
  "set_fw_loaded c = modify_boot (\<lambda>b. b\<lparr>fb_fw_loaded_completion := c\<rparr>)"

definition set_vdma_boot :: "completion \<Rightarrow> 'd board_world \<Rightarrow> 'd board_world" where
  "set_vdma_boot c = modify_boot (\<lambda>b. b\<lparr>fb_vdma_boot_completion := c\<rparr>)"

section \<open>Programming a file\<close>

text \<open>The descriptor lists of the channel after the call, and the number of descriptors programmed.\<close>

definition pcie_vdma_program_one_file_descriptors ::
    "hailo_pcie_boot_dma_channel_state \<Rightarrow> u32 \<Rightarrow> hailo_vdma_mapped_transfer_buffer \<Rightarrow> u8 \<Rightarrow> bool \<Rightarrow>
     u32 result \<times> hailo_pcie_boot_dma_channel_state" where
  "pcie_vdma_program_one_file_descriptors channel file_address transfer_buffer channel_index raise_int_on_completion =
     (let interrupts_domain = (if raise_int_on_completion then HAILO_VDMA_INTERRUPTS_DOMAIN_HOST else HAILO_VDMA_INTERRUPTS_DOMAIN_NONE)
      in case (bc_device_descriptors_buffer channel, bc_host_descriptors_buffer channel) of
           (Some (device, device_list), Some (host, host_list)) \<Rightarrow>
             (case hailo_vdma_program_descriptors_in_chunk (ucast file_address) (tb_size transfer_buffer) device_list
                     (bc_desc_program_num channel) (dl_desc_count device_list - 1) HAILO_PCI_EP_HOST_DMA_DATA_ID DEFAULT_STRIDE 0 of
                (Ok device_desc, device_list) \<Rightarrow>
                  let channel = channel\<lparr>bc_device_descriptors_buffer := Some (device, device_list)\<rparr>
                  in (case hailo_vdma_program_descriptors_list hailo_pcie_vdma_hw host_list (bc_desc_program_num channel)
                             transfer_buffer True channel_index interrupts_domain False DEFAULT_STRIDE of
                        (r, host_list) \<Rightarrow>
                          (bind_r r (\<lambda>host_desc. if host_desc \<noteq> device_desc then Err EINVAL else Ok host_desc),
                           channel\<lparr>bc_host_descriptors_buffer := Some (host, host_list)\<rparr>))
              | (Err e, device_list) \<Rightarrow> (Err e, channel\<lparr>bc_device_descriptors_buffer := Some (device, device_list)\<rparr>)
              | (Fault f, device_list) \<Rightarrow> (Fault f, channel))
         | _ \<Rightarrow> (Fault Null_deref, channel))"

text \<open>
  One round of the loop over a file. \<open>next_channel\<close> is the index of the channel to fill and whether it is a new one;
  \<open>boot_chunk\<close> the part of the buffer to fill and whether its last descriptor raises an interrupt.
\<close>

definition next_channel :: "u8 \<Rightarrow> hailo_pcie_boot_dma_channel_state \<Rightarrow> u8 \<times> bool" where
  "next_channel curr_channel_index channel =
     (if MAX_SG_DESCS_COUNT - 1 = bc_desc_program_num channel then (curr_channel_index + 1, True) else (curr_channel_index, False))"

definition boot_chunk ::
    "hailo_pcie_boot_dma_channel_state \<Rightarrow> u64 \<Rightarrow> bool \<Rightarrow> hailo_vdma_mapped_transfer_buffer \<times> bool" where
  "boot_chunk channel remaining_size raise_int_on_completion =
     (let desc_num_left = ucast (MAX_SG_DESCS_COUNT - 1 - bc_desc_program_num channel) :: u64;
          siz = ucast (min remaining_size (desc_num_left * ucast HAILO_PCI_OVER_VDMA_PAGE_SIZE)) :: u32;
          current_desc_to_program = ucast (siz div HAILO_PCI_OVER_VDMA_PAGE_SIZE) :: u64;
          is_last_desc_chunk_of_curr_channel =
            (ucast (MAX_SG_DESCS_COUNT - 1) = current_desc_to_program + ucast (bc_desc_program_num channel))
      in (\<lparr> tb_sg_table = sgt_dma (bc_sg_table channel), tb_size = siz,
            tb_offset = bc_desc_program_num channel * HAILO_PCI_OVER_VDMA_PAGE_SIZE, tb_opaque = 0 \<rparr>,
          is_last_desc_chunk_of_curr_channel \<or> (raise_int_on_completion \<and> remaining_size = ucast siz)))"

text \<open>
  \<open>sg_pcopy_from_buffer\<close> copies into the buffer from \<open>offset\<close> on as much as fits, and returns how much that is.
\<close>

definition sg_pcopy_from_buffer ::
    "u8 list \<Rightarrow> nat \<Rightarrow> hailo_pcie_boot_dma_channel_state \<Rightarrow> nat \<times> hailo_pcie_boot_dma_channel_state" where
  "sg_pcopy_from_buffer bs offset channel =
     (let n = min (length bs) (unat (bc_buffer_size channel) - offset)
      in (n, channel\<lparr>bc_memory := (\<lambda>j. if offset \<le> j \<and> j < offset + n then bs ! (j - offset) else bc_memory channel j)\<rparr>))"

text \<open>
  The loop over the file \<open>bs\<close>: \<open>data_offset\<close> bytes are done. \<open>rounds\<close> bounds the number of rounds; a loop that uses them up has not
  returned.
\<close>

fun program_file_loop ::
    "nat \<Rightarrow> u32 \<Rightarrow> u8 list \<Rightarrow> bool \<Rightarrow> nat \<Rightarrow> u32 \<Rightarrow> 'd board_world \<Rightarrow> u32 result \<times> 'd board_world" where
  "program_file_loop 0 file_address bs raise data_offset desc_programmed w = (Fault Blocked, w)"
| "program_file_loop (Suc rounds) file_address bs raise data_offset desc_programmed w =
     (if length bs \<le> data_offset then (Ok desc_programmed, w)
      else andthen (boot_channel (unat (fb_curr_channel_index (b_fw_boot w))) w, w) (\<lambda>channel w.
      let (i, new) = next_channel (fb_curr_channel_index (b_fw_boot w)) channel;
          w = (if new then modify_boot (\<lambda>b. b\<lparr>fb_curr_channel_index := i,
                 fb_boot_used_channel_bitmap := fb_boot_used_channel_bitmap b OR ucast (push_bit (unat i) (1 :: u32))\<rparr>) w else w)
      in andthen (boot_channel (unat i) w, w) (\<lambda>channel w.
         let (transfer_buffer, raise_int) = boot_chunk channel (of_nat (length bs - data_offset)) raise;
             siz = unat (tb_size transfer_buffer);
             (bytes_copied, channel) =
               sg_pcopy_from_buffer (take siz (drop data_offset bs)) (unat (tb_offset transfer_buffer)) channel
         in if siz \<noteq> bytes_copied then (Err EFBIG, set_boot_channel (unat i) channel w)
            else let (r, channel) = pcie_vdma_program_one_file_descriptors channel (file_address + of_nat data_offset)
                                      transfer_buffer i raise_int
                 in andthen (r, set_boot_channel (unat i) channel w) (\<lambda>n w.
                    program_file_loop rounds file_address bs raise (data_offset + siz) n
                      (set_boot_channel (unat i) (channel\<lparr>bc_desc_program_num := bc_desc_program_num channel + n\<rparr>) w)))))"

text \<open>
  Every round but the few that find a full channel takes at least one byte of the file, so the number of rounds given here is
  enough (\<open>Pcie_Boot_Files\<close> proves it).
\<close>

definition file_rounds :: "u8 list \<Rightarrow> nat" where
  "file_rounds bs = length bs + HAILO_PCI_OVER_VDMA_NUM_CHANNELS + 1"

definition pcie_vdma_program_one_file ::
    "'d caller \<Rightarrow> u32 \<Rightarrow> string \<Rightarrow> bool \<Rightarrow> 'd board_world \<Rightarrow> u32 result \<times> 'd board_world" where
  "pcie_vdma_program_one_file e file_address filename raise_int_on_completion w =
     (let firmware = e_files e (Some filename); w = call (Request_firmware filename (map_r (\<lambda>_. ()) firmware)) w
      in andthen (firmware, w) (\<lambda>(bs, _) w.
         finally_do (program_file_loop (file_rounds bs) file_address bs raise_int_on_completion 0 0 w)
           (call (Release_firmware filename))))"

fun program_files :: "'d caller \<Rightarrow> hailo_file_batch list \<Rightarrow> 'd board_world \<Rightarrow> unit result \<times> 'd board_world" where
  "program_files e [] w = (Ok (), w)"
| "program_files e (f # fs) w = (case fb_filename f of
     None \<Rightarrow> (Ok (), w)
   | Some filename \<Rightarrow> andthen (pcie_vdma_program_one_file e (fb_address f) filename (fs = []) w) (\<lambda>_ w. program_files e fs w))"

definition pcie_vdma_program_entire_batch :: "'d caller \<Rightarrow> nat \<Rightarrow> 'd board_world \<Rightarrow> unit result \<times> 'd board_world" where
  "pcie_vdma_program_entire_batch e stage w =
     andthen (hailo_pcie_get_loading_stage_info (pr_board_type (b_pcie_resources w)) stage, w) (\<lambda>stage_info w.
     if length (ls_batch stage_info) < unat (ls_amount_of_files_in_stage stage_info) then (Fault Out_of_bounds, w)
     else program_files e (take (unat (ls_amount_of_files_in_stage stage_info)) (ls_batch stage_info)) w)"

section \<open>Resources of the boot\<close>

definition pcie_vdma_release_noncontinuous_memory :: "sgt \<Rightarrow> ptr \<Rightarrow> calls \<Rightarrow> calls" where
  "pcie_vdma_release_noncontinuous_memory sg kernel_addrs cs =
     Vfree kernel_addrs # Sg_free (sgt_pages sg) # Dma_unmap_sg (sgt_pages sg) DMA_TO_DEVICE # cs"

text \<open>
  The address and the table are stored where the caller's pointers lead, also when the call fails. A table whose allocation
  failed is empty.
\<close>

definition pcie_vdma_allocate_noncontinuous_memory ::
    "kernel \<Rightarrow> u64 \<Rightarrow> sgt \<Rightarrow> calls \<Rightarrow> unit result \<times> ptr option \<times> sgt \<times> calls" where
  "pcie_vdma_allocate_noncontinuous_memory K buffer_size sg cs =
     (let kernel_addrs = k_vmalloc K cs buffer_size; cs = Vmalloc buffer_size kernel_addrs # cs
      in case kernel_addrs of
           None \<Rightarrow> (Err ENOMEM, None, sg, cs)
         | Some a \<Rightarrow>
             let npages = unat ((buffer_size + PAGE_SIZE - 1) div PAGE_SIZE);
                 pages = k_alloc_array K cs; cs = Alloc_array pages # cs
             in case pages of
                  None \<Rightarrow> (Err ENOMEM, Some a, sg, Vfree a # cs)
                | Some arr \<Rightarrow> (case those (map (k_vmalloc_to_page K a) [0..<npages]) of
                    None \<Rightarrow> (Err ENOMEM, Some a, sg, Vfree a # Free_array arr # cs)
                  | Some ps \<Rightarrow>
                      let r = k_sg_alloc K cs ps (ucast buffer_size); cs = Sg_alloc ps r # cs
                      in case r of
                           Err e \<Rightarrow> (Err e, Some a, empty_sgt, Vfree a # Free_array arr # cs)
                         | Fault f \<Rightarrow> (Fault f, Some a, sg, cs)
                         | Ok _ \<Rightarrow>
                             let ents = k_dma_map_sg K cs ps DMA_TO_DEVICE; cs = Dma_map_sg ps DMA_TO_DEVICE ents # cs;
                                 sg = \<lparr> sgt_pages = ps, sgt_dma = ents \<rparr>
                             in if ents = []
                                then (Err ENXIO, Some a, sg, Vfree a # Free_array arr # Dma_unmap_sg ps DMA_TO_DEVICE # cs)
                                else (Ok (), Some a, sg, Free_array arr # cs)))"

text \<open>The release of one channel; its pointers keep their values.\<close>

definition release_boot_channel :: "'d mmio \<Rightarrow> nat \<Rightarrow> 'd board_world \<Rightarrow> 'd board_world result" where
  "release_boot_channel io i w =
     bind_r (boot_channel i w) (\<lambda>channel.
     bind_r (channel_regs i w) (\<lambda>(host_regs, device_regs).
     let cs = w_calls w;
         cs = (case bc_host_descriptors_buffer channel of None \<Rightarrow> cs | Some (b, _) \<Rightarrow> hailo_desc_list_release b cs);
         cs = (case bc_device_descriptors_buffer channel of None \<Rightarrow> cs | Some (b, _) \<Rightarrow> hailo_desc_list_release b cs);
         d = hailo_vdma_stop_channel io device_regs (hailo_vdma_stop_channel io host_regs (w_device w));
         cs = (case bc_kernel_addrs channel of None \<Rightarrow> cs | Some a \<Rightarrow> pcie_vdma_release_noncontinuous_memory (bc_sg_table channel) a cs)
     in Ok (w\<lparr>w_calls := cs, w_device := d\<rparr>)))"

definition pcie_vdme_release_boot_resources :: "'d mmio \<Rightarrow> 'd board_world \<Rightarrow> 'd board_world result" where
  "pcie_vdme_release_boot_resources io w = for_each (release_boot_channel io) [0..<HAILO_PCI_OVER_VDMA_NUM_CHANNELS] w"

text \<open>The allocation for one channel: the two lists, the start of the channel on both sides, the buffer.\<close>

definition create_boot_list ::
    "kernel \<Rightarrow> u32 \<Rightarrow> 'd board_world \<Rightarrow> (hailo_descriptors_list_buffer \<times> hailo_vdma_descriptors_list) result \<times> 'd board_world" where
  "create_boot_list K desc_page_size w =
     (case hailo_desc_list_create K MAX_SG_DESCS_COUNT (ucast desc_page_size) 0 False (w_calls w) of (r, cs) \<Rightarrow> (r, w\<lparr>w_calls := cs\<rparr>))"

definition allocate_boot_channel ::
    "'d mmio \<Rightarrow> kernel \<Rightarrow> u32 \<Rightarrow> nat \<Rightarrow> 'd board_world \<Rightarrow> unit result \<times> 'd board_world" where
  "allocate_boot_channel io K desc_page_size i w =
     andthen (boot_channel i w, w) (\<lambda>channel w.
     andthen (channel_regs i w, w) (\<lambda>(host_regs, device_regs) w.
     let data_id = ddr_data_id (vc_hw (w_controller w))
     in andthen (on_error (create_boot_list K desc_page_size w)
                  (\<lambda>w. (Ok (), set_boot_channel i (channel\<lparr>bc_host_descriptors_buffer := None\<rparr>) w))) (\<lambda>host w.
        let channel = channel\<lparr>bc_host_descriptors_buffer := Some host\<rparr>; w = set_boot_channel i channel w
        in andthen (on_error (create_boot_list K desc_page_size w)
                     (\<lambda>w. (Ok (), set_boot_channel i (channel\<lparr>bc_device_descriptors_buffer := None\<rparr>) w))) (\<lambda>device w.
        let w = poke_device (hailo_vdma_start_channel io host_regs (db_dma_address (fst host)) (dl_desc_count (snd host)) data_id) w;
            w = poke_device (hailo_vdma_start_channel io device_regs (db_dma_address (fst device)) (dl_desc_count (snd device)) data_id) w;
            channel = channel\<lparr>bc_device_descriptors_buffer := Some device, bc_buffer_size := ucast (MAX_SG_DESCS_COUNT * desc_page_size)\<rparr>
        in case pcie_vdma_allocate_noncontinuous_memory K (bc_buffer_size channel) (bc_sg_table channel) (w_calls w) of
             (r, kernel_addrs, sg, cs) \<Rightarrow>
               (r, set_boot_channel i (channel\<lparr>bc_kernel_addrs := kernel_addrs, bc_sg_table := sg\<rparr>) (w\<lparr>w_calls := cs\<rparr>))))))"

fun allocate_channels :: "'d mmio \<Rightarrow> kernel \<Rightarrow> u32 \<Rightarrow> nat list \<Rightarrow> 'd board_world \<Rightarrow> unit result \<times> 'd board_world" where
  "allocate_channels io K desc_page_size [] w = (Ok (), w)"
| "allocate_channels io K desc_page_size (i # is) w =
     andthen (allocate_boot_channel io K desc_page_size i w) (\<lambda>_ w. allocate_channels io K desc_page_size is w)"

definition pcie_vdme_allocate_boot_resources :: "'d mmio \<Rightarrow> kernel \<Rightarrow> u32 \<Rightarrow> 'd board_world \<Rightarrow> unit result \<times> 'd board_world" where
  "pcie_vdme_allocate_boot_resources io K desc_page_size w =
     on_error (allocate_channels io K desc_page_size [0..<HAILO_PCI_OVER_VDMA_NUM_CHANNELS] w)
       (step_r (pcie_vdme_release_boot_resources io))"

section \<open>Sending the files\<close>

definition sync_boot_channel :: "nat \<Rightarrow> 'd board_world \<Rightarrow> 'd board_world result" where
  "sync_boot_channel i w = bind_r (boot_channel i w) (\<lambda>channel.
     Ok (call (Dma_sync_sg HAILO_SYNC_FOR_DEVICE (sgt_dma (bc_sg_table channel)) DMA_TO_DEVICE) w))"

definition start_boot_channel :: "'d mmio \<Rightarrow> nat \<Rightarrow> 'd board_world \<Rightarrow> 'd board_world result" where
  "start_boot_channel io i w =
     bind_r (boot_channel i w) (\<lambda>channel.
     if bc_desc_program_num channel = 0 then Ok w
     else bind_r (channel_regs i w) (\<lambda>(host_regs, device_regs).
          Ok (poke_device (hailo_vdma_set_num_avail io device_regs (ucast (bc_desc_program_num channel)))
               (poke_device (hailo_vdma_set_num_avail io host_regs (ucast (bc_desc_program_num channel))) w))))"

text \<open>
  \<open>release_all\<close> is reached with and without an error. The wait uses the timeout of the second stage; a board without such a stage
  is not read here, since the table has an entry for every stage.
\<close>

definition finish_with :: "unit result \<times> 'w \<Rightarrow> ('w \<Rightarrow> 'w result) \<Rightarrow> unit result \<times> 'w" where
  "finish_with rw f = (case rw of
       (Fault x, w) \<Rightarrow> (Fault x, w)
     | (r, w) \<Rightarrow> (case f w of Ok w1 \<Rightarrow> (r, w1) | Err e \<Rightarrow> (Err e, w) | Fault x \<Rightarrow> (Fault x, w)))"

definition pcie_write_firmware_batch_over_dma ::
    "'d mmio \<Rightarrow> kernel \<Rightarrow> 'd caller \<Rightarrow> nat \<Rightarrow> u32 \<Rightarrow> 'd board_world \<Rightarrow> unit result \<times> 'd board_world" where
  "pcie_write_firmware_batch_over_dma io K e stage desc_page_size w =
     andthen (pcie_vdme_allocate_boot_resources io K desc_page_size w) (\<lambda>_ w.
     finish_with
      (andthen (pcie_vdma_program_entire_batch e stage (set_vdma_boot (reinit_completion (fb_vdma_boot_completion (b_fw_boot w))) w)) (\<lambda>_ w.
       andthen (step_r (for_each sync_boot_channel [0..<HAILO_PCI_OVER_VDMA_NUM_CHANNELS]) w) (\<lambda>_ w.
       andthen (step_r (for_each (start_boot_channel io) [0..<HAILO_PCI_OVER_VDMA_NUM_CHANNELS]) w) (\<lambda>_ w.
       let (completed, w) = wait_for_firmware_completion (\<lambda>w. fb_vdma_boot_completion (b_fw_boot w)) set_vdma_boot e w
       in if \<not> completed then (Err ETIMEDOUT, w)
          else let w = set_fw_loaded (reinit_completion (fb_fw_loaded_completion (b_fw_boot w))) w;
                   (r, w) = on_device (hailo_trigger_firmware_boot io (b_pcie_resources w) stage (e_ptr e) (e_sp e)) w
               in (case r of Fault f \<Rightarrow> Fault f | _ \<Rightarrow> Ok (), w)))))
      (pcie_vdme_release_boot_resources io))"

section \<open>Loading\<close>

text \<open>A read of the boot status for the log; its result is not used.\<close>

definition log_boot_status :: "'d mmio \<Rightarrow> 'd caller \<Rightarrow> 'd board_world \<Rightarrow> unit result \<times> 'd board_world" where
  "log_boot_status io e w =
     (let (r, w) = on_device (hailo_get_boot_status io (b_pcie_resources w) (e_ptr e) (e_sp e)) w
      in (case r of Fault f \<Rightarrow> Fault f | _ \<Rightarrow> Ok (), w))"

definition wait_fw_loaded :: "'d mmio \<Rightarrow> 'd caller \<Rightarrow> 'd board_world \<Rightarrow> unit result \<times> 'd board_world" where
  "wait_fw_loaded io e w =
     (let (completed, w) = wait_for_firmware_completion (\<lambda>w. fb_fw_loaded_completion (b_fw_boot w)) set_fw_loaded e w
      in if completed then (Ok (), w) else andthen (log_boot_status io e w) (\<lambda>_ w. (Err ETIMEDOUT, w)))"

definition load_soc_firmware ::
    "'d mmio \<Rightarrow> module_params \<Rightarrow> kernel \<Rightarrow> 'd caller \<Rightarrow> 'd board_world \<Rightarrow> unit result \<times> 'd board_world" where
  "load_soc_firmware io M K e w =
     (let second_stage = (if mp_force_boot_linux_from_eemc M then SECOND_STAGE_LINUX_IN_EMMC else SECOND_STAGE);
          resources = b_pcie_resources w;
          (loaded, w) = on_device (hailo_pcie_is_firmware_loaded io resources) w
      in if loaded then (Ok (), w)
         else andthen (on_device (hailo_pcie_configure_ep_registers_for_dma_transaction io resources (e_ptr e) (e_sp e)) w) (\<lambda>_ w.
              let w = set_vdma_boot init_completion (set_fw_loaded init_completion w)
              in andthen (on_device (hailo_pcie_write_firmware_batch io resources (e_files e) FIRST_STAGE (e_ptr e) (e_sp e)) w) (\<lambda>_ w.
                 andthen (wait_fw_loaded io e w) (\<lambda>_ w.
                 andthen (pcie_write_firmware_batch_over_dma io K e second_stage HAILO_PCI_OVER_VDMA_PAGE_SIZE
                            (set_fw_loaded (reinit_completion (fb_fw_loaded_completion (b_fw_boot w))) w)) (\<lambda>_ w.
                 andthen (wait_fw_loaded io e w) (\<lambda>_ w.
                 (Ok (), set_vdma_boot (reinit_completion (fb_vdma_boot_completion (b_fw_boot w)))
                    (set_fw_loaded (reinit_completion (fb_fw_loaded_completion (b_fw_boot w))) w))))))))"

definition hailo_pcie_soft_reset :: "'d mmio \<Rightarrow> 'd caller \<Rightarrow> 'd board_world \<Rightarrow> unit result \<times> 'd board_world" where
  "hailo_pcie_soft_reset io e w =
     (let w = poke_device (hailo_pcie_write_firmware_soft_reset io (b_pcie_resources w)) w;
          w = w\<lparr>b_soft_reset_completed := reinit_completion (b_soft_reset_completed w)\<rparr>;
          (completed, w) = wait_for_firmware_completion b_soft_reset_completed (\<lambda>c w. w\<lparr>b_soft_reset_completed := c\<rparr>) e w
      in if \<not> completed then (Err ETIMEDOUT, w)
         else andthen (on_device (hailo_pcie_wait_for_boot io (b_pcie_resources w) (e_ptr e) (e_sp e)) w) (\<lambda>booted w.
              if booted then (Ok (), w) else (Err ETIMEDOUT, w)))"

definition write_nnc_firmware :: "'d mmio \<Rightarrow> 'd caller \<Rightarrow> 'd board_world \<Rightarrow> unit result \<times> 'd board_world" where
  "write_nnc_firmware io e w =
     andthen (on_device (hailo_pcie_write_firmware_batch io (b_pcie_resources w) (e_files e) FIRST_STAGE (e_ptr e) (e_sp e))
                (set_fw_loaded init_completion w)) (\<lambda>_ w.
     wait_fw_loaded io e w)"

definition load_nnc_firmware ::
    "'d mmio \<Rightarrow> module_params \<Rightarrow> 'd caller \<Rightarrow> 'd board_world \<Rightarrow> unit result \<times> 'd board_world" where
  "load_nnc_firmware io M e w =
     (let (loaded, w) = on_device (hailo_pcie_is_firmware_loaded io (b_pcie_resources w)) w
      in if \<not> loaded then write_nnc_firmware io e w
         else if \<not> mp_support_soft_reset M then (Ok (), w)
         else case hailo_pcie_soft_reset io e w of
                (Ok _, w) \<Rightarrow> write_nnc_firmware io e w
              | (Err _, w) \<Rightarrow> (Ok (), w)
              | (Fault f, w) \<Rightarrow> (Fault f, w))"

definition load_firmware ::
    "'d mmio \<Rightarrow> module_params \<Rightarrow> kernel \<Rightarrow> 'd caller \<Rightarrow> 'd board_world \<Rightarrow> unit result \<times> 'd board_world" where
  "load_firmware io M K e w = (case pr_accelerator_type (b_pcie_resources w) of
     HAILO_ACCELERATOR_TYPE_SOC \<Rightarrow> load_soc_firmware io M K e w
   | HAILO_ACCELERATOR_TYPE_NNC \<Rightarrow> load_nnc_firmware io M e w)"

definition power_mode_enabled :: "module_params \<Rightarrow> bool" where
  "power_mode_enabled M = mp_is_power_mode_enabled M"

definition hailo_activate_board ::
    "'d mmio \<Rightarrow> module_params \<Rightarrow> kernel \<Rightarrow> 'd caller \<Rightarrow> 'd board_world \<Rightarrow> unit result \<times> 'd board_world" where
  "hailo_activate_board io M K e w =
     (case hailo_pcie_disable_aspm K PCIE_LINK_STATE_L0S False w of
        (Fault f, w) \<Rightarrow> (Fault f, w)
      | (_, w) \<Rightarrow>
          andthen (hailo_enable_interrupts io K w) (\<lambda>_ w.
          case load_firmware io M K e (modify_boot (\<lambda>b. b\<lparr>fb_is_in_boot := True\<rparr>) w) of
            (Fault f, w) \<Rightarrow> (Fault f, w)
          | (r, w) \<Rightarrow>
              let w = modify_boot (\<lambda>b. b\<lparr>fb_is_in_boot := False\<rparr>) w
              in case r of
                   Err err \<Rightarrow> (Err err, hailo_disable_interrupts io w)
                 | Fault f \<Rightarrow> (Fault f, w)
                 | Ok _ \<Rightarrow>
                     (case (if pr_accelerator_type (b_pcie_resources w) = HAILO_ACCELERATOR_TYPE_SOC
                            then hailo_soc_get_driver_info io e w else (Ok (), w)) of
                        (Fault f, w) \<Rightarrow> (Fault f, w)
                      | (_, w) \<Rightarrow>
                          let w = hailo_disable_interrupts io w
                          in if power_mode_enabled M then pci_set_power_state K PCI_D3hot w else (Ok (), w))))"

end
