(* ===== verification/Pcie_Driver.thy ===== *)
theory Pcie_Driver
  imports Pcie_Fops Pcie_Boot
begin

text \<open>
  The driver of the PCI device and the module (\<open>src/linux/pcie/src/pcie.c\<close>): the list of boards, probe and removal, suspend and
  resume, the preparation of a reset, and loading and unloading the module.
\<close>

section \<open>The list of boards\<close>

text \<open>
  The boards are kept in the order of their indices. A new board gets index zero when that is free; otherwise it is put after
  the first board whose successor does not have the next index. The loop is not entered with an empty list.
\<close>

fun insert_loop :: "ptr \<Rightarrow> (ptr \<times> u32) list \<Rightarrow> u32 \<times> (ptr \<times> u32) list" where
  "insert_loop p [] = (0, [(p, 0)])"
| "insert_loop p [(q, i)] = (i + 1, [(q, i), (p, i + 1)])"
| "insert_loop p ((q, i) # (q', i') # boards) =
     (if i + 1 \<noteq> i' then (i + 1, (q, i) # (p, i + 1) # (q', i') # boards)
      else let (index, rest) = insert_loop p ((q', i') # boards) in (index, (q, i) # rest))"

definition insert_index :: "ptr \<Rightarrow> (ptr \<times> u32) list \<Rightarrow> u32 \<times> (ptr \<times> u32) list" where
  "insert_index p boards =
     (if boards = [] \<or> 0 < snd (hd boards) then (0, (p, 0) # boards) else insert_loop p boards)"

text \<open>The class of the character devices is created with the first board. Its failure returns with the semaphore taken.\<close>

definition create_class :: "kernel \<Rightarrow> 'd board_world \<Rightarrow> unit result \<times> 'd board_world" where
  "create_class K w =
     (if b_chrdev_class w \<noteq> None then (Ok (), w)
      else let r = k_class_create K (w_calls w)
           in (r, (call (Class_create r) w)\<lparr>b_chrdev_class := Some (is_ok r)\<rparr>))"

definition hailo_pcie_insert_board :: "kernel \<Rightarrow> 'd board_world \<Rightarrow> unit result \<times> 'd board_world" where
  "hailo_pcie_insert_board K w =
     andthen (step_r down_add_board w) (\<lambda>_ w.
     andthen (create_class K w) (\<lambda>_ w.
     let (index, boards) = insert_index (b_self w) (b_board_list w)
     in (Ok (), up_add_board (w\<lparr>b_board_index := index, b_board_list := boards\<rparr>))))"

definition hailo_pcie_remove_board :: "'d board_world \<Rightarrow> unit result \<times> 'd board_world" where
  "hailo_pcie_remove_board w =
     andthen (step_r down_add_board w) (\<lambda>_ w.
     (Ok (), up_add_board (w\<lparr>b_board_list := filter (\<lambda>(p, _). p \<noteq> b_self w) (b_board_list w)\<rparr>)))"

section \<open>Probe\<close>

definition PCI_DEVICE_ID_HAILO_HAILO8 :: u16 where "PCI_DEVICE_ID_HAILO_HAILO8 = 0x2864"

definition hailo_pcie_id_table :: "(u16 \<times> u16 \<times> hailo_board_type) list" where
  "hailo_pcie_id_table = [(PCI_VENDOR_ID_HAILO, PCI_DEVICE_ID_HAILO_HAILO8, HAILO_BOARD_TYPE_HAILO8)]"

definition zero_boot_channel :: hailo_pcie_boot_dma_channel_state where
  "zero_boot_channel = \<lparr> bc_host_descriptors_buffer = None, bc_device_descriptors_buffer = None, bc_sg_table = empty_sgt,
     bc_buffer_size = 0, bc_kernel_addrs = None, bc_memory = (\<lambda>_. 0), bc_desc_program_num = 0 \<rparr>"

text \<open>A board as \<open>kzalloc\<close> returns it, with its pointer to the device. The vDMA controller is set up before it is used.\<close>

definition new_board :: "ptr \<Rightarrow> 'd board_world \<Rightarrow> 'd board_world" where
  "new_board p w = w\<lparr> b_self := p, b_alive := True, b_pDev := True, b_board_index := 0, b_ref_count := 0, b_open_files_list := [],
     b_pcie_resources := \<lparr> pr_config = \<lparr> res_address = 0, res_size = 0 \<rparr>, pr_vdma_registers = \<lparr> res_address = 0, res_size = 0 \<rparr>,
       pr_fw_access = \<lparr> res_address = 0, res_size = 0 \<rparr>, pr_board_type = HAILO_BOARD_TYPE_HAILO8,
       pr_accelerator_type = HAILO_ACCELERATOR_TYPE_NNC \<rparr>,
     b_nnc := \<lparr> nnc_fw_control_mutex = 0, nnc_fw_control_completion = 0,
       nnc_fw_control_command = \<lparr> fc_request_len = 0, fc_request = replicate (unat CONTROL_PROTOCOL__MAX_CONTROL_LENGTH) 0, fc_response_len = 0,
         fc_response = replicate (unat CONTROL_PROTOCOL__MAX_CONTROL_LENGTH) 0 \<rparr>,
       nnc_notification_wait_list = [],
       nnc_notification_cache = \<lparr> notif_buffer_len = 0, notif_buffer = replicate MAX_NOTIFICATION_LENGTH 0 \<rparr>,
       nnc_notification_to_user = \<lparr> notif_buffer_len = 0, notif_buffer = replicate MAX_NOTIFICATION_LENGTH 0 \<rparr> \<rparr>,
     b_soc := \<lparr> soc_control_resp_ready = 0, soc_driver_compatible = False \<rparr>,
     b_driver_down_reset_completed := 0, b_soft_reset_completed := 0,
     b_fw_boot := \<lparr> fb_channels = replicate HAILO_PCI_OVER_VDMA_NUM_CHANNELS zero_boot_channel, fb_curr_channel_index = 0, fb_is_in_boot = False,
       fb_boot_used_channel_bitmap = 0, fb_fw_loaded_completion = 0, fb_vdma_boot_completion = 0 \<rparr>,
     b_desc_max_page_size := 0, b_allocation_mode := HAILO_ALLOCATION_MODE_USERSPACE, b_interrupts_enabled := False, w_board_mutex := 0 \<rparr>"

text \<open>The initialisation of the board's own state, between the page size and the vDMA controller.\<close>

definition init_board :: "u32 \<Rightarrow> 'd board_world \<Rightarrow> 'd board_world" where
  "init_board page_size w =
     (set_fw_loaded init_completion (modify_boot (\<lambda>b. b\<lparr>fb_is_in_boot := False\<rparr>)
       (w\<lparr>b_desc_max_page_size := page_size, b_interrupts_enabled := False\<rparr>)))
     \<lparr>w_board_mutex := 1, b_ref_count := 0, b_open_files_list := [], b_nnc := hailo_nnc_init (b_nnc w), b_soc := hailo_soc_init (b_soc w),
      b_driver_down_reset_completed := init_completion, b_soft_reset_completed := init_completion\<rparr>"

text \<open>The boot state: channel 0 is always used, and everything else is zero.\<close>

definition reset_boot_state :: "'d board_world \<Rightarrow> 'd board_world" where
  "reset_boot_state = modify_boot (\<lambda>b. b\<lparr>fb_boot_used_channel_bitmap := 1,
     fb_channels := replicate HAILO_PCI_OVER_VDMA_NUM_CHANNELS zero_boot_channel, fb_curr_channel_index := 0\<rparr>)"

text \<open>The node of the board, and its removal from the list when the node cannot be made.\<close>

definition create_device_node :: "kernel \<Rightarrow> 'd board_world \<Rightarrow> unit result \<times> 'd board_world" where
  "create_device_node K w =
     (let r = k_device_create K (w_calls w) (b_board_index w)
      in on_error (r, call (Device_create (b_board_index w) r) w) hailo_pcie_remove_board)"

definition probe_board ::
    "'d mmio \<Rightarrow> module_params \<Rightarrow> kernel \<Rightarrow> 'd caller \<Rightarrow> hailo_vdma_engine list option \<Rightarrow> 'd board_world \<Rightarrow> unit result \<times> 'd board_world" where
  "probe_board io M K e mem w =
     andthen (hailo_get_desc_page_size M K (w_calls w), w) (\<lambda>page_size w.
     andthen (hailo_pcie_vdma_controller_init K mem (init_board page_size w)) (\<lambda>_ w.
     andthen (hailo_get_allocation_mode M K w) (\<lambda>_ w.
     andthen (hailo_activate_board io M K e (reset_boot_state w)) (\<lambda>_ w.
     andthen (hailo_pcie_insert_board K w) (\<lambda>_ w.
     create_device_node K w)))))"

definition probe_device ::
    "'d mmio \<Rightarrow> module_params \<Rightarrow> kernel \<Rightarrow> 'd caller \<Rightarrow> hailo_vdma_engine list option \<Rightarrow> hailo_board_type \<Rightarrow> 'd board_world \<Rightarrow>
     unit result \<times> 'd board_world" where
  "probe_device io M K e mem board_type w =
     (let r = k_pci_enable_device K (w_calls w)
      in andthen (r, call (Pci_enable_device r) w) (\<lambda>_ w.
         on_error
          (andthen (pcie_resources_init io M K board_type (call Pci_set_master w)) (\<lambda>_ w.
           on_error (probe_board io M K e mem w) (\<lambda>w. (Ok (), pcie_resources_release w))))
          (\<lambda>w. (Ok (), call Pci_disable_device w))))"

definition hailo_pcie_probe ::
    "'d mmio \<Rightarrow> module_params \<Rightarrow> kernel \<Rightarrow> 'd caller \<Rightarrow> hailo_vdma_engine list option \<Rightarrow> hailo_board_type \<Rightarrow> 'd board_world \<Rightarrow>
     unit result \<times> 'd board_world" where
  "hailo_pcie_probe io M K e mem board_type w =
     (let m = k_kzalloc K (w_calls w); w = call (Kzalloc m) w
      in case m of
           None \<Rightarrow> (Err ENOMEM, w)
         | Some p \<Rightarrow> on_error (probe_device io M K e mem board_type (new_board p w)) (\<lambda>w. (Ok (), call (Kfree p) (w\<lparr>b_alive := False\<rparr>))))"

section \<open>Removal\<close>

text \<open>What is done under the board's semaphore; it is released at the end.\<close>

definition remove_locked :: "'d mmio \<Rightarrow> 'd board_world \<Rightarrow> unit result \<times> 'd board_world" where
  "remove_locked io w =
     andthen (hailo_pcie_remove_board w) (\<lambda>_ w.
     let w = pcie_resources_release (hailo_disable_interrupts io (call (Device_destroy (b_board_index w)) w));
         w = call Pci_disable_device (w\<lparr>b_pDev := False, w_controller := (w_controller w)\<lparr>vc_dev := False\<rparr>\<rparr>)
     in andthen (step_r hailo_nnc_finalize w) (\<lambda>_ w. (Ok (), up_mutex w)))"

text \<open>
  After the semaphore is released others may run; the reference count is read after that. The board that the PCI device points
  to is there until it is removed.
\<close>

definition hailo_pcie_remove :: "'d mmio \<Rightarrow> 'd caller \<Rightarrow> 'd board_world \<Rightarrow> unit result \<times> 'd board_world" where
  "hailo_pcie_remove io e w =
     (if \<not> b_pDev w then (Ok (), w)
      else andthen (step_r down_mutex w) (\<lambda>_ w.
           andthen (remove_locked io w) (\<lambda>_ w.
           let w = e_others e w
           in if \<not> b_alive w then (Fault Use_after_free, w)
              else if b_ref_count w = 0 then (Ok (), call (Kfree (b_self w)) (w\<lparr>b_alive := False\<rparr>))
              else (Ok (), w))))"

section \<open>Power management and reset\<close>

definition driver_down :: "'d mmio \<Rightarrow> 'd caller \<Rightarrow> 'd board_world \<Rightarrow> unit result \<times> 'd board_world" where
  "driver_down io e w =
     (if pr_accelerator_type (b_pcie_resources w) = HAILO_ACCELERATOR_TYPE_NNC then hailo_nnc_driver_down io e w
      else hailo_soc_driver_down io e w)"

text \<open>The shutdown of the firmware when a file uses the board; an error is only logged.\<close>

definition driver_down_if_used :: "'d mmio \<Rightarrow> 'd caller \<Rightarrow> 'd board_world \<Rightarrow> unit result \<times> 'd board_world" where
  "driver_down_if_used io e w =
     (if vc_used_by_filp (w_controller w) = None then (Ok (), w)
      else case driver_down io e w of (Fault f, w) \<Rightarrow> (Fault f, w) | (_, w) \<Rightarrow> (Ok (), w))"

definition invalidate_context :: "ptr \<Rightarrow> 'd board_world \<Rightarrow> 'd board_world result" where
  "invalidate_context p w = (case b_contexts w p of
       None \<Rightarrow> Fault Use_after_free
     | Some c \<Rightarrow> Ok (w\<lparr>b_contexts := (b_contexts w)(p \<mapsto> c\<lparr>ctx_is_valid := False\<rparr>)\<rparr>))"

definition hailo_pcie_suspend :: "'d mmio \<Rightarrow> 'd caller \<Rightarrow> 'd board_world \<Rightarrow> unit result \<times> 'd board_world" where
  "hailo_pcie_suspend io e w =
     andthen (step_r down_mutex w) (\<lambda>_ w.
     andthen (driver_down_if_used io e w) (\<lambda>_ w.
     let w = hailo_disable_interrupts io w
     in andthen (step_r (for_each invalidate_context (b_open_files_list w)) w) (\<lambda>_ w.
        (Ok (), up_mutex w))))"

definition hailo_pcie_resume ::
    "'d mmio \<Rightarrow> module_params \<Rightarrow> kernel \<Rightarrow> 'd caller \<Rightarrow> 'd board_world \<Rightarrow> unit result \<times> 'd board_world" where
  "hailo_pcie_resume io M K e w =
     (case hailo_activate_board io M K e w of (Fault f, w) \<Rightarrow> (Fault f, w) | (_, w) \<Rightarrow> (Ok (), w))"

definition hailo_pci_reset_prepare :: "'d mmio \<Rightarrow> 'd caller \<Rightarrow> 'd board_world \<Rightarrow> unit result \<times> 'd board_world" where
  "hailo_pci_reset_prepare io e w =
     (if \<not> b_pDev w then (Ok (), w)
      else andthen (step_r down_mutex w) (\<lambda>_ w.
           andthen (driver_down_if_used io e w) (\<lambda>_ w. (Ok (), up_mutex w))))"

section \<open>The module\<close>

definition hailo_pcie_register_chrdev :: "kernel \<Rightarrow> 'd board_world \<Rightarrow> unit result \<times> 'd board_world" where
  "hailo_pcie_register_chrdev K w = (let r = k_register_chrdev K (w_calls w) in (r, call (Register_chrdev r) w))"

text \<open>\<open>class_destroy\<close> ignores an error pointer.\<close>

definition hailo_pcie_unregister_chrdev :: "'d board_world \<Rightarrow> 'd board_world" where
  "hailo_pcie_unregister_chrdev w = (case b_chrdev_class w of
       None \<Rightarrow> w
     | Some created \<Rightarrow> call Unregister_chrdev (if created then call Class_destroy w else w))"

text \<open>Registering the driver probes the boards that are present, and unregistering it removes them; both are steps of their own.\<close>

definition hailo_pcie_module_init :: "kernel \<Rightarrow> 'd board_world \<Rightarrow> unit result \<times> 'd board_world" where
  "hailo_pcie_module_init K w =
     andthen (hailo_pcie_register_chrdev K w) (\<lambda>_ w.
     let r = k_pci_register_driver K (w_calls w)
     in on_error (r, call (Pci_register_driver r) w) (\<lambda>w. (Ok (), hailo_pcie_unregister_chrdev w)))"

definition hailo_pcie_module_exit :: "'d board_world \<Rightarrow> 'd board_world" where
  "hailo_pcie_module_exit w = hailo_pcie_unregister_chrdev (call Pci_unregister_driver w)"

end
