(* ===== verification/Pcie_Samples.thy ===== *)
theory Pcie_Samples
  imports Pcie_Driver Vdma_Api
begin

text \<open>
  A concrete machine for the statements about boards: a device that answers with the vendor's id and with a loaded firmware, the
  module's parameters, a caller that nobody disturbs, and the driver's state before the first board is probed.
\<close>

text \<open>The configuration BAR is mapped at \<open>0x10000\<close>; the firmware is loaded when the first translation window is at its final place.\<close>

definition board_io :: "unit mmio" where
  "board_io = \<lparr> ioread32 = (\<lambda>a d. (if a = 0x10708 then PCIE_CONTROL_SECTION_ADDRESS_H8 else 0x1e60, d)), iowrite32 = (\<lambda>v a d. d) \<rparr>"

definition sample_params :: module_params where
  "sample_params = \<lparr> mp_force_desc_page_size = 0, mp_is_power_mode_enabled = False, mp_force_allocation_from_driver = HAILO_NO_FORCE_BUFFER,
     mp_force_hailo10h_legacy_mode = False, mp_force_boot_linux_from_eemc = False, mp_support_soft_reset = False \<rparr>"

definition sample_caller :: "unit caller" where
  "sample_caller = \<lparr> e_tgid = 100, e_lock_ok = True, e_down_ok = True, e_access_ok = True, e_out_ok = True, e_others = id, e_sleep = id,
     e_killed = False, e_wait_event = Pair (Ok ()), e_clock = (\<lambda>_. 0), e_files = (\<lambda>_. Err ENOENT), e_ptr = 0, e_sp = 0 \<rparr>"

text \<open>No board yet; what the fields of a board hold before it exists does not matter.\<close>

definition no_board :: "unit board_world" where
  "no_board = \<lparr> w_device = (), w_controller = w_controller sample_world, w_lists = sample_store, w_buffers = (\<lambda>_. None), w_desc_buffers = (\<lambda>_. None),
     w_low_buffers = (\<lambda>_. None), w_cont_buffers = (\<lambda>_. None), w_calls = [], w_board_mutex = 0,
     b_self = 0, b_alive = False, b_pDev = False, b_current_state = PCI_D0, b_board_index = 0, b_ref_count = 0, b_open_files_list = [],
     b_contexts = (\<lambda>_. None),
     b_pcie_resources = \<lparr> pr_config = \<lparr> res_address = 0, res_size = 0 \<rparr>, pr_vdma_registers = \<lparr> res_address = 0, res_size = 0 \<rparr>,
       pr_fw_access = \<lparr> res_address = 0, res_size = 0 \<rparr>, pr_board_type = HAILO_BOARD_TYPE_HAILO8, pr_accelerator_type = HAILO_ACCELERATOR_TYPE_NNC \<rparr>,
     b_nnc = \<lparr> nnc_fw_control_mutex = 0, nnc_fw_control_completion = 0,
       nnc_fw_control_command = \<lparr> fc_request_len = 0, fc_request = [], fc_response_len = 0, fc_response = [] \<rparr>, nnc_notification_wait_list = [],
       nnc_notification_cache = \<lparr> notif_buffer_len = 0, notif_buffer = [] \<rparr>, nnc_notification_to_user = \<lparr> notif_buffer_len = 0, notif_buffer = [] \<rparr> \<rparr>,
     b_notification_waits = (\<lambda>_. None), b_soc = \<lparr> soc_control_resp_ready = 0, soc_driver_compatible = False \<rparr>,
     b_driver_down_reset_completed = 0, b_soft_reset_completed = 0,
     b_fw_boot = \<lparr> fb_channels = [], fb_curr_channel_index = 0, fb_is_in_boot = False, fb_boot_used_channel_bitmap = 0,
       fb_fw_loaded_completion = 0, fb_vdma_boot_completion = 0 \<rparr>,
     b_desc_max_page_size = 0, b_allocation_mode = HAILO_ALLOCATION_MODE_USERSPACE, b_interrupts_enabled = False, b_board_list = [],
     b_chrdev_class = None, b_add_board_mutex = 1 \<rparr>"

lemma no_board_fields [simp]:
  "w_calls no_board = []" "b_board_list no_board = []" "b_chrdev_class no_board = None" "b_add_board_mutex no_board = 1" "w_device no_board = ()"
  "b_current_state no_board = PCI_D0" "b_contexts no_board = Map.empty" "b_notification_waits no_board = Map.empty"
  by (simp_all add: no_board_def)

lemma sample_board_kernel [simp]:
  "k_pci_enable_msi sample_kernel cs = Ok ()" "k_request_irq sample_kernel cs = Ok ()" "k_pci_enable_device sample_kernel cs = Ok ()"
  "k_pci_request_regions sample_kernel cs = Ok ()" "k_pci_resource_len sample_kernel b = 0x4000" "k_pci_iomap sample_kernel cs b = 0x10000 * (of_nat b + 1)"
  "k_capability_read_word sample_kernel cs p r = Ok 0" "k_class_create sample_kernel cs = Ok ()" "k_device_create sample_kernel cs i = Ok ()"
  "k_dma_set_mask sample_kernel n = Ok ()" "k_has_parent sample_kernel" "k_pcieaspm sample_kernel"
  "k_dma_mask sample_kernel = Some (- 1)"
  by (simp_all add: sample_kernel_def)

lemma sample_caller_fields [simp]:
  "e_lock_ok sample_caller" "e_down_ok sample_caller" "e_others sample_caller = id" "e_sleep sample_caller = id"
  "e_wait_event sample_caller = Pair (Ok ())" "e_out_ok sample_caller"
  by (simp_all add: sample_caller_def)

definition probed :: "unit board_world" where
  "probed = snd (hailo_pcie_probe board_io sample_params sample_kernel sample_caller (Some [busy_engine]) HAILO_BOARD_TYPE_HAILO8 no_board)"

lemma board_connected: "res_address (pr_config r) = 0x10000 \<Longrightarrow> hailo_pcie_is_device_connected board_io r d = (True, ())"
  by (simp add: hailo_pcie_is_device_connected_def hailo_resource_read16_def board_io_def PCIE_CONFIG_VENDOR_OFFSET_def PCI_VENDOR_ID_HAILO_def
      ALIGN_TO_32_BIT_def READ_BITS_AT_OFFSET_def offset_in_bits_def
      WORD_SIZE_def BITS_IN_BYTE_def)

lemma board_loaded:
  "res_address (pr_config r) = 0x10000 \<Longrightarrow> pr_board_type r = HAILO_BOARD_TYPE_HAILO8 \<Longrightarrow> hailo_pcie_is_firmware_loaded board_io r d = (True, ())"
  by (simp add: hailo_pcie_is_firmware_loaded_def hailo_resource_read32_def board_io_def ATR_PCIE_BRIDGE_OFFSET_def offsetof_atr_trsl_addr_1_def)

text \<open>The board of the sample machine is probed by evaluating the code of the model.\<close>

lemmas probe_run = hailo_pcie_probe_def probe_device_def Let_def pcie_resources_init_def is_board_type_def map_config_def hailo_bar_iomap_def
  map_vdma_registers_def map_fw_access_def init_device_type_def hailo_set_device_type_def on_device_def board_connected board_loaded
  HAILO_PCIE_CONFIG_BAR_def HAILO_PCIE_VDMA_REGS_BAR_def HAILO_PCIE_FW_ACCESS_BAR_def new_board_def call_def
  probe_board_def hailo_get_desc_page_size_def hailo_pcie_vdma_controller_init_def hailo_vdma_controller_init_def init_vdma_engines_def
  hailo_set_dma_mask_def hailo_get_allocation_mode_def sample_params_def is_kmalloc_dma_capable_def init_board_def
  modify_boot_def set_fw_loaded_def reset_boot_state_def hailo_activate_board_def hailo_pcie_disable_aspm_def
  hailo_enable_interrupts_def poke_device_def load_firmware_def load_nnc_firmware_def hailo_disable_interrupts_def power_mode_enabled_def
  hailo_pcie_insert_board_def step_r_def down_add_board_def up_add_board_def create_class_def insert_index_def create_device_node_def
  hailo_nnc_init_def

lemma probe_succeeds:
  "hailo_pcie_probe board_io sample_params sample_kernel sample_caller (Some [busy_engine]) HAILO_BOARD_TYPE_HAILO8 no_board = (Ok (), probed)"
proof -
  let ?run = "hailo_pcie_probe board_io sample_params sample_kernel sample_caller (Some [busy_engine]) HAILO_BOARD_TYPE_HAILO8 no_board"
  have "fst ?run = Ok ()" by (simp add: probe_run)
  then show ?thesis by (simp add: probed_def prod_eq_iff)
qed

text \<open>The fields of the probed board, evaluated at once.\<close>

definition probed_sample :: "unit board_world \<Rightarrow> bool" where
  "probed_sample w \<longleftrightarrow> b_self w = 0 \<and>
     b_alive w \<and>
     b_pDev w \<and>
     b_board_list w = [(0, 0)] \<and>
     b_add_board_mutex w = 1 \<and>
     w_board_mutex w = 1 \<and>
     b_ref_count w = 0 \<and>
     b_open_files_list w = [] \<and>
     b_contexts w = Map.empty \<and>
     \<not> b_interrupts_enabled w \<and>
     b_current_state w = PCI_D0 \<and>
     nnc_notification_wait_list (b_nnc w) = [] \<and>
     vc_used_by_filp (w_controller w) = None \<and>
     nnc_fw_control_mutex (b_nnc w) = 1 \<and>
     b_pcie_resources w = \<lparr> pr_config = \<lparr> res_address = 0x10000, res_size = 0x4000 \<rparr>, pr_vdma_registers = \<lparr> res_address = 0x30000, res_size = 0x4000 \<rparr>,
     pr_fw_access = \<lparr> res_address = 0x50000, res_size = 0x4000 \<rparr>, pr_board_type = HAILO_BOARD_TYPE_HAILO8, pr_accelerator_type = HAILO_ACCELERATOR_TYPE_NNC \<rparr> \<and>
     b_chrdev_class w = Some True \<and>
     b_notification_waits w = Map.empty \<and>
     length (engines w) = 1"

lemma probed_is_sample: "probed_sample probed"
  by (simp add: probed_def probe_run) (simp add: probed_sample_def)

lemma probed_fields [simp]:
  "b_self probed = 0" "b_alive probed" "b_pDev probed" "b_board_list probed = [(0, 0)]" "b_add_board_mutex probed = 1" "w_board_mutex probed = 1"
  "b_ref_count probed = 0" "b_open_files_list probed = []" "b_contexts probed = Map.empty" "\<not> b_interrupts_enabled probed"
  "b_current_state probed = PCI_D0" "nnc_notification_wait_list (b_nnc probed) = []" "vc_used_by_filp (w_controller probed) = None"
  "nnc_fw_control_mutex (b_nnc probed) = 1" 
  "b_pcie_resources probed = \<lparr> pr_config = \<lparr> res_address = 0x10000, res_size = 0x4000 \<rparr>, pr_vdma_registers = \<lparr> res_address = 0x30000, res_size = 0x4000 \<rparr>,
     pr_fw_access = \<lparr> res_address = 0x50000, res_size = 0x4000 \<rparr>, pr_board_type = HAILO_BOARD_TYPE_HAILO8, pr_accelerator_type = HAILO_ACCELERATOR_TYPE_NNC \<rparr>"
  "b_chrdev_class probed = Some True"
  "b_notification_waits probed = Map.empty" "length (engines probed) = 1"
  using probed_is_sample by (simp_all add: probed_sample_def)

end
