(* ===== verification/Pcie_Probe.thy ===== *)
theory Pcie_Probe
  imports Board_Logic Pcie_Samples
begin

text \<open>What probing a board takes from the kernel and gives back on every path, and what removing it gives back.\<close>

section \<open>Resources of a board\<close>

definition bar :: "hailo_resource \<Rightarrow> resource multiset" where
  "bar r = (if res_address r = 0 then {#} else {#Io_mapping (res_address r)#})"

definition bars :: "'d board_world \<Rightarrow> resource multiset" where
  "bars w = bar (pr_config (b_pcie_resources w)) + bar (pr_vdma_registers (b_pcie_resources w)) + bar (pr_fw_access (b_pcie_resources w))"

definition irq_res :: "bool \<Rightarrow> resource multiset" where
  "irq_res enabled = (if enabled then {#Irq, Msi#} else {#})"

definition class_res :: "'d board_world \<Rightarrow> resource multiset" where
  "class_res w = (if b_chrdev_class w = Some True then {#Chrdev_class#} else {#})"

text \<open>\<open>pci_iomap\<close> does not map an empty BAR.\<close>

definition iomap_nonempty :: "kernel \<Rightarrow> bool" where
  "iomap_nonempty K \<longleftrightarrow> (\<forall>cs b. k_pci_resource_len K b = 0 \<longrightarrow> k_pci_iomap K cs b = 0)"

text \<open>The fields that the operations below keep.\<close>

definition same_board :: "'d board_world \<Rightarrow> 'd board_world \<Rightarrow> bool" where
  "same_board w w' \<longleftrightarrow> b_self w' = b_self w \<and> b_alive w' = b_alive w \<and> b_pDev w' = b_pDev w \<and> b_board_list w' = b_board_list w \<and>
     b_board_index w' = b_board_index w \<and> b_chrdev_class w' = b_chrdev_class w \<and> b_add_board_mutex w' = b_add_board_mutex w \<and> w_board_mutex w' = w_board_mutex w \<and>
     b_ref_count w' = b_ref_count w \<and> b_open_files_list w' = b_open_files_list w \<and> b_nnc w' = b_nnc w \<and>
     w_buffers w' = w_buffers w \<and> w_desc_buffers w' = w_desc_buffers w \<and> w_low_buffers w' = w_low_buffers w \<and>
     w_cont_buffers w' = w_cont_buffers w \<and> w_lists w' = w_lists w \<and> b_contexts w' = b_contexts w \<and> b_notification_waits w' = b_notification_waits w"

lemma same_board_refl [simp]: "same_board w w"
  by (simp add: same_board_def)

lemma same_board_trans: "same_board a b \<Longrightarrow> same_board b c \<Longrightarrow> same_board a c"
  by (simp add: same_board_def)

lemma same_board_updates [simp]:
  "same_board w (call c w') \<longleftrightarrow> same_board w w'" "same_board w (w'\<lparr>w_device := d\<rparr>) \<longleftrightarrow> same_board w w'"
  "same_board w (poke_device f w') \<longleftrightarrow> same_board w w'" "same_board w (w'\<lparr>b_pcie_resources := r\<rparr>) \<longleftrightarrow> same_board w w'"
  "same_board w (w'\<lparr>b_interrupts_enabled := b\<rparr>) \<longleftrightarrow> same_board w w'" "same_board w (w'\<lparr>b_current_state := s\<rparr>) \<longleftrightarrow> same_board w w'"
  "same_board w (w'\<lparr>w_controller := c'\<rparr>) \<longleftrightarrow> same_board w w'" "same_board w (w'\<lparr>b_allocation_mode := am\<rparr>) \<longleftrightarrow> same_board w w'"
  "same_board w (modify_boot g w') \<longleftrightarrow> same_board w w'" "same_board w (w'\<lparr>b_soft_reset_completed := x\<rparr>) \<longleftrightarrow> same_board w w'"
  "same_board (call c w) w' \<longleftrightarrow> same_board w w'"
  by (simp_all add: same_board_def modify_boot_def)

text \<open>
  \<open>held K cs0 R w\<close>: since the history \<open>cs0\<close> the calls have taken the resources \<open>R\<close> and nothing else is left of them.
\<close>

definition held :: "kernel \<Rightarrow> calls \<Rightarrow> resource multiset \<Rightarrow> resource multiset \<Rightarrow> 'd board_world \<Rightarrow> bool" where
  "held K cs0 old R w \<longleftrightarrow> moves K cs0 old R (w_calls w)"

lemma held_acquire: "held K cs0 old R w \<Longrightarrow> releases c = {#} \<Longrightarrow> grants K (w_calls w) c \<Longrightarrow> held K cs0 old (acquires c + R) (call c w)"
  unfolding held_def by (auto intro: moves_acquire)

lemma held_quiet: "held K cs0 old R w \<Longrightarrow> releases c = {#} \<Longrightarrow> acquires c = {#} \<Longrightarrow> grants K (w_calls w) c \<Longrightarrow> held K cs0 old R (call c w)"
  unfolding held_def by (auto intro: moves_quiet)

lemma held_release: "held K cs0 old S w \<Longrightarrow> S = releases c + R \<Longrightarrow> acquires c = {#} \<Longrightarrow> grants K (w_calls w) c \<Longrightarrow> held K cs0 old R (call c w)"
  unfolding held_def by (auto intro: moves_release)

lemma held_cong: "held K cs0 old R w \<Longrightarrow> w_calls w' = w_calls w \<Longrightarrow> R' = R \<Longrightarrow> held K cs0 old R' w'"
  by (simp add: held_def)

text \<open>What a step of the mapping may change besides the history.\<close>

definition mapping_step :: "'d board_world \<Rightarrow> 'd board_world \<Rightarrow> bool" where
  "mapping_step w w' \<longleftrightarrow> same_board w w' \<and> b_interrupts_enabled w' = b_interrupts_enabled w"

lemma mapping_step_trans: "mapping_step a b \<Longrightarrow> mapping_step b c \<Longrightarrow> mapping_step a c"
  by (auto simp: mapping_step_def intro: same_board_trans)

lemma mapping_step_updates [simp]:
  "mapping_step w w" "mapping_step w (call c w') \<longleftrightarrow> mapping_step w w'" "mapping_step w (w'\<lparr>b_pcie_resources := r\<rparr>) \<longleftrightarrow> mapping_step w w'"
  "mapping_step w (w'\<lparr>w_device := d\<rparr>) \<longleftrightarrow> mapping_step w w'"
  "mapping_step (call c w) w' \<longleftrightarrow> mapping_step w w'" "mapping_step (w\<lparr>b_pcie_resources := r\<rparr>) w' \<longleftrightarrow> mapping_step w w'"
  by (auto simp: mapping_step_def same_board_def)

section \<open>BARs\<close>

lemma bar_iomap:
  assumes "held K cs0 old R w" "iomap_nonempty K"
  shows "post (hailo_bar_iomap K b w) (\<lambda>r w'. held K cs0 old (bar r + R) w' \<and> (\<exists>c. w' = call c w)) (\<lambda>w'. held K cs0 old R w' \<and> (\<exists>c. w' = call c w))"
proof (cases "k_pci_iomap K (w_calls w) b = 0")
  case True
  then show ?thesis using assms(1) by (auto simp: hailo_bar_iomap_def intro: held_quiet)
next
  case False
  then have "k_pci_resource_len K b \<noteq> 0" using assms(2) by (auto simp: iomap_nonempty_def)
  then show ?thesis using False held_acquire [OF assms(1), of "Pci_iomap b (k_pci_iomap K (w_calls w) b)"]
    by (auto simp: hailo_bar_iomap_def bar_def Let_def)
qed

lemma bar_iounmap:
  assumes "held K cs0 old (bar r + R) w"
  shows "held K cs0 old R (snd (hailo_bar_iounmap r w)) \<and> bar (fst (hailo_bar_iounmap r w)) = {#} \<and>
    (snd (hailo_bar_iounmap r w) = w \<or> (\<exists>c. snd (hailo_bar_iounmap r w) = call c w))"
  using assms by (auto simp: hailo_bar_iounmap_def bar_def intro: held_release)

lemma release_config_held:
  assumes "held K cs0 old (bar (pr_config (b_pcie_resources w)) + R) w"
  shows "held K cs0 old R (release_config w) \<and> mapping_step w (release_config w) \<and>
    (\<exists>r. bar r = {#} \<and> b_pcie_resources (release_config w) = (b_pcie_resources w)\<lparr>pr_config := r\<rparr>)"
  using bar_iounmap [OF assms] unfolding release_config_def split_beta Let_def
  by (auto simp: held_def)

lemma release_vdma_registers_held:
  assumes "held K cs0 old (bar (pr_vdma_registers (b_pcie_resources w)) + R) w"
  shows "held K cs0 old R (release_vdma_registers w) \<and> mapping_step w (release_vdma_registers w) \<and>
    (\<exists>r. bar r = {#} \<and> b_pcie_resources (release_vdma_registers w) = (b_pcie_resources w)\<lparr>pr_vdma_registers := r\<rparr>)"
  using bar_iounmap [OF assms] unfolding release_vdma_registers_def split_beta Let_def
  by (auto simp: held_def)

lemma release_fw_access_held:
  assumes "held K cs0 old (bar (pr_fw_access (b_pcie_resources w)) + R) w"
  shows "held K cs0 old R (release_fw_access w) \<and> mapping_step w (release_fw_access w) \<and>
    (\<exists>r. bar r = {#} \<and> b_pcie_resources (release_fw_access w) = (b_pcie_resources w)\<lparr>pr_fw_access := r\<rparr>)"
  using bar_iounmap [OF assms] unfolding release_fw_access_def split_beta Let_def
  by (auto simp: held_def)

lemma resources_release_held:
  assumes "held K cs0 old (add_mset Pci_regions (bars w + R)) w"
  shows "held K cs0 old R (pcie_resources_release w) \<and> mapping_step w (pcie_resources_release w)"
proof -
  let ?R = "add_mset Pci_regions R"
  have "held K cs0 old (bar (pr_config (b_pcie_resources w)) + (bar (pr_vdma_registers (b_pcie_resources w)) + (bar (pr_fw_access (b_pcie_resources w)) + ?R))) w"
    by (rule held_cong [OF assms]) (simp_all add: bars_def ac_simps)
  note a = release_config_held [OF this]
  let ?a = "release_config w"
  have "held K cs0 old (bar (pr_vdma_registers (b_pcie_resources ?a)) + (bar (pr_fw_access (b_pcie_resources ?a)) + ?R)) ?a"
    using a by auto
  note b = release_vdma_registers_held [OF this]
  let ?b = "release_vdma_registers ?a"
  have "held K cs0 old (bar (pr_fw_access (b_pcie_resources ?b)) + ?R) ?b" using b by auto
  note c = release_fw_access_held [OF this]
  have "held K cs0 old R (call Pci_release_regions (release_fw_access ?b))" using c by (auto intro: held_release)
  moreover have "mapping_step w (release_fw_access ?b)" using a b c mapping_step_trans by blast
  ultimately show ?thesis by (simp add: pcie_resources_release_def)
qed

definition effective_type :: "module_params \<Rightarrow> hailo_board_type \<Rightarrow> hailo_board_type" where
  "effective_type M t = (if t = HAILO_BOARD_TYPE_HAILO10H \<and> mp_force_hailo10h_legacy_mode M then HAILO_BOARD_TYPE_HAILO10H_LEGACY else t)"

lemma init_device_type_step:
  "post (init_device_type io M t w)
    (\<lambda>_ w'. w_calls w' = w_calls w \<and> mapping_step w w' \<and> pr_config (b_pcie_resources w') = pr_config (b_pcie_resources w) \<and>
       pr_vdma_registers (b_pcie_resources w') = pr_vdma_registers (b_pcie_resources w) \<and> pr_fw_access (b_pcie_resources w') = pr_fw_access (b_pcie_resources w) \<and>
       device_type_of (effective_type M t) = Ok (pr_accelerator_type (b_pcie_resources w')))
    (\<lambda>w'. w_calls w' = w_calls w \<and> mapping_step w w' \<and> pr_config (b_pcie_resources w') = pr_config (b_pcie_resources w) \<and>
       pr_vdma_registers (b_pcie_resources w') = pr_vdma_registers (b_pcie_resources w) \<and> pr_fw_access (b_pcie_resources w') = pr_fw_access (b_pcie_resources w))"
  by (cases "device_type_of (effective_type M t)")
    (auto simp: init_device_type_def effective_type_def [symmetric] Let_def hailo_set_device_type_def on_device_eq)

lemma map_fw_access_held:
  assumes h: "held K cs0 old R w" and K: "iomap_nonempty K"
  shows "post (map_fw_access io M K t w)
    (\<lambda>_ w'. held K cs0 old (bar (pr_fw_access (b_pcie_resources w')) + R) w' \<and> mapping_step w w' \<and>
       pr_config (b_pcie_resources w') = pr_config (b_pcie_resources w) \<and> pr_vdma_registers (b_pcie_resources w') = pr_vdma_registers (b_pcie_resources w) \<and>
       device_type_of (effective_type M t) = Ok (pr_accelerator_type (b_pcie_resources w')))
    (\<lambda>w'. held K cs0 old R w' \<and> mapping_step w w' \<and>
       pr_config (b_pcie_resources w') = pr_config (b_pcie_resources w) \<and> pr_vdma_registers (b_pcie_resources w') = pr_vdma_registers (b_pcie_resources w))"
  unfolding map_fw_access_def post_andthen post_on_error post_simps
proof (rule post_mono [OF bar_iomap [OF h K]])
  fix r w1 assume b: "held K cs0 old (bar r + R) w1 \<and> (\<exists>c. w1 = call c w)"
  show "post (init_device_type io M t (w1\<lparr>b_pcie_resources := (b_pcie_resources w1)\<lparr>pr_fw_access := r\<rparr>\<rparr>))
    (\<lambda>_ w'. held K cs0 old (bar (pr_fw_access (b_pcie_resources w')) + R) w' \<and> mapping_step w w' \<and>
       pr_config (b_pcie_resources w') = pr_config (b_pcie_resources w) \<and> pr_vdma_registers (b_pcie_resources w') = pr_vdma_registers (b_pcie_resources w) \<and>
       device_type_of (effective_type M t) = Ok (pr_accelerator_type (b_pcie_resources w')))
    (\<lambda>w'. held K cs0 old R (release_fw_access w') \<and> mapping_step w (release_fw_access w') \<and>
       pr_config (b_pcie_resources (release_fw_access w')) = pr_config (b_pcie_resources w) \<and>
       pr_vdma_registers (b_pcie_resources (release_fw_access w')) = pr_vdma_registers (b_pcie_resources w))"
  proof (rule post_mono [OF init_device_type_step], goal_cases)
    case (1 x w2)
    then show ?case using b by (auto intro: held_cong mapping_step_trans)
  next
    case (2 w2)
    then have "held K cs0 old (bar (pr_fw_access (b_pcie_resources w2)) + R) w2" using b by (auto intro: held_cong)
    from release_fw_access_held [OF this] 2 b show ?case
      by (auto intro: mapping_step_trans)
  qed
qed (auto intro: held_quiet)

lemma map_vdma_registers_held:
  assumes h: "held K cs0 old R w" and K: "iomap_nonempty K"
  shows "post (map_vdma_registers io M K t w)
    (\<lambda>_ w'. held K cs0 old (bar (pr_vdma_registers (b_pcie_resources w')) + bar (pr_fw_access (b_pcie_resources w')) + R) w' \<and> mapping_step w w' \<and>
       pr_config (b_pcie_resources w') = pr_config (b_pcie_resources w) \<and>
       device_type_of (effective_type M t) = Ok (pr_accelerator_type (b_pcie_resources w')))
    (\<lambda>w'. held K cs0 old R w' \<and> mapping_step w w' \<and> pr_config (b_pcie_resources w') = pr_config (b_pcie_resources w))"
  unfolding map_vdma_registers_def post_andthen post_on_error post_simps
proof (rule post_mono [OF bar_iomap [OF h K]], goal_cases)
  case (1 r w1)
  let ?w = "w1\<lparr>b_pcie_resources := (b_pcie_resources w1)\<lparr>pr_vdma_registers := r\<rparr>\<rparr>"
  have h1: "held K cs0 old (bar r + R) ?w" using 1 by (auto intro: held_cong)
  show ?case
  proof (rule post_mono [OF map_fw_access_held [OF h1 K]], goal_cases)
    case (1 x w2)
    then show ?case using \<open>held K cs0 old (bar r + R) w1 \<and> _\<close> by (auto simp: ac_simps intro: mapping_step_trans)
  next
    case (2 w2)
    then have "held K cs0 old (bar (pr_vdma_registers (b_pcie_resources w2)) + R) w2" by simp
    from release_vdma_registers_held [OF this] 2 \<open>held K cs0 old (bar r + R) w1 \<and> _\<close> show ?case
      by (auto intro: mapping_step_trans)
  qed
qed (auto intro: held_quiet)

lemma map_config_held:
  assumes h: "held K cs0 old R w" and K: "iomap_nonempty K"
  shows "post (map_config io M K t w)
    (\<lambda>_ w'. held K cs0 old (bars w' + R) w' \<and> mapping_step w w' \<and> device_type_of (effective_type M t) = Ok (pr_accelerator_type (b_pcie_resources w')))
    (\<lambda>w'. held K cs0 old R w' \<and> mapping_step w w')"
  unfolding map_config_def post_andthen post_on_error post_simps
proof (rule post_mono [OF bar_iomap [OF h K]], goal_cases)
  case (1 r w1)
  let ?w = "w1\<lparr>b_pcie_resources := (b_pcie_resources w1)\<lparr>pr_config := r\<rparr>\<rparr>"
  have h1: "held K cs0 old (bar r + R) ?w" using 1 by (auto intro: held_cong)
  show ?case
  proof (rule post_mono [OF map_vdma_registers_held [OF h1 K]], goal_cases)
    case (1 x w2)
    then show ?case using \<open>held K cs0 old (bar r + R) w1 \<and> _\<close> by (auto simp: ac_simps bars_def intro: mapping_step_trans)
  next
    case (2 w2)
    then have "held K cs0 old (bar (pr_config (b_pcie_resources w2)) + R) w2" by simp
    from release_config_held [OF this] 2 \<open>held K cs0 old (bar r + R) w1 \<and> _\<close> show ?case
      by (auto intro: mapping_step_trans)
  qed
qed (auto intro: held_quiet)

lemma resources_init_held:
  assumes h: "held K cs0 old R w" and K: "iomap_nonempty K"
  shows "post (pcie_resources_init io M K t w)
    (\<lambda>_ w'. held K cs0 old (add_mset Pci_regions (bars w' + R)) w' \<and> mapping_step w w' \<and> device_type_of (effective_type M t) = Ok (pr_accelerator_type (b_pcie_resources w')))
    (\<lambda>w'. held K cs0 old R w' \<and> mapping_step w w')"
proof (cases "is_board_type t")
  case True
  show ?thesis
  proof (cases "k_pci_request_regions K (w_calls w)")
    case (Ok u)
    have h1: "held K cs0 old (add_mset Pci_regions R) (call (Pci_request_regions (Ok ())) w)"
      using held_acquire [OF h, of "Pci_request_regions (Ok ())"] by simp
    have "post (map_config io M K t (call (Pci_request_regions (Ok ())) w))
      (\<lambda>_ w'. held K cs0 old (add_mset Pci_regions (bars w' + R)) w' \<and> mapping_step w w' \<and> device_type_of (effective_type M t) = Ok (pr_accelerator_type (b_pcie_resources w')))
      (\<lambda>w'. held K cs0 old R (call Pci_release_regions w') \<and> mapping_step w w')"
      by (rule post_mono [OF map_config_held [OF h1 K]]) (auto intro: held_release)
    then show ?thesis using True Ok by (simp add: pcie_resources_init_def Let_def post_rules)
  qed (use True h in \<open>auto simp: pcie_resources_init_def Let_def intro: held_quiet\<close>)
qed (use h in \<open>simp add: pcie_resources_init_def\<close>)

section \<open>Activating a board with a neural network core\<close>

text \<open>
  \<open>still w w'\<close>: no call was made and nothing of the board changed but the device, completions and the state of the boot. While a
  board is activated no file can be open, so only its interrupt handler runs meanwhile: \<open>calm\<close> says that it changes no more.
\<close>

definition still :: "'d board_world \<Rightarrow> 'd board_world \<Rightarrow> bool" where
  "still w w' \<longleftrightarrow> w_calls w' = w_calls w \<and> mapping_step w w' \<and> b_pcie_resources w' = b_pcie_resources w"

definition calm :: "'d caller \<Rightarrow> bool" where
  "calm e \<longleftrightarrow> (\<forall>w. still w (e_sleep e w))"

lemma still_trans: "still a b \<Longrightarrow> still b c \<Longrightarrow> still a c"
  by (auto simp: still_def intro: mapping_step_trans)

lemma still_updates [simp]:
  "still w w" "still w (w'\<lparr>w_device := d\<rparr>) \<longleftrightarrow> still w w'" "still w (modify_boot f w') \<longleftrightarrow> still w w'"
  "still w (w'\<lparr>b_soft_reset_completed := c\<rparr>) \<longleftrightarrow> still w w'" "still (w\<lparr>w_device := d\<rparr>) w' \<longleftrightarrow> still w w'"
  "still (modify_boot f w) w' \<longleftrightarrow> still w w'" "still (w\<lparr>b_soft_reset_completed := c\<rparr>) w' \<longleftrightarrow> still w w'"
  "still w (poke_device g w') \<longleftrightarrow> still w w'" "still (poke_device g w) w' \<longleftrightarrow> still w w'"
  by (auto simp: still_def mapping_step_def same_board_def modify_boot_def poke_device_def)

lemma calm_sleep: "calm e \<Longrightarrow> still w (e_sleep e w)"
  by (simp add: calm_def)

lemma still_device [intro]: "post (on_device f w) (\<lambda>_. still w) (still w)"
  by (simp add: on_device_eq post_result split: result.split)

lemma still_after:
  assumes "still w w1" "post rw (\<lambda>_. still w1) (still w1)"
  shows "post rw (\<lambda>_. still w) (still w)"
  by (rule post_mono [OF assms(2)]) (use assms(1) still_trans in blast)+

lemma still_andthen:
  assumes "post rw (\<lambda>_. still w) (still w)" "\<And>x w1. still w w1 \<Longrightarrow> post (f x w1) (\<lambda>_. still w1) (still w1)"
  shows "post (andthen rw f) (\<lambda>_. still w) (still w)"
  unfolding post_andthen by (rule post_mono [OF assms(1)]) (use assms(2) still_after in blast)+

lemma wait_fw_loaded_still: "calm e \<Longrightarrow> post (wait_fw_loaded io e w) (\<lambda>_. still w) (still w)"
  using calm_sleep [of e w]
  by (auto simp: wait_fw_loaded_def wait_for_firmware_completion_def wait_for_completion_def Let_def set_fw_loaded_def
      post_andthen log_boot_status_def on_device_eq post_result split: result.split)

lemma write_nnc_firmware_still: "calm e \<Longrightarrow> post (write_nnc_firmware io e w) (\<lambda>_. still w) (still w)"
  unfolding write_nnc_firmware_def
  by (intro still_andthen wait_fw_loaded_still still_after [of w "set_fw_loaded init_completion w"] still_device) (simp_all add: set_fw_loaded_def)

lemma soft_reset_still: "calm e \<Longrightarrow> post (hailo_pcie_soft_reset io e w) (\<lambda>_. still w) (still w)"
  unfolding hailo_pcie_soft_reset_def wait_for_firmware_completion_def wait_for_completion_def Let_def
  using calm_sleep [of e "(poke_device (hailo_pcie_write_firmware_soft_reset io (b_pcie_resources w)) w)
    \<lparr>b_soft_reset_completed := reinit_completion (b_soft_reset_completed (poke_device (hailo_pcie_write_firmware_soft_reset io (b_pcie_resources w)) w))\<rparr>"]
  by (auto simp: post_andthen on_device_eq post_result split: result.split)

lemma load_nnc_firmware_still:
  assumes "calm e"
  shows "post (load_nnc_firmware io M e w) (\<lambda>_. still w) (still w)"
proof -
  obtain loaded d where d: "on_device (hailo_pcie_is_firmware_loaded io (b_pcie_resources w)) w = (loaded, w\<lparr>w_device := d\<rparr>)"
    by (simp add: on_device_eq)
  let ?w = "w\<lparr>w_device := d\<rparr>"
  have w: "post (write_nnc_firmware io e w1) (\<lambda>_. still w) (still w)" if "still w w1" for w1
    using still_after [OF that write_nnc_firmware_still [OF assms]] .
  show ?thesis
  proof (cases "\<not> loaded \<or> \<not> mp_support_soft_reset M")
    case True
    then show ?thesis using w [of ?w] d by (auto simp: load_nnc_firmware_def)
  next
    case False
    obtain r w1 where r: "hailo_pcie_soft_reset io e ?w = (r, w1)" by fastforce
    have s: "post (r, w1) (\<lambda>_. still ?w) (still ?w)" using soft_reset_still [OF assms, of io ?w] unfolding r .
    show ?thesis using False s w [of w1] d r by (cases r) (auto simp: load_nnc_firmware_def)
  qed
qed

lemma enable_interrupts_held:
  assumes "held K cs0 old R w" "\<not> b_interrupts_enabled w"
  shows "post (hailo_enable_interrupts io K w)
    (\<lambda>_ w'. held K cs0 old (irq_res True + R) w' \<and> same_board w w' \<and> b_pcie_resources w' = b_pcie_resources w \<and> b_interrupts_enabled w')
    (\<lambda>w'. held K cs0 old R w' \<and> same_board w w' \<and> b_pcie_resources w' = b_pcie_resources w \<and> \<not> b_interrupts_enabled w')"
proof (cases "k_pci_enable_msi K (w_calls w)")
  case (Ok u)
  have 1: "held K cs0 old (add_mset Msi R) (call (Pci_enable_msi (Ok ())) w)" using held_acquire [OF assms(1), of "Pci_enable_msi (Ok ())"] by simp
  show ?thesis
  proof (cases "k_request_irq K (w_calls (call (Pci_enable_msi (Ok ())) w))")
    case o: (Ok u)
    have "held K cs0 old (add_mset Irq (add_mset Msi R)) (call (Request_irq (Ok ())) (call (Pci_enable_msi (Ok ())) w))"
      using held_acquire [OF 1, of "Request_irq (Ok ())"] by (simp add: add_mset_commute)
    then show ?thesis using assms(2) Ok o by (auto simp: hailo_enable_interrupts_def Let_def post_rules post_result irq_res_def held_def)
  next
    case (Err e)
    have "held K cs0 old (add_mset Msi R) (call (Request_irq (Err e)) (call (Pci_enable_msi (Ok ())) w))" by (rule held_quiet [OF 1]) simp_all
    then have "held K cs0 old R (call Pci_disable_msi (call (Request_irq (Err e)) (call (Pci_enable_msi (Ok ())) w)))" by (rule held_release) simp_all
    then show ?thesis using assms(2) Ok Err by (simp add: hailo_enable_interrupts_def Let_def post_rules)
  qed (use assms Ok in \<open>simp add: hailo_enable_interrupts_def Let_def post_rules\<close>)
next
  case (Err e)
  have "held K cs0 old R (call (Pci_enable_msi (Err e)) w)" by (rule held_quiet [OF assms(1)]) simp_all
  then show ?thesis using assms(2) Err by (simp add: hailo_enable_interrupts_def Let_def post_rules)
qed (use assms in \<open>simp add: hailo_enable_interrupts_def Let_def post_rules\<close>)

lemma disable_interrupts_held:
  assumes "held K cs0 old (irq_res (b_interrupts_enabled w) + R) w" "b_pDev w"
  shows "held K cs0 old R (hailo_disable_interrupts io w) \<and> same_board w (hailo_disable_interrupts io w) \<and>
    b_pcie_resources (hailo_disable_interrupts io w) = b_pcie_resources w \<and> \<not> b_interrupts_enabled (hailo_disable_interrupts io w)"
proof (cases "b_interrupts_enabled w")
  case True
  let ?w = "poke_device (hailo_pcie_disable_interrupts io (b_pcie_resources w)) (w\<lparr>b_interrupts_enabled := False\<rparr>)"
  have "held K cs0 old (add_mset Irq (add_mset Msi R)) ?w" using assms(1) True by (auto simp: irq_res_def held_def)
  then have "held K cs0 old (add_mset Msi R) (call Free_irq ?w)" by (rule held_release) simp_all
  then have "held K cs0 old R (call Pci_disable_msi (call Free_irq ?w))" by (rule held_release) simp_all
  then show ?thesis using True assms(2) by (simp add: hailo_disable_interrupts_def)
qed (use assms in \<open>simp add: hailo_disable_interrupts_def irq_res_def\<close>)

text \<open>Only calls that take no resource were made, and of the board at most its power state changed.\<close>

definition quiet_board :: "kernel \<Rightarrow> calls \<Rightarrow> resource multiset \<Rightarrow> resource multiset \<Rightarrow> 'd board_world \<Rightarrow> 'd board_world \<Rightarrow> bool" where
  "quiet_board K cs0 old R w w' \<longleftrightarrow> held K cs0 old R w' \<and> mapping_step w w' \<and> b_pcie_resources w' = b_pcie_resources w"

lemma quiet_board_call:
  "quiet_board K cs0 old R w w' \<Longrightarrow> releases c = {#} \<Longrightarrow> acquires c = {#} \<Longrightarrow> grants K (w_calls w') c \<Longrightarrow> quiet_board K cs0 old R w (call c w')"
  by (auto simp: quiet_board_def intro: held_quiet)

lemma clear_aspm_quiet:
  assumes "quiet_board K cs0 old R w w1"
  shows "post (clear_aspm K msk w1) (\<lambda>_. quiet_board K cs0 old R w) (quiet_board K cs0 old R w)"
  using assms by (auto simp: clear_aspm_def Let_def post_andthen post_result split: result.split intro!: quiet_board_call)

lemma disable_aspm_quiet:
  assumes "held K cs0 old R w"
  shows "post (hailo_pcie_disable_aspm K st locked w) (\<lambda>_. quiet_board K cs0 old R w) (quiet_board K cs0 old R w)"
proof -
  have w: "quiet_board K cs0 old R w w" using assms by (simp add: quiet_board_def)
  have l: "quiet_board K cs0 old R w (call (Pci_disable_link_state st locked) w)" by (rule quiet_board_call [OF w]) simp_all
  define m where "m = (if st = PCIE_LINK_STATE_L0S then PCI_EXP_LNKCTL_ASPM_L0S else if st = PCIE_LINK_STATE_L1 then PCI_EXP_LNKCTL_ASPM_L1 else 0)"
  show ?thesis
    unfolding hailo_pcie_disable_aspm_def m_def [symmetric] Let_def post_andthen
    using w l clear_aspm_quiet [OF w, of m] clear_aspm_quiet [OF l, of m] by (simp add: post_result post_andthen split: result.split)
qed

lemma set_power_state_held:
  assumes "held K cs0 old R w"
  shows "post (pci_set_power_state K st w) (\<lambda>_. quiet_board K cs0 old R w) (quiet_board K cs0 old R w)"
proof -
  have "quiet_board K cs0 old R w (call (Pci_set_power_state st r) w)" for r
    by (rule quiet_board_call) (use assms in \<open>simp_all add: quiet_board_def\<close>)
  then show ?thesis
    by (auto simp: pci_set_power_state_def Let_def post_result quiet_board_def held_def mapping_step_def split: result.split)
qed

lemma still_held: "still w w' \<Longrightarrow> held K cs0 old R w \<Longrightarrow> held K cs0 old R w'"
  by (auto simp: still_def intro: held_cong)

text \<open>A board with a neural network core gives back its interrupt when it is active, on every path.\<close>

lemma activate_held:
  assumes h: "held K cs0 old R w" and off: "\<not> b_interrupts_enabled w" and d: "b_pDev w" and c: "calm e"
    and t: "pr_accelerator_type (b_pcie_resources w) = HAILO_ACCELERATOR_TYPE_NNC"
  shows "post (hailo_activate_board io M K e w) (\<lambda>_. quiet_board K cs0 old R w) (quiet_board K cs0 old R w)"
proof -
  obtain ra wa where a: "hailo_pcie_disable_aspm K PCIE_LINK_STATE_L0S False w = (ra, wa)" by fastforce
  have pa: "post (ra, wa) (\<lambda>_. quiet_board K cs0 old R w) (quiet_board K cs0 old R w)"
    using disable_aspm_quiet [OF h, of PCIE_LINK_STATE_L0S False] unfolding a .
  obtain rb wb where b: "hailo_enable_interrupts io K wa = (rb, wb)" by fastforce
  let ?wb = "modify_boot (\<lambda>b. b\<lparr>fb_is_in_boot := True\<rparr>) wb"
  obtain rc wc where l: "load_firmware io M K e ?wb = (rc, wc)" by fastforce
  let ?wc = "modify_boot (\<lambda>b. b\<lparr>fb_is_in_boot := False\<rparr>) wc"
  let ?wd = "hailo_disable_interrupts io ?wc"
  show ?thesis
  proof (cases "is_fault ra")
    case True
    then show ?thesis using a by (cases ra) (auto simp: hailo_activate_board_def)
  next
    case False
    then have q: "quiet_board K cs0 old R w wa" using pa by (cases ra) auto
    then have wa: "held K cs0 old R wa" "\<not> b_interrupts_enabled wa" using off by (auto simp: quiet_board_def mapping_step_def)
    have pb: "post (rb, wb) (\<lambda>_ w'. held K cs0 old (irq_res True + R) w' \<and> same_board wa w' \<and> b_pcie_resources w' = b_pcie_resources wa \<and> b_interrupts_enabled w')
      (\<lambda>w'. held K cs0 old R w' \<and> same_board wa w' \<and> b_pcie_resources w' = b_pcie_resources wa \<and> \<not> b_interrupts_enabled w')"
      using enable_interrupts_held [OF wa, of io] unfolding b .
    show ?thesis
    proof (cases rb)
      case (Ok u)
      then have wb: "held K cs0 old (irq_res True + R) wb" "same_board wa wb" "b_pcie_resources wb = b_pcie_resources wa" "b_interrupts_enabled wb"
        using pb by auto
      have "load_firmware io M K e ?wb = load_nnc_firmware io M e ?wb"
        using t q wb by (auto simp: load_firmware_def quiet_board_def modify_boot_def split: hailo_accelerator_type.split)
      then have s: "post (rc, wc) (\<lambda>_. still ?wb) (still ?wb)" using load_nnc_firmware_still [OF c, of io M ?wb] l by simp
      have fin: "quiet_board K cs0 old R w ?wd" if "still wb wc"
      proof -
        have f: "held K cs0 old (irq_res True + R) wc" "same_board wb wc" "b_pcie_resources wc = b_pcie_resources wb" "b_interrupts_enabled wc"
          using still_held [OF that wb(1)] that wb(4) by (auto simp: still_def mapping_step_def)
        have sb: "same_board w wa" using q by (simp add: quiet_board_def mapping_step_def)
        have dev: "b_pDev wc" using d sb wb(2) f(2) by (simp add: same_board_def)
        have g: "held K cs0 old (irq_res (b_interrupts_enabled ?wc) + R) ?wc" "b_pDev ?wc"
          using f(1,4) dev by (auto simp: modify_boot_def intro: held_cong)
        have "same_board w wc" using sb wb(2) f(2) same_board_trans by blast
        then show ?thesis using disable_interrupts_held [OF g, of io] f(3) wb(3) q off
          by (auto simp: quiet_board_def mapping_step_def modify_boot_def same_board_def)
      qed
      have p: "post (pci_set_power_state K PCI_D3hot ?wd) (\<lambda>_. quiet_board K cs0 old R w) (quiet_board K cs0 old R w)" if "still wb wc"
        by (rule post_mono [OF set_power_state_held [of K cs0 old R]]) (use fin [OF that] in \<open>auto simp: quiet_board_def intro: mapping_step_trans\<close>)
      have nnc: "pr_accelerator_type (b_pcie_resources ?wc) = HAILO_ACCELERATOR_TYPE_NNC" if "still wb wc"
        using that t q wb(3) by (auto simp: still_def quiet_board_def modify_boot_def)
      show ?thesis
      proof (cases rc)
        case o: (Ok u2)
        then have st: "still wb wc" using s by simp
        show ?thesis using False a b l Ok o fin [OF st] p [OF st] nnc [OF st]
          by (cases ra) (simp_all add: hailo_activate_board_def Let_def)
      next
        case (Err x)
        then show ?thesis using False a b l Ok s fin by (cases ra) (simp_all add: hailo_activate_board_def Let_def)
      next
        case (Fault x)
        then show ?thesis using False a b l Ok by (cases ra) (simp_all add: hailo_activate_board_def Let_def)
      qed
    next
      case (Err x)
      then have "quiet_board K cs0 old R w wb" using pb q off by (auto simp: quiet_board_def mapping_step_def intro: same_board_trans)
      then show ?thesis using False a b Err by (cases ra) (simp_all add: hailo_activate_board_def)
    next
      case (Fault x)
      then show ?thesis using False a b by (cases ra) (simp_all add: hailo_activate_board_def)
    qed
  qed
qed

section \<open>Probing\<close>

text \<open>The board while it is probed: what is held besides the class, and that it is not in use and not in the list yet.\<close>

definition probing :: "kernel \<Rightarrow> calls \<Rightarrow> resource multiset \<Rightarrow> hailo_file_context heap \<times> hailo_notification_wait heap \<Rightarrow> ptr \<Rightarrow> (ptr \<times> u32) list \<Rightarrow> resource multiset \<Rightarrow> 'd board_world \<Rightarrow> bool" where
  "probing K cs0 old hp p bs R w \<longleftrightarrow> held K cs0 old (class_res w + R) w \<and> b_self w = p \<and> b_alive w \<and> b_pDev w \<and> b_board_list w = bs \<and>
     \<not> b_interrupts_enabled w \<and> b_contexts w = fst hp \<and> b_notification_waits w = snd hp"

definition unused :: "'d board_world \<Rightarrow> bool" where
  "unused w \<longleftrightarrow> b_ref_count w = 0 \<and> b_open_files_list w = [] \<and> w_board_mutex w = 1 \<and> nnc_notification_wait_list (b_nnc w) = []"

lemma probing_mapping:
  assumes "probing K cs0 old hp p bs R w" "mapping_step w w'" "held K cs0 old (class_res w + S) w'"
  shows "probing K cs0 old hp p bs S w'" "class_res w' = class_res w"
  using assms by (auto simp: probing_def mapping_step_def same_board_def class_res_def)

lemma probing_quiet:
  assumes "probing K cs0 old hp p bs R w" "quiet_board K cs0 old (class_res w + R) w w'"
  shows "probing K cs0 old hp p bs R w'" "b_pcie_resources w' = b_pcie_resources w" "unused w' \<longleftrightarrow> unused w"
  using assms probing_mapping [OF assms(1), of w' R] by (auto simp: quiet_board_def mapping_step_def same_board_def unused_def)

lemma init_board_probing:
  assumes "probing K cs0 old hp p bs R w"
  shows "probing K cs0 old hp p bs R (init_board n w)" "unused (init_board n w)" "b_pcie_resources (init_board n w) = b_pcie_resources w"
  using assms by (auto simp: probing_def init_board_def set_fw_loaded_def modify_boot_def class_res_def held_def unused_def hailo_nnc_init_def)

lemma controller_init_probing:
  assumes "probing K cs0 old hp p bs R w"
  shows "post (hailo_pcie_vdma_controller_init K mem w)
    (\<lambda>_ w'. probing K cs0 old hp p bs R w' \<and> (unused w' \<longleftrightarrow> unused w) \<and> b_pcie_resources w' = b_pcie_resources w)
    (\<lambda>w'. probing K cs0 old hp p bs R w' \<and> b_pcie_resources w' = b_pcie_resources w)"
  using assms by (auto simp: hailo_pcie_vdma_controller_init_def probing_def class_res_def held_def unused_def split: result.split)

lemma kmalloc_capable_quiet:
  assumes "held K cs0 old R w"
  shows "quiet_board K cs0 old R w (snd (is_kmalloc_dma_capable K w))"
proof (cases "k_dma_mask K = None \<or> k_kzalloc K (w_calls w) = None")
  case True
  then show ?thesis using assms by (auto simp: is_kmalloc_dma_capable_def quiet_board_def Let_def split: option.split intro: held_quiet)
next
  case False
  then obtain m q where q: "k_dma_mask K = Some m" "k_kzalloc K (w_calls w) = Some q" by auto
  have "held K cs0 old (add_mset (Struct q) R) (call (Kzalloc (Some q)) w)" using held_acquire [OF assms, of "Kzalloc (Some q)"] q by simp
  then have "held K cs0 old R (call (Kfree q) (call (Kzalloc (Some q)) w))" by (rule held_release) simp_all
  then show ?thesis using q by (simp add: is_kmalloc_dma_capable_def quiet_board_def)
qed

lemma allocation_mode_probing:
  assumes "probing K cs0 old hp p bs R w"
  shows "post (hailo_get_allocation_mode M K w)
    (\<lambda>_ w'. probing K cs0 old hp p bs R w' \<and> (unused w' \<longleftrightarrow> unused w) \<and> b_pcie_resources w' = b_pcie_resources w)
    (\<lambda>w'. probing K cs0 old hp p bs R w' \<and> b_pcie_resources w' = b_pcie_resources w)"
proof -
  have q: "quiet_board K cs0 old (class_res w + R) w (snd (is_kmalloc_dma_capable K w))"
    using assms by (intro kmalloc_capable_quiet) (simp add: probing_def)
  note p = probing_quiet [OF assms q]
  have "probing K cs0 old hp p bs R (w'\<lparr>b_allocation_mode := m\<rparr>) \<longleftrightarrow> probing K cs0 old hp p bs R w'"
    "unused (w'\<lparr>b_allocation_mode := m\<rparr>) \<longleftrightarrow> unused w'" for w' m
    by (auto simp: probing_def class_res_def held_def unused_def)
  with p assms show ?thesis by (auto simp: hailo_get_allocation_mode_def Let_def split_beta)
qed

lemma reset_boot_probing:
  "probing K cs0 old hp p bs R (reset_boot_state w) \<longleftrightarrow> probing K cs0 old hp p bs R w" "unused (reset_boot_state w) \<longleftrightarrow> unused w"
  "b_pcie_resources (reset_boot_state w) = b_pcie_resources w"
  by (auto simp: reset_boot_state_def modify_boot_def probing_def class_res_def held_def unused_def)

text \<open>The list of boards: an insertion adds the board and the class, and a removal takes the board out again.\<close>

lemma insert_loop_set:
  "insert_loop p bs = (i, bs') \<Longrightarrow> set bs' = insert (p, i) (set bs) \<and> filter (\<lambda>(q, _). q \<noteq> p) bs' = filter (\<lambda>(q, _). q \<noteq> p) bs"
proof (induction p bs arbitrary: i bs' rule: insert_loop.induct)
  case (3 p q j q' j' boards)
  obtain i1 r where r: "insert_loop p ((q', j') # boards) = (i1, r)" by fastforce
  show ?case
  proof (cases "j + 1 = j'")
    case True
    have "set r = insert (p, i1) (set ((q', j') # boards)) \<and> filter (\<lambda>(q, _). q \<noteq> p) r = filter (\<lambda>(q, _). q \<noteq> p) ((q', j') # boards)"
      by (rule 3(1) [OF _ r]) (use True in simp)
    moreover have "i = i1" "bs' = (q, j) # r" using 3(2) True r by auto
    ultimately show ?thesis by auto
  qed (use 3(2) in auto)
qed auto

lemma insert_index_set:
  "insert_index p bs = (i, bs') \<Longrightarrow> set bs' = insert (p, i) (set bs) \<and> filter (\<lambda>(q, _). q \<noteq> p) bs' = filter (\<lambda>(q, _). q \<noteq> p) bs"
  using insert_loop_set [of p bs i bs'] by (auto simp: insert_index_def split: if_splits)

lemma filter_absent: "p \<notin> fst ` set bs \<Longrightarrow> filter (\<lambda>(q, _). q \<noteq> p) bs = bs"
  by (intro filter_True) force

definition listed :: "kernel \<Rightarrow> calls \<Rightarrow> resource multiset \<Rightarrow> hailo_file_context heap \<times> hailo_notification_wait heap \<Rightarrow> ptr \<Rightarrow> (ptr \<times> u32) list \<Rightarrow> resource multiset \<Rightarrow> 'd board_world \<Rightarrow> bool" where
  "listed K cs0 old hp p bs R w \<longleftrightarrow> probing K cs0 old hp p (b_board_list w) R w \<and> set (b_board_list w) = insert (p, b_board_index w) (set bs) \<and>
     filter (\<lambda>(q, _). q \<noteq> p) (b_board_list w) = bs \<and> 0 < b_add_board_mutex w"

lemma insert_board_probing:
  assumes P: "probing K cs0 old hp p bs R w" and absent: "p \<notin> fst ` set bs"
  shows "post (hailo_pcie_insert_board K w)
    (\<lambda>_ w'. listed K cs0 old hp p bs R w' \<and> (unused w' \<longleftrightarrow> unused w) \<and> b_pcie_resources w' = b_pcie_resources w)
    (\<lambda>w'. probing K cs0 old hp p bs R w' \<and> b_pcie_resources w' = b_pcie_resources w)"
proof (cases "b_add_board_mutex w = 0")
  case False
  let ?w = "w\<lparr>b_add_board_mutex := b_add_board_mutex w - 1\<rparr>"
  obtain i bs' where ix: "insert_index p bs = (i, bs')" by fastforce
  note set = insert_index_set [OF ix] filter_absent [OF absent]
  have h: "held K cs0 old (class_res w + R) w" and f: "b_self w = p" "b_alive w" "b_pDev w" "b_board_list w = bs" "\<not> b_interrupts_enabled w"
      "b_contexts w = fst hp" "b_notification_waits w = snd hp"
    using P by (auto simp: probing_def)
  show ?thesis
  proof (cases "b_chrdev_class w")
    case None
    have n: "held K cs0 old R ?w" using h None by (auto simp: class_res_def held_def)
    show ?thesis
    proof (cases "k_class_create K (w_calls w)")
      case (Ok u)
      have "held K cs0 old (add_mset Chrdev_class R) (call (Class_create (Ok ())) ?w)" using held_acquire [OF n, of "Class_create (Ok ())"] by simp
      then show ?thesis using None False Ok ix f set
        by (auto simp: hailo_pcie_insert_board_def post_andthen post_step_r down_add_board_def create_class_def Let_def up_add_board_def listed_def
            probing_def class_res_def held_def unused_def)
    next
      case (Err e)
      have "held K cs0 old R (call (Class_create (Err e)) ?w)" by (rule held_quiet [OF n]) simp_all
      then show ?thesis using None False Err f
        by (auto simp: hailo_pcie_insert_board_def post_andthen post_step_r down_add_board_def create_class_def Let_def probing_def class_res_def held_def)
    qed (use None False in \<open>auto simp: hailo_pcie_insert_board_def post_andthen post_step_r down_add_board_def create_class_def Let_def\<close>)
  next
    case (Some c)
    then show ?thesis using False ix f set h
      by (auto simp: hailo_pcie_insert_board_def post_andthen post_step_r down_add_board_def create_class_def Let_def up_add_board_def listed_def
          probing_def class_res_def held_def unused_def)
  qed
qed (simp add: hailo_pcie_insert_board_def post_andthen post_step_r down_add_board_def)

lemma remove_board_probing:
  assumes "listed K cs0 old hp p bs R w"
  shows "post (hailo_pcie_remove_board w)
    (\<lambda>_ w'. probing K cs0 old hp p bs R w' \<and> (unused w' \<longleftrightarrow> unused w) \<and> b_pcie_resources w' = b_pcie_resources w \<and> b_board_index w' = b_board_index w \<and>
       b_interrupts_enabled w' = b_interrupts_enabled w)
    (\<lambda>w'. False)"
  using assms
  by (auto simp: hailo_pcie_remove_board_def post_andthen post_step_r down_add_board_def up_add_board_def listed_def probing_def class_res_def held_def unused_def)

lemma create_device_node_probing:
  assumes L: "listed K cs0 old hp p bs R w"
  shows "post (create_device_node K w)
    (\<lambda>_ w'. listed K cs0 old hp p bs (add_mset (Device_node (b_board_index w')) R) w' \<and> (unused w' \<longleftrightarrow> unused w) \<and> b_pcie_resources w' = b_pcie_resources w)
    (\<lambda>w'. probing K cs0 old hp p bs R w' \<and> b_pcie_resources w' = b_pcie_resources w)"
proof -
  have h: "held K cs0 old (class_res w + R) w" using L by (simp add: listed_def probing_def)
  show ?thesis
  proof (cases "k_device_create K (w_calls w) (b_board_index w)")
    case (Ok u)
    have "held K cs0 old (add_mset (Device_node (b_board_index w)) (class_res w + R)) (call (Device_create (b_board_index w) (Ok ())) w)"
      using held_acquire [OF h, of "Device_create (b_board_index w) (Ok ())"] by simp
    then show ?thesis using Ok L by (auto simp: create_device_node_def Let_def listed_def probing_def class_res_def held_def unused_def)
  next
    case (Err e)
    have "held K cs0 old (class_res w + R) (call (Device_create (b_board_index w) (Err e)) w)" by (rule held_quiet [OF h]) simp_all
    then have "listed K cs0 old hp p bs R (call (Device_create (b_board_index w) (Err e)) w)"
      using L by (auto simp: listed_def probing_def class_res_def held_def)
    from remove_board_probing [OF this] show ?thesis
      unfolding create_device_node_def Let_def Err post_on_error post_simps by (rule post_mono) auto
  qed (simp add: create_device_node_def Let_def)
qed

lemma probe_board_probing:
  assumes P: "probing K cs0 old hp p bs R w" and absent: "p \<notin> fst ` set bs" and c: "calm e"
    and t: "pr_accelerator_type (b_pcie_resources w) = HAILO_ACCELERATOR_TYPE_NNC"
  shows "post (probe_board io M K e mem w)
    (\<lambda>_ w'. listed K cs0 old hp p bs (add_mset (Device_node (b_board_index w')) R) w' \<and> unused w' \<and> b_pcie_resources w' = b_pcie_resources w)
    (\<lambda>w'. probing K cs0 old hp p bs R w' \<and> b_pcie_resources w' = b_pcie_resources w)"
proof (cases "hailo_get_desc_page_size M K (w_calls w)")
  case (Ok n)
  note i = init_board_probing [OF P, of n]
  have "post (hailo_pcie_vdma_controller_init K mem (init_board n w))
    (\<lambda>_ w1. post (hailo_get_allocation_mode M K w1)
      (\<lambda>_ w2. post (hailo_activate_board io M K e (reset_boot_state w2))
        (\<lambda>_ w3. post (hailo_pcie_insert_board K w3)
          (\<lambda>_ w4. post (create_device_node K w4)
            (\<lambda>_ w'. listed K cs0 old hp p bs (add_mset (Device_node (b_board_index w')) R) w' \<and> unused w' \<and> b_pcie_resources w' = b_pcie_resources w)
            (\<lambda>w'. probing K cs0 old hp p bs R w' \<and> b_pcie_resources w' = b_pcie_resources w))
          (\<lambda>w'. probing K cs0 old hp p bs R w' \<and> b_pcie_resources w' = b_pcie_resources w))
        (\<lambda>w'. probing K cs0 old hp p bs R w' \<and> b_pcie_resources w' = b_pcie_resources w))
      (\<lambda>w'. probing K cs0 old hp p bs R w' \<and> b_pcie_resources w' = b_pcie_resources w))
    (\<lambda>w'. probing K cs0 old hp p bs R w' \<and> b_pcie_resources w' = b_pcie_resources w)"
  proof (rule post_mono [OF controller_init_probing [OF i(1), of mem]], goal_cases)
    case c1: (1 _ w1)
    show ?case
    proof (rule post_mono [OF allocation_mode_probing [of K cs0 old hp p bs R w1 M]], goal_cases)
      case c2: (2 _ w2)
      let ?w2 = "reset_boot_state w2"
      have w2: "probing K cs0 old hp p bs R ?w2" "unused ?w2" "b_pcie_resources ?w2 = b_pcie_resources w"
        using c1 c2 i by (simp_all add: reset_boot_probing)
      have act: "post (hailo_activate_board io M K e ?w2) (\<lambda>_. quiet_board K cs0 old (class_res ?w2 + R) ?w2) (quiet_board K cs0 old (class_res ?w2 + R) ?w2)"
        using w2(1,3) t c by (intro activate_held) (auto simp: probing_def)
      show ?case
      proof (rule post_mono [OF act], goal_cases)
        case c3: (1 _ w3)
        have w3: "probing K cs0 old hp p bs R w3" "unused w3" "b_pcie_resources w3 = b_pcie_resources w"
          using probing_quiet [OF w2(1) c3] w2(2,3) by simp_all
        show ?case
        proof (rule post_mono [OF insert_board_probing [OF w3(1) absent]], goal_cases)
          case c4: (1 _ w4)
          then have w4: "listed K cs0 old hp p bs R w4" by simp
          show ?case by (rule post_mono [OF create_device_node_probing [OF w4]]) (use c4 w3 in auto)
        qed (use w3 in auto)
      next
        case (2 w3)
        then show ?case using probing_quiet [OF w2(1) 2] w2(3) by simp
      qed
    qed (use c1 i in auto)
  qed (use i in auto)
  then show ?thesis using Ok by (simp add: probe_board_def post_andthen)
qed (use P in \<open>simp_all add: probe_board_def\<close>)

lemma probe_device_probing:
  assumes P: "probing K cs0 old hp p bs R w" and absent: "p \<notin> fst ` set bs" and c: "calm e" and K: "iomap_nonempty K"
    and t: "device_type_of (effective_type M t) = Ok HAILO_ACCELERATOR_TYPE_NNC"
  shows "post (probe_device io M K e mem t w)
    (\<lambda>_ w'. listed K cs0 old hp p bs (bars w' + {#Device_node (b_board_index w'), Pci_regions, Pci_device#} + R) w' \<and> unused w' \<and> pr_accelerator_type (b_pcie_resources w') = HAILO_ACCELERATOR_TYPE_NNC)
    (\<lambda>w'. probing K cs0 old hp p bs R w')"
proof (cases "k_pci_enable_device K (w_calls w)")
  case (Ok u)
  let ?w = "call Pci_set_master (call (Pci_enable_device (Ok ())) w)"
  have h: "held K cs0 old (class_res w + R) w" using P by (simp add: probing_def)
  have h1: "held K cs0 old (class_res w + add_mset Pci_device R) (call (Pci_enable_device (Ok ())) w)"
    using held_acquire [OF h, of "Pci_enable_device (Ok ())"] by simp
  have h2: "held K cs0 old (class_res ?w + add_mset Pci_device R) ?w" by (rule held_cong [OF held_quiet [OF h1, of Pci_set_master]]) (simp_all add: class_res_def)
  have P2: "probing K cs0 old hp p bs (add_mset Pci_device R) ?w" using P h2 by (simp add: probing_def)
  let ?R = "add_mset Pci_device R"
  have "post (pcie_resources_init io M K t ?w)
    (\<lambda>_ w. post (probe_board io M K e mem w)
      (\<lambda>_ w'. listed K cs0 old hp p bs (bars w' + {#Device_node (b_board_index w'), Pci_regions, Pci_device#} + R) w' \<and> unused w' \<and> pr_accelerator_type (b_pcie_resources w') = HAILO_ACCELERATOR_TYPE_NNC)
      (\<lambda>w'. probing K cs0 old hp p bs ?R (pcie_resources_release w')))
    (\<lambda>w'. probing K cs0 old hp p bs ?R w')"
  proof (rule post_mono [OF resources_init_held [OF h2 K]], goal_cases)
    case (1 _ w1)
    then have w1: "probing K cs0 old hp p bs (add_mset Pci_regions (bars w1 + ?R)) w1" "pr_accelerator_type (b_pcie_resources w1) = HAILO_ACCELERATOR_TYPE_NNC"
      using probing_mapping [OF P2, of w1 "add_mset Pci_regions (bars w1 + ?R)"] t by (auto simp: ac_simps)
    show ?case
    proof (rule post_mono [OF probe_board_probing [OF w1(1) absent c w1(2)]], goal_cases)
      case (1 _ w2)
      then have "bars w2 = bars w1" by (simp add: bars_def)
      then show ?case using 1 w1(2) by (simp add: ac_simps)
    next
      case (2 w2)
      then have b: "bars w2 = bars w1" by (simp add: bars_def)
      then have "held K cs0 old (add_mset Pci_regions (bars w2 + (class_res w2 + ?R))) w2" using 2 by (simp add: probing_def ac_simps)
      from resources_release_held [OF this] probing_mapping [of K cs0 old hp p bs _ w2 "pcie_resources_release w2" ?R] 2 show ?case by auto
    qed
  next
    case (2 w1)
    then show ?case using probing_mapping [OF P2, of w1 ?R] by (auto simp: ac_simps)
  qed
  then have "post (pcie_resources_init io M K t ?w)
    (\<lambda>_ w. post (probe_board io M K e mem w)
      (\<lambda>_ w'. listed K cs0 old hp p bs (bars w' + {#Device_node (b_board_index w'), Pci_regions, Pci_device#} + R) w' \<and> unused w' \<and> pr_accelerator_type (b_pcie_resources w') = HAILO_ACCELERATOR_TYPE_NNC)
      (\<lambda>w'. probing K cs0 old hp p bs R (call Pci_disable_device (pcie_resources_release w'))))
    (\<lambda>w'. probing K cs0 old hp p bs R (call Pci_disable_device w'))"
  proof (rule post_mono, goal_cases)
    case (1 _ w1)
    then show ?case by (rule post_mono) (auto simp: probing_def class_res_def intro: held_release)
  qed (auto simp: probing_def class_res_def intro: held_release)
  then show ?thesis using Ok by (simp add: probe_device_def Let_def post_rules)
next
  case (Err x)
  have "held K cs0 old (class_res w + R) (call (Pci_enable_device (Err x)) w)" by (rule held_quiet) (use P in \<open>simp_all add: probing_def\<close>)
  then show ?thesis using Err P by (simp add: probe_device_def Let_def probing_def class_res_def)
qed (simp add: probe_device_def Let_def)

section \<open>Probe and removal\<close>

text \<open>What a probed board holds.\<close>

definition board_resources :: "'d board_world \<Rightarrow> resource multiset" where
  "board_resources w = bars w + {#Device_node (b_board_index w), Pci_regions, Pci_device, Struct (b_self w)#}"

lemma probe_held:
  assumes absent: "\<And>p. k_kzalloc K (w_calls w) = Some p \<Longrightarrow> p \<notin> fst ` set (b_board_list w)" and c: "calm e" and K: "iomap_nonempty K"
    and t: "device_type_of (effective_type M t) = Ok HAILO_ACCELERATOR_TYPE_NNC"
  shows "post (hailo_pcie_probe io M K e mem t w)
    (\<lambda>_ w'. listed K (w_calls w) (class_res w) (b_contexts w, b_notification_waits w) (b_self w') (b_board_list w) (board_resources w') w' \<and> unused w' \<and> pr_accelerator_type (b_pcie_resources w') = HAILO_ACCELERATOR_TYPE_NNC)
    (\<lambda>w'. moves K (w_calls w) (class_res w) (class_res w') (w_calls w') \<and> b_board_list w' = b_board_list w)"
proof (cases "k_kzalloc K (w_calls w)")
  case None
  have "moves K (w_calls w) (class_res w) (class_res w) (Kzalloc None # w_calls w)" by (rule moves_quiet) (use None in auto)
  then show ?thesis using None by (simp add: hailo_pcie_probe_def class_res_def)
next
  case (Some p)
  let ?w = "new_board p (call (Kzalloc (Some p)) w)"
  let ?old = "class_res w"
  have "held K (w_calls w) ?old (class_res w + {#Struct p#}) (call (Kzalloc (Some p)) w)"
    using held_acquire [of K "w_calls w" ?old ?old w "Kzalloc (Some p)"] Some by (simp add: held_def moves_refl)
  then have P: "probing K (w_calls w) ?old (b_contexts w, b_notification_waits w) p (b_board_list w) {#Struct p#} ?w"
    by (simp add: probing_def new_board_def class_res_def held_def)
  have "post (probe_device io M K e mem t ?w)
    (\<lambda>_ w'. listed K (w_calls w) ?old (b_contexts w, b_notification_waits w) (b_self w') (b_board_list w) (board_resources w') w' \<and> unused w' \<and> pr_accelerator_type (b_pcie_resources w') = HAILO_ACCELERATOR_TYPE_NNC)
    (\<lambda>w'. moves K (w_calls w) ?old (class_res w') (Kfree p # w_calls w') \<and> b_board_list w' = b_board_list w)"
  proof (rule post_mono [OF probe_device_probing [OF P absent [OF Some] c K t]], goal_cases)
    case (1 _ w1)
    then have self: "b_self w1 = p" by (simp add: listed_def probing_def)
    have "board_resources w1 = bars w1 + {#Device_node (b_board_index w1), Pci_regions, Pci_device#} + {#Struct p#}"
      by (simp add: board_resources_def self add_mset_commute)
    then show ?case using 1 by (simp only: self simp_thms)
  next
    case (2 w1)
    then show ?case by (auto simp: probing_def held_def intro: moves_release)
  qed
  then show ?thesis using Some by (simp add: hailo_pcie_probe_def post_on_error class_res_def)
qed

lemma remove_gives_back:
  assumes L: "listed K cs0 old hp (b_self w) bs (board_resources w) w" and u: "unused w" and e: "\<And>w. e_others e w = w"
  shows "\<exists>w'. hailo_pcie_remove io e w = (Ok (), w') \<and> moves K cs0 old (class_res w') (w_calls w') \<and> b_board_list w' = bs \<and> \<not> b_alive w'"
proof -
  let ?p = "b_self w"
  let ?w0 = "w\<lparr>w_board_mutex := 0\<rparr>"
  have L0: "listed K cs0 old hp ?p bs (board_resources ?w0) ?w0" "unused w" using L u by (auto simp: listed_def probing_def class_res_def held_def board_resources_def bars_def)
  obtain w1 where w1: "hailo_pcie_remove_board ?w0 = (Ok (), w1)"
    using L0(1) by (simp add: hailo_pcie_remove_board_def step_r_def down_add_board_def listed_def)
  have P1: "probing K cs0 old hp ?p bs (board_resources w1) w1" "b_pcie_resources w1 = b_pcie_resources w" "b_board_index w1 = b_board_index w"
  proof -
    have r: "probing K cs0 old hp ?p bs (board_resources ?w0) w1" "b_pcie_resources w1 = b_pcie_resources w" "b_board_index w1 = b_board_index w"
      using remove_board_probing [OF L0(1)] unfolding w1 by simp_all
    then have "board_resources w1 = board_resources ?w0" by (simp add: board_resources_def bars_def probing_def)
    with r show "probing K cs0 old hp ?p bs (board_resources w1) w1" "b_pcie_resources w1 = b_pcie_resources w" "b_board_index w1 = b_board_index w" by simp_all
  qed
  have "0 < b_add_board_mutex w" using L by (simp add: listed_def)
  with w1 have eq1: "up_add_board (?w0\<lparr>b_add_board_mutex := b_add_board_mutex w - 1, b_board_list := filter (\<lambda>(p, _). p \<noteq> b_self w) (b_board_list w)\<rparr>) = w1"
    by (simp add: hailo_pcie_remove_board_def step_r_def down_add_board_def)
  have f1: "b_ref_count w1 = 0" "b_nnc w1 = b_nnc w" "w_board_mutex w1 = 0" unfolding eq1 [symmetric] using u by (simp_all add: up_add_board_def unused_def)
  let ?w2 = "hailo_disable_interrupts io (call (Device_destroy (b_board_index w1)) w1)"
  have self1: "b_self w1 = ?p" using P1(1) by (simp add: probing_def)
  have "held K cs0 old (add_mset (Device_node (b_board_index w1)) (add_mset Pci_regions (bars w1 + ({#Pci_device, Struct ?p#} + class_res w1)))) w1"
    using P1(1) self1 by (simp add: probing_def board_resources_def ac_simps)
  then have "held K cs0 old (add_mset Pci_regions (bars w1 + ({#Pci_device, Struct ?p#} + class_res w1))) (call (Device_destroy (b_board_index w1)) w1)"
    by (rule held_release) simp_all
  then have h2: "held K cs0 old (add_mset Pci_regions (bars ?w2 + ({#Pci_device, Struct ?p#} + class_res w1))) ?w2" and s2: "?w2 = call (Device_destroy (b_board_index w1)) w1"
    using P1(1) by (simp_all add: hailo_disable_interrupts_def probing_def bars_def)
  note r3 = resources_release_held [OF h2]
  let ?w3 = "pcie_resources_release ?w2"
  let ?w4 = "call Pci_disable_device (?w3\<lparr>b_pDev := False, w_controller := (w_controller ?w3)\<lparr>vc_dev := False\<rparr>\<rparr>)"
  have h4: "held K cs0 old ({#Struct ?p#} + class_res w1) ?w4" using r3 by (auto simp: held_def intro: moves_release)
  have s4: "same_board w1 ?w3" using r3 s2 by (simp add: mapping_step_def same_board_def)
  have fin: "hailo_nnc_finalize ?w4 = Ok ?w4" using s4 f1 u by (simp add: hailo_nnc_finalize_def same_board_def unused_def)
  have lock: "step_r down_mutex w = (Ok (), ?w0)" using u by (simp add: step_r_def down_mutex_def unused_def)
  have run: "hailo_pcie_remove io e w = (Ok (), call (Kfree ?p) ((up_mutex ?w4)\<lparr>b_alive := False\<rparr>))"
  proof -
    have pd: "b_pDev w" and al: "b_alive ?w4" "b_ref_count ?w4 = 0" "b_self ?w4 = ?p"
      using L P1(1) s4 f1 by (auto simp: listed_def probing_def same_board_def)
    have "remove_locked io ?w0 = (Ok (), up_mutex ?w4)"
      using w1 fin by (simp add: remove_locked_def Let_def step_r_def)
    then show ?thesis using pd al lock e by (simp add: hailo_pcie_remove_def Let_def up_mutex_def)
  qed
  have "moves K cs0 old (class_res w1) (Kfree ?p # w_calls ?w4)" using h4 by (auto simp: held_def intro: moves_release)
  moreover have "class_res ?w4 = class_res w1" "b_board_list ?w4 = bs" using s4 P1(1) by (auto simp: class_res_def same_board_def probing_def)
  ultimately show ?thesis unfolding run by (simp add: up_mutex_def class_res_def)
qed

text \<open>C3: \<open>hailo_pcie_probe\<close> of a board with a neural network core (every board of the driver's id table) takes all or nothing: when it
  returns an error at any of its steps, every resource taken since the start - board structure, PCI device, regions, BAR mappings,
  interrupt, device node - has been given back exactly once and the list of boards is as before (only the class of the character
  devices stays); when it succeeds exactly the resources of the board are held, the board is in the list, nobody has it open, and its
  semaphore is free.\<close>

theorem probe_all_or_nothing:
  assumes "\<And>p. k_kzalloc K (w_calls w) = Some p \<Longrightarrow> p \<notin> fst ` set (b_board_list w)" and "calm e" and "iomap_nonempty K"
    and "device_type_of (effective_type M t) = Ok HAILO_ACCELERATOR_TYPE_NNC" and "hailo_pcie_probe io M K e mem t w = (r, w')"
  shows "(\<forall>x. r = Err x \<longrightarrow> moves K (w_calls w) (class_res w) (class_res w') (w_calls w') \<and> b_board_list w' = b_board_list w) \<and>
    (r = Ok () \<longrightarrow> moves K (w_calls w) (class_res w) (class_res w' + board_resources w') (w_calls w') \<and>
       set (b_board_list w') = insert (b_self w', b_board_index w') (set (b_board_list w)) \<and> \<not> b_interrupts_enabled w' \<and>
       b_ref_count w' = 0 \<and> b_open_files_list w' = [] \<and> w_board_mutex w' = 1)"
  using probe_held [OF assms(1-4), where io = io and mem = mem] unfolding assms(5)
  by (auto simp: listed_def probing_def held_def unused_def)

lemma sample_calm: "calm sample_caller"
  by (simp add: calm_def still_def)

lemma sample_iomap: "iomap_nonempty sample_kernel"
  by (simp add: iomap_nonempty_def)

lemma sample_type: "device_type_of (effective_type sample_params HAILO_BOARD_TYPE_HAILO8) = Ok HAILO_ACCELERATOR_TYPE_NNC"
  by (simp add: effective_type_def)

theorem probe_all_or_nothing_witness:
  "hailo_pcie_probe board_io sample_params sample_kernel sample_caller (Some [busy_engine]) HAILO_BOARD_TYPE_HAILO8 no_board = (Ok (), probed) \<and>
   ledger (w_calls probed) = Some (class_res probed + board_resources probed) \<and> b_board_list probed = [(0, 0)]"
  using probe_all_or_nothing [OF _ sample_calm sample_iomap sample_type probe_succeeds] probe_succeeds
  by (simp add: moves_def class_res_def)

text \<open>C9: a board that was probed and that nobody opened is removed without a trace: \<open>hailo_pcie_remove\<close> succeeds, the history holds
  what it held before the probe (and the class), the list of boards is the one before the probe, and the board is freed.\<close>

theorem probe_remove_roundtrip:
  assumes "\<And>p. k_kzalloc K (w_calls w) = Some p \<Longrightarrow> p \<notin> fst ` set (b_board_list w)" and "calm e" and "iomap_nonempty K"
    and "device_type_of (effective_type M t) = Ok HAILO_ACCELERATOR_TYPE_NNC" and "hailo_pcie_probe io M K e mem t w = (Ok (), w1)"
    and "\<And>w. e_others e2 w = w"
  shows "\<exists>w2. hailo_pcie_remove io e2 w1 = (Ok (), w2) \<and> moves K (w_calls w) (class_res w) (class_res w2) (w_calls w2) \<and>
    b_board_list w2 = b_board_list w \<and> \<not> b_alive w2"
proof -
  have "listed K (w_calls w) (class_res w) (b_contexts w, b_notification_waits w) (b_self w1) (b_board_list w) (board_resources w1) w1" "unused w1"
    using probe_held [OF assms(1-4), where io = io and mem = mem] unfolding assms(5) by simp_all
  from remove_gives_back [OF this assms(6)] show ?thesis .
qed

theorem probe_remove_roundtrip_witness:
  "\<exists>w2. hailo_pcie_remove board_io sample_caller probed = (Ok (), w2) \<and> ledger (w_calls w2) = Some (class_res w2) \<and> b_board_list w2 = [] \<and> \<not> b_alive w2"
  using probe_remove_roundtrip [OF _ sample_calm sample_iomap sample_type probe_succeeds, of sample_caller]
  by (auto simp: moves_def class_res_def)

end
