(* ===== verification/Pcie_Access.thy ===== *)
theory Pcie_Access
  imports Vdma_Frame Pcie_Probe
begin

text \<open>
  Access to a board through its character device: the board's semaphore is released on every path of every file operation, and a
  failed open leaves no trace.
\<close>

section \<open>The semaphore\<close>

text \<open>What other threads do while a request waits leaves the semaphore as it was: they release what they take.\<close>

definition lock_env :: "'d caller \<Rightarrow> bool" where
  "lock_env e \<longleftrightarrow> (\<forall>w. w_board_mutex (e_others e w) = w_board_mutex w) \<and> (\<forall>w. w_board_mutex (e_sleep e w) = w_board_mutex w) \<and>
     (\<forall>w. w_board_mutex (snd (e_wait_event e w)) = w_board_mutex w)"

lemma lock_envD:
  assumes "lock_env e"
  shows "w_board_mutex (e_others e w) = w_board_mutex w" "w_board_mutex (e_sleep e w) = w_board_mutex w"
    "w_board_mutex (snd (e_wait_event e w)) = w_board_mutex w"
  using assms by (simp_all add: lock_env_def)

lemma mutex_updates [simp]:
  "w_board_mutex (up_mutex w) = Suc (w_board_mutex w)" "w_board_mutex (set_command c w) = w_board_mutex w"
  "w_board_mutex (set_control_completion x w) = w_board_mutex w" "w_board_mutex (put_notification_completion p x w) = w_board_mutex w"
  "w_board_mutex (set_resp_ready x w) = w_board_mutex w" "w_board_mutex (set_driver_down_completion x w) = w_board_mutex w"
  by (simp_all add: up_mutex_def set_command_def set_control_completion_def put_notification_completion_def set_resp_ready_def
      set_driver_down_completion_def)

text \<open>\<open>level n rw\<close>: whatever is returned, the semaphore stands at \<open>n\<close>.\<close>

abbreviation level :: "nat \<Rightarrow> 'a result \<times> 'd board_world \<Rightarrow> bool" where
  "level n rw \<equiv> post rw (\<lambda>_ w. w_board_mutex w = n) (\<lambda>w. w_board_mutex w = n)"

lemma level_andthen: "level n rw \<Longrightarrow> (\<And>x w. w_board_mutex w = n \<Longrightarrow> level n (f x w)) \<Longrightarrow> level n (andthen rw f)"
  unfolding post_andthen by (erule post_mono) auto

lemma level_on_error: "level n rw \<Longrightarrow> (\<And>w. w_board_mutex w = n \<Longrightarrow> level n (undo w)) \<Longrightarrow> level n (on_error rw undo)"
  unfolding post_on_error by (erule post_mono) auto

lemma level_result: "w_board_mutex w = n \<Longrightarrow> level n (r, w)"
  by (cases r) auto

lemma level_device: "w_board_mutex w = n \<Longrightarrow> level n (on_device f w)"
  by (simp add: on_device_eq level_result)

lemma level_step: "(\<And>w'. f w = Ok w' \<Longrightarrow> w_board_mutex w' = n) \<Longrightarrow> w_board_mutex w = n \<Longrightarrow> level n (step_r f w)"
  by (auto simp: post_step_r split: result.split)

lemma level_wait: "lock_env e \<Longrightarrow> (\<And>c w. w_board_mutex (put c w) = w_board_mutex w) \<Longrightarrow> w_board_mutex (snd (wait_for_completion get put e w)) = w_board_mutex w"
  by (simp add: wait_for_completion_def Let_def lock_envD)

lemma level_for_each:
  assumes "for_each body is w = Ok w'" "\<And>i w w'. body i w = Ok w' \<Longrightarrow> w_board_mutex w' = w_board_mutex w"
  shows "w_board_mutex w' = w_board_mutex w"
  by (rule for_each_induct [OF assms(1), of "\<lambda>x. w_board_mutex x = w_board_mutex w"]) (auto dest: assms(2))

text \<open>Firmware controls and notifications.\<close>

lemma preprocess_level: "w_board_mutex w = n \<Longrightarrow> level n (preprocess_command p w)"
  unfolding preprocess_command_def by (intro level_andthen level_result) (auto simp: split_beta Let_def intro!: level_result)

lemma exchange_level:
  assumes "lock_env e" "w_board_mutex w = n"
  shows "level n (exchange_control io e w)"
  unfolding exchange_control_def
proof (rule level_andthen)
  fix x :: unit and w1 :: "'a board_world" assume w1: "w_board_mutex w1 = n"
  obtain b w2 where b: "wait_for_completion (\<lambda>w. nnc_fw_control_completion (b_nnc w)) set_control_completion e w1 = (b, w2)" by fastforce
  then have w2: "w_board_mutex w2 = n" using level_wait [OF assms(1), of set_control_completion "\<lambda>w. nnc_fw_control_completion (b_nnc w)" w1] w1 by simp
  show "level n (let (completed, w) = wait_for_completion (\<lambda>w. nnc_fw_control_completion (b_nnc w)) set_control_completion e w1
     in if \<not> completed then (Err (if e_killed e then EINTR else ETIMEDOUT), w)
        else let ((r, command), w) = on_device (\<lambda>d. case hailo_pcie_read_firmware_control io (b_pcie_resources w) (nnc_fw_control_command (b_nnc w))
                                             (e_ptr e) (e_ptr e) d of (r, c, d1) \<Rightarrow> ((r, c), d1)) w;
                 w = set_command command w
             in andthen (r, w) (\<lambda>_ w. (if e_out_ok e then Ok command else Err ENOMEM, w)))"
    unfolding b Let_def prod.case split_beta on_device_eq
    using w2 by (auto intro!: level_andthen level_result)
qed (use assms(2) in \<open>auto intro: level_device\<close>)

lemma fw_control_mutex:
  assumes e: "lock_env e" and r: "hailo_fw_control_ioctl io e p a w = (r, w', up)" "\<not> is_fault r"
  shows "w_board_mutex w' = Suc (w_board_mutex w) \<and> \<not> up"
proof -
  let ?w = "e_others e (up_mutex w)"
  let ?w1 = "?w\<lparr>b_nnc := (b_nnc ?w)\<lparr>nnc_fw_control_mutex := nnc_fw_control_mutex (b_nnc ?w) - 1\<rparr>\<rparr>"
  let ?n = "Suc (w_board_mutex w)"
  have w: "w_board_mutex ?w = ?n" by (simp add: lock_envD [OF e])
  have "level ?n (case a of None \<Rightarrow> (Err ENOMEM, ?w1) | Some command \<Rightarrow> andthen (preprocess_command p (set_command command ?w1)) (\<lambda>_ w. exchange_control io e w))"
    using w e by (auto split: option.split intro!: level_andthen preprocess_level exchange_level)
  then have "level ?n (finally_do (case a of None \<Rightarrow> (Err ENOMEM, ?w1) | Some command \<Rightarrow> andthen (preprocess_command p (set_command command ?w1)) (\<lambda>_ w. exchange_control io e w))
      (\<lambda>w. w\<lparr>b_nnc := (b_nnc w)\<lparr>nnc_fw_control_mutex := Suc (nnc_fw_control_mutex (b_nnc w))\<rparr>\<rparr>))"
    by (simp add: post_finally_do)
  then show ?thesis using r w unfolding hailo_fw_control_ioctl_def Let_def
    by (auto simp: post_def split: if_splits prod.splits result.splits)
qed

lemma read_notification_mutex:
  assumes e: "lock_env e" and r: "hailo_read_notification_ioctl e filp w = (r, w', up)" "\<not> is_fault r"
  shows "w_board_mutex w' = (if up then w_board_mutex w else Suc (w_board_mutex w))"
proof (cases "hailo_get_notification_wait_thread e filp w")
  case (Ok p)
  obtain b w2 where b: "wait_for_completion (get_notification_completion p) (put_notification_completion p) e (up_mutex w) = (b, w2)" by fastforce
  have w2: "w_board_mutex w2 = Suc (w_board_mutex w)"
    using level_wait [OF e, of "put_notification_completion p" "get_notification_completion p" "up_mutex w"] b by simp
  let ?w3 = "e_others e w2"
  have w3: "w_board_mutex ?w3 = Suc (w_board_mutex w)" using w2 by (simp add: lock_envD [OF e])
  let ?w4 = "?w3\<lparr>w_board_mutex := w_board_mutex w\<rparr>"
  have d: "down_mutex ?w3 = Ok ?w4" using w3 by (simp add: down_mutex_def)
  have "level (w_board_mutex w) (deliver_notification e p ?w4)"
    unfolding deliver_notification_def by (intro level_andthen level_result) (auto intro!: level_andthen level_result)
  then show ?thesis using Ok b w2 w3 d r unfolding hailo_read_notification_ioctl_def
    by (auto simp: post_def Let_def split: if_splits prod.splits result.splits)
qed (use r in \<open>auto simp: hailo_read_notification_ioctl_def\<close>)

lemma nnc_ioctl_mutex:
  assumes e: "lock_env e" and r: "hailo_nnc_ioctl io e p filp req w = (r, w', up)" "\<not> is_fault r"
  shows "w_board_mutex w' = (if up then w_board_mutex w else Suc (w_board_mutex w))"
proof (cases req)
  case (HAILO_FW_CONTROL a)
  then show ?thesis using r fw_control_mutex [OF e, of io p a w] by (auto split: prod.splits)
next
  case HAILO_READ_NOTIFICATION
  then show ?thesis using r read_notification_mutex [OF e, of filp w] by (auto split: prod.splits)
next
  case HAILO_DISABLE_NOTIFICATION
  have "level (w_board_mutex w) (hailo_disable_notification e filp w)"
    unfolding hailo_disable_notification_def
    by (intro level_andthen level_result) (auto split: option.split intro!: level_result level_step simp: modify_wait_def split: option.splits)
  then show ?thesis using HAILO_DISABLE_NOTIFICATION r by (auto simp: post_def split: prod.splits result.splits)
next
  case (HAILO_READ_LOG a)
  have "level (w_board_mutex w) (hailo_read_log_ioctl io e a w)"
    unfolding hailo_read_log_ioctl_def by (auto split: option.split intro!: level_andthen level_result level_device)
  then show ?thesis using HAILO_READ_LOG r by (auto simp: post_def split: prod.splits result.splits)
qed (use r in auto)

text \<open>Requests of SoC boards: all run with the semaphore held.\<close>

lemma soc_control_level:
  assumes "lock_env e" "w_board_mutex w = n"
  shows "level n (soc_control io e req w)"
proof -
  let ?w = "poke_device (hailo_pcie_soc_write_request io (b_pcie_resources (set_resp_ready (reinit_completion (soc_control_resp_ready (b_soc w))) w))
    (bytes_of_soc_request req) (e_ptr e)) (set_resp_ready (reinit_completion (soc_control_resp_ready (b_soc w))) w)"
  obtain b w2 where b: "wait_for_completion (\<lambda>w. soc_control_resp_ready (b_soc w)) set_resp_ready e ?w = (b, w2)" by fastforce
  then have "w_board_mutex w2 = n" using level_wait [OF assms(1), of set_resp_ready "\<lambda>w. soc_control_resp_ready (b_soc w)" ?w] assms(2) by simp
  then show ?thesis unfolding soc_control_def Let_def b prod.case on_device_eq by (auto intro: level_result)
qed

lemma close_channels_level: "lock_env e \<Longrightarrow> w_board_mutex w = n \<Longrightarrow> level n (close_channels io e b w)"
  unfolding close_channels_def by (intro level_andthen level_result soc_control_level) simp_all

lemma set_bits_level: "w_board_mutex w = n \<Longrightarrow> level n (step_r (soc_set_bits p f) w)"
  by (rule level_step) (auto simp: soc_set_bits_def split: option.splits)

lemma connect_level:
  assumes "lock_env e" "w_board_mutex w = n"
  shows "level n (hailo_soc_connect_ioctl io e p a w)"
  using assms unfolding hailo_soc_connect_ioctl_def
  by (auto split: option.split prod.split simp: Let_def soc_start_channels_def intro!: level_andthen level_result soc_control_level set_bits_level)

lemma soc_ioctl_level:
  assumes "lock_env e" "w_board_mutex w = n"
  shows "level n (hailo_soc_ioctl io e p req w)"
proof -
  have m: "level n (case h of (r, w1) \<Rightarrow> (map_r g r, w1))" if "level n h" for g and h :: "'b result \<times> 'a board_world"
    using that by (cases h; cases "fst h") auto
  have "level n (hailo_soc_requests io e p req w)"
  proof (cases req)
    case (HAILO_SOC_CONNECT a)
    then show ?thesis using connect_level [OF assms] by (auto intro: m)
  next
    case (HAILO_SOC_CLOSE a)
    have "level n (hailo_soc_close_ioctl io e p a w)" unfolding hailo_soc_close_ioctl_def
      using assms by (auto split: option.split intro!: level_andthen close_channels_level set_bits_level)
    then show ?thesis using HAILO_SOC_CLOSE by (auto split: prod.splits simp: post_result split: result.splits)
  next
    case HAILO_SOC_POWER_OFF
    have "level n (hailo_soc_power_off_ioctl io e w)" unfolding hailo_soc_power_off_ioctl_def
      using assms by (auto intro!: level_andthen soc_control_level)
    then show ?thesis using HAILO_SOC_POWER_OFF by (auto split: prod.splits simp: post_result split: result.splits)
  qed (use assms in simp)
  then show ?thesis using assms by (simp add: hailo_soc_ioctl_def)
qed

text \<open>The dispatcher: it says whether the semaphore is still held.\<close>

lemma dispatch_mutex:
  assumes e: "lock_env e" and r: "dispatch_ioctl io K e filp p c req w = (r, w', up)" "\<not> is_fault r"
  shows "w_board_mutex w' = (if up then w_board_mutex w else Suc (w_board_mutex w))"
proof (cases req)
  case (General g)
  then show ?thesis using r by (cases g) (auto simp: hailo_query_device_properties_def on_device_eq split: prod.splits)
next
  case (Vdma v)
  obtain x vc w1 where x: "hailo_vdma_ioctl io K filp (e_out_ok e) (e_wait_event e) (e_down_ok e) v (ctx_vdma_context c) w = (x, vc, w1, up)"
      "r = map_r Vdma_reply x" "w_board_mutex w' = w_board_mutex w1"
    using r Vdma by (auto simp: fops_vdma_ioctl_def split: prod.splits vdma_request.splits)
  then show ?thesis using ioctl_mutex [OF x(1) _ lock_envD(3) [OF e]] r(2) by simp
next
  case (Soc s)
  then show ?thesis using r soc_ioctl_level [OF e refl, of io p s w]
    by (auto simp: post_result split: prod.splits if_splits result.splits)
next
  case (Nnc n)
  then show ?thesis using r nnc_ioctl_mutex [OF e, of io p filp n w] by (auto split: prod.splits if_splits)
qed (use r in auto)

section \<open>File operations\<close>

lemma down_held: "w_board_mutex w = 1 \<Longrightarrow> step_r down_mutex w = (Ok (), w\<lparr>w_board_mutex := 0\<rparr>)"
  by (simp add: step_r_def down_mutex_def)

lemma find_file_context_not_Err [simp]: "find_file_context filp w \<noteq> Err x"
proof -
  have "list_find P ps hp \<noteq> Err x" for P ps and hp :: "hailo_file_context heap"
    by (induction ps) (auto split: option.split)
  then show ?thesis by (simp add: find_file_context_def)
qed

lemma ioctl_level:
  assumes e: "lock_env e" and w: "w_board_mutex w = 1"
  shows "level 1 (hailo_pcie_fops_unlockedioctl io K e filp req w)"
proof -
  let ?w = "w\<lparr>w_board_mutex := 0\<rparr>"
  have d: "level 1 (case dispatch_ioctl io K e filp p c req ?w of (r, w, up) \<Rightarrow> (r, if up then up_mutex w else w))" for p c
  proof -
    obtain r w1 up where r: "dispatch_ioctl io K e filp p c req ?w = (r, w1, up)" by (cases "dispatch_ioctl io K e filp p c req ?w")
    show ?thesis using dispatch_mutex [OF e r] by (cases r) (auto simp: r)
  qed
  show ?thesis unfolding hailo_pcie_fops_unlockedioctl_def using w d
    by (auto simp: down_held post_andthen post_result split: result.split option.split)
qed

lemma mmap_level:
  assumes "w_board_mutex w = 1"
  shows "level 1 (hailo_pcie_fops_mmap K e filp vma off w)"
proof -
  let ?w = "w\<lparr>w_board_mutex := 0\<rparr>"
  have m: "level 1 (case hailo_vdma_mmap K (ctx_vdma_context c) ?w vma h of (r, vma1, w) \<Rightarrow> (map_r (\<lambda>_. vma1) r, up_mutex w))" for c h
  proof -
    obtain r v w1 where r: "hailo_vdma_mmap K (ctx_vdma_context c) ?w vma h = (r, v, w1)" by (cases "hailo_vdma_mmap K (ctx_vdma_context c) ?w vma h")
    have "w_board_mutex w1 = 0" using mmap_outside [OF r] by (simp add: outside_def)
    then show ?thesis unfolding r by (auto intro: level_result)
  qed
  show ?thesis unfolding hailo_pcie_fops_mmap_def Let_def using assms m
    by (auto simp: down_held post_andthen post_result split: result.split option.split)
qed

lemma enable_interrupts_level: "w_board_mutex w = n \<Longrightarrow> level n (hailo_enable_interrupts io K w)"
  unfolding hailo_enable_interrupts_def Let_def
  by (auto intro!: level_andthen level_on_error level_result)

lemma power_state_level: "w_board_mutex w = n \<Longrightarrow> level n (pci_set_power_state K s w)"
  unfolding pci_set_power_state_def Let_def by (intro level_result) simp

lemma file_context_init_level: "w_board_mutex w = n \<Longrightarrow> level n (file_context_init K e p w)"
  unfolding file_context_init_def hailo_nnc_file_context_init_def add_notification_wait_def hailo_soc_file_context_init_def Let_def
  by (auto intro!: level_andthen level_result split: option.split)

lemma revert_power_level: "w_board_mutex w = n \<Longrightarrow> level n (open_revert_power K s w)"
  by (simp add: open_revert_power_def pci_set_power_state_def Let_def)

lemma disable_interrupts_mutex [simp]: "w_board_mutex (hailo_disable_interrupts io w) = w_board_mutex w"
  by (simp add: hailo_disable_interrupts_def)

lemma open_device_level:
  assumes "w_board_mutex w = n"
  shows "level n (open_device io K e p w)"
proof -
  have ei: "level n (open_enable_interrupts io K w)" if "w_board_mutex w = n" for w :: "'a board_world"
    using that unfolding open_enable_interrupts_def by (auto intro!: level_andthen enable_interrupts_level)
  have wk: "level n (open_wake_up K w)" using assms unfolding open_wake_up_def by (auto intro: power_state_level)
  have init: "level n (on_error (file_context_init K e p w) (\<lambda>w. (Ok (), if b then hailo_disable_interrupts io w else w)))"
    if "w_board_mutex w = n" for b and w :: "'a board_world"
    by (rule level_on_error [OF file_context_init_level [OF that]]) simp
  have body: "level n (if \<not> c then (Err ENXIO, w) else andthen (open_enable_interrupts io K w) (\<lambda>b w.
      on_error (file_context_init K e p w) (\<lambda>w. (Ok (), if b then hailo_disable_interrupts io w else w))))"
    if "w_board_mutex w = n" for c and w :: "'a board_world"
    using that level_andthen [OF ei [OF that] init] by simp
  have all: "level n (andthen (open_wake_up K w) (\<lambda>_ w1. on_error
      (if \<not> fst (f w1) then (Err ENXIO, w1\<lparr>w_device := snd (f w1)\<rparr>)
       else andthen (open_enable_interrupts io K (w1\<lparr>w_device := snd (f w1)\<rparr>)) (\<lambda>b w.
         on_error (file_context_init K e p w) (\<lambda>w. (Ok (), if b then hailo_disable_interrupts io w else w))))
      (open_revert_power K s)))" for s f
    by (rule level_andthen [OF wk]; rule level_on_error [OF body revert_power_level]) simp_all
  show ?thesis using all [of "\<lambda>w1. hailo_pcie_is_device_connected io (b_pcie_resources w1) (w_device w1)" "b_current_state w"]
    by (simp add: open_device_def Let_def on_device_eq)
qed

lemma open_level:
  assumes "w_board_mutex w = 1"
  shows "level 1 (hailo_pcie_fops_open io K e minor filp w)"
proof -
  have c: "level n (create_file_context K filp w)" if "w_board_mutex w = n" for n and w :: "'a board_world"
    using that unfolding create_file_context_def Let_def by (auto split: option.split)
  have r: "level n (release_file_context p w)" if "w_board_mutex w = n" for n p and w :: "'a board_world"
    using that unfolding release_file_context_def by (auto split: option.split)
  have f: "level 1 (finally_do rw up_mutex)" if "level 0 rw" for rw :: "unit result \<times> 'a board_world"
    using that unfolding post_finally_do by (rule post_mono) auto
  have g: "level 1 (hailo_pcie_get_board_index minor w)"
    using assms unfolding hailo_pcie_get_board_index_def
    by (auto intro!: level_andthen level_step simp: down_add_board_def up_add_board_def split: if_splits)
  show ?thesis
    unfolding hailo_pcie_fops_open_def
    by (rule level_andthen [OF g])
      (auto simp: down_held intro!: level_on_error level_andthen f [unfolded One_nat_def] c r open_device_level)
qed

lemma driver_down_mutex: "lock_env e \<Longrightarrow> w_board_mutex (snd (hailo_nnc_driver_down io e w)) = w_board_mutex w"
proof -
  assume e: "lock_env e"
  let ?w = "poke_device (hailo_pcie_write_firmware_driver_shutdown io (b_pcie_resources (set_driver_down_completion (reinit_completion (b_driver_down_reset_completed w)) w)))
    (set_driver_down_completion (reinit_completion (b_driver_down_reset_completed w)) w)"
  show ?thesis
    using level_wait [OF e, of set_driver_down_completion b_driver_down_reset_completed ?w]
    by (simp add: hailo_nnc_driver_down_def Let_def split_beta)
qed

lemma nnc_finalize_mutex:
  assumes "lock_env e" "hailo_nnc_file_context_finalize io e c w = Ok w'"
  shows "w_board_mutex w' = w_board_mutex w"
proof -
  obtain w1 where w1: "clear_notification_wait_list (ctx_filp c) w = Ok w1"
    "w' = (if vc_used_by_filp (w_controller w1) = Some (ctx_filp c) then snd (hailo_nnc_driver_down io e w1) else w1)"
    using assms(2) by (auto simp: hailo_nnc_file_context_finalize_def bind_r_eq_Ok)
  have "w_board_mutex w1 = w_board_mutex w"
    using w1(1) unfolding clear_notification_wait_list_def
    by (rule level_for_each) (auto simp: clear_wait_def split: option.splits if_splits)
  then show ?thesis using w1(2) driver_down_mutex [OF assms(1)] by simp
qed

lemma soc_finalize_mutex:
  assumes "lock_env e" "hailo_soc_file_context_finalize io e c w = Ok w'"
  shows "w_board_mutex w' = w_board_mutex w"
  using assms(2) close_channels_level [OF assms(1) refl, of io "ctx_soc_used_channels_bitmap c" w]
  by (auto simp: hailo_soc_file_context_finalize_def post_result split: if_splits prod.splits result.splits)

lemma finalize_file_level:
  assumes e: "lock_env e" and w: "w_board_mutex w = n"
  shows "level n (finalize_file io K e p filp w)"
proof -
  have f: "w_board_mutex w' = w_board_mutex w"
    if "(if pr_accelerator_type (b_pcie_resources w) = HAILO_ACCELERATOR_TYPE_NNC
         then hailo_nnc_file_context_finalize io e c w else hailo_soc_file_context_finalize io e c w) = Ok w'" for c w w'
    using that nnc_finalize_mutex [OF e] soc_finalize_mutex [OF e] by (auto split: if_splits)
  have v: "w_board_mutex w' = w_board_mutex w"
    if "bind_r (hailo_vdma_file_context_finalize K vc filp w) (\<lambda>(vc, w). Ok (w\<lparr>b_contexts := (b_contexts w)(p \<mapsto> c\<lparr>ctx_vdma_context := vc\<rparr>)\<rparr>)) = Ok w'"
    for vc c and w w' :: "'a board_world"
    using that by (auto simp: bind_r_eq_Ok outside_def dest!: finalize_outside)
  have r: "level n (release_file_context p w)" if "w_board_mutex w = n" for w :: "'a board_world"
    using that unfolding release_file_context_def by (auto split: option.split)
  show ?thesis unfolding finalize_file_def
    by (intro level_andthen level_step level_result r) (use w in \<open>auto dest: f v\<close>)
qed

lemma finalize_file_no_err: "fst (finalize_file io K e p filp w) \<noteq> Err x"
proof -
  have n: "hailo_nnc_file_context_finalize io e c w \<noteq> Err x" for c w
  proof -
    have "no_err (clear_notification_wait_list f w)" for f
      unfolding clear_notification_wait_list_def by (rule no_err_for_each) (auto simp: clear_wait_def split: option.split)
    from this [of "ctx_filp c"] show ?thesis
      by (cases "clear_notification_wait_list (ctx_filp c) w") (auto simp: hailo_nnc_file_context_finalize_def)
  qed
  have s: "hailo_soc_file_context_finalize io e c w \<noteq> Err x" for c w
    by (auto simp: hailo_soc_file_context_finalize_def split: prod.split result.split)
  have v: "bind_r (hailo_vdma_file_context_finalize K vc filp w) (\<lambda>(vc, w). Ok (w\<lparr>b_contexts := (b_contexts w)(p \<mapsto> c\<lparr>ctx_vdma_context := vc\<rparr>)\<rparr>)) \<noteq> Err x"
    for vc c and w :: "'a board_world"
    using no_err_finalize [of K vc filp w] by (cases "hailo_vdma_file_context_finalize K vc filp w") auto
  have "fst (andthen rw f) \<noteq> Err x" if "fst rw \<noteq> Err x" "\<And>y w. fst (f y w) \<noteq> Err x" for rw :: "'y result \<times> 'a board_world" and f :: "'y \<Rightarrow> 'a board_world \<Rightarrow> 'z result \<times> 'a board_world"
    using that by (cases rw; cases "fst rw") auto
  note a = this
  show ?thesis unfolding finalize_file_def
    by (intro a) (use n s v in \<open>auto simp: context_of_def step_r_def release_file_context_def split: option.split result.split\<close>)
qed

lemma release_level:
  assumes e: "lock_env e" and w: "w_board_mutex w = 1"
  shows "level 1 (hailo_pcie_fops_release io M K e filp w)"
proof -
  let ?w = "w\<lparr>w_board_mutex := 0\<rparr>"
  have l: "w_board_mutex (release_last io M K w1) = Suc (w_board_mutex w1)" for w1 :: "'a board_world"
    by (simp add: release_last_def Let_def pci_set_power_state_def)
  have lp: "level 0 (finalize_file io K e p filp ?w)" for p by (rule finalize_file_level [OF e]) simp
  have fin: "level 1 (andthen (finalize_file io K e p filp ?w) (\<lambda>_ w1.
      let w1 = w1\<lparr>b_ref_count := b_ref_count w1 - 1\<rparr> in (Ok (), if b_ref_count w1 = 0 then release_last io M K w1 else up_mutex w1)))" for p
    using lp [of p] finalize_file_no_err [of io K e p filp ?w]
    by (cases "finalize_file io K e p filp ?w"; cases "fst (finalize_file io K e p filp ?w)") (auto simp: l Let_def)
  show ?thesis
    using w fin unfolding hailo_pcie_fops_release_def
    by (auto simp: down_held post_andthen post_result split: result.split option.split)
qed

text \<open>C10: every file operation gives the board's semaphore back: when it is free before an open, a request, a mapping or a close, it is
  free again when the operation returns, with success or with an error - also on the paths that release it in between to wait for
  interrupts, for a notification or for the firmware, and on those where taking it again is interrupted.\<close>

theorem file_operations_release_semaphore:
  assumes "lock_env e" and "w_board_mutex w = 1"
  shows "post (hailo_pcie_fops_open io K e minor filp w) (\<lambda>_ w'. w_board_mutex w' = 1) (\<lambda>w'. w_board_mutex w' = 1) \<and>
    post (hailo_pcie_fops_unlockedioctl io K e filp request w) (\<lambda>_ w'. w_board_mutex w' = 1) (\<lambda>w'. w_board_mutex w' = 1) \<and>
    post (hailo_pcie_fops_mmap K e filp vma off w) (\<lambda>_ w'. w_board_mutex w' = 1) (\<lambda>w'. w_board_mutex w' = 1) \<and>
    post (hailo_pcie_fops_release io M K e filp w) (\<lambda>_ w'. w_board_mutex w' = 1) (\<lambda>w'. w_board_mutex w' = 1)"
  using assms by (intro conjI open_level ioctl_level mmap_level release_level)

theorem file_operations_release_semaphore_witness:
  "post (hailo_pcie_fops_open board_io sample_kernel sample_caller 0 7 probed) (\<lambda>_ w'. w_board_mutex w' = 1) (\<lambda>w'. w_board_mutex w' = 1) \<and>
   post (hailo_pcie_fops_unlockedioctl board_io sample_kernel sample_caller 7 (Nnc HAILO_READ_NOTIFICATION) probed)
     (\<lambda>_ w'. w_board_mutex w' = 1) (\<lambda>w'. w_board_mutex w' = 1)"
  using file_operations_release_semaphore [of sample_caller probed] by (simp add: lock_env_def)

section \<open>A failed open\<close>

text \<open>What a failed step of an open leaves as it was.\<close>

definition unchanged :: "'d board_world \<Rightarrow> 'd board_world \<Rightarrow> bool" where
  "unchanged w w' \<longleftrightarrow> mapping_step w w' \<and> b_pcie_resources w' = b_pcie_resources w"

lemma unchanged_trans: "unchanged a b \<Longrightarrow> unchanged b c \<Longrightarrow> unchanged a c"
  by (auto simp: unchanged_def intro: mapping_step_trans)

lemma unchanged_updates [simp]:
  "unchanged w w" "unchanged w (call c w') \<longleftrightarrow> unchanged w w'" "unchanged w (w'\<lparr>w_device := d\<rparr>) \<longleftrightarrow> unchanged w w'"
  "unchanged w (w'\<lparr>b_current_state := s\<rparr>) \<longleftrightarrow> unchanged w w'" "unchanged (w\<lparr>w_device := d\<rparr>) w' \<longleftrightarrow> unchanged w w'"
  by (auto simp: unchanged_def mapping_step_def same_board_def)

lemma open_power_held:
  assumes "held K cs0 old R w1" "unchanged w w1"
  shows "post (pci_set_power_state K s w1) (\<lambda>_ w'. held K cs0 old R w' \<and> unchanged w w') (\<lambda>w'. held K cs0 old R w' \<and> unchanged w w')"
proof -
  have "held K cs0 old R (call (Pci_set_power_state s r) w1)" for r using assms(1) by (rule held_quiet) simp_all
  then show ?thesis using assms(2) by (auto simp: pci_set_power_state_def Let_def post_result held_def split: result.split)
qed

lemma revert_power_held:
  assumes "held K cs0 old R w1" "unchanged w w1"
  shows "post (open_revert_power K s w1) (\<lambda>_ w'. held K cs0 old R w' \<and> unchanged w w') (\<lambda>w'. held K cs0 old R w' \<and> unchanged w w')"
proof -
  have "held K cs0 old R (call (Pci_set_power_state s r) w1)" for r using assms(1) by (rule held_quiet) simp_all
  then show ?thesis using assms by (auto simp: open_revert_power_def pci_set_power_state_def Let_def held_def)
qed

lemma enable_interrupts_contexts:
  "post (hailo_enable_interrupts io K w) (\<lambda>_ w'. b_contexts w' = b_contexts w \<and> b_notification_waits w' = b_notification_waits w)
    (\<lambda>w'. b_contexts w' = b_contexts w \<and> b_notification_waits w' = b_notification_waits w)"
  by (auto simp: hailo_enable_interrupts_def Let_def post_rules post_result split: result.split)

lemma open_interrupts_held:
  assumes h: "held K cs0 old R w1" and u: "unchanged w w1" and d: "b_pDev w1"
  shows "post (andthen (open_enable_interrupts io K w1) (\<lambda>b w. on_error (file_context_init K e p w)
      (\<lambda>w. (Ok (), if b then hailo_disable_interrupts io w else w)))) (\<lambda>_ _. True) (\<lambda>w'. held K cs0 old R w' \<and> unchanged w w')"
proof -
  have init: "post (file_context_init K e p w2) (\<lambda>_ _. True) (\<lambda>w'. \<exists>c. w' = call c w2 \<and> releases c = {#} \<and> acquires c = {#} \<and> grants K (w_calls w2) c)" for w2
    by (auto simp: file_context_init_def post_andthen post_result context_of_def hailo_nnc_file_context_init_def add_notification_wait_def
        hailo_soc_file_context_init_def Let_def split: option.split intro!: exI [of _ "Kzalloc None"])
  show ?thesis
  proof (cases "b_interrupts_enabled w1")
    case True
    show ?thesis using True h u
      by (auto simp: open_enable_interrupts_def post_on_error intro!: post_mono [OF init] intro: held_quiet)
  next
    case False
    have "post (hailo_enable_interrupts io K w1)
      (\<lambda>_ w2. post (file_context_init K e p w2) (\<lambda>_ _. True) (\<lambda>w'. held K cs0 old R (hailo_disable_interrupts io w') \<and> unchanged w (hailo_disable_interrupts io w')))
      (\<lambda>w'. held K cs0 old R w' \<and> unchanged w w')"
    proof -
      have both: "post (hailo_enable_interrupts io K w1)
        (\<lambda>_ w'. (held K cs0 old (irq_res True + R) w' \<and> same_board w1 w' \<and> b_pcie_resources w' = b_pcie_resources w1 \<and> b_interrupts_enabled w') \<and>
            b_contexts w' = b_contexts w1 \<and> b_notification_waits w' = b_notification_waits w1)
        (\<lambda>w'. (held K cs0 old R w' \<and> same_board w1 w' \<and> b_pcie_resources w' = b_pcie_resources w1 \<and> \<not> b_interrupts_enabled w') \<and>
            b_contexts w' = b_contexts w1 \<and> b_notification_waits w' = b_notification_waits w1)"
        using enable_interrupts_held [OF h False, of io] enable_interrupts_contexts [of io K w1]
        by (cases "hailo_enable_interrupts io K w1"; cases "fst (hailo_enable_interrupts io K w1)") auto
      show ?thesis
      proof (rule post_mono [OF both], goal_cases)
        case (1 _ w2)
        show ?case
        proof (rule post_mono [OF init], goal_cases)
          case c: (2 w3)
          then obtain c where c: "w3 = call c w2" "releases c = {#}" "acquires c = {#}" "grants K (w_calls w2) c" by auto
          have h3: "held K cs0 old (irq_res (b_interrupts_enabled w3) + R) w3" using 1 c by (auto intro: held_quiet)
          have d3: "b_pDev w3" using 1 c d by (simp add: same_board_def)
          have k: "b_contexts (hailo_disable_interrupts io w3) = b_contexts w3" "b_notification_waits (hailo_disable_interrupts io w3) = b_notification_waits w3"
            by (simp_all add: hailo_disable_interrupts_def)
          show ?case using disable_interrupts_held [OF h3 d3, of io] k 1 c u False
            by (auto simp: unchanged_def mapping_step_def intro: same_board_trans)
        qed simp
      next
        case (2 w2)
        then show ?case using u False by (auto simp: unchanged_def mapping_step_def intro: same_board_trans)
      qed
    qed
    then show ?thesis using False by (simp add: open_enable_interrupts_def post_rules)
  qed
qed

lemma open_device_held:
  assumes h: "held K cs0 old R w"
  shows "post (open_device io K e p w) (\<lambda>_ _. True) (\<lambda>w'. held K cs0 old R w' \<and> unchanged w w')"
proof (cases "b_pDev w")
  case True
  have conn: "post (on_error (if \<not> c then (Err ENXIO, w1) else andthen (open_enable_interrupts io K w1) (\<lambda>b w. on_error (file_context_init K e p w)
        (\<lambda>w. (Ok (), if b then hailo_disable_interrupts io w else w)))) (open_revert_power K s))
      (\<lambda>_ _. True) (\<lambda>w'. held K cs0 old R w' \<and> unchanged w w')" if w1: "held K cs0 old R w1" "unchanged w w1" for c s w1
  proof -
    have d: "b_pDev w1" using w1(2) True by (simp add: unchanged_def mapping_step_def same_board_def)
    have "post (if \<not> c then (Err ENXIO, w1) else andthen (open_enable_interrupts io K w1) (\<lambda>b w. on_error (file_context_init K e p w)
        (\<lambda>w. (Ok (), if b then hailo_disable_interrupts io w else w)))) (\<lambda>_ _. True) (\<lambda>w'. held K cs0 old R w' \<and> unchanged w w')"
      using w1 open_interrupts_held [OF w1 d, of io e p] by simp
    then show ?thesis unfolding post_on_error by (rule post_mono) (auto intro: post_mono [OF revert_power_held])
  qed
  have wake: "post (open_wake_up K w) (\<lambda>_ w'. held K cs0 old R w' \<and> unchanged w w') (\<lambda>w'. held K cs0 old R w' \<and> unchanged w w')"
    using open_power_held [OF h, of w PCI_D0] h by (simp add: open_wake_up_def)
  have "post (andthen (open_wake_up K w) (\<lambda>_ w1. on_error (if \<not> fst (f w1) then (Err ENXIO, w1\<lparr>w_device := snd (f w1)\<rparr>)
        else andthen (open_enable_interrupts io K (w1\<lparr>w_device := snd (f w1)\<rparr>)) (\<lambda>b w. on_error (file_context_init K e p w)
        (\<lambda>w. (Ok (), if b then hailo_disable_interrupts io w else w)))) (open_revert_power K s))) (\<lambda>_ _. True) (\<lambda>w'. held K cs0 old R w' \<and> unchanged w w')" for f s
    unfolding post_andthen [of "open_wake_up K w"]
  proof (rule post_mono [OF wake], goal_cases)
    case (1 _ w1)
    then have "held K cs0 old R (w1\<lparr>w_device := snd (f w1)\<rparr>)" "unchanged w (w1\<lparr>w_device := snd (f w1)\<rparr>)" by (auto intro: held_cong)
    then show ?case by (rule conn)
  qed
  from this [of "\<lambda>w1. hailo_pcie_is_device_connected io (b_pcie_resources w1) (w_device w1)" "b_current_state w"] True
  show ?thesis by (simp add: open_device_def Let_def on_device_eq)
qed (simp add: open_device_def)

text \<open>
  What a successful open adds: the context and the waiting structure of the file, and the interrupt when no file had it. Its
  last part works on a board on which the context already is.
\<close>

definition nnc_opened :: "kernel \<Rightarrow> calls \<Rightarrow> resource multiset \<Rightarrow> resource multiset \<Rightarrow> 'd board_world \<Rightarrow> 'd board_world \<Rightarrow> bool" where
  "nnc_opened K cs0 old R w w' \<longleftrightarrow> (\<exists>n x. held K cs0 old (add_mset (Struct n) (irq_res (\<not> b_interrupts_enabled w) + R)) w' \<and>
     same_board w (w'\<lparr>b_nnc := b_nnc w, b_notification_waits := b_notification_waits w\<rparr>) \<and> b_pcie_resources w' = b_pcie_resources w \<and> b_interrupts_enabled w' \<and>
     nnc_notification_wait_list (b_nnc w') = n # nnc_notification_wait_list (b_nnc w) \<and> b_notification_waits w' = (b_notification_waits w)(n \<mapsto> x))"

lemma file_context_init_opened:
  assumes h: "held K cs0 old (irq_res (\<not> b_interrupts_enabled w) + R) w1" and s: "same_board w w1" "b_pcie_resources w1 = b_pcie_resources w"
    "b_contexts w1 = b_contexts w" "b_notification_waits w1 = b_notification_waits w" "b_interrupts_enabled w1"
    and t: "pr_accelerator_type (b_pcie_resources w) = HAILO_ACCELERATOR_TYPE_NNC"
  shows "post (file_context_init K e p w1) (\<lambda>_ w'. nnc_opened K cs0 old R w w') (\<lambda>_. True)"
proof (cases "b_contexts w1 p")
  case (Some c)
  show ?thesis
  proof (cases "k_kzalloc K (w_calls w1)")
    case n: (Some n)
    have "held K cs0 old (add_mset (Struct n) (irq_res (\<not> b_interrupts_enabled w) + R)) (call (Kzalloc (Some n)) w1)"
      using held_acquire [OF h, of "Kzalloc (Some n)"] n by simp
    then show ?thesis using n Some s t
      by (simp add: file_context_init_def context_of_def hailo_nnc_file_context_init_def add_notification_wait_def nnc_opened_def held_def same_board_def)
        (rule exI, rule refl)
  qed (use Some s t in \<open>simp add: file_context_init_def context_of_def hailo_nnc_file_context_init_def add_notification_wait_def\<close>)
qed (simp add: file_context_init_def context_of_def)

lemma open_enable_opened:
  assumes h: "held K cs0 old R w"
  shows "post (open_enable_interrupts io K w)
    (\<lambda>_ w'. held K cs0 old (irq_res (\<not> b_interrupts_enabled w) + R) w' \<and> same_board w w' \<and> b_pcie_resources w' = b_pcie_resources w \<and>
       b_contexts w' = b_contexts w \<and> b_notification_waits w' = b_notification_waits w \<and> b_interrupts_enabled w') (\<lambda>_. True)"
proof (cases "b_interrupts_enabled w")
  case True
  then show ?thesis using h by (simp add: open_enable_interrupts_def irq_res_def)
next
  case False
  show ?thesis using False enable_interrupts_held [OF h False, of io] enable_interrupts_contexts [of io K w]
    by (cases "hailo_enable_interrupts io K w"; cases "fst (hailo_enable_interrupts io K w)") (auto simp: open_enable_interrupts_def)
qed

lemma nnc_opened_cong: "nnc_opened K cs0 old R w1 w' \<Longrightarrow> unchanged w w1 \<Longrightarrow> nnc_opened K cs0 old R w w'"
  unfolding nnc_opened_def by (elim exE conjE, intro exI conjI) (auto simp: unchanged_def mapping_step_def same_board_def)

lemma open_device_opened:
  assumes h: "held K cs0 old R w" and t: "pr_accelerator_type (b_pcie_resources w) = HAILO_ACCELERATOR_TYPE_NNC"
  shows "post (open_device io K e p w) (\<lambda>_ w'. nnc_opened K cs0 old R w w') (\<lambda>_. True)"
proof -
  have init: "post (andthen (open_enable_interrupts io K w1) (\<lambda>b w. on_error (file_context_init K e p w) (undo b))) (\<lambda>_ w'. nnc_opened K cs0 old R w w') (\<lambda>_. True)"
    if w1: "held K cs0 old R w1" "unchanged w w1" for w1 undo
  proof -
    have t1: "pr_accelerator_type (b_pcie_resources w1) = HAILO_ACCELERATOR_TYPE_NNC" using w1(2) t by (simp add: unchanged_def)
    show ?thesis unfolding post_andthen post_on_error
    proof (rule post_mono [OF open_enable_opened [OF w1(1)]], goal_cases)
      case (1 b w2)
      then have "post (file_context_init K e p w2) (\<lambda>_ w'. nnc_opened K cs0 old R w1 w') (\<lambda>_. True)"
        using file_context_init_opened [of K cs0 old w1 R w2 e p] t1 by simp
      then show ?case by (rule post_mono) (use w1(2) nnc_opened_cong in \<open>auto simp: post_def split: prod.split result.split\<close>)
    qed simp
  qed
  have wake: "post (open_wake_up K w) (\<lambda>_ w'. held K cs0 old R w' \<and> unchanged w w') (\<lambda>w'. held K cs0 old R w' \<and> unchanged w w')"
    using open_power_held [OF h, of w PCI_D0] h by (simp add: open_wake_up_def)
  show ?thesis
  proof (cases "b_pDev w")
    case True
    have "post (andthen (open_wake_up K w) (\<lambda>_ w1. on_error (if \<not> fst (f w1) then (Err ENXIO, w1\<lparr>w_device := snd (f w1)\<rparr>)
          else andthen (open_enable_interrupts io K (w1\<lparr>w_device := snd (f w1)\<rparr>)) (\<lambda>b w. on_error (file_context_init K e p w)
            (\<lambda>w. (Ok (), if b then hailo_disable_interrupts io w else w)))) undo))
      (\<lambda>_ w'. nnc_opened K cs0 old R w w') (\<lambda>_. True)" for f undo
      unfolding post_andthen [of "open_wake_up K w"] post_on_error [of _ undo]
    proof (rule post_mono [OF wake], goal_cases)
      case (1 _ w1)
      then have "held K cs0 old R (w1\<lparr>w_device := snd (f w1)\<rparr>)" "unchanged w (w1\<lparr>w_device := snd (f w1)\<rparr>)" by (simp_all add: held_def)
      from init [OF this, of "\<lambda>b w. (Ok (), if b then hailo_disable_interrupts io w else w)"]
      show ?case by (auto elim!: post_mono simp: post_def split: prod.split result.split)
    qed simp
    from this [of "\<lambda>w1. hailo_pcie_is_device_connected io (b_pcie_resources w1) (w_device w1)" "open_revert_power K (b_current_state w)"] True
    show ?thesis by (simp add: open_device_def Let_def on_device_eq)
  qed (simp add: open_device_def)
qed

definition file_opened :: "kernel \<Rightarrow> ptr \<Rightarrow> 'd board_world \<Rightarrow> 'd board_world \<Rightarrow> bool" where
  "file_opened K filp w w' \<longleftrightarrow> (\<exists>p c n x. moves K (w_calls w) {#} ({#Struct n, Struct p#} + irq_res (\<not> b_interrupts_enabled w)) (w_calls w') \<and>
     k_kzalloc K (w_calls w) = Some p \<and> ctx_filp c = filp \<and> ctx_vdma_context c = hailo_vdma_file_context_init zero_context \<and>
     same_board w (w'\<lparr>b_nnc := b_nnc w, b_notification_waits := b_notification_waits w, b_open_files_list := b_open_files_list w,
       b_contexts := b_contexts w, b_ref_count := b_ref_count w\<rparr>) \<and>
     b_ref_count w' = b_ref_count w + 1 \<and> b_open_files_list w' = p # b_open_files_list w \<and> b_contexts w' = (b_contexts w)(p \<mapsto> c) \<and>
     b_pcie_resources w' = b_pcie_resources w \<and> b_interrupts_enabled w' \<and>
     nnc_notification_wait_list (b_nnc w') = n # nnc_notification_wait_list (b_nnc w) \<and> b_notification_waits w' = (b_notification_waits w)(n \<mapsto> x))"

lemma open_body_outcome:
  assumes fresh: "\<And>p. k_kzalloc K (w_calls w) = Some p \<Longrightarrow> b_contexts w p = None" and m: "w_board_mutex w \<noteq> 0"
  shows "post (finally_do (andthen (create_file_context K filp (w\<lparr>w_board_mutex := w_board_mutex w - 1, b_ref_count := b_ref_count w + 1\<rparr>))
      (\<lambda>p w. on_error (open_device io K e p w) (release_file_context p))) up_mutex)
    (\<lambda>_ w'. pr_accelerator_type (b_pcie_resources w) = HAILO_ACCELERATOR_TYPE_NNC \<longrightarrow> file_opened K filp w w')
    (\<lambda>w'. held K (w_calls w) {#} {#} w' \<and> unchanged w (w'\<lparr>b_ref_count := b_ref_count w' - 1\<rparr>))"
proof -
  let ?w = "w\<lparr>w_board_mutex := w_board_mutex w - 1, b_ref_count := b_ref_count w + 1\<rparr>"
  have start: "held K (w_calls w) {#} {#} w" by (simp add: held_def moves_refl)
  show ?thesis
  proof (cases "k_kzalloc K (w_calls w)")
    case None
    have "held K (w_calls w) {#} {#} (call (Kzalloc None) w)" using start by (rule held_quiet) (use None in simp_all)
    then show ?thesis using None m by (simp add: create_file_context_def held_def up_mutex_def unchanged_def mapping_step_def same_board_def)
  next
    case (Some p)
    define c where "c = zero_file_context\<lparr>ctx_filp := filp, ctx_vdma_context := hailo_vdma_file_context_init zero_context, ctx_is_valid := True\<rparr>"
    let ?w3 = "(call (Kzalloc (Some p)) ?w)\<lparr>b_contexts := (b_contexts w)(p \<mapsto> c), b_open_files_list := p # b_open_files_list w\<rparr>"
    have z: "ctx_vdma_context zero_file_context = zero_context" by (simp add: zero_file_context_def zero_context_def)
    have c: "create_file_context K filp ?w = (Ok p, ?w3)" using Some by (simp add: create_file_context_def Let_def c_def z)
    have "held K (w_calls w) {#} {#Struct p#} (call (Kzalloc (Some p)) w)" using held_acquire [OF start, of "Kzalloc (Some p)"] Some by simp
    then have h3: "held K (w_calls w) {#} {#Struct p#} ?w3" by (simp add: held_def)
    have good: "post (open_device io K e p ?w3) (\<lambda>_ w'. file_opened K filp w (up_mutex w')) (\<lambda>_. True)"
      if "pr_accelerator_type (b_pcie_resources w) = HAILO_ACCELERATOR_TYPE_NNC"
    proof (rule post_mono [OF open_device_opened [OF h3]], goal_cases)
      case (2 x w4)
      then obtain n y where n: "held K (w_calls w) {#} (add_mset (Struct n) (irq_res (\<not> b_interrupts_enabled w) + {#Struct p#})) w4"
          "same_board ?w3 (w4\<lparr>b_nnc := b_nnc w, b_notification_waits := b_notification_waits w\<rparr>)" "b_pcie_resources w4 = b_pcie_resources w" "b_interrupts_enabled w4"
          "nnc_notification_wait_list (b_nnc w4) = n # nnc_notification_wait_list (b_nnc w)" "b_notification_waits w4 = (b_notification_waits w)(n \<mapsto> y)"
        by (auto simp: nnc_opened_def)
      show ?case unfolding file_opened_def
        by (rule exI [of _ p], rule exI [of _ c], rule exI [of _ n], rule exI [of _ y])
          (use n Some m in \<open>simp add: held_def c_def up_mutex_def same_board_def add_mset_commute\<close>)
    qed (use that in simp_all)
    have bad: "post (open_device io K e p ?w3) (\<lambda>_ _. True)
      (\<lambda>w'. post (release_file_context p w') (\<lambda>_ w'. held K (w_calls w) {#} {#} (up_mutex w') \<and> unchanged w ((up_mutex w')\<lparr>b_ref_count := b_ref_count (up_mutex w') - 1\<rparr>))
         (\<lambda>_. True))"
    proof (rule post_mono [OF open_device_held [OF h3]], goal_cases)
      case (2 w4)
      have "moves K (w_calls w) {#} {#} (Kfree p # w_calls w4)" using 2 unfolding held_def by (intro moves_release [of K _ "{#}" "{#Struct p#}"]) simp_all
      moreover have "(b_contexts w4)(p := None) = b_contexts w" using 2 fresh [OF Some] by (auto simp: unchanged_def mapping_step_def same_board_def)
      ultimately show ?case using 2 m
        by (simp add: release_file_context_def held_def up_mutex_def unchanged_def mapping_step_def same_board_def split: option.split)
    qed simp
    show ?thesis unfolding c andthen_simps post_finally_do post_on_error
      using good bad by (cases "open_device io K e p ?w3"; cases "fst (open_device io K e p ?w3)")
        (auto elim!: post_mono simp: release_file_context_def split: option.splits)
  qed
qed

lemma open_outcome:
  assumes fresh: "\<And>p. k_kzalloc K (w_calls w) = Some p \<Longrightarrow> b_contexts w p = None"
  shows "post (hailo_pcie_fops_open io K e minor filp w)
    (\<lambda>_ w'. pr_accelerator_type (b_pcie_resources w) = HAILO_ACCELERATOR_TYPE_NNC \<longrightarrow> file_opened K filp w w')
    (\<lambda>w'. held K (w_calls w) {#} {#} w' \<and> unchanged w w')"
proof -
  let ?w = "w\<lparr>b_ref_count := b_ref_count w + 1\<rparr>"
  consider "b_add_board_mutex w = 0" | "b_add_board_mutex w \<noteq> 0" "board_lookup minor (b_board_list w) \<noteq> Some (b_self w)"
    | "b_add_board_mutex w \<noteq> 0" "board_lookup minor (b_board_list w) = Some (b_self w)" by blast
  then show ?thesis
  proof cases
    case 3
    then have g: "hailo_pcie_get_board_index minor w = (Ok True, ?w)"
      by (simp add: hailo_pcie_get_board_index_def step_r_def down_add_board_def up_add_board_def)
    consider "\<not> e_lock_ok e" | "e_lock_ok e" "w_board_mutex w = 0" | "e_lock_ok e" "w_board_mutex w \<noteq> 0" by blast
    then show ?thesis
    proof cases
      case 1
      then show ?thesis by (simp add: hailo_pcie_fops_open_def g held_def moves_refl)
    next
      case 2
      then show ?thesis by (simp add: hailo_pcie_fops_open_def g step_r_def down_mutex_def)
    next
      case m: 3
      have d: "step_r down_mutex ?w = (Ok (), w\<lparr>w_board_mutex := w_board_mutex w - 1, b_ref_count := b_ref_count w + 1\<rparr>)"
        using m by (simp add: step_r_def down_mutex_def)
      have "hailo_pcie_fops_open io K e minor filp w = on_error (finally_do (andthen (create_file_context K filp
          (w\<lparr>w_board_mutex := w_board_mutex w - 1, b_ref_count := b_ref_count w + 1\<rparr>))
          (\<lambda>p w. on_error (open_device io K e p w) (release_file_context p))) up_mutex) (\<lambda>w. (Ok (), w\<lparr>b_ref_count := b_ref_count w - 1\<rparr>))"
        using m by (simp add: hailo_pcie_fops_open_def g d)
      then show ?thesis using open_body_outcome [OF fresh m(2), of K filp io e]
        by (auto simp: post_on_error held_def elim!: post_mono)
    qed
  next
    case 2
    then show ?thesis
      by (simp add: hailo_pcie_fops_open_def hailo_pcie_get_board_index_def step_r_def down_add_board_def up_add_board_def held_def moves_refl)
  qed (simp add: hailo_pcie_fops_open_def hailo_pcie_get_board_index_def step_r_def down_add_board_def)
qed

text \<open>C11: an open that fails - because the board is gone, the wait for its semaphore is interrupted, memory is short, the device does not
  wake up or does not answer, or its interrupt cannot be had - leaves no trace: every resource taken is given back exactly once, the
  reference count, the list of open files and their contexts, the waiting threads, the interrupt, the list of boards and the
  structures of the vDMA are as before.\<close>

theorem failed_open_restores:
  assumes "hailo_pcie_fops_open io K e minor filp w = (Err x, w')" and "\<And>p. k_kzalloc K (w_calls w) = Some p \<Longrightarrow> b_contexts w p = None"
  shows "moves K (w_calls w) {#} {#} (w_calls w') \<and> b_ref_count w' = b_ref_count w \<and> b_open_files_list w' = b_open_files_list w \<and>
    b_contexts w' = b_contexts w \<and> b_notification_waits w' = b_notification_waits w \<and> b_nnc w' = b_nnc w \<and>
    b_interrupts_enabled w' = b_interrupts_enabled w \<and> b_board_list w' = b_board_list w \<and> w_buffers w' = w_buffers w \<and>
    w_desc_buffers w' = w_desc_buffers w \<and> w_low_buffers w' = w_low_buffers w \<and> w_cont_buffers w' = w_cont_buffers w"
  using open_outcome [OF assms(2), of K io e minor filp] unfolding assms(1)
  by (simp add: held_def unchanged_def mapping_step_def same_board_def)

theorem failed_open_restores_witness:
  "\<exists>w'. hailo_pcie_fops_open sample_io sample_kernel sample_caller 0 7 probed = (Err ENXIO, w') \<and> b_ref_count w' = 0 \<and> b_open_files_list w' = [] \<and>
    moves sample_kernel (w_calls probed) {#} {#} (w_calls w')"
proof -
  have "hailo_pcie_is_device_connected sample_io r d = (False, ())" for r d
    by (simp add: hailo_pcie_is_device_connected_def hailo_resource_read16_def sample_io_def PCI_VENDOR_ID_HAILO_def READ_BITS_AT_OFFSET_def)
  then have "fst (hailo_pcie_fops_open sample_io sample_kernel sample_caller 0 7 probed) = Err ENXIO"
    by (simp add: hailo_pcie_fops_open_def hailo_pcie_get_board_index_def step_r_def down_add_board_def board_lookup_def up_add_board_def
        down_mutex_def create_file_context_def Let_def call_def open_device_def open_wake_up_def on_device_def open_revert_power_def
        release_file_context_def up_mutex_def)
  then obtain w' where w': "hailo_pcie_fops_open sample_io sample_kernel sample_caller 0 7 probed = (Err ENXIO, w')"
    by (cases "hailo_pcie_fops_open sample_io sample_kernel sample_caller 0 7 probed") auto
  from failed_open_restores [OF this] show ?thesis by (simp add: w')
qed

end
