(* ===== verification/Pcie_Session.thy ===== *)
theory Pcie_Session
  imports Pcie_Access
begin

text \<open>
  The whole driver on one board: after a probe, files are opened, send any request, map memory and are closed while the device
  interrupts, the system suspends and resumes and a reset is prepared. The invariant of the board joins the state of the PCIe part
  (contexts, waiting threads, reference count, interrupt) with the ownership of the vDMA part, and every operation keeps it.
\<close>

section \<open>The invariant of a board\<close>

text \<open>The open files of the board, as the vDMA part knows them, and the structures of the PCIe part.\<close>

definition context_file :: "hailo_file_context option \<Rightarrow> ptr \<times> hailo_vdma_file_context" where
  "context_file c = (ctx_filp (the c), ctx_vdma_context (the c))"

definition board_files :: "'d board_world \<Rightarrow> files" where
  "board_files w = map (\<lambda>p. context_file (b_contexts w p)) (b_open_files_list w)"

definition waiting :: "'d board_world \<Rightarrow> ptr list" where
  "waiting w = nnc_notification_wait_list (b_nnc w)"

definition structs :: "ptr list \<Rightarrow> resource multiset" where
  "structs ps = image_mset Struct (mset ps)"

definition own_resources :: "'d board_world \<Rightarrow> resource multiset" where
  "own_resources w = structs (b_open_files_list w) + structs (waiting w) + irq_res (b_interrupts_enabled w) + class_res w + board_resources w"

text \<open>
  The semaphore stands at \<open>m\<close>. Each open file has a live context, each waiting thread a live structure; the reference count is
  the number of open files, without which the interrupt is off; and the kernel holds what the board, its files and their vDMA
  structures stand for (and possibly more, which no structure names any longer).
\<close>

definition board_core :: "kernel \<Rightarrow> nat \<Rightarrow> 'd board_world \<Rightarrow> bool" where
  "board_core K m w \<longleftrightarrow> b_alive w \<and> b_pDev w \<and> w_board_mutex w = m \<and> 0 < b_add_board_mutex w \<and>
     pr_accelerator_type (b_pcie_resources w) = HAILO_ACCELERATOR_TYPE_NNC \<and>
     (\<forall>p. b_contexts w p \<noteq> None \<longleftrightarrow> p \<in> set (b_open_files_list w)) \<and> (\<forall>p. b_notification_waits w p \<noteq> None \<longleftrightarrow> p \<in> set (waiting w)) \<and>
     (\<exists>leak. files_inv K (board_files w) w (own_resources w + leak))"

definition board_inv :: "kernel \<Rightarrow> nat \<Rightarrow> 'd board_world \<Rightarrow> bool" where
  "board_inv K m w \<longleftrightarrow> board_core K m w \<and> b_ref_count w = int (length (b_open_files_list w)) \<and> (b_interrupts_enabled w \<longrightarrow> b_open_files_list w \<noteq> [])"

text \<open>A step that concerns neither the structures nor the resources: completions, messages to the device, the vDMA engines.\<close>

definition aside :: "kernel \<Rightarrow> 'd board_world \<Rightarrow> 'd board_world \<Rightarrow> bool" where
  "aside K w w' \<longleftrightarrow> world_quiet K w w' \<and> b_self w' = b_self w \<and> b_alive w' = b_alive w \<and> b_pDev w' = b_pDev w \<and> w_board_mutex w' = w_board_mutex w \<and>
     b_add_board_mutex w' = b_add_board_mutex w \<and> b_pcie_resources w' = b_pcie_resources w \<and> b_open_files_list w' = b_open_files_list w \<and>
     (\<forall>p. (b_contexts w' p = None \<longleftrightarrow> b_contexts w p = None) \<and> context_file (b_contexts w' p) = context_file (b_contexts w p)) \<and> waiting w' = waiting w \<and>
     (\<forall>p. b_notification_waits w' p = None \<longleftrightarrow> b_notification_waits w p = None) \<and> b_ref_count w' = b_ref_count w \<and>
     b_interrupts_enabled w' = b_interrupts_enabled w \<and> b_chrdev_class w' = b_chrdev_class w \<and> b_board_index w' = b_board_index w"

lemma aside_refl [simp]: "aside K w w"
  by (simp add: aside_def)

lemma aside_trans: "aside K a b \<Longrightarrow> aside K b c \<Longrightarrow> aside K a c"
  by (auto simp: aside_def intro: world_quiet_trans)

lemma aside_core:
  assumes "board_core K m w" "aside K w w'"
  shows "board_core K m w'"
proof -
  have a: "world_quiet K w w'" "board_files w' = board_files w" "own_resources w' = own_resources w"
    using assms(2) by (auto simp: aside_def board_files_def own_resources_def class_res_def board_resources_def bars_def)
  from assms(1) obtain leak where "files_inv K (board_files w) w (own_resources w + leak)" by (auto simp: board_core_def)
  then have "files_inv K (board_files w') w' (own_resources w' + leak)" unfolding a(2,3) using a(1) by (rule quiet_files_inv)
  then show ?thesis using assms by (auto simp: board_core_def aside_def)
qed

lemma board_inv_core: "board_inv K m w \<Longrightarrow> board_core K m w"
  by (simp add: board_inv_def)

lemma aside_inv: "board_inv K m w \<Longrightarrow> aside K w w' \<Longrightarrow> board_inv K m w'"
  using aside_core [of K m w w'] by (auto simp: board_inv_def aside_def)

lemma quiet_fields [simp]:
  "world_quiet K w (w'\<lparr>b_nnc := x1\<rparr>) \<longleftrightarrow> world_quiet K w w'" "world_quiet K w (w'\<lparr>b_notification_waits := x2\<rparr>) \<longleftrightarrow> world_quiet K w w'"
  "world_quiet K w (w'\<lparr>b_driver_down_reset_completed := x3\<rparr>) \<longleftrightarrow> world_quiet K w w'" "world_quiet K w (w'\<lparr>b_fw_boot := x4\<rparr>) \<longleftrightarrow> world_quiet K w w'"
  "world_quiet K w (w'\<lparr>b_soft_reset_completed := x5\<rparr>) \<longleftrightarrow> world_quiet K w w'" "world_quiet K w (w'\<lparr>b_soc := x6\<rparr>) \<longleftrightarrow> world_quiet K w w'"
  "world_quiet K w (w'\<lparr>b_contexts := x7\<rparr>) \<longleftrightarrow> world_quiet K w w'" "world_quiet K w (w'\<lparr>b_ref_count := x8\<rparr>) \<longleftrightarrow> world_quiet K w w'"
  "world_quiet K w (w'\<lparr>b_interrupts_enabled := x9\<rparr>) \<longleftrightarrow> world_quiet K w w'" "world_quiet K w (w'\<lparr>b_current_state := x10\<rparr>) \<longleftrightarrow> world_quiet K w w'"
  by (simp_all add: world_quiet_def)

lemma aside_updates [simp]:
  "aside K w (w'\<lparr>w_device := d\<rparr>) \<longleftrightarrow> aside K w w'" "aside K w (w'\<lparr>b_driver_down_reset_completed := c\<rparr>) \<longleftrightarrow> aside K w w'"
  "aside K w (poke_device f w') \<longleftrightarrow> aside K w w'" "aside K w (set_control_completion x w') \<longleftrightarrow> aside K w w'"
  "aside K w (set_command cmd w') \<longleftrightarrow> aside K w w'" "aside K w (set_driver_down_completion c w') \<longleftrightarrow> aside K w w'"
  "aside K w (w'\<lparr>b_soft_reset_completed := c\<rparr>) \<longleftrightarrow> aside K w w'" "aside K w (w'\<lparr>b_fw_boot := bt\<rparr>) \<longleftrightarrow> aside K w w'"
  "aside K w (w'\<lparr>b_soc := so\<rparr>) \<longleftrightarrow> aside K w w'" "aside K w (w'\<lparr>b_current_state := st\<rparr>) \<longleftrightarrow> aside K w w'"
  "aside K w (put_notification_completion p x w') \<longleftrightarrow> aside K w w'"
  by (auto simp: aside_def poke_device_eq waiting_def set_control_completion_def set_command_def set_driver_down_completion_def
      put_notification_completion_def fun_upd_def split: if_splits)

lemma aside_nnc: "aside K w w' \<Longrightarrow> nnc_notification_wait_list x = nnc_notification_wait_list (b_nnc w') \<Longrightarrow> aside K w (w'\<lparr>b_nnc := x\<rparr>)"
  by (simp add: aside_def waiting_def)

text \<open>A step of the vDMA part that is quiet and stays inside.\<close>

lemma outside_fields:
  assumes "outside w' = outside w"
  shows "b_self w' = b_self w" "b_alive w' = b_alive w" "b_pDev w' = b_pDev w" "w_board_mutex w' = w_board_mutex w"
     "b_add_board_mutex w' = b_add_board_mutex w" "b_pcie_resources w' = b_pcie_resources w" "b_open_files_list w' = b_open_files_list w"
     "b_contexts w' = b_contexts w" "b_nnc w' = b_nnc w" "b_notification_waits w' = b_notification_waits w" "b_ref_count w' = b_ref_count w"
     "b_interrupts_enabled w' = b_interrupts_enabled w" "b_chrdev_class w' = b_chrdev_class w" "b_board_index w' = b_board_index w"
     "b_board_list w' = b_board_list w"
  using assms by (cases w, cases w', simp add: outside_def)+

lemma aside_outside: "world_quiet K w w' \<Longrightarrow> outside w' = outside w \<Longrightarrow> aside K w w'"
  using outside_fields [of w' w] by (simp add: aside_def waiting_def)

lemma board_inv_up: "board_inv K m w \<Longrightarrow> board_inv K (Suc m) (up_mutex w)"
  by (auto simp: board_inv_def board_core_def up_mutex_def board_files_def own_resources_def class_res_def board_resources_def bars_def waiting_def
      files_inv_def total_resources_def file_resources_def file_ok_def cong: map_cong)

lemma board_inv_down: "board_inv K (Suc m) w \<Longrightarrow> \<exists>w'. down_mutex w = Ok w' \<and> board_inv K m w'"
  by (auto simp: board_inv_def board_core_def down_mutex_def board_files_def own_resources_def class_res_def board_resources_def bars_def waiting_def
      files_inv_def total_resources_def file_resources_def file_ok_def cong: map_cong)

section \<open>Structures are held once\<close>

lemma count_structs: "count (structs ps) (Struct p) = count (mset ps) p"
  by (induction ps) (auto simp: structs_def)

lemma structs_simps [simp]: "structs [] = {#}" "structs (p # ps) = add_mset (Struct p) (structs ps)"
  by (simp_all add: structs_def)

lemma structs_remove1: "p \<in> set ps \<Longrightarrow> structs ps = add_mset (Struct p) (structs (remove1 p ps))"
  by (induction ps) auto

lemma distinct_countI:
  assumes "\<And>p. count (mset ps) p \<le> 1"
  shows "distinct ps"
proof -
  have "count (mset ps) a = 1" if "a \<in> set ps" for a using assms [of a] that by (simp add: le_Suc_eq count_mset_0_iff)
  then show ?thesis by (auto simp: distinct_count_atmost_1 count_mset_0_iff)
qed

lemma board_core_once:
  assumes "kernel_fresh K" "board_core K m w"
  shows "count (own_resources w) (Struct p) \<le> 1" "distinct (b_open_files_list w)" "distinct (waiting w)"
    "k_kzalloc K (w_calls w) = Some p \<Longrightarrow> Struct p \<notin># own_resources w"
proof -
  obtain leak where i: "files_inv K (board_files w) w (own_resources w + leak)" using assms(2) by (auto simp: board_core_def)
  have le: "count (own_resources w) (Struct p) \<le> 1" for p
  proof -
    have "count (total_resources (board_files w) w + (own_resources w + leak)) (Struct p) \<le> 1"
      using i struct_held_once [OF assms(1)] unfolding files_inv_def by blast
    then show ?thesis by simp
  qed
  then show "count (own_resources w) (Struct p) \<le> 1" .
  have "count (mset (b_open_files_list w)) p + count (mset (waiting w)) p \<le> 1" for p
    using le [of p] by (simp add: own_resources_def count_structs)
  then have "count (mset (b_open_files_list w)) p \<le> 1" "count (mset (waiting w)) p \<le> 1" for p
    by (meson add_leD1 add_leD2)+
  then show "distinct (b_open_files_list w)" "distinct (waiting w)"
    using distinct_countI by blast+
  show "Struct p \<notin># own_resources w" if "k_kzalloc K (w_calls w) = Some p"
    using i assms(1) that unfolding files_inv_def kernel_fresh_def by (metis in_diffD union_iff)
qed

lemma board_core_fresh:
  assumes "kernel_fresh K" "board_core K m w" "k_kzalloc K (w_calls w) = Some p"
  shows "p \<notin> set (b_open_files_list w)" "b_contexts w p = None"
proof -
  have "Struct p \<notin># own_resources w" using board_core_once(4) [OF assms] .
  then show "p \<notin> set (b_open_files_list w)" by (auto simp: own_resources_def structs_def)
  then show "b_contexts w p = None" using assms(2) by (auto simp: board_core_def)
qed

text \<open>The vDMA part does not see a change of the other resources.\<close>

lemma files_inv_moves:
  fixes w w' :: "('d, 'x) vdma_world_scheme"
  assumes i: "files_inv K files w (old + R)" and m: "moves K (w_calls w) old new (w_calls w')"
    and h: "w_buffers w' = w_buffers w" "w_desc_buffers w' = w_desc_buffers w" "w_low_buffers w' = w_low_buffers w" "w_cont_buffers w' = w_cont_buffers w"
      "w_lists w' = w_lists w"
  shows "files_inv K files w' (new + R)"
proof -
  have "same_elsewhere (total_resources files w) w w'" using h by (simp add: same_elsewhere_def)
  note t = total_same_elsewhere [OF this]
  have "ledger (w_calls w) = Some (old + (total_resources files w + R))" using i by (simp add: files_inv_def ac_simps)
  then have "ledger (w_calls w') = Some (new + (total_resources files w + R))" using m by (simp add: moves_def)
  then show ?thesis using i t m by (auto simp: files_inv_def moves_def ac_simps)
qed

section \<open>Opening a file\<close>

lemma open_inv:
  assumes K: "kernel_fresh K" and i: "board_inv K m w" and f: "filp \<notin> fst ` set (board_files w)"
  shows "post (hailo_pcie_fops_open io K e minor filp w) (\<lambda>_ w'. board_inv K m w') (\<lambda>w'. board_inv K m w')"
proof (rule post_mono [OF open_outcome [OF board_core_fresh(2) [OF K board_inv_core [OF i]]]], goal_cases)
  case (2 x w')
  have t: "pr_accelerator_type (b_pcie_resources w) = HAILO_ACCELERATOR_TYPE_NNC" using i by (simp add: board_inv_def board_core_def)
  obtain leak where l: "files_inv K (board_files w) w (own_resources w + leak)" using i by (auto simp: board_inv_def board_core_def)
  from 2 t obtain p c n y where o: "moves K (w_calls w) {#} ({#Struct n, Struct p#} + irq_res (\<not> b_interrupts_enabled w)) (w_calls w')"
     "k_kzalloc K (w_calls w) = Some p" "ctx_filp c = filp" "ctx_vdma_context c = hailo_vdma_file_context_init zero_context"
     "same_board w (w'\<lparr>b_nnc := b_nnc w, b_notification_waits := b_notification_waits w, b_open_files_list := b_open_files_list w, b_contexts := b_contexts w, b_ref_count := b_ref_count w\<rparr>)"
     "b_ref_count w' = b_ref_count w + 1" "b_open_files_list w' = p # b_open_files_list w" "b_contexts w' = (b_contexts w)(p \<mapsto> c)"
     "b_pcie_resources w' = b_pcie_resources w" "b_interrupts_enabled w'"
     "waiting w' = n # waiting w" "b_notification_waits w' = (b_notification_waits w)(n \<mapsto> y)"
    unfolding file_opened_def waiting_def by blast
  have fresh: "p \<notin> set (b_open_files_list w)" using board_core_fresh(1) [OF K board_inv_core [OF i] o(2)] .
  then have files: "board_files w' = (filp, hailo_vdma_file_context_init zero_context) # board_files w"
    using o by (auto simp: board_files_def context_file_def)
  have b: "same_board w (w'\<lparr>b_nnc := b_nnc w, b_notification_waits := b_notification_waits w, b_open_files_list := b_open_files_list w, b_contexts := b_contexts w, b_ref_count := b_ref_count w\<rparr>)"
    by (rule o(5))
  have "files_inv K (board_files w) w' (({#Struct n, Struct p#} + irq_res (\<not> b_interrupts_enabled w)) + (own_resources w + leak))"
    by (rule files_inv_moves [where old = "{#}"]) (use l o(1) b in \<open>simp_all add: same_board_def\<close>)
  moreover have "own_resources w' = {#Struct n, Struct p#} + irq_res (\<not> b_interrupts_enabled w) + own_resources w"
    using o b by (simp add: own_resources_def irq_res_def class_res_def board_resources_def bars_def same_board_def)
  ultimately have "files_inv K (board_files w') w' (own_resources w' + leak)"
    using f by (auto simp: files files_inv_def total_resources_Cons new_file_ok new_file_resources ac_simps)
  then show ?case using i o b by (auto simp: board_inv_def board_core_def same_board_def)
next
  case (3 w')
  then have "aside K w w'" by (auto simp: aside_def world_quiet_def unchanged_def mapping_step_def same_board_def held_def waiting_def)
  then show ?case by (rule aside_inv [OF i])
qed simp

section \<open>Requests of the firmware\<close>

text \<open>
  The environment of a call keeps the invariant while the call waits: with the semaphore free when the call has released it, and
  with the semaphore taken when it sleeps holding it.
\<close>

definition board_env :: "kernel \<Rightarrow> 'd caller \<Rightarrow> bool" where
  "board_env K e \<longleftrightarrow> (\<forall>m w. board_inv K m w \<longrightarrow>
     board_inv K m (e_others e w) \<and> board_inv K m (e_sleep e w) \<and> board_inv K m (snd (e_wait_event e w)))"

lemma board_envD:
  assumes "board_env K e" "board_inv K m w"
  shows "board_inv K m (e_others e w)" "board_inv K m (e_sleep e w)" "board_inv K m (snd (e_wait_event e w))"
  using assms by (auto simp: board_env_def)

abbreviation keeps_inv :: "kernel \<Rightarrow> nat \<Rightarrow> 'a result \<times> 'd board_world \<Rightarrow> bool" where
  "keeps_inv K m rw \<equiv> post rw (\<lambda>_. board_inv K m) (board_inv K m)"

lemma board_inv_device: "board_inv K m w \<Longrightarrow> board_inv K m (w\<lparr>w_device := d\<rparr>)"
  by (erule aside_inv) simp

lemma keeps_device: "board_inv K m w \<Longrightarrow> keeps_inv K m (on_device f w)"
  by (simp add: on_device_eq post_result board_inv_device split: result.split)

lemma wait_completion_inv:
  assumes "board_env K e" "board_inv K m w" "\<And>c w. aside K w (put c w)"
  shows "board_inv K m (snd (wait_for_completion get put e w))"
  using board_envD(2) [OF assms(1,2)] aside_inv [OF _ assms(3)] by (auto simp: wait_for_completion_def Let_def)

lemma exchange_inv:
  assumes e: "board_env K e" and i: "board_inv K m w"
  shows "keeps_inv K m (exchange_control io e w)"
proof -
  have answer: "keeps_inv K m (let (completed, w) = wait_for_completion (\<lambda>w. nnc_fw_control_completion (b_nnc w)) set_control_completion e w
     in if \<not> completed then (Err (if e_killed e then EINTR else ETIMEDOUT), w)
        else let ((r, command), w) = on_device (\<lambda>d. case hailo_pcie_read_firmware_control io (b_pcie_resources w) (nnc_fw_control_command (b_nnc w))
                                             (e_ptr e) (e_ptr e) d of (r, c, d1) \<Rightarrow> ((r, c), d1)) w;
                 w = set_command command w
             in andthen (r, w) (\<lambda>_ w. (if e_out_ok e then Ok command else Err ENOMEM, w)))"
    if "board_inv K m w" for w
  proof -
    obtain ready w1 where w1: "wait_for_completion (\<lambda>w. nnc_fw_control_completion (b_nnc w)) set_control_completion e w = (ready, w1)" by fastforce
    have i1: "board_inv K m w1" using wait_completion_inv [OF e that, of set_control_completion "\<lambda>w. nnc_fw_control_completion (b_nnc w)"] w1 by simp
    have "board_inv K m (set_command c (w1\<lparr>w_device := d\<rparr>))" for c d by (rule aside_inv [OF i1]) simp
    then show ?thesis using w1 i1 by (auto simp: on_device_eq split_beta Let_def post_andthen post_result split: result.split)
  qed
  have "board_inv K m (set_control_completion c w)" for c by (rule aside_inv [OF i]) simp
  then show ?thesis unfolding exchange_control_def post_andthen by (rule post_mono [OF keeps_device]) (use answer in auto)
qed

text \<open>The requests return, next to the state, whether the caller still has to release the semaphore.\<close>

definition released :: "nat \<Rightarrow> bool \<Rightarrow> nat" where
  "released m up = (if up then m else Suc m)"

lemma board_inv_nnc:
  "board_inv K m w \<Longrightarrow> nnc_notification_wait_list x = nnc_notification_wait_list (b_nnc w) \<Longrightarrow> board_inv K m (w\<lparr>b_nnc := x\<rparr>)"
  by (erule aside_inv) (simp add: aside_nnc)

lemma fw_control_inv:
  assumes e: "board_env K e" and i: "board_inv K m w" and r: "hailo_fw_control_ioctl io e p arg w = (r, w', up)" "\<not> is_fault r"
  shows "board_inv K (released m up) w'"
proof -
  let ?w = "e_others e (up_mutex w)"
  let ?w1 = "?w\<lparr>b_nnc := (b_nnc ?w)\<lparr>nnc_fw_control_mutex := nnc_fw_control_mutex (b_nnc ?w) - Suc 0\<rparr>\<rparr>"
  have i0: "board_inv K (Suc m) ?w" by (rule board_envD(1) [OF e board_inv_up [OF i]])
  then have i1: "board_inv K (Suc m) ?w1" by (intro board_inv_nnc) simp_all
  have pre: "keeps_inv K (Suc m) (preprocess_command p (set_command c ?w1))" for c
  proof -
    have "board_inv K (Suc m) (set_command c' (set_command c ?w1))" for c' by (rule aside_inv [OF i1]) simp
    then show ?thesis by (auto simp: preprocess_command_def post_andthen post_result context_of_def split_beta Let_def split: option.split result.split)
  qed
  have "keeps_inv K (Suc m) (case arg of None \<Rightarrow> (Err ENOMEM, ?w1)
      | Some c \<Rightarrow> andthen (preprocess_command p (set_command c ?w1)) (\<lambda>_ w. exchange_control io e w))"
    using i1 post_mono [OF pre] exchange_inv [OF e] by (auto simp: post_andthen split: option.split)
  then have "keeps_inv K (Suc m) (finally_do (case arg of None \<Rightarrow> (Err ENOMEM, ?w1)
      | Some c \<Rightarrow> andthen (preprocess_command p (set_command c ?w1)) (\<lambda>_ w. exchange_control io e w))
      (\<lambda>w. w\<lparr>b_nnc := (b_nnc w)\<lparr>nnc_fw_control_mutex := Suc (nnc_fw_control_mutex (b_nnc w))\<rparr>\<rparr>))"
    unfolding post_finally_do by (rule post_mono) (auto intro: board_inv_nnc)
  then show ?thesis using r i0
    by (cases r) (auto simp: hailo_fw_control_ioctl_def Let_def released_def split: if_splits prod.splits)
qed

lemma modify_wait_aside:
  assumes "modify_wait f p w = Ok w'"
  shows "aside K w w'"
  using assms by (auto simp: modify_wait_def aside_def waiting_def split: option.splits if_splits)

lemma modify_waits_aside:
  assumes "for_each (modify_wait f) ps w = Ok w'"
  shows "aside K w w'"
  by (rule for_each_induct [OF assms, of "aside K w"]) (auto intro: aside_trans modify_wait_aside)

lemma deliver_inv:
  assumes i: "board_inv K m w"
  shows "keeps_inv K m (deliver_notification e p w)"
proof -
  have "board_inv K m (put_notification_completion p x w)" for x by (rule aside_inv [OF i]) simp
  then have "board_inv K m ((put_notification_completion p x w)\<lparr>b_nnc := (b_nnc (put_notification_completion p x w))\<lparr>nnc_notification_to_user := u\<rparr>\<rparr>)" for x u
    by (rule board_inv_nnc) simp
  then show ?thesis using i \<open>\<And>x. board_inv K m (put_notification_completion p x w)\<close>
    by (auto simp: deliver_notification_def post_andthen post_result wait_of_def split: option.split result.split)
qed

lemma read_notification_inv:
  assumes e: "board_env K e" and i: "board_inv K m w" and r: "hailo_read_notification_ioctl e f w = (r, w', up)" "\<not> is_fault r"
  shows "board_inv K (released m up) w'"
proof (cases "hailo_get_notification_wait_thread e f w")
  case (Ok p)
  obtain ready w1 where w1: "wait_for_completion (get_notification_completion p) (put_notification_completion p) e (up_mutex w) = (ready, w1)" by fastforce
  have i1: "board_inv K (Suc m) w1"
    using wait_completion_inv [OF e board_inv_up [OF i], of "put_notification_completion p" "get_notification_completion p"] w1 by simp
  then have i2: "board_inv K (Suc m) (e_others e w1)" by (rule board_envD(1) [OF e])
  then obtain w2 where w2: "down_mutex (e_others e w1) = Ok w2" "board_inv K m w2" using board_inv_down by blast
  show ?thesis using r Ok w1 w2(1) i1 i2 deliver_inv [OF w2(2), of e p]
    by (cases r) (auto simp: hailo_read_notification_ioctl_def released_def Let_def split: if_splits prod.splits)
qed (use r i in \<open>auto simp: hailo_read_notification_ioctl_def released_def\<close>)

lemma disable_notification_inv: "board_inv K m w \<Longrightarrow> keeps_inv K m (hailo_disable_notification e f w)"
  by (auto simp: hailo_disable_notification_def post_andthen post_result post_step_r split: option.split result.split
      intro: aside_inv [OF _ modify_wait_aside])

lemma read_log_inv: "board_inv K m w \<Longrightarrow> keeps_inv K m (hailo_read_log_ioctl io e arg w)"
  by (auto simp: hailo_read_log_ioctl_def post_andthen split: option.split intro!: post_mono [OF keeps_device])

lemma keeps_released: "keeps_inv K m h \<Longrightarrow> h = (r, w') \<Longrightarrow> \<not> is_fault r \<Longrightarrow> board_inv K (released m True) w'"
  by (cases r) (auto simp: released_def)

lemma nnc_ioctl_inv:
  assumes e: "board_env K e" and i: "board_inv K m w" and r: "hailo_nnc_ioctl io e p f req w = (r, w', up)" "\<not> is_fault r"
  shows "board_inv K (released m up) w'"
proof (cases req)
  case (HAILO_FW_CONTROL a)
  then show ?thesis using r fw_control_inv [OF e i, of io p a] by (auto split: prod.splits)
next
  case HAILO_READ_NOTIFICATION
  then show ?thesis using r read_notification_inv [OF e i, of f] by (auto split: prod.splits)
next
  case HAILO_DISABLE_NOTIFICATION
  then show ?thesis using r keeps_released [OF disable_notification_inv [OF i, of e f]] by (auto split: prod.splits)
next
  case (HAILO_READ_LOG a)
  then show ?thesis using r keeps_released [OF read_log_inv [OF i, of io e a]] by (auto split: prod.splits)
next
  case (HAILO_NNC_OTHER n)
  then show ?thesis using r i by (auto simp: released_def)
qed

section \<open>Requests of the vDMA\<close>

lemma list_find_Some:
  "list_find test ps hp = Ok (Some (p, x)) \<Longrightarrow> p \<in> set ps \<and> hp p = Some x \<and> test x"
  by (induction ps) (auto split: option.splits if_splits)

text \<open>A request that does not wait: the vDMA state of the file changes and nothing of the board outside of it.\<close>

lemma vdma_request_inv:
  assumes K: "kernel_fresh K" "coherent_below_4G K" and i: "board_inv K m w" and p: "p \<in> set (b_open_files_list w)" "b_contexts w p = Some c"
    and c: "counters_left (ctx_vdma_context c)" and nw: "\<And>a. req \<noteq> HAILO_VDMA_INTERRUPTS_WAIT a"
    and r: "hailo_vdma_ioctl io K f out_ok wait down_ok req (ctx_vdma_context c) w = (r, vc, w', up)" "\<not> is_fault r"
  shows "board_inv K m (w'\<lparr>b_contexts := (b_contexts w')(p \<mapsto> c\<lparr>ctx_vdma_context := vc\<rparr>)\<rparr>) \<and> up"
proof -
  have r': "hailo_vdma_ioctl io K f out_ok (Pair (Ok ())) down_ok req (ctx_vdma_context c) w = (r, vc, w', up)"
    using r(1) nw by (cases req) auto
  have s: "step_ok K (ctx_vdma_context c) w vc w'" by (rule vdma_ioctl_step [OF K c r' r(2)])
  have o: "outside w' = outside w" "up" using ioctl_outside [OF r(1) nw] by simp_all
  note fields = outside_fields [OF o(1)]
  obtain as bs where ps: "b_open_files_list w = as @ p # bs" using split_list [OF p(1)] by blast
  have d: "p \<notin> set as" "p \<notin> set bs" using board_core_once(2) [OF K(1) board_inv_core [OF i]] ps by auto
  let ?w = "w'\<lparr>b_contexts := (b_contexts w')(p \<mapsto> c\<lparr>ctx_vdma_context := vc\<rparr>)\<rparr>"
  let ?f = "\<lambda>p. context_file (b_contexts w p)"
  have files: "board_files w = map ?f as @ (ctx_filp c, ctx_vdma_context c) # map ?f bs"
    using ps p(2) by (simp add: board_files_def context_file_def)
  have files': "board_files ?w = map ?f as @ (ctx_filp c, vc) # map ?f bs"
    using ps d fields by (auto simp: board_files_def context_file_def)
  obtain leak where l: "files_inv K (board_files w) w (own_resources w + leak)" using i by (auto simp: board_inv_def board_core_def)
  then obtain more where "files_inv K (board_files ?w) w' (more + (own_resources w + leak))"
    using files_inv_step [OF _ s] unfolding files files' by blast
  then have "files_inv K (board_files ?w) w' ({#} + (own_resources w + (more + leak)))" by (simp add: ac_simps)
  then have "files_inv K (board_files ?w) ?w ({#} + (own_resources w + (more + leak)))" by (rule files_inv_moves) (simp_all add: moves_refl)
  moreover have "own_resources ?w = own_resources w"
    using fields by (simp add: own_resources_def waiting_def class_res_def board_resources_def bars_def)
  ultimately have "files_inv K (board_files ?w) ?w (own_resources ?w + (more + leak))" by simp
  then show ?thesis using i p o(2) fields by (auto simp: board_inv_def board_core_def waiting_def)
qed

lemma vdma_wait_inv:
  assumes e: "board_env K e" and i: "board_inv K m w"
    and r: "hailo_vdma_interrupts_wait_ioctl io K a (e_wait_event e) down_ok out_ok w = (r, w', up)" "\<not> is_fault r"
  shows "board_inv K (released m up) w'"
proof -
  obtain x w1 where x: "e_wait_event e (up_mutex w) = (x, w1)" by fastforce
  have i1: "board_inv K (Suc m) w1" using board_envD(3) [OF e board_inv_up [OF i]] x by simp
  then obtain w2 where w2: "down_mutex w1 = Ok w2" "board_inv K m w2" using board_inv_down by blast
  have c: "board_inv K m w3" if "for_each (wait_collect_engine io K) is (ps, w2) = Ok (ps', w3)" for ps ps' w3 "is"
    using aside_inv [OF w2(2) aside_outside [OF wait_collects_quiet [OF that] wait_collect_outside [OF that]]] .
  show ?thesis
    using r x i i1 w2 c unfolding hailo_vdma_interrupts_wait_ioctl_def
    by (auto simp: released_def split: option.splits result.splits if_splits prod.splits)
qed

section \<open>The dispatcher\<close>

lemma general_inv: "board_inv K m w \<Longrightarrow> keeps_inv K m (hailo_general_ioctl io e req w)"
  by (cases req) (auto simp: hailo_query_device_properties_def hailo_query_driver_info_def on_device_eq post_result board_inv_device Let_def)

lemma dispatch_inv:
  assumes K: "kernel_fresh K" "coherent_below_4G K" and e: "board_env K e" and i: "board_inv K m w"
    and p: "p \<in> set (b_open_files_list w)" "b_contexts w p = Some c" and c: "counters_left (ctx_vdma_context c)"
    and r: "dispatch_ioctl io K e f p c req w = (r, w', up)" "\<not> is_fault r"
  shows "board_inv K (released m up) w'"
proof (cases req)
  case (General g)
  then show ?thesis using r keeps_released [OF general_inv [OF i, of io e g]] by (auto split: prod.splits)
next
  case (Vdma v)
  obtain x vc w1 up1 where x: "hailo_vdma_ioctl io K f (e_out_ok e) (e_wait_event e) (e_down_ok e) v (ctx_vdma_context c) w = (x, vc, w1, up1)"
    by (metis surj_pair)
  show ?thesis
  proof (cases "\<exists>a. v = HAILO_VDMA_INTERRUPTS_WAIT a")
    case True
    then obtain a where a: "v = HAILO_VDMA_INTERRUPTS_WAIT a" by blast
    then show ?thesis using Vdma r x vdma_wait_inv [OF e i, of io a "e_down_ok e" "e_out_ok e"]
      by (auto simp: fops_vdma_ioctl_def split: prod.splits)
  next
    case False
    then have "fops_vdma_ioctl io K e f p c v w = (x, w1\<lparr>b_contexts := (b_contexts w1)(p \<mapsto> c\<lparr>ctx_vdma_context := vc\<rparr>)\<rparr>, up1)"
      using x by (simp add: fops_vdma_ioctl_def split: vdma_request.split)
    then show ?thesis using Vdma r False vdma_request_inv [OF K i p c _ x] by (auto simp: released_def)
  qed
next
  case (Nnc n)
  then show ?thesis using r nnc_ioctl_inv [OF e i, of io p f n] i by (auto simp: released_def split: prod.splits if_splits)
qed (use r i in \<open>auto simp: released_def board_inv_def board_core_def split: prod.splits\<close>)

lemma ioctl_inv:
  assumes K: "kernel_fresh K" "coherent_below_4G K" and e: "board_env K e" and i: "board_inv K (Suc 0) w"
    and c: "\<And>vc. (filp, vc) \<in> set (board_files w) \<Longrightarrow> counters_left vc"
  shows "keeps_inv K (Suc 0) (hailo_pcie_fops_unlockedioctl io K e filp req w)"
proof -
  obtain w1 where w1: "down_mutex w = Ok w1" "board_inv K 0 w1" using board_inv_down [OF i] by blast
  have s: "step_r down_mutex w = (Ok (), w1)" using w1(1) by (simp add: step_r_def)
  have f: "b_open_files_list w1 = b_open_files_list w" "b_contexts w1 = b_contexts w" using w1(1) by (auto simp: down_mutex_def split: if_splits)
  have body: "keeps_inv K (Suc 0) (case dispatch_ioctl io K e filp p c req w1 of (r, w, up) \<Rightarrow> (r, if up then up_mutex w else w))"
    if "find_file_context filp w1 = Ok (Some (p, c))" for p c
  proof -
    have p: "p \<in> set (b_open_files_list w1)" "b_contexts w1 p = Some c" "ctx_filp c = filp"
      using list_find_Some [of "\<lambda>c. ctx_filp c = filp"] that unfolding find_file_context_def by blast+
    then have "(filp, ctx_vdma_context c) \<in> set (board_files w)" using f by (force simp: board_files_def context_file_def)
    then have n: "counters_left (ctx_vdma_context c)" by (rule c)
    obtain r w2 up where r: "dispatch_ioctl io K e filp p c req w1 = (r, w2, up)" by (metis surj_pair)
    show ?thesis
    proof (cases "is_fault r")
      case False
      from dispatch_inv [OF K e w1(2) p(1,2) n r this] have "board_inv K (Suc 0) (if up then up_mutex w2 else w2)"
        using board_inv_up [of K 0 w2] by (auto simp: released_def)
      then show ?thesis using r by (auto simp: post_result split: result.split if_splits)
    qed (use r in \<open>cases r; simp\<close>)
  qed
  have u: "board_inv K (Suc 0) (up_mutex w1)" by (rule board_inv_up [OF w1(2)])
  show ?thesis
  proof (cases "find_file_context filp w1")
    case (Ok found)
    show ?thesis
    proof (cases found)
      case (Some pc)
      obtain p c where "pc = (p, c)" by (cases pc)
      then show ?thesis using i s u body [of p c] Ok Some by (simp add: hailo_pcie_fops_unlockedioctl_def)
    qed (use i s u Ok in \<open>simp add: hailo_pcie_fops_unlockedioctl_def\<close>)
  next
    case (Err x)
    then show ?thesis using Err by simp
  qed (use i s in \<open>simp add: hailo_pcie_fops_unlockedioctl_def\<close>)
qed

section \<open>Memory mapping and interrupts\<close>

lemma mmap_pages_moves: "mmap_pages K ps first vma cs = (r, vma', cs') \<Longrightarrow> moves K cs {#} {#} cs'"
proof (induction ps arbitrary: first vma cs)
  case (Cons p ps)
  have "moves K cs {#} {#} (Remap_pfn_range a b x # cs)" for a b x by (rule moves_quiet) auto
  note first = this
  show ?case using Cons.prems by (auto simp: Let_def intro: first moves_trans [OF first] dest!: Cons.IH split: result.splits if_splits)
qed auto

lemma mmap_quiet: "hailo_vdma_mmap K c w vma h = (r, vma', w') \<Longrightarrow> world_quiet K w w'"
proof -
  have "moves K cs {#} {#} (Dma_mmap_coherent a b n x # cs)" for a b n x cs by (rule moves_quiet) auto
  note coherent = this
  show "hailo_vdma_mmap K c w vma h = (r, vma', w') \<Longrightarrow> world_quiet K w w'"
    by (auto simp: hailo_vdma_mmap_def low_memory_buffer_mmap_def continuous_buffer_mmap_def world_quiet_def Let_def
        intro: coherent mmap_pages_moves split: option.splits result.splits prod.splits if_splits)
qed

lemma mmap_inv:
  assumes i: "board_inv K (Suc 0) w"
  shows "keeps_inv K (Suc 0) (hailo_pcie_fops_mmap K e filp vma off w)"
proof -
  obtain w1 where w1: "down_mutex w = Ok w1" "board_inv K 0 w1" using board_inv_down [OF i] by blast
  have s: "step_r down_mutex w = (Ok (), w1)" using w1(1) by (simp add: step_r_def)
  have u: "board_inv K (Suc 0) (up_mutex w1)" by (rule board_inv_up [OF w1(2)])
  have v: "board_inv K (Suc 0) (up_mutex w2)" if "hailo_vdma_mmap K c w1 vma h = (r, vma', w2)" for c h r vma' w2
    using board_inv_up [OF aside_inv [OF w1(2) aside_outside [OF mmap_quiet [OF that] mmap_outside [OF that]]]] .
  show ?thesis
  proof (cases "find_file_context filp w1")
    case (Ok found)
    then show ?thesis using i s u v
      by (auto simp: hailo_pcie_fops_mmap_def Let_def post_result split: option.split prod.split result.split)
  qed (use i s in \<open>auto simp: hailo_pcie_fops_mmap_def Let_def\<close>)
qed

lemma boot_irq_aside: "aside K w (boot_irq_handler source w)"
  by (simp add: boot_irq_handler_def Let_def)

lemma nnc_irq_aside: "nnc_irq_handler io e source w = Ok w' \<Longrightarrow> aside K w w'"
proof -
  have notification: "aside K w0 w'" if "firmware_notification_irq_handler io e w = Ok w'" "aside K w0 w" for w w' w0
  proof (cases "hailo_pcie_read_firmware_notification io (pr_fw_access (b_pcie_resources w)) (e_ptr e) (e_ptr e) (nnc_notification_cache (b_nnc w)) (w_device w)")
    case (Pair r d)
    show ?thesis
    proof (cases r)
      case (Ok cache)
      let ?w = "(w\<lparr>w_device := d\<rparr>)\<lparr>b_nnc := (b_nnc w)\<lparr>nnc_notification_cache := cache\<rparr>\<rparr>"
      have "aside K w0 ?w" by (rule aside_nnc) (use that(2) in simp_all)
      moreover have "for_each (modify_wait complete_wait) (nnc_notification_wait_list (b_nnc w)) ?w = Ok w'"
        using that(1) Ok Pair by (simp add: firmware_notification_irq_handler_def on_device_eq)
      ultimately show ?thesis using modify_waits_aside aside_trans by blast
    qed (use that Pair in \<open>auto simp: firmware_notification_irq_handler_def on_device_eq\<close>)
  qed
  show "nnc_irq_handler io e source w = Ok w' \<Longrightarrow> aside K w w'"
    by (auto simp: nnc_irq_handler_def Let_def split: if_splits intro: notification)
qed

lemma handle_irq_inv:
  assumes i: "board_inv K m w" and h: "handle_irq_source io e source w = Ok w'"
  shows "board_inv K m w'"
proof (cases "fb_is_in_boot (b_fw_boot w)")
  case True
  then show ?thesis using h aside_inv [OF i boot_irq_aside] by (auto simp: handle_irq_source_def)
next
  case False
  have t: "pr_accelerator_type (b_pcie_resources w) = HAILO_ACCELERATOR_TYPE_NNC" using i by (simp add: board_inv_def board_core_def)
  obtain w1 where w1: "nnc_irq_handler io e source w = Ok w1"
      "(if is_vdma_channels_bitmap source \<noteq> 0
        then hailo_vdma_irq_handler io (e_clock e) DEFAULT_VDMA_ENGINE_INDEX (is_vdma_channels_bitmap source) w1 else Ok w1) = Ok w'"
    using h False t by (auto simp: handle_irq_source_def bind_r_eq_Ok)
  have "board_inv K m w1" by (rule aside_inv [OF i nnc_irq_aside [OF w1(1)]])
  then show ?thesis using w1(2) by (auto split: if_splits intro: aside_inv [OF _ aside_outside [OF irq_quiet irq_handler_outside]])
qed

lemma irq_inv: "board_inv K m w \<Longrightarrow> keeps_inv K m (irq_loop rounds io e handled w)"
proof (induction rounds io e handled w rule: irq_loop.induct)
  case (2 n io e handled w)
  obtain c d where c: "hailo_pcie_is_device_connected io (b_pcie_resources w) (w_device w) = (c, d)" by fastforce
  obtain g s d' where g: "hailo_pcie_read_interrupt io (b_pcie_resources w) d = (g, s, d')" by (metis surj_pair)
  have i: "board_inv K m (w\<lparr>w_device := d\<rparr>)" "board_inv K m (w\<lparr>w_device := d'\<rparr>)" using 2(2) by (simp_all add: board_inv_device)
  show ?case
  proof (cases "c \<and> g")
    case True
    have n: "keeps_inv K m (irq_loop n io e True w')" if "handle_irq_source io e s (w\<lparr>w_device := d'\<rparr>) = Ok w'" for w'
      using 2(1) [OF refl _ _ _ refl] handle_irq_inv [OF i(2) that] c g True by (simp add: on_device_eq)
    show ?thesis using True c g n i(2) by (auto simp: on_device_eq post_andthen post_step_r split: result.split)
  qed (use c g i in \<open>auto simp: on_device_eq\<close>)
qed simp

section \<open>Closing a file\<close>

lemma clear_wait_inv:
  assumes K: "kernel_fresh K" and i: "board_inv K m w" and r: "clear_wait filp p w = Ok w'"
  shows "board_inv K m w'"
proof (cases "w' = w")
  case False
  let ?w = "w\<lparr>b_nnc := (b_nnc w)\<lparr>nnc_notification_wait_list := remove1 p (nnc_notification_wait_list (b_nnc w))\<rparr>, b_notification_waits := (b_notification_waits w)(p := None)\<rparr>"
  have w': "w' = call (Kfree p) ?w" and live: "b_notification_waits w p \<noteq> None"
    using r False by (auto simp: clear_wait_def split: option.splits if_splits)
  then have p: "p \<in> set (waiting w)" using i by (auto simp: board_inv_def board_core_def)
  have own: "own_resources w = {#Struct p#} + own_resources w'"
    using structs_remove1 [OF p] by (simp add: w' own_resources_def waiting_def class_res_def board_resources_def bars_def)
  obtain leak where l: "files_inv K (board_files w) w (own_resources w + leak)" using i by (auto simp: board_inv_def board_core_def)
  then have "files_inv K (board_files w) w ({#Struct p#} + (own_resources w' + leak))" unfolding own by (simp add: ac_simps)
  then have "files_inv K (board_files w) w' ({#} + (own_resources w' + leak))"
    by (rule files_inv_moves) (use moves_call [of K "w_calls w" "Kfree p"] in \<open>simp_all add: w'\<close>)
  moreover have "board_files w' = board_files w" by (simp add: w' board_files_def)
  moreover have "q \<in> set (waiting w') \<longleftrightarrow> q \<in> set (waiting w) \<and> q \<noteq> p" for q
    using board_core_once(3) [OF K board_inv_core [OF i]] by (simp add: w' waiting_def set_remove1_eq)
  ultimately show ?thesis using i by (auto simp: w' board_inv_def board_core_def)
qed (use i in simp)

lemma driver_down_inv:
  assumes e: "board_env K e" and i: "board_inv K m w"
  shows "board_inv K m (snd (hailo_nnc_driver_down io e w))"
proof -
  let ?w = "poke_device (hailo_pcie_write_firmware_driver_shutdown io (b_pcie_resources (set_driver_down_completion (reinit_completion (b_driver_down_reset_completed w)) w)))
    (set_driver_down_completion (reinit_completion (b_driver_down_reset_completed w)) w)"
  have "board_inv K m ?w" by (rule aside_inv [OF i]) simp
  from wait_completion_inv [OF e this, of set_driver_down_completion b_driver_down_reset_completed]
  show ?thesis by (simp add: hailo_nnc_driver_down_def Let_def split_beta)
qed

lemma nnc_finalize_inv:
  assumes K: "kernel_fresh K" and e: "board_env K e" and i: "board_inv K m w" and r: "hailo_nnc_file_context_finalize io e c w = Ok w'"
  shows "board_inv K m w'"
proof -
  obtain w1 where w1: "for_each (clear_wait (ctx_filp c)) (nnc_notification_wait_list (b_nnc w)) w = Ok w1"
      "w' = (if vc_used_by_filp (w_controller w1) = Some (ctx_filp c) then snd (hailo_nnc_driver_down io e w1) else w1)"
    using r by (auto simp: hailo_nnc_file_context_finalize_def clear_notification_wait_list_def bind_r_eq_Ok)
  have "board_inv K m w1" by (rule for_each_induct [OF w1(1)]) (use i clear_wait_inv [OF K] in auto)
  then show ?thesis using w1(2) driver_down_inv [OF e] by auto
qed

lemma finalize_context_core:
  assumes K: "kernel_fresh K" and i: "board_inv K m w" and c: "b_contexts w p = Some c"
    and v: "hailo_vdma_file_context_finalize K (ctx_vdma_context c) filp w = Ok (vc, w1)"
  shows "post (release_file_context p (w1\<lparr>b_contexts := (b_contexts w1)(p \<mapsto> c\<lparr>ctx_vdma_context := vc\<rparr>)\<rparr>))
    (\<lambda>_ w'. board_core K m w' \<and> b_ref_count w' = int (length (b_open_files_list w')) + 1) (\<lambda>_. True)"
proof -
  note fields = outside_fields [OF finalize_outside [OF v]]
  have p: "p \<in> set (b_open_files_list w)" using i c unfolding board_inv_def board_core_def by blast
  obtain as bs where ps: "b_open_files_list w = as @ p # bs" using split_list [OF p] by blast
  have d: "p \<notin> set as" "p \<notin> set bs" "remove1 p (b_open_files_list w) = as @ bs"
    using board_core_once(2) [OF K board_inv_core [OF i]] ps by (auto simp: remove1_append)
  let ?f = "\<lambda>p. context_file (b_contexts w p)"
  let ?w = "call (Kfree p) (w1\<lparr>b_open_files_list := as @ bs, b_contexts := (b_contexts w)(p := None)\<rparr>)"
  have run: "release_file_context p (w1\<lparr>b_contexts := (b_contexts w1)(p \<mapsto> c\<lparr>ctx_vdma_context := vc\<rparr>)\<rparr>) = (Ok (), ?w)"
    using fields d(3) by (simp add: release_file_context_def)
  have files: "board_files w = map ?f as @ (ctx_filp c, ctx_vdma_context c) # map ?f bs" "board_files ?w = map ?f as @ map ?f bs"
    using ps c d(1,2) by (auto simp: board_files_def context_file_def)
  obtain leak where l: "files_inv K (board_files w) w (own_resources w + leak)" using i by (auto simp: board_inv_def board_core_def)
  have own: "own_resources w = {#Struct p#} + own_resources ?w"
    using fields ps by (simp add: own_resources_def waiting_def class_res_def board_resources_def bars_def structs_def)
  have "files_inv K (board_files ?w) w1 (own_resources w + leak)"
    using close_files_inv [OF K l [unfolded files(1)] v] unfolding files(2) .
  then have "files_inv K (board_files ?w) w1 ({#Struct p#} + (own_resources ?w + leak))" unfolding own by (simp add: ac_simps)
  then have "files_inv K (board_files ?w) ?w ({#} + (own_resources ?w + leak))"
    by (rule files_inv_moves) (use moves_call [of K "w_calls w1" "Kfree p"] in simp_all)
  then have l': "files_inv K (board_files ?w) ?w (own_resources ?w + leak)" by simp
  have "(b_contexts ?w q \<noteq> None \<longleftrightarrow> q \<in> set (b_open_files_list ?w)) \<and> (b_notification_waits ?w q \<noteq> None \<longleftrightarrow> q \<in> set (waiting ?w))" for q
    using i ps d(1,2) fields unfolding board_inv_def board_core_def waiting_def by auto
  then have "board_core K m ?w" using i l' fields unfolding board_inv_def board_core_def by auto
  moreover have "b_ref_count ?w = int (length (b_open_files_list ?w)) + 1" using i ps fields by (simp add: board_inv_def)
  ultimately show ?thesis unfolding run by simp
qed

lemma finalize_file_core:
  assumes K: "kernel_fresh K" and e: "board_env K e" and i: "board_inv K m w"
  shows "post (finalize_file io K e p filp w) (\<lambda>_ w'. board_core K m w' \<and> b_ref_count w' = int (length (b_open_files_list w')) + 1) (\<lambda>_. True)"
proof -
  have t: "pr_accelerator_type (b_pcie_resources w) = HAILO_ACCELERATOR_TYPE_NNC" using i by (simp add: board_inv_def board_core_def)
  have "post (andthen (step_r (\<lambda>w. bind_r (hailo_vdma_file_context_finalize K (ctx_vdma_context c) filp w) (\<lambda>(vc, w).
                Ok (w\<lparr>b_contexts := (b_contexts w)(p \<mapsto> c\<lparr>ctx_vdma_context := vc\<rparr>)\<rparr>))) w1) (\<lambda>_ w. release_file_context p w))
      (\<lambda>_ w'. board_core K m w' \<and> b_ref_count w' = int (length (b_open_files_list w')) + 1) (\<lambda>_. True)"
    if "board_inv K m w1" "b_contexts w1 p = Some c" for w1 c
    using finalize_context_core [OF K that, of filp]
    by (cases "hailo_vdma_file_context_finalize K (ctx_vdma_context c) filp w1") (auto simp: step_r_def)
  note close = this
  let ?step = "\<lambda>c w. if pr_accelerator_type (b_pcie_resources w) = HAILO_ACCELERATOR_TYPE_NNC
    then hailo_nnc_file_context_finalize io e c w else hailo_soc_file_context_finalize io e c w"
  show ?thesis
  proof (cases "b_contexts w p")
    case (Some c)
    show ?thesis
    proof (cases "hailo_nnc_file_context_finalize io e c w")
      case (Ok w1)
      have st: "step_r (?step c) w = (Ok (), w1)" using Ok t by (simp add: step_r_def)
      have i1: "board_inv K m w1" by (rule nnc_finalize_inv [OF K e i Ok])
      show ?thesis
      proof (cases "b_contexts w1 p")
        case c1: (Some c1)
        show ?thesis using close [OF i1 c1] by (simp add: finalize_file_def context_of_def Some st c1)
      qed (simp add: finalize_file_def context_of_def Some st)
    qed (use t Some in \<open>simp_all add: finalize_file_def context_of_def step_r_def\<close>)
  qed (simp add: finalize_file_def context_of_def)
qed

section \<open>Interrupt and power\<close>

lemma disable_interrupts_core:
  assumes i: "board_core K m w"
  shows "board_core K m (hailo_disable_interrupts io w) \<and> \<not> b_interrupts_enabled (hailo_disable_interrupts io w) \<and>
    b_ref_count (hailo_disable_interrupts io w) = b_ref_count w \<and> b_open_files_list (hailo_disable_interrupts io w) = b_open_files_list w"
proof -
  let ?w = "hailo_disable_interrupts io w"
  have pd: "b_pDev w" using i by (simp add: board_core_def)
  have "held K (w_calls w) (irq_res (b_interrupts_enabled w)) (irq_res (b_interrupts_enabled w) + {#}) w" by (simp add: held_def moves_refl)
  from disable_interrupts_held [OF this pd, of io]
  have h: "moves K (w_calls w) (irq_res (b_interrupts_enabled w)) {#} (w_calls ?w)" and s: "same_board w ?w" "b_pcie_resources ?w = b_pcie_resources w" "\<not> b_interrupts_enabled ?w"
    by (auto simp: held_def)
  obtain leak where l: "files_inv K (board_files w) w (own_resources w + leak)" using i by (auto simp: board_core_def)
  have own: "own_resources w = irq_res (b_interrupts_enabled w) + own_resources ?w" "board_files ?w = board_files w" "waiting ?w = waiting w"
    using s by (simp_all add: own_resources_def waiting_def class_res_def board_resources_def bars_def same_board_def irq_res_def [of False] board_files_def)
  have "files_inv K (board_files w) w (irq_res (b_interrupts_enabled w) + (own_resources ?w + leak))" using l unfolding own(1) by (simp add: ac_simps)
  then have "files_inv K (board_files w) ?w ({#} + (own_resources ?w + leak))"
    by (rule files_inv_moves [OF _ h]) (use s(1) in \<open>simp_all add: same_board_def\<close>)
  then show ?thesis using i s own(2,3) by (auto simp: board_core_def same_board_def)
qed

lemma disable_interrupts_inv: "board_inv K m w \<Longrightarrow> board_inv K m (hailo_disable_interrupts io w)"
  using disable_interrupts_core [of K m w io] by (auto simp: board_inv_def)

lemma set_power_state_aside: "aside K w (snd (pci_set_power_state K s w))"
proof -
  have "moves K (w_calls w) {#} {#} (Pci_set_power_state s r # w_calls w)" for r by (rule moves_quiet) auto
  then show ?thesis by (simp add: pci_set_power_state_def Let_def aside_def world_quiet_def waiting_def)
qed

lemma release_last_inv:
  assumes c: "board_core K m w" and r: "b_ref_count w = int (length (b_open_files_list w))"
  shows "board_inv K (Suc m) (release_last io M K w)"
proof -
  let ?w = "hailo_disable_interrupts io w"
  have i: "board_inv K m ?w" using disable_interrupts_core [OF c, of io] r by (simp add: board_inv_def)
  have p: "b_pDev ?w" using i by (simp add: board_inv_def board_core_def)
  let ?p = "if mp_is_power_mode_enabled M \<and> b_pDev ?w then snd (pci_set_power_state K PCI_D3hot ?w) else ?w"
  have ip: "board_inv K m ?p" using i aside_inv [OF i set_power_state_aside] by auto
  then have "b_pDev (up_mutex ?p)" using p by (auto simp: up_mutex_def board_inv_def board_core_def)
  then show ?thesis using board_inv_up [OF ip] by (simp add: release_last_def Let_def)
qed

lemma release_inv:
  assumes K: "kernel_fresh K" and e: "board_env K e" and i: "board_inv K (Suc 0) w"
  shows "keeps_inv K (Suc 0) (hailo_pcie_fops_release io M K e filp w)"
proof -
  obtain w1 where w1: "down_mutex w = Ok w1" "board_inv K 0 w1" using board_inv_down [OF i] by blast
  have s: "step_r down_mutex w = (Ok (), w1)" using w1(1) by (simp add: step_r_def)
  have u: "board_inv K (Suc 0) (up_mutex w1)" by (rule board_inv_up [OF w1(2)])
  have last: "board_inv K (Suc 0) (if b_ref_count w2 = 1 then release_last io M K (w2\<lparr>b_ref_count := b_ref_count w2 - 1\<rparr>) else up_mutex (w2\<lparr>b_ref_count := b_ref_count w2 - 1\<rparr>))"
    if "board_core K 0 w2" "b_ref_count w2 = int (length (b_open_files_list w2)) + 1" for w2 :: "'a board_world"
  proof -
    let ?w = "w2\<lparr>b_ref_count := b_ref_count w2 - 1\<rparr>"
    have c: "board_core K 0 ?w"
      using that(1) by (auto simp: board_core_def board_files_def own_resources_def class_res_def board_resources_def bars_def waiting_def
          files_inv_def total_resources_def file_resources_def file_ok_def cong: map_cong)
    show ?thesis
    proof (cases "b_ref_count w2 = 1")
      case True
      then show ?thesis using release_last_inv [OF c, of io M] that(2) by simp
    next
      case False
      then have "board_inv K 0 ?w" using c that(2) by (auto simp: board_inv_def)
      then show ?thesis using False board_inv_up by auto
    qed
  qed
  show ?thesis
  proof (cases "find_file_context filp w1")
    case (Ok found)
    show ?thesis
    proof (cases found)
      case (Some pc)
      obtain p c where pc: "pc = (p, c)" by (cases pc)
      have "keeps_inv K (Suc 0) (andthen (finalize_file io K e p filp w1) (\<lambda>_ w.
               let w = w\<lparr>b_ref_count := b_ref_count w - 1\<rparr>
               in (Ok (), if b_ref_count w = 0 then release_last io M K w else up_mutex w)))"
        using finalize_file_core [OF K e w1(2), of io p filp] finalize_file_no_err [of io K e p filp w1] last
        by (cases "finalize_file io K e p filp w1"; cases "fst (finalize_file io K e p filp w1)") (auto simp: Let_def split: if_splits)
      then show ?thesis using i s Ok Some pc by (simp add: hailo_pcie_fops_release_def board_inv_def board_core_def)
    qed (use i s u Ok in \<open>simp add: hailo_pcie_fops_release_def\<close>)
  qed (use i s in \<open>simp_all add: hailo_pcie_fops_release_def\<close>)
qed

section \<open>Suspend, resume and reset\<close>

lemma driver_down_if_used_inv:
  assumes e: "board_env K e" and i: "board_inv K m w"
  shows "post (driver_down_if_used io e w) (\<lambda>_. board_inv K m) (\<lambda>_. False)"
proof -
  have t: "pr_accelerator_type (b_pcie_resources w) = HAILO_ACCELERATOR_TYPE_NNC" using i by (simp add: board_inv_def board_core_def)
  obtain r w1 where r: "hailo_nnc_driver_down io e w = (r, w1)" by fastforce
  have "board_inv K m w1" using driver_down_inv [OF e i, of io] r by simp
  then show ?thesis using i r t by (auto simp: driver_down_if_used_def driver_down_def split: result.split)
qed

lemma invalidate_aside: "invalidate_context p w = Ok w' \<Longrightarrow> aside K w w'"
  by (auto simp: invalidate_context_def aside_def waiting_def context_file_def split: option.splits if_splits)

lemma suspend_inv:
  assumes e: "board_env K e" and i: "board_inv K (Suc 0) w"
  shows "keeps_inv K (Suc 0) (hailo_pcie_suspend io e w)"
proof -
  obtain w1 where w1: "down_mutex w = Ok w1" "board_inv K 0 w1" using board_inv_down [OF i] by blast
  have inval: "board_inv K (Suc 0) (up_mutex w3)"
    if "board_inv K 0 w2" "for_each invalidate_context ps (hailo_disable_interrupts io w2) = Ok w3" for w2 w3 :: "'a board_world" and ps
  proof -
    have "aside K (hailo_disable_interrupts io w2) w3"
      by (rule for_each_induct [OF that(2), of "aside K (hailo_disable_interrupts io w2)"]) (auto intro: aside_trans invalidate_aside)
    then show ?thesis using board_inv_up [OF aside_inv [OF disable_interrupts_inv [OF that(1)]]] by blast
  qed
  have noerr: "for_each invalidate_context ps w2 \<noteq> Err x" for ps x and w2 :: "'a board_world"
    using no_err_for_each [of invalidate_context ps w2] by (auto simp: invalidate_context_def no_err_def split: option.split)
  show ?thesis unfolding hailo_pcie_suspend_def Let_def post_andthen post_step_r w1(1) result.case
    by (rule post_mono [OF driver_down_if_used_inv [OF e w1(2)]])
      (use inval noerr in \<open>auto split: result.split\<close>)
qed

lemma reset_prepare_inv:
  assumes e: "board_env K e" and i: "board_inv K (Suc 0) w"
  shows "keeps_inv K (Suc 0) (hailo_pci_reset_prepare io e w)"
proof -
  obtain w1 where w1: "down_mutex w = Ok w1" "board_inv K 0 w1" using board_inv_down [OF i] by blast
  have "b_pDev w" using i by (simp add: board_inv_def board_core_def)
  then show ?thesis using driver_down_if_used_inv [OF e w1(2), of io] w1(1) board_inv_up [of K 0]
    by (auto simp: hailo_pci_reset_prepare_def post_andthen post_step_r elim!: post_mono)
qed

lemma resume_inv:
  assumes c: "calm e" and i: "board_inv K m w" and off: "\<not> b_interrupts_enabled w"
  shows "keeps_inv K m (hailo_pcie_resume io M K e w)"
proof -
  have f: "b_pDev w" "pr_accelerator_type (b_pcie_resources w) = HAILO_ACCELERATOR_TYPE_NNC" using i by (simp_all add: board_inv_def board_core_def)
  have "quiet_board K (w_calls w) {#} {#} w w' \<Longrightarrow> aside K w w'" for w'
    by (auto simp: quiet_board_def aside_def world_quiet_def mapping_step_def same_board_def held_def waiting_def)
  then have q: "quiet_board K (w_calls w) {#} {#} w w' \<Longrightarrow> board_inv K m w'" for w' using aside_inv [OF i] by blast
  have "held K (w_calls w) {#} {#} w" by (simp add: held_def moves_refl)
  from activate_held [OF this off f(1) c f(2), of io M] q show ?thesis
    by (cases "hailo_activate_board io M K e w"; cases "fst (hailo_activate_board io M K e w)") (auto simp: hailo_pcie_resume_def)
qed

section \<open>Sessions of the driver\<close>

text \<open>
  The steps of the driver on its board. A call is one step: what happens while it waits is part of its environment. Requests are
  sent with handle counters that have not wrapped, a file object is opened once, and a resume follows a suspend. A call that
  faults is not a step.
\<close>

inductive board_step :: "'d mmio \<Rightarrow> module_params \<Rightarrow> kernel \<Rightarrow> 'd board_world \<Rightarrow> 'd board_world \<Rightarrow> bool" for io M K where
  open_file: "filp \<notin> fst ` set (board_files w) \<Longrightarrow> hailo_pcie_fops_open io K e minor filp w = (r, w') \<Longrightarrow> \<not> is_fault r \<Longrightarrow> board_step io M K w w'"
| request: "board_env K e \<Longrightarrow> (\<And>vc. (filp, vc) \<in> set (board_files w) \<Longrightarrow> counters_left vc) \<Longrightarrow>
    hailo_pcie_fops_unlockedioctl io K e filp req w = (r, w') \<Longrightarrow> \<not> is_fault r \<Longrightarrow> board_step io M K w w'"
| map_memory: "hailo_pcie_fops_mmap K e filp vma off w = (r, w') \<Longrightarrow> \<not> is_fault r \<Longrightarrow> board_step io M K w w'"
| close_file: "board_env K e \<Longrightarrow> hailo_pcie_fops_release io M K e filp w = (r, w') \<Longrightarrow> \<not> is_fault r \<Longrightarrow> board_step io M K w w'"
| interrupt: "hailo_irqhandler rounds io e w = (r, w') \<Longrightarrow> \<not> is_fault r \<Longrightarrow> board_step io M K w w'"
| device: "board_step io M K w (w\<lparr>w_device := d\<rparr>)"
| suspend: "board_env K e \<Longrightarrow> hailo_pcie_suspend io e w = (r, w') \<Longrightarrow> \<not> is_fault r \<Longrightarrow> board_step io M K w w'"
| resume: "calm e \<Longrightarrow> \<not> b_interrupts_enabled w \<Longrightarrow> hailo_pcie_resume io M K e w = (r, w') \<Longrightarrow> \<not> is_fault r \<Longrightarrow> board_step io M K w w'"
| reset_prepare: "board_env K e \<Longrightarrow> hailo_pci_reset_prepare io e w = (r, w') \<Longrightarrow> \<not> is_fault r \<Longrightarrow> board_step io M K w w'"

text \<open>Before the probe there is no board, and the history is one the kernel granted.\<close>

definition pristine :: "kernel \<Rightarrow> 'd board_world \<Rightarrow> bool" where
  "pristine K w \<longleftrightarrow> granted K (w_calls w) \<and> (\<exists>rest. ledger (w_calls w) = Some (class_res w + rest)) \<and> b_contexts w = Map.empty \<and>
     b_notification_waits w = Map.empty \<and> b_board_list w = []"

inductive board_reachable :: "'d mmio \<Rightarrow> module_params \<Rightarrow> kernel \<Rightarrow> 'd board_world \<Rightarrow> bool" for io M K where
  probe: "pristine K w0 \<Longrightarrow> calm e \<Longrightarrow> device_type_of (effective_type M t) = Ok HAILO_ACCELERATOR_TYPE_NNC \<Longrightarrow>
    hailo_pcie_probe io M K e mem t w0 = (Ok (), w) \<Longrightarrow> board_reachable io M K w"
| step: "board_reachable io M K w \<Longrightarrow> board_step io M K w w' \<Longrightarrow> board_reachable io M K w'"

lemma keeps_inv_step: "keeps_inv K m rw \<Longrightarrow> rw = (r, w') \<Longrightarrow> \<not> is_fault r \<Longrightarrow> board_inv K m w'"
  by (cases r) auto

lemma board_step_inv:
  assumes K: "kernel_fresh K" "coherent_below_4G K" and s: "board_step io M K w w'" and i: "board_inv K (Suc 0) w"
  shows "board_inv K (Suc 0) w'"
  using s
proof (cases rule: board_step.cases)
  case (open_file filp e minor r)
  then show ?thesis using keeps_inv_step [OF open_inv [OF K(1) i]] by blast
next
  case (request e filp req r)
  then show ?thesis using keeps_inv_step [OF ioctl_inv [OF K _ i]] by blast
next
  case (map_memory e filp vma off r)
  then show ?thesis using keeps_inv_step [OF mmap_inv [OF i]] by blast
next
  case (close_file e filp r)
  then show ?thesis using keeps_inv_step [OF release_inv [OF K(1) _ i]] by blast
next
  case (interrupt rounds e r)
  then show ?thesis using keeps_inv_step [OF irq_inv [OF i]] unfolding hailo_irqhandler_def by blast
next
  case (device d)
  then show ?thesis using board_inv_device [OF i] by simp
next
  case (suspend e r)
  then show ?thesis using keeps_inv_step [OF suspend_inv [OF _ i]] by blast
next
  case (resume e r)
  then show ?thesis using keeps_inv_step [OF resume_inv [OF _ i]] by blast
next
  case (reset_prepare e r)
  then show ?thesis using keeps_inv_step [OF reset_prepare_inv [OF _ i]] by blast
qed

lemma probe_inv:
  assumes w0: "pristine K w0" and c: "calm e" and K: "iomap_nonempty K" and t: "device_type_of (effective_type M t) = Ok HAILO_ACCELERATOR_TYPE_NNC"
    and r: "hailo_pcie_probe io M K e mem t w0 = (Ok (), w)"
  shows "board_inv K (Suc 0) w"
proof -
  have l: "listed K (w_calls w0) (class_res w0) (Map.empty, Map.empty) (b_self w) [] (board_resources w) w" "unused w"
      "pr_accelerator_type (b_pcie_resources w) = HAILO_ACCELERATOR_TYPE_NNC"
    using probe_held [OF _ c K t, of w0 io mem] w0 unfolding r by (auto simp: pristine_def)
  obtain rest where led: "granted K (w_calls w0)" "ledger (w_calls w0) = Some (class_res w0 + rest)" using w0 by (auto simp: pristine_def)
  then have g: "granted K (w_calls w)" "ledger (w_calls w) = Some (class_res w + board_resources w + rest)"
    using l(1) by (auto simp: listed_def probing_def held_def moves_def)
  have e: "b_open_files_list w = []" "waiting w = []" "\<not> b_interrupts_enabled w"
    using l by (auto simp: unused_def listed_def probing_def waiting_def)
  then have "files_inv K (board_files w) w (own_resources w + rest)"
    using g by (simp add: files_inv_def board_files_def total_resources_def own_resources_def irq_res_def)
  then show ?thesis using l e by (auto simp: board_inv_def board_core_def listed_def probing_def unused_def)
qed

lemma reachable_inv:
  assumes K: "kernel_fresh K" "coherent_below_4G K" "iomap_nonempty K" and r: "board_reachable io M K w"
  shows "board_inv K (Suc 0) w"
  using r by (induction rule: board_reachable.induct) (auto intro: probe_inv [OF _ _ K(3)] board_step_inv [OF K(1,2)])


text \<open>The board of the sample machine with one open file.\<close>

definition one_file :: "unit board_world" where
  "one_file = snd (hailo_pcie_fops_open board_io sample_kernel sample_caller 0 7 probed)"

lemmas open_run = hailo_pcie_fops_open_def hailo_pcie_get_board_index_def step_r_def down_add_board_def board_lookup_def up_add_board_def
  down_mutex_def create_file_context_def Let_def call_def open_device_def open_wake_up_def on_device_def up_mutex_def board_connected
  open_enable_interrupts_def hailo_enable_interrupts_def poke_device_def file_context_init_def context_of_def hailo_nnc_file_context_init_def
  add_notification_wait_def

lemma open_succeeds: "hailo_pcie_fops_open board_io sample_kernel sample_caller 0 7 probed = (Ok (), one_file)"
proof -
  have "fst (hailo_pcie_fops_open board_io sample_kernel sample_caller 0 7 probed) = Ok ()" by (simp add: open_run)
  then show ?thesis by (simp add: one_file_def prod_eq_iff)
qed

lemma new_context: "ctx_vdma_context zero_file_context = zero_context"
  by (simp add: zero_file_context_def zero_context_def)

definition one_file_sample :: "unit board_world \<Rightarrow> bool" where
  "one_file_sample w \<longleftrightarrow> b_ref_count w = 1 \<and>
     b_open_files_list w = [length (w_calls probed)] \<and>
     b_interrupts_enabled w \<and>
     b_alive w \<and>
     b_pDev w \<and>
     w_board_mutex w = 1 \<and>
     b_add_board_mutex w = 1 \<and>
     b_self w = 0 \<and>
     b_board_list w = [(0, 0)] \<and>
     vc_used_by_filp (w_controller w) = None \<and>
     w_controller w = w_controller probed \<and>
     b_contexts w = [length (w_calls probed) \<mapsto> zero_file_context\<lparr>ctx_filp := 7, ctx_vdma_context := hailo_vdma_file_context_init zero_context,
     ctx_is_valid := True\<rparr>] \<and>
     nnc_notification_wait_list (b_nnc w) = [Suc (Suc (Suc (length (w_calls probed))))] \<and>
     b_pcie_resources w = b_pcie_resources probed \<and>
     b_notification_waits w = [Suc (Suc (Suc (length (w_calls probed)))) \<mapsto> \<lparr> nw_tgid = e_tgid sample_caller, nw_filp = 7, nw_notification_completion = init_completion,
     nw_is_disabled = False \<rparr>]"

lemma one_file_is_sample: "one_file_sample one_file"
  by (simp add: one_file_def open_run) (simp add: one_file_sample_def new_context)

lemma one_file_fields [simp]:
  "b_ref_count one_file = 1" "b_open_files_list one_file = [length (w_calls probed)]" "b_interrupts_enabled one_file" "b_alive one_file" "b_pDev one_file"
  "w_board_mutex one_file = 1" "b_add_board_mutex one_file = 1" "b_self one_file = 0" "b_board_list one_file = [(0, 0)]"
  "vc_used_by_filp (w_controller one_file) = None" "w_controller one_file = w_controller probed"
  "b_contexts one_file = [length (w_calls probed) \<mapsto> zero_file_context\<lparr>ctx_filp := 7, ctx_vdma_context := hailo_vdma_file_context_init zero_context,
     ctx_is_valid := True\<rparr>]"
  "nnc_notification_wait_list (b_nnc one_file) = [Suc (Suc (Suc (length (w_calls probed))))]" "b_pcie_resources one_file = b_pcie_resources probed"
  "b_notification_waits one_file = [Suc (Suc (Suc (length (w_calls probed)))) \<mapsto> \<lparr> nw_tgid = e_tgid sample_caller, nw_filp = 7, nw_notification_completion = init_completion,
     nw_is_disabled = False \<rparr>]"
  using one_file_is_sample by (simp_all add: one_file_sample_def)

lemma sample_pristine: "pristine sample_kernel no_board"
  by (simp add: pristine_def class_res_def no_board_def)

lemma one_file_reachable: "board_reachable board_io sample_params sample_kernel one_file"
proof (rule board_reachable.step)
  show "board_reachable board_io sample_params sample_kernel probed"
    by (rule board_reachable.probe [OF sample_pristine sample_calm sample_type probe_succeeds])
  show "board_step board_io sample_params sample_kernel probed one_file"
    by (rule board_step.open_file [OF _ open_succeeds]) (simp_all add: board_files_def)
qed


end
