(* ===== verification/Pcie_Lifecycle.thy ===== *)
theory Pcie_Lifecycle
  imports Pcie_Session
begin

text \<open>
  The life of a board: its index in the list of boards, what probing takes and gives back on every path, removal, and loading the
  module.
\<close>

section \<open>The index of a board\<close>

text \<open>The list of boards is kept strictly sorted by index; the reference for a new index is the least one that is free.\<close>

definition board_indices :: "(ptr \<times> u32) list \<Rightarrow> nat list" where
  "board_indices boards = map (unat \<circ> snd) boards"

definition boards_ok :: "(ptr \<times> u32) list \<Rightarrow> bool" where
  "boards_ok boards \<longleftrightarrow> sorted_wrt (<) (board_indices boards) \<and> length boards < 2 ^ 32"

definition least_free_index :: "(ptr \<times> u32) list \<Rightarrow> nat" where
  "least_free_index boards = (LEAST n. n \<notin> set (board_indices boards))"

lemma board_indices_simps [simp]: "board_indices [] = []" "board_indices (b # bs) = unat (snd b) # board_indices bs"
  by (simp_all add: board_indices_def)

lemma in_board_indices: "n \<in> set (board_indices bs) \<longleftrightarrow> (\<exists>p i. (p, i) \<in> set bs \<and> n = unat i)"
  by (force simp: board_indices_def)

text \<open>
  The loop, started at a board whose index is \<open>n\<close>, behaves as the reference on a list whose indices start at \<open>n\<close> without a gap
  before it.
\<close>

lemma insert_loop_least:
  assumes "sorted_wrt (<) (board_indices bs)" "bs \<noteq> []" "unat (snd (hd bs)) + length bs < 2 ^ 32" "insert_loop p bs = (index, bs')"
  shows "unat index \<notin> set (board_indices bs) \<and> unat (snd (hd bs)) < unat index \<and>
    (\<forall>n. unat (snd (hd bs)) \<le> n \<longrightarrow> n < unat index \<longrightarrow> n \<in> set (board_indices bs)) \<and>
    sorted_wrt (<) (board_indices bs') \<and> set bs' = insert (p, index) (set bs) \<and> length bs' = Suc (length bs) \<and> hd bs' = hd bs"
  using assms
proof (induction p bs arbitrary: index bs' rule: insert_loop.induct)
  case (2 p q i)
  have "unat (i + 1) = unat i + 1" using 2 by (intro unat_Suc_small) simp
  with 2 show ?case by (auto simp: le_less_Suc_eq)
next
  case (3 p q i q' i' boards)
  have s: "unat (i + 1) = unat i + 1" using 3 by (intro unat_Suc_small) simp
  show ?case
  proof (cases "i + 1 = i'")
    case False
    then have "unat i + 1 \<noteq> unat i'" using s by (metis word_unat_eq_iff)
    moreover have "unat i' < x" if "x \<in> set (board_indices boards)" for x using that 3(2) by simp
    ultimately show ?thesis using 3 False s by (fastforce simp: le_less_Suc_eq)
  next
    case True
    obtain ix rest where r: "insert_loop p ((q', i') # boards) = (ix, rest)" by fastforce
    have i': "unat i' = unat i + 1" using s True by simp
    have len: "unat (snd (hd ((q', i') # boards))) + length ((q', i') # boards) < 2 ^ 32" using 3(4) i' by simp
    note IH = 3(1) [OF _ _ _ len r]
    have eq: "index = ix" "bs' = (q, i) # rest" using 3(5) True r by auto
    have ih: "unat ix \<notin> set (board_indices ((q', i') # boards))" "unat i' < unat ix"
      "\<And>n. unat i' \<le> n \<Longrightarrow> n < unat ix \<Longrightarrow> n \<in> set (board_indices ((q', i') # boards))"
      "sorted_wrt (<) (board_indices rest)" "set rest = insert (p, ix) (set ((q', i') # boards))" "length rest = Suc (Suc (length boards))" "hd rest = (q', i')"
      using IH True 3(2) by auto
    have above: "unat i < m" if "m \<in> set (board_indices rest)" for m
      using that ih(2,5) i' 3(2) by (fastforce simp: in_board_indices)
    have gap: "n \<in> set (board_indices ((q, i) # (q', i') # boards))" if "unat i \<le> n" "n < unat ix" for n
      using that ih(3) [of n] i' by (cases "n = unat i") auto
    show ?thesis unfolding eq using ih gap above i' 3(2) by auto
  qed
qed simp

lemma least_free_index_eq:
  assumes "n \<notin> set (board_indices bs)" "\<And>m. m < n \<Longrightarrow> m \<in> set (board_indices bs)"
  shows "least_free_index bs = n"
  unfolding least_free_index_def using assms by (intro Least_equality) (auto simp: not_less [symmetric])

text \<open>C19: \<open>hailo_pcie_insert_board\<close> on a list of boards sorted by index: with the class of the devices present it succeeds, the
  new board gets the least index that is not in use, and the list with the board in it is sorted by index again.\<close>

theorem insert_board_least_free:
  assumes "boards_ok (b_board_list w)" "b_chrdev_class w \<noteq> None" "0 < b_add_board_mutex w"
  shows "\<exists>w'. hailo_pcie_insert_board K w = (Ok (), w') \<and> unat (b_board_index w') = least_free_index (b_board_list w) \<and>
    sorted_wrt (<) (board_indices (b_board_list w')) \<and>
    set (b_board_list w') = insert (b_self w, b_board_index w') (set (b_board_list w)) \<and>
    length (b_board_list w') = Suc (length (b_board_list w)) \<and> b_add_board_mutex w' = b_add_board_mutex w"
proof -
  let ?bs = "b_board_list w"
  obtain index bs' where r: "insert_index (b_self w) ?bs = (index, bs')" by fastforce
  have s: "sorted_wrt (<) (board_indices ?bs)" "length ?bs < 2 ^ 32" using assms(1) by (auto simp: boards_ok_def)
  have "unat index = least_free_index ?bs \<and> sorted_wrt (<) (board_indices bs') \<and> set bs' = insert (b_self w, index) (set ?bs) \<and>
    length bs' = Suc (length ?bs)"
  proof (cases "?bs = [] \<or> 0 < snd (hd ?bs)")
    case True
    then have e: "index = 0" "bs' = (b_self w, 0) # ?bs" using r by (auto simp: insert_index_def)
    have pos: "0 < m" if "m \<in> set (board_indices ?bs)" for m
      using that True s(1) by (cases ?bs) (auto simp: unat_gt_0 word_neq_0_conv)
    then have "0 \<notin> set (board_indices ?bs)" by blast
    then have "least_free_index ?bs = 0" by (intro least_free_index_eq) auto
    then show ?thesis using e s(1) pos by auto
  next
    case False
    then have h: "?bs \<noteq> []" "snd (hd ?bs) = 0" by (simp_all add: not_less)
    have l: "insert_loop (b_self w) ?bs = (index, bs')" using r False by (auto simp: insert_index_def)
    note i = insert_loop_least [OF s(1) h(1) _ l]
    have "least_free_index ?bs = unat index" using i h s(2) by (intro least_free_index_eq) auto
    then show ?thesis using i h s(2) by auto
  qed
  then show ?thesis using r assms(2,3)
    by (simp add: hailo_pcie_insert_board_def step_r_def down_add_board_def create_class_def up_add_board_def)
qed

theorem insert_board_least_free_witness:
  "\<exists>w'. hailo_pcie_insert_board sample_kernel (no_board\<lparr>b_self := 9, b_chrdev_class := Some True, b_board_list := [(5, 0), (6, 2)]\<rparr>) = (Ok (), w') \<and>
    b_board_index w' = 1"
proof -
  let ?w = "no_board\<lparr>b_self := 9, b_chrdev_class := Some True, b_board_list := [(5, 0), (6, 2)]\<rparr>"
  have l: "least_free_index [(5 :: ptr, 0 :: u32), (6, 2)] = 1" by (rule least_free_index_eq) auto
  obtain w' where "hailo_pcie_insert_board sample_kernel ?w = (Ok (), w')" "unat (b_board_index w') = least_free_index (b_board_list ?w)"
    using insert_board_least_free [of ?w sample_kernel] by (auto simp: boards_ok_def)
  then show ?thesis using l by (auto simp: word_unat_eq_iff)
qed

section \<open>The page size of descriptors\<close>

lemma readrq_cases: "hailo_get_desc_page_size M K cs = Ok n \<Longrightarrow> mp_force_desc_page_size M = 0 \<Longrightarrow> n \<in> {128, 256, 4096}"
  by (auto simp: hailo_get_desc_page_size_def Let_def bind_r_eq_Ok PAGE_SIZE_def PAGE_SHIFT_def split: if_splits)

text \<open>C34: a page size that \<open>hailo_get_desc_page_size\<close> accepts is a power of two of at most 4096, whatever the module parameter and
  the device's read request size are; so it fits the 16 bits in which the device properties report it.\<close>

theorem desc_page_size_bounds:
  assumes "hailo_get_desc_page_size M K cs = Ok n"
  shows "n \<noteq> 0 \<and> n AND (n - 1) = 0 \<and> n \<le> 4096 \<and> ucast (ucast n :: u16) = n"
proof -
  have b: "n \<noteq> 0 \<and> n AND (n - 1) = 0 \<and> n \<le> 4096"
  proof (cases "mp_force_desc_page_size M = 0")
    case True
    then show ?thesis using readrq_cases [OF assms] by auto
  next
    case False
    then show ?thesis using assms by (auto simp: hailo_get_desc_page_size_def Let_def split: if_splits)
  qed
  moreover have "ucast (ucast n :: u16) = n"
  proof -
    have "unat n < 2 ^ 16" using b by (simp add: word_le_nat_alt)
    then show ?thesis by (intro word_unat_eq_iff [THEN iffD2]) (simp add: unsigned_ucast_eq unsigned_take_bit_eq take_bit_nat_eq_self)
  qed
  ultimately show ?thesis by simp
qed

theorem desc_page_size_bounds_witness: "hailo_get_desc_page_size sample_params sample_kernel [] = Ok 128 \<and> (128 :: u32) AND 127 = 0"
proof -
  have "hailo_get_desc_page_size sample_params sample_kernel [] = Ok 128"
    by (simp add: hailo_get_desc_page_size_def sample_params_def PCI_EXP_DEVCTL_READRQ_128B_def)
  with desc_page_size_bounds [OF this] show ?thesis by simp
qed

section \<open>Failures that stay\<close>

text \<open>C36: when the class of the character devices cannot be created, \<open>hailo_pcie_insert_board\<close> returns the error without releasing the
  semaphore of the list of boards: every later open, insertion and removal of a board blocks for ever.\<close>

theorem class_failure_blocks:
  assumes "b_chrdev_class w = None" "k_class_create K (w_calls w) = Err x" "b_add_board_mutex w = 1"
  shows "\<exists>w'. hailo_pcie_insert_board K w = (Err x, w') \<and> (\<forall>io e minor filp. fst (hailo_pcie_fops_open io K e minor filp w') = Fault Blocked) \<and>
    fst (hailo_pcie_insert_board K w') = Fault Blocked \<and> fst (hailo_pcie_remove_board w') = Fault Blocked"
  using assms
  by (simp add: hailo_pcie_insert_board_def hailo_pcie_remove_board_def step_r_def down_add_board_def create_class_def Let_def hailo_pcie_fops_open_def
      hailo_pcie_get_board_index_def)

theorem class_failure_blocks_witness:
  "\<exists>w'. hailo_pcie_insert_board (sample_kernel\<lparr>k_class_create := (\<lambda>cs. Err ENOMEM)\<rparr>) no_board = (Err ENOMEM, w') \<and>
    fst (hailo_pcie_fops_open board_io (sample_kernel\<lparr>k_class_create := (\<lambda>cs. Err ENOMEM)\<rparr>) sample_caller 0 7 w') = Fault Blocked"
proof -
  let ?K = "sample_kernel\<lparr>k_class_create := (\<lambda>cs. Err ENOMEM)\<rparr>"
  have "k_class_create ?K (w_calls no_board) = Err ENOMEM" by simp
  from class_failure_blocks [OF no_board_fields(3) this no_board_fields(4)] show ?thesis by blast
qed

text \<open>C37: when the PCI driver cannot be registered, \<open>hailo_pcie_module_init\<close> fails but the character device stays registered: no board was
  probed, so there is no class, and \<open>hailo_pcie_unregister_chrdev\<close> returns early. Unloading a module that never probed a board
  leaves it as well.\<close>

theorem module_keeps_chrdev:
  assumes "b_chrdev_class w = None" "k_register_chrdev K (w_calls w) = Ok ()"
  shows "(\<forall>x. k_pci_register_driver K (Register_chrdev (Ok ()) # w_calls w) = Err x \<longrightarrow>
      (\<exists>w'. hailo_pcie_module_init K w = (Err x, w') \<and> moves K (w_calls w) {#} {#Chrdev#} (w_calls w'))) \<and>
    (k_pci_register_driver K (Register_chrdev (Ok ()) # w_calls w) = Ok () \<longrightarrow>
      (\<exists>w'. hailo_pcie_module_init K w = (Ok (), w') \<and> moves K (w_calls w) {#} {#Chrdev#} (w_calls (hailo_pcie_module_exit w'))))"
proof -
  have c: "moves K (w_calls w) {#} {#Chrdev#} (Register_chrdev (Ok ()) # w_calls w)" by (rule moves_first) simp_all
  have e: "moves K (w_calls w) {#} {#Chrdev#} (Pci_register_driver (Err x) # Register_chrdev (Ok ()) # w_calls w)" for x
    by (rule moves_quiet [OF c]) simp_all
  have "moves K (w_calls w) {#} {#Pci_driver, Chrdev#} (Pci_register_driver (Ok ()) # Register_chrdev (Ok ()) # w_calls w)"
    by (rule moves_acquire [OF c]) simp_all
  then have "moves K (w_calls w) {#} {#Chrdev#} (Pci_unregister_driver # Pci_register_driver (Ok ()) # Register_chrdev (Ok ()) # w_calls w)"
    by (rule moves_release) simp_all
  with e assms show ?thesis
    by (simp add: hailo_pcie_module_init_def hailo_pcie_register_chrdev_def hailo_pcie_unregister_chrdev_def hailo_pcie_module_exit_def Let_def)
qed

theorem module_keeps_chrdev_witness:
  "\<exists>w'. hailo_pcie_module_init sample_kernel no_board = (Ok (), w') \<and> ledger (w_calls (hailo_pcie_module_exit w')) = Some {#Chrdev#}"
proof -
  have "k_register_chrdev sample_kernel cs = Ok ()" "k_pci_register_driver sample_kernel cs = Ok ()" for cs by (simp_all add: sample_kernel_def)
  then show ?thesis using module_keeps_chrdev [OF no_board_fields(3), of sample_kernel] by (auto simp: moves_def)
qed

section \<open>Suspend\<close>

lemma invalidate_all:
  assumes "for_each invalidate_context ps w = Ok w'"
  shows "(\<forall>p \<in> set ps. \<exists>c. b_contexts w' p = Some c \<and> \<not> ctx_is_valid c) \<and>
    (\<forall>p. (\<exists>c. b_contexts w p = Some c \<and> \<not> ctx_is_valid c) \<longrightarrow> (\<exists>c. b_contexts w' p = Some c \<and> \<not> ctx_is_valid c)) \<and> b_open_files_list w' = b_open_files_list w"
  using assms
proof (induction ps arbitrary: w)
  case (Cons p ps)
  then obtain w1 where w1: "invalidate_context p w = Ok w1" "for_each invalidate_context ps w1 = Ok w'" by (auto simp: bind_r_eq_Ok)
  note IH = Cons.IH [OF w1(2)]
  obtain c where c: "b_contexts w p = Some c" "w1 = w\<lparr>b_contexts := (b_contexts w)(p \<mapsto> c\<lparr>ctx_is_valid := False\<rparr>)\<rparr>"
    using w1(1) by (auto simp: invalidate_context_def split: option.splits)
  show ?case using IH c by (auto split: if_splits)
qed auto

text \<open>C22: after a suspend no request of a file that was open reaches the device: until the file is opened again every request and every
  mapping of it returns an error and changes nothing (the contexts are marked invalid, and closing them still works).\<close>

theorem suspended_files_refused:
  assumes "kernel_fresh K" "coherent_below_4G K" "iomap_nonempty K" "board_reachable io M K w" "board_env K e"
    and "hailo_pcie_suspend io e w = (Ok (), w')" and "e_access_ok e2" "e_lock_ok e2"
  shows "hailo_pcie_fops_unlockedioctl io K e2 filp req w' = (Err EINVAL, w') \<and> hailo_pcie_fops_mmap K e2 filp vma off w' = (Err EINVAL, w')"
proof -
  have "board_inv K (Suc 0) w'" using keeps_inv_step [OF suspend_inv [OF assms(5) reachable_inv [OF assms(1-4)]] assms(6)] by simp
  then have i: "b_alive w'" "b_pDev w'" "w_board_mutex w' = 1" by (simp_all add: board_inv_def board_core_def)
  obtain w1 w2 where w2: "for_each invalidate_context (b_open_files_list w1) w1 = Ok w2" "w' = up_mutex w2"
  proof -
    obtain r0 v0 where 0: "step_r down_mutex w = (r0, v0)" by fastforce
    obtain r1 v1 where 1: "driver_down_if_used io e v0 = (r1, v1)" by fastforce
    let ?v = "hailo_disable_interrupts io v1"
    show ?thesis
      using assms(6) 0 1 that [of ?v] unfolding hailo_pcie_suspend_def
      by (cases r0; cases r1; cases "for_each invalidate_context (b_open_files_list ?v) ?v") (simp_all add: step_r_def Let_def)
  qed
  have live: "\<exists>c. b_contexts w' p = Some c \<and> \<not> ctx_is_valid c" if "p \<in> set (b_open_files_list w')" for p
    using invalidate_all [OF w2(1)] that w2(2) by (auto simp: up_mutex_def)
  let ?w = "w'\<lparr>w_board_mutex := 0\<rparr>"
  have d: "step_r down_mutex w' = (Ok (), ?w)" "up_mutex ?w = w'" using i by (simp_all add: step_r_def down_mutex_def up_mutex_def)
  have "\<forall>p \<in> set (b_open_files_list ?w). b_contexts ?w p \<noteq> None" using live by fastforce
  from list_find_live [OF this, of "\<lambda>c. ctx_filp c = filp"] obtain found where f: "find_file_context filp ?w = Ok found"
    unfolding find_file_context_def by blast
  have v: "\<not> ctx_is_valid c" if "found = Some (p, c)" for p c
    using list_find_Some [OF f [unfolded find_file_context_def that]] live [of p] by auto
  show ?thesis using i d f v assms(7,8)
    by (auto simp: hailo_pcie_fops_unlockedioctl_def hailo_pcie_fops_mmap_def Let_def split: option.split)
qed

lemma sample_env: "board_env K sample_caller"
  by (simp add: board_env_def)

theorem suspended_files_refused_witness:
  "\<exists>w'. hailo_pcie_suspend board_io sample_caller one_file = (Ok (), w') \<and>
    hailo_pcie_fops_unlockedioctl board_io sample_kernel sample_caller 7 (Nnc HAILO_READ_NOTIFICATION) w' = (Err EINVAL, w')"
proof -
  have "fst (hailo_pcie_suspend board_io sample_caller one_file) = Ok ()"
    by (simp add: hailo_pcie_suspend_def step_r_def down_mutex_def driver_down_if_used_def Let_def hailo_disable_interrupts_def invalidate_context_def)
  then obtain w' where w': "hailo_pcie_suspend board_io sample_caller one_file = (Ok (), w')"
    by (cases "hailo_pcie_suspend board_io sample_caller one_file") auto
  from suspended_files_refused [OF sample_kernel_fresh sample_kernel_coherent sample_iomap one_file_reachable sample_env this, of sample_caller]
  show ?thesis using w' by (simp add: sample_caller_def)
qed

section \<open>Removal and the last close\<close>

text \<open>A file that did nothing with the vDMA has nothing to give back.\<close>

lemma finalize_new_file:
  assumes "length (engines w) = 1" "vc_used_by_filp (w_controller w) \<noteq> Some f"
  shows "hailo_vdma_file_context_finalize K (hailo_vdma_file_context_init zero_context) f w = Ok (hailo_vdma_file_context_init zero_context, w)"
proof -
  have d: "drop_lists [] dls = dls" for dls by (rule ext) (simp add: drop_lists_def)
  have "w\<lparr>w_buffers := w_buffers w, w_desc_buffers := w_desc_buffers w, w_lists := w_lists w, w_low_buffers := w_low_buffers w,
      w_cont_buffers := w_cont_buffers w, w_calls := w_calls w\<rparr> = w" by (cases w) simp
  then show ?thesis using assms
    by (simp add: hailo_vdma_file_context_finalize_def finalize_engine_def hailo_vdma_file_context_init_def zero_context_def MAX_VDMA_ENGINES_def
        clear_file_lists_def hailo_vdma_clear_descriptors_buffer_list_def hailo_vdma_clear_low_memory_buffer_list_def
        hailo_vdma_clear_continuous_buffer_list_def d)
qed

text \<open>C38: \<open>hailo_pcie_remove\<close> releases the board's semaphore before it reads the reference count. When the last open file is closed in between,
  that close frees the board (its device is already gone), and the removal reads freed memory.\<close>

theorem remove_races_with_last_close:
  "fst (hailo_pcie_remove board_io
      (sample_caller\<lparr>e_others := (\<lambda>w. snd (hailo_pcie_fops_release board_io sample_params sample_kernel sample_caller 7 w))\<rparr>) one_file) = Fault Use_after_free"
proof -
  let ?w = "one_file\<lparr>w_board_mutex := 0\<rparr>"
  define w1 where "w1 = snd (remove_locked board_io ?w)"
  note run = remove_locked_def hailo_pcie_remove_board_def down_add_board_def up_add_board_def Let_def step_r_def pcie_resources_release_def
    release_config_def release_vdma_registers_def release_fw_access_def hailo_bar_iounmap_def hailo_disable_interrupts_def hailo_nnc_finalize_def
    modify_wait_def up_mutex_def
  have "fst (remove_locked board_io ?w) = Ok ()" by (simp add: run)
  then have r: "remove_locked board_io ?w = (Ok (), w1)" by (simp add: w1_def prod_eq_iff)
  have f: "b_alive w1" "\<not> b_pDev w1" "w_board_mutex w1 = 1" "b_ref_count w1 = 1" "b_open_files_list w1 = b_open_files_list one_file" "b_contexts w1 = b_contexts one_file"
    "nnc_notification_wait_list (b_nnc w1) = nnc_notification_wait_list (b_nnc one_file)" "engines w1 = engines probed" "vc_used_by_filp (w_controller w1) = None"
    "b_notification_waits w1 = [Suc (Suc (Suc (length (w_calls probed)))) \<mapsto>
       \<lparr> nw_tgid = e_tgid sample_caller, nw_filp = 7, nw_notification_completion = complete init_completion, nw_is_disabled = True \<rparr>]" "pr_accelerator_type (b_pcie_resources w1) = HAILO_ACCELERATOR_TYPE_NNC"
    by (simp_all add: w1_def run disable_wait_def)
  have "\<not> b_alive (snd (hailo_pcie_fops_release board_io sample_params sample_kernel sample_caller 7 w1))"
    using f by (auto simp: hailo_pcie_fops_release_def step_r_def down_mutex_def find_file_context_def finalize_file_def context_of_def
        hailo_nnc_file_context_finalize_def clear_notification_wait_list_def clear_wait_def call_def finalize_new_file release_file_context_def release_last_def
        Let_def hailo_disable_interrupts_def up_mutex_def)
  then show ?thesis using r by (simp add: hailo_pcie_remove_def step_r_def down_mutex_def)
qed

end
