(* ===== verification/Pcie_Boot_Files.thy ===== *)
theory Pcie_Boot_Files
  imports Pcie_Samples
begin

text \<open>
  The files of the second boot stage: how they are laid out in the buffers of the boot channels, that the loop over a file ends, and
  when the interrupts of the channels complete the boot.
\<close>

section \<open>The boot channels as one memory\<close>

text \<open>
  A channel holds 65535 descriptors of 512 bytes. Read one after the other, the buffers of the channels are one memory; the next free
  descriptor is its end.
\<close>

definition boot_descs :: nat where "boot_descs = 65535"
definition boot_cap :: nat where "boot_cap = boot_descs * 512"

definition boot_channels :: "'d board_world \<Rightarrow> hailo_pcie_boot_dma_channel_state list" where
  "boot_channels w = fb_channels (b_fw_boot w)"

definition boot_index :: "'d board_world \<Rightarrow> nat" where
  "boot_index w = unat (fb_curr_channel_index (b_fw_boot w))"

definition boot_byte :: "'d board_world \<Rightarrow> nat \<Rightarrow> u8" where
  "boot_byte w k = bc_memory (boot_channels w ! (k div boot_cap)) (k mod boot_cap)"

definition boot_pos :: "'d board_world \<Rightarrow> nat" where
  "boot_pos w = boot_index w * boot_descs + unat (bc_desc_program_num (boot_channels w ! boot_index w))"

definition boot_channel_ok :: "hailo_pcie_boot_dma_channel_state \<Rightarrow> bool" where
  "boot_channel_ok c \<longleftrightarrow> unat (bc_desc_program_num c) \<le> boot_descs \<and>
     (\<forall>b dl. bc_device_descriptors_buffer c = Some (b, dl) \<longrightarrow> dl_desc_page_size dl = 512)"

definition boot_ok :: "'d board_world \<Rightarrow> bool" where
  "boot_ok w \<longleftrightarrow> length (boot_channels w) = 8 \<and> boot_index w < 8 \<and> (\<forall>c \<in> set (boot_channels w). boot_channel_ok c) \<and>
     (\<forall>i. boot_index w < i \<longrightarrow> i < 8 \<longrightarrow> bc_desc_program_num (boot_channels w ! i) = 0)"

section \<open>One chunk\<close>

lemma in_chunk_count:
  assumes "hailo_vdma_program_descriptors_in_chunk a n dl start mx data_id stride chan = (Ok k, dl')"
  shows "k = DIV_ROUND_UP n (ucast (dl_desc_page_size dl)) \<and> dl_desc_page_size dl' = dl_desc_page_size dl"
  using assms by (auto simp: hailo_vdma_program_descriptors_in_chunk_def Let_def int_ret_def split: if_splits result.splits)

lemma program_descriptors_Ok:
  assumes "pcie_vdma_program_one_file_descriptors c a tb i r = (Ok n, c')" "boot_channel_ok c" "unat (tb_size tb) \<le> boot_cap"
  shows "unat n = ceil_div (unat (tb_size tb)) 512 \<and> bc_desc_program_num c' = bc_desc_program_num c \<and> bc_memory c' = bc_memory c \<and> boot_channel_ok c'"
proof -
  obtain dev dl hostb hl where b: "bc_device_descriptors_buffer c = Some (dev, dl)" "bc_host_descriptors_buffer c = Some (hostb, hl)"
    using assms(1) by (auto simp: pcie_vdma_program_one_file_descriptors_def Let_def split: option.splits prod.splits)
  obtain k dl' where d: "hailo_vdma_program_descriptors_in_chunk (ucast a) (tb_size tb) dl (bc_desc_program_num c) (dl_desc_count dl - 1)
      HAILO_PCI_EP_HOST_DMA_DATA_ID DEFAULT_STRIDE 0 = (k, dl')" by fastforce
  obtain h hl' where h: "hailo_vdma_program_descriptors_list hailo_pcie_vdma_hw hl (bc_desc_program_num c) tb True i
      (if r then HAILO_VDMA_INTERRUPTS_DOMAIN_HOST else HAILO_VDMA_INTERRUPTS_DOMAIN_NONE) False DEFAULT_STRIDE = (h, hl')" by fastforce
  have run: "k = Ok n" "c' = c\<lparr>bc_device_descriptors_buffer := Some (dev, dl'), bc_host_descriptors_buffer := Some (hostb, hl')\<rparr>"
    using assms(1) b d h by (cases k; cases h; simp add: pcie_vdma_program_one_file_descriptors_def Let_def split: if_splits)+
  have p: "dl_desc_page_size dl = 512" using assms(2) b(1) by (auto simp: boot_channel_ok_def)
  have n: "n = DIV_ROUND_UP (tb_size tb) 512" "dl_desc_page_size dl' = 512"
    using in_chunk_count [OF d [unfolded run(1)]] p by simp_all
  have "unat n = ceil_div (unat (tb_size tb)) 512"
    using DIV_ROUND_UP_nat [of "tb_size tb" 512] assms(3) by (simp add: n(1) boot_cap_def boot_descs_def)
  then show ?thesis using run(2) n(2) assms(2) by (simp add: boot_channel_ok_def)
qed

lemma boot_chunk_size:
  assumes "unat (bc_desc_program_num c) < boot_descs" "0 < rem" "rem < 2 ^ 32"
  shows "unat (tb_size (fst (boot_chunk c (of_nat rem) raise))) = min rem ((boot_descs - unat (bc_desc_program_num c)) * 512)"
    "unat (tb_offset (fst (boot_chunk c (of_nat rem) raise))) = unat (bc_desc_program_num c) * 512"
proof -
  let ?d = "unat (bc_desc_program_num c)"
  let ?left = "ucast (MAX_SG_DESCS_COUNT - 1 - bc_desc_program_num c) :: u64"
  let ?m = "min (of_nat rem) (?left * ucast HAILO_PCI_OVER_VDMA_PAGE_SIZE) :: u64"
  have d: "?d < 65535" using assms(1) by (simp add: boot_descs_def)
  have up: "unat (ucast (x :: u32) :: u64) = unat x" for x by (simp add: unsigned_ucast_eq)
  have "bc_desc_program_num c \<le> 65535" using d by (simp add: word_le_nat_alt)
  then have l: "unat ?left = 65535 - ?d" unfolding up by (simp add: MAX_SG_DESCS_COUNT_def unat_sub)
  have r: "unat (of_nat rem :: u64) = rem" using assms(3) by (simp add: take_bit_nat_eq_self unsigned_of_nat)
  have p: "unat (?left * ucast HAILO_PCI_OVER_VDMA_PAGE_SIZE) = (65535 - ?d) * 512"
    using unat_mult_lem [THEN iffD1, of ?left "ucast HAILO_PCI_OVER_VDMA_PAGE_SIZE"] l by (simp add: HAILO_PCI_OVER_VDMA_PAGE_SIZE_def)
  have m: "unat ?m = min rem ((65535 - ?d) * 512)" using r p by (simp add: min_def word_le_nat_alt)
  have "unat (ucast ?m :: u32) = unat ?m" using m d by (simp add: unsigned_ucast_eq take_bit_nat_eq_self)
  with m show "unat (tb_size (fst (boot_chunk c (of_nat rem) raise))) = min rem ((boot_descs - ?d) * 512)"
    by (simp add: boot_chunk_def Let_def boot_descs_def)
  show "unat (tb_offset (fst (boot_chunk c (of_nat rem) raise))) = ?d * 512"
    using unat_mult_lem [THEN iffD1, of "bc_desc_program_num c" HAILO_PCI_OVER_VDMA_PAGE_SIZE] d
    by (simp add: boot_chunk_def Let_def HAILO_PCI_OVER_VDMA_PAGE_SIZE_def)
qed

lemma next_channel_step:
  assumes ok: "boot_ok w" and n: "next_channel (fb_curr_channel_index (b_fw_boot w)) (boot_channels w ! boot_index w) = (i, new)" "unat i < 8"
    and w1: "w1 = (if new then modify_boot (\<lambda>b. b\<lparr>fb_curr_channel_index := i, fb_boot_used_channel_bitmap := f b\<rparr>) w else w)"
  shows "boot_ok w1" "boot_index w1 = unat i" "boot_channels w1 = boot_channels w" "boot_pos w1 = boot_pos w"
    "unat (bc_desc_program_num (boot_channels w ! unat i)) < boot_descs"
proof -
  let ?c = "boot_channels w ! boot_index w"
  have b: "boot_index w < 8" "length (boot_channels w) = 8" "unat (bc_desc_program_num ?c) \<le> boot_descs"
    using ok by (auto simp: boot_ok_def boot_channel_ok_def)
  have full: "MAX_SG_DESCS_COUNT - 1 = bc_desc_program_num ?c \<longleftrightarrow> unat (bc_desc_program_num ?c) = boot_descs"
    by (auto simp: MAX_SG_DESCS_COUNT_def boot_descs_def word_unat_eq_iff)
  have "boot_ok w1 \<and> boot_index w1 = unat i \<and> boot_channels w1 = boot_channels w \<and> boot_pos w1 = boot_pos w \<and>
    unat (bc_desc_program_num (boot_channels w ! unat i)) < boot_descs"
  proof (cases new)
    case True
    then have e: "i = fb_curr_channel_index (b_fw_boot w) + 1" "unat (bc_desc_program_num ?c) = boot_descs"
      using n(1) full by (auto simp: next_channel_def split: if_splits)
    have u: "unat i = Suc (boot_index w)" using b(1) unfolding e(1) boot_index_def by (subst unat_Suc_small) simp_all
    have f: "boot_index w1 = unat i" "boot_channels w1 = boot_channels w" using True w1 by (simp_all add: boot_index_def boot_channels_def modify_boot_def)
    have z: "bc_desc_program_num (boot_channels w ! unat i) = 0" using ok u n(2) by (simp add: boot_ok_def)
    show ?thesis
      using ok f u n(2) z e(2) by (simp add: boot_ok_def boot_pos_def boot_descs_def)
  next
    case False
    then have "i = fb_curr_channel_index (b_fw_boot w)" "unat (bc_desc_program_num ?c) \<noteq> boot_descs"
      using n(1) full by (auto simp: next_channel_def split: if_splits)
    then show ?thesis using False w1 ok b(3) by (simp add: boot_index_def)
  qed
  then show "boot_ok w1" "boot_index w1 = unat i" "boot_channels w1 = boot_channels w" "boot_pos w1 = boot_pos w"
    "unat (bc_desc_program_num (boot_channels w ! unat i)) < boot_descs" by simp_all
qed

lemma ceil_div_bounds: "n \<le> 512 * ceil_div n 512" "n \<le> 512 * m \<Longrightarrow> ceil_div n 512 \<le> m" "ceil_div (512 * m + n) 512 = m + ceil_div n 512"
  by (simp_all add: ceil_div_def)

lemma boot_byte_at: "512 * d + k < boot_cap \<Longrightarrow> boot_byte w (512 * (i * boot_descs + d) + k) = bc_memory (boot_channels w ! i) (512 * d + k)"
proof -
  assume a: "512 * d + k < boot_cap"
  have e: "512 * (i * boot_descs + d) + k = (512 * d + k) + boot_cap * i" by (simp add: boot_cap_def algebra_simps)
  have "0 < boot_cap" using a by simp
  then have e: "(512 * (i * boot_descs + d) + k) div boot_cap = i" "(512 * (i * boot_descs + d) + k) mod boot_cap = 512 * d + k"
    unfolding e using a by (simp_all only: div_mult_self2 mod_mult_self2 div_less mod_less add_0_left)
  show ?thesis unfolding boot_byte_def e ..
qed

lemma put_chunk:
  assumes ok: "boot_ok w" and d: "d = unat (bc_desc_program_num (boot_channels w ! boot_index w))" "d < boot_descs" "0 < n" "n \<le> (boot_descs - d) * 512"
    and c: "bc_memory c = (\<lambda>j. if d * 512 \<le> j \<and> j < d * 512 + n then xs ! (j - d * 512) else bc_memory (boot_channels w ! boot_index w) j)"
      "unat (bc_desc_program_num c) = d + ceil_div n 512" "boot_channel_ok c"
    and w': "boot_channels w' = (boot_channels w)[boot_index w := c]" "boot_index w' = boot_index w"
  shows "boot_ok w'" "boot_pos w' = boot_pos w + ceil_div n 512" "k < n \<Longrightarrow> boot_byte w' (512 * boot_pos w + k) = xs ! k"
    "k < 512 * boot_pos w \<Longrightarrow> boot_byte w' k = boot_byte w k"
proof -
  have i: "boot_index w < 8" "length (boot_channels w) = 8" using ok by (simp_all add: boot_ok_def)
  show "boot_ok w'" using ok c(3) i w' by (auto simp: boot_ok_def dest: set_list_update_subset)
  show "boot_pos w' = boot_pos w + ceil_div n 512" using i w' c(2) d(1) by (simp add: boot_pos_def)
  have p: "boot_pos w = boot_index w * boot_descs + d" using d(1) by (simp add: boot_pos_def)
  have cap: "d * 512 + n \<le> boot_cap" using d(2,4) by (simp add: boot_cap_def diff_mult_distrib)
  show "boot_byte w' (512 * boot_pos w + k) = xs ! k" if "k < n"
    using boot_byte_at [of d k w' "boot_index w"] that cap i c(1) w'(1) by (simp add: p mult.commute)
  show "boot_byte w' k = boot_byte w k" if k: "k < 512 * boot_pos w"
  proof (cases "k div boot_cap = boot_index w")
    case True
    have "k = boot_index w * boot_cap + k mod boot_cap" using True by (metis mult_div_mod_eq mult.commute)
    moreover have "512 * boot_pos w = boot_index w * boot_cap + d * 512" by (simp add: p boot_cap_def algebra_simps)
    ultimately have "k mod boot_cap < d * 512" using k by linarith
    then show ?thesis using True i w'(1) c(1) by (simp add: boot_byte_def)
  next
    case False
    then show ?thesis using w'(1) by (simp add: boot_byte_def)
  qed
qed

section \<open>The loop over a file\<close>

text \<open>The programming of descriptors does not wait for anything.\<close>

lemma array_modify_not_Blocked [simp]: "array_modify xs i f \<noteq> Fault Blocked"
  by (simp add: array_modify_def)

lemma full_descs_not_Blocked: "program_full_descs n m page stride data_id i a ds \<noteq> Fault Blocked"
proof (induction n arbitrary: i a ds)
  case (Suc n)
  show ?case
  proof (cases "array_modify ds (unat (i AND m)) (\<lambda>_. hailo_vdma_program_descriptor a (ucast stride) data_id)")
    case (Fault f)
    then have "f \<noteq> Blocked" using array_modify_not_Blocked by metis
    then show ?thesis using Fault by simp
  qed (use Suc in simp_all)
qed simp

lemma in_chunk_not_Blocked: "fst (hailo_vdma_program_descriptors_in_chunk a n dl start mx data_id stride chan) \<noteq> Fault Blocked"
proof -
  have "bind_r r (\<lambda>(ds, idx, ea). array_modify ds (i idx) (f ea)) \<noteq> Fault Blocked" if "r \<noteq> Fault Blocked"
    for r :: "(hailo_vdma_descriptor list \<times> u32 \<times> u64) result" and i f
    using that by (cases r) auto
  from this [OF full_descs_not_Blocked] show ?thesis
    by (auto simp: hailo_vdma_program_descriptors_in_chunk_def Let_def int_ret_def split: result.split)
qed

lemma bind_sg_not_Blocked: "fst (bind_sg_entries sgs off mx data_id stride chan cur n start k dl) \<noteq> Fault Blocked"
proof (induction sgs arbitrary: cur n start k dl)
  case (Cons sg sgs)
  obtain a l where sg: "sg = (a, l)" by (cases sg)
  show ?case
  proof (cases "sg_chunk cur off a l")
    case (Some x)
    obtain b m where x: "x = (b, m)" by (cases x)
    obtain r dl' where r: "hailo_vdma_program_descriptors_in_chunk b (min n m) dl start mx data_id stride chan = (r, dl')" by fastforce
    then have "r \<noteq> Fault Blocked" using in_chunk_not_Blocked by (metis fst_conv)
    then show ?thesis using Cons.IH r by (cases r) (simp_all add: sg Some x Let_def)
  qed (use Cons.IH in \<open>simp add: sg\<close>)
qed simp

lemma program_descriptors_not_Blocked: "fst (pcie_vdma_program_one_file_descriptors c a tb i r) \<noteq> Fault Blocked"
proof -
  have b: "fst (bind_and_program_descriptors_list hw dl start buf ch dom dbg stride) \<noteq> Fault Blocked" for hw dl start buf ch dom dbg stride
  proof -
    let ?page = "ucast (dl_desc_page_size dl) :: u32"
    let ?st = "if stride mod ?page = 0 then ?page else stride"
    let ?mx = "if dl_is_circular dl then start + dl_desc_count dl - 1 else dl_desc_count dl - 1"
    obtain r dl' where r: "bind_sg_entries (tb_sg_table buf) (tb_offset buf) ?mx (ddr_data_id hw) ?st (get_masked_channel_id hw (get_channel_id ch)) 0 (tb_size buf) start 0 dl = (r, dl')"
      by fastforce
    then have nb: "r \<noteq> Fault Blocked" using bind_sg_not_Blocked by (metis fst_conv)
    have fin: "fst (case array_modify xs j g of Ok ds \<Rightarrow> (int_ret k, F ds) | Err e \<Rightarrow> (Err e, dl') | Fault f \<Rightarrow> (Fault f, dl')) \<noteq> Fault Blocked"
      for xs j g k and F :: "hailo_vdma_descriptor list \<Rightarrow> hailo_vdma_descriptors_list"
      by (simp add: array_modify_def int_ret_def)
    show ?thesis
    proof (cases r)
      case (Ok x)
      obtain ps nd dp where x: "x = (ps, nd, dp)" by (cases x)
      show ?thesis unfolding bind_and_program_descriptors_list_def Let_def r Ok x prod.case result.case using fin by simp
    next
      case (Fault f)
      then have f: "f \<noteq> Blocked" using nb by simp
      show ?thesis unfolding bind_and_program_descriptors_list_def Let_def r Fault prod.case result.case using f by simp
    next
      case (Err x)
      show ?thesis unfolding bind_and_program_descriptors_list_def Let_def r Err prod.case result.case by simp
    qed
  qed
  have "bind_r x (\<lambda>h. if h \<noteq> d then Err EINVAL else Ok h) \<noteq> Fault Blocked" if "x \<noteq> Fault Blocked" for x d
    using that by (cases x) auto
  note check = this
  show ?thesis
  proof (cases "bc_device_descriptors_buffer c"; cases "bc_host_descriptors_buffer c")
    fix x y assume x: "bc_device_descriptors_buffer c = Some x" "bc_host_descriptors_buffer c = Some y"
    obtain dev dl hostb hl where xy: "x = (dev, dl)" "y = (hostb, hl)" by (cases x, cases y)
    obtain k dl' where k: "hailo_vdma_program_descriptors_in_chunk (ucast a) (tb_size tb) dl (bc_desc_program_num c) (dl_desc_count dl - 1)
      HAILO_PCI_EP_HOST_DMA_DATA_ID DEFAULT_STRIDE 0 = (k, dl')" by fastforce
    obtain h hl' where h: "bind_and_program_descriptors_list hailo_pcie_vdma_hw hl (bc_desc_program_num c) tb i
      (if r then HAILO_VDMA_INTERRUPTS_DOMAIN_HOST else HAILO_VDMA_INTERRUPTS_DOMAIN_NONE) False DEFAULT_STRIDE = (h, hl')" by fastforce
    have "k \<noteq> Fault Blocked" "h \<noteq> Fault Blocked" using k h b in_chunk_not_Blocked by (metis fst_conv)+
    then show ?thesis using x xy k h check [of h]
      by (cases k) (simp_all add: pcie_vdma_program_one_file_descriptors_def Let_def hailo_vdma_program_descriptors_list_def)
  qed (simp_all add: pcie_vdma_program_one_file_descriptors_def Let_def)
qed

text \<open>One round either ends the loop with an error or writes the next bytes of the file at the end of the memory.\<close>

definition file_written :: "u8 list \<Rightarrow> nat \<Rightarrow> 'd board_world \<Rightarrow> nat \<Rightarrow> 'd board_world \<Rightarrow> bool" where
  "file_written bs offset w n w' \<longleftrightarrow> boot_ok w' \<and> boot_pos w' = boot_pos w + ceil_div n 512 \<and>
     (\<forall>k < n. boot_byte w' (512 * boot_pos w + k) = bs ! (offset + k)) \<and> (\<forall>k < 512 * boot_pos w. boot_byte w' k = boot_byte w k)"

lemma file_round:
  assumes ok: "boot_ok w" and len: "length bs < 2 ^ 32" "offset < length bs"
  obtains (stop) r w' where "\<And>rounds. program_file_loop (Suc rounds) a bs raise offset dp w = (r, w')" "\<And>n. r \<noteq> Ok n" "r \<noteq> Fault Blocked"
  | (go) n k w' where "\<And>rounds. program_file_loop (Suc rounds) a bs raise offset dp w = program_file_loop rounds a bs raise (offset + n) k w'"
      "0 < n" "offset + n \<le> length bs" "offset + n = length bs \<or> 512 dvd n" "file_written bs offset w n w'"
proof -
  let ?idx = "fb_curr_channel_index (b_fw_boot w)"
  have chs: "fb_channels (b_fw_boot w) = boot_channels w" by (simp add: boot_channels_def)
  have b: "boot_index w < 8" "length (boot_channels w) = 8" using ok by (auto simp: boot_ok_def)
  have get0: "boot_channel (unat ?idx) w = Ok (boot_channels w ! boot_index w)"
    using b by (simp add: boot_channel_def chs boot_index_def)
  obtain i new where nx: "next_channel ?idx (boot_channels w ! boot_index w) = (i, new)" by fastforce
  define w1 where "w1 = (if new then modify_boot (\<lambda>b. b\<lparr>fb_curr_channel_index := i,
      fb_boot_used_channel_bitmap := fb_boot_used_channel_bitmap b OR ucast (push_bit (unat i) (1 :: u32))\<rparr>) w else w)"
  have same: "boot_channels w1 = boot_channels w" by (simp add: w1_def boot_channels_def modify_boot_def)
  show ?thesis
  proof (cases "unat i < 8")
    case False
    have "boot_channel (unat i) w1 = Fault Out_of_bounds" using False b same by (simp add: boot_channel_def boot_channels_def array_get_def)
    then have "program_file_loop (Suc rounds) a bs raise offset dp w = (Fault Out_of_bounds, w1)" for rounds
      using len(2) get0 nx by (simp add: w1_def [symmetric])
    from stop [OF this] show ?thesis by simp
  next
    case True
    note st = next_channel_step [OF ok nx True w1_def]
    let ?c = "boot_channels w ! unat i" and ?rem = "length bs - offset"
    obtain tb int where ch: "boot_chunk ?c (of_nat ?rem) raise = (tb, int)" by fastforce
    define n where "n = unat (tb_size tb)"
    define d where "d = unat (bc_desc_program_num ?c)"
    have sz: "n = min ?rem ((boot_descs - d) * 512)" "unat (tb_offset tb) = d * 512"
      using boot_chunk_size [OF st(5), of ?rem raise] len ch by (simp_all add: n_def d_def)
    have n: "0 < n" "offset + n \<le> length bs" "n \<le> (boot_descs - d) * 512" "offset + n = length bs \<or> 512 dvd n"
      using sz(1) st(5) len(2) by (auto simp: d_def min_def)
    let ?xs = "take n (drop offset bs)"
    obtain m c1 where cp: "sg_pcopy_from_buffer ?xs (unat (tb_offset tb)) ?c = (m, c1)" by fastforce
    obtain r c2 where pr: "pcie_vdma_program_one_file_descriptors c1 (a + of_nat offset) tb i int = (r, c2)" by fastforce
    have get1: "boot_channel (unat i) w1 = Ok ?c" using True b same by (simp add: boot_channel_def boot_channels_def)
    have run: "program_file_loop (Suc rounds) a bs raise offset dp w =
        (if n \<noteq> m then (Err EFBIG, set_boot_channel (unat i) c1 w1)
         else andthen (r, set_boot_channel (unat i) c2 w1) (\<lambda>k w. program_file_loop rounds a bs raise (offset + n) k
            (set_boot_channel (unat i) (c2\<lparr>bc_desc_program_num := bc_desc_program_num c2 + k\<rparr>) w)))" for rounds
      using len(2) get0 nx get1 ch cp pr by (simp add: w1_def [symmetric] n_def)
    have nb: "r \<noteq> Fault Blocked" using program_descriptors_not_Blocked pr by (metis fst_conv)
    show ?thesis
    proof (cases "n = m \<and> (\<exists>k. r = Ok k)")
      case False
      define z where "z = (if n \<noteq> m then (Err EFBIG, set_boot_channel (unat i) c1 w1) else (r, set_boot_channel (unat i) c2 w1))"
      have "program_file_loop (Suc rounds) a bs raise offset dp w = (fst z, snd z)" for rounds
        unfolding run z_def using False by (cases r) auto
      from stop [OF this] show ?thesis using False nb by (auto simp: z_def)
    next
      case k: True
      then obtain k where k: "n = m" "r = Ok k" by blast
      let ?c3 = "c2\<lparr>bc_desc_program_num := bc_desc_program_num c2 + k\<rparr>"
      let ?w = "set_boot_channel (unat i) ?c3 (set_boot_channel (unat i) c2 w1)"
      have c1: "bc_memory c1 = (\<lambda>j. if d * 512 \<le> j \<and> j < d * 512 + n then ?xs ! (j - d * 512) else bc_memory ?c j)"
          "bc_desc_program_num c1 = bc_desc_program_num ?c" "bc_device_descriptors_buffer c1 = bc_device_descriptors_buffer ?c"
        using cp k(1) sz(2) by (auto simp: sg_pcopy_from_buffer_def Let_def)
      have okc: "boot_channel_ok ?c" using ok True b(2) by (simp add: boot_ok_def)
      have cap: "unat (tb_size tb) \<le> boot_cap" using n(3) unfolding n_def [symmetric] by (simp add: boot_cap_def diff_mult_distrib)
      have "boot_channel_ok c1" using okc unfolding boot_channel_ok_def c1(2,3) .
      from program_descriptors_Ok [OF pr [unfolded k(2)] this cap]
      have c2: "unat k = ceil_div n 512" "bc_desc_program_num c2 = bc_desc_program_num ?c" "bc_memory c2 = bc_memory c1" "boot_channel_ok c2"
        unfolding c1(2) n_def by blast+
      have le: "d + ceil_div n 512 \<le> boot_descs"
        using ceil_div_bounds(2) [of n "boot_descs - d"] n(3) st(5) by (simp add: d_def mult.commute)
      then have num: "unat (bc_desc_program_num ?c3) = d + ceil_div n 512"
        using c2(1,2) by (simp add: d_def boot_descs_def unat_add_lem [THEN iffD1])
      have h3: "boot_channel_ok ?c3" using c2(4) num le by (simp add: boot_channel_ok_def)
      have h1: "d = unat (bc_desc_program_num (boot_channels w1 ! boot_index w1))" "d < boot_descs" using st(5) by (simp_all add: d_def st(2,3))
      have h2: "bc_memory ?c3 = (\<lambda>j. if d * 512 \<le> j \<and> j < d * 512 + n then ?xs ! (j - d * 512) else bc_memory (boot_channels w1 ! boot_index w1) j)"
        unfolding st(2,3) using c1(1) c2(3) by simp
      have w': "boot_channels ?w = (boot_channels w1)[boot_index w1 := ?c3]" "boot_index ?w = boot_index w1"
        unfolding st(2) by (simp_all add: set_boot_channel_def modify_boot_def boot_channels_def) (simp_all add: boot_index_def st(2) [unfolded boot_index_def])
      note put = put_chunk [OF st(1) h1 n(1,3) h2 num h3 w', unfolded st(4)]
      have byte: "boot_byte w1 k = boot_byte w k" for k by (simp add: boot_byte_def st(3))
      have "file_written bs offset w n ?w" unfolding file_written_def
        using put(1,2) put(3) put(4) len(2) by (auto simp: byte)
      then show ?thesis using go [of n k ?w] run k n by simp
    qed
  qed
qed

lemma file_written_trans:
  assumes a: "file_written bs offset w n w1" "offset + n = length bs \<or> 512 dvd n" and b: "file_written bs (offset + n) w1 m w2"
    and l: "offset + n + m = length bs"
  shows "file_written bs offset w (n + m) w2"
proof -
  have n: "n \<le> 512 * ceil_div n 512" by (rule ceil_div_bounds)
  have e: "512 * boot_pos w1 = 512 * boot_pos w + n \<and> ceil_div (n + m) 512 = ceil_div n 512 + ceil_div m 512" if "0 < m"
  proof -
    obtain q where q: "n = 512 * q" using a(2) l \<open>0 < m\<close> by auto
    then have "ceil_div n 512 = q" using ceil_div_bounds(3) [of q 0] by (simp add: ceil_div_def)
    then show ?thesis using q a(1) ceil_div_bounds(3) [of q m] by (simp add: file_written_def)
  qed
  have bytes: "boot_byte w2 (512 * boot_pos w + k) = bs ! (offset + k)" if k: "k < n + m" for k
  proof (cases "k < n")
    case True
    then have "512 * boot_pos w + k < 512 * boot_pos w1" using a(1) n by (simp add: file_written_def)
    then show ?thesis using a(1) b True by (simp add: file_written_def)
  next
    case False
    then have m: "k - n < m" using k by simp
    then have "512 * boot_pos w + k = 512 * boot_pos w1 + (k - n)" using e False by simp
    moreover have "boot_byte w2 (512 * boot_pos w1 + (k - n)) = bs ! (offset + n + (k - n))"
      using b m unfolding file_written_def by blast
    moreover have "offset + n + (k - n) = offset + k" using False by simp
    ultimately show ?thesis by (simp only:)
  qed
  have old: "boot_byte w2 k = boot_byte w k" if "k < 512 * boot_pos w" for k
  proof -
    have "boot_pos w \<le> boot_pos w1" using a(1) by (simp add: file_written_def)
    then have "k < 512 * boot_pos w1" using that by simp
    then show ?thesis using a(1) b that by (simp add: file_written_def)
  qed
  have "boot_pos w2 = boot_pos w + ceil_div (n + m) 512"
    using a(1) b e by (cases "m = 0") (simp_all add: file_written_def ceil_div_def)
  then show ?thesis using b bytes old by (simp add: file_written_def)
qed

lemma loop_writes_file:
  assumes "boot_ok w" "length bs < 2 ^ 32" "offset \<le> length bs" "program_file_loop rounds a bs raise offset dp w = (Ok n, w')"
  shows "file_written bs offset w (length bs - offset) w'"
  using assms
proof (induction rounds arbitrary: offset dp w)
  case (Suc rounds)
  show ?case
  proof (cases "offset = length bs")
    case True
    then show ?thesis using Suc.prems by (simp add: file_written_def ceil_div_def)
  next
    case False
    then have o: "offset < length bs" using Suc.prems by simp
    show ?thesis
    proof (rule file_round [OF Suc.prems(1,2) o, of a raise dp])
      fix m k w1 assume g: "\<And>rounds. program_file_loop (Suc rounds) a bs raise offset dp w = program_file_loop rounds a bs raise (offset + m) k w1"
        "0 < m" "offset + m \<le> length bs" "offset + m = length bs \<or> 512 dvd m" "file_written bs offset w m w1"
      have "file_written bs (offset + m) w1 (length bs - (offset + m)) w'"
        using Suc.IH [of w1 "offset + m" k] Suc.prems g(1,3,5) by (simp add: file_written_def)
      from file_written_trans [OF g(5,4) this] g(3) show ?thesis by simp
    qed (use Suc.prems in auto)
  qed
qed simp

lemma loop_not_Blocked:
  assumes "boot_ok w" "length bs < 2 ^ 32" "length bs - offset < rounds"
  shows "fst (program_file_loop rounds a bs raise offset dp w) \<noteq> Fault Blocked"
  using assms
proof (induction rounds arbitrary: offset dp w)
  case (Suc rounds)
  show ?case
  proof (cases "length bs \<le> offset")
    case False
    then have o: "offset < length bs" by simp
    show ?thesis
    proof (rule file_round [OF Suc.prems(1,2) o, of a raise dp])
      fix m k w1 assume g: "\<And>rounds. program_file_loop (Suc rounds) a bs raise offset dp w = program_file_loop rounds a bs raise (offset + m) k w1"
        "0 < m" "file_written bs offset w m w1"
      have "length bs - (offset + m) < rounds" using Suc.prems(3) o g(2) by arith
      then show ?thesis using Suc.IH [of w1 "offset + m" k] Suc.prems g(1,3) by (simp add: file_written_def)
    qed auto
  qed simp
qed simp

text \<open>C13: a boot file is laid out without a gap: when \<open>pcie_vdma_program_one_file\<close> succeeds, the bytes of the file are, in order, at the end of the
  memory that the buffers of the boot channels form one after the other - also when the file starts in one channel and goes on in the
  next ones - everything before it is as it was, the next file starts at the next free descriptor, and the channels are in order again.\<close>

theorem boot_file_contiguous:
  assumes "boot_ok w" "e_files e (Some name) = Ok (bs, siz)" "length bs < 2 ^ 32" "pcie_vdma_program_one_file e a name raise w = (Ok n, w')"
  shows "boot_ok w' \<and> boot_pos w' = boot_pos w + ceil_div (length bs) 512 \<and>
    (\<forall>k < length bs. boot_byte w' (512 * boot_pos w + k) = bs ! k) \<and> (\<forall>k < 512 * boot_pos w. boot_byte w' k = boot_byte w k)"
proof -
  let ?w = "call (Request_firmware name (Ok ())) w"
  have c: "boot_channels (call x v) = boot_channels v" "boot_index (call x v) = boot_index v" for x and v :: "'a board_world"
    by (simp_all add: boot_channels_def boot_index_def call_def)
  then have same: "boot_ok (call x v) = boot_ok v" "boot_pos (call x v) = boot_pos v" "boot_byte (call x v) k = boot_byte v k" for x k and v :: "'a board_world"
    by (simp_all add: boot_ok_def boot_pos_def boot_byte_def)
  obtain r w1 where r: "program_file_loop (file_rounds bs) a bs raise 0 0 ?w = (r, w1)" by fastforce
  have "r = Ok n" "w' = call (Release_firmware name) w1"
    using assms(2,4) r by (cases r; simp add: pcie_vdma_program_one_file_def Let_def)+
  then show ?thesis using loop_writes_file [of ?w bs 0 "file_rounds bs" a raise 0 n w1] r assms(1,3) by (simp add: file_written_def same)
qed

text \<open>C23: the loop of \<open>pcie_vdma_program_one_file\<close> ends: on boot channels in order and for a file below 4 GiB each round takes at least one byte of
  the file or stops with an error, so \<open>file_rounds\<close> rounds are always enough.\<close>

theorem boot_file_loop_ends:
  assumes "boot_ok w" "e_files e (Some name) = Ok (bs, siz)" "length bs < 2 ^ 32"
  shows "fst (pcie_vdma_program_one_file e a name raise w) \<noteq> Fault Blocked"
proof -
  let ?w = "call (Request_firmware name (Ok ())) w"
  have "boot_ok ?w" using assms(1) by (simp add: boot_ok_def boot_channels_def boot_index_def call_def)
  from loop_not_Blocked [OF this assms(3), of 0 "file_rounds bs" a raise 0]
  have "fst (program_file_loop (file_rounds bs) a bs raise 0 0 ?w) \<noteq> Fault Blocked" by (simp add: file_rounds_def)
  then show ?thesis using assms(2)
    by (cases "program_file_loop (file_rounds bs) a bs raise 0 0 ?w"; cases "fst (program_file_loop (file_rounds bs) a bs raise 0 0 ?w)")
      (auto simp: pcie_vdma_program_one_file_def Let_def)
qed

text \<open>A sample: boot channels with four descriptors and one page each, and a file of three bytes.\<close>

definition sample_boot_list :: hailo_vdma_descriptors_list where
  "sample_boot_list = \<lparr> dl_desc_list = replicate 4 \<lparr> PageSize_DescControl = 0, AddrL_rsvd_DataID = 0, AddrH = 0, RemainingPageSize_Status = 0 \<rparr>,
     dl_desc_count = 4, dl_desc_count_mask = 3, dl_desc_page_size = 512, dl_is_circular = False \<rparr>"

definition sample_boot_channel :: hailo_pcie_boot_dma_channel_state where
  "sample_boot_channel = zero_boot_channel\<lparr>
     bc_host_descriptors_buffer := Some (\<lparr> db_handle = 0, db_kernel_address = 0, db_dma_address = 0, db_buffer_size = 64 \<rparr>, sample_boot_list),
     bc_device_descriptors_buffer := Some (\<lparr> db_handle = 0, db_kernel_address = 0, db_dma_address = 0, db_buffer_size = 64 \<rparr>, sample_boot_list),
     bc_sg_table := \<lparr> sgt_pages = [], sgt_dma = [(0x8000, 4096)] \<rparr>, bc_buffer_size := 4096\<rparr>"

definition sample_boot :: "unit board_world" where
  "sample_boot = no_board\<lparr>b_fw_boot := \<lparr> fb_channels = replicate 8 sample_boot_channel, fb_curr_channel_index = 0, fb_is_in_boot = True,
     fb_boot_used_channel_bitmap = 3, fb_fw_loaded_completion = 0, fb_vdma_boot_completion = 0 \<rparr>\<rparr>"

definition sample_boot_caller :: "unit caller" where
  "sample_boot_caller = sample_caller\<lparr>e_files := (\<lambda>_. Ok ([7, 8, 9], 3))\<rparr>"

lemma sample_boot_ok: "boot_ok sample_boot"
  by (simp add: boot_ok_def sample_boot_def boot_channels_def boot_index_def sample_boot_channel_def zero_boot_channel_def
      boot_channel_ok_def sample_boot_list_def)

lemmas boot_file_run = boot_channel_def next_channel_def boot_chunk_def sg_pcopy_from_buffer_def pcie_vdma_program_one_file_descriptors_def
  set_boot_channel_def modify_boot_def sample_boot_channel_def zero_boot_channel_def sample_boot_list_def call_def
  hailo_vdma_program_descriptors_in_chunk_def hailo_vdma_program_descriptors_list_def bind_and_program_descriptors_list_def
  MAX_SG_DESCS_COUNT_def HAILO_PCI_OVER_VDMA_PAGE_SIZE_def HAILO_PCI_OVER_VDMA_NUM_CHANNELS_def DIV_ROUND_UP_def int_ret_def
  array_get_def array_modify_def DEFAULT_STRIDE_def sg_chunk_def

lemma sample_boot_run: "fst (pcie_vdma_program_one_file sample_boot_caller 0 ''u-boot.bin'' True sample_boot) = Ok 1"
proof -
  have r: "file_rounds [7, 8, 9] = Suc (Suc 10)" by (simp add: file_rounds_def HAILO_PCI_OVER_VDMA_NUM_CHANNELS_def)
  have "\<exists>w. program_file_loop (Suc (Suc n)) 0 [7, 8, 9] True 0 0 (call (Request_firmware ''u-boot.bin'' (Ok ())) sample_boot) = (Ok 1, w)" for n
    by (simp add: sample_boot_def boot_file_run Let_def)
  from this [of 10] show ?thesis
    unfolding pcie_vdma_program_one_file_def sample_boot_caller_def Let_def by (auto simp: r simp del: program_file_loop.simps)
qed

theorem boot_file_contiguous_witness:
  "\<exists>w'. pcie_vdma_program_one_file sample_boot_caller 0 ''u-boot.bin'' True sample_boot = (Ok 1, w') \<and>
     boot_pos sample_boot = 0 \<and> boot_pos w' = 1 \<and> boot_byte w' 2 = 9"
proof -
  obtain w' where w': "pcie_vdma_program_one_file sample_boot_caller 0 ''u-boot.bin'' True sample_boot = (Ok 1, w')"
    using sample_boot_run by (cases "pcie_vdma_program_one_file sample_boot_caller 0 ''u-boot.bin'' True sample_boot") simp
  have p: "boot_pos sample_boot = 0"
    by (simp add: boot_pos_def boot_index_def boot_channels_def sample_boot_def sample_boot_channel_def zero_boot_channel_def)
  have "boot_byte w' (512 * boot_pos sample_boot + 2) = 9 \<and> boot_pos w' = 1"
    using boot_file_contiguous [OF sample_boot_ok _ _ w', of "[7, 8, 9]" 3] by (simp add: sample_boot_caller_def p ceil_div_def)
  then show ?thesis using w' p by (simp add: numeral_2_eq_2)
qed

theorem boot_file_loop_ends_witness:
  "boot_ok sample_boot \<and> fst (pcie_vdma_program_one_file sample_boot_caller 0 ''u-boot.bin'' True sample_boot) \<noteq> Fault Blocked"
  using boot_file_loop_ends [OF sample_boot_ok, of sample_boot_caller "''u-boot.bin''" "[7, 8, 9]" 3 0 True] sample_boot_ok
  by (simp add: sample_boot_caller_def)

section \<open>Interrupts of the boot\<close>

definition boot_used :: "'d board_world \<Rightarrow> u16" where
  "boot_used w = fb_boot_used_channel_bitmap (b_fw_boot w)"

definition boot_done :: "'d board_world \<Rightarrow> completion" where
  "boot_done w = fb_vdma_boot_completion (b_fw_boot w)"

lemma boot_irq_step:
  assumes "is_sw_interrupts s AND HAILO_PCIE_BOOT_IRQ = 0"
  shows "boot_used (boot_irq_handler s w) = boot_used w AND ucast (NOT (is_vdma_channels_bitmap s))"
    "boot_done (boot_irq_handler s w) = (if boot_used (boot_irq_handler s w) = 0 then - 1 else boot_done w)"
  using assms by (simp_all add: boot_irq_handler_def Let_def boot_used_def boot_done_def complete_all_def)

text \<open>C24: during the boot the transfer counts as complete exactly when every channel that was used has raised its interrupt, in any order and
  spread over any number of interrupts: after handling them a channel is still awaited when none of them named it, and the completion
  is signalled when and only when no channel is awaited any more.\<close>

theorem boot_completes_with_last_channel:
  assumes "\<forall>s \<in> set sources. is_sw_interrupts s AND HAILO_PCIE_BOOT_IRQ = 0" "sources \<noteq> []" "w' = foldl (\<lambda>w s. boot_irq_handler s w) w sources"
  shows "(\<forall>i < 16. bit (boot_used w') i \<longleftrightarrow> bit (boot_used w) i \<and> (\<forall>s \<in> set sources. \<not> bit (is_vdma_channels_bitmap s) i)) \<and>
    boot_done w' = (if boot_used w' = 0 then - 1 else boot_done w)"
proof -
  have "(\<forall>i < 16. bit (boot_used v) i \<longleftrightarrow> bit (boot_used w) i \<and> (\<forall>s \<in> set ss. \<not> bit (is_vdma_channels_bitmap s) i)) \<and>
      (ss \<noteq> [] \<longrightarrow> boot_done v = (if boot_used v = 0 then - 1 else boot_done w)) \<and> (ss = [] \<longrightarrow> boot_done v = boot_done w)"
    if "\<forall>s \<in> set ss. is_sw_interrupts s AND HAILO_PCIE_BOOT_IRQ = 0" "v = foldl (\<lambda>w s. boot_irq_handler s w) w ss" for ss v
    using that
  proof (induction ss arbitrary: v rule: rev_induct)
    case (snoc s ss)
    let ?u = "foldl (\<lambda>w s. boot_irq_handler s w) w ss"
    have s: "is_sw_interrupts s AND HAILO_PCIE_BOOT_IRQ = 0" and v: "v = boot_irq_handler s ?u" using snoc.prems by simp_all
    note IH = snoc.IH [OF _ refl] and st = boot_irq_step [OF s, of ?u]
    have bits: "bit (boot_used v) i \<longleftrightarrow> bit (boot_used ?u) i \<and> \<not> bit (is_vdma_channels_bitmap s) i" if "i < 16" for i
      using that unfolding v st(1) by (simp add: bit_simps)
    have "boot_used v = 0" if "boot_used ?u = 0" using that unfolding v st(1) by simp
    then show ?case using IH snoc.prems(1) bits st(2) v by (auto split: if_splits)
  qed simp
  from this [OF assms(1,3)] assms(2) show ?thesis by simp
qed

theorem boot_completes_with_last_channel_witness:
  "let s = (\<lambda>b. \<lparr> is_sw_interrupts = 0, is_vdma_channels_bitmap = b \<rparr>); w' = foldl (\<lambda>w s. boot_irq_handler s w) sample_boot [s 2, s 1]
   in \<not> bit (boot_used w') 0 \<and> \<not> bit (boot_used w') 1 \<and> boot_done w' = (if boot_used w' = 0 then - 1 else 0)"
  using boot_completes_with_last_channel [of "[\<lparr> is_sw_interrupts = 0, is_vdma_channels_bitmap = 2 \<rparr>, \<lparr> is_sw_interrupts = 0, is_vdma_channels_bitmap = 1 \<rparr>]",
    OF _ _ refl, of sample_boot]
  by (simp add: Let_def boot_used_def boot_done_def sample_boot_def bit_simps)

end
