(* ===== verification/Byte_Order.thy ===== *)
theory Byte_Order
  imports Pcie_Memory
begin

text \<open>
  Byte orders (\<open>src/common/byte_order.h\<close>). The macros of the header convert between the order of the host, which is a parameter here,
  and the little-endian order of the device.
\<close>

section \<open>Byte orders\<close>

datatype byte_order = Little_endian | Big_endian

definition BYTE_ORDER__swap16 :: "u16 \<Rightarrow> u16" where
  "BYTE_ORDER__swap16 n = push_bit 8 (n AND 0x00FF) OR drop_bit 8 (n AND 0xFF00)"

definition BYTE_ORDER__swap32 :: "u32 \<Rightarrow> u32" where
  "BYTE_ORDER__swap32 n = push_bit 16 (ucast (BYTE_ORDER__swap16 (ucast n))) OR ucast (BYTE_ORDER__swap16 (ucast (drop_bit 16 n)))"

definition BYTE_ORDER__swap64 :: "u64 \<Rightarrow> u64" where
  "BYTE_ORDER__swap64 n = push_bit 32 (ucast (BYTE_ORDER__swap32 (ucast n))) OR ucast (BYTE_ORDER__swap32 (ucast (drop_bit 32 n)))"

definition BYTE_ORDER__htods :: "byte_order \<Rightarrow> u16 \<Rightarrow> u16" where
  "BYTE_ORDER__htods h n = (case h of Little_endian \<Rightarrow> n | Big_endian \<Rightarrow> BYTE_ORDER__swap16 n)"

definition BYTE_ORDER__htodl :: "byte_order \<Rightarrow> u32 \<Rightarrow> u32" where
  "BYTE_ORDER__htodl h n = (case h of Little_endian \<Rightarrow> n | Big_endian \<Rightarrow> BYTE_ORDER__swap32 n)"

definition BYTE_ORDER__htodll :: "byte_order \<Rightarrow> u64 \<Rightarrow> u64" where
  "BYTE_ORDER__htodll h n = (case h of Little_endian \<Rightarrow> n | Big_endian \<Rightarrow> BYTE_ORDER__swap64 n)"

text \<open>The conversions from the device to the host are the same functions.\<close>

definition BYTE_ORDER__dtohs :: "byte_order \<Rightarrow> u16 \<Rightarrow> u16" where "BYTE_ORDER__dtohs = BYTE_ORDER__htods"
definition BYTE_ORDER__dtohl :: "byte_order \<Rightarrow> u32 \<Rightarrow> u32" where "BYTE_ORDER__dtohl = BYTE_ORDER__htodl"
definition BYTE_ORDER__dtohll :: "byte_order \<Rightarrow> u64 \<Rightarrow> u64" where "BYTE_ORDER__dtohll = BYTE_ORDER__htodll"

text \<open>How the host's memory holds an integer, and the integer that bytes of the host's memory hold.\<close>

definition in_order :: "byte_order \<Rightarrow> u8 list \<Rightarrow> u8 list" where
  "in_order h bs = (case h of Little_endian \<Rightarrow> bs | Big_endian \<Rightarrow> rev bs)"

definition u16_bytes :: "u16 \<Rightarrow> u8 list" where "u16_bytes v = [ucast v, ucast (drop_bit 8 v)]"
definition u16_at :: "u8 list \<Rightarrow> nat \<Rightarrow> u16" where "u16_at bs i = ucast (bs ! i) OR push_bit 8 (ucast (bs ! (i + 1)))"

definition host16 :: "byte_order \<Rightarrow> u16 \<Rightarrow> u8 list" where "host16 h v = in_order h (u16_bytes v)"
definition host32 :: "byte_order \<Rightarrow> u32 \<Rightarrow> u8 list" where "host32 h v = in_order h (u32_bytes v)"
definition host64 :: "byte_order \<Rightarrow> u64 \<Rightarrow> u8 list" where "host64 h v = in_order h (u64_bytes v)"

definition of_host16 :: "byte_order \<Rightarrow> u8 list \<Rightarrow> u16" where "of_host16 h bs = u16_at (in_order h bs) 0"
definition of_host32 :: "byte_order \<Rightarrow> u8 list \<Rightarrow> u32" where "of_host32 h bs = u32_at (in_order h bs) 0"
definition of_host64 :: "byte_order \<Rightarrow> u8 list \<Rightarrow> u64" where "of_host64 h bs = u64_at (in_order h bs) 0"

text \<open>
  The contract of an integer type on the wire: the host's memory and the integers determine each other, and a converted integer lies
  in memory as the device's order has it. It gives what packing and unpacking need.
\<close>

locale wire_integer =
  fixes host :: "byte_order \<Rightarrow> 'a \<Rightarrow> u8 list" and of_host :: "byte_order \<Rightarrow> u8 list \<Rightarrow> 'a" and convert :: "byte_order \<Rightarrow> 'a \<Rightarrow> 'a" and size_of :: nat
  assumes length_host [simp]: "length (host h x) = size_of"
    and of_host_host [simp]: "of_host h (host h x) = x"
    and host_of_host: "length bs = size_of \<Longrightarrow> host h (of_host h bs) = bs"
    and host_convert [simp]: "host h (convert h x) = host Little_endian x"
    and convert_convert [simp]: "convert h (convert h x) = x"
begin

lemma packed: "of_host Little_endian (host h (convert h x)) = x"
  by simp

lemma device_value:
  assumes "length bs = size_of"
  shows "of_host Little_endian bs = convert h (of_host h bs)"
proof -
  have "host Little_endian (of_host Little_endian bs) = bs" using assms by (rule host_of_host)
  then have "host h (convert h (of_host Little_endian bs)) = bs" by simp
  then have "of_host h bs = convert h (of_host Little_endian bs)" by (metis of_host_host)
  then show ?thesis by simp
qed

lemma unpacked: "length bs = size_of \<Longrightarrow> of_host h (host h (convert h (of_host h bs))) = of_host Little_endian bs"
  by (simp only: device_value [symmetric] of_host_host)

end

lemma byte_masks: "(0x00FF :: u16) = mask 8" "(0xFF00 :: u16) = push_bit 8 (mask 8)"
  by (simp_all add: mask_eq_exp_minus_1 push_bit_eq_mult)

lemmas byte_defs = u16_bytes_def u32_bytes_def u64_bytes_def u16_at_def u32_at_def u64_at_def u32_of_bytes_def

lemma swap_bytes:
  "rev (u16_bytes (BYTE_ORDER__swap16 v)) = u16_bytes v"
  "rev (u32_bytes (BYTE_ORDER__swap32 w)) = u32_bytes w"
  "rev (u64_bytes (BYTE_ORDER__swap64 x)) = u64_bytes x"
  by (auto simp: byte_defs BYTE_ORDER__swap16_def BYTE_ORDER__swap32_def BYTE_ORDER__swap64_def byte_masks bit_simps intro!: bit_word_eqI)

lemma no_bit: "8 \<le> i \<Longrightarrow> \<not> bit (b :: u8) i" "32 \<le> i \<Longrightarrow> \<not> bit (w :: u32) i"
  using bit_imp_le_length by fastforce+

lemma bytes_at:
  "length bs = 2 \<Longrightarrow> u16_bytes (u16_at bs 0) = bs" "length bs = 4 \<Longrightarrow> u32_bytes (u32_at bs 0) = bs"
  "length bs = 8 \<Longrightarrow> u64_bytes (u64_at bs 0) = bs"
proof -
  have "u16_bytes (ucast a OR push_bit 8 (ucast b)) = [a, b]" for a b :: u8
    by (auto simp: byte_defs bit_simps no_bit intro!: bit_word_eqI)
  then show "u16_bytes (u16_at bs 0) = bs" if "length bs = 2"
    using that by (auto simp: length_Suc_conv numeral_eq_Suc u16_at_def)
  have w: "u32_bytes (u32_of_bytes a b c d) = [a, b, c, d]" for a b c d
    by (auto simp: byte_defs bit_simps no_bit intro!: bit_word_eqI)
  then show "u32_bytes (u32_at bs 0) = bs" if "length bs = 4"
    using that by (auto simp: length_Suc_conv numeral_eq_Suc u32_at_def)
  have "u64_bytes (ucast (x :: u32) OR push_bit 32 (ucast (y :: u32))) = u32_bytes x @ u32_bytes y" for x y
  proof -
    have "ucast (ucast x OR push_bit 32 (ucast y) :: u64) = x" "ucast (drop_bit 32 (ucast x OR push_bit 32 (ucast y) :: u64)) = y"
      by (auto simp: bit_simps no_bit intro!: bit_word_eqI)
    then show ?thesis by (simp add: u64_bytes_def)
  qed
  with w show "u64_bytes (u64_at bs 0) = bs" if "length bs = 8"
    using that by (auto simp: length_Suc_conv numeral_eq_Suc u64_at_def u32_at_def)
qed

lemma at_bytes: "u16_at (u16_bytes v) 0 = v" "u32_at (u32_bytes w) 0 = w" "u64_at (u64_bytes x) 0 = x"
proof -
  show "u16_at (u16_bytes v) 0 = v"
  proof (rule bit_word_eqI)
    fix i assume "i < LENGTH(16)"
    then have "i < 8 \<or> 8 \<le> i \<and> i - 8 < 8" by auto
    then show "bit (u16_at (u16_bytes v) 0) i = bit v i" by (auto simp: byte_defs bit_simps)
  qed
  show w: "u32_at (u32_bytes w) 0 = w" for w :: u32 by (simp add: u32_at_def u32_bytes_def u32_of_bytes_bytes)
  have "u64_at (u64_bytes x) 0 = ucast (u32_at (u32_bytes (ucast x)) 0) OR push_bit 32 (ucast (u32_at (u32_bytes (ucast (drop_bit 32 x))) 0))"
    by (simp add: u64_at_def u64_bytes_def u32_at_def u32_bytes_def)
  also have "\<dots> = x" unfolding w
  proof (rule bit_word_eqI)
    fix i assume "i < LENGTH(64)"
    then have "i < 32 \<or> 32 \<le> i \<and> i - 32 < 32" by auto
    then show "bit (ucast (ucast x :: u32) OR push_bit 32 (ucast (ucast (drop_bit 32 x) :: u32)) :: u64) i = bit x i"
      by (auto simp: bit_simps)
  qed
  finally show "u64_at (u64_bytes x) 0 = x" .
qed

lemma swap_swap: "BYTE_ORDER__swap16 (BYTE_ORDER__swap16 v) = v" "BYTE_ORDER__swap32 (BYTE_ORDER__swap32 w) = w"
  "BYTE_ORDER__swap64 (BYTE_ORDER__swap64 x) = x"
proof -
  show "BYTE_ORDER__swap16 (BYTE_ORDER__swap16 v) = v" by (metis at_bytes(1) rev_rev_ident swap_bytes(1))
  show "BYTE_ORDER__swap32 (BYTE_ORDER__swap32 w) = w" by (metis at_bytes(2) rev_rev_ident swap_bytes(2))
  show "BYTE_ORDER__swap64 (BYTE_ORDER__swap64 x) = x" by (metis at_bytes(3) rev_rev_ident swap_bytes(3))
qed

lemma length_bytes [simp]: "length (u16_bytes v) = 2" "length (u32_bytes w) = 4" "length (u64_bytes x) = 8" "length (in_order h bs) = length bs"
  by (simp_all add: byte_defs in_order_def split: byte_order.split)

lemma in_order_in_order [simp]: "in_order h (in_order h bs) = bs" "in_order Little_endian bs = bs"
  by (simp_all add: in_order_def split: byte_order.split)

interpretation w16: wire_integer host16 of_host16 BYTE_ORDER__htods 2
  by unfold_locales
    (auto simp: host16_def of_host16_def BYTE_ORDER__htods_def at_bytes bytes_at swap_swap swap_bytes in_order_def split: byte_order.split)

interpretation w32: wire_integer host32 of_host32 BYTE_ORDER__htodl 4
  by unfold_locales
    (auto simp: host32_def of_host32_def BYTE_ORDER__htodl_def at_bytes bytes_at swap_swap swap_bytes in_order_def split: byte_order.split)

interpretation w64: wire_integer host64 of_host64 BYTE_ORDER__htodll 8
  by unfold_locales
    (auto simp: host64_def of_host64_def BYTE_ORDER__htodll_def at_bytes bytes_at swap_swap swap_bytes in_order_def split: byte_order.split)

lemma host_little: "host16 Little_endian v = u16_bytes v" "host32 Little_endian w = u32_bytes w" "host64 Little_endian x = u64_bytes x"
  by (simp_all add: host16_def host32_def host64_def)

end
