(* ===== verification/Packed_Structs.thy ===== *)
theory Packed_Structs
  imports Byte_Order
begin

text \<open>
  Packed C structures in memory. A packed structure is the list of its members with their sizes; a member is read and written at its
  offset, and an access outside the member or outside the memory is a fault. The lemmas say what memory holds after a series of
  assignments or of conversions in place.
\<close>

section \<open>Members\<close>

text \<open>The members of a packed structure in order, each with its size; a nested structure puts its name before those of its members.\<close>

type_synonym layout = "(string \<times> nat) list"

definition sizeof :: "layout \<Rightarrow> nat" where "sizeof l = sum_list (map snd l)"

definition nested :: "string \<Rightarrow> layout \<Rightarrow> layout" where "nested name l = map (\<lambda>(x, n). (name @ ''.'' @ x, n)) l"

text \<open>Offset and size of a member.\<close>

fun member :: "layout \<Rightarrow> string \<Rightarrow> (nat \<times> nat) option" where
  "member [] x = None"
| "member ((y, n) # l) x = (if x = y then Some (0, n) else map_option (\<lambda>(i, k). (n + i, k)) (member l x))"

text \<open>The bytes of a member of the structure that starts at \<open>base\<close>.\<close>

definition member_bytes :: "layout \<Rightarrow> nat \<Rightarrow> u8 list \<Rightarrow> string \<Rightarrow> u8 list" where
  "member_bytes l base m x = (case member l x of None \<Rightarrow> [] | Some (i, n) \<Rightarrow> take n (drop (base + i) m))"

text \<open>
  Bytes written into a member, \<open>k\<close> bytes behind its start: an assignment writes the whole member, an element of an array or a
  \<open>memcpy\<close> a part of it.
\<close>

type_synonym store = "string \<times> nat \<times> u8 list"

definition store_member :: "layout \<Rightarrow> nat \<Rightarrow> store \<Rightarrow> u8 list \<Rightarrow> u8 list result" where
  "store_member l base s m = (case s of (x, k, bs) \<Rightarrow> (case member l x of
       None \<Rightarrow> Fault Out_of_bounds
     | Some (i, n) \<Rightarrow> if k + length bs \<le> n \<and> base + i + n \<le> length m then Ok (put_bytes (base + i + k) bs m) else Fault Out_of_bounds))"

fun store_members :: "layout \<Rightarrow> nat \<Rightarrow> store list \<Rightarrow> u8 list \<Rightarrow> u8 list result" where
  "store_members l base [] m = Ok m"
| "store_members l base (s # ss) m = bind_r (store_member l base s m) (store_members l base ss)"

text \<open>Assignments of an integer, converted to the order of the device, and of a byte.\<close>

definition put8 :: "string \<Rightarrow> u8 \<Rightarrow> store" where "put8 x v = (x, 0, [v])"
definition put_bool :: "string \<Rightarrow> bool \<Rightarrow> store" where "put_bool x b = put8 x (of_bool b)"
definition put16 :: "byte_order \<Rightarrow> string \<Rightarrow> u16 \<Rightarrow> store" where "put16 h x v = (x, 0, host16 h (BYTE_ORDER__htods h v))"
definition put32 :: "byte_order \<Rightarrow> string \<Rightarrow> u32 \<Rightarrow> store" where "put32 h x v = (x, 0, host32 h (BYTE_ORDER__htodl h v))"

text \<open>A \<open>memcpy\<close> of \<open>n\<close> bytes from an object.\<close>

definition memcpy_from :: "u8 list \<Rightarrow> nat \<Rightarrow> u8 list result" where
  "memcpy_from bs n = (if n \<le> length bs then Ok (take n bs) else Fault Out_of_bounds)"

text \<open>The conversion of a member in its place, as \<open>x = BYTE_ORDER__dtohl(x)\<close> does it; the macro has the width of the member.\<close>

datatype conversion = Conv16 string | Conv32 string | Conv64 string

fun convert_bytes :: "byte_order \<Rightarrow> conversion \<Rightarrow> string \<times> nat \<times> (u8 list \<Rightarrow> u8 list)" where
  "convert_bytes h (Conv16 x) = (x, 2, \<lambda>bs. host16 h (BYTE_ORDER__dtohs h (of_host16 h bs)))"
| "convert_bytes h (Conv32 x) = (x, 4, \<lambda>bs. host32 h (BYTE_ORDER__dtohl h (of_host32 h bs)))"
| "convert_bytes h (Conv64 x) = (x, 8, \<lambda>bs. host64 h (BYTE_ORDER__dtohll h (of_host64 h bs)))"

definition convert_member :: "byte_order \<Rightarrow> layout \<Rightarrow> nat \<Rightarrow> conversion \<Rightarrow> u8 list \<Rightarrow> u8 list result" where
  "convert_member h l base c m = (case convert_bytes h c of (x, w, f) \<Rightarrow> (case member l x of
       None \<Rightarrow> Fault Out_of_bounds
     | Some (i, n) \<Rightarrow> if n = w \<and> base + i + n \<le> length m then Ok (put_bytes (base + i) (f (take n (drop (base + i) m))) m)
                      else Fault Out_of_bounds))"

fun convert_members :: "byte_order \<Rightarrow> layout \<Rightarrow> nat \<Rightarrow> conversion list \<Rightarrow> u8 list \<Rightarrow> u8 list result" where
  "convert_members h l base [] m = Ok m"
| "convert_members h l base (c # cs) m = bind_r (convert_member h l base c m) (convert_members h l base cs)"

section \<open>What memory holds\<close>

lemma member_inside: "member l x = Some (i, n) \<Longrightarrow> i + n \<le> sizeof l"
  by (induction l x arbitrary: i rule: member.induct) (auto simp: sizeof_def split: if_splits)

lemma member_disjoint:
  assumes "member l x = Some (i, n)" "member l y = Some (j, k)" "x \<noteq> y"
  shows "i + n \<le> j \<or> j + k \<le> i"
  using assms
proof (induction l x arbitrary: i j rule: member.induct)
  case (2 z s l x)
  then show ?case by (auto split: if_splits)
qed simp

lemma length_put_bytes [simp]: "i + length bs \<le> length m \<Longrightarrow> length (put_bytes i bs m) = length m"
  by (simp add: put_bytes_def)

lemma nth_put_bytes:
  assumes "i + length bs \<le> length m"
  shows "put_bytes i bs m ! j = (if i \<le> j \<and> j < i + length bs then bs ! (j - i) else m ! j)"
proof -
  have "bs = [] \<or> i < length m" using assms by (cases bs) auto
  then show ?thesis using assms by (auto simp: put_bytes_def nth_append)
qed

definition holds :: "u8 list \<Rightarrow> nat \<Rightarrow> u8 list \<Rightarrow> bool" where
  "holds m i bs \<longleftrightarrow> i + length bs \<le> length m \<and> (\<forall>t < length bs. m ! (i + t) = bs ! t)"

lemma holds_put_bytes: "i + length bs \<le> length m \<Longrightarrow> holds (put_bytes i bs m) i bs"
  by (simp add: holds_def nth_put_bytes)

lemma holds_other: "holds m i bs \<Longrightarrow> j + length cs \<le> length m \<Longrightarrow> i + length bs \<le> j \<or> j + length cs \<le> i \<Longrightarrow> holds (put_bytes j cs m) i bs"
  by (auto simp: holds_def nth_put_bytes)

lemma holds_take: "holds m i bs \<Longrightarrow> take (length bs) (drop i m) = bs"
  by (auto simp: holds_def list_eq_iff_nth_eq)

text \<open>Stores that are inside their members and do not overlap are all there afterwards.\<close>

definition store_fits :: "layout \<Rightarrow> store \<Rightarrow> bool" where
  "store_fits l s = (case s of (x, k, bs) \<Rightarrow> (case member l x of None \<Rightarrow> False | Some (i, n) \<Rightarrow> k + length bs \<le> n))"

definition stores_apart :: "store \<Rightarrow> store \<Rightarrow> bool" where
  "stores_apart s t = (case (s, t) of ((x, k, bs), (y, j, cs)) \<Rightarrow> x \<noteq> y \<or> k + length bs \<le> j \<or> j + length cs \<le> k)"

definition stores_ok :: "layout \<Rightarrow> store list \<Rightarrow> bool" where
  "stores_ok l ss \<longleftrightarrow> list_all (store_fits l) ss \<and> sorted_wrt stores_apart ss"

definition stored :: "layout \<Rightarrow> nat \<Rightarrow> u8 list \<Rightarrow> store \<Rightarrow> bool" where
  "stored l base m s = (case s of (x, k, bs) \<Rightarrow> (case member l x of None \<Rightarrow> False | Some (i, n) \<Rightarrow> holds m (base + i + k) bs))"

lemma store_member_Ok:
  assumes "store_fits l s" "base + sizeof l \<le> length m"
  obtains m' where "store_member l base s m = Ok m'" "length m' = length m" "stored l base m' s"
    "\<And>j. j < base \<or> base + sizeof l \<le> j \<Longrightarrow> m' ! j = m ! j"
    "\<And>t. store_fits l t \<Longrightarrow> stores_apart t s \<Longrightarrow> stored l base m t \<Longrightarrow> stored l base m' t"
proof -
  obtain x k bs where s: "s = (x, k, bs)" by (cases s)
  then obtain i n where x: "member l x = Some (i, n)" "k + length bs \<le> n" using assms(1) by (auto simp: store_fits_def split: option.splits)
  note b = member_inside [OF x(1)]
  let ?m = "put_bytes (base + i + k) bs m"
  have f: "base + i + k + length bs \<le> length m" using x(2) b assms(2) by simp
  show thesis
  proof (rule that [of ?m])
    show "store_member l base s m = Ok ?m" using x b assms(2) by (simp add: store_member_def s)
    show "stored l base ?m s" using x f by (simp add: stored_def s holds_put_bytes)
    show "?m ! j = m ! j" if "j < base \<or> base + sizeof l \<le> j" for j using that x(2) b f by (auto simp: nth_put_bytes)
    show "stored l base ?m t" if t: "store_fits l t" "stores_apart t s" "stored l base m t" for t
    proof -
      obtain y j cs where y: "t = (y, j, cs)" by (cases t)
      then obtain i' n' where m: "member l y = Some (i', n')" "j + length cs \<le> n'" using t(1) by (auto simp: store_fits_def split: option.splits)
      have "i' + j + length cs \<le> i + k \<or> i + k + length bs \<le> i' + j"
        using t(2) m x member_disjoint [OF m(1) x(1)] by (cases "y = x") (auto simp: stores_apart_def s y)
      then show ?thesis using t(3) m f by (auto simp: stored_def y intro: holds_other)
    qed
  qed (use f in simp)
qed

lemma store_members_Ok:
  assumes "stores_ok l ss" "base + sizeof l \<le> length m"
  obtains m' where "store_members l base ss m = Ok m'" "length m' = length m" "\<forall>s \<in> set ss. stored l base m' s"
    "\<And>j. j < base \<or> base + sizeof l \<le> j \<Longrightarrow> m' ! j = m ! j"
    "\<And>t. store_fits l t \<Longrightarrow> \<forall>s \<in> set ss. stores_apart t s \<Longrightarrow> stored l base m t \<Longrightarrow> stored l base m' t"
  using assms
proof (induction ss arbitrary: m thesis)
  case Nil
  then show ?case by simp
next
  case (Cons s ss)
  have ok: "store_fits l s" "stores_ok l ss" "\<forall>t \<in> set ss. stores_apart s t" using Cons.prems(2) by (auto simp: stores_ok_def)
  obtain m1 where m1: "store_member l base s m = Ok m1" "length m1 = length m" "stored l base m1 s"
      "\<And>j. j < base \<or> base + sizeof l \<le> j \<Longrightarrow> m1 ! j = m ! j"
      "\<And>t. store_fits l t \<Longrightarrow> stores_apart t s \<Longrightarrow> stored l base m t \<Longrightarrow> stored l base m1 t"
    using store_member_Ok [OF ok(1) Cons.prems(3)] by metis
  obtain m2 where m2: "store_members l base ss m1 = Ok m2" "length m2 = length m1" "\<forall>s \<in> set ss. stored l base m2 s"
      "\<And>j. j < base \<or> base + sizeof l \<le> j \<Longrightarrow> m2 ! j = m1 ! j"
      "\<And>t. store_fits l t \<Longrightarrow> \<forall>s \<in> set ss. stores_apart t s \<Longrightarrow> stored l base m1 t \<Longrightarrow> stored l base m2 t"
    using Cons.IH [of m1] ok(2) Cons.prems(3) m1(2) by metis
  show ?case
  proof (rule Cons.prems(1) [of m2])
    show "\<forall>s \<in> set (s # ss). stored l base m2 s" using m2(3,5) m1(3) ok by simp
  qed (use m1 m2 in simp_all)
qed

text \<open>Conversions in place turn each member from the device's order to the host's or back, and leave the rest as it is.\<close>

lemma in_order_convert:
  "length bs = 2 \<Longrightarrow> host16 Little_endian (of_host16 h bs) = in_order h bs" "length bs = 4 \<Longrightarrow> host32 Little_endian (of_host32 h bs) = in_order h bs"
  "length bs = 8 \<Longrightarrow> host64 Little_endian (of_host64 h bs) = in_order h bs"
  by (simp_all add: host16_def host32_def host64_def of_host16_def of_host32_def of_host64_def bytes_at)

definition conversion_name :: "conversion \<Rightarrow> string" where
  "conversion_name c = (case c of Conv16 x \<Rightarrow> x | Conv32 x \<Rightarrow> x | Conv64 x \<Rightarrow> x)"

definition conversion_fits :: "layout \<Rightarrow> conversion \<Rightarrow> bool" where
  "conversion_fits l c = (case c of Conv16 x \<Rightarrow> map_option snd (member l x) = Some 2 | Conv32 x \<Rightarrow> map_option snd (member l x) = Some 4
     | Conv64 x \<Rightarrow> map_option snd (member l x) = Some 8)"

definition conversions_ok :: "layout \<Rightarrow> conversion list \<Rightarrow> bool" where
  "conversions_ok l cs \<longleftrightarrow> list_all (conversion_fits l) cs \<and> distinct (map conversion_name cs)"

lemma take_drop_put_bytes:
  assumes "i + length bs \<le> length m" "j + n \<le> i \<or> i + length bs \<le> j"
  shows "take n (drop j (put_bytes i bs m)) = take n (drop j m)"
  using assms by (auto intro!: nth_equalityI simp: nth_put_bytes)

lemma convert_bytes_fits:
  assumes "conversion_fits l c"
  obtains w f where "convert_bytes h c = (conversion_name c, w, f)" "\<And>bs. length bs = w \<Longrightarrow> f bs = in_order h bs"
    "map_option snd (member l (conversion_name c)) = Some w"
proof (cases c)
  case (Conv16 x)
  then show thesis using assms by (intro that [of 2 "\<lambda>bs. host16 h (BYTE_ORDER__dtohs h (of_host16 h bs))"]) (simp_all add: conversion_name_def conversion_fits_def BYTE_ORDER__dtohs_def in_order_convert)
next
  case (Conv32 x)
  then show thesis using assms by (intro that [of 4 "\<lambda>bs. host32 h (BYTE_ORDER__dtohl h (of_host32 h bs))"]) (simp_all add: conversion_name_def conversion_fits_def BYTE_ORDER__dtohl_def in_order_convert)
next
  case (Conv64 x)
  then show thesis using assms by (intro that [of 8 "\<lambda>bs. host64 h (BYTE_ORDER__dtohll h (of_host64 h bs))"]) (simp_all add: conversion_name_def conversion_fits_def BYTE_ORDER__dtohll_def in_order_convert)
qed

lemma convert_member_Ok:
  assumes "conversion_fits l c" "base + sizeof l \<le> length m"
  obtains m' where "convert_member h l base c m = Ok m'" "length m' = length m"
    "\<And>j. j < base \<or> base + sizeof l \<le> j \<Longrightarrow> m' ! j = m ! j"
    "\<And>y. member_bytes l base m' y = (if y = conversion_name c then in_order h (member_bytes l base m y) else member_bytes l base m y)"
proof -
  obtain x w f where c: "convert_bytes h c = (x, w, f)" and x: "conversion_name c = x" and f: "\<And>bs. length bs = w \<Longrightarrow> f bs = in_order h bs"
    and w: "map_option snd (member l x) = Some w"
    using convert_bytes_fits [OF assms(1)] by metis
  from w obtain i where i: "member l x = Some (i, w)" by auto
  note b = member_inside [OF i]
  let ?bs = "in_order h (take w (drop (base + i) m))"
  let ?m = "put_bytes (base + i) ?bs m"
  have l: "length ?bs = w" using b assms(2) by simp
  then have fit: "base + i + length ?bs \<le> length m" using b assms(2) by simp
  show thesis
  proof (rule that [of ?m])
    show "convert_member h l base c m = Ok ?m" using i b assms(2) f [of "take w (drop (base + i) m)"] by (simp add: convert_member_def c)
    show "?m ! j = m ! j" if "j < base \<or> base + sizeof l \<le> j" for j using that l b fit by (auto simp: nth_put_bytes)
    show "member_bytes l base ?m y = (if y = conversion_name c then in_order h (member_bytes l base m y) else member_bytes l base m y)" for y
    proof (cases "member l y")
      case None
      then show ?thesis using i x by (auto simp: member_bytes_def)
    next
      case (Some q)
      then obtain j n where q: "member l y = Some (j, n)" by (cases q) auto
      show ?thesis
      proof (cases "y = x")
        case True
        then show ?thesis using i x holds_take [OF holds_put_bytes [OF fit]] l by (simp add: member_bytes_def)
      next
        case False
        then have "base + j + n \<le> base + i \<or> base + i + length ?bs \<le> base + j" using member_disjoint [OF q i] l by auto
        then show ?thesis using q False x take_drop_put_bytes [OF fit] by (simp add: member_bytes_def)
      qed
    qed
  qed (use fit in simp)
qed

lemma convert_members_Ok:
  assumes "conversions_ok l cs" "base + sizeof l \<le> length m"
  obtains m' where "convert_members h l base cs m = Ok m'" "length m' = length m"
    "\<And>j. j < base \<or> base + sizeof l \<le> j \<Longrightarrow> m' ! j = m ! j"
    "\<And>y. member_bytes l base m' y = (if y \<in> conversion_name ` set cs then in_order h (member_bytes l base m y) else member_bytes l base m y)"
  using assms
proof (induction cs arbitrary: m thesis)
  case Nil
  then show ?case by simp
next
  case (Cons c cs)
  have ok: "conversion_fits l c" "conversions_ok l cs" "conversion_name c \<notin> conversion_name ` set cs"
    using Cons.prems(2) by (auto simp: conversions_ok_def)
  obtain m1 where m1: "convert_member h l base c m = Ok m1" "length m1 = length m" "\<And>j. j < base \<or> base + sizeof l \<le> j \<Longrightarrow> m1 ! j = m ! j"
      "\<And>y. member_bytes l base m1 y = (if y = conversion_name c then in_order h (member_bytes l base m y) else member_bytes l base m y)"
    using convert_member_Ok [OF ok(1) Cons.prems(3)] by metis
  obtain m2 where m2: "convert_members h l base cs m1 = Ok m2" "length m2 = length m1" "\<And>j. j < base \<or> base + sizeof l \<le> j \<Longrightarrow> m2 ! j = m1 ! j"
      "\<And>y. member_bytes l base m2 y = (if y \<in> conversion_name ` set cs then in_order h (member_bytes l base m1 y) else member_bytes l base m1 y)"
    using Cons.IH [of m1] ok(2) Cons.prems(3) m1(2) by metis
  show ?case by (rule Cons.prems(1) [of m2]) (use m1 m2 ok(3) in auto)
qed

end
