(* ===== verification/Control_Structs.thy ===== *)
theory Control_Structs
  imports Packed_Structs
begin

text \<open>
  The packed structures of the firmware controls (\<open>src/common/control_protocol.h\<close>, \<open>firmware_version.h\<close>, \<open>md5.h\<close>,
  \<open>sensor_config_exports.h\<close>): members with their sizes in the order of the source, and the enumerations that the packing functions
  take as arguments. Arrays without a size at the end of a structure (\<open>data[0]\<close>) take no room in it and are not listed.
\<close>

section \<open>Sizes\<close>

definition MD5_DIGEST_LENGTH :: nat where "MD5_DIGEST_LENGTH = 16"
definition CONTROL_PROTOCOL__MAX_BOARD_NAME_LENGTH :: nat where "CONTROL_PROTOCOL__MAX_BOARD_NAME_LENGTH = 32"
definition CONTROL_PROTOCOL__MAX_CFG_CHANNELS :: nat where "CONTROL_PROTOCOL__MAX_CFG_CHANNELS = 4"
definition CONTROL_PROTOCOL__MAX_CONTEXT_SWITCH_APPLICATIONS :: nat where "CONTROL_PROTOCOL__MAX_CONTEXT_SWITCH_APPLICATIONS = 32"
definition CONTROL_PROTOCOL__MAX_I2C_REGISTER_SIZE :: nat where "CONTROL_PROTOCOL__MAX_I2C_REGISTER_SIZE = 4"
definition CONTROL_PROTOCOL__MAX_PART_NUMBER_LENGTH :: nat where "CONTROL_PROTOCOL__MAX_PART_NUMBER_LENGTH = 16"
definition CONTROL_PROTOCOL__MAX_PRODUCT_NAME_LENGTH :: nat where "CONTROL_PROTOCOL__MAX_PRODUCT_NAME_LENGTH = 42"
definition CONTROL_PROTOCOL__MAX_READ_MEMORY_DATA_SIZE :: nat where "CONTROL_PROTOCOL__MAX_READ_MEMORY_DATA_SIZE = 1024"
definition CONTROL_PROTOCOL__MAX_SERIAL_NUMBER_LENGTH :: nat where "CONTROL_PROTOCOL__MAX_SERIAL_NUMBER_LENGTH = 16"
definition CONTROL_PROTOCOL__MAX_VDMA_ENGINES_COUNT :: nat where "CONTROL_PROTOCOL__MAX_VDMA_ENGINES_COUNT = 3"
definition CONTROL_PROTOCOL__SOC_ID_LENGTH :: nat where "CONTROL_PROTOCOL__SOC_ID_LENGTH = 32"
definition LOT_ID_BYTES_LEN :: nat where "LOT_ID_BYTES_LEN = 8"
definition MAC_ADDR_BYTES_LEN :: nat where "MAC_ADDR_BYTES_LEN = 6"
definition MAX_CONFIG_NAME_LEN :: nat where "MAX_CONFIG_NAME_LEN = 100"
definition MAX_TEMPERATURE_THROTTLING_LEVELS_NUMBER :: nat where "MAX_TEMPERATURE_THROTTLING_LEVELS_NUMBER = 4"
definition PM_RESULTS_LENGTH :: nat where "PM_RESULTS_LENGTH = 24"
definition CONTROL_PROTOCOL__MAX_TOTAL_CHANNEL_COUNT :: nat where
  "CONTROL_PROTOCOL__MAX_TOTAL_CHANNEL_COUNT = CONTROL_PROTOCOL__MAX_VDMA_CHANNELS_PER_ENGINE * CONTROL_PROTOCOL__MAX_VDMA_ENGINES_COUNT"

section \<open>Enumerations\<close>

datatype CONTROL_PROTOCOL__reset_type_t =
    CONTROL_PROTOCOL__RESET_TYPE__CHIP
  | CONTROL_PROTOCOL__RESET_TYPE__NN_CORE
  | CONTROL_PROTOCOL__RESET_TYPE__SOFT
  | CONTROL_PROTOCOL__RESET_TYPE__FORCED_SOFT
  | CONTROL_PROTOCOL__RESET_TYPE__COUNT

fun value_CONTROL_PROTOCOL__reset_type_t :: "CONTROL_PROTOCOL__reset_type_t \<Rightarrow> u32" where
  "value_CONTROL_PROTOCOL__reset_type_t CONTROL_PROTOCOL__RESET_TYPE__CHIP = 0"
| "value_CONTROL_PROTOCOL__reset_type_t CONTROL_PROTOCOL__RESET_TYPE__NN_CORE = 1"
| "value_CONTROL_PROTOCOL__reset_type_t CONTROL_PROTOCOL__RESET_TYPE__SOFT = 2"
| "value_CONTROL_PROTOCOL__reset_type_t CONTROL_PROTOCOL__RESET_TYPE__FORCED_SOFT = 3"
| "value_CONTROL_PROTOCOL__reset_type_t CONTROL_PROTOCOL__RESET_TYPE__COUNT = 4"

datatype CONTROL_PROTOCOL__dvm_options_t =
    CONTROL_PROTOCOL__DVM_OPTIONS_VDD_CORE
  | CONTROL_PROTOCOL__DVM_OPTIONS_VDD_IO
  | CONTROL_PROTOCOL__DVM_OPTIONS_MIPI_AVDD
  | CONTROL_PROTOCOL__DVM_OPTIONS_MIPI_AVDD_H
  | CONTROL_PROTOCOL__DVM_OPTIONS_USB_AVDD_IO
  | CONTROL_PROTOCOL__DVM_OPTIONS_VDD_TOP
  | CONTROL_PROTOCOL__DVM_OPTIONS_USB_AVDD_IO_HV
  | CONTROL_PROTOCOL__DVM_OPTIONS_AVDD_H
  | CONTROL_PROTOCOL__DVM_OPTIONS_SDIO_VDD_IO
  | CONTROL_PROTOCOL__DVM_OPTIONS_OVERCURRENT_PROTECTION
  | CONTROL_PROTOCOL__DVM_OPTIONS_COUNT
  | CONTROL_PROTOCOL__DVM_OPTIONS_EVB_TOTAL_POWER
  | CONTROL_PROTOCOL__DVM_OPTIONS_AUTO

fun value_CONTROL_PROTOCOL__dvm_options_t :: "CONTROL_PROTOCOL__dvm_options_t \<Rightarrow> u32" where
  "value_CONTROL_PROTOCOL__dvm_options_t CONTROL_PROTOCOL__DVM_OPTIONS_VDD_CORE = 0"
| "value_CONTROL_PROTOCOL__dvm_options_t CONTROL_PROTOCOL__DVM_OPTIONS_VDD_IO = 1"
| "value_CONTROL_PROTOCOL__dvm_options_t CONTROL_PROTOCOL__DVM_OPTIONS_MIPI_AVDD = 2"
| "value_CONTROL_PROTOCOL__dvm_options_t CONTROL_PROTOCOL__DVM_OPTIONS_MIPI_AVDD_H = 3"
| "value_CONTROL_PROTOCOL__dvm_options_t CONTROL_PROTOCOL__DVM_OPTIONS_USB_AVDD_IO = 4"
| "value_CONTROL_PROTOCOL__dvm_options_t CONTROL_PROTOCOL__DVM_OPTIONS_VDD_TOP = 5"
| "value_CONTROL_PROTOCOL__dvm_options_t CONTROL_PROTOCOL__DVM_OPTIONS_USB_AVDD_IO_HV = 6"
| "value_CONTROL_PROTOCOL__dvm_options_t CONTROL_PROTOCOL__DVM_OPTIONS_AVDD_H = 7"
| "value_CONTROL_PROTOCOL__dvm_options_t CONTROL_PROTOCOL__DVM_OPTIONS_SDIO_VDD_IO = 8"
| "value_CONTROL_PROTOCOL__dvm_options_t CONTROL_PROTOCOL__DVM_OPTIONS_OVERCURRENT_PROTECTION = 9"
| "value_CONTROL_PROTOCOL__dvm_options_t CONTROL_PROTOCOL__DVM_OPTIONS_COUNT = 10"
| "value_CONTROL_PROTOCOL__dvm_options_t CONTROL_PROTOCOL__DVM_OPTIONS_EVB_TOTAL_POWER = 2147483646"
| "value_CONTROL_PROTOCOL__dvm_options_t CONTROL_PROTOCOL__DVM_OPTIONS_AUTO = 2147483647"

datatype CONTROL_PROTOCOL__power_measurement_types_t =
    CONTROL_PROTOCOL__POWER_MEASUREMENT_TYPES__SHUNT_VOLTAGE
  | CONTROL_PROTOCOL__POWER_MEASUREMENT_TYPES__BUS_VOLTAGE
  | CONTROL_PROTOCOL__POWER_MEASUREMENT_TYPES__POWER
  | CONTROL_PROTOCOL__POWER_MEASUREMENT_TYPES__CURRENT
  | CONTROL_PROTOCOL__POWER_MEASUREMENT_TYPES__COUNT
  | CONTROL_PROTOCOL__POWER_MEASUREMENT_TYPES__AUTO

fun value_CONTROL_PROTOCOL__power_measurement_types_t :: "CONTROL_PROTOCOL__power_measurement_types_t \<Rightarrow> u32" where
  "value_CONTROL_PROTOCOL__power_measurement_types_t CONTROL_PROTOCOL__POWER_MEASUREMENT_TYPES__SHUNT_VOLTAGE = 0"
| "value_CONTROL_PROTOCOL__power_measurement_types_t CONTROL_PROTOCOL__POWER_MEASUREMENT_TYPES__BUS_VOLTAGE = 1"
| "value_CONTROL_PROTOCOL__power_measurement_types_t CONTROL_PROTOCOL__POWER_MEASUREMENT_TYPES__POWER = 2"
| "value_CONTROL_PROTOCOL__power_measurement_types_t CONTROL_PROTOCOL__POWER_MEASUREMENT_TYPES__CURRENT = 3"
| "value_CONTROL_PROTOCOL__power_measurement_types_t CONTROL_PROTOCOL__POWER_MEASUREMENT_TYPES__COUNT = 4"
| "value_CONTROL_PROTOCOL__power_measurement_types_t CONTROL_PROTOCOL__POWER_MEASUREMENT_TYPES__AUTO = 2147483647"

datatype CONTROL_PROTOCOL__averaging_factor_t =
    CONTROL_PROTOCOL__AVERAGE_FACTOR_1
  | CONTROL_PROTOCOL__AVERAGE_FACTOR_4
  | CONTROL_PROTOCOL__AVERAGE_FACTOR_16
  | CONTROL_PROTOCOL__AVERAGE_FACTOR_64
  | CONTROL_PROTOCOL__AVERAGE_FACTOR_128
  | CONTROL_PROTOCOL__AVERAGE_FACTOR_256
  | CONTROL_PROTOCOL__AVERAGE_FACTOR_512
  | CONTROL_PROTOCOL__AVERAGE_FACTOR_1024

fun value_CONTROL_PROTOCOL__averaging_factor_t :: "CONTROL_PROTOCOL__averaging_factor_t \<Rightarrow> u32" where
  "value_CONTROL_PROTOCOL__averaging_factor_t CONTROL_PROTOCOL__AVERAGE_FACTOR_1 = 0"
| "value_CONTROL_PROTOCOL__averaging_factor_t CONTROL_PROTOCOL__AVERAGE_FACTOR_4 = 1"
| "value_CONTROL_PROTOCOL__averaging_factor_t CONTROL_PROTOCOL__AVERAGE_FACTOR_16 = 2"
| "value_CONTROL_PROTOCOL__averaging_factor_t CONTROL_PROTOCOL__AVERAGE_FACTOR_64 = 3"
| "value_CONTROL_PROTOCOL__averaging_factor_t CONTROL_PROTOCOL__AVERAGE_FACTOR_128 = 4"
| "value_CONTROL_PROTOCOL__averaging_factor_t CONTROL_PROTOCOL__AVERAGE_FACTOR_256 = 5"
| "value_CONTROL_PROTOCOL__averaging_factor_t CONTROL_PROTOCOL__AVERAGE_FACTOR_512 = 6"
| "value_CONTROL_PROTOCOL__averaging_factor_t CONTROL_PROTOCOL__AVERAGE_FACTOR_1024 = 7"

datatype CONTROL_PROTOCOL__sampling_period_t =
    CONTROL_PROTOCOL__PERIOD_140US
  | CONTROL_PROTOCOL__PERIOD_204US
  | CONTROL_PROTOCOL__PERIOD_332US
  | CONTROL_PROTOCOL__PERIOD_588US
  | CONTROL_PROTOCOL__PERIOD_1100US
  | CONTROL_PROTOCOL__PERIOD_2116US
  | CONTROL_PROTOCOL__PERIOD_4156US
  | CONTROL_PROTOCOL__PERIOD_8244US

fun value_CONTROL_PROTOCOL__sampling_period_t :: "CONTROL_PROTOCOL__sampling_period_t \<Rightarrow> u32" where
  "value_CONTROL_PROTOCOL__sampling_period_t CONTROL_PROTOCOL__PERIOD_140US = 0"
| "value_CONTROL_PROTOCOL__sampling_period_t CONTROL_PROTOCOL__PERIOD_204US = 1"
| "value_CONTROL_PROTOCOL__sampling_period_t CONTROL_PROTOCOL__PERIOD_332US = 2"
| "value_CONTROL_PROTOCOL__sampling_period_t CONTROL_PROTOCOL__PERIOD_588US = 3"
| "value_CONTROL_PROTOCOL__sampling_period_t CONTROL_PROTOCOL__PERIOD_1100US = 4"
| "value_CONTROL_PROTOCOL__sampling_period_t CONTROL_PROTOCOL__PERIOD_2116US = 5"
| "value_CONTROL_PROTOCOL__sampling_period_t CONTROL_PROTOCOL__PERIOD_4156US = 6"
| "value_CONTROL_PROTOCOL__sampling_period_t CONTROL_PROTOCOL__PERIOD_8244US = 7"

datatype CONTROL_PROTOCOL__phy_operation_t =
    CONTROL_PROTOCOL__PHY_OPERATION_RESET
  | CONTROL_PROTOCOL__PHY_OPERATION_COUNT

fun value_CONTROL_PROTOCOL__phy_operation_t :: "CONTROL_PROTOCOL__phy_operation_t \<Rightarrow> u32" where
  "value_CONTROL_PROTOCOL__phy_operation_t CONTROL_PROTOCOL__PHY_OPERATION_RESET = 0"
| "value_CONTROL_PROTOCOL__phy_operation_t CONTROL_PROTOCOL__PHY_OPERATION_COUNT = 1"

datatype CONTROL_PROTOCOL__config_core_top_type_t =
    CONTROL_PROTOCOL__CONFIG_CORE_TOP_TYPE_AHB_TO_AXI
  | CONTROL_PROTOCOL__CONFIG_CORE_TOP_OPCODE_COUNT

fun value_CONTROL_PROTOCOL__config_core_top_type_t :: "CONTROL_PROTOCOL__config_core_top_type_t \<Rightarrow> u32" where
  "value_CONTROL_PROTOCOL__config_core_top_type_t CONTROL_PROTOCOL__CONFIG_CORE_TOP_TYPE_AHB_TO_AXI = 0"
| "value_CONTROL_PROTOCOL__config_core_top_type_t CONTROL_PROTOCOL__CONFIG_CORE_TOP_OPCODE_COUNT = 1"

datatype CONTROL_PROTOCOL__context_switch_context_type_t =
    CONTROL_PROTOCOL__CONTEXT_SWITCH_CONTEXT_TYPE_PRELIMINARY
  | CONTROL_PROTOCOL__CONTEXT_SWITCH_CONTEXT_TYPE_DYNAMIC
  | CONTROL_PROTOCOL__CONTEXT_SWITCH_CONTEXT_TYPE_BATCH_SWITCHING
  | CONTROL_PROTOCOL__CONTEXT_SWITCH_CONTEXT_TYPE_ACTIVATION
  | CONTROL_PROTOCOL__CONTEXT_SWITCH_CONTEXT_TYPE_COUNT

fun value_CONTROL_PROTOCOL__context_switch_context_type_t :: "CONTROL_PROTOCOL__context_switch_context_type_t \<Rightarrow> u32" where
  "value_CONTROL_PROTOCOL__context_switch_context_type_t CONTROL_PROTOCOL__CONTEXT_SWITCH_CONTEXT_TYPE_PRELIMINARY = 0"
| "value_CONTROL_PROTOCOL__context_switch_context_type_t CONTROL_PROTOCOL__CONTEXT_SWITCH_CONTEXT_TYPE_DYNAMIC = 1"
| "value_CONTROL_PROTOCOL__context_switch_context_type_t CONTROL_PROTOCOL__CONTEXT_SWITCH_CONTEXT_TYPE_BATCH_SWITCHING = 2"
| "value_CONTROL_PROTOCOL__context_switch_context_type_t CONTROL_PROTOCOL__CONTEXT_SWITCH_CONTEXT_TYPE_ACTIVATION = 3"
| "value_CONTROL_PROTOCOL__context_switch_context_type_t CONTROL_PROTOCOL__CONTEXT_SWITCH_CONTEXT_TYPE_COUNT = 4"

datatype CONTROL_PROTOCOL__CONTEXT_SWITCH_STATUS_t =
    CONTROL_PROTOCOL__CONTEXT_SWITCH_STATUS_RESET
  | CONTROL_PROTOCOL__CONTEXT_SWITCH_STATUS_ENABLED
  | CONTROL_PROTOCOL__CONTEXT_SWITCH_STATUS_PAUSED
  | CONTROL_PROTOCOL__CONTEXT_SWITCH_STATUS_COUNT

fun value_CONTROL_PROTOCOL__CONTEXT_SWITCH_STATUS_t :: "CONTROL_PROTOCOL__CONTEXT_SWITCH_STATUS_t \<Rightarrow> u32" where
  "value_CONTROL_PROTOCOL__CONTEXT_SWITCH_STATUS_t CONTROL_PROTOCOL__CONTEXT_SWITCH_STATUS_RESET = 0"
| "value_CONTROL_PROTOCOL__CONTEXT_SWITCH_STATUS_t CONTROL_PROTOCOL__CONTEXT_SWITCH_STATUS_ENABLED = 1"
| "value_CONTROL_PROTOCOL__CONTEXT_SWITCH_STATUS_t CONTROL_PROTOCOL__CONTEXT_SWITCH_STATUS_PAUSED = 2"
| "value_CONTROL_PROTOCOL__CONTEXT_SWITCH_STATUS_t CONTROL_PROTOCOL__CONTEXT_SWITCH_STATUS_COUNT = 3"

datatype CONTROL_PROTOCOL__WATCHDOG_MODE_t =
    CONTROL_PROTOCOL__WATCHDOG_MODE_HW_SW
  | CONTROL_PROTOCOL__WATCHDOG_MODE_HW_ONLY
  | CONTROL_PROTOCOL__WATCHDOG_NUM_MODES

fun value_CONTROL_PROTOCOL__WATCHDOG_MODE_t :: "CONTROL_PROTOCOL__WATCHDOG_MODE_t \<Rightarrow> u32" where
  "value_CONTROL_PROTOCOL__WATCHDOG_MODE_t CONTROL_PROTOCOL__WATCHDOG_MODE_HW_SW = 0"
| "value_CONTROL_PROTOCOL__WATCHDOG_MODE_t CONTROL_PROTOCOL__WATCHDOG_MODE_HW_ONLY = 1"
| "value_CONTROL_PROTOCOL__WATCHDOG_MODE_t CONTROL_PROTOCOL__WATCHDOG_NUM_MODES = 2"

datatype CONTROL_PROTOCOL__context_switch_breakpoint_control_t =
    CONTROL_PROTOCOL__CONTEXT_SWITCH_BREAKPOINT_CONTROL_SET
  | CONTROL_PROTOCOL__CONTEXT_SWITCH_BREAKPOINT_CONTROL_CONTINUE
  | CONTROL_PROTOCOL__CONTEXT_SWITCH_BREAKPOINT_CONTROL_CLEAR
  | CONTROL_PROTOCOL__CONTEXT_SWITCH_BREAKPOINT_CONTROL_COUNT

fun value_CONTROL_PROTOCOL__context_switch_breakpoint_control_t :: "CONTROL_PROTOCOL__context_switch_breakpoint_control_t \<Rightarrow> u32" where
  "value_CONTROL_PROTOCOL__context_switch_breakpoint_control_t CONTROL_PROTOCOL__CONTEXT_SWITCH_BREAKPOINT_CONTROL_SET = 0"
| "value_CONTROL_PROTOCOL__context_switch_breakpoint_control_t CONTROL_PROTOCOL__CONTEXT_SWITCH_BREAKPOINT_CONTROL_CONTINUE = 1"
| "value_CONTROL_PROTOCOL__context_switch_breakpoint_control_t CONTROL_PROTOCOL__CONTEXT_SWITCH_BREAKPOINT_CONTROL_CLEAR = 2"
| "value_CONTROL_PROTOCOL__context_switch_breakpoint_control_t CONTROL_PROTOCOL__CONTEXT_SWITCH_BREAKPOINT_CONTROL_COUNT = 3"

datatype CONTROL_PROTOCOL__boundary_channel_mode_t =
    CONTROL_PROTOCOL__DESC_BOUNDARY_CHANNEL
  | CONTROL_PROTOCOL__CCB_BOUNDARY_CHANNEL
  | CONTROL_PROTOCOL__BOUNDARY_CHANNEL_MODE_COUNT

fun value_CONTROL_PROTOCOL__boundary_channel_mode_t :: "CONTROL_PROTOCOL__boundary_channel_mode_t \<Rightarrow> u32" where
  "value_CONTROL_PROTOCOL__boundary_channel_mode_t CONTROL_PROTOCOL__DESC_BOUNDARY_CHANNEL = 0"
| "value_CONTROL_PROTOCOL__boundary_channel_mode_t CONTROL_PROTOCOL__CCB_BOUNDARY_CHANNEL = 1"
| "value_CONTROL_PROTOCOL__boundary_channel_mode_t CONTROL_PROTOCOL__BOUNDARY_CHANNEL_MODE_COUNT = 2"

section \<open>Structures\<close>

definition firmware_version_t :: layout where
  "firmware_version_t = [(''firmware_major'', 4), (''firmware_minor'', 4), (''firmware_revision'', 4)]"

definition CONTROL_PROTOCOL_identify_response_t :: layout where
  "CONTROL_PROTOCOL_identify_response_t =
     [(''protocol_version'', 4)] @ nested ''fw_version'' firmware_version_t @ [(''logger_version'', 4),
     (''board_name_length'', 4), (''board_name'', CONTROL_PROTOCOL__MAX_BOARD_NAME_LENGTH), (''device_architecture'', 4),
     (''serial_number_length'', 4), (''serial_number'', CONTROL_PROTOCOL__MAX_SERIAL_NUMBER_LENGTH), (''part_number_length'', 4),
     (''part_number'', CONTROL_PROTOCOL__MAX_PART_NUMBER_LENGTH), (''product_name_length'', 4),
     (''product_name'', CONTROL_PROTOCOL__MAX_PRODUCT_NAME_LENGTH)]"

definition CONTROL_PROTOCOL__core_identify_response_t :: layout where
  "CONTROL_PROTOCOL__core_identify_response_t = nested ''fw_version'' firmware_version_t"

definition CONTROL_PROTOCOL__read_memory_request_t :: layout where
  "CONTROL_PROTOCOL__read_memory_request_t = [(''address'', 4), (''data_count'', 4)]"

definition CONTROL_PROTOCOL__read_memory_response_t :: layout where
  "CONTROL_PROTOCOL__read_memory_response_t = [(''data_length'', 4), (''data'', CONTROL_PROTOCOL__MAX_READ_MEMORY_DATA_SIZE)]"

definition CONTROL_PROTOCOL__write_memory_request_t :: layout where
  "CONTROL_PROTOCOL__write_memory_request_t = [(''address'', 4), (''data_length'', 4)]"

definition CONTROL_PROTOCOL__set_fw_logger_request_t :: layout where
  "CONTROL_PROTOCOL__set_fw_logger_request_t = [(''level'', 1), (''logger_interface_bit_mask'', 1)]"

definition CONTROL_PROTOCOL__set_throttling_state_request_t :: layout where
  "CONTROL_PROTOCOL__set_throttling_state_request_t = [(''should_activate'', 1)]"

definition CONTROL_PROTOCOL__get_throttling_state_response_t :: layout where
  "CONTROL_PROTOCOL__get_throttling_state_response_t = [(''is_active'', 1)]"

definition CONTROL_PROTOCOL__set_overcurrent_state_request_t :: layout where
  "CONTROL_PROTOCOL__set_overcurrent_state_request_t = [(''should_activate'', 1)]"

definition CONTROL_PROTOCOL__set_sleep_state_request_t :: layout where
  "CONTROL_PROTOCOL__set_sleep_state_request_t = [(''sleep_state'', 1)]"

definition CONTROL_PROTOCOL__get_overcurrent_state_response_t :: layout where
  "CONTROL_PROTOCOL__get_overcurrent_state_response_t = [(''is_required'', 1)]"

definition CONTROL_PROTOCOL__set_clock_freq_request_t :: layout where
  "CONTROL_PROTOCOL__set_clock_freq_request_t = [(''clock_freq'', 4)]"

definition CONTROL_PROTOCOL__nn_stream_config_t :: layout where
  "CONTROL_PROTOCOL__nn_stream_config_t =
     [(''core_bytes_per_buffer'', 2), (''core_buffers_per_frame'', 2), (''periph_bytes_per_buffer'', 2),
     (''periph_buffers_per_frame'', 2), (''feature_padding_payload'', 2), (''buffer_padding_payload'', 4), (''buffer_padding'', 2),
     (''is_core_hw_padding_config_in_dfc'', 1)]"

definition CONTROL_PROTOCOL__mipi_common_config_params_t :: layout where
  "CONTROL_PROTOCOL__mipi_common_config_params_t =
     [(''data_type'', 1), (''img_width_pixels'', 2), (''img_height_pixels'', 2), (''pixels_per_clock'', 1),
     (''number_of_lanes'', 1), (''clock_selection'', 1), (''virtual_channel_index'', 1), (''data_rate'', 4)]"

definition CONTROL_PROTOCOL__isp_config_params_t :: layout where
  "CONTROL_PROTOCOL__isp_config_params_t =
     [(''isp_enable'', 1), (''isp_img_in_order'', 1), (''isp_img_out_data_type'', 1), (''isp_crop_enable'', 1),
     (''isp_crop_output_width_pixels'', 2), (''isp_crop_output_height_pixels'', 2), (''isp_crop_output_width_start_offset_pixels'', 2),
     (''isp_crop_output_height_start_offset_pixels'', 2), (''isp_test_pattern_enable'', 1), (''isp_configuration_bypass'', 1),
     (''isp_run_time_ae_enable'', 1), (''isp_run_time_awb_enable'', 1), (''isp_run_time_adt_enable'', 1),
     (''isp_run_time_af_enable'', 1), (''isp_run_time_calculations_interval_ms'', 2), (''isp_light_frequency'', 1)]"

definition CONTROL_PROTOCOL__mipi_input_config_params_t :: layout where
  "CONTROL_PROTOCOL__mipi_input_config_params_t =
     nested ''common_params'' CONTROL_PROTOCOL__mipi_common_config_params_t @ [(''mipi_rx_id'', 1)] @
     nested ''isp_params'' CONTROL_PROTOCOL__isp_config_params_t"

definition CONTROL_PROTOCOL__mipi_output_config_params_t :: layout where
  "CONTROL_PROTOCOL__mipi_output_config_params_t =
     nested ''common_params'' CONTROL_PROTOCOL__mipi_common_config_params_t @ [(''mipi_tx_id'', 1),
     (''fifo_threshold_percent'', 1), (''deskew_enable'', 1)]"

definition CONTROL_PROTOCOL__pcie_output_config_params_t :: layout where
  "CONTROL_PROTOCOL__pcie_output_config_params_t = [(''pcie_channel_index'', 1), (''desc_page_size'', 2)]"

definition CONTROL_PROTOCOL__pcie_input_config_params_t :: layout where
  "CONTROL_PROTOCOL__pcie_input_config_params_t = [(''pcie_channel_index'', 1), (''pcie_dataflow_type'', 1)]"

definition sizeof_CONTROL_PROTOCOL__communication_config_prams_t :: nat where
  "sizeof_CONTROL_PROTOCOL__communication_config_prams_t = max (sizeof CONTROL_PROTOCOL__mipi_input_config_params_t)
       (max (sizeof CONTROL_PROTOCOL__mipi_output_config_params_t)
       (max (sizeof CONTROL_PROTOCOL__pcie_input_config_params_t)
       (sizeof CONTROL_PROTOCOL__pcie_output_config_params_t)))"

definition CONTROL_PROTOCOL__config_stream_request_t :: layout where
  "CONTROL_PROTOCOL__config_stream_request_t =
     [(''stream_index'', 1), (''is_input'', 1), (''communication_type'', 4), (''skip_nn_stream_config'', 1),
     (''power_mode'', 1)] @ nested ''nn_stream_config'' CONTROL_PROTOCOL__nn_stream_config_t @
     [(''communication_params'', sizeof_CONTROL_PROTOCOL__communication_config_prams_t)]"

definition CONTROL_PROTOCOL__open_stream_request_t :: layout where
  "CONTROL_PROTOCOL__open_stream_request_t = [(''dataflow_manager_id'', 1), (''is_input'', 1)]"

definition CONTROL_PROTOCOL__close_stream_request_t :: layout where
  "CONTROL_PROTOCOL__close_stream_request_t = [(''dataflow_manager_id'', 1), (''is_input'', 1)]"

definition CONTROL_PROTOCOL__phy_operation_request_t :: layout where
  "CONTROL_PROTOCOL__phy_operation_request_t = [(''operation_type'', 4)]"

definition CONTROL_PROTOCOL__set_pause_frames_t :: layout where
  "CONTROL_PROTOCOL__set_pause_frames_t = [(''rx_pause_frames_enable'', 1)]"

definition CONTROL_PROTOCOL__reset_request_t :: layout where
  "CONTROL_PROTOCOL__reset_request_t = [(''reset_type'', 4)]"

definition CONTROL_PROTOCOL__config_ahb_to_axi_params_t :: layout where
  "CONTROL_PROTOCOL__config_ahb_to_axi_params_t = [(''enable_use_64bit_data_only'', 1)]"

definition sizeof_CONTROL_PROTOCOL__config_core_top_params_t :: nat where
  "sizeof_CONTROL_PROTOCOL__config_core_top_params_t = sizeof CONTROL_PROTOCOL__config_ahb_to_axi_params_t"

definition CONTROL_PROTOCOL__config_core_top_request_t :: layout where
  "CONTROL_PROTOCOL__config_core_top_request_t =
     [(''config_type'', 4), (''config_params'', sizeof_CONTROL_PROTOCOL__config_core_top_params_t)]"

definition CONTROL_PROTOCOL__power_measurement_request_t :: layout where
  "CONTROL_PROTOCOL__power_measurement_request_t = [(''dvm'', 4), (''measurement_type'', 4)]"

definition CONTROL_PROTOCOL__power_measurement_response_t :: layout where
  "CONTROL_PROTOCOL__power_measurement_response_t = [(''power_measurement'', 4), (''dvm'', 4), (''measurement_type'', 4)]"

definition CONTROL_PROTOCOL__set_power_measurement_request_t :: layout where
  "CONTROL_PROTOCOL__set_power_measurement_request_t = [(''index'', 4), (''dvm'', 4), (''measurement_type'', 4)]"

definition CONTROL_PROTOCOL__set_power_measurement_response_t :: layout where
  "CONTROL_PROTOCOL__set_power_measurement_response_t = [(''dvm'', 4), (''measurement_type'', 4)]"

definition CONTROL_PROTOCOL__get_power_measurement_request_t :: layout where
  "CONTROL_PROTOCOL__get_power_measurement_request_t = [(''index'', 4), (''should_clear'', 1)]"

definition CONTROL_PROTOCOL__get_power_measurement_response_t :: layout where
  "CONTROL_PROTOCOL__get_power_measurement_response_t =
     [(''total_number_of_samples'', 4), (''min_value'', 4), (''max_value'', 4), (''average_value'', 4),
     (''average_time_value_milliseconds'', 4)]"

definition CONTROL_PROTOCOL__start_power_measurement_request_t :: layout where
  "CONTROL_PROTOCOL__start_power_measurement_request_t =
     [(''delay_milliseconds'', 4), (''averaging_factor'', 2), (''sampling_period'', 2)]"

definition CONTROL_PROTOCOL__i2c_slave_config_t :: layout where
  "CONTROL_PROTOCOL__i2c_slave_config_t =
     [(''endianness'', 1), (''slave_address'', 2), (''register_address_size'', 1), (''bus_index'', 1), (''should_hold_bus'', 1)]"

definition CONTROL_PROTOCOL__i2c_write_request_t :: layout where
  "CONTROL_PROTOCOL__i2c_write_request_t =
     nested ''slave_config'' CONTROL_PROTOCOL__i2c_slave_config_t @ [(''register_address_size'', 4), (''register_address'', 4),
     (''data_length'', 4)]"

definition CONTROL_PROTOCOL__i2c_read_request_t :: layout where
  "CONTROL_PROTOCOL__i2c_read_request_t =
     nested ''slave_config'' CONTROL_PROTOCOL__i2c_slave_config_t @ [(''register_address_size'', 4), (''register_address'', 4),
     (''data_length'', 4)]"

definition CONTROL_PROTOCOL__i2c_read_response_t :: layout where
  "CONTROL_PROTOCOL__i2c_read_response_t = [(''data_length'', 4), (''data'', CONTROL_PROTOCOL__MAX_I2C_REGISTER_SIZE)]"

definition CONTROL_PROTOCOL__write_firmware_update_request_t :: layout where
  "CONTROL_PROTOCOL__write_firmware_update_request_t = [(''offset'', 4), (''data_length'', 4)]"

definition CONTROL_PROTOCOL__validate_firmware_update_request_t :: layout where
  "CONTROL_PROTOCOL__validate_firmware_update_request_t = [(''expected_md5'', MD5_DIGEST_LENGTH), (''firmware_size'', 4)]"

definition CONTROL_PROTOCOL__copy_second_stage_to_flash_request_t :: layout where
  "CONTROL_PROTOCOL__copy_second_stage_to_flash_request_t = [(''expected_md5'', MD5_DIGEST_LENGTH), (''second_stage_size'', 4)]"

definition CONTROL_PROTOCOL__examine_user_config_response_t :: layout where
  "CONTROL_PROTOCOL__examine_user_config_response_t = [(''version'', 4), (''entry_count'', 4), (''total_size'', 4)]"

definition CONTROL_PROTOCOL__latency_config_request_t :: layout where
  "CONTROL_PROTOCOL__latency_config_request_t =
     [(''latency_measurement_en'', 1), (''inbound_start_buffer_number'', 4), (''outbound_stop_buffer_number'', 4),
     (''inbound_stream_index'', 4), (''outbound_stream_index'', 4)]"

definition CONTROL_PROTOCOL__sensor_store_config_request_t :: layout where
  "CONTROL_PROTOCOL__sensor_store_config_request_t =
     [(''section_index'', 4), (''is_first'', 4), (''start_offset'', 4), (''reset_data_size'', 4), (''sensor_type'', 4),
     (''total_data_size'', 4), (''config_height'', 2), (''config_width'', 2), (''config_fps'', 2), (''config_name_length'', 4),
     (''config_name'', MAX_CONFIG_NAME_LEN), (''data_length'', 4)]"

definition CONTROL_PROTOCOL__sensor_get_config_request_t :: layout where
  "CONTROL_PROTOCOL__sensor_get_config_request_t = [(''section_index'', 4), (''offset'', 4), (''data_size'', 4)]"

definition CONTROL_PROTOCOL__sensor_set_i2c_bus_index_t :: layout where
  "CONTROL_PROTOCOL__sensor_set_i2c_bus_index_t = [(''sensor_type'', 4), (''i2c_bus_index'', 4)]"

definition CONTROL_PROTOCOL__sensor_load_config_request_t :: layout where
  "CONTROL_PROTOCOL__sensor_load_config_request_t = [(''section_index'', 4)]"

definition CONTROL_PROTOCOL__sensor_set_generic_i2c_slave_request_t :: layout where
  "CONTROL_PROTOCOL__sensor_set_generic_i2c_slave_request_t =
     [(''slave_address'', 2), (''register_address_size'', 1), (''bus_index'', 1), (''should_hold_bus'', 1), (''endianness'', 1)]"

definition CONTROL_PROTOCOL__sensor_reset_request_t :: layout where
  "CONTROL_PROTOCOL__sensor_reset_request_t = [(''section_index'', 4)]"

definition CONTROL_PROTOCOL__sensor_get_config_response_t :: layout where
  "CONTROL_PROTOCOL__sensor_get_config_response_t = [(''data_length'', 4), (''data'', CONTROL_PROTOCOL__MAX_READ_MEMORY_DATA_SIZE)]"

definition CONTROL_PROTOCOL__sensor_get_sections_info_response_t :: layout where
  "CONTROL_PROTOCOL__sensor_get_sections_info_response_t =
     [(''data_length'', 4), (''data'', CONTROL_PROTOCOL__MAX_READ_MEMORY_DATA_SIZE)]"

definition CONTROL_PROTOCOL__latency_read_response_t :: layout where
  "CONTROL_PROTOCOL__latency_read_response_t = [(''inbound_to_outbound_latency_nsec'', 4)]"

definition CONTROL_PROTOCOL__VALIDATION_FEATURE_LIST_t :: layout where
  "CONTROL_PROTOCOL__VALIDATION_FEATURE_LIST_t = [(''is_abbale_supported'', 1)]"

definition CONTROL_PROTOCOL__INFER_FEATURE_LIST_t :: layout where
  "CONTROL_PROTOCOL__INFER_FEATURE_LIST_t =
     [(''preliminary_run_asap'', 1), (''batch_register_config'', 1), (''can_fast_batch_switch'', 1)]"

definition CONTROL_PROTOCOL__config_channel_info_t :: layout where
  "CONTROL_PROTOCOL__config_channel_info_t = [(''packed_vdma_channel_id'', 1)]"

definition CONTROL_PROTOCOL__application_header_t :: layout where
  "CONTROL_PROTOCOL__application_header_t =
     [(''dynamic_contexts_count'', 2)] @ nested ''infer_features'' CONTROL_PROTOCOL__INFER_FEATURE_LIST_t @
     nested ''validation_features'' CONTROL_PROTOCOL__VALIDATION_FEATURE_LIST_t @ [(''networks_count'', 1), (''csm_buffer_size'', 2),
     (''batch_size'', 2), (''external_action_list_address'', 4),
     (''boundary_channels_bitmap'', 4 * CONTROL_PROTOCOL__MAX_VDMA_ENGINES_COUNT), (''config_channels_count'', 1),
     (''config_channel_info'', CONTROL_PROTOCOL__MAX_CFG_CHANNELS * sizeof CONTROL_PROTOCOL__config_channel_info_t)]"

definition CONTROL_PROTOCOL__context_switch_set_network_group_header_request_t :: layout where
  "CONTROL_PROTOCOL__context_switch_set_network_group_header_request_t =
     [(''application_header'', sizeof CONTROL_PROTOCOL__application_header_t)]"

definition CONTROL_PROTOCOL__context_switch_main_header_t :: layout where
  "CONTROL_PROTOCOL__context_switch_main_header_t =
     [(''application_count'', 1),
     (''application_header'', CONTROL_PROTOCOL__MAX_CONTEXT_SWITCH_APPLICATIONS * sizeof CONTROL_PROTOCOL__application_header_t)]"

definition CONTROL_PROTOCOL__wd_enable_request_t :: layout where
  "CONTROL_PROTOCOL__wd_enable_request_t = [(''should_enable'', 1)]"

definition CONTROL_PROTOCOL__wd_config_request_t :: layout where
  "CONTROL_PROTOCOL__wd_config_request_t = [(''wd_cycles'', 4), (''wd_mode'', 1)]"

definition CONTROL_PROTOCOL__previous_system_state_response_t :: layout where
  "CONTROL_PROTOCOL__previous_system_state_response_t = [(''system_state'', 4)]"

definition CONTROL_PROTOCOL__temperature_info_t :: layout where
  "CONTROL_PROTOCOL__temperature_info_t = [(''ts0_temperature'', 4), (''ts1_temperature'', 4), (''sample_count'', 2)]"

definition CONTROL_PROTOCOL__get_chip_temperature_response_t :: layout where
  "CONTROL_PROTOCOL__get_chip_temperature_response_t = nested ''info'' CONTROL_PROTOCOL__temperature_info_t"

definition CONTROL_PROTOCOL__context_switch_dma_addr_translation_table_t :: layout where
  "CONTROL_PROTOCOL__context_switch_dma_addr_translation_table_t =
     [(''handle_count'', 1), (''handles'', 8 * CONTROL_PROTOCOL__MAX_VDMA_CHANNELS_PER_ENGINE),
     (''dma_addrs'', 8 * CONTROL_PROTOCOL__MAX_VDMA_CHANNELS_PER_ENGINE)]"

definition CONTROL_PROTOCOL__context_switch_set_context_info_request_t :: layout where
  "CONTROL_PROTOCOL__context_switch_set_context_info_request_t =
     nested ''translation_table'' CONTROL_PROTOCOL__context_switch_dma_addr_translation_table_t @
     [(''is_first_chunk_per_context'', 1), (''is_last_chunk_per_context'', 1), (''context_type'', 1),
     (''context_network_data_length'', 4)]"

definition CONTROL_PROTOCOL__idle_time_set_measurement_request_t :: layout where
  "CONTROL_PROTOCOL__idle_time_set_measurement_request_t = [(''measurement_enable'', 1)]"

definition CONTROL_PROTOCOL__idle_time_get_measurement_response_t :: layout where
  "CONTROL_PROTOCOL__idle_time_get_measurement_response_t = [(''idle_time_ns'', 8)]"

definition CONTROL_PROTOCOL__download_context_action_list_request_t :: layout where
  "CONTROL_PROTOCOL__download_context_action_list_request_t =
     [(''network_group_id'', 4), (''context_type'', 1), (''context_index'', 2), (''action_list_offset'', 2)]"

definition CONTROL_PROTOCOL__download_context_action_list_response_t :: layout where
  "CONTROL_PROTOCOL__download_context_action_list_response_t =
     [(''base_address'', 4), (''is_action_list_end'', 1), (''batch_counter'', 4), (''idle_time'', 4),
     (''action_list_length'', 4)]"

definition CONTROL_PROTOCOL__change_context_switch_status_request_t :: layout where
  "CONTROL_PROTOCOL__change_context_switch_status_request_t =
     [(''state_machine_status'', 1), (''application_index'', 1), (''dynamic_batch_size'', 2), (''batch_count'', 2)]"

definition CONTROL_PROTOCOL__set_dataflow_interrupt_request_t :: layout where
  "CONTROL_PROTOCOL__set_dataflow_interrupt_request_t =
     [(''interrupt_type'', 1), (''interrupt_index'', 1), (''interrupt_sub_index'', 1)]"

definition CONTROL_PROTOCOL__d2h_event_manager_set_new_host_info_request_t :: layout where
  "CONTROL_PROTOCOL__d2h_event_manager_set_new_host_info_request_t =
     [(''connection_type'', 1), (''host_ip_address'', 4), (''host_port'', 2)]"

definition CONTROL_PROTOCOL__d2h_event_manager_send_host_info_event_request_t :: layout where
  "CONTROL_PROTOCOL__d2h_event_manager_send_host_info_event_request_t = [(''priority'', 1)]"

definition CONTROL_PROTOCOL_fuse_info_t :: layout where
  "CONTROL_PROTOCOL_fuse_info_t = [(''lot_id'', LOT_ID_BYTES_LEN), (''die_wafer_info'', 4)]"

definition CONTROL_PROTOCOL__get_extended_device_information_response_t :: layout where
  "CONTROL_PROTOCOL__get_extended_device_information_response_t =
     [(''neural_network_core_clock_rate'', 4), (''supported_features'', 8), (''boot_source'', 4), (''lcs'', 1),
     (''soc_id_length'', 4), (''soc_id'', CONTROL_PROTOCOL__SOC_ID_LENGTH), (''eth_mac_length'', 4),
     (''eth_mac_address'', MAC_ADDR_BYTES_LEN)] @ nested ''fuse_info'' CONTROL_PROTOCOL_fuse_info_t @ [(''pd_info_length'', 4),
     (''pd_info'', PM_RESULTS_LENGTH), (''partial_clusters_layout_bitmap'', 4)]"

definition CONTROL_PROTOCOL__throttling_level_t :: layout where
  "CONTROL_PROTOCOL__throttling_level_t =
     [(''temperature_threshold'', 4), (''hysteresis_temperature_threshold'', 4), (''throttling_nn_clock_freq'', 4)]"

definition CONTROL_PROTOCOL__get_health_information_response_t :: layout where
  "CONTROL_PROTOCOL__get_health_information_response_t =
     [(''overcurrent_protection_active'', 1), (''current_overcurrent_zone'', 1), (''red_overcurrent_threshold'', 4),
     (''overcurrent_throttling_active'', 1), (''temperature_throttling_active'', 1), (''current_temperature_zone'', 1),
     (''current_temperature_throttling_level'', 1), (''temperature_throttling_levels_length'', 4),
     (''temperature_throttling_levels'', MAX_TEMPERATURE_THROTTLING_LEVELS_NUMBER * sizeof CONTROL_PROTOCOL__throttling_level_t),
     (''orange_temperature_threshold'', 4), (''orange_hysteresis_temperature_threshold'', 4), (''red_temperature_threshold'', 4),
     (''red_hysteresis_temperature_threshold'', 4), (''requested_overcurrent_clock_freq'', 4),
     (''requested_temperature_clock_freq'', 4)]"

definition CONTROL_PROTOCOL__context_switch_breakpoint_data_t :: layout where
  "CONTROL_PROTOCOL__context_switch_breakpoint_data_t =
     [(''break_at_any_application_index'', 1), (''application_index'', 1), (''break_at_any_batch_index'', 1),
     (''batch_index'', 2), (''break_at_any_context_index'', 1), (''context_index'', 2), (''break_at_any_action_index'', 1),
     (''action_index'', 2)]"

definition CONTROL_PROTOCOL__config_context_switch_breakpoint_request_t :: layout where
  "CONTROL_PROTOCOL__config_context_switch_breakpoint_request_t =
     [(''breakpoint_id'', 4), (''breakpoint_control'', 1),
     (''breakpoint_data'', sizeof CONTROL_PROTOCOL__context_switch_breakpoint_data_t)]"

definition CONTROL_PROTOCOL__get_context_switch_breakpoint_status_request_t :: layout where
  "CONTROL_PROTOCOL__get_context_switch_breakpoint_status_request_t = [(''breakpoint_id'', 4)]"

definition CONTROL_PROTOCOL__get_context_switch_breakpoint_status_response_t :: layout where
  "CONTROL_PROTOCOL__get_context_switch_breakpoint_status_response_t = [(''breakpoint_status'', 1)]"

definition CONTROL_PROTOCOL__enable_debugging_request_t :: layout where
  "CONTROL_PROTOCOL__enable_debugging_request_t = [(''is_rma'', 1)]"

definition CONTROL_PROTOCOL__get_context_switch_main_header_response_t :: layout where
  "CONTROL_PROTOCOL__get_context_switch_main_header_response_t = nested ''main_header'' CONTROL_PROTOCOL__context_switch_main_header_t"

definition CONTROL_PROTOCOL__config_context_switch_timestamp_request_t :: layout where
  "CONTROL_PROTOCOL__config_context_switch_timestamp_request_t = [(''batch_index'', 2), (''enable_user_configuration'', 1)]"

definition CONTROL_PROTOCOL__config_stream_response_t :: layout where
  "CONTROL_PROTOCOL__config_stream_response_t = [(''dataflow_manager_id'', 1)]"

definition CONTROL_PROTOCOL__run_bist_test_request_t :: layout where
  "CONTROL_PROTOCOL__run_bist_test_request_t =
     [(''is_top_test'', 1), (''top_bypass_bitmap'', 4), (''cluster_index'', 1), (''cluster_bypass_bitmap_0'', 4),
     (''cluster_bypass_bitmap_1'', 4)]"

definition CONTROL_PROTOCOL__hw_consts_t :: layout where
  "CONTROL_PROTOCOL__hw_consts_t =
     [(''fifo_word_granularity_bytes'', 4), (''max_periph_buffers_per_frame'', 2), (''max_periph_bytes_per_buffer'', 2),
     (''max_acceptable_bytes_per_buffer'', 2), (''outbound_data_stream_size'', 4), (''should_optimize_credits'', 1),
     (''default_initial_credit_size'', 4)]"

definition CONTROL_PROTOCOL__get_hw_consts_response_t :: layout where
  "CONTROL_PROTOCOL__get_hw_consts_response_t = nested ''hw_consts'' CONTROL_PROTOCOL__hw_consts_t"

definition CONTROL_PROTOCOL__hw_only_infer_results_t :: layout where
  "CONTROL_PROTOCOL__hw_only_infer_results_t = [(''infer_done'', 1), (''infer_cycles'', 4)]"

definition CONTROL_PROTOCOL__change_hw_infer_status_response_t :: layout where
  "CONTROL_PROTOCOL__change_hw_infer_status_response_t = nested ''results'' CONTROL_PROTOCOL__hw_only_infer_results_t"

definition CONTROL_PROTOCOL__hw_infer_channel_info_t :: layout where
  "CONTROL_PROTOCOL__hw_infer_channel_info_t = [(''channel_index'', 1), (''engine_index'', 1), (''desc_programed'', 2)]"

definition CONTROL_PROTOCOL__hw_infer_channels_info_t :: layout where
  "CONTROL_PROTOCOL__hw_infer_channels_info_t =
     [(''channel_info'', CONTROL_PROTOCOL__MAX_TOTAL_CHANNEL_COUNT * sizeof CONTROL_PROTOCOL__hw_infer_channel_info_t),
     (''channel_count'', 1)]"

definition CONTROL_PROTOCOL__change_hw_infer_status_request_t :: layout where
  "CONTROL_PROTOCOL__change_hw_infer_status_request_t =
     [(''hw_infer_state'', 1), (''application_index'', 1), (''dynamic_batch_size'', 2), (''batch_count'', 2),
     (''channels_info'', sizeof CONTROL_PROTOCOL__hw_infer_channels_info_t), (''boundary_channel_mode'', 1)]"

lemmas struct_defs =   firmware_version_t_def CONTROL_PROTOCOL_identify_response_t_def CONTROL_PROTOCOL__core_identify_response_t_def
  CONTROL_PROTOCOL__read_memory_request_t_def CONTROL_PROTOCOL__read_memory_response_t_def CONTROL_PROTOCOL__write_memory_request_t_def
  CONTROL_PROTOCOL__set_fw_logger_request_t_def CONTROL_PROTOCOL__set_throttling_state_request_t_def
  CONTROL_PROTOCOL__get_throttling_state_response_t_def CONTROL_PROTOCOL__set_overcurrent_state_request_t_def
  CONTROL_PROTOCOL__set_sleep_state_request_t_def CONTROL_PROTOCOL__get_overcurrent_state_response_t_def
  CONTROL_PROTOCOL__set_clock_freq_request_t_def CONTROL_PROTOCOL__nn_stream_config_t_def CONTROL_PROTOCOL__mipi_common_config_params_t_def
  CONTROL_PROTOCOL__isp_config_params_t_def CONTROL_PROTOCOL__mipi_input_config_params_t_def
  CONTROL_PROTOCOL__mipi_output_config_params_t_def CONTROL_PROTOCOL__pcie_output_config_params_t_def
  CONTROL_PROTOCOL__pcie_input_config_params_t_def sizeof_CONTROL_PROTOCOL__communication_config_prams_t_def
  CONTROL_PROTOCOL__config_stream_request_t_def CONTROL_PROTOCOL__open_stream_request_t_def CONTROL_PROTOCOL__close_stream_request_t_def
  CONTROL_PROTOCOL__phy_operation_request_t_def CONTROL_PROTOCOL__set_pause_frames_t_def CONTROL_PROTOCOL__reset_request_t_def
  CONTROL_PROTOCOL__config_ahb_to_axi_params_t_def sizeof_CONTROL_PROTOCOL__config_core_top_params_t_def
  CONTROL_PROTOCOL__config_core_top_request_t_def CONTROL_PROTOCOL__power_measurement_request_t_def
  CONTROL_PROTOCOL__power_measurement_response_t_def CONTROL_PROTOCOL__set_power_measurement_request_t_def
  CONTROL_PROTOCOL__set_power_measurement_response_t_def CONTROL_PROTOCOL__get_power_measurement_request_t_def
  CONTROL_PROTOCOL__get_power_measurement_response_t_def CONTROL_PROTOCOL__start_power_measurement_request_t_def
  CONTROL_PROTOCOL__i2c_slave_config_t_def CONTROL_PROTOCOL__i2c_write_request_t_def CONTROL_PROTOCOL__i2c_read_request_t_def
  CONTROL_PROTOCOL__i2c_read_response_t_def CONTROL_PROTOCOL__write_firmware_update_request_t_def
  CONTROL_PROTOCOL__validate_firmware_update_request_t_def CONTROL_PROTOCOL__copy_second_stage_to_flash_request_t_def
  CONTROL_PROTOCOL__examine_user_config_response_t_def CONTROL_PROTOCOL__latency_config_request_t_def
  CONTROL_PROTOCOL__sensor_store_config_request_t_def CONTROL_PROTOCOL__sensor_get_config_request_t_def
  CONTROL_PROTOCOL__sensor_set_i2c_bus_index_t_def CONTROL_PROTOCOL__sensor_load_config_request_t_def
  CONTROL_PROTOCOL__sensor_set_generic_i2c_slave_request_t_def CONTROL_PROTOCOL__sensor_reset_request_t_def
  CONTROL_PROTOCOL__sensor_get_config_response_t_def CONTROL_PROTOCOL__sensor_get_sections_info_response_t_def
  CONTROL_PROTOCOL__latency_read_response_t_def CONTROL_PROTOCOL__VALIDATION_FEATURE_LIST_t_def CONTROL_PROTOCOL__INFER_FEATURE_LIST_t_def
  CONTROL_PROTOCOL__config_channel_info_t_def CONTROL_PROTOCOL__application_header_t_def
  CONTROL_PROTOCOL__context_switch_set_network_group_header_request_t_def CONTROL_PROTOCOL__context_switch_main_header_t_def
  CONTROL_PROTOCOL__wd_enable_request_t_def CONTROL_PROTOCOL__wd_config_request_t_def CONTROL_PROTOCOL__previous_system_state_response_t_def
  CONTROL_PROTOCOL__temperature_info_t_def CONTROL_PROTOCOL__get_chip_temperature_response_t_def
  CONTROL_PROTOCOL__context_switch_dma_addr_translation_table_t_def CONTROL_PROTOCOL__context_switch_set_context_info_request_t_def
  CONTROL_PROTOCOL__idle_time_set_measurement_request_t_def CONTROL_PROTOCOL__idle_time_get_measurement_response_t_def
  CONTROL_PROTOCOL__download_context_action_list_request_t_def CONTROL_PROTOCOL__download_context_action_list_response_t_def
  CONTROL_PROTOCOL__change_context_switch_status_request_t_def CONTROL_PROTOCOL__set_dataflow_interrupt_request_t_def
  CONTROL_PROTOCOL__d2h_event_manager_set_new_host_info_request_t_def CONTROL_PROTOCOL__d2h_event_manager_send_host_info_event_request_t_def
  CONTROL_PROTOCOL_fuse_info_t_def CONTROL_PROTOCOL__get_extended_device_information_response_t_def CONTROL_PROTOCOL__throttling_level_t_def
  CONTROL_PROTOCOL__get_health_information_response_t_def CONTROL_PROTOCOL__context_switch_breakpoint_data_t_def
  CONTROL_PROTOCOL__config_context_switch_breakpoint_request_t_def CONTROL_PROTOCOL__get_context_switch_breakpoint_status_request_t_def
  CONTROL_PROTOCOL__get_context_switch_breakpoint_status_response_t_def CONTROL_PROTOCOL__enable_debugging_request_t_def
  CONTROL_PROTOCOL__get_context_switch_main_header_response_t_def CONTROL_PROTOCOL__config_context_switch_timestamp_request_t_def
  CONTROL_PROTOCOL__config_stream_response_t_def CONTROL_PROTOCOL__run_bist_test_request_t_def CONTROL_PROTOCOL__hw_consts_t_def
  CONTROL_PROTOCOL__get_hw_consts_response_t_def CONTROL_PROTOCOL__hw_only_infer_results_t_def
  CONTROL_PROTOCOL__change_hw_infer_status_response_t_def CONTROL_PROTOCOL__hw_infer_channel_info_t_def
  CONTROL_PROTOCOL__hw_infer_channels_info_t_def CONTROL_PROTOCOL__change_hw_infer_status_request_t_def

lemmas length_defs = MD5_DIGEST_LENGTH_def CONTROL_PROTOCOL__MAX_VDMA_CHANNELS_PER_ENGINE_def CONTROL_PROTOCOL__MAX_TOTAL_CHANNEL_COUNT_def
  CONTROL_PROTOCOL__MAX_BOARD_NAME_LENGTH_def
  CONTROL_PROTOCOL__MAX_CFG_CHANNELS_def
  CONTROL_PROTOCOL__MAX_CONTEXT_SWITCH_APPLICATIONS_def
  CONTROL_PROTOCOL__MAX_I2C_REGISTER_SIZE_def
  CONTROL_PROTOCOL__MAX_PART_NUMBER_LENGTH_def
  CONTROL_PROTOCOL__MAX_PRODUCT_NAME_LENGTH_def
  CONTROL_PROTOCOL__MAX_READ_MEMORY_DATA_SIZE_def
  CONTROL_PROTOCOL__MAX_SERIAL_NUMBER_LENGTH_def
  CONTROL_PROTOCOL__MAX_VDMA_ENGINES_COUNT_def
  CONTROL_PROTOCOL__SOC_ID_LENGTH_def
  LOT_ID_BYTES_LEN_def
  MAC_ADDR_BYTES_LEN_def
  MAX_CONFIG_NAME_LEN_def
  MAX_TEMPERATURE_THROTTLING_LEVELS_NUMBER_def
  PM_RESULTS_LENGTH_def

end
