(* ===== verification/Control_Packing.thy ===== *)
theory Control_Packing
  imports Control_Structs
begin

text \<open>
  The functions of \<open>src/common/control_protocol.h\<close> that build firmware controls and read their responses. A request is the memory of a
  \<open>CONTROL_PROTOCOL__request_t\<close>; packing returns the length of the request and the changed memory. The byte order of the host is the
  parameter \<open>h\<close>. A structure that is copied as a whole is given as the bytes it has in the host's memory.
\<close>

section \<open>Requests\<close>

definition CONTROL_PROTOCOL__request_t :: layout where
  "CONTROL_PROTOCOL__request_t = [(''opcode'', 4), (''parameters'', unat CONTROL_PROTOCOL__MAX_CONTROL_LENGTH)]"

definition CONTROL_PROTOCOL__REQUEST_BASE_SIZE :: nat where "CONTROL_PROTOCOL__REQUEST_BASE_SIZE = 4"

text \<open>The number of an opcode is its position in the table.\<close>

definition opcode_of :: "string \<Rightarrow> u32" where
  "opcode_of name = of_nat (length (takeWhile (\<lambda>(x, _). x \<noteq> name) CONTROL_PROTOCOL__OPCODES_VARIABLES))"

fun value_CPU_ID_t :: "CPU_ID_t \<Rightarrow> u8" where
  "value_CPU_ID_t CPU_ID_APP_CPU = 0"
| "value_CPU_ID_t CPU_ID_CORE_CPU = 1"
| "value_CPU_ID_t CPU_ID_UNKNOWN = 2"

text \<open>
  What the functions share: the opcode, the members of the structure \<open>l\<close> of the request, and the data behind it.
\<close>

definition pack_request ::
    "byte_order \<Rightarrow> u32 \<Rightarrow> layout \<Rightarrow> store list \<Rightarrow> u8 list result \<Rightarrow> u8 list \<Rightarrow> (nat \<times> u8 list) result" where
  "pack_request h opcode l stores payload m =
     bind_r (store_member CONTROL_PROTOCOL__request_t 0 (put32 h ''opcode'' opcode) m) (\<lambda>m.
     bind_r (store_members l CONTROL_PROTOCOL__REQUEST_BASE_SIZE stores m) (\<lambda>m.
     bind_r payload (\<lambda>data.
     let n = CONTROL_PROTOCOL__REQUEST_BASE_SIZE + sizeof l
     in if n + length data \<le> length m then Ok (n + length data, put_bytes n data m) else Fault Out_of_bounds)))"

text \<open>An element of an array of 64-bit integers.\<close>

definition put64_at :: "byte_order \<Rightarrow> string \<Rightarrow> nat \<Rightarrow> u64 \<Rightarrow> store" where
  "put64_at h x i v = (x, 8 * i, host64 h (BYTE_ORDER__htodll h v))"

record CONTROL_PROTOCOL__context_switch_context_info_chunk_t =
  ci_handle_count :: u8
  ci_handles :: "u64 list"
  ci_dma_addrs :: "u64 list"
  ci_is_first_chunk_per_context :: bool
  ci_is_last_chunk_per_context :: bool
  ci_context_type :: u8
  ci_context_network_data_length :: u32
  ci_context_network_data :: "u8 list"

definition CONTROL_PROTOCOL__pack_identify_request ::
    "byte_order \<Rightarrow> u8 list \<Rightarrow> (nat \<times> u8 list) result" where
  "CONTROL_PROTOCOL__pack_identify_request h =
     pack_request h (opcode_of ''HAILO_CONTROL_OPCODE_IDENTIFY'') []
       [] (Ok [])"

definition CONTROL_PROTOCOL__pack_core_identify_request ::
    "byte_order \<Rightarrow> u8 list \<Rightarrow> (nat \<times> u8 list) result" where
  "CONTROL_PROTOCOL__pack_core_identify_request h =
     pack_request h (opcode_of ''HAILO_CONTROL_OPCODE_CORE_IDENTIFY'') []
       [] (Ok [])"

definition CONTROL_PROTOCOL__pack_set_fw_logger_request ::
    "byte_order \<Rightarrow> u8 \<Rightarrow> u8 \<Rightarrow> u8 list \<Rightarrow> (nat \<times> u8 list) result" where
  "CONTROL_PROTOCOL__pack_set_fw_logger_request h level interface_mask =
     pack_request h (opcode_of ''HAILO_CONTROL_OPCODE_SET_FW_LOGGER'') CONTROL_PROTOCOL__set_fw_logger_request_t
       [put8 ''level'' level,
        put8 ''logger_interface_bit_mask'' interface_mask] (Ok [])"

definition CONTROL_PROTOCOL__pack_set_clock_freq_request ::
    "byte_order \<Rightarrow> u32 \<Rightarrow> u8 list \<Rightarrow> (nat \<times> u8 list) result" where
  "CONTROL_PROTOCOL__pack_set_clock_freq_request h clock_freq =
     pack_request h (opcode_of ''HAILO_CONTROL_OPCODE_SET_CLOCK_FREQ'') CONTROL_PROTOCOL__set_clock_freq_request_t
       [put32 h ''clock_freq'' clock_freq] (Ok [])"

definition CONTROL_PROTOCOL__pack_set_throttling_state_request ::
    "byte_order \<Rightarrow> bool \<Rightarrow> u8 list \<Rightarrow> (nat \<times> u8 list) result" where
  "CONTROL_PROTOCOL__pack_set_throttling_state_request h should_activate =
     pack_request h (opcode_of ''HAILO_CONTROL_OPCODE_SET_THROTTLING_STATE'') CONTROL_PROTOCOL__set_throttling_state_request_t
       [put_bool ''should_activate'' should_activate] (Ok [])"

definition CONTROL_PROTOCOL__pack_get_throttling_state_request ::
    "byte_order \<Rightarrow> u8 list \<Rightarrow> (nat \<times> u8 list) result" where
  "CONTROL_PROTOCOL__pack_get_throttling_state_request h =
     pack_request h (opcode_of ''HAILO_CONTROL_OPCODE_GET_THROTTLING_STATE'') []
       [] (Ok [])"

definition CONTROL_PROTOCOL__pack_set_overcurrent_state_request ::
    "byte_order \<Rightarrow> bool \<Rightarrow> u8 list \<Rightarrow> (nat \<times> u8 list) result" where
  "CONTROL_PROTOCOL__pack_set_overcurrent_state_request h should_activate =
     pack_request h (opcode_of ''HAILO_CONTROL_OPCODE_SET_OVERCURRENT_STATE'') CONTROL_PROTOCOL__set_overcurrent_state_request_t
       [put_bool ''should_activate'' should_activate] (Ok [])"

definition CONTROL_PROTOCOL__pack_get_overcurrent_state_request ::
    "byte_order \<Rightarrow> u8 list \<Rightarrow> (nat \<times> u8 list) result" where
  "CONTROL_PROTOCOL__pack_get_overcurrent_state_request h =
     pack_request h (opcode_of ''HAILO_CONTROL_OPCODE_GET_OVERCURRENT_STATE'') []
       [] (Ok [])"

definition CONTROL_PROTOCOL__pack_get_hw_consts_request ::
    "byte_order \<Rightarrow> u8 list \<Rightarrow> (nat \<times> u8 list) result" where
  "CONTROL_PROTOCOL__pack_get_hw_consts_request h =
     pack_request h (opcode_of ''HAILO_CONTROL_OPCODE_GET_HW_CONSTS'') []
       [] (Ok [])"

definition CONTROL_PROTOCOL__pack_write_memory_request ::
    "byte_order \<Rightarrow> u32 \<Rightarrow> u8 list \<Rightarrow> u32 \<Rightarrow> u8 list \<Rightarrow> (nat \<times> u8 list) result" where
  "CONTROL_PROTOCOL__pack_write_memory_request h address data data_length =
     pack_request h (opcode_of ''HAILO_CONTROL_OPCODE_WRITE_MEMORY'') CONTROL_PROTOCOL__write_memory_request_t
       [put32 h ''address'' address,
        put32 h ''data_length'' data_length] (memcpy_from data (unat data_length))"

definition CONTROL_PROTOCOL__pack_read_memory_request ::
    "byte_order \<Rightarrow> u32 \<Rightarrow> u32 \<Rightarrow> u8 list \<Rightarrow> (nat \<times> u8 list) result" where
  "CONTROL_PROTOCOL__pack_read_memory_request h address data_length =
     pack_request h (opcode_of ''HAILO_CONTROL_OPCODE_READ_MEMORY'') CONTROL_PROTOCOL__read_memory_request_t
       [put32 h ''address'' address,
        put32 h ''data_count'' data_length] (Ok [])"

definition CONTROL_PROTOCOL__pack_open_stream_request ::
    "byte_order \<Rightarrow> u8 \<Rightarrow> u8 \<Rightarrow> u8 list \<Rightarrow> (nat \<times> u8 list) result" where
  "CONTROL_PROTOCOL__pack_open_stream_request h dataflow_manager_id is_input =
     pack_request h (opcode_of ''HAILO_CONTROL_OPCODE_OPEN_STREAM'') CONTROL_PROTOCOL__open_stream_request_t
       [put8 ''dataflow_manager_id'' dataflow_manager_id,
        put8 ''is_input'' is_input] (Ok [])"

definition CONTROL_PROTOCOL__pack_close_stream_request ::
    "byte_order \<Rightarrow> u8 \<Rightarrow> u8 \<Rightarrow> u8 list \<Rightarrow> (nat \<times> u8 list) result" where
  "CONTROL_PROTOCOL__pack_close_stream_request h dataflow_manager_id is_input =
     pack_request h (opcode_of ''HAILO_CONTROL_OPCODE_CLOSE_STREAM'') CONTROL_PROTOCOL__close_stream_request_t
       [put8 ''dataflow_manager_id'' dataflow_manager_id,
        put8 ''is_input'' is_input] (Ok [])"

definition control_protocol__swap_config_stream_common :: "byte_order \<Rightarrow> nat \<Rightarrow> u8 list \<Rightarrow> u8 list result" where
  "control_protocol__swap_config_stream_common h cs =
     convert_members h CONTROL_PROTOCOL__config_stream_request_t cs
       [Conv32 ''communication_type'',
        Conv16 ''nn_stream_config.core_bytes_per_buffer'',
        Conv16 ''nn_stream_config.core_buffers_per_frame'',
        Conv16 ''nn_stream_config.periph_bytes_per_buffer'',
        Conv16 ''nn_stream_config.periph_buffers_per_frame'',
        Conv16 ''nn_stream_config.feature_padding_payload'',
        Conv32 ''nn_stream_config.buffer_padding_payload'',
        Conv16 ''nn_stream_config.buffer_padding'']"

text \<open>
  The four functions that configure a stream copy the whole structure and convert it where it lies; they differ in the member \<open>l\<close> of
  the union \<open>communication_params\<close>, the last member of the structure.
\<close>

definition communication_params_at :: nat where
  "communication_params_at = CONTROL_PROTOCOL__REQUEST_BASE_SIZE + sizeof CONTROL_PROTOCOL__config_stream_request_t
     - sizeof_CONTROL_PROTOCOL__communication_config_prams_t"

definition pack_config_stream :: "byte_order \<Rightarrow> u8 list \<Rightarrow> layout \<Rightarrow> conversion list \<Rightarrow> u8 list \<Rightarrow> (nat \<times> u8 list) result" where
  "pack_config_stream h params l conversions m =
     bind_r (store_member CONTROL_PROTOCOL__request_t 0 (put32 h ''opcode'' (opcode_of ''HAILO_CONTROL_OPCODE_CONFIG_STREAM'')) m) (\<lambda>m.
     bind_r (memcpy_from params (sizeof CONTROL_PROTOCOL__config_stream_request_t)) (\<lambda>params.
     bind_r (store_member CONTROL_PROTOCOL__request_t 0 (''parameters'', 0, params) m) (\<lambda>m.
     bind_r (control_protocol__swap_config_stream_common h CONTROL_PROTOCOL__REQUEST_BASE_SIZE m) (\<lambda>m.
     bind_r (convert_members h l communication_params_at conversions m) (\<lambda>m.
     Ok (CONTROL_PROTOCOL__REQUEST_BASE_SIZE + sizeof CONTROL_PROTOCOL__config_stream_request_t
           - sizeof_CONTROL_PROTOCOL__communication_config_prams_t + sizeof l, m))))))"

definition CONTROL_PROTOCOL__pack_config_stream_mipi_input_request ::
    "byte_order \<Rightarrow> u8 list \<Rightarrow> u8 list \<Rightarrow> (nat \<times> u8 list) result" where
  "CONTROL_PROTOCOL__pack_config_stream_mipi_input_request h params =
     pack_config_stream h params CONTROL_PROTOCOL__mipi_input_config_params_t
       [Conv16 ''common_params.img_width_pixels'',
        Conv16 ''common_params.img_height_pixels'',
        Conv32 ''common_params.data_rate'',
        Conv16 ''isp_params.isp_crop_output_width_pixels'',
        Conv16 ''isp_params.isp_crop_output_height_pixels'',
        Conv16 ''isp_params.isp_crop_output_width_start_offset_pixels'',
        Conv16 ''isp_params.isp_crop_output_height_start_offset_pixels'',
        Conv16 ''isp_params.isp_run_time_calculations_interval_ms'']"

definition CONTROL_PROTOCOL__pack_config_stream_mipi_output_request ::
    "byte_order \<Rightarrow> u8 list \<Rightarrow> u8 list \<Rightarrow> (nat \<times> u8 list) result" where
  "CONTROL_PROTOCOL__pack_config_stream_mipi_output_request h params =
     pack_config_stream h params CONTROL_PROTOCOL__mipi_output_config_params_t
       [Conv16 ''common_params.img_width_pixels'',
        Conv16 ''common_params.img_height_pixels'',
        Conv32 ''common_params.data_rate'']"

definition CONTROL_PROTOCOL__pack_config_stream_pcie_input_request ::
    "byte_order \<Rightarrow> u8 list \<Rightarrow> u8 list \<Rightarrow> (nat \<times> u8 list) result" where
  "CONTROL_PROTOCOL__pack_config_stream_pcie_input_request h params =
     pack_config_stream h params CONTROL_PROTOCOL__pcie_input_config_params_t
       []"

definition CONTROL_PROTOCOL__pack_config_stream_pcie_output_request ::
    "byte_order \<Rightarrow> u8 list \<Rightarrow> u8 list \<Rightarrow> (nat \<times> u8 list) result" where
  "CONTROL_PROTOCOL__pack_config_stream_pcie_output_request h params =
     pack_config_stream h params CONTROL_PROTOCOL__pcie_output_config_params_t
       [Conv16 ''desc_page_size'']"

definition CONTROL_PROTOCOL__pack_reset_request ::
    "byte_order \<Rightarrow> CONTROL_PROTOCOL__reset_type_t \<Rightarrow> u8 list \<Rightarrow> (nat \<times> u8 list) result" where
  "CONTROL_PROTOCOL__pack_reset_request h reset_type =
     pack_request h (opcode_of ''HAILO_CONTROL_OPCODE_RESET'') CONTROL_PROTOCOL__reset_request_t
       [put32 h ''reset_type'' (value_CONTROL_PROTOCOL__reset_type_t reset_type)] (Ok [])"

definition CONTROL_PROTOCOL__pack_power_measurement_request ::
    "byte_order \<Rightarrow> CONTROL_PROTOCOL__dvm_options_t \<Rightarrow> CONTROL_PROTOCOL__power_measurement_types_t \<Rightarrow> u8 list \<Rightarrow> (nat \<times> u8 list) result" where
  "CONTROL_PROTOCOL__pack_power_measurement_request h dvm measurement_type =
     pack_request h (opcode_of ''HAILO_CONTROL_OPCODE_POWER_MEASUEMENT'') CONTROL_PROTOCOL__power_measurement_request_t
       [put32 h ''dvm'' (value_CONTROL_PROTOCOL__dvm_options_t dvm),
        put32 h ''measurement_type'' (value_CONTROL_PROTOCOL__power_measurement_types_t measurement_type)] (Ok [])"

definition CONTROL_PROTOCOL__pack_set_power_measurement_request ::
    "byte_order \<Rightarrow> u32 \<Rightarrow> CONTROL_PROTOCOL__dvm_options_t \<Rightarrow> CONTROL_PROTOCOL__power_measurement_types_t \<Rightarrow> u8 list \<Rightarrow> (nat \<times> u8 list) result" where
  "CONTROL_PROTOCOL__pack_set_power_measurement_request h idx dvm measurement_type =
     pack_request h (opcode_of ''HAILO_CONTROL_OPCODE_SET_POWER_MEASUEMENT'') CONTROL_PROTOCOL__set_power_measurement_request_t
       [put32 h ''index'' idx,
        put32 h ''dvm'' (value_CONTROL_PROTOCOL__dvm_options_t dvm),
        put32 h ''measurement_type'' (value_CONTROL_PROTOCOL__power_measurement_types_t measurement_type)] (Ok [])"

definition CONTROL_PROTOCOL__pack_get_power_measurement_request ::
    "byte_order \<Rightarrow> u32 \<Rightarrow> bool \<Rightarrow> u8 list \<Rightarrow> (nat \<times> u8 list) result" where
  "CONTROL_PROTOCOL__pack_get_power_measurement_request h idx should_clear =
     pack_request h (opcode_of ''HAILO_CONTROL_OPCODE_GET_POWER_MEASUEMENT'') CONTROL_PROTOCOL__get_power_measurement_request_t
       [put32 h ''index'' idx,
        put_bool ''should_clear'' should_clear] (Ok [])"

definition CONTROL_PROTOCOL__pack_start_power_measurement_request ::
    "byte_order \<Rightarrow> u32 \<Rightarrow> CONTROL_PROTOCOL__averaging_factor_t \<Rightarrow> CONTROL_PROTOCOL__sampling_period_t \<Rightarrow> u8 list \<Rightarrow> (nat \<times> u8 list) result" where
  "CONTROL_PROTOCOL__pack_start_power_measurement_request h delay_milliseconds averaging_factor sampling_period =
     pack_request h (opcode_of ''HAILO_CONTROL_OPCODE_START_POWER_MEASUEMENT'') CONTROL_PROTOCOL__start_power_measurement_request_t
       [put32 h ''delay_milliseconds'' delay_milliseconds,
        put16 h ''averaging_factor'' (ucast (value_CONTROL_PROTOCOL__averaging_factor_t averaging_factor)),
        put16 h ''sampling_period'' (ucast (value_CONTROL_PROTOCOL__sampling_period_t sampling_period))] (Ok [])"

definition CONTROL_PROTOCOL__pack_stop_power_measurement_request ::
    "byte_order \<Rightarrow> u8 list \<Rightarrow> (nat \<times> u8 list) result" where
  "CONTROL_PROTOCOL__pack_stop_power_measurement_request h =
     pack_request h (opcode_of ''HAILO_CONTROL_OPCODE_STOP_POWER_MEASUEMENT'') []
       [] (Ok [])"

definition CONTROL_PROTOCOL__pack_i2c_write_request ::
    "byte_order \<Rightarrow> u32 \<Rightarrow> u8 \<Rightarrow> u16 \<Rightarrow> u8 \<Rightarrow> u8 \<Rightarrow> u8 list \<Rightarrow> u32 \<Rightarrow> u8 list \<Rightarrow> (nat \<times> u8 list) result" where
  "CONTROL_PROTOCOL__pack_i2c_write_request h register_address endianness slave_address register_address_size bus_index data len =
     pack_request h (opcode_of ''HAILO_CONTROL_OPCODE_I2C_WRITE'') CONTROL_PROTOCOL__i2c_write_request_t
       [put32 h ''register_address_size'' 4,
        put32 h ''register_address'' register_address,
        put8 ''slave_config.endianness'' endianness,
        put16 h ''slave_config.slave_address'' slave_address,
        put8 ''slave_config.register_address_size'' register_address_size,
        put8 ''slave_config.bus_index'' bus_index,
        put_bool ''slave_config.should_hold_bus'' False,
        put32 h ''data_length'' len] (memcpy_from data (unat len))"

definition CONTROL_PROTOCOL__pack_i2c_read_request ::
    "byte_order \<Rightarrow> u32 \<Rightarrow> u8 \<Rightarrow> u16 \<Rightarrow> u8 \<Rightarrow> u8 \<Rightarrow> u32 \<Rightarrow> bool \<Rightarrow> u8 list \<Rightarrow> (nat \<times> u8 list) result" where
  "CONTROL_PROTOCOL__pack_i2c_read_request h register_address endianness slave_address register_address_size bus_index len should_hold_bus =
     pack_request h (opcode_of ''HAILO_CONTROL_OPCODE_I2C_READ'') CONTROL_PROTOCOL__i2c_read_request_t
       [put32 h ''register_address_size'' 4,
        put32 h ''register_address'' register_address,
        put8 ''slave_config.endianness'' endianness,
        put16 h ''slave_config.slave_address'' slave_address,
        put8 ''slave_config.register_address_size'' register_address_size,
        put8 ''slave_config.bus_index'' bus_index,
        put_bool ''slave_config.should_hold_bus'' should_hold_bus,
        put32 h ''data_length'' len] (Ok [])"

definition CONTROL_PROTOCOL__pack_phy_operation_request ::
    "byte_order \<Rightarrow> CONTROL_PROTOCOL__phy_operation_t \<Rightarrow> u8 list \<Rightarrow> (nat \<times> u8 list) result" where
  "CONTROL_PROTOCOL__pack_phy_operation_request h operation_type =
     pack_request h (opcode_of ''HAILO_CONTROL_OPCODE_PHY_OPERATION'') CONTROL_PROTOCOL__phy_operation_request_t
       [put32 h ''operation_type'' (value_CONTROL_PROTOCOL__phy_operation_t operation_type)] (Ok [])"

definition CONTROL_PROTOCOL__pack_config_core_top_request ::
    "byte_order \<Rightarrow> CONTROL_PROTOCOL__config_core_top_type_t \<Rightarrow> u8 list \<Rightarrow> u8 list \<Rightarrow> (nat \<times> u8 list) result" where
  "CONTROL_PROTOCOL__pack_config_core_top_request h config_type params m =
     bind_r (memcpy_from params sizeof_CONTROL_PROTOCOL__config_core_top_params_t) (\<lambda>params.
     pack_request h (opcode_of ''HAILO_CONTROL_OPCODE_CONFIG_CORE_TOP'') CONTROL_PROTOCOL__config_core_top_request_t
       [put32 h ''config_type'' (value_CONTROL_PROTOCOL__config_core_top_type_t config_type),
        (''config_params'', 0, params)] (Ok []) m)"

definition CONTROL_PROTOCOL__pack_set_pause_frames_request ::
    "byte_order \<Rightarrow> u8 \<Rightarrow> u8 list \<Rightarrow> (nat \<times> u8 list) result" where
  "CONTROL_PROTOCOL__pack_set_pause_frames_request h rx_pause_frames_enable =
     pack_request h (opcode_of ''HAILO_CONTROL_OPCODE_SET_PAUSE_FRAMES'') CONTROL_PROTOCOL__set_pause_frames_t
       [put8 ''rx_pause_frames_enable'' rx_pause_frames_enable] (Ok [])"

definition CONTROL_PROTOCOL__pack_get_chip_temperature_request ::
    "byte_order \<Rightarrow> u8 list \<Rightarrow> (nat \<times> u8 list) result" where
  "CONTROL_PROTOCOL__pack_get_chip_temperature_request h =
     pack_request h (opcode_of ''HAILO_CONTROL_OPCODE_GET_CHIP_TEMPERATURE'') []
       [] (Ok [])"

definition CONTROL_PROTOCOL__pack_examine_user_config_request ::
    "byte_order \<Rightarrow> u8 list \<Rightarrow> (nat \<times> u8 list) result" where
  "CONTROL_PROTOCOL__pack_examine_user_config_request h =
     pack_request h (opcode_of ''HAILO_CONTROL_OPCODE_EXAMINE_USER_CONFIG'') []
       [] (Ok [])"

definition CONTROL_PROTOCOL__pack_read_user_config_request ::
    "byte_order \<Rightarrow> u32 \<Rightarrow> u32 \<Rightarrow> u8 list \<Rightarrow> (nat \<times> u8 list) result" where
  "CONTROL_PROTOCOL__pack_read_user_config_request h address data_length =
     pack_request h (opcode_of ''HAILO_CONTROL_OPCODE_READ_USER_CONFIG'') CONTROL_PROTOCOL__read_memory_request_t
       [put32 h ''address'' address,
        put32 h ''data_count'' data_length] (Ok [])"

definition CONTROL_PROTOCOL__pack_write_user_config_request ::
    "byte_order \<Rightarrow> u32 \<Rightarrow> u8 list \<Rightarrow> u32 \<Rightarrow> u8 list \<Rightarrow> (nat \<times> u8 list) result" where
  "CONTROL_PROTOCOL__pack_write_user_config_request h address data data_length =
     pack_request h (opcode_of ''HAILO_CONTROL_OPCODE_WRITE_USER_CONFIG'') CONTROL_PROTOCOL__write_memory_request_t
       [put32 h ''address'' address,
        put32 h ''data_length'' data_length] (memcpy_from data (unat data_length))"

definition CONTROL_PROTOCOL__pack_erase_user_config_request ::
    "byte_order \<Rightarrow> u8 list \<Rightarrow> (nat \<times> u8 list) result" where
  "CONTROL_PROTOCOL__pack_erase_user_config_request h =
     pack_request h (opcode_of ''HAILO_CONTROL_OPCODE_ERASE_USER_CONFIG'') []
       [] (Ok [])"

definition CONTROL_PROTOCOL__pack_read_board_config_request ::
    "byte_order \<Rightarrow> u32 \<Rightarrow> u32 \<Rightarrow> u8 list \<Rightarrow> (nat \<times> u8 list) result" where
  "CONTROL_PROTOCOL__pack_read_board_config_request h address data_length =
     pack_request h (opcode_of ''HAILO_CONTROL_OPCODE_READ_BOARD_CONFIG'') CONTROL_PROTOCOL__read_memory_request_t
       [put32 h ''address'' address,
        put32 h ''data_count'' data_length] (Ok [])"

definition CONTROL_PROTOCOL__pack_write_board_config_request ::
    "byte_order \<Rightarrow> u32 \<Rightarrow> u8 list \<Rightarrow> u32 \<Rightarrow> u8 list \<Rightarrow> (nat \<times> u8 list) result" where
  "CONTROL_PROTOCOL__pack_write_board_config_request h address data data_length =
     pack_request h (opcode_of ''HAILO_CONTROL_OPCODE_WRITE_BOARD_CONFIG'') CONTROL_PROTOCOL__write_memory_request_t
       [put32 h ''address'' address,
        put32 h ''data_length'' data_length] (memcpy_from data (unat data_length))"

definition CONTROL_PROTOCOL__pack_start_firmware_update_request ::
    "byte_order \<Rightarrow> u8 list \<Rightarrow> (nat \<times> u8 list) result" where
  "CONTROL_PROTOCOL__pack_start_firmware_update_request h =
     pack_request h (opcode_of ''HAILO_CONTROL_OPCODE_START_FIRMWARE_UPDATE'') []
       [] (Ok [])"

definition CONTROL_PROTOCOL__pack_finish_firmware_update_request ::
    "byte_order \<Rightarrow> u8 list \<Rightarrow> (nat \<times> u8 list) result" where
  "CONTROL_PROTOCOL__pack_finish_firmware_update_request h =
     pack_request h (opcode_of ''HAILO_CONTROL_OPCODE_FINISH_FIRMWARE_UPDATE'') []
       [] (Ok [])"

definition CONTROL_PROTOCOL__pack_write_firmware_update_request ::
    "byte_order \<Rightarrow> u32 \<Rightarrow> u8 list \<Rightarrow> u32 \<Rightarrow> u8 list \<Rightarrow> (nat \<times> u8 list) result" where
  "CONTROL_PROTOCOL__pack_write_firmware_update_request h offset data data_length =
     pack_request h (opcode_of ''HAILO_CONTROL_OPCODE_WRITE_FIRMWARE_UPDATE'') CONTROL_PROTOCOL__write_firmware_update_request_t
       [put32 h ''offset'' offset,
        put32 h ''data_length'' data_length] (memcpy_from data (unat data_length))"

definition CONTROL_PROTOCOL__pack_validate_firmware_update_request ::
    "byte_order \<Rightarrow> u8 list \<Rightarrow> u32 \<Rightarrow> u8 list \<Rightarrow> (nat \<times> u8 list) result" where
  "CONTROL_PROTOCOL__pack_validate_firmware_update_request h expected_md5 firmware_size m =
     bind_r (memcpy_from expected_md5 MD5_DIGEST_LENGTH) (\<lambda>expected_md5.
     pack_request h (opcode_of ''HAILO_CONTROL_OPCODE_VALIDATE_FIRMWARE_UPDATE'') CONTROL_PROTOCOL__validate_firmware_update_request_t
       [(''expected_md5'', 0, expected_md5),
        put32 h ''firmware_size'' firmware_size] (Ok []) m)"

definition CONTROL_PROTOCOL__pack_write_second_stage_to_internal_memory_request ::
    "byte_order \<Rightarrow> u32 \<Rightarrow> u8 list \<Rightarrow> u32 \<Rightarrow> u8 list \<Rightarrow> (nat \<times> u8 list) result" where
  "CONTROL_PROTOCOL__pack_write_second_stage_to_internal_memory_request h offset data data_length =
     pack_request h (opcode_of ''HAILO_CONTROL_OPCODE_WRITE_SECOND_STAGE_TO_INTERNAL_MEMORY'') CONTROL_PROTOCOL__write_firmware_update_request_t
       [put32 h ''offset'' offset,
        put32 h ''data_length'' data_length] (memcpy_from data (unat data_length))"

definition CONTROL_PROTOCOL__pack_copy_second_stage_to_flash_request ::
    "byte_order \<Rightarrow> u8 list \<Rightarrow> u32 \<Rightarrow> u8 list \<Rightarrow> (nat \<times> u8 list) result" where
  "CONTROL_PROTOCOL__pack_copy_second_stage_to_flash_request h expected_md5 second_stage_size m =
     bind_r (memcpy_from expected_md5 MD5_DIGEST_LENGTH) (\<lambda>expected_md5.
     pack_request h (opcode_of ''HAILO_CONTROL_OPCODE_COPY_SECOND_STAGE_TO_FLASH'') CONTROL_PROTOCOL__copy_second_stage_to_flash_request_t
       [(''expected_md5'', 0, expected_md5),
        put32 h ''second_stage_size'' second_stage_size] (Ok []) m)"

definition CONTROL_PROTOCOL__pack_latency_measurement_config_request ::
    "byte_order \<Rightarrow> u8 \<Rightarrow> u32 \<Rightarrow> u32 \<Rightarrow> u32 \<Rightarrow> u32 \<Rightarrow> u8 list \<Rightarrow> (nat \<times> u8 list) result" where
  "CONTROL_PROTOCOL__pack_latency_measurement_config_request h latency_measurement_en inbound_start_buffer_number outbound_stop_buffer_number inbound_stream_index outbound_stream_index =
     pack_request h (opcode_of ''HAILO_CONTROL_OPCODE_NN_CORE_LATENCY_MEASUREMENT_CONFIG'') CONTROL_PROTOCOL__latency_config_request_t
       [put8 ''latency_measurement_en'' latency_measurement_en,
        put32 h ''inbound_start_buffer_number'' inbound_start_buffer_number,
        put32 h ''outbound_stop_buffer_number'' outbound_stop_buffer_number,
        put32 h ''inbound_stream_index'' inbound_stream_index,
        put32 h ''outbound_stream_index'' outbound_stream_index] (Ok [])"

definition CONTROL_PROTOCOL__pack_latency_measurement_read_request ::
    "byte_order \<Rightarrow> u8 list \<Rightarrow> (nat \<times> u8 list) result" where
  "CONTROL_PROTOCOL__pack_latency_measurement_read_request h =
     pack_request h (opcode_of ''HAILO_CONTROL_OPCODE_NN_CORE_LATENCY_MEASUREMENT_READ'') []
       [] (Ok [])"

definition CONTROL_PROTOCOL__pack_sensor_store_config_request ::
    "byte_order \<Rightarrow> u32 \<Rightarrow> u32 \<Rightarrow> u32 \<Rightarrow> u32 \<Rightarrow> u32 \<Rightarrow> u32 \<Rightarrow> u8 list \<Rightarrow> u32 \<Rightarrow> u16 \<Rightarrow> u16 \<Rightarrow> u16 \<Rightarrow> u32 \<Rightarrow> u8 list \<Rightarrow> u8 list \<Rightarrow> (nat \<times> u8 list) result" where
  "CONTROL_PROTOCOL__pack_sensor_store_config_request h is_first section_index start_offset reset_data_size sensor_type total_data_size data data_length
       config_height config_width config_fps config_name_length config_name m =
     bind_r (memcpy_from config_name (unat config_name_length)) (\<lambda>config_name.
     pack_request h (opcode_of ''HAILO_CONTROL_OPCODE_SENSOR_STORE_CONFIG'') CONTROL_PROTOCOL__sensor_store_config_request_t
       [put32 h ''section_index'' section_index,
        put32 h ''is_first'' is_first,
        put32 h ''start_offset'' start_offset,
        put32 h ''reset_data_size'' reset_data_size,
        put32 h ''sensor_type'' sensor_type,
        put32 h ''total_data_size'' total_data_size,
        put16 h ''config_width'' config_width,
        put16 h ''config_height'' config_height,
        put16 h ''config_fps'' config_fps,
        put32 h ''config_name_length'' (of_nat MAX_CONFIG_NAME_LEN),
        (''config_name'', 0, config_name),
        put32 h ''data_length'' data_length] (memcpy_from data (unat data_length)) m)"

definition CONTROL_PROTOCOL__pack_sensor_get_config_request ::
    "byte_order \<Rightarrow> u32 \<Rightarrow> u32 \<Rightarrow> u32 \<Rightarrow> u8 list \<Rightarrow> (nat \<times> u8 list) result" where
  "CONTROL_PROTOCOL__pack_sensor_get_config_request h section_index offset data_length =
     pack_request h (opcode_of ''HAILO_CONTROL_OPCODE_SENSOR_GET_CONFIG'') CONTROL_PROTOCOL__sensor_get_config_request_t
       [put32 h ''section_index'' section_index,
        put32 h ''offset'' offset,
        put32 h ''data_size'' data_length] (Ok [])"

definition CONTROL_PROTOCOL__pack_sensor_set_i2c_bus_index_request ::
    "byte_order \<Rightarrow> u32 \<Rightarrow> u32 \<Rightarrow> u8 list \<Rightarrow> (nat \<times> u8 list) result" where
  "CONTROL_PROTOCOL__pack_sensor_set_i2c_bus_index_request h sensor_type bus_index =
     pack_request h (opcode_of ''HAILO_CONTROL_OPCODE_SENSOR_SET_I2C_BUS_INDEX'') CONTROL_PROTOCOL__sensor_set_i2c_bus_index_t
       [put32 h ''sensor_type'' sensor_type,
        put32 h ''i2c_bus_index'' bus_index] (Ok [])"

definition CONTROL_PROTOCOL__pack_sensor_load_and_start_config_request ::
    "byte_order \<Rightarrow> u32 \<Rightarrow> u8 list \<Rightarrow> (nat \<times> u8 list) result" where
  "CONTROL_PROTOCOL__pack_sensor_load_and_start_config_request h section_index =
     pack_request h (opcode_of ''HAILO_CONTROL_OPCODE_SENSOR_LOAD_AND_START'') CONTROL_PROTOCOL__sensor_load_config_request_t
       [put32 h ''section_index'' section_index] (Ok [])"

definition CONTROL_PROTOCOL__pack_sensor_reset_request ::
    "byte_order \<Rightarrow> u32 \<Rightarrow> u8 list \<Rightarrow> (nat \<times> u8 list) result" where
  "CONTROL_PROTOCOL__pack_sensor_reset_request h section_index =
     pack_request h (opcode_of ''HAILO_CONTROL_OPCODE_SENSOR_RESET'') CONTROL_PROTOCOL__sensor_reset_request_t
       [put32 h ''section_index'' section_index] (Ok [])"

definition CONTROL_PROTOCOL__pack_sensor_set_generic_i2c_slave_request ::
    "byte_order \<Rightarrow> u16 \<Rightarrow> u8 \<Rightarrow> u8 \<Rightarrow> u8 \<Rightarrow> u8 \<Rightarrow> u8 list \<Rightarrow> (nat \<times> u8 list) result" where
  "CONTROL_PROTOCOL__pack_sensor_set_generic_i2c_slave_request h slave_address register_address_size bus_index should_hold_bus endianness =
     pack_request h (opcode_of ''HAILO_CONTROL_OPCODE_SENSOR_SET_GENERIC_I2C_SLAVE'') CONTROL_PROTOCOL__sensor_set_generic_i2c_slave_request_t
       [put16 h ''slave_address'' slave_address,
        put8 ''register_address_size'' register_address_size,
        put8 ''bus_index'' bus_index,
        put8 ''should_hold_bus'' should_hold_bus,
        put8 ''endianness'' endianness] (Ok [])"

definition CONTROL_PROTOCOL__pack_sensor_get_sections_info_request ::
    "byte_order \<Rightarrow> u8 list \<Rightarrow> (nat \<times> u8 list) result" where
  "CONTROL_PROTOCOL__pack_sensor_get_sections_info_request h =
     pack_request h (opcode_of ''HAILO_CONTROL_OPCODE_SENSOR_GET_SECTIONS_INFO'') []
       [] (Ok [])"

definition CONTROL_PROTOCOL__pack_idle_time_get_measuremment_request ::
    "byte_order \<Rightarrow> u8 list \<Rightarrow> (nat \<times> u8 list) result" where
  "CONTROL_PROTOCOL__pack_idle_time_get_measuremment_request h =
     pack_request h (opcode_of ''HAILO_CONTROL_OPCODE_IDLE_TIME_GET_MEASUREMENT'') []
       [] (Ok [])"

definition CONTROL_PROTOCOL__pack_idle_time_set_measuremment_request ::
    "byte_order \<Rightarrow> u8 \<Rightarrow> u8 list \<Rightarrow> (nat \<times> u8 list) result" where
  "CONTROL_PROTOCOL__pack_idle_time_set_measuremment_request h measurement_enable =
     pack_request h (opcode_of ''HAILO_CONTROL_OPCODE_IDLE_TIME_SET_MEASUREMENT'') CONTROL_PROTOCOL__idle_time_set_measurement_request_t
       [put8 ''measurement_enable'' measurement_enable] (Ok [])"

definition CONTROL_PROTOCOL__pack_context_switch_set_network_group_header_request ::
    "byte_order \<Rightarrow> u8 list \<Rightarrow> u8 list \<Rightarrow> (nat \<times> u8 list) result" where
  "CONTROL_PROTOCOL__pack_context_switch_set_network_group_header_request h network_group_header m =
     bind_r (memcpy_from network_group_header (sizeof CONTROL_PROTOCOL__application_header_t)) (\<lambda>network_group_header.
     pack_request h (opcode_of ''HAILO_CONTROL_OPCODE_CONTEXT_SWITCH_SET_NETWORK_GROUP_HEADER'') CONTROL_PROTOCOL__context_switch_set_network_group_header_request_t
       [(''application_header'', 0, network_group_header)] (Ok []) m)"

definition CONTROL_PROTOCOL__pack_context_switch_set_context_info_request ::
    "byte_order \<Rightarrow> CONTROL_PROTOCOL__context_switch_context_info_chunk_t \<Rightarrow> u8 list \<Rightarrow> (nat \<times> u8 list) result" where
  "CONTROL_PROTOCOL__pack_context_switch_set_context_info_request h context_info =
     (let handle_count = unat (ci_handle_count context_info)
      in if length (ci_handles context_info) < handle_count \<or> length (ci_dma_addrs context_info) < handle_count then (\<lambda>m. Fault Out_of_bounds)
         else pack_request h (opcode_of ''HAILO_CONTROL_OPCODE_CONTEXT_SWITCH_SET_CONTEXT_INFO'') CONTROL_PROTOCOL__context_switch_set_context_info_request_t
           ([put8 ''translation_table.handle_count'' (ci_handle_count context_info)]
            @ map (\<lambda>i. put64_at h ''translation_table.handles'' i (ci_handles context_info ! i)) [0..<handle_count]
            @ map (\<lambda>i. put64_at h ''translation_table.dma_addrs'' i (ci_dma_addrs context_info ! i)) [0..<handle_count]
            @ [put_bool ''is_first_chunk_per_context'' (ci_is_first_chunk_per_context context_info),
               put_bool ''is_last_chunk_per_context'' (ci_is_last_chunk_per_context context_info),
               put8 ''context_type'' (ci_context_type context_info),
               put32 h ''context_network_data_length'' (ci_context_network_data_length context_info)])
           (memcpy_from (ci_context_network_data context_info) (unat (ci_context_network_data_length context_info))))"

definition CONTROL_PROTOCOL__pack_context_switch_signal_cache_updated_request ::
    "byte_order \<Rightarrow> u8 list \<Rightarrow> (nat \<times> u8 list) result" where
  "CONTROL_PROTOCOL__pack_context_switch_signal_cache_updated_request h =
     pack_request h (opcode_of ''HAILO_CONTROL_OPCODE_CONTEXT_SWITCH_SIGNAL_CACHE_UPDATED'') []
       [] (Ok [])"

definition CONTROL_PROTOCOL__pack_context_switch_clear_configured_apps_request ::
    "byte_order \<Rightarrow> u8 list \<Rightarrow> (nat \<times> u8 list) result" where
  "CONTROL_PROTOCOL__pack_context_switch_clear_configured_apps_request h =
     pack_request h (opcode_of ''HAILO_CONTROL_OPCODE_CONTEXT_SWITCH_CLEAR_CONFIGURED_APPS'') []
       [] (Ok [])"

definition CONTROL_PROTOCOL__pack_download_context_action_list_request ::
    "byte_order \<Rightarrow> u32 \<Rightarrow> CONTROL_PROTOCOL__context_switch_context_type_t \<Rightarrow> u16 \<Rightarrow> u16 \<Rightarrow> u8 list \<Rightarrow> (nat \<times> u8 list) result" where
  "CONTROL_PROTOCOL__pack_download_context_action_list_request h network_group_id context_type context_index action_list_offset =
     pack_request h (opcode_of ''HAILO_CONTROL_OPCODE_DOWNLOAD_CONTEXT_ACTION_LIST'') CONTROL_PROTOCOL__download_context_action_list_request_t
       [put32 h ''network_group_id'' network_group_id,
        put8 ''context_type'' (ucast (value_CONTROL_PROTOCOL__context_switch_context_type_t context_type)),
        put16 h ''context_index'' context_index,
        put16 h ''action_list_offset'' action_list_offset] (Ok [])"

definition CONTROL_PROTOCOL__pack_change_context_switch_status_request ::
    "byte_order \<Rightarrow> CONTROL_PROTOCOL__CONTEXT_SWITCH_STATUS_t \<Rightarrow> u8 \<Rightarrow> u16 \<Rightarrow> u16 \<Rightarrow> u8 list \<Rightarrow> (nat \<times> u8 list) result" where
  "CONTROL_PROTOCOL__pack_change_context_switch_status_request h state_machine_status application_index dynamic_batch_size batch_count =
     pack_request h (opcode_of ''HAILO_CONTROL_OPCODE_CHANGE_CONTEXT_SWITCH_STATUS'') CONTROL_PROTOCOL__change_context_switch_status_request_t
       [put8 ''state_machine_status'' (ucast (value_CONTROL_PROTOCOL__CONTEXT_SWITCH_STATUS_t state_machine_status)),
        put8 ''application_index'' application_index,
        put16 h ''dynamic_batch_size'' dynamic_batch_size,
        put16 h ''batch_count'' batch_count] (Ok [])"

definition CONTROL_PROTOCOL__pack_wd_enable ::
    "byte_order \<Rightarrow> u8 \<Rightarrow> bool \<Rightarrow> u8 list \<Rightarrow> (nat \<times> u8 list) result" where
  "CONTROL_PROTOCOL__pack_wd_enable h cpu_id should_enable =
     pack_request h (opcode_of (if cpu_id = value_CPU_ID_t CPU_ID_CORE_CPU then ''HAILO_CONTROL_OPCODE_CORE_WD_ENABLE'' else ''HAILO_CONTROL_OPCODE_APP_WD_ENABLE'')) CONTROL_PROTOCOL__wd_enable_request_t
       [put_bool ''should_enable'' should_enable] (Ok [])"

definition CONTROL_PROTOCOL__pack_wd_config ::
    "byte_order \<Rightarrow> u8 \<Rightarrow> u32 \<Rightarrow> CONTROL_PROTOCOL__WATCHDOG_MODE_t \<Rightarrow> u8 list \<Rightarrow> (nat \<times> u8 list) result" where
  "CONTROL_PROTOCOL__pack_wd_config h cpu_id wd_cycles wd_mode =
     pack_request h (opcode_of (if cpu_id = value_CPU_ID_t CPU_ID_CORE_CPU then ''HAILO_CONTROL_OPCODE_CORE_WD_CONFIG'' else ''HAILO_CONTROL_OPCODE_APP_WD_CONFIG'')) CONTROL_PROTOCOL__wd_config_request_t
       [put32 h ''wd_cycles'' wd_cycles,
        put8 ''wd_mode'' (ucast (value_CONTROL_PROTOCOL__WATCHDOG_MODE_t wd_mode))] (Ok [])"

definition CONTROL_PROTOCOL__pack_previous_system_state_request ::
    "byte_order \<Rightarrow> u8 \<Rightarrow> u8 list \<Rightarrow> (nat \<times> u8 list) result" where
  "CONTROL_PROTOCOL__pack_previous_system_state_request h cpu_id =
     pack_request h (opcode_of (if cpu_id = value_CPU_ID_t CPU_ID_CORE_CPU then ''HAILO_CONTROL_OPCODE_CORE_PREVIOUS_SYSTEM_STATE'' else ''HAILO_CONTROL_OPCODE_APP_PREVIOUS_SYSTEM_STATE'')) [] [] (Ok [])"

definition CONTROL_PROTOCOL__pack_set_dataflow_interrupt_request ::
    "byte_order \<Rightarrow> u8 \<Rightarrow> u8 \<Rightarrow> u8 \<Rightarrow> u8 list \<Rightarrow> (nat \<times> u8 list) result" where
  "CONTROL_PROTOCOL__pack_set_dataflow_interrupt_request h interrupt_type interrupt_index interrupt_sub_index =
     pack_request h (opcode_of ''HAILO_CONTROL_OPCODE_SET_DATAFLOW_INTERRUPT'') CONTROL_PROTOCOL__set_dataflow_interrupt_request_t
       [put8 ''interrupt_type'' interrupt_type,
        put8 ''interrupt_index'' interrupt_index,
        put8 ''interrupt_sub_index'' interrupt_sub_index] (Ok [])"

definition CONTROL_PROTOCOL__pack_config_context_switch_breakpoint_request ::
    "byte_order \<Rightarrow> u8 \<Rightarrow> CONTROL_PROTOCOL__context_switch_breakpoint_control_t \<Rightarrow> u8 list \<Rightarrow> u8 list \<Rightarrow> (nat \<times> u8 list) result" where
  "CONTROL_PROTOCOL__pack_config_context_switch_breakpoint_request h breakpoint_id breakpoint_control breakpoint_data m =
     bind_r (memcpy_from breakpoint_data (sizeof CONTROL_PROTOCOL__context_switch_breakpoint_data_t)) (\<lambda>breakpoint_data.
     pack_request h (opcode_of ''HAILO_CONTROL_OPCODE_CONFIG_CONTEXT_SWITCH_BREAKPOINT'') CONTROL_PROTOCOL__config_context_switch_breakpoint_request_t
       [put32 h ''breakpoint_id'' (ucast breakpoint_id),
        put8 ''breakpoint_control'' (ucast (value_CONTROL_PROTOCOL__context_switch_breakpoint_control_t breakpoint_control)),
        (''breakpoint_data'', 0, breakpoint_data)] (Ok []) m)"

definition CONTROL_PROTOCOL__pack_get_context_switch_breakpoint_status_request ::
    "byte_order \<Rightarrow> u8 \<Rightarrow> u8 list \<Rightarrow> (nat \<times> u8 list) result" where
  "CONTROL_PROTOCOL__pack_get_context_switch_breakpoint_status_request h breakpoint_id =
     pack_request h (opcode_of ''HAILO_CONTROL_OPCODE_GET_CONTEXT_SWITCH_BREAKPOINT_STATUS'') CONTROL_PROTOCOL__get_context_switch_breakpoint_status_request_t
       [put32 h ''breakpoint_id'' (ucast breakpoint_id)] (Ok [])"

definition CONTROL_PROTOCOL__pack_get_context_switch_main_header_request ::
    "byte_order \<Rightarrow> u8 list \<Rightarrow> (nat \<times> u8 list) result" where
  "CONTROL_PROTOCOL__pack_get_context_switch_main_header_request h =
     pack_request h (opcode_of ''HAILO_CONTROL_OPCODE_GET_CONTEXT_SWITCH_MAIN_HEADER'') []
       [] (Ok [])"

definition CONTROL_PROTOCOL__pack_config_context_switch_timestamp_request ::
    "byte_order \<Rightarrow> u16 \<Rightarrow> bool \<Rightarrow> u8 list \<Rightarrow> (nat \<times> u8 list) result" where
  "CONTROL_PROTOCOL__pack_config_context_switch_timestamp_request h batch_index enable_user_configuration =
     pack_request h (opcode_of ''HAILO_CONTROL_OPCODE_CONFIG_CONTEXT_SWITCH_TIMESTAMP'') CONTROL_PROTOCOL__config_context_switch_timestamp_request_t
       [put16 h ''batch_index'' batch_index,
        put_bool ''enable_user_configuration'' enable_user_configuration] (Ok [])"

definition CONTROL_PROTOCOL__pack_d2h_event_manager_set_host_info_request ::
    "byte_order \<Rightarrow> u8 \<Rightarrow> u16 \<Rightarrow> u32 \<Rightarrow> u8 list \<Rightarrow> (nat \<times> u8 list) result" where
  "CONTROL_PROTOCOL__pack_d2h_event_manager_set_host_info_request h connection_type host_port host_ip_address =
     pack_request h (opcode_of ''HAILO_CONTROL_OPCODE_D2H_EVENT_MANAGER_SET_HOST_INFO'') CONTROL_PROTOCOL__d2h_event_manager_set_new_host_info_request_t
       [put8 ''connection_type'' connection_type,
        put16 h ''host_port'' host_port,
        put32 h ''host_ip_address'' host_ip_address] (Ok [])"

definition CONTROL_PROTOCOL__pack_d2h_event_manager_send_host_info_event_request ::
    "byte_order \<Rightarrow> u8 \<Rightarrow> u8 list \<Rightarrow> (nat \<times> u8 list) result" where
  "CONTROL_PROTOCOL__pack_d2h_event_manager_send_host_info_event_request h event_priority =
     pack_request h (opcode_of ''HAILO_CONTROL_OPCODE_D2H_EVENT_MANAGER_SEND_EVENT_HOST_INFO'') CONTROL_PROTOCOL__d2h_event_manager_send_host_info_event_request_t
       [put8 ''priority'' event_priority] (Ok [])"

definition CONTROL_PROTOCOL__pack_enable_debugging_request ::
    "byte_order \<Rightarrow> bool \<Rightarrow> u8 list \<Rightarrow> (nat \<times> u8 list) result" where
  "CONTROL_PROTOCOL__pack_enable_debugging_request h is_rma =
     pack_request h (opcode_of ''HAILO_CONTROL_OPCODE_ENABLE_DEBUGGING'') CONTROL_PROTOCOL__enable_debugging_request_t
       [put_bool ''is_rma'' is_rma] (Ok [])"

definition CONTROL_PROTOCOL__pack_get_extended_device_information_request ::
    "byte_order \<Rightarrow> u8 list \<Rightarrow> (nat \<times> u8 list) result" where
  "CONTROL_PROTOCOL__pack_get_extended_device_information_request h =
     pack_request h (opcode_of ''HAILO_CONTROL_OPCODE_GET_DEVICE_INFORMATION'') []
       [] (Ok [])"

definition CONTROL_PROTOCOL__pack_get_health_information_request ::
    "byte_order \<Rightarrow> u8 list \<Rightarrow> (nat \<times> u8 list) result" where
  "CONTROL_PROTOCOL__pack_get_health_information_request h =
     pack_request h (opcode_of ''HAILO_CONTROL_OPCODE_GET_HEALTH_INFORMATION'') []
       [] (Ok [])"

definition CONTROL_PROTOCOL__pack_run_bist_test_request ::
    "byte_order \<Rightarrow> bool \<Rightarrow> u32 \<Rightarrow> u8 \<Rightarrow> u32 \<Rightarrow> u32 \<Rightarrow> u8 list \<Rightarrow> (nat \<times> u8 list) result" where
  "CONTROL_PROTOCOL__pack_run_bist_test_request h is_top_test top_bypass_bitmap cluster_index cluster_bypass_bitmap_0 cluster_bypass_bitmap_1 =
     pack_request h (opcode_of ''HAILO_CONTROL_OPCODE_RUN_BIST_TEST'') CONTROL_PROTOCOL__run_bist_test_request_t
       [put_bool ''is_top_test'' is_top_test,
        put32 h ''top_bypass_bitmap'' top_bypass_bitmap,
        put8 ''cluster_index'' cluster_index,
        put32 h ''cluster_bypass_bitmap_0'' cluster_bypass_bitmap_0,
        put32 h ''cluster_bypass_bitmap_1'' cluster_bypass_bitmap_1] (Ok [])"

definition CONTROL_PROTOCOL__pack_set_sleep_state_request ::
    "byte_order \<Rightarrow> u8 \<Rightarrow> u8 list \<Rightarrow> (nat \<times> u8 list) result" where
  "CONTROL_PROTOCOL__pack_set_sleep_state_request h sleep_state =
     pack_request h (opcode_of ''HAILO_CONTROL_OPCODE_SET_SLEEP_STATE'') CONTROL_PROTOCOL__set_sleep_state_request_t
       [put8 ''sleep_state'' sleep_state] (Ok [])"

definition CONTROL_PROTOCOL__pack_change_hw_infer_status_request ::
    "byte_order \<Rightarrow> u8 \<Rightarrow> u8 \<Rightarrow> u16 \<Rightarrow> u16 \<Rightarrow> u8 list \<Rightarrow> CONTROL_PROTOCOL__boundary_channel_mode_t \<Rightarrow> u8 list \<Rightarrow> (nat \<times> u8 list) result" where
  "CONTROL_PROTOCOL__pack_change_hw_infer_status_request h hw_infer_state network_group_index dynamic_batch_size batch_count channels_info boundary_channel_mode m =
     bind_r (memcpy_from channels_info (sizeof CONTROL_PROTOCOL__hw_infer_channels_info_t)) (\<lambda>channels_info.
     pack_request h (opcode_of ''HAILO_CONTROL_OPCODE_CHANGE_HW_INFER_STATUS'') CONTROL_PROTOCOL__change_hw_infer_status_request_t
       [put8 ''hw_infer_state'' hw_infer_state,
        put8 ''application_index'' network_group_index,
        put16 h ''dynamic_batch_size'' dynamic_batch_size,
        put16 h ''batch_count'' batch_count,
        (''channels_info'', 0, channels_info),
        put8 ''boundary_channel_mode'' (ucast (value_CONTROL_PROTOCOL__boundary_channel_mode_t boundary_channel_mode))] (Ok []) m)"

section \<open>Responses\<close>

definition CONTROL_PROTOCOL__unpack_identify_response :: "byte_order \<Rightarrow> u8 list \<Rightarrow> u8 list result" where
  "CONTROL_PROTOCOL__unpack_identify_response h =
     convert_members h CONTROL_PROTOCOL_identify_response_t 0
       [Conv32 ''protocol_version'',
        Conv32 ''fw_version.firmware_major'',
        Conv32 ''fw_version.firmware_minor'',
        Conv32 ''fw_version.firmware_revision'',
        Conv32 ''logger_version'',
        Conv32 ''board_name_length'',
        Conv32 ''device_architecture'',
        Conv32 ''serial_number_length'',
        Conv32 ''part_number_length'',
        Conv32 ''product_name_length'']"

definition CONTROL_PROTOCOL__unpack_core_identify_response :: "byte_order \<Rightarrow> u8 list \<Rightarrow> u8 list result" where
  "CONTROL_PROTOCOL__unpack_core_identify_response h =
     convert_members h CONTROL_PROTOCOL__core_identify_response_t 0
       [Conv32 ''fw_version.firmware_major'',
        Conv32 ''fw_version.firmware_minor'',
        Conv32 ''fw_version.firmware_revision'']"

definition CONTROL_PROTOCOL__unpack_get_throttling_state_response :: "byte_order \<Rightarrow> u8 list \<Rightarrow> u8 list result" where
  "CONTROL_PROTOCOL__unpack_get_throttling_state_response h =
     convert_members h CONTROL_PROTOCOL__get_throttling_state_response_t 0
       []"

definition CONTROL_PROTOCOL__unpack_get_overcurrent_state_response :: "byte_order \<Rightarrow> u8 list \<Rightarrow> u8 list result" where
  "CONTROL_PROTOCOL__unpack_get_overcurrent_state_response h =
     convert_members h CONTROL_PROTOCOL__get_overcurrent_state_response_t 0
       []"

definition CONTROL_PROTOCOL__unpack_get_hw_consts_response :: "byte_order \<Rightarrow> u8 list \<Rightarrow> u8 list result" where
  "CONTROL_PROTOCOL__unpack_get_hw_consts_response h =
     convert_members h CONTROL_PROTOCOL__get_hw_consts_response_t 0
       [Conv32 ''hw_consts.fifo_word_granularity_bytes'',
        Conv16 ''hw_consts.max_periph_buffers_per_frame'',
        Conv16 ''hw_consts.max_periph_bytes_per_buffer'',
        Conv16 ''hw_consts.max_acceptable_bytes_per_buffer'',
        Conv32 ''hw_consts.outbound_data_stream_size'',
        Conv32 ''hw_consts.default_initial_credit_size'']"

definition CONTROL_PROTOCOL__unpack_read_memory_response :: "byte_order \<Rightarrow> u8 list \<Rightarrow> u8 list result" where
  "CONTROL_PROTOCOL__unpack_read_memory_response h =
     convert_members h CONTROL_PROTOCOL__read_memory_response_t 0
       [Conv32 ''data_length'']"

definition CONTROL_PROTOCOL__unpack_config_stream_response :: "byte_order \<Rightarrow> u8 list \<Rightarrow> u8 list result" where
  "CONTROL_PROTOCOL__unpack_config_stream_response h =
     convert_members h CONTROL_PROTOCOL__config_stream_response_t 0
       []"

definition CONTROL_PROTOCOL__unpack_power_measurement_response :: "byte_order \<Rightarrow> u8 list \<Rightarrow> u8 list result" where
  "CONTROL_PROTOCOL__unpack_power_measurement_response h =
     convert_members h CONTROL_PROTOCOL__power_measurement_response_t 0
       [Conv32 ''dvm'',
        Conv32 ''measurement_type'']"

definition CONTROL_PROTOCOL__unpack_set_power_measurement_response :: "byte_order \<Rightarrow> u8 list \<Rightarrow> u8 list result" where
  "CONTROL_PROTOCOL__unpack_set_power_measurement_response h =
     convert_members h CONTROL_PROTOCOL__set_power_measurement_response_t 0
       [Conv32 ''dvm'',
        Conv32 ''measurement_type'']"

definition CONTROL_PROTOCOL__unpack_get_power_measurement_response :: "byte_order \<Rightarrow> u8 list \<Rightarrow> u8 list result" where
  "CONTROL_PROTOCOL__unpack_get_power_measurement_response h =
     convert_members h CONTROL_PROTOCOL__get_power_measurement_response_t 0
       [Conv32 ''total_number_of_samples'']"

definition CONTROL_PROTOCOL__unpack_i2c_read_response :: "byte_order \<Rightarrow> u8 list \<Rightarrow> u8 list result" where
  "CONTROL_PROTOCOL__unpack_i2c_read_response h =
     convert_members h CONTROL_PROTOCOL__i2c_read_response_t 0
       [Conv32 ''data_length'']"

definition CONTROL_PROTOCOL__unpack_get_chip_temperature_response :: "byte_order \<Rightarrow> u8 list \<Rightarrow> u8 list result" where
  "CONTROL_PROTOCOL__unpack_get_chip_temperature_response h =
     convert_members h CONTROL_PROTOCOL__get_chip_temperature_response_t 0
       [Conv16 ''info.sample_count'']"

definition CONTROL_PROTOCOL__unpack_examine_user_config_response :: "byte_order \<Rightarrow> u8 list \<Rightarrow> u8 list result" where
  "CONTROL_PROTOCOL__unpack_examine_user_config_response h =
     convert_members h CONTROL_PROTOCOL__examine_user_config_response_t 0
       [Conv32 ''version'',
        Conv32 ''entry_count'',
        Conv32 ''total_size'']"

definition CONTROL_PROTOCOL__unpack_read_user_config_response :: "byte_order \<Rightarrow> u8 list \<Rightarrow> u8 list result" where
  "CONTROL_PROTOCOL__unpack_read_user_config_response = CONTROL_PROTOCOL__unpack_read_memory_response"

definition CONTROL_PROTOCOL__unpack_read_board_config_response :: "byte_order \<Rightarrow> u8 list \<Rightarrow> u8 list result" where
  "CONTROL_PROTOCOL__unpack_read_board_config_response = CONTROL_PROTOCOL__unpack_read_memory_response"

definition CONTROL_PROTOCOL__unpack_latency_read_response :: "byte_order \<Rightarrow> u8 list \<Rightarrow> u8 list result" where
  "CONTROL_PROTOCOL__unpack_latency_read_response h =
     convert_members h CONTROL_PROTOCOL__latency_read_response_t 0
       [Conv32 ''inbound_to_outbound_latency_nsec'']"

definition CONTROL_PROTOCOL__unpack_sensor_get_config_response :: "byte_order \<Rightarrow> u8 list \<Rightarrow> u8 list result" where
  "CONTROL_PROTOCOL__unpack_sensor_get_config_response h =
     convert_members h CONTROL_PROTOCOL__sensor_get_config_response_t 0
       [Conv32 ''data_length'']"

definition CONTROL_PROTOCOL__unpack_sensor_get_sections_info_response :: "byte_order \<Rightarrow> u8 list \<Rightarrow> u8 list result" where
  "CONTROL_PROTOCOL__unpack_sensor_get_sections_info_response h =
     convert_members h CONTROL_PROTOCOL__sensor_get_sections_info_response_t 0
       [Conv32 ''data_length'']"

definition CONTROL_PROTOCOL__unpack_idle_time_get_measurement_response :: "byte_order \<Rightarrow> u8 list \<Rightarrow> u8 list result" where
  "CONTROL_PROTOCOL__unpack_idle_time_get_measurement_response h =
     convert_members h CONTROL_PROTOCOL__idle_time_get_measurement_response_t 0
       [Conv64 ''idle_time_ns'']"

definition CONTROL_PROTOCOL__unpack_download_context_action_list_response :: "byte_order \<Rightarrow> u8 list \<Rightarrow> u8 list result" where
  "CONTROL_PROTOCOL__unpack_download_context_action_list_response h =
     convert_members h CONTROL_PROTOCOL__download_context_action_list_response_t 0
       [Conv32 ''base_address'',
        Conv32 ''batch_counter'',
        Conv32 ''idle_time'',
        Conv32 ''action_list_length'']"

definition CONTROL_PROTOCOL__unpack_previous_system_state_response :: "byte_order \<Rightarrow> u8 list \<Rightarrow> u8 list result" where
  "CONTROL_PROTOCOL__unpack_previous_system_state_response h =
     convert_members h CONTROL_PROTOCOL__previous_system_state_response_t 0
       [Conv32 ''system_state'']"

definition CONTROL_PROTOCOL__unpack_get_context_switch_breakpoint_status_response :: "byte_order \<Rightarrow> u8 list \<Rightarrow> u8 list result" where
  "CONTROL_PROTOCOL__unpack_get_context_switch_breakpoint_status_response h =
     convert_members h CONTROL_PROTOCOL__get_context_switch_breakpoint_status_response_t 0
       []"

definition CONTROL_PROTOCOL__unpack_get_context_switch_main_header_response :: "byte_order \<Rightarrow> u8 list \<Rightarrow> u8 list result" where
  "CONTROL_PROTOCOL__unpack_get_context_switch_main_header_response h =
     convert_members h CONTROL_PROTOCOL__get_context_switch_main_header_response_t 0
       []"

definition CONTROL_PROTOCOL__unpack_get_extended_device_information_response :: "byte_order \<Rightarrow> u8 list \<Rightarrow> u8 list result" where
  "CONTROL_PROTOCOL__unpack_get_extended_device_information_response h =
     convert_members h CONTROL_PROTOCOL__get_extended_device_information_response_t 0
       [Conv32 ''neural_network_core_clock_rate'',
        Conv64 ''supported_features'',
        Conv32 ''boot_source'',
        Conv32 ''soc_id_length'',
        Conv32 ''eth_mac_length'',
        Conv32 ''fuse_info.die_wafer_info'',
        Conv32 ''pd_info_length'',
        Conv32 ''partial_clusters_layout_bitmap'']"

definition CONTROL_PROTOCOL__unpack_get_health_information_response :: "byte_order \<Rightarrow> u8 list \<Rightarrow> u8 list result" where
  "CONTROL_PROTOCOL__unpack_get_health_information_response h =
     convert_members h CONTROL_PROTOCOL__get_health_information_response_t 0
       [Conv32 ''temperature_throttling_levels_length'',
        Conv32 ''orange_temperature_threshold'',
        Conv32 ''orange_hysteresis_temperature_threshold'',
        Conv32 ''red_temperature_threshold'',
        Conv32 ''red_hysteresis_temperature_threshold'',
        Conv32 ''requested_overcurrent_clock_freq'',
        Conv32 ''requested_temperature_clock_freq'']"

definition CONTROL_PROTOCOL__unpack_change_hw_infer_status_response :: "byte_order \<Rightarrow> u8 list \<Rightarrow> u8 list result" where
  "CONTROL_PROTOCOL__unpack_change_hw_infer_status_response h =
     convert_members h CONTROL_PROTOCOL__change_hw_infer_status_response_t 0
       [Conv32 ''results.infer_cycles'']"

lemmas pack_defs =
  CONTROL_PROTOCOL__pack_identify_request_def CONTROL_PROTOCOL__pack_core_identify_request_def CONTROL_PROTOCOL__pack_set_fw_logger_request_def
  CONTROL_PROTOCOL__pack_set_clock_freq_request_def CONTROL_PROTOCOL__pack_set_throttling_state_request_def
  CONTROL_PROTOCOL__pack_get_throttling_state_request_def CONTROL_PROTOCOL__pack_set_overcurrent_state_request_def
  CONTROL_PROTOCOL__pack_get_overcurrent_state_request_def CONTROL_PROTOCOL__pack_get_hw_consts_request_def
  CONTROL_PROTOCOL__pack_write_memory_request_def CONTROL_PROTOCOL__pack_read_memory_request_def CONTROL_PROTOCOL__pack_open_stream_request_def
  CONTROL_PROTOCOL__pack_close_stream_request_def CONTROL_PROTOCOL__pack_config_stream_mipi_input_request_def
  CONTROL_PROTOCOL__pack_config_stream_mipi_output_request_def CONTROL_PROTOCOL__pack_config_stream_pcie_input_request_def
  CONTROL_PROTOCOL__pack_config_stream_pcie_output_request_def CONTROL_PROTOCOL__pack_reset_request_def
  CONTROL_PROTOCOL__pack_power_measurement_request_def CONTROL_PROTOCOL__pack_set_power_measurement_request_def
  CONTROL_PROTOCOL__pack_get_power_measurement_request_def CONTROL_PROTOCOL__pack_start_power_measurement_request_def
  CONTROL_PROTOCOL__pack_stop_power_measurement_request_def CONTROL_PROTOCOL__pack_i2c_write_request_def
  CONTROL_PROTOCOL__pack_i2c_read_request_def CONTROL_PROTOCOL__pack_phy_operation_request_def
  CONTROL_PROTOCOL__pack_config_core_top_request_def CONTROL_PROTOCOL__pack_set_pause_frames_request_def
  CONTROL_PROTOCOL__pack_get_chip_temperature_request_def CONTROL_PROTOCOL__pack_examine_user_config_request_def
  CONTROL_PROTOCOL__pack_read_user_config_request_def CONTROL_PROTOCOL__pack_write_user_config_request_def
  CONTROL_PROTOCOL__pack_erase_user_config_request_def CONTROL_PROTOCOL__pack_read_board_config_request_def
  CONTROL_PROTOCOL__pack_write_board_config_request_def CONTROL_PROTOCOL__pack_start_firmware_update_request_def
  CONTROL_PROTOCOL__pack_finish_firmware_update_request_def CONTROL_PROTOCOL__pack_write_firmware_update_request_def
  CONTROL_PROTOCOL__pack_validate_firmware_update_request_def CONTROL_PROTOCOL__pack_write_second_stage_to_internal_memory_request_def
  CONTROL_PROTOCOL__pack_copy_second_stage_to_flash_request_def CONTROL_PROTOCOL__pack_latency_measurement_config_request_def
  CONTROL_PROTOCOL__pack_latency_measurement_read_request_def CONTROL_PROTOCOL__pack_sensor_store_config_request_def
  CONTROL_PROTOCOL__pack_sensor_get_config_request_def CONTROL_PROTOCOL__pack_sensor_set_i2c_bus_index_request_def
  CONTROL_PROTOCOL__pack_sensor_load_and_start_config_request_def CONTROL_PROTOCOL__pack_sensor_reset_request_def
  CONTROL_PROTOCOL__pack_sensor_set_generic_i2c_slave_request_def CONTROL_PROTOCOL__pack_sensor_get_sections_info_request_def
  CONTROL_PROTOCOL__pack_idle_time_get_measuremment_request_def CONTROL_PROTOCOL__pack_idle_time_set_measuremment_request_def
  CONTROL_PROTOCOL__pack_context_switch_set_network_group_header_request_def CONTROL_PROTOCOL__pack_context_switch_set_context_info_request_def
  CONTROL_PROTOCOL__pack_context_switch_signal_cache_updated_request_def CONTROL_PROTOCOL__pack_context_switch_clear_configured_apps_request_def
  CONTROL_PROTOCOL__pack_download_context_action_list_request_def CONTROL_PROTOCOL__pack_change_context_switch_status_request_def
  CONTROL_PROTOCOL__pack_wd_enable_def CONTROL_PROTOCOL__pack_wd_config_def CONTROL_PROTOCOL__pack_previous_system_state_request_def
  CONTROL_PROTOCOL__pack_set_dataflow_interrupt_request_def CONTROL_PROTOCOL__pack_config_context_switch_breakpoint_request_def
  CONTROL_PROTOCOL__pack_get_context_switch_breakpoint_status_request_def CONTROL_PROTOCOL__pack_get_context_switch_main_header_request_def
  CONTROL_PROTOCOL__pack_config_context_switch_timestamp_request_def CONTROL_PROTOCOL__pack_d2h_event_manager_set_host_info_request_def
  CONTROL_PROTOCOL__pack_d2h_event_manager_send_host_info_event_request_def CONTROL_PROTOCOL__pack_enable_debugging_request_def
  CONTROL_PROTOCOL__pack_get_extended_device_information_request_def CONTROL_PROTOCOL__pack_get_health_information_request_def
  CONTROL_PROTOCOL__pack_run_bist_test_request_def CONTROL_PROTOCOL__pack_set_sleep_state_request_def
  CONTROL_PROTOCOL__pack_change_hw_infer_status_request_def

lemmas unpack_defs =
  CONTROL_PROTOCOL__unpack_identify_response_def CONTROL_PROTOCOL__unpack_core_identify_response_def
  CONTROL_PROTOCOL__unpack_get_throttling_state_response_def CONTROL_PROTOCOL__unpack_get_overcurrent_state_response_def
  CONTROL_PROTOCOL__unpack_get_hw_consts_response_def CONTROL_PROTOCOL__unpack_read_memory_response_def
  CONTROL_PROTOCOL__unpack_config_stream_response_def CONTROL_PROTOCOL__unpack_power_measurement_response_def
  CONTROL_PROTOCOL__unpack_set_power_measurement_response_def CONTROL_PROTOCOL__unpack_get_power_measurement_response_def
  CONTROL_PROTOCOL__unpack_i2c_read_response_def CONTROL_PROTOCOL__unpack_get_chip_temperature_response_def
  CONTROL_PROTOCOL__unpack_examine_user_config_response_def CONTROL_PROTOCOL__unpack_read_user_config_response_def
  CONTROL_PROTOCOL__unpack_read_board_config_response_def CONTROL_PROTOCOL__unpack_latency_read_response_def
  CONTROL_PROTOCOL__unpack_sensor_get_config_response_def CONTROL_PROTOCOL__unpack_sensor_get_sections_info_response_def
  CONTROL_PROTOCOL__unpack_idle_time_get_measurement_response_def CONTROL_PROTOCOL__unpack_download_context_action_list_response_def
  CONTROL_PROTOCOL__unpack_previous_system_state_response_def CONTROL_PROTOCOL__unpack_get_context_switch_breakpoint_status_response_def
  CONTROL_PROTOCOL__unpack_get_context_switch_main_header_response_def CONTROL_PROTOCOL__unpack_get_extended_device_information_response_def
  CONTROL_PROTOCOL__unpack_get_health_information_response_def CONTROL_PROTOCOL__unpack_change_hw_infer_status_response_def

end
