(* ===== verification/Control_Copies.thy ===== *)
theory Control_Copies
  imports Control_Packing
begin

text \<open>
  Requests that copy a structure of the host's memory. The four functions that configure a stream convert every integer of the copy;
  the network group header, the breakpoint data and the channels of an inference are copied as they are.
\<close>

section \<open>Configuration of a stream\<close>

inductive stream_spec :: "(byte_order \<Rightarrow> u8 list \<Rightarrow> u8 list \<Rightarrow> (nat \<times> u8 list) result) \<Rightarrow> layout \<Rightarrow> conversion list \<Rightarrow> bool" where
  "stream_spec CONTROL_PROTOCOL__pack_config_stream_mipi_input_request CONTROL_PROTOCOL__mipi_input_config_params_t
     [Conv16 ''common_params.img_width_pixels'', Conv16 ''common_params.img_height_pixels'', Conv32 ''common_params.data_rate'',
      Conv16 ''isp_params.isp_crop_output_width_pixels'', Conv16 ''isp_params.isp_crop_output_height_pixels'',
      Conv16 ''isp_params.isp_crop_output_width_start_offset_pixels'', Conv16 ''isp_params.isp_crop_output_height_start_offset_pixels'',
      Conv16 ''isp_params.isp_run_time_calculations_interval_ms'']"
| "stream_spec CONTROL_PROTOCOL__pack_config_stream_mipi_output_request CONTROL_PROTOCOL__mipi_output_config_params_t
     [Conv16 ''common_params.img_width_pixels'', Conv16 ''common_params.img_height_pixels'', Conv32 ''common_params.data_rate'']"
| "stream_spec CONTROL_PROTOCOL__pack_config_stream_pcie_input_request CONTROL_PROTOCOL__pcie_input_config_params_t []"
| "stream_spec CONTROL_PROTOCOL__pack_config_stream_pcie_output_request CONTROL_PROTOCOL__pcie_output_config_params_t [Conv16 ''desc_page_size'']"

definition common_integers :: "string list" where
  "common_integers = [''communication_type'', ''nn_stream_config.core_bytes_per_buffer'', ''nn_stream_config.core_buffers_per_frame'',
     ''nn_stream_config.periph_bytes_per_buffer'', ''nn_stream_config.periph_buffers_per_frame'', ''nn_stream_config.feature_padding_payload'',
     ''nn_stream_config.buffer_padding_payload'', ''nn_stream_config.buffer_padding'']"

lemmas stream_layouts = struct_defs nested_def sizeof_def

lemma stream_spec_ok:
  "stream_spec f l cs \<Longrightarrow> conversions_ok l cs \<and> sizeof l \<le> sizeof_CONTROL_PROTOCOL__communication_config_prams_t \<and>
     f h params m = pack_config_stream h params l cs m"
  by (induction rule: stream_spec.induct)
    (simp_all add: conversions_ok_def conversion_fits_def conversion_name_def stream_layouts pack_defs)

lemma stream_sizes:
  "sizeof CONTROL_PROTOCOL__config_stream_request_t = 25 + sizeof_CONTROL_PROTOCOL__communication_config_prams_t"
  "member CONTROL_PROTOCOL__config_stream_request_t ''communication_params'' = Some (25, sizeof_CONTROL_PROTOCOL__communication_config_prams_t)"
  "communication_params_at = 29" "sizeof_CONTROL_PROTOCOL__communication_config_prams_t = 35"
  by (simp_all add: stream_layouts communication_params_at_def CONTROL_PROTOCOL__REQUEST_BASE_SIZE_def)

lemma member_bytes_eq:
  assumes "\<And>i n j. member l x = Some (i, n) \<Longrightarrow> i \<le> j \<Longrightarrow> j < i + n \<Longrightarrow> a ! (p + j) = b ! (q + j)" "p + sizeof l \<le> length a" "q + sizeof l \<le> length b"
  shows "member_bytes l p a x = member_bytes l q b x"
proof (cases "member l x")
  case (Some z)
  then obtain i n where z: "member l x = Some (i, n)" by (cases z) auto
  have "a ! (p + i + j) = b ! (q + i + j)" if "j < n" for j using assms(1) [OF z, of "i + j"] that by (simp add: add.assoc)
  then show ?thesis using member_inside [OF z] assms(2,3) by (auto simp: member_bytes_def z intro!: nth_equalityI)
qed (simp add: member_bytes_def)

text \<open>C28: configuring a stream: on hosts of both byte orders every integer of the caller's structure - of the common part and of the part
  for the kind of stream - reaches the device in the device's byte order, every other member is copied, and the length covers
  exactly the common part and that part.\<close>

theorem config_stream_converted:
  assumes "stream_spec f l cs" "length params = sizeof CONTROL_PROTOCOL__config_stream_request_t" "length m = sizeof_control_request"
  shows "\<exists>m'. f h params m = Ok (communication_params_at + sizeof l, m') \<and> length m' = length m \<and>
    (\<forall>x. x \<noteq> ''communication_params'' \<longrightarrow> member_bytes CONTROL_PROTOCOL__config_stream_request_t 4 m' x =
       (if x \<in> set common_integers then in_order h else id) (member_bytes CONTROL_PROTOCOL__config_stream_request_t 0 params x)) \<and>
    (\<forall>y. member_bytes l communication_params_at m' y =
       (if y \<in> conversion_name ` set cs then in_order h else id) (member_bytes l (communication_params_at - 4) params y))"
proof -
  let ?L = CONTROL_PROTOCOL__config_stream_request_t and ?P = "''communication_params''"
  note sz = stream_sizes
  have ok: "conversions_ok l cs" "sizeof l \<le> 35" "f h params m = pack_config_stream h params l cs m"
    using stream_spec_ok [OF assms(1), of h params m] sz(4) by simp_all
  have lp: "length params = 60" "length m = 1504" using assms(2,3) sz(1,4) by (simp_all add: sizeof_control_request_def)
  define m1 where "m1 = put_bytes 0 (u32_bytes (opcode_of ''HAILO_CONTROL_OPCODE_CONFIG_STREAM'')) m"
  define m2 where "m2 = put_bytes 4 params m1"
  have l2: "length m1 = 1504" "length m2 = 1504" using lp by (simp_all add: m1_def m2_def)
  have st: "store_member CONTROL_PROTOCOL__request_t 0 (put32 h ''opcode'' (opcode_of ''HAILO_CONTROL_OPCODE_CONFIG_STREAM'')) m = Ok m1"
      "store_member CONTROL_PROTOCOL__request_t 0 (''parameters'', 0, params) m1 = Ok m2"
    using lp l2 by (simp_all add: store_member_def CONTROL_PROTOCOL__request_t_def CONTROL_PROTOCOL__MAX_CONTROL_LENGTH_def put32_def host_little m1_def m2_def)
  have n2: "m2 ! (4 + j) = params ! j" if "j < 60" for j using that lp l2 by (simp add: m2_def nth_put_bytes)
  let ?C = "[Conv32 ''communication_type'', Conv16 ''nn_stream_config.core_bytes_per_buffer'', Conv16 ''nn_stream_config.core_buffers_per_frame'',
    Conv16 ''nn_stream_config.periph_bytes_per_buffer'', Conv16 ''nn_stream_config.periph_buffers_per_frame'', Conv16 ''nn_stream_config.feature_padding_payload'',
    Conv32 ''nn_stream_config.buffer_padding_payload'', Conv16 ''nn_stream_config.buffer_padding'']"
  have "conversions_ok ?L ?C" by (simp add: conversions_ok_def conversion_fits_def conversion_name_def stream_layouts)
  moreover have "4 + sizeof ?L \<le> length m2" using sz l2 by simp
  moreover have "conversion_name ` set ?C = set common_integers" by (simp add: conversion_name_def common_integers_def)
  ultimately obtain m3 where m3: "convert_members h ?L 4 ?C m2 = Ok m3" "length m3 = 1504" "\<And>j. j < 4 \<or> 4 + sizeof ?L \<le> j \<Longrightarrow> m3 ! j = m2 ! j"
      "\<And>y. member_bytes ?L 4 m3 y = (if y \<in> set common_integers then in_order h (member_bytes ?L 4 m2 y) else member_bytes ?L 4 m2 y)"
    using convert_members_Ok [of ?L ?C 4 m2 h] l2(2) by metis
  have "29 + sizeof l \<le> length m3" using ok(2) m3(2) by simp
  then obtain m4 where m4: "convert_members h l 29 cs m3 = Ok m4" "length m4 = 1504" "\<And>j. j < 29 \<or> 29 + sizeof l \<le> j \<Longrightarrow> m4 ! j = m3 ! j"
      "\<And>y. member_bytes l 29 m4 y = (if y \<in> conversion_name ` set cs then in_order h (member_bytes l 29 m3 y) else member_bytes l 29 m3 y)"
    using convert_members_Ok [OF ok(1), of 29 m3 h] m3(2) by metis
  have run: "f h params m = Ok (communication_params_at + sizeof l, m4)"
    using st m3(1) m4(1) lp(1) sz
    by (simp add: ok(3) pack_config_stream_def memcpy_from_def control_protocol__swap_config_stream_common_def CONTROL_PROTOCOL__REQUEST_BASE_SIZE_def)
  have common: "member_bytes ?L 4 m4 x = (if x \<in> set common_integers then in_order h else id) (member_bytes ?L 0 params x)" if x: "x \<noteq> ?P" for x
  proof -
    have "member_bytes ?L 4 m4 x = member_bytes ?L 4 m3 x"
    proof (rule member_bytes_eq)
      fix i n j assume j: "member ?L x = Some (i, n)" "i \<le> j" "j < i + n"
      have "i + n \<le> 25" using member_disjoint [OF j(1) sz(2) x] member_inside [OF j(1)] j sz by auto
      then show "m4 ! (4 + j) = m3 ! (4 + j)" using j m4(3) by simp
    qed (use m3 m4 sz in simp_all)
    moreover have "member_bytes ?L 4 m2 x = member_bytes ?L 0 params x"
      by (rule member_bytes_eq) (use n2 l2 lp sz member_inside [of ?L x] in force)+
    ultimately show ?thesis using m3(4) [of x] by simp
  qed
  have "member_bytes ?L 4 m3 ?P = member_bytes ?L 4 m2 ?P" using m3(4) [of ?P] by (simp add: common_integers_def)
  then have "take 35 (drop 29 m3) = take 35 (drop 29 m2)" by (simp add: member_bytes_def sz)
  then have e: "take 35 (drop 29 m3) ! j = take 35 (drop 29 m2) ! j" for j by simp
  have "m3 ! (29 + j) = params ! (25 + j)" if "j < 35" for j using that n2 [of "25 + j"] e [of j] m3(2) l2 by simp
  then have "member_bytes l 29 m3 y = member_bytes l 25 params y" for y
    by (intro member_bytes_eq) (use ok(2) m3(2) lp member_inside [of l y] in force)+
  then show ?thesis using run m4(2,4) common lp by (auto simp: sz(3))
qed

text \<open>A sample: the description of a PCIe stream, with 256 bytes per buffer, as a big-endian host holds it.\<close>

definition sample_stream :: "u8 list" where
  "sample_stream = [0, 1, 0, 0, 0, 2, 0, 0, 1, 0] @ replicate 50 0"

theorem config_stream_converted_witness:
  "\<exists>m'. CONTROL_PROTOCOL__pack_config_stream_pcie_input_request Big_endian sample_stream (replicate 1504 0) = Ok (31, m') \<and>
     of_host16 Little_endian (member_bytes CONTROL_PROTOCOL__config_stream_request_t 4 m' ''nn_stream_config.core_bytes_per_buffer'') = 256"
proof -
  let ?L = CONTROL_PROTOCOL__config_stream_request_t and ?x = "''nn_stream_config.core_bytes_per_buffer''"
  have "sizeof CONTROL_PROTOCOL__pcie_input_config_params_t = 2" by (simp add: stream_layouts)
  then obtain m' where m': "CONTROL_PROTOCOL__pack_config_stream_pcie_input_request Big_endian sample_stream (replicate 1504 0) = Ok (31, m')"
      "\<forall>x. x \<noteq> ''communication_params'' \<longrightarrow> member_bytes ?L 4 m' x =
        (if x \<in> set common_integers then in_order Big_endian else id) (member_bytes ?L 0 sample_stream x)"
    using config_stream_converted [OF stream_spec.intros(3), of sample_stream "replicate 1504 0" Big_endian] stream_sizes(1,3,4)
    by (auto simp: sample_stream_def sizeof_control_request_def)
  have "member ?L ?x = Some (8, 2)" by (simp add: stream_layouts)
  then have "member_bytes ?L 0 sample_stream ?x = [1, 0]" by (simp add: member_bytes_def sample_stream_def numeral_2_eq_2)
  moreover have "?x \<in> set common_integers" "?x \<noteq> ''communication_params''" by (simp_all add: common_integers_def)
  ultimately have "member_bytes ?L 4 m' ?x = [0, 1]" using m'(2) by (simp add: in_order_def)
  then show ?thesis using m'(1) by (auto simp: of_host16_def u16_at_def)
qed

section \<open>Structures that are copied as they are\<close>

lemma sizeof_application_header: "sizeof CONTROL_PROTOCOL__application_header_t = 32"
  "member CONTROL_PROTOCOL__application_header_t ''dynamic_contexts_count'' = Some (0, 2)"
  by (simp_all add: stream_layouts length_defs)

text \<open>C40: the header of a network group is copied without conversion: the device reads each count in the host's byte order. On a
  big-endian host a group of one context is announced as one of 256 contexts - although the packing functions are to write the
  parameters in the byte order of the device, and every other multi-byte argument is converted.\<close>

theorem network_group_header_not_converted:
  assumes "length header = sizeof CONTROL_PROTOCOL__application_header_t" "length m = sizeof_control_request"
  shows "\<exists>m'. CONTROL_PROTOCOL__pack_context_switch_set_network_group_header_request h header m = Ok (36, m') \<and> take 32 (drop 4 m') = header \<and>
    of_host16 Little_endian (member_bytes CONTROL_PROTOCOL__application_header_t 4 m' ''dynamic_contexts_count'') =
      BYTE_ORDER__htods h (of_host16 h (member_bytes CONTROL_PROTOCOL__application_header_t 0 header ''dynamic_contexts_count''))"
proof -
  let ?A = CONTROL_PROTOCOL__application_header_t
  define m1 where "m1 = put_bytes 0 (u32_bytes (opcode_of ''HAILO_CONTROL_OPCODE_CONTEXT_SWITCH_SET_NETWORK_GROUP_HEADER'')) m"
  have l: "length header = 32" "length m1 = 1504" using assms by (simp_all add: sizeof_application_header sizeof_control_request_def m1_def)
  let ?m = "put_bytes 4 header m1"
  have fit: "4 + length header \<le> length m1" using l by simp
  have run: "CONTROL_PROTOCOL__pack_context_switch_set_network_group_header_request h header m = Ok (36, ?m)"
    using l assms(2) [unfolded sizeof_control_request_def]
    by (simp add: CONTROL_PROTOCOL__pack_context_switch_set_network_group_header_request_def memcpy_from_def sizeof_application_header pack_request_def Let_def
        store_member_def CONTROL_PROTOCOL__request_t_def CONTROL_PROTOCOL__MAX_CONTROL_LENGTH_def put32_def host_little CONTROL_PROTOCOL__REQUEST_BASE_SIZE_def
        CONTROL_PROTOCOL__context_switch_set_network_group_header_request_t_def m1_def [symmetric] put_bytes_def [of _ "[]"])
      (simp add: sizeof_def)
  have t: "take 32 (drop 4 ?m) = header" using holds_take [OF holds_put_bytes [OF fit]] l by simp
  have "take 2 (take 32 (drop 4 ?m)) = take 2 header" unfolding t ..
  then have "take 2 (drop 4 ?m) = take 2 header" by simp
  moreover have "length (take 2 header) = 2" using l by simp
  note w16.device_value [OF this, of h]
  ultimately show ?thesis using run t l by (auto simp: member_bytes_def sizeof_application_header)
qed

theorem network_group_header_not_converted_witness:
  "\<exists>m'. CONTROL_PROTOCOL__pack_context_switch_set_network_group_header_request Big_endian (host16 Big_endian 1 @ replicate 30 0) (replicate 1504 0) = Ok (36, m') \<and>
     of_host16 Little_endian (member_bytes CONTROL_PROTOCOL__application_header_t 4 m' ''dynamic_contexts_count'') = 256"
proof -
  have "take 2 (host16 Big_endian 1 @ replicate 30 0) = host16 Big_endian 1" by simp
  then show ?thesis
    using network_group_header_not_converted [of "host16 Big_endian 1 @ replicate 30 0" "replicate 1504 0" Big_endian]
    by (auto simp: sizeof_application_header sizeof_control_request_def member_bytes_def BYTE_ORDER__htods_def BYTE_ORDER__swap16_def)
qed

end
