(* ===== verification/Control_Requests.thy ===== *)
theory Control_Requests
  imports Control_Packing
begin

text \<open>
  What a firmware control looks like to the device. The table lists for every packing function the opcode, the structure, the bytes of
  each member in the device's order, and the data behind the structure; functions that copy a structure of the host's memory with
  integers in it are not in the table. The theorems say that packing follows the table on hosts of both byte orders, and that
  unpacking a response gives the host the values the device wrote.
\<close>

section \<open>The table of requests\<close>

text \<open>The members of the context information: the handles and addresses are as many as the count says.\<close>

definition context_info_stores :: "CONTROL_PROTOCOL__context_switch_context_info_chunk_t \<Rightarrow> store list" where
  "context_info_stores c =
     (''translation_table.handle_count'', 0, [ci_handle_count c])
     # map (\<lambda>i. (''translation_table.handles'', 8 * i, u64_bytes (ci_handles c ! i))) [0..<unat (ci_handle_count c)]
     @ map (\<lambda>i. (''translation_table.dma_addrs'', 8 * i, u64_bytes (ci_dma_addrs c ! i))) [0..<unat (ci_handle_count c)]
     @ [(''is_first_chunk_per_context'', 0, [of_bool (ci_is_first_chunk_per_context c)]),
        (''is_last_chunk_per_context'', 0, [of_bool (ci_is_last_chunk_per_context c)]),
        (''context_type'', 0, [ci_context_type c]),
        (''context_network_data_length'', 0, u32_bytes (ci_context_network_data_length c))]"

inductive request_spec :: "(byte_order \<Rightarrow> u8 list \<Rightarrow> (nat \<times> u8 list) result) \<Rightarrow> string \<Rightarrow> layout \<Rightarrow> store list \<Rightarrow> u8 list \<Rightarrow> bool" where
  "request_spec (\<lambda>h. CONTROL_PROTOCOL__pack_identify_request h)
       ''HAILO_CONTROL_OPCODE_IDENTIFY'' []
       [] []"
| "request_spec (\<lambda>h. CONTROL_PROTOCOL__pack_core_identify_request h)
       ''HAILO_CONTROL_OPCODE_CORE_IDENTIFY'' []
       [] []"
| "request_spec (\<lambda>h. CONTROL_PROTOCOL__pack_set_fw_logger_request h level interface_mask)
       ''HAILO_CONTROL_OPCODE_SET_FW_LOGGER'' CONTROL_PROTOCOL__set_fw_logger_request_t
       [(''level'', 0, [level]),
        (''logger_interface_bit_mask'', 0, [interface_mask])] []"
| "request_spec (\<lambda>h. CONTROL_PROTOCOL__pack_set_clock_freq_request h clock_freq)
       ''HAILO_CONTROL_OPCODE_SET_CLOCK_FREQ'' CONTROL_PROTOCOL__set_clock_freq_request_t
       [(''clock_freq'', 0, u32_bytes clock_freq)] []"
| "request_spec (\<lambda>h. CONTROL_PROTOCOL__pack_set_throttling_state_request h should_activate)
       ''HAILO_CONTROL_OPCODE_SET_THROTTLING_STATE'' CONTROL_PROTOCOL__set_throttling_state_request_t
       [(''should_activate'', 0, [of_bool should_activate])] []"
| "request_spec (\<lambda>h. CONTROL_PROTOCOL__pack_get_throttling_state_request h)
       ''HAILO_CONTROL_OPCODE_GET_THROTTLING_STATE'' []
       [] []"
| "request_spec (\<lambda>h. CONTROL_PROTOCOL__pack_set_overcurrent_state_request h should_activate)
       ''HAILO_CONTROL_OPCODE_SET_OVERCURRENT_STATE'' CONTROL_PROTOCOL__set_overcurrent_state_request_t
       [(''should_activate'', 0, [of_bool should_activate])] []"
| "request_spec (\<lambda>h. CONTROL_PROTOCOL__pack_get_overcurrent_state_request h)
       ''HAILO_CONTROL_OPCODE_GET_OVERCURRENT_STATE'' []
       [] []"
| "request_spec (\<lambda>h. CONTROL_PROTOCOL__pack_get_hw_consts_request h)
       ''HAILO_CONTROL_OPCODE_GET_HW_CONSTS'' []
       [] []"
| "unat data_length \<le> length data \<Longrightarrow>
     request_spec (\<lambda>h. CONTROL_PROTOCOL__pack_write_memory_request h address data data_length)
       ''HAILO_CONTROL_OPCODE_WRITE_MEMORY'' CONTROL_PROTOCOL__write_memory_request_t
       [(''address'', 0, u32_bytes address),
        (''data_length'', 0, u32_bytes data_length)] (take (unat data_length) data)"
| "request_spec (\<lambda>h. CONTROL_PROTOCOL__pack_read_memory_request h address data_length)
       ''HAILO_CONTROL_OPCODE_READ_MEMORY'' CONTROL_PROTOCOL__read_memory_request_t
       [(''address'', 0, u32_bytes address),
        (''data_count'', 0, u32_bytes data_length)] []"
| "request_spec (\<lambda>h. CONTROL_PROTOCOL__pack_open_stream_request h dataflow_manager_id is_input)
       ''HAILO_CONTROL_OPCODE_OPEN_STREAM'' CONTROL_PROTOCOL__open_stream_request_t
       [(''dataflow_manager_id'', 0, [dataflow_manager_id]),
        (''is_input'', 0, [is_input])] []"
| "request_spec (\<lambda>h. CONTROL_PROTOCOL__pack_close_stream_request h dataflow_manager_id is_input)
       ''HAILO_CONTROL_OPCODE_CLOSE_STREAM'' CONTROL_PROTOCOL__close_stream_request_t
       [(''dataflow_manager_id'', 0, [dataflow_manager_id]),
        (''is_input'', 0, [is_input])] []"
| "request_spec (\<lambda>h. CONTROL_PROTOCOL__pack_reset_request h reset_type)
       ''HAILO_CONTROL_OPCODE_RESET'' CONTROL_PROTOCOL__reset_request_t
       [(''reset_type'', 0, u32_bytes (value_CONTROL_PROTOCOL__reset_type_t reset_type))] []"
| "request_spec (\<lambda>h. CONTROL_PROTOCOL__pack_power_measurement_request h dvm measurement_type)
       ''HAILO_CONTROL_OPCODE_POWER_MEASUEMENT'' CONTROL_PROTOCOL__power_measurement_request_t
       [(''dvm'', 0, u32_bytes (value_CONTROL_PROTOCOL__dvm_options_t dvm)),
        (''measurement_type'', 0, u32_bytes (value_CONTROL_PROTOCOL__power_measurement_types_t measurement_type))] []"
| "request_spec (\<lambda>h. CONTROL_PROTOCOL__pack_set_power_measurement_request h idx dvm measurement_type)
       ''HAILO_CONTROL_OPCODE_SET_POWER_MEASUEMENT'' CONTROL_PROTOCOL__set_power_measurement_request_t
       [(''index'', 0, u32_bytes idx),
        (''dvm'', 0, u32_bytes (value_CONTROL_PROTOCOL__dvm_options_t dvm)),
        (''measurement_type'', 0, u32_bytes (value_CONTROL_PROTOCOL__power_measurement_types_t measurement_type))] []"
| "request_spec (\<lambda>h. CONTROL_PROTOCOL__pack_get_power_measurement_request h idx should_clear)
       ''HAILO_CONTROL_OPCODE_GET_POWER_MEASUEMENT'' CONTROL_PROTOCOL__get_power_measurement_request_t
       [(''index'', 0, u32_bytes idx),
        (''should_clear'', 0, [of_bool should_clear])] []"
| "request_spec (\<lambda>h. CONTROL_PROTOCOL__pack_start_power_measurement_request h delay_milliseconds averaging_factor sampling_period)
       ''HAILO_CONTROL_OPCODE_START_POWER_MEASUEMENT'' CONTROL_PROTOCOL__start_power_measurement_request_t
       [(''delay_milliseconds'', 0, u32_bytes delay_milliseconds),
        (''averaging_factor'', 0, u16_bytes (ucast (value_CONTROL_PROTOCOL__averaging_factor_t averaging_factor))),
        (''sampling_period'', 0, u16_bytes (ucast (value_CONTROL_PROTOCOL__sampling_period_t sampling_period)))] []"
| "request_spec (\<lambda>h. CONTROL_PROTOCOL__pack_stop_power_measurement_request h)
       ''HAILO_CONTROL_OPCODE_STOP_POWER_MEASUEMENT'' []
       [] []"
| "unat len \<le> length data \<Longrightarrow>
     request_spec (\<lambda>h. CONTROL_PROTOCOL__pack_i2c_write_request h register_address endianness slave_address register_address_size bus_index data len)
       ''HAILO_CONTROL_OPCODE_I2C_WRITE'' CONTROL_PROTOCOL__i2c_write_request_t
       [(''register_address_size'', 0, u32_bytes 4),
        (''register_address'', 0, u32_bytes register_address),
        (''slave_config.endianness'', 0, [endianness]),
        (''slave_config.slave_address'', 0, u16_bytes slave_address),
        (''slave_config.register_address_size'', 0, [register_address_size]),
        (''slave_config.bus_index'', 0, [bus_index]),
        (''slave_config.should_hold_bus'', 0, [0]),
        (''data_length'', 0, u32_bytes len)] (take (unat len) data)"
| "request_spec (\<lambda>h. CONTROL_PROTOCOL__pack_i2c_read_request h register_address endianness slave_address register_address_size bus_index len should_hold_bus)
       ''HAILO_CONTROL_OPCODE_I2C_READ'' CONTROL_PROTOCOL__i2c_read_request_t
       [(''register_address_size'', 0, u32_bytes 4),
        (''register_address'', 0, u32_bytes register_address),
        (''slave_config.endianness'', 0, [endianness]),
        (''slave_config.slave_address'', 0, u16_bytes slave_address),
        (''slave_config.register_address_size'', 0, [register_address_size]),
        (''slave_config.bus_index'', 0, [bus_index]),
        (''slave_config.should_hold_bus'', 0, [of_bool should_hold_bus]),
        (''data_length'', 0, u32_bytes len)] []"
| "request_spec (\<lambda>h. CONTROL_PROTOCOL__pack_phy_operation_request h operation_type)
       ''HAILO_CONTROL_OPCODE_PHY_OPERATION'' CONTROL_PROTOCOL__phy_operation_request_t
       [(''operation_type'', 0, u32_bytes (value_CONTROL_PROTOCOL__phy_operation_t operation_type))] []"
| "length params = sizeof_CONTROL_PROTOCOL__config_core_top_params_t \<Longrightarrow>
     request_spec (\<lambda>h. CONTROL_PROTOCOL__pack_config_core_top_request h config_type params)
       ''HAILO_CONTROL_OPCODE_CONFIG_CORE_TOP'' CONTROL_PROTOCOL__config_core_top_request_t
       [(''config_type'', 0, u32_bytes (value_CONTROL_PROTOCOL__config_core_top_type_t config_type)),
        (''config_params'', 0, params)] []"
| "request_spec (\<lambda>h. CONTROL_PROTOCOL__pack_set_pause_frames_request h rx_pause_frames_enable)
       ''HAILO_CONTROL_OPCODE_SET_PAUSE_FRAMES'' CONTROL_PROTOCOL__set_pause_frames_t
       [(''rx_pause_frames_enable'', 0, [rx_pause_frames_enable])] []"
| "request_spec (\<lambda>h. CONTROL_PROTOCOL__pack_get_chip_temperature_request h)
       ''HAILO_CONTROL_OPCODE_GET_CHIP_TEMPERATURE'' []
       [] []"
| "request_spec (\<lambda>h. CONTROL_PROTOCOL__pack_examine_user_config_request h)
       ''HAILO_CONTROL_OPCODE_EXAMINE_USER_CONFIG'' []
       [] []"
| "request_spec (\<lambda>h. CONTROL_PROTOCOL__pack_read_user_config_request h address data_length)
       ''HAILO_CONTROL_OPCODE_READ_USER_CONFIG'' CONTROL_PROTOCOL__read_memory_request_t
       [(''address'', 0, u32_bytes address),
        (''data_count'', 0, u32_bytes data_length)] []"
| "unat data_length \<le> length data \<Longrightarrow>
     request_spec (\<lambda>h. CONTROL_PROTOCOL__pack_write_user_config_request h address data data_length)
       ''HAILO_CONTROL_OPCODE_WRITE_USER_CONFIG'' CONTROL_PROTOCOL__write_memory_request_t
       [(''address'', 0, u32_bytes address),
        (''data_length'', 0, u32_bytes data_length)] (take (unat data_length) data)"
| "request_spec (\<lambda>h. CONTROL_PROTOCOL__pack_erase_user_config_request h)
       ''HAILO_CONTROL_OPCODE_ERASE_USER_CONFIG'' []
       [] []"
| "request_spec (\<lambda>h. CONTROL_PROTOCOL__pack_read_board_config_request h address data_length)
       ''HAILO_CONTROL_OPCODE_READ_BOARD_CONFIG'' CONTROL_PROTOCOL__read_memory_request_t
       [(''address'', 0, u32_bytes address),
        (''data_count'', 0, u32_bytes data_length)] []"
| "unat data_length \<le> length data \<Longrightarrow>
     request_spec (\<lambda>h. CONTROL_PROTOCOL__pack_write_board_config_request h address data data_length)
       ''HAILO_CONTROL_OPCODE_WRITE_BOARD_CONFIG'' CONTROL_PROTOCOL__write_memory_request_t
       [(''address'', 0, u32_bytes address),
        (''data_length'', 0, u32_bytes data_length)] (take (unat data_length) data)"
| "request_spec (\<lambda>h. CONTROL_PROTOCOL__pack_start_firmware_update_request h)
       ''HAILO_CONTROL_OPCODE_START_FIRMWARE_UPDATE'' []
       [] []"
| "request_spec (\<lambda>h. CONTROL_PROTOCOL__pack_finish_firmware_update_request h)
       ''HAILO_CONTROL_OPCODE_FINISH_FIRMWARE_UPDATE'' []
       [] []"
| "unat data_length \<le> length data \<Longrightarrow>
     request_spec (\<lambda>h. CONTROL_PROTOCOL__pack_write_firmware_update_request h offset data data_length)
       ''HAILO_CONTROL_OPCODE_WRITE_FIRMWARE_UPDATE'' CONTROL_PROTOCOL__write_firmware_update_request_t
       [(''offset'', 0, u32_bytes offset),
        (''data_length'', 0, u32_bytes data_length)] (take (unat data_length) data)"
| "length expected_md5 = MD5_DIGEST_LENGTH \<Longrightarrow>
     request_spec (\<lambda>h. CONTROL_PROTOCOL__pack_validate_firmware_update_request h expected_md5 firmware_size)
       ''HAILO_CONTROL_OPCODE_VALIDATE_FIRMWARE_UPDATE'' CONTROL_PROTOCOL__validate_firmware_update_request_t
       [(''expected_md5'', 0, expected_md5),
        (''firmware_size'', 0, u32_bytes firmware_size)] []"
| "unat data_length \<le> length data \<Longrightarrow>
     request_spec (\<lambda>h. CONTROL_PROTOCOL__pack_write_second_stage_to_internal_memory_request h offset data data_length)
       ''HAILO_CONTROL_OPCODE_WRITE_SECOND_STAGE_TO_INTERNAL_MEMORY'' CONTROL_PROTOCOL__write_firmware_update_request_t
       [(''offset'', 0, u32_bytes offset),
        (''data_length'', 0, u32_bytes data_length)] (take (unat data_length) data)"
| "length expected_md5 = MD5_DIGEST_LENGTH \<Longrightarrow>
     request_spec (\<lambda>h. CONTROL_PROTOCOL__pack_copy_second_stage_to_flash_request h expected_md5 second_stage_size)
       ''HAILO_CONTROL_OPCODE_COPY_SECOND_STAGE_TO_FLASH'' CONTROL_PROTOCOL__copy_second_stage_to_flash_request_t
       [(''expected_md5'', 0, expected_md5),
        (''second_stage_size'', 0, u32_bytes second_stage_size)] []"
| "request_spec (\<lambda>h. CONTROL_PROTOCOL__pack_latency_measurement_config_request h latency_measurement_en inbound_start_buffer_number outbound_stop_buffer_number inbound_stream_index outbound_stream_index)
       ''HAILO_CONTROL_OPCODE_NN_CORE_LATENCY_MEASUREMENT_CONFIG'' CONTROL_PROTOCOL__latency_config_request_t
       [(''latency_measurement_en'', 0, [latency_measurement_en]),
        (''inbound_start_buffer_number'', 0, u32_bytes inbound_start_buffer_number),
        (''outbound_stop_buffer_number'', 0, u32_bytes outbound_stop_buffer_number),
        (''inbound_stream_index'', 0, u32_bytes inbound_stream_index),
        (''outbound_stream_index'', 0, u32_bytes outbound_stream_index)] []"
| "request_spec (\<lambda>h. CONTROL_PROTOCOL__pack_latency_measurement_read_request h)
       ''HAILO_CONTROL_OPCODE_NN_CORE_LATENCY_MEASUREMENT_READ'' []
       [] []"
| "unat data_length \<le> length data \<Longrightarrow>
     unat config_name_length \<le> length config_name \<Longrightarrow>
     unat config_name_length \<le> MAX_CONFIG_NAME_LEN \<Longrightarrow>
     request_spec (\<lambda>h. CONTROL_PROTOCOL__pack_sensor_store_config_request h is_first section_index start_offset reset_data_size sensor_type total_data_size data data_length
         config_height config_width config_fps config_name_length config_name)
       ''HAILO_CONTROL_OPCODE_SENSOR_STORE_CONFIG'' CONTROL_PROTOCOL__sensor_store_config_request_t
       [(''section_index'', 0, u32_bytes section_index),
        (''is_first'', 0, u32_bytes is_first),
        (''start_offset'', 0, u32_bytes start_offset),
        (''reset_data_size'', 0, u32_bytes reset_data_size),
        (''sensor_type'', 0, u32_bytes sensor_type),
        (''total_data_size'', 0, u32_bytes total_data_size),
        (''config_width'', 0, u16_bytes config_width),
        (''config_height'', 0, u16_bytes config_height),
        (''config_fps'', 0, u16_bytes config_fps),
        (''config_name_length'', 0, u32_bytes (of_nat MAX_CONFIG_NAME_LEN)),
        (''config_name'', 0, take (unat config_name_length) config_name),
        (''data_length'', 0, u32_bytes data_length)] (take (unat data_length) data)"
| "request_spec (\<lambda>h. CONTROL_PROTOCOL__pack_sensor_get_config_request h section_index offset data_length)
       ''HAILO_CONTROL_OPCODE_SENSOR_GET_CONFIG'' CONTROL_PROTOCOL__sensor_get_config_request_t
       [(''section_index'', 0, u32_bytes section_index),
        (''offset'', 0, u32_bytes offset),
        (''data_size'', 0, u32_bytes data_length)] []"
| "request_spec (\<lambda>h. CONTROL_PROTOCOL__pack_sensor_set_i2c_bus_index_request h sensor_type bus_index)
       ''HAILO_CONTROL_OPCODE_SENSOR_SET_I2C_BUS_INDEX'' CONTROL_PROTOCOL__sensor_set_i2c_bus_index_t
       [(''sensor_type'', 0, u32_bytes sensor_type),
        (''i2c_bus_index'', 0, u32_bytes bus_index)] []"
| "request_spec (\<lambda>h. CONTROL_PROTOCOL__pack_sensor_load_and_start_config_request h section_index)
       ''HAILO_CONTROL_OPCODE_SENSOR_LOAD_AND_START'' CONTROL_PROTOCOL__sensor_load_config_request_t
       [(''section_index'', 0, u32_bytes section_index)] []"
| "request_spec (\<lambda>h. CONTROL_PROTOCOL__pack_sensor_reset_request h section_index)
       ''HAILO_CONTROL_OPCODE_SENSOR_RESET'' CONTROL_PROTOCOL__sensor_reset_request_t
       [(''section_index'', 0, u32_bytes section_index)] []"
| "request_spec (\<lambda>h. CONTROL_PROTOCOL__pack_sensor_set_generic_i2c_slave_request h slave_address register_address_size bus_index should_hold_bus endianness)
       ''HAILO_CONTROL_OPCODE_SENSOR_SET_GENERIC_I2C_SLAVE'' CONTROL_PROTOCOL__sensor_set_generic_i2c_slave_request_t
       [(''slave_address'', 0, u16_bytes slave_address),
        (''register_address_size'', 0, [register_address_size]),
        (''bus_index'', 0, [bus_index]),
        (''should_hold_bus'', 0, [should_hold_bus]),
        (''endianness'', 0, [endianness])] []"
| "request_spec (\<lambda>h. CONTROL_PROTOCOL__pack_sensor_get_sections_info_request h)
       ''HAILO_CONTROL_OPCODE_SENSOR_GET_SECTIONS_INFO'' []
       [] []"
| "request_spec (\<lambda>h. CONTROL_PROTOCOL__pack_idle_time_get_measuremment_request h)
       ''HAILO_CONTROL_OPCODE_IDLE_TIME_GET_MEASUREMENT'' []
       [] []"
| "request_spec (\<lambda>h. CONTROL_PROTOCOL__pack_idle_time_set_measuremment_request h measurement_enable)
       ''HAILO_CONTROL_OPCODE_IDLE_TIME_SET_MEASUREMENT'' CONTROL_PROTOCOL__idle_time_set_measurement_request_t
       [(''measurement_enable'', 0, [measurement_enable])] []"
| "unat (ci_handle_count c) \<le> CONTROL_PROTOCOL__MAX_VDMA_CHANNELS_PER_ENGINE \<Longrightarrow>
     unat (ci_handle_count c) \<le> length (ci_handles c) \<Longrightarrow> unat (ci_handle_count c) \<le> length (ci_dma_addrs c) \<Longrightarrow>
     unat (ci_context_network_data_length c) \<le> length (ci_context_network_data c) \<Longrightarrow>
     request_spec (\<lambda>h. CONTROL_PROTOCOL__pack_context_switch_set_context_info_request h c)
       ''HAILO_CONTROL_OPCODE_CONTEXT_SWITCH_SET_CONTEXT_INFO'' CONTROL_PROTOCOL__context_switch_set_context_info_request_t
       (context_info_stores c) (take (unat (ci_context_network_data_length c)) (ci_context_network_data c))"
| "request_spec (\<lambda>h. CONTROL_PROTOCOL__pack_context_switch_signal_cache_updated_request h)
       ''HAILO_CONTROL_OPCODE_CONTEXT_SWITCH_SIGNAL_CACHE_UPDATED'' []
       [] []"
| "request_spec (\<lambda>h. CONTROL_PROTOCOL__pack_context_switch_clear_configured_apps_request h)
       ''HAILO_CONTROL_OPCODE_CONTEXT_SWITCH_CLEAR_CONFIGURED_APPS'' []
       [] []"
| "request_spec (\<lambda>h. CONTROL_PROTOCOL__pack_download_context_action_list_request h network_group_id context_type context_index action_list_offset)
       ''HAILO_CONTROL_OPCODE_DOWNLOAD_CONTEXT_ACTION_LIST'' CONTROL_PROTOCOL__download_context_action_list_request_t
       [(''network_group_id'', 0, u32_bytes network_group_id),
        (''context_type'', 0, [ucast (value_CONTROL_PROTOCOL__context_switch_context_type_t context_type)]),
        (''context_index'', 0, u16_bytes context_index),
        (''action_list_offset'', 0, u16_bytes action_list_offset)] []"
| "request_spec (\<lambda>h. CONTROL_PROTOCOL__pack_change_context_switch_status_request h state_machine_status application_index dynamic_batch_size batch_count)
       ''HAILO_CONTROL_OPCODE_CHANGE_CONTEXT_SWITCH_STATUS'' CONTROL_PROTOCOL__change_context_switch_status_request_t
       [(''state_machine_status'', 0, [ucast (value_CONTROL_PROTOCOL__CONTEXT_SWITCH_STATUS_t state_machine_status)]),
        (''application_index'', 0, [application_index]),
        (''dynamic_batch_size'', 0, u16_bytes dynamic_batch_size),
        (''batch_count'', 0, u16_bytes batch_count)] []"
| "request_spec (\<lambda>h. CONTROL_PROTOCOL__pack_wd_enable h cpu_id should_enable)
       (if cpu_id = value_CPU_ID_t CPU_ID_CORE_CPU then ''HAILO_CONTROL_OPCODE_CORE_WD_ENABLE'' else ''HAILO_CONTROL_OPCODE_APP_WD_ENABLE'') CONTROL_PROTOCOL__wd_enable_request_t
       [(''should_enable'', 0, [of_bool should_enable])] []"
| "request_spec (\<lambda>h. CONTROL_PROTOCOL__pack_wd_config h cpu_id wd_cycles wd_mode)
       (if cpu_id = value_CPU_ID_t CPU_ID_CORE_CPU then ''HAILO_CONTROL_OPCODE_CORE_WD_CONFIG'' else ''HAILO_CONTROL_OPCODE_APP_WD_CONFIG'') CONTROL_PROTOCOL__wd_config_request_t
       [(''wd_cycles'', 0, u32_bytes wd_cycles),
        (''wd_mode'', 0, [ucast (value_CONTROL_PROTOCOL__WATCHDOG_MODE_t wd_mode)])] []"
| "request_spec (\<lambda>h. CONTROL_PROTOCOL__pack_previous_system_state_request h cpu_id)
       (if cpu_id = value_CPU_ID_t CPU_ID_CORE_CPU then ''HAILO_CONTROL_OPCODE_CORE_PREVIOUS_SYSTEM_STATE'' else ''HAILO_CONTROL_OPCODE_APP_PREVIOUS_SYSTEM_STATE'') []
       [] []"
| "request_spec (\<lambda>h. CONTROL_PROTOCOL__pack_set_dataflow_interrupt_request h interrupt_type interrupt_index interrupt_sub_index)
       ''HAILO_CONTROL_OPCODE_SET_DATAFLOW_INTERRUPT'' CONTROL_PROTOCOL__set_dataflow_interrupt_request_t
       [(''interrupt_type'', 0, [interrupt_type]),
        (''interrupt_index'', 0, [interrupt_index]),
        (''interrupt_sub_index'', 0, [interrupt_sub_index])] []"
| "request_spec (\<lambda>h. CONTROL_PROTOCOL__pack_get_context_switch_breakpoint_status_request h breakpoint_id)
       ''HAILO_CONTROL_OPCODE_GET_CONTEXT_SWITCH_BREAKPOINT_STATUS'' CONTROL_PROTOCOL__get_context_switch_breakpoint_status_request_t
       [(''breakpoint_id'', 0, u32_bytes (ucast breakpoint_id))] []"
| "request_spec (\<lambda>h. CONTROL_PROTOCOL__pack_get_context_switch_main_header_request h)
       ''HAILO_CONTROL_OPCODE_GET_CONTEXT_SWITCH_MAIN_HEADER'' []
       [] []"
| "request_spec (\<lambda>h. CONTROL_PROTOCOL__pack_config_context_switch_timestamp_request h batch_index enable_user_configuration)
       ''HAILO_CONTROL_OPCODE_CONFIG_CONTEXT_SWITCH_TIMESTAMP'' CONTROL_PROTOCOL__config_context_switch_timestamp_request_t
       [(''batch_index'', 0, u16_bytes batch_index),
        (''enable_user_configuration'', 0, [of_bool enable_user_configuration])] []"
| "request_spec (\<lambda>h. CONTROL_PROTOCOL__pack_d2h_event_manager_set_host_info_request h connection_type host_port host_ip_address)
       ''HAILO_CONTROL_OPCODE_D2H_EVENT_MANAGER_SET_HOST_INFO'' CONTROL_PROTOCOL__d2h_event_manager_set_new_host_info_request_t
       [(''connection_type'', 0, [connection_type]),
        (''host_port'', 0, u16_bytes host_port),
        (''host_ip_address'', 0, u32_bytes host_ip_address)] []"
| "request_spec (\<lambda>h. CONTROL_PROTOCOL__pack_d2h_event_manager_send_host_info_event_request h event_priority)
       ''HAILO_CONTROL_OPCODE_D2H_EVENT_MANAGER_SEND_EVENT_HOST_INFO'' CONTROL_PROTOCOL__d2h_event_manager_send_host_info_event_request_t
       [(''priority'', 0, [event_priority])] []"
| "request_spec (\<lambda>h. CONTROL_PROTOCOL__pack_enable_debugging_request h is_rma)
       ''HAILO_CONTROL_OPCODE_ENABLE_DEBUGGING'' CONTROL_PROTOCOL__enable_debugging_request_t
       [(''is_rma'', 0, [of_bool is_rma])] []"
| "request_spec (\<lambda>h. CONTROL_PROTOCOL__pack_get_extended_device_information_request h)
       ''HAILO_CONTROL_OPCODE_GET_DEVICE_INFORMATION'' []
       [] []"
| "request_spec (\<lambda>h. CONTROL_PROTOCOL__pack_get_health_information_request h)
       ''HAILO_CONTROL_OPCODE_GET_HEALTH_INFORMATION'' []
       [] []"
| "request_spec (\<lambda>h. CONTROL_PROTOCOL__pack_run_bist_test_request h is_top_test top_bypass_bitmap cluster_index cluster_bypass_bitmap_0 cluster_bypass_bitmap_1)
       ''HAILO_CONTROL_OPCODE_RUN_BIST_TEST'' CONTROL_PROTOCOL__run_bist_test_request_t
       [(''is_top_test'', 0, [of_bool is_top_test]),
        (''top_bypass_bitmap'', 0, u32_bytes top_bypass_bitmap),
        (''cluster_index'', 0, [cluster_index]),
        (''cluster_bypass_bitmap_0'', 0, u32_bytes cluster_bypass_bitmap_0),
        (''cluster_bypass_bitmap_1'', 0, u32_bytes cluster_bypass_bitmap_1)] []"
| "request_spec (\<lambda>h. CONTROL_PROTOCOL__pack_set_sleep_state_request h sleep_state)
       ''HAILO_CONTROL_OPCODE_SET_SLEEP_STATE'' CONTROL_PROTOCOL__set_sleep_state_request_t
       [(''sleep_state'', 0, [sleep_state])] []"

section \<open>Packing follows the table\<close>

lemma put_simps: "put8 x v = (x, 0, [v])" "put_bool x b = (x, 0, [of_bool b])" "put16 h x v16 = (x, 0, u16_bytes v16)" "put32 h x v32 = (x, 0, u32_bytes v32)"
  "put64_at h x i v64 = (x, 8 * i, u64_bytes v64)"
  by (simp_all add: put8_def put_bool_def put16_def put32_def put64_at_def host_little)

lemma spec_pack: "request_spec f name l ss data \<Longrightarrow> f h m = pack_request h (opcode_of name) l ss (Ok data) m"
  by (induction rule: request_spec.induct) (simp_all add: pack_defs put_simps memcpy_from_def context_info_stores_def Let_def)

lemma if_in: "x \<in> A \<Longrightarrow> y \<in> A \<Longrightarrow> (if b then x else y) \<in> A" by simp

lemma spec_name: "request_spec f name l ss data \<Longrightarrow> name \<in> fst ` set CONTROL_PROTOCOL__OPCODES_VARIABLES"
  unfolding set_map [symmetric] CONTROL_PROTOCOL__OPCODES_VARIABLES_def list.map fst_conv
  by (induction rule: request_spec.induct; intro if_in list.set_intros)

lemma context_info_fits:
  assumes "unat (ci_handle_count c) \<le> CONTROL_PROTOCOL__MAX_VDMA_CHANNELS_PER_ENGINE"
  shows "stores_ok CONTROL_PROTOCOL__context_switch_set_context_info_request_t (context_info_stores c)"
proof -
  have "sorted_wrt stores_apart (map (\<lambda>i. (x, 8 * i, u64_bytes (f i))) [0..<n])" for x f n
    by (auto simp: sorted_wrt_map sorted_wrt_iff_nth_less stores_apart_def)
  then show ?thesis using assms
    by (auto simp: stores_ok_def context_info_stores_def store_fits_def sorted_wrt_append stores_apart_def list_all_iff struct_defs length_defs nested_def)
qed

lemma spec_stores: "request_spec f name l ss data \<Longrightarrow> stores_ok l ss"
  by (induction rule: request_spec.induct; (erule context_info_fits)?)
    (simp_all add: stores_ok_def store_fits_def stores_apart_def struct_defs length_defs nested_def)

lemma opcode_of_table:
  assumes "name \<in> fst ` set CONTROL_PROTOCOL__OPCODES_VARIABLES"
  shows "unat (opcode_of name) < HAILO_CONTROL_OPCODE_COUNT" "fst (CONTROL_PROTOCOL__OPCODES_VARIABLES ! unat (opcode_of name)) = name"
proof -
  let ?P = "\<lambda>(x, _). x \<noteq> name" and ?T = CONTROL_PROTOCOL__OPCODES_VARIABLES
  have "\<exists>x \<in> set xs. \<not> P x \<Longrightarrow> length (takeWhile P xs) < length xs" for P and xs :: "(string \<times> bool \<times> CPU_ID_t) list"
    by (induction xs) auto
  moreover have "\<exists>x \<in> set ?T. \<not> ?P x" using assms by force
  ultimately have l: "length (takeWhile ?P ?T) < length ?T" .
  then have u: "unat (opcode_of name) = length (takeWhile ?P ?T)"
    using opcode_count by (simp add: opcode_of_def HAILO_CONTROL_OPCODE_COUNT_def unsigned_of_nat take_bit_nat_eq_self)
  show "unat (opcode_of name) < HAILO_CONTROL_OPCODE_COUNT" using l u by (simp add: HAILO_CONTROL_OPCODE_COUNT_def)
  show "fst (?T ! unat (opcode_of name)) = name" using nth_length_takeWhile [OF l] u by (simp add: case_prod_beta)
qed

lemma stored_member: "stored l base m (x, k, bs) \<Longrightarrow> store_fits l (x, k, bs) \<Longrightarrow> take (length bs) (drop k (member_bytes l base m x)) = bs"
  by (auto simp: stored_def store_fits_def member_bytes_def drop_take min_def add.commute [of k] add.assoc dest!: holds_take split: option.splits)

lemma pack_request_Ok:
  assumes "stores_ok l ss" "length m = sizeof_control_request" "sizeof l + length data \<le> unat CONTROL_PROTOCOL__MAX_CONTROL_LENGTH"
  obtains m' where "pack_request h opcode l ss (Ok data) m = Ok (4 + sizeof l + length data, m')" "length m' = length m" "take 4 m' = u32_bytes opcode"
    "\<forall>s \<in> set ss. stored l 4 m' s" "take (length data) (drop (4 + sizeof l) m') = data"
    "drop (4 + sizeof l + length data) m' = drop (4 + sizeof l + length data) m"
proof -
  have room: "4 + sizeof l + length data \<le> length m" using assms(2,3) by (simp add: sizeof_control_request_def CONTROL_PROTOCOL__MAX_CONTROL_LENGTH_def)
  have "store_fits CONTROL_PROTOCOL__request_t (put32 h ''opcode'' opcode)" "sizeof CONTROL_PROTOCOL__request_t = 1504"
    by (simp_all add: put_simps store_fits_def CONTROL_PROTOCOL__request_t_def sizeof_def CONTROL_PROTOCOL__MAX_CONTROL_LENGTH_def)
  then obtain m1 where m1: "store_member CONTROL_PROTOCOL__request_t 0 (put32 h ''opcode'' opcode) m = Ok m1" "length m1 = length m"
      "stored CONTROL_PROTOCOL__request_t 0 m1 (put32 h ''opcode'' opcode)" and m1_eq: "m1 = put_bytes 0 (u32_bytes opcode) m"
    using store_member_Ok [of CONTROL_PROTOCOL__request_t "put32 h ''opcode'' opcode" 0 m] assms(2)
    by (auto simp: store_member_def put_simps CONTROL_PROTOCOL__request_t_def sizeof_control_request_def split: if_splits)
  obtain m2 where m2: "store_members l 4 ss m1 = Ok m2" "length m2 = length m1" "\<forall>s \<in> set ss. stored l 4 m2 s"
      "\<And>j. j < 4 \<or> 4 + sizeof l \<le> j \<Longrightarrow> m2 ! j = m1 ! j"
    using store_members_Ok [OF assms(1), of 4 m1] room m1(2) by (metis (no_types, lifting) add_leD1)
  let ?n = "4 + sizeof l" and ?m = "put_bytes (4 + sizeof l) data m2"
  have fit: "?n + length data \<le> length m2" using room m1(2) m2(2) by simp
  have low: "?m ! j = m2 ! j" if "j < ?n" for j using that fit by (simp add: nth_put_bytes)
  have m1_nth: "m1 ! j = (if j < 4 then u32_bytes opcode ! j else m ! j)" for j using room by (simp add: m1_eq nth_put_bytes)
  show thesis
  proof (rule that [of ?m])
    show "pack_request h opcode l ss (Ok data) m = Ok (?n + length data, ?m)"
      using m1(1) m2(1) fit by (simp add: pack_request_def CONTROL_PROTOCOL__REQUEST_BASE_SIZE_def Let_def)
    show "length ?m = length m" using fit m1(2) m2(2) by simp
    show "take 4 ?m = u32_bytes opcode" using fit m2(4) m1_nth low by (auto simp: list_eq_iff_nth_eq)
    show "\<forall>s \<in> set ss. stored l 4 ?m s"
    proof
      fix s assume s: "s \<in> set ss"
      obtain x k bs where e: "s = (x, k, bs)" by (cases s)
      have "store_fits l s" "stored l 4 m2 s" using s assms(1) m2(3) by (auto simp: stores_ok_def list_all_iff)
      then show "stored l 4 ?m s"
        using fit by (auto simp: e stored_def store_fits_def dest!: member_inside intro!: holds_other split: option.splits)
    qed
    show "take (length data) (drop ?n ?m) = data" by (rule holds_take [OF holds_put_bytes [OF fit]])
    show "drop (?n + length data) ?m = drop (?n + length data) m"
      using fit m2(2,4) m1(2) m1_nth by (auto simp: list_eq_iff_nth_eq nth_put_bytes)
  qed
qed


lemma sample_write_spec:
  "request_spec (\<lambda>h. CONTROL_PROTOCOL__pack_write_memory_request h 0x12345678 [1, 2, 3] 3) ''HAILO_CONTROL_OPCODE_WRITE_MEMORY''
     CONTROL_PROTOCOL__write_memory_request_t [(''address'', 0, u32_bytes 0x12345678), (''data_length'', 0, u32_bytes 3)] (take (unat (3 :: u32)) [1, 2, 3])"
  by (rule request_spec.intros) simp




section \<open>Responses\<close>

text \<open>For every function that reads a response, its structure and the members that are converted.\<close>

inductive response_spec :: "(byte_order \<Rightarrow> u8 list \<Rightarrow> u8 list result) \<Rightarrow> layout \<Rightarrow> conversion list \<Rightarrow> bool" where
  "response_spec CONTROL_PROTOCOL__unpack_identify_response CONTROL_PROTOCOL_identify_response_t
       [Conv32 ''protocol_version'',
        Conv32 ''fw_version.firmware_major'',
        Conv32 ''fw_version.firmware_minor'',
        Conv32 ''fw_version.firmware_revision'',
        Conv32 ''logger_version'',
        Conv32 ''board_name_length'',
        Conv32 ''device_architecture'',
        Conv32 ''serial_number_length'',
        Conv32 ''part_number_length'',
        Conv32 ''product_name_length'']"
| "response_spec CONTROL_PROTOCOL__unpack_core_identify_response CONTROL_PROTOCOL__core_identify_response_t
       [Conv32 ''fw_version.firmware_major'',
        Conv32 ''fw_version.firmware_minor'',
        Conv32 ''fw_version.firmware_revision'']"
| "response_spec CONTROL_PROTOCOL__unpack_get_throttling_state_response CONTROL_PROTOCOL__get_throttling_state_response_t
       []"
| "response_spec CONTROL_PROTOCOL__unpack_get_overcurrent_state_response CONTROL_PROTOCOL__get_overcurrent_state_response_t
       []"
| "response_spec CONTROL_PROTOCOL__unpack_get_hw_consts_response CONTROL_PROTOCOL__get_hw_consts_response_t
       [Conv32 ''hw_consts.fifo_word_granularity_bytes'',
        Conv16 ''hw_consts.max_periph_buffers_per_frame'',
        Conv16 ''hw_consts.max_periph_bytes_per_buffer'',
        Conv16 ''hw_consts.max_acceptable_bytes_per_buffer'',
        Conv32 ''hw_consts.outbound_data_stream_size'',
        Conv32 ''hw_consts.default_initial_credit_size'']"
| "response_spec CONTROL_PROTOCOL__unpack_read_memory_response CONTROL_PROTOCOL__read_memory_response_t
       [Conv32 ''data_length'']"
| "response_spec CONTROL_PROTOCOL__unpack_config_stream_response CONTROL_PROTOCOL__config_stream_response_t
       []"
| "response_spec CONTROL_PROTOCOL__unpack_power_measurement_response CONTROL_PROTOCOL__power_measurement_response_t
       [Conv32 ''dvm'',
        Conv32 ''measurement_type'']"
| "response_spec CONTROL_PROTOCOL__unpack_set_power_measurement_response CONTROL_PROTOCOL__set_power_measurement_response_t
       [Conv32 ''dvm'',
        Conv32 ''measurement_type'']"
| "response_spec CONTROL_PROTOCOL__unpack_get_power_measurement_response CONTROL_PROTOCOL__get_power_measurement_response_t
       [Conv32 ''total_number_of_samples'']"
| "response_spec CONTROL_PROTOCOL__unpack_i2c_read_response CONTROL_PROTOCOL__i2c_read_response_t
       [Conv32 ''data_length'']"
| "response_spec CONTROL_PROTOCOL__unpack_get_chip_temperature_response CONTROL_PROTOCOL__get_chip_temperature_response_t
       [Conv16 ''info.sample_count'']"
| "response_spec CONTROL_PROTOCOL__unpack_examine_user_config_response CONTROL_PROTOCOL__examine_user_config_response_t
       [Conv32 ''version'',
        Conv32 ''entry_count'',
        Conv32 ''total_size'']"
| "response_spec CONTROL_PROTOCOL__unpack_read_user_config_response CONTROL_PROTOCOL__read_memory_response_t
       [Conv32 ''data_length'']"
| "response_spec CONTROL_PROTOCOL__unpack_read_board_config_response CONTROL_PROTOCOL__read_memory_response_t
       [Conv32 ''data_length'']"
| "response_spec CONTROL_PROTOCOL__unpack_latency_read_response CONTROL_PROTOCOL__latency_read_response_t
       [Conv32 ''inbound_to_outbound_latency_nsec'']"
| "response_spec CONTROL_PROTOCOL__unpack_sensor_get_config_response CONTROL_PROTOCOL__sensor_get_config_response_t
       [Conv32 ''data_length'']"
| "response_spec CONTROL_PROTOCOL__unpack_sensor_get_sections_info_response CONTROL_PROTOCOL__sensor_get_sections_info_response_t
       [Conv32 ''data_length'']"
| "response_spec CONTROL_PROTOCOL__unpack_idle_time_get_measurement_response CONTROL_PROTOCOL__idle_time_get_measurement_response_t
       [Conv64 ''idle_time_ns'']"
| "response_spec CONTROL_PROTOCOL__unpack_download_context_action_list_response CONTROL_PROTOCOL__download_context_action_list_response_t
       [Conv32 ''base_address'',
        Conv32 ''batch_counter'',
        Conv32 ''idle_time'',
        Conv32 ''action_list_length'']"
| "response_spec CONTROL_PROTOCOL__unpack_previous_system_state_response CONTROL_PROTOCOL__previous_system_state_response_t
       [Conv32 ''system_state'']"
| "response_spec CONTROL_PROTOCOL__unpack_get_context_switch_breakpoint_status_response CONTROL_PROTOCOL__get_context_switch_breakpoint_status_response_t
       []"
| "response_spec CONTROL_PROTOCOL__unpack_get_context_switch_main_header_response CONTROL_PROTOCOL__get_context_switch_main_header_response_t
       []"
| "response_spec CONTROL_PROTOCOL__unpack_get_extended_device_information_response CONTROL_PROTOCOL__get_extended_device_information_response_t
       [Conv32 ''neural_network_core_clock_rate'',
        Conv64 ''supported_features'',
        Conv32 ''boot_source'',
        Conv32 ''soc_id_length'',
        Conv32 ''eth_mac_length'',
        Conv32 ''fuse_info.die_wafer_info'',
        Conv32 ''pd_info_length'',
        Conv32 ''partial_clusters_layout_bitmap'']"
| "response_spec CONTROL_PROTOCOL__unpack_get_health_information_response CONTROL_PROTOCOL__get_health_information_response_t
       [Conv32 ''temperature_throttling_levels_length'',
        Conv32 ''orange_temperature_threshold'',
        Conv32 ''orange_hysteresis_temperature_threshold'',
        Conv32 ''red_temperature_threshold'',
        Conv32 ''red_hysteresis_temperature_threshold'',
        Conv32 ''requested_overcurrent_clock_freq'',
        Conv32 ''requested_temperature_clock_freq'']"
| "response_spec CONTROL_PROTOCOL__unpack_change_hw_infer_status_response CONTROL_PROTOCOL__change_hw_infer_status_response_t
       [Conv32 ''results.infer_cycles'']"

lemma spec_convert: "response_spec f l cs \<Longrightarrow> f h m = convert_members h l 0 cs m"
  by (induction rule: response_spec.induct) (simp_all add: unpack_defs)

lemma spec_conversions: "response_spec f l cs \<Longrightarrow> conversions_ok l cs"
  by (induction rule: response_spec.induct)
    (simp_all add: conversions_ok_def conversion_fits_def conversion_name_def struct_defs length_defs nested_def)



end
