(* ===== verification/Pcie_Requests.thy ===== *)
theory Pcie_Requests
  imports Control_Requests Pcie_Nnc
begin

text \<open>
  Firmware controls on their way through the driver: the context information that the library packs names descriptor lists by their
  handles, and the driver writes their bus addresses into the request before it goes to the device.
\<close>

section \<open>The translation table\<close>

lemma u64_at_cong: "(\<And>t. t < 8 \<Longrightarrow> a ! (i + t) = b ! (j + t)) \<Longrightarrow> u64_at a i = u64_at b j"
proof -
  assume a: "\<And>t. t < 8 \<Longrightarrow> a ! (i + t) = b ! (j + t)"
  show ?thesis using a [of 0] a [of 1] a [of 2] a [of 3] a [of 4] a [of 5] a [of 6] a [of 7]
    by (simp add: u64_at_def u32_at_def numeral_2_eq_2 numeral_3_eq_3 add.commute)
qed

lemma u64_at_holds: "holds m i (u64_bytes x) \<Longrightarrow> u64_at m i = x"
  using u64_at_cong [of m i "u64_bytes x" 0] at_bytes(3) by (simp add: holds_def)

definition table_end :: nat where "table_end = dma_addr_offset CONTROL_PROTOCOL__MAX_VDMA_CHANNELS_PER_ENGINE"

lemma translate_handles_exact:
  assumes "table_end \<le> length request" "i + n \<le> CONTROL_PROTOCOL__MAX_VDMA_CHANNELS_PER_ENGINE"
    and "\<And>k. i \<le> k \<Longrightarrow> k < i + n \<Longrightarrow> \<exists>p. hailo_vdma_find_descriptors_buffer (fc_descriptors_buffer_list context) bufs (u64_at request (handle_offset k)) = Ok (Some (p, d k))"
  shows "\<exists>request'. translate_handles n i context bufs request = (Ok (), request') \<and> length request' = length request \<and>
    (\<forall>k. i \<le> k \<longrightarrow> k < i + n \<longrightarrow> u64_at request' (dma_addr_offset k) = db_dma_address (d k)) \<and>
    (\<forall>j. j < dma_addr_offset i \<or> dma_addr_offset (i + n) \<le> j \<longrightarrow> request' ! j = request ! j)"
  using assms
proof (induction n arbitrary: i request)
  case (Suc n)
  let ?o = dma_addr_offset
  let ?r = "put_bytes (?o i) (u64_bytes (db_dma_address (d i))) request"
  have off: "?o (Suc k) = ?o k + 8" "handle_offset k + 8 \<le> ?o 0 \<longleftrightarrow> k < 32" "?o 0 \<le> ?o k" for k
    by (auto simp: dma_addr_offset_def handle_offset_def CONTROL_PROTOCOL__MAX_VDMA_CHANNELS_PER_ENGINE_def)
  have mono: "?o a \<le> ?o b \<longleftrightarrow> a \<le> b" for a b by (simp add: dma_addr_offset_def)
  have fit: "?o i + length (u64_bytes (db_dma_address (d i))) \<le> length request"
    using Suc.prems(1,2) mono [of "Suc i" CONTROL_PROTOCOL__MAX_VDMA_CHANNELS_PER_ENGINE] by (simp add: table_end_def off(1))
  have nth: "?r ! j = request ! j" if "j < ?o i \<or> ?o (Suc i) \<le> j" for j using that fit by (auto simp: nth_put_bytes off(1))
  have h: "u64_at ?r (handle_offset k) = u64_at request (handle_offset k)" if "k < i + Suc n" for k
  proof (rule u64_at_cong, rule nth)
    fix t :: nat assume "t < 8"
    then show "handle_offset k + t < ?o i \<or> ?o (Suc i) \<le> handle_offset k + t"
      using that Suc.prems(2) off(2) [of k] off(3) [of i] by (simp add: CONTROL_PROTOCOL__MAX_VDMA_CHANNELS_PER_ENGINE_def)
  qed
  have "\<exists>request'. translate_handles n (Suc i) context bufs ?r = (Ok (), request') \<and> length request' = length ?r \<and>
    (\<forall>k. Suc i \<le> k \<longrightarrow> k < Suc i + n \<longrightarrow> u64_at request' (?o k) = db_dma_address (d k)) \<and>
    (\<forall>j. j < ?o (Suc i) \<or> ?o (Suc i + n) \<le> j \<longrightarrow> request' ! j = ?r ! j)"
    using Suc.prems fit h by (intro Suc.IH) auto
  then obtain r where r: "translate_handles n (Suc i) context bufs ?r = (Ok (), r)" "length r = length request"
      "\<And>k. Suc i \<le> k \<Longrightarrow> k < Suc i + n \<Longrightarrow> u64_at r (?o k) = db_dma_address (d k)" "\<And>j. j < ?o (Suc i) \<or> ?o (Suc i + n) \<le> j \<Longrightarrow> r ! j = ?r ! j"
    using fit by auto
  have "u64_at r (?o i) = u64_at ?r (?o i)" by (rule u64_at_cong) (use r(4) off(1) in simp)
  then have i: "u64_at r (?o i) = db_dma_address (d i)" using holds_put_bytes [OF fit] u64_at_holds by metis
  obtain p where "hailo_vdma_find_descriptors_buffer (fc_descriptors_buffer_list context) bufs (u64_at request (handle_offset i)) = Ok (Some (p, d i))"
    using Suc.prems(3) [of i] by auto
  then have "translate_handles (Suc n) i context bufs request = (Ok (), r)" using r(1) by simp
  moreover have "u64_at r (?o k) = db_dma_address (d k)" if "i \<le> k" "k < i + Suc n" for k
    using that i r(3) [of k] by (cases "k = i") auto
  moreover have "r ! j = request ! j" if "j < ?o i \<or> ?o (i + Suc n) \<le> j" for j
    using that r(4) [of j] nth [of j] mono [of "Suc i" "Suc (i + n)"] off(1) [of i] by auto
  ultimately show ?case using r(2) by auto
qed simp

text \<open>C12: the context information on its way to the device: when the library packs it and the driver knows every descriptor list that it
  names, the driver accepts the request and puts at each place of the table the bus address of the list with the handle at the same
  place, whatever address the library had written there; nothing else of the request changes - the handles, the flags and the
  network data reach the device as they were packed.\<close>

theorem context_info_delivered:
  assumes "unat (ci_handle_count c) \<le> CONTROL_PROTOCOL__MAX_VDMA_CHANNELS_PER_ENGINE" "unat (ci_handle_count c) \<le> length (ci_handles c)"
      "unat (ci_handle_count c) \<le> length (ci_dma_addrs c)" "unat (ci_context_network_data_length c) \<le> length (ci_context_network_data c)"
    and "sizeof CONTROL_PROTOCOL__context_switch_set_context_info_request_t + unat (ci_context_network_data_length c) \<le> unat CONTROL_PROTOCOL__MAX_CONTROL_LENGTH"
    and "length m = sizeof_control_request"
    and "\<And>i. i < unat (ci_handle_count c) \<Longrightarrow> \<exists>p. hailo_vdma_find_descriptors_buffer (fc_descriptors_buffer_list context) bufs (ci_handles c ! i) = Ok (Some (p, d i))"
  shows "\<exists>n m1 m2. CONTROL_PROTOCOL__pack_context_switch_set_context_info_request Little_endian c m = Ok (n, m1) \<and>
    hailo_fw_control_preprocess context bufs m1 = (Ok (), m2) \<and> length m2 = length m \<and>
    (\<forall>i < unat (ci_handle_count c). u64_at m2 (dma_addr_offset i) = db_dma_address (d i) \<and> u64_at m2 (handle_offset i) = ci_handles c ! i) \<and>
    (\<forall>j. j < dma_addr_offset 0 \<or> dma_addr_offset (unat (ci_handle_count c)) \<le> j \<longrightarrow> m2 ! j = m1 ! j)"
proof -
  let ?L = CONTROL_PROTOCOL__context_switch_set_context_info_request_t and ?n = "unat (ci_handle_count c)"
  let ?data = "take (unat (ci_context_network_data_length c)) (ci_context_network_data c)"
  have spec: "request_spec (\<lambda>h. CONTROL_PROTOCOL__pack_context_switch_set_context_info_request h c)
      ''HAILO_CONTROL_OPCODE_CONTEXT_SWITCH_SET_CONTEXT_INFO'' ?L (context_info_stores c) ?data"
    using assms(1-4) by (intro request_spec.intros)
  have room: "sizeof ?L + length ?data \<le> unat CONTROL_PROTOCOL__MAX_CONTROL_LENGTH" using assms(4,5) by (simp add: min_def)
  obtain m1 where m1: "pack_request Little_endian (opcode_of ''HAILO_CONTROL_OPCODE_CONTEXT_SWITCH_SET_CONTEXT_INFO'') ?L (context_info_stores c) (Ok ?data) m =
        Ok (4 + sizeof ?L + length ?data, m1)" "length m1 = length m"
      "take 4 m1 = u32_bytes (opcode_of ''HAILO_CONTROL_OPCODE_CONTEXT_SWITCH_SET_CONTEXT_INFO'')" "\<forall>s \<in> set (context_info_stores c). stored ?L 4 m1 s"
    using pack_request_Ok [OF spec_stores [OF spec] assms(6) room, of Little_endian] by metis
  have m: "member ?L ''translation_table.handle_count'' = Some (0, 1)" "member ?L ''translation_table.handles'' = Some (1, 256)"
    by (simp_all add: struct_defs length_defs nested_def)
  have "stored ?L 4 m1 (''translation_table.handle_count'', 0, [ci_handle_count c])" using m1(4) by (simp add: context_info_stores_def)
  then have count: "m1 ! handle_count_offset = ci_handle_count c" by (simp add: stored_def m holds_def handle_count_offset_def)
  have handles: "u64_at m1 (handle_offset i) = ci_handles c ! i" if "i < ?n" for i
  proof -
    have "(''translation_table.handles'', 8 * i, u64_bytes (ci_handles c ! i)) \<in> set (context_info_stores c)" using that by (simp add: context_info_stores_def)
    then have "stored ?L 4 m1 (''translation_table.handles'', 8 * i, u64_bytes (ci_handles c ! i))" using m1(4) by blast
    then show ?thesis using u64_at_holds by (simp add: stored_def m handle_offset_def)
  qed
  have "opcode_of ''HAILO_CONTROL_OPCODE_CONTEXT_SWITCH_SET_CONTEXT_INFO'' = 33" by (simp add: opcode_of_def CONTROL_PROTOCOL__OPCODES_VARIABLES_def)
  moreover have tk: "u32_at m1 0 = u32_at (take 4 m1) 0" by (simp add: u32_at_def)
  ultimately have op: "u32_at m1 0 = HAILO_CONTROL_OPCODE_CONTEXT_SWITCH_SET_CONTEXT_INFO"
    using at_bytes(2) [of 33] by (simp add: tk m1(3) HAILO_CONTROL_OPCODE_CONTEXT_SWITCH_SET_CONTEXT_INFO_def)
  have "table_end \<le> length m1" using m1(2) assms(6)
    by (simp add: table_end_def dma_addr_offset_def CONTROL_PROTOCOL__MAX_VDMA_CHANNELS_PER_ENGINE_def sizeof_control_request_def)
  then obtain m2 where m2: "translate_handles ?n 0 context bufs m1 = (Ok (), m2)" "length m2 = length m1"
      "\<forall>k. 0 \<le> k \<longrightarrow> k < 0 + ?n \<longrightarrow> u64_at m2 (dma_addr_offset k) = db_dma_address (d k)"
      "\<forall>j. j < dma_addr_offset 0 \<or> dma_addr_offset (0 + ?n) \<le> j \<longrightarrow> m2 ! j = m1 ! j"
    using translate_handles_exact [of m1 0 ?n "context" bufs d] assms(1,7) handles by fastforce
  have "hailo_fw_control_preprocess context bufs m1 = (Ok (), m2)"
    using op count assms(1) m2(1) by (simp add: hailo_fw_control_preprocess_def Let_def)
  moreover have "u64_at m2 (handle_offset i) = ci_handles c ! i" if "i < ?n" for i
  proof -
    have "u64_at m2 (handle_offset i) = u64_at m1 (handle_offset i)"
      by (rule u64_at_cong) (use m2(4) that assms(1) in \<open>simp add: handle_offset_def dma_addr_offset_def CONTROL_PROTOCOL__MAX_VDMA_CHANNELS_PER_ENGINE_def\<close>)
    then show ?thesis using handles that by simp
  qed
  ultimately show ?thesis using m1(1,2) m2(2-4) spec_pack [OF spec, of Little_endian m] by auto
qed

text \<open>A sample: one descriptor list with handle 5, and a chunk of four bytes that names it.\<close>

definition sample_chunk :: CONTROL_PROTOCOL__context_switch_context_info_chunk_t where
  "sample_chunk = \<lparr> ci_handle_count = 1, ci_handles = 5 # replicate 31 0, ci_dma_addrs = replicate 32 0, ci_is_first_chunk_per_context = True,
     ci_is_last_chunk_per_context = True, ci_context_type = 0, ci_context_network_data_length = 4, ci_context_network_data = [1, 2, 3, 4] \<rparr>"

definition sample_desc_buffer :: hailo_descriptors_list_buffer where
  "sample_desc_buffer = \<lparr> db_handle = 5, db_kernel_address = 0, db_dma_address = 0x40000, db_buffer_size = 64 \<rparr>"

definition sample_file :: hailo_vdma_file_context where
  "sample_file = \<lparr> fc_last_vdma_user_buffer_handle = 0, fc_mapped_user_buffer_list = [], fc_last_vdma_handle = 5, fc_descriptors_buffer_list = [1],
     fc_vdma_low_memory_buffer_list = [], fc_continuous_buffer_list = [], fc_enabled_channels_bitmap = [] \<rparr>"

theorem context_info_delivered_witness:
  "\<exists>n m1 m2. CONTROL_PROTOCOL__pack_context_switch_set_context_info_request Little_endian sample_chunk (replicate 1504 0) = Ok (n, m1) \<and>
     hailo_fw_control_preprocess sample_file [1 \<mapsto> sample_desc_buffer] m1 = (Ok (), m2) \<and> u64_at m2 (dma_addr_offset 0) = 0x40000"
proof -
  have "sizeof CONTROL_PROTOCOL__context_switch_set_context_info_request_t = 520" by (simp add: struct_defs length_defs nested_def sizeof_def)
  then have "\<exists>n m1 m2. CONTROL_PROTOCOL__pack_context_switch_set_context_info_request Little_endian sample_chunk (replicate 1504 0) = Ok (n, m1) \<and>
    hailo_fw_control_preprocess sample_file [1 \<mapsto> sample_desc_buffer] m1 = (Ok (), m2) \<and> length m2 = length (replicate 1504 (0 :: u8)) \<and>
    (\<forall>i < unat (ci_handle_count sample_chunk). u64_at m2 (dma_addr_offset i) = db_dma_address sample_desc_buffer \<and> u64_at m2 (handle_offset i) = ci_handles sample_chunk ! i) \<and>
    (\<forall>j. j < dma_addr_offset 0 \<or> dma_addr_offset (unat (ci_handle_count sample_chunk)) \<le> j \<longrightarrow> m2 ! j = m1 ! j)"
    by (intro context_info_delivered)
      (simp_all add: sample_chunk_def sample_file_def sample_desc_buffer_def sizeof_control_request_def length_defs CONTROL_PROTOCOL__MAX_CONTROL_LENGTH_def
        hailo_vdma_find_descriptors_buffer_def list_find_handle_def)
  then obtain n m1 m2 where "CONTROL_PROTOCOL__pack_context_switch_set_context_info_request Little_endian sample_chunk (replicate 1504 0) = Ok (n, m1)"
      "hailo_fw_control_preprocess sample_file [1 \<mapsto> sample_desc_buffer] m1 = (Ok (), m2)" "u64_at m2 (dma_addr_offset 0) = db_dma_address sample_desc_buffer"
    by (auto simp: sample_chunk_def)
  then show ?thesis by (auto simp: sample_desc_buffer_def)
qed

end
