(* ===== verification/Integrated_Nnc.thy ===== *)
theory Integrated_Nnc
  imports Resource
begin

text \<open>
  Memory of the integrated device (\<open>src/linux/utils/integrated_nnc_utils.c\<close>): the resources of a platform device and the shared
  memory that its device tree names. The platform bus is a parameter; of the kernel's state only the references to the nodes of
  the device tree count, because the code takes and drops them itself (the mappings belong to the device and end with it).
\<close>

section \<open>The platform\<close>

type_synonym node = nat

record platform_resource =
  pres_start :: u64
  pres_end :: u64

definition resource_size :: "platform_resource \<Rightarrow> u64" where
  "resource_size r = pres_end r - pres_start r + 1"

text \<open>\<open>plat_ioremap\<close> gives 0 when it cannot map, as \<open>devm_ioremap\<close> does.\<close>

record platform =
  plat_resource_byname :: "string \<Rightarrow> platform_resource option"
  plat_ioremap_resource :: "platform_resource \<Rightarrow> u64 result"
  plat_ioremap :: "u64 \<Rightarrow> u64 \<Rightarrow> u64"
  plat_shmem_phandle :: "int \<Rightarrow> node option"
  plat_address_to_resource :: "node \<Rightarrow> platform_resource result"

text \<open>References to nodes; dropping one that is not held is a use of freed memory.\<close>

type_synonym node_refs = "node \<Rightarrow> nat"

definition of_node_get :: "node \<Rightarrow> node_refs \<Rightarrow> node_refs" where
  "of_node_get n refs = refs(n := refs n + 1)"

definition of_node_put :: "node \<Rightarrow> node_refs \<Rightarrow> node_refs result" where
  "of_node_put n refs = (if refs n = 0 then Fault Use_after_free else Ok (refs(n := refs n - 1)))"

definition EADDRNOTAVAIL :: errno where "EADDRNOTAVAIL = ECODE 99"

section \<open>Operations\<close>

definition hailo_ioremap_resource :: "platform \<Rightarrow> string \<Rightarrow> hailo_resource \<Rightarrow> unit result \<times> hailo_resource" where
  "hailo_ioremap_resource P name resource =
     (case plat_resource_byname P name of
        None \<Rightarrow> (Err ENOENT, resource)
      | Some platform_resource \<Rightarrow>
          (case plat_ioremap_resource P platform_resource of
             Ok address \<Rightarrow> (Ok (), \<lparr> res_address = address, res_size = resource_size platform_resource \<rparr>)
           | Err e \<Rightarrow> (Err e, resource)
           | Fault f \<Rightarrow> (Fault f, resource)))"

definition hailo_ioremap_shmem ::
    "platform \<Rightarrow> int \<Rightarrow> hailo_resource \<Rightarrow> node_refs \<Rightarrow> unit result \<times> hailo_resource \<times> node_refs" where
  "hailo_ioremap_shmem P index resource refs =
     (case plat_shmem_phandle P index of
        None \<Rightarrow> (Err ENODEV, resource, refs)
      | Some shmem \<Rightarrow>
          let refs = of_node_get shmem refs; ret = plat_address_to_resource P shmem
          in case of_node_put shmem refs of
               Fault f \<Rightarrow> (Fault f, resource, refs)
             | Err e \<Rightarrow> (Err e, resource, refs)
             | Ok refs \<Rightarrow>
                 (case ret of
                    Err e \<Rightarrow> (Err e, resource, refs)
                  | Fault f \<Rightarrow> (Fault f, resource, refs)
                  | Ok res \<Rightarrow>
                      let remap_ptr = plat_ioremap P (pres_start res) (resource_size res)
                      in if remap_ptr = 0 then (Err EADDRNOTAVAIL, resource, refs)
                         else (Ok (), \<lparr> res_address = remap_ptr, res_size = resource_size res \<rparr>, refs)))"

definition hailo_get_resource_physical_addr :: "platform \<Rightarrow> string \<Rightarrow> u64 \<Rightarrow> unit result \<times> u64" where
  "hailo_get_resource_physical_addr P name address =
     (case plat_resource_byname P name of
        None \<Rightarrow> (Err ENOENT, address)
      | Some platform_resource \<Rightarrow> (Ok (), pres_start platform_resource))"

section \<open>Behaviour\<close>

lemma of_node_put_get: "of_node_put n (of_node_get n refs) = Ok refs"
  by (simp add: of_node_put_def of_node_get_def)

text \<open>The references are balanced on every path, and the resource changes only with success.\<close>

lemma ioremap_shmem_refs: "snd (snd (hailo_ioremap_shmem P index resource refs)) = refs"
  by (auto simp: hailo_ioremap_shmem_def of_node_put_get Let_def split: option.splits result.splits)

lemma ioremap_shmem_error:
  "fst (hailo_ioremap_shmem P index resource refs) = Err e \<Longrightarrow> fst (snd (hailo_ioremap_shmem P index resource refs)) = resource"
  by (auto simp: hailo_ioremap_shmem_def of_node_put_get Let_def split: option.splits result.splits if_splits)

lemma ioremap_resource_error:
  "fst (hailo_ioremap_resource P name resource) = Err e \<Longrightarrow> snd (hailo_ioremap_resource P name resource) = resource"
  by (auto simp: hailo_ioremap_resource_def split: option.splits result.splits)

text \<open>A region that is mapped has the size of the platform's region: the accesses of \<open>Resource\<close> stay inside it.\<close>

lemma ioremap_shmem_success:
  assumes "hailo_ioremap_shmem P index resource refs = (Ok (), r, refs')"
  obtains shmem res where "plat_shmem_phandle P index = Some shmem" and "plat_address_to_resource P shmem = Ok res"
    and "res_size r = resource_size res" and "res_address r = plat_ioremap P (pres_start res) (res_size r)" and "res_address r \<noteq> 0"
  using assms by (auto simp: hailo_ioremap_shmem_def of_node_put_get Let_def split: option.splits result.splits if_splits)

end
