(* ===== verification/Sysfs.thy ===== *)
theory Sysfs
  imports Pcie_Common
begin

text \<open>
  The attributes of a board in sysfs (\<open>src/linux/pcie/src/sysfs.c\<close>): its location, the ids of its device and the kind of its
  accelerator, as the text that user space reads. \<open>sprintf\<close> is modelled for the formats the code uses.
\<close>

section \<open>Formats\<close>

definition hex_chars :: string where "hex_chars = ''0123456789abcdef''"

fun format_hex :: "nat \<Rightarrow> string" where
  "format_hex n = (if n < 16 then [hex_chars ! n] else format_hex (n div 16) @ [hex_chars ! (n mod 16)])"

declare format_hex.simps [simp del]

section \<open>Attributes\<close>

text \<open>The device of the board as the attributes see it.\<close>

record pci_ids =
  pci_device_name :: string
  pci_vendor :: u16
  pci_device :: u16

definition board_location_show :: "pci_ids \<Rightarrow> string" where
  "board_location_show pDev = pci_device_name pDev"

definition device_id_show :: "pci_ids \<Rightarrow> string" where
  "device_id_show pDev = format_hex (unat (pci_vendor pDev)) @ '':'' @ format_hex (unat (pci_device pDev))"

definition accelerator_type_show :: "hailo_pcie_resources \<Rightarrow> string" where
  "accelerator_type_show resources = (case pr_accelerator_type resources of
       HAILO_ACCELERATOR_TYPE_NNC \<Rightarrow> ''0''
     | HAILO_ACCELERATOR_TYPE_SOC \<Rightarrow> ''1'')"

section \<open>User space reads back what the driver prints\<close>

definition hex_digit :: "char \<Rightarrow> nat" where "hex_digit c = length (takeWhile (\<lambda>x. x \<noteq> c) hex_chars)"

definition read_hex :: "string \<Rightarrow> nat" where "read_hex s = foldl (\<lambda>v c. 16 * v + hex_digit c) 0 s"

definition read_device_id :: "string \<Rightarrow> nat \<times> nat" where
  "read_device_id s = (read_hex (takeWhile (\<lambda>c. c \<noteq> CHR '':'') s), read_hex (drop 1 (dropWhile (\<lambda>c. c \<noteq> CHR '':'') s)))"

lemma below_16: "(n :: nat) < 16 \<longleftrightarrow> n \<in> set [0 ..< 16]"
  by simp

lemma hex_digit_char: "n < 16 \<Longrightarrow> hex_digit (hex_chars ! n) = n"
proof -
  have "\<forall>n \<in> set [0 ..< 16]. hex_digit (hex_chars ! n) = n" by code_simp
  then show "n < 16 \<Longrightarrow> hex_digit (hex_chars ! n) = n" unfolding below_16 by blast
qed

lemma hex_char_not_colon: "n < 16 \<Longrightarrow> hex_chars ! n \<noteq> CHR '':''"
proof -
  have "\<forall>n \<in> set [0 ..< 16]. hex_chars ! n \<noteq> CHR '':''" by code_simp
  then show "n < 16 \<Longrightarrow> hex_chars ! n \<noteq> CHR '':''" unfolding below_16 by blast
qed

lemma read_format_hex: "read_hex (format_hex n) = n"
proof (induction n rule: format_hex.induct)
  case (1 n)
  show ?case
  proof (cases "n < 16")
    case True
    then show ?thesis by (subst format_hex.simps) (simp add: read_hex_def hex_digit_char)
  next
    case False
    then have "foldl (\<lambda>v c. 16 * v + hex_digit c) 0 (format_hex (n div 16)) = n div 16" using 1 by (simp add: read_hex_def)
    then show ?thesis using False by (subst format_hex.simps) (simp add: read_hex_def hex_digit_char)
  qed
qed

lemma format_hex_no_colon: "CHR '':'' \<notin> set (format_hex n)"
proof (induction n rule: format_hex.induct)
  case (1 n)
  then show ?case by (subst format_hex.simps) (auto dest: hex_char_not_colon [THEN not_sym] simp: hex_char_not_colon [THEN not_sym])
qed

lemma takeWhile_dropWhile_colon:
  "CHR '':'' \<notin> set s \<Longrightarrow> takeWhile (\<lambda>c. c \<noteq> CHR '':'') (s @ CHR '':'' # t) = s"
  "CHR '':'' \<notin> set s \<Longrightarrow> dropWhile (\<lambda>c. c \<noteq> CHR '':'') (s @ CHR '':'' # t) = CHR '':'' # t"
  by (induction s) auto

lemma read_device_id_show: "read_device_id (device_id_show pDev) = (unat (pci_vendor pDev), unat (pci_device pDev))"
  by (simp add: read_device_id_def device_id_show_def takeWhile_dropWhile_colon format_hex_no_colon read_format_hex)

lemma accelerator_type_show_inj:
  "accelerator_type_show r = accelerator_type_show r' \<longleftrightarrow> pr_accelerator_type r = pr_accelerator_type r'"
  by (cases "pr_accelerator_type r"; cases "pr_accelerator_type r'") (simp_all add: accelerator_type_show_def)

end
