(* ===== verification/Spec2Isabelle.thy ===== *)
theory Spec2Isabelle
  imports Vdma_Interrupts Vdma_Registers Pcie_Loading Pcie_Interrupts Vdma_Api Pcie_Lifecycle Pcie_Boot_Files Control_Copies Pcie_Requests
    Integrated_Nnc Sysfs
begin

text \<open>
  A verification library for the Hailo PCIe driver: a Linux kernel module that loads firmware into an accelerator, passes
  firmware controls, notifications and logs between user space and the device, and drives the vDMA engines that stream user
  buffers to and from it.

  \<^bold>\<open>The program and its theories.\<close> The driver has a part that only touches device registers and plain structures
  (\<open>src/common/\<close>) and a part that speaks to the kernel (\<open>src/linux/\<close>).

  \<^item> \<^verbatim>\<open>Hailo_Prelude\<close>: C integers as words, \<open>'a result\<close> (\<open>Ok\<close>, \<open>Err errno\<close>, \<open>Fault\<close>), checked arrays, lemmas on words and lists.
    \<^verbatim>\<open>Ioctl_Common\<close>: enumerations and constants of \<open>hailo_ioctl_common.h\<close>. \<^verbatim>\<open>Driver_Utils\<close>: \<open>driver_utils.h\<close>, \<open>utils.h\<close>.
  \<^item> \<^verbatim>\<open>Resource\<close>: \<open>hailo_resource.c\<close>, the accesses to memory-mapped registers, word by word over a parametric device; the
    buffer copies move exactly the bytes asked for and stop when the link is down.
  \<^item> \<^verbatim>\<open>Fw_Validation\<close>: \<open>fw_validation.c\<close>; the checks accept exactly the well-formed headers and never read outside the image.
    \<^verbatim>\<open>Fw_Operation\<close>: \<open>fw_operation.c\<close>, the notification buffer and the circular log.
  \<^item> \<^verbatim>\<open>Vdma_Descriptors\<close>: descriptor lists and their programming, from \<open>vdma_common.c\<close>. \<^verbatim>\<open>Vdma_Binding\<close> reads a run of
    descriptors as the bytes it addresses: binding refines the abstract map of buffer positions to bus addresses, and a batch
    is safe for arbitrary arguments.
  \<^item> \<^verbatim>\<open>Bounded_Queue\<close>: the contract of a bounded first-in first-out queue as a locale. \<^verbatim>\<open>Vdma_Rings\<close>: the rings of ongoing
    transfers and of timestamps, both interpretations of it.
  \<^item> \<^verbatim>\<open>Vdma_Channel\<close>, \<^verbatim>\<open>Vdma_Launch\<close>: launching a transfer, the invariant of a channel and its preservation.
    \<^verbatim>\<open>Vdma_Engine\<close>, \<^verbatim>\<open>Vdma_Completion\<close>, \<^verbatim>\<open>Vdma_Interrupts\<close>: an engine of 32 channels, its invariant from initialisation
    through enabling, disabling and collection of interrupts; exactly the transfers the hardware has processed are completed.
    \<^verbatim>\<open>Vdma_Registers\<close>: starting and stopping a channel through its registers.
  \<^item> \<^verbatim>\<open>Control_Protocol\<close>, \<^verbatim>\<open>Pcie_Boards\<close>: opcode table of firmware controls and board tables. \<^verbatim>\<open>Pcie_Common\<close>, \<^verbatim>\<open>Pcie_Firmware\<close>:
    \<open>pcie_common.c\<close> - interrupt sources, address translation, device memory, firmware controls, loading of a stage.
    \<^verbatim>\<open>Pcie_Memory\<close>: \<open>write_memory\<close> and \<open>read_memory\<close> on a device with a translation window. \<^verbatim>\<open>Pcie_Loading\<close>: which file decides the
    result of a stage, and the layout of the files. \<^verbatim>\<open>Pcie_Interrupts\<close>: interrupts and controls on documented registers.
  \<^item> \<^verbatim>\<open>Kernel_Interface\<close>: the kernel as a parameter, the history of calls, the ledger of resources. \<^verbatim>\<open>Handle_Table\<close>: lists of
    structures found by handle, as a locale with its implementation by intrusive lists.
  \<^item> \<^verbatim>\<open>Vdma_Memory\<close>: \<open>linux/vdma/memory.c\<close>. \<^verbatim>\<open>Vdma_Controller\<close>: \<open>linux/vdma/vdma.c\<close>. \<^verbatim>\<open>Vdma_Ioctl\<close>: \<open>linux/vdma/ioctl.c\<close>, every
    request and the dispatcher.
  \<^item> \<^verbatim>\<open>Vdma_Ownership\<close>: what each operation of \<open>memory.c\<close> acquires and releases on every path. \<^verbatim>\<open>Vdma_Files\<close>, \<^verbatim>\<open>Vdma_Requests\<close>:
    the invariant of one open file and its preservation by every request. \<^verbatim>\<open>Vdma_Session\<close>: any interleaving of opens,
    requests, interrupts and closes as a step relation. \<^verbatim>\<open>Vdma_Api\<close>: what user space can rely on.

  \<^item> \<^verbatim>\<open>Pcie_Board\<close>: the state of a board, which extends the state of the vDMA so that the vDMA requests work on it as they
    are; contexts of open files, completions, interrupts, power, BARs. \<^verbatim>\<open>Pcie_Nnc\<close>: \<open>nnc.c\<close>. \<^verbatim>\<open>Pcie_Soc\<close>: \<open>soc.c\<close>.
    \<^verbatim>\<open>Pcie_Fops\<close>: \<open>fops.c\<close>, the file operations and the interrupt service routine. \<^verbatim>\<open>Pcie_Boot\<close>: loading the firmware.
    \<^verbatim>\<open>Pcie_Driver\<close>: list of boards, probe, removal, suspend, resume, reset, and the module, from \<open>pcie.c\<close>. \<^verbatim>\<open>Sysfs\<close>: \<open>sysfs.c\<close>.
    \<^verbatim>\<open>Integrated_Nnc\<close>: \<open>integrated_nnc_utils.c\<close>. \<^verbatim>\<open>Pcie_Samples\<close>: a concrete machine for the witnesses.
  \<^item> \<^verbatim>\<open>Board_Logic\<close>: rules that take apart a function along its code, for the value and for the error. \<^verbatim>\<open>Vdma_Frame\<close>: what the
    vDMA leaves alone of the state that extends its own. \<^verbatim>\<open>Pcie_Probe\<close>: the resources of probe and removal on every path.
    \<^verbatim>\<open>Pcie_Access\<close>: the semaphore of the board and failing opens. \<^verbatim>\<open>Pcie_Session\<close>: the invariant of the driver under any sequence of
    file operations, interrupts and power events; it joins the ownership of the vDMA session with the state of the PCIe part.
    \<^verbatim>\<open>Pcie_Lifecycle\<close>: index of a board, probe and removal together, the module. \<^verbatim>\<open>Pcie_Boot_Files\<close>: layout of the boot files,
    termination of their loop, the interrupts that complete the boot.
  \<^item> \<^verbatim>\<open>Byte_Order\<close>: \<open>byte_order.h\<close> with the byte order of the host as a parameter, and a locale for the laws of an integer on the
    wire. \<^verbatim>\<open>Packed_Structs\<close>: packed structures as lists of members with sizes, stores to members and conversion in place.
    \<^verbatim>\<open>Control_Structs\<close>: the structures and enumerations of \<open>control_protocol.h\<close>. \<^verbatim>\<open>Control_Packing\<close>: its functions that pack requests
    and unpack responses. \<^verbatim>\<open>Control_Requests\<close>, \<^verbatim>\<open>Control_Copies\<close>: the messages as tables, independent of the stores that the code
    makes, and that every function builds the message of its table on hosts of both byte orders; requests that copy a caller's
    structure. \<^verbatim>\<open>Pcie_Requests\<close>: a packed request on its way through the driver to the device.

  \<^bold>\<open>How the code is modelled.\<close> The platform is 64-bit with pages of 4 KiB, the build is the one without \<open>HAILO_EMULATOR\<close>. Structures are records,
  integers keep their width. A function that can fail returns a result next to its state; what C leaves undefined or the kernel
  would die of - an index outside an array, a division by zero, a pointer to freed memory - is a \<open>Fault\<close>, so that freedom from
  faults is a statement of the theorems. The device is a type variable with two functions \<open>ioread32\<close> and \<open>iowrite32\<close>
  (record \<open>mmio\<close>); properties of the effect on the device state the documented behaviour of its registers as hypotheses, and
  their witnesses use a concrete device. Descriptor lists live in a store, because a channel keeps a pointer to its list; user
  structures live in heaps, and a list of the driver is a list of pointers.

  The kernel answers each call from the history of the calls made before it; failed calls are in the history too. The ledger of
  a history is the multiset of resources (structures, pages, mappings, coherent memory, files) it holds, and is undefined
  when something is released that is not held. The theorems on sessions assume of the kernel that
  it does not hand out a structure that is still allocated (\<open>kernel_fresh\<close>) and that a single coherent allocation is smaller than
  4 GiB (\<open>coherent_below_4G\<close>; the driver keeps that size in 32 bits).
  \<open>copy_from_user\<close> and \<open>copy_to_user\<close> are an optional argument and a boolean. \<open>wait_event\<close> is a parameter: while a request waits, other
  threads may change everything; in a session the request is a step at the moment it wakes up. The mutex of the board and the spin
  lock of the interrupt handler make each request and each interrupt one step.

  On a board the caller's side of an operation (arguments, results of user copies, signals, firmware files, what other threads
  do while it waits) is the record \<open>caller\<close>. A completion is a count, as in the kernel; a semaphore is a count too, and taking one
  that nobody will release is the fault \<open>Blocked\<close>. Labels of the code that undo the steps before them are \<open>on_error\<close>. One board
  is modelled in full; the others are entries of the global list, as pointers with indices. In the session of \<open>Pcie_Session\<close> each
  file operation or event is one step, a resume follows a suspend, and other threads keep the invariant while a call waits
  (\<open>board_env\<close>, \<open>lock_env\<close>); the handle counters have not wrapped around. A BAR that is mapped is not empty (\<open>iomap_nonempty\<close>), and
  \<open>is_dma_capable\<close> is the one for kernels from version 4.19 on. The driver's own host is little-endian.

  A packed structure is the list of its members with their sizes, in the order of the source, and a value of it a list of bytes;
  structures that a packing function copies whole are given as the bytes in the memory of the host. An opcode's number
  is its position in the table of opcodes. Lengths that the code trusts are bounded by hypotheses of the theorems.

  \<^bold>\<open>Loops and bounds.\<close> Loops over arrays recurse over the list or a counter. The loops of \<open>write_memory\<close> and \<open>read_memory\<close> are
  functions with a measure (the bytes left, each chunk being non-empty). Polling loops recurse on the number of retries that the source
  fixes (10000 polls for an idle channel, the firmware and boot waits), so these need no fuel. Draining and
  completing recurse on the number of transfers in the ring, which is what the loop conditions of the source count. Two loops of the
  PCIe part are given a number of rounds: the loop over a boot file \<open>file_rounds\<close>, proved to be enough in \<open>Pcie_Boot_Files\<close>, and the
  loop of the interrupt routine an argument, because it goes on for as long as the device reports interrupts; running out
  of rounds is the fault \<open>Blocked\<close>, and such an interrupt is not a step of a session.

  \<^bold>\<open>Where the code does not do what it should.\<close> Some theorems state this: a launch goes on after a failed bind and
  does not check the starting descriptor, the wait for idle is skipped for lists of 65536 descriptors, the file limits of one
  board overlap, and a descriptor list can be released while a channel still uses it. Ownership is therefore stated for
  handles and lists; leaks on error paths of \<open>hailo_vdma_buffer_map\<close> and \<open>prepare_sg_table\<close> appear as resources held by no file.

  A board whose device class cannot be created keeps the semaphore of the list of boards; the character device can outlive the
  module; a removal can read a board that the last close has freed; the header of a network group is sent in the host's byte order.

  \<^bold>\<open>Not modelled.\<close> \<open>compact.h\<close> and the log macros wrap kernel interfaces of different versions: the kernel parameter
  stands for them. Enumerations of \<open>control_protocol.h\<close> that no function uses have no code in the driver; \<open>md5.h\<close>, \<open>stdfloat.h\<close>,
  \<open>type_utils.h\<close> and \<open>sensor_config_exports.h\<close> only declare types and sizes. The build with \<open>HAILO_EMULATOR\<close> (other waiting times) and
  kernels before version 4.19 are left out. Several boards probed at the same time appear only in the list of boards. Sleeps, log messages
  and memory barriers have no state here.
\<close>

end
